(* ===== verification/Prelude.thy ===== *)
theory Prelude
  imports Main "HOL-Library.Word"
begin

text \<open>
  Shared vocabulary of the development.

  \<^item> Rust's \<open>Result\<close> is a sum, \<open>Inl\<close> the error and \<open>Inr\<close> the value; \<open>?\<close> is \<open>res_bind\<close>,
    \<open>ok_or\<close>, \<open>map_err\<close> and \<open>try_for_each\<close> have the meaning of the standard library's functions.
  \<^item> A \<open>String\<close> is the list of its UTF-8 bytes; \<open>is_utf8\<close> is the check of \<open>String::from_utf8\<close>;
    \<open>split_on\<close> is \<open>str::split\<close> on one character.
  \<^item> \<open>json\<close> is \<open>serde_json::Value\<close>; an object is the list of its entries, numbers keep their text.
  \<^item> Collections: \<open>res_simps\<close> (results), \<open>thread_simps\<close> (thread decorators),
    \<open>sm_simps\<close> (protocol state machines).
\<close>

named_theorems res_simps
named_theorems thread_simps
named_theorems sm_simps

type_synonym ('e, 'a) result = "'e + 'a"

definition res_bind :: "('e, 'a) result \<Rightarrow> ('a \<Rightarrow> ('e, 'b) result) \<Rightarrow> ('e, 'b) result" where
  "res_bind r f = (case r of Inl e \<Rightarrow> Inl e | Inr a \<Rightarrow> f a)"

definition ok_or :: "'a option \<Rightarrow> 'e \<Rightarrow> ('e, 'a) result" where
  "ok_or x e = (case x of None \<Rightarrow> Inl e | Some a \<Rightarrow> Inr a)"

definition map_err :: "('e \<Rightarrow> 'f) \<Rightarrow> ('e, 'a) result \<Rightarrow> ('f, 'a) result" where
  "map_err f r = (case r of Inl e \<Rightarrow> Inl (f e) | Inr a \<Rightarrow> Inr a)"

definition is_ok :: "('e, 'a) result \<Rightarrow> bool" where
  "is_ok r = (case r of Inl _ \<Rightarrow> False | Inr _ \<Rightarrow> True)"

fun try_for_each :: "('a \<Rightarrow> ('e, unit) result) \<Rightarrow> 'a list \<Rightarrow> ('e, unit) result" where
  "try_for_each f [] = Inr ()"
| "try_for_each f (x # xs) = res_bind (f x) (\<lambda>_. try_for_each f xs)"

fun try_map :: "('a \<Rightarrow> ('e, 'b) result) \<Rightarrow> 'a list \<Rightarrow> ('e, 'b list) result" where
  "try_map f [] = Inr []"
| "try_map f (x # xs) = res_bind (f x) (\<lambda>y. res_bind (try_map f xs) (\<lambda>ys. Inr (y # ys)))"

definition list_get :: "'a list \<Rightarrow> nat \<Rightarrow> 'a option" where
  "list_get xs i = (if i < length xs then Some (xs ! i) else None)"

definition unwrap_or :: "'a option \<Rightarrow> 'a \<Rightarrow> 'a" where
  "unwrap_or x d = (case x of None \<Rightarrow> d | Some a \<Rightarrow> a)"

datatype json =
    JNull
  | JBool bool
  | JNumber string
  | JString string
  | JArray "json list"
  | JObject "(string \<times> json) list"

fun json_get :: "json \<Rightarrow> string \<Rightarrow> json option" where
  "json_get (JObject kvs) k = map_of kvs k"
| "json_get _ k = None"

text \<open>\<open>value["key"]\<close> on a \<open>Value\<close> yields \<open>Null\<close> for a missing key.\<close>

definition json_index :: "json \<Rightarrow> string \<Rightarrow> json" where
  "json_index v k = unwrap_or (json_get v k) JNull"

fun split_on :: "char \<Rightarrow> string \<Rightarrow> string list" where
  "split_on c [] = [[]]"
| "split_on c (x # xs) =
     (if x = c then [] # split_on c xs
      else (case split_on c xs of [] \<Rightarrow> [[x]] | y # ys \<Rightarrow> (x # y) # ys))"

definition cont_byte :: "nat \<Rightarrow> bool" where
  "cont_byte b = (128 \<le> b \<and> b \<le> 191)"

fun utf8_bytes :: "nat list \<Rightarrow> bool" where
  "utf8_bytes [] = True"
| "utf8_bytes (a # r) =
    (if a < 128 then utf8_bytes r
     else if 194 \<le> a \<and> a \<le> 223 then
       (case r of b # r' \<Rightarrow> cont_byte b \<and> utf8_bytes r' | _ \<Rightarrow> False)
     else if 224 \<le> a \<and> a \<le> 239 then
       (case r of b # c # r' \<Rightarrow> cont_byte b \<and> cont_byte c \<and> (a = 224 \<longrightarrow> 160 \<le> b)
          \<and> (a = 237 \<longrightarrow> b \<le> 159) \<and> utf8_bytes r' | _ \<Rightarrow> False)
     else if 240 \<le> a \<and> a \<le> 244 then
       (case r of b # c # d # r' \<Rightarrow> cont_byte b \<and> cont_byte c \<and> cont_byte d
          \<and> (a = 240 \<longrightarrow> 144 \<le> b) \<and> (a = 244 \<longrightarrow> b \<le> 143) \<and> utf8_bytes r' | _ \<Rightarrow> False)
     else False)"

definition is_utf8 :: "string \<Rightarrow> bool" where
  "is_utf8 s = utf8_bytes (map of_char s)"

text \<open>Decimal rendering of an unsigned integer (\<open>to_string\<close>).\<close>

fun nat_to_string :: "nat \<Rightarrow> string" where
  "nat_to_string n =
     (if n < 10 then [char_of (48 + n)]
      else nat_to_string (n div 10) @ [char_of (48 + n mod 10)])"

declare nat_to_string.simps [simp del]

lemma res_bind_simps [simp, res_simps]:
  "res_bind (Inl e) f = Inl e"
  "res_bind (Inr a) f = f a"
  by (simp_all add: res_bind_def)

lemma res_bind_Inr_iff [res_simps]:
  "res_bind r f = Inr b \<longleftrightarrow> (\<exists>a. r = Inr a \<and> f a = Inr b)"
  by (cases r) auto

lemma res_bind_Inl_iff [res_simps]:
  "res_bind r f = Inl e \<longleftrightarrow> r = Inl e \<or> (\<exists>a. r = Inr a \<and> f a = Inl e)"
  by (cases r) auto

lemma res_bind_assoc:
  "res_bind (res_bind r f) g = res_bind r (\<lambda>a. res_bind (f a) g)"
  by (cases r) auto

lemma ok_or_simps [simp, res_simps]:
  "ok_or None e = Inl e"
  "ok_or (Some a) e = Inr a"
  by (simp_all add: ok_or_def)

lemma ok_or_Inr_iff [res_simps]: "ok_or x e = Inr a \<longleftrightarrow> x = Some a"
  by (cases x) auto

lemma map_err_simps [simp, res_simps]:
  "map_err f (Inl e) = Inl (f e)"
  "map_err f (Inr a) = Inr a"
  by (simp_all add: map_err_def)

lemma map_err_Inr_iff [res_simps]: "map_err f r = Inr a \<longleftrightarrow> r = Inr a"
  by (cases r) auto

lemma is_ok_simps [simp, res_simps]:
  "is_ok (Inl e) = False"
  "is_ok (Inr a) = True"
  by (simp_all add: is_ok_def)

lemma is_ok_iff: "is_ok r \<longleftrightarrow> (\<exists>a. r = Inr a)"
  by (cases r) auto

lemma try_for_each_Inr_iff [res_simps]:
  "try_for_each f xs = Inr u \<longleftrightarrow> (\<forall>x \<in> set xs. f x = Inr ())"
  by (induction xs) (auto simp: res_simps)

lemma try_map_Inr_iff [res_simps]:
  "try_map f xs = Inr ys \<longleftrightarrow> list_all2 (\<lambda>x y. f x = Inr y) xs ys"
proof (induction xs arbitrary: ys)
  case (Cons x xs)
  then show ?case by (cases ys) (auto simp: res_simps)
qed auto

lemma list_get_simps [simp]:
  "list_get [] i = None"
  "list_get (x # xs) 0 = Some x"
  "list_get (x # xs) (Suc i) = list_get xs i"
  by (simp_all add: list_get_def)

lemma list_get_SomeD: "list_get xs i = Some x \<Longrightarrow> x \<in> set xs"
  by (auto simp: list_get_def split: if_splits)

lemma unwrap_or_simps [simp]:
  "unwrap_or None d = d"
  "unwrap_or (Some a) d = a"
  by (simp_all add: unwrap_or_def)

lemma split_on_not_Nil [simp]: "split_on c s \<noteq> []"
  by (induction s) (auto split: list.splits)

lemma split_on_free: "c \<notin> set s \<Longrightarrow> split_on c s = [s]"
  by (induction s) auto

lemma split_on_append:
  "c \<notin> set s \<Longrightarrow> split_on c (s @ c # t) = s # split_on c t"
  by (induction s) auto

lemma utf8_ascii: "\<forall>b \<in> set bs. b < 128 \<Longrightarrow> utf8_bytes bs"
  by (induction bs) auto

lemma nat_to_string_digit:
  "c \<in> set (nat_to_string n) \<Longrightarrow> \<exists>d < (10::nat). c = char_of (48 + d)"
proof (induction n rule: nat_to_string.induct)
  case (1 n)
  then show ?case
    by (subst (asm) nat_to_string.simps)
       (auto split: if_splits intro: exI [of _ n] exI [of _ "n mod 10"])
qed

lemma nat_to_string_no_hash: "CHR ''#'' \<notin> set (nat_to_string n)"
proof
  assume "CHR ''#'' \<in> set (nat_to_string n)"
  then obtain d :: nat where d: "d < 10" "CHR ''#'' = char_of (48 + d)"
    using nat_to_string_digit by blast
  from d(2) have "of_char (CHR ''#'') = (of_char (char_of (48 + d)) :: nat)"
    by simp
  then have "(35::nat) = (48 + d) mod 256" by simp
  then show False using d(1) by simp
qed

definition digits_value :: "string \<Rightarrow> nat" where
  "digits_value s = foldl (\<lambda>v c. 10 * v + (of_char c - 48)) 0 s"

lemma digits_value_nat_to_string: "digits_value (nat_to_string n) = n"
proof (induction n rule: nat_to_string.induct)
  case (1 n)
  show ?case
  proof (cases "n < 10")
    case True
    then show ?thesis by (subst nat_to_string.simps) (simp add: digits_value_def)
  next
    case False
    then have "digits_value (nat_to_string (n div 10)) = n div 10" using 1 by simp
    then show ?thesis
      using False by (subst nat_to_string.simps) (simp add: digits_value_def)
  qed
qed

lemma nat_to_string_inject [simp]: "nat_to_string m = nat_to_string n \<longleftrightarrow> m = n"
  by (metis digits_value_nat_to_string)

definition is_digit :: "char \<Rightarrow> bool" where
  "is_digit c = (48 \<le> (of_char c :: nat) \<and> (of_char c :: nat) \<le> 57)"

text \<open>\<open>str::parse\<close> for the unsigned integers below \<open>bound\<close>: an optional plus sign, then digits.\<close>

definition parse_uint :: "nat \<Rightarrow> string \<Rightarrow> nat option" where
  "parse_uint bound s =
     (let d = (case s of c # r \<Rightarrow> if c = CHR ''+'' then r else s | [] \<Rightarrow> [])
      in if d \<noteq> [] \<and> list_all is_digit d \<and> digits_value d < bound then Some (digits_value d) else None)"

lemma nat_to_string_not_Nil [simp]: "nat_to_string n \<noteq> []"
  by (subst nat_to_string.simps) simp

lemma nat_to_string_digits: "list_all is_digit (nat_to_string n)"
proof (unfold list_all_iff, rule ballI)
  fix c assume "c \<in> set (nat_to_string n)"
  then obtain d :: nat where "d < 10" "c = char_of (48 + d)"
    using nat_to_string_digit by blast
  then show "is_digit c" by (simp add: is_digit_def)
qed

lemma parse_uint_nat_to_string:
  assumes "n < bound"
  shows "parse_uint bound (nat_to_string n) = Some n"
proof -
  obtain c r where cr: "nat_to_string n = c # r"
    by (meson list.exhaust nat_to_string_not_Nil)
  then have "is_digit c" using nat_to_string_digits [of n] by simp
  then have "c \<noteq> CHR ''+''" by (auto simp: is_digit_def)
  then have "parse_uint bound (nat_to_string n) =
      (if nat_to_string n \<noteq> [] \<and> list_all is_digit (nat_to_string n)
          \<and> digits_value (nat_to_string n) < bound
       then Some (digits_value (nat_to_string n)) else None)"
    by (simp add: parse_uint_def cr Let_def)
  then show ?thesis
    using assms by (simp add: nat_to_string_digits digits_value_nat_to_string)
qed

fun as_str :: "json \<Rightarrow> string option" where
  "as_str (JString s) = Some s"
| "as_str _ = None"

fun as_object :: "json \<Rightarrow> (string \<times> json) list option" where
  "as_object (JObject kvs) = Some kvs"
| "as_object _ = None"

fun as_bool :: "json \<Rightarrow> bool option" where
  "as_bool (JBool b) = Some b"
| "as_bool _ = None"

definition as_u64 :: "json \<Rightarrow> 64 word option" where
  "as_u64 v = (case v of JNumber t \<Rightarrow> map_option of_nat (parse_uint (2 ^ 64) t) | _ \<Rightarrow> None)"

definition as_u32 :: "json \<Rightarrow> 32 word option" where
  "as_u32 v = (case v of JNumber t \<Rightarrow> map_option of_nat (parse_uint (2 ^ 32) t) | _ \<Rightarrow> None)"

definition as_i32 :: "json \<Rightarrow> 32 word option" where
  "as_i32 v = (case v of
     JNumber t \<Rightarrow>
       (case t of
          c # r \<Rightarrow> if c = CHR ''-'' then map_option (\<lambda>n. - of_nat n) (parse_uint (2 ^ 31 + 1) r)
                   else map_option of_nat (parse_uint (2 ^ 31) t)
        | [] \<Rightarrow> None)
   | _ \<Rightarrow> None)"

definition as_i64 :: "json \<Rightarrow> 64 word option" where
  "as_i64 v = (case v of
     JNumber (c # d) \<Rightarrow>
       if c = CHR ''-'' then
         Option.bind (parse_uint (2 ^ 63 + 1) d) (\<lambda>n. if n = 0 then None else Some (of_int (- int n)))
       else map_option of_nat (parse_uint (2 ^ 63) (c # d))
   | _ \<Rightarrow> None)"

definition JU64 :: "64 word \<Rightarrow> json" where
  "JU64 w = JNumber (nat_to_string (unat w))"

definition JI32 :: "32 word \<Rightarrow> json" where
  "JI32 w = JNumber (if sint w < 0 then CHR ''-'' # nat_to_string (nat (- sint w)) else nat_to_string (nat (sint w)))"

definition JI64 :: "64 word \<Rightarrow> json" where
  "JI64 w = JNumber (if sint w < 0 then CHR ''-'' # nat_to_string (nat (- sint w)) else nat_to_string (nat (sint w)))"

lemma as_u64_JU64 [simp]: "as_u64 (JU64 w) = Some w"
proof -
  have "unat w < 2 ^ 64" using unsigned_less [of w, where ?'a = nat] by simp
  from parse_uint_nat_to_string [OF this] show ?thesis by (simp add: as_u64_def JU64_def)
qed

lemma as_i32_JI32 [simp]: "as_i32 (JI32 w) = Some w"
proof -
  have range: "- (2 ^ 31) \<le> sint w" "sint w < 2 ^ 31"
    using sint_greater_eq [of w] sint_less [of w] by simp_all
  obtain c r where cr: "nat_to_string (nat (sint w)) = c # r"
    by (meson list.exhaust nat_to_string_not_Nil)
  then have "is_digit c" using nat_to_string_digits [of "nat (sint w)"] by simp
  then have c: "c \<noteq> CHR ''-''" by (auto simp: is_digit_def)
  show ?thesis
  proof (cases "sint w < 0")
    case True
    then have "nat (- sint w) < 2 ^ 31 + 1" using range by simp
    moreover have "- of_nat (nat (- sint w)) = w" using True by simp
    ultimately show ?thesis using True by (simp add: as_i32_def JI32_def parse_uint_nat_to_string)
  next
    case False
    then have "nat (sint w) < 2 ^ 31" using range by simp
    then have "parse_uint (2 ^ 31) (nat_to_string (nat (sint w))) = Some (nat (sint w))"
      by (rule parse_uint_nat_to_string)
    moreover have "of_nat (nat (sint w)) = w" using False by simp
    ultimately show ?thesis using False c by (simp add: as_i32_def JI32_def cr)
  qed
qed

lemma as_i64_JI64: "as_i64 (JI64 w) = Some w"
proof -
  obtain c d where n: "nat_to_string (nat (sint w)) = c # d" by (cases "nat_to_string (nat (sint w))") auto
  then have "is_digit c" using nat_to_string_digits [of "nat (sint w)"] by simp
  then have c: "c \<noteq> CHR ''-''" by (auto simp: is_digit_def)
  have b: "- (2 ^ 63) \<le> sint w" "sint w < 2 ^ 63" using sint_greater_eq [of w] sint_less [of w] by simp_all
  have "parse_uint (2 ^ 63 + 1) (nat_to_string (nat (- sint w))) = Some (nat (- sint w))"
    using b by (intro parse_uint_nat_to_string) (simp add: nat_less_iff)
  moreover have "parse_uint (2 ^ 63) (nat_to_string (nat (sint w))) = Some (nat (sint w))" if "0 \<le> sint w"
    using b that by (intro parse_uint_nat_to_string) (simp add: nat_less_iff)
  ultimately show ?thesis
    using n c by (auto simp: as_i64_def JI64_def of_nat_nat)
qed

definition array_of :: "(json \<Rightarrow> 'a option) \<Rightarrow> json \<Rightarrow> 'a list option" where
  "array_of p v = (case v of JArray vs \<Rightarrow> those (map p vs) | _ \<Rightarrow> None)"

text \<open>An optional field: absent or null is \<open>None\<close>. A field with \<open>serde(default)\<close> may be absent.\<close>

definition opt_field :: "(json \<Rightarrow> 'a option) \<Rightarrow> json \<Rightarrow> string \<Rightarrow> 'a option option" where
  "opt_field p v k = (case json_get v k of None \<Rightarrow> Some None
     | Some x \<Rightarrow> (if x = JNull then Some None else map_option Some (p x)))"

text \<open>The JSON of an \<open>Option\<close>: \<open>None\<close> is null.\<close>

definition or_null :: "('a \<Rightarrow> json) \<Rightarrow> 'a option \<Rightarrow> json" where
  "or_null p x = (case x of None \<Rightarrow> JNull | Some a \<Rightarrow> p a)"

fun dict_insert :: "'k \<Rightarrow> 'v \<Rightarrow> ('k \<times> 'v) list \<Rightarrow> ('k \<times> 'v) list" where
  "dict_insert k v [] = [(k, v)]"
| "dict_insert k v ((k', v') # d) = (if k = k' then (k, v) # d else (k', v') # dict_insert k v d)"

lemma dict_insert_map_of: "map_of (dict_insert k v d) = (map_of d)(k \<mapsto> v)"
  by (induction d) auto

lemma dict_insert_set: "set (dict_insert k v d) \<subseteq> insert (k, v) (set d)"
  by (induction d) (auto split: if_splits)

lemma dict_insert_keys: "fst ` set (dict_insert k v d) = insert k (fst ` set d)"
proof (induction d)
  case (Cons x d)
  then show ?case by (cases x) (simp add: insert_commute)
qed simp

lemma dict_insert_in: "(k', v') \<in> set (dict_insert k v d) \<Longrightarrow> (k' = k \<and> v' = v) \<or> (k', v') \<in> set d"
  using dict_insert_set [of k v d] by auto

text \<open>Arithmetic on \<open>usize\<close> that the code does not guard: it wraps around at 64 bits.\<close>

definition usize_sub :: "nat \<Rightarrow> nat \<Rightarrow> nat" where
  "usize_sub a b = unat (of_nat a - of_nat b :: 64 word)"

definition usize_add :: "nat \<Rightarrow> nat \<Rightarrow> nat" where
  "usize_add a b = unat (of_nat a + of_nat b :: 64 word)"

end
