(* ===== verification/Errors.thy ===== *)
theory Errors
  imports Prelude
begin

text \<open>
  The error values of the crates: \<open>AriesVcxError\<close> (aries_vcx/src/errors/error.rs), \<open>DiddocError\<close>
  (diddoc/src/errors/error.rs) and \<open>SharedVcxError\<close> (shared_vcx/src/errors/error.rs), and the
  conversions between them that the question mark operator applies.

  A message is the text of the source's \<open>format!\<close> with every displayed argument (\<open>{}\<close>) filled in
  where the argument is a string, a number or an error of these types. A \<open>Debug\<close> rendering
  (\<open>{:?}\<close>) and the text of an error of a third-party crate are not computed: the placeholder stays
  in the message. No property below depends on such a text.
\<close>

datatype (plugins only: code) AriesVcxErrorKind =
    InvalidState | InvalidConfiguration | InvalidJson | InvalidOption | InvalidMessagePack
  | NotReady | IOError | LibindyInvalidStructure | InvalidLibindyParam | ActionNotSupported
  | InvalidInput | UnimplementedFeature | CredDefAlreadyCreated | RevDeltaNotFound
  | RevDeltaFailedToClear | CreateRevRegDef | InvalidRevocationDetails | InvalidRevocationEntry
  | InvalidRevocationTimestamp | RevRegDefNotFound | InvalidAttributesStructure | InvalidProof
  | InvalidSchema | InvalidProofCredentialData | InvalidProofRequest | ProofRejected
  | InvalidSchemaSeqNo | DuplicationSchema | UnknownSchemaRejection | InvalidGenesisTxnPath
  | CreatePoolConfig | PoolLedgerConnect | InvalidLedgerResponse | LedgerItemNotFound | NoPoolOpen
  | PostMessageFailed | WalletCreate | WalletAccessFailed | InvalidWalletHandle
  | DuplicationWallet | WalletRecordNotFound | DuplicationWalletRecord | WalletNotFound
  | WalletAlreadyOpen | DuplicationMasterSecret | DuplicationDid | LoggingError | EncodeError
  | UnknownError | InvalidDid | InvalidVerkey | InvalidNonce | InvalidUrl | SerializationError
  | NotBase58 | ParsingError | InvalidHttpResponse | InvalidMessages | VdrToolsError "32 word"
  | UrsaError | NoAgentInformation | InvalidMessageFormat

record vcx_error =
  vcx_msg :: string
  vcx_kind :: AriesVcxErrorKind

type_synonym 'a vcx_result = "(vcx_error, 'a) result"

definition AriesVcxError_from_msg :: "AriesVcxErrorKind \<Rightarrow> string \<Rightarrow> vcx_error" where
  "AriesVcxError_from_msg kind msg = \<lparr>vcx_msg = msg, vcx_kind = kind\<rparr>"

text \<open>\<open>source()\<close> is \<open>None\<close> for this type, so the loop over the causes writes nothing.\<close>

definition AriesVcxError_to_string :: "vcx_error \<Rightarrow> string" where
  "AriesVcxError_to_string e = ''Error: '' @ vcx_msg e @ ''\<newline>\<newline>''"

definition AriesVcxError_extend :: "vcx_error \<Rightarrow> string \<Rightarrow> vcx_error" where
  "AriesVcxError_extend e msg = e\<lparr>vcx_msg := msg\<rparr>"

definition AriesVcxError_map :: "vcx_error \<Rightarrow> AriesVcxErrorKind \<Rightarrow> string \<Rightarrow> vcx_error" where
  "AriesVcxError_map e kind msg = \<lparr>vcx_msg = msg, vcx_kind = kind\<rparr>"

datatype DiddocErrorKind =
    DD_InvalidState | DD_InvalidJson | DD_SerializationError | DD_InvalidUrl | DD_InvalidDid
  | DD_InvalidVerkey | DD_NotBase58

record diddoc_error =
  diddoc_msg :: string
  diddoc_kind :: DiddocErrorKind

type_synonym 'a diddoc_result = "(diddoc_error, 'a) result"

definition DiddocError_from_msg :: "DiddocErrorKind \<Rightarrow> string \<Rightarrow> diddoc_error" where
  "DiddocError_from_msg kind msg = \<lparr>diddoc_msg = msg, diddoc_kind = kind\<rparr>"

definition DiddocError_to_string :: "diddoc_error \<Rightarrow> string" where
  "DiddocError_to_string e = ''Error: '' @ diddoc_msg e @ ''\<newline>\<newline>''"

datatype SharedVcxErrorKind = SV_InvalidDid | SV_InvalidVerkey | SV_NotBase58

record shared_error =
  shared_msg :: string
  shared_kind :: SharedVcxErrorKind

definition SharedVcxError_from_msg :: "SharedVcxErrorKind \<Rightarrow> string \<Rightarrow> shared_error" where
  "SharedVcxError_from_msg kind msg = \<lparr>shared_msg = msg, shared_kind = kind\<rparr>"

definition SharedVcxError_to_string :: "shared_error \<Rightarrow> string" where
  "SharedVcxError_to_string e = ''Error: '' @ shared_msg e @ ''\<newline>\<newline>''"

fun DiddocErrorKind_from_shared :: "SharedVcxErrorKind \<Rightarrow> DiddocErrorKind" where
  "DiddocErrorKind_from_shared SV_InvalidDid = DD_InvalidDid"
| "DiddocErrorKind_from_shared SV_InvalidVerkey = DD_InvalidVerkey"
| "DiddocErrorKind_from_shared SV_NotBase58 = DD_NotBase58"

definition DiddocError_from_shared :: "shared_error \<Rightarrow> diddoc_error" where
  "DiddocError_from_shared e =
     DiddocError_from_msg (DiddocErrorKind_from_shared (shared_kind e)) (SharedVcxError_to_string e)"

fun AriesVcxErrorKind_from_diddoc :: "DiddocErrorKind \<Rightarrow> AriesVcxErrorKind" where
  "AriesVcxErrorKind_from_diddoc DD_InvalidState = InvalidState"
| "AriesVcxErrorKind_from_diddoc DD_InvalidJson = InvalidJson"
| "AriesVcxErrorKind_from_diddoc DD_InvalidDid = InvalidDid"
| "AriesVcxErrorKind_from_diddoc DD_InvalidVerkey = InvalidVerkey"
| "AriesVcxErrorKind_from_diddoc DD_InvalidUrl = InvalidUrl"
| "AriesVcxErrorKind_from_diddoc DD_NotBase58 = NotBase58"
| "AriesVcxErrorKind_from_diddoc DD_SerializationError = SerializationError"

definition AriesVcxError_from_diddoc :: "diddoc_error \<Rightarrow> vcx_error" where
  "AriesVcxError_from_diddoc e =
     AriesVcxError_from_msg (AriesVcxErrorKind_from_diddoc (diddoc_kind e)) (DiddocError_to_string e)"

lemma error_fields [simp]:
  "vcx_kind (AriesVcxError_from_msg k m) = k"
  "vcx_msg (AriesVcxError_from_msg k m) = m"
  "diddoc_kind (DiddocError_from_msg dk m) = dk"
  "shared_kind (SharedVcxError_from_msg sk m) = sk"
  by (simp_all add: AriesVcxError_from_msg_def DiddocError_from_msg_def
      SharedVcxError_from_msg_def)

end
