(* ===== verification/DidDoc.thy ===== *)
theory DidDoc
  imports Errors
begin

text \<open>
  The DID document of the connection protocol: diddoc/src/aries/diddoc.rs and service.rs,
  diddoc/src/w3c/model.rs, and \<open>validate_verkey\<close>/\<open>validate_did\<close> of shared_vcx/src/validation.

  \<open>bs58::decode\<close> is third-party: the functions that need it take it as the argument \<open>bs58\<close>, which
  yields the decoded bytes or the text of its error. A \<open>Url\<close> is its text.

  Shown: a document assembled with the setters, from valid keys and a non-empty DID, passes its
  own \<open>validate\<close>; \<open>recipient_keys\<close> and \<open>get_service\<close> read back exactly the keys that were set; a key
  reference resolves to the key it was built for; the routing keys are checked for well-formedness.
\<close>

type_synonym bs58_decode = "string \<Rightarrow> (string, string) result"

definition validate_verkey :: "bs58_decode \<Rightarrow> string \<Rightarrow> (shared_error, string) result" where
  "validate_verkey bs58 verkey =
     (case bs58 verkey of
        Inr x \<Rightarrow>
          if length x = 32 then Inr verkey
          else Inl (SharedVcxError_from_msg SV_InvalidVerkey
                 (''Invalid verkey length, expected 32 bytes, decoded '' @ nat_to_string (length x) @ '' bytes''))
      | Inl err \<Rightarrow>
          Inl (SharedVcxError_from_msg SV_NotBase58
                 (''Verkey is not valid base58, details: '' @ err)))"

definition CONTEXT :: string where
  "CONTEXT = ''https://w3id.org/did/v1''"

definition KEY_TYPE :: string where
  "KEY_TYPE = ''Ed25519VerificationKey2018''"

definition KEY_AUTHENTICATION_TYPE :: string where
  "KEY_AUTHENTICATION_TYPE = ''Ed25519SignatureAuthentication2018''"

definition SERVICE_SUFFIX :: string where
  "SERVICE_SUFFIX = ''indy''"

definition SERVICE_TYPE :: string where
  "SERVICE_TYPE = ''IndyAgent''"

record Ed25519PublicKey =
  pk_id :: string
  pk_type :: string
  pk_controller :: string
  pk_public_key_base_58 :: string

record Authentication =
  auth_type :: string
  auth_public_key :: string

record DdoKeyReference =
  keyref_did :: "string option"
  keyref_key_id :: string

record AriesService =
  svc_id :: string
  svc_type :: string
  svc_priority :: "32 word"
  svc_recipient_keys :: "string list"
  svc_routing_keys :: "string list"
  svc_service_endpoint :: string

definition AriesService_default :: AriesService where
  "AriesService_default =
     \<lparr>svc_id = ''did:example:123456789abcdefghi;'' @ SERVICE_SUFFIX, svc_type = SERVICE_TYPE,
      svc_priority = 0, svc_recipient_keys = [], svc_routing_keys = [],
      svc_service_endpoint = ''https://dummy.dummy/dummy''\<rparr>"

definition AriesService_create :: AriesService where
  "AriesService_create = AriesService_default"

definition AriesService_set_service_endpoint :: "AriesService \<Rightarrow> string \<Rightarrow> AriesService" where
  "AriesService_set_service_endpoint s u = s\<lparr>svc_service_endpoint := u\<rparr>"

definition AriesService_set_routing_keys :: "AriesService \<Rightarrow> string list \<Rightarrow> AriesService" where
  "AriesService_set_routing_keys s ks = s\<lparr>svc_routing_keys := ks\<rparr>"

definition AriesService_set_recipient_keys :: "AriesService \<Rightarrow> string list \<Rightarrow> AriesService" where
  "AriesService_set_recipient_keys s ks = s\<lparr>svc_recipient_keys := ks\<rparr>"

text \<open>The hand-written \<open>PartialEq\<close> compares the keys only.\<close>

definition AriesService_eq :: "AriesService \<Rightarrow> AriesService \<Rightarrow> bool" where
  "AriesService_eq a b =
     (svc_recipient_keys a = svc_recipient_keys b \<and> svc_routing_keys a = svc_routing_keys b)"

record AriesDidDoc =
  dd_context :: string
  dd_id :: string
  dd_public_key :: "Ed25519PublicKey list"
  dd_authentication :: "Authentication list"
  dd_service :: "AriesService list"

definition AriesDidDoc_default :: AriesDidDoc where
  "AriesDidDoc_default =
     \<lparr>dd_context = CONTEXT, dd_id = [], dd_public_key = [], dd_authentication = [],
      dd_service = [AriesService_default]\<rparr>"

definition AriesDidDoc_set_id :: "AriesDidDoc \<Rightarrow> string \<Rightarrow> AriesDidDoc" where
  "AriesDidDoc_set_id d i = d\<lparr>dd_id := i\<rparr>"

text \<open>\<open>service.get_mut(0).map(f)\<close>: the first service, if there is one.\<close>

definition with_first_service :: "(AriesService \<Rightarrow> AriesService) \<Rightarrow> AriesDidDoc \<Rightarrow> AriesDidDoc" where
  "with_first_service f d =
     (case dd_service d of [] \<Rightarrow> d | s # ss \<Rightarrow> d\<lparr>dd_service := f s # ss\<rparr>)"

definition AriesDidDoc_set_service_endpoint :: "AriesDidDoc \<Rightarrow> string \<Rightarrow> AriesDidDoc" where
  "AriesDidDoc_set_service_endpoint d u =
     with_first_service (\<lambda>s. s\<lparr>svc_service_endpoint := u\<rparr>) d"

definition AriesDidDoc_build_key_reference :: "string \<Rightarrow> string \<Rightarrow> string" where
  "AriesDidDoc_build_key_reference did i = did @ ''#'' @ i"

definition push_recipient_key :: "nat \<Rightarrow> string \<Rightarrow> AriesDidDoc \<Rightarrow> AriesDidDoc" where
  "push_recipient_key key_id key d =
     (let key_reference = AriesDidDoc_build_key_reference (dd_id d) (nat_to_string key_id);
          d1 = d\<lparr>dd_public_key := dd_public_key d @
                  [\<lparr>pk_id = key_reference, pk_type = KEY_TYPE, pk_controller = dd_id d,
                    pk_public_key_base_58 = key\<rparr>]\<rparr>;
          d2 = d1\<lparr>dd_authentication := dd_authentication d1 @
                  [\<lparr>auth_type = KEY_AUTHENTICATION_TYPE, auth_public_key = key_reference\<rparr>]\<rparr>
      in with_first_service (\<lambda>s. s\<lparr>svc_recipient_keys := svc_recipient_keys s @ [key]\<rparr>) d2)"

fun set_recipient_keys_from :: "nat \<Rightarrow> string list \<Rightarrow> AriesDidDoc \<Rightarrow> AriesDidDoc" where
  "set_recipient_keys_from key_id [] d = d"
| "set_recipient_keys_from key_id (k # ks) d =
     set_recipient_keys_from (key_id + 1) ks (push_recipient_key (key_id + 1) k d)"

definition AriesDidDoc_set_recipient_keys :: "AriesDidDoc \<Rightarrow> string list \<Rightarrow> AriesDidDoc" where
  "AriesDidDoc_set_recipient_keys d ks = set_recipient_keys_from 0 ks d"

definition AriesDidDoc_set_routing_keys :: "AriesDidDoc \<Rightarrow> string list \<Rightarrow> AriesDidDoc" where
  "AriesDidDoc_set_routing_keys d ks =
     fold (\<lambda>k. with_first_service (\<lambda>s. s\<lparr>svc_routing_keys := svc_routing_keys s @ [k]\<rparr>)) ks d"

definition AriesDidDoc_key_parts :: "string \<Rightarrow> string list" where
  "AriesDidDoc_key_parts key = split_on (CHR ''#'') key"

definition AriesDidDoc_parse_key_reference :: "string \<Rightarrow> DdoKeyReference diddoc_result" where
  "AriesDidDoc_parse_key_reference key_reference =
     (case AriesDidDoc_key_parts key_reference of
        [] \<Rightarrow> Inl (DiddocError_from_msg DD_InvalidJson
               ''DIDDoc validation failed: Invalid key reference: {:?}'')
      | [k] \<Rightarrow> Inr \<lparr>keyref_did = None, keyref_key_id = k\<rparr>
      | did # k # _ \<Rightarrow> Inr \<lparr>keyref_did = Some did, keyref_key_id = k\<rparr>)"

definition AriesDidDoc_find_key_by_reference ::
    "AriesDidDoc \<Rightarrow> DdoKeyReference \<Rightarrow> Ed25519PublicKey diddoc_result" where
  "AriesDidDoc_find_key_by_reference d key_ref =
     ok_or (find (\<lambda>k. case keyref_did key_ref of
                       None \<Rightarrow> pk_id k = keyref_key_id key_ref
                     | Some did \<Rightarrow> pk_id k = keyref_key_id key_ref
                                  \<or> pk_id k = did @ ''#'' @ keyref_key_id key_ref)
             (dd_public_key d))
       (DiddocError_from_msg DD_InvalidJson
          ''Failed to find entry in public_key by key reference: {:?}'')"

definition AriesDidDoc_find_key_by_value ::
    "AriesDidDoc \<Rightarrow> string \<Rightarrow> Ed25519PublicKey diddoc_result" where
  "AriesDidDoc_find_key_by_value d key =
     ok_or (find (\<lambda>k. pk_public_key_base_58 k = key) (dd_public_key d))
       (DiddocError_from_msg DD_InvalidJson
          (''Failed to find entry in public_key by key value: '' @ key))"

definition AriesDidDoc_validate_ed25519_key ::
    "bs58_decode \<Rightarrow> Ed25519PublicKey \<Rightarrow> unit diddoc_result" where
  "AriesDidDoc_validate_ed25519_key bs58 k =
     (if pk_type k \<noteq> KEY_TYPE then
        Inl (DiddocError_from_msg DD_InvalidJson
          ''DIDDoc validation failed: Unsupported PublicKey type: {:?}'')
      else res_bind (map_err DiddocError_from_shared
                      (validate_verkey bs58 (pk_public_key_base_58 k))) (\<lambda>_. Inr ()))"

definition AriesDidDoc_get_key ::
    "bs58_decode \<Rightarrow> AriesDidDoc \<Rightarrow> string \<Rightarrow> Ed25519PublicKey diddoc_result" where
  "AriesDidDoc_get_key bs58 d key_value_or_reference =
     res_bind
       (case validate_verkey bs58 key_value_or_reference of
          Inr key \<Rightarrow> AriesDidDoc_find_key_by_value d key
        | Inl _ \<Rightarrow> res_bind (AriesDidDoc_parse_key_reference key_value_or_reference)
                    (AriesDidDoc_find_key_by_reference d))
       (\<lambda>public_key. res_bind (AriesDidDoc_validate_ed25519_key bs58 public_key)
                        (\<lambda>_. Inr public_key))"

definition AriesDidDoc_is_authentication_key :: "AriesDidDoc \<Rightarrow> string \<Rightarrow> unit diddoc_result" where
  "AriesDidDoc_is_authentication_key d key =
     (if dd_authentication d = [] then Inr ()
      else res_bind
        (ok_or (find (\<lambda>a. auth_public_key a = key \<or>
                      (case AriesDidDoc_parse_key_reference (auth_public_key a) of
                         Inr r \<Rightarrow> keyref_key_id r = key
                       | Inl _ \<Rightarrow> False)) (dd_authentication d))
          (DiddocError_from_msg DD_InvalidJson
             ''DIDDoc validation failed: Cannot find Authentication record key: {:?}''))
        (\<lambda>a. if auth_type a \<noteq> KEY_AUTHENTICATION_TYPE \<and> auth_type a \<noteq> KEY_TYPE then
               Inl (DiddocError_from_msg DD_InvalidJson
                 ''DIDDoc validation failed: Unsupported Authentication type: {:?}'')
             else Inr ()))"

definition validate_service :: "bs58_decode \<Rightarrow> AriesDidDoc \<Rightarrow> AriesService \<Rightarrow> unit diddoc_result" where
  "validate_service bs58 d s =
     res_bind
       (try_for_each (\<lambda>e. res_bind (AriesDidDoc_get_key bs58 d e)
                            (\<lambda>k. AriesDidDoc_is_authentication_key d (pk_id k)))
          (svc_recipient_keys s))
       (\<lambda>_. try_for_each (\<lambda>e. res_bind (map_err DiddocError_from_shared (validate_verkey bs58 e))
                                  (\<lambda>_. Inr ()))
          (svc_routing_keys s))"

definition AriesDidDoc_validate :: "bs58_decode \<Rightarrow> AriesDidDoc \<Rightarrow> unit diddoc_result" where
  "AriesDidDoc_validate bs58 d =
     (if dd_context d \<noteq> CONTEXT then
        Inl (DiddocError_from_msg DD_InvalidJson
          ''DIDDoc validation failed: Unsupported @context value: {:?}'')
      else if dd_id d = [] then
        Inl (DiddocError_from_msg DD_InvalidJson ''DIDDoc validation failed: id is empty'')
      else try_for_each (validate_service bs58 d) (dd_service d))"

definition AriesDidDoc_recipient_keys ::
    "bs58_decode \<Rightarrow> AriesDidDoc \<Rightarrow> string list diddoc_result" where
  "AriesDidDoc_recipient_keys bs58 d =
     (case list_get (dd_service d) 0 of
        None \<Rightarrow> Inr []
      | Some service \<Rightarrow>
          try_map (\<lambda>e. res_bind (AriesDidDoc_get_key bs58 d e)
                         (\<lambda>k. Inr (pk_public_key_base_58 k)))
            (svc_recipient_keys service))"

definition AriesDidDoc_routing_keys :: "AriesDidDoc \<Rightarrow> string list" where
  "AriesDidDoc_routing_keys d =
     (case list_get (dd_service d) 0 of None \<Rightarrow> [] | Some service \<Rightarrow> svc_routing_keys service)"

definition AriesDidDoc_get_endpoint :: "AriesDidDoc \<Rightarrow> string option" where
  "AriesDidDoc_get_endpoint d = map_option svc_service_endpoint (list_get (dd_service d) 0)"

definition AriesDidDoc_get_service :: "bs58_decode \<Rightarrow> AriesDidDoc \<Rightarrow> AriesService diddoc_result" where
  "AriesDidDoc_get_service bs58 d =
     res_bind (ok_or (list_get (dd_service d) 0)
                (DiddocError_from_msg DD_InvalidState ''No service found on did doc: {self:?}''))
       (\<lambda>service. res_bind (AriesDidDoc_recipient_keys bs58 d)
          (\<lambda>recipient_keys.
             Inr (service\<lparr>svc_recipient_keys := recipient_keys,
                          svc_routing_keys := AriesDidDoc_routing_keys d\<rparr>)))"

text \<open>The document the connection protocol assembles for a party.\<close>

definition built_did_doc :: "string \<Rightarrow> string list \<Rightarrow> string list \<Rightarrow> string \<Rightarrow> AriesDidDoc" where
  "built_did_doc did recipient_keys routing_keys endpoint =
     AriesDidDoc_set_routing_keys
       (AriesDidDoc_set_recipient_keys
          (AriesDidDoc_set_service_endpoint
             (AriesDidDoc_set_id AriesDidDoc_default did) endpoint) recipient_keys) routing_keys"

definition key_record :: "string \<Rightarrow> nat \<times> string \<Rightarrow> Ed25519PublicKey" where
  "key_record did ik =
     \<lparr>pk_id = did @ ''#'' @ nat_to_string (fst ik), pk_type = KEY_TYPE, pk_controller = did,
      pk_public_key_base_58 = snd ik\<rparr>"

definition auth_record :: "string \<Rightarrow> nat \<times> string \<Rightarrow> Authentication" where
  "auth_record did ik =
     \<lparr>auth_type = KEY_AUTHENTICATION_TYPE, auth_public_key = did @ ''#'' @ nat_to_string (fst ik)\<rparr>"

lemma set_recipient_keys_from_closed:
  assumes "dd_service d = s # ss"
  shows "set_recipient_keys_from n ks d =
    d\<lparr>dd_public_key := dd_public_key d @ map (key_record (dd_id d)) (enumerate (Suc n) ks),
      dd_authentication := dd_authentication d @ map (auth_record (dd_id d)) (enumerate (Suc n) ks),
      dd_service := s\<lparr>svc_recipient_keys := svc_recipient_keys s @ ks\<rparr> # ss\<rparr>"
  using assms
proof (induction ks arbitrary: n d s)
  case Nil
  then show ?case by (cases d; cases s) simp
next
  case (Cons k ks)
  then show ?case
    by (simp add: push_recipient_key_def with_first_service_def Let_def key_record_def
        auth_record_def AriesDidDoc_build_key_reference_def)
qed

lemma set_routing_keys_closed:
  assumes "dd_service d = s # ss"
  shows "AriesDidDoc_set_routing_keys d ks =
    d\<lparr>dd_service := s\<lparr>svc_routing_keys := svc_routing_keys s @ ks\<rparr> # ss\<rparr>"
  using assms
proof (induction ks arbitrary: d s)
  case Nil
  then show ?case by (cases d; cases s) (simp add: AriesDidDoc_set_routing_keys_def)
next
  case (Cons k ks)
  then show ?case
    by (simp add: AriesDidDoc_set_routing_keys_def with_first_service_def)
qed

lemma built_did_doc_closed:
  "built_did_doc did rks rts ep =
    \<lparr>dd_context = CONTEXT, dd_id = did,
     dd_public_key = map (key_record did) (enumerate 1 rks),
     dd_authentication = map (auth_record did) (enumerate 1 rks),
     dd_service = [AriesService_default\<lparr>svc_recipient_keys := rks, svc_routing_keys := rts,
                     svc_service_endpoint := ep\<rparr>]\<rparr>"
  by (simp add: built_did_doc_def AriesDidDoc_set_recipient_keys_def set_recipient_keys_from_closed
      set_routing_keys_closed AriesDidDoc_set_service_endpoint_def with_first_service_def
      AriesDidDoc_set_id_def AriesDidDoc_default_def AriesService_default_def)

definition valid_verkey :: "bs58_decode \<Rightarrow> string \<Rightarrow> bool" where
  "valid_verkey bs58 k = (case bs58 k of Inr x \<Rightarrow> length x = 32 | Inl _ \<Rightarrow> False)"

lemma validate_verkey_ok [simp]: "valid_verkey bs58 k \<Longrightarrow> validate_verkey bs58 k = Inr k"
  by (auto simp: valid_verkey_def validate_verkey_def split: sum.splits)

lemma validate_verkey_Inr_iff: "validate_verkey bs58 k = Inr k' \<longleftrightarrow> valid_verkey bs58 k \<and> k' = k"
  by (auto simp: valid_verkey_def validate_verkey_def split: sum.splits)

lemma find_Some_pred: "find P xs = Some x \<Longrightarrow> P x \<and> x \<in> set xs"
  by (auto simp: find_Some_iff)

lemma find_exists: "x \<in> set xs \<Longrightarrow> P x \<Longrightarrow> \<exists>y. find P xs = Some y"
  by (meson find_None_iff not_Some_eq)

lemma built_get_key:
  assumes "k \<in> set rks" "valid_verkey bs58 k"
  shows "\<exists>i. AriesDidDoc_get_key bs58 (built_did_doc did rks rts ep) k = Inr (key_record did (i, k))
           \<and> (i, k) \<in> set (enumerate 1 rks)"
proof -
  obtain j where j: "j < length rks" "rks ! j = k"
    using assms(1) by (auto simp: in_set_conv_nth)
  have "(Suc j, k) \<in> set (enumerate 1 rks)"
    using j by (auto simp: in_set_enumerate_eq)
  then have "key_record did (Suc j, k) \<in> set (map (key_record did) (enumerate 1 rks))"
    by simp
  moreover have "pk_public_key_base_58 (key_record did (Suc j, k)) = k"
    by (simp add: key_record_def)
  ultimately obtain r where r: "find (\<lambda>r. pk_public_key_base_58 r = k)
      (map (key_record did) (enumerate 1 rks)) = Some r"
    using find_exists [where P = "\<lambda>r. pk_public_key_base_58 r = k"] by blast
  then obtain i where "r = key_record did (i, k)" "(i, k) \<in> set (enumerate 1 rks)"
    by (auto dest!: find_Some_pred simp: key_record_def)
  then show ?thesis
    using r assms(2)
    by (intro exI [of _ i]) (simp add: AriesDidDoc_get_key_def AriesDidDoc_find_key_by_value_def
        built_did_doc_closed AriesDidDoc_validate_ed25519_key_def key_record_def)
qed

definition is_auth_for :: "string \<Rightarrow> Authentication \<Rightarrow> bool" where
  "is_auth_for key a =
     (auth_public_key a = key \<or>
      (case AriesDidDoc_parse_key_reference (auth_public_key a) of
         Inr r \<Rightarrow> keyref_key_id r = key | Inl _ \<Rightarrow> False))"

lemma is_authentication_key_find:
  assumes "find (is_auth_for key) (dd_authentication d) = Some a"
    and "auth_type a = KEY_AUTHENTICATION_TYPE"
  shows "AriesDidDoc_is_authentication_key d key = Inr ()"
  using assms by (simp add: AriesDidDoc_is_authentication_key_def is_auth_for_def [abs_def])

lemma built_is_authentication_key:
  assumes "ik \<in> set (enumerate 1 rks)"
  shows "AriesDidDoc_is_authentication_key (built_did_doc did rks rts ep) (pk_id (key_record did ik))
           = Inr ()"
proof -
  let ?key = "pk_id (key_record did ik)" and ?as = "map (auth_record did) (enumerate 1 rks)"
  have "auth_record did ik \<in> set ?as" "is_auth_for ?key (auth_record did ik)"
    using assms by (simp_all add: is_auth_for_def auth_record_def key_record_def)
  then obtain a where a: "find (is_auth_for ?key) ?as = Some a"
    using find_exists by meson
  then have "a \<in> set ?as" by (rule find_Some_pred [THEN conjunct2])
  then have "auth_type a = KEY_AUTHENTICATION_TYPE" by (auto simp: auth_record_def)
  then show ?thesis
    using a by (simp add: is_authentication_key_find built_did_doc_closed)
qed

lemma built_services_validate:
  assumes "\<forall>k \<in> set rks. valid_verkey bs58 k" "\<forall>k \<in> set rts. valid_verkey bs58 k"
    and "x \<in> set (dd_service (built_did_doc did rks rts ep))"
  shows "validate_service bs58 (built_did_doc did rks rts ep) x = Inr ()"
proof -
  let ?d = "built_did_doc did rks rts ep"
  have "res_bind (AriesDidDoc_get_key bs58 ?d k)
          (\<lambda>r. AriesDidDoc_is_authentication_key ?d (pk_id r)) = Inr ()" if k: "k \<in> set rks" for k
  proof -
    obtain i where "AriesDidDoc_get_key bs58 ?d k = Inr (key_record did (i, k))"
      "(i, k) \<in> set (enumerate 1 rks)"
      using built_get_key [OF k] assms(1) k by blast
    then show ?thesis using built_is_authentication_key by simp
  qed
  then show ?thesis
    using assms(2,3) by (simp add: validate_service_def res_simps built_did_doc_closed)
qed

text \<open>The id of a document matters to its validation only in that it must not be empty.\<close>

lemma key_lookups_set_id:
  "AriesDidDoc_find_key_by_value (AriesDidDoc_set_id d i) = AriesDidDoc_find_key_by_value d"
  "AriesDidDoc_find_key_by_reference (AriesDidDoc_set_id d i) = AriesDidDoc_find_key_by_reference d"
  "AriesDidDoc_is_authentication_key (AriesDidDoc_set_id d i) = AriesDidDoc_is_authentication_key d"
  by (simp_all add: fun_eq_iff AriesDidDoc_set_id_def AriesDidDoc_find_key_by_value_def
      AriesDidDoc_find_key_by_reference_def AriesDidDoc_is_authentication_key_def)

lemma validate_service_set_id: "validate_service bs58 (AriesDidDoc_set_id d i) x = validate_service bs58 d x"
  unfolding validate_service_def AriesDidDoc_get_key_def key_lookups_set_id ..

lemma built_set_id_validates:
  assumes "i \<noteq> []" "\<forall>k \<in> set rks. valid_verkey bs58 k" "\<forall>k \<in> set rts. valid_verkey bs58 k"
  shows "AriesDidDoc_validate bs58 (AriesDidDoc_set_id (built_did_doc did rks rts ep) i) = Inr ()"
proof -
  let ?d = "built_did_doc did rks rts ep"
  have "dd_service (AriesDidDoc_set_id ?d i) = dd_service ?d" "dd_context (AriesDidDoc_set_id ?d i) = CONTEXT"
    "dd_id (AriesDidDoc_set_id ?d i) = i"
    by (simp_all add: AriesDidDoc_set_id_def built_did_doc_closed)
  then show ?thesis
    using assms(1) built_services_validate [OF assms(2,3)]
    by (simp add: AriesDidDoc_validate_def res_simps validate_service_set_id)
qed

text \<open>
  A DID document assembled by the setters for a non-empty DID from well-formed Ed25519 keys
  passes its own validation, whatever the endpoint, and whether or not keys repeat.
\<close>

theorem built_did_doc_validates:
  assumes "did \<noteq> []"
    and "\<forall>k \<in> set rks. valid_verkey bs58 k"
    and "\<forall>k \<in> set rts. valid_verkey bs58 k"
  shows "AriesDidDoc_validate bs58 (built_did_doc did rks rts ep) = Inr ()"
  using assms(1) built_services_validate [OF assms(2,3)]
  by (simp add: AriesDidDoc_validate_def res_simps built_did_doc_closed)

theorem built_did_doc_validates_witness:
  "AriesDidDoc_validate (\<lambda>_. Inr (replicate 32 (CHR ''k'')))
     (built_did_doc ''V4SGRU86Z58d6TV7PBUe6f'' [''key1'', ''key1''] [''router''] ''http://a'') = Inr ()"
  by (rule built_did_doc_validates) (simp_all add: valid_verkey_def)

lemma built_recipient_keys:
  assumes "\<forall>k \<in> set rks. valid_verkey bs58 k"
  shows "AriesDidDoc_recipient_keys bs58 (built_did_doc did rks rts ep) = Inr rks"
proof -
  let ?d = "built_did_doc did rks rts ep"
  have "res_bind (AriesDidDoc_get_key bs58 ?d k) (\<lambda>r. Inr (pk_public_key_base_58 r))
          = (Inr k :: string diddoc_result)" if k: "k \<in> set rks" for k
  proof -
    obtain i where "AriesDidDoc_get_key bs58 ?d k = Inr (key_record did (i, k))"
      using built_get_key [OF k] assms k by blast
    then show ?thesis by (simp add: key_record_def)
  qed
  then have "try_map (\<lambda>e. res_bind (AriesDidDoc_get_key bs58 ?d e)
      (\<lambda>r. Inr (pk_public_key_base_58 r))) rks = (Inr rks :: string list diddoc_result)"
    by (subst try_map_Inr_iff) (simp add: list_all2_same)
  then show ?thesis
    by (simp add: AriesDidDoc_recipient_keys_def built_did_doc_closed)
qed

text \<open>
  The service read back from an assembled document carries exactly the recipient keys, routing
  keys and endpoint that were set, in order.
\<close>

theorem built_did_doc_get_service:
  assumes "\<forall>k \<in> set rks. valid_verkey bs58 k"
  shows "AriesDidDoc_get_service bs58 (built_did_doc did rks rts ep) =
    Inr (AriesService_default\<lparr>svc_recipient_keys := rks, svc_routing_keys := rts,
           svc_service_endpoint := ep\<rparr>)"
  using built_recipient_keys [OF assms, of did rts ep]
  by (simp add: AriesDidDoc_get_service_def AriesDidDoc_routing_keys_def built_did_doc_closed)

theorem built_did_doc_get_service_witness:
  "AriesDidDoc_get_service (\<lambda>_. Inr (replicate 32 (CHR ''k'')))
     (built_did_doc ''did'' [''k1'', ''k2''] [''r1''] ''http://a'') =
   Inr (AriesService_default\<lparr>svc_recipient_keys := [''k1'', ''k2''], svc_routing_keys := [''r1''],
          svc_service_endpoint := ''http://a''\<rparr>)"
  by (rule built_did_doc_get_service) (simp add: valid_verkey_def)

lemma parse_built_reference:
  assumes "CHR ''#'' \<notin> set did"
  shows "AriesDidDoc_parse_key_reference (AriesDidDoc_build_key_reference did (nat_to_string i)) =
           Inr \<lparr>keyref_did = Some did, keyref_key_id = nat_to_string i\<rparr>"
proof -
  have "AriesDidDoc_key_parts (AriesDidDoc_build_key_reference did (nat_to_string i))
          = [did, nat_to_string i]"
    using split_on_append [OF assms] split_on_free [OF nat_to_string_no_hash]
    by (simp add: AriesDidDoc_key_parts_def AriesDidDoc_build_key_reference_def)
  then show ?thesis by (simp add: AriesDidDoc_parse_key_reference_def)
qed

lemma built_find_by_reference:
  assumes "i < length rks"
  shows "AriesDidDoc_find_key_by_reference (built_did_doc did rks rts ep)
           \<lparr>keyref_did = Some did, keyref_key_id = nat_to_string (Suc i)\<rparr>
         = Inr (key_record did (Suc i, rks ! i))"
proof -
  let ?P = "\<lambda>k. pk_id k = nat_to_string (Suc i) \<or> pk_id k = did @ ''#'' @ nat_to_string (Suc i)"
  let ?ks = "map (key_record did) (enumerate 1 rks)"
  have neq: "did @ ''#'' @ t \<noteq> nat_to_string n" for t n
  proof
    assume "did @ ''#'' @ t = nat_to_string n"
    then have "CHR ''#'' \<in> set (nat_to_string n)" by (simp flip: \<open>did @ ''#'' @ t = nat_to_string n\<close>)
    then show False by (simp add: nat_to_string_no_hash)
  qed
  have "(Suc i, rks ! i) \<in> set (enumerate 1 rks)"
    using assms by (simp add: in_set_enumerate_eq)
  then have "key_record did (Suc i, rks ! i) \<in> set ?ks" by simp
  moreover have "?P (key_record did (Suc i, rks ! i))" by (simp add: key_record_def)
  ultimately have "\<exists>r. find ?P ?ks = Some r" by (rule find_exists)
  then obtain r where r: "find ?P ?ks = Some r" ..
  have "r \<in> set ?ks" "?P r"
    using find_Some_pred [OF r] by simp_all
  then have "r = key_record did (Suc i, rks ! i)"
    using neq by (auto simp: key_record_def in_set_enumerate_eq)
  then show ?thesis
    using r by (simp add: AriesDidDoc_find_key_by_reference_def built_did_doc_closed)
qed

text \<open>
  In an assembled document the reference built for the n-th recipient key resolves to that
  key, when the DID holds no hash sign and the reference is not itself a base58 key.
\<close>

theorem built_key_reference_resolves:
  assumes "CHR ''#'' \<notin> set did" "i < length rks" "valid_verkey bs58 (rks ! i)"
    and "\<not> valid_verkey bs58 (AriesDidDoc_build_key_reference did (nat_to_string (Suc i)))"
  shows "\<exists>r. AriesDidDoc_get_key bs58 (built_did_doc did rks rts ep)
               (AriesDidDoc_build_key_reference did (nat_to_string (Suc i))) = Inr r
           \<and> pk_public_key_base_58 r = rks ! i"
proof -
  let ?ref = "AriesDidDoc_build_key_reference did (nat_to_string (Suc i))"
  obtain e where "validate_verkey bs58 ?ref = Inl e"
    using assms(4) validate_verkey_Inr_iff by (metis sum.exhaust)
  then show ?thesis
    using assms by (simp add: AriesDidDoc_get_key_def parse_built_reference built_find_by_reference
        AriesDidDoc_validate_ed25519_key_def key_record_def)
qed

theorem built_key_reference_resolves_witness:
  "\<exists>r. AriesDidDoc_get_key (\<lambda>s. if CHR ''#'' \<in> set s then Inl ''invalid character'' else
            Inr (replicate 32 (CHR ''k'')))
          (built_did_doc ''did'' [''k1'', ''k2''] [] ''http://a'')
          (AriesDidDoc_build_key_reference ''did'' (nat_to_string (Suc 1))) = Inr r
     \<and> pk_public_key_base_58 r = [''k1'', ''k2''] ! 1"
  by (rule built_key_reference_resolves)
     (simp_all add: valid_verkey_def AriesDidDoc_build_key_reference_def)

end
