(* ===== verification/Messages.thy ===== *)
theory Messages
  imports DidDoc
begin

text \<open>
  The message types of the messages crate (messages/src): \<open>MsgParts\<close>, the decorators, the content
  and decorators of every protocol message, and the \<open>AriesMessage\<close> enum, with the constructors the
  code calls. Decorator structs with the same fields share one record: \<open>opt_decorators\<close> is an optional
  thread and timing (offer, proposal, request, ping, connection request, ...), \<open>thr_decorators\<close> a
  mandatory thread and a timing (acks, reuse, disclose, ping response), \<open>ack_decorators\<close> adds
  \<open>please_ack\<close> (issue-credential, presentation, connection response), \<open>tim_decorators\<close> is a timing only.

  A \<open>DateTime<Utc>\<close> is a number of milliseconds, a \<open>Url\<close> its text, an ISO-639 language its code,
  a \<open>HashMap\<close> a map. The \<open>@type\<close> markers of the previews are unit structs and have no field here.
  Messages are data only; the functions over them are in the theories of their protocols.
\<close>

type_synonym datetime = nat

datatype 'a MaybeKnown = Known 'a | Unknown string

datatype ThreadGoalCode = AriesVc | AriesVcIssue | AriesVcVerify | AriesVcRevoke | AriesRel | AriesRelBuild

record Thread =
  thid :: string
  pthid :: "string option"
  sender_order :: "32 word option"
  received_orders :: "(string \<rightharpoonup> 32 word) option"
  thread_goal_code :: "ThreadGoalCode MaybeKnown option"

definition Thread_new :: "string \<Rightarrow> Thread" where
  "Thread_new t = \<lparr>thid = t, pthid = None, sender_order = None, received_orders = None,
                   thread_goal_code = None\<rparr>"

record Timing =
  in_time :: "datetime option"
  out_time :: "datetime option"
  stale_time :: "datetime option"
  expires_time :: "datetime option"
  delay_milli :: "32 word option"
  wait_until_time :: "datetime option"

definition Timing_default :: Timing where
  "Timing_default = \<lparr>in_time = None, out_time = None, stale_time = None, expires_time = None,
                     delay_milli = None, wait_until_time = None\<rparr>"

datatype AckOn = Receipt | Outcome

record PleaseAck =
  ack_on :: "AckOn list"

definition PleaseAck_new :: "AckOn list \<Rightarrow> PleaseAck" where
  "PleaseAck_new on = \<lparr>ack_on = on\<rparr>"

datatype MimeType = Mime_Json | Mime_Jpg | Mime_Jpeg | Mime_Png | Mime_Pdf | Mime_Plain

datatype AttachmentType = Base64 string | Json json | Links "string list"

record AttachmentData =
  ad_jws :: "string option"
  ad_sha256 :: "string option"
  ad_content :: AttachmentType

definition AttachmentData_new :: "AttachmentType \<Rightarrow> AttachmentData" where
  "AttachmentData_new c = \<lparr>ad_jws = None, ad_sha256 = None, ad_content = c\<rparr>"

record Attachment =
  att_id :: "string option"
  att_description :: "string option"
  att_filename :: "string option"
  att_mime_type :: "MimeType option"
  att_lastmod_time :: "datetime option"
  att_byte_count :: "64 word option"
  att_data :: AttachmentData

definition Attachment_new :: "AttachmentData \<Rightarrow> Attachment" where
  "Attachment_new d = \<lparr>att_id = None, att_description = None, att_filename = None,
     att_mime_type = None, att_lastmod_time = None, att_byte_count = None, att_data = d\<rparr>"

record MsgLocalization =
  ml_catalogs :: "string list option"
  ml_locales :: "(string \<rightharpoonup> string list) option"

record FieldLocalization =
  fl_code :: "string option"
  fl_locale :: "string option"
  fl_catalogs :: "string list option"
  fl_translations :: "string \<rightharpoonup> string"

record ('c, 'd) MsgParts =
  msg_id :: string
  msg_content :: 'c
  msg_decorators :: 'd

definition MsgParts_with_decorators :: "string \<Rightarrow> 'c \<Rightarrow> 'd \<Rightarrow> ('c, 'd) MsgParts" where
  "MsgParts_with_decorators i c d = \<lparr>msg_id = i, msg_content = c, msg_decorators = d\<rparr>"

record opt_decorators =
  od_thread :: "Thread option"
  od_timing :: "Timing option"

record thr_decorators =
  td_thread :: Thread
  td_timing :: "Timing option"

record ack_decorators =
  kd_thread :: Thread
  kd_please_ack :: "PleaseAck option"
  kd_timing :: "Timing option"

record tim_decorators =
  md_timing :: "Timing option"

definition opt_decorators_default :: opt_decorators where
  "opt_decorators_default = \<lparr>od_thread = None, od_timing = None\<rparr>"

definition thr_decorators_new :: "Thread \<Rightarrow> thr_decorators" where
  "thr_decorators_new t = \<lparr>td_thread = t, td_timing = None\<rparr>"

definition ack_decorators_new :: "Thread \<Rightarrow> ack_decorators" where
  "ack_decorators_new t = \<lparr>kd_thread = t, kd_please_ack = None, kd_timing = None\<rparr>"

subsection \<open>Credential issuance\<close>

record CredentialAttr =
  ca_name :: string
  ca_value :: string
  ca_mime_type :: "MimeType option"

record CredentialPreview =
  cp_attributes :: "CredentialAttr list"

definition CredentialAttr_new :: "string \<Rightarrow> string \<Rightarrow> CredentialAttr" where
  "CredentialAttr_new n v = \<lparr>ca_name = n, ca_value = v, ca_mime_type = None\<rparr>"

definition CredentialPreview_new :: "CredentialAttr list \<Rightarrow> CredentialPreview" where
  "CredentialPreview_new as = \<lparr>cp_attributes = as\<rparr>"

record OfferCredentialContent =
  offer_comment :: "string option"
  offer_credential_preview :: CredentialPreview
  offers_attach :: "Attachment list"

definition OfferCredentialContent_new ::
    "CredentialPreview \<Rightarrow> Attachment list \<Rightarrow> OfferCredentialContent" where
  "OfferCredentialContent_new p as =
     \<lparr>offer_comment = None, offer_credential_preview = p, offers_attach = as\<rparr>"

record ProposeCredentialContent =
  propose_comment :: "string option"
  propose_credential_proposal :: CredentialPreview
  propose_schema_id :: string
  propose_cred_def_id :: string

record RequestCredentialContent =
  request_comment :: "string option"
  requests_attach :: "Attachment list"

definition RequestCredentialContent_new :: "Attachment list \<Rightarrow> RequestCredentialContent" where
  "RequestCredentialContent_new as = \<lparr>request_comment = None, requests_attach = as\<rparr>"

record IssueCredentialContent =
  issue_comment :: "string option"
  credentials_attach :: "Attachment list"

definition IssueCredentialContent_new :: "Attachment list \<Rightarrow> IssueCredentialContent" where
  "IssueCredentialContent_new as = \<lparr>issue_comment = None, credentials_attach = as\<rparr>"

datatype AckStatus = Ack_Ok | Ack_Pending

record AckContent =
  ack_status :: AckStatus

definition AckContent_new :: "AckStatus \<Rightarrow> AckContent" where
  "AckContent_new st = \<lparr>ack_status = st\<rparr>"

type_synonym OfferCredential = "(OfferCredentialContent, opt_decorators) MsgParts"
type_synonym ProposeCredential = "(ProposeCredentialContent, opt_decorators) MsgParts"
type_synonym RequestCredential = "(RequestCredentialContent, opt_decorators) MsgParts"
type_synonym IssueCredential = "(IssueCredentialContent, ack_decorators) MsgParts"
type_synonym Ack = "(AckContent, thr_decorators) MsgParts"
type_synonym AckCredential = "(AckContent, thr_decorators) MsgParts"

datatype CredentialIssuance =
    CI_OfferCredential OfferCredential
  | CI_ProposeCredential ProposeCredential
  | CI_RequestCredential RequestCredential
  | CI_IssueCredential IssueCredential
  | CI_Ack AckCredential

subsection \<open>Present proof\<close>

record PresentationAttr =
  pa_name :: string
  pa_cred_def_id :: "string option"
  pa_mime_type :: "MimeType option"
  pa_value :: "string option"
  pa_referent :: "string option"

datatype PredicateOperator = GreaterOrEqual | LessOrEqual | GreterThan | LessThan

record Referent =
  ref_cred_def_id :: string
  ref_referent :: string

record Predicate =
  pred_name :: string
  pred_predicate :: PredicateOperator
  pred_threshold :: "64 word"
  pred_referent :: "Referent option"

record PresentationPreview =
  pp_attributes :: "PresentationAttr list"
  pp_predicates :: "Predicate list"

definition PresentationPreview_new ::
    "PresentationAttr list \<Rightarrow> Predicate list \<Rightarrow> PresentationPreview" where
  "PresentationPreview_new as ps = \<lparr>pp_attributes = as, pp_predicates = ps\<rparr>"

record ProposePresentationContent =
  proppres_comment :: "string option"
  presentation_proposal :: PresentationPreview

definition ProposePresentationContent_new :: "PresentationPreview \<Rightarrow> ProposePresentationContent" where
  "ProposePresentationContent_new p = \<lparr>proppres_comment = None, presentation_proposal = p\<rparr>"

record RequestPresentationContent =
  reqpres_comment :: "string option"
  request_presentations_attach :: "Attachment list"

definition RequestPresentationContent_new :: "Attachment list \<Rightarrow> RequestPresentationContent" where
  "RequestPresentationContent_new as = \<lparr>reqpres_comment = None, request_presentations_attach = as\<rparr>"

record PresentationContent =
  pres_comment :: "string option"
  presentations_attach :: "Attachment list"

definition PresentationContent_new :: "Attachment list \<Rightarrow> PresentationContent" where
  "PresentationContent_new as = \<lparr>pres_comment = None, presentations_attach = as\<rparr>"

type_synonym ProposePresentation = "(ProposePresentationContent, opt_decorators) MsgParts"
type_synonym RequestPresentation = "(RequestPresentationContent, opt_decorators) MsgParts"
type_synonym Presentation = "(PresentationContent, ack_decorators) MsgParts"
type_synonym AckPresentation = "(AckContent, thr_decorators) MsgParts"

datatype PresentProof =
    PP_ProposePresentation ProposePresentation
  | PP_RequestPresentation RequestPresentation
  | PP_Presentation Presentation
  | PP_Ack AckPresentation

subsection \<open>Problem reports, notifications, revocation\<close>

record Description =
  desc_translations :: "string \<rightharpoonup> string"
  desc_code :: string

definition Description_new :: "string \<Rightarrow> Description" where
  "Description_new code = \<lparr>desc_translations = Map.empty, desc_code = code\<rparr>"

datatype WhoRetries = WR_Me | WR_You | WR_Both | WR_None
datatype Impact = Impact_MessageContent | Impact_Thread | Impact_Connection
datatype WhereParty = WP_Me | WP_You | WP_Other

record Where =
  where_party :: WhereParty
  where_location :: string

record ProblemReportContent =
  pr_description :: Description
  pr_problem_items :: "(string \<rightharpoonup> string) list option"
  pr_who_retries :: "WhoRetries option"
  pr_fix_hint :: "string option"
  pr_impact :: "Impact option"
  pr_location :: "Where option"
  pr_noticed_time :: "string option"
  pr_tracking_uri :: "string option"
  pr_escalation_uri :: "string option"

definition ProblemReportContent_new :: "string \<Rightarrow> ProblemReportContent" where
  "ProblemReportContent_new code =
     \<lparr>pr_description = Description_new code, pr_problem_items = None, pr_who_retries = None,
      pr_fix_hint = None, pr_impact = None, pr_location = None, pr_noticed_time = None,
      pr_tracking_uri = None, pr_escalation_uri = None\<rparr>"

record ProblemReportDecorators =
  prd_thread :: "Thread option"
  prd_timing :: "Timing option"
  prd_description_locale :: "FieldLocalization option"
  prd_fix_hint_locale :: "FieldLocalization option"

definition ProblemReportDecorators_default :: ProblemReportDecorators where
  "ProblemReportDecorators_default =
     \<lparr>prd_thread = None, prd_timing = None, prd_description_locale = None, prd_fix_hint_locale = None\<rparr>"

type_synonym ProblemReport = "(ProblemReportContent, ProblemReportDecorators) MsgParts"

datatype Notification = N_Ack Ack | N_ProblemReport ProblemReport

datatype RevocationFormat = IndyAnoncreds

record RevokeContent =
  revoke_credential_id :: string
  revoke_revocation_format :: "RevocationFormat MaybeKnown"
  revoke_comment :: "string option"

definition RevokeContent_new :: "string \<Rightarrow> RevocationFormat MaybeKnown \<Rightarrow> RevokeContent" where
  "RevokeContent_new cid f =
     \<lparr>revoke_credential_id = cid, revoke_revocation_format = f, revoke_comment = None\<rparr>"

record RevokeDecorators =
  rvd_please_ack :: "PleaseAck option"
  rvd_timing :: "Timing option"
  rvd_thread :: "Thread option"

definition RevokeDecorators_default :: RevokeDecorators where
  "RevokeDecorators_default = \<lparr>rvd_please_ack = None, rvd_timing = None, rvd_thread = None\<rparr>"

type_synonym Revoke = "(RevokeContent, RevokeDecorators) MsgParts"
type_synonym AckRevoke = "(AckContent, thr_decorators) MsgParts"

datatype Revocation = R_Revoke Revoke | R_Ack AckRevoke

subsection \<open>Connection, out of band, and the single-message protocols\<close>

record ConnectionData =
  cd_did :: string
  cd_did_doc :: AriesDidDoc

definition ConnectionData_new :: "string \<Rightarrow> AriesDidDoc \<Rightarrow> ConnectionData" where
  "ConnectionData_new d doc = \<lparr>cd_did = d, cd_did_doc = doc\<rparr>"

record ConnRequestContent =
  cr_label :: string
  cr_connection :: ConnectionData

record ConnectionSignature =
  cs_signature :: string
  cs_sig_data :: string
  cs_signer :: string

definition ConnectionSignature_new :: "string \<Rightarrow> string \<Rightarrow> string \<Rightarrow> ConnectionSignature" where
  "ConnectionSignature_new sg sd sr = \<lparr>cs_signature = sg, cs_sig_data = sd, cs_signer = sr\<rparr>"

record ResponseContent =
  connection_sig :: ConnectionSignature

datatype ProblemCode =
  RequestNotAccepted | RequestProcessingError | ResponseNotAccepted | ResponseProcessingError

record ConnProblemReportContent =
  cpr_problem_code :: "ProblemCode option"
  cpr_explain :: "string option"

record ConnProblemReportDecorators =
  cprd_thread :: Thread
  cprd_localization :: "MsgLocalization option"
  cprd_timing :: "Timing option"

record PublicInvitationContent =
  pubinv_label :: string
  pubinv_did :: string

record PairwiseInvitationContent =
  pwinv_label :: string
  pwinv_recipient_keys :: "string list"
  pwinv_routing_keys :: "string list"
  pwinv_service_endpoint :: string

type_synonym ConnRequest = "(ConnRequestContent, opt_decorators) MsgParts"
type_synonym ConnResponse = "(ResponseContent, ack_decorators) MsgParts"
type_synonym ConnProblemReport = "(ConnProblemReportContent, ConnProblemReportDecorators) MsgParts"
type_synonym PublicInvitation = "(PublicInvitationContent, unit) MsgParts"
type_synonym PairwiseInvitation = "(PairwiseInvitationContent, tim_decorators) MsgParts"

datatype Invitation =
    Inv_Public PublicInvitation
  | Inv_Pairwise PairwiseInvitation
  | Inv_PairwiseDID PairwiseInvitation

datatype Connection =
    C_Invitation Invitation
  | C_Request ConnRequest
  | C_Response ConnResponse
  | C_ProblemReport ConnProblemReport

datatype Protocol =
    RoutingType | ConnectionType | SignatureType | RevocationType | CredentialIssuanceType
  | ReportProblemType | PresentProofType | TrustPingType | DiscoverFeaturesType
  | BasicMessageType | OutOfBandType | NotificationType

datatype Role =
    Role_Inviter | Role_Invitee | Role_Issuer | Role_Holder | Role_Prover | Role_Verifier
  | Role_Sender | Role_Receiver | Role_Requester | Role_Responder | Role_Notified
  | Role_Notifier | Role_Mediator

datatype OobGoalCode = IssueVC | RequestProof | CreateAccount | P2PMessaging
datatype OobService = Oob_AriesService AriesService | Oob_Did string

record OobInvitationContent =
  oob_label :: "string option"
  oob_goal_code :: "OobGoalCode MaybeKnown option"
  oob_goal :: "string option"
  oob_accept :: "MimeType list option"
  oob_handshake_protocols :: "Protocol MaybeKnown list option"
  oob_requests_attach :: "Attachment list option"
  oob_services :: "OobService list"

type_synonym OobInvitation = "(OobInvitationContent, tim_decorators) MsgParts"
type_synonym HandshakeReuse = "(unit, thr_decorators) MsgParts"
type_synonym HandshakeReuseAccepted = "(unit, thr_decorators) MsgParts"

datatype OutOfBand =
    O_Invitation OobInvitation
  | O_HandshakeReuse HandshakeReuse
  | O_HandshakeReuseAccepted HandshakeReuseAccepted

record PingContent =
  ping_response_requested :: bool
  ping_comment :: "string option"

record PingResponseContent =
  pingresp_comment :: "string option"

type_synonym Ping = "(PingContent, opt_decorators) MsgParts"
type_synonym PingResponse = "(PingResponseContent, thr_decorators) MsgParts"

datatype TrustPing = T_Ping Ping | T_PingResponse PingResponse

record ProtocolDescriptor =
  pd_pid :: "Protocol MaybeKnown"
  pd_roles :: "Role MaybeKnown list option"

record QueryContent =
  q_query :: string
  q_comment :: "string option"

record DiscloseContent =
  disc_protocols :: "ProtocolDescriptor list"

type_synonym DFQuery = "(QueryContent, tim_decorators) MsgParts"
type_synonym Disclose = "(DiscloseContent, thr_decorators) MsgParts"

datatype DiscoverFeatures = D_Query DFQuery | D_Disclose Disclose

record BasicMessageContent =
  bm_content :: string
  bm_sent_time :: datetime

record BasicMessageDecorators =
  bmd_l10n :: "MsgLocalization option"
  bmd_thread :: "Thread option"
  bmd_timing :: "Timing option"

type_synonym BasicMessage = "(BasicMessageContent, BasicMessageDecorators) MsgParts"

record ForwardContent =
  fwd_to :: string
  fwd_msg :: json

type_synonym Forward = "(ForwardContent, unit) MsgParts"

datatype AriesMessage =
    AM_Routing Forward
  | AM_Connection Connection
  | AM_Revocation Revocation
  | AM_CredentialIssuance CredentialIssuance
  | AM_ReportProblem ProblemReport
  | AM_PresentProof PresentProof
  | AM_TrustPing TrustPing
  | AM_DiscoverFeatures DiscoverFeatures
  | AM_BasicMessage BasicMessage
  | AM_OutOfBand OutOfBand
  | AM_Notification Notification

end
