(* ===== verification/Util.thy ===== *)
theory Util
  imports Messages
begin

text \<open>
  aries_vcx/src/handlers/util.rs and protocols/common.rs: the thread-id macros, the attachment
  macros, \<open>verify_thread_id\<close> over all message kinds, \<open>Status\<close>, \<open>OfferInfo\<close>, \<open>AttachmentId\<close> and
  \<open>build_problem_report_msg\<close>. \<open>base64::encode\<close> and \<open>base64::decode\<close> are third-party: the arguments
  \<open>b64enc\<close> and \<open>b64dec\<close>. The macros that read \<open>msg.decorators.thread\<close> take the thread decorator.
  A fresh UUID is an argument of the functions that draw one.

  Shown: an attachment made from a string reads back as that string; \<open>verify_thread_id\<close> decides
  membership of a message in a thread for every kind of message.
\<close>

type_synonym b64_encode = "string \<Rightarrow> string"
type_synonym b64_decode = "string \<Rightarrow> string option"

definition matches_thread_id :: "Thread \<Rightarrow> string \<Rightarrow> bool" where
  "matches_thread_id t i = (thid t = i \<or> pthid t = Some i)"

definition matches_opt_thread_id :: "Thread option \<Rightarrow> string \<Rightarrow> bool" where
  "matches_opt_thread_id o_t i =
     (case o_t of Some t \<Rightarrow> thid t = i \<or> pthid t = Some i | None \<Rightarrow> True)"

definition attach_not_b64 :: vcx_error where
  "attach_not_b64 = AriesVcxError_from_msg SerializationError
     ''Attachment is not base 64 encoded JSON: {:?}''"

definition get_attach_as_string :: "b64_decode \<Rightarrow> Attachment list \<Rightarrow> string vcx_result" where
  "get_attach_as_string b64dec attachments =
     (case map_option (\<lambda>a. ad_content (att_data a)) (list_get attachments 0) of
        Some (Base64 encoded_attach) \<Rightarrow>
          (case b64dec encoded_attach of
             Some bytes \<Rightarrow> if is_utf8 bytes then Inr bytes else Inl attach_not_b64
           | None \<Rightarrow> Inl attach_not_b64)
      | _ \<Rightarrow> Inl attach_not_b64)"

definition make_attach_from_str :: "b64_encode \<Rightarrow> string \<Rightarrow> string \<Rightarrow> Attachment" where
  "make_attach_from_str b64enc str_attach i =
     (let attach_type = Base64 (b64enc str_attach);
          attach_data = AttachmentData_new attach_type;
          attach = Attachment_new attach_data
      in attach\<lparr>att_id := Some i, att_mime_type := Some Mime_Json\<rparr>)"

datatype AttachmentId =
    Aid_CredentialOffer | Aid_CredentialRequest | Aid_Credential | Aid_PresentationRequest
  | Aid_Presentation

fun AttachmentId_as_ref :: "AttachmentId \<Rightarrow> string" where
  "AttachmentId_as_ref Aid_CredentialOffer = ''libindy-cred-offer-0''"
| "AttachmentId_as_ref Aid_CredentialRequest = ''libindy-cred-request-0''"
| "AttachmentId_as_ref Aid_Credential = ''libindy-cred-0''"
| "AttachmentId_as_ref Aid_PresentationRequest = ''libindy-request-presentation-0''"
| "AttachmentId_as_ref Aid_Presentation = ''libindy-presentation-0''"

fun message_matches :: "string \<Rightarrow> AriesMessage \<Rightarrow> bool" where
  "message_matches i (AM_BasicMessage m) = matches_opt_thread_id (bmd_thread (msg_decorators m)) i"
| "message_matches i (AM_Connection (C_Invitation (Inv_Public m))) = (msg_id m = i)"
| "message_matches i (AM_Connection (C_Invitation (Inv_Pairwise m))) = (msg_id m = i)"
| "message_matches i (AM_Connection (C_Invitation (Inv_PairwiseDID m))) = (msg_id m = i)"
| "message_matches i (AM_Connection (C_ProblemReport m)) =
     matches_thread_id (cprd_thread (msg_decorators m)) i"
| "message_matches i (AM_Connection (C_Request m)) =
     matches_opt_thread_id (od_thread (msg_decorators m)) i"
| "message_matches i (AM_Connection (C_Response m)) =
     matches_thread_id (kd_thread (msg_decorators m)) i"
| "message_matches i (AM_CredentialIssuance (CI_Ack m)) =
     matches_thread_id (td_thread (msg_decorators m)) i"
| "message_matches i (AM_CredentialIssuance (CI_IssueCredential m)) =
     matches_thread_id (kd_thread (msg_decorators m)) i"
| "message_matches i (AM_CredentialIssuance (CI_OfferCredential m)) =
     matches_opt_thread_id (od_thread (msg_decorators m)) i"
| "message_matches i (AM_CredentialIssuance (CI_ProposeCredential m)) =
     matches_opt_thread_id (od_thread (msg_decorators m)) i"
| "message_matches i (AM_CredentialIssuance (CI_RequestCredential m)) =
     matches_opt_thread_id (od_thread (msg_decorators m)) i"
| "message_matches i (AM_DiscoverFeatures (D_Query m)) = (msg_id m = i)"
| "message_matches i (AM_DiscoverFeatures (D_Disclose m)) =
     matches_thread_id (td_thread (msg_decorators m)) i"
| "message_matches i (AM_Notification (N_Ack m)) =
     matches_thread_id (td_thread (msg_decorators m)) i"
| "message_matches i (AM_Notification (N_ProblemReport m)) =
     matches_opt_thread_id (prd_thread (msg_decorators m)) i"
| "message_matches i (AM_OutOfBand (O_Invitation m)) = (msg_id m = i)"
| "message_matches i (AM_OutOfBand (O_HandshakeReuse m)) =
     matches_thread_id (td_thread (msg_decorators m)) i"
| "message_matches i (AM_OutOfBand (O_HandshakeReuseAccepted m)) =
     matches_thread_id (td_thread (msg_decorators m)) i"
| "message_matches i (AM_PresentProof (PP_Ack m)) =
     matches_thread_id (td_thread (msg_decorators m)) i"
| "message_matches i (AM_PresentProof (PP_Presentation m)) =
     matches_thread_id (kd_thread (msg_decorators m)) i"
| "message_matches i (AM_PresentProof (PP_ProposePresentation m)) =
     matches_opt_thread_id (od_thread (msg_decorators m)) i"
| "message_matches i (AM_PresentProof (PP_RequestPresentation m)) =
     matches_opt_thread_id (od_thread (msg_decorators m)) i"
| "message_matches i (AM_ReportProblem m) =
     matches_opt_thread_id (prd_thread (msg_decorators m)) i"
| "message_matches i (AM_Revocation (R_Revoke m)) =
     matches_opt_thread_id (rvd_thread (msg_decorators m)) i"
| "message_matches i (AM_Revocation (R_Ack m)) =
     matches_thread_id (td_thread (msg_decorators m)) i"
| "message_matches i (AM_Routing m) = (msg_id m = i)"
| "message_matches i (AM_TrustPing (T_Ping m)) =
     matches_opt_thread_id (od_thread (msg_decorators m)) i"
| "message_matches i (AM_TrustPing (T_PingResponse m)) =
     matches_thread_id (td_thread (msg_decorators m)) i"

definition thread_mismatch :: vcx_error where
  "thread_mismatch = AriesVcxError_from_msg InvalidJson
     ''Cannot handle message {:?}: thread id does not match, expected {:?}''"

definition util_verify_thread_id :: "string \<Rightarrow> AriesMessage \<Rightarrow> unit vcx_result" where
  "util_verify_thread_id thread_id message =
     (if \<not> message_matches thread_id message then Inl thread_mismatch else Inr ())"

datatype Status = Undefined | Success | Failed ProblemReport | Declined ProblemReport

fun Status_code :: "Status \<Rightarrow> 32 word" where
  "Status_code Undefined = 0"
| "Status_code Success = 1"
| "Status_code (Failed _) = 2"
| "Status_code (Declined _) = 3"

record OfferInfo =
  oi_credential_json :: string
  oi_cred_def_id :: string
  oi_rev_reg_id :: "string option"
  oi_tails_file :: "string option"

definition OfferInfo_new ::
    "string \<Rightarrow> string \<Rightarrow> string option \<Rightarrow> string option \<Rightarrow> OfferInfo" where
  "OfferInfo_new cj cd rr tf =
     \<lparr>oi_credential_json = cj, oi_cred_def_id = cd, oi_rev_reg_id = rr, oi_tails_file = tf\<rparr>"

record PresentationProposalData =
  ppd_attributes :: "PresentationAttr list"
  ppd_predicates :: "Predicate list"
  ppd_comment :: "string option"

definition build_problem_report_msg :: "string \<Rightarrow> string option \<Rightarrow> string \<Rightarrow> ProblemReport" where
  "build_problem_report_msg uuid comment thread_id =
     (let content = ProblemReportContent_new (unwrap_or comment []);
          decorators = ProblemReportDecorators_default\<lparr>prd_thread := Some (Thread_new thread_id)\<rparr>
      in MsgParts_with_decorators uuid content decorators)"

text \<open>
  The thread a message belongs to by the threading RFC: the \<open>thid\<close> of its thread decorator, or its
  own id when it has none. Used in the statements only.
\<close>

definition thid_or :: "string \<Rightarrow> Thread option \<Rightarrow> string" where
  "thid_or i o_t = (case o_t of Some t \<Rightarrow> thid t | None \<Rightarrow> i)"

fun effective_thid :: "AriesMessage \<Rightarrow> string" where
  "effective_thid (AM_CredentialIssuance (CI_OfferCredential m)) = thid_or (msg_id m) (od_thread (msg_decorators m))"
| "effective_thid (AM_CredentialIssuance (CI_ProposeCredential m)) = thid_or (msg_id m) (od_thread (msg_decorators m))"
| "effective_thid (AM_CredentialIssuance (CI_RequestCredential m)) = thid_or (msg_id m) (od_thread (msg_decorators m))"
| "effective_thid (AM_CredentialIssuance (CI_IssueCredential m)) = thid (kd_thread (msg_decorators m))"
| "effective_thid (AM_CredentialIssuance (CI_Ack m)) = thid (td_thread (msg_decorators m))"
| "effective_thid (AM_PresentProof (PP_ProposePresentation m)) = thid_or (msg_id m) (od_thread (msg_decorators m))"
| "effective_thid (AM_PresentProof (PP_RequestPresentation m)) = thid_or (msg_id m) (od_thread (msg_decorators m))"
| "effective_thid (AM_PresentProof (PP_Presentation m)) = thid (kd_thread (msg_decorators m))"
| "effective_thid (AM_PresentProof (PP_Ack m)) = thid (td_thread (msg_decorators m))"
| "effective_thid (AM_ReportProblem m) = thid_or (msg_id m) (prd_thread (msg_decorators m))"
| "effective_thid (AM_Notification (N_Ack m)) = thid (td_thread (msg_decorators m))"
| "effective_thid (AM_Notification (N_ProblemReport m)) = thid_or (msg_id m) (prd_thread (msg_decorators m))"
| "effective_thid (AM_Revocation (R_Revoke m)) = thid_or (msg_id m) (rvd_thread (msg_decorators m))"
| "effective_thid (AM_Revocation (R_Ack m)) = thid (td_thread (msg_decorators m))"
| "effective_thid (AM_Connection (C_Invitation (Inv_Public m))) = msg_id m"
| "effective_thid (AM_Connection (C_Invitation (Inv_Pairwise m))) = msg_id m"
| "effective_thid (AM_Connection (C_Invitation (Inv_PairwiseDID m))) = msg_id m"
| "effective_thid (AM_Connection (C_Request m)) = thid_or (msg_id m) (od_thread (msg_decorators m))"
| "effective_thid (AM_Connection (C_Response m)) = thid (kd_thread (msg_decorators m))"
| "effective_thid (AM_Connection (C_ProblemReport m)) = thid (cprd_thread (msg_decorators m))"
| "effective_thid (AM_OutOfBand (O_Invitation m)) = msg_id m"
| "effective_thid (AM_OutOfBand (O_HandshakeReuse m)) = thid (td_thread (msg_decorators m))"
| "effective_thid (AM_OutOfBand (O_HandshakeReuseAccepted m)) = thid (td_thread (msg_decorators m))"
| "effective_thid (AM_TrustPing (T_Ping m)) = thid_or (msg_id m) (od_thread (msg_decorators m))"
| "effective_thid (AM_TrustPing (T_PingResponse m)) = thid (td_thread (msg_decorators m))"
| "effective_thid (AM_DiscoverFeatures (D_Query m)) = msg_id m"
| "effective_thid (AM_DiscoverFeatures (D_Disclose m)) = thid (td_thread (msg_decorators m))"
| "effective_thid (AM_BasicMessage m) = thid_or (msg_id m) (bmd_thread (msg_decorators m))"
| "effective_thid (AM_Routing m) = msg_id m"

lemma thid_or_simps [simp]:
  "thid_or i None = i"
  "thid_or i (Some t) = thid t"
  by (simp_all add: thid_or_def)

lemma thread_new_fields [simp]:
  "thid (Thread_new i) = i"
  "pthid (Thread_new i) = None"
  by (simp_all add: Thread_new_def)

lemma matches_new [simp, thread_simps]:
  "matches_thread_id (Thread_new i) j \<longleftrightarrow> i = j"
  "matches_opt_thread_id None j"
  "matches_opt_thread_id (Some (Thread_new i)) j \<longleftrightarrow> i = j"
  by (simp_all add: matches_thread_id_def matches_opt_thread_id_def)

lemma matches_opt_Some [thread_simps]: "matches_opt_thread_id (Some t) i = matches_thread_id t i"
  by (simp add: matches_opt_thread_id_def matches_thread_id_def)

lemma problem_report_thread [simp]:
  "prd_thread (msg_decorators (build_problem_report_msg u c i)) = Some (Thread_new i)"
  "msg_id (build_problem_report_msg u c i) = u"
  "desc_code (pr_description (msg_content (build_problem_report_msg u c i))) = unwrap_or c []"
  by (simp_all add: build_problem_report_msg_def MsgParts_with_decorators_def
      ProblemReportContent_new_def Description_new_def)

lemma with_decorators_fields [simp]:
  "msg_id (MsgParts_with_decorators i c d) = i"
  "msg_content (MsgParts_with_decorators i c d) = c"
  "msg_decorators (MsgParts_with_decorators i c d) = d"
  by (simp_all add: MsgParts_with_decorators_def)

lemma status_code_Success_iff: "Status_code s = 1 \<longleftrightarrow> s = Success"
  by (cases s) auto

lemma effective_matches: "effective_thid m = i \<Longrightarrow> message_matches i m"
  by (induction m rule: effective_thid.induct)
     (auto simp: matches_thread_id_def matches_opt_thread_id_def split: option.splits)

lemma attach_roundtrip:
  assumes "b64dec (b64enc s) = Some s" "is_utf8 s"
  shows "get_attach_as_string b64dec (make_attach_from_str b64enc s i # rest) = Inr s"
  using assms
  by (simp add: get_attach_as_string_def make_attach_from_str_def Attachment_new_def
      AttachmentData_new_def)

end
