(* ===== verification/Runtime.thy ===== *)
theory Runtime
  imports Util
begin

text \<open>
  The effects of the asynchronous operations of aries_vcx.

  \<^item> \<open>runtime\<close> is what an operation reads and writes besides its arguments: the test-mode setting
    (\<open>settings::indy_mocks_enabled\<close>) and the two results that a test can preset
    (utils/mockdata/mock_settings.rs), the stream of fresh UUIDs and of clock readings, the opaque
    outside world \<open>'w\<close> (ledger, wallet, transport), and the log of the messages that the transport
    accepted. The log is a ghost: no operation reads it.
  \<^item> An operation is a function from the runtime to its \<open>VcxResult\<close> and the runtime after it; the
    await points are sequential, as in the code, which never runs two of them concurrently.
  \<^item> \<open>SendClosure\<close> (protocols/mod.rs) is a function on the outside world that may fail.
  \<^item> \<open>profile\<close> holds the trait objects \<open>BaseLedger\<close> and \<open>BaseAnonCreds\<close>
    (aries_vcx_core/src/ledger/base_ledger.rs, anoncreds/base_anoncreds.rs), \<open>mediated_connection\<close>
    the calls that the handlers make on \<open>MediatedConnection\<close>, \<open>lib\<close> the third-party functions
    (base64, serde_json, SHA-256 as a decimal number, bs58). They are arguments of the operations;
    the errors they return are those after the conversion that \<open>?\<close> applies.

  \<open>sends_only P m\<close> says that running \<open>m\<close> adds to the log only messages that satisfy \<open>P\<close>, and
  \<open>yields m Q\<close> that a successful result of \<open>m\<close> satisfies \<open>Q\<close>. Both have a rule per combinator, so
  the protocol properties follow by \<open>intro\<close> over the structure of an operation.
\<close>

record lib =
  lib_b64enc :: b64_encode
  lib_b64dec :: b64_decode
  lib_json_parse :: "string \<Rightarrow> json option"
  lib_json_print :: "json \<Rightarrow> string"
  lib_json_pretty :: "json \<Rightarrow> string"
  lib_sha256_dec :: "string \<Rightarrow> (string, string) result"
  lib_bs58 :: bs58_decode

record 'w runtime =
  rt_mocks :: bool
  rt_mock_generate_proof :: "string option"
  rt_mock_validate_proof :: "bool vcx_result option"
  rt_uuid :: "nat \<Rightarrow> string"
  rt_clock :: "nat \<Rightarrow> datetime"
  rt_draws :: nat
  rt_world :: 'w
  rt_outbox :: "AriesMessage list"

type_synonym ('w, 'a) vcx = "'w runtime \<Rightarrow> 'a vcx_result \<times> 'w runtime"
type_synonym ('w, 'a) ext = "'w \<Rightarrow> 'a vcx_result \<times> 'w"
type_synonym 'w SendClosure = "AriesMessage \<Rightarrow> ('w, unit) ext"

record 'w profile =
  ledger_get_schema :: "string \<Rightarrow> ('w, string) ext"
  ledger_get_cred_def :: "string \<Rightarrow> ('w, string) ext"
  ledger_get_rev_reg_def_json :: "string \<Rightarrow> ('w, string) ext"
  ledger_get_rev_reg_delta_json ::
    "string \<Rightarrow> 64 word option \<Rightarrow> 64 word option \<Rightarrow> ('w, string \<times> string \<times> 64 word) ext"
  ledger_get_rev_reg :: "string \<Rightarrow> 64 word \<Rightarrow> ('w, string \<times> string \<times> 64 word) ext"
  ac_issuer_create_credential_offer :: "string \<Rightarrow> ('w, string) ext"
  ac_issuer_create_credential ::
    "string \<Rightarrow> string \<Rightarrow> string \<Rightarrow> string option \<Rightarrow> string option
       \<Rightarrow> ('w, string \<times> string option \<times> string option) ext"
  ac_prover_create_credential_req ::
    "string \<Rightarrow> string \<Rightarrow> string \<Rightarrow> string \<Rightarrow> ('w, string \<times> string) ext"
  ac_prover_store_credential ::
    "string option \<Rightarrow> string \<Rightarrow> string \<Rightarrow> string \<Rightarrow> string option \<Rightarrow> ('w, string) ext"
  ac_prover_get_credential :: "string \<Rightarrow> ('w, string) ext"
  ac_prover_delete_credential :: "string \<Rightarrow> ('w, unit) ext"
  ac_prover_get_credentials_for_proof_req :: "string \<Rightarrow> ('w, string) ext"
  ac_create_revocation_state ::
    "string \<Rightarrow> string \<Rightarrow> string \<Rightarrow> 64 word \<Rightarrow> string \<Rightarrow> ('w, string) ext"
  ac_prover_create_proof ::
    "string \<Rightarrow> string \<Rightarrow> string \<Rightarrow> string \<Rightarrow> string \<Rightarrow> string option \<Rightarrow> ('w, string) ext"
  ac_verifier_verify_proof ::
    "string \<Rightarrow> string \<Rightarrow> string \<Rightarrow> string \<Rightarrow> string \<Rightarrow> string \<Rightarrow> ('w, bool) ext"
  ac_revoke_credential_local :: "string \<Rightarrow> string \<Rightarrow> string \<Rightarrow> ('w, unit) ext"
  ac_generate_nonce :: "('w, string) ext"

record 'w mediated_connection =
  mc_send_message_closure :: "('w, 'w SendClosure) ext"
  mc_get_messages :: "('w, (string \<times> AriesMessage) list) ext"
  mc_update_message_status :: "string \<Rightarrow> ('w, unit) ext"

definition DEFAULT_LINK_SECRET_ALIAS :: string where
  "DEFAULT_LINK_SECRET_ALIAS = ''main''"

definition vret :: "'a \<Rightarrow> ('w, 'a) vcx" where
  "vret a s = (Inr a, s)"

definition vfail :: "vcx_error \<Rightarrow> ('w, 'a) vcx" where
  "vfail e s = (Inl e, s)"

definition vbind :: "('w, 'a) vcx \<Rightarrow> ('a \<Rightarrow> ('w, 'b) vcx) \<Rightarrow> ('w, 'b) vcx" where
  "vbind m f s = (case m s of (Inl e, s') \<Rightarrow> (Inl e, s') | (Inr a, s') \<Rightarrow> f a s')"

definition vlift :: "'a vcx_result \<Rightarrow> ('w, 'a) vcx" where
  "vlift r s = (r, s)"

text \<open>A \<open>match\<close> on the result of a call instead of \<open>?\<close>.\<close>

definition vtry :: "('w, 'a) vcx \<Rightarrow> ('w, 'a vcx_result) vcx" where
  "vtry m s = (case m s of (r, s') \<Rightarrow> (Inr r, s'))"

definition vmap_err :: "(vcx_error \<Rightarrow> vcx_error) \<Rightarrow> ('w, 'a) vcx \<Rightarrow> ('w, 'a) vcx" where
  "vmap_err f m s = (case m s of (r, s') \<Rightarrow> (map_err f r, s'))"

definition mocks_enabled :: "('w, bool) vcx" where
  "mocks_enabled s = (Inr (rt_mocks s), s)"

definition get_mock_generate_indy_proof :: "('w, string option) vcx" where
  "get_mock_generate_indy_proof s = (Inr (rt_mock_generate_proof s), s)"

definition get_mock_result_for_validate_indy_proof :: "('w, bool vcx_result option) vcx" where
  "get_mock_result_for_validate_indy_proof s =
     (Inr (map_option (map_err (\<lambda>err. AriesVcxError_from_msg (vcx_kind err) (AriesVcxError_to_string err)))
        (rt_mock_validate_proof s)), s)"

text \<open>\<open>Uuid::new_v4().to_string()\<close> and \<open>Utc::now()\<close>: each reads its stream at the current position.\<close>

definition new_v4 :: "('w, string) vcx" where
  "new_v4 s = (Inr (rt_uuid s (rt_draws s)), s\<lparr>rt_draws := Suc (rt_draws s)\<rparr>)"

definition utc_now :: "('w, datetime) vcx" where
  "utc_now s = (Inr (rt_clock s (rt_draws s)), s\<lparr>rt_draws := Suc (rt_draws s)\<rparr>)"

definition call :: "('w, 'a) ext \<Rightarrow> ('w, 'a) vcx" where
  "call f s = (case f (rt_world s) of (r, w) \<Rightarrow> (r, s\<lparr>rt_world := w\<rparr>))"

definition send_message :: "'w SendClosure \<Rightarrow> AriesMessage \<Rightarrow> ('w, unit) vcx" where
  "send_message send m s =
     (case send m (rt_world s) of
        (Inl e, w) \<Rightarrow> (Inl e, s\<lparr>rt_world := w\<rparr>)
      | (Inr _, w) \<Rightarrow> (Inr (), s\<lparr>rt_world := w, rt_outbox := rt_outbox s @ [m]\<rparr>))"

text \<open>A \<open>Timing\<close> stamped with the current time, as every outgoing message has it.\<close>

definition out_timing :: "datetime \<Rightarrow> Timing" where
  "out_timing t = Timing_default\<lparr>out_time := Some t\<rparr>"

definition sends_only :: "(AriesMessage \<Rightarrow> bool) \<Rightarrow> ('w, 'a) vcx \<Rightarrow> bool" where
  "sends_only P m =
     (\<forall>s. \<exists>ms. rt_outbox (snd (m s)) = rt_outbox s @ ms \<and> list_all P ms)"

definition yields :: "('w, 'a) vcx \<Rightarrow> ('a \<Rightarrow> bool) \<Rightarrow> bool" where
  "yields m Q = (\<forall>s a s'. m s = (Inr a, s') \<longrightarrow> Q a)"

lemma run_simps:
  "vret a s = (Inr a, s)"
  "vfail e s = (Inl e, s)"
  "vlift r s = (r, s)"
  "new_v4 s = (Inr (rt_uuid s (rt_draws s)), s\<lparr>rt_draws := Suc (rt_draws s)\<rparr>)"
  "utc_now s = (Inr (rt_clock s (rt_draws s)), s\<lparr>rt_draws := Suc (rt_draws s)\<rparr>)"
  "mocks_enabled s = (Inr (rt_mocks s), s)"
  "get_mock_generate_indy_proof s = (Inr (rt_mock_generate_proof s), s)"
  by (simp_all add: get_mock_generate_indy_proof_def vret_def vfail_def vlift_def new_v4_def utc_now_def mocks_enabled_def)

lemma run_iffs [simp]:
  "vret a s = (r, t) \<longleftrightarrow> r = Inr a \<and> t = s"
  "vfail e s = (r, t) \<longleftrightarrow> r = Inl e \<and> t = s"
  "vlift r' s = (r, t) \<longleftrightarrow> r = r' \<and> t = s"
  "new_v4 s = (q, t) \<longleftrightarrow> q = Inr (rt_uuid s (rt_draws s)) \<and> t = s\<lparr>rt_draws := Suc (rt_draws s)\<rparr>"
  "utc_now s = (c, t) \<longleftrightarrow> c = Inr (rt_clock s (rt_draws s)) \<and> t = s\<lparr>rt_draws := Suc (rt_draws s)\<rparr>"
  "mocks_enabled s = (b, t) \<longleftrightarrow> b = Inr (rt_mocks s) \<and> t = s"
  by (auto simp: run_simps)

lemma vbind_run:
  "m s = (Inr a, s') \<Longrightarrow> vbind m f s = f a s'"
  "m s = (Inl e, s') \<Longrightarrow> vbind m f s = (Inl e, s')"
  by (simp_all add: vbind_def)

lemma vbind_Inr_iff:
  "vbind m f s = (Inr b, t) \<longleftrightarrow> (\<exists>a s'. m s = (Inr a, s') \<and> f a s' = (Inr b, t))"
  by (auto simp: vbind_def split: prod.splits sum.splits)

lemma send_message_Inr_iff:
  "send_message c m s = (Inr u, s') \<longleftrightarrow>
     (\<exists>w. c m (rt_world s) = (Inr (), w) \<and> s' = s\<lparr>rt_world := w, rt_outbox := rt_outbox s @ [m]\<rparr>)"
  by (auto simp: send_message_def split: prod.splits sum.splits)

lemma vtry_Inr_iff: "vtry m s = (Inr r, s') \<longleftrightarrow> m s = (r, s')"
  by (auto simp: vtry_def split: prod.splits)

lemma vbind_assoc: "vbind (vbind m f) g = vbind m (\<lambda>a. vbind (f a) g)"
  by (rule ext) (simp add: vbind_def split: prod.splits sum.splits)

lemma vbind_vret [simp]: "vbind (vret a) f = f a"
  by (rule ext) (simp add: vbind_def run_simps)

lemma vtry_run: "m s = (r, s') \<Longrightarrow> vtry m s = (Inr r, s')"
  by (simp add: vtry_def)

lemma sends_only_basic [simp, intro]:
  "sends_only P (vret a)"
  "sends_only P (vfail e)"
  "sends_only P (vlift r)"
  "sends_only P new_v4"
  "sends_only P utc_now"
  "sends_only P mocks_enabled"
  "sends_only P get_mock_generate_indy_proof"
  "sends_only P get_mock_result_for_validate_indy_proof"
  by (auto simp: sends_only_def run_simps get_mock_result_for_validate_indy_proof_def)

lemma sends_only_call [simp, intro]: "sends_only P (call f)"
  by (auto simp: sends_only_def call_def split: prod.splits)

lemma sends_only_send [intro]: "P m \<Longrightarrow> sends_only P (send_message c m)"
  by (auto simp: sends_only_def send_message_def split: prod.splits sum.splits)

lemma sends_only_bind [intro]:
  assumes "sends_only P m" "\<And>a. sends_only P (f a)"
  shows "sends_only P (vbind m f)"
  unfolding sends_only_def
proof
  fix s
  obtain r s' where m: "m s = (r, s')" by force
  obtain ms where ms: "rt_outbox s' = rt_outbox s @ ms" "list_all P ms"
    using assms(1) m unfolding sends_only_def by (metis snd_conv)
  show "\<exists>ms. rt_outbox (snd (vbind m f s)) = rt_outbox s @ ms \<and> list_all P ms"
  proof (cases r)
    case (Inl e)
    then show ?thesis using m ms by (auto simp: vbind_def)
  next
    case (Inr a)
    obtain ns where "rt_outbox (snd (f a s')) = rt_outbox s' @ ns" "list_all P ns"
      using assms(2) unfolding sends_only_def by blast
    then show ?thesis using Inr m ms by (auto simp: vbind_def intro: exI [of _ "ms @ ns"])
  qed
qed

lemma sends_only_try [intro]: "sends_only P m \<Longrightarrow> sends_only P (vtry m)"
  unfolding sends_only_def vtry_def by (metis (mono_tags, lifting) case_prod_beta snd_conv)

lemma sends_only_map_err [intro]: "sends_only P m \<Longrightarrow> sends_only P (vmap_err f m)"
  unfolding sends_only_def vmap_err_def by (metis (mono_tags, lifting) case_prod_beta snd_conv)

lemma sends_only_bind_yields:
  assumes "sends_only P m" "yields m R" "\<And>a. R a \<Longrightarrow> sends_only P (f a)"
  shows "sends_only P (vbind m f)"
  unfolding sends_only_def
proof
  fix s
  obtain r s' where m: "m s = (r, s')" by force
  obtain ms where ms: "rt_outbox s' = rt_outbox s @ ms" "list_all P ms"
    using assms(1) m unfolding sends_only_def by (metis snd_conv)
  show "\<exists>ms. rt_outbox (snd (vbind m f s)) = rt_outbox s @ ms \<and> list_all P ms"
  proof (cases r)
    case (Inl e)
    then show ?thesis using m ms by (auto simp: vbind_def)
  next
    case (Inr a)
    then have "R a" using assms(2) m by (auto simp: yields_def)
    then obtain ns where "rt_outbox (snd (f a s')) = rt_outbox s' @ ns" "list_all P ns"
      using assms(3) unfolding sends_only_def by blast
    then show ?thesis using Inr m ms by (auto simp: vbind_def intro: exI [of _ "ms @ ns"])
  qed
qed

lemma yields_basic [simp]:
  "yields (vret a) Q \<longleftrightarrow> Q a"
  "yields (vfail e) Q"
  "yields (vlift r) Q \<longleftrightarrow> (\<forall>a. r = Inr a \<longrightarrow> Q a)"
  by (auto simp: yields_def)

lemma yields_bind:
  assumes "yields m R" "\<And>a. R a \<Longrightarrow> yields (f a) Q"
  shows "yields (vbind m f) Q"
  using assms by (fastforce simp: yields_def vbind_Inr_iff)

lemma yields_bind_any [intro]: "(\<And>a. yields (f a) Q) \<Longrightarrow> yields (vbind m f) Q"
  by (fastforce simp: yields_def vbind_Inr_iff)

lemma yields_try: "yields m Q \<Longrightarrow> yields (vtry m) (\<lambda>r. case r of Inr a \<Rightarrow> Q a | Inl _ \<Rightarrow> True)"
  by (auto simp: yields_def vtry_Inr_iff split: sum.splits)

text \<open>A call whose result is inspected, followed by a continuation that may use what it yields.\<close>

lemma sends_only_try_bind:
  assumes "sends_only P m" "yields m Q"
    and "\<And>a. Q a \<Longrightarrow> sends_only P (f (Inr a))" "\<And>e. sends_only P (f (Inl e))"
  shows "sends_only P (vbind (vtry m) f)"
proof (rule sends_only_bind_yields [OF sends_only_try [OF assms(1)] yields_try [OF assms(2)]])
  fix r :: "_ vcx_result" assume "case r of Inr a \<Rightarrow> Q a | Inl _ \<Rightarrow> True"
  then show "sends_only P (f r)" using assms(3,4) by (cases r) auto
qed

lemma call_Inr_iff: "call f s = (Inr a, s') \<longleftrightarrow> (\<exists>w. f (rt_world s) = (Inr a, w) \<and> s' = s\<lparr>rt_world := w\<rparr>)"
  by (auto simp: call_def split: prod.splits)

lemma yieldsD: "yields m Q \<Longrightarrow> m s = (Inr a, s') \<Longrightarrow> Q a"
  by (auto simp: yields_def)

lemma sends_onlyD:
  assumes "sends_only P m" "m s = (r, s')"
  shows "\<exists>ms. rt_outbox s' = rt_outbox s @ ms \<and> (\<forall>x \<in> set ms. P x)"
  using assms unfolding sends_only_def list_all_iff by (metis snd_conv)

subsection \<open>A concrete environment\<close>

text \<open>
  One instance of the parameters, for evaluating the operations on concrete inputs: codecs that are
  the identity, a ledger and an anoncreds library that always answer, a transport that accepts.
\<close>

definition demo_lib :: lib where
  "demo_lib = \<lparr>lib_b64enc = (\<lambda>s. s), lib_b64dec = Some,
     lib_json_parse = (\<lambda>s. Some (JObject [(''cred_def_id'', JString ''cd'')])),
     lib_json_print = (\<lambda>_. ''{}''), lib_json_pretty = (\<lambda>_. ''{}''), lib_sha256_dec = (\<lambda>s. Inr ''0''),
     lib_bs58 = (\<lambda>s. Inr (replicate 32 (CHR ''k'')))\<rparr>"

definition demo_runtime :: "unit runtime" where
  "demo_runtime = \<lparr>rt_mocks = False, rt_mock_generate_proof = None, rt_mock_validate_proof = None, rt_uuid = nat_to_string, rt_clock = (\<lambda>n. n), rt_draws = 0,
     rt_world = (), rt_outbox = []\<rparr>"

definition demo_send :: "unit SendClosure" where
  "demo_send m w = (Inr (), w)"

definition demo_profile :: "unit profile" where
  "demo_profile = \<lparr>ledger_get_schema = (\<lambda>_ w. (Inr ''schema'', w)),
     ledger_get_cred_def = (\<lambda>_ w. (Inr ''creddef'', w)),
     ledger_get_rev_reg_def_json = (\<lambda>_ w. (Inr ''revregdef'', w)),
     ledger_get_rev_reg_delta_json = (\<lambda>i _ _ w. (Inr (i, ''delta'', 0), w)),
     ledger_get_rev_reg = (\<lambda>i t w. (Inr (i, ''revreg'', t), w)),
     ac_issuer_create_credential_offer = (\<lambda>_ w. (Inr ''offer'', w)),
     ac_issuer_create_credential = (\<lambda>_ _ _ _ _ w. (Inr (''cred'', Some ''1'', None), w)),
     ac_prover_create_credential_req = (\<lambda>_ _ _ _ w. (Inr (''req'', ''meta''), w)),
     ac_prover_store_credential = (\<lambda>_ _ _ _ _ w. (Inr ''credid'', w)),
     ac_prover_get_credential = (\<lambda>_ w. (Inr ''cred'', w)),
     ac_prover_delete_credential = (\<lambda>_ w. (Inr (), w)),
     ac_prover_get_credentials_for_proof_req = (\<lambda>_ w. (Inr ''creds'', w)),
     ac_create_revocation_state = (\<lambda>_ _ _ _ _ w. (Inr ''state'', w)),
     ac_prover_create_proof = (\<lambda>_ _ _ _ _ _ w. (Inr ''proof'', w)),
     ac_verifier_verify_proof = (\<lambda>_ _ _ _ _ _ w. (Inr True, w)),
     ac_revoke_credential_local = (\<lambda>_ _ _ w. (Inr (), w)),
     ac_generate_nonce = (\<lambda>w. (Inr ''123'', w))\<rparr>"

lemmas demo_defs = demo_lib_def demo_runtime_def demo_send_def demo_profile_def

end
