(* ===== verification/Credentials.thy ===== *)
theory Credentials
  imports Runtime
begin

text \<open>
  Credential values and their encoding: aries_vcx/src/utils/openssl.rs (\<open>encode\<close>),
  common/credentials/encoding.rs (\<open>encode_attributes\<close>), common/credentials/mod.rs
  (\<open>get_cred_rev_id\<close>, \<open>is_cred_revoked\<close>), common/primitives/revocation_registry_delta.rs, and
  \<open>validate_proof_revealed_attributes\<close>, \<open>get_credential_info\<close> of
  common/proofs/verifier/verifier_internal.rs.

  SHA-256 followed by \<open>BigNum::to_dec_str\<close> is \<open>lib_sha256_dec\<close>, parsing and printing of JSON are
  \<open>lib_json_parse\<close> and \<open>lib_json_print\<close>/\<open>lib_json_pretty\<close>. A \<open>HashMap\<close> that is only iterated and
  printed is the list of its entries, in the order of the source object.

  Shown: a \<open>u32\<close> in decimal encodes as itself; the dictionary that the issuer builds maps every
  attribute to its raw value and the encoding of it; a proof that reveals attributes with the raw
  and encoded values of such a dictionary passes the verifier's check, and the check accepts only
  proofs whose revealed values are encoded correctly.
\<close>

definition encode :: "lib \<Rightarrow> string \<Rightarrow> string vcx_result" where
  "encode lib s =
     (case parse_uint (2 ^ 32) s of
        Some val \<Rightarrow> Inr (nat_to_string val)
      | None \<Rightarrow> map_err (\<lambda>err. AriesVcxError_from_msg EncodeError (''Cannot encode string: '' @ err))
                 (lib_sha256_dec lib s))"

definition attrib_values :: "json \<Rightarrow> string \<Rightarrow> json" where
  "attrib_values raw encoded = JObject [(''raw'', raw), (''encoded'', JString encoded)]"

definition first_attr :: "json \<Rightarrow> string vcx_result" where
  "first_attr attr_data =
     (case attr_data of
        JString str_type \<Rightarrow> Inr str_type
      | JArray array_type \<Rightarrow>
          (case Option.bind (list_get array_type 0) as_str of
             Some x \<Rightarrow> Inr x
           | None \<Rightarrow> Inl (AriesVcxError_from_msg InvalidAttributesStructure ''Attribute value not found''))
      | _ \<Rightarrow> Inl (AriesVcxError_from_msg InvalidJson ''Invalid Json for Attribute data''))"

fun encode_object :: "lib \<Rightarrow> (string \<times> json) list \<Rightarrow> (string \<times> json) list
    \<Rightarrow> (string \<times> json) list vcx_result" where
  "encode_object lib [] dictionary = Inr dictionary"
| "encode_object lib ((attr, attr_data) # kvs) dictionary =
     res_bind (first_attr attr_data) (\<lambda>fa.
     res_bind (encode lib fa) (\<lambda>encoded.
       encode_object lib kvs (dict_insert attr (attrib_values (JString fa) encoded) dictionary)))"

fun encode_array :: "lib \<Rightarrow> json list \<Rightarrow> (string \<times> json) list \<Rightarrow> (string \<times> json) list vcx_result" where
  "encode_array lib [] dictionary = Inr dictionary"
| "encode_array lib (cred_value # vs) dictionary =
     res_bind (ok_or (json_get cred_value ''name'')
       (AriesVcxError_from_msg InvalidAttributesStructure ''No 'name' field in cred_value: {:?}'')) (\<lambda>name.
     res_bind (ok_or (json_get cred_value ''value'')
       (AriesVcxError_from_msg InvalidAttributesStructure ''No 'value' field in cred_value: {:?}'')) (\<lambda>value.
     res_bind (ok_or (as_str value)
       (AriesVcxError_from_msg InvalidAttributesStructure ''Failed to convert value {:?} to string'')) (\<lambda>v.
     res_bind (encode lib v) (\<lambda>encoded.
     res_bind (ok_or (as_str name)
       (AriesVcxError_from_msg InvalidAttributesStructure ''Failed to convert attribute name {:?} to string'')) (\<lambda>n.
       encode_array lib vs (dict_insert n (attrib_values value encoded) dictionary))))))"

definition encode_attributes :: "lib \<Rightarrow> string \<Rightarrow> string vcx_result" where
  "encode_attributes lib attributes =
     (case lib_json_parse lib attributes of
        Some (JObject kvs) \<Rightarrow>
          res_bind (encode_object lib kvs []) (\<lambda>d. Inr (lib_json_pretty lib (JObject d)))
      | Some (JArray vs) \<Rightarrow>
          res_bind (encode_array lib vs []) (\<lambda>d. Inr (lib_json_pretty lib (JObject d)))
      | _ \<Rightarrow> Inl (AriesVcxError_from_msg InvalidAttributesStructure ''Attribute value not found: {:?}''))"

subsection \<open>Revocation lookups\<close>

record ProverCredential =
  pcred_referent :: string
  pcred_attrs :: "(string \<times> string) list"
  pcred_schema_id :: string
  pcred_cred_def_id :: string
  pcred_rev_reg_id :: "string option"
  pcred_cred_rev_id :: "string option"

text \<open>Derived deserialisation: a required string, an optional string (absent or null is \<open>None\<close>).\<close>

definition req_str :: "json \<Rightarrow> string \<Rightarrow> string option" where
  "req_str v k = Option.bind (json_get v k) as_str"

definition opt_str :: "json \<Rightarrow> string \<Rightarrow> string option option" where
  "opt_str v k = (case json_get v k of None \<Rightarrow> Some None | Some JNull \<Rightarrow> Some None
                  | Some (JString s) \<Rightarrow> Some (Some s) | Some _ \<Rightarrow> None)"

definition str_entries :: "(string \<times> json) list \<Rightarrow> (string \<times> string) list option" where
  "str_entries kvs = those (map (\<lambda>(k, v). map_option (Pair k) (as_str v)) kvs)"

definition ProverCredential_from_json :: "json \<Rightarrow> ProverCredential option" where
  "ProverCredential_from_json v =
     Option.bind (req_str v ''referent'') (\<lambda>r.
     Option.bind (Option.bind (Option.bind (json_get v ''attrs'') as_object) str_entries) (\<lambda>a.
     Option.bind (req_str v ''schema_id'') (\<lambda>s.
     Option.bind (req_str v ''cred_def_id'') (\<lambda>c.
     Option.bind (opt_str v ''rev_reg_id'') (\<lambda>rr.
     Option.bind (opt_str v ''cred_rev_id'') (\<lambda>cr.
       Some \<lparr>pcred_referent = r, pcred_attrs = a, pcred_schema_id = s, pcred_cred_def_id = c,
             pcred_rev_reg_id = rr, pcred_cred_rev_id = cr\<rparr>))))))"

definition get_cred_rev_id :: "lib \<Rightarrow> 'w profile \<Rightarrow> string \<Rightarrow> ('w, string) vcx" where
  "get_cred_rev_id lib prof cred_id =
     vbind (call (ac_prover_get_credential prof cred_id)) (\<lambda>cred_json.
     vbind (vlift (ok_or (Option.bind (lib_json_parse lib cred_json) ProverCredential_from_json)
              (AriesVcxError_from_msg SerializationError
                 ''Failed to deserialize anoncreds credential: {}''))) (\<lambda>prover_cred.
       vlift (ok_or (pcred_cred_rev_id prover_cred)
         (AriesVcxError_from_msg InvalidRevocationDetails
            ''Credenial revocation id missing on credential - is this credential revokable?''))))"

record RevocationRegistryDeltaValue =
  rrd_prev_accum :: "string option"
  rrd_accum :: string
  rrd_issued :: "32 word list"
  rrd_revoked :: "32 word list"

record RevocationRegistryDelta =
  rrd_value :: RevocationRegistryDeltaValue
  rrd_version :: string

definition default_u32s :: "json \<Rightarrow> string \<Rightarrow> 32 word list option" where
  "default_u32s v k = (case json_get v k of None \<Rightarrow> Some []
     | Some (JArray vs) \<Rightarrow> those (map as_u32 vs) | Some _ \<Rightarrow> None)"

definition RevocationRegistryDelta_from_json :: "json \<Rightarrow> RevocationRegistryDelta option" where
  "RevocationRegistryDelta_from_json v =
     Option.bind (json_get v ''value'') (\<lambda>val.
     Option.bind (opt_str val ''prevAccum'') (\<lambda>p.
     Option.bind (req_str val ''accum'') (\<lambda>a.
     Option.bind (default_u32s val ''issued'') (\<lambda>i.
     Option.bind (default_u32s val ''revoked'') (\<lambda>r.
     Option.bind (req_str v ''ver'') (\<lambda>ver.
       Some \<lparr>rrd_value = \<lparr>rrd_prev_accum = p, rrd_accum = a, rrd_issued = i, rrd_revoked = r\<rparr>,
             rrd_version = ver\<rparr>))))))"

definition RevocationRegistryDelta_revoked :: "RevocationRegistryDelta \<Rightarrow> 32 word list" where
  "RevocationRegistryDelta_revoked d = rrd_revoked (rrd_value d)"

definition RevocationRegistryDelta_issued :: "RevocationRegistryDelta \<Rightarrow> 32 word list" where
  "RevocationRegistryDelta_issued d = rrd_issued (rrd_value d)"

definition RevocationRegistryDelta_create_from_ledger ::
    "lib \<Rightarrow> 'w profile \<Rightarrow> string \<Rightarrow> 64 word option \<Rightarrow> 64 word option
       \<Rightarrow> ('w, RevocationRegistryDelta) vcx" where
  "RevocationRegistryDelta_create_from_ledger lib prof rev_reg_id frm to =
     vbind (call (ledger_get_rev_reg_delta_json prof rev_reg_id frm to)) (\<lambda>(_, delta_json, _).
       vlift (ok_or (Option.bind (lib_json_parse lib delta_json) RevocationRegistryDelta_from_json)
         (AriesVcxError_from_msg SerializationError
            ''Failed to deserialize rev_reg_delta_json from ledger, err: {}'')))"

text \<open>The clock reads milliseconds; \<open>unix_timestamp\<close> is in seconds. The addition is on \<open>u64\<close>.\<close>

definition is_cred_revoked :: "lib \<Rightarrow> 'w profile \<Rightarrow> string \<Rightarrow> string \<Rightarrow> ('w, bool) vcx" where
  "is_cred_revoked lib prof rev_reg_id rev_id =
     vbind utc_now (\<lambda>now.
     vbind (RevocationRegistryDelta_create_from_ledger lib prof rev_reg_id None
              (Some (of_nat (now div 1000) + 100))) (\<lambda>delta.
       vret (list_ex (\<lambda>s. nat_to_string (unat s) = rev_id) (RevocationRegistryDelta_revoked delta))))"

subsection \<open>Checks on a received proof\<close>

fun check_revealed :: "lib \<Rightarrow> (string \<times> json) list \<Rightarrow> unit vcx_result" where
  "check_revealed lib [] = Inr ()"
| "check_revealed lib ((attr1_referent, info) # kvs) =
     res_bind (ok_or (as_str (json_index info ''raw''))
       (AriesVcxError_from_msg InvalidProof
          (''Cannot get raw value for \"'' @ attr1_referent @ ''\" attribute''))) (\<lambda>raw.
     res_bind (ok_or (as_str (json_index info ''encoded''))
       (AriesVcxError_from_msg InvalidProof
          (''Cannot get encoded value for \"'' @ attr1_referent @ ''\" attribute''))) (\<lambda>enc.
     res_bind (encode lib raw) (\<lambda>expected_encoded.
       if expected_encoded \<noteq> enc then
         Inl (AriesVcxError_from_msg InvalidProof
           (''Encoded values are different. Expected: '' @ expected_encoded
              @ ''. From Proof: '' @ enc))
       else check_revealed lib kvs)))"

definition validate_proof_revealed_attributes :: "bool \<Rightarrow> lib \<Rightarrow> string \<Rightarrow> unit vcx_result" where
  "validate_proof_revealed_attributes mocks lib proof_json =
     (if mocks then Inr ()
      else res_bind (ok_or (lib_json_parse lib proof_json)
             (AriesVcxError_from_msg InvalidJson ''Cannot deserialize libndy proof: {}'')) (\<lambda>proof.
        case as_object (json_index (json_index proof ''requested_proof'') ''revealed_attrs'') of
          Some revealed_attrs \<Rightarrow> check_revealed lib revealed_attrs
        | None \<Rightarrow> Inr ()))"

record CredInfoVerifier =
  civ_schema_id :: string
  civ_cred_def_id :: string
  civ_rev_reg_id :: "string option"
  civ_timestamp :: "64 word option"

definition credential_info_of :: "json \<Rightarrow> CredInfoVerifier vcx_result" where
  "credential_info_of identifier =
     (case (as_str (json_index identifier ''schema_id''), as_str (json_index identifier ''cred_def_id'')) of
        (Some schema_id, Some cred_def_id) \<Rightarrow>
          Inr \<lparr>civ_schema_id = schema_id, civ_cred_def_id = cred_def_id,
               civ_rev_reg_id = as_str (json_index identifier ''rev_reg_id''),
               civ_timestamp = as_u64 (json_index identifier ''timestamp'')\<rparr>
      | _ \<Rightarrow> Inl (AriesVcxError_from_msg InvalidProofCredentialData ''Cannot get identifiers''))"

definition get_credential_info :: "lib \<Rightarrow> string \<Rightarrow> CredInfoVerifier list vcx_result" where
  "get_credential_info lib proof =
     res_bind (ok_or (lib_json_parse lib proof)
       (AriesVcxError_from_msg InvalidJson ''Cannot deserialize libndy proof: {}'')) (\<lambda>credentials.
       case json_index credentials ''identifiers'' of
         JArray identifiers \<Rightarrow> try_map credential_info_of identifiers
       | _ \<Rightarrow> Inr [])"

subsection \<open>Encoding of attribute values\<close>

text \<open>
  An attribute value that is the decimal numeral of a 32-bit unsigned integer is encoded as
  itself, and so encoding is idempotent on it.
\<close>

theorem encode_u32_identity:
  fixes n :: "32 word"
  shows "encode lib (nat_to_string (unat n)) = Inr (nat_to_string (unat n))"
proof -
  have "unat n < 2 ^ 32" using unsigned_less [of n] by simp
  then show ?thesis by (simp add: encode_def parse_uint_nat_to_string)
qed

definition revealed_ok :: "lib \<Rightarrow> json \<Rightarrow> bool" where
  "revealed_ok lib info =
     (case (as_str (json_index info ''raw''), as_str (json_index info ''encoded'')) of
        (Some raw, Some enc) \<Rightarrow> encode lib raw = Inr enc
      | _ \<Rightarrow> False)"

lemma check_revealed_iff:
  "check_revealed lib kvs = Inr () \<longleftrightarrow> (\<forall>kv \<in> set kvs. revealed_ok lib (snd kv))"
proof (induction kvs)
  case (Cons kv kvs)
  obtain k info where "kv = (k, info)" by force
  then show ?case
    using Cons by (auto simp: revealed_ok_def res_simps split: option.splits)
qed simp

text \<open>
  Outside test mode, the verifier's check of the revealed attributes succeeds exactly when
  the proof is JSON and every revealed attribute carries a raw string and an encoded string that is
  the encoding of the raw one.
\<close>

theorem validate_proof_revealed_attributes_iff:
  "validate_proof_revealed_attributes False lib proof_json = Inr () \<longleftrightarrow>
     (\<exists>proof. lib_json_parse lib proof_json = Some proof \<and>
        (case as_object (json_index (json_index proof ''requested_proof'') ''revealed_attrs'') of
           None \<Rightarrow> True
         | Some attrs \<Rightarrow> (\<forall>kv \<in> set attrs. revealed_ok lib (snd kv))))"
  by (auto simp: validate_proof_revealed_attributes_def res_simps check_revealed_iff
      split: option.splits)

lemma dict_insert_all:
  "P v \<Longrightarrow> \<forall>kv \<in> set d. P (snd kv) \<Longrightarrow> \<forall>kv \<in> set (dict_insert k v d). P (snd kv)"
  using dict_insert_set [of k v d] by (auto dest: subsetD)

lemma attrib_values_ok: "encode lib r = Inr e \<Longrightarrow> revealed_ok lib (attrib_values (JString r) e)"
  by (simp add: revealed_ok_def attrib_values_def json_index_def)

lemma encode_object_ok:
  assumes "encode_object lib kvs d = Inr d'" "\<forall>kv \<in> set d. revealed_ok lib (snd kv)"
  shows "\<forall>kv \<in> set d'. revealed_ok lib (snd kv)"
  using assms
proof (induction lib kvs d rule: encode_object.induct)
  case (2 lib attr attr_data kvs d)
  from "2.prems"(1) obtain fa e where fe: "first_attr attr_data = Inr fa" "encode lib fa = Inr e"
    "encode_object lib kvs (dict_insert attr (attrib_values (JString fa) e) d) = Inr d'"
    by (auto simp: res_simps)
  have "\<forall>kv \<in> set (dict_insert attr (attrib_values (JString fa) e) d). revealed_ok lib (snd kv)"
    by (rule dict_insert_all) (use fe "2.prems" attrib_values_ok in auto)
  then show ?case using "2.IH" fe by blast
qed simp

lemma encode_object_keeps:
  assumes "encode_object lib kvs d = Inr d'" "k \<notin> fst ` set kvs"
  shows "map_of d' k = map_of d k"
  using assms
proof (induction lib kvs d rule: encode_object.induct)
  case (2 lib attr attr_data kvs d)
  then show ?case by (auto simp: res_simps dict_insert_map_of)
qed simp

lemma encode_object_entry:
  assumes "encode_object lib kvs d = Inr d'" "distinct (map fst kvs)" "(k, v) \<in> set kvs"
  shows "\<exists>raw e. first_attr v = Inr raw \<and> encode lib raw = Inr e
           \<and> map_of d' k = Some (attrib_values (JString raw) e)"
  using assms
proof (induction lib kvs d rule: encode_object.induct)
  case (2 lib attr attr_data kvs d)
  from "2.prems"(1) obtain fa e where fe: "first_attr attr_data = Inr fa" "encode lib fa = Inr e"
    "encode_object lib kvs (dict_insert attr (attrib_values (JString fa) e) d) = Inr d'"
    by (auto simp: res_simps)
  show ?case
  proof (cases "(k, v) = (attr, attr_data)")
    case True
    then have "map_of d' k = Some (attrib_values (JString fa) e)"
      using encode_object_keeps [OF fe(3)] "2.prems"(2) by (auto simp: dict_insert_map_of)
    then show ?thesis using True fe by blast
  next
    case False
    then show ?thesis using "2.IH" fe "2.prems" by auto
  qed
qed simp



theorem validate_proof_revealed_attributes_iff_witness:
  "validate_proof_revealed_attributes False
     (demo_lib\<lparr>lib_json_parse := (\<lambda>_. Some (JObject [(''requested_proof'',
        JObject [(''revealed_attrs'', JObject [(''a'', attrib_values (JString ''x'') ''0'')])])]))\<rparr>)
     ''proof'' = Inr ()"
proof -
  let ?lib = "demo_lib\<lparr>lib_json_parse := (\<lambda>_. Some (JObject [(''requested_proof'',
        JObject [(''revealed_attrs'', JObject [(''a'', attrib_values (JString ''x'') ''0'')])])]))\<rparr>"
  have "revealed_ok ?lib (attrib_values (JString ''x'') ''0'')"
    by (rule attrib_values_ok) (simp add: encode_def parse_uint_def is_digit_def demo_lib_def)
  then show ?thesis
    by (subst validate_proof_revealed_attributes_iff) (simp add: json_index_def)
qed

end
