(* ===== verification/Machines.thy ===== *)
theory Machines
  imports Runtime
begin

text \<open>
  What the four protocol state machines (issuer, holder, prover, verifier) promise to the handlers
  that drive them, as three interfaces.

  \<^item> \<open>final_machine\<close>: \<open>handle\<close> is \<open>handle_message\<close> (or \<open>step\<close>), \<open>terminal\<close> is \<open>is_terminal_state\<close>; a
    finished machine does not move. All four machines keep this.
  \<^item> \<open>protocol_machine\<close> extends it: \<open>tid\<close> is the thread id, \<open>settled\<close> the states in which the thread id
    is final, \<open>own\<close> the messages a machine may send on its thread. A finished machine does not speak
    either; a settled machine keeps its thread id; whatever is sent belongs to the thread. Issuer,
    holder and prover keep this; the verifier does not (it may acknowledge when finished, and it
    changes its thread when it rejects a counter-proposal that carries no thread).
  \<^item> \<open>message_router\<close>: \<open>accepts\<close> is the condition of \<open>find_message_to_handle\<close>, \<open>guarded\<close> the states
    whose condition looks at the thread.

  \<open>run_actions\<close> applies \<open>handle\<close> to a sequence of actions, stopping at the first error as the
  handlers do; \<open>find_message\<close> is the loop of \<open>find_message_to_handle\<close> over the received messages.
\<close>

fun run_actions :: "('sm \<Rightarrow> 'act \<Rightarrow> ('w, 'sm) vcx) \<Rightarrow> 'sm \<Rightarrow> 'act list \<Rightarrow> ('w, 'sm) vcx" where
  "run_actions h m [] = vret m"
| "run_actions h m (a # as) = vbind (h m a) (\<lambda>m'. run_actions h m' as)"

fun find_message :: "('m \<Rightarrow> bool) \<Rightarrow> (string \<times> 'm) list \<Rightarrow> (string \<times> 'm) option" where
  "find_message acc [] = None"
| "find_message acc ((uid, message) # rest) =
     (if acc message then Some (uid, message) else find_message acc rest)"

lemma find_message_SomeD:
  "find_message acc ms = Some (uid, m) \<Longrightarrow> (uid, m) \<in> set ms \<and> acc m"
  by (induction ms) (auto split: if_splits)

lemma find_message_None_iff: "find_message acc ms = None \<longleftrightarrow> (\<forall>x \<in> set ms. \<not> acc (snd x))"
  by (induction ms) (auto split: if_splits)

lemma find_message_first:
  assumes "find_message acc ms = Some x"
  shows "\<exists>pre post. ms = pre @ x # post \<and> (\<forall>y \<in> set pre. \<not> acc (snd y))"
  using assms
proof (induction ms)
  case (Cons y ms)
  obtain u m where y: "y = (u, m)" by force
  show ?case
  proof (cases "acc m")
    case True
    then show ?thesis using Cons.prems y by (intro exI [of _ "[]"] exI [of _ ms]) auto
  next
    case False
    then obtain pre post where "ms = pre @ x # post" "\<forall>y \<in> set pre. \<not> acc (snd y)"
      using Cons y by auto
    then show ?thesis using False y by (intro exI [of _ "y # pre"] exI [of _ post]) auto
  qed
qed simp

definition in_thread :: "string \<Rightarrow> AriesMessage \<Rightarrow> bool" where
  "in_thread i m = (effective_thid m = i)"

subsection \<open>Handlers\<close>

text \<open>
  A handler object (aries_vcx/src/handlers) owns a machine and replaces it only when the machine's
  operation succeeds: \<open>self.sm = self.sm.clone().op(..)?\<close>. A method on \<open>&mut self\<close> is a function
  from the object and the runtime to the result, the object and the runtime after the call.
\<close>

type_synonym ('sm, 'w, 'a) hop = "'sm \<Rightarrow> 'w runtime \<Rightarrow> 'a vcx_result \<times> 'sm \<times> 'w runtime"

definition hret :: "'a \<Rightarrow> ('sm, 'w, 'a) hop" where
  "hret a self s = (Inr a, self, s)"

definition hbind :: "('sm, 'w, 'a) hop \<Rightarrow> ('a \<Rightarrow> ('sm, 'w, 'b) hop) \<Rightarrow> ('sm, 'w, 'b) hop" where
  "hbind m f self s = (case m self s of
     (Inl e, self', s') \<Rightarrow> (Inl e, self', s') | (Inr a, self', s') \<Rightarrow> f a self' s')"

definition hlift :: "('w, 'a) vcx \<Rightarrow> ('sm, 'w, 'a) hop" where
  "hlift m self s = (case m s of (r, s') \<Rightarrow> (r, self, s'))"

definition hget :: "('sm \<Rightarrow> 'a) \<Rightarrow> ('sm, 'w, 'a) hop" where
  "hget f self s = (Inr (f self), self, s)"

definition hstore :: "('sm \<Rightarrow> ('w, 'sm) vcx) \<Rightarrow> ('sm, 'w, unit) hop" where
  "hstore op self s = (case op self s of
     (Inl e, s') \<Rightarrow> (Inl e, self, s') | (Inr sm, s') \<Rightarrow> (Inr (), sm, s'))"

text \<open>
  The body of \<open>update_state\<close>, the same in the handlers: nothing in a final state; otherwise take the
  messages of the connection, hand the first acceptable one to the machine and mark it as read.
\<close>

definition handler_update_state ::
    "('sm \<Rightarrow> bool) \<Rightarrow> ('sm \<Rightarrow> 'st) \<Rightarrow> ('sm \<Rightarrow> AriesMessage \<Rightarrow> bool) \<Rightarrow> (AriesMessage \<Rightarrow> 'act)
       \<Rightarrow> ('w SendClosure option \<Rightarrow> 'sm \<Rightarrow> 'act \<Rightarrow> ('w, 'sm) vcx) \<Rightarrow> 'w mediated_connection
       \<Rightarrow> ('sm, 'w, 'st) hop" where
  "handler_update_state terminal get_state accepts conv handle connection =
     hbind (hget terminal) (\<lambda>done.
       if done then hget get_state
       else
         hbind (hlift (call (mc_send_message_closure connection))) (\<lambda>send_closure.
         hbind (hlift (call (mc_get_messages connection))) (\<lambda>messages.
         hbind (hget (\<lambda>self. find_message (accepts self) messages)) (\<lambda>found.
           case found of
             Some (uid, msg) \<Rightarrow>
               hbind (hstore (\<lambda>self. handle (Some send_closure) self (conv msg))) (\<lambda>_.
               hbind (hlift (call (mc_update_message_status connection uid))) (\<lambda>_.
                 hget get_state))
           | None \<Rightarrow> hget get_state))))"

lemma hstore_error_keeps: "hstore op self s = (Inl e, self', s') \<Longrightarrow> self' = self"
  by (auto simp: hstore_def split: prod.splits sum.splits)

text \<open>
  A machine that a call of \<open>update_state\<close> leaves behind is the old one, or the result of one
  successful \<open>handle\<close> on a message of the connection that the machine accepts.
\<close>

lemma handler_update_state_step:
  assumes "handler_update_state terminal get_state accepts conv handle connection self s
             = (r, self', s')"
  shows "self' = self \<or>
    (\<not> terminal self \<and> (\<exists>c msg t t'. accepts self msg \<and> handle (Some c) self (conv msg) t = (Inr self', t')))"
proof (cases "terminal self")
  case True
  then show ?thesis using assms by (simp add: handler_update_state_def hbind_def hget_def)
next
  case False
  show ?thesis
    using assms False
    unfolding handler_update_state_def hbind_def hget_def hlift_def hstore_def
    by (auto split: prod.splits sum.splits option.splits dest!: find_message_SomeD)
qed

locale final_machine =
  fixes handle :: "'sm \<Rightarrow> 'act \<Rightarrow> ('w, 'sm) vcx"
    and terminal :: "'sm \<Rightarrow> bool"
  assumes terminal_stays: "terminal m \<Longrightarrow> yields (handle m a) (\<lambda>m'. m' = m)"
begin

lemma run_terminal: "terminal m \<Longrightarrow> yields (run_actions handle m as) (\<lambda>m'. m' = m)"
proof (induction as)
  case (Cons a as)
  then show ?case using terminal_stays by (auto intro: yields_bind)
qed auto

end

locale protocol_machine = final_machine handle terminal
  for handle :: "'sm \<Rightarrow> 'act \<Rightarrow> ('w, 'sm) vcx"
    and terminal :: "'sm \<Rightarrow> bool" +
  fixes settled :: "'sm \<Rightarrow> bool"
    and tid :: "'sm \<Rightarrow> string"
    and own :: "string \<Rightarrow> AriesMessage \<Rightarrow> bool"
  assumes terminal_silent: "terminal m \<Longrightarrow> sends_only (\<lambda>_. False) (handle m a)"
    and settled_stays: "settled m \<Longrightarrow> yields (handle m a) (\<lambda>m'. settled m' \<and> tid m' = tid m)"
    and sends_own: "settled m \<Longrightarrow> sends_only (own (tid m)) (handle m a)"
begin

lemma run_terminal_silent: "terminal m \<Longrightarrow> sends_only (\<lambda>_. False) (run_actions handle m as)"
proof (induction as)
  case (Cons a as)
  then show ?case
    using terminal_stays terminal_silent by (auto intro!: sends_only_bind_yields)
qed auto

lemma run_thread:
  "settled m \<Longrightarrow> yields (run_actions handle m as) (\<lambda>m'. settled m' \<and> tid m' = tid m)"
proof (induction as arbitrary: m)
  case (Cons a as)
  have "yields (run_actions handle m' as) (\<lambda>m''. settled m'' \<and> tid m'' = tid m)"
    if "settled m' \<and> tid m' = tid m" for m'
    using Cons.IH [of m'] that by (simp add: yields_def)
  then show ?case
    unfolding run_actions.simps by (rule yields_bind [OF settled_stays [OF Cons.prems]])
qed auto

lemma run_sends_own: "settled m \<Longrightarrow> sends_only (own (tid m)) (run_actions handle m as)"
proof (induction as arbitrary: m)
  case (Cons a as)
  have "sends_only (own (tid m)) (run_actions handle m' as)"
    if "settled m' \<and> tid m' = tid m" for m'
    using Cons.IH [of m'] that by simp
  then show ?case
    unfolding run_actions.simps
    by (rule sends_only_bind_yields [OF sends_own [OF Cons.prems] settled_stays [OF Cons.prems]])
qed auto

lemma run_result:
  assumes "settled m" "run_actions handle m as s = (r, s')"
  shows "(\<exists>ms. rt_outbox s' = rt_outbox s @ ms \<and> (\<forall>x \<in> set ms. own (tid m) x))
       \<and> (case r of Inr m' \<Rightarrow> tid m' = tid m | Inl _ \<Rightarrow> True)"
proof (cases r)
  case (Inr m')
  then show ?thesis
    using yieldsD [OF run_thread [OF assms(1)], of as s m' s'] assms(2)
      sends_onlyD [OF run_sends_own [OF assms(1)] assms(2)] by simp
qed (use sends_onlyD [OF run_sends_own [OF assms(1)] assms(2)] in simp)

lemma run_terminal_result:
  assumes "terminal m" "run_actions handle m as s = (r, s')"
  shows "rt_outbox s' = rt_outbox s \<and> (case r of Inr m' \<Rightarrow> m' = m | Inl _ \<Rightarrow> True)"
proof -
  have "rt_outbox s' = rt_outbox s"
    using sends_onlyD [OF run_terminal_silent [OF assms(1)] assms(2)] by auto
  then show ?thesis
    using yieldsD [OF run_terminal [OF assms(1)], of as s _ s'] assms(2) by (cases r) auto
qed

end

locale message_router =
  fixes accepts :: "'sm \<Rightarrow> AriesMessage \<Rightarrow> bool"
    and guarded :: "'sm \<Rightarrow> bool"
    and router_terminal :: "'sm \<Rightarrow> bool"
    and router_tid :: "'sm \<Rightarrow> string"
  assumes accepts_in_thread: "guarded m \<Longrightarrow> accepts m msg \<Longrightarrow> message_matches (router_tid m) msg"
    and terminal_ignores: "router_terminal m \<Longrightarrow> \<not> accepts m msg"
begin

lemma routed_message:
  assumes "find_message (accepts m) ms = Some (uid, msg)"
  shows "(uid, msg) \<in> set ms \<and> \<not> router_terminal m \<and> (guarded m \<longrightarrow> message_matches (router_tid m) msg)"
  using find_message_SomeD [OF assms] accepts_in_thread terminal_ignores by blast

lemma terminal_routes_nothing: "router_terminal m \<Longrightarrow> find_message (accepts m) ms = None"
  using terminal_ignores by (simp add: find_message_None_iff)

end

subsection \<open>Helpers for concrete runs\<close>

definition ok_pair :: "'a vcx_result \<times> 's \<Rightarrow> ('a \<times> 's) option" where
  "ok_pair p = (case p of (Inr a, s) \<Rightarrow> Some (a, s) | _ \<Rightarrow> None)"

lemma ok_pair_Some: "ok_pair p = Some (a, s) \<longleftrightarrow> p = (Inr a, s)"
  by (auto simp: ok_pair_def split: prod.splits sum.splits)

definition demo_connection :: "(string \<times> AriesMessage) list \<Rightarrow> unit mediated_connection" where
  "demo_connection msgs =
     \<lparr>mc_send_message_closure = (\<lambda>w. (Inr demo_send, w)), mc_get_messages = (\<lambda>w. (Inr msgs, w)),
      mc_update_message_status = (\<lambda>_ w. (Inr (), w))\<rparr>"

end
