(* ===== verification/Issuance.thy ===== *)
theory Issuance
  imports Credentials Machines
begin

text \<open>
  The part of the issue-credential protocol that issuer and holder share:
  aries_vcx/src/protocols/issuance/actions.rs (\<open>CredentialIssuanceAction\<close>, its thread check and the
  conversion from \<open>AriesMessage\<close>) and mod.rs (\<open>verify_thread_id\<close>, \<open>is_cred_def_revokable\<close>).
  The test-mode setting is the argument \<open>mocks\<close> of the functions that only read it.
\<close>

datatype CredentialIssuanceAction =
    CIA_CredentialSend
  | CIA_CredentialProposalSend ProposeCredential
  | CIA_CredentialProposal ProposeCredential
  | CIA_CredentialOffer OfferCredential
  | CIA_CredentialOfferReject "string option"
  | CIA_CredentialRequestSend string
  | CIA_CredentialRequest RequestCredential
  | CIA_Credential IssueCredential
  | CIA_CredentialAck AckCredential
  | CIA_ProblemReport ProblemReport
  | CIA_Unknown

fun CredentialIssuanceAction_thread_id_matches :: "CredentialIssuanceAction \<Rightarrow> string \<Rightarrow> bool" where
  "CredentialIssuanceAction_thread_id_matches (CIA_CredentialOffer msg) thread_id =
     matches_opt_thread_id (od_thread (msg_decorators msg)) thread_id"
| "CredentialIssuanceAction_thread_id_matches (CIA_CredentialProposal msg) thread_id =
     matches_opt_thread_id (od_thread (msg_decorators msg)) thread_id"
| "CredentialIssuanceAction_thread_id_matches (CIA_Credential msg) thread_id =
     matches_thread_id (kd_thread (msg_decorators msg)) thread_id"
| "CredentialIssuanceAction_thread_id_matches _ thread_id = True"

fun CredentialIssuanceAction_from :: "AriesMessage \<Rightarrow> CredentialIssuanceAction" where
  "CredentialIssuanceAction_from (AM_CredentialIssuance (CI_ProposeCredential p)) = CIA_CredentialProposal p"
| "CredentialIssuanceAction_from (AM_CredentialIssuance (CI_OfferCredential offer)) = CIA_CredentialOffer offer"
| "CredentialIssuanceAction_from (AM_CredentialIssuance (CI_RequestCredential r)) = CIA_CredentialRequest r"
| "CredentialIssuanceAction_from (AM_CredentialIssuance (CI_IssueCredential c)) = CIA_Credential c"
| "CredentialIssuanceAction_from (AM_CredentialIssuance (CI_Ack ack)) = CIA_CredentialAck ack"
| "CredentialIssuanceAction_from (AM_Notification (N_Ack ack)) =
     CIA_CredentialAck (MsgParts_with_decorators (msg_id ack) (msg_content ack) (msg_decorators ack))"
| "CredentialIssuanceAction_from (AM_ReportProblem report) = CIA_ProblemReport report"
| "CredentialIssuanceAction_from (AM_Notification (N_ProblemReport report)) =
     CIA_ProblemReport (MsgParts_with_decorators (msg_id report) (msg_content report) (msg_decorators report))"
| "CredentialIssuanceAction_from _ = CIA_Unknown"

definition issuance_verify_thread_id ::
    "bool \<Rightarrow> string \<Rightarrow> CredentialIssuanceAction \<Rightarrow> unit vcx_result" where
  "issuance_verify_thread_id mocks thread_id message =
     (if \<not> mocks \<and> \<not> CredentialIssuanceAction_thread_id_matches message thread_id
      then Inl thread_mismatch else Inr ())"

definition parse_revocation_field :: "lib \<Rightarrow> string \<Rightarrow> bool vcx_result" where
  "parse_revocation_field lib cred_def_json =
     res_bind (ok_or (lib_json_parse lib cred_def_json)
       (AriesVcxError_from_msg SerializationError
          (''Failed deserialize credential definition json '' @ cred_def_json @ ''\<newline>Error: {}'')))
       (\<lambda>parsed. Inr (json_index (json_index parsed ''value'') ''revocation'' \<noteq> JNull))"

definition is_cred_def_revokable :: "lib \<Rightarrow> 'w profile \<Rightarrow> string \<Rightarrow> ('w, bool) vcx" where
  "is_cred_def_revokable lib prof cred_def_id =
     vbind (vmap_err (\<lambda>err. AriesVcxError_from_msg InvalidLedgerResponse
              (''Failed to obtain credential definition from ledger or cache: ''
                 @ AriesVcxError_to_string err))
            (call (ledger_get_cred_def prof cred_def_id)))
       (\<lambda>cred_def_json. vlift (parse_revocation_field lib cred_def_json))"

lemma issuance_verify_thread_id_simps [sm_simps]:
  "issuance_verify_thread_id mocks i a = Inr u \<longleftrightarrow>
     mocks \<or> CredentialIssuanceAction_thread_id_matches a i"
  "issuance_verify_thread_id mocks i a = Inl e \<longleftrightarrow>
     \<not> mocks \<and> \<not> CredentialIssuanceAction_thread_id_matches a i \<and> e = thread_mismatch"
  by (auto simp: issuance_verify_thread_id_def)

lemma from_message_thread:
  assumes "message_matches i msg"
  shows "CredentialIssuanceAction_thread_id_matches (CredentialIssuanceAction_from msg) i"
  using assms by (induction i msg rule: message_matches.induct) simp_all

end
