(* ===== verification/Issuer.thy ===== *)
theory Issuer
  imports Issuance
begin

text \<open>
  The issuer of a credential: aries_vcx/src/protocols/issuance/issuer/state_machine.rs with the
  states under issuer/states, and the handler aries_vcx/src/handlers/issuance/issuer.rs. The
  handler's methods that forward to the machine store the new machine only on success; they are
  modelled by the machine's operation followed by that store.
\<close>

record RevocationInfoV1 =
  ri_cred_rev_id :: "string option"
  ri_rev_reg_id :: "string option"
  ri_tails_file :: "string option"

record OfferSetState =
  oset_offer :: OfferCredential
  oset_credential_json :: string
  oset_cred_def_id :: string
  oset_rev_reg_id :: "string option"
  oset_tails_file :: "string option"

record ProposalReceivedState =
  prc_credential_proposal :: ProposeCredential
  prc_offer_info :: "OfferInfo option"

record OfferSentState =
  osent_offer :: OfferCredential
  osent_cred_data :: string
  osent_rev_reg_id :: "string option"
  osent_tails_file :: "string option"

record RequestReceivedState =
  rrc_offer :: OfferCredential
  rrc_cred_data :: string
  rrc_rev_reg_id :: "string option"
  rrc_tails_file :: "string option"
  rrc_request :: RequestCredential

record CredentialSentState =
  csent_revocation_info_v1 :: "RevocationInfoV1 option"

record FinishedState =
  fin_cred_id :: "string option"
  fin_revocation_info_v1 :: "RevocationInfoV1 option"
  fin_status :: Status

datatype IssuerFullState =
    I_Initial
  | I_OfferSet OfferSetState
  | I_ProposalReceived ProposalReceivedState
  | I_OfferSent OfferSentState
  | I_RequestReceived RequestReceivedState
  | I_CredentialSent CredentialSentState
  | I_Finished FinishedState

datatype IssuerState =
    IS_Initial | IS_OfferSet | IS_ProposalReceived | IS_OfferSent | IS_RequestReceived
  | IS_CredentialSent | IS_Finished | IS_Failed

record IssuerSM =
  issuer_source_id :: string
  issuer_thread_id :: string
  issuer_state :: IssuerFullState

subsection \<open>State conversions\<close>

definition OfferSetState_new ::
    "OfferCredential \<Rightarrow> string \<Rightarrow> string \<Rightarrow> string option \<Rightarrow> string option \<Rightarrow> OfferSetState" where
  "OfferSetState_new offer cj cd rr tf =
     \<lparr>oset_offer = offer, oset_credential_json = cj, oset_cred_def_id = cd,
      oset_rev_reg_id = rr, oset_tails_file = tf\<rparr>"

definition ProposalReceivedState_new ::
    "ProposeCredential \<Rightarrow> OfferInfo option \<Rightarrow> ProposalReceivedState" where
  "ProposalReceivedState_new p oi = \<lparr>prc_credential_proposal = p, prc_offer_info = oi\<rparr>"

definition OfferSentState_from_set :: "OfferSetState \<Rightarrow> OfferSentState" where
  "OfferSentState_from_set s =
     \<lparr>osent_offer = oset_offer s, osent_cred_data = oset_credential_json s,
      osent_rev_reg_id = oset_rev_reg_id s, osent_tails_file = oset_tails_file s\<rparr>"

definition OfferSentState_from_info :: "OfferInfo \<times> OfferCredential \<Rightarrow> OfferSentState" where
  "OfferSentState_from_info p = (case p of (offer_info, offer) \<Rightarrow>
     \<lparr>osent_offer = offer, osent_cred_data = oi_credential_json offer_info,
      osent_rev_reg_id = oi_rev_reg_id offer_info, osent_tails_file = oi_tails_file offer_info\<rparr>)"

definition OfferSentState_from_offer :: "OfferCredential \<times> OfferInfo \<Rightarrow> OfferSentState" where
  "OfferSentState_from_offer p = (case p of (offer, offer_info) \<Rightarrow>
     \<lparr>osent_offer = offer, osent_cred_data = oi_credential_json offer_info,
      osent_rev_reg_id = oi_rev_reg_id offer_info, osent_tails_file = oi_tails_file offer_info\<rparr>)"

definition RequestReceivedState_from :: "OfferSentState \<Rightarrow> RequestCredential \<Rightarrow> RequestReceivedState" where
  "RequestReceivedState_from s request =
     \<lparr>rrc_offer = osent_offer s, rrc_cred_data = osent_cred_data s,
      rrc_rev_reg_id = osent_rev_reg_id s, rrc_tails_file = osent_tails_file s,
      rrc_request = request\<rparr>"

definition CredentialSentState_from :: "RequestReceivedState \<Rightarrow> string option \<Rightarrow> CredentialSentState" where
  "CredentialSentState_from s cred_rev_id =
     \<lparr>csent_revocation_info_v1 = Some \<lparr>ri_cred_rev_id = cred_rev_id,
        ri_rev_reg_id = rrc_rev_reg_id s, ri_tails_file = rrc_tails_file s\<rparr>\<rparr>"

definition FinishedState_from_offer_sent :: "OfferSentState \<Rightarrow> FinishedState" where
  "FinishedState_from_offer_sent s =
     \<lparr>fin_cred_id = None, fin_revocation_info_v1 = Some \<lparr>ri_cred_rev_id = None,
        ri_rev_reg_id = osent_rev_reg_id s, ri_tails_file = osent_tails_file s\<rparr>,
      fin_status = Undefined\<rparr>"

definition FinishedState_from_offer_sent_report :: "OfferSentState \<Rightarrow> ProblemReport \<Rightarrow> FinishedState" where
  "FinishedState_from_offer_sent_report s err =
     \<lparr>fin_cred_id = None, fin_revocation_info_v1 = Some \<lparr>ri_cred_rev_id = None,
        ri_rev_reg_id = osent_rev_reg_id s, ri_tails_file = osent_tails_file s\<rparr>,
      fin_status = Failed err\<rparr>"

definition FinishedState_from_request_received :: "RequestReceivedState \<Rightarrow> string option \<Rightarrow> FinishedState" where
  "FinishedState_from_request_received s cred_rev_id =
     \<lparr>fin_cred_id = None, fin_revocation_info_v1 = Some \<lparr>ri_cred_rev_id = cred_rev_id,
        ri_rev_reg_id = rrc_rev_reg_id s, ri_tails_file = rrc_tails_file s\<rparr>,
      fin_status = Success\<rparr>"

definition FinishedState_from_request_report :: "RequestReceivedState \<Rightarrow> ProblemReport \<Rightarrow> FinishedState" where
  "FinishedState_from_request_report s err =
     \<lparr>fin_cred_id = None, fin_revocation_info_v1 = Some \<lparr>ri_cred_rev_id = None,
        ri_rev_reg_id = rrc_rev_reg_id s, ri_tails_file = rrc_tails_file s\<rparr>,
      fin_status = Failed err\<rparr>"

definition FinishedState_from_credential_sent :: "CredentialSentState \<Rightarrow> FinishedState" where
  "FinishedState_from_credential_sent s =
     \<lparr>fin_cred_id = None, fin_revocation_info_v1 = csent_revocation_info_v1 s, fin_status = Success\<rparr>"

fun IssuerFullState_to_string :: "IssuerFullState \<Rightarrow> string" where
  "IssuerFullState_to_string I_Initial = ''Initial''"
| "IssuerFullState_to_string (I_OfferSet _) = ''OfferSet''"
| "IssuerFullState_to_string (I_ProposalReceived _) = ''ProposalReceived''"
| "IssuerFullState_to_string (I_OfferSent _) = ''OfferSent''"
| "IssuerFullState_to_string (I_RequestReceived _) = ''RequestReceived''"
| "IssuerFullState_to_string (I_CredentialSent _) = ''CredentialSent''"
| "IssuerFullState_to_string (I_Finished _) = ''Finished''"

subsection \<open>Messages the issuer builds\<close>

definition build_credential_message :: "lib \<Rightarrow> string \<Rightarrow> ('w, IssueCredential) vcx" where
  "build_credential_message lib libindy_credential =
     vbind new_v4 (\<lambda>i.
     vbind utc_now (\<lambda>now.
       let content = IssueCredentialContent_new
             [make_attach_from_str (lib_b64enc lib) libindy_credential (AttachmentId_as_ref Aid_Credential)];
           decorators = (ack_decorators_new (Thread_new i))\<lparr>kd_timing := Some (out_timing now)\<rparr>
       in vret (MsgParts_with_decorators i content decorators)))"

definition build_credential_offer ::
    "lib \<Rightarrow> string \<Rightarrow> string \<Rightarrow> CredentialPreview \<Rightarrow> string option \<Rightarrow> ('w, OfferCredential) vcx" where
  "build_credential_offer lib thread_id credential_offer credential_preview comment =
     vbind utc_now (\<lambda>now.
       let content = (OfferCredentialContent_new credential_preview
             [make_attach_from_str (lib_b64enc lib) credential_offer (AttachmentId_as_ref Aid_CredentialOffer)])
             \<lparr>offer_comment := comment\<rparr>;
           decorators = opt_decorators_default\<lparr>od_timing := Some (out_timing now)\<rparr>
       in vret (MsgParts_with_decorators thread_id content decorators))"

subsection \<open>The state machine\<close>

definition IssuerSM_new :: "string \<Rightarrow> ('w, IssuerSM) vcx" where
  "IssuerSM_new source_id =
     vbind new_v4 (\<lambda>i. vret \<lparr>issuer_source_id = source_id, issuer_thread_id = i, issuer_state = I_Initial\<rparr>)"

definition IssuerSM_from_proposal :: "string \<Rightarrow> ProposeCredential \<Rightarrow> IssuerSM" where
  "IssuerSM_from_proposal source_id credential_proposal =
     \<lparr>issuer_source_id = source_id, issuer_thread_id = msg_id credential_proposal,
      issuer_state = I_ProposalReceived (ProposalReceivedState_new credential_proposal None)\<rparr>"

definition IssuerSM_step :: "string \<Rightarrow> string \<Rightarrow> IssuerFullState \<Rightarrow> IssuerSM" where
  "IssuerSM_step source_id thread_id state =
     \<lparr>issuer_source_id = source_id, issuer_thread_id = thread_id, issuer_state = state\<rparr>"

definition IssuerSM_get_revocation_info :: "IssuerSM \<Rightarrow> RevocationInfoV1 option" where
  "IssuerSM_get_revocation_info self =
     (case issuer_state self of
        I_CredentialSent state \<Rightarrow> csent_revocation_info_v1 state
      | I_Finished state \<Rightarrow> fin_revocation_info_v1 state
      | _ \<Rightarrow> None)"

definition no_rev_info :: vcx_error where
  "no_rev_info = AriesVcxError_from_msg InvalidState
     ''No revocation info found - is this credential revokable?''"

definition IssuerSM_get_rev_id :: "IssuerSM \<Rightarrow> string vcx_result" where
  "IssuerSM_get_rev_id self =
     res_bind
       (case issuer_state self of
          I_CredentialSent state \<Rightarrow>
            res_bind (ok_or (csent_revocation_info_v1 state) no_rev_info) (\<lambda>i. Inr (ri_cred_rev_id i))
        | I_Finished state \<Rightarrow>
            res_bind (ok_or (fin_revocation_info_v1 state) no_rev_info) (\<lambda>i. Inr (ri_cred_rev_id i))
        | _ \<Rightarrow> Inr None)
       (\<lambda>rev_id. ok_or rev_id (AriesVcxError_from_msg InvalidState
          ''Revocation info does not contain rev id''))"

definition IssuerSM_get_rev_reg_id :: "IssuerSM \<Rightarrow> string vcx_result" where
  "IssuerSM_get_rev_reg_id self =
     res_bind
       (case issuer_state self of
          I_Initial \<Rightarrow> Inl (AriesVcxError_from_msg InvalidState
             ''No revocation info available in the initial state'')
        | I_OfferSet state \<Rightarrow> Inr (oset_rev_reg_id state)
        | I_ProposalReceived state \<Rightarrow>
            (case prc_offer_info state of
               Some offer_info \<Rightarrow> Inr (oi_rev_reg_id offer_info)
             | None \<Rightarrow> Inr None)
        | I_OfferSent state \<Rightarrow> Inr (osent_rev_reg_id state)
        | I_RequestReceived state \<Rightarrow> Inr (rrc_rev_reg_id state)
        | I_CredentialSent state \<Rightarrow>
            res_bind (ok_or (csent_revocation_info_v1 state) no_rev_info) (\<lambda>i. Inr (ri_rev_reg_id i))
        | I_Finished state \<Rightarrow>
            res_bind (ok_or (fin_revocation_info_v1 state) no_rev_info) (\<lambda>i. Inr (ri_rev_reg_id i)))
       (\<lambda>rev_registry. ok_or rev_registry (AriesVcxError_from_msg InvalidState
          ''No revocation registry id found on revocation info - is this credential revokable?''))"

definition rev_info_is_revokable :: "RevocationInfoV1 option \<Rightarrow> bool" where
  "rev_info_is_revokable rev_info =
     (case rev_info of Some i \<Rightarrow> ri_cred_rev_id i \<noteq> None | None \<Rightarrow> False)"

definition IssuerSM_is_revokable :: "IssuerSM \<Rightarrow> bool" where
  "IssuerSM_is_revokable self =
     (case issuer_state self of
        I_CredentialSent state \<Rightarrow> rev_info_is_revokable (csent_revocation_info_v1 state)
      | I_Finished state \<Rightarrow> rev_info_is_revokable (fin_revocation_info_v1 state)
      | _ \<Rightarrow> False)"

definition IssuerSM_is_revoked :: "lib \<Rightarrow> 'w profile \<Rightarrow> IssuerSM \<Rightarrow> ('w, bool) vcx" where
  "IssuerSM_is_revoked lib prof self =
     (if IssuerSM_is_revokable self then
        vbind (vlift (IssuerSM_get_rev_reg_id self)) (\<lambda>rev_reg_id.
        vbind (vlift (IssuerSM_get_rev_id self)) (\<lambda>rev_id.
          is_cred_revoked lib prof rev_reg_id rev_id))
      else vfail (AriesVcxError_from_msg InvalidState
             ''Unable to check revocation status - this credential is not revokable''))"

text \<open>The condition under which the loop of \<open>find_message_to_handle\<close> returns a message.\<close>

definition IssuerSM_accepts :: "IssuerSM \<Rightarrow> AriesMessage \<Rightarrow> bool" where
  "IssuerSM_accepts self message =
     (case issuer_state self of
        I_Initial \<Rightarrow>
          (case message of AM_CredentialIssuance (CI_ProposeCredential _) \<Rightarrow> True | _ \<Rightarrow> False)
      | I_OfferSent _ \<Rightarrow>
          (case message of
             AM_CredentialIssuance (CI_RequestCredential msg) \<Rightarrow>
               matches_opt_thread_id (od_thread (msg_decorators msg)) (issuer_thread_id self)
           | AM_CredentialIssuance (CI_ProposeCredential msg) \<Rightarrow>
               matches_opt_thread_id (od_thread (msg_decorators msg)) (issuer_thread_id self)
           | AM_ReportProblem msg \<Rightarrow>
               matches_opt_thread_id (prd_thread (msg_decorators msg)) (issuer_thread_id self)
           | _ \<Rightarrow> False)
      | I_CredentialSent _ \<Rightarrow>
          (case message of
             AM_CredentialIssuance (CI_Ack msg) \<Rightarrow>
               matches_thread_id (td_thread (msg_decorators msg)) (issuer_thread_id self)
           | AM_Notification (N_Ack msg) \<Rightarrow>
               matches_thread_id (td_thread (msg_decorators msg)) (issuer_thread_id self)
           | AM_ReportProblem msg \<Rightarrow>
               matches_opt_thread_id (prd_thread (msg_decorators msg)) (issuer_thread_id self)
           | _ \<Rightarrow> False)
      | _ \<Rightarrow> False)"

definition IssuerSM_find_message_to_handle ::
    "IssuerSM \<Rightarrow> (string \<times> AriesMessage) list \<Rightarrow> (string \<times> AriesMessage) option" where
  "IssuerSM_find_message_to_handle self messages = find_message (IssuerSM_accepts self) messages"

definition IssuerSM_get_state :: "IssuerSM \<Rightarrow> IssuerState" where
  "IssuerSM_get_state self =
     (case issuer_state self of
        I_Initial \<Rightarrow> IS_Initial
      | I_ProposalReceived _ \<Rightarrow> IS_ProposalReceived
      | I_OfferSet _ \<Rightarrow> IS_OfferSet
      | I_OfferSent _ \<Rightarrow> IS_OfferSent
      | I_RequestReceived _ \<Rightarrow> IS_RequestReceived
      | I_CredentialSent _ \<Rightarrow> IS_CredentialSent
      | I_Finished status \<Rightarrow> (case fin_status status of Success \<Rightarrow> IS_Finished | _ \<Rightarrow> IS_Failed))"

definition IssuerSM_get_proposal :: "IssuerSM \<Rightarrow> ProposeCredential vcx_result" where
  "IssuerSM_get_proposal self =
     (case issuer_state self of
        I_ProposalReceived state \<Rightarrow> Inr (prc_credential_proposal state)
      | _ \<Rightarrow> Inl (AriesVcxError_from_msg InvalidState
               ''Proposal is only available in ProposalReceived state''))"

definition IssuerSM_build_credential_offer_msg ::
    "lib \<Rightarrow> IssuerSM \<Rightarrow> string \<Rightarrow> CredentialPreview \<Rightarrow> string option \<Rightarrow> OfferInfo
       \<Rightarrow> ('w, IssuerSM) vcx" where
  "IssuerSM_build_credential_offer_msg lib self credential_offer credential_preview comment offer_info =
     (let set_offer =
        vbind (build_credential_offer lib (issuer_thread_id self) credential_offer credential_preview comment)
          (\<lambda>cred_offer_msg.
             vret (IssuerSM_step (issuer_source_id self) (issuer_thread_id self)
               (I_OfferSet (OfferSetState_new cred_offer_msg (oi_credential_json offer_info)
                  (oi_cred_def_id offer_info) (oi_rev_reg_id offer_info) (oi_tails_file offer_info)))))
      in case issuer_state self of
           I_Initial \<Rightarrow> set_offer
         | I_OfferSet _ \<Rightarrow> set_offer
         | I_ProposalReceived _ \<Rightarrow> set_offer
         | state \<Rightarrow> vfail (AriesVcxError_from_msg InvalidState
             (''Can not set_offer in current state '' @ IssuerFullState_to_string state @ ''.'')))"

definition IssuerSM_get_credential_offer_msg :: "IssuerSM \<Rightarrow> OfferCredential vcx_result" where
  "IssuerSM_get_credential_offer_msg self =
     (case issuer_state self of
        I_OfferSet state \<Rightarrow> Inr (oset_offer state)
      | I_OfferSent state \<Rightarrow> Inr (osent_offer state)
      | state \<Rightarrow> Inl (AriesVcxError_from_msg InvalidState
          (''Can not get_credential_offer in current state '' @ IssuerFullState_to_string state @ ''.'')))"

definition IssuerSM_mark_credential_offer_msg_sent :: "IssuerSM \<Rightarrow> IssuerSM vcx_result" where
  "IssuerSM_mark_credential_offer_msg_sent self =
     res_bind
       (case issuer_state self of
          I_OfferSet state \<Rightarrow> Inr (I_OfferSent (OfferSentState_from_set state))
        | I_OfferSent state \<Rightarrow> Inr (I_OfferSent state)
        | state \<Rightarrow> Inl (AriesVcxError_from_msg InvalidState
            (''Can not mark_as_offer_sent in current state '' @ IssuerFullState_to_string state @ ''.'')))
       (\<lambda>state. Inr (IssuerSM_step (issuer_source_id self) (issuer_thread_id self) state))"

definition IssuerSM_receive_proposal :: "bool \<Rightarrow> IssuerSM \<Rightarrow> ProposeCredential \<Rightarrow> IssuerSM vcx_result" where
  "IssuerSM_receive_proposal mocks self proposal =
     res_bind (issuance_verify_thread_id mocks (issuer_thread_id self) (CIA_CredentialProposal proposal)) (\<lambda>_.
       res_bind
         (case issuer_state self of
            I_Initial \<Rightarrow>
              Inr (I_ProposalReceived (ProposalReceivedState_new proposal None), msg_id proposal)
          | I_OfferSent _ \<Rightarrow>
              res_bind (issuance_verify_thread_id mocks (issuer_thread_id self) (CIA_CredentialProposal proposal))
                (\<lambda>_. Inr (I_ProposalReceived (ProposalReceivedState_new proposal None), issuer_thread_id self))
          | s \<Rightarrow> Inr (s, issuer_thread_id self))
         (\<lambda>(state, thread_id). Inr (self\<lparr>issuer_thread_id := thread_id, issuer_state := state\<rparr>)))"

definition IssuerSM_send_credential_offer :: "IssuerSM \<Rightarrow> 'w SendClosure \<Rightarrow> ('w, IssuerSM) vcx" where
  "IssuerSM_send_credential_offer self send =
     (case issuer_state self of
        I_OfferSet state_data \<Rightarrow>
          vbind (send_message send (AM_CredentialIssuance (CI_OfferCredential (oset_offer state_data))))
            (\<lambda>_. vlift (IssuerSM_mark_credential_offer_msg_sent self))
      | _ \<Rightarrow> vfail (AriesVcxError_from_msg NotReady ''Invalid action''))"

definition IssuerSM_receive_request :: "bool \<Rightarrow> IssuerSM \<Rightarrow> RequestCredential \<Rightarrow> IssuerSM vcx_result" where
  "IssuerSM_receive_request mocks self request =
     res_bind (issuance_verify_thread_id mocks (issuer_thread_id self) (CIA_CredentialRequest request)) (\<lambda>_.
       Inr (self\<lparr>issuer_state :=
         (case issuer_state self of
            I_OfferSent state_data \<Rightarrow> I_RequestReceived (RequestReceivedState_from state_data request)
          | s \<Rightarrow> s)\<rparr>))"

definition issuer_create_credential ::
    "lib \<Rightarrow> 'w profile \<Rightarrow> RequestCredential \<Rightarrow> string option \<Rightarrow> string option \<Rightarrow> OfferCredential
       \<Rightarrow> string \<Rightarrow> string \<Rightarrow> ('w, IssueCredential \<times> string option) vcx" where
  "issuer_create_credential lib prof request rev_reg_id tails_file offer cred_data thread_id =
     vbind (vlift (get_attach_as_string (lib_b64dec lib) (offers_attach (msg_content offer)))) (\<lambda>offer_json.
       if \<not> matches_opt_thread_id (od_thread (msg_decorators request)) thread_id then
         vfail (AriesVcxError_from_msg InvalidJson
           ''Cannot handle credential request: thread id does not match'')
       else
         vbind (vlift (get_attach_as_string (lib_b64dec lib) (requests_attach (msg_content request)))) (\<lambda>request_json.
         vbind (vlift (encode_attributes lib cred_data)) (\<lambda>cred_values.
         vbind (call (ac_issuer_create_credential prof offer_json request_json cred_values rev_reg_id tails_file))
           (\<lambda>(libindy_credential, cred_rev_id, _).
         vbind (build_credential_message lib libindy_credential) (\<lambda>credential.
           vret (credential, cred_rev_id))))))"

definition IssuerSM_send_credential ::
    "lib \<Rightarrow> 'w profile \<Rightarrow> IssuerSM \<Rightarrow> 'w SendClosure \<Rightarrow> ('w, IssuerSM) vcx" where
  "IssuerSM_send_credential lib prof self send =
     (case issuer_state self of
        I_RequestReceived state_data \<Rightarrow>
          vbind (vtry (issuer_create_credential lib prof (rrc_request state_data) (rrc_rev_reg_id state_data)
                   (rrc_tails_file state_data) (rrc_offer state_data) (rrc_cred_data state_data)
                   (issuer_thread_id self))) (\<lambda>created.
            case created of
              Inr (credential_msg, cred_rev_id) \<Rightarrow>
                let d = msg_decorators credential_msg;
                    msg = credential_msg\<lparr>msg_decorators :=
                      d\<lparr>kd_thread := (kd_thread d)\<lparr>thid := issuer_thread_id self\<rparr>,
                        kd_please_ack := Some (PleaseAck_new [])\<rparr>\<rparr>
                in vbind (send_message send (AM_CredentialIssuance (CI_IssueCredential msg))) (\<lambda>_.
                     vret (self\<lparr>issuer_state :=
                       I_CredentialSent (CredentialSentState_from state_data cred_rev_id)\<rparr>))
            | Inl err \<Rightarrow>
                vbind new_v4 (\<lambda>u.
                  let problem_report = build_problem_report_msg u (Some (AriesVcxError_to_string err))
                        (issuer_thread_id self)
                  in vbind (send_message send (AM_ReportProblem problem_report)) (\<lambda>_.
                       vret (self\<lparr>issuer_state :=
                         I_Finished (FinishedState_from_request_report state_data problem_report)\<rparr>))))
      | _ \<Rightarrow> vfail (AriesVcxError_from_msg NotReady ''Invalid action''))"

definition IssuerSM_receive_ack :: "bool \<Rightarrow> IssuerSM \<Rightarrow> AckCredential \<Rightarrow> IssuerSM vcx_result" where
  "IssuerSM_receive_ack mocks self ack =
     res_bind (issuance_verify_thread_id mocks (issuer_thread_id self) (CIA_CredentialAck ack)) (\<lambda>_.
       Inr (self\<lparr>issuer_state :=
         (case issuer_state self of
            I_CredentialSent state_data \<Rightarrow> I_Finished (FinishedState_from_credential_sent state_data)
          | s \<Rightarrow> s)\<rparr>))"

definition IssuerSM_receive_problem_report :: "bool \<Rightarrow> IssuerSM \<Rightarrow> ProblemReport \<Rightarrow> IssuerSM vcx_result" where
  "IssuerSM_receive_problem_report mocks self problem_report =
     res_bind (issuance_verify_thread_id mocks (issuer_thread_id self) (CIA_ProblemReport problem_report)) (\<lambda>_.
       Inr (self\<lparr>issuer_state :=
         (case issuer_state self of
            I_OfferSent state_data \<Rightarrow>
              I_Finished (FinishedState_from_offer_sent_report state_data problem_report)
          | I_CredentialSent state_data \<Rightarrow> I_Finished (FinishedState_from_credential_sent state_data)
          | s \<Rightarrow> s)\<rparr>))"

definition no_send_callback :: vcx_error where
  "no_send_callback = AriesVcxError_from_msg InvalidState
     ''Attempted to call undefined send_message callback''"

definition IssuerSM_handle_message ::
    "lib \<Rightarrow> 'w profile \<Rightarrow> 'w SendClosure option \<Rightarrow> IssuerSM \<Rightarrow> CredentialIssuanceAction
       \<Rightarrow> ('w, IssuerSM) vcx" where
  "IssuerSM_handle_message lib prof send self cim =
     vbind mocks_enabled (\<lambda>mocks.
     vbind (vlift (issuance_verify_thread_id mocks (issuer_thread_id self) cim)) (\<lambda>_.
       case cim of
         CIA_CredentialProposal proposal \<Rightarrow> vlift (IssuerSM_receive_proposal mocks self proposal)
       | CIA_CredentialRequest request \<Rightarrow> vlift (IssuerSM_receive_request mocks self request)
       | CIA_CredentialSend \<Rightarrow>
           vbind (vlift (ok_or send no_send_callback)) (\<lambda>send_closure.
             IssuerSM_send_credential lib prof self send_closure)
       | CIA_CredentialAck ack \<Rightarrow> vlift (IssuerSM_receive_ack mocks self ack)
       | CIA_ProblemReport problem_report \<Rightarrow> vlift (IssuerSM_receive_problem_report mocks self problem_report)
       | _ \<Rightarrow> vret self))"

definition IssuerSM_credential_status :: "IssuerSM \<Rightarrow> 32 word" where
  "IssuerSM_credential_status self =
     (case issuer_state self of
        I_Finished state \<Rightarrow> Status_code (fin_status state)
      | _ \<Rightarrow> Status_code Undefined)"

definition IssuerSM_is_terminal_state :: "IssuerSM \<Rightarrow> bool" where
  "IssuerSM_is_terminal_state self = (case issuer_state self of I_Finished _ \<Rightarrow> True | _ \<Rightarrow> False)"

subsection \<open>The handler\<close>

fun preview_from_array :: "json list \<Rightarrow> CredentialAttr list vcx_result" where
  "preview_from_array [] = Inr []"
| "preview_from_array (cred_value # vs) =
     res_bind (ok_or (json_get cred_value ''name'')
       (AriesVcxError_from_msg InvalidAttributesStructure ''No 'name' field in cred_value: {:?}'')) (\<lambda>key.
     res_bind (ok_or (json_get cred_value ''value'')
       (AriesVcxError_from_msg InvalidAttributesStructure ''No 'value' field in cred_value: {:?}'')) (\<lambda>value.
     res_bind (ok_or (as_str key) (AriesVcxError_from_msg InvalidOption
        ''Credential value names are currently only allowed to be strings'')) (\<lambda>k.
     res_bind (ok_or (as_str value) (AriesVcxError_from_msg InvalidOption
        ''Credential values are currently only allowed to be strings'')) (\<lambda>v.
     res_bind (preview_from_array vs) (\<lambda>rest.
       Inr ((CredentialAttr_new k v)\<lparr>ca_mime_type := Some Mime_Plain\<rparr> # rest))))))"

fun preview_from_object :: "(string \<times> json) list \<Rightarrow> CredentialAttr list vcx_result" where
  "preview_from_object [] = Inr []"
| "preview_from_object ((key, value) # kvs) =
     res_bind (ok_or (as_str value) (AriesVcxError_from_msg InvalidOption
        ''Credential values are currently only allowed to be strings'')) (\<lambda>v.
     res_bind (preview_from_object kvs) (\<lambda>rest.
       Inr ((CredentialAttr_new key v)\<lparr>ca_mime_type := Some Mime_Plain\<rparr> # rest)))"

definition build_credential_preview :: "lib \<Rightarrow> string \<Rightarrow> CredentialPreview vcx_result" where
  "build_credential_preview lib credential_json =
     res_bind (ok_or (lib_json_parse lib credential_json)
       (AriesVcxError_from_msg InvalidJson
          (''Can't deserialize credential preview json. credential_json: '' @ credential_json
             @ '', error: {:?}''))) (\<lambda>cred_values.
     res_bind
       (case cred_values of
          JArray vs \<Rightarrow> preview_from_array vs
        | JObject kvs \<Rightarrow> preview_from_object kvs
        | _ \<Rightarrow> Inr [])
       (\<lambda>attributes. Inr (CredentialPreview_new attributes)))"

record IssuerConfig =
  icfg_cred_def_id :: string
  icfg_rev_reg_id :: "string option"
  icfg_tails_file :: "string option"

definition Issuer_create :: "string \<Rightarrow> ('w, IssuerSM) vcx" where
  "Issuer_create source_id = IssuerSM_new source_id"

definition Issuer_create_from_proposal :: "string \<Rightarrow> ProposeCredential \<Rightarrow> IssuerSM vcx_result" where
  "Issuer_create_from_proposal source_id credential_proposal =
     Inr (IssuerSM_from_proposal source_id credential_proposal)"

definition Issuer_build_credential_offer_msg ::
    "lib \<Rightarrow> 'w profile \<Rightarrow> OfferInfo \<Rightarrow> string option \<Rightarrow> (IssuerSM, 'w, unit) hop" where
  "Issuer_build_credential_offer_msg lib prof offer_info comment =
     hbind (hlift (vlift (build_credential_preview lib (oi_credential_json offer_info)))) (\<lambda>credential_preview.
     hbind (hlift (call (ac_issuer_create_credential_offer prof (oi_cred_def_id offer_info)))) (\<lambda>libindy_cred_offer.
       hstore (\<lambda>self. IssuerSM_build_credential_offer_msg lib self libindy_cred_offer
                         credential_preview comment offer_info)))"

definition Issuer_get_credential_offer_msg :: "IssuerSM \<Rightarrow> AriesMessage vcx_result" where
  "Issuer_get_credential_offer_msg self =
     res_bind (IssuerSM_get_credential_offer_msg self)
       (\<lambda>offer. Inr (AM_CredentialIssuance (CI_OfferCredential offer)))"

definition Issuer_mark_credential_offer_msg_sent :: "(IssuerSM, 'w, unit) hop" where
  "Issuer_mark_credential_offer_msg_sent = hstore (\<lambda>self. vlift (IssuerSM_mark_credential_offer_msg_sent self))"

definition Issuer_send_credential_offer :: "'w SendClosure \<Rightarrow> (IssuerSM, 'w, unit) hop" where
  "Issuer_send_credential_offer send = hstore (\<lambda>self. IssuerSM_send_credential_offer self send)"

definition Issuer_process_credential_request :: "RequestCredential \<Rightarrow> (IssuerSM, 'w, unit) hop" where
  "Issuer_process_credential_request request =
     hbind (hlift mocks_enabled) (\<lambda>mocks.
       hstore (\<lambda>self. vlift (IssuerSM_receive_request mocks self request)))"

definition Issuer_process_credential_ack :: "AckCredential \<Rightarrow> (IssuerSM, 'w, unit) hop" where
  "Issuer_process_credential_ack ack =
     hbind (hlift mocks_enabled) (\<lambda>mocks.
       hstore (\<lambda>self. vlift (IssuerSM_receive_ack mocks self ack)))"

definition Issuer_send_credential :: "lib \<Rightarrow> 'w profile \<Rightarrow> 'w SendClosure \<Rightarrow> (IssuerSM, 'w, unit) hop" where
  "Issuer_send_credential lib prof send = hstore (\<lambda>self. IssuerSM_send_credential lib prof self send)"

definition Issuer_get_revocation_id :: "IssuerSM \<Rightarrow> string vcx_result" where
  "Issuer_get_revocation_id self =
     res_bind (ok_or (IssuerSM_get_revocation_info self)
       (AriesVcxError_from_msg InvalidState ''Credential has not yet been created''))
       (\<lambda>info. ok_or (ri_cred_rev_id info)
          (AriesVcxError_from_msg InvalidState ''Credential has not yet been created or is irrevocable''))"

definition Issuer_revoke_credential_local :: "'w profile \<Rightarrow> IssuerSM \<Rightarrow> ('w, unit) vcx" where
  "Issuer_revoke_credential_local prof self =
     vbind (vlift (ok_or (IssuerSM_get_revocation_info self)
       (AriesVcxError_from_msg InvalidState
          ''Credential is not revocable, no revocation info has been found.''))) (\<lambda>info.
       case (ri_cred_rev_id info, ri_rev_reg_id info, ri_tails_file info) of
         (Some cred_rev_id, Some rev_reg_id, Some tails_file) \<Rightarrow>
           call (ac_revoke_credential_local prof tails_file rev_reg_id cred_rev_id)
       | _ \<Rightarrow> vfail (AriesVcxError_from_msg InvalidState
                ''Revocation info is not complete, cannot revoke credential.''))"

definition Issuer_step ::
    "lib \<Rightarrow> 'w profile \<Rightarrow> CredentialIssuanceAction \<Rightarrow> 'w SendClosure option \<Rightarrow> (IssuerSM, 'w, unit) hop" where
  "Issuer_step lib prof message send = hstore (\<lambda>self. IssuerSM_handle_message lib prof send self message)"

definition Issuer_update_state ::
    "lib \<Rightarrow> 'w profile \<Rightarrow> 'w mediated_connection \<Rightarrow> (IssuerSM, 'w, IssuerState) hop" where
  "Issuer_update_state lib prof connection =
     handler_update_state IssuerSM_is_terminal_state IssuerSM_get_state IssuerSM_accepts
       CredentialIssuanceAction_from (IssuerSM_handle_message lib prof) connection"

subsection \<open>The machine as an instance of the protocol interfaces\<close>

definition issuer_settled :: "IssuerSM \<Rightarrow> bool" where
  "issuer_settled self = (issuer_state self \<noteq> I_Initial)"

lemmas issuer_ops = IssuerSM_receive_proposal_def IssuerSM_receive_request_def
  IssuerSM_receive_ack_def IssuerSM_receive_problem_report_def

lemma issuer_same_state [simp]: "self\<lparr>issuer_state := issuer_state self\<rparr> = (self :: IssuerSM)"
  by (cases self) simp

lemma issuer_terminal_iff: "IssuerSM_is_terminal_state self \<longleftrightarrow> (\<exists>f. issuer_state self = I_Finished f)"
  by (auto simp: IssuerSM_is_terminal_state_def split: IssuerFullState.splits)

lemma issuer_terminal_stays:
  assumes "IssuerSM_is_terminal_state self"
  shows "yields (IssuerSM_handle_message lib prof send self a) (\<lambda>m. m = self)"
proof -
  obtain f where f: "issuer_state self = I_Finished f" using assms issuer_terminal_iff by blast
  have same: "self\<lparr>issuer_state := I_Finished f\<rparr> = self"
    "self\<lparr>issuer_thread_id := issuer_thread_id self, issuer_state := I_Finished f\<rparr> = self"
    using f by (cases self, simp)+
  show ?thesis
    unfolding IssuerSM_handle_message_def
    by (intro yields_bind_any) (auto simp: f same issuer_ops IssuerSM_send_credential_def res_simps
        intro!: yields_bind_any split: CredentialIssuanceAction.splits)
qed

lemma issuer_settled_stays:
  assumes "issuer_settled self"
  shows "yields (IssuerSM_handle_message lib prof send self a)
           (\<lambda>m. issuer_settled m \<and> issuer_thread_id m = issuer_thread_id self)"
  unfolding IssuerSM_handle_message_def
  using assms
  by (intro yields_bind_any)
     (auto simp: issuer_settled_def issuer_ops IssuerSM_send_credential_def res_simps Let_def
      intro!: yields_bind_any split: CredentialIssuanceAction.splits IssuerFullState.splits sum.splits)

lemma issuer_send_credential_own:
  "sends_only (in_thread (issuer_thread_id self)) (IssuerSM_send_credential lib prof self send)"
  unfolding IssuerSM_send_credential_def issuer_create_credential_def build_credential_message_def
  by (auto simp: in_thread_def Let_def intro!: sends_only_bind sends_only_try sends_only_send
      split: IssuerFullState.splits sum.splits)

lemma issuer_sends_own:
  "sends_only (in_thread (issuer_thread_id self)) (IssuerSM_handle_message lib prof send self a)"
  unfolding IssuerSM_handle_message_def
  by (intro sends_only_bind)
     (auto intro!: sends_only_bind issuer_send_credential_own split: CredentialIssuanceAction.splits)

lemma issuer_terminal_silent:
  assumes "IssuerSM_is_terminal_state self"
  shows "sends_only (\<lambda>_. False) (IssuerSM_handle_message lib prof send self a)"
proof -
  obtain f where f: "issuer_state self = I_Finished f" using assms issuer_terminal_iff by blast
  show ?thesis
    unfolding IssuerSM_handle_message_def
    by (intro sends_only_bind) (auto simp: IssuerSM_send_credential_def f
        intro!: sends_only_bind split: CredentialIssuanceAction.splits)
qed

interpretation issuer: protocol_machine "IssuerSM_handle_message lib prof send"
  IssuerSM_is_terminal_state issuer_settled issuer_thread_id in_thread
  for lib :: lib and prof :: "'w profile" and send :: "'w SendClosure option"
  by unfold_locales
     (rule issuer_terminal_stays issuer_terminal_silent issuer_settled_stays issuer_sends_own; assumption)+

lemma issuer_accepts_thread:
  assumes "issuer_settled self" "IssuerSM_accepts self msg"
  shows "message_matches (issuer_thread_id self) msg"
  using assms
  by (auto simp: issuer_settled_def IssuerSM_accepts_def split: IssuerFullState.splits
      AriesMessage.splits CredentialIssuance.splits Notification.splits)

interpretation issuer_router: message_router IssuerSM_accepts issuer_settled
  IssuerSM_is_terminal_state issuer_thread_id
  by unfold_locales
     (auto simp: issuer_accepts_thread issuer_terminal_iff IssuerSM_accepts_def)


subsection \<open>Operations as steps, and the abstract protocol\<close>

text \<open>One successful operation of the machine; \<open>issuer_reach\<close> closes it under any other activity
  of the agent (failed calls included), which can only add to the outgoing messages.\<close>

inductive issuer_op ::
    "lib \<Rightarrow> 'w profile \<Rightarrow> IssuerSM \<Rightarrow> 'w runtime \<Rightarrow> IssuerSM \<Rightarrow> 'w runtime \<Rightarrow> bool" for lib prof where
  op_handle: "IssuerSM_handle_message lib prof send m a s = (Inr m', s') \<Longrightarrow> issuer_op lib prof m s m' s'"
| op_build_offer: "IssuerSM_build_credential_offer_msg lib m offer preview comment info s = (Inr m', s')
     \<Longrightarrow> issuer_op lib prof m s m' s'"
| op_mark_sent: "IssuerSM_mark_credential_offer_msg_sent m = Inr m' \<Longrightarrow> issuer_op lib prof m s m' s"
| op_send_offer: "IssuerSM_send_credential_offer m c s = (Inr m', s') \<Longrightarrow> issuer_op lib prof m s m' s'"
| op_send_credential: "IssuerSM_send_credential lib prof m c s = (Inr m', s') \<Longrightarrow> issuer_op lib prof m s m' s'"

inductive issuer_reach ::
    "lib \<Rightarrow> 'w profile \<Rightarrow> IssuerSM \<times> 'w runtime \<Rightarrow> IssuerSM \<times> 'w runtime \<Rightarrow> bool"
  for lib prof x where
  reach_refl: "issuer_reach lib prof x x"
| reach_op: "issuer_reach lib prof x (m, s) \<Longrightarrow> issuer_op lib prof m s m' s'
     \<Longrightarrow> issuer_reach lib prof x (m', s')"
| reach_other: "issuer_reach lib prof x (m, s) \<Longrightarrow> rt_outbox s' = rt_outbox s @ ms
     \<Longrightarrow> issuer_reach lib prof x (m, s')"

text \<open>The protocol as the states of the public API see it.\<close>

inductive issuer_protocol :: "IssuerState \<Rightarrow> IssuerState \<Rightarrow> bool" where
  "issuer_protocol IS_Initial IS_ProposalReceived"
| "issuer_protocol IS_Initial IS_OfferSet"
| "issuer_protocol IS_ProposalReceived IS_OfferSet"
| "issuer_protocol IS_OfferSet IS_OfferSent"
| "issuer_protocol IS_OfferSent IS_ProposalReceived"
| "issuer_protocol IS_OfferSent IS_RequestReceived"
| "issuer_protocol IS_OfferSent IS_Failed"
| "issuer_protocol IS_RequestReceived IS_CredentialSent"
| "issuer_protocol IS_RequestReceived IS_Failed"
| "issuer_protocol IS_CredentialSent IS_Finished"

inductive_simps issuer_protocol_from [simp]:
  "issuer_protocol IS_Initial t" "issuer_protocol IS_OfferSet t" "issuer_protocol IS_ProposalReceived t"
  "issuer_protocol IS_OfferSent t" "issuer_protocol IS_RequestReceived t"
  "issuer_protocol IS_CredentialSent t" "issuer_protocol IS_Finished t" "issuer_protocol IS_Failed t"

lemma issuer_receive_outcomes:
  "IssuerSM_receive_proposal mocks m p = Inr m1 \<Longrightarrow> m1 = m \<or>
     (issuer_state m = I_Initial \<or> (\<exists>d. issuer_state m = I_OfferSent d)) \<and>
     issuer_state m1 = I_ProposalReceived (ProposalReceivedState_new p None)"
  "IssuerSM_receive_request mocks m r = Inr m2 \<Longrightarrow> m2 = m \<or>
     (\<exists>d. issuer_state m = I_OfferSent d \<and> m2 = m\<lparr>issuer_state := I_RequestReceived (RequestReceivedState_from d r)\<rparr>)"
  "IssuerSM_receive_ack mocks m ack = Inr m3 \<Longrightarrow> m3 = m \<or>
     (\<exists>d. issuer_state m = I_CredentialSent d \<and> m3 = m\<lparr>issuer_state := I_Finished (FinishedState_from_credential_sent d)\<rparr>)"
  "IssuerSM_receive_problem_report mocks m rep = Inr m4 \<Longrightarrow> m4 = m \<or>
     (\<exists>d. issuer_state m = I_OfferSent d \<and> m4 = m\<lparr>issuer_state := I_Finished (FinishedState_from_offer_sent_report d rep)\<rparr>) \<or>
     (\<exists>d. issuer_state m = I_CredentialSent d \<and> m4 = m\<lparr>issuer_state := I_Finished (FinishedState_from_credential_sent d)\<rparr>)"
  by (cases m; auto simp: issuer_ops res_simps split: IssuerFullState.splits)+

lemma issuer_send_credential_outcomes:
  assumes "IssuerSM_send_credential lib prof m c s = (Inr m', s')"
  shows "\<exists>d. issuer_state m = I_RequestReceived d \<and>
    ((\<exists>msg rev pre. m' = m\<lparr>issuer_state := I_CredentialSent (CredentialSentState_from d rev)\<rparr>
        \<and> rt_outbox s' = pre @ [AM_CredentialIssuance (CI_IssueCredential msg)]
        \<and> thid (kd_thread (msg_decorators msg)) = issuer_thread_id m
        \<and> kd_please_ack (msg_decorators msg) = Some (PleaseAck_new []))
     \<or> (\<exists>rep pre. m' = m\<lparr>issuer_state := I_Finished (FinishedState_from_request_report d rep)\<rparr>
        \<and> rt_outbox s' = pre @ [AM_ReportProblem rep]
        \<and> prd_thread (msg_decorators rep) = Some (Thread_new (issuer_thread_id m))))"
proof -
  obtain d where d: "issuer_state m = I_RequestReceived d"
    using assms by (auto simp: IssuerSM_send_credential_def split: IssuerFullState.splits)
  obtain r t where t: "issuer_create_credential lib prof (rrc_request d) (rrc_rev_reg_id d)
      (rrc_tails_file d) (rrc_offer d) (rrc_cred_data d) (issuer_thread_id m) s = (r, t)" by force
  show ?thesis
  proof (cases r)
    case (Inl e)
    then show ?thesis
      using assms t by (auto simp: IssuerSM_send_credential_def d vbind_Inr_iff vtry_Inr_iff
          send_message_Inr_iff Let_def)
  next
    case (Inr p)
    then show ?thesis
      using assms t by (cases p) (auto simp: IssuerSM_send_credential_def d vbind_Inr_iff vtry_Inr_iff
          send_message_Inr_iff Let_def)
  qed
qed

lemma issuer_handle_outcomes:
  assumes "IssuerSM_handle_message lib prof send m a s = (Inr m', s')"
  shows "(\<exists>p. IssuerSM_receive_proposal (rt_mocks s) m p = Inr m' \<and> a = CIA_CredentialProposal p \<and> s' = s)
       \<or> (\<exists>r. IssuerSM_receive_request (rt_mocks s) m r = Inr m' \<and> a = CIA_CredentialRequest r \<and> s' = s)
       \<or> (\<exists>k. IssuerSM_receive_ack (rt_mocks s) m k = Inr m' \<and> a = CIA_CredentialAck k \<and> s' = s)
       \<or> (\<exists>p. IssuerSM_receive_problem_report (rt_mocks s) m p = Inr m' \<and> a = CIA_ProblemReport p \<and> s' = s)
       \<or> (\<exists>c. IssuerSM_send_credential lib prof m c s = (Inr m', s') \<and> a = CIA_CredentialSend)
       \<or> m' = m \<and> s' = s"
  using assms
  by (auto simp: IssuerSM_handle_message_def vbind_Inr_iff split: CredentialIssuanceAction.splits)

lemma issuer_state_names [simp]:
  "issuer_state m = I_Initial \<Longrightarrow> IssuerSM_get_state m = IS_Initial"
  "issuer_state m = I_OfferSet d1 \<Longrightarrow> IssuerSM_get_state m = IS_OfferSet"
  "issuer_state m = I_ProposalReceived d2 \<Longrightarrow> IssuerSM_get_state m = IS_ProposalReceived"
  "issuer_state m = I_OfferSent d3 \<Longrightarrow> IssuerSM_get_state m = IS_OfferSent"
  "issuer_state m = I_RequestReceived d4 \<Longrightarrow> IssuerSM_get_state m = IS_RequestReceived"
  "issuer_state m = I_CredentialSent d5 \<Longrightarrow> IssuerSM_get_state m = IS_CredentialSent"
  "issuer_state m = I_Finished (FinishedState_from_credential_sent d5) \<Longrightarrow> IssuerSM_get_state m = IS_Finished"
  "issuer_state m = I_Finished (FinishedState_from_offer_sent_report d3 rep) \<Longrightarrow> IssuerSM_get_state m = IS_Failed"
  "issuer_state m = I_Finished (FinishedState_from_request_report d4 rep) \<Longrightarrow> IssuerSM_get_state m = IS_Failed"
  by (simp_all add: IssuerSM_get_state_def FinishedState_from_credential_sent_def
      FinishedState_from_offer_sent_report_def FinishedState_from_request_report_def)

lemma issuer_offer_ops:
  "IssuerSM_build_credential_offer_msg lib m offer preview comment info s = (Inr m1, s1) \<Longrightarrow>
     (issuer_state m = I_Initial \<or> (\<exists>d. issuer_state m = I_OfferSet d) \<or> (\<exists>d. issuer_state m = I_ProposalReceived d))
     \<and> (\<exists>d. issuer_state m1 = I_OfferSet d) \<and> issuer_thread_id m1 = issuer_thread_id m
     \<and> rt_outbox s1 = rt_outbox s"
  "IssuerSM_mark_credential_offer_msg_sent m = Inr m2 \<Longrightarrow>
     ((\<exists>d. issuer_state m = I_OfferSet d) \<or> (\<exists>d. issuer_state m = I_OfferSent d))
     \<and> (\<exists>d. issuer_state m2 = I_OfferSent d) \<and> issuer_thread_id m2 = issuer_thread_id m"
  by (auto simp: IssuerSM_build_credential_offer_msg_def build_credential_offer_def
      IssuerSM_mark_credential_offer_msg_sent_def IssuerSM_step_def vbind_Inr_iff res_simps Let_def
      split: IssuerFullState.splits)

lemma issuer_send_offer_outcomes:
  assumes "IssuerSM_send_credential_offer m c s = (Inr m', s')"
  shows "(\<exists>d. issuer_state m = I_OfferSet d
           \<and> rt_outbox s' = rt_outbox s @ [AM_CredentialIssuance (CI_OfferCredential (oset_offer d))])
       \<and> (\<exists>d. issuer_state m' = I_OfferSent d) \<and> issuer_thread_id m' = issuer_thread_id m"
  using assms issuer_offer_ops(2)
  by (auto simp: IssuerSM_send_credential_offer_def vbind_Inr_iff send_message_Inr_iff
      split: IssuerFullState.splits)

lemma issuer_op_protocol:
  assumes "issuer_op lib prof m s m' s'"
  shows "IssuerSM_get_state m' = IssuerSM_get_state m \<or>
         issuer_protocol (IssuerSM_get_state m) (IssuerSM_get_state m')"
  using assms
proof cases
  case (op_handle send a)
  from issuer_handle_outcomes [OF this] show ?thesis
    by (auto dest!: issuer_receive_outcomes issuer_send_credential_outcomes)
next
  case (op_build_offer offer preview comment info)
  then show ?thesis by (auto dest!: issuer_offer_ops(1))
next
  case op_mark_sent
  then show ?thesis by (auto dest!: issuer_offer_ops(2))
next
  case (op_send_offer c)
  then show ?thesis by (auto dest!: issuer_send_offer_outcomes)
next
  case (op_send_credential c)
  then show ?thesis by (auto dest!: issuer_send_credential_outcomes)
qed

definition credential_issued :: "IssuerSM \<Rightarrow> 'w runtime \<Rightarrow> bool" where
  "credential_issued m s =
     (\<exists>msg. AM_CredentialIssuance (CI_IssueCredential msg) \<in> set (rt_outbox s)
          \<and> thid (kd_thread (msg_decorators msg)) = issuer_thread_id m)"

definition issuer_inv :: "IssuerSM \<Rightarrow> 'w runtime \<Rightarrow> bool" where
  "issuer_inv m s =
     (case issuer_state m of
        I_CredentialSent _ \<Rightarrow> credential_issued m s
      | I_Finished f \<Rightarrow> fin_status f = Success \<longrightarrow> credential_issued m s
      | _ \<Rightarrow> True)"

lemma issuer_op_inv:
  assumes "issuer_op lib prof m s m' s'" "issuer_inv m s"
  shows "issuer_inv m' s'"
  using assms(1)
proof cases
  case (op_handle send a)
  from issuer_handle_outcomes [OF this] show ?thesis
    using assms(2)
    by (auto dest!: issuer_receive_outcomes issuer_send_credential_outcomes
        simp: issuer_inv_def credential_issued_def FinishedState_from_credential_sent_def
          FinishedState_from_offer_sent_report_def FinishedState_from_request_report_def)
next
  case (op_build_offer offer preview comment info)
  then show ?thesis by (auto dest!: issuer_offer_ops(1) simp: issuer_inv_def)
next
  case op_mark_sent
  then show ?thesis by (auto dest!: issuer_offer_ops(2) simp: issuer_inv_def)
next
  case (op_send_offer c)
  then show ?thesis by (auto dest!: issuer_send_offer_outcomes simp: issuer_inv_def)
next
  case (op_send_credential c)
  then show ?thesis
    by (auto dest!: issuer_send_credential_outcomes
        simp: issuer_inv_def credential_issued_def FinishedState_from_request_report_def)
qed

lemma issuer_reach_inv:
  assumes "issuer_reach lib prof x y" "issuer_inv (fst x) (snd x)"
  shows "issuer_inv (fst y) (snd y)"
  using assms
proof induction
  case (reach_op m s m' s')
  then show ?case using issuer_op_inv by fastforce
next
  case (reach_other m s s' ms)
  then show ?case
    by (auto simp: issuer_inv_def credential_issued_def split: IssuerFullState.splits)
qed simp

subsection \<open>Properties\<close>

text \<open>
  C12. An issuer that started before any credential was sent and whose public state is Finished (the
  exchange succeeded) has handed an issue-credential message on its own thread to the transport,
  whatever sequence of operations, received messages and failures led there.
\<close>

theorem issuer_success_means_credential_sent:
  assumes "issuer_reach lib prof (m0, s0) (m, s)" "issuer_state m0 = I_Initial"
    and "IssuerSM_get_state m = IS_Finished"
  shows "\<exists>msg. AM_CredentialIssuance (CI_IssueCredential msg) \<in> set (rt_outbox s)
             \<and> thid (kd_thread (msg_decorators msg)) = issuer_thread_id m"
proof -
  have "issuer_inv m0 s0" using assms(2) by (simp add: issuer_inv_def)
  then have "issuer_inv m s" using issuer_reach_inv [OF assms(1)] by simp
  then show ?thesis
    using assms(3) by (auto simp: issuer_inv_def credential_issued_def IssuerSM_get_state_def
        split: IssuerFullState.splits Status.splits)
qed

text \<open>
  C30. Every operation of the issuer either leaves the public state as it is or makes one of the
  moves of the issue-credential protocol: the machine implements the abstract protocol.
\<close>

theorem issuer_implements_protocol:
  assumes "issuer_op lib prof m s m' s'"
  shows "IssuerSM_get_state m' = IssuerSM_get_state m
       \<or> issuer_protocol (IssuerSM_get_state m) (IssuerSM_get_state m')"
  using assms by (rule issuer_op_protocol)

text \<open>
  Once the issuer's thread is settled, any sequence of handled actions keeps the thread id, and
  every message sent on the way belongs to that thread, also when the sequence ends in an error.
\<close>

theorem issuer_run_stays_on_thread:
  assumes "issuer_settled m"
    and "run_actions (IssuerSM_handle_message lib prof send) m actions s = (r, s')"
  shows "(\<exists>ms. rt_outbox s' = rt_outbox s @ ms \<and> (\<forall>x \<in> set ms. effective_thid x = issuer_thread_id m))
       \<and> (case r of Inr m' \<Rightarrow> issuer_thread_id m' = issuer_thread_id m | Inl _ \<Rightarrow> True)"
  using issuer.run_result [OF assms] by (simp add: in_thread_def)

text \<open>
  A finished issuer is final: handling further actions neither changes the machine nor sends
  anything.
\<close>

theorem issuer_finished_is_final:
  assumes "IssuerSM_is_terminal_state m"
    and "run_actions (IssuerSM_handle_message lib prof send) m actions s = (r, s')"
  shows "rt_outbox s' = rt_outbox s \<and> (case r of Inr m' \<Rightarrow> m' = m | Inl _ \<Rightarrow> True)"
  using assms by (rule issuer.run_terminal_result)

text \<open>
  A problem report from the holder after the credential was sent (for instance because it could
  not be stored) is recorded as success: the public state becomes Finished, the credential status 1,
  and the report is dropped. Before the credential is sent the same report makes the exchange fail.
\<close>

theorem issuer_problem_report_after_credential_is_success:
  "(issuer_state m = I_CredentialSent d \<longrightarrow>
      (\<exists>m'. IssuerSM_receive_problem_report mocks m report = Inr m'
         \<and> IssuerSM_get_state m' = IS_Finished \<and> IssuerSM_credential_status m' = 1))
 \<and> (issuer_state m = I_OfferSent d' \<longrightarrow>
      (\<exists>m'. IssuerSM_receive_problem_report mocks m report = Inr m'
         \<and> IssuerSM_get_state m' = IS_Failed \<and> IssuerSM_credential_status m' = 2))"
  by (auto simp: IssuerSM_receive_problem_report_def issuance_verify_thread_id_def
      IssuerSM_credential_status_def FinishedState_from_credential_sent_def
      FinishedState_from_offer_sent_report_def IssuerSM_get_state_def)

text \<open>
  The thread of a credential request is not checked on receipt: a request of a foreign thread
  is accepted in OfferSent, and sending the credential then fails the whole exchange with a problem
  report, once the transport takes it.
\<close>

theorem issuer_foreign_request_fails_exchange:
  assumes "issuer_state m = I_OfferSent d"
    and "\<not> matches_opt_thread_id (od_thread (msg_decorators request)) (issuer_thread_id m)"
    and "\<And>report w. \<exists>w'. send (AM_ReportProblem report) w = (Inr (), w')"
  shows "\<exists>m1 m2 s'. IssuerSM_receive_request mocks m request = Inr m1
           \<and> IssuerSM_get_state m1 = IS_RequestReceived
           \<and> IssuerSM_send_credential lib prof m1 send s = (Inr m2, s')
           \<and> IssuerSM_get_state m2 = IS_Failed"
proof -
  let ?d = "RequestReceivedState_from d request"
  let ?m1 = "m\<lparr>issuer_state := I_RequestReceived ?d\<rparr>"
  have 1: "IssuerSM_receive_request mocks m request = Inr ?m1"
    using assms(1) by (simp add: IssuerSM_receive_request_def issuance_verify_thread_id_def)
  obtain e where e: "issuer_create_credential lib prof request (rrc_rev_reg_id ?d) (rrc_tails_file ?d)
      (rrc_offer ?d) (rrc_cred_data ?d) (issuer_thread_id m) s = (Inl e, s)"
    using assms(2)
    by (cases "get_attach_as_string (lib_b64dec lib) (offers_attach (msg_content (rrc_offer ?d)))")
       (auto simp: issuer_create_credential_def vbind_def run_simps)
  let ?rep = "build_problem_report_msg (rt_uuid s (rt_draws s)) (Some (AriesVcxError_to_string e))
      (issuer_thread_id m)"
  obtain w' where "send (AM_ReportProblem ?rep) (rt_world s) = (Inr (), w')"
    using assms(3) by blast
  then have "\<exists>s'. IssuerSM_send_credential lib prof ?m1 send s =
      (Inr (?m1\<lparr>issuer_state := I_Finished (FinishedState_from_request_report ?d ?rep)\<rparr>), s')"
    using e by (auto simp: IssuerSM_send_credential_def RequestReceivedState_from_def vbind_def
        vtry_def send_message_def run_simps Let_def)
  then show ?thesis using 1 by (fastforce simp: IssuerSM_get_state_def FinishedState_from_request_report_def)
qed

text \<open>
  After one call of the handler's \<open>update_state\<close> the machine is unchanged, or it was not
  final and is the result of handling one message that it accepts in its state; a machine whose
  thread is settled accepts messages of that thread only.
\<close>

theorem issuer_update_state_handles_own_message:
  assumes "Issuer_update_state lib prof connection m s = (r, m', s')" "issuer_settled m"
  shows "m' = m \<or>
    (\<not> IssuerSM_is_terminal_state m \<and>
     (\<exists>c msg t t'. message_matches (issuer_thread_id m) msg
        \<and> IssuerSM_handle_message lib prof (Some c) m (CredentialIssuanceAction_from msg) t = (Inr m', t')))"
  using handler_update_state_step [OF assms(1) [unfolded Issuer_update_state_def]]
    issuer_accepts_thread [OF assms(2)] by blast

subsection \<open>The properties at concrete inputs\<close>

definition demo_issuer :: IssuerSM where
  "demo_issuer = \<lparr>issuer_source_id = ''src'', issuer_thread_id = ''t1'', issuer_state = I_Initial\<rparr>"

definition demo_info :: OfferInfo where
  "demo_info = OfferInfo_new ''{}'' ''cd'' (Some ''rr'') (Some ''tails'')"

definition demo_request :: "string \<Rightarrow> RequestCredential" where
  "demo_request thread =
     MsgParts_with_decorators ''r1''
       (RequestCredentialContent_new [make_attach_from_str (lib_b64enc demo_lib) ''req'' ''a''])
       (opt_decorators_default\<lparr>od_thread := Some (Thread_new thread)\<rparr>)"

definition demo_ack :: AckCredential where
  "demo_ack = MsgParts_with_decorators ''k1'' (AckContent_new Ack_Ok) (thr_decorators_new (Thread_new ''t1''))"

definition demo_report :: ProblemReport where
  "demo_report = build_problem_report_msg ''p1'' None ''t1''"

definition demo_handle :: "IssuerSM \<Rightarrow> CredentialIssuanceAction \<Rightarrow> (unit, IssuerSM) vcx" where
  "demo_handle = IssuerSM_handle_message demo_lib demo_profile (Some demo_send)"

definition demo_issue :: "(IssuerSM \<times> unit runtime) option" where
  "demo_issue =
     Option.bind (ok_pair (IssuerSM_build_credential_offer_msg demo_lib demo_issuer ''offer''
                     (CredentialPreview_new []) None demo_info demo_runtime)) (\<lambda>(m1, s1).
     Option.bind (ok_pair (IssuerSM_send_credential_offer m1 demo_send s1)) (\<lambda>(m2, s2).
     Option.bind (ok_pair (demo_handle m2 (CIA_CredentialRequest (demo_request ''t1'')) s2)) (\<lambda>(m3, s3).
     Option.bind (ok_pair (demo_handle m3 CIA_CredentialSend s3)) (\<lambda>(m4, s4).
       ok_pair (demo_handle m4 (CIA_CredentialAck demo_ack) s4)))))"

lemma demo_issue_reach:
  assumes "demo_issue = Some (m, s)"
  shows "issuer_reach demo_lib demo_profile (demo_issuer, demo_runtime) (m, s)"
proof -
  from assms obtain m1 s1 m2 s2 m3 s3 m4 s4 where
    1: "IssuerSM_build_credential_offer_msg demo_lib demo_issuer ''offer''
          (CredentialPreview_new []) None demo_info demo_runtime = (Inr m1, s1)" and
    2: "IssuerSM_send_credential_offer m1 demo_send s1 = (Inr m2, s2)" and
    3: "demo_handle m2 (CIA_CredentialRequest (demo_request ''t1'')) s2 = (Inr m3, s3)" and
    4: "demo_handle m3 CIA_CredentialSend s3 = (Inr m4, s4)" and
    5: "demo_handle m4 (CIA_CredentialAck demo_ack) s4 = (Inr m, s)"
    by (auto simp: demo_issue_def bind_eq_Some_conv ok_pair_Some)
  note r1 = reach_op [OF reach_refl op_build_offer [OF 1], of demo_profile]
  note r2 = reach_op [OF r1 op_send_offer [OF 2]]
  note r3 = reach_op [OF r2 op_handle [OF 3 [unfolded demo_handle_def]]]
  note r4 = reach_op [OF r3 op_handle [OF 4 [unfolded demo_handle_def]]]
  show ?thesis by (rule reach_op [OF r4 op_handle [OF 5 [unfolded demo_handle_def]]])
qed

lemmas demo_eval = demo_issuer_def demo_info_def demo_request_def demo_ack_def demo_report_def
  demo_defs OfferInfo_new_def make_attach_from_str_def Attachment_new_def AttachmentData_new_def
  opt_decorators_default_def thr_decorators_new_def ack_decorators_new_def
  RequestCredentialContent_new_def IssueCredentialContent_new_def OfferCredentialContent_new_def
  MsgParts_with_decorators_def

lemmas issuer_eval = IssuerSM_build_credential_offer_msg_def build_credential_offer_def
  IssuerSM_send_credential_offer_def IssuerSM_mark_credential_offer_msg_sent_def IssuerSM_step_def
  IssuerSM_handle_message_def IssuerSM_send_credential_def issuer_create_credential_def
  build_credential_message_def issuer_ops issuance_verify_thread_id_def OfferSetState_new_def
  OfferSentState_from_set_def RequestReceivedState_from_def CredentialSentState_from_def
  FinishedState_from_credential_sent_def encode_attributes_def first_attr_def encode_def
  parse_uint_def is_digit_def get_attach_as_string_def is_utf8_def cont_byte_def
  vbind_def vtry_def call_def send_message_def run_simps Let_def

lemma demo_issue_value: "\<exists>m s. demo_issue = Some (m, s) \<and> IssuerSM_get_state m = IS_Finished"
  by (simp add: demo_issue_def demo_handle_def ok_pair_def demo_eval issuer_eval IssuerSM_get_state_def)

theorem issuer_success_means_credential_sent_witness:
  "\<exists>m s. issuer_reach demo_lib demo_profile (demo_issuer, demo_runtime) (m, s)
     \<and> IssuerSM_get_state m = IS_Finished
     \<and> (\<exists>msg. AM_CredentialIssuance (CI_IssueCredential msg) \<in> set (rt_outbox s)
             \<and> thid (kd_thread (msg_decorators msg)) = issuer_thread_id m)"
proof -
  obtain m s where d: "demo_issue = Some (m, s)" "IssuerSM_get_state m = IS_Finished"
    using demo_issue_value by blast
  moreover note demo_issue_reach [OF d(1)]
  moreover have "issuer_state demo_issuer = I_Initial" by (simp add: demo_issuer_def)
  ultimately show ?thesis using issuer_success_means_credential_sent by blast
qed

theorem issuer_implements_protocol_witness:
  "\<exists>m' s'. issuer_op demo_lib demo_profile demo_issuer demo_runtime m' s'
     \<and> issuer_protocol (IssuerSM_get_state demo_issuer) (IssuerSM_get_state m')"
proof -
  obtain m' s' where 1: "IssuerSM_build_credential_offer_msg demo_lib demo_issuer ''offer''
      (CredentialPreview_new []) None demo_info demo_runtime = (Inr m', s')"
      "IssuerSM_get_state m' \<noteq> IssuerSM_get_state demo_issuer"
    by (simp add: demo_eval issuer_eval IssuerSM_get_state_def)
  then have "issuer_op demo_lib demo_profile demo_issuer demo_runtime m' s'"
    by (blast intro: op_build_offer)
  then show ?thesis using issuer_implements_protocol 1(2) by blast
qed

theorem issuer_run_stays_on_thread_witness:
  "\<exists>r s' ms. run_actions demo_handle (demo_issuer\<lparr>issuer_state := I_RequestReceived
        \<lparr>rrc_offer = MsgParts_with_decorators ''t1'' (OfferCredentialContent_new (CredentialPreview_new [])
            [make_attach_from_str (lib_b64enc demo_lib) ''o'' ''a'']) opt_decorators_default,
          rrc_cred_data = ''{}'', rrc_rev_reg_id = None, rrc_tails_file = None,
          rrc_request = demo_request ''t1''\<rparr>\<rparr>) [CIA_CredentialSend] demo_runtime = (r, s')
     \<and> rt_outbox s' = ms \<and> ms \<noteq> [] \<and> (\<forall>x \<in> set ms. effective_thid x = ''t1'')"
proof -
  let ?m = "demo_issuer\<lparr>issuer_state := I_RequestReceived
        \<lparr>rrc_offer = MsgParts_with_decorators ''t1'' (OfferCredentialContent_new (CredentialPreview_new [])
            [make_attach_from_str (lib_b64enc demo_lib) ''o'' ''a'']) opt_decorators_default,
          rrc_cred_data = ''{}'', rrc_rev_reg_id = None, rrc_tails_file = None,
          rrc_request = demo_request ''t1''\<rparr>\<rparr>"
  obtain r s' where run: "run_actions demo_handle ?m [CIA_CredentialSend] demo_runtime = (r, s')"
    "rt_outbox s' \<noteq> []"
    by (simp add: demo_handle_def demo_eval issuer_eval)
  have "issuer_settled ?m" by (simp add: issuer_settled_def)
  from issuer_run_stays_on_thread [OF this run(1) [unfolded demo_handle_def]] run
  show ?thesis by (auto simp: demo_runtime_def demo_issuer_def)
qed

theorem issuer_finished_is_final_witness:
  "rt_outbox (snd (run_actions demo_handle
       (demo_issuer\<lparr>issuer_state := I_Finished (FinishedState_from_credential_sent
           \<lparr>csent_revocation_info_v1 = None\<rparr>)\<rparr>)
       [CIA_CredentialAck demo_ack, CIA_CredentialSend] demo_runtime)) = []"
proof -
  let ?m = "demo_issuer\<lparr>issuer_state := I_Finished (FinishedState_from_credential_sent
           \<lparr>csent_revocation_info_v1 = None\<rparr>)\<rparr>"
  obtain r s' where run: "run_actions (IssuerSM_handle_message demo_lib demo_profile (Some demo_send)) ?m
      [CIA_CredentialAck demo_ack, CIA_CredentialSend] demo_runtime = (r, s')" by force
  have "IssuerSM_is_terminal_state ?m" by (simp add: IssuerSM_is_terminal_state_def)
  from issuer_finished_is_final [OF this run] run
  show ?thesis by (simp add: demo_handle_def demo_runtime_def)
qed

theorem issuer_problem_report_after_credential_is_success_witness:
  "\<exists>m'. IssuerSM_receive_problem_report False
          (demo_issuer\<lparr>issuer_state := I_CredentialSent \<lparr>csent_revocation_info_v1 = None\<rparr>\<rparr>) demo_report = Inr m'
      \<and> IssuerSM_get_state m' = IS_Finished \<and> IssuerSM_credential_status m' = 1"
  using issuer_problem_report_after_credential_is_success
    [of "demo_issuer\<lparr>issuer_state := I_CredentialSent \<lparr>csent_revocation_info_v1 = None\<rparr>\<rparr>"
        "\<lparr>csent_revocation_info_v1 = None\<rparr>" False demo_report]
  by simp

theorem issuer_foreign_request_fails_exchange_witness:
  "\<exists>m1 m2 s'. IssuerSM_receive_request False
        (demo_issuer\<lparr>issuer_state := I_OfferSent \<lparr>osent_offer = MsgParts_with_decorators ''t1''
            (OfferCredentialContent_new (CredentialPreview_new []) []) opt_decorators_default,
            osent_cred_data = ''{}'', osent_rev_reg_id = None, osent_tails_file = None\<rparr>\<rparr>)
        (demo_request ''other'') = Inr m1
      \<and> IssuerSM_get_state m1 = IS_RequestReceived
      \<and> IssuerSM_send_credential demo_lib demo_profile m1 demo_send demo_runtime = (Inr m2, s')
      \<and> IssuerSM_get_state m2 = IS_Failed"
  by (rule issuer_foreign_request_fails_exchange)
     (simp_all add: demo_issuer_def demo_request_def demo_send_def)

definition demo_issuer_sent :: IssuerSM where
  "demo_issuer_sent = demo_issuer\<lparr>issuer_state := I_CredentialSent \<lparr>csent_revocation_info_v1 = None\<rparr>\<rparr>"

theorem issuer_update_state_handles_own_message_witness:
  "\<exists>r m' s'. Issuer_update_state demo_lib demo_profile
        (demo_connection [(''u1'', AM_CredentialIssuance (CI_Ack demo_ack))]) demo_issuer_sent demo_runtime
      = (r, m', s')
    \<and> (m' = demo_issuer_sent \<or>
       \<not> IssuerSM_is_terminal_state demo_issuer_sent \<and>
       (\<exists>c msg t t'. message_matches (issuer_thread_id demo_issuer_sent) msg
          \<and> IssuerSM_handle_message demo_lib demo_profile (Some c) demo_issuer_sent
               (CredentialIssuanceAction_from msg) t = (Inr m', t')))"
proof -
  obtain r m' s' where run: "Issuer_update_state demo_lib demo_profile
        (demo_connection [(''u1'', AM_CredentialIssuance (CI_Ack demo_ack))]) demo_issuer_sent demo_runtime
      = (r, m', s')" by (rule prod_cases3)
  have "issuer_settled demo_issuer_sent" by (simp add: issuer_settled_def demo_issuer_sent_def)
  from issuer_update_state_handles_own_message [OF run this] run show ?thesis by blast
qed

end
