(* ===== verification/Holder.thy ===== *)
theory Holder
  imports Issuance
begin

text \<open>
  The holder of a credential: aries_vcx/src/protocols/issuance/holder/state_machine.rs with the
  states under holder/states, and the handler aries_vcx/src/handlers/issuance/holder.rs.

  \<open>serde_json::Map\<close> indexed with a missing key panics; the two functions that index one return
  \<open>None\<close> in that case and \<open>Some\<close> of the \<open>VcxResult\<close> otherwise.
\<close>

record ProposalSentState =
  psent_credential_proposal :: ProposeCredential

record OfferReceivedState =
  orc_offer :: OfferCredential

record RequestSentState =
  rsent_req_meta :: string
  rsent_cred_def_json :: string

record FinishedHolderState =
  fh_cred_id :: "string option"
  fh_credential :: "IssueCredential option"
  fh_status :: Status
  fh_rev_reg_def_json :: "string option"

datatype HolderFullState =
    H_Initial
  | H_ProposalSent ProposalSentState
  | H_OfferReceived OfferReceivedState
  | H_RequestSent RequestSentState
  | H_Finished FinishedHolderState

datatype HolderState =
  HS_Initial | HS_ProposalSent | HS_OfferReceived | HS_RequestSent | HS_Finished | HS_Failed

record HolderSM =
  holder_state :: HolderFullState
  holder_source_id :: string
  holder_thread_id :: string

fun HolderFullState_to_string :: "HolderFullState \<Rightarrow> string" where
  "HolderFullState_to_string H_Initial = ''Initial''"
| "HolderFullState_to_string (H_ProposalSent _) = ''ProposalSent''"
| "HolderFullState_to_string (H_OfferReceived _) = ''OfferReceived''"
| "HolderFullState_to_string (H_RequestSent _) = ''RequestSent''"
| "HolderFullState_to_string (H_Finished _) = ''Finished''"

definition RequestSentState_from :: "OfferReceivedState \<Rightarrow> string \<Rightarrow> string \<Rightarrow> RequestSentState" where
  "RequestSentState_from st req_meta cred_def_json =
     \<lparr>rsent_req_meta = req_meta, rsent_cred_def_json = cred_def_json\<rparr>"

definition FinishedHolderState_from_stored ::
    "RequestSentState \<Rightarrow> string \<Rightarrow> IssueCredential \<Rightarrow> string option \<Rightarrow> FinishedHolderState" where
  "FinishedHolderState_from_stored st cred_id credential rev_reg_def_json =
     \<lparr>fh_cred_id = Some cred_id, fh_credential = Some credential, fh_status = Success,
      fh_rev_reg_def_json = rev_reg_def_json\<rparr>"

definition FinishedHolderState_from_report :: "ProblemReport \<Rightarrow> FinishedHolderState" where
  "FinishedHolderState_from_report problem_report =
     \<lparr>fh_cred_id = None, fh_credential = None, fh_status = Failed problem_report,
      fh_rev_reg_def_json = None\<rparr>"

subsection \<open>Reading a finished exchange\<close>

definition FinishedHolderState_get_attachment :: "lib \<Rightarrow> FinishedHolderState \<Rightarrow> string vcx_result" where
  "FinishedHolderState_get_attachment lib self =
     res_bind (ok_or (fh_credential self) (AriesVcxError_from_msg InvalidState ''No credential found''))
       (\<lambda>credential. get_attach_as_string (lib_b64dec lib) (credentials_attach (msg_content credential)))"

record CredentialData =
  cdata_schema_id :: string
  cdata_cred_def_id :: string
  cdata_rev_reg_id :: "string option"
  cdata_values :: json
  cdata_signature :: json
  cdata_signature_correctness_proof :: json
  cdata_rev_reg :: "json option"
  cdata_witness :: "json option"

definition opt_value :: "json \<Rightarrow> string \<Rightarrow> json option" where
  "opt_value v k = (case json_get v k of None \<Rightarrow> None | Some JNull \<Rightarrow> None | Some x \<Rightarrow> Some x)"

definition CredentialData_from_json :: "json \<Rightarrow> CredentialData option" where
  "CredentialData_from_json v =
     Option.bind (req_str v ''schema_id'') (\<lambda>s.
     Option.bind (req_str v ''cred_def_id'') (\<lambda>c.
     Option.bind (opt_str v ''rev_reg_id'') (\<lambda>rr.
     Option.bind (json_get v ''values'') (\<lambda>vals.
     Option.bind (json_get v ''signature'') (\<lambda>sg.
     Option.bind (json_get v ''signature_correctness_proof'') (\<lambda>scp.
       Some \<lparr>cdata_schema_id = s, cdata_cred_def_id = c, cdata_rev_reg_id = rr, cdata_values = vals,
             cdata_signature = sg, cdata_signature_correctness_proof = scp,
             cdata_rev_reg = opt_value v ''rev_reg'', cdata_witness = opt_value v ''witness''\<rparr>))))))"

fun raw_values :: "(string \<times> json) list \<Rightarrow> (string \<times> json) list vcx_result" where
  "raw_values [] = Inr []"
| "raw_values ((key, value) # kvs) =
     res_bind (ok_or (as_str (json_index value ''raw''))
       (AriesVcxError_from_msg InvalidJson ''Missing raw encoding on credential value'')) (\<lambda>val.
     res_bind (raw_values kvs) (\<lambda>rest. Inr ((key, JString val) # rest)))"

definition FinishedHolderState_get_attributes :: "lib \<Rightarrow> FinishedHolderState \<Rightarrow> string vcx_result" where
  "FinishedHolderState_get_attributes lib self =
     res_bind (FinishedHolderState_get_attachment lib self) (\<lambda>attach.
     res_bind (ok_or (Option.bind (lib_json_parse lib attach) CredentialData_from_json)
       (AriesVcxError_from_msg InvalidJson ''Cannot deserialize {:?}, into CredentialData, err: {:?}''))
       (\<lambda>cred_data.
       case as_object (cdata_values cred_data) of
         Some values \<Rightarrow>
           res_bind (raw_values values) (\<lambda>new_map. Inr (lib_json_print lib (JObject new_map)))
       | None \<Rightarrow> Inl (AriesVcxError_from_msg InvalidJson ''Cannot convert {:?} into object'')))"

definition finished_rev_reg_def :: "lib \<Rightarrow> FinishedHolderState \<Rightarrow> json vcx_result" where
  "finished_rev_reg_def lib self =
     res_bind (ok_or (fh_rev_reg_def_json self) (AriesVcxError_from_msg InvalidState
        ''No revocation registry definition found - is this credential revokable?''))
       (\<lambda>rev_reg_def_json. ok_or (lib_json_parse lib rev_reg_def_json)
          (AriesVcxError_from_msg SerializationError ''Cannot deserialize {:?} into Value, err: {:?}''))"

definition finished_tails_field ::
    "lib \<Rightarrow> FinishedHolderState \<Rightarrow> string \<Rightarrow> string vcx_result option" where
  "finished_tails_field lib self field =
     (case finished_rev_reg_def lib self of
        Inl e \<Rightarrow> Some (Inl e)
      | Inr rev_reg_def \<Rightarrow>
          (case as_object (json_index rev_reg_def ''value'') of
             None \<Rightarrow> Some (Inl (AriesVcxError_from_msg InvalidJson
                        ''The field 'value' not found on rev_reg_def_json: {:?}''))
           | Some value \<Rightarrow>
               (case map_of value field of
                  None \<Rightarrow> None
                | Some v \<Rightarrow> Some (ok_or (as_str v) (AriesVcxError_from_msg InvalidJson
                     ''The field 'tailsLocation' not found on rev_reg_def_json: {:?}'')))))"

definition FinishedHolderState_get_tails_location ::
    "lib \<Rightarrow> FinishedHolderState \<Rightarrow> string vcx_result option" where
  "FinishedHolderState_get_tails_location lib self = finished_tails_field lib self ''tailsLocation''"

definition FinishedHolderState_get_tails_hash ::
    "lib \<Rightarrow> FinishedHolderState \<Rightarrow> string vcx_result option" where
  "FinishedHolderState_get_tails_hash lib self = finished_tails_field lib self ''tailsHash''"

definition FinishedHolderState_get_rev_reg_id :: "lib \<Rightarrow> FinishedHolderState \<Rightarrow> string vcx_result" where
  "FinishedHolderState_get_rev_reg_id lib self =
     res_bind (finished_rev_reg_def lib self) (\<lambda>rev_reg_def.
       ok_or (as_str (json_index rev_reg_def ''id''))
         (AriesVcxError_from_msg InvalidJson ''The field 'id' not found on rev_reg_def_json: {:?}''))"

definition FinishedHolderState_get_cred_id :: "FinishedHolderState \<Rightarrow> string vcx_result" where
  "FinishedHolderState_get_cred_id self =
     ok_or (fh_cred_id self) (AriesVcxError_from_msg InvalidJson
       ''The field 'cred_id' not found on FinishedHolderState'')"

definition FinishedHolderState_is_revokable :: "FinishedHolderState \<Rightarrow> bool vcx_result" where
  "FinishedHolderState_is_revokable self = Inr (fh_rev_reg_def_json self \<noteq> None)"

subsection \<open>The other states\<close>

definition parse_cred_def_id_from_cred_offer :: "lib \<Rightarrow> string \<Rightarrow> string vcx_result" where
  "parse_cred_def_id_from_cred_offer lib cred_offer =
     res_bind (ok_or (lib_json_parse lib cred_offer)
       (AriesVcxError_from_msg InvalidJson ''Invalid Credential Offer Json: {:?}'')) (\<lambda>parsed_offer.
       ok_or (as_str (json_index parsed_offer ''cred_def_id''))
         (AriesVcxError_from_msg InvalidJson ''Invalid Credential Offer Json: cred_def_id not found''))"

definition OfferReceivedState_get_attributes :: "lib \<Rightarrow> OfferReceivedState \<Rightarrow> string vcx_result" where
  "OfferReceivedState_get_attributes lib self =
     Inr (lib_json_print lib (JObject
       (fold (\<lambda>attribute. dict_insert (ca_name attribute) (JString (ca_value attribute)))
          (cp_attributes (offer_credential_preview (msg_content (orc_offer self)))) [])))"

definition OfferReceivedState_get_attachment :: "lib \<Rightarrow> OfferReceivedState \<Rightarrow> string vcx_result" where
  "OfferReceivedState_get_attachment lib self =
     get_attach_as_string (lib_b64dec lib) (offers_attach (msg_content (orc_offer self)))"

definition OfferReceivedState_is_revokable ::
    "lib \<Rightarrow> 'w profile \<Rightarrow> OfferReceivedState \<Rightarrow> ('w, bool) vcx" where
  "OfferReceivedState_is_revokable lib prof self =
     vbind (vlift (OfferReceivedState_get_attachment lib self)) (\<lambda>offer.
     vbind (vlift (map_err (\<lambda>err. AriesVcxError_from_msg InvalidJson
              (''Failed to parse credential definition id from credential offer: ''
                 @ AriesVcxError_to_string err))
            (parse_cred_def_id_from_cred_offer lib offer))) (\<lambda>cred_def_id.
       is_cred_def_revokable lib prof cred_def_id))"

definition ProposalSentState_is_revokable ::
    "lib \<Rightarrow> 'w profile \<Rightarrow> ProposalSentState \<Rightarrow> ('w, bool) vcx" where
  "ProposalSentState_is_revokable lib prof self =
     is_cred_def_revokable lib prof (propose_cred_def_id (msg_content (psent_credential_proposal self)))"

definition RequestSentState_is_revokable :: "lib \<Rightarrow> RequestSentState \<Rightarrow> bool vcx_result" where
  "RequestSentState_is_revokable lib self = parse_revocation_field lib (rsent_cred_def_json self)"

definition InitialHolderState_is_revokable :: "bool vcx_result" where
  "InitialHolderState_is_revokable = Inl (AriesVcxError_from_msg InvalidState
     ''Revocation information not available in the initial state'')"

subsection \<open>Messages and calls\<close>

definition build_credential_request_msg :: "lib \<Rightarrow> string \<Rightarrow> string \<Rightarrow> ('w, RequestCredential) vcx" where
  "build_credential_request_msg lib credential_request_attach thread_id =
     vbind utc_now (\<lambda>now.
     vbind new_v4 (\<lambda>i.
       let content = RequestCredentialContent_new
             [make_attach_from_str (lib_b64enc lib) credential_request_attach
                (AttachmentId_as_ref Aid_CredentialRequest)];
           decorators = opt_decorators_default\<lparr>od_thread := Some (Thread_new thread_id),
                                               od_timing := Some (out_timing now)\<rparr>
       in vret (MsgParts_with_decorators i content decorators)))"

definition build_credential_ack :: "string \<Rightarrow> ('w, AckCredential) vcx" where
  "build_credential_ack thread_id =
     vbind utc_now (\<lambda>now.
     vbind new_v4 (\<lambda>i.
       vret (MsgParts_with_decorators i (AckContent_new Ack_Ok)
         ((thr_decorators_new (Thread_new thread_id))\<lparr>td_timing := Some (out_timing now)\<rparr>))))"

definition parse_rev_reg_id_from_credential :: "lib \<Rightarrow> string \<Rightarrow> string option vcx_result" where
  "parse_rev_reg_id_from_credential lib credential =
     res_bind (ok_or (lib_json_parse lib credential)
       (AriesVcxError_from_msg InvalidJson (''Invalid Credential Json: '' @ credential @ '', err: {:?}'')))
       (\<lambda>parsed_credential. Inr (as_str (json_index parsed_credential ''rev_reg_id'')))"

definition store_credential ::
    "lib \<Rightarrow> 'w profile \<Rightarrow> IssueCredential \<Rightarrow> string \<Rightarrow> string \<Rightarrow> ('w, string \<times> string option) vcx" where
  "store_credential lib prof credential req_meta cred_def_json =
     vbind (vlift (get_attach_as_string (lib_b64dec lib) (credentials_attach (msg_content credential))))
       (\<lambda>credential_json.
     vbind (vlift (parse_rev_reg_id_from_credential lib credential_json)) (\<lambda>rev_reg_id.
     vbind (case rev_reg_id of
              Some i \<Rightarrow> vbind (call (ledger_get_rev_reg_def_json prof i)) (\<lambda>js. vret (Some js))
            | None \<Rightarrow> vret None) (\<lambda>rev_reg_def_json.
     vbind (call (ac_prover_store_credential prof None req_meta credential_json cred_def_json rev_reg_def_json))
       (\<lambda>cred_id. vret (cred_id, rev_reg_def_json)))))"

definition delete_credential :: "'w profile \<Rightarrow> string \<Rightarrow> ('w, unit) vcx" where
  "delete_credential prof cred_id = call (ac_prover_delete_credential prof cred_id)"

definition create_credential_request ::
    "'w profile \<Rightarrow> string \<Rightarrow> string \<Rightarrow> string \<Rightarrow> ('w, string \<times> string \<times> string \<times> string) vcx" where
  "create_credential_request prof cred_def_id prover_did cred_offer =
     vbind (call (ledger_get_cred_def prof cred_def_id)) (\<lambda>cred_def_json.
     vbind (vmap_err (\<lambda>err. AriesVcxError_extend err ''Cannot create credential request'')
              (call (ac_prover_create_credential_req prof prover_did cred_offer cred_def_json
                 DEFAULT_LINK_SECRET_ALIAS))) (\<lambda>(s1, s2).
       vret (s1, s2, cred_def_id, cred_def_json)))"

definition make_credential_request ::
    "lib \<Rightarrow> 'w profile \<Rightarrow> string \<Rightarrow> string \<Rightarrow> OfferCredential
       \<Rightarrow> ('w, RequestCredential \<times> string \<times> string) vcx" where
  "make_credential_request lib prof thread_id my_pw_did offer =
     vbind (vlift (get_attach_as_string (lib_b64dec lib) (offers_attach (msg_content offer)))) (\<lambda>cred_offer.
     vbind (vlift (parse_cred_def_id_from_cred_offer lib cred_offer)) (\<lambda>cred_def_id.
     vbind (create_credential_request prof cred_def_id my_pw_did cred_offer)
       (\<lambda>(req, req_meta, _, cred_def_json).
     vbind (build_credential_request_msg lib req thread_id) (\<lambda>credential_request_msg.
       vret (credential_request_msg, req_meta, cred_def_json)))))"

subsection \<open>The state machine\<close>

definition HolderSM_new :: "string \<Rightarrow> ('w, HolderSM) vcx" where
  "HolderSM_new source_id =
     vbind new_v4 (\<lambda>i. vret \<lparr>holder_state = H_Initial, holder_source_id = source_id, holder_thread_id = i\<rparr>)"

definition HolderSM_from_offer :: "OfferCredential \<Rightarrow> string \<Rightarrow> HolderSM" where
  "HolderSM_from_offer offer source_id =
     \<lparr>holder_state = H_OfferReceived \<lparr>orc_offer = offer\<rparr>, holder_source_id = source_id,
      holder_thread_id = msg_id offer\<rparr>"

definition HolderSM_get_state :: "HolderSM \<Rightarrow> HolderState" where
  "HolderSM_get_state self =
     (case holder_state self of
        H_Initial \<Rightarrow> HS_Initial
      | H_ProposalSent _ \<Rightarrow> HS_ProposalSent
      | H_OfferReceived _ \<Rightarrow> HS_OfferReceived
      | H_RequestSent _ \<Rightarrow> HS_RequestSent
      | H_Finished status \<Rightarrow> (case fh_status status of Success \<Rightarrow> HS_Finished | _ \<Rightarrow> HS_Failed))"

definition HolderSM_get_proposal :: "HolderSM \<Rightarrow> ProposeCredential vcx_result" where
  "HolderSM_get_proposal self =
     (case holder_state self of
        H_ProposalSent state \<Rightarrow> Inr (psent_credential_proposal state)
      | _ \<Rightarrow> Inl (AriesVcxError_from_msg InvalidState ''Proposal not available in this state''))"

definition HolderSM_accepts :: "HolderSM \<Rightarrow> AriesMessage \<Rightarrow> bool" where
  "HolderSM_accepts self message =
     (case holder_state self of
        H_ProposalSent _ \<Rightarrow>
          (case message of
             AM_CredentialIssuance (CI_OfferCredential offer) \<Rightarrow>
               matches_opt_thread_id (od_thread (msg_decorators offer)) (holder_thread_id self)
           | _ \<Rightarrow> False)
      | H_RequestSent _ \<Rightarrow>
          (case message of
             AM_CredentialIssuance (CI_IssueCredential credential) \<Rightarrow>
               matches_thread_id (kd_thread (msg_decorators credential)) (holder_thread_id self)
           | AM_ReportProblem problem_report \<Rightarrow>
               matches_opt_thread_id (prd_thread (msg_decorators problem_report)) (holder_thread_id self)
           | AM_Notification (N_ProblemReport msg) \<Rightarrow>
               matches_opt_thread_id (prd_thread (msg_decorators msg)) (holder_thread_id self)
           | _ \<Rightarrow> False)
      | _ \<Rightarrow> False)"

definition HolderSM_find_message_to_handle ::
    "HolderSM \<Rightarrow> (string \<times> AriesMessage) list \<Rightarrow> (string \<times> AriesMessage) option" where
  "HolderSM_find_message_to_handle self messages = find_message (HolderSM_accepts self) messages"

definition HolderSM_send_proposal ::
    "HolderSM \<Rightarrow> ProposeCredential \<Rightarrow> 'w SendClosure \<Rightarrow> ('w, HolderSM) vcx" where
  "HolderSM_send_proposal self proposal_data send =
     vbind mocks_enabled (\<lambda>mocks.
     vbind (vlift (issuance_verify_thread_id mocks (holder_thread_id self)
              (CIA_CredentialProposalSend proposal_data))) (\<lambda>_.
       let proposal = proposal_data\<lparr>msg_id := holder_thread_id self\<rparr>;
           sending = vbind (send_message send (AM_CredentialIssuance (CI_ProposeCredential proposal)))
             (\<lambda>_. vret (self\<lparr>holder_state := H_ProposalSent \<lparr>psent_credential_proposal = proposal\<rparr>\<rparr>))
       in case holder_state self of
            H_Initial \<Rightarrow> sending
          | H_OfferReceived _ \<Rightarrow> sending
          | _ \<Rightarrow> vret self))"

definition HolderSM_receive_offer :: "bool \<Rightarrow> HolderSM \<Rightarrow> OfferCredential \<Rightarrow> HolderSM vcx_result" where
  "HolderSM_receive_offer mocks self offer =
     res_bind (issuance_verify_thread_id mocks (holder_thread_id self) (CIA_CredentialOffer offer)) (\<lambda>_.
       Inr (self\<lparr>holder_state :=
         (case holder_state self of
            H_ProposalSent _ \<Rightarrow> H_OfferReceived \<lparr>orc_offer = offer\<rparr>
          | s \<Rightarrow> s)\<rparr>))"

definition HolderSM_send_request ::
    "lib \<Rightarrow> 'w profile \<Rightarrow> HolderSM \<Rightarrow> string \<Rightarrow> 'w SendClosure \<Rightarrow> ('w, HolderSM) vcx" where
  "HolderSM_send_request lib prof self my_pw_did send =
     (case holder_state self of
        H_OfferReceived state_data \<Rightarrow>
          vbind (vtry (make_credential_request lib prof (holder_thread_id self) my_pw_did
                   (orc_offer state_data))) (\<lambda>made.
            case made of
              Inr (cred_request, req_meta, cred_def_json) \<Rightarrow>
                vbind (send_message send (AM_CredentialIssuance (CI_RequestCredential cred_request))) (\<lambda>_.
                  vret (self\<lparr>holder_state :=
                    H_RequestSent (RequestSentState_from state_data req_meta cred_def_json)\<rparr>))
            | Inl err \<Rightarrow>
                vbind new_v4 (\<lambda>u.
                  let problem_report = build_problem_report_msg u (Some (AriesVcxError_to_string err))
                        (holder_thread_id self)
                  in vbind (send_message send (AM_ReportProblem problem_report)) (\<lambda>_.
                       vret (self\<lparr>holder_state := H_Finished (FinishedHolderState_from_report problem_report)\<rparr>))))
      | _ \<Rightarrow> vret self)"

definition HolderSM_decline_offer ::
    "HolderSM \<Rightarrow> string option \<Rightarrow> 'w SendClosure \<Rightarrow> ('w, HolderSM) vcx" where
  "HolderSM_decline_offer self comment send =
     (case holder_state self of
        H_OfferReceived _ \<Rightarrow>
          vbind new_v4 (\<lambda>u.
            let problem_report = build_problem_report_msg u comment (holder_thread_id self)
            in vbind (send_message send (AM_ReportProblem problem_report)) (\<lambda>_.
                 vret (self\<lparr>holder_state := H_Finished (FinishedHolderState_from_report problem_report)\<rparr>)))
      | _ \<Rightarrow> vret self)"

definition HolderSM_receive_credential ::
    "lib \<Rightarrow> 'w profile \<Rightarrow> HolderSM \<Rightarrow> IssueCredential \<Rightarrow> 'w SendClosure \<Rightarrow> ('w, HolderSM) vcx" where
  "HolderSM_receive_credential lib prof self credential send =
     (case holder_state self of
        H_RequestSent state_data \<Rightarrow>
          vbind (vtry (store_credential lib prof credential (rsent_req_meta state_data)
                   (rsent_cred_def_json state_data))) (\<lambda>stored.
            case stored of
              Inr (cred_id, rev_reg_def_json) \<Rightarrow>
                vbind (if kd_please_ack (msg_decorators credential) \<noteq> None then
                         vbind (build_credential_ack (holder_thread_id self)) (\<lambda>ack.
                           send_message send (AM_CredentialIssuance (CI_Ack ack)))
                       else vret ()) (\<lambda>_.
                  vret (self\<lparr>holder_state := H_Finished
                    (FinishedHolderState_from_stored state_data cred_id credential rev_reg_def_json)\<rparr>))
            | Inl err \<Rightarrow>
                vbind new_v4 (\<lambda>u.
                  let problem_report = build_problem_report_msg u (Some (AriesVcxError_to_string err))
                        (holder_thread_id self)
                  in vbind (send_message send (AM_ReportProblem problem_report)) (\<lambda>_.
                       vret (self\<lparr>holder_state := H_Finished (FinishedHolderState_from_report problem_report)\<rparr>))))
      | _ \<Rightarrow> vret self)"

definition HolderSM_receive_problem_report :: "HolderSM \<Rightarrow> ProblemReport \<Rightarrow> HolderSM vcx_result" where
  "HolderSM_receive_problem_report self problem_report =
     Inr (self\<lparr>holder_state :=
       (case holder_state self of
          H_ProposalSent _ \<Rightarrow> H_Finished (FinishedHolderState_from_report problem_report)
        | H_RequestSent _ \<Rightarrow> H_Finished (FinishedHolderState_from_report problem_report)
        | s \<Rightarrow> s)\<rparr>)"

definition holder_no_callback :: vcx_error where
  "holder_no_callback = AriesVcxError_from_msg InvalidState
     ''Attempted to call undefined send_message callback''"

definition HolderSM_handle_message ::
    "lib \<Rightarrow> 'w profile \<Rightarrow> 'w SendClosure option \<Rightarrow> HolderSM \<Rightarrow> CredentialIssuanceAction
       \<Rightarrow> ('w, HolderSM) vcx" where
  "HolderSM_handle_message lib prof send self cim =
     vbind mocks_enabled (\<lambda>mocks.
     vbind (vlift (issuance_verify_thread_id mocks (holder_thread_id self) cim)) (\<lambda>_.
       case cim of
         CIA_CredentialProposalSend proposal_data \<Rightarrow>
           vbind (vlift (ok_or send holder_no_callback)) (\<lambda>c. HolderSM_send_proposal self proposal_data c)
       | CIA_CredentialOffer offer \<Rightarrow> vlift (HolderSM_receive_offer mocks self offer)
       | CIA_CredentialRequestSend my_pw_did \<Rightarrow>
           vbind (vlift (ok_or send holder_no_callback)) (\<lambda>c. HolderSM_send_request lib prof self my_pw_did c)
       | CIA_CredentialOfferReject comment \<Rightarrow>
           vbind (vlift (ok_or send holder_no_callback)) (\<lambda>c. HolderSM_decline_offer self comment c)
       | CIA_Credential credential \<Rightarrow>
           vbind (vlift (ok_or send holder_no_callback)) (\<lambda>c.
             HolderSM_receive_credential lib prof self credential c)
       | CIA_ProblemReport problem_report \<Rightarrow> vlift (HolderSM_receive_problem_report self problem_report)
       | _ \<Rightarrow> vret self))"

definition HolderSM_credential_status :: "HolderSM \<Rightarrow> 32 word" where
  "HolderSM_credential_status self =
     (case holder_state self of
        H_Finished state \<Rightarrow> Status_code (fh_status state)
      | _ \<Rightarrow> Status_code Undefined)"

definition HolderSM_is_terminal_state :: "HolderSM \<Rightarrow> bool" where
  "HolderSM_is_terminal_state self = (case holder_state self of H_Finished _ \<Rightarrow> True | _ \<Rightarrow> False)"

definition HolderSM_get_credential :: "HolderSM \<Rightarrow> (string \<times> AriesMessage) vcx_result" where
  "HolderSM_get_credential self =
     (case holder_state self of
        H_Finished state \<Rightarrow>
          res_bind (ok_or (fh_cred_id state) (AriesVcxError_from_msg InvalidState
             ''Cannot get credential: Credential Id not found'')) (\<lambda>cred_id.
          res_bind (ok_or (fh_credential state) (AriesVcxError_from_msg InvalidState
             ''Cannot get credential: Credential not found'')) (\<lambda>credential.
            Inr (cred_id, AM_CredentialIssuance (CI_IssueCredential credential))))
      | _ \<Rightarrow> Inl (AriesVcxError_from_msg NotReady
               ''Cannot get credential: Credential Issuance is not finished yet''))"

definition HolderSM_get_attributes :: "lib \<Rightarrow> HolderSM \<Rightarrow> string vcx_result" where
  "HolderSM_get_attributes lib self =
     (case holder_state self of
        H_Finished state \<Rightarrow> FinishedHolderState_get_attributes lib state
      | H_OfferReceived state \<Rightarrow> OfferReceivedState_get_attributes lib state
      | _ \<Rightarrow> Inl (AriesVcxError_from_msg NotReady
         ''Cannot get credential attributes: credential offer or credential must be receieved first''))"

definition HolderSM_get_attachment :: "lib \<Rightarrow> HolderSM \<Rightarrow> string vcx_result" where
  "HolderSM_get_attachment lib self =
     (case holder_state self of
        H_Finished state \<Rightarrow> FinishedHolderState_get_attachment lib state
      | H_OfferReceived state \<Rightarrow> OfferReceivedState_get_attachment lib state
      | _ \<Rightarrow> Inl (AriesVcxError_from_msg NotReady
         ''Cannot get credential attachment: credential offer or credential must be receieved first''))"

definition HolderSM_get_tails_location :: "lib \<Rightarrow> HolderSM \<Rightarrow> string vcx_result option" where
  "HolderSM_get_tails_location lib self =
     (case holder_state self of
        H_Finished state \<Rightarrow> FinishedHolderState_get_tails_location lib state
      | _ \<Rightarrow> Some (Inl (AriesVcxError_from_msg NotReady
               ''Cannot get tails location: credential exchange not finished yet'')))"

definition HolderSM_get_tails_hash :: "lib \<Rightarrow> HolderSM \<Rightarrow> string vcx_result option" where
  "HolderSM_get_tails_hash lib self =
     (case holder_state self of
        H_Finished state \<Rightarrow> FinishedHolderState_get_tails_hash lib state
      | _ \<Rightarrow> Some (Inl (AriesVcxError_from_msg NotReady
               ''Cannot get tails hash: credential exchange not finished yet'')))"

definition HolderSM_get_rev_reg_id :: "lib \<Rightarrow> HolderSM \<Rightarrow> string vcx_result" where
  "HolderSM_get_rev_reg_id lib self =
     (case holder_state self of
        H_Finished state \<Rightarrow> FinishedHolderState_get_rev_reg_id lib state
      | _ \<Rightarrow> Inl (AriesVcxError_from_msg NotReady
               ''Cannot get rev reg id: credential exchange not finished yet''))"

definition HolderSM_get_cred_id :: "HolderSM \<Rightarrow> string vcx_result" where
  "HolderSM_get_cred_id self =
     (case holder_state self of
        H_Finished state \<Rightarrow> FinishedHolderState_get_cred_id state
      | _ \<Rightarrow> Inl (AriesVcxError_from_msg NotReady
               ''Cannot get credential id: credential exchange not finished yet''))"

definition HolderSM_get_offer :: "HolderSM \<Rightarrow> OfferCredential vcx_result" where
  "HolderSM_get_offer self =
     (case holder_state self of
        H_OfferReceived state \<Rightarrow> Inr (orc_offer state)
      | _ \<Rightarrow> Inl (AriesVcxError_from_msg InvalidState
               ''Credential offer can only be obtained from OfferReceived state''))"

definition HolderSM_is_revokable :: "lib \<Rightarrow> 'w profile \<Rightarrow> HolderSM \<Rightarrow> ('w, bool) vcx" where
  "HolderSM_is_revokable lib prof self =
     (case holder_state self of
        H_Initial \<Rightarrow> vlift InitialHolderState_is_revokable
      | H_ProposalSent state \<Rightarrow> ProposalSentState_is_revokable lib prof state
      | H_OfferReceived state \<Rightarrow> OfferReceivedState_is_revokable lib prof state
      | H_RequestSent state \<Rightarrow> vlift (RequestSentState_is_revokable lib state)
      | H_Finished state \<Rightarrow> vlift (FinishedHolderState_is_revokable state))"

definition HolderSM_is_revoked :: "lib \<Rightarrow> 'w profile \<Rightarrow> HolderSM \<Rightarrow> ('w, bool) vcx" where
  "HolderSM_is_revoked lib prof self =
     vbind (HolderSM_is_revokable lib prof self) (\<lambda>revokable.
       if revokable then
         vbind (vlift (HolderSM_get_rev_reg_id lib self)) (\<lambda>rev_reg_id.
         vbind (vlift (HolderSM_get_cred_id self)) (\<lambda>cred_id.
         vbind (get_cred_rev_id lib prof cred_id) (\<lambda>rev_id.
           is_cred_revoked lib prof rev_reg_id rev_id)))
       else vfail (AriesVcxError_from_msg InvalidState
              ''Unable to check revocation status - this credential is not revokable''))"

definition HolderSM_delete_credential :: "'w profile \<Rightarrow> HolderSM \<Rightarrow> ('w, unit) vcx" where
  "HolderSM_delete_credential prof self =
     (case holder_state self of
        H_Finished state \<Rightarrow>
          vbind (vlift (ok_or (fh_cred_id state) (AriesVcxError_from_msg InvalidState
             ''Cannot get credential: credential id not found''))) (\<lambda>cred_id. delete_credential prof cred_id)
      | _ \<Rightarrow> vfail (AriesVcxError_from_msg NotReady
               ''Cannot delete credential: credential issuance is not finished yet''))"

subsection \<open>The handler\<close>

definition Holder_create :: "string \<Rightarrow> ('w, HolderSM) vcx" where
  "Holder_create source_id = HolderSM_new source_id"

definition Holder_create_from_offer :: "string \<Rightarrow> OfferCredential \<Rightarrow> HolderSM vcx_result" where
  "Holder_create_from_offer source_id credential_offer = Inr (HolderSM_from_offer credential_offer source_id)"

definition Holder_send_proposal :: "ProposeCredential \<Rightarrow> 'w SendClosure \<Rightarrow> (HolderSM, 'w, unit) hop" where
  "Holder_send_proposal credential_proposal send =
     hstore (\<lambda>self. HolderSM_send_proposal self credential_proposal send)"

definition Holder_send_request ::
    "lib \<Rightarrow> 'w profile \<Rightarrow> string \<Rightarrow> 'w SendClosure \<Rightarrow> (HolderSM, 'w, unit) hop" where
  "Holder_send_request lib prof my_pw_did send =
     hstore (\<lambda>self. HolderSM_send_request lib prof self my_pw_did send)"

definition Holder_decline_offer :: "string option \<Rightarrow> 'w SendClosure \<Rightarrow> (HolderSM, 'w, unit) hop" where
  "Holder_decline_offer comment send = hstore (\<lambda>self. HolderSM_decline_offer self comment send)"

definition Holder_process_credential ::
    "lib \<Rightarrow> 'w profile \<Rightarrow> IssueCredential \<Rightarrow> 'w SendClosure \<Rightarrow> (HolderSM, 'w, unit) hop" where
  "Holder_process_credential lib prof credential send =
     hstore (\<lambda>self. HolderSM_receive_credential lib prof self credential send)"

definition Holder_get_cred_rev_id :: "lib \<Rightarrow> 'w profile \<Rightarrow> HolderSM \<Rightarrow> ('w, string) vcx" where
  "Holder_get_cred_rev_id lib prof self =
     vbind (vlift (HolderSM_get_cred_id self)) (\<lambda>cred_id. get_cred_rev_id lib prof cred_id)"

definition Holder_step ::
    "lib \<Rightarrow> 'w profile \<Rightarrow> CredentialIssuanceAction \<Rightarrow> 'w SendClosure option \<Rightarrow> (HolderSM, 'w, unit) hop" where
  "Holder_step lib prof message send = hstore (\<lambda>self. HolderSM_handle_message lib prof send self message)"

definition Holder_update_state ::
    "lib \<Rightarrow> 'w profile \<Rightarrow> 'w mediated_connection \<Rightarrow> (HolderSM, 'w, HolderState) hop" where
  "Holder_update_state lib prof connection =
     handler_update_state HolderSM_is_terminal_state HolderSM_get_state HolderSM_accepts
       CredentialIssuanceAction_from (HolderSM_handle_message lib prof) connection"

subsection \<open>The machine as an instance of the protocol interfaces\<close>

definition holder_own :: "string \<Rightarrow> AriesMessage \<Rightarrow> bool" where
  "holder_own i m =
     (effective_thid m = i \<or>
      (case m of AM_CredentialIssuance (CI_ProposeCredential p) \<Rightarrow> msg_id p = i | _ \<Rightarrow> False))"

lemmas holder_sends = HolderSM_send_proposal_def HolderSM_send_request_def HolderSM_decline_offer_def
  HolderSM_receive_credential_def

lemmas holder_calls = make_credential_request_def create_credential_request_def store_credential_def
  build_credential_request_msg_def build_credential_ack_def

lemma holder_same_state [simp]: "self\<lparr>holder_state := holder_state self\<rparr> = (self :: HolderSM)"
  by (cases self) simp

lemma holder_terminal_iff: "HolderSM_is_terminal_state self \<longleftrightarrow> (\<exists>f. holder_state self = H_Finished f)"
  by (auto simp: HolderSM_is_terminal_state_def split: HolderFullState.splits)

lemma holder_terminal_stays:
  assumes "HolderSM_is_terminal_state self"
  shows "yields (HolderSM_handle_message lib prof send self a) (\<lambda>m. m = self)"
proof -
  obtain f where f: "holder_state self = H_Finished f" using assms holder_terminal_iff by blast
  have same: "self\<lparr>holder_state := H_Finished f\<rparr> = self" using f by (cases self) simp
  show ?thesis
    unfolding HolderSM_handle_message_def
    by (intro yields_bind_any)
       (auto simp: f same holder_sends HolderSM_receive_offer_def HolderSM_receive_problem_report_def
          res_simps Let_def intro!: yields_bind_any split: CredentialIssuanceAction.splits)
qed

lemma holder_thread_stays:
  "yields (HolderSM_handle_message lib prof send self a) (\<lambda>m. True \<and> holder_thread_id m = holder_thread_id self)"
  unfolding HolderSM_handle_message_def
  by (intro yields_bind_any)
     (auto simp: holder_sends HolderSM_receive_offer_def HolderSM_receive_problem_report_def
        res_simps Let_def intro!: yields_bind_any
        split: CredentialIssuanceAction.splits HolderFullState.splits sum.splits)

lemma holder_send_proposal_own:
  "sends_only (holder_own (holder_thread_id self)) (HolderSM_send_proposal self p c)"
  unfolding HolderSM_send_proposal_def
  by (auto simp: Let_def holder_own_def intro!: sends_only_bind sends_only_send
      split: HolderFullState.splits)

lemma holder_decline_own:
  "sends_only (holder_own (holder_thread_id self)) (HolderSM_decline_offer self comment c)"
  unfolding HolderSM_decline_offer_def
  by (auto simp: Let_def holder_own_def intro!: sends_only_bind sends_only_send
      split: HolderFullState.splits)

lemma make_request_thread:
  "yields (make_credential_request lib prof i d offer)
     (\<lambda>(msg, _). effective_thid (AM_CredentialIssuance (CI_RequestCredential msg)) = i)"
  unfolding make_credential_request_def build_credential_request_msg_def
  by (auto simp: Let_def yields_def vbind_Inr_iff)

lemma make_request_silent: "sends_only P (make_credential_request lib prof i d offer)"
  unfolding make_credential_request_def create_credential_request_def build_credential_request_msg_def
  by (auto simp: Let_def intro!: sends_only_bind sends_only_map_err)

lemma holder_send_request_own:
  "sends_only (holder_own (holder_thread_id self)) (HolderSM_send_request lib prof self d c)"
proof (cases "holder_state self")
  case (H_OfferReceived o')
  show ?thesis
    unfolding HolderSM_send_request_def H_OfferReceived HolderFullState.case
    by (rule sends_only_try_bind [OF make_request_silent make_request_thread])
       (auto simp: holder_own_def Let_def intro!: sends_only_bind sends_only_send split: prod.splits)
qed (simp_all add: HolderSM_send_request_def)

lemma holder_receive_credential_own:
  "sends_only (holder_own (holder_thread_id self)) (HolderSM_receive_credential lib prof self cred c)"
  unfolding HolderSM_receive_credential_def store_credential_def build_credential_ack_def vbind_assoc
  by (auto simp: vbind_assoc holder_own_def thr_decorators_new_def Let_def
      intro!: sends_only_bind sends_only_send sends_only_try
      split: HolderFullState.splits sum.splits option.splits)

lemma holder_sends_own:
  "sends_only (holder_own (holder_thread_id self)) (HolderSM_handle_message lib prof send self a)"
  unfolding HolderSM_handle_message_def
  by (intro sends_only_bind)
     (auto intro!: sends_only_bind holder_send_proposal_own holder_decline_own holder_send_request_own
        holder_receive_credential_own split: CredentialIssuanceAction.splits)

lemma holder_terminal_silent:
  assumes "HolderSM_is_terminal_state self"
  shows "sends_only (\<lambda>_. False) (HolderSM_handle_message lib prof send self a)"
proof -
  obtain f where f: "holder_state self = H_Finished f" using assms holder_terminal_iff by blast
  show ?thesis
    unfolding HolderSM_handle_message_def
    by (intro sends_only_bind) (auto simp: holder_sends f Let_def
        intro!: sends_only_bind split: CredentialIssuanceAction.splits)
qed

interpretation holder: protocol_machine "HolderSM_handle_message lib prof send"
  HolderSM_is_terminal_state "\<lambda>_. True" holder_thread_id holder_own
  for lib :: lib and prof :: "'w profile" and send :: "'w SendClosure option"
  by unfold_locales
     (rule holder_terminal_stays holder_terminal_silent holder_thread_stays holder_sends_own; assumption)+

lemma holder_accepts_thread:
  "HolderSM_accepts self msg \<Longrightarrow> message_matches (holder_thread_id self) msg"
  by (auto simp: HolderSM_accepts_def split: HolderFullState.splits
      AriesMessage.splits CredentialIssuance.splits Notification.splits)

interpretation holder_router: message_router HolderSM_accepts "\<lambda>_. True"
  HolderSM_is_terminal_state holder_thread_id
  by unfold_locales (auto simp: holder_accepts_thread holder_terminal_iff HolderSM_accepts_def)

subsection \<open>Operations as steps, and the abstract protocol\<close>

text \<open>One successful operation of the machine; \<open>holder_reach\<close> closes it under any other activity
  of the agent, which can only add to the outgoing messages.\<close>

inductive holder_op ::
    "lib \<Rightarrow> 'w profile \<Rightarrow> HolderSM \<Rightarrow> 'w runtime \<Rightarrow> HolderSM \<Rightarrow> 'w runtime \<Rightarrow> bool" for lib prof where
  hop_handle: "HolderSM_handle_message lib prof send m a s = (Inr m', s') \<Longrightarrow> holder_op lib prof m s m' s'"
| hop_proposal: "HolderSM_send_proposal m p c s = (Inr m', s') \<Longrightarrow> holder_op lib prof m s m' s'"
| hop_request: "HolderSM_send_request lib prof m d c s = (Inr m', s') \<Longrightarrow> holder_op lib prof m s m' s'"
| hop_decline: "HolderSM_decline_offer m comment c s = (Inr m', s') \<Longrightarrow> holder_op lib prof m s m' s'"
| hop_credential: "HolderSM_receive_credential lib prof m cred c s = (Inr m', s')
     \<Longrightarrow> holder_op lib prof m s m' s'"

inductive holder_reach ::
    "lib \<Rightarrow> 'w profile \<Rightarrow> HolderSM \<times> 'w runtime \<Rightarrow> HolderSM \<times> 'w runtime \<Rightarrow> bool"
  for lib prof x where
  hreach_refl: "holder_reach lib prof x x"
| hreach_op: "holder_reach lib prof x (m, s) \<Longrightarrow> holder_op lib prof m s m' s'
     \<Longrightarrow> holder_reach lib prof x (m', s')"
| hreach_other: "holder_reach lib prof x (m, s) \<Longrightarrow> rt_outbox s' = rt_outbox s @ ms
     \<Longrightarrow> holder_reach lib prof x (m, s')"

inductive holder_protocol :: "HolderState \<Rightarrow> HolderState \<Rightarrow> bool" where
  "holder_protocol HS_Initial HS_ProposalSent"
| "holder_protocol HS_OfferReceived HS_ProposalSent"
| "holder_protocol HS_ProposalSent HS_OfferReceived"
| "holder_protocol HS_ProposalSent HS_Failed"
| "holder_protocol HS_OfferReceived HS_RequestSent"
| "holder_protocol HS_OfferReceived HS_Failed"
| "holder_protocol HS_RequestSent HS_Finished"
| "holder_protocol HS_RequestSent HS_Failed"

inductive_simps holder_protocol_from [simp]:
  "holder_protocol HS_Initial t" "holder_protocol HS_ProposalSent t" "holder_protocol HS_OfferReceived t"
  "holder_protocol HS_RequestSent t" "holder_protocol HS_Finished t" "holder_protocol HS_Failed t"

lemma holder_state_names [simp]:
  "holder_state m = H_Initial \<Longrightarrow> HolderSM_get_state m = HS_Initial"
  "holder_state m = H_ProposalSent d1 \<Longrightarrow> HolderSM_get_state m = HS_ProposalSent"
  "holder_state m = H_OfferReceived d2 \<Longrightarrow> HolderSM_get_state m = HS_OfferReceived"
  "holder_state m = H_RequestSent d3 \<Longrightarrow> HolderSM_get_state m = HS_RequestSent"
  "holder_state m = H_Finished (FinishedHolderState_from_stored d3 i c rr) \<Longrightarrow> HolderSM_get_state m = HS_Finished"
  "holder_state m = H_Finished (FinishedHolderState_from_report rep) \<Longrightarrow> HolderSM_get_state m = HS_Failed"
  by (simp_all add: HolderSM_get_state_def FinishedHolderState_from_stored_def
      FinishedHolderState_from_report_def)

definition credential_requested :: "HolderSM \<Rightarrow> 'w runtime \<Rightarrow> bool" where
  "credential_requested m s =
     (\<exists>req. AM_CredentialIssuance (CI_RequestCredential req) \<in> set (rt_outbox s)
          \<and> effective_thid (AM_CredentialIssuance (CI_RequestCredential req)) = holder_thread_id m)"

text \<open>The moves of the machine: what one operation can do to it, given whether a credential
  request of its thread is among the sent messages afterwards.\<close>

inductive holder_move :: "bool \<Rightarrow> HolderSM \<Rightarrow> HolderSM \<Rightarrow> bool" for requested where
  hm_stay: "holder_move requested m m"
| hm_propose: "holder_state m = H_Initial \<or> (\<exists>d. holder_state m = H_OfferReceived d)
     \<Longrightarrow> holder_move requested m (m\<lparr>holder_state := H_ProposalSent p\<rparr>)"
| hm_offer: "holder_state m = H_ProposalSent d
     \<Longrightarrow> holder_move requested m (m\<lparr>holder_state := H_OfferReceived o'\<rparr>)"
| hm_request: "holder_state m = H_OfferReceived d \<Longrightarrow> requested
     \<Longrightarrow> holder_move requested m (m\<lparr>holder_state := H_RequestSent r\<rparr>)"
| hm_stored: "holder_state m = H_RequestSent r \<Longrightarrow> holder_move requested m
     (m\<lparr>holder_state := H_Finished (FinishedHolderState_from_stored r i cred rr)\<rparr>)"
| hm_fail: "HolderSM_get_state m \<in> {HS_ProposalSent, HS_OfferReceived, HS_RequestSent}
     \<Longrightarrow> holder_move requested m (m\<lparr>holder_state := H_Finished (FinishedHolderState_from_report rep)\<rparr>)"

lemma holder_send_proposal_move:
  assumes "HolderSM_send_proposal m p c s = (Inr m', s')"
  shows "holder_move (credential_requested m s') m m'"
  using assms
  by (auto simp: HolderSM_send_proposal_def Let_def vbind_Inr_iff intro: hm_stay hm_propose
      split: HolderFullState.splits)

lemma holder_send_request_move:
  assumes "HolderSM_send_request lib prof m d c s = (Inr m', s')"
  shows "holder_move (credential_requested m s') m m'"
proof (cases "holder_state m")
  case (H_OfferReceived o')
  obtain r t where r: "make_credential_request lib prof (holder_thread_id m) d (orc_offer o') s = (r, t)"
    by force
  show ?thesis
  proof (cases r)
    case (Inl e)
    then show ?thesis using assms r H_OfferReceived
      by (auto simp: HolderSM_send_request_def vbind_Inr_iff vtry_Inr_iff Let_def intro!: hm_fail)
  next
    case (Inr p)
    obtain msg meta cd where p: "p = (msg, meta, cd)" by (cases p) auto
    have "effective_thid (AM_CredentialIssuance (CI_RequestCredential msg)) = holder_thread_id m"
      using yieldsD [OF make_request_thread] r Inr p by fastforce
    then show ?thesis using assms r H_OfferReceived Inr p
      by (auto simp: HolderSM_send_request_def vbind_Inr_iff vtry_Inr_iff send_message_Inr_iff
          credential_requested_def intro!: hm_request)
  qed
qed (use assms in \<open>auto simp: HolderSM_send_request_def intro: hm_stay\<close>)

lemma holder_decline_move:
  assumes "HolderSM_decline_offer m comment c s = (Inr m', s')"
  shows "holder_move (credential_requested m s') m m'"
  using assms
  by (auto simp: HolderSM_decline_offer_def Let_def vbind_Inr_iff intro: hm_stay hm_fail
      split: HolderFullState.splits)

lemma holder_receive_credential_move:
  assumes "HolderSM_receive_credential lib prof m cred c s = (Inr m', s')"
  shows "holder_move (credential_requested m s') m m'"
proof (cases "holder_state m")
  case (H_RequestSent d)
  obtain r t where r: "store_credential lib prof cred (rsent_req_meta d) (rsent_cred_def_json d) s = (r, t)"
    by force
  show ?thesis
  proof (cases r)
    case (Inl e)
    then show ?thesis using assms r H_RequestSent
      by (auto simp: HolderSM_receive_credential_def vbind_Inr_iff vtry_Inr_iff Let_def intro!: hm_fail)
  next
    case (Inr p)
    then show ?thesis using assms r H_RequestSent
      by (cases p) (auto simp: HolderSM_receive_credential_def vbind_Inr_iff vtry_Inr_iff intro!: hm_stored)
  qed
qed (use assms in \<open>auto simp: HolderSM_receive_credential_def intro: hm_stay\<close>)

lemma holder_receive_offer_move:
  assumes "HolderSM_receive_offer mocks m offer = Inr m'"
  shows "holder_move b m m'"
proof (cases "\<exists>d. holder_state m = H_ProposalSent d")
  case True
  then show ?thesis using assms by (auto simp: HolderSM_receive_offer_def res_simps intro: hm_offer)
next
  case False
  then have "m' = m"
    using assms by (cases m) (auto simp: HolderSM_receive_offer_def res_simps split: HolderFullState.splits)
  then show ?thesis by (simp add: hm_stay)
qed

lemma holder_receive_report_move:
  assumes "HolderSM_receive_problem_report m rep = Inr m'"
  shows "holder_move b m m'"
proof (cases "HolderSM_get_state m \<in> {HS_ProposalSent, HS_RequestSent}")
  case True
  then have "m' = m\<lparr>holder_state := H_Finished (FinishedHolderState_from_report rep)\<rparr>"
    using assms by (auto simp: HolderSM_receive_problem_report_def HolderSM_get_state_def
        split: HolderFullState.splits Status.splits)
  then show ?thesis using True by (auto intro: hm_fail)
next
  case False
  then have "m' = m"
    using assms by (cases m) (auto simp: HolderSM_receive_problem_report_def HolderSM_get_state_def
        split: HolderFullState.splits)
  then show ?thesis by (simp add: hm_stay)
qed

lemmas holder_moves = holder_send_proposal_move holder_send_request_move holder_decline_move
  holder_receive_credential_move holder_receive_offer_move
  holder_receive_report_move

lemma holder_op_move:
  assumes "holder_op lib prof m s m' s'"
  shows "holder_move (credential_requested m s') m m'"
  using assms
proof cases
  case (hop_handle send a)
  then show ?thesis
    by (auto simp: HolderSM_handle_message_def vbind_Inr_iff intro: holder_moves hm_stay
        split: CredentialIssuanceAction.splits)
qed (rule holder_moves; assumption)+

lemma holder_op_extends:
  assumes "holder_op lib prof m s m' s'"
  shows "\<exists>ms. rt_outbox s' = rt_outbox s @ ms"
  using assms
  by cases (blast dest: sends_onlyD [OF holder_sends_own] sends_onlyD [OF holder_send_proposal_own]
      sends_onlyD [OF holder_send_request_own] sends_onlyD [OF holder_decline_own]
      sends_onlyD [OF holder_receive_credential_own])+

lemma holder_move_protocol:
  assumes "holder_move b m m'"
  shows "HolderSM_get_state m' = HolderSM_get_state m
       \<or> holder_protocol (HolderSM_get_state m) (HolderSM_get_state m')"
  using assms by cases auto

definition holder_inv :: "HolderSM \<Rightarrow> 'w runtime \<Rightarrow> bool" where
  "holder_inv m s =
     (case holder_state m of
        H_RequestSent _ \<Rightarrow> credential_requested m s
      | H_Finished f \<Rightarrow>
          (fh_status f = Success \<longrightarrow> credential_requested m s) \<and>
          (fh_status f = Success \<longleftrightarrow> fh_cred_id f \<noteq> None) \<and> (fh_cred_id f \<noteq> None \<longleftrightarrow> fh_credential f \<noteq> None)
      | _ \<Rightarrow> True)"

lemma holder_inv_mono: "holder_inv m s \<Longrightarrow> rt_outbox s' = rt_outbox s @ ms \<Longrightarrow> holder_inv m s'"
  by (auto simp: holder_inv_def credential_requested_def split: HolderFullState.splits)

lemma holder_move_inv:
  assumes "holder_move (credential_requested m s) m m'" "holder_inv m s"
  shows "holder_inv m' s"
  using assms
  by cases (auto simp: holder_inv_def credential_requested_def FinishedHolderState_from_stored_def
      FinishedHolderState_from_report_def)

lemma holder_op_inv:
  assumes "holder_op lib prof m s m' s'" "holder_inv m s"
  shows "holder_inv m' s'"
  using holder_op_extends [OF assms(1)] holder_move_inv [OF holder_op_move [OF assms(1)]]
    holder_inv_mono [OF assms(2)] by blast

lemma holder_reach_inv:
  assumes "holder_reach lib prof x y" "holder_inv (fst x) (snd x)"
  shows "holder_inv (fst y) (snd y)"
  using assms
proof induction
  case (hreach_op m s m' s')
  then show ?case using holder_op_inv [of lib prof m s m' s'] by simp
next
  case (hreach_other m s s' ms)
  then show ?case using holder_inv_mono [of m s s' ms] by simp
qed simp

subsection \<open>Properties\<close>


text \<open>
  Every operation of the holder either leaves its public state as it is or makes one of the
  moves of the issue-credential protocol on the holder's side.
\<close>

theorem holder_implements_protocol:
  assumes "holder_op lib prof m s m' s'"
  shows "HolderSM_get_state m' = HolderSM_get_state m
       \<or> holder_protocol (HolderSM_get_state m) (HolderSM_get_state m')"
  by (rule holder_move_protocol [OF holder_op_move [OF assms]])

text \<open>
  Over any sequence of handled actions the holder keeps its thread id, and every message sent on
  the way belongs to that thread: it carries the thread id, or it is the proposal that opens the
  thread with that id as its own. A holder that is already finished sends nothing and stays as it is.
\<close>

theorem holder_run_stays_on_thread:
  assumes "run_actions (HolderSM_handle_message lib prof send) m actions s = (r, s')"
  shows "(\<exists>ms. rt_outbox s' = rt_outbox s @ ms \<and> (\<forall>x \<in> set ms. holder_own (holder_thread_id m) x))
       \<and> (case r of Inr m' \<Rightarrow> holder_thread_id m' = holder_thread_id m | Inl _ \<Rightarrow> True)
       \<and> (HolderSM_is_terminal_state m \<longrightarrow>
            rt_outbox s' = rt_outbox s \<and> (case r of Inr m' \<Rightarrow> m' = m | Inl _ \<Rightarrow> True))"
  using holder.run_result [OF TrueI assms] holder.run_terminal_result [OF _ assms] by blast

text \<open>
  Receiving a credential in RequestSent. If it can be stored and the transport works, the
  exchange succeeds with the id under which it was stored, and an ack on the thread is sent exactly
  when the credential asks for one. If it cannot be stored, a problem report with the error text is
  sent and the exchange fails with that report.
\<close>

theorem holder_receive_credential_outcome:
  assumes "holder_state m = H_RequestSent d"
    and "store_credential lib prof cred (rsent_req_meta d) (rsent_cred_def_json d) s = (r, t)"
    and "\<And>msg w. \<exists>w'. send msg w = (Inr (), w')"
  shows "\<exists>f s' ms. HolderSM_receive_credential lib prof m cred send s = (Inr (m\<lparr>holder_state := H_Finished f\<rparr>), s')
    \<and> rt_outbox s' = rt_outbox t @ ms
    \<and> (case r of
         Inr (cred_id, rev_reg_def) \<Rightarrow>
           f = FinishedHolderState_from_stored d cred_id cred rev_reg_def \<and>
           (if kd_please_ack (msg_decorators cred) = None then ms = []
            else \<exists>ack. ms = [AM_CredentialIssuance (CI_Ack ack)]
                   \<and> td_thread (msg_decorators ack) = Thread_new (holder_thread_id m)
                   \<and> msg_content ack = AckContent_new Ack_Ok)
       | Inl e \<Rightarrow>
           (\<exists>u. let report = build_problem_report_msg u (Some (AriesVcxError_to_string e)) (holder_thread_id m)
                in f = FinishedHolderState_from_report report \<and> ms = [AM_ReportProblem report]))"
proof (cases r)
  case (Inl e)
  let ?rep = "build_problem_report_msg (rt_uuid t (rt_draws t)) (Some (AriesVcxError_to_string e)) (holder_thread_id m)"
  obtain w where "send (AM_ReportProblem ?rep) (rt_world t) = (Inr (), w)" using assms(3) by blast
  then show ?thesis
    using assms(1,2) Inl
    by (auto simp: HolderSM_receive_credential_def vbind_def vtry_def send_message_def run_simps Let_def)
next
  case (Inr p)
  obtain i rr where p: "p = (i, rr)" by force
  define t' where "t' = t\<lparr>rt_draws := Suc (rt_draws t)\<rparr>"
  show ?thesis
  proof (cases "kd_please_ack (msg_decorators cred) = None")
    case True
    then show ?thesis
      using assms(1,2) Inr p
      by (auto simp: HolderSM_receive_credential_def vbind_def vtry_def run_simps)
  next
    case False
    let ?ack = "MsgParts_with_decorators (rt_uuid t' (rt_draws t')) (AckContent_new Ack_Ok)
       ((thr_decorators_new (Thread_new (holder_thread_id m)))\<lparr>td_timing := Some (out_timing (rt_clock t (rt_draws t)))\<rparr>)"
    obtain w where "send (AM_CredentialIssuance (CI_Ack ?ack)) (rt_world t) = (Inr (), w)"
      using assms(3) by blast
    then show ?thesis
      using assms(1,2) Inr p False
      by (auto simp: HolderSM_receive_credential_def build_credential_ack_def vbind_def vtry_def
          send_message_def run_simps t'_def thr_decorators_new_def MsgParts_with_decorators_def)
  qed
qed

text \<open>
  When the credential is stored with a revocation registry definition whose \<open>value\<close> object lacks
  \<open>tailsLocation\<close>, asking for the tails location does not return an error: the indexing panics. The
  same holds for \<open>tailsHash\<close>.
\<close>

theorem tails_field_missing_panics:
  assumes "fh_rev_reg_def_json f = Some text'" "lib_json_parse lib text' = Some rev_reg_def"
    and "as_object (json_index rev_reg_def ''value'') = Some kvs"
  shows "(FinishedHolderState_get_tails_location lib f = None \<longleftrightarrow> map_of kvs ''tailsLocation'' = None)
       \<and> (FinishedHolderState_get_tails_hash lib f = None \<longleftrightarrow> map_of kvs ''tailsHash'' = None)"
  using assms
  by (auto simp: FinishedHolderState_get_tails_location_def FinishedHolderState_get_tails_hash_def
      finished_tails_field_def finished_rev_reg_def_def ok_or_def split: option.splits)

text \<open>
  After one call of the holder's \<open>update_state\<close> the machine is unchanged, or it was not final
  and is the result of handling one message of its own thread that it accepts in its state.
\<close>

theorem holder_update_state_handles_own_message:
  assumes "Holder_update_state lib prof connection m s = (r, m', s')"
  shows "m' = m \<or>
    (\<not> HolderSM_is_terminal_state m \<and>
     (\<exists>c msg t t'. message_matches (holder_thread_id m) msg
        \<and> HolderSM_handle_message lib prof (Some c) m (CredentialIssuanceAction_from msg) t = (Inr m', t')))"
  using handler_update_state_step [OF assms [unfolded Holder_update_state_def]] holder_accepts_thread
  by blast

subsection \<open>The properties at concrete inputs\<close>

definition demo_offer :: OfferCredential where
  "demo_offer = MsgParts_with_decorators ''t1''
     (OfferCredentialContent_new (CredentialPreview_new [])
        [make_attach_from_str (lib_b64enc demo_lib) ''offer'' ''a'']) opt_decorators_default"

definition demo_credential :: IssueCredential where
  "demo_credential = MsgParts_with_decorators ''c1''
     (IssueCredentialContent_new [make_attach_from_str (lib_b64enc demo_lib) ''cred'' ''a''])
     ((ack_decorators_new (Thread_new ''t1''))\<lparr>kd_please_ack := Some (PleaseAck_new [])\<rparr>)"

definition demo_holder :: HolderSM where
  "demo_holder = HolderSM_from_offer demo_offer ''src''"

definition demo_hold :: "(HolderSM \<times> unit runtime) option" where
  "demo_hold =
     Option.bind (ok_pair (HolderSM_send_request demo_lib demo_profile demo_holder ''did'' demo_send demo_runtime))
       (\<lambda>(m1, s1). ok_pair (HolderSM_receive_credential demo_lib demo_profile m1 demo_credential demo_send s1))"

lemma demo_hold_reach:
  assumes "demo_hold = Some (m, s)"
  shows "holder_reach demo_lib demo_profile (demo_holder, demo_runtime) (m, s)"
proof -
  from assms obtain m1 s1 where
    1: "HolderSM_send_request demo_lib demo_profile demo_holder ''did'' demo_send demo_runtime = (Inr m1, s1)" and
    2: "HolderSM_receive_credential demo_lib demo_profile m1 demo_credential demo_send s1 = (Inr m, s)"
    by (auto simp: demo_hold_def bind_eq_Some_conv ok_pair_Some)
  show ?thesis by (rule hreach_op [OF hreach_op [OF hreach_refl hop_request [OF 1]] hop_credential [OF 2]])
qed

lemmas demo_holder_eval = demo_holder_def demo_offer_def demo_credential_def HolderSM_from_offer_def
  demo_defs make_attach_from_str_def Attachment_new_def AttachmentData_new_def
  opt_decorators_default_def thr_decorators_new_def ack_decorators_new_def
  RequestCredentialContent_new_def IssueCredentialContent_new_def OfferCredentialContent_new_def
  MsgParts_with_decorators_def

lemmas holder_eval = HolderSM_handle_message_def HolderSM_send_request_def HolderSM_receive_credential_def
  holder_calls parse_cred_def_id_from_cred_offer_def parse_rev_reg_id_from_credential_def
  RequestSentState_from_def FinishedHolderState_from_stored_def issuance_verify_thread_id_def
  get_attach_as_string_def is_utf8_def cont_byte_def json_index_def
  vbind_def vtry_def vmap_err_def call_def send_message_def run_simps Let_def

lemma demo_hold_value: "\<exists>m s. demo_hold = Some (m, s) \<and> HolderSM_get_state m = HS_Finished"
  by (simp add: demo_hold_def ok_pair_def demo_holder_eval holder_eval HolderSM_get_state_def)


theorem holder_implements_protocol_witness:
  "\<exists>m' s'. holder_op demo_lib demo_profile demo_holder demo_runtime m' s'
     \<and> holder_protocol (HolderSM_get_state demo_holder) (HolderSM_get_state m')"
proof -
  obtain m' s' where 1: "HolderSM_send_request demo_lib demo_profile demo_holder ''did'' demo_send demo_runtime
      = (Inr m', s')" "HolderSM_get_state m' \<noteq> HolderSM_get_state demo_holder"
    by (simp add: demo_holder_eval holder_eval HolderSM_get_state_def)
  then have "holder_op demo_lib demo_profile demo_holder demo_runtime m' s'"
    by (blast intro: hop_request)
  then show ?thesis using holder_implements_protocol 1(2) by blast
qed

theorem holder_run_stays_on_thread_witness:
  "\<exists>r s'. run_actions (HolderSM_handle_message demo_lib demo_profile (Some demo_send)) demo_holder
       [CIA_CredentialRequestSend ''did'', CIA_Credential demo_credential] demo_runtime = (r, s')
     \<and> length (rt_outbox s') = 2 \<and> list_all (holder_own ''t1'') (rt_outbox s')"
proof -
  obtain r s' where run: "run_actions (HolderSM_handle_message demo_lib demo_profile (Some demo_send)) demo_holder
       [CIA_CredentialRequestSend ''did'', CIA_Credential demo_credential] demo_runtime = (r, s')"
    "length (rt_outbox s') = 2"
    by (simp add: demo_holder_eval holder_eval)
  have "holder_thread_id demo_holder = ''t1''" by (simp add: demo_holder_eval)
  then show ?thesis
    using holder_run_stays_on_thread [OF run(1)] run by (auto simp: demo_runtime_def list_all_iff)
qed

theorem holder_receive_credential_outcome_witness:
  "\<exists>f s'. HolderSM_receive_credential demo_lib demo_profile
       (demo_holder\<lparr>holder_state := H_RequestSent \<lparr>rsent_req_meta = ''m'', rsent_cred_def_json = ''d''\<rparr>\<rparr>)
       demo_credential demo_send demo_runtime
     = (Inr (demo_holder\<lparr>holder_state := H_Finished f\<rparr>), s')
   \<and> fh_cred_id f = Some ''credid'' \<and> length (rt_outbox s') = 1"
proof -
  let ?d = "\<lparr>rsent_req_meta = ''m'', rsent_cred_def_json = ''d''\<rparr>"
  let ?m = "demo_holder\<lparr>holder_state := H_RequestSent ?d\<rparr>"
  have st: "store_credential demo_lib demo_profile demo_credential (rsent_req_meta ?d) (rsent_cred_def_json ?d)
      demo_runtime = (Inr (''credid'', None), demo_runtime)"
    by (simp add: demo_holder_eval holder_eval)
  have "holder_state ?m = H_RequestSent ?d" by simp
  moreover have "\<And>msg w. \<exists>w'. demo_send msg w = (Inr (), w')" by (simp add: demo_send_def)
  moreover have "kd_please_ack (msg_decorators demo_credential) \<noteq> None" by (simp add: demo_holder_eval)
  ultimately show ?thesis
    using holder_receive_credential_outcome [OF _ st, of ?m demo_send]
    by (fastforce simp: FinishedHolderState_from_stored_def demo_runtime_def)
qed

theorem tails_field_missing_panics_witness:
  "FinishedHolderState_get_tails_location
     (demo_lib\<lparr>lib_json_parse := (\<lambda>_. Some (JObject [(''value'', JObject [(''tailsHash'', JString ''h'')])]))\<rparr>)
     \<lparr>fh_cred_id = Some ''c'', fh_credential = None, fh_status = Success, fh_rev_reg_def_json = Some ''x''\<rparr> = None"
  using tails_field_missing_panics
    [of "\<lparr>fh_cred_id = Some ''c'', fh_credential = None, fh_status = Success, fh_rev_reg_def_json = Some ''x''\<rparr>" "''x''"
       "demo_lib\<lparr>lib_json_parse := (\<lambda>_. Some (JObject [(''value'', JObject [(''tailsHash'', JString ''h'')])]))\<rparr>"
       "JObject [(''value'', JObject [(''tailsHash'', JString ''h'')])]" "[(''tailsHash'', JString ''h'')]"]
  by (simp add: json_index_def)

theorem holder_update_state_handles_own_message_witness:
  "\<exists>r m' s'. Holder_update_state demo_lib demo_profile
        (demo_connection [(''u1'', AM_CredentialIssuance (CI_IssueCredential demo_credential))])
        (demo_holder\<lparr>holder_state := H_RequestSent \<lparr>rsent_req_meta = ''m'', rsent_cred_def_json = ''d''\<rparr>\<rparr>)
        demo_runtime = (r, m', s')
    \<and> HolderSM_get_state m' = HS_Finished
    \<and> (\<exists>c msg t t'. message_matches ''t1'' msg
        \<and> HolderSM_handle_message demo_lib demo_profile (Some c)
            (demo_holder\<lparr>holder_state := H_RequestSent \<lparr>rsent_req_meta = ''m'', rsent_cred_def_json = ''d''\<rparr>\<rparr>)
            (CredentialIssuanceAction_from msg) t = (Inr m', t'))"
proof -
  let ?m = "demo_holder\<lparr>holder_state := H_RequestSent \<lparr>rsent_req_meta = ''m'', rsent_cred_def_json = ''d''\<rparr>\<rparr>"
  obtain r m' s' where run: "Holder_update_state demo_lib demo_profile
        (demo_connection [(''u1'', AM_CredentialIssuance (CI_IssueCredential demo_credential))]) ?m
        demo_runtime = (r, m', s')"
    and fin: "HolderSM_get_state m' = HS_Finished"
    by (simp add: Holder_update_state_def handler_update_state_def hbind_def hlift_def hget_def hstore_def
        demo_connection_def HolderSM_accepts_def matches_thread_id_def HolderSM_is_terminal_state_def
        demo_holder_eval holder_eval HolderSM_get_state_def)
  have "m' \<noteq> ?m" "holder_thread_id ?m = ''t1''"
    using fin by (auto simp: HolderSM_get_state_def demo_holder_eval)
  then show ?thesis using holder_update_state_handles_own_message [OF run] run fin by metis
qed

end
