(* ===== verification/Revocation_Notice.thy ===== *)
theory Revocation_Notice
  imports Issuer Holder
begin

text \<open>
  The revocation-notification protocol: aries_vcx/src/protocols/revocation_notification (sender and
  receiver state machines with their states), the handlers of the same name, and the two calls that
  the issuer's and the holder's handlers make on them.

  \<open>split_colons\<close> is \<open>str::split("::")\<close>. The condition under which the machines finish at once is kept
  as it is written: \<open>!please_ack.map(|d| d.on.is_empty()).unwrap_or(false)\<close>.

  Shown: a notification built by the sender passes the receiver's validation when the identifiers can
  be told apart; what the receiver does for each \<open>please_ack\<close>; which acks the sender accepts.
\<close>

fun split_colons :: "string \<Rightarrow> string list" where
  "split_colons [] = [[]]"
| "split_colons [c] = [[c]]"
| "split_colons (c # d # cs) =
     (if c = CHR '':'' \<and> d = CHR '':'' then [] # split_colons cs
      else (case split_colons (d # cs) of [] \<Rightarrow> [[c]] | p # ps \<Rightarrow> (c # p) # ps))"

definition ack_on_is_empty :: "PleaseAck option \<Rightarrow> bool" where
  "ack_on_is_empty please_ack = unwrap_or (map_option (\<lambda>d. ack_on d = []) please_ack) False"

definition ack_on_contains :: "AckOn \<Rightarrow> PleaseAck option \<Rightarrow> bool" where
  "ack_on_contains k please_ack = unwrap_or (map_option (\<lambda>d. k \<in> set (ack_on d)) please_ack) False"

definition Revoke_thread_id :: "Revoke \<Rightarrow> string" where
  "Revoke_thread_id rev_msg =
     unwrap_or (map_option thid (rvd_thread (msg_decorators rev_msg))) (msg_id rev_msg)"

subsection \<open>Receiver\<close>

record NotificationReceivedState =
  nrs_rev_msg :: Revoke

record ReceiverFinishedState =
  rfs_rev_msg :: Revoke

datatype ReceiverFullState =
    Rcv_Initial
  | Rcv_NotificationReceived NotificationReceivedState
  | Rcv_Finished ReceiverFinishedState

record RevocationNotificationReceiverSM =
  rcv_state :: ReceiverFullState
  rcv_rev_reg_id :: string
  rcv_cred_rev_id :: string

definition ReceiverSM_create :: "string \<Rightarrow> string \<Rightarrow> RevocationNotificationReceiverSM" where
  "ReceiverSM_create rev_reg_id cred_rev_id =
     \<lparr>rcv_state = Rcv_Initial, rcv_rev_reg_id = rev_reg_id, rcv_cred_rev_id = cred_rev_id\<rparr>"

definition ReceiverSM_get_notification :: "RevocationNotificationReceiverSM \<Rightarrow> Revoke vcx_result" where
  "ReceiverSM_get_notification self =
     (case rcv_state self of
        Rcv_NotificationReceived state \<Rightarrow> Inr (nrs_rev_msg state)
      | Rcv_Finished state \<Rightarrow> Inr (rfs_rev_msg state)
      | _ \<Rightarrow> Inl (AriesVcxError_from_msg InvalidState
               ''Revocation notification not yet known in this state''))"

definition ReceiverSM_get_thread_id :: "RevocationNotificationReceiverSM \<Rightarrow> string vcx_result" where
  "ReceiverSM_get_thread_id self =
     (case rcv_state self of
        Rcv_NotificationReceived state \<Rightarrow> Inr (Revoke_thread_id (nrs_rev_msg state))
      | Rcv_Finished state \<Rightarrow> Inr (Revoke_thread_id (rfs_rev_msg state))
      | _ \<Rightarrow> Inl (AriesVcxError_from_msg InvalidState ''Thread ID not yet known in this state''))"

definition validate_revocation_notification ::
    "RevocationNotificationReceiverSM \<Rightarrow> Revoke \<Rightarrow> unit vcx_result" where
  "validate_revocation_notification self notification =
     (let parts = split_colons (revoke_credential_id (msg_content notification));
          check_rev_format =
            (if revoke_revocation_format (msg_content notification) \<noteq> Known IndyAnoncreds
             then Inl (AriesVcxError_from_msg InvalidRevocationDetails
               ''Received revocation notification with unsupported revocation format, only IndyAnoncreds supported'')
             else Inr ());
          check_rev_reg_id = (\<lambda>_. case list_get parts 0 of
             Some rev_reg_id \<Rightarrow>
               (if rev_reg_id \<noteq> rcv_rev_reg_id self
                then Inl (AriesVcxError_from_msg InvalidRevocationDetails
                  ''Revocation registry ID in received notification does not match revocation registry ID of this credential'')
                else Inr ())
           | None \<Rightarrow> Inl (AriesVcxError_from_msg InvalidRevocationDetails
                  ''Invalid credential ID, missing revocation registry ID''));
          check_cred_rev_id = (\<lambda>_. case list_get parts 1 of
             Some cred_rev_id \<Rightarrow>
               (if cred_rev_id \<noteq> rcv_cred_rev_id self
                then Inl (AriesVcxError_from_msg InvalidRevocationDetails
                  ''Credential revocation ID in received notification does not match revocation ID of this credential'')
                else Inr ())
           | None \<Rightarrow> Inl (AriesVcxError_from_msg InvalidRevocationDetails
                  ''Invalid credential ID, missing revocation registry ID''))
      in res_bind (res_bind check_rev_format check_rev_reg_id) check_cred_rev_id)"

definition send_revoke_ack :: "Revoke \<Rightarrow> 'w SendClosure \<Rightarrow> ('w, unit) vcx" where
  "send_revoke_ack notification send =
     vbind new_v4 (\<lambda>i.
     vbind utc_now (\<lambda>now.
       let ack = MsgParts_with_decorators i (AckContent_new Ack_Ok)
             ((thr_decorators_new (Thread_new (Revoke_thread_id notification)))\<lparr>td_timing := Some (out_timing now)\<rparr>)
       in send_message send (AM_Revocation (R_Ack ack))))"

definition ReceiverSM_handle_revocation_notification ::
    "RevocationNotificationReceiverSM \<Rightarrow> Revoke \<Rightarrow> 'w SendClosure
       \<Rightarrow> ('w, RevocationNotificationReceiverSM) vcx" where
  "ReceiverSM_handle_revocation_notification self notification send =
     (case rcv_state self of
        Rcv_Initial \<Rightarrow>
          vbind (vlift (validate_revocation_notification self notification)) (\<lambda>_.
            if \<not> ack_on_is_empty (rvd_please_ack (msg_decorators notification)) then
              vret (self\<lparr>rcv_state := Rcv_Finished \<lparr>rfs_rev_msg = notification\<rparr>\<rparr>)
            else if ack_on_contains Receipt (rvd_please_ack (msg_decorators notification)) then
              vbind (send_revoke_ack notification send) (\<lambda>_.
                vret (self\<lparr>rcv_state := Rcv_Finished \<lparr>rfs_rev_msg = notification\<rparr>\<rparr>))
            else vret (self\<lparr>rcv_state := Rcv_NotificationReceived \<lparr>nrs_rev_msg = notification\<rparr>\<rparr>))
      | _ \<Rightarrow> vfail (AriesVcxError_from_msg InvalidState ''Ack already received''))"

definition ReceiverSM_send_ack ::
    "RevocationNotificationReceiverSM \<Rightarrow> 'w SendClosure \<Rightarrow> ('w, RevocationNotificationReceiverSM) vcx" where
  "ReceiverSM_send_ack self send =
     (case rcv_state self of
        Rcv_Initial \<Rightarrow> vfail (AriesVcxError_from_msg InvalidState ''Ack already sent'')
      | _ \<Rightarrow>
          vbind (vlift (ReceiverSM_get_notification self)) (\<lambda>notification.
          vbind (send_revoke_ack notification send) (\<lambda>_.
            vret (self\<lparr>rcv_state := Rcv_Finished \<lparr>rfs_rev_msg = notification\<rparr>\<rparr>))))"

subsection \<open>Sender\<close>

record NotificationSentState =
  nss_rev_msg :: Revoke

record SenderFinishedState =
  sfs_rev_msg :: Revoke
  sfs_ack :: "AckRevoke option"

datatype SenderFullState =
    Snd_Initial
  | Snd_NotificationSent NotificationSentState
  | Snd_Finished SenderFinishedState

record RevocationNotificationSenderSM =
  snd_state :: SenderFullState

record SenderConfig =
  cfg_rev_reg_id :: string
  cfg_cred_rev_id :: string
  cfg_comment :: "string option"
  cfg_ack_on :: "AckOn list"

definition SenderSM_create :: RevocationNotificationSenderSM where
  "SenderSM_create = \<lparr>snd_state = Snd_Initial\<rparr>"

definition SenderSM_get_notification :: "RevocationNotificationSenderSM \<Rightarrow> Revoke vcx_result" where
  "SenderSM_get_notification self =
     (case snd_state self of
        Snd_NotificationSent state \<Rightarrow> Inr (nss_rev_msg state)
      | Snd_Finished state \<Rightarrow> Inr (sfs_rev_msg state)
      | _ \<Rightarrow> Inl (AriesVcxError_from_msg InvalidState
               ''Revocation notification not yet known in this state''))"

definition SenderSM_get_thread_id :: "RevocationNotificationSenderSM \<Rightarrow> string vcx_result" where
  "SenderSM_get_thread_id self =
     (case snd_state self of
        Snd_NotificationSent state \<Rightarrow> Inr (Revoke_thread_id (nss_rev_msg state))
      | Snd_Finished state \<Rightarrow> Inr (Revoke_thread_id (sfs_rev_msg state))
      | _ \<Rightarrow> Inl (AriesVcxError_from_msg InvalidState ''Thread ID not yet known in this state''))"

definition build_revoke_msg :: "SenderConfig \<Rightarrow> string \<Rightarrow> Revoke" where
  "build_revoke_msg config i =
     MsgParts_with_decorators i
       ((RevokeContent_new (cfg_rev_reg_id config @ ''::'' @ cfg_cred_rev_id config) (Known IndyAnoncreds))
          \<lparr>revoke_comment := cfg_comment config\<rparr>)
       (RevokeDecorators_default\<lparr>rvd_please_ack := Some (PleaseAck_new (cfg_ack_on config))\<rparr>)"

definition SenderSM_send ::
    "RevocationNotificationSenderSM \<Rightarrow> SenderConfig \<Rightarrow> 'w SendClosure
       \<Rightarrow> ('w, RevocationNotificationSenderSM) vcx" where
  "SenderSM_send self config send =
     (case snd_state self of
        Snd_Finished _ \<Rightarrow> vfail (AriesVcxError_from_msg InvalidState ''Ack already received'')
      | _ \<Rightarrow>
          vbind new_v4 (\<lambda>i.
            let rev_msg = build_revoke_msg config i
            in vbind (send_message send (AM_Revocation (R_Revoke rev_msg))) (\<lambda>_.
                 if \<not> ack_on_is_empty (rvd_please_ack (msg_decorators rev_msg)) then
                   vret \<lparr>snd_state = Snd_Finished \<lparr>sfs_rev_msg = rev_msg, sfs_ack = None\<rparr>\<rparr>
                 else vret \<lparr>snd_state = Snd_NotificationSent \<lparr>nss_rev_msg = rev_msg\<rparr>\<rparr>)))"

definition SenderSM_handle_ack ::
    "RevocationNotificationSenderSM \<Rightarrow> AckRevoke \<Rightarrow> RevocationNotificationSenderSM vcx_result" where
  "SenderSM_handle_ack self ack =
     (let unexpected = Inl (AriesVcxError_from_msg InvalidState ''Ack not expected in this state'')
      in case snd_state self of
           Snd_NotificationSent state \<Rightarrow>
             (if ack_on_is_empty (rvd_please_ack (msg_decorators (nss_rev_msg state))) then
                res_bind (util_verify_thread_id (Revoke_thread_id (nss_rev_msg state)) (AM_Revocation (R_Ack ack)))
                  (\<lambda>_. Inr \<lparr>snd_state = Snd_Finished \<lparr>sfs_rev_msg = nss_rev_msg state, sfs_ack = Some ack\<rparr>\<rparr>)
              else unexpected)
         | _ \<Rightarrow> unexpected)"

subsection \<open>The calls of the issuance handlers\<close>

definition IssuerState_to_string :: "IssuerState \<Rightarrow> string" where
  "IssuerState_to_string st =
     (case st of IS_Initial \<Rightarrow> ''Initial'' | IS_OfferSet \<Rightarrow> ''OfferSet''
      | IS_ProposalReceived \<Rightarrow> ''ProposalReceived'' | IS_OfferSent \<Rightarrow> ''OfferSent''
      | IS_RequestReceived \<Rightarrow> ''RequestReceived'' | IS_CredentialSent \<Rightarrow> ''CredentialSent''
      | IS_Finished \<Rightarrow> ''Finished'' | IS_Failed \<Rightarrow> ''Failed'')"

definition Issuer_send_revocation_notification ::
    "IssuerSM \<Rightarrow> AckOn list \<Rightarrow> string option \<Rightarrow> 'w SendClosure \<Rightarrow> ('w, unit) vcx" where
  "Issuer_send_revocation_notification self acks comment send =
     (if IssuerSM_is_revokable self then
        vbind (vlift (IssuerSM_get_rev_reg_id self)) (\<lambda>rev_reg_id.
        vbind (vlift (IssuerSM_get_rev_id self)) (\<lambda>rev_id.
        vbind (SenderSM_send SenderSM_create
                 \<lparr>cfg_rev_reg_id = rev_reg_id, cfg_cred_rev_id = rev_id, cfg_comment = comment,
                  cfg_ack_on = acks\<rparr> send) (\<lambda>_. vret ())))
      else vfail (AriesVcxError_from_msg InvalidState
             (''Can't send revocation notification in state '' @ IssuerState_to_string (IssuerSM_get_state self)
                @ '', credential is not revokable'')))"

definition Holder_handle_revocation_notification ::
    "lib \<Rightarrow> 'w profile \<Rightarrow> 'w mediated_connection \<Rightarrow> HolderSM \<Rightarrow> Revoke \<Rightarrow> ('w, unit) vcx" where
  "Holder_handle_revocation_notification lib prof connection self notification =
     vbind (HolderSM_is_revokable lib prof self) (\<lambda>revokable.
       if revokable then
         vbind (call (mc_send_message_closure connection)) (\<lambda>send.
         vbind (vlift (HolderSM_get_rev_reg_id lib self)) (\<lambda>rev_reg_id.
         vbind (Holder_get_cred_rev_id lib prof self) (\<lambda>cred_rev_id.
         vbind (ReceiverSM_handle_revocation_notification (ReceiverSM_create rev_reg_id cred_rev_id)
                  notification send) (\<lambda>_. vret ()))))
       else vfail (AriesVcxError_from_msg InvalidState
              ''Unexpected revocation notification, credential is not revokable''))"

subsection \<open>Splitting a credential identifier\<close>

fun has_colons :: "string \<Rightarrow> bool" where
  "has_colons (c # d # cs) = (c = CHR '':'' \<and> d = CHR '':'' \<or> has_colons (d # cs))"
| "has_colons _ = False"

lemma split_colons_plain: "\<not> has_colons s \<Longrightarrow> split_colons s = [s]"
  by (induction s rule: split_colons.induct) auto

lemma split_colons_join:
  assumes "\<not> has_colons a" "a = [] \<or> last a \<noteq> CHR '':''"
  shows "split_colons (a @ ''::'' @ b) = a # split_colons b"
  using assms
proof (induction a rule: split_colons.induct)
  case (2 c)
  then show ?case by auto
next
  case (3 c d cs)
  then show ?case by (cases cs) auto
qed auto

lemma list_get_Cons [simp]: "list_get (x # xs) 0 = Some x" "list_get (x # y # xs) (Suc 0) = Some y"
  by (simp_all add: list_get_def)

lemma not_ack_on_empty: "ack_on_is_empty p \<longleftrightarrow> (\<exists>d. p = Some d \<and> ack_on d = [])"
  by (auto simp: ack_on_is_empty_def unwrap_or_def split: option.splits)

lemma receipt_branch_dead: "ack_on_is_empty p \<Longrightarrow> \<not> ack_on_contains k p"
  by (auto simp: not_ack_on_empty ack_on_contains_def unwrap_or_def)

lemma validate_accepts_iff:
  "validate_revocation_notification self n = Inr u \<longleftrightarrow>
     revoke_revocation_format (msg_content n) = Known IndyAnoncreds \<and>
     (\<exists>rest. split_colons (revoke_credential_id (msg_content n)) = rcv_rev_reg_id self # rcv_cred_rev_id self # rest)"
  by (cases "split_colons (revoke_credential_id (msg_content n))" rule: remdups_adj.cases)
     (auto simp: validate_revocation_notification_def Let_def res_bind_def list_get_def split: if_splits)

lemma Revoke_thread_id_built [simp]: "Revoke_thread_id (build_revoke_msg config i) = i"
  by (simp add: Revoke_thread_id_def build_revoke_msg_def RevokeDecorators_default_def
      MsgParts_with_decorators_def unwrap_or_def)

lemma ack_on_built [simp]:
  "ack_on_is_empty (rvd_please_ack (msg_decorators (build_revoke_msg config i))) \<longleftrightarrow> cfg_ack_on config = []"
  by (simp add: ack_on_is_empty_def build_revoke_msg_def RevokeDecorators_default_def PleaseAck_new_def
      MsgParts_with_decorators_def unwrap_or_def)

lemma sender_send_outcomes:
  assumes "SenderSM_send self config send s = (Inr self', s')"
  shows "\<exists>i. rt_outbox s' = rt_outbox s @ [AM_Revocation (R_Revoke (build_revoke_msg config i))]
     \<and> snd_state self' = (if cfg_ack_on config = []
         then Snd_NotificationSent \<lparr>nss_rev_msg = build_revoke_msg config i\<rparr>
         else Snd_Finished \<lparr>sfs_rev_msg = build_revoke_msg config i, sfs_ack = None\<rparr>)"
  using assms
  by (auto simp: SenderSM_send_def vbind_Inr_iff send_message_Inr_iff Let_def
      split: SenderFullState.splits if_splits)

subsection \<open>Properties\<close>

text \<open>
  A notification that a sender has built and sent is accepted by a receiver for the same
  registry and credential, provided the identifiers contain no separator \<open>::\<close> and the registry id does
  not end in a colon.
\<close>

theorem revocation_notification_accepted:
  assumes "SenderSM_send sender config send s = (Inr sender', s')"
    and "\<not> has_colons (cfg_rev_reg_id config)" "cfg_rev_reg_id config = [] \<or> last (cfg_rev_reg_id config) \<noteq> CHR '':''"
    and "\<not> has_colons (cfg_cred_rev_id config)"
  shows "\<exists>notification receiver'.
     rt_outbox s' = rt_outbox s @ [AM_Revocation (R_Revoke notification)]
   \<and> ReceiverSM_handle_revocation_notification
        (ReceiverSM_create (cfg_rev_reg_id config) (cfg_cred_rev_id config)) notification send2 t = (Inr receiver', t)
   \<and> ReceiverSM_get_notification receiver' = Inr notification"
proof -
  obtain i where i: "rt_outbox s' = rt_outbox s @ [AM_Revocation (R_Revoke (build_revoke_msg config i))]"
    using sender_send_outcomes [OF assms(1)] by blast
  let ?n = "build_revoke_msg config i"
  let ?r = "ReceiverSM_create (cfg_rev_reg_id config) (cfg_cred_rev_id config)"
  have "split_colons (revoke_credential_id (msg_content ?n)) = [cfg_rev_reg_id config, cfg_cred_rev_id config]"
    using split_colons_join [OF assms(2,3), of "cfg_cred_rev_id config"] split_colons_plain [OF assms(4)]
    by (simp add: build_revoke_msg_def RevokeContent_new_def MsgParts_with_decorators_def)
  then have "validate_revocation_notification ?r ?n = Inr ()"
    by (simp add: validate_accepts_iff ReceiverSM_create_def build_revoke_msg_def RevokeContent_new_def
        MsgParts_with_decorators_def)
  then have "\<exists>r'. ReceiverSM_handle_revocation_notification ?r ?n send2 t = (Inr r', t)
      \<and> ReceiverSM_get_notification r' = Inr ?n"
    by (auto simp: ReceiverSM_handle_revocation_notification_def ReceiverSM_create_def vbind_def run_simps
        receipt_branch_dead ReceiverSM_get_notification_def)
  then show ?thesis using i by blast
qed

text \<open>
  A receiver never acknowledges a notification on receipt, also when the notification asks for it:
  handling it sends nothing. The machine waits for an explicit \<open>send_ack\<close> only when \<open>please_ack\<close> is
  present with an empty list; with a non-empty list, or without the decorator, it is finished at once.
\<close>

theorem receiver_never_acks_on_receipt:
  assumes "ReceiverSM_handle_revocation_notification self notification send s = (r, s')"
  shows "s' = s \<and>
    (case r of
       Inl _ \<Rightarrow> True
     | Inr self' \<Rightarrow>
         (if \<exists>d. rvd_please_ack (msg_decorators notification) = Some d \<and> ack_on d = []
          then rcv_state self' = Rcv_NotificationReceived \<lparr>nrs_rev_msg = notification\<rparr>
          else rcv_state self' = Rcv_Finished \<lparr>rfs_rev_msg = notification\<rparr>))"
proof (cases "rcv_state self")
  case Rcv_Initial
  show ?thesis
  proof (cases "ack_on_is_empty (rvd_please_ack (msg_decorators notification))")
    case True
    then show ?thesis
      using assms Rcv_Initial receipt_branch_dead [OF True]
      by (cases "validate_revocation_notification self notification")
         (auto simp: ReceiverSM_handle_revocation_notification_def vbind_def run_simps not_ack_on_empty)
  next
    case False
    then show ?thesis
      using assms Rcv_Initial
      by (cases "validate_revocation_notification self notification")
         (auto simp: ReceiverSM_handle_revocation_notification_def vbind_def run_simps not_ack_on_empty)
  qed
qed (use assms in \<open>auto simp: ReceiverSM_handle_revocation_notification_def\<close>)

text \<open>
  A sender that asked for an acknowledgement is finished as soon as the notification is sent and
  rejects every ack. A sender that asked for none accepts exactly the acks of the notification's
  thread.
\<close>

theorem sender_accepts_ack_iff_not_requested:
  assumes "SenderSM_send sender config send s = (Inr sender', s')"
    and "SenderSM_get_thread_id sender' = Inr tid"
  shows "is_ok (SenderSM_handle_ack sender' ack) \<longleftrightarrow>
     cfg_ack_on config = [] \<and> matches_thread_id (td_thread (msg_decorators ack)) tid"
  using sender_send_outcomes [OF assms(1)] assms(2)
  by (auto simp: SenderSM_handle_ack_def SenderSM_get_thread_id_def util_verify_thread_id_def
      is_ok_def res_bind_def split: if_splits)

subsection \<open>The properties at concrete inputs\<close>

definition demo_config :: "AckOn list \<Rightarrow> SenderConfig" where
  "demo_config acks = \<lparr>cfg_rev_reg_id = ''V4:4:tag'', cfg_cred_rev_id = ''7'', cfg_comment = None, cfg_ack_on = acks\<rparr>"

lemma demo_sent:
  "\<exists>sender' s'. SenderSM_send SenderSM_create (demo_config acks) demo_send demo_runtime = (Inr sender', s')
     \<and> SenderSM_get_thread_id sender' = Inr (nat_to_string 0)"
  by (auto simp: SenderSM_send_def SenderSM_create_def demo_send_def demo_runtime_def vbind_def run_simps
      send_message_def Let_def SenderSM_get_thread_id_def)

theorem revocation_notification_accepted_witness:
  "\<exists>notification receiver'. ReceiverSM_handle_revocation_notification
       (ReceiverSM_create ''V4:4:tag'' ''7'') notification demo_send demo_runtime = (Inr receiver', demo_runtime)
     \<and> ReceiverSM_get_notification receiver' = Inr notification"
proof -
  obtain sender' s' where
    "SenderSM_send SenderSM_create (demo_config [Receipt]) demo_send demo_runtime = (Inr sender', s')"
    using demo_sent by blast
  from revocation_notification_accepted [OF this, of demo_send demo_runtime] show ?thesis
    by (auto simp: demo_config_def)
qed

definition demo_revoke :: Revoke where
  "demo_revoke = build_revoke_msg (demo_config [Receipt]) ''n1''"

theorem receiver_never_acks_on_receipt_witness:
  "\<exists>self'. ReceiverSM_handle_revocation_notification (ReceiverSM_create ''V4:4:tag'' ''7'') demo_revoke
       demo_send demo_runtime = (Inr self', demo_runtime)
     \<and> rcv_state self' = Rcv_Finished \<lparr>rfs_rev_msg = demo_revoke\<rparr>"
proof -
  let ?r = "ReceiverSM_create ''V4:4:tag'' ''7''"
  obtain r s' where run: "ReceiverSM_handle_revocation_notification ?r demo_revoke demo_send demo_runtime = (r, s')"
    by force
  have "\<not> (\<exists>d. rvd_please_ack (msg_decorators demo_revoke) = Some d \<and> ack_on d = [])"
    unfolding not_ack_on_empty [symmetric] by (simp add: demo_revoke_def demo_config_def)
  moreover have "\<exists>x. r = Inr x"
    using run by (auto simp: ReceiverSM_handle_revocation_notification_def ReceiverSM_create_def vbind_def
        run_simps demo_revoke_def validate_accepts_iff build_revoke_msg_def RevokeContent_new_def
        MsgParts_with_decorators_def demo_config_def ack_on_is_empty_def unwrap_or_def
        RevokeDecorators_default_def PleaseAck_new_def validate_revocation_notification_def
        res_bind_def Let_def)
  ultimately show ?thesis using receiver_never_acks_on_receipt [OF run] run by auto
qed

theorem sender_accepts_ack_iff_not_requested_witness:
  "\<exists>sender' s'. SenderSM_send SenderSM_create (demo_config [Receipt]) demo_send demo_runtime = (Inr sender', s')
     \<and> \<not> is_ok (SenderSM_handle_ack sender' demo_ack)"
proof -
  obtain sender' s' where
    run: "SenderSM_send SenderSM_create (demo_config [Receipt]) demo_send demo_runtime = (Inr sender', s')"
      "SenderSM_get_thread_id sender' = Inr (nat_to_string 0)"
    using demo_sent by blast
  with sender_accepts_ack_iff_not_requested [OF run, of demo_ack] show ?thesis
    by (auto simp: demo_config_def)
qed

end
