(* ===== verification/Proof_Request.thy ===== *)
theory Proof_Request
  imports Credentials
begin

text \<open>
  Proof requests: aries_vcx/src/common/proofs/proof_request_internal.rs and proof_request.rs. The
  \<open>HashMap\<close>s are association lists in the order of their iteration. The derived serialisation and
  deserialisation are functions to and from \<open>json\<close>; a struct is read from an object (the positional
  array that serde also accepts for a struct is not modelled).

  Shown: a request reads back from its JSON form, and the setters number the requested attributes and
  predicates without losing any.
\<close>

record ProofFilter =
  pf_schema_id :: "string option"
  pf_schema_issuer_did :: "string option"
  pf_schema_name :: "string option"
  pf_schema_version :: "string option"
  pf_issuer_did :: "string option"
  pf_cred_def_id :: "string option"

datatype Restrictions = Restr_V1 "ProofFilter list" | Restr_V2 json

record NonRevokedInterval =
  nri_from :: "64 word option"
  nri_to :: "64 word option"

record PredicateInfo =
  pinfo_name :: string
  pinfo_p_type :: string
  pinfo_p_value :: "32 word"
  pinfo_restrictions :: "Restrictions option"
  pinfo_non_revoked :: "NonRevokedInterval option"

record AttrInfo =
  ainfo_name :: "string option"
  ainfo_names :: "string list option"
  ainfo_restrictions :: "Restrictions option"
  ainfo_non_revoked :: "NonRevokedInterval option"
  ainfo_self_attest_allowed :: "bool option"

record ProofRequestData =
  preq_nonce :: string
  preq_name :: string
  preq_data_version :: string
  preq_requested_attributes :: "(string \<times> AttrInfo) list"
  preq_requested_predicates :: "(string \<times> PredicateInfo) list"
  preq_non_revoked :: "NonRevokedInterval option"

subsection \<open>Reading JSON\<close>

definition entries_of :: "(json \<Rightarrow> 'a option) \<Rightarrow> json \<Rightarrow> (string \<times> 'a) list option" where
  "entries_of p v = Option.bind (as_object v) (\<lambda>kvs. those (map (\<lambda>(k, x). map_option (Pair k) (p x)) kvs))"

definition ProofFilter_from_json :: "json \<Rightarrow> ProofFilter option" where
  "ProofFilter_from_json v =
     Option.bind (as_object v) (\<lambda>_.
     Option.bind (opt_field as_str v ''schema_id'') (\<lambda>a.
     Option.bind (opt_field as_str v ''schema_issuer_did'') (\<lambda>b.
     Option.bind (opt_field as_str v ''schema_name'') (\<lambda>c.
     Option.bind (opt_field as_str v ''schema_version'') (\<lambda>d.
     Option.bind (opt_field as_str v ''issuer_did'') (\<lambda>e.
     Option.bind (opt_field as_str v ''cred_def_id'') (\<lambda>f.
       Some \<lparr>pf_schema_id = a, pf_schema_issuer_did = b, pf_schema_name = c, pf_schema_version = d,
             pf_issuer_did = e, pf_cred_def_id = f\<rparr>)))))))"

text \<open>\<open>untagged\<close>: the first variant that fits.\<close>

definition Restrictions_from_json :: "json \<Rightarrow> Restrictions option" where
  "Restrictions_from_json v =
     (case array_of ProofFilter_from_json v of Some fs \<Rightarrow> Some (Restr_V1 fs) | None \<Rightarrow> Some (Restr_V2 v))"

definition NonRevokedInterval_from_json :: "json \<Rightarrow> NonRevokedInterval option" where
  "NonRevokedInterval_from_json v =
     Option.bind (as_object v) (\<lambda>_.
     Option.bind (opt_field as_u64 v ''from'') (\<lambda>a.
     Option.bind (opt_field as_u64 v ''to'') (\<lambda>b. Some \<lparr>nri_from = a, nri_to = b\<rparr>)))"

definition PredicateInfo_from_json :: "json \<Rightarrow> PredicateInfo option" where
  "PredicateInfo_from_json v =
     Option.bind (req_str v ''name'') (\<lambda>a.
     Option.bind (req_str v ''p_type'') (\<lambda>b.
     Option.bind (Option.bind (json_get v ''p_value'') as_i32) (\<lambda>c.
     Option.bind (opt_field Restrictions_from_json v ''restrictions'') (\<lambda>d.
     Option.bind (opt_field NonRevokedInterval_from_json v ''non_revoked'') (\<lambda>e.
       Some \<lparr>pinfo_name = a, pinfo_p_type = b, pinfo_p_value = c, pinfo_restrictions = d,
             pinfo_non_revoked = e\<rparr>)))))"

definition AttrInfo_from_json :: "json \<Rightarrow> AttrInfo option" where
  "AttrInfo_from_json v =
     Option.bind (as_object v) (\<lambda>_.
     Option.bind (opt_field as_str v ''name'') (\<lambda>a.
     Option.bind (opt_field (array_of as_str) v ''names'') (\<lambda>b.
     Option.bind (opt_field Restrictions_from_json v ''restrictions'') (\<lambda>c.
     Option.bind (opt_field NonRevokedInterval_from_json v ''non_revoked'') (\<lambda>d.
     Option.bind (opt_field as_bool v ''self_attest_allowed'') (\<lambda>e.
       Some \<lparr>ainfo_name = a, ainfo_names = b, ainfo_restrictions = c, ainfo_non_revoked = d,
             ainfo_self_attest_allowed = e\<rparr>))))))"

definition default_entries :: "(json \<Rightarrow> 'a option) \<Rightarrow> json \<Rightarrow> string \<Rightarrow> (string \<times> 'a) list option" where
  "default_entries p v k = (case json_get v k of None \<Rightarrow> Some [] | Some x \<Rightarrow> entries_of p x)"

definition ProofRequestData_from_json :: "json \<Rightarrow> ProofRequestData option" where
  "ProofRequestData_from_json v =
     Option.bind (req_str v ''nonce'') (\<lambda>a.
     Option.bind (req_str v ''name'') (\<lambda>b.
     Option.bind (req_str v ''version'') (\<lambda>c.
     Option.bind (default_entries AttrInfo_from_json v ''requested_attributes'') (\<lambda>d.
     Option.bind (default_entries PredicateInfo_from_json v ''requested_predicates'') (\<lambda>e.
     Option.bind (opt_field NonRevokedInterval_from_json v ''non_revoked'') (\<lambda>f.
       Some \<lparr>preq_nonce = a, preq_name = b, preq_data_version = c, preq_requested_attributes = d,
             preq_requested_predicates = e, preq_non_revoked = f\<rparr>))))))"

subsection \<open>Writing JSON\<close>

text \<open>A field with \<open>skip_serializing_if = "Option::is_none"\<close>.\<close>

definition skip_none :: "string \<Rightarrow> ('a \<Rightarrow> json) \<Rightarrow> 'a option \<Rightarrow> (string \<times> json) list" where
  "skip_none k p x = (case x of None \<Rightarrow> [] | Some a \<Rightarrow> [(k, p a)])"

definition ProofFilter_to_json :: "ProofFilter \<Rightarrow> json" where
  "ProofFilter_to_json f = JObject
     (skip_none ''schema_id'' JString (pf_schema_id f)
      @ skip_none ''schema_issuer_did'' JString (pf_schema_issuer_did f)
      @ skip_none ''schema_name'' JString (pf_schema_name f)
      @ skip_none ''schema_version'' JString (pf_schema_version f)
      @ skip_none ''issuer_did'' JString (pf_issuer_did f)
      @ skip_none ''cred_def_id'' JString (pf_cred_def_id f))"

fun Restrictions_to_json :: "Restrictions \<Rightarrow> json" where
  "Restrictions_to_json (Restr_V1 fs) = JArray (map ProofFilter_to_json fs)"
| "Restrictions_to_json (Restr_V2 v) = v"

definition NonRevokedInterval_to_json :: "NonRevokedInterval \<Rightarrow> json" where
  "NonRevokedInterval_to_json i =
     JObject [(''from'', or_null JU64 (nri_from i)), (''to'', or_null JU64 (nri_to i))]"

definition PredicateInfo_to_json :: "PredicateInfo \<Rightarrow> json" where
  "PredicateInfo_to_json p = JObject
     ([(''name'', JString (pinfo_name p)), (''p_type'', JString (pinfo_p_type p)),
       (''p_value'', JI32 (pinfo_p_value p))]
      @ skip_none ''restrictions'' Restrictions_to_json (pinfo_restrictions p)
      @ skip_none ''non_revoked'' NonRevokedInterval_to_json (pinfo_non_revoked p))"

definition AttrInfo_to_json :: "AttrInfo \<Rightarrow> json" where
  "AttrInfo_to_json a = JObject
     (skip_none ''name'' JString (ainfo_name a)
      @ skip_none ''names'' (\<lambda>ns. JArray (map JString ns)) (ainfo_names a)
      @ skip_none ''restrictions'' Restrictions_to_json (ainfo_restrictions a)
      @ skip_none ''non_revoked'' NonRevokedInterval_to_json (ainfo_non_revoked a)
      @ skip_none ''self_attest_allowed'' JBool (ainfo_self_attest_allowed a))"

definition entries_to_json :: "('a \<Rightarrow> json) \<Rightarrow> (string \<times> 'a) list \<Rightarrow> json" where
  "entries_to_json p kvs = JObject (map (\<lambda>(k, x). (k, p x)) kvs)"

definition ProofRequestData_to_json :: "ProofRequestData \<Rightarrow> json" where
  "ProofRequestData_to_json r = JObject
     ([(''nonce'', JString (preq_nonce r)), (''name'', JString (preq_name r)),
       (''version'', JString (preq_data_version r)),
       (''requested_attributes'', entries_to_json AttrInfo_to_json (preq_requested_attributes r)),
       (''requested_predicates'', entries_to_json PredicateInfo_to_json (preq_requested_predicates r))]
      @ skip_none ''non_revoked'' NonRevokedInterval_to_json (preq_non_revoked r))"

subsection \<open>Building a request\<close>

definition ProofRequestData_DEFAULT_VERSION :: string where
  "ProofRequestData_DEFAULT_VERSION = ''1.0''"

definition ProofRequestData_default :: ProofRequestData where
  "ProofRequestData_default =
     \<lparr>preq_nonce = [], preq_name = [], preq_data_version = ProofRequestData_DEFAULT_VERSION,
      preq_requested_attributes = [], preq_requested_predicates = [], preq_non_revoked = None\<rparr>"

definition ProofRequestData_create :: "'w profile \<Rightarrow> string \<Rightarrow> ('w, ProofRequestData) vcx" where
  "ProofRequestData_create prof name =
     vbind (call (ac_generate_nonce prof)) (\<lambda>nonce.
       vret (ProofRequestData_default\<lparr>preq_name := name, preq_nonce := nonce\<rparr>))"

definition numbered :: "string \<Rightarrow> 'a list \<Rightarrow> (string \<times> 'a) list" where
  "numbered prefix xs = map (\<lambda>(index, x). (prefix @ nat_to_string index, x)) (enumerate 0 xs)"

definition set_requested_attributes_as_vec :: "ProofRequestData \<Rightarrow> AttrInfo list \<Rightarrow> ProofRequestData vcx_result" where
  "set_requested_attributes_as_vec self requested_attrs =
     Inr (self\<lparr>preq_requested_attributes := numbered ''attribute_'' requested_attrs\<rparr>)"

definition set_requested_attributes_as_string ::
    "lib \<Rightarrow> ProofRequestData \<Rightarrow> string \<Rightarrow> ProofRequestData vcx_result" where
  "set_requested_attributes_as_string lib self requested_attrs =
     (case Option.bind (lib_json_parse lib requested_attrs) (entries_of AttrInfo_from_json) of
        Some attrs \<Rightarrow> Inr (self\<lparr>preq_requested_attributes := attrs\<rparr>)
      | None \<Rightarrow>
          res_bind (ok_or (Option.bind (lib_json_parse lib requested_attrs) (array_of AttrInfo_from_json))
            (AriesVcxError_from_msg InvalidJson ''Invalid Requested Attributes: {:?}, err: {:?}''))
            (\<lambda>attributes.
          res_bind (try_for_each (\<lambda>attribute.
              if ainfo_name attribute \<noteq> None \<and> ainfo_names attribute \<noteq> None
              then Inl (AriesVcxError_from_msg InvalidProofRequest
                     ''Requested attribute can contain either 'name' or 'names'. Not both.'')
              else Inr ()) attributes) (\<lambda>_.
            set_requested_attributes_as_vec self attributes)))"

definition set_requested_predicates_as_string ::
    "lib \<Rightarrow> ProofRequestData \<Rightarrow> string \<Rightarrow> ProofRequestData vcx_result" where
  "set_requested_predicates_as_string lib self requested_predicates =
     res_bind (ok_or (Option.bind (lib_json_parse lib requested_predicates) (array_of PredicateInfo_from_json))
       (AriesVcxError_from_msg InvalidJson ''Invalid Requested Predicates: {:?}, err: {:?}''))
       (\<lambda>predicates. Inr (self\<lparr>preq_requested_predicates := numbered ''predicate_'' predicates\<rparr>))"

definition set_not_revoked_interval :: "lib \<Rightarrow> ProofRequestData \<Rightarrow> string \<Rightarrow> ProofRequestData vcx_result" where
  "set_not_revoked_interval lib self non_revoc_interval =
     res_bind (ok_or (Option.bind (lib_json_parse lib non_revoc_interval) NonRevokedInterval_from_json)
       (AriesVcxError_from_msg InvalidJson ''Invalid Revocation Interval: {:?}'')) (\<lambda>interval.
       Inr (self\<lparr>preq_non_revoked :=
         (case (nri_from interval, nri_to interval) of
            (None, None) \<Rightarrow> None
          | (frm, to) \<Rightarrow> Some \<lparr>nri_from = frm, nri_to = to\<rparr>)\<rparr>))"

subsection \<open>Reading back what was written\<close>

lemma those_map_Some: "(\<And>x. x \<in> set xs \<Longrightarrow> f x = Some (g x)) \<Longrightarrow> those (map f xs) = Some (map g xs)"
  by (induction xs) auto

lemma map_of_skip_none [simp]:
  "map_of (skip_none k p x) k' =
     (if k' = k then (case x of None \<Rightarrow> None | Some a \<Rightarrow> Some (p a)) else None)"
  by (auto simp: skip_none_def split: option.splits)

lemma opt_field_written:
  assumes "json_get v k = (case x of None \<Rightarrow> None | Some a \<Rightarrow> Some (q a))"
    and "\<And>a. x = Some a \<Longrightarrow> q a \<noteq> JNull \<and> p (q a) = Some a"
  shows "opt_field p v k = Some x"
  using assms by (cases x) (auto simp: opt_field_def)

lemma opt_field_or_null:
  assumes "json_get v k = Some (or_null q x)" "\<And>a. x = Some a \<Longrightarrow> q a \<noteq> JNull \<and> p (q a) = Some a"
  shows "opt_field p v k = Some x"
  using assms by (cases x) (auto simp: opt_field_def or_null_def)

lemma or_null_values [simp]: "JU64 w \<noteq> JNull" "NonRevokedInterval_to_json i \<noteq> JNull"
  by (simp_all add: JU64_def NonRevokedInterval_to_json_def)

lemma as_object_written [simp]:
  "as_object (ProofFilter_to_json f) \<noteq> None" "as_object (NonRevokedInterval_to_json i) \<noteq> None"
  "as_object (AttrInfo_to_json a) \<noteq> None"
  by (simp_all add: ProofFilter_to_json_def NonRevokedInterval_to_json_def AttrInfo_to_json_def)

lemma ProofFilter_written [simp]: "ProofFilter_from_json (ProofFilter_to_json f) = Some f"
proof -
  let ?v = "ProofFilter_to_json f"
  have "opt_field as_str ?v ''schema_id'' = Some (pf_schema_id f)"
    "opt_field as_str ?v ''schema_issuer_did'' = Some (pf_schema_issuer_did f)"
    "opt_field as_str ?v ''schema_name'' = Some (pf_schema_name f)"
    "opt_field as_str ?v ''schema_version'' = Some (pf_schema_version f)"
    "opt_field as_str ?v ''issuer_did'' = Some (pf_issuer_did f)"
    "opt_field as_str ?v ''cred_def_id'' = Some (pf_cred_def_id f)"
    by (rule opt_field_written [where q = JString]; simp add: ProofFilter_to_json_def map_add_def split: option.splits)+
  then show ?thesis by (simp add: ProofFilter_from_json_def ProofFilter_to_json_def)
qed

lemma NonRevokedInterval_written [simp]: "NonRevokedInterval_from_json (NonRevokedInterval_to_json i) = Some i"
proof -
  let ?v = "NonRevokedInterval_to_json i"
  have "opt_field as_u64 ?v ''from'' = Some (nri_from i)" "opt_field as_u64 ?v ''to'' = Some (nri_to i)"
    by (rule opt_field_or_null [where q = JU64]; simp add: NonRevokedInterval_to_json_def)+
  then show ?thesis by (simp add: NonRevokedInterval_from_json_def NonRevokedInterval_to_json_def)
qed

text \<open>A free-form restriction (\<open>V2\<close>) is read back as such unless it is null or happens to be a list of
  filters.\<close>

fun plain_restrictions :: "Restrictions \<Rightarrow> bool" where
  "plain_restrictions (Restr_V1 _) = True"
| "plain_restrictions (Restr_V2 v) = (v \<noteq> JNull \<and> array_of ProofFilter_from_json v = None)"

lemma array_of_written: "(\<And>x. p (q x) = Some x) \<Longrightarrow> array_of p (JArray (map q xs)) = Some xs"
  using those_map_Some [of xs "p \<circ> q" id] by (simp add: array_of_def comp_def)

lemma Restrictions_written:
  assumes "plain_restrictions r"
  shows "Restrictions_to_json r \<noteq> JNull \<and> Restrictions_from_json (Restrictions_to_json r) = Some r"
proof (cases r)
  case (Restr_V1 fs)
  then show ?thesis by (simp add: Restrictions_from_json_def array_of_written)
next
  case (Restr_V2 v)
  then show ?thesis using assms by (simp add: Restrictions_from_json_def)
qed

definition plain_opt :: "Restrictions option \<Rightarrow> bool" where
  "plain_opt r = (case r of None \<Rightarrow> True | Some x \<Rightarrow> plain_restrictions x)"

lemma Restrictions_field:
  assumes "plain_opt r" "json_get v k = (case r of None \<Rightarrow> None | Some a \<Rightarrow> Some (Restrictions_to_json a))"
  shows "opt_field Restrictions_from_json v k = Some r"
  using assms Restrictions_written by (intro opt_field_written) (auto simp: plain_opt_def)

lemma PredicateInfo_written:
  assumes "plain_opt (pinfo_restrictions p)"
  shows "PredicateInfo_from_json (PredicateInfo_to_json p) = Some p"
proof -
  let ?v = "PredicateInfo_to_json p"
  have r: "opt_field Restrictions_from_json ?v ''restrictions'' = Some (pinfo_restrictions p)"
    by (rule Restrictions_field [OF assms]) (simp add: PredicateInfo_to_json_def map_add_def split: option.splits)
  have "opt_field NonRevokedInterval_from_json ?v ''non_revoked'' = Some (pinfo_non_revoked p)"
    by (rule opt_field_written [where q = NonRevokedInterval_to_json])
       (simp_all add: PredicateInfo_to_json_def map_add_def split: option.splits)
  with r show ?thesis
    by (simp add: PredicateInfo_from_json_def)
       (simp add: req_str_def PredicateInfo_to_json_def map_add_def)
qed

lemma AttrInfo_written:
  assumes "plain_opt (ainfo_restrictions a)"
  shows "AttrInfo_from_json (AttrInfo_to_json a) = Some a"
proof -
  let ?v = "AttrInfo_to_json a"
  have "opt_field as_str ?v ''name'' = Some (ainfo_name a)"
    by (rule opt_field_written [where q = JString]) (simp_all add: AttrInfo_to_json_def map_add_def split: option.splits)
  moreover have "opt_field (array_of as_str) ?v ''names'' = Some (ainfo_names a)"
    by (rule opt_field_written [where q = "\<lambda>ns. JArray (map JString ns)"])
       (simp_all add: AttrInfo_to_json_def array_of_written map_add_def split: option.splits)
  moreover have "opt_field Restrictions_from_json ?v ''restrictions'' = Some (ainfo_restrictions a)"
    by (rule Restrictions_field [OF assms]) (simp add: AttrInfo_to_json_def map_add_def split: option.splits)
  moreover have "opt_field NonRevokedInterval_from_json ?v ''non_revoked'' = Some (ainfo_non_revoked a)"
    by (rule opt_field_written [where q = NonRevokedInterval_to_json])
       (simp_all add: AttrInfo_to_json_def map_add_def split: option.splits)
  moreover have "opt_field as_bool ?v ''self_attest_allowed'' = Some (ainfo_self_attest_allowed a)"
    by (rule opt_field_written [where q = JBool]) (simp_all add: AttrInfo_to_json_def map_add_def split: option.splits)
  ultimately show ?thesis by (simp add: AttrInfo_from_json_def) (simp add: AttrInfo_to_json_def)
qed

lemma entries_written:
  assumes "\<And>k x. (k, x) \<in> set kvs \<Longrightarrow> p (q x) = Some x"
  shows "entries_of p (entries_to_json q kvs) = Some kvs"
proof -
  have "those (map (\<lambda>(k, x). map_option (Pair k) (p (q x))) kvs) = Some (map id kvs)"
    using assms by (intro those_map_Some) auto
  then show ?thesis by (simp add: entries_of_def entries_to_json_def comp_def case_prod_unfold)
qed

definition plain_request :: "ProofRequestData \<Rightarrow> bool" where
  "plain_request r =
     (list_all (\<lambda>(k, a). plain_opt (ainfo_restrictions a)) (preq_requested_attributes r) \<and>
      list_all (\<lambda>(k, p). plain_opt (pinfo_restrictions p)) (preq_requested_predicates r))"

subsection \<open>Properties\<close>

text \<open>
  A proof request is read back from the JSON that is written for it, provided its free-form
  restrictions are neither null nor lists of filters.
\<close>

theorem proof_request_json_roundtrip:
  assumes "plain_request r"
  shows "ProofRequestData_from_json (ProofRequestData_to_json r) = Some r"
proof -
  let ?v = "ProofRequestData_to_json r"
  have a: "entries_of AttrInfo_from_json (entries_to_json AttrInfo_to_json (preq_requested_attributes r))
      = Some (preq_requested_attributes r)"
    using assms by (intro entries_written AttrInfo_written) (auto simp: plain_request_def list_all_iff)
  have p: "entries_of PredicateInfo_from_json (entries_to_json PredicateInfo_to_json (preq_requested_predicates r))
      = Some (preq_requested_predicates r)"
    using assms by (intro entries_written PredicateInfo_written) (auto simp: plain_request_def list_all_iff)
  have "opt_field NonRevokedInterval_from_json ?v ''non_revoked'' = Some (preq_non_revoked r)"
    by (rule opt_field_written [where q = NonRevokedInterval_to_json])
       (simp_all add: ProofRequestData_to_json_def map_add_def split: option.splits)
  then show ?thesis
    by (simp add: ProofRequestData_from_json_def)
       (simp add: ProofRequestData_to_json_def req_str_def default_entries_def a p map_add_def)
qed

text \<open>
  The n-th attribute of a request given as a vector is found under the name \<open>attribute_n\<close>, and
  there are no other names: no attribute is lost or overwritten.
\<close>

theorem requested_attributes_numbered:
  assumes "set_requested_attributes_as_vec self attrs = Inr r"
  shows "distinct (map fst (preq_requested_attributes r))
       \<and> length (preq_requested_attributes r) = length attrs
       \<and> (\<forall>n < length attrs. map_of (preq_requested_attributes r) (''attribute_'' @ nat_to_string n) = Some (attrs ! n))"
proof -
  have r: "preq_requested_attributes r = numbered ''attribute_'' attrs"
    using assms by (auto simp: set_requested_attributes_as_vec_def)
  have keys: "map fst (numbered ''attribute_'' attrs) = map (\<lambda>i. ''attribute_'' @ nat_to_string i) [0..<length attrs]"
    by (rule nth_equalityI) (simp_all add: numbered_def enumerate_eq_zip case_prod_unfold)
  then have d: "distinct (map fst (numbered ''attribute_'' attrs))"
    by (simp add: distinct_map inj_on_def)
  have "map_of (numbered ''attribute_'' attrs) (''attribute_'' @ nat_to_string n) = Some (attrs ! n)"
    if "n < length attrs" for n
  proof -
    have "(n, attrs ! n) \<in> set (enumerate 0 attrs)" using that by (simp add: in_set_enumerate_eq)
    then have "(''attribute_'' @ nat_to_string n, attrs ! n) \<in> set (numbered ''attribute_'' attrs)"
      by (force simp: numbered_def)
    then show ?thesis using d by simp
  qed
  then show ?thesis using d r by (simp add: numbered_def)
qed

subsection \<open>The properties at concrete inputs\<close>

definition demo_proof_request :: ProofRequestData where
  "demo_proof_request = ProofRequestData_default\<lparr>
     preq_requested_attributes := [(''attribute_0'', \<lparr>ainfo_name = Some ''age'', ainfo_names = None,
        ainfo_restrictions = Some (Restr_V1 []), ainfo_non_revoked = None, ainfo_self_attest_allowed = None\<rparr>)],
     preq_requested_predicates := [(''predicate_0'', \<lparr>pinfo_name = ''age'', pinfo_p_type = ''>='',
        pinfo_p_value = - 5, pinfo_restrictions = Some (Restr_V2 (JBool True)),
        pinfo_non_revoked = Some \<lparr>nri_from = None, nri_to = Some 7\<rparr>\<rparr>)]\<rparr>"

theorem proof_request_json_roundtrip_witness:
  "ProofRequestData_from_json (ProofRequestData_to_json demo_proof_request) = Some demo_proof_request"
  by (rule proof_request_json_roundtrip)
     (simp add: plain_request_def demo_proof_request_def plain_opt_def array_of_def)

theorem requested_attributes_numbered_witness:
  "\<exists>r. set_requested_attributes_as_vec ProofRequestData_default
         [snd (hd (preq_requested_attributes demo_proof_request))] = Inr r
     \<and> map_of (preq_requested_attributes r) (''attribute_'' @ nat_to_string 0)
         = Some (snd (hd (preq_requested_attributes demo_proof_request)))"
proof -
  let ?a = "snd (hd (preq_requested_attributes demo_proof_request))"
  obtain r where "set_requested_attributes_as_vec ProofRequestData_default [?a] = Inr r"
    by (simp add: set_requested_attributes_as_vec_def)
  with requested_attributes_numbered [OF this] show ?thesis by auto
qed

end
