(* ===== verification/Indy_Proofs.thy ===== *)
theory Indy_Proofs
  imports Proof_Request
begin

text \<open>
  Generating and checking proofs: aries_vcx/src/common/proofs/prover (prover.rs, prover_internal.rs)
  and verifier (verifier.rs, verifier_internal.rs; the checks on the revealed values and
  \<open>get_credential_info\<close> are in the theory Credentials). The cryptography is behind \<open>BaseAnonCreds\<close>, a
  parameter. The objects that the loops fill (\<open>rtn\<close>, \<open>timestamps\<close>) are association lists.

  \<open>fetch_all\<close> is the loop that several of these functions share: for each identifier in turn, unless
  the object already has it, ask the ledger, parse the answer and store it. \<open>core_error\<close> is an
  \<open>AriesVcxCoreError\<close> after the conversion that \<open>?\<close> applies (errors/mapping_others.rs).

  Shown: the collected objects have exactly the identifiers of the credentials; every revocable
  credential gets the timestamp of the revocation state that is sent along; a proof is reported valid
  only if the anoncreds library accepted it and its revealed values are encoded correctly; one
  credential without a registry makes the verifier drop the revocation data of all.
\<close>

definition core_error :: "AriesVcxErrorKind \<Rightarrow> string \<Rightarrow> vcx_error" where
  "core_error kind msg = AriesVcxError_from_msg kind (''AriesVcxCoreError: Error: '' @ msg @ ''\<newline>\<newline>'')"

fun fetch_all :: "(string \<Rightarrow> ('w, json) vcx) \<Rightarrow> string list \<Rightarrow> (string \<times> json) list
       \<Rightarrow> ('w, (string \<times> json) list) vcx" where
  "fetch_all fetch [] rtn = vret rtn"
| "fetch_all fetch (i # is) rtn =
     (if map_of rtn i = None then vbind (fetch i) (\<lambda>v. fetch_all fetch is (dict_insert i v rtn))
      else fetch_all fetch is rtn)"

subsection \<open>Prover\<close>

record CredInfoProver =
  cip_requested_attr :: string
  cip_referent :: string
  cip_schema_id :: string
  cip_cred_def_id :: string
  cip_rev_reg_id :: "string option"
  cip_cred_rev_id :: "string option"
  cip_revocation_interval :: "NonRevokedInterval option"
  cip_tails_file :: "string option"
  cip_timestamp :: "64 word option"
  cip_revealed :: "bool option"

definition fetch_schema :: "lib \<Rightarrow> 'w profile \<Rightarrow> vcx_error \<Rightarrow> string \<Rightarrow> ('w, json) vcx" where
  "fetch_schema lib prof unparsable schema_id =
     vbind (vmap_err (\<lambda>_. core_error InvalidSchema ''Cannot get schema'') (call (ledger_get_schema prof schema_id)))
       (\<lambda>schema_json. vlift (ok_or (lib_json_parse lib schema_json) unparsable))"

definition build_schemas_json_prover :: "lib \<Rightarrow> 'w profile \<Rightarrow> CredInfoProver list \<Rightarrow> ('w, string) vcx" where
  "build_schemas_json_prover lib prof infos =
     vbind (fetch_all (fetch_schema lib prof (core_error InvalidSchema ''Cannot deserialize schema: {}''))
              (map cip_schema_id infos) []) (\<lambda>rtn. vret (lib_json_print lib (JObject rtn)))"

definition parse_cred_def :: "lib \<Rightarrow> string \<Rightarrow> json vcx_result" where
  "parse_cred_def lib credential_def =
     ok_or (lib_json_parse lib credential_def)
       (AriesVcxError_from_msg InvalidProofCredentialData ''Cannot deserialize credential definition: {}'')"

definition build_cred_defs_json_prover :: "lib \<Rightarrow> 'w profile \<Rightarrow> CredInfoProver list \<Rightarrow> ('w, string) vcx" where
  "build_cred_defs_json_prover lib prof infos =
     vbind (fetch_all (\<lambda>i.
         vbind (vmap_err (\<lambda>_. core_error InvalidProofCredentialData ''Cannot get credential definition'')
                  (call (ledger_get_cred_def prof i))) (\<lambda>d. vlift (parse_cred_def lib d)))
       (map cip_cred_def_id infos) []) (\<lambda>rtn. vret (lib_json_print lib (JObject rtn)))"

definition get_revocation_interval :: "string \<Rightarrow> ProofRequestData \<Rightarrow> NonRevokedInterval option vcx_result" where
  "get_revocation_interval attr_name proof_req =
     (case map_of (preq_requested_attributes proof_req) attr_name of
        Some attr \<Rightarrow> Inr (case ainfo_non_revoked attr of Some i \<Rightarrow> Some i | None \<Rightarrow> preq_non_revoked proof_req)
      | None \<Rightarrow>
          (case map_of (preq_requested_predicates proof_req) attr_name of
             Some attr \<Rightarrow> Inr (case pinfo_non_revoked attr of Some i \<Rightarrow> Some i | None \<Rightarrow> preq_non_revoked proof_req)
           | None \<Rightarrow> Inl (AriesVcxError_from_msg InvalidProofCredentialData
                             (''Attribute not found for: '' @ attr_name))))"

definition cred_info_prover :: "ProofRequestData \<Rightarrow> string \<times> json \<Rightarrow> CredInfoProver vcx_result" where
  "cred_info_prover proof_req kv =
     (let requested_attr = fst kv; v = snd kv;
          cred_info = json_index (json_index v ''credential'') ''cred_info''
      in case (as_str (json_index cred_info ''referent''), as_str (json_index cred_info ''schema_id''),
               as_str (json_index cred_info ''cred_def_id'')) of
           (Some referent, Some schema_id, Some cred_def_id) \<Rightarrow>
             res_bind (get_revocation_interval requested_attr proof_req) (\<lambda>interval.
               Inr \<lparr>cip_requested_attr = requested_attr, cip_referent = referent, cip_schema_id = schema_id,
                    cip_cred_def_id = cred_def_id, cip_rev_reg_id = as_str (json_index cred_info ''rev_reg_id''),
                    cip_cred_rev_id = as_str (json_index cred_info ''cred_rev_id''),
                    cip_revocation_interval = interval, cip_tails_file = as_str (json_index v ''tails_file''),
                    cip_timestamp = None, cip_revealed = as_bool (json_index cred_info ''revealed'')\<rparr>)
         | _ \<Rightarrow> Inl (AriesVcxError_from_msg InvalidProofCredentialData ''Cannot get identifiers''))"

definition credential_def_identifiers :: "lib \<Rightarrow> string \<Rightarrow> ProofRequestData \<Rightarrow> CredInfoProver list vcx_result" where
  "credential_def_identifiers lib credentials proof_req =
     res_bind (ok_or (lib_json_parse lib credentials)
       (AriesVcxError_from_msg InvalidJson ''Cannot deserialize credentials: {}'')) (\<lambda>creds.
       case json_index creds ''attrs'' of
         JObject attrs \<Rightarrow> try_map (cred_info_prover proof_req) attrs
       | _ \<Rightarrow> Inr [])"

text \<open>The registry id of the entry and of the cached timestamp is the one the ledger returns.\<close>

definition create_rev_state ::
    "lib \<Rightarrow> 'w profile \<Rightarrow> CredInfoProver \<Rightarrow> string \<Rightarrow> string \<Rightarrow> string \<Rightarrow> ('w, string \<times> json \<times> 64 word) vcx" where
  "create_rev_state lib prof cred_info rev_reg_id cred_rev_id tails_file =
     (let (frm, to) = (case cip_revocation_interval cred_info of
                         Some interval \<Rightarrow> (nri_from interval, nri_to interval) | None \<Rightarrow> (None, None))
      in vbind (call (ledger_get_rev_reg_def_json prof rev_reg_id)) (\<lambda>rev_reg_def_json.
         vbind (call (ledger_get_rev_reg_delta_json prof rev_reg_id frm to)) (\<lambda>(rev_reg_id', rev_reg_delta_json, timestamp).
         vbind (call (ac_create_revocation_state prof tails_file rev_reg_def_json rev_reg_delta_json timestamp cred_rev_id))
           (\<lambda>rev_state_json.
         vbind (vlift (ok_or (lib_json_parse lib rev_state_json)
                  (AriesVcxError_from_msg InvalidJson ''Cannot deserialize RevocationState: {}''))) (\<lambda>rev_state.
           vret (rev_reg_id', JObject [(nat_to_string (unat timestamp), rev_state)], timestamp))))))"

fun rev_states_loop ::
    "lib \<Rightarrow> 'w profile \<Rightarrow> CredInfoProver list \<Rightarrow> (string \<times> json) list \<Rightarrow> (string \<times> 64 word) list
       \<Rightarrow> ('w, (string \<times> json) list \<times> CredInfoProver list) vcx" where
  "rev_states_loop lib prof [] rtn timestamps = vret (rtn, [])"
| "rev_states_loop lib prof (cred_info # rest) rtn timestamps =
     (case (cip_rev_reg_id cred_info, cip_cred_rev_id cred_info, cip_tails_file cred_info) of
        (Some rev_reg_id, Some cred_rev_id, Some tails_file) \<Rightarrow>
          vbind (if map_of rtn rev_reg_id = None then
                   vbind (create_rev_state lib prof cred_info rev_reg_id cred_rev_id tails_file)
                     (\<lambda>(rev_reg_id', entry, timestamp).
                       vret (dict_insert rev_reg_id' entry rtn, dict_insert rev_reg_id' timestamp timestamps,
                             cred_info\<lparr>cip_timestamp := Some timestamp\<rparr>))
                 else vret (rtn, timestamps, cred_info)) (\<lambda>(rtn', timestamps', cred_info').
            let cred_info'' = (if cip_timestamp cred_info' = None
                               then cred_info'\<lparr>cip_timestamp := map_of timestamps' rev_reg_id\<rparr> else cred_info')
            in vbind (rev_states_loop lib prof rest rtn' timestamps') (\<lambda>(rtn'', rest').
                 vret (rtn'', cred_info'' # rest')))
      | _ \<Rightarrow>
          vbind (rev_states_loop lib prof rest rtn timestamps) (\<lambda>(rtn'', rest'). vret (rtn'', cred_info # rest')))"

text \<open>The returned list is the vector behind \<open>&mut credentials_identifiers\<close> after the call.\<close>

definition build_rev_states_json ::
    "lib \<Rightarrow> 'w profile \<Rightarrow> CredInfoProver list \<Rightarrow> ('w, string \<times> CredInfoProver list) vcx" where
  "build_rev_states_json lib prof infos =
     vbind (rev_states_loop lib prof infos [] []) (\<lambda>(rtn, infos'). vret (lib_json_print lib (JObject rtn), infos'))"

definition requested_attribute_json :: "CredInfoProver \<Rightarrow> json" where
  "requested_attribute_json cred_info =
     JObject [(''cred_id'', JString (cip_referent cred_info)),
              (''revealed'', JBool (unwrap_or (cip_revealed cred_info) True)),
              (''timestamp'', or_null JU64 (cip_timestamp cred_info))]"

definition requested_predicate_json :: "CredInfoProver \<Rightarrow> json" where
  "requested_predicate_json cred_info =
     JObject [(''cred_id'', JString (cip_referent cred_info)),
              (''timestamp'', or_null JU64 (cip_timestamp cred_info))]"

fun collect_requested ::
    "(string \<times> 'a) list \<Rightarrow> (CredInfoProver \<Rightarrow> json) \<Rightarrow> CredInfoProver list \<Rightarrow> (string \<times> json) list
       \<Rightarrow> (string \<times> json) list" where
  "collect_requested requested to_json [] m = m"
| "collect_requested requested to_json (cred_info # rest) m =
     collect_requested requested to_json rest
       (if map_of requested (cip_requested_attr cred_info) \<noteq> None
        then dict_insert (cip_requested_attr cred_info) (to_json cred_info) m else m)"

definition build_requested_credentials_json ::
    "lib \<Rightarrow> CredInfoProver list \<Rightarrow> string \<Rightarrow> ProofRequestData \<Rightarrow> string vcx_result" where
  "build_requested_credentials_json lib infos self_attested_attrs proof_req =
     res_bind (ok_or (lib_json_parse lib self_attested_attrs)
       (AriesVcxError_from_msg InvalidJson ''Cannot deserialize self attested attributes: {}'')) (\<lambda>self_attested.
       Inr (lib_json_print lib (JObject
         [(''self_attested_attributes'', self_attested),
          (''requested_attributes'', JObject
             (collect_requested (preq_requested_attributes proof_req) requested_attribute_json infos [])),
          (''requested_predicates'', JObject
             (collect_requested (preq_requested_predicates proof_req) requested_predicate_json infos []))])))"

definition generate_indy_proof ::
    "lib \<Rightarrow> 'w profile \<Rightarrow> string \<Rightarrow> string \<Rightarrow> string \<Rightarrow> ('w, string) vcx" where
  "generate_indy_proof lib prof credentials self_attested_attrs proof_req_data_json =
     vbind get_mock_generate_indy_proof (\<lambda>mock.
       case mock of
         Some mocked_indy_proof \<Rightarrow> vret mocked_indy_proof
       | None \<Rightarrow>
           vbind (vlift (ok_or (Option.bind (lib_json_parse lib proof_req_data_json) ProofRequestData_from_json)
                    (AriesVcxError_from_msg InvalidJson ''Cannot deserialize proof request: {}''))) (\<lambda>proof_request.
           vbind (vlift (credential_def_identifiers lib credentials proof_request)) (\<lambda>infos.
           vbind (build_rev_states_json lib prof infos) (\<lambda>(revoc_states_json, infos').
           vbind (vlift (build_requested_credentials_json lib infos' self_attested_attrs proof_request))
             (\<lambda>requested_credentials.
           vbind (build_schemas_json_prover lib prof infos') (\<lambda>schemas_json.
           vbind (build_cred_defs_json_prover lib prof infos') (\<lambda>credential_defs_json.
             call (ac_prover_create_proof prof proof_req_data_json requested_credentials DEFAULT_LINK_SECRET_ALIAS
                     schemas_json credential_defs_json (Some revoc_states_json)))))))))"

subsection \<open>Verifier\<close>

definition build_cred_defs_json_verifier :: "lib \<Rightarrow> 'w profile \<Rightarrow> CredInfoVerifier list \<Rightarrow> ('w, string) vcx" where
  "build_cred_defs_json_verifier lib prof credential_data =
     vbind (fetch_all (\<lambda>i. vbind (call (ledger_get_cred_def prof i)) (\<lambda>d. vlift (parse_cred_def lib d)))
       (map civ_cred_def_id credential_data) []) (\<lambda>rtn. vret (lib_json_print lib (JObject rtn)))"

definition build_schemas_json_verifier :: "lib \<Rightarrow> 'w profile \<Rightarrow> CredInfoVerifier list \<Rightarrow> ('w, string) vcx" where
  "build_schemas_json_verifier lib prof credential_data =
     vbind (fetch_all (fetch_schema lib prof (AriesVcxError_from_msg InvalidSchema ''Cannot deserialize schema: {}''))
              (map civ_schema_id credential_data) []) (\<lambda>rtn. vret (lib_json_print lib (JObject rtn)))"

definition missing_rev_reg_id :: vcx_error where
  "missing_rev_reg_id = AriesVcxError_from_msg InvalidRevocationDetails ''Missing rev_reg_id in the record {:?}''"

fun rev_reg_defs_loop ::
    "lib \<Rightarrow> 'w profile \<Rightarrow> CredInfoVerifier list \<Rightarrow> (string \<times> json) list \<Rightarrow> ('w, (string \<times> json) list) vcx" where
  "rev_reg_defs_loop lib prof [] rtn = vret rtn"
| "rev_reg_defs_loop lib prof (cred_info # rest) rtn =
     vbind (vlift (ok_or (civ_rev_reg_id cred_info) missing_rev_reg_id)) (\<lambda>rev_reg_id.
       if map_of rtn rev_reg_id = None then
         vbind (call (ledger_get_rev_reg_def_json prof rev_reg_id)) (\<lambda>js.
         vbind (vlift (ok_or (lib_json_parse lib js) (AriesVcxError_from_msg InvalidJson
                  (''Failed to deserialize as json rev_reg_def: '' @ js)))) (\<lambda>rev_reg_def_json.
           rev_reg_defs_loop lib prof rest (dict_insert rev_reg_id rev_reg_def_json rtn)))
       else rev_reg_defs_loop lib prof rest rtn)"

definition build_rev_reg_defs_json :: "lib \<Rightarrow> 'w profile \<Rightarrow> CredInfoVerifier list \<Rightarrow> ('w, string) vcx" where
  "build_rev_reg_defs_json lib prof credential_data =
     vbind (rev_reg_defs_loop lib prof credential_data []) (\<lambda>rtn. vret (lib_json_print lib (JObject rtn)))"

fun rev_regs_loop ::
    "lib \<Rightarrow> 'w profile \<Rightarrow> CredInfoVerifier list \<Rightarrow> (string \<times> json) list \<Rightarrow> ('w, (string \<times> json) list) vcx" where
  "rev_regs_loop lib prof [] rtn = vret rtn"
| "rev_regs_loop lib prof (cred_info # rest) rtn =
     vbind (vlift (ok_or (civ_rev_reg_id cred_info) missing_rev_reg_id)) (\<lambda>rev_reg_id.
     vbind (vlift (ok_or (civ_timestamp cred_info) (AriesVcxError_from_msg InvalidRevocationTimestamp
              ''Revocation timestamp is missing on record {:?}''))) (\<lambda>timestamp.
       if map_of rtn rev_reg_id = None then
         vbind (call (ledger_get_rev_reg prof rev_reg_id timestamp)) (\<lambda>(i, js, timestamp').
         vbind (vlift (ok_or (lib_json_parse lib js) (AriesVcxError_from_msg InvalidJson
                  (''Failed to deserialize as json: '' @ js)))) (\<lambda>rev_reg_json.
           rev_regs_loop lib prof rest
             (dict_insert i (JObject [(nat_to_string (unat timestamp'), rev_reg_json)]) rtn)))
       else rev_regs_loop lib prof rest rtn))"

definition build_rev_reg_json :: "lib \<Rightarrow> 'w profile \<Rightarrow> CredInfoVerifier list \<Rightarrow> ('w, string) vcx" where
  "build_rev_reg_json lib prof credential_data =
     vbind (rev_regs_loop lib prof credential_data []) (\<lambda>rtn. vret (lib_json_print lib (JObject rtn)))"

text \<open>\<open>.await.unwrap_or(json!({}).to_string())\<close>: an error is replaced by the empty object.\<close>

definition or_empty :: "lib \<Rightarrow> ('w, string) vcx \<Rightarrow> ('w, string) vcx" where
  "or_empty lib m = vbind (vtry m) (\<lambda>r.
     vret (case r of Inr x \<Rightarrow> x | Inl _ \<Rightarrow> lib_json_print lib (JObject [])))"

definition validate_indy_proof :: "lib \<Rightarrow> 'w profile \<Rightarrow> string \<Rightarrow> string \<Rightarrow> ('w, bool) vcx" where
  "validate_indy_proof lib prof proof_json proof_req_json =
     vbind get_mock_result_for_validate_indy_proof (\<lambda>mock.
       case mock of
         Some mock_result \<Rightarrow> vlift mock_result
       | None \<Rightarrow>
           vbind mocks_enabled (\<lambda>mocks.
           vbind (vlift (validate_proof_revealed_attributes mocks lib proof_json)) (\<lambda>_.
           vbind (vlift (get_credential_info lib proof_json)) (\<lambda>credential_data.
           vbind (or_empty lib (build_cred_defs_json_verifier lib prof credential_data)) (\<lambda>credential_defs_json.
           vbind (or_empty lib (build_schemas_json_verifier lib prof credential_data)) (\<lambda>schemas_json.
           vbind (or_empty lib (build_rev_reg_defs_json lib prof credential_data)) (\<lambda>rev_reg_defs_json.
           vbind (or_empty lib (build_rev_reg_json lib prof credential_data)) (\<lambda>rev_regs_json.
             call (ac_verifier_verify_proof prof proof_req_json proof_json schemas_json credential_defs_json
                     rev_reg_defs_json rev_regs_json)))))))))"

subsection \<open>The loops\<close>

lemma vmap_err_Inr_iff [simp]: "vmap_err f m s = (Inr a, s') \<longleftrightarrow> m s = (Inr a, s')"
  by (auto simp: vmap_err_def map_err_Inr_iff split: prod.splits)

lemma fetch_all_result:
  assumes "fetch_all fetch is rtn s = (Inr rtn', s')"
    and "\<And>i v. (i, v) \<in> set rtn \<Longrightarrow> \<exists>t t'. fetch i t = (Inr v, t')"
  shows "set (map fst rtn') = set (map fst rtn) \<union> set is
       \<and> (\<forall>i v. (i, v) \<in> set rtn' \<longrightarrow> (\<exists>t t'. fetch i t = (Inr v, t')))"
  using assms
proof (induction "is" arbitrary: rtn s)
  case (Cons i "is")
  show ?case
  proof (cases "map_of rtn i")
    case None
    then obtain v s1 where v: "fetch i s = (Inr v, s1)" "fetch_all fetch is (dict_insert i v rtn) s1 = (Inr rtn', s')"
      using Cons.prems(1) by (auto simp: vbind_Inr_iff)
    have "\<exists>t t'. fetch j t = (Inr x, t')" if "(j, x) \<in> set (dict_insert i v rtn)" for j x
      using that dict_insert_set [of i v rtn] Cons.prems(2) v(1) by blast
    from Cons.IH [OF v(2) this] show ?thesis by (auto simp: dict_insert_keys)
  next
    case (Some a)
    then have "i \<in> set (map fst rtn)" by (force dest: map_of_SomeD)
    then show ?thesis using Cons.IH Cons.prems Some by auto
  qed
qed auto

text \<open>The laws of the ledger that the prover relies on: a delta is returned under the registry id that
  was asked for.\<close>

definition delta_keeps_id :: "'w profile \<Rightarrow> bool" where
  "delta_keeps_id prof = (\<forall>i frm to w j d t w'.
     ledger_get_rev_reg_delta_json prof i frm to w = (Inr (j, d, t), w') \<longrightarrow> j = i)"

definition state_entry :: "(string \<times> json) list \<Rightarrow> string \<Rightarrow> 64 word \<Rightarrow> bool" where
  "state_entry rtn i t = (\<exists>st. map_of rtn i = Some (JObject [(nat_to_string (unat t), st)]))"

definition rev_states_inv :: "(string \<times> json) list \<Rightarrow> (string \<times> 64 word) list \<Rightarrow> bool" where
  "rev_states_inv rtn timestamps =
     (\<forall>i. map_of rtn i \<noteq> None \<longrightarrow> (\<exists>t. map_of timestamps i = Some t \<and> state_entry rtn i t))"

definition revocable :: "CredInfoProver \<Rightarrow> bool" where
  "revocable c = (cip_rev_reg_id c \<noteq> None \<and> cip_cred_rev_id c \<noteq> None \<and> cip_tails_file c \<noteq> None)"

definition timestamp_ok :: "(string \<times> json) list \<Rightarrow> CredInfoProver \<Rightarrow> bool" where
  "timestamp_ok rtn c =
     (if revocable c then \<exists>t. cip_timestamp c = Some t \<and> state_entry rtn (the (cip_rev_reg_id c)) t
      else cip_timestamp c = None)"

lemma create_rev_state_result:
  assumes "create_rev_state lib prof c i cr tf s = (Inr (j, e, t), s')" "delta_keeps_id prof"
  shows "j = i \<and> (\<exists>st. e = JObject [(nat_to_string (unat t), st)])"
  using assms
  by (auto simp: create_rev_state_def vbind_Inr_iff call_Inr_iff delta_keeps_id_def
      split: option.splits prod.splits) blast+

lemma rev_states_inv_insert:
  assumes "rev_states_inv rtn ts"
  shows "rev_states_inv (dict_insert i (JObject [(nat_to_string (unat t), st)]) rtn) (dict_insert i t ts)"
  using assms by (auto simp: rev_states_inv_def state_entry_def dict_insert_map_of)

lemma rev_states_loop_step:
  assumes "rev_states_loop lib prof (c # cs) rtn ts s = (Inr (rtn', out), s')"
    and "rev_states_inv rtn ts" "cip_timestamp c = None" "delta_keeps_id prof"
  obtains c' out' rtn1 ts1 s1 where "out = c' # out'"
    "rev_states_loop lib prof cs rtn1 ts1 s1 = (Inr (rtn', out'), s')"
    "rev_states_inv rtn1 ts1" "map_of rtn \<subseteq>\<^sub>m map_of rtn1"
    "c'\<lparr>cip_timestamp := None\<rparr> = c" "timestamp_ok rtn1 c'"
proof (cases "revocable c")
  case False
  then have "\<exists>out'. out = c # out' \<and> rev_states_loop lib prof cs rtn ts s = (Inr (rtn', out'), s')"
    using assms(1) by (auto simp: revocable_def vbind_Inr_iff split: option.splits)
  then show thesis
    using that False assms(2,3) by (force simp: timestamp_ok_def intro: map_le_refl)
next
  case True
  then obtain i cr tf where c: "cip_rev_reg_id c = Some i" "cip_cred_rev_id c = Some cr" "cip_tails_file c = Some tf"
    by (auto simp: revocable_def)
  show thesis
  proof (cases "map_of rtn i")
    case None
    then obtain j e t s1 out' where
      e: "create_rev_state lib prof c i cr tf s = (Inr (j, e, t), s1)" and
      r: "rev_states_loop lib prof cs (dict_insert j e rtn) (dict_insert j t ts) s1 = (Inr (rtn', out'), s')"
        "out = c\<lparr>cip_timestamp := Some t\<rparr> # out'"
      using assms(1) c by (auto simp: vbind_Inr_iff Let_def)
    obtain st where j: "j = i" "e = JObject [(nat_to_string (unat t), st)]"
      using create_rev_state_result [OF e assms(4)] by blast
    show thesis
    proof (rule that [OF r(2,1)])
      show "rev_states_inv (dict_insert j e rtn) (dict_insert j t ts)"
        using rev_states_inv_insert [OF assms(2)] j by simp
      show "map_of rtn \<subseteq>\<^sub>m map_of (dict_insert j e rtn)"
        using None j by (auto simp: map_le_def dict_insert_map_of)
      show "timestamp_ok (dict_insert j e rtn) (c\<lparr>cip_timestamp := Some t\<rparr>)"
        using True c j by (auto simp: timestamp_ok_def revocable_def state_entry_def dict_insert_map_of)
    qed (use assms(3) in \<open>cases c, simp\<close>)
  next
    case (Some x)
    then obtain t where t: "map_of ts i = Some t" "state_entry rtn i t"
      using assms(2) by (auto simp: rev_states_inv_def)
    have "\<exists>out'. out = c\<lparr>cip_timestamp := Some t\<rparr> # out' \<and> rev_states_loop lib prof cs rtn ts s = (Inr (rtn', out'), s')"
      using assms(1,3) c Some t by (auto simp: vbind_Inr_iff Let_def)
    moreover have "timestamp_ok rtn (c\<lparr>cip_timestamp := Some t\<rparr>)"
      using True c t by (auto simp: timestamp_ok_def revocable_def)
    moreover have "c\<lparr>cip_timestamp := Some t\<rparr>\<lparr>cip_timestamp := None\<rparr> = c"
      using assms(3) by (cases c) simp
    ultimately show thesis using that [OF _ _ assms(2) map_le_refl] by blast
  qed
qed

lemma timestamp_ok_mono: "timestamp_ok rtn c \<Longrightarrow> map_of rtn \<subseteq>\<^sub>m map_of rtn' \<Longrightarrow> timestamp_ok rtn' c"
  by (auto simp: timestamp_ok_def state_entry_def map_le_def split: if_splits) (metis domI)+

lemma rev_states_loop_result:
  assumes "rev_states_loop lib prof infos rtn ts s = (Inr (rtn', out), s')"
    and "rev_states_inv rtn ts" "list_all (\<lambda>c. cip_timestamp c = None) infos" "delta_keeps_id prof"
  shows "map_of rtn \<subseteq>\<^sub>m map_of rtn' \<and> map (\<lambda>c. c\<lparr>cip_timestamp := None\<rparr>) out = infos
       \<and> list_all (timestamp_ok rtn') out"
  using assms
proof (induction infos arbitrary: rtn ts s out)
  case (Cons c cs)
  then have c: "cip_timestamp c = None" and cs: "list_all (\<lambda>c. cip_timestamp c = None) cs" by simp_all
  obtain c' out' rtn1 ts1 s1 where step: "out = c' # out'"
    "rev_states_loop lib prof cs rtn1 ts1 s1 = (Inr (rtn', out'), s')"
    "rev_states_inv rtn1 ts1" "map_of rtn \<subseteq>\<^sub>m map_of rtn1" "c'\<lparr>cip_timestamp := None\<rparr> = c" "timestamp_ok rtn1 c'"
    by (rule rev_states_loop_step [OF Cons.prems(1,2) c Cons.prems(4)])
  from Cons.IH [OF step(2,3) cs Cons.prems(4)] step show ?case
    by (auto intro: map_le_trans timestamp_ok_mono)
qed auto

lemma rev_reg_defs_loop_needs_ids:
  "\<exists>c \<in> set data. civ_rev_reg_id c = None \<Longrightarrow> rev_reg_defs_loop lib prof data rtn s \<noteq> (Inr x, t)"
proof (induction data arbitrary: rtn s)
  case (Cons c data)
  then show ?case
    by (cases "civ_rev_reg_id c") (auto simp: vbind_Inr_iff)
qed simp

lemma rev_regs_loop_needs_ids:
  "\<exists>c \<in> set data. civ_rev_reg_id c = None \<Longrightarrow> rev_regs_loop lib prof data rtn s \<noteq> (Inr x, t)"
proof (induction data arbitrary: rtn s)
  case (Cons c data)
  then show ?case
    by (cases "civ_rev_reg_id c"; cases "civ_timestamp c") (auto simp: vbind_Inr_iff)
qed simp

lemma or_empty_error:
  assumes "\<nexists>x t. m s = (Inr x, t)"
  shows "fst (or_empty lib m s) = Inr (lib_json_print lib (JObject []))"
proof -
  obtain e t where "m s = (Inl e, t)" using assms by (metis prod.collapse sum.exhaust)
  then show ?thesis by (simp add: or_empty_def vbind_def vtry_def run_simps)
qed

lemma validate_indy_proof_accepts:
  assumes "validate_indy_proof lib prof proof_json proof_req_json s = (Inr True, s')"
    and "rt_mock_validate_proof s = None" "\<not> rt_mocks s"
  shows "validate_proof_revealed_attributes False lib proof_json = Inr ()
     \<and> (\<exists>schemas cred_defs rev_reg_defs rev_regs w w'.
          ac_verifier_verify_proof prof proof_req_json proof_json schemas cred_defs rev_reg_defs rev_regs w
            = (Inr True, w'))"
  using assms
  by (auto simp: validate_indy_proof_def get_mock_result_for_validate_indy_proof_def vbind_Inr_iff call_Inr_iff)
     blast

subsection \<open>Properties\<close>


text \<open>
  If one credential of a proof names no revocation registry, the verifier checks the proof with
  empty revocation data: also the registries of the other credentials are left out.
\<close>

theorem missing_registry_drops_all_registries:
  assumes "\<exists>c \<in> set credential_data. civ_rev_reg_id c = None"
  shows "fst (or_empty lib (build_rev_reg_defs_json lib prof credential_data) s) = Inr (lib_json_print lib (JObject []))
       \<and> fst (or_empty lib (build_rev_reg_json lib prof credential_data) s) = Inr (lib_json_print lib (JObject []))"
  using rev_reg_defs_loop_needs_ids [OF assms, of lib prof] rev_regs_loop_needs_ids [OF assms, of lib prof]
  by (intro conjI or_empty_error)
     (auto simp: build_rev_reg_defs_json_def build_rev_reg_json_def vbind_Inr_iff)

text \<open>
  Building the revocation states, with a ledger that answers under the registry it was asked for:
  the credentials are unchanged but for their timestamps; each credential with a registry, a
  revocation id and a tails file gets a timestamp for which the object that is passed on has a state
  of its registry; the others get none.
\<close>

theorem rev_states_timestamps_consistent:
  assumes "build_rev_states_json lib prof infos s = (Inr (states_json, infos'), s')"
    and "list_all (\<lambda>c. cip_timestamp c = None) infos" "delta_keeps_id prof"
  shows "map (\<lambda>c. c\<lparr>cip_timestamp := None\<rparr>) infos' = infos
     \<and> (\<exists>rtn. states_json = lib_json_print lib (JObject rtn) \<and> list_all (timestamp_ok rtn) infos')"
proof -
  obtain rtn where "rev_states_loop lib prof infos [] [] s = (Inr (rtn, infos'), s')"
    "states_json = lib_json_print lib (JObject rtn)"
    using assms(1) by (auto simp: build_rev_states_json_def vbind_Inr_iff)
  then show ?thesis
    using rev_states_loop_result [OF _ _ assms(2,3), of lib "[]" "[]" s rtn infos' s']
    by (auto simp: rev_states_inv_def)
qed

text \<open>
  The schemas that a verifier collects are keyed by exactly the schema ids of the credentials,
  and each is the parsed answer of the ledger for its id.
\<close>

theorem verifier_schemas_complete:
  assumes "build_schemas_json_verifier lib prof credential_data s = (Inr schemas_json, s')"
  shows "\<exists>rtn. schemas_json = lib_json_print lib (JObject rtn)
     \<and> set (map fst rtn) = set (map civ_schema_id credential_data)
     \<and> (\<forall>i v. (i, v) \<in> set rtn \<longrightarrow>
          (\<exists>js w w'. ledger_get_schema prof i w = (Inr js, w') \<and> lib_json_parse lib js = Some v))"
proof -
  let ?fetch = "fetch_schema lib prof (AriesVcxError_from_msg InvalidSchema ''Cannot deserialize schema: {}'')"
  obtain rtn where rtn: "fetch_all ?fetch (map civ_schema_id credential_data) [] s = (Inr rtn, s')"
    "schemas_json = lib_json_print lib (JObject rtn)"
    using assms by (auto simp: build_schemas_json_verifier_def vbind_Inr_iff)
  have "\<exists>js w w'. ledger_get_schema prof i w = (Inr js, w') \<and> lib_json_parse lib js = Some v"
    if "?fetch i t = (Inr v, t')" for i v t t'
    using that by (auto simp: fetch_schema_def vbind_Inr_iff call_Inr_iff ok_or_def split: option.splits) blast
  moreover have "set (map fst rtn) = set (map civ_schema_id credential_data)
      \<and> (\<forall>i v. (i, v) \<in> set rtn \<longrightarrow> (\<exists>t t'. ?fetch i t = (Inr v, t')))"
    using fetch_all_result [OF rtn(1)] by simp
  ultimately show ?thesis using rtn(2) by blast
qed

subsection \<open>The properties at concrete inputs\<close>

definition demo_info_prover :: CredInfoProver where
  "demo_info_prover = \<lparr>cip_requested_attr = ''attribute_0'', cip_referent = ''r'', cip_schema_id = ''s'',
     cip_cred_def_id = ''c'', cip_rev_reg_id = Some ''rr'', cip_cred_rev_id = Some ''1'',
     cip_revocation_interval = None, cip_tails_file = Some ''tails'', cip_timestamp = None, cip_revealed = None\<rparr>"

definition demo_info_verifier :: CredInfoVerifier where
  "demo_info_verifier = \<lparr>civ_schema_id = ''s'', civ_cred_def_id = ''c'', civ_rev_reg_id = None, civ_timestamp = None\<rparr>"

lemmas proofs_eval = demo_info_prover_def demo_info_verifier_def demo_defs fetch_schema_def
  create_rev_state_def build_rev_states_json_def build_schemas_json_verifier_def
  build_cred_defs_json_verifier_def build_rev_reg_defs_json_def build_rev_reg_json_def
  validate_indy_proof_def get_mock_result_for_validate_indy_proof_def
  validate_proof_revealed_attributes_def get_credential_info_def or_empty_def json_index_def
  vbind_def vtry_def vmap_err_def call_def run_simps Let_def


theorem missing_registry_drops_all_registries_witness:
  "fst (or_empty demo_lib (build_rev_reg_json demo_lib demo_profile
      [demo_info_verifier\<lparr>civ_rev_reg_id := Some ''rr'', civ_timestamp := Some 1\<rparr>, demo_info_verifier]) demo_runtime)
    = Inr ''{}''"
  using missing_registry_drops_all_registries
    [of "[demo_info_verifier\<lparr>civ_rev_reg_id := Some ''rr'', civ_timestamp := Some 1\<rparr>, demo_info_verifier]"
        demo_lib demo_profile demo_runtime]
  by (simp add: demo_info_verifier_def) (simp add: demo_lib_def)

theorem rev_states_timestamps_consistent_witness:
  "\<exists>states_json infos' s'. build_rev_states_json demo_lib demo_profile [demo_info_prover, demo_info_prover] demo_runtime
       = (Inr (states_json, infos'), s')
     \<and> (\<exists>rtn. states_json = lib_json_print demo_lib (JObject rtn) \<and> list_all (timestamp_ok rtn) infos')"
proof -
  obtain states_json infos' s' where
    run: "build_rev_states_json demo_lib demo_profile [demo_info_prover, demo_info_prover] demo_runtime
       = (Inr (states_json, infos'), s')"
    by (simp add: proofs_eval)
  have "delta_keeps_id demo_profile" by (auto simp: delta_keeps_id_def demo_profile_def)
  moreover have "list_all (\<lambda>c. cip_timestamp c = None) [demo_info_prover, demo_info_prover]"
    by (simp add: demo_info_prover_def)
  ultimately show ?thesis using rev_states_timestamps_consistent [OF run] run by metis
qed

theorem verifier_schemas_complete_witness:
  "\<exists>schemas_json s' rtn. build_schemas_json_verifier demo_lib demo_profile [demo_info_verifier] demo_runtime
       = (Inr schemas_json, s')
     \<and> schemas_json = lib_json_print demo_lib (JObject rtn) \<and> set (map fst rtn) = {''s''}"
proof -
  obtain schemas_json s' where
    run: "build_schemas_json_verifier demo_lib demo_profile [demo_info_verifier] demo_runtime = (Inr schemas_json, s')"
    by (simp add: proofs_eval)
  obtain rtn where "schemas_json = lib_json_print demo_lib (JObject rtn)"
    "set (map fst rtn) = set (map civ_schema_id [demo_info_verifier])"
    using verifier_schemas_complete [OF run] by blast
  moreover have "set (map civ_schema_id [demo_info_verifier]) = {''s''}" by (simp add: demo_info_verifier_def)
  ultimately show ?thesis using run by metis
qed

end
