(* ===== verification/Prover.thy ===== *)
theory Prover
  imports Indy_Proofs Machines
begin

text \<open>
  The prover of the present-proof protocol: aries_vcx/src/protocols/proof_presentation/prover (messages.rs,
  mod.rs, state_machine.rs, states) and the handler aries_vcx/src/handlers/proof_presentation/prover.rs.
  The deserialisation of a \<open>PresentationPreview\<close>, a message body, is the argument \<open>parse_preview\<close> of
  the one operation that needs it.
\<close>

record PresentationProposalSent =
  pps_proposal :: ProposePresentation

record PresentationRequestReceived =
  prr_presentation_request :: RequestPresentation

record PresentationPreparedState =
  ppr_presentation_request :: RequestPresentation
  ppr_presentation :: Presentation

record PresentationPreparationFailedState =
  ppf_presentation_request :: RequestPresentation
  ppf_problem_report :: ProblemReport

record PresentationSentState =
  pst_presentation_request :: RequestPresentation
  pst_presentation :: Presentation

record ProverFinishedState =
  pfin_presentation_request :: "RequestPresentation option"
  pfin_presentation :: "Presentation option"
  pfin_status :: Status

datatype ProverFullState =
    P_Initial
  | P_PresentationProposalSent PresentationProposalSent
  | P_PresentationRequestReceived PresentationRequestReceived
  | P_PresentationPrepared PresentationPreparedState
  | P_PresentationPreparationFailed PresentationPreparationFailedState
  | P_PresentationSent PresentationSentState
  | P_Finished ProverFinishedState

datatype ProverState =
    PS_Initial | PS_PresentationProposalSent | PS_PresentationRequestReceived | PS_PresentationPrepared
  | PS_PresentationPreparationFailed | PS_PresentationSent | PS_Finished | PS_Failed

record ProverSM =
  prover_source_id :: string
  prover_thread_id :: string
  prover_state :: ProverFullState

fun ProverFullState_to_string :: "ProverFullState \<Rightarrow> string" where
  "ProverFullState_to_string P_Initial = ''Initial''"
| "ProverFullState_to_string (P_PresentationProposalSent _) = ''PresentationProposalSent''"
| "ProverFullState_to_string (P_PresentationRequestReceived _) = ''PresentationRequestReceived''"
| "ProverFullState_to_string (P_PresentationPrepared _) = ''PresentationPrepared''"
| "ProverFullState_to_string (P_PresentationPreparationFailed _) = ''PresentationPreparationFailed''"
| "ProverFullState_to_string (P_PresentationSent _) = ''PresentationSent''"
| "ProverFullState_to_string (P_Finished _) = ''Finished''"

subsection \<open>Conversions between the states\<close>

definition ProverFinished_declined :: "ProblemReport \<Rightarrow> ProverFinishedState" where
  "ProverFinished_declined problem_report =
     \<lparr>pfin_presentation_request = None, pfin_presentation = None, pfin_status = Declined problem_report\<rparr>"

definition ProverFinished_from_failed :: "PresentationPreparationFailedState \<Rightarrow> ProverFinishedState" where
  "ProverFinished_from_failed st =
     \<lparr>pfin_presentation_request = Some (ppf_presentation_request st), pfin_presentation = None,
      pfin_status = Failed (ppf_problem_report st)\<rparr>"

definition PresentationSent_from :: "PresentationPreparedState \<Rightarrow> PresentationSentState" where
  "PresentationSent_from st =
     \<lparr>pst_presentation_request = ppr_presentation_request st, pst_presentation = ppr_presentation st\<rparr>"

definition ProverFinished_from_prepared :: "PresentationPreparedState \<Rightarrow> ProverFinishedState" where
  "ProverFinished_from_prepared st =
     \<lparr>pfin_presentation_request = Some (ppr_presentation_request st), pfin_presentation = None,
      pfin_status = Undefined\<rparr>"

definition PreparationFailed_from :: "PresentationRequestReceived \<Rightarrow> ProblemReport \<Rightarrow> PresentationPreparationFailedState" where
  "PreparationFailed_from st problem_report =
     \<lparr>ppf_presentation_request = prr_presentation_request st, ppf_problem_report = problem_report\<rparr>"

definition Prepared_from :: "PresentationRequestReceived \<Rightarrow> Presentation \<Rightarrow> PresentationPreparedState" where
  "Prepared_from st presentation =
     \<lparr>ppr_presentation_request = prr_presentation_request st, ppr_presentation = presentation\<rparr>"

definition ProverFinished_from_request :: "PresentationRequestReceived \<Rightarrow> ProverFinishedState" where
  "ProverFinished_from_request st =
     \<lparr>pfin_presentation_request = Some (prr_presentation_request st), pfin_presentation = None,
      pfin_status = Success\<rparr>"

definition ProverFinished_from_request_report ::
    "PresentationRequestReceived \<Rightarrow> ProblemReport \<Rightarrow> ProverFinishedState" where
  "ProverFinished_from_request_report st problem_report =
     \<lparr>pfin_presentation_request = Some (prr_presentation_request st), pfin_presentation = None,
      pfin_status = Declined problem_report\<rparr>"

definition ProverFinished_from_ack :: "PresentationSentState \<Rightarrow> AckPresentation \<Rightarrow> ProverFinishedState" where
  "ProverFinished_from_ack st ack =
     \<lparr>pfin_presentation_request = Some (pst_presentation_request st),
      pfin_presentation = Some (pst_presentation st), pfin_status = Success\<rparr>"

definition ProverFinished_from_sent_report :: "PresentationSentState \<Rightarrow> ProblemReport \<Rightarrow> ProverFinishedState" where
  "ProverFinished_from_sent_report st problem_report =
     \<lparr>pfin_presentation_request = Some (pst_presentation_request st),
      pfin_presentation = Some (pst_presentation st), pfin_status = Failed problem_report\<rparr>"

definition build_presentation ::
    "lib \<Rightarrow> 'w profile \<Rightarrow> PresentationRequestReceived \<Rightarrow> string \<Rightarrow> string \<Rightarrow> ('w, string) vcx" where
  "build_presentation lib prof self credentials self_attested_attrs =
     vbind (vlift (get_attach_as_string (lib_b64dec lib)
              (request_presentations_attach (msg_content (prr_presentation_request self))))) (\<lambda>proof_req_data_json.
       generate_indy_proof lib prof credentials self_attested_attrs proof_req_data_json)"

subsection \<open>Messages\<close>

datatype ProverMessages =
    PM_PresentationProposalSend PresentationProposalData
  | PM_PresentationRequestReceived RequestPresentation
  | PM_RejectPresentationRequest string
  | PM_SetPresentation Presentation
  | PM_PreparePresentation string string
  | PM_SendPresentation
  | PM_PresentationAckReceived AckPresentation
  | PM_PresentationRejectReceived ProblemReport
  | PM_ProposePresentation PresentationPreview
  | PM_Unknown

fun ProverMessages_thread_id_matches :: "ProverMessages \<Rightarrow> string \<Rightarrow> bool" where
  "ProverMessages_thread_id_matches (PM_SetPresentation msg) thread_id =
     matches_thread_id (kd_thread (msg_decorators msg)) thread_id"
| "ProverMessages_thread_id_matches (PM_PresentationRejectReceived msg) thread_id =
     matches_opt_thread_id (prd_thread (msg_decorators msg)) thread_id"
| "ProverMessages_thread_id_matches (PM_PresentationAckReceived msg) thread_id =
     matches_thread_id (td_thread (msg_decorators msg)) thread_id"
| "ProverMessages_thread_id_matches _ thread_id = True"

fun ProverMessages_from :: "AriesMessage \<Rightarrow> ProverMessages" where
  "ProverMessages_from (AM_Notification (N_Ack ack)) =
     PM_PresentationAckReceived (MsgParts_with_decorators (msg_id ack) (msg_content ack) (msg_decorators ack))"
| "ProverMessages_from (AM_PresentProof (PP_Ack ack)) = PM_PresentationAckReceived ack"
| "ProverMessages_from (AM_ReportProblem report) = PM_PresentationRejectReceived report"
| "ProverMessages_from (AM_Notification (N_ProblemReport report)) =
     PM_PresentationRejectReceived (MsgParts_with_decorators (msg_id report) (msg_content report) (msg_decorators report))"
| "ProverMessages_from (AM_PresentProof (PP_RequestPresentation request)) = PM_PresentationRequestReceived request"
| "ProverMessages_from _ = PM_Unknown"

definition prover_verify_thread_id :: "bool \<Rightarrow> string \<Rightarrow> ProverMessages \<Rightarrow> unit vcx_result" where
  "prover_verify_thread_id mocks thread_id message =
     (if \<not> mocks \<and> \<not> ProverMessages_thread_id_matches message thread_id then Inl thread_mismatch else Inr ())"

definition build_presentation_msg :: "lib \<Rightarrow> string \<Rightarrow> string \<Rightarrow> ('w, Presentation) vcx" where
  "build_presentation_msg lib thread_id presentation_attachment =
     vbind new_v4 (\<lambda>i.
     vbind utc_now (\<lambda>now.
       let content = PresentationContent_new
             [make_attach_from_str (lib_b64enc lib) presentation_attachment (AttachmentId_as_ref Aid_Presentation)];
           decorators = (ack_decorators_new (Thread_new thread_id))\<lparr>kd_timing := Some (out_timing now)\<rparr>
       in vret (MsgParts_with_decorators i content decorators)))"

definition proposal_content :: "PresentationProposalData \<Rightarrow> ProposePresentationContent" where
  "proposal_content proposal_data =
     (ProposePresentationContent_new (PresentationPreview_new (ppd_attributes proposal_data) (ppd_predicates proposal_data)))
       \<lparr>proppres_comment := ppd_comment proposal_data\<rparr>"

definition handle_reject_presentation_request ::
    "'w SendClosure \<Rightarrow> string \<Rightarrow> string \<Rightarrow> ('w, ProblemReport) vcx" where
  "handle_reject_presentation_request send reason thread_id =
     vbind new_v4 (\<lambda>u.
       let problem_report = build_problem_report_msg u (Some reason) thread_id
       in vbind (send_message send (AM_ReportProblem problem_report)) (\<lambda>_. vret problem_report))"

definition handle_presentation_proposal ::
    "'w SendClosure \<Rightarrow> PresentationPreview \<Rightarrow> string \<Rightarrow> ('w, unit) vcx" where
  "handle_presentation_proposal send preview thread_id =
     vbind new_v4 (\<lambda>i.
     vbind utc_now (\<lambda>now.
       let decorators = opt_decorators_default\<lparr>od_thread := Some (Thread_new thread_id),
                                               od_timing := Some (out_timing now)\<rparr>;
           proposal = MsgParts_with_decorators i (ProposePresentationContent_new preview) decorators
       in send_message send (AM_PresentProof (PP_ProposePresentation proposal))))"

subsection \<open>The state machine\<close>

definition ProverSM_new :: "string \<Rightarrow> ('w, ProverSM) vcx" where
  "ProverSM_new source_id = vbind new_v4 (\<lambda>i.
     vret \<lparr>prover_source_id = source_id, prover_thread_id = i, prover_state = P_Initial\<rparr>)"

definition ProverSM_from_request :: "RequestPresentation \<Rightarrow> string \<Rightarrow> ProverSM" where
  "ProverSM_from_request presentation_request source_id =
     \<lparr>prover_source_id = source_id, prover_thread_id = msg_id presentation_request,
      prover_state = P_PresentationRequestReceived \<lparr>prr_presentation_request = presentation_request\<rparr>\<rparr>"

definition ProverSM_send_presentation_proposal ::
    "ProverSM \<Rightarrow> PresentationProposalData \<Rightarrow> 'w SendClosure \<Rightarrow> ('w, ProverSM) vcx" where
  "ProverSM_send_presentation_proposal self proposal_data send =
     (case prover_state self of
        P_Initial \<Rightarrow>
          (let proposal = MsgParts_with_decorators (prover_thread_id self) (proposal_content proposal_data)
                 opt_decorators_default
           in vbind (send_message send (AM_PresentProof (PP_ProposePresentation proposal))) (\<lambda>_.
                vret (self\<lparr>prover_state := P_PresentationProposalSent \<lparr>pps_proposal = proposal\<rparr>\<rparr>)))
      | P_PresentationRequestReceived _ \<Rightarrow>
          vbind new_v4 (\<lambda>i.
            let proposal = MsgParts_with_decorators i (proposal_content proposal_data)
                  (opt_decorators_default\<lparr>od_thread := Some (Thread_new (prover_thread_id self))\<rparr>)
            in vbind (send_message send (AM_PresentProof (PP_ProposePresentation proposal))) (\<lambda>_.
                 vret (self\<lparr>prover_state := P_PresentationProposalSent \<lparr>pps_proposal = proposal\<rparr>\<rparr>)))
      | _ \<Rightarrow> vret self)"

definition ProverSM_decline_presentation_request ::
    "ProverSM \<Rightarrow> string \<Rightarrow> 'w SendClosure \<Rightarrow> ('w, ProverSM) vcx" where
  "ProverSM_decline_presentation_request self reason send =
     (case prover_state self of
        P_PresentationRequestReceived state \<Rightarrow>
          vbind (handle_reject_presentation_request send reason (prover_thread_id self)) (\<lambda>problem_report.
            vret (self\<lparr>prover_state := P_Finished (ProverFinished_from_request_report state problem_report)\<rparr>))
      | P_PresentationPrepared _ \<Rightarrow>
          vbind (handle_reject_presentation_request send reason (prover_thread_id self)) (\<lambda>problem_report.
            vret (self\<lparr>prover_state := P_Finished (ProverFinished_declined problem_report)\<rparr>))
      | _ \<Rightarrow> vret self)"

definition ProverSM_negotiate_presentation ::
    "ProverSM \<Rightarrow> PresentationPreview \<Rightarrow> 'w SendClosure \<Rightarrow> ('w, ProverSM) vcx" where
  "ProverSM_negotiate_presentation self presentation_preview send =
     (case prover_state self of
        P_PresentationRequestReceived state \<Rightarrow>
          vbind (handle_presentation_proposal send presentation_preview (prover_thread_id self)) (\<lambda>_.
            vret (self\<lparr>prover_state := P_Finished (ProverFinished_from_request state)\<rparr>))
      | P_PresentationPrepared state \<Rightarrow>
          vbind (handle_presentation_proposal send presentation_preview (prover_thread_id self)) (\<lambda>_.
            vret (self\<lparr>prover_state := P_Finished (ProverFinished_from_prepared state)\<rparr>))
      | _ \<Rightarrow> vret self)"

definition ProverSM_generate_presentation ::
    "lib \<Rightarrow> 'w profile \<Rightarrow> ProverSM \<Rightarrow> string \<Rightarrow> string \<Rightarrow> ('w, ProverSM) vcx" where
  "ProverSM_generate_presentation lib prof self credentials self_attested_attrs =
     (case prover_state self of
        P_PresentationRequestReceived state \<Rightarrow>
          vbind (vtry (build_presentation lib prof state credentials self_attested_attrs)) (\<lambda>built.
            case built of
              Inr presentation \<Rightarrow>
                vbind (build_presentation_msg lib (prover_thread_id self) presentation) (\<lambda>msg.
                  vret (self\<lparr>prover_state := P_PresentationPrepared (Prepared_from state msg)\<rparr>))
            | Inl err \<Rightarrow>
                vbind new_v4 (\<lambda>u.
                  let problem_report = build_problem_report_msg u (Some (AriesVcxError_to_string err))
                        (prover_thread_id self)
                  in vret (self\<lparr>prover_state := P_PresentationPreparationFailed
                            (PreparationFailed_from state problem_report)\<rparr>)))
      | _ \<Rightarrow> vret self)"

definition ProverSM_set_presentation :: "ProverSM \<Rightarrow> Presentation \<Rightarrow> ProverSM vcx_result" where
  "ProverSM_set_presentation self presentation =
     (case prover_state self of
        P_PresentationRequestReceived state \<Rightarrow>
          (let d = msg_decorators presentation;
               presentation' = presentation\<lparr>msg_decorators :=
                 d\<lparr>kd_thread := (kd_thread d)\<lparr>thid := prover_thread_id self\<rparr>\<rparr>\<rparr>
           in Inr (self\<lparr>prover_state := P_PresentationPrepared (Prepared_from state presentation')\<rparr>))
      | _ \<Rightarrow> Inr self)"

definition ProverSM_receive_presentation_ack :: "ProverSM \<Rightarrow> AckPresentation \<Rightarrow> ProverSM vcx_result" where
  "ProverSM_receive_presentation_ack self ack =
     (case prover_state self of
        P_PresentationSent state \<Rightarrow> Inr (self\<lparr>prover_state := P_Finished (ProverFinished_from_ack state ack)\<rparr>)
      | _ \<Rightarrow> Inr self)"

definition ProverSM_send_presentation :: "ProverSM \<Rightarrow> 'w SendClosure \<Rightarrow> ('w, ProverSM) vcx" where
  "ProverSM_send_presentation self send =
     (case prover_state self of
        P_PresentationPrepared state \<Rightarrow>
          vbind (send_message send (AM_PresentProof (PP_Presentation (ppr_presentation state)))) (\<lambda>_.
            vret (self\<lparr>prover_state := P_PresentationSent (PresentationSent_from state)\<rparr>))
      | P_PresentationPreparationFailed state \<Rightarrow>
          vbind (send_message send (AM_ReportProblem (ppf_problem_report state))) (\<lambda>_.
            vret (self\<lparr>prover_state := P_Finished (ProverFinished_from_failed state)\<rparr>))
      | _ \<Rightarrow> vret self)"

definition ProverSM_accepts :: "ProverSM \<Rightarrow> AriesMessage \<Rightarrow> bool" where
  "ProverSM_accepts self message =
     (case prover_state self of
        P_PresentationProposalSent _ \<Rightarrow>
          (case message of
             AM_ReportProblem msg \<Rightarrow> matches_opt_thread_id (prd_thread (msg_decorators msg)) (prover_thread_id self)
           | AM_Notification (N_ProblemReport msg) \<Rightarrow>
               matches_opt_thread_id (prd_thread (msg_decorators msg)) (prover_thread_id self)
           | AM_PresentProof (PP_RequestPresentation msg) \<Rightarrow>
               matches_opt_thread_id (od_thread (msg_decorators msg)) (prover_thread_id self)
           | _ \<Rightarrow> False)
      | P_PresentationSent _ \<Rightarrow>
          (case message of
             AM_Notification (N_Ack msg) \<Rightarrow> matches_thread_id (td_thread (msg_decorators msg)) (prover_thread_id self)
           | AM_PresentProof (PP_Ack msg) \<Rightarrow> matches_thread_id (td_thread (msg_decorators msg)) (prover_thread_id self)
           | AM_ReportProblem msg \<Rightarrow> matches_opt_thread_id (prd_thread (msg_decorators msg)) (prover_thread_id self)
           | AM_Notification (N_ProblemReport msg) \<Rightarrow>
               matches_opt_thread_id (prd_thread (msg_decorators msg)) (prover_thread_id self)
           | _ \<Rightarrow> False)
      | _ \<Rightarrow> False)"

definition ProverSM_find_message_to_handle ::
    "ProverSM \<Rightarrow> (string \<times> AriesMessage) list \<Rightarrow> (string \<times> AriesMessage) option" where
  "ProverSM_find_message_to_handle self messages = find_message (ProverSM_accepts self) messages"

definition prover_no_callback :: vcx_error where
  "prover_no_callback = AriesVcxError_from_msg InvalidState ''Attempted to call undefined send_message callback''"

definition ProverSM_step ::
    "lib \<Rightarrow> 'w profile \<Rightarrow> 'w SendClosure option \<Rightarrow> ProverSM \<Rightarrow> ProverMessages \<Rightarrow> ('w, ProverSM) vcx" where
  "ProverSM_step lib prof send self message =
     vbind mocks_enabled (\<lambda>mocks.
     vbind (vlift (prover_verify_thread_id mocks (prover_thread_id self) message)) (\<lambda>_.
       case prover_state self of
         P_Initial \<Rightarrow>
           (case message of
              PM_PresentationProposalSend proposal_data \<Rightarrow>
                vbind (vlift (ok_or send prover_no_callback)) (\<lambda>c. ProverSM_send_presentation_proposal self proposal_data c)
            | _ \<Rightarrow> vret self)
       | P_PresentationProposalSent _ \<Rightarrow>
           (case message of
              PM_PresentationRequestReceived request \<Rightarrow>
                vret (self\<lparr>prover_state := P_PresentationRequestReceived \<lparr>prr_presentation_request = request\<rparr>\<rparr>)
            | PM_PresentationRejectReceived problem_report \<Rightarrow>
                vret (self\<lparr>prover_state := P_Finished (ProverFinished_declined problem_report)\<rparr>)
            | _ \<Rightarrow> vret self)
       | P_PresentationRequestReceived _ \<Rightarrow>
           (case message of
              PM_PresentationProposalSend proposal_data \<Rightarrow>
                vbind (vlift (ok_or send prover_no_callback)) (\<lambda>c. ProverSM_send_presentation_proposal self proposal_data c)
            | PM_SetPresentation presentation \<Rightarrow> vlift (ProverSM_set_presentation self presentation)
            | PM_PreparePresentation credentials self_attested_attrs \<Rightarrow>
                ProverSM_generate_presentation lib prof self credentials self_attested_attrs
            | PM_RejectPresentationRequest reason \<Rightarrow>
                vbind (vlift (ok_or send prover_no_callback)) (\<lambda>c. ProverSM_decline_presentation_request self reason c)
            | PM_ProposePresentation preview \<Rightarrow>
                vbind (vlift (ok_or send prover_no_callback)) (\<lambda>c. ProverSM_negotiate_presentation self preview c)
            | _ \<Rightarrow> vret self)
       | P_PresentationPrepared _ \<Rightarrow>
           (case message of
              PM_SendPresentation \<Rightarrow>
                vbind (vlift (ok_or send prover_no_callback)) (\<lambda>c. ProverSM_send_presentation self c)
            | PM_RejectPresentationRequest reason \<Rightarrow>
                vbind (vlift (ok_or send prover_no_callback)) (\<lambda>c. ProverSM_decline_presentation_request self reason c)
            | PM_ProposePresentation preview \<Rightarrow>
                vbind (vlift (ok_or send prover_no_callback)) (\<lambda>c. ProverSM_negotiate_presentation self preview c)
            | _ \<Rightarrow> vret self)
       | P_PresentationPreparationFailed _ \<Rightarrow>
           (case message of
              PM_SendPresentation \<Rightarrow>
                vbind (vlift (ok_or send prover_no_callback)) (\<lambda>c. ProverSM_send_presentation self c)
            | _ \<Rightarrow> vret self)
       | P_PresentationSent state \<Rightarrow>
           (case message of
              PM_PresentationAckReceived ack \<Rightarrow>
                vret (self\<lparr>prover_state := P_Finished (ProverFinished_from_ack state ack)\<rparr>)
            | PM_PresentationRejectReceived problem_report \<Rightarrow>
                vret (self\<lparr>prover_state := P_Finished (ProverFinished_from_sent_report state problem_report)\<rparr>)
            | PM_RejectPresentationRequest _ \<Rightarrow>
                vfail (AriesVcxError_from_msg ActionNotSupported ''Presentation is already sent'')
            | _ \<Rightarrow> vret self)
       | P_Finished _ \<Rightarrow> vret self))"

definition ProverSM_get_state :: "ProverSM \<Rightarrow> ProverState" where
  "ProverSM_get_state self =
     (case prover_state self of
        P_Initial \<Rightarrow> PS_Initial
      | P_PresentationProposalSent _ \<Rightarrow> PS_PresentationProposalSent
      | P_PresentationRequestReceived _ \<Rightarrow> PS_PresentationRequestReceived
      | P_PresentationPrepared _ \<Rightarrow> PS_PresentationPrepared
      | P_PresentationPreparationFailed _ \<Rightarrow> PS_PresentationPreparationFailed
      | P_PresentationSent _ \<Rightarrow> PS_PresentationSent
      | P_Finished status \<Rightarrow> (case pfin_status status of Success \<Rightarrow> PS_Finished | _ \<Rightarrow> PS_Failed))"

definition ProverSM_progressable_by_message :: "ProverSM \<Rightarrow> bool" where
  "ProverSM_progressable_by_message self =
     (case prover_state self of
        P_Initial \<Rightarrow> False
      | P_PresentationProposalSent _ \<Rightarrow> True
      | P_PresentationRequestReceived _ \<Rightarrow> False
      | P_PresentationPrepared _ \<Rightarrow> True
      | P_PresentationPreparationFailed _ \<Rightarrow> True
      | P_PresentationSent _ \<Rightarrow> True
      | P_Finished _ \<Rightarrow> False)"

definition ProverSM_get_presentation_status :: "ProverSM \<Rightarrow> 32 word" where
  "ProverSM_get_presentation_status self =
     (case prover_state self of
        P_Finished state \<Rightarrow> Status_code (pfin_status state)
      | _ \<Rightarrow> Status_code Undefined)"

definition no_presentation_request :: vcx_error where
  "no_presentation_request = AriesVcxError_from_msg NotReady ''Presentation request is not available''"

definition ProverSM_get_presentation_request :: "ProverSM \<Rightarrow> RequestPresentation vcx_result" where
  "ProverSM_get_presentation_request self =
     (case prover_state self of
        P_Initial \<Rightarrow> Inl no_presentation_request
      | P_PresentationProposalSent _ \<Rightarrow> Inl no_presentation_request
      | P_PresentationRequestReceived state \<Rightarrow> Inr (prr_presentation_request state)
      | P_PresentationPrepared state \<Rightarrow> Inr (ppr_presentation_request state)
      | P_PresentationPreparationFailed state \<Rightarrow> Inr (ppf_presentation_request state)
      | P_PresentationSent state \<Rightarrow> Inr (pst_presentation_request state)
      | P_Finished state \<Rightarrow> ok_or (pfin_presentation_request state) no_presentation_request)"

definition ProverSM_get_presentation_msg :: "ProverSM \<Rightarrow> Presentation vcx_result" where
  "ProverSM_get_presentation_msg self =
     (case prover_state self of
        P_PresentationPrepared state \<Rightarrow> Inr (ppr_presentation state)
      | P_PresentationSent state \<Rightarrow> Inr (pst_presentation state)
      | P_Finished state \<Rightarrow> ok_or (pfin_presentation state)
          (AriesVcxError_from_msg NotReady ''Presentation is not available in Finished state'')
      | _ \<Rightarrow> Inl (AriesVcxError_from_msg NotReady ''Presentation is not created yet''))"

subsection \<open>The handler\<close>

definition Prover_create :: "string \<Rightarrow> ('w, ProverSM) vcx" where
  "Prover_create source_id = ProverSM_new source_id"

definition Prover_create_from_request :: "string \<Rightarrow> RequestPresentation \<Rightarrow> ProverSM vcx_result" where
  "Prover_create_from_request source_id presentation_request =
     Inr (ProverSM_from_request presentation_request source_id)"

definition Prover_presentation_request_data :: "lib \<Rightarrow> ProverSM \<Rightarrow> string vcx_result" where
  "Prover_presentation_request_data lib self =
     res_bind (ProverSM_get_presentation_request self) (\<lambda>request.
       get_attach_as_string (lib_b64dec lib) (request_presentations_attach (msg_content request)))"

definition Prover_retrieve_credentials :: "lib \<Rightarrow> 'w profile \<Rightarrow> ProverSM \<Rightarrow> ('w, string) vcx" where
  "Prover_retrieve_credentials lib prof self =
     vbind (vlift (Prover_presentation_request_data lib self)) (\<lambda>presentation_request.
       call (ac_prover_get_credentials_for_proof_req prof presentation_request))"

definition Prover_get_proof_request_attachment :: "lib \<Rightarrow> ProverSM \<Rightarrow> string vcx_result" where
  "Prover_get_proof_request_attachment lib self =
     res_bind (Prover_presentation_request_data lib self) (\<lambda>data.
     res_bind (ok_or (lib_json_parse lib data) (AriesVcxError_from_msg InvalidJson
        ''Cannot deserialize {:?} into PresentationRequestData: {:?}'')) (\<lambda>proof_request_data.
       Inr (lib_json_print lib proof_request_data)))"

definition Prover_generate_presentation :: "lib \<Rightarrow> 'w profile \<Rightarrow> string \<Rightarrow> string \<Rightarrow> (ProverSM, 'w, unit) hop" where
  "Prover_generate_presentation lib prof credentials self_attested_attrs =
     hstore (\<lambda>self. ProverSM_generate_presentation lib prof self credentials self_attested_attrs)"

definition Prover_set_presentation :: "Presentation \<Rightarrow> (ProverSM, 'w, unit) hop" where
  "Prover_set_presentation presentation = hstore (\<lambda>self. vlift (ProverSM_set_presentation self presentation))"

definition Prover_send_proposal :: "PresentationProposalData \<Rightarrow> 'w SendClosure \<Rightarrow> (ProverSM, 'w, unit) hop" where
  "Prover_send_proposal proposal_data send =
     hstore (\<lambda>self. ProverSM_send_presentation_proposal self proposal_data send)"

definition Prover_send_presentation :: "'w SendClosure \<Rightarrow> (ProverSM, 'w, unit) hop" where
  "Prover_send_presentation send = hstore (\<lambda>self. ProverSM_send_presentation self send)"

definition Prover_process_presentation_ack :: "AckPresentation \<Rightarrow> (ProverSM, 'w, unit) hop" where
  "Prover_process_presentation_ack ack = hstore (\<lambda>self. vlift (ProverSM_receive_presentation_ack self ack))"

definition Prover_step ::
    "lib \<Rightarrow> 'w profile \<Rightarrow> ProverMessages \<Rightarrow> 'w SendClosure option \<Rightarrow> (ProverSM, 'w, unit) hop" where
  "Prover_step lib prof message send = hstore (\<lambda>self. ProverSM_step lib prof send self message)"

definition Prover_decline_presentation_request ::
    "(string \<Rightarrow> PresentationPreview option) \<Rightarrow> 'w SendClosure \<Rightarrow> string option \<Rightarrow> string option
       \<Rightarrow> (ProverSM, 'w, unit) hop" where
  "Prover_decline_presentation_request parse_preview send reason proposal =
     hstore (\<lambda>self.
       case (reason, proposal) of
         (Some reason', None) \<Rightarrow> ProverSM_decline_presentation_request self reason' send
       | (None, Some proposal') \<Rightarrow>
           vbind (vlift (ok_or (parse_preview proposal') (AriesVcxError_from_msg InvalidJson
                    ''Cannot serialize Presentation Preview: {:?}''))) (\<lambda>presentation_preview.
             ProverSM_negotiate_presentation self presentation_preview send)
       | (None, None) \<Rightarrow> vfail (AriesVcxError_from_msg InvalidOption
           ''Either `reason` or `proposal` parameter must be specified.'')
       | (Some _, Some _) \<Rightarrow> vfail (AriesVcxError_from_msg InvalidOption
           ''Only one of `reason` or `proposal` parameters must be specified.''))"

definition Prover_update_state ::
    "lib \<Rightarrow> 'w profile \<Rightarrow> 'w mediated_connection \<Rightarrow> (ProverSM, 'w, ProverState) hop" where
  "Prover_update_state lib prof connection =
     handler_update_state (\<lambda>self. \<not> ProverSM_progressable_by_message self) ProverSM_get_state ProverSM_accepts
       ProverMessages_from (ProverSM_step lib prof) connection"

subsection \<open>The machine as an instance of the protocol interfaces\<close>

definition prover_finished :: "ProverSM \<Rightarrow> bool" where
  "prover_finished self = (case prover_state self of P_Finished _ \<Rightarrow> True | _ \<Rightarrow> False)"

text \<open>What is stored for sending is addressed to the machine's thread.\<close>

definition prover_wf :: "ProverSM \<Rightarrow> bool" where
  "prover_wf self =
     (case prover_state self of
        P_PresentationPrepared st \<Rightarrow> thid (kd_thread (msg_decorators (ppr_presentation st))) = prover_thread_id self
      | P_PresentationPreparationFailed st \<Rightarrow>
          prd_thread (msg_decorators (ppf_problem_report st)) = Some (Thread_new (prover_thread_id self))
      | _ \<Rightarrow> True)"

lemmas prover_sends = ProverSM_send_presentation_proposal_def ProverSM_decline_presentation_request_def
  ProverSM_negotiate_presentation_def ProverSM_send_presentation_def
  handle_reject_presentation_request_def handle_presentation_proposal_def

lemma prover_finished_iff: "prover_finished m \<longleftrightarrow> (\<exists>f. prover_state m = P_Finished f)"
  by (auto simp: prover_finished_def split: ProverFullState.splits)

lemma prover_wf_update [simp]:
  "prover_wf (m\<lparr>prover_state := P_PresentationProposalSent d1\<rparr>)"
  "prover_wf (m\<lparr>prover_state := P_PresentationRequestReceived d2\<rparr>)"
  "prover_wf (m\<lparr>prover_state := P_PresentationPrepared d3\<rparr>) \<longleftrightarrow>
     thid (kd_thread (msg_decorators (ppr_presentation d3))) = prover_thread_id m"
  "prover_wf (m\<lparr>prover_state := P_PresentationPreparationFailed d4\<rparr>) \<longleftrightarrow>
     prd_thread (msg_decorators (ppf_problem_report d4)) = Some (Thread_new (prover_thread_id m))"
  "prover_wf (m\<lparr>prover_state := P_PresentationSent d5\<rparr>)"
  "prover_wf (m\<lparr>prover_state := P_Finished d6\<rparr>)"
  by (simp_all add: prover_wf_def)

lemma prover_report_thread [simp]:
  "prd_thread (msg_decorators (build_problem_report_msg u c i)) = Some (Thread_new i)"
  by (simp add: build_problem_report_msg_def Let_def MsgParts_with_decorators_def)

lemma build_presentation_msg_thread:
  "yields (build_presentation_msg lib i a) (\<lambda>p. thid (kd_thread (msg_decorators p)) = i)"
  by (auto simp: build_presentation_msg_def Let_def ack_decorators_new_def Thread_new_def
      MsgParts_with_decorators_def intro!: yields_bind_any)

lemma fetch_all_silent: "(\<And>i. sends_only P (fetch i)) \<Longrightarrow> sends_only P (fetch_all fetch is rtn)"
  by (induction "is" arbitrary: rtn) auto

lemma rev_states_loop_silent: "sends_only P (rev_states_loop lib prof infos rtn ts)"
  by (induction infos arbitrary: rtn ts)
     (auto simp: create_rev_state_def Let_def intro!: sends_only_bind
        split: option.splits prod.splits)

lemma generate_indy_proof_silent: "sends_only P (generate_indy_proof lib prof c a r)"
  unfolding generate_indy_proof_def build_rev_states_json_def build_schemas_json_prover_def
    build_cred_defs_json_prover_def fetch_schema_def
  by (auto intro!: sends_only_bind sends_only_map_err fetch_all_silent rev_states_loop_silent
      split: option.splits prod.splits)

lemma build_presentation_silent: "sends_only P (build_presentation lib prof st c a)"
  unfolding build_presentation_def by (auto intro!: sends_only_bind generate_indy_proof_silent)

lemma generate_presentation_silent: "sends_only P (ProverSM_generate_presentation lib prof m c a)"
  unfolding ProverSM_generate_presentation_def build_presentation_msg_def
  by (auto simp: Let_def intro!: sends_only_bind sends_only_try build_presentation_silent
      split: ProverFullState.splits sum.splits)

lemma generate_presentation_wf:
  assumes "prover_wf m"
  shows "yields (ProverSM_generate_presentation lib prof m c a)
     (\<lambda>m'. prover_wf m' \<and> prover_thread_id m' = prover_thread_id m)"
proof (cases "prover_state m")
  case (P_PresentationRequestReceived st)
  show ?thesis
    unfolding ProverSM_generate_presentation_def P_PresentationRequestReceived ProverFullState.case
  proof (rule yields_bind_any)
    fix built :: "string vcx_result"
    show "yields (case built of
        Inl err \<Rightarrow> vbind new_v4 (\<lambda>u. let problem_report = build_problem_report_msg u
            (Some (AriesVcxError_to_string err)) (prover_thread_id m)
          in vret (m\<lparr>prover_state := P_PresentationPreparationFailed (PreparationFailed_from st problem_report)\<rparr>))
      | Inr presentation \<Rightarrow> vbind (build_presentation_msg lib (prover_thread_id m) presentation) (\<lambda>msg.
          vret (m\<lparr>prover_state := P_PresentationPrepared (Prepared_from st msg)\<rparr>)))
      (\<lambda>m'. prover_wf m' \<and> prover_thread_id m' = prover_thread_id m)"
      by (cases built) (auto simp: Let_def PreparationFailed_from_def Prepared_from_def
          intro: yields_bind [OF build_presentation_msg_thread] yields_bind_any)
  qed
qed (use assms in \<open>auto simp: ProverSM_generate_presentation_def\<close>)

lemma prover_step_thread:
  assumes "prover_wf m"
  shows "yields (ProverSM_step lib prof send m a) (\<lambda>m'. prover_wf m' \<and> prover_thread_id m' = prover_thread_id m)"
  unfolding ProverSM_step_def
  using assms generate_presentation_wf [OF assms, of lib prof]
  by (intro yields_bind_any)
     (auto simp: prover_sends ProverSM_set_presentation_def Let_def Prepared_from_def
        intro!: yields_bind_any
        split: ProverFullState.split ProverMessages.split)

lemma prover_sends_own:
  assumes "prover_wf m"
  shows "sends_only (in_thread (prover_thread_id m)) (ProverSM_step lib prof send m a)"
  unfolding ProverSM_step_def
  using assms
  by (intro sends_only_bind)
     (auto simp: prover_sends Let_def prover_wf_def in_thread_def thid_or_def Thread_new_def
        MsgParts_with_decorators_def opt_decorators_default_def
        intro!: sends_only_bind sends_only_send generate_presentation_silent
        split: ProverFullState.splits ProverMessages.splits)

lemma prover_finished_stays:
  "prover_finished m \<Longrightarrow> yields (ProverSM_step lib prof send m a) (\<lambda>m'. m' = m)"
  unfolding ProverSM_step_def prover_finished_iff by (auto intro!: yields_bind_any)

lemma prover_finished_silent:
  "prover_finished m \<Longrightarrow> sends_only (\<lambda>_. False) (ProverSM_step lib prof send m a)"
  unfolding ProverSM_step_def prover_finished_iff by (auto intro!: sends_only_bind)

interpretation prover: protocol_machine "ProverSM_step lib prof send" prover_finished prover_wf
  prover_thread_id in_thread
  for lib :: lib and prof :: "'w profile" and send :: "'w SendClosure option"
  by unfold_locales
     (rule prover_finished_stays prover_finished_silent prover_step_thread prover_sends_own; assumption)+

lemma prover_accepts_thread:
  "ProverSM_accepts m msg \<Longrightarrow> message_matches (prover_thread_id m) msg"
  by (auto simp: ProverSM_accepts_def split: ProverFullState.splits AriesMessage.splits
      PresentProof.splits Notification.splits)

interpretation prover_router: message_router ProverSM_accepts "\<lambda>_. True" prover_finished prover_thread_id
  by unfold_locales (auto simp: prover_accepts_thread prover_finished_iff ProverSM_accepts_def)

subsection \<open>Operations as steps, and the abstract protocol\<close>

inductive prover_op ::
    "lib \<Rightarrow> 'w profile \<Rightarrow> ProverSM \<Rightarrow> 'w runtime \<Rightarrow> ProverSM \<Rightarrow> 'w runtime \<Rightarrow> bool" for lib prof where
  pop_step: "ProverSM_step lib prof send m a s = (Inr m', s') \<Longrightarrow> prover_op lib prof m s m' s'"
| pop_proposal: "ProverSM_send_presentation_proposal m d c s = (Inr m', s') \<Longrightarrow> prover_op lib prof m s m' s'"
| pop_decline: "ProverSM_decline_presentation_request m reason c s = (Inr m', s') \<Longrightarrow> prover_op lib prof m s m' s'"
| pop_negotiate: "ProverSM_negotiate_presentation m preview c s = (Inr m', s') \<Longrightarrow> prover_op lib prof m s m' s'"
| pop_generate: "ProverSM_generate_presentation lib prof m creds attrs s = (Inr m', s') \<Longrightarrow> prover_op lib prof m s m' s'"
| pop_set: "ProverSM_set_presentation m p = Inr m' \<Longrightarrow> prover_op lib prof m s m' s"
| pop_ack: "ProverSM_receive_presentation_ack m ack = Inr m' \<Longrightarrow> prover_op lib prof m s m' s"
| pop_send: "ProverSM_send_presentation m c s = (Inr m', s') \<Longrightarrow> prover_op lib prof m s m' s'"

inductive prover_reach ::
    "lib \<Rightarrow> 'w profile \<Rightarrow> ProverSM \<times> 'w runtime \<Rightarrow> ProverSM \<times> 'w runtime \<Rightarrow> bool"
  for lib prof x where
  preach_refl: "prover_reach lib prof x x"
| preach_op: "prover_reach lib prof x (m, s) \<Longrightarrow> prover_op lib prof m s m' s'
     \<Longrightarrow> prover_reach lib prof x (m', s')"
| preach_other: "prover_reach lib prof x (m, s) \<Longrightarrow> rt_outbox s' = rt_outbox s @ ms
     \<Longrightarrow> prover_reach lib prof x (m, s')"

inductive prover_protocol :: "ProverState \<Rightarrow> ProverState \<Rightarrow> bool" where
  "prover_protocol PS_Initial PS_PresentationProposalSent"
| "prover_protocol PS_PresentationRequestReceived PS_PresentationProposalSent"
| "prover_protocol PS_PresentationProposalSent PS_PresentationRequestReceived"
| "prover_protocol PS_PresentationProposalSent PS_Failed"
| "prover_protocol PS_PresentationRequestReceived PS_PresentationPrepared"
| "prover_protocol PS_PresentationRequestReceived PS_PresentationPreparationFailed"
| "prover_protocol PS_PresentationRequestReceived PS_Finished"
| "prover_protocol PS_PresentationRequestReceived PS_Failed"
| "prover_protocol PS_PresentationPrepared PS_PresentationSent"
| "prover_protocol PS_PresentationPrepared PS_Failed"
| "prover_protocol PS_PresentationPreparationFailed PS_Failed"
| "prover_protocol PS_PresentationSent PS_Finished"
| "prover_protocol PS_PresentationSent PS_Failed"

inductive_simps prover_protocol_from [simp]:
  "prover_protocol PS_Initial t" "prover_protocol PS_PresentationProposalSent t"
  "prover_protocol PS_PresentationRequestReceived t" "prover_protocol PS_PresentationPrepared t"
  "prover_protocol PS_PresentationPreparationFailed t" "prover_protocol PS_PresentationSent t"
  "prover_protocol PS_Finished t" "prover_protocol PS_Failed t"

lemmas prover_finished_defs = ProverFinished_declined_def ProverFinished_from_failed_def
  ProverFinished_from_prepared_def ProverFinished_from_request_def ProverFinished_from_request_report_def
  ProverFinished_from_ack_def ProverFinished_from_sent_report_def

lemma prover_state_names [simp]:
  "prover_state m = P_Initial \<Longrightarrow> ProverSM_get_state m = PS_Initial"
  "prover_state m = P_PresentationProposalSent d1 \<Longrightarrow> ProverSM_get_state m = PS_PresentationProposalSent"
  "prover_state m = P_PresentationRequestReceived d2 \<Longrightarrow> ProverSM_get_state m = PS_PresentationRequestReceived"
  "prover_state m = P_PresentationPrepared d3 \<Longrightarrow> ProverSM_get_state m = PS_PresentationPrepared"
  "prover_state m = P_PresentationPreparationFailed d4 \<Longrightarrow> ProverSM_get_state m = PS_PresentationPreparationFailed"
  "prover_state m = P_PresentationSent d5 \<Longrightarrow> ProverSM_get_state m = PS_PresentationSent"
  "prover_state m = P_Finished f \<Longrightarrow> ProverSM_get_state m = (if pfin_status f = Success then PS_Finished else PS_Failed)"
  by (auto simp: ProverSM_get_state_def split: Status.splits)

definition counter_proposed :: "ProverSM \<Rightarrow> AriesMessage list \<Rightarrow> bool" where
  "counter_proposed m out =
     (\<exists>p. AM_PresentProof (PP_ProposePresentation p) \<in> set out
        \<and> effective_thid (AM_PresentProof (PP_ProposePresentation p)) = prover_thread_id m)"

text \<open>The moves of the machine, given the messages sent so far; a failed end carries another status
  than \<open>Success\<close>.\<close>

inductive prover_move :: "AriesMessage list \<Rightarrow> ProverSM \<Rightarrow> ProverSM \<Rightarrow> bool" for out where
  pm_stay: "prover_move out m m"
| pm_propose: "prover_state m = P_Initial \<or> (\<exists>d. prover_state m = P_PresentationRequestReceived d)
     \<Longrightarrow> prover_move out m (m\<lparr>prover_state := P_PresentationProposalSent p\<rparr>)"
| pm_request: "prover_state m = P_PresentationProposalSent d
     \<Longrightarrow> prover_move out m (m\<lparr>prover_state := P_PresentationRequestReceived r\<rparr>)"
| pm_prepared: "prover_state m = P_PresentationRequestReceived d
     \<Longrightarrow> prover_move out m (m\<lparr>prover_state := P_PresentationPrepared p\<rparr>)"
| pm_unprepared: "prover_state m = P_PresentationRequestReceived d
     \<Longrightarrow> prover_move out m (m\<lparr>prover_state := P_PresentationPreparationFailed f\<rparr>)"
| pm_sent: "prover_state m = P_PresentationPrepared d
     \<Longrightarrow> AM_PresentProof (PP_Presentation (ppr_presentation d)) \<in> set out
     \<Longrightarrow> prover_move out m (m\<lparr>prover_state := P_PresentationSent (PresentationSent_from d)\<rparr>)"
| pm_negotiated: "prover_state m = P_PresentationRequestReceived d \<Longrightarrow> counter_proposed m out
     \<Longrightarrow> prover_move out m (m\<lparr>prover_state := P_Finished (ProverFinished_from_request d)\<rparr>)"
| pm_acked: "prover_state m = P_PresentationSent d
     \<Longrightarrow> prover_move out m (m\<lparr>prover_state := P_Finished (ProverFinished_from_ack d ack)\<rparr>)"
| pm_failed: "ProverSM_get_state m \<notin> {PS_Initial, PS_Finished, PS_Failed} \<Longrightarrow> pfin_status f \<noteq> Success
     \<Longrightarrow> prover_move out m (m\<lparr>prover_state := P_Finished f\<rparr>)"

lemmas prover_moves = pm_stay pm_propose pm_request pm_prepared pm_unprepared pm_sent pm_negotiated
  pm_acked pm_failed

lemma prover_proposal_move:
  "ProverSM_send_presentation_proposal m d c s = (Inr m', s') \<Longrightarrow> prover_move (rt_outbox s') m m'"
  by (auto simp: ProverSM_send_presentation_proposal_def Let_def vbind_Inr_iff intro: pm_stay pm_propose
      split: ProverFullState.splits)

lemma prover_decline_move:
  "ProverSM_decline_presentation_request m reason c s = (Inr m', s') \<Longrightarrow> prover_move (rt_outbox s') m m'"
  by (auto simp: ProverSM_decline_presentation_request_def vbind_Inr_iff prover_finished_defs
      intro: pm_stay intro!: pm_failed split: ProverFullState.splits)

lemma handle_presentation_proposal_sends:
  assumes "handle_presentation_proposal c preview (prover_thread_id m) s = (Inr u, s')"
  shows "counter_proposed m (rt_outbox s')"
  using assms
  by (auto simp: handle_presentation_proposal_def vbind_Inr_iff Let_def send_message_Inr_iff
      counter_proposed_def MsgParts_with_decorators_def thid_or_def Thread_new_def)

lemma prover_negotiate_move:
  assumes "ProverSM_negotiate_presentation m preview c s = (Inr m', s')"
  shows "prover_move (rt_outbox s') m m'"
proof (cases "prover_state m")
  case (P_PresentationRequestReceived d)
  then show ?thesis
    using assms by (auto simp: ProverSM_negotiate_presentation_def vbind_Inr_iff
        intro!: pm_negotiated dest!: handle_presentation_proposal_sends)
next
  case (P_PresentationPrepared d)
  then show ?thesis
    using assms by (auto simp: ProverSM_negotiate_presentation_def vbind_Inr_iff
        ProverFinished_from_prepared_def intro!: pm_failed)
qed (use assms in \<open>auto simp: ProverSM_negotiate_presentation_def intro: pm_stay\<close>)

lemma prover_generate_move:
  assumes "ProverSM_generate_presentation lib prof m creds attrs s = (Inr m', s')"
  shows "prover_move (rt_outbox s') m m'"
proof (cases "prover_state m")
  case (P_PresentationRequestReceived d)
  obtain r t where r: "build_presentation lib prof d creds attrs s = (r, t)" by force
  then show ?thesis
    using assms P_PresentationRequestReceived
    by (cases r) (auto simp: ProverSM_generate_presentation_def vbind_Inr_iff vtry_Inr_iff Let_def
        intro!: pm_prepared pm_unprepared)
qed (use assms in \<open>auto simp: ProverSM_generate_presentation_def intro: pm_stay\<close>)

lemma prover_set_move: "ProverSM_set_presentation m p = Inr m' \<Longrightarrow> prover_move out m m'"
  by (auto simp: ProverSM_set_presentation_def Let_def intro: pm_stay pm_prepared split: ProverFullState.splits)

lemma prover_ack_move: "ProverSM_receive_presentation_ack m ack = Inr m' \<Longrightarrow> prover_move out m m'"
  by (auto simp: ProverSM_receive_presentation_ack_def intro: pm_stay pm_acked split: ProverFullState.splits)

lemma prover_send_move:
  "ProverSM_send_presentation m c s = (Inr m', s') \<Longrightarrow> prover_move (rt_outbox s') m m'"
  by (auto simp: ProverSM_send_presentation_def vbind_Inr_iff send_message_Inr_iff ProverFinished_from_failed_def
      intro: pm_stay intro!: pm_sent pm_failed split: ProverFullState.splits)

lemmas prover_op_moves = prover_proposal_move prover_decline_move prover_negotiate_move
  prover_generate_move prover_set_move prover_ack_move prover_send_move

lemma prover_step_move:
  assumes "ProverSM_step lib prof send m a s = (Inr m', s')"
  shows "prover_move (rt_outbox s') m m'"
  using assms
  by (cases "prover_state m"; cases a)
     (auto simp: ProverSM_step_def vbind_Inr_iff ProverFinished_declined_def ProverFinished_from_sent_report_def
       intro: prover_op_moves pm_stay pm_request pm_acked pm_failed)

lemma prover_op_move:
  assumes "prover_op lib prof m s m' s'"
  shows "prover_move (rt_outbox s') m m'"
  using assms by cases (erule prover_op_moves prover_step_move)+

lemma prover_move_protocol:
  assumes "prover_move out m m'"
  shows "ProverSM_get_state m' = ProverSM_get_state m
       \<or> prover_protocol (ProverSM_get_state m) (ProverSM_get_state m')"
  using assms
proof cases
  case (pm_failed f)
  then show ?thesis by (cases "ProverSM_get_state m") auto
qed (auto simp: prover_finished_defs)

definition prover_inv :: "ProverSM \<Rightarrow> AriesMessage list \<Rightarrow> bool" where
  "prover_inv m out =
     (case prover_state m of
        P_PresentationSent d \<Rightarrow> AM_PresentProof (PP_Presentation (pst_presentation d)) \<in> set out
      | P_Finished f \<Rightarrow> pfin_status f = Success \<longrightarrow>
          (case pfin_presentation f of
             Some p \<Rightarrow> AM_PresentProof (PP_Presentation p) \<in> set out
           | None \<Rightarrow> counter_proposed m out)
      | _ \<Rightarrow> True)"

lemma prover_inv_mono: "prover_inv m out \<Longrightarrow> prover_inv m (out @ ms)"
  by (auto simp: prover_inv_def counter_proposed_def split: ProverFullState.splits option.splits)

lemma prover_move_inv: "prover_move out m m' \<Longrightarrow> prover_inv m out \<Longrightarrow> prover_inv m' out"
  by (induction rule: prover_move.induct)
     (auto simp: prover_inv_def PresentationSent_from_def ProverFinished_from_request_def
        ProverFinished_from_ack_def counter_proposed_def)

lemma prover_ops_extend:
  "sends_only (\<lambda>_. True) (ProverSM_send_presentation_proposal m d c)"
  "sends_only (\<lambda>_. True) (ProverSM_decline_presentation_request m reason c)"
  "sends_only (\<lambda>_. True) (ProverSM_negotiate_presentation m preview c)"
  "sends_only (\<lambda>_. True) (ProverSM_send_presentation m c)"
  by (auto simp: prover_sends Let_def intro!: sends_only_bind sends_only_send split: ProverFullState.splits)

lemma prover_step_extends: "sends_only (\<lambda>_. True) (ProverSM_step lib prof send m a)"
  unfolding ProverSM_step_def
  by (intro sends_only_bind)
     (auto intro!: sends_only_bind prover_ops_extend generate_presentation_silent
        split: ProverFullState.splits ProverMessages.splits)

lemma prover_op_extends:
  assumes "prover_op lib prof m s m' s'"
  shows "\<exists>ms. rt_outbox s' = rt_outbox s @ ms"
  using assms
proof cases
  case (pop_step send a)
  then show ?thesis using sends_onlyD [OF prover_step_extends] by blast
qed (blast dest: sends_onlyD [OF generate_presentation_silent] sends_onlyD [OF prover_ops_extend(1)]
       sends_onlyD [OF prover_ops_extend(2)] sends_onlyD [OF prover_ops_extend(3)]
       sends_onlyD [OF prover_ops_extend(4)] intro: append_Nil2 [symmetric])+

lemma prover_reach_inv:
  assumes "prover_reach lib prof x y" "prover_inv (fst x) (rt_outbox (snd x))"
  shows "prover_inv (fst y) (rt_outbox (snd y))"
  using assms
proof induction
  case (preach_op m s m' s')
  obtain ms where "rt_outbox s' = rt_outbox s @ ms" using prover_op_extends [OF preach_op(2)] by blast
  then have "prover_inv m (rt_outbox s')" using preach_op prover_inv_mono by simp
  then show ?case using prover_move_inv [OF prover_op_move [OF preach_op(2)]] by simp
next
  case (preach_other m s s' ms)
  then show ?case using prover_inv_mono by simp
qed simp

subsection \<open>Properties\<close>


text \<open>
  Every operation of the prover either leaves its public state as it is or makes one of the moves
  of the present-proof protocol on the prover's side.
\<close>

theorem prover_implements_protocol:
  assumes "prover_op lib prof m s m' s'"
  shows "ProverSM_get_state m' = ProverSM_get_state m
       \<or> prover_protocol (ProverSM_get_state m) (ProverSM_get_state m')"
  by (rule prover_move_protocol [OF prover_op_move [OF assms]])

text \<open>
  Over any sequence of handled messages a well-formed prover (what it has prepared for sending is
  addressed to its thread) stays well-formed on the same thread and sends only messages of it; a
  finished prover is final and silent.
\<close>

theorem prover_run_stays_on_thread:
  assumes "prover_wf m" "run_actions (ProverSM_step lib prof send) m actions s = (r, s')"
  shows "(\<exists>ms. rt_outbox s' = rt_outbox s @ ms \<and> (\<forall>x \<in> set ms. effective_thid x = prover_thread_id m))
       \<and> (case r of Inr m' \<Rightarrow> prover_wf m' \<and> prover_thread_id m' = prover_thread_id m | Inl _ \<Rightarrow> True)
       \<and> (prover_finished m \<longrightarrow> rt_outbox s' = rt_outbox s \<and> (case r of Inr m' \<Rightarrow> m' = m | Inl _ \<Rightarrow> True))"
proof (intro conjI)
  show "\<exists>ms. rt_outbox s' = rt_outbox s @ ms \<and> (\<forall>x \<in> set ms. effective_thid x = prover_thread_id m)"
    using prover.run_result [OF assms] by (simp add: in_thread_def)
  show "case r of Inr m' \<Rightarrow> prover_wf m' \<and> prover_thread_id m' = prover_thread_id m | Inl _ \<Rightarrow> True"
    using yieldsD [OF prover.run_thread [OF assms(1)], of lib prof send actions s _ s'] assms(2) by (auto split: sum.splits)
  show "prover_finished m \<longrightarrow> rt_outbox s' = rt_outbox s \<and> (case r of Inr m' \<Rightarrow> m' = m | Inl _ \<Rightarrow> True)"
    using prover.run_terminal_result [OF _ assms(2)] by blast
qed

text \<open>
  Negotiating ends the exchange with a status that depends on the state it starts from: Finished
  with status 1 right after the request, Failed with status 0 once a presentation was prepared.
\<close>

theorem prover_negotiate_status:
  assumes "ProverSM_negotiate_presentation m preview c s = (Inr m', s')"
  shows "(ProverSM_get_state m = PS_PresentationRequestReceived \<longrightarrow>
            ProverSM_get_state m' = PS_Finished \<and> ProverSM_get_presentation_status m' = 1)
       \<and> (ProverSM_get_state m = PS_PresentationPrepared \<longrightarrow>
            ProverSM_get_state m' = PS_Failed \<and> ProverSM_get_presentation_status m' = 0)"
  using assms
  by (auto simp: ProverSM_negotiate_presentation_def vbind_Inr_iff ProverSM_get_presentation_status_def
      ProverFinished_from_request_def ProverFinished_from_prepared_def split: ProverFullState.splits)

subsection \<open>The properties at concrete inputs\<close>

definition demo_pres_request :: RequestPresentation where
  "demo_pres_request = MsgParts_with_decorators ''t1''
     (RequestPresentationContent_new [make_attach_from_str (lib_b64enc demo_lib) ''req'' ''a'']) opt_decorators_default"

definition demo_presentation :: Presentation where
  "demo_presentation = MsgParts_with_decorators ''p1''
     (PresentationContent_new [make_attach_from_str (lib_b64enc demo_lib) ''proof'' ''a''])
     (ack_decorators_new (Thread_new ''t1''))"

definition demo_pres_ack :: AckPresentation where
  "demo_pres_ack = MsgParts_with_decorators ''k1'' (AckContent_new Ack_Ok) (thr_decorators_new (Thread_new ''t1''))"

definition demo_prover :: ProverSM where
  "demo_prover = ProverSM_from_request demo_pres_request ''src''"

lemmas prover_eval = demo_prover_def ProverSM_from_request_def demo_pres_request_def demo_presentation_def
  demo_pres_ack_def demo_defs ProverSM_step_def ProverSM_set_presentation_def ProverSM_send_presentation_def
  prover_verify_thread_id_def Prepared_from_def PresentationSent_from_def MsgParts_with_decorators_def
  ack_decorators_new_def thr_decorators_new_def Thread_new_def matches_thread_id_def
  vbind_def send_message_def run_simps Let_def

lemma demo_prove:
  "\<exists>m1 m2 m3 s2. ProverSM_set_presentation demo_prover demo_presentation = Inr m1
     \<and> ProverSM_send_presentation m1 demo_send demo_runtime = (Inr m2, s2)
     \<and> ProverSM_receive_presentation_ack m2 demo_pres_ack = Inr m3
     \<and> ProverSM_get_state m3 = PS_Finished"
  by (simp add: prover_eval ProverSM_receive_presentation_ack_def ProverFinished_from_ack_def)


theorem prover_implements_protocol_witness:
  "\<exists>m' s'. prover_op demo_lib demo_profile demo_prover demo_runtime m' s'
     \<and> prover_protocol (ProverSM_get_state demo_prover) (ProverSM_get_state m')"
proof -
  obtain m1 where 1: "ProverSM_set_presentation demo_prover demo_presentation = Inr m1"
      "ProverSM_get_state m1 \<noteq> ProverSM_get_state demo_prover"
    by (simp add: prover_eval)
  then have "prover_op demo_lib demo_profile demo_prover demo_runtime m1 demo_runtime"
    by (blast intro: pop_set)
  then show ?thesis using prover_implements_protocol 1(2) by blast
qed

theorem prover_run_stays_on_thread_witness:
  "\<exists>r s'. run_actions (ProverSM_step demo_lib demo_profile (Some demo_send)) demo_prover
       [PM_SetPresentation demo_presentation, PM_SendPresentation] demo_runtime = (r, s')
     \<and> length (rt_outbox s') = 1 \<and> list_all (\<lambda>x. effective_thid x = ''t1'') (rt_outbox s')"
proof -
  obtain r s' where run: "run_actions (ProverSM_step demo_lib demo_profile (Some demo_send)) demo_prover
       [PM_SetPresentation demo_presentation, PM_SendPresentation] demo_runtime = (r, s')"
      "length (rt_outbox s') = 1"
    by (simp add: prover_eval)
  have "prover_wf demo_prover" "prover_thread_id demo_prover = ''t1''"
    by (simp_all add: prover_wf_def demo_prover_def ProverSM_from_request_def demo_pres_request_def)
  with prover_run_stays_on_thread [OF _ run(1)] run show ?thesis
    by (auto simp: demo_runtime_def list_all_iff)
qed

theorem prover_negotiate_status_witness:
  "\<exists>m' s'. ProverSM_negotiate_presentation demo_prover (PresentationPreview_new [] []) demo_send demo_runtime
       = (Inr m', s') \<and> ProverSM_get_state m' = PS_Finished \<and> ProverSM_get_presentation_status m' = 1"
proof -
  obtain m' s' where run: "ProverSM_negotiate_presentation demo_prover (PresentationPreview_new [] []) demo_send
      demo_runtime = (Inr m', s')"
    by (simp add: ProverSM_negotiate_presentation_def handle_presentation_proposal_def prover_eval)
  have "ProverSM_get_state demo_prover = PS_PresentationRequestReceived"
    by (simp add: demo_prover_def ProverSM_from_request_def)
  with prover_negotiate_status [OF run] run show ?thesis by blast
qed

end
