(* ===== verification/Verifier.thy ===== *)
theory Verifier
  imports Indy_Proofs Machines
begin

text \<open>
  The verifier of the present-proof protocol: aries_vcx/src/protocols/proof_presentation/verifier
  (messages.rs, mod.rs, state_machine.rs, states, verification_status.rs) and the handler
  aries_vcx/src/handlers/proof_presentation/verifier.rs. \<open>PresentationProposalReceivedState::new\<close> takes
  its second field from \<open>default()\<close>, which draws a UUID for a proposal that is then discarded; the draw
  is left out.
\<close>

datatype PresentationVerificationStatus = Valid | Invalid | Unavailable

record PresentationRequestSetState =
  vset_presentation_request :: RequestPresentation

record PresentationProposalReceivedState =
  vprop_presentation_proposal :: ProposePresentation
  vprop_presentation_request :: "RequestPresentation option"

record PresentationRequestSentState =
  vsent_presentation_request :: RequestPresentation

record VerifierFinishedState =
  vfin_presentation_request :: "RequestPresentation option"
  vfin_presentation :: "Presentation option"
  vfin_status :: Status
  vfin_verification_status :: PresentationVerificationStatus

datatype VerifierFullState =
    V_Initial
  | V_PresentationRequestSet PresentationRequestSetState
  | V_PresentationProposalReceived PresentationProposalReceivedState
  | V_PresentationRequestSent PresentationRequestSentState
  | V_Finished VerifierFinishedState

datatype VerifierState =
    VS_Initial | VS_PresentationProposalReceived | VS_PresentationRequestSet | VS_PresentationRequestSent
  | VS_Finished | VS_Failed

record VerifierSM =
  verifier_source_id :: string
  verifier_thread_id :: string
  verifier_state :: VerifierFullState

fun VerifierFullState_to_string :: "VerifierFullState \<Rightarrow> string" where
  "VerifierFullState_to_string V_Initial = ''Initial''"
| "VerifierFullState_to_string (V_PresentationRequestSet _) = ''PresentationRequestSet''"
| "VerifierFullState_to_string (V_PresentationProposalReceived _) = ''PresentationProposalReceived''"
| "VerifierFullState_to_string (V_PresentationRequestSent _) = ''PresentationRequestSent''"
| "VerifierFullState_to_string (V_Finished _) = ''Finished''"

subsection \<open>The states\<close>

definition VerifierFinished_declined :: "ProblemReport \<Rightarrow> VerifierFinishedState" where
  "VerifierFinished_declined problem_report =
     \<lparr>vfin_presentation_request = None, vfin_presentation = None, vfin_status = Declined problem_report,
      vfin_verification_status = Unavailable\<rparr>"

definition PresentationProposalReceivedState_new :: "ProposePresentation \<Rightarrow> PresentationProposalReceivedState" where
  "PresentationProposalReceivedState_new proposal =
     \<lparr>vprop_presentation_proposal = proposal, vprop_presentation_request = None\<rparr>"

definition PresentationRequestSent_from :: "PresentationRequestSetState \<Rightarrow> PresentationRequestSentState" where
  "PresentationRequestSent_from st = \<lparr>vsent_presentation_request = vset_presentation_request st\<rparr>"

definition VerifierFinished_from_verified ::
    "PresentationRequestSentState \<Rightarrow> Presentation \<Rightarrow> PresentationVerificationStatus \<Rightarrow> VerifierFinishedState" where
  "VerifierFinished_from_verified st presentation verification_status =
     \<lparr>vfin_presentation_request = Some (vsent_presentation_request st), vfin_presentation = Some presentation,
      vfin_status = Success, vfin_verification_status = verification_status\<rparr>"

definition VerifierFinished_from_report ::
    "PresentationRequestSentState \<Rightarrow> ProblemReport \<Rightarrow> VerifierFinishedState" where
  "VerifierFinished_from_report st problem_report =
     \<lparr>vfin_presentation_request = Some (vsent_presentation_request st), vfin_presentation = None,
      vfin_status = Failed problem_report, vfin_verification_status = Unavailable\<rparr>"

definition RequestSent_verify_presentation ::
    "lib \<Rightarrow> 'w profile \<Rightarrow> PresentationRequestSentState \<Rightarrow> Presentation \<Rightarrow> string \<Rightarrow> ('w, unit) vcx" where
  "RequestSent_verify_presentation lib prof self presentation thread_id =
     vbind mocks_enabled (\<lambda>mocks.
       if \<not> mocks \<and> \<not> matches_thread_id (kd_thread (msg_decorators presentation)) thread_id then
         vfail (AriesVcxError_from_msg InvalidJson
           ''Cannot handle proof presentation: thread id does not match: {:?}'')
       else
         vbind (vlift (get_attach_as_string (lib_b64dec lib) (presentations_attach (msg_content presentation))))
           (\<lambda>proof_json.
         vbind (vlift (get_attach_as_string (lib_b64dec lib)
                  (request_presentations_attach (msg_content (vsent_presentation_request self))))) (\<lambda>proof_req_json.
         vbind (validate_indy_proof lib prof proof_json proof_req_json) (\<lambda>valid.
           if \<not> valid then vfail (AriesVcxError_from_msg InvalidProof ''Presentation verification failed'')
           else vret ()))))"

subsection \<open>Messages\<close>

datatype VerifierMessages =
    VM_VerifyPresentation Presentation
  | VM_RejectPresentationProposal string
  | VM_SetPresentationRequest RequestPresentation
  | VM_PresentationProposalReceived ProposePresentation
  | VM_PresentationRejectReceived ProblemReport
  | VM_SendPresentationAck
  | VM_Unknown

fun VerifierMessages_thread_id_matches :: "VerifierMessages \<Rightarrow> string \<Rightarrow> bool" where
  "VerifierMessages_thread_id_matches (VM_VerifyPresentation msg) thread_id =
     matches_thread_id (kd_thread (msg_decorators msg)) thread_id"
| "VerifierMessages_thread_id_matches (VM_PresentationProposalReceived msg) thread_id =
     matches_opt_thread_id (od_thread (msg_decorators msg)) thread_id"
| "VerifierMessages_thread_id_matches (VM_PresentationRejectReceived msg) thread_id =
     matches_opt_thread_id (prd_thread (msg_decorators msg)) thread_id"
| "VerifierMessages_thread_id_matches _ thread_id = True"

fun VerifierMessages_from :: "AriesMessage \<Rightarrow> VerifierMessages" where
  "VerifierMessages_from (AM_PresentProof (PP_Presentation presentation)) = VM_VerifyPresentation presentation"
| "VerifierMessages_from (AM_PresentProof (PP_ProposePresentation proposal)) = VM_PresentationProposalReceived proposal"
| "VerifierMessages_from (AM_ReportProblem report) = VM_PresentationRejectReceived report"
| "VerifierMessages_from (AM_Notification (N_ProblemReport report)) =
     VM_PresentationRejectReceived (MsgParts_with_decorators (msg_id report) (msg_content report) (msg_decorators report))"
| "VerifierMessages_from _ = VM_Unknown"

definition verifier_verify_thread_id :: "bool \<Rightarrow> string \<Rightarrow> VerifierMessages \<Rightarrow> unit vcx_result" where
  "verifier_verify_thread_id mocks thread_id message =
     (if \<not> mocks \<and> \<not> VerifierMessages_thread_id_matches message thread_id then Inl thread_mismatch else Inr ())"

definition build_verification_ack :: "string \<Rightarrow> ('w, AckPresentation) vcx" where
  "build_verification_ack thread_id =
     vbind utc_now (\<lambda>now.
     vbind new_v4 (\<lambda>i.
       vret (MsgParts_with_decorators i (AckContent_new Ack_Ok)
         ((thr_decorators_new (Thread_new thread_id))\<lparr>td_timing := Some (out_timing now)\<rparr>))))"

definition build_starting_presentation_request ::
    "lib \<Rightarrow> string \<Rightarrow> ProofRequestData \<Rightarrow> string option \<Rightarrow> ('w, RequestPresentation) vcx" where
  "build_starting_presentation_request lib thread_id request_data comment =
     vbind utc_now (\<lambda>now.
       let content = (RequestPresentationContent_new
             [make_attach_from_str (lib_b64enc lib) (lib_json_print lib (ProofRequestData_to_json request_data))
                (AttachmentId_as_ref Aid_PresentationRequest)])\<lparr>reqpres_comment := comment\<rparr>;
           decorators = opt_decorators_default\<lparr>od_timing := Some (out_timing now)\<rparr>
       in vret (MsgParts_with_decorators thread_id content decorators))"

subsection \<open>The state machine\<close>

definition VerifierSM_new :: "string \<Rightarrow> VerifierSM" where
  "VerifierSM_new source_id =
     \<lparr>verifier_source_id = source_id, verifier_thread_id = [], verifier_state = V_Initial\<rparr>"

definition VerifierSM_set_request ::
    "lib \<Rightarrow> VerifierSM \<Rightarrow> ProofRequestData \<Rightarrow> string option \<Rightarrow> ('w, VerifierSM) vcx" where
  "VerifierSM_set_request lib self request_data comment =
     (let setting = vbind (build_starting_presentation_request lib (verifier_thread_id self) request_data comment)
            (\<lambda>presentation_request. vret (self\<lparr>verifier_state :=
               V_PresentationRequestSet \<lparr>vset_presentation_request = presentation_request\<rparr>\<rparr>))
      in case verifier_state self of
           V_Initial \<Rightarrow> setting
         | V_PresentationRequestSet _ \<Rightarrow> setting
         | V_PresentationProposalReceived _ \<Rightarrow> setting
         | _ \<Rightarrow> vfail (AriesVcxError_from_msg InvalidState ''Cannot set presentation request in this state''))"

definition VerifierSM_from_request :: "lib \<Rightarrow> string \<Rightarrow> ProofRequestData \<Rightarrow> ('w, VerifierSM) vcx" where
  "VerifierSM_from_request lib source_id presentation_request_data =
     vbind new_v4 (\<lambda>i. VerifierSM_set_request lib
       \<lparr>verifier_source_id = source_id, verifier_thread_id = i, verifier_state = V_Initial\<rparr>
       presentation_request_data None)"

definition VerifierSM_from_proposal :: "string \<Rightarrow> ProposePresentation \<Rightarrow> VerifierSM" where
  "VerifierSM_from_proposal source_id proposal =
     \<lparr>verifier_source_id = source_id, verifier_thread_id = msg_id proposal,
      verifier_state = V_PresentationProposalReceived (PresentationProposalReceivedState_new proposal)\<rparr>"

definition proposal_thread_id :: "ProposePresentation \<Rightarrow> string" where
  "proposal_thread_id proposal =
     (case od_thread (msg_decorators proposal) of Some thread \<Rightarrow> thid thread | None \<Rightarrow> msg_id proposal)"

definition VerifierSM_receive_presentation_proposal ::
    "bool \<Rightarrow> VerifierSM \<Rightarrow> ProposePresentation \<Rightarrow> VerifierSM vcx_result" where
  "VerifierSM_receive_presentation_proposal mocks self proposal =
     res_bind (verifier_verify_thread_id mocks (verifier_thread_id self) (VM_PresentationProposalReceived proposal)) (\<lambda>_.
       case verifier_state self of
         V_Initial \<Rightarrow>
           Inr (self\<lparr>verifier_thread_id := proposal_thread_id proposal,
                     verifier_state := V_PresentationProposalReceived (PresentationProposalReceivedState_new proposal)\<rparr>)
       | V_PresentationRequestSent _ \<Rightarrow>
           res_bind (verifier_verify_thread_id mocks (verifier_thread_id self) (VM_PresentationProposalReceived proposal)) (\<lambda>_.
             Inr (self\<lparr>verifier_state := V_PresentationProposalReceived (PresentationProposalReceivedState_new proposal)\<rparr>))
       | _ \<Rightarrow> Inr self)"

definition VerifierSM_receive_presentation_request_reject ::
    "bool \<Rightarrow> VerifierSM \<Rightarrow> ProblemReport \<Rightarrow> VerifierSM vcx_result" where
  "VerifierSM_receive_presentation_request_reject mocks self problem_report =
     res_bind (verifier_verify_thread_id mocks (verifier_thread_id self) (VM_PresentationRejectReceived problem_report)) (\<lambda>_.
       case verifier_state self of
         V_PresentationRequestSent state \<Rightarrow>
           Inr (self\<lparr>verifier_state := V_Finished (VerifierFinished_from_report state problem_report)\<rparr>)
       | _ \<Rightarrow> Inr self)"

definition VerifierSM_reject_presentation_proposal ::
    "VerifierSM \<Rightarrow> string \<Rightarrow> 'w SendClosure \<Rightarrow> ('w, VerifierSM) vcx" where
  "VerifierSM_reject_presentation_proposal self reason send =
     (case verifier_state self of
        V_PresentationProposalReceived state \<Rightarrow>
          (let thread_id = proposal_thread_id (vprop_presentation_proposal state)
           in vbind new_v4 (\<lambda>u.
                let problem_report = build_problem_report_msg u (Some reason) thread_id
                in vbind (send_message send (AM_ReportProblem problem_report)) (\<lambda>_.
                     vret (self\<lparr>verifier_thread_id := thread_id,
                                verifier_state := V_Finished (VerifierFinished_declined problem_report)\<rparr>))))
      | _ \<Rightarrow> vret self)"

definition VerifierSM_verify_presentation ::
    "lib \<Rightarrow> 'w profile \<Rightarrow> VerifierSM \<Rightarrow> Presentation \<Rightarrow> 'w SendClosure \<Rightarrow> ('w, VerifierSM) vcx" where
  "VerifierSM_verify_presentation lib prof self presentation send =
     vbind mocks_enabled (\<lambda>mocks.
     vbind (vlift (verifier_verify_thread_id mocks (verifier_thread_id self) (VM_VerifyPresentation presentation))) (\<lambda>_.
       case verifier_state self of
         V_PresentationRequestSent state \<Rightarrow>
           vbind (vtry (RequestSent_verify_presentation lib prof state presentation (verifier_thread_id self)))
             (\<lambda>verification_result.
           vbind (case verification_result of
               Inr _ \<Rightarrow>
                 vbind (build_verification_ack (verifier_thread_id self)) (\<lambda>ack.
                   vret (V_Finished (VerifierFinished_from_verified state presentation Valid),
                         AM_PresentProof (PP_Ack ack)))
             | Inl err \<Rightarrow>
                 vbind new_v4 (\<lambda>u.
                   let problem_report = build_problem_report_msg u (Some (AriesVcxError_to_string err))
                         (verifier_thread_id self);
                       sm = (if vcx_kind err = InvalidProof
                             then V_Finished (VerifierFinished_from_verified state presentation Invalid)
                             else V_Finished (VerifierFinished_from_report state problem_report))
                   in vret (sm, AM_Notification (N_ProblemReport (MsgParts_with_decorators
                        (msg_id problem_report) (msg_content problem_report) (msg_decorators problem_report))))))
             (\<lambda>(sm, message).
               vbind (send_message send message) (\<lambda>_. vret (self\<lparr>verifier_state := sm\<rparr>))))
       | _ \<Rightarrow> vret self))"

definition VerifierSM_send_presentation_ack :: "VerifierSM \<Rightarrow> 'w SendClosure \<Rightarrow> ('w, VerifierSM) vcx" where
  "VerifierSM_send_presentation_ack self send =
     (case verifier_state self of
        V_Finished _ \<Rightarrow>
          vbind (build_verification_ack (verifier_thread_id self)) (\<lambda>ack.
          vbind (send_message send (AM_PresentProof (PP_Ack ack))) (\<lambda>_. vret self))
      | _ \<Rightarrow> vret self)"

definition VerifierSM_accepts :: "VerifierSM \<Rightarrow> AriesMessage \<Rightarrow> bool" where
  "VerifierSM_accepts self message =
     (case verifier_state self of
        V_Initial \<Rightarrow>
          (case message of
             AM_PresentProof (PP_ProposePresentation _) \<Rightarrow> True
           | AM_PresentProof (PP_RequestPresentation _) \<Rightarrow> True
           | _ \<Rightarrow> False)
      | V_PresentationRequestSent _ \<Rightarrow>
          (case message of
             AM_PresentProof (PP_Presentation presentation) \<Rightarrow>
               matches_thread_id (kd_thread (msg_decorators presentation)) (verifier_thread_id self)
           | AM_PresentProof (PP_ProposePresentation proposal) \<Rightarrow>
               matches_opt_thread_id (od_thread (msg_decorators proposal)) (verifier_thread_id self)
           | AM_ReportProblem problem_report \<Rightarrow>
               matches_opt_thread_id (prd_thread (msg_decorators problem_report)) (verifier_thread_id self)
           | _ \<Rightarrow> False)
      | _ \<Rightarrow> False)"

definition VerifierSM_find_message_to_handle ::
    "VerifierSM \<Rightarrow> (string \<times> AriesMessage) list \<Rightarrow> (string \<times> AriesMessage) option" where
  "VerifierSM_find_message_to_handle self messages = find_message (VerifierSM_accepts self) messages"

definition VerifierSM_mark_presentation_request_msg_sent :: "VerifierSM \<Rightarrow> VerifierSM vcx_result" where
  "VerifierSM_mark_presentation_request_msg_sent self =
     (case verifier_state self of
        V_PresentationRequestSet state \<Rightarrow>
          Inr (self\<lparr>verifier_state := V_PresentationRequestSent (PresentationRequestSent_from state)\<rparr>)
      | V_PresentationRequestSent state \<Rightarrow> Inr (self\<lparr>verifier_state := V_PresentationRequestSent state\<rparr>)
      | _ \<Rightarrow> Inl (AriesVcxError_from_msg InvalidState
               ''Can not mark_presentation_request_msg_sent in current state.''))"

definition verifier_no_callback :: vcx_error where
  "verifier_no_callback = AriesVcxError_from_msg InvalidState ''Attempted to call undefined send_message callback''"

definition VerifierSM_step ::
    "lib \<Rightarrow> 'w profile \<Rightarrow> 'w SendClosure option \<Rightarrow> VerifierSM \<Rightarrow> VerifierMessages \<Rightarrow> ('w, VerifierSM) vcx" where
  "VerifierSM_step lib prof send self message =
     vbind mocks_enabled (\<lambda>mocks.
       case message of
         VM_PresentationProposalReceived proposal \<Rightarrow>
           vlift (VerifierSM_receive_presentation_proposal mocks self proposal)
       | VM_RejectPresentationProposal reason \<Rightarrow>
           vbind (vlift (ok_or send verifier_no_callback)) (\<lambda>c. VerifierSM_reject_presentation_proposal self reason c)
       | VM_VerifyPresentation presentation \<Rightarrow>
           vbind (vlift (ok_or send verifier_no_callback)) (\<lambda>c.
             VerifierSM_verify_presentation lib prof self presentation c)
       | VM_SendPresentationAck \<Rightarrow>
           vbind (vlift (ok_or send verifier_no_callback)) (\<lambda>c. VerifierSM_send_presentation_ack self c)
       | VM_PresentationRejectReceived problem_report \<Rightarrow>
           vlift (VerifierSM_receive_presentation_request_reject mocks self problem_report)
       | VM_SetPresentationRequest _ \<Rightarrow> vret self
       | VM_Unknown \<Rightarrow> vret self)"

definition VerifierSM_get_state :: "VerifierSM \<Rightarrow> VerifierState" where
  "VerifierSM_get_state self =
     (case verifier_state self of
        V_Initial \<Rightarrow> VS_Initial
      | V_PresentationRequestSet _ \<Rightarrow> VS_PresentationRequestSet
      | V_PresentationProposalReceived _ \<Rightarrow> VS_PresentationProposalReceived
      | V_PresentationRequestSent _ \<Rightarrow> VS_PresentationRequestSent
      | V_Finished status \<Rightarrow> (case vfin_status status of Success \<Rightarrow> VS_Finished | _ \<Rightarrow> VS_Failed))"

definition VerifierSM_progressable_by_message :: "VerifierSM \<Rightarrow> bool" where
  "VerifierSM_progressable_by_message self =
     (case verifier_state self of
        V_Initial \<Rightarrow> True
      | V_PresentationRequestSet _ \<Rightarrow> False
      | V_PresentationProposalReceived _ \<Rightarrow> False
      | V_PresentationRequestSent _ \<Rightarrow> True
      | V_Finished _ \<Rightarrow> False)"

definition VerifierSM_get_verification_status :: "VerifierSM \<Rightarrow> PresentationVerificationStatus" where
  "VerifierSM_get_verification_status self =
     (case verifier_state self of V_Finished state \<Rightarrow> vfin_verification_status state | _ \<Rightarrow> Unavailable)"

definition no_request_set :: vcx_error where
  "no_request_set = AriesVcxError_from_msg InvalidState ''No presentation request set''"

definition VerifierSM_presentation_request_msg :: "VerifierSM \<Rightarrow> RequestPresentation vcx_result" where
  "VerifierSM_presentation_request_msg self =
     (case verifier_state self of
        V_Initial \<Rightarrow> Inl (AriesVcxError_from_msg InvalidState ''Presentation request not set yet'')
      | V_PresentationRequestSet state \<Rightarrow> Inr (vset_presentation_request state)
      | V_PresentationProposalReceived state \<Rightarrow> ok_or (vprop_presentation_request state) no_request_set
      | V_PresentationRequestSent state \<Rightarrow> Inr (vsent_presentation_request state)
      | V_Finished state \<Rightarrow> ok_or (vfin_presentation_request state) no_request_set)"

definition VerifierSM_get_presentation_msg :: "VerifierSM \<Rightarrow> Presentation vcx_result" where
  "VerifierSM_get_presentation_msg self =
     (case verifier_state self of
        V_Finished state \<Rightarrow> ok_or (vfin_presentation state) (AriesVcxError_from_msg InvalidState
          ''State machine is final state, but presentation is not available'')
      | _ \<Rightarrow> Inl (AriesVcxError_from_msg InvalidState ''Presentation not received yet''))"

definition VerifierSM_presentation_proposal :: "VerifierSM \<Rightarrow> ProposePresentation vcx_result" where
  "VerifierSM_presentation_proposal self =
     (case verifier_state self of
        V_PresentationProposalReceived state \<Rightarrow> Inr (vprop_presentation_proposal state)
      | _ \<Rightarrow> Inl (AriesVcxError_from_msg InvalidState ''Presentation proposal not received yet''))"

subsection \<open>The handler\<close>

definition Verifier_create :: "string \<Rightarrow> VerifierSM vcx_result" where
  "Verifier_create source_id = Inr (VerifierSM_new source_id)"

definition Verifier_create_from_request :: "lib \<Rightarrow> string \<Rightarrow> ProofRequestData \<Rightarrow> ('w, VerifierSM) vcx" where
  "Verifier_create_from_request lib source_id presentation_request =
     VerifierSM_from_request lib source_id presentation_request"

definition Verifier_create_from_proposal :: "string \<Rightarrow> ProposePresentation \<Rightarrow> VerifierSM vcx_result" where
  "Verifier_create_from_proposal source_id proposal =
     Inr (VerifierSM_from_proposal source_id proposal)"

definition Verifier_send_presentation_request :: "'w SendClosure \<Rightarrow> (VerifierSM, 'w, unit) hop" where
  "Verifier_send_presentation_request send =
     hstore (\<lambda>self.
       if VerifierSM_get_state self = VS_PresentationRequestSet then
         vbind (vlift (VerifierSM_presentation_request_msg self)) (\<lambda>offer.
         vbind (send_message send (AM_PresentProof (PP_RequestPresentation offer))) (\<lambda>_.
           vlift (VerifierSM_mark_presentation_request_msg_sent self)))
       else vret self)"

definition Verifier_send_presentation_ack :: "'w SendClosure \<Rightarrow> (VerifierSM, 'w, unit) hop" where
  "Verifier_send_presentation_ack send = hstore (\<lambda>self. VerifierSM_send_presentation_ack self send)"

definition Verifier_verify_presentation ::
    "lib \<Rightarrow> 'w profile \<Rightarrow> Presentation \<Rightarrow> 'w SendClosure \<Rightarrow> (VerifierSM, 'w, unit) hop" where
  "Verifier_verify_presentation lib prof presentation send =
     hstore (\<lambda>self. VerifierSM_verify_presentation lib prof self presentation send)"

definition Verifier_set_request :: "lib \<Rightarrow> ProofRequestData \<Rightarrow> string option \<Rightarrow> (VerifierSM, 'w, unit) hop" where
  "Verifier_set_request lib presentation_request_data comment =
     hstore (\<lambda>self. VerifierSM_set_request lib self presentation_request_data comment)"

definition Verifier_mark_presentation_request_msg_sent :: "(VerifierSM, 'w, unit) hop" where
  "Verifier_mark_presentation_request_msg_sent =
     hstore (\<lambda>self. vlift (VerifierSM_mark_presentation_request_msg_sent self))"

definition Verifier_get_presentation_request_attachment :: "lib \<Rightarrow> VerifierSM \<Rightarrow> string vcx_result" where
  "Verifier_get_presentation_request_attachment lib self =
     res_bind (VerifierSM_presentation_request_msg self) (\<lambda>pres_req.
       get_attach_as_string (lib_b64dec lib) (request_presentations_attach (msg_content pres_req)))"

definition Verifier_get_presentation_attachment :: "lib \<Rightarrow> VerifierSM \<Rightarrow> string vcx_result" where
  "Verifier_get_presentation_attachment lib self =
     res_bind (VerifierSM_get_presentation_msg self) (\<lambda>presentation.
       get_attach_as_string (lib_b64dec lib) (presentations_attach (msg_content presentation)))"

definition Verifier_decline_presentation_proposal :: "'w SendClosure \<Rightarrow> string \<Rightarrow> (VerifierSM, 'w, unit) hop" where
  "Verifier_decline_presentation_proposal send reason =
     hstore (\<lambda>self. VerifierSM_reject_presentation_proposal self reason send)"

definition Verifier_step ::
    "lib \<Rightarrow> 'w profile \<Rightarrow> VerifierMessages \<Rightarrow> 'w SendClosure option \<Rightarrow> (VerifierSM, 'w, unit) hop" where
  "Verifier_step lib prof message send = hstore (\<lambda>self. VerifierSM_step lib prof send self message)"

definition Verifier_update_state ::
    "lib \<Rightarrow> 'w profile \<Rightarrow> 'w mediated_connection \<Rightarrow> (VerifierSM, 'w, VerifierState) hop" where
  "Verifier_update_state lib prof connection =
     handler_update_state (\<lambda>self. \<not> VerifierSM_progressable_by_message self) VerifierSM_get_state VerifierSM_accepts
       VerifierMessages_from (VerifierSM_step lib prof) connection"

subsection \<open>The machine as an instance of the protocol interfaces\<close>

definition verifier_finished :: "VerifierSM \<Rightarrow> bool" where
  "verifier_finished self = (case verifier_state self of V_Finished _ \<Rightarrow> True | _ \<Rightarrow> False)"

definition verifier_initial :: "VerifierSM \<Rightarrow> bool" where
  "verifier_initial self = (verifier_state self = V_Initial)"

lemma verifier_finished_iff: "verifier_finished m \<longleftrightarrow> (\<exists>f. verifier_state m = V_Finished f)"
  by (auto simp: verifier_finished_def split: VerifierFullState.splits)

lemma verifier_finished_stays:
  "verifier_finished m \<Longrightarrow> yields (VerifierSM_step lib prof send m a) (\<lambda>m'. m' = m)"
  unfolding VerifierSM_step_def verifier_finished_iff
  by (intro yields_bind_any)
     (auto simp: VerifierSM_receive_presentation_proposal_def VerifierSM_receive_presentation_request_reject_def
        VerifierSM_reject_presentation_proposal_def VerifierSM_verify_presentation_def
        VerifierSM_send_presentation_ack_def res_simps intro!: yields_bind_any split: VerifierMessages.split)

interpretation verifier: final_machine "VerifierSM_step lib prof send" verifier_finished
  for lib :: lib and prof :: "'w profile" and send :: "'w SendClosure option"
  by unfold_locales (rule verifier_finished_stays)

lemma verifier_accepts_thread:
  "\<not> verifier_initial m \<Longrightarrow> VerifierSM_accepts m msg \<Longrightarrow> message_matches (verifier_thread_id m) msg"
  by (auto simp: verifier_initial_def VerifierSM_accepts_def split: VerifierFullState.splits
      AriesMessage.splits PresentProof.splits Notification.splits)

interpretation verifier_router: message_router VerifierSM_accepts "\<lambda>m. \<not> verifier_initial m"
  verifier_finished verifier_thread_id
  by unfold_locales (auto simp: verifier_accepts_thread verifier_finished_iff VerifierSM_accepts_def)

subsection \<open>Operations as steps, and the abstract protocol\<close>

inductive verifier_op ::
    "lib \<Rightarrow> 'w profile \<Rightarrow> VerifierSM \<Rightarrow> 'w runtime \<Rightarrow> VerifierSM \<Rightarrow> 'w runtime \<Rightarrow> bool" for lib prof where
  vop_step: "VerifierSM_step lib prof send m a s = (Inr m', s') \<Longrightarrow> verifier_op lib prof m s m' s'"
| vop_set: "VerifierSM_set_request lib m d comment s = (Inr m', s') \<Longrightarrow> verifier_op lib prof m s m' s'"
| vop_mark: "VerifierSM_mark_presentation_request_msg_sent m = Inr m' \<Longrightarrow> verifier_op lib prof m s m' s"
| vop_send: "Verifier_send_presentation_request c m s = (Inr u, m', s') \<Longrightarrow> verifier_op lib prof m s m' s'"
| vop_reject: "VerifierSM_reject_presentation_proposal m reason c s = (Inr m', s') \<Longrightarrow> verifier_op lib prof m s m' s'"
| vop_verify: "VerifierSM_verify_presentation lib prof m p c s = (Inr m', s') \<Longrightarrow> verifier_op lib prof m s m' s'"
| vop_ack: "VerifierSM_send_presentation_ack m c s = (Inr m', s') \<Longrightarrow> verifier_op lib prof m s m' s'"

inductive verifier_protocol :: "VerifierState \<Rightarrow> VerifierState \<Rightarrow> bool" where
  "verifier_protocol VS_Initial VS_PresentationProposalReceived"
| "verifier_protocol VS_Initial VS_PresentationRequestSet"
| "verifier_protocol VS_PresentationProposalReceived VS_PresentationRequestSet"
| "verifier_protocol VS_PresentationProposalReceived VS_Failed"
| "verifier_protocol VS_PresentationRequestSet VS_PresentationRequestSent"
| "verifier_protocol VS_PresentationRequestSent VS_PresentationProposalReceived"
| "verifier_protocol VS_PresentationRequestSent VS_Finished"
| "verifier_protocol VS_PresentationRequestSent VS_Failed"

inductive_simps verifier_protocol_from [simp]:
  "verifier_protocol VS_Initial t" "verifier_protocol VS_PresentationProposalReceived t"
  "verifier_protocol VS_PresentationRequestSet t" "verifier_protocol VS_PresentationRequestSent t"
  "verifier_protocol VS_Finished t" "verifier_protocol VS_Failed t"

lemma verifier_state_names [simp]:
  "verifier_state m = V_Initial \<Longrightarrow> VerifierSM_get_state m = VS_Initial"
  "verifier_state m = V_PresentationRequestSet d1 \<Longrightarrow> VerifierSM_get_state m = VS_PresentationRequestSet"
  "verifier_state m = V_PresentationProposalReceived d2 \<Longrightarrow> VerifierSM_get_state m = VS_PresentationProposalReceived"
  "verifier_state m = V_PresentationRequestSent d3 \<Longrightarrow> VerifierSM_get_state m = VS_PresentationRequestSent"
  "verifier_state m = V_Finished f \<Longrightarrow> VerifierSM_get_state m = (if vfin_status f = Success then VS_Finished else VS_Failed)"
  by (auto simp: VerifierSM_get_state_def split: Status.splits)

text \<open>The anoncreds library accepted the proof of this presentation for this request, and the values
  that the proof reveals are encoded correctly.\<close>

definition proof_accepted :: "lib \<Rightarrow> 'w profile \<Rightarrow> RequestPresentation \<Rightarrow> Presentation \<Rightarrow> bool" where
  "proof_accepted lib prof req p =
     (\<exists>proof_json req_json schemas cred_defs rev_reg_defs rev_regs w w'.
        get_attach_as_string (lib_b64dec lib) (presentations_attach (msg_content p)) = Inr proof_json
      \<and> get_attach_as_string (lib_b64dec lib) (request_presentations_attach (msg_content req)) = Inr req_json
      \<and> validate_proof_revealed_attributes False lib proof_json = Inr ()
      \<and> ac_verifier_verify_proof prof req_json proof_json schemas cred_defs rev_reg_defs rev_regs w = (Inr True, w'))"

definition live :: "'w runtime \<Rightarrow> bool" where
  "live s = (\<not> rt_mocks s \<and> rt_mock_validate_proof s = None)"

lemma request_sent_verified:
  assumes "RequestSent_verify_presentation lib prof d p i s = (Inr u, s')" "live s"
  shows "proof_accepted lib prof (vsent_presentation_request d) p"
proof -
  obtain proof_json req_json t where
    a: "get_attach_as_string (lib_b64dec lib) (presentations_attach (msg_content p)) = Inr proof_json"
    "get_attach_as_string (lib_b64dec lib) (request_presentations_attach (msg_content (vsent_presentation_request d)))
       = Inr req_json"
    and v: "validate_indy_proof lib prof proof_json req_json s = (Inr True, t)"
    using assms(1) by (auto simp: RequestSent_verify_presentation_def vbind_Inr_iff split: if_splits) metis+
  have "rt_mock_validate_proof s = None" "\<not> rt_mocks s" using assms(2) by (simp_all add: live_def)
  from validate_indy_proof_accepts [OF v this] obtain schemas cred_defs rev_reg_defs rev_regs w w' where
    "validate_proof_revealed_attributes False lib proof_json = Inr ()"
    "ac_verifier_verify_proof prof req_json proof_json schemas cred_defs rev_reg_defs rev_regs w = (Inr True, w')"
    by blast
  then show ?thesis using a by (auto simp: proof_accepted_def) blast
qed

text \<open>The moves of the machine; \<open>accepted\<close> is what has to hold of a presentation reported as valid.\<close>

inductive verifier_move ::
    "(RequestPresentation \<Rightarrow> Presentation \<Rightarrow> bool) \<Rightarrow> VerifierSM \<Rightarrow> VerifierSM \<Rightarrow> bool" for accepted where
  vm_stay: "verifier_move accepted m m"
| vm_proposal: "verifier_state m = V_Initial \<or> (\<exists>d. verifier_state m = V_PresentationRequestSent d)
     \<Longrightarrow> verifier_move accepted m (m\<lparr>verifier_thread_id := i, verifier_state := V_PresentationProposalReceived p\<rparr>)"
| vm_set: "VerifierSM_get_state m \<in> {VS_Initial, VS_PresentationRequestSet, VS_PresentationProposalReceived}
     \<Longrightarrow> verifier_move accepted m (m\<lparr>verifier_state := V_PresentationRequestSet r\<rparr>)"
| vm_sent: "verifier_state m = V_PresentationRequestSet d
     \<Longrightarrow> verifier_move accepted m (m\<lparr>verifier_state := V_PresentationRequestSent (PresentationRequestSent_from d)\<rparr>)"
| vm_verified: "verifier_state m = V_PresentationRequestSent d
     \<Longrightarrow> (v = Valid \<Longrightarrow> accepted (vsent_presentation_request d) p)
     \<Longrightarrow> verifier_move accepted m (m\<lparr>verifier_state := V_Finished (VerifierFinished_from_verified d p v)\<rparr>)"
| vm_failed: "verifier_state m = V_PresentationRequestSent d
     \<Longrightarrow> verifier_move accepted m (m\<lparr>verifier_state := V_Finished (VerifierFinished_from_report d rep)\<rparr>)"
| vm_declined: "verifier_state m = V_PresentationProposalReceived d
     \<Longrightarrow> verifier_move accepted m (m\<lparr>verifier_thread_id := i,
           verifier_state := V_Finished (VerifierFinished_declined rep)\<rparr>)"

lemma verifier_same [simp]: "m\<lparr>verifier_thread_id := verifier_thread_id m, verifier_state := x\<rparr> = m\<lparr>verifier_state := x\<rparr>"
  by (cases m) simp

lemma verifier_receive_proposal_move:
  assumes "VerifierSM_receive_presentation_proposal mocks m p = Inr m'"
  shows "verifier_move accepted m m'"
  using assms vm_proposal [of m accepted, where i = "verifier_thread_id m"]
  by (auto simp: VerifierSM_receive_presentation_proposal_def res_simps intro: vm_stay vm_proposal
      split: VerifierFullState.splits)

lemma verifier_receive_reject_move:
  assumes "VerifierSM_receive_presentation_request_reject mocks m rep = Inr m'"
  shows "verifier_move accepted m m'"
  using assms
  by (auto simp: VerifierSM_receive_presentation_request_reject_def res_simps intro: vm_stay vm_failed
      split: VerifierFullState.splits)

lemma verifier_set_move:
  assumes "VerifierSM_set_request lib m d comment s = (Inr m', s')"
  shows "verifier_move accepted m m'"
  using assms
  by (auto simp: VerifierSM_set_request_def Let_def vbind_Inr_iff intro!: vm_set split: VerifierFullState.splits)

lemma verifier_mark_move:
  assumes "VerifierSM_mark_presentation_request_msg_sent m = Inr m'"
  shows "verifier_move accepted m m'"
proof (cases "verifier_state m")
  case (V_PresentationRequestSent d)
  then have "m' = m" using assms by (cases m) (simp add: VerifierSM_mark_presentation_request_msg_sent_def)
  then show ?thesis by (simp add: vm_stay)
qed (use assms in \<open>auto simp: VerifierSM_mark_presentation_request_msg_sent_def intro: vm_sent\<close>)

lemma verifier_send_move:
  assumes "Verifier_send_presentation_request c m s = (Inr u, m', s')"
  shows "verifier_move accepted m m'"
proof (cases "VerifierSM_get_state m = VS_PresentationRequestSet")
  case True
  then have "VerifierSM_mark_presentation_request_msg_sent m = Inr m'"
    using assms by (auto simp: Verifier_send_presentation_request_def hstore_def vbind_Inr_iff
        split: prod.splits sum.splits)
  then show ?thesis by (rule verifier_mark_move)
next
  case False
  then show ?thesis using assms by (auto simp: Verifier_send_presentation_request_def hstore_def run_simps intro: vm_stay)
qed

lemma verifier_reject_move:
  assumes "VerifierSM_reject_presentation_proposal m reason c s = (Inr m', s')"
  shows "verifier_move accepted m m'"
  using assms
  by (auto simp: VerifierSM_reject_presentation_proposal_def Let_def vbind_Inr_iff intro: vm_stay vm_declined
      split: VerifierFullState.splits)

lemma verifier_ack_move:
  assumes "VerifierSM_send_presentation_ack m c s = (Inr m', s')"
  shows "verifier_move accepted m m'"
  using assms
  by (auto simp: VerifierSM_send_presentation_ack_def vbind_Inr_iff intro: vm_stay split: VerifierFullState.splits)

lemma verifier_verify_move:
  assumes "VerifierSM_verify_presentation lib prof m p c s = (Inr m', s')"
  shows "verifier_move (\<lambda>req p'. live s \<longrightarrow> proof_accepted lib prof req p') m m'"
proof (cases "verifier_state m")
  case (V_PresentationRequestSent d)
  obtain r t where r: "RequestSent_verify_presentation lib prof d p (verifier_thread_id m) s = (r, t)" by force
  show ?thesis
  proof (cases r)
    case (Inr u)
    then have "live s \<longrightarrow> proof_accepted lib prof (vsent_presentation_request d) p"
      using request_sent_verified r by blast
    then show ?thesis
      using assms r Inr V_PresentationRequestSent
      by (auto simp: VerifierSM_verify_presentation_def vbind_Inr_iff vtry_Inr_iff intro: vm_verified)
  next
    case (Inl e)
    then show ?thesis
      using assms r V_PresentationRequestSent
      by (auto simp: VerifierSM_verify_presentation_def vbind_Inr_iff vtry_Inr_iff Let_def
          intro: vm_verified vm_failed)
  qed
qed (use assms in \<open>auto simp: VerifierSM_verify_presentation_def vbind_Inr_iff intro: vm_stay\<close>)

lemmas verifier_moves = verifier_receive_proposal_move verifier_receive_reject_move verifier_set_move
  verifier_mark_move verifier_send_move verifier_reject_move verifier_ack_move verifier_verify_move

lemma verifier_op_move:
  assumes "verifier_op lib prof m s m' s'"
  shows "verifier_move (\<lambda>req p. live s \<longrightarrow> proof_accepted lib prof req p) m m'"
  using assms
proof cases
  case (vop_step send a)
  then show ?thesis
    by (cases a) (auto simp: VerifierSM_step_def vbind_Inr_iff intro: verifier_moves vm_stay)
qed (erule verifier_moves)+

lemma verifier_move_protocol:
  assumes "verifier_move accepted m m'"
  shows "VerifierSM_get_state m' = VerifierSM_get_state m
       \<or> verifier_protocol (VerifierSM_get_state m) (VerifierSM_get_state m')"
  using assms
  by cases (auto simp: VerifierFinished_from_verified_def VerifierFinished_from_report_def
      VerifierFinished_declined_def)

inductive verifier_reach ::
    "lib \<Rightarrow> 'w profile \<Rightarrow> VerifierSM \<Rightarrow> VerifierSM \<Rightarrow> bool" for lib prof m0 where
  vreach_refl: "verifier_reach lib prof m0 m0"
| vreach_op: "verifier_reach lib prof m0 m \<Longrightarrow> live s \<Longrightarrow> verifier_op lib prof m s m' s'
     \<Longrightarrow> verifier_reach lib prof m0 m'"

definition verifier_inv :: "lib \<Rightarrow> 'w profile \<Rightarrow> VerifierSM \<Rightarrow> bool" where
  "verifier_inv lib prof m =
     (case verifier_state m of
        V_Finished f \<Rightarrow> vfin_verification_status f = Valid \<longrightarrow>
          (\<exists>req p. vfin_presentation_request f = Some req \<and> vfin_presentation f = Some p
             \<and> vfin_status f = Success \<and> proof_accepted lib prof req p)
      | _ \<Rightarrow> True)"

lemma verifier_move_inv:
  "verifier_move (proof_accepted lib prof) m m' \<Longrightarrow> verifier_inv lib prof m \<Longrightarrow> verifier_inv lib prof m'"
  by (induction rule: verifier_move.induct)
     (auto simp: verifier_inv_def VerifierFinished_from_verified_def VerifierFinished_from_report_def
        VerifierFinished_declined_def)

lemma verifier_reach_inv:
  assumes "verifier_reach lib prof m0 m" "verifier_inv lib prof m0"
  shows "verifier_inv lib prof m"
  using assms
proof induction
  case (vreach_op m s m' s')
  from verifier_op_move [OF vreach_op(3)] vreach_op(2)
  have "verifier_move (proof_accepted lib prof) m m'" by simp
  then show ?case using vreach_op verifier_move_inv by blast
qed simp

subsection \<open>Properties\<close>

text \<open>
  C1. Outside of test mode, a verifier that starts unfinished reports a presentation as valid only if
  the anoncreds library accepted the proof in it for the request that the verifier holds, and the
  revealed values are encoded correctly; the public state is then Finished.
\<close>

theorem verifier_valid_means_proof_accepted:
  assumes "verifier_reach lib prof m0 m" "\<not> verifier_finished m0"
    and "VerifierSM_get_verification_status m = Valid"
  shows "\<exists>req p. VerifierSM_presentation_request_msg m = Inr req \<and> VerifierSM_get_presentation_msg m = Inr p
     \<and> proof_accepted lib prof req p \<and> VerifierSM_get_state m = VS_Finished"
proof -
  have "verifier_inv lib prof m0"
    using assms(2) by (auto simp: verifier_inv_def verifier_finished_def split: VerifierFullState.splits)
  then have inv: "verifier_inv lib prof m" using verifier_reach_inv [OF assms(1)] by blast
  obtain f where f: "verifier_state m = V_Finished f" "vfin_verification_status f = Valid"
    using assms(3) by (auto simp: VerifierSM_get_verification_status_def split: VerifierFullState.splits)
  then show ?thesis
    using inv by (auto simp: verifier_inv_def VerifierSM_presentation_request_msg_def VerifierSM_get_presentation_msg_def)
qed

text \<open>
  Every operation of the verifier, those of the handler included, either leaves its public state
  as it is or makes one of the moves of the present-proof protocol on the verifier's side.
\<close>

theorem verifier_implements_protocol:
  assumes "verifier_op lib prof m s m' s'"
  shows "VerifierSM_get_state m' = VerifierSM_get_state m
       \<or> verifier_protocol (VerifierSM_get_state m) (VerifierSM_get_state m')"
  by (rule verifier_move_protocol [OF verifier_op_move [OF assms]])

text \<open>
  C35. A presentation that fails verification. When the error is \<open>InvalidProof\<close> the public state is
  Finished, as for a valid one, and only the verification status tells; for any other error it is
  Failed. In both cases the prover is sent a problem report on the thread.
\<close>

theorem verifier_failed_verification_outcome:
  assumes "verifier_state m = V_PresentationRequestSent d"
    and "verifier_verify_thread_id (rt_mocks s) (verifier_thread_id m) (VM_VerifyPresentation p) = Inr ()"
    and "RequestSent_verify_presentation lib prof d p (verifier_thread_id m) s = (Inl e, t)"
    and "\<And>msg w. \<exists>w'. send msg w = (Inr (), w')"
  shows "\<exists>m' s' report. VerifierSM_verify_presentation lib prof m p send s = (Inr m', s')
     \<and> rt_outbox s' = rt_outbox t @ [AM_Notification (N_ProblemReport report)]
     \<and> prd_thread (msg_decorators report) = Some (Thread_new (verifier_thread_id m))
     \<and> (if vcx_kind e = InvalidProof
        then VerifierSM_get_state m' = VS_Finished \<and> VerifierSM_get_verification_status m' = Invalid
        else VerifierSM_get_state m' = VS_Failed \<and> VerifierSM_get_verification_status m' = Unavailable)"
proof -
  let ?rep = "build_problem_report_msg (rt_uuid t (rt_draws t)) (Some (AriesVcxError_to_string e)) (verifier_thread_id m)"
  let ?n = "MsgParts_with_decorators (msg_id ?rep) (msg_content ?rep) (msg_decorators ?rep)"
  let ?sm = "if vcx_kind e = InvalidProof then V_Finished (VerifierFinished_from_verified d p Invalid)
     else V_Finished (VerifierFinished_from_report d ?rep)"
  obtain w where "send (AM_Notification (N_ProblemReport ?n)) (rt_world t) = (Inr (), w)" using assms(4) by blast
  then have "VerifierSM_verify_presentation lib prof m p send s =
      (Inr (m\<lparr>verifier_state := ?sm\<rparr>), t\<lparr>rt_draws := Suc (rt_draws t), rt_world := w,
         rt_outbox := rt_outbox t @ [AM_Notification (N_ProblemReport ?n)]\<rparr>)"
    using assms(1,2,3)
    by (simp add: VerifierSM_verify_presentation_def vbind_def vtry_def send_message_def run_simps Let_def)
  moreover have "prd_thread (msg_decorators ?n) = Some (Thread_new (verifier_thread_id m))"
    by (simp add: build_problem_report_msg_def Let_def MsgParts_with_decorators_def)
  ultimately show ?thesis
    by (intro exI conjI) (assumption | simp add: VerifierSM_get_verification_status_def
        VerifierFinished_from_verified_def VerifierFinished_from_report_def)+
qed

text \<open>
  A verifier made by \<open>create\<close> and given a request with \<open>set_request\<close> has the empty string as its
  thread id and as the id of the request message; made by \<open>create_from_request\<close> both are a fresh id.
\<close>

theorem verifier_created_request_ids:
  assumes "Verifier_create source_id = Inr m0"
    and "VerifierSM_set_request lib m0 data comment s = (Inr m1, s1)"
    and "Verifier_create_from_request lib source_id data s = (Inr m2, s2)"
  shows "(\<exists>r. VerifierSM_presentation_request_msg m1 = Inr r \<and> msg_id r = [] \<and> verifier_thread_id m1 = [])
       \<and> (\<exists>r. VerifierSM_presentation_request_msg m2 = Inr r \<and> msg_id r = rt_uuid s (rt_draws s)
            \<and> verifier_thread_id m2 = rt_uuid s (rt_draws s))"
  using assms
  by (auto simp: Verifier_create_def VerifierSM_new_def Verifier_create_from_request_def VerifierSM_from_request_def
      VerifierSM_set_request_def build_starting_presentation_request_def vbind_Inr_iff Let_def
      VerifierSM_presentation_request_msg_def MsgParts_with_decorators_def)

subsection \<open>The properties at concrete inputs\<close>

definition demo_sent_state :: PresentationRequestSentState where
  "demo_sent_state = \<lparr>vsent_presentation_request = MsgParts_with_decorators ''t1''
     (RequestPresentationContent_new [make_attach_from_str (lib_b64enc demo_lib) ''req'' ''a'']) opt_decorators_default\<rparr>"

definition demo_verifier :: VerifierSM where
  "demo_verifier = \<lparr>verifier_source_id = ''src'', verifier_thread_id = ''t1'',
     verifier_state = V_PresentationRequestSent demo_sent_state\<rparr>"

definition demo_shown :: Presentation where
  "demo_shown = MsgParts_with_decorators ''p1''
     (PresentationContent_new [make_attach_from_str (lib_b64enc demo_lib) ''proof'' ''a''])
     (ack_decorators_new (Thread_new ''t1''))"

definition demo_rejecting :: "unit profile" where
  "demo_rejecting = demo_profile\<lparr>ac_verifier_verify_proof := (\<lambda>_ _ _ _ _ _ w. (Inr False, w))\<rparr>"

lemmas verifier_eval = demo_verifier_def demo_sent_state_def demo_shown_def demo_rejecting_def
  VerifierSM_verify_presentation_def RequestSent_verify_presentation_def verifier_verify_thread_id_def
  build_verification_ack_def MsgParts_with_decorators_def ack_decorators_new_def Thread_new_def
  matches_thread_id_def PresentationContent_new_def RequestPresentationContent_new_def
  make_attach_from_str_def Attachment_new_def AttachmentData_new_def get_attach_as_string_def is_utf8_def
  cont_byte_def send_message_def proofs_eval

lemma demo_verify:
  "\<exists>m s'. VerifierSM_verify_presentation demo_lib demo_profile demo_verifier demo_shown demo_send demo_runtime
     = (Inr m, s') \<and> VerifierSM_get_verification_status m = Valid \<and> VerifierSM_get_state m = VS_Finished"
  by (simp add: verifier_eval VerifierSM_get_verification_status_def VerifierFinished_from_verified_def)

lemma demo_live: "live demo_runtime"
  by (simp add: live_def demo_runtime_def)

theorem verifier_valid_means_proof_accepted_witness:
  "\<exists>m req p. verifier_reach demo_lib demo_profile demo_verifier m
     \<and> VerifierSM_get_presentation_msg m = Inr p \<and> proof_accepted demo_lib demo_profile req p"
proof -
  obtain m s' where run: "VerifierSM_verify_presentation demo_lib demo_profile demo_verifier demo_shown demo_send
      demo_runtime = (Inr m, s')" "VerifierSM_get_verification_status m = Valid"
    using demo_verify by blast
  have r: "verifier_reach demo_lib demo_profile demo_verifier m"
    by (rule vreach_op [OF vreach_refl demo_live vop_verify [OF run(1)]])
  have "\<not> verifier_finished demo_verifier" by (simp add: verifier_finished_def demo_verifier_def)
  from verifier_valid_means_proof_accepted [OF r this run(2)] r show ?thesis by blast
qed

theorem verifier_implements_protocol_witness:
  "\<exists>m' s'. verifier_op demo_lib demo_profile demo_verifier demo_runtime m' s'
     \<and> verifier_protocol (VerifierSM_get_state demo_verifier) (VerifierSM_get_state m')"
proof -
  obtain m s' where run: "VerifierSM_verify_presentation demo_lib demo_profile demo_verifier demo_shown demo_send
      demo_runtime = (Inr m, s')" "VerifierSM_get_state m = VS_Finished"
    using demo_verify by blast
  have "verifier_op demo_lib demo_profile demo_verifier demo_runtime m s'" by (rule vop_verify [OF run(1)])
  moreover have "VerifierSM_get_state demo_verifier = VS_PresentationRequestSent" by (simp add: demo_verifier_def)
  ultimately show ?thesis using verifier_implements_protocol run(2) by force
qed

theorem verifier_failed_verification_outcome_witness:
  "\<exists>m' s'. VerifierSM_verify_presentation demo_lib demo_rejecting demo_verifier demo_shown demo_send demo_runtime
       = (Inr m', s')
     \<and> VerifierSM_get_state m' = VS_Finished \<and> VerifierSM_get_verification_status m' = Invalid"
proof -
  obtain e t where e: "RequestSent_verify_presentation demo_lib demo_rejecting demo_sent_state demo_shown
      (verifier_thread_id demo_verifier) demo_runtime = (Inl e, t)" "vcx_kind e = InvalidProof"
    by (simp add: verifier_eval AriesVcxError_from_msg_def)
  have "verifier_state demo_verifier = V_PresentationRequestSent demo_sent_state"
    "verifier_verify_thread_id (rt_mocks demo_runtime) (verifier_thread_id demo_verifier) (VM_VerifyPresentation demo_shown) = Inr ()"
    by (simp_all add: verifier_eval)
  moreover have "\<And>msg w. \<exists>w'. demo_send msg w = (Inr (), w')" by (simp add: demo_send_def)
  ultimately show ?thesis using verifier_failed_verification_outcome [OF _ _ e(1)] e(2) by metis
qed

theorem verifier_created_request_ids_witness:
  "\<exists>m1 s1 r. VerifierSM_set_request demo_lib (VerifierSM_new ''v'') ProofRequestData_default None demo_runtime = (Inr m1, s1)
     \<and> VerifierSM_presentation_request_msg m1 = Inr r \<and> msg_id r = []"
proof -
  obtain m1 s1 where 1: "VerifierSM_set_request demo_lib (VerifierSM_new ''v'') ProofRequestData_default None
      demo_runtime = (Inr m1, s1)"
    by (simp add: VerifierSM_set_request_def VerifierSM_new_def build_starting_presentation_request_def
        vbind_def run_simps Let_def)
  obtain m2 s2 where 2: "Verifier_create_from_request demo_lib ''v'' ProofRequestData_default demo_runtime = (Inr m2, s2)"
    by (simp add: Verifier_create_from_request_def VerifierSM_from_request_def VerifierSM_set_request_def
        build_starting_presentation_request_def vbind_def run_simps Let_def)
  from verifier_created_request_ids [OF _ 1 2] 1 show ?thesis by (auto simp: Verifier_create_def)
qed

end
