(* ===== verification/Merkle_Tree.thy ===== *)
theory Merkle_Tree
  imports Prelude "HOL-Library.Sublist"
begin

unbundle bit_operations_syntax

text \<open>
  The Merkle tree of the pool ledger (\<open>libvdrtools/src/services/ledger/merkletree\<close>: \<open>tree.rs\<close>,
  \<open>merkletree.rs\<close>, \<open>proof.rs\<close>, \<open>mod.rs\<close>) and the two hash functions of \<open>indy-utils/src/crypto/hash\<close>.

  SHA-256 is OpenSSL's: one run of a hashing context over its concatenated input is the parameter
  \<open>sha\<close>, which returns the digest or OpenSSL's error. A failed \<open>assert!\<close> is the error \<open>Assertion\<close>.
  \<open>usize\<close> counts are natural numbers: they are bounded by the length of a vector of transactions.

  Shown: appending one by one builds the tree that \<open>from_vec\<close> builds, with the same counters; the
  shape of the tree and its height; the leaf iterator yields the transactions in order; an inclusion
  proof of a stored value is generated and validates, though \<open>validate\<close> does not look at the value;
  an accepted consistency proof means that the old transactions are a prefix of the new ones.
\<close>

type_synonym bytes = "8 word list"

datatype 'e merkle_error = Assertion | Openssl 'e

type_synonym 'e hasher = "bytes \<Rightarrow> ('e, bytes) result"
type_synonym ('e, 'a) mresult = "('e merkle_error, 'a) result"

subsection \<open>Hashing\<close>

definition HASHBYTES :: nat where
  "HASHBYTES = 32"

definition EMPTY_HASH_BYTES :: bytes where
  "EMPTY_HASH_BYTES =
    [227, 176, 196, 66, 152, 252, 28, 20, 154, 251, 244, 200, 153, 111, 185, 36, 39, 174, 65, 228,
     100, 155, 147, 76, 164, 149, 153, 27, 120, 82, 184, 85]"

definition hash_leaf :: "'e hasher \<Rightarrow> bytes \<Rightarrow> ('e, bytes) mresult" where
  "hash_leaf sha leaf = map_err Openssl (sha (0x00 # leaf))"

definition hash_nodes :: "'e hasher \<Rightarrow> bytes \<Rightarrow> bytes \<Rightarrow> ('e, bytes) mresult" where
  "hash_nodes sha left right = map_err Openssl (sha (0x01 # left @ right))"

subsection \<open>Trees and their leaves\<close>

datatype Tree =
    Empty (tree_hash: bytes)
  | Leaf (tree_hash: bytes) bytes
  | Node (tree_hash: bytes) Tree Tree

definition Tree_new_leaf :: "'e hasher \<Rightarrow> bytes \<Rightarrow> ('e, Tree) mresult" where
  "Tree_new_leaf sha v = res_bind (hash_leaf sha v) (\<lambda>h. Inr (Leaf h v))"

fun Tree_get_height :: "Tree \<Rightarrow> nat" where
  "Tree_get_height (Empty _) = 0"
| "Tree_get_height (Node _ left right) = 1 + max (Tree_get_height left) (Tree_get_height right)"
| "Tree_get_height (Leaf _ _) = 0"

fun Tree_get_count :: "Tree \<Rightarrow> nat" where
  "Tree_get_count (Empty _) = 0"
| "Tree_get_count (Node _ left right) = Tree_get_count left + Tree_get_count right"
| "Tree_get_count (Leaf _ _) = 1"

text \<open>The vector \<open>right_nodes\<close> is used as a stack; its top is the head of the list.\<close>

record LeavesIterator =
  current_value :: "bytes option"
  right_nodes :: "Tree list"

fun LeavesIterator_add_left :: "LeavesIterator \<Rightarrow> Tree \<Rightarrow> LeavesIterator" where
  "LeavesIterator_add_left it (Empty _) = it\<lparr>current_value := None\<rparr>"
| "LeavesIterator_add_left it (Node _ left right) =
     LeavesIterator_add_left (it\<lparr>right_nodes := right # right_nodes it\<rparr>) left"
| "LeavesIterator_add_left it (Leaf _ v) = it\<lparr>current_value := Some v\<rparr>"

definition LeavesIterator_new :: "Tree \<Rightarrow> LeavesIterator" where
  "LeavesIterator_new root = LeavesIterator_add_left \<lparr>current_value = None, right_nodes = []\<rparr> root"

definition LeavesIterator_next :: "LeavesIterator \<Rightarrow> bytes option \<times> LeavesIterator" where
  "LeavesIterator_next it =
     (let it' = it\<lparr>current_value := None\<rparr>
      in (current_value it,
          case right_nodes it' of
            [] \<Rightarrow> it'
          | rest # stack \<Rightarrow> LeavesIterator_add_left (it'\<lparr>right_nodes := stack\<rparr>) rest))"

text \<open>Collecting calls \<open>next\<close> until it returns \<open>None\<close>; each call takes a node off the stack.\<close>

fun tree_nodes :: "Tree \<Rightarrow> nat" where
  "tree_nodes (Empty _) = 1"
| "tree_nodes (Leaf _ _) = 1"
| "tree_nodes (Node _ l r) = 1 + tree_nodes l + tree_nodes r"

definition pending :: "LeavesIterator \<Rightarrow> nat" where
  "pending it = sum_list (map tree_nodes (right_nodes it)) + (if current_value it = None then 0 else 1)"

lemma pending_add_left:
  "pending (LeavesIterator_add_left it t) \<le> sum_list (map tree_nodes (right_nodes it)) + tree_nodes t"
  by (induction it t rule: LeavesIterator_add_left.induct) (auto simp: pending_def)

lemma pending_next:
  assumes "LeavesIterator_next it = (Some v, it')"
  shows "pending it' < pending it"
proof (cases "right_nodes it")
  case Nil
  then show ?thesis using assms by (auto simp: LeavesIterator_next_def Let_def pending_def)
next
  case (Cons rest stack)
  then show ?thesis
    using assms pending_add_left [of "it\<lparr>current_value := None, right_nodes := stack\<rparr>" rest]
    by (auto simp: LeavesIterator_next_def Let_def pending_def)
qed

function LeavesIterator_collect :: "LeavesIterator \<Rightarrow> bytes list" where
  "LeavesIterator_collect it =
     (case LeavesIterator_next it of
        (None, _) \<Rightarrow> []
      | (Some v, it') \<Rightarrow> v # LeavesIterator_collect it')"
  by pat_completeness auto
termination
  by (relation "measure pending") (auto dest: pending_next [OF sym])

declare LeavesIterator_collect.simps [simp del]

subsection \<open>Building a tree from a vector\<close>

record MerkleTree =
  mt_root :: Tree
  mt_height :: nat
  mt_count :: nat
  mt_nodes_count :: nat

definition MerkleTree_default :: MerkleTree where
  "MerkleTree_default = \<lparr>mt_root = Empty EMPTY_HASH_BYTES, mt_height = 0, mt_count = 0, mt_nodes_count = 0\<rparr>"

text \<open>One pass of the inner loop over \<open>cur\<close>: the next level and the nodes counted so far.\<close>

fun next_level :: "'e hasher \<Rightarrow> Tree list \<Rightarrow> nat \<Rightarrow> ('e, Tree list \<times> nat) mresult" where
  "next_level sha [] nodes_count = Inr ([], nodes_count)"
| "next_level sha [t] nodes_count = Inr ([t], nodes_count)"
| "next_level sha (left # right # cur) nodes_count =
     res_bind (hash_nodes sha (tree_hash left) (tree_hash right)) (\<lambda>combined_hash.
     res_bind (next_level sha cur (nodes_count + 1)) (\<lambda>(nxt, n).
       Inr (Node combined_hash left right # nxt, n)))"

lemma next_level_length:
  "next_level sha cur n = Inr (nxt, n') \<Longrightarrow> length nxt = (length cur + 1) div 2"
  by (induction sha cur n arbitrary: nxt n' rule: next_level.induct) (auto simp: res_simps)

function build_levels :: "'e hasher \<Rightarrow> Tree list \<Rightarrow> nat \<Rightarrow> nat \<Rightarrow> ('e, Tree list \<times> nat \<times> nat) mresult" where
  "build_levels sha cur height nodes_count =
     (if length cur > 1 then
        (case next_level sha cur nodes_count of
           Inl e \<Rightarrow> Inl e
         | Inr (nxt, n) \<Rightarrow> build_levels sha nxt (height + 1) n)
      else Inr (cur, height, nodes_count))"
  by pat_completeness auto
termination
  by (relation "measure (\<lambda>(_, cur, _). length cur)") (auto dest!: next_level_length)

declare build_levels.simps [simp del]

definition from_vec :: "'e hasher \<Rightarrow> bytes list \<Rightarrow> ('e, MerkleTree) mresult" where
  "from_vec sha values =
     (if values = [] then Inr MerkleTree_default
      else res_bind (try_map (Tree_new_leaf sha) values) (\<lambda>cur.
           res_bind (build_levels sha cur 0 0) (\<lambda>(cur', height, nodes_count).
             case cur' of
               [root] \<Rightarrow> Inr \<lparr>mt_root = root, mt_height = height, mt_count = length values,
                              mt_nodes_count = nodes_count\<rparr>
             | _ \<Rightarrow> Inl Assertion)))"

definition MerkleTree_root_hash :: "MerkleTree \<Rightarrow> bytes" where
  "MerkleTree_root_hash self = tree_hash (mt_root self)"

definition MerkleTree_is_empty :: "MerkleTree \<Rightarrow> bool" where
  "MerkleTree_is_empty self = (mt_count self = 0)"

definition MerkleTree_iter :: "MerkleTree \<Rightarrow> LeavesIterator" where
  "MerkleTree_iter self = LeavesIterator_new (mt_root self)"

subsection \<open>Inclusion proofs\<close>

datatype 'a Positioned = PLeft 'a | PRight 'a

datatype Lemma = Lemma
  (node_hash: bytes) (sibling_hash: "bytes Positioned option") (sub_lemma: "Lemma option")

fun Lemma_new :: "Tree \<Rightarrow> bytes \<Rightarrow> Lemma option" where
  "Lemma_new (Empty _) needle = None"
| "Lemma_new (Leaf h _) needle = (if h = needle then Some (Lemma h None None) else None)"
| "Lemma_new (Node h left right) needle =
     (case Lemma_new left needle of
        Some sub \<Rightarrow> Some (Lemma h (Some (PRight (tree_hash right))) (Some sub))
      | None \<Rightarrow>
          (case Lemma_new right needle of
             Some sub \<Rightarrow> Some (Lemma h (Some (PLeft (tree_hash left))) (Some sub))
           | None \<Rightarrow> None))"

record Proof =
  proof_root_hash :: bytes
  proof_lemma :: Lemma
  proof_value :: bytes

fun validate_lemma :: "'e hasher \<Rightarrow> Lemma \<Rightarrow> ('e, bool) mresult" where
  "validate_lemma sha (Lemma h sibling None) = Inr (sibling = None)"
| "validate_lemma sha (Lemma h None (Some sub)) = Inr False"
| "validate_lemma sha (Lemma h (Some (PLeft hash)) (Some sub)) =
     res_bind (hash_nodes sha hash (node_hash sub)) (\<lambda>combined.
       if combined = h then validate_lemma sha sub else Inr False)"
| "validate_lemma sha (Lemma h (Some (PRight hash)) (Some sub)) =
     res_bind (hash_nodes sha (node_hash sub) hash) (\<lambda>combined.
       if combined = h then validate_lemma sha sub else Inr False)"

definition Proof_validate :: "'e hasher \<Rightarrow> Proof \<Rightarrow> bytes \<Rightarrow> ('e, bool) mresult" where
  "Proof_validate sha self root_hash =
     (if proof_root_hash self \<noteq> root_hash \<or> node_hash (proof_lemma self) \<noteq> root_hash then Inr False
      else validate_lemma sha (proof_lemma self))"

definition gen_proof :: "'e hasher \<Rightarrow> MerkleTree \<Rightarrow> bytes \<Rightarrow> ('e, Proof option) mresult" where
  "gen_proof sha self v =
     res_bind (hash_leaf sha v) (\<lambda>leaf_hash.
       Inr (map_option (\<lambda>l. \<lparr>proof_root_hash = MerkleTree_root_hash self, proof_lemma = l, proof_value = v\<rparr>)
              (Lemma_new (mt_root self) leaf_hash)))"

subsection \<open>Searching, appending and consistency\<close>

text \<open>An empty (sub)tree fails the assertion of \<open>find_hash\<close>.\<close>

fun find_hash :: "Tree \<Rightarrow> bytes \<Rightarrow> ('e, Tree option) mresult" where
  "find_hash (Empty _) required_hash = Inl Assertion"
| "find_hash (Node h left right) required_hash =
     (if h = required_hash then Inr (Some (Node h left right))
      else res_bind (find_hash right required_hash) (\<lambda>r.
        case r of Some t \<Rightarrow> Inr (Some t) | None \<Rightarrow> find_hash left required_hash))"
| "find_hash (Leaf h v) required_hash = Inr (if h = required_hash then Some (Leaf h v) else None)"

lemma and_nat_le: "m AND n \<le> (n::nat)"
proof -
  have "int (m AND n) \<le> int n" unfolding of_nat_and_eq by (rule AND_upper2) simp
  then show ?thesis by simp
qed

function count_bits_loop :: "nat \<Rightarrow> nat \<Rightarrow> nat" where
  "count_bits_loop val ret = (if val \<noteq> 0 then count_bits_loop (val AND (val - 1)) (ret + 1) else ret)"
  by pat_completeness auto
termination
proof (relation "measure fst")
  fix val ret :: nat
  assume "val \<noteq> 0"
  then show "((val AND (val - 1), ret + 1), val, ret) \<in> measure fst"
    using and_nat_le [of val "val - 1"] by simp
qed simp

declare count_bits_loop.simps [simp del]

definition count_bits :: "nat \<Rightarrow> nat" where
  "count_bits v = count_bits_loop v 0"

definition append_leaf :: "'e hasher \<Rightarrow> MerkleTree \<Rightarrow> bytes \<Rightarrow> ('e, MerkleTree) mresult" where
  "append_leaf sha self node =
     (if mt_count self = 0 then
        res_bind (Tree_new_leaf sha node) (\<lambda>leaf. Inr (self\<lparr>mt_root := leaf, mt_count := mt_count self + 1\<rparr>))
      else if count_bits (mt_count self) \<noteq> 1 then
        (case mt_root self of
           Node _ left right \<Rightarrow>
             res_bind (from_vec sha (LeavesIterator_collect (LeavesIterator_new right) @ [node])) (\<lambda>new_right.
             res_bind (hash_nodes sha (tree_hash left) (MerkleTree_root_hash new_right)) (\<lambda>combined_hash.
               Inr (self\<lparr>mt_root := Node combined_hash left (mt_root new_right),
                         mt_count := mt_count self + 1, mt_nodes_count := mt_nodes_count self + 1\<rparr>)))
         | _ \<Rightarrow> Inl Assertion)
      else
        res_bind (from_vec sha [node]) (\<lambda>new_right.
          case mt_root self of
            Node h l r \<Rightarrow>
              res_bind (hash_nodes sha h (MerkleTree_root_hash new_right)) (\<lambda>combined_hash.
                Inr (self\<lparr>mt_root := Node combined_hash (mt_root self) (mt_root new_right),
                          mt_count := mt_count self + 1, mt_nodes_count := mt_nodes_count self + 1,
                          mt_height := mt_height self + 1\<rparr>))
          | Leaf h v \<Rightarrow>
              res_bind (hash_nodes sha h (MerkleTree_root_hash new_right)) (\<lambda>combined_hash.
              res_bind (Tree_new_leaf sha v) (\<lambda>left.
                Inr (self\<lparr>mt_root := Node combined_hash left (mt_root new_right),
                          mt_count := mt_count self + 1, mt_nodes_count := mt_nodes_count self + 1,
                          mt_height := mt_height self + 1\<rparr>)))
          | Empty _ \<Rightarrow> Inl Assertion))"

text \<open>The three loops of \<open>consistency_proof\<close>; \<open>None\<close> is the early return of \<open>Ok(false)\<close> when the
  proof has no further hash.\<close>

fun skip_odd :: "nat \<Rightarrow> nat \<Rightarrow> nat \<times> nat" where
  "skip_odd old_node new_node =
     (if old_node mod 2 \<noteq> 0 then skip_odd (old_node div 2) (new_node div 2) else (old_node, new_node))"

declare skip_odd.simps [simp del]

fun climb_new :: "'e hasher \<Rightarrow> nat \<Rightarrow> bytes \<Rightarrow> bytes list \<Rightarrow> ('e, bytes option) mresult" where
  "climb_new sha new_node new_hash proofs =
     (if new_node \<noteq> 0 then
        (case proofs of
           [] \<Rightarrow> Inr None
         | n # proofs' \<Rightarrow>
             res_bind (hash_nodes sha new_hash n) (\<lambda>new_hash'. climb_new sha (new_node div 2) new_hash' proofs'))
      else Inr (Some new_hash))"

declare climb_new.simps [simp del]

fun climb_both :: "'e hasher \<Rightarrow> nat \<Rightarrow> nat \<Rightarrow> bytes \<Rightarrow> bytes \<Rightarrow> bytes list \<Rightarrow> ('e, (bytes \<times> bytes) option) mresult" where
  "climb_both sha old_node new_node old_hash new_hash proofs =
     (if old_node \<noteq> 0 then
        (if old_node mod 2 \<noteq> 0 then
           (case proofs of
              [] \<Rightarrow> Inr None
            | next_proof # proofs' \<Rightarrow>
                res_bind (hash_nodes sha next_proof old_hash) (\<lambda>old_hash'.
                res_bind (hash_nodes sha next_proof new_hash) (\<lambda>new_hash'.
                  climb_both sha (old_node div 2) (new_node div 2) old_hash' new_hash' proofs')))
         else if old_node < new_node then
           (case proofs of
              [] \<Rightarrow> Inr None
            | next_proof # proofs' \<Rightarrow>
                res_bind (hash_nodes sha new_hash next_proof) (\<lambda>new_hash'.
                  climb_both sha (old_node div 2) (new_node div 2) old_hash new_hash' proofs'))
         else climb_both sha (old_node div 2) (new_node div 2) old_hash new_hash proofs)
      else res_bind (climb_new sha new_node new_hash proofs) (\<lambda>r.
             Inr (map_option (Pair old_hash) r)))"

declare climb_both.simps [simp del]

definition consistency_proof :: "'e hasher \<Rightarrow> MerkleTree \<Rightarrow> bytes \<Rightarrow> nat \<Rightarrow> bytes list \<Rightarrow> ('e, bool) mresult" where
  "consistency_proof sha self new_root_hash new_size proof =
     (if mt_count self = 0 then Inr True
      else if mt_count self = new_size \<and> MerkleTree_root_hash self = new_root_hash then Inr True
      else if mt_count self > new_size then Inl Assertion
      else
        let (old_node, new_node) = skip_odd (mt_count self - 1) (new_size - 1);
            start = (if old_node \<noteq> 0 then (case proof of [] \<Rightarrow> None | p # ps \<Rightarrow> Some (p, ps))
                     else Some (MerkleTree_root_hash self, proof))
        in case start of
             None \<Rightarrow> Inr False
           | Some (h, proofs) \<Rightarrow>
               res_bind (climb_both sha old_node new_node h h proofs) (\<lambda>r.
                 Inr (case r of
                        None \<Rightarrow> False
                      | Some (old_hash, new_hash) \<Rightarrow>
                          new_hash = new_root_hash \<and> old_hash = MerkleTree_root_hash self)))"

subsection \<open>The leaves and their iterator\<close>

fun leaves :: "Tree \<Rightarrow> bytes list" where
  "leaves (Empty _) = []"
| "leaves (Leaf _ v) = [v]"
| "leaves (Node _ l r) = leaves l @ leaves r"

fun no_empty :: "Tree \<Rightarrow> bool" where
  "no_empty (Empty _) = False"
| "no_empty (Leaf _ _) = True"
| "no_empty (Node _ l r) = (no_empty l \<and> no_empty r)"

lemma add_left_result:
  "no_empty t \<Longrightarrow> list_all no_empty (right_nodes it) \<Longrightarrow>
     \<exists>v. current_value (LeavesIterator_add_left it t) = Some v
       \<and> v # concat (map leaves (right_nodes (LeavesIterator_add_left it t)))
           = leaves t @ concat (map leaves (right_nodes it))
       \<and> list_all no_empty (right_nodes (LeavesIterator_add_left it t))"
  by (induction it t rule: LeavesIterator_add_left.induct) auto

lemma collect_Some:
  "current_value it = Some v \<Longrightarrow> list_all no_empty (right_nodes it) \<Longrightarrow>
     LeavesIterator_collect it = v # concat (map leaves (right_nodes it))"
proof (induction it arbitrary: v rule: LeavesIterator_collect.induct)
  case (1 it)
  show ?case
  proof (cases "right_nodes it")
    case Nil
    then show ?thesis
      using 1(2) by (subst LeavesIterator_collect.simps, subst LeavesIterator_collect.simps)
        (auto simp: LeavesIterator_next_def)
  next
    case (Cons t ts)
    let ?it = "LeavesIterator_add_left (it\<lparr>current_value := None, right_nodes := ts\<rparr>) t"
    have step: "LeavesIterator_next it = (Some v, ?it)"
      using Cons 1(2) by (simp add: LeavesIterator_next_def)
    obtain w where w: "current_value ?it = Some w"
        "w # concat (map leaves (right_nodes ?it)) = leaves t @ concat (map leaves ts)"
        "list_all no_empty (right_nodes ?it)"
      using add_left_result [of t "it\<lparr>current_value := None, right_nodes := ts\<rparr>"] Cons 1(3) by auto
    then have "LeavesIterator_collect ?it = leaves t @ concat (map leaves ts)"
      using 1(1) [OF step [symmetric], of v w] by simp
    then show ?thesis
      using step Cons by (subst LeavesIterator_collect.simps) simp
  qed
qed

lemma collect_leaves:
  assumes "no_empty t"
  shows "LeavesIterator_collect (LeavesIterator_new t) = leaves t"
  using add_left_result [of t "\<lparr>current_value = None, right_nodes = []\<rparr>"] assms
  by (auto simp: LeavesIterator_new_def collect_Some)

lemma collect_empty: "LeavesIterator_collect (LeavesIterator_new (Empty h)) = []"
  by (subst LeavesIterator_collect.simps) (simp add: LeavesIterator_new_def LeavesIterator_next_def)

subsection \<open>Counting bits\<close>

fun popcount :: "nat \<Rightarrow> nat" where
  "popcount n = (if n = 0 then 0 else n mod 2 + popcount (n div 2))"

declare popcount.simps [simp del]

lemma popcount_simps [simp]:
  "popcount 0 = 0" "popcount (2 * n) = popcount n" "popcount (Suc (2 * n)) = Suc (popcount n)"
proof -
  show z: "popcount 0 = 0" by (subst popcount.simps) simp
  show "popcount (2 * n) = popcount n" using z by (subst popcount.simps) simp
  show "popcount (Suc (2 * n)) = Suc (popcount n)" by (subst popcount.simps) simp
qed

lemma and_pred_even: "0 < m \<Longrightarrow> 2 * m AND (2 * m - 1) = 2 * (m AND (m - 1))" for m :: nat
proof -
  assume "0 < m"
  then have "(2 * m - 1) div 2 = m - 1" by linarith
  then show ?thesis by (subst and_nat_rec) simp
qed

lemma and_pred_odd: "Suc (2 * m) AND 2 * m = 2 * m"
  by (simp add: and_nat_rec [of "Suc (2 * m)"])

lemma popcount_and_pred: "0 < n \<Longrightarrow> popcount n = Suc (popcount (n AND (n - 1)))"
proof (induction n rule: less_induct)
  case (less n)
  consider m where "n = 2 * m" "0 < m" | m where "n = Suc (2 * m)"
    using less.prems by (metis evenE oddE Suc_eq_plus1 mult_pos_pos nat_0_less_mult_iff)
  then show ?case
  proof cases
    case 1
    then show ?thesis using less.IH [of m] and_pred_even [of m] by simp
  next
    case 2
    then show ?thesis using and_pred_odd [of m] by simp
  qed
qed

lemma count_bits_loop_popcount: "count_bits_loop v r = popcount v + r"
proof (induction v r rule: count_bits_loop.induct)
  case (1 val ret)
  then show ?case using popcount_and_pred [of val] by (subst count_bits_loop.simps) auto
qed

lemma count_bits_popcount: "count_bits v = popcount v"
  by (simp add: count_bits_def count_bits_loop_popcount)

lemma popcount_0_iff: "popcount n = 0 \<longleftrightarrow> n = 0"
  using popcount_and_pred [of n] by (cases "n = 0") auto

lemma popcount_1_iff: "popcount n = 1 \<longleftrightarrow> (\<exists>k. n = 2 ^ k)"
proof (induction n rule: less_induct)
  case (less n)
  consider "n = 0" | m where "n = 2 * m" "0 < m" | m where "n = Suc (2 * m)"
    by (metis evenE oddE Suc_eq_plus1 mult_pos_pos nat_0_less_mult_iff neq0_conv)
  then show ?case
  proof cases
    case 2
    have "(\<exists>k. 2 * m = 2 ^ k) \<longleftrightarrow> (\<exists>k. m = 2 ^ k)"
    proof
      assume "\<exists>k. 2 * m = 2 ^ k"
      then obtain k where k: "2 * m = 2 ^ k" by blast
      then show "\<exists>k. m = 2 ^ k" by (cases k) auto
    qed (metis power_Suc)
    then show ?thesis using less.IH [of m] unfolding 2(1) by (simp add: 2(2))
  next
    case 3
    have "(\<exists>k. Suc (2 * m) = 2 ^ k) \<longleftrightarrow> m = 0"
    proof
      assume "\<exists>k. Suc (2 * m) = 2 ^ k"
      then obtain k where k: "Suc (2 * m) = 2 ^ k" by blast
      then show "m = 0" by (cases k) (simp, metis even_Suc even_mult_iff even_numeral power_Suc)
    qed (auto intro: exI [of _ 0])
    then show ?thesis unfolding 3 by (simp add: popcount_0_iff)
  qed auto
qed

lemma count_bits_1_iff: "count_bits n = 1 \<longleftrightarrow> (\<exists>k. n = 2 ^ k)"
  using popcount_1_iff by (simp add: count_bits_popcount)

subsection \<open>The shape of the tree\<close>

text \<open>The levels for a hash that does not fail: \<open>up\<close> is one pass, \<open>apex\<close> the last remaining tree.\<close>

definition branch :: "(bytes \<Rightarrow> bytes) \<Rightarrow> Tree \<Rightarrow> Tree \<Rightarrow> Tree" where
  "branch h l r = Node (h (0x01 # tree_hash l @ tree_hash r)) l r"

definition tip :: "(bytes \<Rightarrow> bytes) \<Rightarrow> bytes \<Rightarrow> Tree" where
  "tip h v = Leaf (h (0x00 # v)) v"

fun up :: "(bytes \<Rightarrow> bytes) \<Rightarrow> Tree list \<Rightarrow> Tree list" where
  "up h (l # r # ts) = branch h l r # up h ts"
| "up h ts = ts"

lemma length_up [simp]: "length (up h ts) = (length ts + 1) div 2"
  by (induction h ts rule: up.induct) auto

function apex :: "(bytes \<Rightarrow> bytes) \<Rightarrow> Tree list \<Rightarrow> Tree" where
  "apex h ts = (if length ts > 1 then apex h (up h ts) else hd ts)"
  by pat_completeness auto
termination by (relation "measure (\<lambda>(_, ts). length ts)") auto

declare apex.simps [simp del]

fun levels :: "nat \<Rightarrow> nat" where
  "levels n = (if n > 1 then 1 + levels ((n + 1) div 2) else 0)"

declare levels.simps [simp del]

lemma apex_single [simp]: "apex h [t] = t"
  by (simp add: apex.simps)

lemma up_append: "even (length ts) \<Longrightarrow> up h (ts @ us) = up h ts @ up h us"
  by (induction h ts rule: up.induct) auto

lemma levels_eq: "2 ^ k < n \<Longrightarrow> n \<le> 2 ^ Suc k \<Longrightarrow> levels n = Suc k"
proof (induction k arbitrary: n)
  case 0
  then have "n = 2" by simp
  then show ?case using levels.simps [of 2] levels.simps [of 1] by simp
next
  case (Suc k)
  have "1 < n" using Suc.prems(1) less_trans one_less_power [of "2::nat" "Suc k"] by simp
  then show ?case using Suc.IH [of "(n + 1) div 2"] Suc.prems by (subst levels.simps) auto
qed

lemma apex_split:
  "2 ^ k < length ts \<Longrightarrow> length ts \<le> 2 ^ Suc k \<Longrightarrow>
     apex h ts = branch h (apex h (take (2 ^ k) ts)) (apex h (drop (2 ^ k) ts))"
proof (induction k arbitrary: ts)
  case 0
  then obtain a b where "ts = [a, b]"
    by (cases ts; cases "tl ts") (auto simp: length_Suc_conv)
  then show ?case by (simp add: apex.simps [of h "[a, b]"])
next
  case (Suc k)
  let ?t = "take (2 ^ Suc k) ts" and ?d = "drop (2 ^ Suc k) ts"
  have len: "length ?t = 2 ^ Suc k" using Suc.prems by simp
  have up: "up h ts = up h ?t @ up h ?d" using up_append [of ?t h ?d] len by simp
  have lenu: "length (up h ?t) = 2 ^ k" using len by simp
  have "apex h ts = apex h (up h ts)" using Suc.prems one_le_power [of "2::nat" k] by (subst apex.simps) auto
  also have "\<dots> = branch h (apex h (take (2 ^ k) (up h ts))) (apex h (drop (2 ^ k) (up h ts)))"
    using Suc.prems by (intro Suc.IH) auto
  also have "take (2 ^ k) (up h ts) = up h ?t" using up lenu by simp
  also have "drop (2 ^ k) (up h ts) = up h ?d" using up lenu by simp
  also have "apex h (up h ?t) = apex h ?t"
    using len one_less_power [of "2::nat" "Suc k"] by (subst (2) apex.simps) simp
  also have "apex h (up h ?d) = apex h ?d"
  proof (cases "length ?d = 1")
    case True
    then obtain d where "?d = [d]" by (metis One_nat_def length_0_conv length_Suc_conv)
    then show ?thesis by simp
  next
    case False
    then show ?thesis using Suc.prems by (subst (2) apex.simps) auto
  qed
  finally show ?case .
qed

lemma up_nonempty [simp]: "up h ts = [] \<longleftrightarrow> ts = []"
  by (induction h ts rule: up.induct) auto

text \<open>A hash that does not fail; \<open>from_vec\<close> in terms of levels.\<close>

abbreviation sure :: "(bytes \<Rightarrow> bytes) \<Rightarrow> 'e hasher" where
  "sure h \<equiv> \<lambda>x. Inr (h x)"

lemma total_hash [simp]:
  "hash_leaf (sure h) v = Inr (h (0x00 # v))"
  "hash_nodes (sure h) l r = Inr (h (0x01 # l @ r))"
  "Tree_new_leaf (sure h) v = Inr (tip h v)"
  by (simp_all add: hash_leaf_def hash_nodes_def Tree_new_leaf_def tip_def)

lemma next_level_total: "next_level (sure h :: 'e hasher) cur n = Inr (up h cur, n + length cur div 2)"
  by (induction "sure h :: 'e hasher" cur n rule: next_level.induct) (simp_all add: branch_def)

lemma build_levels_total:
  "cur \<noteq> [] \<Longrightarrow> build_levels (sure h :: 'e hasher) cur height n
     = Inr ([apex h cur], height + levels (length cur), n + length cur - 1)"
proof (induction "sure h :: 'e hasher" cur height n rule: build_levels.induct)
  case (1 cur height n)
  show ?case
  proof (cases "length cur > 1")
    case True
    have "build_levels (sure h) cur height n
        = build_levels (sure h :: 'e hasher) (up h cur) (height + 1) (n + length cur div 2)"
      using True by (subst build_levels.simps) (simp add: next_level_total)
    also have "\<dots> = Inr ([apex h (up h cur)], height + 1 + levels ((length cur + 1) div 2),
        n + length cur div 2 + (length cur + 1) div 2 - 1)"
      using 1(1) [OF True next_level_total refl] 1(2) by simp
    also have "n + length cur div 2 + (length cur + 1) div 2 = n + length cur" by presburger
    finally show ?thesis
      using True by (simp add: apex.simps [of h cur] levels.simps [of "length cur"] add.assoc)
  next
    case False
    then obtain t where "cur = [t]" using 1(2) by (cases cur) auto
    then show ?thesis by (subst build_levels.simps) (simp add: levels.simps)
  qed
qed

definition tree_of :: "(bytes \<Rightarrow> bytes) \<Rightarrow> bytes list \<Rightarrow> Tree" where
  "tree_of h vs = (if vs = [] then Empty EMPTY_HASH_BYTES else apex h (map (tip h) vs))"

definition merkle_of :: "(bytes \<Rightarrow> bytes) \<Rightarrow> bytes list \<Rightarrow> MerkleTree" where
  "merkle_of h vs = \<lparr>mt_root = tree_of h vs, mt_height = levels (length vs), mt_count = length vs,
                     mt_nodes_count = length vs - 1\<rparr>"

lemma from_vec_total: "from_vec (sure h :: 'e hasher) vs = Inr (merkle_of h vs)"
proof (cases "vs = []")
  case True
  then show ?thesis by (simp add: from_vec_def MerkleTree_default_def merkle_of_def tree_of_def levels.simps)
next
  case False
  have "try_map (Tree_new_leaf (sure h :: 'e hasher)) vs = Inr (map (tip h) vs)"
    by (induction vs) simp_all
  then show ?thesis
    using False by (simp add: from_vec_def build_levels_total merkle_of_def tree_of_def)
qed

subsection \<open>Appending\<close>

lemma tree_of_single: "tree_of h [v] = tip h v"
  by (simp add: tree_of_def)

lemma tree_of_split:
  "2 ^ k < length vs \<Longrightarrow> length vs \<le> 2 ^ Suc k \<Longrightarrow>
     tree_of h vs = branch h (tree_of h (take (2 ^ k) vs)) (tree_of h (drop (2 ^ k) vs))"
  using apex_split [of k "map (tip h) vs" h] by (auto simp: tree_of_def take_map drop_map)

lemma split_exponent: "2 \<le> n \<Longrightarrow> \<exists>k. 2 ^ k < n \<and> n \<le> 2 ^ Suc k" for n :: nat
proof (induction n rule: less_induct)
  case (less n)
  show ?case
  proof (cases "n = 2")
    case False
    then have "(n + 1) div 2 < n" "2 \<le> (n + 1) div 2" using less.prems by linarith+
    then obtain k where "2 ^ k < (n + 1) div 2" "(n + 1) div 2 \<le> 2 ^ Suc k"
      using less.IH by blast
    then have "2 ^ Suc k < n \<and> n \<le> 2 ^ Suc (Suc k)" by auto
    then show ?thesis by blast
  qed (auto intro: exI [of _ 0])
qed

lemma tree_of_leaves: "vs \<noteq> [] \<Longrightarrow> leaves (tree_of h vs) = vs \<and> no_empty (tree_of h vs)"
proof (induction "length vs" arbitrary: vs rule: less_induct)
  case less
  show ?case
  proof (cases "2 \<le> length vs")
    case True
    then obtain k where "2 ^ k < length vs" "length vs \<le> 2 ^ Suc k" using split_exponent by blast
    moreover have "length (take (2 ^ k) vs) < length vs" "length (drop (2 ^ k) vs) < length vs"
      "take (2 ^ k) vs \<noteq> []" "drop (2 ^ k) vs \<noteq> []"
      using calculation by auto
    ultimately show ?thesis
      using less(1) by (simp add: tree_of_split branch_def)
  next
    case False
    then obtain v where "vs = [v]" using less(2) by (cases vs; cases "tl vs") auto
    then show ?thesis by (simp add: tree_of_single tip_def)
  qed
qed

lemma append_total_layer:
  assumes "length vs = 2 ^ k"
  shows "append_leaf (sure h) (merkle_of h vs) v = Inr (merkle_of h (vs @ [v]))"
proof -
  have k: "2 ^ k < length (vs @ [v])" "length (vs @ [v]) \<le> 2 ^ Suc k" using assms by auto
  have split: "tree_of h (vs @ [v]) = branch h (tree_of h vs) (tip h v)"
    using tree_of_split [OF k, of h] assms by (simp add: tree_of_single)
  have "levels (length vs) = k"
  proof (cases k)
    case 0
    then show ?thesis using assms by (simp add: levels.simps)
  next
    case (Suc j)
    then show ?thesis using assms by (simp add: levels_eq [of j])
  qed
  then have lev: "levels (length (vs @ [v])) = Suc (levels (length vs))" using levels_eq [OF k] by simp
  have "count_bits (length vs) = 1" using assms count_bits_1_iff by blast
  moreover have "length vs \<noteq> 0" using assms by simp
  moreover have "no_empty (tree_of h vs)" using tree_of_leaves [of vs h] calculation by auto
  moreover have "tree_of h vs = Leaf d w \<Longrightarrow> tree_of h vs = tip h w" for d w
    using tree_of_leaves [of vs h] calculation(2) by (cases vs) (auto simp: tree_of_single)
  ultimately show ?thesis
    using split lev
    by (cases "tree_of h vs")
       (auto simp: append_leaf_def merkle_of_def from_vec_total MerkleTree_root_hash_def tree_of_single branch_def tip_def)
qed

lemma append_total_right:
  assumes "2 ^ k < length vs" "length vs < 2 ^ Suc k"
  shows "append_leaf (sure h) (merkle_of h vs) v = Inr (merkle_of h (vs @ [v]))"
proof -
  let ?l = "take (2 ^ k) vs" and ?r = "drop (2 ^ k) vs"
  have k: "2 ^ k < length (vs @ [v])" "length (vs @ [v]) \<le> 2 ^ Suc k" using assms by auto
  have old: "tree_of h vs = branch h (tree_of h ?l) (tree_of h ?r)"
    using assms by (intro tree_of_split) auto
  have new: "tree_of h (vs @ [v]) = branch h (tree_of h ?l) (tree_of h (?r @ [v]))"
    using tree_of_split [OF k, of h] assms by simp
  have lev: "levels (length (vs @ [v])) = levels (length vs)"
    using levels_eq [OF k] levels_eq [of k "length vs"] assms by simp
  have "length vs \<noteq> 2 ^ j" for j
  proof
    assume "length vs = 2 ^ j"
    then have "k < j" "j < Suc k"
      using assms power_less_imp_less_exp [of "2::nat" k j] power_less_imp_less_exp [of "2::nat" j "Suc k"] by simp_all
    then show False by simp
  qed
  then have "count_bits (length vs) \<noteq> 1" using count_bits_1_iff by blast
  moreover have "LeavesIterator_collect (LeavesIterator_new (tree_of h ?r)) = ?r"
    using tree_of_leaves [of ?r h] collect_leaves [of "tree_of h ?r"] assms by auto
  moreover have "length vs \<noteq> 0" using assms by auto
  ultimately show ?thesis
    using old new lev
    by (simp add: append_leaf_def merkle_of_def from_vec_total MerkleTree_root_hash_def branch_def)
qed

lemma append_total: "append_leaf (sure h) (merkle_of h vs) v = Inr (merkle_of h (vs @ [v]))"
proof -
  consider "vs = []" | k where "length vs = 2 ^ k" | k where "2 ^ k < length vs" "length vs < 2 ^ Suc k"
  proof (cases "2 \<le> length vs")
    case True
    then obtain k where "2 ^ k < length vs" "length vs \<le> 2 ^ Suc k" using split_exponent by blast
    then show ?thesis using that(2,3) by (metis le_neq_implies_less)
  next
    case False
    then show ?thesis using that(1) that(2) [of 0] by (cases vs; cases "tl vs") auto
  qed
  then show ?thesis
  proof cases
    case 1
    then show ?thesis
      by (simp add: append_leaf_def merkle_of_def tree_of_single) (simp add: levels.simps)
  qed (simp_all add: append_total_layer append_total_right)
qed

fun append_all :: "'e hasher \<Rightarrow> MerkleTree \<Rightarrow> bytes list \<Rightarrow> ('e, MerkleTree) mresult" where
  "append_all sha m [] = Inr m"
| "append_all sha m (v # vs) = res_bind (append_leaf sha m v) (\<lambda>m'. append_all sha m' vs)"

lemma append_all_total: "append_all (sure h) (merkle_of h vs) ws = Inr (merkle_of h (vs @ ws))"
  by (induction ws arbitrary: vs) (simp_all add: append_total)

subsection \<open>Inclusion proofs\<close>

text \<open>Every hash in the tree is the digest of what stands below it.\<close>

fun hashed :: "'e hasher \<Rightarrow> Tree \<Rightarrow> bool" where
  "hashed sha (Empty h) = (h = EMPTY_HASH_BYTES)"
| "hashed sha (Leaf h v) = (sha (0x00 # v) = Inr h)"
| "hashed sha (Node h l r) = (sha (0x01 # tree_hash l @ tree_hash r) = Inr h \<and> hashed sha l \<and> hashed sha r)"

lemma hash_leaf_Inr_iff: "hash_leaf sha v = Inr h \<longleftrightarrow> sha (0x00 # v) = Inr h"
  by (simp add: hash_leaf_def map_err_Inr_iff)

lemma hash_nodes_Inr_iff: "hash_nodes sha l r = Inr h \<longleftrightarrow> sha (0x01 # l @ r) = Inr h"
  by (simp add: hash_nodes_def map_err_Inr_iff)

lemma Tree_new_leaf_Inr_iff: "Tree_new_leaf sha v = Inr t \<longleftrightarrow> (\<exists>h. sha (0x00 # v) = Inr h \<and> t = Leaf h v)"
  by (auto simp: Tree_new_leaf_def res_simps hash_leaf_Inr_iff)

lemma Lemma_new_hash: "Lemma_new t needle = Some l \<Longrightarrow> node_hash l = tree_hash t"
  by (cases t) (auto split: if_splits option.splits)

lemma Lemma_new_valid: "hashed sha t \<Longrightarrow> Lemma_new t needle = Some l \<Longrightarrow> validate_lemma sha l = Inr True"
proof (induction t arbitrary: l)
  case (Node h t1 t2)
  then show ?case
    by (auto simp: hash_nodes_def Lemma_new_hash split: option.splits)
qed (auto split: if_splits)

lemma Lemma_new_Some:
  "hashed sha t \<Longrightarrow> v \<in> set (leaves t) \<Longrightarrow> sha (0x00 # v) = Inr d \<Longrightarrow> \<exists>l. Lemma_new t d = Some l"
  by (induction t) (auto split: option.splits)

lemma Lemma_new_leaf: "hashed sha t \<Longrightarrow> Lemma_new t d = Some l \<Longrightarrow> \<exists>v \<in> set (leaves t). sha (0x00 # v) = Inr d"
  by (induction t arbitrary: l) (auto split: if_splits option.splits)

lemma next_level_hashed:
  "next_level sha cur n = Inr (nxt, n') \<Longrightarrow> list_all (hashed sha) cur \<Longrightarrow> list_all (hashed sha) nxt"
  by (induction sha cur n arbitrary: nxt n' rule: next_level.induct) (auto simp: res_simps hash_nodes_Inr_iff)

lemma next_level_leaves:
  "next_level sha cur n = Inr (nxt, n') \<Longrightarrow> concat (map leaves nxt) = concat (map leaves cur)"
  by (induction sha cur n arbitrary: nxt n' rule: next_level.induct) (auto simp: res_simps)

lemma build_levels_hashed:
  "build_levels sha cur height n = Inr (cur', height', n') \<Longrightarrow> list_all (hashed sha) cur \<Longrightarrow>
     list_all (hashed sha) cur' \<and> concat (map leaves cur') = concat (map leaves cur)"
proof (induction sha cur height n rule: build_levels.induct)
  case (1 sha cur height n)
  show ?case
  proof (cases "length cur > 1")
    case True
    then obtain nxt m where step: "next_level sha cur n = Inr (nxt, m)"
        "build_levels sha nxt (height + 1) m = Inr (cur', height', n')"
      using 1(2) by (subst (asm) build_levels.simps) (auto split: sum.splits)
    then show ?thesis
      using 1(1) [OF True step(1) refl step(2)] 1(3) next_level_hashed next_level_leaves by metis
  next
    case False
    then show ?thesis using 1(2,3) by (subst (asm) build_levels.simps) auto
  qed
qed

lemma new_leaves:
  "try_map (Tree_new_leaf sha) vs = Inr ts \<Longrightarrow> list_all (hashed sha) ts \<and> concat (map leaves ts) = vs"
  by (induction vs arbitrary: ts) (auto simp: res_bind_Inr_iff Tree_new_leaf_Inr_iff)

lemma from_vec_build:
  assumes "from_vec sha vs = Inr m" "vs \<noteq> []"
  obtains ts where "try_map (Tree_new_leaf sha) vs = Inr ts" "mt_count m = length vs"
    "build_levels sha ts 0 0 = Inr ([mt_root m], mt_height m, mt_nodes_count m)"
proof -
  obtain ts where ts: "try_map (Tree_new_leaf sha) vs = Inr ts"
    using assms by (cases "try_map (Tree_new_leaf sha) vs") (auto simp: from_vec_def)
  obtain cur' height n where lv: "build_levels sha ts 0 0 = Inr (cur', height, n)"
    using assms ts by (cases "build_levels sha ts 0 0") (auto simp: from_vec_def)
  then obtain root where "cur' = [root]"
      "m = \<lparr>mt_root = root, mt_height = height, mt_count = length vs, mt_nodes_count = n\<rparr>"
    using assms ts by (auto simp: from_vec_def split: list.splits)
  then show thesis using ts lv that by simp
qed

lemma from_vec_hashed:
  assumes "from_vec sha vs = Inr m"
  shows "hashed sha (mt_root m)" "leaves (mt_root m) = vs" "mt_count m = length vs"
proof -
  have "hashed sha (mt_root m) \<and> leaves (mt_root m) = vs \<and> mt_count m = length vs"
  proof (cases "vs = []")
    case True
    then show ?thesis using assms by (auto simp: from_vec_def MerkleTree_default_def)
  next
    case False
    then obtain ts where "try_map (Tree_new_leaf sha) vs = Inr ts" "mt_count m = length vs"
        "build_levels sha ts 0 0 = Inr ([mt_root m], mt_height m, mt_nodes_count m)"
      using from_vec_build [OF assms] by blast
    then show ?thesis using new_leaves [of sha vs ts] build_levels_hashed by fastforce
  qed
  then show "hashed sha (mt_root m)" "leaves (mt_root m) = vs" "mt_count m = length vs" by auto
qed

subsection \<open>Consistency proofs\<close>

text \<open>No two inputs that were hashed have the same digest, and digests have 32 bytes.\<close>

definition collision_free :: "'e hasher \<Rightarrow> bool" where
  "collision_free sha \<longleftrightarrow> (\<forall>x y d. sha x = Inr d \<longrightarrow> sha y = Inr d \<longrightarrow> x = y)
     \<and> (\<forall>x d. sha x = Inr d \<longrightarrow> length d = HASHBYTES)"

lemma collision_freeD:
  assumes "collision_free sha"
  shows "sha x = Inr d \<Longrightarrow> sha y = Inr d \<Longrightarrow> x = y" "sha x = Inr d \<Longrightarrow> length d = HASHBYTES"
  using assms by (auto simp: collision_free_def)

lemma hashed_length: "collision_free sha \<Longrightarrow> hashed sha t \<Longrightarrow> length (tree_hash t) = HASHBYTES"
  by (cases t) (auto simp: collision_free_def EMPTY_HASH_BYTES_def HASHBYTES_def)

lemma next_level_nth:
  "next_level sha cur n = Inr (nxt, n') \<Longrightarrow> 2 * q + 1 < length cur \<Longrightarrow>
     \<exists>d. nxt ! q = Node d (cur ! (2 * q)) (cur ! (2 * q + 1))
       \<and> sha (0x01 # tree_hash (cur ! (2 * q)) @ tree_hash (cur ! (2 * q + 1))) = Inr d"
proof (induction sha cur n arbitrary: q nxt n' rule: next_level.induct)
  case (3 sha l r cur n)
  then show ?case by (cases q) (auto simp: res_bind_Inr_iff hash_nodes_Inr_iff)
qed auto

lemma next_level_last:
  "next_level sha cur n = Inr (nxt, n') \<Longrightarrow> 2 * q + 1 = length cur \<Longrightarrow> nxt ! q = cur ! (2 * q)"
proof (induction sha cur n arbitrary: q nxt n' rule: next_level.induct)
  case (3 sha l r cur n)
  then obtain p where p: "q = Suc p" by (cases q) auto
  then have len: "length cur = Suc (2 * p)" using 3(3) by simp
  obtain d nxt' where "nxt = Node d l r # nxt'" "next_level sha cur (n + 1) = Inr (nxt', n')"
    using 3(2) by (auto simp: res_bind_Inr_iff)
  then show ?case using 3(1) [where q = p] 3(2) p len by (auto simp: res_bind_Inr_iff)
qed auto

text \<open>A level of hashed trees and the level above it.\<close>

definition above :: "'e hasher \<Rightarrow> Tree list \<Rightarrow> Tree list \<Rightarrow> bool" where
  "above sha L L' \<longleftrightarrow> list_all (hashed sha) L \<and> (\<exists>a a'. next_level sha L a = Inr (L', a'))"

lemma aboveD:
  assumes "above sha L L'"
  shows "length L' = (length L + 1) div 2" "list_all (hashed sha) L'"
    "2 * q + 1 < length L \<Longrightarrow> sha (0x01 # tree_hash (L ! (2 * q)) @ tree_hash (L ! (2 * q + 1))) = Inr (tree_hash (L' ! q))"
    "2 * q + 1 = length L \<Longrightarrow> L' ! q = L ! (2 * q)"
  using assms next_level_length next_level_hashed next_level_last next_level_nth [of sha L _ L' _ q]
  by (fastforce simp: above_def)+

lemma nth_hash_length:
  "collision_free sha \<Longrightarrow> above sha L L' \<Longrightarrow> k < length L \<Longrightarrow> length (tree_hash (L ! k)) = HASHBYTES"
  using hashed_length by (auto simp: above_def list_all_length)

lemma pair_eq:
  assumes cf: "collision_free sha" and L: "above sha L L'" and M: "above sha M M'"
    and len: "2 * q + 1 < length L" "2 * q + 1 < length M" and eq: "tree_hash (L' ! q) = tree_hash (M' ! q)"
  shows "tree_hash (L ! (2 * q)) = tree_hash (M ! (2 * q))"
    and "tree_hash (L ! (2 * q + 1)) = tree_hash (M ! (2 * q + 1))"
proof -
  have "0x01 # tree_hash (L ! (2 * q)) @ tree_hash (L ! (2 * q + 1))
      = 0x01 # tree_hash (M ! (2 * q)) @ tree_hash (M ! (2 * q + 1))"
    using collision_freeD(1) [OF cf aboveD(3) [OF L len(1)]] aboveD(3) [OF M len(2)] eq by simp
  then show "tree_hash (L ! (2 * q)) = tree_hash (M ! (2 * q))"
    and "tree_hash (L ! (2 * q + 1)) = tree_hash (M ! (2 * q + 1))"
    using nth_hash_length [OF cf L, of "2 * q"] nth_hash_length [OF cf M, of "2 * q"] len by auto
qed

lemma below_eq:
  assumes cf: "collision_free sha" and L: "above sha L L'" and M: "above sha M M'"
    and eq: "\<And>q. q < n \<Longrightarrow> tree_hash (L' ! q) = tree_hash (M' ! q)"
    and m: "m < 2 * n" "2 * n \<le> length L" "2 * n \<le> length M"
  shows "tree_hash (L ! m) = tree_hash (M ! m)"
proof -
  have q: "m div 2 < n" using m(1) by auto
  then have "2 * (m div 2) + 1 < length L" "2 * (m div 2) + 1 < length M" using m(2,3) by linarith+
  moreover have "m = 2 * (m div 2) \<or> m = 2 * (m div 2) + 1" by presburger
  ultimately show ?thesis using pair_eq [OF cf L M _ _ eq [OF q]] by metis
qed

text \<open>\<open>tower sha L R\<close>: building the levels above \<open>L\<close> ends with the root \<open>R\<close>.\<close>

inductive tower :: "'e hasher \<Rightarrow> Tree list \<Rightarrow> Tree \<Rightarrow> bool" for sha where
  tower_root: "hashed sha R \<Longrightarrow> tower sha [R] R"
| tower_level: "1 < length L \<Longrightarrow> above sha L L' \<Longrightarrow> tower sha L' R \<Longrightarrow> tower sha L R"

inductive_cases tower_singleE: "tower sha [t] R"
inductive_cases towerE: "tower sha L R"

lemma tower_above:
  "tower sha L R \<Longrightarrow> 1 < length L \<Longrightarrow> (\<And>L'. above sha L L' \<Longrightarrow> tower sha L' R \<Longrightarrow> P) \<Longrightarrow> P"
  by (auto elim: towerE)

lemma tower_single: "tower sha L R \<Longrightarrow> length L = Suc 0 \<Longrightarrow> L = [R] \<and> hashed sha R"
  by (auto elim: towerE)

lemma build_levels_tower:
  "build_levels sha cur height n = Inr ([R], height', n') \<Longrightarrow> list_all (hashed sha) cur \<Longrightarrow> tower sha cur R"
proof (induction sha cur height n rule: build_levels.induct)
  case (1 sha cur height n)
  show ?case
  proof (cases "length cur > 1")
    case True
    then obtain nxt m where step: "next_level sha cur n = Inr (nxt, m)"
        "build_levels sha nxt (height + 1) m = Inr ([R], height', n')"
      using 1(2) by (subst (asm) build_levels.simps) (auto split: sum.splits)
    have "above sha cur nxt" using step(1) 1(3) by (auto simp: above_def)
    then show ?thesis
      using tower_level [OF True] 1(1) [OF True step(1) refl step(2)] aboveD(2) by blast
  next
    case False
    then show ?thesis using 1(2,3) by (subst (asm) build_levels.simps) (auto intro: tower_root)
  qed
qed

lemma climb_new_sound:
  "collision_free sha \<Longrightarrow> tower sha M R \<Longrightarrow> length M = j + 1 \<Longrightarrow>
     climb_new sha j x proofs = Inr (Some (tree_hash R)) \<Longrightarrow> length x = HASHBYTES \<Longrightarrow> x = tree_hash (M ! 0)"
proof (induction sha j x proofs arbitrary: M rule: climb_new.induct)
  case (1 sha j x proofs)
  show ?case
  proof (cases "j = 0")
    case True
    then show ?thesis using 1(3-5) tower_single [of sha M R] by (simp add: climb_new.simps)
  next
    case False
    then obtain n ps x' where step: "proofs = n # ps" "sha (0x01 # x @ n) = Inr x'"
        "climb_new sha (j div 2) x' ps = Inr (Some (tree_hash R))"
      using 1(5) by (subst (asm) climb_new.simps) (auto simp: res_bind_Inr_iff hash_nodes_Inr_iff split: list.splits)
    obtain M' where M': "above sha M M'" "tower sha M' R" using tower_above [OF 1(3)] 1(4) False by auto
    have "x' = tree_hash (M' ! 0)"
      using 1(1) [OF False step(1) 1(2) M'(2) _ step(3)] aboveD(1) [OF M'(1)] 1(4) collision_freeD(2) [OF 1(2) step(2)]
      by simp
    then have "0x01 # x @ n = 0x01 # tree_hash (M ! 0) @ tree_hash (M ! 1)"
      using collision_freeD(1) [OF 1(2) step(2)] aboveD(3) [OF M'(1), of 0] 1(4) False by simp
    then show ?thesis using 1(6) nth_hash_length [OF 1(2) M'(1), of 0] 1(4) by simp
  qed
qed

text \<open>What the climb has established when it stands at index \<open>i\<close> of the two levels.\<close>

definition agreed :: "Tree list \<Rightarrow> Tree list \<Rightarrow> nat \<Rightarrow> bytes \<Rightarrow> bytes \<Rightarrow> bool" where
  "agreed L M i oh nh \<longleftrightarrow>
     (oh = nh \<or> length nh = HASHBYTES \<longrightarrow>
        (\<forall>m < i. tree_hash (L ! m) = tree_hash (M ! m))
        \<and> (oh = nh \<longrightarrow> tree_hash (L ! i) = tree_hash (M ! i))
        \<and> (length nh = HASHBYTES \<longrightarrow> oh = tree_hash (L ! i) \<and> nh = tree_hash (M ! i)))"

lemma agreedD:
  assumes "agreed L M i oh nh" "length nh = HASHBYTES"
  shows "m < i \<Longrightarrow> tree_hash (L ! m) = tree_hash (M ! m)" "oh = tree_hash (L ! i)" "nh = tree_hash (M ! i)"
  using assms by (auto simp: agreed_def)

lemma agreed_odd:
  assumes cf: "collision_free sha" and L: "above sha L L'" and M: "above sha M M'"
    and len: "length L = 2 * q + 2" "2 * q + 2 \<le> length M"
    and oh: "sha (0x01 # p @ oh) = Inr oh'" and nh: "sha (0x01 # p @ nh) = Inr nh'"
    and up: "agreed L' M' q oh' nh'"
  shows "agreed L M (2 * q + 1) oh nh"
proof -
  note up' = agreedD [OF up collision_freeD(2) [OF cf nh]]
  have eqs: "p @ oh = tree_hash (L ! (2 * q)) @ tree_hash (L ! (2 * q + 1))"
      "p @ nh = tree_hash (M ! (2 * q)) @ tree_hash (M ! (2 * q + 1))"
    using collision_freeD(1) [OF cf oh, of "0x01 # tree_hash (L ! (2 * q)) @ tree_hash (L ! (2 * q + 1))"]
      collision_freeD(1) [OF cf nh, of "0x01 # tree_hash (M ! (2 * q)) @ tree_hash (M ! (2 * q + 1))"]
      aboveD(3) [OF L, of q] aboveD(3) [OF M, of q] up'(2,3) len by auto
  have lens: "length (tree_hash (L ! (2 * q))) = HASHBYTES" "length (tree_hash (L ! (2 * q + 1))) = HASHBYTES"
      "length (tree_hash (M ! (2 * q))) = HASHBYTES" "length (tree_hash (M ! (2 * q + 1))) = HASHBYTES"
    using nth_hash_length [OF cf L] nth_hash_length [OF cf M] len by auto
  have same: "tree_hash (L ! (2 * q)) = tree_hash (M ! (2 * q)) \<and> tree_hash (L ! (2 * q + 1)) = tree_hash (M ! (2 * q + 1))"
    if "oh = nh" using eqs lens that by simp
  have len32: "p = tree_hash (L ! (2 * q)) \<and> oh = tree_hash (L ! (2 * q + 1))
      \<and> p = tree_hash (M ! (2 * q)) \<and> nh = tree_hash (M ! (2 * q + 1))" if "length nh = HASHBYTES"
  proof -
    have "length p = HASHBYTES" using arg_cong [OF eqs(2), of length] lens that by simp
    then show ?thesis using eqs lens by simp
  qed
  have "tree_hash (L ! m) = tree_hash (M ! m)" if "m < 2 * q" for m
    using below_eq [OF cf L M up'(1), of q m] that len by simp
  then show ?thesis
    using same len32 by (auto simp: agreed_def less_Suc_eq)
qed

lemma agreed_left:
  assumes cf: "collision_free sha" and L: "above sha L L'" and M: "above sha M M'"
    and len: "length L = 2 * q + 1" "2 * q + 2 \<le> length M"
    and nh: "sha (0x01 # nh @ p) = Inr nh'" and up: "agreed L' M' q oh nh'"
  shows "agreed L M (2 * q) oh nh"
proof -
  note up' = agreedD [OF up collision_freeD(2) [OF cf nh]]
  have oh: "oh = tree_hash (L ! (2 * q))" using up'(2) aboveD(4) [OF L, of q] len by simp
  have "nh @ p = tree_hash (M ! (2 * q)) @ tree_hash (M ! (2 * q + 1))"
    using collision_freeD(1) [OF cf nh, of "0x01 # tree_hash (M ! (2 * q)) @ tree_hash (M ! (2 * q + 1))"]
      aboveD(3) [OF M, of q] up'(3) len by auto
  moreover have "length (tree_hash (L ! (2 * q))) = HASHBYTES" "length (tree_hash (M ! (2 * q))) = HASHBYTES"
    using nth_hash_length [OF cf L] nth_hash_length [OF cf M] len by auto
  ultimately have nh: "nh = tree_hash (M ! (2 * q))" if "oh = nh \<or> length nh = HASHBYTES"
    using that oh by auto
  have "tree_hash (L ! m) = tree_hash (M ! m)" if "m < 2 * q" for m
    using below_eq [OF cf L M up'(1), of q m] that len by simp
  then show ?thesis using oh nh by (auto simp: agreed_def)
qed

lemma agreed_same:
  assumes cf: "collision_free sha" and L: "above sha L L'" and M: "above sha M M'"
    and len: "length L = 2 * q + 1" "length M = 2 * q + 1" and up: "agreed L' M' q oh nh"
  shows "agreed L M (2 * q) oh nh"
proof -
  have "tree_hash (L ! m) = tree_hash (M ! m)"
    if "oh = nh \<or> length nh = HASHBYTES" "m < 2 * q" for m
    using below_eq [OF cf L M, of q m] that len up by (simp add: agreed_def)
  moreover have "L' ! q = L ! (2 * q)" "M' ! q = M ! (2 * q)" using aboveD(4) [OF L] aboveD(4) [OF M] len by simp_all
  ultimately show ?thesis using up unfolding agreed_def by metis
qed

lemma climb_both_sound:
  "collision_free sha \<Longrightarrow> tower sha L RL \<Longrightarrow> tower sha M RM \<Longrightarrow> length L = i + 1 \<Longrightarrow> length M = j + 1 \<Longrightarrow> i \<le> j \<Longrightarrow>
     climb_both sha i j oh nh proofs = Inr (Some (tree_hash RL, tree_hash RM)) \<Longrightarrow> agreed L M i oh nh"
proof (induction sha i j oh nh proofs arbitrary: L M rule: climb_both.induct)
  case (1 sha i j oh nh proofs)
  note cf = 1(4) and len = 1(7,8)
  show ?case
  proof (cases "i = 0")
    case True
    then have "climb_new sha j nh proofs = Inr (Some (tree_hash RM))" "oh = tree_hash RL"
      using 1(10) by (auto simp: climb_both.simps res_bind_Inr_iff)
    moreover have "L = [RL]" "hashed sha RL" using tower_single [OF 1(5)] len(1) True by auto
    ultimately show ?thesis
      using True climb_new_sound [OF cf 1(6) len(2)] hashed_length [OF cf] by (auto simp: agreed_def)
  next
    case False
    obtain L' where L': "above sha L L'" "tower sha L' RL" using tower_above [OF 1(5)] len(1) False by auto
    obtain M' where M': "above sha M M'" "tower sha M' RM" using tower_above [OF 1(6)] len(2) 1(9) False by auto
    have len': "length L' = i div 2 + 1" "length M' = j div 2 + 1" "i div 2 \<le> j div 2"
      using aboveD(1) [OF L'(1)] aboveD(1) [OF M'(1)] len 1(9) by auto
    define q where "q = i div 2"
    consider "i = 2 * q + 1" | "i = 2 * q" "i < j" | "i = 2 * q" "i = j"
      using 1(9) unfolding q_def by linarith
    then show ?thesis
    proof cases
      case 1
      then have odd: "i mod 2 \<noteq> 0" by simp
      then obtain p ps oh' nh' where step: "proofs = p # ps" "sha (0x01 # p @ oh) = Inr oh'" "sha (0x01 # p @ nh) = Inr nh'"
          "climb_both sha (i div 2) (j div 2) oh' nh' ps = Inr (Some (tree_hash RL, tree_hash RM))"
        using \<open>climb_both sha i j oh nh proofs = _\<close> False
        by (subst (asm) climb_both.simps) (auto simp: res_bind_Inr_iff hash_nodes_Inr_iff split: list.splits)
      have "agreed L' M' q oh' nh'"
        using "1.IH"(1) [OF False odd step(1) cf L'(2) M'(2) len' step(4)] by (simp add: q_def)
      then show ?thesis
        using agreed_odd [OF cf L'(1) M'(1) _ _ step(2,3)] len 1 \<open>i \<le> j\<close> by simp
    next
      case 2
      then have even: "\<not> i mod 2 \<noteq> 0" by simp
      then obtain p ps nh' where step: "proofs = p # ps" "sha (0x01 # nh @ p) = Inr nh'"
          "climb_both sha (i div 2) (j div 2) oh nh' ps = Inr (Some (tree_hash RL, tree_hash RM))"
        using \<open>climb_both sha i j oh nh proofs = _\<close> False 2(2)
        by (subst (asm) climb_both.simps) (auto simp: res_bind_Inr_iff hash_nodes_Inr_iff split: list.splits)
      have "agreed L' M' q oh nh'"
        using "1.IH"(2) [OF False even 2(2) step(1) cf L'(2) M'(2) len' step(3)] by (simp add: q_def)
      then show ?thesis using agreed_left [OF cf L'(1) M'(1) _ _ step(2)] len 2 by simp
    next
      case 3
      then have even: "\<not> i mod 2 \<noteq> 0" by simp
      then have step: "climb_both sha (i div 2) (j div 2) oh nh proofs = Inr (Some (tree_hash RL, tree_hash RM))"
        using \<open>climb_both sha i j oh nh proofs = _\<close> False 3(2) by (subst (asm) climb_both.simps) auto
      have "agreed L' M' q oh nh"
        using "1.IH"(3) [OF False even _ cf L'(2) M'(2) len' step] 3(2) by (simp add: q_def)
      then show ?thesis using agreed_same [OF cf L'(1) M'(1)] len 3 by simp
    qed
  qed
qed

lemma skip_odd_sound:
  "collision_free sha \<Longrightarrow> tower sha L RL \<Longrightarrow> tower sha M RM \<Longrightarrow> length L = i + 1 \<Longrightarrow> length M = j + 1 \<Longrightarrow> i \<le> j \<Longrightarrow>
     skip_odd i j = (i', j') \<Longrightarrow> climb_both sha i' j' h h proofs = Inr (Some (tree_hash RL, tree_hash RM)) \<Longrightarrow>
     m \<le> i \<Longrightarrow> tree_hash (L ! m) = tree_hash (M ! m)"
proof (induction i j arbitrary: L M m rule: skip_odd.induct)
  case (1 i j)
  note cf = 1(2) and len = 1(5,6)
  show ?case
  proof (cases "i mod 2 \<noteq> 0")
    case True
    then obtain q where q: "i = 2 * q + 1" by (metis odd_iff_mod_2_eq_one mod2_eq_if oddE)
    obtain L' where L': "above sha L L'" "tower sha L' RL" using tower_above [OF 1(3)] len(1) q by auto
    obtain M' where M': "above sha M M'" "tower sha M' RM" using tower_above [OF 1(4)] len(2) 1(7) q by auto
    have len': "length L' = i div 2 + 1" "length M' = j div 2 + 1" "i div 2 \<le> j div 2"
      using aboveD(1) [OF L'(1)] aboveD(1) [OF M'(1)] len 1(7) by auto
    have "skip_odd (i div 2) (j div 2) = (i', j')" using 1(8) True by (subst (asm) skip_odd.simps) simp
    then have "tree_hash (L' ! k) = tree_hash (M' ! k)" if "k < q + 1" for k
      using 1(1) [OF True cf L'(2) M'(2) len' _ 1(9), of k] that q by simp
    then show ?thesis using below_eq [OF cf L'(1) M'(1), of "q + 1" m] len q 1(7,10) by simp
  next
    case False
    then have "i' = i" "j' = j" using 1(8) by (simp_all add: skip_odd.simps)
    then show ?thesis
      using climb_both_sound [OF cf 1(3,4) len 1(7)] 1(9,10) by (auto simp: agreed_def le_less)
  qed
qed

lemma roots_equal:
  "tower sha L RL \<Longrightarrow> collision_free sha \<Longrightarrow> tower sha M RM \<Longrightarrow> length L = length M \<Longrightarrow> tree_hash RL = tree_hash RM \<Longrightarrow>
     m < length L \<Longrightarrow> tree_hash (L ! m) = tree_hash (M ! m)"
proof (induction arbitrary: M m rule: tower.induct)
  case (tower_root R)
  then show ?case using tower_single [of sha M RM] by auto
next
  case (tower_level L L' R)
  obtain M' where M': "above sha M M'" "tower sha M' RM" using tower_above [OF tower_level(6)] tower_level(1,7) by auto
  have up: "tree_hash (L' ! k) = tree_hash (M' ! k)" if "k < length L'" for k
    using tower_level(4) [OF tower_level(5) M'(2) _ tower_level(8) that]
      aboveD(1) [OF tower_level(2)] aboveD(1) [OF M'(1)] tower_level(7) by simp
  show ?case
  proof (cases "m = 2 * (length L div 2)")
    case True
    then have "2 * (length L div 2) + 1 = length L" using tower_level(9) by presburger
    then show ?thesis
      using aboveD(4) [OF tower_level(2), of "length L div 2"] aboveD(4) [OF M'(1), of "length L div 2"]
        up [of "length L div 2"] aboveD(1) [OF tower_level(2)] True tower_level(7) by simp
  next
    case False
    then have "m < 2 * (length L div 2)" using tower_level(9) by presburger
    then show ?thesis
      using below_eq [OF tower_level(5,2) M'(1) up, of "length L div 2" m] aboveD(1) [OF tower_level(2)] tower_level(7)
      by simp
  qed
qed

subsection \<open>Trees built with a hash that may fail\<close>

text \<open>\<open>represents sha m vs\<close>: \<open>m\<close> is the tree of the values \<open>vs\<close>, and all its hashes were computed.\<close>

definition digest :: "'e hasher \<Rightarrow> bytes \<Rightarrow> bytes" where
  "digest sha x = (case sha x of Inr d \<Rightarrow> d | Inl _ \<Rightarrow> [])"

definition represents :: "'e hasher \<Rightarrow> MerkleTree \<Rightarrow> bytes list \<Rightarrow> bool" where
  "represents sha m vs \<longleftrightarrow> m = merkle_of (digest sha) vs \<and> hashed sha (mt_root m)"

lemma digest_hash:
  "hash_leaf sha v = Inr d \<Longrightarrow> digest sha (0x00 # v) = d"
  "hash_nodes sha l r = Inr d \<Longrightarrow> digest sha (0x01 # l @ r) = d"
  "Tree_new_leaf sha v = Inr t \<Longrightarrow> t = tip (digest sha) v"
  by (auto simp: digest_def hash_leaf_Inr_iff hash_nodes_Inr_iff Tree_new_leaf_Inr_iff tip_def)

lemma next_level_sure: "next_level (sha :: 'e hasher) cur n = Inr r \<Longrightarrow> next_level (sure (digest sha) :: 'e hasher) cur n = Inr r"
  by (induction sha cur n arbitrary: r rule: next_level.induct) (auto simp: res_bind_Inr_iff digest_hash)

lemma build_levels_sure:
  "build_levels (sha :: 'e hasher) cur height n = Inr r \<Longrightarrow> build_levels (sure (digest sha) :: 'e hasher) cur height n = Inr r"
proof (induction sha cur height n rule: build_levels.induct)
  case (1 sha cur height n)
  show ?case
  proof (cases "length cur > 1")
    case True
    then obtain nxt m where step: "next_level sha cur n = Inr (nxt, m)" "build_levels sha nxt (height + 1) m = Inr r"
      using 1(2) by (subst (asm) build_levels.simps) (auto split: sum.splits)
    then show ?thesis
      using 1(1) [OF True step(1) refl step(2)] next_level_sure [OF step(1)] True by (subst build_levels.simps) simp
  next
    case False
    then show ?thesis using 1(2) by (simp add: build_levels.simps)
  qed
qed

lemma from_vec_sure:
  assumes "from_vec (sha :: 'e hasher) vs = Inr m"
  shows "m = merkle_of (digest sha) vs"
proof -
  have leaves: "try_map (Tree_new_leaf sha) vs = Inr ts \<Longrightarrow> try_map (Tree_new_leaf (sure (digest sha) :: 'e hasher)) vs = Inr ts" for ts
    by (induction vs arbitrary: ts) (auto simp: res_bind_Inr_iff dest: digest_hash(3))
  have "from_vec (sure (digest sha) :: 'e hasher) vs = Inr m"
    using assms leaves build_levels_sure by (fastforce simp: from_vec_def res_bind_Inr_iff split: if_splits)
  then show ?thesis by (simp add: from_vec_total)
qed

lemma from_vec_represents: "from_vec sha vs = Inr m \<Longrightarrow> represents sha m vs"
  using from_vec_sure from_vec_hashed(1) by (auto simp: represents_def)

lemma append_leaf_sure:
  assumes "append_leaf (sha :: 'e hasher) m v = Inr m'"
  shows "append_leaf (sure (digest sha) :: 'e hasher) m v = Inr m'"
  using assms
  by (cases "mt_root m")
     (auto simp: append_leaf_def res_bind_Inr_iff digest_hash from_vec_total dest!: from_vec_sure digest_hash(3)
      split: if_splits)

lemma append_leaf_hashed:
  assumes "append_leaf sha m v = Inr m'" "hashed sha (mt_root m)"
  shows "hashed sha (mt_root m')"
  using assms
  by (cases "mt_root m")
     (auto simp: append_leaf_def res_bind_Inr_iff hash_nodes_Inr_iff Tree_new_leaf_Inr_iff MerkleTree_root_hash_def
      dest!: from_vec_hashed(1) split: if_splits)

lemma append_represents:
  assumes "represents (sha :: 'e hasher) m vs" "append_leaf sha m v = Inr m'"
  shows "represents sha m' (vs @ [v])"
proof -
  have "append_leaf (sure (digest sha) :: 'e hasher) (merkle_of (digest sha) vs) v = Inr m'"
    using append_leaf_sure [OF assms(2)] assms(1) by (simp add: represents_def)
  then show ?thesis
    using append_leaf_hashed [OF assms(2)] assms(1) by (auto simp: append_total represents_def)
qed

lemma append_all_represents:
  "represents sha m vs \<Longrightarrow> append_all sha m ws = Inr m' \<Longrightarrow> represents sha m' (vs @ ws)"
proof (induction ws arbitrary: m vs)
  case (Cons w ws)
  obtain m1 where "append_leaf sha m w = Inr m1" "append_all sha m1 ws = Inr m'"
    using Cons.prems(2) by (auto simp: res_bind_Inr_iff)
  then show ?case using Cons.IH [OF append_represents] Cons.prems(1) by fastforce
qed simp

lemma hashed_up:
  "list_all (hashed sha) (up (digest sha) L) \<Longrightarrow>
     list_all (hashed sha) L \<and> next_level sha L n = Inr (up (digest sha) L, n + length L div 2)"
proof (induction "digest sha" L arbitrary: n rule: up.induct)
  case (1 l r ts)
  then have "sha (0x01 # tree_hash l @ tree_hash r) = Inr (digest sha (0x01 # tree_hash l @ tree_hash r))"
    by (simp add: branch_def)
  then show ?case using 1 by (simp add: branch_def hash_nodes_def)
qed simp_all

lemma apex_tower:
  "L \<noteq> [] \<Longrightarrow> hashed sha (apex (digest sha) L) \<Longrightarrow> tower sha L (apex (digest sha) L)"
proof (induction "digest sha" L rule: apex.induct)
  case (1 L)
  show ?case
  proof (cases "1 < length L")
    case True
    then have tower: "tower sha (up (digest sha) L) (apex (digest sha) L)"
      using 1(1) [OF True] 1(2,3) by (simp add: apex.simps [of _ L])
    then have "list_all (hashed sha) (up (digest sha) L)"
      by (cases rule: tower.cases) (auto simp: above_def)
    then show ?thesis
      using tower_level [OF True _ tower] hashed_up [of sha L] by (auto simp: above_def)
  next
    case False
    then obtain t where "L = [t]" using 1(2) by (cases L; cases "tl L") auto
    then show ?thesis using 1(3) by (auto intro: tower_root)
  qed
qed

lemma represents_tower:
  assumes "represents sha m vs" "vs \<noteq> []"
  obtains L where "tower sha L (mt_root m)" "length L = length vs"
    "\<And>k. k < length vs \<Longrightarrow> sha (0x00 # vs ! k) = Inr (tree_hash (L ! k))"
proof -
  let ?L = "map (tip (digest sha)) vs"
  have "tower sha ?L (mt_root m)"
    using apex_tower [of ?L sha] assms by (auto simp: represents_def merkle_of_def tree_of_def)
  moreover from this have "list_all (hashed sha) ?L"
    by (cases rule: tower.cases) (auto simp: above_def)
  ultimately show thesis using that [of ?L] by (auto simp: list_all_length tip_def)
qed

lemma prefixI_nth: "length xs \<le> length ys \<Longrightarrow> (\<And>k. k < length xs \<Longrightarrow> xs ! k = ys ! k) \<Longrightarrow> prefix xs ys"
  by (metis nth_take_lemma order_refl take_all take_is_prefix)

lemma consistency_proof_True:
  assumes "consistency_proof sha m root n proof = Inr True" "mt_count m \<noteq> 0"
  shows "mt_count m = n \<and> MerkleTree_root_hash m = root
    \<or> mt_count m \<le> n \<and> (\<exists>i j h ps. skip_odd (mt_count m - 1) (n - 1) = (i, j)
         \<and> climb_both sha i j h h ps = Inr (Some (MerkleTree_root_hash m, root)))"
  using assms by (auto simp: consistency_proof_def Let_def res_bind_Inr_iff split: if_splits prod.splits option.splits list.splits)

lemma consistency_sound_represents:
  assumes cf: "collision_free sha" and old: "represents sha old vs" and new: "represents sha new ws"
    and ok: "consistency_proof sha old (MerkleTree_root_hash new) (length ws) proof = Inr True"
  shows "prefix vs ws"
proof (cases "vs = []")
  case False
  have count: "mt_count old = length vs" using old by (simp add: represents_def merkle_of_def)
  then have cases: "length vs = length ws \<and> MerkleTree_root_hash old = MerkleTree_root_hash new
      \<or> length vs \<le> length ws \<and> (\<exists>i j h ps. skip_odd (length vs - 1) (length ws - 1) = (i, j)
         \<and> climb_both sha i j h h ps = Inr (Some (MerkleTree_root_hash old, MerkleTree_root_hash new)))"
    using consistency_proof_True [OF ok] False by simp
  then have "ws \<noteq> []" using False by auto
  obtain L where L: "tower sha L (mt_root old)" "length L = length vs"
      "\<And>k. k < length vs \<Longrightarrow> sha (0x00 # vs ! k) = Inr (tree_hash (L ! k))"
    using represents_tower [OF old False] by blast
  obtain M where M: "tower sha M (mt_root new)" "length M = length ws"
      "\<And>k. k < length ws \<Longrightarrow> sha (0x00 # ws ! k) = Inr (tree_hash (M ! k))"
    using represents_tower [OF new \<open>ws \<noteq> []\<close>] by blast
  have eq: "tree_hash (L ! k) = tree_hash (M ! k)" if "k < length vs" for k
    using cases
  proof
    assume "length vs = length ws \<and> MerkleTree_root_hash old = MerkleTree_root_hash new"
    then show ?thesis using roots_equal [OF L(1) cf M(1)] L(2) M(2) that by (simp add: MerkleTree_root_hash_def)
  next
    assume "length vs \<le> length ws \<and> (\<exists>i j h ps. skip_odd (length vs - 1) (length ws - 1) = (i, j)
         \<and> climb_both sha i j h h ps = Inr (Some (MerkleTree_root_hash old, MerkleTree_root_hash new)))"
    then show ?thesis
      using skip_odd_sound [OF cf L(1) M(1), of "length vs - 1" "length ws - 1"] L(2) M(2) that False \<open>ws \<noteq> []\<close>
      by (auto simp: MerkleTree_root_hash_def Suc_leI diff_le_mono)
  qed
  have le: "length vs \<le> length ws" using cases by auto
  then have "vs ! k = ws ! k" if "k < length vs" for k
    using collision_freeD(1) [OF cf L(3) [OF that]] M(3) [of k] eq [OF that] that by fastforce
  then show ?thesis using le by (rule prefixI_nth [rotated])
qed simp

lemma build_levels_invariant:
  assumes "\<And>h l r. P l \<Longrightarrow> P r \<Longrightarrow> P (Node h l r)"
  shows "build_levels sha cur height n = Inr (cur', height', n') \<Longrightarrow> list_all P cur \<Longrightarrow> list_all P cur'"
proof (induction sha cur height n rule: build_levels.induct)
  case (1 sha cur height n)
  have next_all: "list_all P ts \<Longrightarrow> list_all P ts'" if "next_level sha ts k = Inr (ts', k')" for ts ts' k k'
    using that by (induction sha ts k arbitrary: ts' k' rule: next_level.induct) (auto simp: res_simps assms)
  show ?case
  proof (cases "length cur > 1")
    case True
    then show ?thesis
      using 1(1) [OF True _ refl] 1(2,3) next_all by (subst (asm) (2) build_levels.simps) (fastforce split: sum.splits)
  next
    case False
    then show ?thesis using 1(2,3) by (subst (asm) build_levels.simps) auto
  qed
qed

lemma from_vec_no_empty:
  assumes "from_vec sha vs = Inr m" "vs \<noteq> []"
  shows "no_empty (mt_root m)"
proof -
  obtain ts where ts: "try_map (Tree_new_leaf sha) vs = Inr ts"
      "build_levels sha ts 0 0 = Inr ([mt_root m], mt_height m, mt_nodes_count m)"
    using from_vec_build [OF assms] by blast
  have "list_all no_empty ts"
    using ts(1) by (induction vs arbitrary: ts) (auto simp: res_bind_Inr_iff Tree_new_leaf_Inr_iff)
  then show ?thesis using build_levels_invariant [of no_empty, OF _ ts(2)] by simp
qed

text \<open>The first tree of a level is the highest; the counters of the loops.\<close>

definition level_height :: "nat \<Rightarrow> Tree list \<Rightarrow> bool" where
  "level_height k ts \<longleftrightarrow> ts \<noteq> [] \<and> Tree_get_height (hd ts) = k \<and> list_all (\<lambda>t. Tree_get_height t \<le> k) ts"

lemma next_level_height:
  assumes "next_level sha ts n = Inr (ts', n')" "1 < length ts" "level_height k ts"
  shows "level_height (Suc k) ts'" "n' = n + length ts div 2"
proof -
  have le: "list_all (\<lambda>t. Tree_get_height t \<le> k) us \<Longrightarrow> list_all (\<lambda>t. Tree_get_height t \<le> Suc k) us' \<and> n2 = n1 + length us div 2"
    if "next_level sha us n1 = Inr (us', n2)" for us us' n1 n2
    using that by (induction sha us n1 arbitrary: us' n2 rule: next_level.induct) (auto simp: res_simps)
  obtain a b us where ts: "ts = a # b # us" using assms(2) by (cases ts; cases "tl ts") auto
  then show "level_height (Suc k) ts'" "n' = n + length ts div 2"
    using le [OF assms(1)] assms(1,3) by (auto simp: level_height_def res_bind_Inr_iff max_def)
qed

lemma build_levels_counters:
  "build_levels sha cur height n = Inr (cur', height', n') \<Longrightarrow> level_height k cur \<Longrightarrow>
     height' = height + levels (length cur) \<and> n' = n + length cur - 1 \<and> level_height (k + levels (length cur)) cur'"
proof (induction sha cur height n arbitrary: k rule: build_levels.induct)
  case (1 sha cur height n)
  show ?case
  proof (cases "length cur > 1")
    case True
    then obtain nxt m where step: "next_level sha cur n = Inr (nxt, m)"
        "build_levels sha nxt (height + 1) m = Inr (cur', height', n')"
      using 1(2) by (subst (asm) build_levels.simps) (auto split: sum.splits)
    have "length cur div 2 + (length cur + 1) div 2 = length cur" by presburger
    then show ?thesis
      using 1(1) [OF True step(1) refl step(2) next_level_height(1) [OF step(1) True 1(3)]]
        next_level_height(2) [OF step(1) True 1(3)] next_level_length [OF step(1)] True
      by (simp add: levels.simps [of "length cur"] add.assoc)
  next
    case False
    then have "length cur = 1" using 1(3) by (cases cur) (auto simp: level_height_def)
    then show ?thesis using 1(2,3) False by (subst (asm) build_levels.simps) (simp add: levels.simps)
  qed
qed

subsection \<open>Every prefix has a consistency proof\<close>

lemma up_nth: "2 * q + 1 < length ts \<Longrightarrow> up h ts ! q = branch h (ts ! (2 * q)) (ts ! (2 * q + 1))"
proof (induction h ts arbitrary: q rule: up.induct)
  case (1 h l r ts)
  then show ?case by (cases q) auto
qed auto

lemma up_last: "2 * q + 1 = length ts \<Longrightarrow> up h ts ! q = ts ! (2 * q)"
proof (induction h ts arbitrary: q rule: up.induct)
  case (1 h l r ts)
  then obtain p where "q = Suc p" by (cases q) auto
  moreover from this have "length ts = Suc (2 * p)" using 1(2) by simp
  ultimately show ?case using 1(1) [of p] by simp
qed auto

lemma take_up: "2 * q \<le> length ts \<Longrightarrow> take q (up h ts) = up h (take (2 * q) ts)"
proof -
  assume q: "2 * q \<le> length ts"
  have "up h ts = up h (take (2 * q) ts) @ up h (drop (2 * q) ts)"
    using up_append [of "take (2 * q) ts" h "drop (2 * q) ts"] q by simp
  then show ?thesis using q by simp
qed

lemma apex_up: "1 < length ts \<Longrightarrow> apex h (up h ts) = apex h ts"
  by (simp add: apex.simps [of h ts])

lemma branch_hash: "tree_hash (branch h l r) = h (0x01 # tree_hash l @ tree_hash r)"
  by (simp add: branch_def)

lemma climb_new_complete:
  "length M = j + 1 \<Longrightarrow> \<exists>ps. climb_new (sure h :: 'e hasher) j (tree_hash (M ! 0)) ps = Inr (Some (tree_hash (apex h M)))"
proof (induction j arbitrary: M rule: less_induct)
  case (less j)
  show ?case
  proof (cases "j = 0")
    case True
    then obtain t where "M = [t]" using less.prems by (cases M) auto
    then show ?thesis using True by (simp add: climb_new.simps)
  next
    case False
    obtain ps where "climb_new (sure h :: 'e hasher) (j div 2) (tree_hash (up h M ! 0)) ps = Inr (Some (tree_hash (apex h (up h M))))"
      using less.IH [of "j div 2" "up h M"] False less.prems by auto
    then show ?thesis
      using False less.prems up_nth [of 0 M h] apex_up [of M h]
      by (intro exI [of _ "tree_hash (M ! 1) # ps"], subst climb_new.simps) (simp add: branch_hash)
  qed
qed

lemma climb_both_complete:
  "take i L = take i M \<Longrightarrow> length L = i + 1 \<Longrightarrow> length M = j + 1 \<Longrightarrow> i \<le> j \<Longrightarrow>
     \<exists>ps. climb_both (sure h :: 'e hasher) i j (tree_hash (L ! i)) (tree_hash (M ! i)) ps
            = Inr (Some (tree_hash (apex h L), tree_hash (apex h M)))"
proof (induction i arbitrary: j L M rule: less_induct)
  case (less i)
  note len = less.prems(2,3)
  show ?case
  proof (cases "i = 0")
    case True
    then obtain t where "L = [t]" using len by (cases L) auto
    moreover obtain ps where "climb_new (sure h :: 'e hasher) j (tree_hash (M ! 0)) ps = Inr (Some (tree_hash (apex h M)))"
      using climb_new_complete [OF len(2)] by blast
    ultimately show ?thesis using True by (intro exI [of _ ps]) (simp add: climb_both.simps)
  next
    case False
    define q where "q = i div 2"
    have q: "2 * q \<le> i" by (simp add: q_def)
    have "take q (up h L) = take q (up h M)"
      using arg_cong [OF less.prems(1), of "take (2 * q)"] q less.prems(4) len by (simp add: take_up min_absorb1)
    then obtain ps where IH: "climb_both (sure h :: 'e hasher) q (j div 2) (tree_hash (up h L ! q)) (tree_hash (up h M ! q)) ps
        = Inr (Some (tree_hash (apex h L), tree_hash (apex h M)))"
      using less.IH [of q "up h L" "up h M" "j div 2"] False len less.prems(4) apex_up [of L h] apex_up [of M h]
        div_le_mono [OF less.prems(4), of 2] by (auto simp: q_def)
    consider "i = 2 * q + 1" | "i = 2 * q" "i < j" | "i = 2 * q" "i = j"
      using less.prems(4) unfolding q_def by linarith
    then show ?thesis
    proof cases
      case 1
      have "L ! (2 * q) = M ! (2 * q)" using arg_cong [OF less.prems(1), of "\<lambda>xs. xs ! (2 * q)"] 1 by simp
      then show ?thesis
        using IH up_nth [of q L h] up_nth [of q M h] len less.prems(4) False 1
        by (intro exI [of _ "tree_hash (L ! (2 * q)) # ps"], subst climb_both.simps) (simp add: branch_hash)
    next
      case 2
      then show ?thesis
        using IH up_last [of q L h] up_nth [of q M h] len False
        by (intro exI [of _ "tree_hash (M ! (i + 1)) # ps"], subst climb_both.simps) (simp add: branch_hash)
    next
      case 3
      then show ?thesis
        using IH up_last [of q L h] up_last [of q M h] len False
        by (intro exI [of _ ps], subst climb_both.simps) simp
    qed
  qed
qed

lemma skip_odd_complete:
  "take (i + 1) L = take (i + 1) M \<Longrightarrow> length L = i + 1 \<Longrightarrow> length M = j + 1 \<Longrightarrow> i \<le> j \<Longrightarrow> skip_odd i j = (i', j') \<Longrightarrow>
     \<exists>d ps. climb_both (sure h :: 'e hasher) i' j' d d ps = Inr (Some (tree_hash (apex h L), tree_hash (apex h M)))
       \<and> (i' = 0 \<longrightarrow> d = tree_hash (apex h L))"
proof (induction i j arbitrary: L M rule: skip_odd.induct)
  case (1 i j)
  note len = 1(3,4)
  show ?case
  proof (cases "i mod 2 \<noteq> 0")
    case True
    define q where "q = i div 2"
    have q: "i = 2 * q + 1" using True unfolding q_def by presburger
    have "take (q + 1) (up h L) = take (q + 1) (up h M)"
      using take_up [of "q + 1" L h] take_up [of "q + 1" M h] 1(2) q len 1(5) by simp
    then show ?thesis
      using 1(1) [OF True, of "up h L" "up h M"] 1(5,6) True len apex_up [of L h] apex_up [of M h] q
        div_le_mono [OF 1(5), of 2] skip_odd.simps [of i j] by (simp add: q_def [symmetric])
  next
    case False
    then have eqs: "i' = i" "j' = j" using 1(6) by (simp_all add: skip_odd.simps)
    have "take i L = take i M" "L ! i = M ! i"
      using arg_cong [OF 1(2), of "take i"] arg_cong [OF 1(2), of "\<lambda>xs. xs ! i"] by simp_all
    moreover have "i = 0 \<longrightarrow> tree_hash (L ! i) = tree_hash (apex h L)" using len by (cases L) auto
    ultimately show ?thesis using climb_both_complete [OF _ len 1(5), of h] eqs by fastforce
  qed
qed

lemma consistency_proof_complete:
  assumes "prefix vs ws"
  shows "\<exists>proof. consistency_proof (sure h :: 'e hasher) (merkle_of h vs) (MerkleTree_root_hash (merkle_of h ws)) (length ws) proof = Inr True"
proof (cases "vs = []")
  case False
  obtain us where ws: "ws = vs @ us" using assms by (auto elim: prefixE)
  let ?L = "map (tip h) vs" and ?M = "map (tip h) ws"
  obtain i j where ij: "skip_odd (length vs - 1) (length ws - 1) = (i, j)" by fastforce
  obtain d ps where climb: "climb_both (sure h :: 'e hasher) i j d d ps = Inr (Some (tree_hash (apex h ?L), tree_hash (apex h ?M)))"
      "i = 0 \<longrightarrow> d = tree_hash (apex h ?L)"
    using skip_odd_complete [of "length vs - 1" ?L ?M "length ws - 1" i j h] ij ws False by (auto simp: diff_le_mono)
  then have "consistency_proof (sure h :: 'e hasher) (merkle_of h vs) (MerkleTree_root_hash (merkle_of h ws)) (length ws)
      (if i = 0 then ps else d # ps) = Inr True"
    using ij ws False
    by (auto simp: consistency_proof_def merkle_of_def MerkleTree_root_hash_def tree_of_def Let_def)
  then show ?thesis by blast
qed (simp add: consistency_proof_def merkle_of_def)

subsection \<open>Properties\<close>


text \<open>
  C5. An accepted consistency proof is sound. If the hash has no collisions on the inputs it is used
  on, and the proof is accepted for the root and the size of a ledger, then the transactions of the
  local tree are a prefix of those of that ledger, whatever hashes the proof is made of.
\<close>

theorem consistency_proof_sound:
  assumes "collision_free sha" "from_vec sha vs = Inr old" "from_vec sha ws = Inr new"
    and "consistency_proof sha old (MerkleTree_root_hash new) (length ws) proof = Inr True"
  shows "prefix vs ws"
  using consistency_sound_represents [OF assms(1)] from_vec_represents assms(2-4) by blast

text \<open>
  Inclusion proofs, with a hash without collisions: a proof is generated for exactly the values
  that were put into the tree, it carries the value, and it validates against the root hash.
\<close>

theorem inclusion_proofs_correct:
  assumes "collision_free sha" "from_vec sha vs = Inr m" "gen_proof sha m v = Inr r"
  shows "(r \<noteq> None \<longleftrightarrow> v \<in> set vs)
       \<and> (\<forall>p. r = Some p \<longrightarrow> proof_value p = v \<and> Proof_validate sha p (MerkleTree_root_hash m) = Inr True)"
proof -
  obtain d where d: "sha (0x00 # v) = Inr d"
      "r = map_option (\<lambda>l. \<lparr>proof_root_hash = MerkleTree_root_hash m, proof_lemma = l, proof_value = v\<rparr>) (Lemma_new (mt_root m) d)"
    using assms(3) by (auto simp: gen_proof_def res_bind_Inr_iff hash_leaf_Inr_iff)
  note tree = from_vec_hashed [OF assms(2)]
  have "Lemma_new (mt_root m) d \<noteq> None \<longleftrightarrow> v \<in> set vs"
    using Lemma_new_Some [OF tree(1), of v d] Lemma_new_leaf [OF tree(1), of d] d(1) tree(2)
      collision_freeD(1) [OF assms(1) d(1)] by fastforce
  then show ?thesis
    using d(2) Lemma_new_valid [OF tree(1), of d] Lemma_new_hash [of "mt_root m" d]
    by (auto simp: Proof_validate_def MerkleTree_root_hash_def)
qed

text \<open>
  C37. The height of a tree of \<open>n > 1\<close> values is the exponent of the power of two above \<open>n\<close>, so an
  inclusion proof has at most that many siblings; the counters agree with the tree.
\<close>

theorem merkle_tree_bounds:
  assumes "from_vec sha vs = Inr m" "1 < length vs"
  shows "2 ^ (mt_height m - 1) < length vs \<and> length vs \<le> 2 ^ mt_height m
       \<and> mt_height m = Tree_get_height (mt_root m) \<and> mt_nodes_count m = length vs - 1 \<and> mt_count m = length vs"
proof -
  have ne: "vs \<noteq> []" using assms(2) by auto
  then obtain ts where ts: "try_map (Tree_new_leaf sha) vs = Inr ts"
      "build_levels sha ts 0 0 = Inr ([mt_root m], mt_height m, mt_nodes_count m)" "mt_count m = length vs"
    using from_vec_build [OF assms(1)] by blast
  have len: "length ts = length vs" using ts(1) by (simp add: try_map_Inr_iff list_all2_lengthD)
  have "list_all (\<lambda>t. Tree_get_height t = 0) ts"
    using ts(1) by (induction vs arbitrary: ts) (auto simp: res_bind_Inr_iff Tree_new_leaf_Inr_iff)
  then have "level_height 0 ts" using len ne by (cases ts) (auto simp: level_height_def list_all_iff)
  then have "mt_height m = levels (length vs)" "mt_nodes_count m = length vs - 1" "mt_height m = Tree_get_height (mt_root m)"
    using build_levels_counters [OF ts(2)] len by (auto simp: level_height_def)
  moreover obtain k where "2 ^ k < length vs" "length vs \<le> 2 ^ Suc k" using split_exponent [of "length vs"] assms(2) by auto
  ultimately show ?thesis using levels_eq [of k "length vs"] ts(3) by simp
qed

text \<open>
  Iterating over the leaves of a built tree ends and yields the values in their order.
\<close>

theorem leaves_iterator_yields_values:
  assumes "from_vec sha vs = Inr m"
  shows "LeavesIterator_collect (MerkleTree_iter m) = vs"
proof (cases "vs = []")
  case True
  then show ?thesis
    using assms by (auto simp: from_vec_def MerkleTree_default_def MerkleTree_iter_def collect_empty)
next
  case False
  then show ?thesis
    using collect_leaves from_vec_no_empty [OF assms] from_vec_hashed(2) [OF assms] by (simp add: MerkleTree_iter_def)
qed

text \<open>
  A ledger that grew can always prove it: for every prefix of its transactions some list of
  hashes is accepted as the consistency proof.
\<close>

theorem grown_ledger_has_consistency_proof:
  assumes "prefix vs ws" "from_vec (sure h) vs = Inr old" "from_vec (sure h) ws = Inr new"
  shows "\<exists>proof. consistency_proof (sure h) old (MerkleTree_root_hash new) (length ws) proof = Inr True"
  using consistency_proof_complete [OF assms(1), of h] assms(2,3) by (simp add: from_vec_total)

text \<open>Validation does not look at the value: the root hash alone is a proof for any value.\<close>

lemma root_hash_proves_any_value:
  "Proof_validate sha \<lparr>proof_root_hash = MerkleTree_root_hash m, proof_lemma = Lemma (MerkleTree_root_hash m) None None,
     proof_value = v\<rparr> (MerkleTree_root_hash m) = Inr True"
  by (simp add: Proof_validate_def)

subsection \<open>The properties at concrete inputs\<close>

definition demo_digest :: "nat \<Rightarrow> bytes" where
  "demo_digest n = replicate HASHBYTES (of_nat n)"

text \<open>A hasher that knows the inputs of the trees of one and of two transactions.\<close>

definition demo_sha :: "unit hasher" where
  "demo_sha x =
     (if x = [0x00, 7] then Inr (demo_digest 1)
      else if x = [0x00, 8] then Inr (demo_digest 2)
      else if x = 0x01 # demo_digest 1 @ demo_digest 2 then Inr (demo_digest 3)
      else Inl ())"

definition demo_tree1 :: MerkleTree where
  "demo_tree1 = \<lparr>mt_root = Leaf (demo_digest 1) [7], mt_height = 0, mt_count = 1, mt_nodes_count = 0\<rparr>"

definition demo_tree2 :: MerkleTree where
  "demo_tree2 = \<lparr>mt_root = Node (demo_digest 3) (Leaf (demo_digest 1) [7]) (Leaf (demo_digest 2) [8]),
                 mt_height = 1, mt_count = 2, mt_nodes_count = 1\<rparr>"

lemma demo_collision_free: "collision_free demo_sha"
  by (auto simp: collision_free_def demo_sha_def demo_digest_def HASHBYTES_def split: if_splits)

lemma demo_trees:
  "from_vec demo_sha [[7]] = Inr demo_tree1"
  "from_vec demo_sha [[7], [8]] = Inr demo_tree2"
  by (simp_all add: from_vec_def Tree_new_leaf_def hash_leaf_def hash_nodes_def build_levels.simps demo_sha_def
      demo_tree1_def demo_tree2_def)

theorem consistency_proof_sound_witness:
  "consistency_proof demo_sha demo_tree1 (demo_digest 3) 2 [demo_digest 2] = Inr True \<and> prefix [[7]] [[7], [8]]"
proof -
  have ok: "consistency_proof demo_sha demo_tree1 (demo_digest 3) 2 [demo_digest 2] = Inr True"
    by (simp add: consistency_proof_def demo_tree1_def MerkleTree_root_hash_def skip_odd.simps climb_both.simps
        climb_new.simps hash_nodes_def demo_sha_def)
  moreover have "MerkleTree_root_hash demo_tree2 = demo_digest 3"
    by (simp add: demo_tree2_def MerkleTree_root_hash_def)
  ultimately show ?thesis
    using consistency_proof_sound [OF demo_collision_free demo_trees, of "[demo_digest 2]"] by simp
qed

theorem inclusion_proofs_correct_witness:
  "\<exists>p. gen_proof demo_sha demo_tree2 [8] = Inr (Some p) \<and> proof_value p = [8]
     \<and> Proof_validate demo_sha p (demo_digest 3) = Inr True"
proof -
  have "demo_digest 1 \<noteq> demo_digest 2" by (simp add: demo_digest_def HASHBYTES_def)
  then obtain p where p: "gen_proof demo_sha demo_tree2 [8] = Inr (Some p)"
    by (auto simp: gen_proof_def hash_leaf_def demo_sha_def demo_tree2_def)
  moreover have "MerkleTree_root_hash demo_tree2 = demo_digest 3"
    by (simp add: demo_tree2_def MerkleTree_root_hash_def)
  ultimately show ?thesis
    using inclusion_proofs_correct [OF demo_collision_free demo_trees(2) p] by auto
qed

theorem merkle_tree_bounds_witness:
  "from_vec demo_sha [[7], [8]] = Inr demo_tree2 \<and> length [[7], [8::8 word]] \<le> 2 ^ mt_height demo_tree2
     \<and> Tree_get_height (mt_root demo_tree2) = 1"
  using merkle_tree_bounds [OF demo_trees(2)] demo_trees(2) by (auto simp: demo_tree2_def)

theorem leaves_iterator_yields_values_witness:
  "LeavesIterator_collect (MerkleTree_iter demo_tree2) = [[7], [8]]"
  using leaves_iterator_yields_values [OF demo_trees(2)] .

theorem grown_ledger_has_consistency_proof_witness:
  "\<exists>proof. consistency_proof (sure (\<lambda>x. x) :: unit hasher) (merkle_of (\<lambda>x. x) [[7]])
      (MerkleTree_root_hash (merkle_of (\<lambda>x. x) [[7], [8]])) 2 proof = Inr True"
  using grown_ledger_has_consistency_proof [OF _ from_vec_total from_vec_total, of "[[7]]" "[[7], [8]]" "\<lambda>x. x"]
  by (simp add: numeral_2_eq_2)

end
