(* ===== verification/Pool_Cache.thy ===== *)
theory Pool_Cache
  imports Merkle_Tree
begin

text \<open>
  The stored transactions of a pool (\<open>libvdrtools/src/services/pool/merkle_tree_factory.rs\<close>) and the
  errors of libvdrtools (\<open>indy-api-types/src/errors.rs\<close>).

  A pool has two files: the genesis text, one JSON transaction per line, and the cache \<open>stored.btxn\<close>,
  a sequence of MessagePack transactions with a little-endian \<open>u64\<close> length each. \<open>pool_store\<close> holds
  their contents, \<open>None\<close> for a missing file; operating-system failures on existing files are left out.
  \<open>codec\<close> holds the third-party functions: parsing and printing of JSON, \<open>rmp_serde\<close>, Base58 and SHA-256. A panic (a failed
  assertion, \<open>unwrap\<close> on nothing) is the value \<open>Panic\<close>.

  Shown: what is dumped is read back as the same tree; what happens to a truncated cache; the cache that
  is written for a genesis file gives the tree of that file exactly if the file has no blank lines.
\<close>

datatype (plugins only: code) IndyErrorKind =
    IE_InvalidState | IE_InvalidStructure | IE_InvalidParam "32 word" | IE_IOError
  | IE_MasterSecretDuplicateName | IE_ProofRejected | IE_RevocationRegistryFull | IE_InvalidUserRevocId
  | IE_CredentialRevoked | IE_CredDefAlreadyExists | IE_NoConsensus | IE_InvalidTransaction
  | IE_LedgerItemNotFound | IE_PoolNotCreated | IE_InvalidPoolHandle | IE_PoolTerminated | IE_PoolTimeout
  | IE_PoolConfigAlreadyExists | IE_PoolIncompatibleProtocolVersion | IE_UnknownCrypto
  | IE_InvalidWalletHandle | IE_UnknownWalletStorageType | IE_WalletStorageTypeAlreadyRegistered
  | IE_WalletAlreadyExists | IE_WalletNotFound | IE_WalletAlreadyOpened | IE_WalletAccessFailed
  | IE_WalletEncodingError | IE_WalletStorageError | IE_WalletEncryptionError | IE_WalletItemNotFound
  | IE_WalletItemAlreadyExists | IE_WalletQueryError | IE_DIDAlreadyExists | IE_UnknownPaymentMethodType
  | IE_IncompatiblePaymentMethods | IE_PaymentInsufficientFunds | IE_PaymentSourceDoesNotExist
  | IE_PaymentOperationNotSupported | IE_PaymentExtraFunds | IE_TransactionNotAllowed
  | IE_QueryAccountDoesNotExist | IE_InvalidVDRHandle | IE_InvalidVDRNamespace | IE_IncompatibleLedger

record indy_error =
  ie_kind :: IndyErrorKind
  ie_msg :: string

definition err_msg :: "IndyErrorKind \<Rightarrow> string \<Rightarrow> indy_error" where
  "err_msg kind msg = \<lparr>ie_kind = kind, ie_msg = msg\<rparr>"

datatype fault = Panic | Err indy_error

type_synonym 'a indy_result = "(fault, 'a) result"

definition fail :: "IndyErrorKind \<Rightarrow> string \<Rightarrow> 'a indy_result" where
  "fail kind msg = Inl (Err (err_msg kind msg))"

definition of_merkle :: "(indy_error, 'a) mresult \<Rightarrow> 'a indy_result" where
  "of_merkle = map_err (\<lambda>e. case e of Assertion \<Rightarrow> Panic | Openssl e' \<Rightarrow> Err e')"

record codec =
  cd_sha :: "indy_error hasher"
  cd_json_parse :: "string \<Rightarrow> json option"
  cd_json_print :: "json \<Rightarrow> string"
  cd_msgpack :: "json \<Rightarrow> bytes option"
  cd_b58enc :: "bytes \<Rightarrow> string"
  cd_b58dec :: "string \<Rightarrow> bytes option"

record pool_store =
  ps_genesis :: "string option"
  ps_stored :: "bytes option"

text \<open>The bytes of a string and back.\<close>

definition string_bytes :: "string \<Rightarrow> bytes" where
  "string_bytes s = map (of_nat \<circ> of_char) s"

definition bytes_string :: "bytes \<Rightarrow> string" where
  "bytes_string bs = map (\<lambda>b. char_of (unat b)) bs"

lemma bytes_string_inverse [simp]: "bytes_string (string_bytes s) = s"
  by (induction s) (simp_all add: bytes_string_def string_bytes_def unat_of_nat)

lemma string_bytes_inverse [simp]: "string_bytes (bytes_string b) = b"
proof -
  have "of_nat (unat w mod 256) = w" for w :: "8 word"
    using unsigned_less [where ?'a = nat, of w] by simp
  then show ?thesis by (induction b) (simp_all add: bytes_string_def string_bytes_def)
qed

subsection \<open>Text lines\<close>

text \<open>\<open>str::trim\<close> removes the code points with the property \<open>White_Space\<close>, here as UTF-8 bytes.\<close>

definition white_space :: "string list" where
  "white_space =
    [[CHR 0x09], [CHR 0x0A], [CHR 0x0B], [CHR 0x0C], [CHR 0x0D], [CHR 0x20], [CHR 0xC2, CHR 0x85],
     [CHR 0xC2, CHR 0xA0], [CHR 0xE1, CHR 0x9A, CHR 0x80], [CHR 0xE2, CHR 0x80, CHR 0x80],
     [CHR 0xE2, CHR 0x80, CHR 0x81], [CHR 0xE2, CHR 0x80, CHR 0x82], [CHR 0xE2, CHR 0x80, CHR 0x83],
     [CHR 0xE2, CHR 0x80, CHR 0x84], [CHR 0xE2, CHR 0x80, CHR 0x85], [CHR 0xE2, CHR 0x80, CHR 0x86],
     [CHR 0xE2, CHR 0x80, CHR 0x87], [CHR 0xE2, CHR 0x80, CHR 0x88], [CHR 0xE2, CHR 0x80, CHR 0x89],
     [CHR 0xE2, CHR 0x80, CHR 0x8A], [CHR 0xE2, CHR 0x80, CHR 0xA8], [CHR 0xE2, CHR 0x80, CHR 0xA9],
     [CHR 0xE2, CHR 0x80, CHR 0xAF], [CHR 0xE2, CHR 0x81, CHR 0x9F], [CHR 0xE3, CHR 0x80, CHR 0x80]]"

function strip_front :: "string list \<Rightarrow> string \<Rightarrow> string" where
  "strip_front ws s =
     (case find (\<lambda>w. w \<noteq> [] \<and> prefix w s) ws of
        None \<Rightarrow> s
      | Some w \<Rightarrow> strip_front ws (drop (length w) s))"
  by pat_completeness auto
termination
  by (relation "measure (\<lambda>(_, s). length s)") (auto simp: find_Some_iff prefix_def)

declare strip_front.simps [simp del]

definition trim :: "string \<Rightarrow> string" where
  "trim s = rev (strip_front (map rev white_space) (rev (strip_front white_space s)))"

text \<open>\<open>BufRead::lines\<close>: pieces between line feeds, each without a carriage return before the line
  feed; nothing follows a final line feed.\<close>

definition drop_cr :: "string \<Rightarrow> string" where
  "drop_cr l = (if l \<noteq> [] \<and> last l = CHR 0x0D then butlast l else l)"

definition buf_lines :: "string \<Rightarrow> string list" where
  "buf_lines text =
     (let ps = split_on (CHR 0x0A) text
      in map drop_cr (butlast ps) @ (if last ps = [] then [] else [last ps]))"

subsection \<open>Reading\<close>

definition validate_merkle_tree :: "MerkleTree \<Rightarrow> unit indy_result" where
  "validate_merkle_tree mt = (if mt_count mt = 0 then fail IE_InvalidStructure ''Empty MerkleTree'' else Inr ())"

definition parse_txn_from_json :: "codec \<Rightarrow> string \<Rightarrow> bytes indy_result" where
  "parse_txn_from_json cd txn =
     (let t = trim txn
      in if t = [] then Inr []
         else (case cd_json_parse cd t of
                 None \<Rightarrow> fail IE_InvalidStructure ''Genesis txn is mailformed json''
               | Some v \<Rightarrow>
                   (case cd_msgpack cd v of
                      None \<Rightarrow> fail IE_InvalidState ''Can't encode genesis txn as message pack''
                    | Some b \<Rightarrow> Inr b)))"

fun append_lines :: "codec \<Rightarrow> MerkleTree \<Rightarrow> string list \<Rightarrow> MerkleTree indy_result" where
  "append_lines cd mt [] = Inr mt"
| "append_lines cd mt (line # ls) =
     (if trim line = [] then append_lines cd mt ls
      else res_bind (parse_txn_from_json cd line) (\<lambda>txn.
           res_bind (of_merkle (append_leaf (cd_sha cd) mt txn)) (\<lambda>mt'. append_lines cd mt' ls)))"

text \<open>A line that is not UTF-8 is an error of \<open>lines()\<close>, met when it is reached.\<close>

fun utf8_lines :: "string list \<Rightarrow> string list \<times> bool" where
  "utf8_lines [] = ([], True)"
| "utf8_lines (l # ls) = (if is_utf8 l then (let (good, ok) = utf8_lines ls in (l # good, ok)) else ([], False))"

definition from_genesis :: "codec \<Rightarrow> string \<Rightarrow> MerkleTree indy_result" where
  "from_genesis cd text =
     (let (ls, ok) = utf8_lines (buf_lines text)
      in res_bind (of_merkle (from_vec (cd_sha cd) [])) (\<lambda>mt.
         res_bind (append_lines cd mt ls) (\<lambda>mt'.
           if ok then res_bind (validate_merkle_tree mt') (\<lambda>_. Inr mt')
           else fail IE_IOError ''Can't read from genesis txn file'')))"

definition from_raw_data :: "codec \<Rightarrow> string \<Rightarrow> MerkleTree indy_result" where
  "from_raw_data cd genesis_transactions =
     res_bind (of_merkle (from_vec (cd_sha cd) [])) (\<lambda>mt.
     res_bind (append_lines cd mt (split_on (CHR 0x0A) genesis_transactions)) (\<lambda>mt'.
     res_bind (validate_merkle_tree mt') (\<lambda>_. Inr mt')))"

definition le_bytes :: "64 word \<Rightarrow> bytes" where
  "le_bytes w = map (\<lambda>i. ucast (drop_bit (8 * i) w)) [0..<8]"

fun le_value :: "bytes \<Rightarrow> nat" where
  "le_value [] = 0"
| "le_value (b # bs) = unat b + 256 * le_value bs"

text \<open>The loop over the cache; a header of fewer than eight bytes is taken for the end of the file.\<close>

function read_cache :: "indy_error hasher \<Rightarrow> MerkleTree \<Rightarrow> bytes \<Rightarrow> MerkleTree indy_result" where
  "read_cache sha mt f =
     (if length f < 8 then Inr mt
      else let n = le_value (take 8 f); rest = drop 8 f
           in if length rest < n then fail IE_InvalidState ''Malformed pool ledger cache file''
              else (case of_merkle (append_leaf sha mt (take n rest)) of
                      Inl e \<Rightarrow> Inl e
                    | Inr mt' \<Rightarrow> read_cache sha mt' (drop n rest)))"
  by pat_completeness auto
termination by (relation "measure (\<lambda>(_, _, f). length f)") auto

declare read_cache.simps [simp del]

definition from_cache :: "codec \<Rightarrow> bytes \<Rightarrow> MerkleTree indy_result" where
  "from_cache cd f =
     res_bind (of_merkle (from_vec (cd_sha cd) [])) (\<lambda>mt.
     res_bind (read_cache (cd_sha cd) mt f) (\<lambda>mt'.
     res_bind (validate_merkle_tree mt') (\<lambda>_. Inr mt')))"

definition create_tree :: "codec \<Rightarrow> pool_store \<Rightarrow> MerkleTree indy_result" where
  "create_tree cd store =
     (case ps_stored store of
        Some f \<Rightarrow> from_cache cd f
      | None \<Rightarrow>
          (case ps_genesis store of
             None \<Rightarrow> fail IE_PoolNotCreated ''Pool is not created for name: {:?}''
           | Some text \<Rightarrow> from_genesis cd text))"

subsection \<open>Writing\<close>

definition drop_cache :: "pool_store \<Rightarrow> unit indy_result \<times> pool_store" where
  "drop_cache store =
     (if ps_stored store \<noteq> None then (Inr (), store\<lparr>ps_stored := None\<rparr>)
      else (fail IE_InvalidState
              ''Can't recover to genesis -- no txns stored. Possible problems in genesis txns.'', store))"

definition dump_vec :: "bytes list \<Rightarrow> bytes" where
  "dump_vec v = concat (map (\<lambda>line. le_bytes (of_nat (length line)) @ line) v)"

definition genesis_to_binary :: "codec \<Rightarrow> string \<Rightarrow> bytes list indy_result" where
  "genesis_to_binary cd text =
     (let (ls, ok) = utf8_lines (buf_lines text)
      in res_bind (try_map (parse_txn_from_json cd) ls) (\<lambda>txns.
           if ok then Inr txns else fail IE_IOError ''Can't read from genesis txn file''))"

text \<open>\<open>File::create\<close> comes before the conversion of the genesis text, so an error leaves an empty cache.\<close>

definition dump_genesis_to_stored :: "codec \<Rightarrow> pool_store \<Rightarrow> unit indy_result \<times> pool_store" where
  "dump_genesis_to_stored cd store =
     (case ps_genesis store of
        None \<Rightarrow> (fail IE_PoolNotCreated ''Pool is not created for name: {:?}'', store)
      | Some text \<Rightarrow>
          (case genesis_to_binary cd text of
             Inl e \<Rightarrow> (Inl e, store\<lparr>ps_stored := Some []\<rparr>)
           | Inr genesis_vec \<Rightarrow> (Inr (), store\<lparr>ps_stored := Some (dump_vec genesis_vec)\<rparr>)))"

definition dump_new_txns :: "codec \<Rightarrow> bytes list \<Rightarrow> pool_store \<Rightarrow> unit indy_result \<times> pool_store" where
  "dump_new_txns cd txns store =
     (let (r, store') = (if ps_stored store = None then dump_genesis_to_stored cd store else (Inr (), store))
      in case r of
           Inl e \<Rightarrow> (Inl e, store')
         | Inr _ \<Rightarrow> (Inr (), store'\<lparr>ps_stored := map_option (\<lambda>f. f @ dump_vec txns) (ps_stored store')\<rparr>))"

subsection \<open>Length headers\<close>

lemma length_le_bytes [simp]: "length (le_bytes w) = 8"
  by (simp add: le_bytes_def)

lemma unat_byte: "unat (ucast (drop_bit (8 * i) w) :: 8 word) = unat (w :: 'a::len word) div 256 ^ i mod 256"
proof -
  have "(2::nat) ^ (8 * i) = 256 ^ i" by (simp add: power_mult)
  moreover have "unat (drop_bit (8 * i) w) = unat w div 2 ^ (8 * i)"
    unfolding unat_drop_bit_eq by (rule drop_bit_eq_div)
  ultimately show ?thesis by (simp add: unsigned_ucast_eq take_bit_eq_mod)
qed

lemma le_value_bytes:
  "le_value (map (\<lambda>i. ucast (drop_bit (8 * i) w)) [j..<j + k]) = unat (w :: 'a::len word) div 256 ^ j mod 256 ^ k"
proof (induction k arbitrary: j)
  case (Suc k)
  let ?x = "unat w div 256 ^ j"
  have "[j..<j + Suc k] = j # [Suc j..<Suc j + k]" by (simp add: upt_conv_Cons)
  then have "le_value (map (\<lambda>i. ucast (drop_bit (8 * i) w)) [j..<j + Suc k]) = ?x mod 256 + 256 * (?x div 256 mod 256 ^ k)"
    using Suc.IH [of "Suc j"] unat_byte [of j w] by (simp add: div_mult2_eq [symmetric] mult.commute)
  also have "\<dots> = ?x mod 256 ^ Suc k" by (simp add: mod_mult2_eq)
  finally show ?case .
qed simp

lemma le_value_le_bytes: "n < 2 ^ 64 \<Longrightarrow> le_value (le_bytes (of_nat n)) = n"
  using le_value_bytes [of "of_nat n :: 64 word" 0 8] by (simp add: le_bytes_def unat_of_nat)

subsection \<open>Reading what was dumped\<close>

definition fits :: "bytes \<Rightarrow> bool" where
  "fits v = (length v < 2 ^ 64)"

lemma dump_vec_simps [simp]:
  "dump_vec [] = []"
  "dump_vec (v # vs) = le_bytes (of_nat (length v)) @ v @ dump_vec vs"
  "dump_vec (vs @ ws) = dump_vec vs @ dump_vec ws"
  by (simp_all add: dump_vec_def)

lemma of_merkle_simps [simp]:
  "of_merkle (Inr x) = Inr x" "of_merkle (Inl Assertion) = Inl Panic" "of_merkle (Inl (Openssl e)) = Inl (Err e)"
  by (simp_all add: of_merkle_def)

lemma of_merkle_bind:
  "of_merkle (res_bind r k) = res_bind (of_merkle r) (\<lambda>x. of_merkle (k x))"
  by (cases r) (simp_all add: of_merkle_def)

lemma read_entry:
  "fits v \<Longrightarrow> read_cache sha mt (le_bytes (of_nat (length v)) @ v @ f)
     = res_bind (of_merkle (append_leaf sha mt v)) (\<lambda>mt'. read_cache sha mt' f)"
  by (subst read_cache.simps; cases "of_merkle (append_leaf sha mt v)") (simp_all add: Let_def le_value_le_bytes fits_def)

lemma read_dump:
  "list_all fits vs \<Longrightarrow> read_cache sha mt (dump_vec vs @ f)
     = res_bind (of_merkle (append_all sha mt vs)) (\<lambda>mt'. read_cache sha mt' f)"
  by (induction vs arbitrary: mt) (simp_all add: read_entry of_merkle_bind res_bind_assoc)

lemma read_short: "length f < 8 \<Longrightarrow> read_cache sha mt f = Inr mt"
  by (simp add: read_cache.simps)

lemma default_merkle_of: "MerkleTree_default = merkle_of h []"
  by (simp add: MerkleTree_default_def merkle_of_def tree_of_def levels.simps)

lemma from_cache_dump:
  assumes "cd_sha cd = sure h" "list_all fits vs"
  shows "from_cache cd (dump_vec vs @ f) =
     res_bind (read_cache (sure h) (merkle_of h vs) f) (\<lambda>mt'. res_bind (validate_merkle_tree mt') (\<lambda>_. Inr mt'))"
proof -
  have "append_all (sure h :: indy_error hasher) (merkle_of h []) vs = Inr (merkle_of h vs)"
    using append_all_total [of h "[]" vs] by simp
  then show ?thesis using assms by (simp add: from_cache_def from_vec_total read_dump res_bind_assoc)
qed

lemma validate_merkle_of: "vs \<noteq> [] \<Longrightarrow> validate_merkle_tree (merkle_of h vs) = Inr ()"
  by (simp add: validate_merkle_tree_def merkle_of_def)

subsection \<open>Genesis files\<close>

definition blank :: "string \<Rightarrow> bool" where
  "blank l = (trim l = [])"

lemma append_lines_result:
  assumes "cd_sha cd = sure h"
  shows "append_lines cd (merkle_of h vs) ls = Inr m \<Longrightarrow> try_map (parse_txn_from_json cd) ls = Inr ts \<Longrightarrow>
     (\<exists>us. m = merkle_of h (vs @ us) \<and> length us + length (filter blank ls) = length ts
        \<and> (filter blank ls = [] \<longrightarrow> us = ts))"
proof (induction ls arbitrary: vs ts)
  case (Cons l ls)
  obtain t ts' where t: "parse_txn_from_json cd l = Inr t" "try_map (parse_txn_from_json cd) ls = Inr ts'" "ts = t # ts'"
    using Cons.prems(2) by (auto simp: res_bind_Inr_iff)
  show ?case
  proof (cases "trim l = []")
    case True
    then show ?thesis using Cons.IH [of vs ts'] Cons.prems(1) t by (auto simp: blank_def)
  next
    case False
    then have "append_lines cd (merkle_of h (vs @ [t])) ls = Inr m"
      using Cons.prems(1) t(1) assms by (simp add: append_total)
    then show ?thesis using Cons.IH [of "vs @ [t]" ts'] t False by (auto simp: blank_def)
  qed
qed simp

lemma utf8_lines_all: "snd (utf8_lines ls) \<Longrightarrow> fst (utf8_lines ls) = ls"
  by (induction ls) (auto split: prod.splits if_splits)

lemma parsed_fits:
  assumes "\<forall>v b. cd_msgpack cd v = Some b \<longrightarrow> fits b" "try_map (parse_txn_from_json cd) ls = Inr ts"
  shows "list_all fits ts"
proof -
  have "parse_txn_from_json cd l = Inr b \<Longrightarrow> fits b" for l b
    using assms(1) by (auto simp: parse_txn_from_json_def Let_def fail_def fits_def split: if_splits option.splits)
  then show ?thesis
    using assms(2) by (induction ls arbitrary: ts) (auto simp: res_bind_Inr_iff)
qed

subsection \<open>Properties\<close>

text \<open>
  The cache is a faithful copy: reading what was dumped gives the tree that \<open>from_vec\<close> builds from
  the dumped transactions.
\<close>

theorem cache_roundtrip:
  assumes "cd_sha cd = sure h" "list_all fits vs" "vs \<noteq> []"
  shows "from_cache cd (dump_vec vs) = of_merkle (from_vec (cd_sha cd) vs)"
  using from_cache_dump [OF assms(1,2), of "[]"] assms(1) validate_merkle_of [OF assms(3), of h]
  by (simp add: read_short from_vec_total)

text \<open>
  A cache that was cut off inside its last entry. If the cut is inside the transaction, reading it is
  an error; if it is inside the length, the entry is dropped without notice.
\<close>

theorem truncated_cache:
  assumes "cd_sha cd = sure h" "list_all fits vs" "fits v" "k < 8 + length v"
  shows "from_cache cd (dump_vec vs @ take k (dump_vec [v])) =
     (if k < 8 then from_cache cd (dump_vec vs) else fail IE_InvalidState ''Malformed pool ledger cache file'')"
proof (cases "k < 8")
  case True
  then show ?thesis
    using from_cache_dump [OF assms(1,2)] from_cache_dump [OF assms(1,2), of "[]"] by (simp add: read_short)
next
  case False
  then have "take k (dump_vec [v]) = le_bytes (of_nat (length v)) @ take (k - 8) v" by simp
  moreover have "read_cache (sure h) m (le_bytes (of_nat (length v)) @ take (k - 8) v)
      = fail IE_InvalidState ''Malformed pool ledger cache file''" for m
  proof -
    have "k - 8 < length v" using assms(4) False by linarith
    then show ?thesis using assms(3) by (subst read_cache.simps) (simp add: Let_def le_value_le_bytes fits_def)
  qed
  ultimately show ?thesis using from_cache_dump [OF assms(1,2)] False by (simp add: fail_def)
qed

text \<open>
  The first dump copies the genesis file into the cache. The tree restored from it has one leaf too
  many for every blank line of the genesis file; without blank lines it is the tree of the genesis file
  with the new transactions appended.
\<close>

theorem restored_tree_counts_blank_lines:
  assumes "cd_sha cd = sure h" "\<forall>v b. cd_msgpack cd v = Some b \<longrightarrow> fits b" "list_all fits txns"
    and "ps_stored store = None" "ps_genesis store = Some text'" "create_tree cd store = Inr m"
    and "dump_new_txns cd txns store = (Inr (), store')"
  shows "\<exists>m'. create_tree cd store' = Inr m'
     \<and> mt_count m' = mt_count m + length (filter blank (buf_lines text')) + length txns
     \<and> (filter blank (buf_lines text') = [] \<longrightarrow> append_all (sure h) m txns = Inr m')"
proof -
  let ?ls = "buf_lines text'"
  obtain gs where gs: "genesis_to_binary cd text' = Inr gs" "store' = store\<lparr>ps_stored := Some (dump_vec gs @ dump_vec txns)\<rparr>"
    using assms(4,5,7) by (auto simp: dump_new_txns_def dump_genesis_to_stored_def Let_def split: sum.splits)
  have ok: "snd (utf8_lines ?ls)"
    using gs(1) by (auto simp: genesis_to_binary_def fail_def res_bind_Inr_iff split: prod.splits if_splits)
  then have lines: "utf8_lines ?ls = (?ls, True)" using utf8_lines_all [of ?ls] by (metis prod.collapse)
  have ts: "try_map (parse_txn_from_json cd) ?ls = Inr gs"
    using gs(1) lines by (auto simp: genesis_to_binary_def res_bind_Inr_iff)
  have m: "append_lines cd (merkle_of h []) ?ls = Inr m" "mt_count m \<noteq> 0"
    using assms(1,4,5,6) lines
    by (auto simp: create_tree_def from_genesis_def from_vec_total res_bind_Inr_iff validate_merkle_tree_def fail_def split: if_splits)
  obtain us where us: "m = merkle_of h us" "length us + length (filter blank ?ls) = length gs" "filter blank ?ls = [] \<longrightarrow> us = gs"
    using append_lines_result [OF assms(1) m(1) ts] by auto
  have "us \<noteq> []" using m(2) us(1) by (auto simp: merkle_of_def)
  then have "gs @ txns \<noteq> []" using us(2) by auto
  moreover have "list_all fits (gs @ txns)" using parsed_fits [OF assms(2) ts] assms(3) by simp
  ultimately have "create_tree cd store' = Inr (merkle_of h (gs @ txns))"
    using from_cache_dump [OF assms(1), of "gs @ txns" "[]"] validate_merkle_of [of "gs @ txns" h] gs(2)
    by (simp add: create_tree_def read_short)
  then show ?thesis using us append_all_total [of h us txns] by (auto simp: merkle_of_def)
qed

subsection \<open>The properties at concrete inputs\<close>

definition demo_codec :: codec where
  "demo_codec = \<lparr>cd_sha = sure rev, cd_json_parse = (\<lambda>s. Some (JString s)), cd_json_print = (\<lambda>_. []),
                 cd_msgpack = (\<lambda>_. Some [7]), cd_b58enc = (\<lambda>_. []), cd_b58dec = (\<lambda>s. Some (map (of_nat \<circ> of_char) s))\<rparr>"

definition demo_store :: pool_store where
  "demo_store = \<lparr>ps_genesis = Some [CHR ''a'', CHR 0x0A, CHR 0x0A, CHR ''b''], ps_stored = None\<rparr>"

lemma demo_codec_sure: "cd_sha demo_codec = sure rev"
  by (simp add: demo_codec_def)

theorem cache_roundtrip_witness:
  "from_cache demo_codec (dump_vec [[7], [8, 9]]) = of_merkle (from_vec (cd_sha demo_codec) [[7], [8, 9]])"
  by (rule cache_roundtrip [OF demo_codec_sure]) (simp_all add: fits_def)

theorem truncated_cache_witness:
  "from_cache demo_codec (dump_vec [[7]] @ take 9 (dump_vec [[8, 9]])) = fail IE_InvalidState ''Malformed pool ledger cache file''
   \<and> from_cache demo_codec (dump_vec [[7]] @ take 3 (dump_vec [[8, 9]])) = from_cache demo_codec (dump_vec [[7]])"
  using truncated_cache [OF demo_codec_sure, of "[[7]]" "[8, 9]" 9] truncated_cache [OF demo_codec_sure, of "[[7]]" "[8, 9]" 3]
  by (simp add: fits_def del: dump_vec_simps)

lemma strip_front_id: "list_all (\<lambda>w. w = [] \<or> \<not> prefix w s) ws \<Longrightarrow> strip_front ws s = s"
  by (subst strip_front.simps) (auto simp: list_all_iff find_Some_iff split: option.splits)

lemma trim_id:
  assumes "list_all (\<lambda>w. w = [] \<or> \<not> prefix w s) white_space" "list_all (\<lambda>w. w = [] \<or> \<not> prefix w (rev s)) (map rev white_space)"
  shows "trim s = s"
  using strip_front_id [OF assms(1)] strip_front_id [OF assms(2)] by (simp add: trim_def)

lemma demo_trim: "trim [] = []" "trim ''a'' = ''a''" "trim ''b'' = ''b''"
  by (rule trim_id; simp add: white_space_def)+

lemma demo_lines: "buf_lines [CHR ''a'', CHR 0x0A, CHR 0x0A, CHR ''b''] = [''a'', [], ''b'']"
  by code_simp

lemma demo_utf8: "is_utf8 ''a''" "is_utf8 []" "is_utf8 ''b''"
  by code_simp+

theorem restored_tree_counts_blank_lines_witness:
  "\<exists>m m' store'. create_tree demo_codec demo_store = Inr m \<and> dump_new_txns demo_codec [[9]] demo_store = (Inr (), store')
     \<and> create_tree demo_codec store' = Inr m' \<and> mt_count m = 2 \<and> mt_count m' = 4"
proof -
  have len: "\<forall>v b. cd_msgpack demo_codec v = Some b \<longrightarrow> fits b" by (simp add: demo_codec_def fits_def)
  have parse: "parse_txn_from_json demo_codec ''a'' = Inr [7]" "parse_txn_from_json demo_codec ''b'' = Inr [7]"
      "parse_txn_from_json demo_codec [] = Inr []"
    by (simp_all add: parse_txn_from_json_def Let_def demo_trim demo_codec_def)
  let ?s = "demo_store\<lparr>ps_stored := Some (dump_vec [[7], [], [7]] @ dump_vec [[9]])\<rparr>"
  have app: "append_leaf (sure rev :: indy_error hasher) (merkle_of rev []) [7] = Inr (merkle_of rev [[7]])"
      "append_leaf (sure rev :: indy_error hasher) (merkle_of rev [[7]]) [7] = Inr (merkle_of rev [[7], [7]])"
    using append_total [of rev "[]" "[7]"] append_total [of rev "[[7]]" "[7]"] by simp_all
  have m: "create_tree demo_codec demo_store = Inr (merkle_of rev [[7], [7]])"
    using validate_merkle_of [of "[[7], [7]]" rev] app
    by (simp add: create_tree_def demo_store_def from_genesis_def demo_lines demo_utf8 demo_codec_sure from_vec_total
        demo_trim parse)
  have dump: "dump_new_txns demo_codec [[9]] demo_store = (Inr (), ?s)"
    by (simp add: dump_new_txns_def dump_genesis_to_stored_def demo_store_def genesis_to_binary_def demo_lines demo_utf8 parse
        del: dump_vec_simps)
  have blanks: "filter blank [''a'', [], ''b''] = [[]]" by (simp add: blank_def demo_trim)
  have store: "list_all fits [[9]]" "ps_stored demo_store = None"
      "ps_genesis demo_store = Some [CHR ''a'', CHR 0x0A, CHR 0x0A, CHR ''b'']"
    by (simp_all add: fits_def demo_store_def)
  obtain m' where "create_tree demo_codec ?s = Inr m'"
      "mt_count m' = mt_count (merkle_of rev [[7], [7]]) + length (filter blank [''a'', [], ''b'']) + length [[9::8 word]]"
    using restored_tree_counts_blank_lines [OF demo_codec_sure len store m dump] unfolding demo_lines by blast
  moreover have "mt_count (merkle_of rev [[7], [7]]) = 2" by (simp add: merkle_of_def)
  ultimately have "mt_count m' = 4" "create_tree demo_codec ?s = Inr m'" unfolding blanks by simp_all
  then show ?thesis using m dump \<open>mt_count (merkle_of rev [[7], [7]]) = 2\<close> by blast
qed

end
