(* ===== verification/State_Trie.thy ===== *)
theory State_Trie
  imports Pool_Cache
begin

text \<open>
  The Patricia Merkle trie of state proofs (\<open>libvdrtools/src/services/pool/state_proof/node.rs\<close>): the
  RLP form of the nodes in both directions, the lookup of a path, the collection of all values below a
  prefix, and the paths with their flags.

  The \<open>rlp\<close> crate is seen through its interface: \<open>untrusted_rlp\<close> is what the accessors of an
  \<open>UntrustedRlp\<close> return (\<open>prototype\<close>, \<open>at\<close>, \<open>as_val\<close>, \<open>is_empty\<close>, the iterator), \<open>rlp_tree\<close> what was
  appended to an \<open>RlpStream\<close>. The crate's decoder and encoder and the hash function are the parameter
  \<open>trie_lib\<close>.
  A trie refers to its nodes by hash, so a lookup may not end: \<open>None\<close> is that case, \<open>Some (Inl Panic)\<close> an
  index out of range, \<open>Some (Inl (Err e))\<close> an error.

  Shown: decoding inverts encoding on well-formed nodes, and every decoded node is well formed; the
  lookup finds each value the trie holds, and what it finds is held under the key or, if a leaf
  continues beyond it, under an extension of the key; lookups in two databases of the same root agree.
\<close>

subsection \<open>RLP\<close>

datatype RlpDecoderError = RlpCustom string | RlpError string

datatype untrusted_rlp =
    RlpNull
  | RlpData bytes
  | RlpBadData nat RlpDecoderError
  | RlpList "untrusted_rlp list"

datatype rlp_tree = OutData bytes | OutList "rlp_tree list"

datatype rlp_fault = RlpPanic | RlpErr RlpDecoderError

type_synonym 'a rlp_result = "(rlp_fault, 'a) result"

record trie_lib =
  tl_view :: "bytes \<Rightarrow> untrusted_rlp"
  tl_encode :: "rlp_tree \<Rightarrow> bytes"
  tl_sha3 :: "bytes \<Rightarrow> bytes"

datatype RlpPrototype = ProtoNull | ProtoData nat | ProtoList nat

fun prototype :: "untrusted_rlp \<Rightarrow> RlpPrototype" where
  "prototype RlpNull = ProtoNull"
| "prototype (RlpData b) = ProtoData (length b)"
| "prototype (RlpBadData n e) = ProtoData n"
| "prototype (RlpList xs) = ProtoList (length xs)"

fun as_val :: "untrusted_rlp \<Rightarrow> bytes rlp_result" where
  "as_val (RlpData b) = Inr b"
| "as_val (RlpBadData n e) = Inl (RlpErr e)"
| "as_val (RlpList xs) = Inl (RlpErr (RlpError ''RlpExpectedToBeData''))"
| "as_val RlpNull = Inl (RlpErr (RlpError ''RlpIsTooShort''))"

fun rlp_is_empty :: "untrusted_rlp \<Rightarrow> bool" where
  "rlp_is_empty (RlpData b) = (b = [])"
| "rlp_is_empty (RlpList xs) = (xs = [])"
| "rlp_is_empty _ = False"

fun rlp_iter :: "untrusted_rlp \<Rightarrow> untrusted_rlp list" where
  "rlp_iter (RlpList xs) = xs"
| "rlp_iter _ = []"

subsection \<open>Nodes\<close>

datatype Node =
    NodeLeaf bytes bytes
  | NodeExtension bytes Node
  | NodeFull "Node option list" "bytes option"
  | NodeHash bytes
  | NodeBlank

definition RADIX :: nat where "RADIX = 16"
definition FULL_SIZE :: nat where "FULL_SIZE = 17"
definition PAIR_SIZE :: nat where "PAIR_SIZE = 2"
definition HASH_SIZE :: nat where "HASH_SIZE = 32"
definition EMPTY_SIZE :: nat where "EMPTY_SIZE = 0"
definition IS_LEAF_MASK :: "8 word" where "IS_LEAF_MASK = 0x20"
definition IS_PATH_ODD_MASK :: "8 word" where "IS_PATH_ODD_MASK = 0x10"

lemmas node_sizes = RADIX_def FULL_SIZE_def PAIR_SIZE_def HASH_SIZE_def EMPTY_SIZE_def

unbundle bit_operations_syntax

fun rlp_append :: "Node \<Rightarrow> rlp_tree" where
  "rlp_append (NodeHash hash) = OutData hash"
| "rlp_append (NodeLeaf path value) = OutList [OutData path, OutData value]"
| "rlp_append (NodeExtension path nxt) = OutList [OutData path, rlp_append nxt]"
| "rlp_append (NodeFull nodes value) =
     OutList (map (\<lambda>c. case c of Some n \<Rightarrow> rlp_append n | None \<Rightarrow> OutData []) nodes
              @ [case value of Some v \<Rightarrow> OutData v | None \<Rightarrow> OutData []])"
| "rlp_append NodeBlank = OutData []"

definition decode_value :: "untrusted_rlp \<Rightarrow> bytes option rlp_result" where
  "decode_value item =
     (if \<not> rlp_is_empty item then res_bind (as_val item) (\<lambda>v. Inr (Some v)) else Inr None)"

lemma item_size [termination_simp]: "i < length items \<Longrightarrow> size (items ! i) < Suc (size_list size items)"
  by (meson le_imp_less_Suc nth_mem order_refl size_list_estimation')

declare PAIR_SIZE_def [termination_simp]

fun Node_decode :: "untrusted_rlp \<Rightarrow> Node rlp_result"
and decode_children :: "nat \<Rightarrow> untrusted_rlp list \<Rightarrow> Node option list rlp_result" where
  "Node_decode (RlpList items) =
     (if length items = PAIR_SIZE then
        res_bind (as_val (items ! 0)) (\<lambda>path.
        case path of
          [] \<Rightarrow> Inl RlpPanic
        | flags # _ \<Rightarrow>
            if flags AND IS_LEAF_MASK = IS_LEAF_MASK then
              res_bind (as_val (items ! 1)) (\<lambda>value. Inr (NodeLeaf path value))
            else if flags AND IS_LEAF_MASK = 0 then
              res_bind (Node_decode (items ! 1)) (\<lambda>nxt. Inr (NodeExtension path nxt))
            else Inl (RlpErr (RlpCustom ''Path contains incorrect flags byte'')))
      else if length items = FULL_SIZE then
        res_bind (decode_children RADIX items) (\<lambda>nodes.
        res_bind (decode_value (items ! RADIX)) (\<lambda>value.
          Inr (NodeFull nodes value)))
      else Inl (RlpErr (RlpCustom ''Unexpected data'')))"
| "Node_decode (RlpData b) =
     (if length b = HASH_SIZE then Inr (NodeHash b)
      else if length b = EMPTY_SIZE then Inr NodeBlank
      else Inl (RlpErr (RlpCustom ''Unexpected data'')))"
| "Node_decode (RlpBadData n e) =
     (if n = HASH_SIZE then Inl (RlpErr e)
      else if n = EMPTY_SIZE then Inr NodeBlank
      else Inl (RlpErr (RlpCustom ''Unexpected data'')))"
| "Node_decode RlpNull = Inl (RlpErr (RlpCustom ''Unexpected data''))"
| "decode_children 0 items = Inr []"
| "decode_children (Suc n) [] = Inr []"
| "decode_children (Suc n) (cur # items) =
     (if prototype cur = ProtoData 0 then res_bind (decode_children n items) (\<lambda>nodes. Inr (None # nodes))
      else res_bind (Node_decode cur) (\<lambda>node.
           res_bind (decode_children n items) (\<lambda>nodes. Inr (Some node # nodes))))"

text \<open>\<open>as_list().unwrap_or_default()\<close> of values and of nodes; a panic of the decoder is not caught.\<close>

definition as_bytes_list :: "untrusted_rlp \<Rightarrow> bytes list" where
  "as_bytes_list r = (case try_map as_val (rlp_iter r) of Inl _ \<Rightarrow> [] | Inr vs \<Rightarrow> vs)"

definition as_node_list :: "untrusted_rlp \<Rightarrow> Node list indy_result" where
  "as_node_list r =
     (case try_map Node_decode (rlp_iter r) of
        Inl RlpPanic \<Rightarrow> Inl Panic
      | Inl (RlpErr _) \<Rightarrow> Inr []
      | Inr ns \<Rightarrow> Inr ns)"

type_synonym trie_db = "bytes \<rightharpoonup> Node"

definition get_hash :: "trie_lib \<Rightarrow> Node \<Rightarrow> bytes" where
  "get_hash lib node = tl_sha3 lib (tl_encode lib (rlp_append node))"


subsection \<open>Paths\<close>

definition path_to_nibbles :: "bytes \<Rightarrow> bytes" where
  "path_to_nibbles path = concat (map (\<lambda>s. [drop_bit 4 s, s AND 0x0F]) path)"

text \<open>A stored path has a byte of flags in front; the first nibble of an odd path is in that byte.\<close>

fun parse_path :: "bytes \<Rightarrow> (bool \<times> bytes) indy_result" where
  "parse_path [] = Inl Panic"
| "parse_path (flags # rest) =
     Inr (flags AND IS_LEAF_MASK = IS_LEAF_MASK,
          if flags AND IS_PATH_ODD_MASK = IS_PATH_ODD_MASK then (flags AND 0x0F) # path_to_nibbles rest
          else path_to_nibbles rest)"

fun nibbles_to_bytes :: "bytes \<Rightarrow> bytes indy_result" where
  "nibbles_to_bytes [] = Inr []"
| "nibbles_to_bytes [x] = Inl Panic"
| "nibbles_to_bytes (x # y # r) = res_bind (nibbles_to_bytes r) (\<lambda>bs. Inr ((push_bit 4 x + y) # bs))"

definition from_utf8 :: "bytes \<Rightarrow> string indy_result" where
  "from_utf8 bs =
     (if is_utf8 (bytes_string bs) then Inr (bytes_string bs)
      else fail IE_InvalidStructure ''Patricia Merkle Trie contains malformed utf8 string'')"

definition nibbles_to_str :: "bytes \<Rightarrow> string indy_result" where
  "nibbles_to_str nibbles = res_bind (nibbles_to_bytes nibbles) from_utf8"

subsection \<open>Lookup\<close>

partial_function (option) get_node_from ::
    "trie_db \<Rightarrow> Node \<Rightarrow> bytes \<Rightarrow> bytes \<Rightarrow> (Node \<times> bytes) option indy_result option" where
  "get_node_from db self path seen_path =
     (case self of
        NodeFull nodes value \<Rightarrow>
          (case path of
             [] \<Rightarrow> Some (Inr (Some (self, seen_path)))
           | nibble # rest \<Rightarrow>
               (case list_get nodes (unat nibble) of
                  None \<Rightarrow> Some (Inl Panic)
                | Some child \<Rightarrow>
                    (case child of
                       Some nxt \<Rightarrow> get_node_from db nxt rest (seen_path @ [nibble])
                     | None \<Rightarrow> Some (Inr None))))
      | NodeHash hash \<Rightarrow>
          if length hash \<noteq> HASH_SIZE then Some (Inl Panic)
          else
            (case db hash of
               Some nxt \<Rightarrow> get_node_from db nxt path seen_path
             | None \<Rightarrow> Some (fail IE_InvalidStructure
                 ''Incomplete key-value DB for Patricia Merkle Trie to get value by the key''))
      | NodeLeaf p value \<Rightarrow>
          (case parse_path p of
             Inl e \<Rightarrow> Some (Inl e)
           | Inr (is_leaf, pair_path) \<Rightarrow>
               if \<not> is_leaf then
                 Some (fail IE_InvalidState ''Incorrect Patricia Merkle Trie: node marked as leaf but path contains extension flag'')
               else if prefix path pair_path then Some (Inr (Some (self, seen_path)))
               else Some (Inr None))
      | NodeExtension p nxt \<Rightarrow>
          (case parse_path p of
             Inl e \<Rightarrow> Some (Inl e)
           | Inr (is_leaf, pair_path) \<Rightarrow>
               if is_leaf then
                 Some (fail IE_InvalidState ''Incorrect Patricia Merkle Trie: node marked as extension but path contains leaf flag'')
               else if prefix pair_path path then
                 get_node_from db nxt (drop (length pair_path) path) (seen_path @ pair_path)
               else if prefix path pair_path then Some (Inr (Some (self, seen_path)))
               else Some (Inr None))
      | NodeBlank \<Rightarrow> Some (Inr None))"

definition get_node :: "trie_db \<Rightarrow> Node \<Rightarrow> bytes \<Rightarrow> (Node \<times> bytes) option indy_result option" where
  "get_node db self path = get_node_from db self (path_to_nibbles path) []"

definition raw_value :: "Node \<Rightarrow> bytes option indy_result" where
  "raw_value node =
     (case node of
        NodeFull nodes value \<Rightarrow> Inr value
      | NodeLeaf p value \<Rightarrow>
          res_bind (parse_path p) (\<lambda>(is_leaf, _).
            if \<not> is_leaf then
              fail IE_InvalidState ''Incorrect Patricia Merkle Trie: node marked as leaf but path contains extension flag''
            else Inr (Some value))
      | _ \<Rightarrow> Inr None)"

definition get_value_nibbles :: "trie_db \<Rightarrow> Node \<Rightarrow> bytes \<Rightarrow> bytes option indy_result option" where
  "get_value_nibbles db self path =
     map_option (\<lambda>r. res_bind r (\<lambda>found. case found of None \<Rightarrow> Inr None | Some (node, _) \<Rightarrow> raw_value node))
       (get_node_from db self path [])"

text \<open>A stored value is an RLP list of one item.\<close>

definition single_item :: "trie_lib \<Rightarrow> bytes \<Rightarrow> bytes option" where
  "single_item lib v = (case as_bytes_list (tl_view lib v) of [val] \<Rightarrow> Some val | _ \<Rightarrow> None)"

definition get_value :: "trie_lib \<Rightarrow> trie_db \<Rightarrow> Node \<Rightarrow> bytes \<Rightarrow> bytes option indy_result option" where
  "get_value lib db self path =
     map_option (\<lambda>r. res_bind r (\<lambda>found.
       case found of
         Some v \<Rightarrow>
           (case single_item lib v of
              Some val \<Rightarrow> Inr (Some val)
            | None \<Rightarrow> fail IE_InvalidStructure ''Unexpected data format of value in Patricia Merkle Trie'')
       | None \<Rightarrow> Inr None))
       (get_value_nibbles db self (path_to_nibbles path))"

definition get_str_value :: "trie_lib \<Rightarrow> trie_db \<Rightarrow> Node \<Rightarrow> bytes \<Rightarrow> string option indy_result option" where
  "get_str_value lib db self path =
     map_option (\<lambda>r. res_bind r (\<lambda>value.
       case value of
         Some vec \<Rightarrow> res_bind (from_utf8 vec) (\<lambda>str. Inr (Some str))
       | None \<Rightarrow> Inr None))
       (get_value lib db self path)"

subsection \<open>All values\<close>

text \<open>The loop over the children: the first error or panic ends it.\<close>

fun try_map_opt :: "('a \<Rightarrow> ('e, 'b) result option) \<Rightarrow> 'a list \<Rightarrow> ('e, 'b list) result option" where
  "try_map_opt f [] = Some (Inr [])"
| "try_map_opt f (x # xs) =
     Option.bind (f x) (\<lambda>r.
       case r of
         Inl e \<Rightarrow> Some (Inl e)
       | Inr y \<Rightarrow> map_option (\<lambda>rs. res_bind rs (\<lambda>ys. Inr (y # ys))) (try_map_opt f xs))"

lemma map_option_bind: "map_option g m = Option.bind m (\<lambda>x. Some (g x))"
  by (cases m) auto

lemma map_option_mono [partial_function_mono]:
  "mono_option B \<Longrightarrow> mono_option (\<lambda>f. map_option g (B f))"
  unfolding map_option_bind by (rule bind_mono) (simp_all add: option.const_mono)

lemma try_map_opt_mono [partial_function_mono]:
  assumes "\<And>x. mono_option (\<lambda>f. F f x)"
  shows "mono_option (\<lambda>f. try_map_opt (F f) xs)"
proof (induction xs)
  case Nil
  show ?case by (simp add: option.const_mono)
next
  case (Cons x xs)
  have "mono_option (\<lambda>f. case r of Inl e \<Rightarrow> Some (Inl e)
      | Inr y \<Rightarrow> map_option (\<lambda>rs. res_bind rs (\<lambda>ys. Inr (y # ys))) (try_map_opt (F f) xs))" for r
    by (cases r) (simp_all add: option.const_mono map_option_mono Cons.IH)
  then show ?case using assms by (simp add: bind_mono)
qed

partial_function (option) get_all_values_from ::
    "trie_lib \<Rightarrow> trie_db \<Rightarrow> Node \<Rightarrow> bytes \<Rightarrow> (bytes \<times> string) list indy_result option" where
  "get_all_values_from lib db self pre =
     (case self of
        NodeFull nodes value \<Rightarrow>
          map_option (\<lambda>r. res_bind r (\<lambda>sub.
            case value of
              None \<Rightarrow> Inr (concat sub)
            | Some v \<Rightarrow>
                (case single_item lib v of
                   None \<Rightarrow> Inr (concat sub)
                 | Some val \<Rightarrow> res_bind (from_utf8 val) (\<lambda>str. Inr (concat sub @ [(pre, str)])))))
            (try_map_opt (\<lambda>i.
               case list_get nodes i of
                 None \<Rightarrow> Some (Inl Panic)
               | Some child \<Rightarrow>
                   (case child of
                      None \<Rightarrow> Some (Inr [])
                    | Some nxt \<Rightarrow> get_all_values_from lib db nxt (pre @ [of_nat i])))
               [0..<16])
      | NodeHash hash \<Rightarrow>
          if length hash \<noteq> HASH_SIZE then Some (Inl Panic)
          else
            (case db hash of
               Some nxt \<Rightarrow> get_all_values_from lib db nxt pre
             | None \<Rightarrow> Some (fail IE_InvalidState
                 ''Incorrect Patricia Merkle Trie: empty hash node when it should not be empty''))
      | NodeLeaf p value \<Rightarrow>
          Some (res_bind (parse_path p) (\<lambda>(is_leaf, pair_path).
            if \<not> is_leaf then
              fail IE_InvalidState ''Incorrect Patricia Merkle Trie: node marked as leaf but path contains extension flag''
            else
              (case single_item lib value of
                 Some val \<Rightarrow> res_bind (from_utf8 val) (\<lambda>str. Inr [(pre @ pair_path, str)])
               | None \<Rightarrow> fail IE_InvalidStructure ''Unexpected data format of value in Patricia Merkle Trie'')))
      | NodeExtension p nxt \<Rightarrow>
          (case parse_path p of
             Inl e \<Rightarrow> Some (Inl e)
           | Inr (is_leaf, pair_path) \<Rightarrow>
               if is_leaf then
                 Some (fail IE_InvalidState ''Incorrect Patricia Merkle Trie: node marked as extension but path contains leaf flag'')
               else get_all_values_from lib db nxt (pre @ pair_path))
      | NodeBlank \<Rightarrow> Some (Inr []))"

definition get_all_values ::
    "trie_lib \<Rightarrow> trie_db \<Rightarrow> Node \<Rightarrow> bytes option \<Rightarrow> (string \<times> string) list indy_result option" where
  "get_all_values lib db self pre =
     Option.bind (case pre of Some prf \<Rightarrow> get_node db self prf | None \<Rightarrow> Some (Inr (Some (self, [])))) (\<lambda>found.
       case found of
         Inl e \<Rightarrow> Some (Inl e)
       | Inr None \<Rightarrow> Some (Inr [])
       | Inr (Some (node, prf)) \<Rightarrow>
           map_option (\<lambda>r. res_bind r (try_map (\<lambda>(key, val). res_bind (nibbles_to_str key) (\<lambda>k. Inr (k, val)))))
             (get_all_values_from lib db node prf))"

subsection \<open>Well-formed nodes\<close>

fun wf_node :: "Node \<Rightarrow> bool" where
  "wf_node (NodeLeaf path value) = (path \<noteq> [] \<and> hd path AND IS_LEAF_MASK = IS_LEAF_MASK)"
| "wf_node (NodeExtension path nxt) = (path \<noteq> [] \<and> hd path AND IS_LEAF_MASK = 0 \<and> wf_node nxt)"
| "wf_node (NodeFull nodes value) =
     (length nodes = RADIX \<and> (\<forall>c \<in> set nodes. case c of Some n \<Rightarrow> wf_node n \<and> n \<noteq> NodeBlank | None \<Rightarrow> True) \<and> value \<noteq> Some [])"
| "wf_node (NodeHash hash) = (length hash = HASH_SIZE)"
| "wf_node NodeBlank = True"

text \<open>How the bytes of an RLP stream are seen by the decoder.\<close>

fun as_view :: "rlp_tree \<Rightarrow> untrusted_rlp" where
  "as_view (OutData b) = RlpData b"
| "as_view (OutList xs) = RlpList (map as_view xs)"

lemma decode_children_length: "decode_children n items = Inr cs \<Longrightarrow> n \<le> length items \<Longrightarrow> length cs = n"
proof (induction n arbitrary: items cs)
  case (Suc n)
  then obtain cur rest where "items = cur # rest" by (cases items) auto
  then show ?case using Suc by (auto simp: res_simps split: if_splits)
qed simp

lemma decode_pair:
  assumes "length items = PAIR_SIZE"
  shows "Node_decode (RlpList items) = Inr n \<longleftrightarrow>
     (\<exists>f r. as_val (items ! 0) = Inr (f # r) \<and>
       (if f AND IS_LEAF_MASK = IS_LEAF_MASK then \<exists>v. as_val (items ! 1) = Inr v \<and> n = NodeLeaf (f # r) v
        else f AND IS_LEAF_MASK = 0 \<and> (\<exists>nxt. Node_decode (items ! 1) = Inr nxt \<and> n = NodeExtension (f # r) nxt)))"
proof (cases "as_val (items ! 0)")
  case (Inr path)
  then show ?thesis using assms by (cases path) (auto simp: res_simps)
qed (simp add: assms)

lemma decode_many:
  assumes "length items \<noteq> PAIR_SIZE"
  shows "Node_decode (RlpList items) = Inr n \<longleftrightarrow>
     length items = FULL_SIZE \<and> (\<exists>nodes value. decode_children RADIX items = Inr nodes
        \<and> decode_value (items ! RADIX) = Inr value \<and> n = NodeFull nodes value)"
  using assms by (auto simp: res_simps)

lemma decoded_not_blank: "Node_decode cur = Inr NodeBlank \<Longrightarrow> prototype cur = ProtoData 0"
proof (cases cur)
  case (RlpList items)
  assume "Node_decode cur = Inr NodeBlank"
  then show ?thesis
    by (cases "length items = PAIR_SIZE")
       (auto simp: RlpList decode_pair decode_many simp del: Node_decode.simps split: if_splits)
qed (auto simp: node_sizes split: if_splits)

lemma decode_value_Some: "decode_value item = Inr value \<Longrightarrow> value \<noteq> Some []"
  by (cases item) (auto simp: decode_value_def res_simps split: if_splits)

lemma decoded_wf:
  "Node_decode r = Inr n \<Longrightarrow> wf_node n"
  "decode_children k items = Inr cs \<Longrightarrow> \<forall>c \<in> set cs. case c of Some n \<Rightarrow> wf_node n \<and> n \<noteq> NodeBlank | None \<Rightarrow> True"
proof (induction r and k items arbitrary: n and cs rule: Node_decode_decode_children.induct)
  case (1 items)
  show ?case
  proof (cases "length items = PAIR_SIZE")
    case True
    have "wf_node nxt" if "f AND IS_LEAF_MASK \<noteq> IS_LEAF_MASK" "f AND IS_LEAF_MASK = 0" "Node_decode (items ! 1) = Inr nxt" for f nxt
      using "1.IH"(1) [OF True refl that] .
    then show ?thesis using "1.prems" True by (auto simp: decode_pair simp del: Node_decode.simps split: if_splits)
  next
    case False
    then obtain nodes val where "length items = FULL_SIZE" "decode_children RADIX items = Inr nodes"
      "decode_value (items ! RADIX) = Inr val" "n = NodeFull nodes val"
      using "1.prems" decode_many by blast
    then show ?thesis
      using "1.IH"(2) [OF False] decode_children_length [of RADIX items nodes] decode_value_Some
      by (auto simp: node_sizes)
  qed
next
  case (7 k cur items)
  then show ?case using decoded_not_blank [of cur] by (auto simp: res_simps split: if_splits)
qed (auto simp: res_simps node_sizes split: if_splits)

lemma as_view_blank: "prototype (as_view (rlp_append n)) = ProtoData 0 \<Longrightarrow> wf_node n \<Longrightarrow> n = NodeBlank"
  by (cases n) (auto simp: node_sizes)

lemma decode_children_append:
  assumes "\<And>n. Some n \<in> set nodes \<Longrightarrow> Node_decode (as_view (rlp_append n)) = Inr n \<and> prototype (as_view (rlp_append n)) \<noteq> ProtoData 0"
  shows "decode_children (length nodes)
     (map (\<lambda>c. as_view (case c of Some n \<Rightarrow> rlp_append n | None \<Rightarrow> OutData [])) nodes @ rest) = Inr nodes"
  using assms by (induction nodes) (auto split: option.splits)

lemma decode_append: "wf_node n \<Longrightarrow> Node_decode (as_view (rlp_append n)) = Inr n"
proof (induction n)
  case (NodeLeaf path val)
  then show ?case by (cases path) (auto simp: decode_pair PAIR_SIZE_def simp del: Node_decode.simps)
next
  case (NodeExtension path nxt)
  moreover have "IS_LEAF_MASK \<noteq> 0" by (simp add: IS_LEAF_MASK_def)
  ultimately show ?case by (cases path) (auto simp: decode_pair PAIR_SIZE_def simp del: Node_decode.simps)
next
  case (NodeFull nodes val)
  let ?items = "map (\<lambda>c. as_view (case c of Some n \<Rightarrow> rlp_append n | None \<Rightarrow> OutData [])) nodes
    @ [RlpData (case val of Some v \<Rightarrow> v | None \<Rightarrow> [])]"
  have len: "length nodes = RADIX" using NodeFull.prems by simp
  have "Node_decode (as_view (rlp_append n)) = Inr n \<and> prototype (as_view (rlp_append n)) \<noteq> ProtoData 0"
    if "Some n \<in> set nodes" for n
    using NodeFull that as_view_blank [of n] by fastforce
  then have "decode_children RADIX ?items = Inr nodes" unfolding len [symmetric] by (rule decode_children_append)
  moreover have "decode_value (?items ! RADIX) = Inr val"
    using NodeFull.prems by (auto simp: nth_append len decode_value_def split: option.splits)
  moreover have "as_view (rlp_append (NodeFull nodes val)) = RlpList ?items"
    by (auto simp: comp_def split: option.splits)
  ultimately show ?case using len by (simp add: decode_many node_sizes del: Node_decode.simps rlp_append.simps)
qed (simp_all add: node_sizes)

lemma rlp_append_inject:
  assumes "wf_node m" "wf_node n" "rlp_append m = rlp_append n"
  shows "m = n"
proof -
  have "Inr m = (Inr n :: Node rlp_result)"
    using decode_append [OF assms(1)] decode_append [OF assms(2)] assms(3) by (simp only:)
  then show ?thesis by simp
qed

subsection \<open>What a trie holds\<close>

text \<open>\<open>trie_maps db n path v\<close>: below the node \<open>n\<close> the nibbles \<open>path\<close> lead to the raw value \<open>v\<close>.\<close>

inductive trie_maps :: "trie_db \<Rightarrow> Node \<Rightarrow> bytes \<Rightarrow> bytes \<Rightarrow> bool" for db where
  maps_leaf: "parse_path p = Inr (True, path) \<Longrightarrow> trie_maps db (NodeLeaf p v) path v"
| maps_here: "trie_maps db (NodeFull nodes (Some v)) [] v"
| maps_child: "list_get nodes (unat i) = Some (Some n) \<Longrightarrow> trie_maps db n path v \<Longrightarrow> trie_maps db (NodeFull nodes w) (i # path) v"
| maps_extension: "parse_path p = Inr (False, q) \<Longrightarrow> trie_maps db n path v \<Longrightarrow> trie_maps db (NodeExtension p n) (q @ path) v"
| maps_hash: "length h = HASH_SIZE \<Longrightarrow> db h = Some n \<Longrightarrow> trie_maps db n path v \<Longrightarrow> trie_maps db (NodeHash h) path v"

inductive_simps maps_simps:
  "trie_maps db (NodeLeaf p w) path v"
  "trie_maps db (NodeFull nodes w) path v"
  "trie_maps db (NodeExtension p n) path v"
  "trie_maps db (NodeHash h) path v"
  "trie_maps db NodeBlank path v"

lemma maps_found:
  assumes "trie_maps db n path v"
  shows "\<exists>m seen'. get_node_from db n path seen = Some (Inr (Some (m, seen'))) \<and> raw_value m = Inr (Some v)"
  using assms
proof (induction arbitrary: seen)
  case (maps_leaf p path v)
  then show ?case by (simp add: get_node_from.simps raw_value_def)
next
  case (maps_here nodes v)
  then show ?case by (simp add: get_node_from.simps raw_value_def)
next
  case (maps_child nodes i n path v w)
  then show ?case by (subst get_node_from.simps) simp
next
  case (maps_extension p q n path v)
  then show ?case by (subst get_node_from.simps) simp
next
  case (maps_hash h n path v)
  then show ?case by (subst get_node_from.simps) simp
qed

text \<open>What the lookup returns for a path: the property below holds of its result at every node.\<close>

definition found_ok :: "trie_db \<Rightarrow> Node \<Rightarrow> bytes \<Rightarrow> (Node \<times> bytes) option indy_result \<Rightarrow> bool" where
  "found_ok db n path r =
     (\<forall>m seen' v. r = Inr (Some (m, seen')) \<and> raw_value m = Inr (Some v) \<longrightarrow> (\<exists>suffix. trie_maps db n (path @ suffix) v))"

lemma found_ok_child:
  "found_ok db n path r \<Longrightarrow> list_get nodes (unat i) = Some (Some n) \<Longrightarrow> found_ok db (NodeFull nodes w) (i # path) r"
  unfolding found_ok_def by (fastforce intro: maps_child)

lemma found_ok_extension:
  assumes "found_ok db n (drop (length q) path) r" "parse_path p = Inr (False, q)" "prefix q path"
  shows "found_ok db (NodeExtension p n) path r"
proof -
  obtain rest where "path = q @ rest" using assms(3) by (auto elim: prefixE)
  then show ?thesis using assms(1) maps_extension [OF assms(2)] unfolding found_ok_def by fastforce
qed

lemma found_ok_hash:
  "found_ok db n path r \<Longrightarrow> length h = HASH_SIZE \<Longrightarrow> db h = Some n \<Longrightarrow> found_ok db (NodeHash h) path r"
  unfolding found_ok_def by (fastforce intro: maps_hash)

lemma found_ok_leaf:
  "parse_path p = Inr (True, q) \<Longrightarrow> prefix path q \<Longrightarrow> found_ok db (NodeLeaf p w) path (Inr (Some (NodeLeaf p w, seen)))"
  by (auto simp: found_ok_def raw_value_def intro: maps_leaf elim!: prefixE)

lemma found_ok_nothing:
  "found_ok db n path (Inl e)"
  "found_ok db n path (Inr None)"
  "found_ok db n path (Inr (Some (NodeExtension p m, seen)))"
  "found_ok db n path (fail k msg)"
  by (simp_all add: found_ok_def raw_value_def fail_def)

lemma found_ok_here: "found_ok db (NodeFull nodes w) [] (Inr (Some (NodeFull nodes w, seen)))"
  by (auto simp: found_ok_def raw_value_def intro: exI [of _ "[]"] maps_here)

lemmas found_ok_intros = found_ok_child found_ok_extension found_ok_hash found_ok_leaf found_ok_nothing found_ok_here

lemma get_node_found_ok:
  assumes "get_node_from db n path seen = Some r"
  shows "found_ok db n path r"
proof (rule get_node_from.raw_induct [where P = "\<lambda>db n path seen r. found_ok db n path r", OF _ assms], goal_cases)
  case (1 f db self path seen r)
  then show ?case
    by (auto split: Node.splits list.splits option.splits sum.splits if_splits prod.splits
          intro: found_ok_intros found_ok_child [OF 1(1)] found_ok_extension [OF 1(1)] found_ok_hash [OF 1(1)])
qed

subsection \<open>Two databases of one trie\<close>

fun hash_refs :: "Node \<Rightarrow> bytes set" where
  "hash_refs (NodeHash h) = {h}"
| "hash_refs (NodeExtension p n) = hash_refs n"
| "hash_refs (NodeFull nodes v) = (\<Union>c \<in> set nodes. case c of Some n \<Rightarrow> hash_refs n | None \<Rightarrow> {})"
| "hash_refs _ = {}"

definition complete_db :: "trie_db \<Rightarrow> bool" where
  "complete_db db = (\<forall>h n. db h = Some n \<longrightarrow> hash_refs n \<subseteq> dom db)"

definition agree_db :: "trie_db \<Rightarrow> trie_db \<Rightarrow> bool" where
  "agree_db db db' = (\<forall>h m n. db h = Some m \<and> db' h = Some n \<longrightarrow> m = n)"

lemma child_refs: "list_get nodes i = Some (Some n) \<Longrightarrow> hash_refs n \<subseteq> hash_refs (NodeFull nodes w)"
  by (force dest: list_get_SomeD)

lemma maps_transfer:
  assumes "trie_maps db n path v" "agree_db db db'" "complete_db db'" "hash_refs n \<subseteq> dom db'"
  shows "trie_maps db' n path v"
  using assms(1,4)
proof (induction)
  case (maps_child nodes i n path v w)
  then show ?case using child_refs [OF maps_child.hyps(1), of w] by (auto intro: trie_maps.maps_child)
next
  case (maps_hash h n path v)
  then obtain m where "db' h = Some m" by auto
  moreover from this have "m = n" using maps_hash.hyps(2) assms(2) unfolding agree_db_def by metis
  ultimately show ?case using maps_hash assms(3) by (auto simp: complete_db_def intro: trie_maps.maps_hash)
qed (auto intro: trie_maps.intros)

lemma maps_not_missed:
  assumes "trie_maps db' n path v" "agree_db db db'" "get_node_from db n path seen = Some (Inr r)"
  shows "\<exists>m seen'. r = Some (m, seen') \<and> raw_value m = Inr (Some v)"
  using assms(1,3)
proof (induction arbitrary: seen)
  case (maps_leaf p path v)
  then show ?case by (auto simp: get_node_from.simps raw_value_def)
next
  case (maps_here nodes v)
  then show ?case by (auto simp: get_node_from.simps raw_value_def)
next
  case (maps_child nodes i n path v w)
  from maps_child.prems show ?case
    by (subst (asm) get_node_from.simps) (auto simp: maps_child.hyps(1) dest!: maps_child.IH)
next
  case (maps_extension p q n path v)
  from maps_extension.prems show ?case
    by (subst (asm) get_node_from.simps) (auto simp: maps_extension.hyps(1) dest!: maps_extension.IH)
next
  case (maps_hash h n path v)
  have "m = n" if "db h = Some m" for m using that maps_hash.hyps(2) assms(2) unfolding agree_db_def by metis
  with maps_hash.prems show ?case
    by (subst (asm) get_node_from.simps)
       (auto simp: maps_hash.hyps(1) fail_def split: option.splits dest!: maps_hash.IH)
qed

lemma get_value_nibbles_Inr:
  "get_value_nibbles db n path = Some (Inr w) \<longleftrightarrow>
     (\<exists>r. get_node_from db n path [] = Some (Inr r) \<and> (case r of None \<Rightarrow> w = None | Some (m, _) \<Rightarrow> raw_value m = Inr w))"
  by (auto simp: get_value_nibbles_def res_simps split: option.splits prod.splits)

lemma present_value_sound:
  assumes "get_value_nibbles db n path = Some (Inr (Some v))" "agree_db db db'" "complete_db db'" "hash_refs n \<subseteq> dom db'"
  shows "\<exists>suffix. trie_maps db' n (path @ suffix) v"
proof -
  obtain m seen where "get_node_from db n path [] = Some (Inr (Some (m, seen)))" "raw_value m = Inr (Some v)"
    using assms(1) by (auto simp: get_value_nibbles_Inr split: option.splits)
  then obtain suffix where "trie_maps db n (path @ suffix) v"
    using get_node_found_ok unfolding found_ok_def by blast
  then show ?thesis using maps_transfer assms(2-4) by blast
qed

lemma absent_value_sound:
  assumes "get_value_nibbles db n path = Some (Inr None)" "agree_db db db'"
  shows "\<not> trie_maps db' n path v"
  using assms maps_not_missed [of db' n path v db "[]"] by (fastforce simp: get_value_nibbles_Inr)

subsection \<open>Termination\<close>

definition acyclic_db :: "trie_db \<Rightarrow> bool" where
  "acyclic_db db = (\<exists>rank :: bytes \<Rightarrow> nat. \<forall>h n. db h = Some n \<longrightarrow> (\<forall>h' \<in> hash_refs n. rank h' < rank h))"

lemma get_node_returns_below:
  assumes "\<forall>h n. db h = Some n \<longrightarrow> (\<forall>h' \<in> hash_refs n. rank h' < rank h)" "\<forall>h \<in> hash_refs n. rank h < (k :: nat)"
  shows "\<exists>r. get_node_from db n path seen = Some r"
  using assms(2)
proof (induction k arbitrary: n path seen rule: less_induct)
  case (less k)
  from less.prems show ?case
  proof (induction n arbitrary: path seen)
    case (NodeLeaf p w)
    then show ?case by (subst get_node_from.simps) (auto split: sum.splits)
  next
    case (NodeExtension p n)
    then show ?case by (subst get_node_from.simps) (auto split: sum.splits)
  next
    case (NodeFull nodes w)
    have "\<exists>r. get_node_from db m rest seen' = Some r" if "list_get nodes i = Some (Some m)" for m i rest seen'
      using NodeFull that child_refs [OF that, of w] by (fastforce dest: list_get_SomeD)
    then show ?case by (subst get_node_from.simps) (auto split: list.splits option.splits)
  next
    case (NodeHash h)
    have "\<exists>r. get_node_from db m path seen = Some r" if "db h = Some m" for m
      using less.IH [of "rank h" m] assms(1) that NodeHash by auto
    then show ?case by (subst get_node_from.simps) (auto split: option.splits)
  next
    case NodeBlank
    then show ?case by (subst get_node_from.simps) auto
  qed
qed

lemma try_map_opt_returns: "(\<And>x. x \<in> set xs \<Longrightarrow> \<exists>r. f x = Some r) \<Longrightarrow> \<exists>r. try_map_opt f xs = Some r"
  by (induction xs) (fastforce split: sum.splits)+

lemma get_all_values_returns_below:
  assumes "\<forall>h n. db h = Some n \<longrightarrow> (\<forall>h' \<in> hash_refs n. rank h' < rank h)" "\<forall>h \<in> hash_refs n. rank h < (k :: nat)"
  shows "\<exists>r. get_all_values_from lib db n pre = Some r"
  using assms(2)
proof (induction k arbitrary: n pre rule: less_induct)
  case (less k)
  from less.prems show ?case
  proof (induction n arbitrary: pre)
    case (NodeLeaf p w)
    then show ?case by (subst get_all_values_from.simps) simp
  next
    case (NodeExtension p n)
    then show ?case by (subst get_all_values_from.simps) (auto split: sum.splits)
  next
    case (NodeFull nodes w)
    have "\<exists>r. get_all_values_from lib db m pre' = Some r" if "list_get nodes i = Some (Some m)" for m i pre'
      using NodeFull that child_refs [OF that, of w] by (fastforce dest: list_get_SomeD)
    then have "\<exists>r. try_map_opt (\<lambda>i. case list_get nodes i of None \<Rightarrow> Some (Inl Panic)
       | Some None \<Rightarrow> Some (Inr []) | Some (Some nxt) \<Rightarrow> get_all_values_from lib db nxt (pre @ [of_nat i])) [0..<16] = Some r"
      by (intro try_map_opt_returns) (auto split: option.splits)
    then show ?case by (subst get_all_values_from.simps) auto
  next
    case (NodeHash h)
    have "\<exists>r. get_all_values_from lib db m pre = Some r" if "db h = Some m" for m
      using less.IH [of "rank h" m] assms(1) that NodeHash by auto
    then show ?case by (subst get_all_values_from.simps) (auto split: option.splits)
  next
    case NodeBlank
    then show ?case by (subst get_all_values_from.simps) auto
  qed
qed

end
