(* ===== verification/Pool_Catchup.thy ===== *)
theory Pool_Catchup
  imports Pool_Cache
begin

text \<open>
  Catching up with the pool ledger (\<open>libvdrtools/src/services/pool/catchup.rs\<close>, \<open>CatchupRep\<close> of
  \<open>types.rs\<close>, and \<open>_process_catchup_reply\<close> of \<open>request_handler.rs\<close>).

  A \<open>HashMap\<close> is the list of its entries in iteration order, a \<open>HashSet\<close> a list without repetitions.
  \<open>usize\<close> subtractions that the code does not guard wrap around at 64 bits, as in a release build.

  Shown: a catch-up target is taken only from \<open>f + 1\<close> nodes that report it, hence from one that is not
  faulty; an accepted catch-up reply leaves a tree whose transactions are a prefix of the target ledger
  and extend the local ones; a reply with too many transactions, or with a key that is not written as a
  plain decimal number, panics.
\<close>

datatype PoolMode = InMemory | Persistent

type_synonym ledger_vote = "string \<times> nat \<times> string list option"
type_synonym node_votes = "(ledger_vote \<times> string list) list"

datatype CatchupProgress =
    ShouldBeStarted bytes nat MerkleTree
  | NotNeeded MerkleTree
  | Restart MerkleTree
  | InProgress

text \<open>\<open>Iterator::max_by_key\<close>: the last one of the greatest.\<close>

fun max_by_key :: "('a \<Rightarrow> nat) \<Rightarrow> 'a list \<Rightarrow> 'a option" where
  "max_by_key key [] = None"
| "max_by_key key (x # xs) =
     (case max_by_key key xs of None \<Rightarrow> Some x | Some y \<Rightarrow> if key y < key x then Some x else Some y)"

subsection \<open>Requests\<close>

record CatchupReq =
  cr_ledgerId :: nat
  cr_seqNoStart :: nat
  cr_seqNoEnd :: nat
  cr_catchupTill :: nat

definition JNat :: "nat \<Rightarrow> json" where
  "JNat n = JNumber (nat_to_string n)"

definition CatchupReq_to_json :: "CatchupReq \<Rightarrow> json" where
  "CatchupReq_to_json cr = JObject
     [(''op'', JString ''CATCHUP_REQ''), (''ledgerId'', JNat (cr_ledgerId cr)), (''seqNoStart'', JNat (cr_seqNoStart cr)),
      (''seqNoEnd'', JNat (cr_seqNoEnd cr)), (''catchupTill'', JNat (cr_catchupTill cr))]"

definition build_catchup_req :: "codec \<Rightarrow> MerkleTree \<Rightarrow> nat \<Rightarrow> (string \<times> string) option" where
  "build_catchup_req cd merkle target_mt_size =
     (if mt_count merkle \<ge> target_mt_size then None
      else let seq_no_start = mt_count merkle + 1; seq_no_end = target_mt_size;
               cr = \<lparr>cr_ledgerId = 0, cr_seqNoStart = seq_no_start, cr_seqNoEnd = seq_no_end, cr_catchupTill = target_mt_size\<rparr>
           in Some (nat_to_string seq_no_start @ nat_to_string seq_no_end, cd_json_print cd (CatchupReq_to_json cr)))"

subsection \<open>Votes on the ledger status\<close>

definition check_cons_proofs :: "codec \<Rightarrow> MerkleTree \<Rightarrow> string list \<Rightarrow> bytes \<Rightarrow> nat \<Rightarrow> unit indy_result" where
  "check_cons_proofs cd mt cons_proofs target_mt_root target_mt_size =
     res_bind (try_map (\<lambda>p. ok_or (cd_b58dec cd p) (Err (err_msg IE_InvalidStructure ''Can't decode node consistency proof'')))
                 cons_proofs) (\<lambda>bytes_proofs.
     res_bind (of_merkle (consistency_proof (cd_sha cd) mt target_mt_root target_mt_size bytes_proofs)) (\<lambda>ok.
       if \<not> ok then fail IE_InvalidState ''Consistency proof verification failed'' else Inr ()))"

definition try_to_catch_up :: "codec \<Rightarrow> ledger_vote \<Rightarrow> MerkleTree \<Rightarrow> CatchupProgress indy_result" where
  "try_to_catch_up cd ledger_status merkle_tree =
     (let (target_mt_root, target_mt_size, hashes) = ledger_status;
          cur_mt_size = mt_count merkle_tree;
          cur_mt_hash = cd_b58enc cd (MerkleTree_root_hash merkle_tree)
      in if target_mt_size = cur_mt_size then
           (if cur_mt_hash = target_mt_root then Inr (NotNeeded merkle_tree)
            else fail IE_InvalidState ''Ledger merkle tree is not acceptable for current tree.'')
         else if target_mt_size > cur_mt_size then
           res_bind (ok_or (cd_b58dec cd target_mt_root)
             (Err (err_msg IE_InvalidStructure ''Can't parse target MerkleTree hash from nodes responses''))) (\<lambda>root.
           res_bind (case hashes of None \<Rightarrow> Inr () | Some hs \<Rightarrow> check_cons_proofs cd merkle_tree hs root target_mt_size) (\<lambda>_.
             Inr (ShouldBeStarted root target_mt_size merkle_tree)))
         else fail IE_InvalidState ''Local merkle tree greater than mt from ledger'')"

definition reset_cache_and_restart_catch_up ::
    "codec \<Rightarrow> PoolMode \<Rightarrow> indy_error \<Rightarrow> pool_store \<Rightarrow> CatchupProgress indy_result \<times> pool_store" where
  "reset_cache_and_restart_catch_up cd pool_mode err store =
     (if pool_mode = Persistent then
        (case drop_cache store of
           (Inr _, store') \<Rightarrow> (res_bind (create_tree cd store') (\<lambda>mt. Inr (Restart mt)), store')
         | (Inl _, store') \<Rightarrow> (Inl (Err err), store'))
      else (Inl (Err err), store))"

definition if_consensus_reachable ::
    "codec \<Rightarrow> node_votes \<Rightarrow> nat \<Rightarrow> nat \<Rightarrow> nat \<Rightarrow> PoolMode \<Rightarrow> pool_store \<Rightarrow> CatchupProgress indy_result \<times> pool_store" where
  "if_consensus_reachable cd nodes_votes node_cnt votes_cnt f pool_mode store =
     (let reps_cnt = sum_list (map (length \<circ> snd) nodes_votes);
          positive_votes_cnt = usize_add votes_cnt (usize_sub node_cnt reps_cnt)
      in if positive_votes_cnt < usize_sub node_cnt f
         then reset_cache_and_restart_catch_up cd pool_mode (err_msg IE_PoolTimeout ''No consensus possible'') store
         else (Inr InProgress, store))"

definition check_nodes_responses_on_status ::
    "codec \<Rightarrow> node_votes \<Rightarrow> MerkleTree \<Rightarrow> nat \<Rightarrow> nat \<Rightarrow> PoolMode \<Rightarrow> pool_store \<Rightarrow> CatchupProgress indy_result \<times> pool_store" where
  "check_nodes_responses_on_status cd nodes_votes merkle_tree node_cnt f pool_mode store =
     (let votes = filter (\<lambda>((root, _), _). root \<noteq> ''timeout'') nodes_votes;
          timeout_votes = filter (\<lambda>((root, _), _). root = ''timeout'') nodes_votes
      in case max_by_key (length \<circ> snd) votes of
           Some (vote, voters) \<Rightarrow>
             if length voters = f + 1 then
               (case try_to_catch_up cd vote merkle_tree of
                  Inr progress \<Rightarrow> (Inr progress, store)
                | Inl Panic \<Rightarrow> (Inl Panic, store)
                | Inl (Err err) \<Rightarrow>
                    (case pool_mode of
                       InMemory \<Rightarrow> (Inl (Err err), store)
                     | Persistent \<Rightarrow>
                         (case drop_cache store of
                            (Inr _, store') \<Rightarrow>
                              (res_bind (create_tree cd store') (\<lambda>mt. try_to_catch_up cd vote mt), store')
                          | (Inl _, store') \<Rightarrow> (Inl (Err err), store'))))
             else if_consensus_reachable cd nodes_votes node_cnt (length voters) f pool_mode store
         | None \<Rightarrow>
             (if timeout_votes = [] then (Inr InProgress, store)
              else let votes_cnt = length (snd (last timeout_votes))
                   in if votes_cnt = usize_sub node_cnt f
                      then reset_cache_and_restart_catch_up cd pool_mode (err_msg IE_PoolTimeout ''Pool timeout'') store
                      else if_consensus_reachable cd nodes_votes node_cnt votes_cnt f pool_mode store))"

subsection \<open>Catch-up replies\<close>

record CatchupRep =
  crep_ledgerId :: nat
  crep_consProof :: "string list"
  crep_txns :: "(string \<times> json) list"

definition min_tx :: "(string \<times> json) list \<Rightarrow> nat indy_result" where
  "min_tx txns =
     res_bind (try_map (\<lambda>(k, _). ok_or (parse_uint (2 ^ 64) k)
                 (Err (err_msg IE_InvalidStructure ''Invalid key in catchup reply''))) txns) (\<lambda>vals.
       case vals of
         [] \<Rightarrow> fail IE_InvalidStructure ''Empty map''
       | v # vs \<Rightarrow> Inr (foldl (\<lambda>m val. if val < m then val else m) v vs))"

text \<open>\<open>rep.txns.remove(&key.to_string()).unwrap()\<close> panics if the key is not spelled that way.\<close>

function append_txns ::
    "codec \<Rightarrow> (string \<times> json) list \<Rightarrow> MerkleTree \<Rightarrow> bytes list \<Rightarrow> (MerkleTree \<times> bytes list) indy_result" where
  "append_txns cd txns merkle txns_to_drop =
     (if txns = [] then Inr (merkle, txns_to_drop)
      else (case min_tx txns of
              Inl e \<Rightarrow> Inl e
            | Inr key \<Rightarrow>
                (case map_of txns (nat_to_string key) of
                   None \<Rightarrow> Inl Panic
                 | Some txn \<Rightarrow>
                     (case cd_msgpack cd txn of
                        None \<Rightarrow> fail IE_InvalidStructure ''Invalid transaction -- can not transform to bytes''
                      | Some b \<Rightarrow>
                          (case of_merkle (append_leaf (cd_sha cd) merkle b) of
                             Inl e \<Rightarrow> Inl e
                           | Inr merkle' \<Rightarrow>
                               append_txns cd (filter (\<lambda>(k, _). k \<noteq> nat_to_string key) txns) merkle' (txns_to_drop @ [b]))))))"
  by pat_completeness auto
termination
  by (relation "measure (\<lambda>(_, txns, _). length txns)")
     (auto dest!: map_of_SomeD intro!: length_filter_less)

declare append_txns.simps [simp del]

definition process_catchup_reply ::
    "codec \<Rightarrow> CatchupRep \<Rightarrow> MerkleTree \<Rightarrow> bytes \<Rightarrow> nat \<Rightarrow> PoolMode \<Rightarrow> pool_store \<Rightarrow> MerkleTree indy_result \<times> pool_store" where
  "process_catchup_reply cd rep merkle target_mt_root target_mt_size pool_mode store =
     (case res_bind (append_txns cd (crep_txns rep) merkle []) (\<lambda>(merkle', txns_to_drop).
             res_bind (check_cons_proofs cd merkle' (crep_consProof rep) target_mt_root target_mt_size) (\<lambda>_.
               Inr (merkle', txns_to_drop))) of
        Inl e \<Rightarrow> (Inl e, store)
      | Inr (merkle', txns_to_drop) \<Rightarrow>
          if pool_mode = Persistent then
            (case dump_new_txns cd txns_to_drop store of
               (Inl e, store') \<Rightarrow> (Inl e, store')
             | (Inr _, store') \<Rightarrow> (Inr merkle', store'))
          else (Inr merkle', store))"

subsection \<open>Votes\<close>

lemma max_by_key_in: "max_by_key key xs = Some x \<Longrightarrow> x \<in> set xs"
  by (induction xs arbitrary: x) (auto split: option.splits if_splits)

lemma try_to_catch_up_target:
  "try_to_catch_up cd (r, n, hs) mt = Inr (ShouldBeStarted root sz mt') \<Longrightarrow>
     sz = n \<and> cd_b58dec cd r = Some root \<and> mt' = mt \<and> mt_count mt < n"
  "try_to_catch_up cd (r, n, hs) mt = Inr (NotNeeded mt') \<Longrightarrow>
     mt' = mt \<and> mt_count mt = n \<and> r = cd_b58enc cd (MerkleTree_root_hash mt)"
  by (auto simp: try_to_catch_up_def Let_def fail_def res_bind_Inr_iff ok_or_Inr_iff split: if_splits)

lemma not_restarted:
  "reset_cache_and_restart_catch_up cd mode err store = (Inr p, store') \<Longrightarrow> \<exists>mt. p = Restart mt"
  "if_consensus_reachable cd nv n v f mode store = (Inr p, store') \<Longrightarrow> p = InProgress \<or> (\<exists>mt. p = Restart mt)"
  by (auto simp: reset_cache_and_restart_catch_up_def if_consensus_reachable_def Let_def res_bind_Inr_iff
      split: if_splits prod.splits sum.splits)

lemma status_target_voted:
  assumes "check_nodes_responses_on_status cd nodes_votes mt node_cnt f mode store = (Inr p, store')"
    and "p = ShouldBeStarted root sz mt' \<or> p = NotNeeded mt'"
  obtains vote voters mt1 where "(vote, voters) \<in> set nodes_votes" "fst vote \<noteq> ''timeout''" "length voters = f + 1"
    "try_to_catch_up cd vote mt1 = Inr p"
proof -
  obtain vote voters where max: "max_by_key (length \<circ> snd) (filter (\<lambda>((root, _), _). root \<noteq> ''timeout'') nodes_votes) = Some (vote, voters)"
      "length voters = f + 1"
    using assms not_restarted
    by (fastforce simp: check_nodes_responses_on_status_def Let_def split: option.splits if_splits prod.splits)
  moreover have "\<exists>mt1. try_to_catch_up cd vote mt1 = Inr p"
    using assms max
    by (auto simp: check_nodes_responses_on_status_def Let_def res_bind_Inr_iff
        split: sum.splits fault.splits PoolMode.splits prod.splits)
  ultimately show thesis using that max_by_key_in [OF max(1)] by fastforce
qed

subsection \<open>Replies\<close>

lemma of_merkle_Inr_iff [simp]: "of_merkle r = Inr x \<longleftrightarrow> r = Inr x"
  by (simp add: of_merkle_def map_err_Inr_iff)

lemma append_txns_step:
  assumes "append_txns cd txns m drp = Inr (m', drp')" "txns \<noteq> []"
  obtains key txn b m1 where "map_of txns (nat_to_string key) = Some txn" "cd_msgpack cd txn = Some b"
    "append_leaf (cd_sha cd) m b = Inr m1"
    "append_txns cd (filter (\<lambda>(k, _). k \<noteq> nat_to_string key) txns) m1 (drp @ [b]) = Inr (m', drp')"
  using assms by (subst (asm) append_txns.simps) (auto simp: fail_def split: sum.splits option.splits)

lemma length_remove_key:
  "distinct (map fst txns) \<Longrightarrow> map_of txns k = Some v \<Longrightarrow> length txns = Suc (length (filter (\<lambda>(k', _). k' \<noteq> k) txns))"
proof (induction txns)
  case (Cons e txns)
  have "k \<notin> fst ` set txns \<Longrightarrow> filter (\<lambda>(k', _). k' \<noteq> k) txns = txns"
    by (rule filter_True) (auto simp: image_iff)
  then show ?case using Cons by (cases e) (auto split: if_splits)
qed simp

lemma append_txns_result:
  "append_txns cd txns m drp = Inr (m', drp') \<Longrightarrow>
     \<exists>new. drp' = drp @ new \<and> append_all (cd_sha cd) m new = Inr m'
        \<and> (\<forall>b \<in> set new. \<exists>txn. cd_msgpack cd txn = Some b)
        \<and> (distinct (map fst txns) \<longrightarrow> length new = length txns)"
proof (induction txns arbitrary: m drp rule: measure_induct_rule [of length])
  case (less txns)
  show ?case
  proof (cases "txns = []")
    case True
    then show ?thesis using less.prems by (simp add: append_txns.simps)
  next
    case False
    obtain key txn b m1 where step: "map_of txns (nat_to_string key) = Some txn" "cd_msgpack cd txn = Some b"
        "append_leaf (cd_sha cd) m b = Inr m1"
        "append_txns cd (filter (\<lambda>(k, _). k \<noteq> nat_to_string key) txns) m1 (drp @ [b]) = Inr (m', drp')"
      using append_txns_step [OF less.prems False] by blast
    have "length (filter (\<lambda>(k, _). k \<noteq> nat_to_string key) txns) < length txns"
      using map_of_SomeD [OF step(1)] by (auto intro!: length_filter_less)
    then obtain new where "drp' = drp @ b # new" "append_all (cd_sha cd) m1 new = Inr m'"
        "\<forall>b \<in> set new. \<exists>txn. cd_msgpack cd txn = Some b"
        "distinct (map fst (filter (\<lambda>(k, _). k \<noteq> nat_to_string key) txns)) \<longrightarrow>
           length new = length (filter (\<lambda>(k, _). k \<noteq> nat_to_string key) txns)"
      using less.IH step(4) by fastforce
    then show ?thesis
      using step(2,3) length_remove_key [OF _ step(1)] by (intro exI [of _ "b # new"]) (auto simp: distinct_map_filter)
  qed
qed

lemma try_map_succeeds: "list_all (\<lambda>x. \<exists>y. f x = Inr y) xs \<Longrightarrow> \<exists>ys. try_map f xs = Inr ys"
  by (induction xs) auto

lemma process_catchup_reply_Inr:
  assumes "process_catchup_reply cd rep merkle root n mode store = (Inr m', store')"
  obtains new bs where "append_txns cd (crep_txns rep) merkle [] = Inr (m', new)"
    "consistency_proof (cd_sha cd) m' root n bs = Inr True"
    "mode = InMemory \<longrightarrow> store' = store" "mode = Persistent \<longrightarrow> dump_new_txns cd new store = (Inr (), store')"
  using assms
  by (cases mode) (auto simp: process_catchup_reply_def check_cons_proofs_def res_bind_Inr_iff fail_def
      split: sum.splits prod.splits if_splits)

subsection \<open>Properties\<close>

text \<open>
  A catch-up target (a root and size to fetch, or the finding that the local tree is current) is one
  that \<open>f + 1\<close> nodes reported. So, if at most \<open>f\<close> nodes are faulty, a node that is not faulty reported it.
\<close>

theorem catchup_target_from_honest_node:
  assumes "check_nodes_responses_on_status cd nodes_votes mt node_cnt f mode store = (Inr p, store')"
    and "list_all (\<lambda>(_, voters). distinct voters) nodes_votes" "finite faulty" "card faulty \<le> f"
    and "p = ShouldBeStarted root sz mt' \<or> p = NotNeeded mt'"
  shows "\<exists>r n hs voters node. ((r, n, hs), voters) \<in> set nodes_votes \<and> node \<in> set voters \<and> node \<notin> faulty
     \<and> (p = ShouldBeStarted root sz mt' \<longrightarrow> n = sz \<and> cd_b58dec cd r = Some root)
     \<and> (p = NotNeeded mt' \<longrightarrow> n = mt_count mt' \<and> r = cd_b58enc cd (MerkleTree_root_hash mt'))"
proof -
  obtain vote voters mt1 where v: "(vote, voters) \<in> set nodes_votes" "length voters = f + 1"
      "try_to_catch_up cd vote mt1 = Inr p"
    using status_target_voted [OF assms(1,5)] by blast
  obtain r n hs where vote: "vote = (r, n, hs)" by (cases vote)
  have "card (set voters) = f + 1" using v(1,2) assms(2) by (auto simp: list_all_iff distinct_card)
  then have "\<not> set voters \<subseteq> faulty" using card_mono [OF assms(3), of "set voters"] assms(4) by auto
  then obtain node where "node \<in> set voters" "node \<notin> faulty" by blast
  moreover have "(p = ShouldBeStarted root sz mt' \<longrightarrow> n = sz \<and> cd_b58dec cd r = Some root)
     \<and> (p = NotNeeded mt' \<longrightarrow> n = mt_count mt' \<and> r = cd_b58enc cd (MerkleTree_root_hash mt'))"
    using v(3) vote try_to_catch_up_target [of cd r n hs mt1] by fastforce
  ultimately show ?thesis using v(1) vote by blast
qed

text \<open>
  C21. An accepted catch-up reply. If the target root and size are those of a ledger, and the hash has no
  collisions on the inputs it was used on, then the new tree holds the local transactions followed by the
  ones of the reply, and all of them are a prefix of that ledger.
\<close>

theorem catchup_reply_extends_ledger:
  assumes "collision_free (cd_sha cd)" "represents (cd_sha cd) merkle vs" "represents (cd_sha cd) target ws"
    and "process_catchup_reply cd rep merkle (MerkleTree_root_hash target) (length ws) mode store = (Inr m', store')"
    and "distinct (map fst (crep_txns rep))"
  shows "\<exists>new. represents (cd_sha cd) m' (vs @ new) \<and> length new = length (crep_txns rep) \<and> prefix (vs @ new) ws"
proof -
  obtain new bs where new: "append_txns cd (crep_txns rep) merkle [] = Inr (m', new)"
      "consistency_proof (cd_sha cd) m' (MerkleTree_root_hash target) (length ws) bs = Inr True"
    using process_catchup_reply_Inr [OF assms(4)] by blast
  then have "append_all (cd_sha cd) merkle new = Inr m'" "length new = length (crep_txns rep)"
    using append_txns_result [OF new(1)] assms(5) by auto
  moreover from this have "represents (cd_sha cd) m' (vs @ new)" using append_all_represents [OF assms(2)] by blast
  ultimately show ?thesis using consistency_sound_represents [OF assms(1) _ assms(3) new(2)] by blast
qed

text \<open>
  After a persistent catch-up the cache is current: opening the pool again gives the tree that the
  catch-up ended with.
\<close>

theorem catchup_reply_is_cached:
  assumes "cd_sha cd = sure h" "\<forall>v b. cd_msgpack cd v = Some b \<longrightarrow> fits b"
    and "vs \<noteq> []" "list_all fits vs" "ps_stored store = Some (dump_vec vs)"
    and "process_catchup_reply cd rep (merkle_of h vs) root n Persistent store = (Inr m', store')"
  shows "create_tree cd store' = Inr m'"
proof -
  obtain new where new: "append_txns cd (crep_txns rep) (merkle_of h vs) [] = Inr (m', new)"
      "dump_new_txns cd new store = (Inr (), store')"
    using process_catchup_reply_Inr [OF assms(6)] by blast
  then have "append_all (cd_sha cd) (merkle_of h vs) new = Inr m'" "list_all fits new"
    using append_txns_result [OF new(1)] assms(2) by (auto simp: list_all_iff)
  then have "m' = merkle_of h (vs @ new)" "list_all fits (vs @ new)" using assms(1,4) by (simp_all add: append_all_total)
  moreover have "ps_stored store' = Some (dump_vec (vs @ new))"
    using new(2) assms(5) by (auto simp: dump_new_txns_def)
  ultimately show ?thesis
    using from_cache_dump [OF assms(1), of "vs @ new" "[]"] validate_merkle_of [of "vs @ new" h] assms(3)
    by (simp add: create_tree_def read_short)
qed

text \<open>
  A single node can make the client panic with its catch-up reply: by a transaction key that is not
  the plain decimal spelling of its number, or by more transactions than were asked for.
\<close>

theorem catchup_reply_panics:
  "(parse_uint (2 ^ 64) k = Some i \<and> k \<noteq> nat_to_string i \<longrightarrow>
      process_catchup_reply cd \<lparr>crep_ledgerId = l, crep_consProof = ps, crep_txns = [(k, t)]\<rparr> merkle root n mode store
        = (Inl Panic, store))
   \<and> (append_txns cd (crep_txns rep) merkle [] = Inr (m', new) \<and> n < mt_count m'
        \<and> list_all (\<lambda>p. cd_b58dec cd p \<noteq> None) (crep_consProof rep) \<longrightarrow>
      process_catchup_reply cd rep merkle root n mode store = (Inl Panic, store))"
proof (intro conjI impI)
  assume "parse_uint (2 ^ 64) k = Some i \<and> k \<noteq> nat_to_string i"
  then show "process_catchup_reply cd \<lparr>crep_ledgerId = l, crep_consProof = ps, crep_txns = [(k, t)]\<rparr> merkle root n mode store
       = (Inl Panic, store)"
    by (auto simp: process_catchup_reply_def append_txns.simps min_tx_def)
next
  assume asm: "append_txns cd (crep_txns rep) merkle [] = Inr (m', new) \<and> n < mt_count m'
        \<and> list_all (\<lambda>p. cd_b58dec cd p \<noteq> None) (crep_consProof rep)"
  then obtain bs where
    "try_map (\<lambda>p. ok_or (cd_b58dec cd p) (Err (err_msg IE_InvalidStructure ''Can't decode node consistency proof''))) (crep_consProof rep) = Inr bs"
    using try_map_succeeds [of "\<lambda>p. ok_or (cd_b58dec cd p) (Err (err_msg IE_InvalidStructure ''Can't decode node consistency proof''))"]
    by (fastforce simp: list_all_iff ok_or_Inr_iff)
  then show "process_catchup_reply cd rep merkle root n mode store = (Inl Panic, store)"
    using asm by (simp add: process_catchup_reply_def check_cons_proofs_def consistency_proof_def)
qed

subsection \<open>The properties at concrete inputs\<close>

definition demo_votes :: node_votes where
  "demo_votes = [((''timeout'', 0, None), [''n1'']), ((''r'', 5, None), [''n2'', ''n3''])]"

theorem catchup_target_from_honest_node_witness:
  "check_nodes_responses_on_status demo_codec demo_votes (merkle_of rev [[7]]) 4 1 InMemory demo_store
     = (Inr (ShouldBeStarted [114] 5 (merkle_of rev [[7]])), demo_store)
   \<and> (\<exists>r n hs voters node. ((r, n, hs), voters) \<in> set demo_votes \<and> node \<in> set voters \<and> node \<notin> {''n2''} \<and> n = 5)"
proof -
  have run: "check_nodes_responses_on_status demo_codec demo_votes (merkle_of rev [[7]]) 4 1 InMemory demo_store
     = (Inr (ShouldBeStarted [114] 5 (merkle_of rev [[7]])), demo_store)"
    by (simp add: check_nodes_responses_on_status_def demo_votes_def try_to_catch_up_def merkle_of_def demo_codec_def)
  have "list_all (\<lambda>(_, voters). distinct voters) demo_votes" by (simp add: demo_votes_def)
  then show ?thesis
    using catchup_target_from_honest_node [OF run, of "{''n2''}" "[114]" 5 "merkle_of rev [[7]]"] run by simp blast
qed

definition demo_catchup :: codec where
  "demo_catchup = demo_codec\<lparr>cd_sha := (\<lambda>x. case demo_sha x of Inr d \<Rightarrow> Inr d | Inl _ \<Rightarrow> Inl (err_msg IE_InvalidState [])),
                            cd_msgpack := (\<lambda>_. Some [8])\<rparr>"

definition demo_rep :: CatchupRep where
  "demo_rep = \<lparr>crep_ledgerId = 0, crep_consProof = [], crep_txns = [(''2'', JNull)]\<rparr>"

lemma demo_catchup_collision_free: "collision_free (cd_sha demo_catchup)"
  using demo_collision_free by (auto simp: collision_free_def demo_catchup_def split: sum.splits)

lemma demo_represents:
  "represents (cd_sha demo_catchup) demo_tree1 [[7]]" "represents (cd_sha demo_catchup) demo_tree2 [[7], [8]]"
  by (rule from_vec_represents,
      simp add: from_vec_def Tree_new_leaf_def hash_leaf_def hash_nodes_def build_levels.simps demo_sha_def
        demo_catchup_def demo_tree1_def demo_tree2_def)+

lemma demo_append_txns: "append_txns demo_catchup [(''2'', JNull)] demo_tree1 [] = Inr (demo_tree2, [[8]])"
proof -
  have "count_bits 1 = 1" using count_bits_1_iff [of 1] by (metis power_0)
  then have "append_leaf (cd_sha demo_catchup) demo_tree1 [8] = Inr demo_tree2"
    by (simp add: append_leaf_def demo_tree1_def demo_tree2_def from_vec_def Tree_new_leaf_def hash_leaf_def hash_nodes_def
        build_levels.simps demo_sha_def demo_catchup_def MerkleTree_root_hash_def)
  moreover have "parse_uint (2 ^ 64) ''2'' = Some 2" "nat_to_string 2 = ''2''"
    by (simp_all add: parse_uint_def is_digit_def digits_value_def nat_to_string.simps char_of_def bit_0)
  moreover have "cd_msgpack demo_catchup JNull = Some [8]" by (simp add: demo_catchup_def)
  ultimately show ?thesis
    by (simp add: append_txns.simps [of _ "[(''2'', JNull)]"] append_txns.simps [of _ "[]"] min_tx_def)
qed

lemma demo_reply:
  "process_catchup_reply demo_catchup demo_rep demo_tree1 (MerkleTree_root_hash demo_tree2) 2 InMemory demo_store
     = (Inr demo_tree2, demo_store)"
  by (simp add: process_catchup_reply_def demo_rep_def demo_append_txns check_cons_proofs_def consistency_proof_def)
     (simp add: demo_tree2_def)

theorem catchup_reply_extends_ledger_witness:
  "\<exists>new. represents (cd_sha demo_catchup) demo_tree2 ([[7]] @ new) \<and> length new = 1 \<and> prefix ([[7]] @ new) [[7], [8]]"
  using catchup_reply_extends_ledger [OF demo_catchup_collision_free demo_represents, of demo_rep InMemory demo_store demo_tree2 demo_store]
    demo_reply by (simp add: demo_rep_def numeral_2_eq_2)

theorem catchup_reply_is_cached_witness:
  "\<exists>store'. process_catchup_reply demo_codec \<lparr>crep_ledgerId = 0, crep_consProof = [], crep_txns = []\<rparr>
      (merkle_of rev [[7]]) (MerkleTree_root_hash (merkle_of rev [[7]])) 1 Persistent
      \<lparr>ps_genesis = None, ps_stored = Some (dump_vec [[7]])\<rparr> = (Inr (merkle_of rev [[7]]), store')
    \<and> create_tree demo_codec store' = Inr (merkle_of rev [[7]])"
proof -
  let ?s = "\<lparr>ps_genesis = None, ps_stored = Some (dump_vec [[7]])\<rparr> :: pool_store"
  have run: "process_catchup_reply demo_codec \<lparr>crep_ledgerId = 0, crep_consProof = [], crep_txns = []\<rparr>
      (merkle_of rev [[7]]) (MerkleTree_root_hash (merkle_of rev [[7]])) 1 Persistent ?s
      = (Inr (merkle_of rev [[7]]), ?s)"
    by (simp add: process_catchup_reply_def append_txns.simps check_cons_proofs_def consistency_proof_def dump_new_txns_def)
       (simp add: merkle_of_def)
  have "\<forall>v b. cd_msgpack demo_codec v = Some b \<longrightarrow> fits b" by (simp add: demo_codec_def fits_def)
  then show ?thesis
    using catchup_reply_is_cached [OF demo_codec_sure _ _ _ _ run] run by (auto simp: fits_def)
qed

theorem catchup_reply_panics_witness:
  "process_catchup_reply demo_catchup \<lparr>crep_ledgerId = 0, crep_consProof = [], crep_txns = [(''02'', JNull)]\<rparr> demo_tree1 [] 2
      InMemory demo_store = (Inl Panic, demo_store)
   \<and> process_catchup_reply demo_catchup demo_rep demo_tree1 [] 1 InMemory demo_store = (Inl Panic, demo_store)"
proof -
  have "parse_uint (2 ^ 64) ''02'' = Some 2" "nat_to_string 2 = ''2''"
    by (simp_all add: parse_uint_def is_digit_def digits_value_def nat_to_string.simps char_of_def bit_0)
  moreover have "1 < mt_count demo_tree2" by (simp add: demo_tree2_def)
  ultimately show ?thesis
    using catchup_reply_panics [of "''02''" 2 demo_catchup 0 "[]" JNull demo_tree1 "[]" 2 InMemory demo_store demo_rep]
      catchup_reply_panics [of "''02''" 2 demo_catchup 0 "[]" JNull demo_tree1 "[]" 1 InMemory demo_store demo_rep demo_tree2 "[[8]]"]
      demo_append_txns by (simp add: demo_rep_def)
qed

end
