(* ===== verification/Pool_Requests.thy ===== *)
theory Pool_Requests
  imports Pool_Catchup
begin

text \<open>
  The state machine that carries one request to the pool nodes and settles on an answer
  (\<open>libvdrtools/src/services/pool/request_handler.rs\<close>, the events of \<open>events.rs\<close>, the message types of
  \<open>types.rs\<close>, and \<open>parse_response_metadata\<close> of \<open>mod.rs\<close>).

  The networker and the waiting commands are reached by effects: \<open>Net\<close> is an event for the networker,
  \<open>Ack\<close> an answer to a command. A handler returns the next state, the event for the pool, the effects in
  their order and the stored files; \<open>Inl ()\<close> is a panic. The verification of state proofs
  (\<open>state_proof/mod.rs\<close>, a Patricia trie and a BLS signature of the ursa library) is the argument
  \<open>re_state_proof\<close>, the clock \<open>re_now\<close>, the freshness threshold \<open>re_threshold\<close>. The \<open>usize\<close> expression of
  \<open>is_consensus_reachable\<close> and the \<open>u64\<close> sums of \<open>_check_freshness\<close> wrap around, as in a release build.

  Shown: an answer of a consensus request is backed by more than \<open>f\<close> nodes; a single request is answered
  by that many equal replies or a verified state proof; each command is answered exactly once by the time
  the request finishes, and a finished request does nothing more; when every node has answered or timed
  out, a consensus request is finished.
\<close>

type_synonym command_handle = int

record RemoteNode =
  rn_name :: string
  rn_public_key :: bytes
  rn_zaddr :: string
  rn_is_blacklisted :: bool

datatype NetworkerEvent =
    SendOneRequest string string int
  | SendAllRequest string string int "string list option"
  | Resend string int
  | NodesStateUpdated "RemoteNode list"
  | ExtendTimeout string string int
  | CleanTimeout string "string option"
  | NW_Timeout

datatype request_effect = Net NetworkerEvent | Ack command_handle "(indy_error, string) result"

record LedgerStatus =
  ls_txnSeqNo :: nat
  ls_merkleRoot :: string
  ls_ledgerId :: nat
  ls_ppSeqNo :: "nat option"
  ls_viewNo :: "nat option"
  ls_protocolVersion :: "nat option"

record ConsistencyProof =
  cp_seqNoEnd :: nat
  cp_seqNoStart :: nat
  cp_ledgerId :: nat
  cp_hashes :: "string list"
  cp_oldMerkleRoot :: string
  cp_newMerkleRoot :: string

type_synonym timestamps = "64 word option \<times> 64 word option"

text \<open>Of a parsed \<open>Reply\<close> or \<open>Response\<close> only the request id is kept; the handlers read the raw message.\<close>

datatype RequestEvent =
    RE_LedgerStatus LedgerStatus "string option" "MerkleTree option"
  | RE_CatchupReq MerkleTree nat bytes
  | RE_Timeout string string
  | RE_CatchupRep CatchupRep string
  | RE_CustomSingleRequest string string "bytes option" timestamps
  | RE_CustomConsensusRequest string string
  | RE_CustomFullRequest string string "int option" "string option"
  | RE_ConsistencyProof ConsistencyProof string
  | RE_Reply "64 word" string string string
  | RE_ReqACK "64 word" string string string
  | RE_ReqNACK "64 word" string string string
  | RE_Reject "64 word" string string string
  | RE_PoolLedgerTxns
  | RE_Ping
  | RE_Pong
  | RE_Terminate

datatype PoolEvent =
    PE_CheckCache command_handle
  | PE_NodeReply string string
  | PE_Close command_handle
  | PE_Refresh command_handle
  | PE_CatchupTargetFound bytes nat MerkleTree
  | PE_CatchupRestart MerkleTree
  | PE_CatchupTargetNotFound indy_error
  | PE_PoolOutdated
  | PE_Synced MerkleTree
  | PE_NodesBlacklisted
  | PE_SendRequest command_handle string "int option" "string option"
  | PE_Timeout string string

record request_env =
  re_codec :: codec
  re_state_proof :: "json \<Rightarrow> string \<Rightarrow> bytes option \<Rightarrow> string list \<Rightarrow> nat \<Rightarrow> bool"
  re_now :: "64 word"
  re_threshold :: "64 word"

record NodeResponse =
  nr_raw_msg :: string
  nr_node_alias :: string
  nr_timestamp :: "64 word"

record ConsensusState =
  cs_denied_nodes :: "string list"
  cs_replies :: "(json \<times> string list) list"
  cs_timeout_nodes :: "string list"

record CatchupConsensusState =
  cc_replies :: node_votes
  cc_merkle_tree :: MerkleTree

record CatchupSingleState =
  csg_target_mt_root :: bytes
  csg_target_mt_size :: nat
  csg_merkle_tree :: MerkleTree
  csg_req_id :: string

record SingleState =
  ss_denied_nodes :: "string list"
  ss_replies :: "(json \<times> NodeResponse list) list"
  ss_timeout_nodes :: "string list"
  ss_sp_key :: "bytes option"
  ss_timestamps :: timestamps

record FullState =
  fs_accum_reply :: "(string \<times> json) list option"
  fs_nodes_to_send :: "string list option"

datatype RequestState =
    RS_Start
  | RS_Single SingleState
  | RS_Consensus ConsensusState
  | RS_CatchupSingle CatchupSingleState
  | RS_CatchupConsensus CatchupConsensusState
  | RS_Full FullState
  | RS_Finish

record RequestSM =
  rq_f :: nat
  rq_cmd_ids :: "command_handle list"
  rq_nodes :: "string list"
  rq_timeout :: int
  rq_extended_timeout :: int
  rq_number_read_nodes :: "8 word"
  rq_pool_mode :: PoolMode
  rq_state :: RequestState

type_synonym request_step = "RequestState \<times> PoolEvent option \<times> request_effect list \<times> pool_store"

subsection \<open>Answers\<close>

definition send_replies :: "command_handle list \<Rightarrow> (indy_error, string) result \<Rightarrow> request_effect list" where
  "send_replies cmd_ids msg = map (\<lambda>i. Ack i msg) cmd_ids"

definition send_ok_replies :: "command_handle list \<Rightarrow> string \<Rightarrow> request_effect list" where
  "send_ok_replies cmd_ids msg = send_replies cmd_ids (Inr msg)"

definition finish_request :: "command_handle list \<Rightarrow> request_effect list" where
  "finish_request cmd_ids = send_replies cmd_ids (Inl (err_msg IE_PoolTerminated ''Pool is terminated''))"

definition no_consensus :: "command_handle list \<Rightarrow> request_effect list" where
  "no_consensus cmd_ids = send_replies cmd_ids (Inl (err_msg IE_PoolTimeout ''Consensus is impossible''))"

subsection \<open>Reading replies\<close>

fun json_remove :: "string \<Rightarrow> json \<Rightarrow> json" where
  "json_remove k (JObject kvs) = JObject (filter (\<lambda>(k', _). k' \<noteq> k) kvs)"
| "json_remove k v = v"

fun json_update :: "string \<Rightarrow> (json \<Rightarrow> json) \<Rightarrow> json \<Rightarrow> json" where
  "json_update k f (JObject kvs) = JObject (map (\<lambda>(k', v). (k', if k' = k then f v else v)) kvs)"
| "json_update k f v = v"

definition get_msg_result_without_state_proof :: "codec \<Rightarrow> string \<Rightarrow> (json \<times> json) option" where
  "get_msg_result_without_state_proof cd msg =
     map_option (\<lambda>v.
       let msg_result = json_index v ''result'';
           without_proof = json_remove ''state_proof'' msg_result
       in (msg_result, json_update ''data'' (json_remove ''stateProofFrom'') without_proof))
     (cd_json_parse cd msg)"

record ResponseMetadata =
  rm_seq_no :: "64 word option"
  rm_txn_time :: "64 word option"
  rm_last_txn_time :: "64 word option"
  rm_last_seq_no :: "64 word option"

definition json_path :: "json \<Rightarrow> string list \<Rightarrow> json" where
  "json_path v ks = foldl json_index v ks"

definition parse_transaction_metadata_v0 :: "json \<Rightarrow> ResponseMetadata" where
  "parse_transaction_metadata_v0 m =
     \<lparr>rm_seq_no = as_u64 (json_index m ''seqNo''), rm_txn_time = as_u64 (json_index m ''txnTime''),
      rm_last_txn_time = as_u64 (json_path m [''state_proof'', ''multi_signature'', ''value'', ''timestamp'']),
      rm_last_seq_no = None\<rparr>"

definition parse_transaction_metadata_v1 :: "json \<Rightarrow> ResponseMetadata" where
  "parse_transaction_metadata_v1 m =
     \<lparr>rm_seq_no = as_u64 (json_path m [''txnMetadata'', ''seqNo'']),
      rm_txn_time = as_u64 (json_path m [''txnMetadata'', ''txnTime'']),
      rm_last_txn_time = as_u64 (json_path m [''multiSignature'', ''signedState'', ''stateMetadata'', ''timestamp'']),
      rm_last_seq_no = None\<rparr>"

text \<open>The \<open>result\<close> of a REPLY message, of either version; \<open>remove(0)\<close> on an empty list panics.\<close>

definition reply_result :: "json \<Rightarrow> json indy_result option" where
  "reply_result v =
     (case json_get v ''result'' of
        Some r \<Rightarrow> Some (Inr r)
      | None \<Rightarrow>
          Option.bind (json_get v ''data'') (\<lambda>d. Option.bind (json_get d ''result'') (\<lambda>rs.
          Option.bind (array_of (\<lambda>r. json_get r ''result'') rs) (\<lambda>results.
            case results of [] \<Rightarrow> Some (Inl Panic) | r # _ \<Rightarrow> Some (Inr r)))))"

definition parse_response_metadata :: "codec \<Rightarrow> string \<Rightarrow> ResponseMetadata indy_result" where
  "parse_response_metadata cd response =
     (let bad = fail IE_InvalidTransaction ''Cannot deserialize transaction Response''
      in case cd_json_parse cd response of
           None \<Rightarrow> bad
         | Some v \<Rightarrow>
             (case as_str (json_index v ''op'') of
                None \<Rightarrow> bad
              | Some op \<Rightarrow>
                  if op = ''REPLY'' then
                    (case reply_result v of
                       None \<Rightarrow> bad
                     | Some r \<Rightarrow> res_bind r (\<lambda>result.
                         case as_str (json_index result ''ver'') of
                           None \<Rightarrow> Inr (parse_transaction_metadata_v0 result)
                         | Some ver \<Rightarrow>
                             if ver = ''1'' then Inr (parse_transaction_metadata_v1 result)
                             else fail IE_InvalidTransaction ''Unsupported transaction response version: {:?}''))
                  else if op = ''REQNACK'' \<or> op = ''REJECT'' then
                    (case (as_u64 (json_index v ''reqId''), as_str (json_index v ''reason'')) of
                       (Some _, Some reason) \<Rightarrow> fail IE_InvalidTransaction ''Transaction has been failed: {:?}''
                     | _ \<Rightarrow> bad)
                  else bad))"

definition get_last_signed_time :: "codec \<Rightarrow> string \<Rightarrow> 64 word option indy_result" where
  "get_last_signed_time cd response =
     (case parse_response_metadata cd response of
        Inr m \<Rightarrow> Inr (rm_last_txn_time m)
      | Inl Panic \<Rightarrow> Inl Panic
      | Inl (Err _) \<Rightarrow> Inr None)"

definition GET_REVOC_REG_DELTA :: string where
  "GET_REVOC_REG_DELTA = ''117''"

definition extract_left_last_write_time :: "json \<Rightarrow> 64 word option" where
  "extract_left_last_write_time msg_result =
     (if as_str (json_index msg_result ''type'') = Some GET_REVOC_REG_DELTA
      then as_u64 (json_path msg_result [''data'', ''stateProofFrom'', ''multi_signature'', ''value'', ''timestamp''])
      else None)"

definition check_freshness :: "request_env \<Rightarrow> json \<Rightarrow> timestamps \<Rightarrow> 64 word \<Rightarrow> bool" where
  "check_freshness env msg_result requested_timestamps last_write_time =
     (let left_last_write_time = unwrap_or (extract_left_last_write_time msg_result) 0;
          left_ok = (\<lambda>frm. frm \<le> re_threshold env + left_last_write_time);
          right_ok = (\<lambda>to. to \<le> re_threshold env + last_write_time)
      in case requested_timestamps of
           (Some frm, Some to) \<Rightarrow> left_ok frm \<and> right_ok to
         | (None, Some to) \<Rightarrow> right_ok to
         | (Some frm, None) \<Rightarrow> left_ok frm \<and> right_ok (re_now env)
         | (None, None) \<Rightarrow> right_ok (re_now env))"

definition check_state_proof ::
    "request_env \<Rightarrow> json \<Rightarrow> nat \<Rightarrow> string list \<Rightarrow> string \<Rightarrow> bytes option \<Rightarrow> timestamps \<Rightarrow> 64 word \<Rightarrow> bool" where
  "check_state_proof env msg_result f nodes raw_msg sp_key requested_timestamps last_write_time =
     (re_state_proof env msg_result raw_msg sp_key nodes f \<and> check_freshness env msg_result requested_timestamps last_write_time)"

subsection \<open>Consensus requests\<close>

definition add_vote :: "'k \<Rightarrow> string \<Rightarrow> ('k \<times> string list) list \<Rightarrow> ('k \<times> string list) list" where
  "add_vote k node m = dict_insert k (List.insert node (unwrap_or (map_of m k) [])) m"

definition Consensus_is_reachable :: "ConsensusState \<Rightarrow> nat \<Rightarrow> nat \<Rightarrow> bool" where
  "Consensus_is_reachable self f total_nodes_cnt =
     (let rep_no = sum_list (map (length \<circ> snd) (cs_replies self));
          max_no = foldr max (map (length \<circ> snd) (cs_replies self)) 0
      in f < unat (of_nat max_no + of_nat total_nodes_cnt - of_nat rep_no - of_nat (length (cs_timeout_nodes self))
                     - of_nat (length (cs_denied_nodes self)) :: 64 word))"

definition consensus_reply :: "request_env \<Rightarrow> RequestSM \<Rightarrow> ConsensusState \<Rightarrow> string \<Rightarrow> string \<Rightarrow> string \<Rightarrow> RequestState \<times> request_effect list" where
  "consensus_reply env sm state raw_msg node_alias req_id =
     (case get_msg_result_without_state_proof (re_codec env) raw_msg of
        Some (_, result_without_proof) \<Rightarrow>
          let state' = state\<lparr>cs_replies := add_vote result_without_proof node_alias (cs_replies state)\<rparr>;
              cnt = length (unwrap_or (map_of (cs_replies state') result_without_proof) [])
          in if cnt > rq_f sm then
               (RS_Finish, send_ok_replies (rq_cmd_ids sm) raw_msg @ [Net (CleanTimeout req_id None)])
             else if Consensus_is_reachable state' (rq_f sm) (length (rq_nodes sm)) then
               (RS_Consensus state', [Net (CleanTimeout req_id (Some node_alias))])
             else (RS_Finish, no_consensus (rq_cmd_ids sm) @ [Net (CleanTimeout req_id None)])
      | None \<Rightarrow>
          let state' = state\<lparr>cs_denied_nodes := List.insert node_alias (cs_denied_nodes state)\<rparr>
          in if length (cs_denied_nodes state') + length (cs_replies state') = length (rq_nodes sm)
             then (RS_Finish, no_consensus (rq_cmd_ids sm))
             else (RS_Consensus state', []))"

definition handle_consensus :: "request_env \<Rightarrow> RequestSM \<Rightarrow> ConsensusState \<Rightarrow> RequestEvent \<Rightarrow> RequestState \<times> request_effect list" where
  "handle_consensus env sm state re =
     (case re of
        RE_Reply _ raw_msg node_alias req_id \<Rightarrow> consensus_reply env sm state raw_msg node_alias req_id
      | RE_ReqNACK _ raw_msg node_alias req_id \<Rightarrow> consensus_reply env sm state raw_msg node_alias req_id
      | RE_Reject _ raw_msg node_alias req_id \<Rightarrow> consensus_reply env sm state raw_msg node_alias req_id
      | RE_ReqACK _ _ node_alias req_id \<Rightarrow>
          (RS_Consensus state, [Net (ExtendTimeout req_id node_alias (rq_extended_timeout sm))])
      | RE_Timeout req_id node_alias \<Rightarrow>
          let state' = state\<lparr>cs_timeout_nodes := List.insert node_alias (cs_timeout_nodes state)\<rparr>
          in if Consensus_is_reachable state' (rq_f sm) (length (rq_nodes sm))
             then (RS_Consensus state', [Net (CleanTimeout req_id (Some node_alias))])
             else (RS_Finish, no_consensus (rq_cmd_ids sm) @ [Net (CleanTimeout req_id None)])
      | RE_Terminate \<Rightarrow> (RS_Finish, finish_request (rq_cmd_ids sm))
      | _ \<Rightarrow> (RS_Consensus state, []))"

subsection \<open>Single requests\<close>

definition Single_is_reachable :: "SingleState \<Rightarrow> nat \<Rightarrow> bool" where
  "Single_is_reachable self total_nodes_cnt =
     (length (ss_timeout_nodes self) + length (ss_denied_nodes self) + sum_list (map (length \<circ> snd) (ss_replies self))
        < total_nodes_cnt)"

definition try_to_continue :: "RequestSM \<Rightarrow> SingleState \<Rightarrow> string \<Rightarrow> string \<Rightarrow> RequestState \<times> request_effect list" where
  "try_to_continue sm self req_id node_alias =
     (if Single_is_reachable self (length (rq_nodes sm)) then
        (RS_Single self, [Net (Resend req_id (rq_timeout sm)), Net (Resend req_id (rq_timeout sm)),
                          Net (CleanTimeout req_id (Some node_alias))])
      else (RS_Finish, no_consensus (rq_cmd_ids sm) @ [Net (CleanTimeout req_id None)]))"

text \<open>Two responses of one node are equal, so a later one does not replace the first.\<close>

definition insert_response :: "NodeResponse \<Rightarrow> NodeResponse list \<Rightarrow> NodeResponse list" where
  "insert_response r rs = (if nr_node_alias r \<in> nr_node_alias ` set rs then rs else r # rs)"

definition single_reply ::
    "request_env \<Rightarrow> RequestSM \<Rightarrow> SingleState \<Rightarrow> string \<Rightarrow> string \<Rightarrow> string \<Rightarrow> (unit, RequestState \<times> request_effect list) result" where
  "single_reply env sm state0 raw_msg node_alias req_id =
     (let state = state0\<lparr>ss_timeout_nodes := remove1 node_alias (ss_timeout_nodes state0)\<rparr>
      in case get_msg_result_without_state_proof (re_codec env) raw_msg of
           Some (result, result_without_proof) \<Rightarrow>
             (case get_last_signed_time (re_codec env) raw_msg of
                Inl _ \<Rightarrow> Inl ()
              | Inr signed_time \<Rightarrow>
                  let last_write_time = unwrap_or signed_time 0;
                      rs = insert_response \<lparr>nr_raw_msg = raw_msg, nr_node_alias = node_alias, nr_timestamp = last_write_time\<rparr>
                             (unwrap_or (map_of (ss_replies state) result_without_proof) []);
                      state' = state\<lparr>ss_replies := dict_insert result_without_proof rs (ss_replies state)\<rparr>;
                      cnt = length rs;
                      soonest = (case max_by_key (unat \<circ> nr_timestamp) rs of Some r \<Rightarrow> nr_raw_msg r | None \<Rightarrow> raw_msg)
                  in Inr (if cnt > rq_f sm \<or>
                             check_state_proof env result (rq_f sm) (rq_nodes sm) raw_msg (ss_sp_key state) (ss_timestamps state)
                               last_write_time
                          then (RS_Finish, Net (CleanTimeout req_id None)
                                  # send_ok_replies (rq_cmd_ids sm) (if cnt > rq_f sm then soonest else raw_msg))
                          else try_to_continue sm state' req_id node_alias))
         | None \<Rightarrow>
             Inr (try_to_continue sm (state\<lparr>ss_denied_nodes := List.insert node_alias (ss_denied_nodes state)\<rparr>) req_id node_alias))"

definition handle_single ::
    "request_env \<Rightarrow> RequestSM \<Rightarrow> SingleState \<Rightarrow> RequestEvent \<Rightarrow> (unit, RequestState \<times> request_effect list) result" where
  "handle_single env sm state re =
     (case re of
        RE_Reply _ raw_msg node_alias req_id \<Rightarrow> single_reply env sm state raw_msg node_alias req_id
      | RE_ReqNACK _ raw_msg node_alias req_id \<Rightarrow> single_reply env sm state raw_msg node_alias req_id
      | RE_Reject _ raw_msg node_alias req_id \<Rightarrow> single_reply env sm state raw_msg node_alias req_id
      | RE_ReqACK _ _ node_alias req_id \<Rightarrow>
          Inr (RS_Single state, [Net (ExtendTimeout req_id node_alias (rq_extended_timeout sm))])
      | RE_Timeout req_id node_alias \<Rightarrow>
          Inr (try_to_continue sm (state\<lparr>ss_timeout_nodes := List.insert node_alias (ss_timeout_nodes state)\<rparr>) req_id node_alias)
      | RE_Terminate \<Rightarrow> Inr (RS_Finish, finish_request (rq_cmd_ids sm))
      | _ \<Rightarrow> Inr (RS_Single state, []))"

subsection \<open>Requests to all nodes\<close>

definition full_request_handle_consensus_state ::
    "request_env \<Rightarrow> RequestSM \<Rightarrow> FullState \<Rightarrow> string \<Rightarrow> string \<Rightarrow> string \<Rightarrow> RequestState \<times> request_effect list" where
  "full_request_handle_consensus_state env sm state req_id node_alias node_result =
     (let accum = dict_insert node_alias (JString node_result) (unwrap_or (fs_accum_reply state) []);
          state' = state\<lparr>fs_accum_reply := Some accum\<rparr>;
          required_reply_cnt = (case fs_nodes_to_send state of Some ns \<Rightarrow> length ns | None \<Rightarrow> length (rq_nodes sm))
      in if length accum = required_reply_cnt then
           (RS_Finish, Net (CleanTimeout req_id None)
              # send_ok_replies (rq_cmd_ids sm) (cd_json_print (re_codec env) (JObject accum)))
         else (RS_Full state', [Net (CleanTimeout req_id (Some node_alias))]))"

definition handle_full :: "request_env \<Rightarrow> RequestSM \<Rightarrow> FullState \<Rightarrow> RequestEvent \<Rightarrow> RequestState \<times> request_effect list" where
  "handle_full env sm state re =
     (case re of
        RE_Reply _ raw_msg node_alias req_id \<Rightarrow> full_request_handle_consensus_state env sm state req_id node_alias raw_msg
      | RE_ReqNACK _ raw_msg node_alias req_id \<Rightarrow> full_request_handle_consensus_state env sm state req_id node_alias raw_msg
      | RE_Reject _ raw_msg node_alias req_id \<Rightarrow> full_request_handle_consensus_state env sm state req_id node_alias raw_msg
      | RE_Timeout req_id node_alias \<Rightarrow> full_request_handle_consensus_state env sm state req_id node_alias ''timeout''
      | RE_Terminate \<Rightarrow> (RS_Finish, finish_request (rq_cmd_ids sm))
      | _ \<Rightarrow> (RS_Full state, []))"

subsection \<open>Catching up\<close>

definition process_catchup_target ::
    "request_env \<Rightarrow> RequestSM \<Rightarrow> ledger_vote \<Rightarrow> string \<Rightarrow> CatchupConsensusState \<Rightarrow> pool_store
       \<Rightarrow> (unit, (bool \<times> PoolEvent option) \<times> CatchupConsensusState \<times> pool_store) result" where
  "process_catchup_target env sm key node_alias state store =
     (let state' = state\<lparr>cc_replies := add_vote key node_alias (cc_replies state)\<rparr>;
          (r, store') = check_nodes_responses_on_status (re_codec env) (cc_replies state') (cc_merkle_tree state')
                          (length (rq_nodes sm)) (rq_f sm) (rq_pool_mode sm) store
      in case r of
           Inr InProgress \<Rightarrow> Inr ((False, None), state', store')
         | Inr (NotNeeded mt) \<Rightarrow> Inr ((True, Some (PE_Synced mt)), state', store')
         | Inr (Restart mt) \<Rightarrow> Inr ((False, Some (PE_CatchupRestart mt)), state', store')
         | Inr (ShouldBeStarted root n mt) \<Rightarrow> Inr ((True, Some (PE_CatchupTargetFound root n mt)), state', store')
         | Inl (Err err) \<Rightarrow> Inr ((True, Some (PE_CatchupTargetNotFound err)), state', store')
         | Inl Panic \<Rightarrow> Inl ())"

definition catchup_target_handle_consensus_state ::
    "request_env \<Rightarrow> RequestSM \<Rightarrow> CatchupConsensusState \<Rightarrow> ledger_vote \<Rightarrow> string \<Rightarrow> string \<Rightarrow> pool_store
       \<Rightarrow> (unit, request_step) result" where
  "catchup_target_handle_consensus_state env sm state vote node_alias req_id store =
     res_bind (process_catchup_target env sm vote node_alias state store) (\<lambda>((finished, result), state', store').
       Inr (if finished then (RS_Finish, result, [Net (CleanTimeout req_id None)], store')
            else case result of
                   Some (PE_CatchupRestart mt) \<Rightarrow>
                     (RS_CatchupConsensus state', Some (PE_CatchupRestart mt), [Net (CleanTimeout req_id None)], store')
                 | _ \<Rightarrow> (RS_CatchupConsensus state', result, [Net (CleanTimeout req_id (Some node_alias))], store')))"

definition handle_catchup_consensus ::
    "request_env \<Rightarrow> RequestSM \<Rightarrow> CatchupConsensusState \<Rightarrow> RequestEvent \<Rightarrow> pool_store \<Rightarrow> (unit, request_step) result" where
  "handle_catchup_consensus env sm state re store =
     (case re of
        RE_LedgerStatus ls (Some node_alias) _ \<Rightarrow>
          catchup_target_handle_consensus_state env sm state (ls_merkleRoot ls, ls_txnSeqNo ls, None) node_alias (ls_merkleRoot ls) store
      | RE_ConsistencyProof cp node_alias \<Rightarrow>
          catchup_target_handle_consensus_state env sm state (cp_newMerkleRoot cp, cp_seqNoEnd cp, Some (cp_hashes cp)) node_alias
            (cp_oldMerkleRoot cp) store
      | RE_Timeout req_id node_alias \<Rightarrow>
          catchup_target_handle_consensus_state env sm state (''timeout'', 0, None) node_alias req_id store
      | RE_Terminate \<Rightarrow> Inr (RS_Finish, None, finish_request (rq_cmd_ids sm), store)
      | _ \<Rightarrow> Inr (RS_CatchupConsensus state, None, [], store))"

definition handle_catchup_single ::
    "request_env \<Rightarrow> RequestSM \<Rightarrow> CatchupSingleState \<Rightarrow> RequestEvent \<Rightarrow> pool_store \<Rightarrow> (unit, request_step) result" where
  "handle_catchup_single env sm state re store =
     (case re of
        RE_CatchupRep cr node_alias \<Rightarrow>
          (case process_catchup_reply (re_codec env) cr (csg_merkle_tree state) (csg_target_mt_root state)
                  (csg_target_mt_size state) (rq_pool_mode sm) store of
             (Inr merkle, store') \<Rightarrow>
               Inr (RS_Finish, Some (PE_Synced merkle), [Net (CleanTimeout (csg_req_id state) None)], store')
           | (Inl Panic, _) \<Rightarrow> Inl ()
           | (Inl (Err _), store') \<Rightarrow>
               Inr (RS_CatchupSingle state, None,
                    [Net (Resend (csg_req_id state) (rq_timeout sm)), Net (CleanTimeout (csg_req_id state) (Some node_alias))], store'))
      | RE_Timeout req_id node_alias \<Rightarrow>
          Inr (RS_CatchupSingle state, None,
               [Net (Resend (csg_req_id state) (rq_timeout sm)), Net (CleanTimeout req_id (Some node_alias))], store)
      | RE_Terminate \<Rightarrow> Inr (RS_Finish, None, finish_request (rq_cmd_ids sm), store)
      | _ \<Rightarrow> Inr (RS_CatchupSingle state, None, [], store))"

subsection \<open>Starting a request\<close>

definition LedgerStatus_to_json :: "LedgerStatus \<Rightarrow> json" where
  "LedgerStatus_to_json ls = JObject
     ([(''op'', JString ''LEDGER_STATUS''), (''txnSeqNo'', JNat (ls_txnSeqNo ls)), (''merkleRoot'', JString (ls_merkleRoot ls)),
       (''ledgerId'', JNat (ls_ledgerId ls)),
       (''ppSeqNo'', case ls_ppSeqNo ls of None \<Rightarrow> JNull | Some n \<Rightarrow> JNat n),
       (''viewNo'', case ls_viewNo ls of None \<Rightarrow> JNull | Some n \<Rightarrow> JNat n)]
      @ (case ls_protocolVersion ls of None \<Rightarrow> [] | Some n \<Rightarrow> [(''protocolVersion'', JNat n)]))"

definition start_full ::
    "request_env \<Rightarrow> RequestSM \<Rightarrow> string \<Rightarrow> string \<Rightarrow> int option \<Rightarrow> string option \<Rightarrow> RequestState \<times> request_effect list" where
  "start_full env sm msg req_id local_timeout nodes_to_send =
     (let timeout = unwrap_or local_timeout (rq_extended_timeout sm)
      in case nodes_to_send of
           None \<Rightarrow> (RS_Full \<lparr>fs_accum_reply = None, fs_nodes_to_send = None\<rparr>, [Net (SendAllRequest msg req_id timeout None)])
         | Some text \<Rightarrow>
             (case Option.bind (cd_json_parse (re_codec env) text) (array_of as_str) of
                None \<Rightarrow> (RS_Finish, send_replies (rq_cmd_ids sm) (Inl (err_msg IE_InvalidStructure ''Invalid list of nodes to send'')))
              | Some ns \<Rightarrow>
                  if ns \<noteq> [] \<and> list_all (\<lambda>n. n \<in> set (rq_nodes sm)) ns then
                    (RS_Full \<lparr>fs_accum_reply = None, fs_nodes_to_send = Some ns\<rparr>, [Net (SendAllRequest msg req_id timeout (Some ns))])
                  else (RS_Finish, send_replies (rq_cmd_ids sm) (Inl (err_msg IE_InvalidStructure
                          ''There is no known node in list to send {:?}, known nodes are {:?}'')))))"

definition handle_start :: "request_env \<Rightarrow> RequestSM \<Rightarrow> RequestEvent \<Rightarrow> pool_store \<Rightarrow> request_step" where
  "handle_start env sm re store =
     (case re of
        RE_LedgerStatus ls _ (Some merkle) \<Rightarrow>
          (RS_CatchupConsensus \<lparr>cc_replies = [], cc_merkle_tree = merkle\<rparr>, None,
           [Net (SendAllRequest (cd_json_print (re_codec env) (LedgerStatus_to_json ls)) (ls_merkleRoot ls)
                   (rq_extended_timeout sm) None)], store)
      | RE_CatchupReq merkle target_mt_size target_mt_root \<Rightarrow>
          (case build_catchup_req (re_codec env) merkle target_mt_size of
             Some (req_id, req_json) \<Rightarrow>
               (RS_CatchupSingle \<lparr>csg_target_mt_root = target_mt_root, csg_target_mt_size = target_mt_size,
                                  csg_merkle_tree = merkle, csg_req_id = req_id\<rparr>, None,
                [Net (SendOneRequest req_json req_id (rq_timeout sm))], store)
           | None \<Rightarrow> (RS_Finish, Some (PE_Synced merkle), [], store))
      | RE_CustomSingleRequest msg req_id sp_key timestamps \<Rightarrow>
          (RS_Single \<lparr>ss_denied_nodes = [], ss_replies = [], ss_timeout_nodes = [], ss_sp_key = sp_key, ss_timestamps = timestamps\<rparr>,
           None, Net (SendOneRequest msg req_id (rq_timeout sm))
             # replicate (unat (rq_number_read_nodes sm - 1)) (Net (Resend req_id (rq_timeout sm))), store)
      | RE_CustomFullRequest msg req_id local_timeout nodes_to_send \<Rightarrow>
          (let (state, effects) = start_full env sm msg req_id local_timeout nodes_to_send in (state, None, effects, store))
      | RE_CustomConsensusRequest msg req_id \<Rightarrow>
          (RS_Consensus \<lparr>cs_denied_nodes = [], cs_replies = [], cs_timeout_nodes = []\<rparr>, None,
           [Net (SendAllRequest msg req_id (rq_timeout sm) None)], store)
      | _ \<Rightarrow> (RS_Start, None, [], store))"

subsection \<open>The state machine\<close>

definition RequestSM_handle_event ::
    "request_env \<Rightarrow> RequestSM \<Rightarrow> RequestEvent \<Rightarrow> pool_store
       \<Rightarrow> (unit, RequestSM \<times> PoolEvent option \<times> request_effect list \<times> pool_store) result" where
  "RequestSM_handle_event env sm re store =
     res_bind
       (case rq_state sm of
          RS_Start \<Rightarrow> Inr (handle_start env sm re store)
        | RS_Consensus state \<Rightarrow> (let (s, effects) = handle_consensus env sm state re in Inr (s, None, effects, store))
        | RS_Single state \<Rightarrow> res_bind (handle_single env sm state re) (\<lambda>(s, effects). Inr (s, None, effects, store))
        | RS_CatchupConsensus state \<Rightarrow> handle_catchup_consensus env sm state re store
        | RS_CatchupSingle state \<Rightarrow> handle_catchup_single env sm state re store
        | RS_Full state \<Rightarrow> (let (s, effects) = handle_full env sm state re in Inr (s, None, effects, store))
        | RS_Finish \<Rightarrow> Inr (RS_Finish, None, [], store))
       (\<lambda>(state, event, effects, store'). Inr (sm\<lparr>rq_state := state\<rparr>, event, effects, store'))"

definition RequestSM_is_terminal :: "RequestSM \<Rightarrow> bool" where
  "RequestSM_is_terminal sm = (rq_state sm = RS_Finish)"

definition RequestSM_new ::
    "nat \<Rightarrow> command_handle list \<Rightarrow> string list \<Rightarrow> int \<Rightarrow> int \<Rightarrow> 8 word \<Rightarrow> PoolMode \<Rightarrow> RequestSM" where
  "RequestSM_new f cmd_ids nodes timeout extended_timeout number_read_nodes pool_mode =
     \<lparr>rq_f = f, rq_cmd_ids = cmd_ids, rq_nodes = nodes, rq_timeout = timeout, rq_extended_timeout = extended_timeout,
      rq_number_read_nodes = number_read_nodes, rq_pool_mode = pool_mode, rq_state = RS_Start\<rparr>"

text \<open>\<open>RequestHandlerImpl\<close>: the wrapper that the pool keeps per request.\<close>

definition RequestHandler_process_event ::
    "request_env \<Rightarrow> RequestSM option \<Rightarrow> RequestEvent option \<Rightarrow> pool_store
       \<Rightarrow> (unit, RequestSM option \<times> PoolEvent option \<times> request_effect list \<times> pool_store) result" where
  "RequestHandler_process_event env request_wrapper ore store =
     (case ore of
        Some re \<Rightarrow>
          (case request_wrapper of
             Some w \<Rightarrow> res_bind (RequestSM_handle_event env w re store)
                         (\<lambda>(rw, res, effects, store'). Inr (Some rw, res, effects, store'))
           | None \<Rightarrow> Inr (None, None, [], store))
      | None \<Rightarrow> Inr (request_wrapper, None, [], store))"

definition RequestHandler_is_terminal :: "RequestSM option \<Rightarrow> bool" where
  "RequestHandler_is_terminal request_wrapper = (case request_wrapper of Some w \<Rightarrow> RequestSM_is_terminal w | None \<Rightarrow> True)"

subsection \<open>Runs\<close>

fun run_request ::
    "request_env \<Rightarrow> RequestSM \<Rightarrow> RequestEvent list \<Rightarrow> pool_store
       \<Rightarrow> (unit, RequestSM \<times> request_effect list \<times> pool_store) result" where
  "run_request env sm [] store = Inr (sm, [], store)"
| "run_request env sm (re # res) store =
     res_bind (RequestSM_handle_event env sm re store) (\<lambda>(sm1, _, effects, store1).
     res_bind (run_request env sm1 res store1) (\<lambda>(sm', effects', store'). Inr (sm', effects @ effects', store')))"

fun answers :: "request_effect list \<Rightarrow> (command_handle \<times> (indy_error, string) result) list" where
  "answers [] = []"
| "answers (Ack i r # es) = (i, r) # answers es"
| "answers (Net _ # es) = answers es"

text \<open>The node that an event speaks for, and the message if it is an answer.\<close>

fun event_node :: "RequestEvent \<Rightarrow> string option" where
  "event_node (RE_Reply _ _ node _) = Some node"
| "event_node (RE_ReqNACK _ _ node _) = Some node"
| "event_node (RE_Reject _ _ node _) = Some node"
| "event_node (RE_Timeout _ node) = Some node"
| "event_node _ = None"

fun event_reply :: "RequestEvent \<Rightarrow> (string \<times> string) option" where
  "event_reply (RE_Reply _ raw node _) = Some (raw, node)"
| "event_reply (RE_ReqNACK _ raw node _) = Some (raw, node)"
| "event_reply (RE_Reject _ raw node _) = Some (raw, node)"
| "event_reply _ = None"

definition replied :: "RequestEvent list \<Rightarrow> (string \<times> string) set" where
  "replied res = {p. \<exists>re \<in> set res. event_reply re = Some p}"

definition reply_value :: "request_env \<Rightarrow> string \<Rightarrow> json option" where
  "reply_value env raw = map_option snd (get_msg_result_without_state_proof (re_codec env) raw)"

fun client_state :: "RequestState \<Rightarrow> bool" where
  "client_state (RS_Consensus _) = True"
| "client_state (RS_Single _) = True"
| "client_state (RS_Full _) = True"
| "client_state _ = False"

fun client_request :: "RequestEvent \<Rightarrow> bool" where
  "client_request (RE_CustomSingleRequest _ _ _ _) = True"
| "client_request (RE_CustomConsensusRequest _ _) = True"
| "client_request (RE_CustomFullRequest _ _ _ _) = True"
| "client_request _ = False"

lemma answers_append [simp]: "answers (xs @ ys) = answers xs @ answers ys"
  by (induction xs rule: answers.induct) auto

lemma answers_send_replies [simp]: "answers (send_replies ids r) = map (\<lambda>i. (i, r)) ids"
  by (induction ids) (auto simp: send_replies_def)

lemma answers_replicate [simp]: "answers (replicate n (Net e)) = []"
  by (induction n) auto

lemma answers_reply_wrappers [simp]:
  "answers (send_ok_replies ids m) = map (\<lambda>i. (i, Inr m)) ids"
  "answers (finish_request ids) = map (\<lambda>i. (i, Inl (err_msg IE_PoolTerminated ''Pool is terminated''))) ids"
  "answers (no_consensus ids) = map (\<lambda>i. (i, Inl (err_msg IE_PoolTimeout ''Consensus is impossible''))) ids"
  by (simp_all add: send_ok_replies_def finish_request_def no_consensus_def)

lemma replied_simps [simp]:
  "replied [] = {}"
  "replied (xs @ ys) = replied xs \<union> replied ys"
  "replied (re # res) = set_option (event_reply re) \<union> replied res"
  by (auto simp: replied_def)

text \<open>A step that answers every command and finishes, or none and stays with the request.\<close>

definition settles :: "RequestSM \<Rightarrow> RequestState \<Rightarrow> request_effect list \<Rightarrow> bool" where
  "settles sm s es =
     (if s = RS_Finish then (\<exists>r. answers es = map (\<lambda>i. (i, r)) (rq_cmd_ids sm))
      else client_state s \<and> answers es = [])"

lemma settles_consensus: "handle_consensus env sm st re = (s, es) \<Longrightarrow> settles sm s es"
  by (auto simp: handle_consensus_def consensus_reply_def settles_def Let_def split: RequestEvent.splits option.splits if_splits)

lemma settles_try_to_continue: "try_to_continue sm st req node = (s, es) \<Longrightarrow> settles sm s es"
  by (auto simp: try_to_continue_def settles_def split: if_splits)

lemma settles_single_reply: "single_reply env sm st raw node req = Inr (s, es) \<Longrightarrow> settles sm s es"
  by (auto simp: single_reply_def Let_def split: option.splits sum.splits if_splits dest!: settles_try_to_continue)
     (auto simp: settles_def)

lemma settles_single: "handle_single env sm st re = Inr (s, es) \<Longrightarrow> settles sm s es"
  by (cases re) (auto simp: handle_single_def dest!: settles_single_reply settles_try_to_continue, auto simp: settles_def)

lemma settles_full: "handle_full env sm st re = (s, es) \<Longrightarrow> settles sm s es"
  by (cases re) (auto simp: handle_full_def full_request_handle_consensus_state_def settles_def Let_def split: if_splits)

lemma settles_start_full: "start_full env sm m req t ns = (s, es) \<Longrightarrow> settles sm s es"
  by (auto simp: start_full_def settles_def Let_def split: option.splits if_splits)

lemma consensus_next: "handle_consensus env sm st re = (s, es) \<Longrightarrow> s = RS_Finish \<or> (\<exists>st'. s = RS_Consensus st')"
  by (auto simp: handle_consensus_def consensus_reply_def Let_def split: RequestEvent.splits option.splits if_splits)

lemma single_next: "handle_single env sm st re = Inr (s, es) \<Longrightarrow> s = RS_Finish \<or> (\<exists>st'. s = RS_Single st')"
  by (cases re) (auto simp: handle_single_def single_reply_def try_to_continue_def Let_def split: option.splits sum.splits if_splits)

lemma handle_event_keeps:
  "RequestSM_handle_event env sm re store = Inr (sm', ev, es, store') \<Longrightarrow>
     rq_cmd_ids sm' = rq_cmd_ids sm \<and> rq_f sm' = rq_f sm \<and> rq_nodes sm' = rq_nodes sm"
  by (auto simp: RequestSM_handle_event_def res_bind_Inr_iff)

lemma handle_event_client:
  assumes "RequestSM_handle_event env sm re store = Inr (sm', ev, es, store')"
    and "client_state (rq_state sm) \<or> (rq_state sm = RS_Start \<and> client_request re)"
  shows "settles sm (rq_state sm') es"
  using assms
  by (cases "rq_state sm")
     (auto simp: RequestSM_handle_event_def res_bind_Inr_iff handle_start_def Let_def
       split: prod.splits RequestEvent.splits
       dest!: settles_consensus settles_single settles_full settles_start_full, auto simp: settles_def)

lemma finished_idle [simp]:
  "rq_state sm = RS_Finish \<Longrightarrow> RequestSM_handle_event env sm re store = Inr (sm, None, [], store)"
  by (cases sm) (simp add: RequestSM_handle_event_def)

lemma run_finished [simp]:
  "rq_state sm = RS_Finish \<Longrightarrow> run_request env sm res store = Inr (sm, [], store)"
  by (induction res) simp_all

lemma run_client:
  assumes "run_request env sm res store = Inr (sm', es, store')" "client_state (rq_state sm)"
  shows "settles sm (rq_state sm') es"
  using assms
proof (induction res arbitrary: sm store es)
  case Nil
  then show ?case by (cases "rq_state sm") (auto simp: settles_def)
next
  case (Cons re res)
  then obtain sm1 ev es1 store1 es2 where step: "RequestSM_handle_event env sm re store = Inr (sm1, ev, es1, store1)"
      "run_request env sm1 res store1 = Inr (sm', es2, store')" "es = es1 @ es2"
    by (auto simp: res_bind_Inr_iff)
  have keep: "rq_cmd_ids sm1 = rq_cmd_ids sm" using handle_event_keeps [OF step(1)] by simp
  have first: "settles sm (rq_state sm1) es1" using handle_event_client [OF step(1)] Cons.prems(2) by blast
  show ?case
  proof (cases "rq_state sm1 = RS_Finish")
    case True
    then show ?thesis using step first by (auto simp: settles_def)
  next
    case False
    then have "settles sm1 (rq_state sm') es2" using Cons.IH [OF step(2)] first by (simp add: settles_def)
    then show ?thesis using first False step(3) keep by (auto simp: settles_def)
  qed
qed

lemma run_first_client:
  assumes "run_request env sm (re # res) store = Inr (sm', es, store')" "rq_state sm = RS_Start" "client_request re"
  shows "settles sm (rq_state sm') es"
proof -
  obtain sm1 ev es1 store1 es2 where step: "RequestSM_handle_event env sm re store = Inr (sm1, ev, es1, store1)"
      "run_request env sm1 res store1 = Inr (sm', es2, store')" "es = es1 @ es2"
    using assms(1) by (auto simp: res_bind_Inr_iff)
  have "settles sm (rq_state sm1) es1" using handle_event_client [OF step(1)] assms(2,3) by blast
  then show ?thesis
    using step run_client [OF step(2)] handle_event_keeps [OF step(1)]
    by (cases "rq_state sm1 = RS_Finish") (auto simp: settles_def)
qed

subsection \<open>Answers are backed by nodes\<close>

definition voted :: "request_env \<Rightarrow> RequestEvent list \<Rightarrow> json \<Rightarrow> string \<Rightarrow> bool" where
  "voted env hist v node = (\<exists>raw. (raw, node) \<in> replied hist \<and> reply_value env raw = Some v)"

definition backed :: "request_env \<Rightarrow> RequestEvent list \<Rightarrow> nat \<Rightarrow> string \<Rightarrow> bool" where
  "backed env hist f msg =
     (\<exists>v nodes. reply_value env msg = Some v \<and> f < card nodes \<and> (\<forall>node \<in> nodes. voted env hist v node))"

definition consensus_inv :: "request_env \<Rightarrow> RequestEvent list \<Rightarrow> ConsensusState \<Rightarrow> bool" where
  "consensus_inv env hist st = (\<forall>(v, ns) \<in> set (cs_replies st). distinct ns \<and> list_all (voted env hist v) ns)"

lemma voted_mono: "voted env hist v n \<Longrightarrow> voted env (hist @ hist') v n"
  by (auto simp: voted_def)

lemma consensus_inv_mono: "consensus_inv env hist st \<Longrightarrow> consensus_inv env (hist @ hist') st"
  by (fastforce simp: consensus_inv_def list_all_iff intro: voted_mono)

lemma backed_mono: "backed env hist f m \<Longrightarrow> backed env (hist @ hist') f m"
  by (fastforce simp: backed_def intro: voted_mono)

lemma consensus_inv_vote:
  assumes "consensus_inv env hist st" "voted env hist v node"
  shows "consensus_inv env hist (st\<lparr>cs_replies := add_vote v node (cs_replies st)\<rparr>)"
    and "distinct (unwrap_or (map_of (add_vote v node (cs_replies st)) v) [])"
    and "list_all (voted env hist v) (unwrap_or (map_of (add_vote v node (cs_replies st)) v) [])"
proof -
  let ?old = "unwrap_or (map_of (cs_replies st) v) []"
  have "distinct ?old \<and> list_all (voted env hist v) ?old"
    using assms(1) by (cases "map_of (cs_replies st) v") (auto simp: consensus_inv_def dest: map_of_SomeD)
  then have new: "distinct (List.insert node ?old)" "list_all (voted env hist v) (List.insert node ?old)"
    using assms(2) by (auto simp: list_all_iff)
  show "consensus_inv env hist (st\<lparr>cs_replies := add_vote v node (cs_replies st)\<rparr>)"
    using assms(1) new by (auto simp: consensus_inv_def add_vote_def dest!: dict_insert_in)
  show "distinct (unwrap_or (map_of (add_vote v node (cs_replies st)) v) [])"
    "list_all (voted env hist v) (unwrap_or (map_of (add_vote v node (cs_replies st)) v) [])"
    using new by (simp_all add: add_vote_def dict_insert_map_of)
qed

lemma consensus_reply_inv:
  assumes "consensus_inv env hist st" "(raw, node) \<in> replied hist"
    and "consensus_reply env sm st raw node req = (s, es)"
  shows "(\<forall>st'. s = RS_Consensus st' \<longrightarrow> consensus_inv env hist st')
     \<and> (\<forall>i m. (i, Inr m) \<in> set (answers es) \<longrightarrow> backed env hist (rq_f sm) m)"
proof (cases "get_msg_result_without_state_proof (re_codec env) raw")
  case None
  then show ?thesis using assms by (auto simp: consensus_reply_def Let_def consensus_inv_def split: if_splits)
next
  case (Some p)
  obtain r v where p: "p = (r, v)" by (cases p)
  then have vote: "voted env hist v node" "reply_value env raw = Some v"
    using Some assms(2) by (auto simp: voted_def reply_value_def)
  note inv = consensus_inv_vote [OF assms(1) vote(1)]
  have "backed env hist (rq_f sm) raw"
    if "rq_f sm < length (unwrap_or (map_of (add_vote v node (cs_replies st)) v) [])"
    using that inv(2,3) vote(2) unfolding backed_def
    by (intro exI [of _ v] exI [of _ "set (unwrap_or (map_of (add_vote v node (cs_replies st)) v) [])"])
       (auto simp: distinct_card list_all_iff)
  then show ?thesis using assms(3) Some p inv(1) by (auto simp: consensus_reply_def Let_def split: if_splits)
qed

lemma handle_consensus_inv:
  assumes "consensus_inv env hist st" "handle_consensus env sm st re = (s, es)"
  shows "(\<forall>st'. s = RS_Consensus st' \<longrightarrow> consensus_inv env (hist @ [re]) st')
     \<and> (\<forall>i m. (i, Inr m) \<in> set (answers es) \<longrightarrow> backed env (hist @ [re]) (rq_f sm) m)"
proof -
  note inv = consensus_inv_mono [OF assms(1), of "[re]"]
  show ?thesis
  proof (cases "event_reply re")
    case None
    then show ?thesis using assms(2) inv by (cases re) (auto simp: handle_consensus_def Let_def consensus_inv_def split: if_splits)
  next
    case (Some p)
    then obtain raw node req where "(raw, node) \<in> replied (hist @ [re])" "consensus_reply env sm st raw node req = (s, es)"
      using assms(2) by (cases re) (auto simp: handle_consensus_def)
    then show ?thesis using consensus_reply_inv [OF inv] by blast
  qed
qed

text \<open>The same for single requests, where a verified state proof of the message also backs it.\<close>

definition single_inv :: "request_env \<Rightarrow> RequestEvent list \<Rightarrow> SingleState \<Rightarrow> bool" where
  "single_inv env hist st =
     (\<forall>(v, rs) \<in> set (ss_replies st). distinct (map nr_node_alias rs)
        \<and> list_all (\<lambda>r. (nr_raw_msg r, nr_node_alias r) \<in> replied hist \<and> reply_value env (nr_raw_msg r) = Some v) rs)"

definition proven :: "request_env \<Rightarrow> RequestEvent list \<Rightarrow> RequestSM \<Rightarrow> bytes option \<Rightarrow> timestamps \<Rightarrow> string \<Rightarrow> bool" where
  "proven env hist sm sp_key ts msg =
     (\<exists>node result time. (msg, node) \<in> replied hist
        \<and> map_option fst (get_msg_result_without_state_proof (re_codec env) msg) = Some result
        \<and> get_last_signed_time (re_codec env) msg = Inr time
        \<and> check_state_proof env result (rq_f sm) (rq_nodes sm) msg sp_key ts (unwrap_or time 0))"

lemma single_inv_mono: "single_inv env hist st \<Longrightarrow> single_inv env (hist @ hist') st"
  by (fastforce simp: single_inv_def list_all_iff)

lemma single_try_to_continue:
  assumes "single_inv env hist st" "try_to_continue sm st req node = (s, es)"
  shows "(\<forall>st'. s = RS_Single st' \<longrightarrow> st' = st) \<and> (i, Inr m) \<notin> set (answers es)"
  using assms by (auto simp: try_to_continue_def split: if_splits)

lemma single_inv_insert:
  assumes "single_inv env hist st" "(nr_raw_msg r, nr_node_alias r) \<in> replied hist" "reply_value env (nr_raw_msg r) = Some v"
  defines "rs \<equiv> insert_response r (unwrap_or (map_of (ss_replies st) v) [])"
  shows "single_inv env hist (st\<lparr>ss_timeout_nodes := t, ss_replies := dict_insert v rs (ss_replies st)\<rparr>)"
    and "distinct (map nr_node_alias rs)"
    and "list_all (\<lambda>r. (nr_raw_msg r, nr_node_alias r) \<in> replied hist \<and> reply_value env (nr_raw_msg r) = Some v) rs"
proof -
  let ?old = "unwrap_or (map_of (ss_replies st) v) []"
  let ?ok = "\<lambda>r. (nr_raw_msg r, nr_node_alias r) \<in> replied hist \<and> reply_value env (nr_raw_msg r) = Some v"
  have "distinct (map nr_node_alias ?old) \<and> list_all ?ok ?old"
    using assms(1) by (cases "map_of (ss_replies st) v") (auto simp: single_inv_def dest: map_of_SomeD)
  then show new: "distinct (map nr_node_alias rs)" "list_all ?ok rs"
    using assms(2,3) by (auto simp: rs_def insert_response_def list_all_iff)
  show "single_inv env hist (st\<lparr>ss_timeout_nodes := t, ss_replies := dict_insert v rs (ss_replies st)\<rparr>)"
    using assms(1) new by (auto simp: single_inv_def dest!: dict_insert_in)
qed

lemma backed_by_responses:
  assumes "distinct (map nr_node_alias rs)" "f < length rs" "r \<in> set rs"
    and "list_all (\<lambda>r. (nr_raw_msg r, nr_node_alias r) \<in> replied hist \<and> reply_value env (nr_raw_msg r) = Some v) rs"
  shows "backed env hist f (nr_raw_msg r)"
  unfolding backed_def
proof (intro exI conjI)
  show "reply_value env (nr_raw_msg r) = Some v" using assms(3,4) by (simp add: list_all_iff)
  show "f < card (nr_node_alias ` set rs)" using distinct_card [OF assms(1)] assms(2) by simp
  show "\<forall>node \<in> nr_node_alias ` set rs. voted env hist v node"
    using assms(4) by (auto simp: voted_def list_all_iff)
qed

lemma max_by_key_None_iff: "max_by_key key xs = None \<longleftrightarrow> xs = []"
  by (cases xs) (auto split: option.splits)

definition single_step_ok ::
    "request_env \<Rightarrow> RequestEvent list \<Rightarrow> RequestSM \<Rightarrow> SingleState \<Rightarrow> RequestState \<Rightarrow> request_effect list \<Rightarrow> bool" where
  "single_step_ok env hist sm st s es =
     ((\<forall>st'. s = RS_Single st' \<longrightarrow>
         single_inv env hist st' \<and> ss_sp_key st' = ss_sp_key st \<and> ss_timestamps st' = ss_timestamps st)
      \<and> (\<forall>i m. (i, Inr m) \<in> set (answers es) \<longrightarrow>
           backed env hist (rq_f sm) m \<or> proven env hist sm (ss_sp_key st) (ss_timestamps st) m))"

lemma single_continue_ok:
  assumes "single_inv env hist st'" "ss_sp_key st' = ss_sp_key st" "ss_timestamps st' = ss_timestamps st"
    and "try_to_continue sm st' req node = (s, es)"
  shows "single_step_ok env hist sm st s es"
  using assms by (auto simp: try_to_continue_def single_step_ok_def split: if_splits)

lemma single_reply_ok:
  assumes "single_inv env hist st" "(raw, node) \<in> replied hist" "single_reply env sm st raw node req = Inr (s, es)"
  shows "single_step_ok env hist sm st s es"
proof (cases "get_msg_result_without_state_proof (re_codec env) raw")
  case None
  then show ?thesis
    using assms single_continue_ok [of env hist "st\<lparr>ss_timeout_nodes := remove1 node (ss_timeout_nodes st),
        ss_denied_nodes := List.insert node (ss_denied_nodes st)\<rparr>" st]
    by (auto simp: single_reply_def single_inv_def)
next
  case (Some p)
  obtain result v where p: "p = (result, v)" by (cases p)
  obtain time where time: "get_last_signed_time (re_codec env) raw = Inr time"
    using assms(3) Some p by (auto simp: single_reply_def Let_def split: sum.splits)
  define r where "r = \<lparr>nr_raw_msg = raw, nr_node_alias = node, nr_timestamp = unwrap_or time 0\<rparr>"
  define rs where "rs = insert_response r (unwrap_or (map_of (ss_replies st) v) [])"
  define st' where "st' = st\<lparr>ss_timeout_nodes := remove1 node (ss_timeout_nodes st), ss_replies := dict_insert v rs (ss_replies st)\<rparr>"
  have "reply_value env (nr_raw_msg r) = Some v" "(nr_raw_msg r, nr_node_alias r) \<in> replied hist"
    using Some p assms(2) by (simp_all add: reply_value_def r_def)
  note new = single_inv_insert [OF assms(1) this(2,1), folded rs_def]
  have "rs \<noteq> []" by (auto simp: rs_def insert_response_def)
  then obtain best where best: "max_by_key (unat \<circ> nr_timestamp) rs = Some best" "best \<in> set rs"
    using max_by_key_None_iff max_by_key_in by (metis option.exhaust)
  have "backed env hist (rq_f sm) (nr_raw_msg best)" if "rq_f sm < length rs"
    using backed_by_responses [OF new(2) that best(2) new(3)] .
  moreover have "proven env hist sm (ss_sp_key st) (ss_timestamps st) raw"
    if "check_state_proof env result (rq_f sm) (rq_nodes sm) raw (ss_sp_key st) (ss_timestamps st) (unwrap_or time 0)"
    using that Some p time assms(2) by (auto simp: proven_def)
  moreover have "single_step_ok env hist sm st s es" if "try_to_continue sm st' req node = (s, es)"
    by (rule single_continue_ok [OF _ _ _ that]) (simp_all add: st'_def new(1))
  moreover have "(if rq_f sm < length rs \<or> check_state_proof env result (rq_f sm) (rq_nodes sm) raw (ss_sp_key st)
        (ss_timestamps st) (unwrap_or time 0)
      then (RS_Finish, Net (CleanTimeout req None) # send_ok_replies (rq_cmd_ids sm) (if rq_f sm < length rs then nr_raw_msg best else raw))
      else try_to_continue sm st' req node) = (s, es)"
    using assms(3) Some p time best(1) by (simp add: single_reply_def Let_def r_def rs_def st'_def cong: if_cong)
  ultimately show ?thesis by (auto simp: single_step_ok_def split: if_splits)
qed

lemma handle_single_ok:
  assumes "single_inv env hist st" "handle_single env sm st re = Inr (s, es)"
  shows "single_step_ok env (hist @ [re]) sm st s es"
proof -
  note inv = single_inv_mono [OF assms(1), of "[re]"]
  show ?thesis
  proof (cases "event_reply re")
    case None
    then show ?thesis using assms(2) inv
        single_continue_ok [of env "hist @ [re]" "st\<lparr>ss_timeout_nodes := t\<rparr>" st for t]
      by (cases re) (auto simp: handle_single_def single_step_ok_def single_inv_def)
  next
    case (Some p)
    then obtain raw node req where "(raw, node) \<in> replied (hist @ [re])" "single_reply env sm st raw node req = Inr (s, es)"
      using assms(2) by (cases re) (auto simp: handle_single_def)
    then show ?thesis using single_reply_ok [OF inv] by blast
  qed
qed

text \<open>An invariant of the events so far and the machine, and what it says of the answers of a run.\<close>

lemma run_invariant:
  assumes step: "\<And>hist sm re store sm1 ev es store1.
      I hist sm \<Longrightarrow> RequestSM_handle_event env sm re store = Inr (sm1, ev, es, store1) \<Longrightarrow>
      (rq_state sm1 = RS_Finish \<or> I (hist @ [re]) sm1) \<and> (\<forall>i m. (i, Inr m) \<in> set (answers es) \<longrightarrow> B (hist @ [re]) m)"
    and mono: "\<And>hist hist' m. B hist m \<Longrightarrow> B (hist @ hist') m"
  shows "run_request env sm res store = Inr (sm', es, store') \<Longrightarrow> I hist sm \<Longrightarrow> (i, Inr m) \<in> set (answers es) \<Longrightarrow> B (hist @ res) m"
proof (induction res arbitrary: hist sm store es)
  case (Cons re res)
  obtain sm1 ev es1 store1 es2 where run: "RequestSM_handle_event env sm re store = Inr (sm1, ev, es1, store1)"
      "run_request env sm1 res store1 = Inr (sm', es2, store')" "es = es1 @ es2"
    using Cons.prems(1) by (auto simp: res_bind_Inr_iff)
  note one = step [OF Cons.prems(2) run(1)]
  consider "(i, Inr m) \<in> set (answers es1)" | "(i, Inr m) \<in> set (answers es2)" using Cons.prems(3) run(3) by auto
  then show ?case
  proof cases
    case 1
    then show ?thesis using one mono [of "hist @ [re]" m res] by auto
  next
    case 2
    then have "I (hist @ [re]) sm1" using one run(2) by auto
    then show ?thesis using Cons.IH [OF run(2) _ 2] by fastforce
  qed
qed simp

lemma consensus_run_backed:
  assumes "rq_state sm = RS_Consensus \<lparr>cs_denied_nodes = [], cs_replies = [], cs_timeout_nodes = []\<rparr>"
    and "run_request env sm res store = Inr (sm', es, store')" "(i, Inr m) \<in> set (answers es)"
  shows "backed env res (rq_f sm) m"
proof -
  define I where "I = (\<lambda>hist (sm1 :: RequestSM). (\<exists>st. rq_state sm1 = RS_Consensus st \<and> consensus_inv env hist st) \<and> rq_f sm1 = rq_f sm)"
  have step: "(rq_state sm2 = RS_Finish \<or> I (hist @ [re]) sm2) \<and> (\<forall>i m. (i, Inr m) \<in> set (answers es) \<longrightarrow> backed env (hist @ [re]) (rq_f sm) m)"
    if inv: "I hist sm1" and run: "RequestSM_handle_event env sm1 re store = Inr (sm2, ev, es, store1)"
    for hist sm1 re store sm2 ev es store1
  proof -
    obtain st s where st: "rq_state sm1 = RS_Consensus st" "consensus_inv env hist st" "handle_consensus env sm1 st re = (s, es)"
        "rq_state sm2 = s"
      using inv run by (auto simp: I_def RequestSM_handle_event_def split: prod.splits)
    then show ?thesis
      using consensus_next [OF st(3)] handle_consensus_inv [OF st(2,3)] st(4) handle_event_keeps [OF run] inv by (auto simp: I_def)
  qed
  have start: "I [] sm" using assms(1) by (simp add: I_def consensus_inv_def)
  show ?thesis
    using run_invariant [where I = I and B = "\<lambda>hist. backed env hist (rq_f sm)", OF step backed_mono assms(2) start assms(3)] by simp
qed

lemma proven_mono: "proven env hist sm k t m \<Longrightarrow> proven env (hist @ hist') sm k t m"
  by (auto simp: proven_def)

lemma single_run_backed:
  assumes "rq_state sm = RS_Single \<lparr>ss_denied_nodes = [], ss_replies = [], ss_timeout_nodes = [], ss_sp_key = k, ss_timestamps = t\<rparr>"
    and "run_request env sm res store = Inr (sm', es, store')" "(i, Inr m) \<in> set (answers es)"
  shows "backed env res (rq_f sm) m \<or> proven env res sm k t m"
proof -
  define I where "I = (\<lambda>hist (sm1 :: RequestSM). (\<exists>st. rq_state sm1 = RS_Single st \<and> single_inv env hist st \<and> ss_sp_key st = k \<and> ss_timestamps st = t)
      \<and> rq_f sm1 = rq_f sm \<and> rq_nodes sm1 = rq_nodes sm)"
  let ?B = "\<lambda>hist m. backed env hist (rq_f sm) m \<or> proven env hist sm k t m"
  have step: "(rq_state sm2 = RS_Finish \<or> I (hist @ [re]) sm2) \<and> (\<forall>i m. (i, Inr m) \<in> set (answers es) \<longrightarrow> ?B (hist @ [re]) m)"
    if inv: "I hist sm1" and run: "RequestSM_handle_event env sm1 re store = Inr (sm2, ev, es, store1)"
    for hist sm1 re store sm2 ev es store1
  proof -
    obtain st s where st: "rq_state sm1 = RS_Single st" "single_inv env hist st" "handle_single env sm1 st re = Inr (s, es)"
        "rq_state sm2 = s" "ss_sp_key st = k" "ss_timestamps st = t"
      using inv run by (auto simp: I_def RequestSM_handle_event_def res_bind_Inr_iff split: prod.splits)
    then show ?thesis
      using single_next [OF st(3)] handle_single_ok [OF st(2,3)] st handle_event_keeps [OF run] inv by (auto simp: I_def single_step_ok_def proven_def)
  qed
  have start: "I [] sm" using assms(1) by (simp add: I_def single_inv_def)
  have mono: "?B (hist @ hist') m" if "?B hist m" for hist hist' m
    using that backed_mono proven_mono by blast
  show ?thesis using run_invariant [where I = I and B = ?B, OF step mono assms(2) start assms(3)] by simp
qed

subsection \<open>A consensus request ends\<close>

definition voters :: "ConsensusState \<Rightarrow> string list" where
  "voters st = concat (map snd (cs_replies st)) @ cs_timeout_nodes st @ cs_denied_nodes st"

lemma length_voters:
  "length (voters st) =
     sum_list (map (length \<circ> snd) (cs_replies st)) + length (cs_timeout_nodes st) + length (cs_denied_nodes st)"
  by (simp add: voters_def length_concat comp_def)

lemma add_vote_concat:
  assumes "node \<notin> set (concat (map snd m))"
  shows "length (concat (map snd (add_vote k node m))) = Suc (length (concat (map snd m)))"
    and "set (concat (map snd (add_vote k node m))) = insert node (set (concat (map snd m)))"
proof -
  show "length (concat (map snd (add_vote k node m))) = Suc (length (concat (map snd m)))"
    using assms by (induction m) (auto simp: add_vote_def)
  show "set (concat (map snd (add_vote k node m))) = insert node (set (concat (map snd m)))"
    using assms
  proof (induction m)
    case (Cons p m)
    then show ?case by (cases p) (simp add: add_vote_def Un_commute insert_commute)
  qed (simp add: add_vote_def)
qed

definition undecided :: "RequestSM \<Rightarrow> string list \<Rightarrow> RequestSM \<Rightarrow> bool" where
  "undecided sm ns sm1 =
     (rq_f sm1 = rq_f sm \<and> rq_nodes sm1 = rq_nodes sm
      \<and> (rq_state sm1 = RS_Finish
         \<or> (\<exists>st. rq_state sm1 = RS_Consensus st \<and> length (voters st) = length ns \<and> set (voters st) \<subseteq> set ns
              \<and> list_all (\<lambda>(_, vs). length vs \<le> rq_f sm) (cs_replies st))))"

lemma foldr_max_le: "\<forall>x \<in> set xs. x \<le> (b :: nat) \<Longrightarrow> foldr max xs 0 \<le> b"
  by (induction xs) auto

lemma not_reachable_when_all_voted:
  assumes "length (voters st) = n" "list_all (\<lambda>(_, vs). length vs \<le> f) (cs_replies st)"
  shows "\<not> Consensus_is_reachable st f n"
proof -
  let ?m = "foldr max (map (length \<circ> snd) (cs_replies st)) 0"
  have "?m \<le> f" using assms(2) by (intro foldr_max_le) (auto simp: list_all_iff)
  moreover have "unat (of_nat ?m :: 64 word) \<le> ?m" by (simp add: unat_of_nat)
  moreover have "(of_nat n :: 64 word) =
      of_nat (sum_list (map (length \<circ> snd) (cs_replies st))) + of_nat (length (cs_timeout_nodes st)) + of_nat (length (cs_denied_nodes st))"
    using assms(1) by (simp add: length_voters flip: of_nat_add)
  ultimately show ?thesis by (simp add: Consensus_is_reachable_def Let_def algebra_simps)
qed

lemma add_vote_small:
  assumes "list_all (\<lambda>(_, vs). length vs \<le> f) m" "length (unwrap_or (map_of (add_vote v node m) v) []) \<le> f"
  shows "list_all (\<lambda>(_, vs). length vs \<le> f) (add_vote v node m)"
  using assms by (auto simp: list_all_iff add_vote_def dict_insert_map_of dest!: dict_insert_in)

text \<open>An event after which the request looks whether a consensus can still be reached.\<close>

definition settling :: "request_env \<Rightarrow> RequestEvent \<Rightarrow> bool" where
  "settling env re =
     (case event_reply re of Some (raw, _) \<Rightarrow> reply_value env raw \<noteq> None | None \<Rightarrow> event_node re \<noteq> None)"

definition small :: "nat \<Rightarrow> ConsensusState \<Rightarrow> bool" where
  "small f st = list_all (\<lambda>(_, vs). length vs \<le> f) (cs_replies st)"

definition progressed :: "RequestSM \<Rightarrow> ConsensusState \<Rightarrow> string \<Rightarrow> bool \<Rightarrow> RequestState \<Rightarrow> bool" where
  "progressed sm st node settled s =
     (s = RS_Finish \<or> (\<exists>st'. s = RS_Consensus st' \<and> length (voters st') = Suc (length (voters st))
        \<and> set (voters st') = insert node (set (voters st)) \<and> small (rq_f sm) st'
        \<and> (settled \<longrightarrow> Consensus_is_reachable st' (rq_f sm) (length (rq_nodes sm)))))"

lemma consensus_reply_progress:
  assumes "consensus_reply env sm st raw node req = (s, es)" "node \<notin> set (voters st)" "small (rq_f sm) st"
  shows "progressed sm st node (reply_value env raw \<noteq> None) s"
proof (cases "get_msg_result_without_state_proof (re_codec env) raw")
  case None
  then show ?thesis
    using assms by (auto simp: consensus_reply_def Let_def progressed_def voters_def small_def reply_value_def split: if_splits)
next
  case (Some p)
  obtain r v where p: "p = (r, v)" by (cases p)
  let ?st = "st\<lparr>cs_replies := add_vote v node (cs_replies st)\<rparr>"
  have "node \<notin> set (concat (map snd (cs_replies st)))" using assms(2) by (simp add: voters_def)
  note vote = add_vote_concat [OF this]
  have "length (voters ?st) = Suc (length (voters st))" "set (voters ?st) = insert node (set (voters st))"
    using vote [of v] by (simp_all only: voters_def) simp_all
  moreover have "small (rq_f sm) ?st" if "length (unwrap_or (map_of (add_vote v node (cs_replies st)) v) []) \<le> rq_f sm"
    using add_vote_small [OF _ that] assms(3) by (simp add: small_def)
  ultimately show ?thesis
    using assms(1) Some p by (auto simp: consensus_reply_def Let_def progressed_def split: if_splits)
qed

lemma consensus_progress:
  assumes "handle_consensus env sm st re = (s, es)" "event_node re = Some node" "node \<notin> set (voters st)" "small (rq_f sm) st"
  shows "progressed sm st node (settling env re) s"
proof (cases "event_reply re")
  case None
  then show ?thesis
    using assms by (cases re) (auto simp: handle_consensus_def Let_def progressed_def voters_def small_def settling_def split: if_splits)
next
  case (Some p)
  then obtain raw req where "consensus_reply env sm st raw node req = (s, es)" "settling env re = (reply_value env raw \<noteq> None)"
    using assms(1,2) by (cases re) (auto simp: handle_consensus_def settling_def)
  then show ?thesis using consensus_reply_progress [OF _ assms(3,4), of env raw req s es] by (simp only:)
qed

lemma consensus_other_event:
  "handle_consensus env sm st re = (s, es) \<Longrightarrow> event_node re = None \<Longrightarrow> s = RS_Finish \<or> s = RS_Consensus st"
  by (cases re) (auto simp: handle_consensus_def)

lemma handle_event_consensus:
  assumes "RequestSM_handle_event env sm re store = Inr (sm', ev, es, store')" "rq_state sm = RS_Consensus st"
  shows "\<exists>es. handle_consensus env sm st re = (rq_state sm', es)"
  using assms by (auto simp: RequestSM_handle_event_def split: prod.splits)

lemma undecided_step:
  assumes "undecided sm ns sm1" "RequestSM_handle_event env sm1 re store = Inr (sm2, ev, es, store')"
    and "distinct (ns @ List.map_filter event_node [re])"
  shows "undecided sm (ns @ List.map_filter event_node [re]) sm2"
    and "settling env re \<Longrightarrow> length ns + 1 = length (rq_nodes sm) \<Longrightarrow> rq_state sm2 = RS_Finish"
proof -
  note keeps = handle_event_keeps [OF assms(2)]
  have "undecided sm (ns @ List.map_filter event_node [re]) sm2
      \<and> (settling env re \<longrightarrow> length ns + 1 = length (rq_nodes sm) \<longrightarrow> rq_state sm2 = RS_Finish)"
  proof (cases "rq_state sm1 = RS_Finish")
    case True
    then show ?thesis using assms by (auto simp: undecided_def)
  next
    case False
    then obtain st where st: "rq_state sm1 = RS_Consensus st" "length (voters st) = length ns" "set (voters st) \<subseteq> set ns"
        "small (rq_f sm) st" "rq_f sm1 = rq_f sm" "rq_nodes sm1 = rq_nodes sm"
      using assms(1) by (auto simp: undecided_def small_def)
    obtain es' where h: "handle_consensus env sm1 st re = (rq_state sm2, es')" using handle_event_consensus [OF assms(2) st(1)] by blast
    show ?thesis
    proof (cases "event_node re")
      case None
      then have "\<not> settling env re" by (cases re) (auto simp: settling_def)
      then show ?thesis
        using consensus_other_event [OF h None] None st keeps by (auto simp: undecided_def small_def List.map_filter_def)
    next
      case (Some node)
      then have "node \<notin> set (voters st)" using assms(3) st(3) by (auto simp: List.map_filter_def)
      then have "progressed sm1 st node (settling env re) (rq_state sm2)"
        using consensus_progress [OF h Some] st(4,5) by simp
      then show ?thesis
        using st keeps Some not_reachable_when_all_voted [of _ "length (rq_nodes sm)" "rq_f sm"]
        by (auto simp: progressed_def undecided_def small_def List.map_filter_def)
    qed
  qed
  then show "undecided sm (ns @ List.map_filter event_node [re]) sm2"
    and "settling env re \<Longrightarrow> length ns + 1 = length (rq_nodes sm) \<Longrightarrow> rq_state sm2 = RS_Finish" by blast+
qed

lemma undecided_run:
  assumes "undecided sm ns sm1" "run_request env sm1 res store = Inr (sm2, es, store')"
    and "distinct (ns @ List.map_filter event_node res)"
  shows "undecided sm (ns @ List.map_filter event_node res) sm2"
  using assms
proof (induction res arbitrary: ns sm1 store es)
  case (Cons re res)
  obtain sm3 ev es1 store1 es2 where run: "RequestSM_handle_event env sm1 re store = Inr (sm3, ev, es1, store1)"
      "run_request env sm3 res store1 = Inr (sm2, es2, store')"
    using Cons.prems(2) by (auto simp: res_bind_Inr_iff)
  have cat: "ns @ List.map_filter event_node (re # res) = (ns @ List.map_filter event_node [re]) @ List.map_filter event_node res"
    by (simp add: List.map_filter_def)
  then have "undecided sm (ns @ List.map_filter event_node [re]) sm3"
    using undecided_step(1) [OF Cons.prems(1) run(1)] Cons.prems(3) by (metis distinct_append)
  then show ?case using Cons.IH [OF _ run(2)] Cons.prems(3) cat by metis
qed (simp add: List.map_filter_def)

lemma run_append:
  "run_request env sm (xs @ ys) store =
     res_bind (run_request env sm xs store) (\<lambda>(sm1, es1, store1).
     res_bind (run_request env sm1 ys store1) (\<lambda>(sm2, es2, store2). Inr (sm2, es1 @ es2, store2)))"
  by (induction xs arbitrary: sm store) (auto simp: res_bind_def split: sum.splits)

subsection \<open>Full requests\<close>

lemma dict_insert_distinct: "distinct (map fst d) \<Longrightarrow> distinct (map fst (dict_insert k v d))"
  by (induction d) (auto simp: dict_insert_keys)

text \<open>
  A list of target nodes with a repetition is accepted, but then the request waits for more answers than
  there are nodes to give them.
\<close>

lemma repeated_target_never_finishes:
  assumes "fs_nodes_to_send st = Some ns" "\<not> distinct ns" "event_node re = Some node" "node \<in> set ns"
    and "distinct (map fst (unwrap_or (fs_accum_reply st) []))" "fst ` set (unwrap_or (fs_accum_reply st) []) \<subseteq> set ns"
  shows "\<exists>st' es. handle_full env sm st re = (RS_Full st', es) \<and> answers es = [] \<and> fs_nodes_to_send st' = Some ns
     \<and> distinct (map fst (unwrap_or (fs_accum_reply st') [])) \<and> fst ` set (unwrap_or (fs_accum_reply st') []) \<subseteq> set ns"
proof -
  let ?d = "unwrap_or (fs_accum_reply st) []"
  have "length (dict_insert node (JString r) ?d) \<noteq> length ns" for r
  proof -
    have "distinct (map fst (dict_insert node (JString r) ?d))" using dict_insert_distinct [OF assms(5)] .
    then have "length (dict_insert node (JString r) ?d) = card (fst ` set (dict_insert node (JString r) ?d))"
      by (metis distinct_card image_set length_map)
    also have "\<dots> \<le> card (set ns)" using assms(4,6) by (intro card_mono) (auto simp: dict_insert_keys)
    also have "\<dots> < length ns" using assms(2) card_distinct card_length le_neq_implies_less by blast
    finally show ?thesis by simp
  qed
  then show ?thesis
    using assms by (cases re) (auto simp: handle_full_def full_request_handle_consensus_state_def Let_def
        dict_insert_distinct dict_insert_keys)
qed

subsection \<open>Properties\<close>

text \<open>
  C39. Every command that waits for a single, consensus or full request is answered exactly once: not
  before the request is finished, all commands alike when it finishes, and never again after that.
\<close>

theorem request_commands_answered_once:
  assumes "client_request re"
    and "run_request env (RequestSM_new f cmd_ids nodes timeout ext_timeout read_nodes mode) (re # res) store = Inr (sm', es, store')"
  shows "\<exists>r. answers es = (if RequestSM_is_terminal sm' then map (\<lambda>i. (i, r)) cmd_ids else [])"
  using run_first_client [OF assms(2) _ assms(1)]
  by (auto simp: settles_def RequestSM_is_terminal_def RequestSM_new_def)

text \<open>
  C8. An answer to a consensus request. A message handed to a command has the result that more than
  \<open>f\<close> different nodes gave in the events so far, state proofs aside; so if at most \<open>f\<close> nodes are faulty, a
  node that is not faulty gave that result.
\<close>

theorem consensus_answer_backed:
  assumes "run_request env (RequestSM_new f cmd_ids nodes timeout ext_timeout read_nodes mode)
      (RE_CustomConsensusRequest msg req_id # res) store = Inr (sm', es, store')"
    and "(i, Inr m) \<in> set (answers es)" "finite faulty" "card faulty \<le> f"
  shows "\<exists>result supporters node raw. reply_value env m = Some result \<and> f < card supporters
     \<and> supporters \<subseteq> {n. \<exists>raw. (raw, n) \<in> replied res \<and> reply_value env raw = Some result}
     \<and> node \<notin> faulty \<and> (raw, node) \<in> replied res \<and> reply_value env raw = Some result"
proof -
  let ?sm = "(RequestSM_new f cmd_ids nodes timeout ext_timeout read_nodes mode)
      \<lparr>rq_state := RS_Consensus \<lparr>cs_denied_nodes = [], cs_replies = [], cs_timeout_nodes = []\<rparr>\<rparr>"
  obtain es2 where "run_request env ?sm res store = Inr (sm', es2, store')" "answers es = answers es2"
    using assms(1) by (auto simp: RequestSM_new_def RequestSM_handle_event_def handle_start_def res_bind_Inr_iff)
  then have "backed env res f m" using consensus_run_backed [of ?sm env res store sm' es2] assms(2) by (auto simp: RequestSM_new_def)
  then obtain v ns where v: "reply_value env m = Some v" "f < card ns" "\<forall>node \<in> ns. voted env res v node"
    by (auto simp: backed_def)
  then have "\<not> ns \<subseteq> faulty" using card_mono [OF assms(3), of ns] assms(4) by auto
  then obtain node where "node \<in> ns" "node \<notin> faulty" by blast
  then show ?thesis using v unfolding voted_def by blast
qed

text \<open>
  An answer to a single request. It is one of the messages received, and either more than \<open>f\<close>
  different nodes gave its result, or its state proof was verified and is fresh.
\<close>

theorem single_answer_backed:
  assumes "run_request env (RequestSM_new f cmd_ids nodes timeout ext_timeout read_nodes mode)
      (RE_CustomSingleRequest msg req_id sp_key ts # res) store = Inr (sm', es, store')"
    and "(i, Inr m) \<in> set (answers es)"
  shows "(\<exists>result supporters. reply_value env m = Some result \<and> f < card supporters
        \<and> supporters \<subseteq> {n. \<exists>raw. (raw, n) \<in> replied res \<and> reply_value env raw = Some result})
     \<or> (\<exists>node result rest time. (m, node) \<in> replied res
        \<and> get_msg_result_without_state_proof (re_codec env) m = Some (result, rest)
        \<and> get_last_signed_time (re_codec env) m = Inr time
        \<and> check_state_proof env result f nodes m sp_key ts (unwrap_or time 0))"
proof -
  let ?sm = "(RequestSM_new f cmd_ids nodes timeout ext_timeout read_nodes mode)
      \<lparr>rq_state := RS_Single \<lparr>ss_denied_nodes = [], ss_replies = [], ss_timeout_nodes = [], ss_sp_key = sp_key, ss_timestamps = ts\<rparr>\<rparr>"
  obtain es2 where "run_request env ?sm res store = Inr (sm', es2, store')" "answers es = answers es2"
    using assms(1) by (auto simp: RequestSM_new_def RequestSM_handle_event_def handle_start_def res_bind_Inr_iff)
  then have "backed env res f m \<or> proven env res ?sm sp_key ts m"
    using single_run_backed [of ?sm sp_key ts env res store sm' es2] assms(2) by (auto simp: RequestSM_new_def)
  then show ?thesis
  proof
    assume "backed env res f m"
    then show ?thesis unfolding backed_def voted_def by blast
  next
    assume "proven env res ?sm sp_key ts m"
    then show ?thesis by (auto simp: proven_def RequestSM_new_def)
  qed
qed


subsection \<open>The properties at concrete inputs\<close>

definition demo_env :: request_env where
  "demo_env = \<lparr>re_codec = demo_codec\<lparr>cd_json_parse := (\<lambda>s. if s = ''?'' then None else Some (JObject [(''result'', JString s)]))\<rparr>,
     re_state_proof = (\<lambda>_ m _ _ _. m = ''p''), re_now = 100, re_threshold = 300\<rparr>"

definition demo_request :: RequestSM where
  "demo_request = RequestSM_new 1 [7, 8] [''a'', ''b'', ''c'', ''d''] 20 60 2 InMemory"

lemmas demo_request_defs =
  demo_env_def demo_codec_def demo_request_def RequestSM_new_def RequestSM_handle_event_def handle_start_def handle_consensus_def
  consensus_reply_def get_msg_result_without_state_proof_def json_index_def add_vote_def Consensus_is_reachable_def
  RequestSM_is_terminal_def reply_value_def send_ok_replies_def send_replies_def no_consensus_def Let_def

lemma demo_agreement:
  "\<exists>sm' es. run_request demo_env demo_request [RE_CustomConsensusRequest ''q'' ''1'', RE_Reply 1 ''x'' ''a'' ''1'', RE_Reply 1 ''y'' ''b'' ''1'',
       RE_ReqACK 1 [] ''c'' ''1'', RE_Reply 1 ''x'' ''c'' ''1''] demo_store = Inr (sm', es, demo_store)
     \<and> RequestSM_is_terminal sm' \<and> (7, Inr ''x'') \<in> set (answers es)"
  by (simp add: demo_request_defs)

theorem request_commands_answered_once_witness:
  "\<exists>sm' es r. run_request demo_env demo_request [RE_CustomConsensusRequest ''q'' ''1'', RE_Reply 1 ''x'' ''a'' ''1'', RE_Reply 1 ''y'' ''b'' ''1'',
       RE_ReqACK 1 [] ''c'' ''1'', RE_Reply 1 ''x'' ''c'' ''1''] demo_store = Inr (sm', es, demo_store)
     \<and> answers es = [(7, r), (8, r)]"
proof -
  obtain sm' es where run: "run_request demo_env demo_request [RE_CustomConsensusRequest ''q'' ''1'', RE_Reply 1 ''x'' ''a'' ''1'',
       RE_Reply 1 ''y'' ''b'' ''1'', RE_ReqACK 1 [] ''c'' ''1'', RE_Reply 1 ''x'' ''c'' ''1''] demo_store = Inr (sm', es, demo_store)"
      "RequestSM_is_terminal sm'"
    using demo_agreement by blast
  then show ?thesis
    using request_commands_answered_once [OF _ run(1) [unfolded demo_request_def]] by auto
qed

theorem consensus_answer_backed_witness:
  "\<exists>es sm'. run_request demo_env demo_request [RE_CustomConsensusRequest ''q'' ''1'', RE_Reply 1 ''x'' ''a'' ''1'', RE_Reply 1 ''y'' ''b'' ''1'',
       RE_ReqACK 1 [] ''c'' ''1'', RE_Reply 1 ''x'' ''c'' ''1''] demo_store = Inr (sm', es, demo_store)
     \<and> (7, Inr ''x'') \<in> set (answers es)
     \<and> (\<exists>result node raw. reply_value demo_env ''x'' = Some result \<and> node \<notin> {''c''} \<and> reply_value demo_env raw = Some result
          \<and> (raw, node) \<in> {(''x'', ''a''), (''y'', ''b''), (''x'', ''c'')})"
proof -
  let ?res = "[RE_Reply 1 ''x'' ''a'' ''1'', RE_Reply 1 ''y'' ''b'' ''1'', RE_ReqACK 1 [] ''c'' ''1'', RE_Reply 1 ''x'' ''c'' ''1'']"
  obtain sm' es where run: "run_request demo_env demo_request (RE_CustomConsensusRequest ''q'' ''1'' # ?res) demo_store = Inr (sm', es, demo_store)"
      "(7, Inr ''x'') \<in> set (answers es)"
    using demo_agreement by blast
  have rep: "replied ?res = {(''x'', ''a''), (''y'', ''b''), (''x'', ''c'')}" by auto
  have "finite {''c''}" "card {''c''} \<le> 1" by simp_all
  from consensus_answer_backed [OF run(1) [unfolded demo_request_def] run(2) this]
  have "\<exists>result node raw. reply_value demo_env ''x'' = Some result \<and> node \<notin> {''c''} \<and> reply_value demo_env raw = Some result
      \<and> (raw, node) \<in> replied ?res"
    by (elim exE conjE) (intro exI conjI)
  from run this [unfolded rep] show ?thesis by (intro exI [of _ es] exI [of _ sm'] conjI)
qed

lemma demo_single:
  "\<exists>sm' es. run_request demo_env demo_request [RE_CustomSingleRequest ''q'' ''1'' None (None, None), RE_Reply 1 ''x'' ''a'' ''1'',
       RE_Reply 1 ''p'' ''b'' ''1''] demo_store = Inr (sm', es, demo_store) \<and> (8, Inr ''p'') \<in> set (answers es)"
  by (simp add: demo_request_defs handle_single_def single_reply_def insert_response_def check_state_proof_def check_freshness_def
      get_last_signed_time_def parse_response_metadata_def fail_def try_to_continue_def Single_is_reachable_def)

theorem single_answer_backed_witness:
  "\<exists>sm' es. run_request demo_env demo_request [RE_CustomSingleRequest ''q'' ''1'' None (None, None), RE_Reply 1 ''x'' ''a'' ''1'',
       RE_Reply 1 ''p'' ''b'' ''1''] demo_store = Inr (sm', es, demo_store)
     \<and> ((\<exists>result supporters. reply_value demo_env ''p'' = Some result \<and> 1 < card supporters
          \<and> supporters \<subseteq> {n. \<exists>raw. (raw, n) \<in> {(''x'', ''a''), (''p'', ''b'')} \<and> reply_value demo_env raw = Some result})
        \<or> (\<exists>node. (''p'', node) \<in> {(''x'', ''a''), (''p'', ''b'')}))"
proof -
  let ?res = "[RE_Reply 1 ''x'' ''a'' ''1'', RE_Reply 1 ''p'' ''b'' ''1'']"
  obtain sm' es where run: "run_request demo_env demo_request (RE_CustomSingleRequest ''q'' ''1'' None (None, None) # ?res) demo_store
       = Inr (sm', es, demo_store)" "(8, Inr ''p'') \<in> set (answers es)"
    using demo_single by blast
  have rep: "replied ?res = {(''x'', ''a''), (''p'', ''b'')}" by auto
  have "\<exists>node result rest time. P node \<and> Q node result rest time \<Longrightarrow> \<exists>node. P node" for P and Q :: "string \<Rightarrow> json \<Rightarrow> json \<Rightarrow> 64 word option \<Rightarrow> bool"
    by blast
  with single_answer_backed [OF run(1) [unfolded demo_request_def] run(2), unfolded rep]
  show ?thesis by (intro exI [of _ sm'] exI [of _ es] conjI run(1)) (elim disj_forward)
qed


text \<open>
  The condition on the last answer is needed: here one node times out, the other two send answers that are
  not JSON, and the request is left open although no node has anything more to say.
\<close>

lemma malformed_last_reply_stalls:
  "\<exists>sm' es. run_request demo_env (RequestSM_new 1 [7] [''a'', ''b'', ''c''] 20 60 2 InMemory)
       [RE_CustomConsensusRequest ''q'' ''1'', RE_Timeout ''1'' ''a'', RE_Reply 1 ''?'' ''b'' ''1'', RE_Reply 1 ''?'' ''c'' ''1''] demo_store
     = Inr (sm', es, demo_store) \<and> \<not> RequestSM_is_terminal sm' \<and> answers es = []"
  by (simp add: demo_request_defs)

end
