(* ===== verification/State_Proof.thy ===== *)
theory State_Proof
  imports State_Trie Pool_Requests "HOL-Library.Countable"
begin

text \<open>
  State proofs of ledger replies (\<open>libvdrtools/src/services/pool/state_proof/mod.rs\<close> and the types of
  \<open>types.rs\<close>): the key of a request, what a reply claims, and the check of the claim by a BLS
  multi-signature over the root hash and a proof against that root, in the state trie or in the Merkle
  tree of transactions.

  Parameters (\<open>sp_lib\<close>): the trie library, the codec, base64 and hex, the BLS verification, the binary
  search of the standard library and the protocol version. On JSON values, which have no structs, the two
  MessagePack functions \<open>to_vec\<close> and \<open>to_vec_named\<close> are the same function of the codec. A
  verdict is \<open>Some (Inr b)\<close>, a panic \<open>Some (Inl Panic)\<close>, a check that never ends \<open>None\<close>. The \<open>u64\<close> and
  \<open>usize\<close> subtractions wrap around, as in a release build.
\<close>

type_synonym ver_key = bytes
type_synonym verdict = "bool indy_result option"

record sp_lib =
  sp_trie :: trie_lib
  sp_codec :: codec
  sp_b64enc :: "bytes \<Rightarrow> string"
  sp_b64dec :: "string \<Rightarrow> bytes option"
  sp_hex :: "bytes \<Rightarrow> string"
  sp_bls :: "bytes \<Rightarrow> bytes \<Rightarrow> ver_key list \<Rightarrow> bool"
  sp_multi_sig :: "bytes \<Rightarrow> bytes option"
  sp_search :: "64 word list \<Rightarrow> 64 word \<Rightarrow> (nat, nat) result"
  sp_node_1_3 :: bool

record NumericalSuffixData =
  ns_from :: "64 word option"
  ns_next :: "64 word option"
  ns_prefix :: string

datatype VerificationType =
    VT_Simple
  | VT_NumericalSuffixAscendingNoGaps NumericalSuffixData
  | VT_MerkleTree "64 word"

type_synonym key_values = "(string \<times> string option) list"

datatype KeyValuesInSP =
    KV_Simple key_values VerificationType
  | KV_SubTrie "string option" key_values

record ParsedSP =
  psp_proof_nodes :: string
  psp_root_hash :: string
  psp_kvs_to_verify :: KeyValuesInSP
  psp_multi_signature :: json

subsection \<open>Transaction types\<close>

definition GET_TXN :: string where "GET_TXN = ''3''"
definition GET_TXN_AUTHR_AGRMT :: string where "GET_TXN_AUTHR_AGRMT = ''6''"
definition GET_TXN_AUTHR_AGRMT_AML :: string where "GET_TXN_AUTHR_AGRMT_AML = ''7''"
definition ATTRIB :: string where "ATTRIB = ''100''"
definition GET_ATTR :: string where "GET_ATTR = ''104''"
definition GET_NYM :: string where "GET_NYM = ''105''"
definition GET_SCHEMA :: string where "GET_SCHEMA = ''107''"
definition GET_CRED_DEF :: string where "GET_CRED_DEF = ''108''"
definition GET_REVOC_REG_DEF :: string where "GET_REVOC_REG_DEF = ''115''"
definition GET_REVOC_REG :: string where "GET_REVOC_REG = ''116''"
definition GET_AUTH_RULE :: string where "GET_AUTH_RULE = ''121''"

lemmas txn_types = GET_TXN_def GET_TXN_AUTHR_AGRMT_def GET_TXN_AUTHR_AGRMT_AML_def ATTRIB_def GET_ATTR_def GET_NYM_def
  GET_SCHEMA_def GET_CRED_DEF_def GET_REVOC_REG_DEF_def GET_REVOC_REG_def GET_AUTH_RULE_def GET_REVOC_REG_DELTA_def

definition REQUESTS_FOR_STATE_PROOFS :: "string list" where
  "REQUESTS_FOR_STATE_PROOFS =
     [GET_NYM, GET_TXN_AUTHR_AGRMT, GET_TXN_AUTHR_AGRMT_AML, GET_SCHEMA, GET_CRED_DEF, GET_ATTR, GET_REVOC_REG,
      GET_REVOC_REG_DEF, GET_REVOC_REG_DELTA, GET_AUTH_RULE, GET_TXN]"

definition REQUESTS_FOR_MULTI_STATE_PROOFS :: "string list" where
  "REQUESTS_FOR_MULTI_STATE_PROOFS = [GET_REVOC_REG_DELTA]"

subsection \<open>The key of a request\<close>

definition openssl_hash :: "sp_lib \<Rightarrow> bytes \<Rightarrow> (indy_error, bytes) result" where
  "openssl_hash lib = cd_sha (sp_codec lib)"

definition marker :: "sp_lib \<Rightarrow> nat \<Rightarrow> string" where
  "marker lib n = [if sp_node_1_3 lib then char_of n else char_of (48 + n)]"

definition opt_or_else :: "'a option \<Rightarrow> 'a option \<Rightarrow> 'a option" where
  "opt_or_else x y = (case x of None \<Rightarrow> y | Some a \<Rightarrow> Some a)"

abbreviation field :: "json \<Rightarrow> string \<Rightarrow> string option" where
  "field v k \<equiv> as_str (json_index v k)"

definition ok :: "('e, 'a) result \<Rightarrow> 'a option" where
  "ok r = (case r of Inl _ \<Rightarrow> None | Inr a \<Rightarrow> Some a)"

definition key_suffix :: "sp_lib \<Rightarrow> string \<Rightarrow> json \<Rightarrow> string option" where
  "key_suffix lib typ op =
     (if typ = GET_ATTR then
        Option.bind (opt_or_else (opt_or_else (field op ''raw'') (field op ''enc'')) (field op ''hash'')) (\<lambda>attr_name.
        Option.bind (ok (openssl_hash lib (string_bytes attr_name))) (\<lambda>hash.
          Some ('':'' @ marker lib 1 @ '':'' @ sp_hex lib hash)))
      else if typ = GET_CRED_DEF then
        (case (field op ''signature_type'', as_u64 (json_index op ''ref'')) of
           (Some sign_type, Some sch_seq_no) \<Rightarrow>
             (let tag = (if sp_node_1_3 lib then None else field op ''tag'')
              in Some ('':'' @ marker lib 3 @ '':'' @ sign_type @ '':'' @ nat_to_string (unat sch_seq_no)
                       @ unwrap_or (map_option (\<lambda>t. '':'' @ t) tag) []))
         | _ \<Rightarrow> None)
      else if typ = GET_NYM \<or> typ = GET_REVOC_REG_DEF then Some []
      else if typ = GET_SCHEMA then
        (case (field (json_index op ''data'') ''name'', field (json_index op ''data'') ''version'') of
           (Some name, Some ver) \<Rightarrow> Some ('':'' @ marker lib 2 @ '':'' @ name @ '':'' @ ver)
         | _ \<Rightarrow> None)
      else if typ = GET_REVOC_REG then
        map_option (\<lambda>revoc_reg_def_id. marker lib 6 @ '':'' @ revoc_reg_def_id) (field op ''revocRegDefId'')
      else if typ = GET_AUTH_RULE then
        (case (field op ''auth_type'', field op ''auth_action'', field op ''field'') of
           (Some auth_type, Some auth_action, Some fld) \<Rightarrow>
             (let default_old_value = (if auth_action = ''ADD'' then ''*'' else [])
              in Some (''1:'' @ auth_type @ ''--'' @ auth_action @ ''--'' @ fld @ ''--''
                       @ unwrap_or (field op ''old_value'') default_old_value @ ''--'' @ unwrap_or (field op ''new_value'') []))
         | _ \<Rightarrow> None)
      else if typ = GET_REVOC_REG_DELTA \<and> json_index op ''from'' = JNull then
        map_option (\<lambda>revoc_reg_def_id. marker lib 5 @ '':'' @ revoc_reg_def_id) (field op ''revocRegDefId'')
      else if typ = GET_REVOC_REG_DELTA \<and> json_index op ''from'' \<noteq> JNull then
        map_option (\<lambda>revoc_reg_def_id. marker lib 6 @ '':'' @ revoc_reg_def_id) (field op ''revocRegDefId'')
      else if typ = GET_TXN_AUTHR_AGRMT then
        (case (field op ''version'', field op ''digest'', as_u64 (json_index op ''timestamp'')) of
           (None, None, _) \<Rightarrow> Some ''2:latest''
         | (None, Some d, None) \<Rightarrow> Some (''2:d:'' @ d)
         | (Some version, None, None) \<Rightarrow> Some (''2:v:'' @ version)
         | _ \<Rightarrow> None)
      else if typ = GET_TXN_AUTHR_AGRMT_AML then
        (case field op ''version'' of Some version \<Rightarrow> Some (''3:v:'' @ version) | None \<Rightarrow> Some ''3:latest'')
      else if typ = GET_TXN then
        map_option (\<lambda>seq_no. nat_to_string (unat seq_no)) (as_u64 (json_index op ''data''))
      else None)"

definition key_prefix :: "sp_lib \<Rightarrow> string \<Rightarrow> json \<Rightarrow> bytes option" where
  "key_prefix lib typ op =
     (let dest = opt_or_else (field op ''dest'') (field op ''origin'')
      in if typ = GET_NYM then Option.bind dest (\<lambda>d. ok (openssl_hash lib (string_bytes d)))
         else if typ \<in> {GET_REVOC_REG, GET_REVOC_REG_DELTA, GET_TXN_AUTHR_AGRMT, GET_TXN_AUTHR_AGRMT_AML, GET_AUTH_RULE} then Some []
         else if typ = GET_REVOC_REG_DEF then map_option string_bytes (field op ''id'')
         else if typ = GET_TXN then Some []
         else map_option string_bytes dest)"

definition parse_key_from_request_for_builtin_sp :: "sp_lib \<Rightarrow> json \<Rightarrow> bytes option" where
  "parse_key_from_request_for_builtin_sp lib json_msg =
     (let op = json_index json_msg ''operation''
      in Option.bind (field op ''type'') (\<lambda>typ.
         Option.bind (key_suffix lib typ op) (\<lambda>suffix.
         Option.bind (key_prefix lib typ op) (\<lambda>pre.
           Some (pre @ string_bytes suffix)))))"

subsection \<open>The value of a reply\<close>

text \<open>Entries of a \<open>serde_json\<close> object are kept in the order of their keys.\<close>

fun str_less :: "string \<Rightarrow> string \<Rightarrow> bool" where
  "str_less [] [] = False"
| "str_less [] (y # ys) = True"
| "str_less (x # xs) [] = False"
| "str_less (x # xs) (y # ys) = ((of_char x :: nat) < of_char y \<or> (x = y \<and> str_less xs ys))"

fun json_put :: "string \<Rightarrow> json \<Rightarrow> (string \<times> json) list \<Rightarrow> (string \<times> json) list" where
  "json_put k v [] = [(k, v)]"
| "json_put k v ((k', v') # d) =
     (if k = k' then (k, v) # d
      else if str_less k k' then (k, v) # (k', v') # d
      else (k', v') # json_put k v d)"

definition is_full_taa_state_value_expected :: "bytes \<Rightarrow> bool" where
  "is_full_taa_state_value_expected expected_state_key = prefix (string_bytes ''2:d:'') expected_state_key"

definition if_rev_delta_multi_state_proof_expected :: "bytes \<Rightarrow> bool" where
  "if_rev_delta_multi_state_proof_expected sp_key =
     (prefix (string_bytes [char_of (6::nat), CHR '':'']) sp_key \<or> prefix (string_bytes ''6:'') sp_key)"

definition calculate_taa_digest :: "sp_lib \<Rightarrow> string \<Rightarrow> string \<Rightarrow> (indy_error, bytes) result" where
  "calculate_taa_digest lib text version = openssl_hash lib (string_bytes (version @ text))"

definition put_unless_null :: "json \<Rightarrow> string \<Rightarrow> (string \<times> json) list \<Rightarrow> (string \<times> json) list" where
  "put_unless_null src k value = (if json_index src k = JNull then value else json_put k (json_index src k) value)"

text \<open>The value of an attribute is stored by its hash; the transaction is adjusted to that.\<close>

definition hashed_text :: "sp_lib \<Rightarrow> string \<Rightarrow> (string, json) result" where
  "hashed_text lib s =
     (if s = [] then Inr (JString [])
      else res_bind (map_err ie_msg (openssl_hash lib (string_bytes s))) (\<lambda>h. Inr (JString (sp_hex lib h))))"

definition adjust_attrib :: "sp_lib \<Rightarrow> json \<Rightarrow> (string, json) result" where
  "adjust_attrib lib value =
     (let txn = json_index value ''txn'';
          data = json_index txn ''data'';
          put = (\<lambda>k v. json_update ''txn'' (json_update ''data'' (json_update k (\<lambda>_. v))) value)
      in if field txn ''type'' = Some ATTRIB then
           (case field data ''raw'' of
              Some raw \<Rightarrow> res_bind (hashed_text lib raw) (\<lambda>v. Inr (put ''raw'' v))
            | None \<Rightarrow>
                (case field data ''enc'' of
                   Some enc \<Rightarrow> res_bind (hashed_text lib enc) (\<lambda>v. Inr (put ''enc'' v))
                 | None \<Rightarrow> Inr value))
         else Inr value)"

definition print_value :: "sp_lib \<Rightarrow> json \<Rightarrow> string" where
  "print_value lib value = (case as_str value of Some s \<Rightarrow> s | None \<Rightarrow> cd_json_print (sp_codec lib) value)"

definition initial_value :: "json \<Rightarrow> string \<Rightarrow> bytes \<Rightarrow> (string \<times> json) list" where
  "initial_value json_msg xtype sp_key =
     (let seq_no = json_index json_msg ''seqNo''; time = json_index json_msg ''txnTime''
      in if xtype = GET_NYM then json_put ''txnTime'' time (json_put ''seqNo'' seq_no [])
         else if xtype = GET_AUTH_RULE then []
         else if xtype \<noteq> GET_TXN_AUTHR_AGRMT \<or> is_full_taa_state_value_expected sp_key then
           json_put ''lut'' time (json_put ''lsn'' seq_no [])
         else [])"

definition txn_value :: "sp_lib \<Rightarrow> json \<Rightarrow> (string, json option) result" where
  "txn_value lib parsed_data =
     (if json_index parsed_data ''txn'' = JNull \<and> json_index parsed_data ''txnMetadata'' = JNull
         \<and> json_index parsed_data ''ver'' = JNull \<and> json_index parsed_data ''reqSignature'' = JNull
      then Inr None
      else
        (let value = put_unless_null parsed_data ''reqSignature'' (put_unless_null parsed_data ''ver''
                       (put_unless_null parsed_data ''txnMetadata'' (put_unless_null parsed_data ''txn'' [])))
         in res_bind (adjust_attrib lib (JObject value)) (\<lambda>v. Inr (Some v))))"

definition claimed_value ::
    "sp_lib \<Rightarrow> json \<Rightarrow> string \<Rightarrow> json \<Rightarrow> string \<Rightarrow> bytes \<Rightarrow> (string, json option) result" where
  "claimed_value lib json_msg data parsed_data xtype sp_key =
     (let value = initial_value json_msg xtype sp_key;
          with_val = (\<lambda>v. Inr (Some (JObject (json_put ''val'' v value))))
      in if xtype = GET_TXN then txn_value lib parsed_data
         else if xtype = GET_NYM then
           Inr (Some (JObject (json_put ''verkey'' (json_index parsed_data ''verkey'')
             (json_put ''role'' (json_index parsed_data ''role'')
             (json_put ''identifier'' (json_index parsed_data ''identifier'') value)))))
         else if xtype = GET_ATTR then
           res_bind (map_err ie_msg (openssl_hash lib (string_bytes data))) (\<lambda>h. with_val (JString (sp_hex lib h)))
         else if xtype \<in> {GET_CRED_DEF, GET_REVOC_REG_DEF, GET_REVOC_REG, GET_TXN_AUTHR_AGRMT_AML} then with_val parsed_data
         else if xtype = GET_AUTH_RULE then
           (case parsed_data of
              JArray (auth_rule # _) \<Rightarrow> Inr (Some (json_index auth_rule ''constraint''))
            | _ \<Rightarrow> Inr None)
         else if xtype = GET_SCHEMA then
           (case parsed_data of
              JObject kvs \<Rightarrow>
                (let rest = filter (\<lambda>(k, _). k \<noteq> ''name'' \<and> k \<noteq> ''version'') kvs
                 in if rest = [] then Inr None else with_val (JObject rest))
            | _ \<Rightarrow> Inl ''Invalid data for GET_SCHEMA'')
         else if xtype = GET_REVOC_REG_DELTA then
           (let accum_to = json_index (json_index parsed_data ''value'') ''accum_to''
            in if accum_to \<noteq> JNull then with_val accum_to else Inr None)
         else if xtype = GET_TXN_AUTHR_AGRMT then
           if is_full_taa_state_value_expected sp_key then with_val parsed_data
           else
             res_bind (map_err (\<lambda>_. ''Can't calculate expected TAA digest to verify StateProof on the request'')
                (calculate_taa_digest lib (unwrap_or (field parsed_data ''text'') []) (unwrap_or (field parsed_data ''version'') [])))
               (\<lambda>h. Inr (Some (JString (sp_hex lib h))))
         else Inl ''Unknown transaction'')"

definition parse_reply_for_proof_value ::
    "sp_lib \<Rightarrow> json \<Rightarrow> string option \<Rightarrow> json \<Rightarrow> string \<Rightarrow> bytes \<Rightarrow> (string, string option) result" where
  "parse_reply_for_proof_value lib json_msg data parsed_data xtype sp_key =
     (case data of
        None \<Rightarrow> Inr None
      | Some d \<Rightarrow> res_bind (claimed_value lib json_msg d parsed_data xtype sp_key) (\<lambda>v. Inr (map_option (print_value lib) v)))"

subsection \<open>Reading a state proof\<close>

text \<open>The data of a reply as the text that was sent and as a value; a data field of another kind is refused.\<close>

definition reply_data :: "sp_lib \<Rightarrow> json \<Rightarrow> (string option \<times> json) option" where
  "reply_data lib json_msg =
     (case json_index json_msg ''data'' of
        JNull \<Rightarrow> Some (None, JNull)
      | JString str \<Rightarrow> map_option (\<lambda>v. (Some str, v)) (cd_json_parse (sp_codec lib) str)
      | JObject m \<Rightarrow> Some (Some (cd_json_print (sp_codec lib) (JObject m)), JObject m)
      | JArray a \<Rightarrow> Some (Some (cd_json_print (sp_codec lib) (JArray a)), JArray a)
      | _ \<Rightarrow> None)"

definition proof_parts :: "sp_lib \<Rightarrow> json \<Rightarrow> json \<Rightarrow> string \<Rightarrow> (string, string \<times> string \<times> VerificationType) result" where
  "proof_parts lib json_msg parsed_data xtype =
     (if xtype \<noteq> GET_TXN then
        res_bind (ok_or (field (json_index json_msg ''state_proof'') ''proof_nodes'') ''No proof'') (\<lambda>nodes.
        res_bind (ok_or (field (json_index json_msg ''state_proof'') ''root_hash'') ''No root hash'') (\<lambda>root_hash.
          Inr (nodes, root_hash, VT_Simple)))
      else
        res_bind (case json_index parsed_data ''auditPath'' of
                    JArray path \<Rightarrow> Inr (sp_b64enc lib (string_bytes (cd_json_print (sp_codec lib) (JArray path))))
                  | _ \<Rightarrow> Inl ''No proof'') (\<lambda>nodes.
        res_bind (ok_or (field parsed_data ''rootHash'') ''No root hash'') (\<lambda>root_hash.
        res_bind (ok_or (as_u64 (json_index parsed_data ''ledgerSize'')) ''No ledger length for this proof'') (\<lambda>len.
          Inr (nodes, root_hash, VT_MerkleTree len)))))"

definition parse_reply_for_sp ::
    "sp_lib \<Rightarrow> json \<Rightarrow> string option \<Rightarrow> json \<Rightarrow> string \<Rightarrow> bytes \<Rightarrow> (string, ParsedSP) result" where
  "parse_reply_for_sp lib json_msg data parsed_data xtype sp_key =
     res_bind (proof_parts lib json_msg parsed_data xtype) (\<lambda>(nodes, root_hash, ver_type).
     res_bind (parse_reply_for_proof_value lib json_msg data parsed_data xtype sp_key) (\<lambda>value.
       Inr \<lparr>psp_proof_nodes = nodes, psp_root_hash = root_hash,
            psp_kvs_to_verify = KV_Simple [(sp_b64enc lib sp_key, value)] ver_type,
            psp_multi_signature = json_index (json_index json_msg ''state_proof'') ''multi_signature''\<rparr>))"

definition parse_reply_for_multi_sp :: "sp_lib \<Rightarrow> json \<Rightarrow> string \<Rightarrow> bytes \<Rightarrow> (string, ParsedSP option) result" where
  "parse_reply_for_multi_sp lib parsed_data xtype sp_key =
     (let from_proof = json_index parsed_data ''stateProofFrom'';
          accum_from = json_index (json_index parsed_data ''value'') ''accum_from''
      in if xtype = GET_REVOC_REG_DELTA \<and> if_rev_delta_multi_state_proof_expected sp_key then
           res_bind (ok_or (field from_proof ''proof_nodes'') ''No proof'') (\<lambda>nodes.
           res_bind (ok_or (field from_proof ''root_hash'') ''No root hash'') (\<lambda>root_hash.
             (let value = (if accum_from \<noteq> JNull then
                             Some (cd_json_print (sp_codec lib) (JObject
                               [(''lsn'', json_index accum_from ''seqNo''), (''lut'', json_index accum_from ''txnTime''), (''val'', accum_from)]))
                           else None)
              in Inr (Some \<lparr>psp_proof_nodes = nodes, psp_root_hash = root_hash,
                           psp_kvs_to_verify = KV_Simple [(sp_b64enc lib sp_key, value)] VT_Simple,
                           psp_multi_signature = json_index from_proof ''multi_signature''\<rparr>))))
         else if xtype = GET_REVOC_REG_DELTA then Inr None
         else Inl ''Unsupported transaction'')"

definition parse_reply_for_builtin_sp :: "sp_lib \<Rightarrow> json \<Rightarrow> string \<Rightarrow> bytes \<Rightarrow> ParsedSP list option" where
  "parse_reply_for_builtin_sp lib json_msg typ key =
     Option.bind (reply_data lib json_msg) (\<lambda>(data, parsed_data).
       case parse_reply_for_sp lib json_msg data parsed_data typ key of
         Inl _ \<Rightarrow> None
       | Inr state_proof \<Rightarrow>
           if typ \<in> set REQUESTS_FOR_MULTI_STATE_PROOFS then
             (case parse_reply_for_multi_sp lib parsed_data typ key of
                Inr (Some multi) \<Rightarrow> Some [state_proof, multi]
              | Inr None \<Rightarrow> Some [state_proof]
              | Inl _ \<Rightarrow> None)
           else Some [state_proof])"

definition parse_generic_reply_for_proof_checking :: "sp_lib \<Rightarrow> json \<Rightarrow> bytes option \<Rightarrow> ParsedSP list option" where
  "parse_generic_reply_for_proof_checking lib json_msg sp_key =
     Option.bind (field json_msg ''type'') (\<lambda>typ.
       if typ \<in> set REQUESTS_FOR_STATE_PROOFS then
         Option.bind sp_key (parse_reply_for_builtin_sp lib json_msg typ)
       else None)"

subsection \<open>The signature\<close>

definition parse_reply_for_proof_signature_checking :: "sp_lib \<Rightarrow> json \<Rightarrow> (string \<times> string list \<times> bytes) option" where
  "parse_reply_for_proof_signature_checking lib json_msg =
     (case (field json_msg ''signature'', json_index json_msg ''participants'', cd_msgpack (sp_codec lib) (json_index json_msg ''value'')) of
        (Some signature, JArray participants, Some value) \<Rightarrow>
          map_option (\<lambda>names. (signature, names, value)) (those (map as_str participants))
      | _ \<Rightarrow> None)"

text \<open>The keys of the participants, in the order of the pool's nodes; a participant without a key is an error.\<close>

definition participant_keys :: "(string \<times> ver_key option) list \<Rightarrow> string list \<Rightarrow> ver_key list indy_result" where
  "participant_keys nodes participants =
     try_map (\<lambda>(name, verkey).
         case verkey of
           Some blskey \<Rightarrow> Inr blskey
         | None \<Rightarrow> fail IE_InvalidState (''Blskey not found for node: '' @ name))
       (filter (\<lambda>(name, _). name \<in> set participants) nodes)"

definition verify_proof_signature ::
    "sp_lib \<Rightarrow> string \<Rightarrow> string list \<Rightarrow> bytes \<Rightarrow> (string \<times> ver_key option) list \<Rightarrow> nat \<Rightarrow> bool indy_result" where
  "verify_proof_signature lib signature participants value nodes f =
     res_bind (participant_keys nodes participants) (\<lambda>ver_keys.
       if length ver_keys < usize_sub (length nodes) f then Inr False
       else
         (case cd_b58dec (sp_codec lib) signature of
            None \<Rightarrow> Inr False
          | Some sig \<Rightarrow>
              (case sp_multi_sig lib sig of
                 None \<Rightarrow> Inr False
               | Some ms \<Rightarrow> Inr (sp_bls lib ms value ver_keys))))"

subsection \<open>Proofs in the state trie\<close>

definition trie_db_of :: "trie_lib \<Rightarrow> Node list \<Rightarrow> trie_db" where
  "trie_db_of lib nodes = foldl (\<lambda>m node. m(get_hash lib node \<mapsto> node)) Map.empty nodes"

text \<open>An error means that the proof is refused; a panic is not caught.\<close>

definition refused_on_error :: "('a \<Rightarrow> bool) \<Rightarrow> 'a indy_result \<Rightarrow> bool indy_result" where
  "refused_on_error p r = (case r of Inl Panic \<Rightarrow> Inl Panic | Inl (Err _) \<Rightarrow> Inr False | Inr x \<Rightarrow> Inr (p x))"

definition with_root :: "trie_lib \<Rightarrow> bytes \<Rightarrow> bytes \<Rightarrow> (trie_db \<Rightarrow> Node \<Rightarrow> verdict) \<Rightarrow> verdict" where
  "with_root lib proofs_rlp root_hash check =
     (case as_node_list (tl_view lib proofs_rlp) of
        Inl e \<Rightarrow> Some (Inl e)
      | Inr nodes \<Rightarrow>
          (case trie_db_of lib nodes root_hash of
             None \<Rightarrow> Some (Inr False)
           | Some root \<Rightarrow> check (trie_db_of lib nodes) root))"

definition verify_proof :: "trie_lib \<Rightarrow> bytes \<Rightarrow> bytes \<Rightarrow> bytes \<Rightarrow> string option \<Rightarrow> verdict" where
  "verify_proof lib proofs_rlp root_hash key expected_value =
     with_root lib proofs_rlp root_hash (\<lambda>db root.
       map_option (refused_on_error (\<lambda>value. value = expected_value)) (get_str_value lib db root key))"

definition numbered_values :: "string \<Rightarrow> (string \<times> string) list \<Rightarrow> (64 word \<times> string \<times> string option) list option" where
  "numbered_values pre vals =
     those (map (\<lambda>(key, value). map_option (\<lambda>no. (of_nat no, key, Some value)) (parse_uint (2 ^ 64) (drop (length pre) key)))
       (filter (\<lambda>(key, _). prefix pre key) vals))"

definition range_matches ::
    "sp_lib \<Rightarrow> string \<Rightarrow> 64 word option \<Rightarrow> 64 word option \<Rightarrow> key_values \<Rightarrow> (string \<times> string) list \<Rightarrow> bool" where
  "range_matches lib pre frm nxt kvs vals =
     (case numbered_values pre vals of
        None \<Rightarrow> False
      | Some unsorted \<Rightarrow>
          (let vals_for_sort = sort_key fst unsorted;
               vals_with_from = (case frm of
                  None \<Rightarrow> vals_for_sort
                | Some from_seqno \<Rightarrow>
                    (case sp_search lib (map fst vals_for_sort) from_seqno of Inl idx \<Rightarrow> drop idx vals_for_sort | Inr idx \<Rightarrow> drop idx vals_for_sort))
           in case nxt of
                None \<Rightarrow> map snd vals_with_from = kvs
              | Some next_seqno \<Rightarrow>
                  (case sp_search lib (map fst vals_with_from) next_seqno of
                     Inr idx \<Rightarrow> map snd (take idx vals_with_from) = kvs
                   | Inl _ \<Rightarrow> False)))"

definition verify_proof_range ::
    "sp_lib \<Rightarrow> bytes \<Rightarrow> bytes \<Rightarrow> string \<Rightarrow> 64 word option \<Rightarrow> 64 word option \<Rightarrow> key_values \<Rightarrow> verdict" where
  "verify_proof_range lib proofs_rlp root_hash pre frm nxt kvs =
     with_root (sp_trie lib) proofs_rlp root_hash (\<lambda>db root.
       map_option (refused_on_error (range_matches lib pre frm nxt kvs))
         (get_all_values (sp_trie lib) db root (Some (string_bytes pre))))"

subsection \<open>Proofs in the tree of transactions\<close>

text \<open>In a release build \<open>next_power_of_two\<close> wraps around to 0 beyond \<open>2^63\<close>.\<close>

definition next_power_of_two :: "64 word \<Rightarrow> 64 word" where
  "next_power_of_two n = of_nat (2 ^ levels (unat n))"

partial_function (option) turns_loop :: "64 word \<Rightarrow> 64 word \<Rightarrow> bool list \<Rightarrow> bool list option" where
  "turns_loop len idx turns =
     (if len \<noteq> 1 then
        (let middle = next_power_of_two len div 2;
             right = (idx < middle)
         in turns_loop (if right then middle else len - middle) (if right then idx else idx - middle) (turns @ [right]))
      else Some (rev turns))"

definition calculate_turns :: "64 word \<Rightarrow> 64 word \<Rightarrow> bool list option" where
  "calculate_turns len idx = turns_loop len idx []"

text \<open>The climb from the leaf to the root; \<open>None\<close> is a refusal.\<close>

fun climb_audit :: "codec \<Rightarrow> bytes \<Rightarrow> (string \<times> bool) list \<Rightarrow> bytes option" where
  "climb_audit cd hash [] = Some hash"
| "climb_audit cd hash ((next_hash, turn_right) # rest) =
     Option.bind (cd_b58dec cd next_hash) (\<lambda>other.
     Option.bind (ok (if turn_right then hash_nodes (cd_sha cd) hash other else hash_nodes (cd_sha cd) other hash)) (\<lambda>up_hash.
       climb_audit cd up_hash rest))"

definition audit_hashes :: "codec \<Rightarrow> bytes \<Rightarrow> string list option" where
  "audit_hashes cd proof_nodes =
     (if is_utf8 (bytes_string proof_nodes)
      then Option.bind (cd_json_parse cd (bytes_string proof_nodes)) (array_of as_str)
      else None)"

definition audit_seq_no :: "sp_lib \<Rightarrow> string \<Rightarrow> 64 word option" where
  "audit_seq_no lib key =
     Option.bind (sp_b64dec lib key) (\<lambda>bs.
       if is_utf8 (bytes_string bs) then map_option of_nat (parse_uint (2 ^ 64) (bytes_string bs)) else None)"

definition audit_matches :: "sp_lib \<Rightarrow> bytes \<Rightarrow> string list \<Rightarrow> bool list \<Rightarrow> string option \<Rightarrow> bool" where
  "audit_matches lib root_hash hashes turns value =
     (length hashes = length turns \<and>
      Option.bind value (\<lambda>text.
      Option.bind (cd_json_parse (sp_codec lib) text) (\<lambda>v.
      Option.bind (cd_msgpack (sp_codec lib) v) (\<lambda>bin.
      Option.bind (ok (hash_leaf (cd_sha (sp_codec lib)) bin)) (\<lambda>leaf.
        climb_audit (sp_codec lib) leaf (zip hashes turns))))) = Some root_hash)"

definition verify_merkle_tree :: "sp_lib \<Rightarrow> bytes \<Rightarrow> bytes \<Rightarrow> key_values \<Rightarrow> 64 word \<Rightarrow> verdict" where
  "verify_merkle_tree lib proof_nodes root_hash kvs len =
     (case audit_hashes (sp_codec lib) proof_nodes of
        None \<Rightarrow> Some (Inr False)
      | Some hashes \<Rightarrow>
          (case kvs of
             [] \<Rightarrow> Some (Inl Panic)
           | (key, value) # _ \<Rightarrow>
               (case audit_seq_no lib key of
                  None \<Rightarrow> Some (Inr False)
                | Some seq_no \<Rightarrow>
                    map_option (\<lambda>turns. Inr (audit_matches lib root_hash hashes turns value)) (calculate_turns len (seq_no - 1)))))"

subsection \<open>The check of a reply\<close>

fun verify_each :: "('a \<Rightarrow> verdict) \<Rightarrow> 'a list \<Rightarrow> verdict" where
  "verify_each p [] = Some (Inr True)"
| "verify_each p (x # xs) =
     Option.bind (p x) (\<lambda>r. case r of Inl e \<Rightarrow> Some (Inl e) | Inr b \<Rightarrow> if b then verify_each p xs else Some (Inr False))"

definition verify_simple :: "sp_lib \<Rightarrow> bytes \<Rightarrow> bytes \<Rightarrow> string \<times> string option \<Rightarrow> verdict" where
  "verify_simple lib proof_nodes root_hash kv =
     (case sp_b64dec lib (fst kv) of
        None \<Rightarrow> Some (Inr False)
      | Some key \<Rightarrow> verify_proof (sp_trie lib) proof_nodes root_hash key (snd kv))"

definition verify_kvs :: "sp_lib \<Rightarrow> bytes \<Rightarrow> bytes \<Rightarrow> KeyValuesInSP \<Rightarrow> verdict" where
  "verify_kvs lib proof_nodes root_hash kvs_to_verify =
     (case kvs_to_verify of
        KV_Simple kvs VT_Simple \<Rightarrow> verify_each (verify_simple lib proof_nodes root_hash) kvs
      | KV_Simple kvs (VT_NumericalSuffixAscendingNoGaps data) \<Rightarrow>
          verify_proof_range lib proof_nodes root_hash (ns_prefix data) (ns_from data) (ns_next data) kvs
      | KV_Simple kvs (VT_MerkleTree len) \<Rightarrow> verify_merkle_tree lib proof_nodes root_hash kvs len
      | KV_SubTrie _ _ \<Rightarrow> Some (Inr False))"

definition signature_ok :: "sp_lib \<Rightarrow> (string \<times> ver_key option) list \<Rightarrow> nat \<Rightarrow> ParsedSP \<Rightarrow> bool" where
  "signature_ok lib nodes f parsed_sp =
     (let signed_val = json_index (psp_multi_signature parsed_sp) ''value''
      in \<not> (field signed_val ''state_root_hash'' \<noteq> Some (psp_root_hash parsed_sp)
            \<and> field signed_val ''txn_root_hash'' \<noteq> Some (psp_root_hash parsed_sp))
         \<and> (case parse_reply_for_proof_signature_checking lib (psp_multi_signature parsed_sp) of
              None \<Rightarrow> False
            | Some (signature, participants, value) \<Rightarrow> verify_proof_signature lib signature participants value nodes f = Inr True))"

definition verify_one_sp :: "sp_lib \<Rightarrow> (string \<times> ver_key option) list \<Rightarrow> nat \<Rightarrow> ParsedSP \<Rightarrow> verdict" where
  "verify_one_sp lib nodes f parsed_sp =
     (if \<not> signature_ok lib nodes f parsed_sp then Some (Inr False)
      else
        (case (sp_b64dec lib (psp_proof_nodes parsed_sp), cd_b58dec (sp_codec lib) (psp_root_hash parsed_sp)) of
           (Some proof_nodes, Some root_hash) \<Rightarrow> verify_kvs lib proof_nodes root_hash (psp_kvs_to_verify parsed_sp)
         | _ \<Rightarrow> Some (Inr False)))"

definition verify_parsed_sp :: "sp_lib \<Rightarrow> ParsedSP list \<Rightarrow> (string \<times> ver_key option) list \<Rightarrow> nat \<Rightarrow> verdict" where
  "verify_parsed_sp lib parsed_sps nodes f = verify_each (verify_one_sp lib nodes f) parsed_sps"

definition check_reply_proof :: "sp_lib \<Rightarrow> (string \<times> ver_key option) list \<Rightarrow> nat \<Rightarrow> json \<Rightarrow> bytes option \<Rightarrow> verdict" where
  "check_reply_proof lib nodes f msg_result sp_key =
     (case parse_generic_reply_for_proof_checking lib msg_result sp_key of
        Some parsed_sps \<Rightarrow> verify_parsed_sp lib parsed_sps nodes f
      | None \<Rightarrow> Some (Inr False))"

subsection \<open>Turns\<close>

text \<open>The turns from the root down, over the natural numbers.\<close>

definition half :: "nat \<Rightarrow> nat" where
  "half n = 2 ^ (levels n - 1)"

lemma half_exponent: "2 \<le> n \<Longrightarrow> \<exists>k. half n = 2 ^ k \<and> levels n = Suc k \<and> 2 ^ k < n \<and> n \<le> 2 ^ Suc k"
  using split_exponent [of n] levels_eq by (fastforce simp: half_def)

lemma half_bounds: "2 \<le> n \<Longrightarrow> 0 < half n \<and> half n < n"
  using half_exponent [of n] by auto

function turns_of :: "nat \<Rightarrow> nat \<Rightarrow> bool list" where
  "turns_of n i =
     (if n < 2 then []
      else if i < half n then True # turns_of (half n) i
      else False # turns_of (n - half n) (i - half n))"
  by pat_completeness auto
termination by (relation "measure fst") (use half_bounds in auto)

declare turns_of.simps [simp del]

lemma unat_middle:
  assumes "2 \<le> unat len" "unat len \<le> 2 ^ 63"
  shows "unat (next_power_of_two len div 2) = half (unat len)"
proof -
  obtain k where k: "half (unat len) = 2 ^ k" "levels (unat len) = Suc k" "2 ^ k < unat len"
    using half_exponent [OF assms(1)] by blast
  then have "k < 63" using assms(2) by (meson le_less_trans less_le_trans linorder_not_le power_increasing one_le_numeral)
  then have "(2::nat) ^ Suc k < 2 ^ 64" by (intro power_strict_increasing) auto
  then have "unat (next_power_of_two len) = 2 ^ Suc k"
    by (simp only: next_power_of_two_def k(2) unat_of_nat) simp
  then show ?thesis using k(1) by (simp add: unat_div)
qed

lemma turns_loop_turns:
  "1 \<le> unat len \<Longrightarrow> unat len \<le> 2 ^ 63 \<Longrightarrow> turns_loop len idx acc = Some (rev (acc @ turns_of (unat len) (unat idx)))"
proof (induction "unat len" arbitrary: len idx acc rule: less_induct)
  case less
  show ?case
  proof (cases "unat len = 1")
    case True
    then have "len = 1" by (metis unat_1 word_unat_eq_iff)
    then show ?thesis by (simp add: turns_loop.simps turns_of.simps)
  next
    case False
    then have two: "2 \<le> unat len" and ne: "len \<noteq> 1" using less.prems(1) by auto
    let ?m = "next_power_of_two len div 2"
    have m: "unat ?m = half (unat len)" by (rule unat_middle [OF two less.prems(2)])
    note b = half_bounds [OF two]
    have lt: "idx < ?m \<longleftrightarrow> unat idx < half (unat len)" by (simp add: word_less_nat_alt m)
    have sub: "unat (len - ?m) = unat len - half (unat len)" using b m by (simp add: unat_sub word_le_nat_alt)
    have isub: "unat (idx - ?m) = unat idx - half (unat len)" if "\<not> idx < ?m"
      using that m by (simp add: unat_sub)
    show ?thesis
    proof (cases "idx < ?m")
      case True
      then show ?thesis
        using less.hyps [of ?m idx "acc @ [True]"] less.prems m b two ne lt
        by (subst turns_loop.simps) (simp add: Let_def turns_of.simps [of "unat len"])
    next
      case False
      have "Suc 0 \<le> unat len - half (unat len)" "unat len - half (unat len) \<le> 2 ^ 63" using b less.prems by auto
      then show ?thesis
        using False less.hyps [of "len - ?m" "idx - ?m" "acc @ [False]"] less.prems sub isub b two ne lt
        by (subst turns_loop.simps) (simp add: Let_def turns_of.simps [of "unat len"])
    qed
  qed
qed

text \<open>Outside the bounds the loop makes no progress.\<close>

lemma middle_zero:
  assumes "len = 0 \<or> 2 ^ 63 < unat len"
  shows "next_power_of_two len div 2 = 0"
proof (cases "len = 0")
  case True
  then show ?thesis by (simp add: next_power_of_two_def levels.simps)
next
  case False
  then have big: "2 ^ 63 < unat len" using assms by simp
  have "unat len \<le> 2 ^ Suc 63" using unsigned_less [where ?'a = nat, of len] by simp
  then have "levels (unat len) = Suc 63" using levels_eq [OF big] by simp
  then have "next_power_of_two len = of_nat (2 ^ 64)" by (simp add: next_power_of_two_def)
  also have "\<dots> = 0" by simp
  finally show ?thesis by simp
qed

lemma turns_loop_stuck:
  assumes "turns_loop len idx acc = Some r"
  shows "len \<noteq> 0 \<and> unat len \<le> 2 ^ 63"
proof (rule turns_loop.raw_induct [where P = "\<lambda>len idx acc r. len \<noteq> 0 \<and> unat len \<le> 2 ^ 63", OF _ assms], goal_cases)
  case (1 f len idx acc r)
  show ?case
  proof (rule ccontr)
    assume "\<not> (len \<noteq> 0 \<and> unat len \<le> 2 ^ 63)"
    then have bad: "len = 0 \<or> 2 ^ 63 < unat len" by auto
    then have "len \<noteq> 1" by auto
    then have "f len idx (acc @ [False]) = Some r" using 1(2) middle_zero [OF bad] by (simp add: Let_def)
    then show False using 1(1) bad by fastforce
  qed
qed

subsection \<open>Audit paths\<close>

lemma ok_Some_iff: "ok r = Some a \<longleftrightarrow> r = Inr a"
  by (cases r) (auto simp: ok_def)

lemma climb_audit_append: "climb_audit cd h (ps @ qs) = Option.bind (climb_audit cd h ps) (\<lambda>mid. climb_audit cd mid qs)"
  by (induction cd h ps rule: climb_audit.induct) (auto split: Option.bind_splits)

lemma climb_audit_snoc:
  "climb_audit cd h (ps @ [(x, right)]) = Some root \<longleftrightarrow>
     (\<exists>mid other. climb_audit cd h ps = Some mid \<and> cd_b58dec cd x = Some other
        \<and> (if right then hash_nodes (cd_sha cd) mid other else hash_nodes (cd_sha cd) other mid) = Inr root)"
  by (auto simp: climb_audit_append bind_eq_Some_conv ok_Some_iff)

lemma climb_audit_hash:
  assumes "climb_audit cd h ps = Some d" "cd_sha cd x = Inr h"
  shows "\<exists>y. cd_sha cd y = Inr d"
  using assms
proof (induction cd h ps arbitrary: x rule: climb_audit.induct)
  case (2 cd h nxt right rest)
  then obtain other up_hash where "cd_b58dec cd nxt = Some other"
    "(if right then hash_nodes (cd_sha cd) h other else hash_nodes (cd_sha cd) other h) = Inr up_hash"
    "climb_audit cd up_hash rest = Some d"
    by (auto simp: bind_eq_Some_conv ok_Some_iff)
  moreover from this(2) obtain y where "cd_sha cd y = Inr up_hash" by (auto simp: hash_nodes_Inr_iff split: if_splits)
  ultimately show ?case using 2(1) [of other up_hash y] by (simp add: ok_Some_iff)
qed auto

lemma audit_path_sound:
  assumes cf: "collision_free (cd_sha cd)"
    and "hashed (cd_sha cd) (tree_of (digest (cd_sha cd)) vs)" "i < length vs"
    and "length hashes = length (turns_of (length vs) i)"
    and "hash_leaf (cd_sha cd) w = Inr leaf"
    and "climb_audit cd leaf (zip hashes (rev (turns_of (length vs) i))) = Some (tree_hash (tree_of (digest (cd_sha cd)) vs))"
  shows "vs ! i = w"
  using assms(2-)
proof (induction "length vs" arbitrary: vs i hashes rule: less_induct)
  case less
  let ?h = "digest (cd_sha cd)"
  have leaf: "cd_sha cd (0x00 # w) = Inr leaf" using less.prems(4) by (simp add: hash_leaf_Inr_iff)
  show ?case
  proof (cases "length vs = 1")
    case True
    then obtain v where v: "vs = [v]" by (auto simp: length_Suc_conv)
    then have "cd_sha cd (0x00 # v) = Inr leaf"
      using less.prems by (simp add: tree_of_single tip_def turns_of.simps)
    then have "0x00 # w = 0x00 # v" by (rule collision_freeD(1) [OF cf leaf])
    then show ?thesis using v less.prems(2) by simp
  next
    case False
    then have two: "2 \<le> length vs" using less.prems(2) by linarith
    obtain k where k: "half (length vs) = 2 ^ k" "2 ^ k < length vs" "length vs \<le> 2 ^ Suc k"
      using half_exponent [OF two] by blast
    let ?l = "tree_of ?h (take (2 ^ k) vs)" and ?r = "tree_of ?h (drop (2 ^ k) vs)"
    have split: "tree_of ?h vs = branch ?h ?l ?r" by (rule tree_of_split [OF k(2,3)])
    have hl: "hashed (cd_sha cd) ?l" and hr: "hashed (cd_sha cd) ?r"
      and top: "cd_sha cd (0x01 # tree_hash ?l @ tree_hash ?r) = Inr (tree_hash (tree_of ?h vs))"
      using less.prems(1) by (simp_all add: split branch_def)
    have lens: "length (tree_hash ?l) = HASHBYTES" "length (tree_hash ?r) = HASHBYTES"
      using hashed_length [OF cf] hl hr by auto
    define right where "right = (i < half (length vs))"
    define below where "below = (if right then turns_of (2 ^ k) i else turns_of (length vs - 2 ^ k) (i - 2 ^ k))"
    have turns: "turns_of (length vs) i = right # below"
      using two k(1) by (auto simp: turns_of.simps [of "length vs"] right_def below_def)
    then obtain hs x where hs: "hashes = hs @ [x]" "length hs = length below"
      using less.prems(3) by (cases hashes rule: rev_cases) auto
    then have "climb_audit cd leaf (zip hs (rev below) @ [(x, right)]) = Some (tree_hash (tree_of ?h vs))"
      using less.prems(5) by (simp add: turns)
    then obtain mid other where mid: "climb_audit cd leaf (zip hs (rev below)) = Some mid"
      "(if right then hash_nodes (cd_sha cd) mid other else hash_nodes (cd_sha cd) other mid) = Inr (tree_hash (tree_of ?h vs))"
      unfolding climb_audit_snoc by blast
    have lm: "length mid = HASHBYTES" using climb_audit_hash [OF mid(1) leaf] collision_freeD(2) [OF cf] by blast
    have halves: "a @ b = tree_hash ?l @ tree_hash ?r"
      if "hash_nodes (cd_sha cd) a b = Inr (tree_hash (tree_of ?h vs))" for a b
      using collision_freeD(1) [OF cf top, of "0x01 # a @ b"] that by (simp add: hash_nodes_Inr_iff)
    show ?thesis
    proof (cases right)
      case True
      then have "mid @ other = tree_hash ?l @ tree_hash ?r" using mid(2) by (simp add: halves)
      then have "mid = tree_hash ?l" using lm lens by simp
      then have "take (2 ^ k) vs ! i = w"
        using less.hyps [of "take (2 ^ k) vs" i hs] k True mid(1) hl hs(2) less.prems(4)
        by (simp add: right_def below_def)
      then show ?thesis using True k(1) by (simp add: right_def)
    next
      case f: False
      then have "other @ mid = tree_hash ?l @ tree_hash ?r" using mid(2) by (simp add: halves)
      then have "mid = tree_hash ?r" using lm lens by (metis append_eq_append_conv)
      then have "drop (2 ^ k) vs ! (i - 2 ^ k) = w"
        using less.hyps [of "drop (2 ^ k) vs" "i - 2 ^ k" hs] k f mid(1) hr hs(2) less.prems(2,4)
        by (simp add: right_def below_def)
      then show ?thesis using f k(1) less.prems(2) by (simp add: right_def)
    qed
  qed
qed

subsection \<open>The ledger\<close>

text \<open>
  A ledger's trie stores well-formed nodes under their hashes and all nodes they refer to. \<open>no_collision\<close>:
  no node of the proof has the hash of another node of the ledger. \<open>rlp_law\<close> is what the \<open>rlp\<close> crate
  promises: the decoder sees what the encoder wrote.
\<close>

definition rlp_law :: "trie_lib \<Rightarrow> bool" where
  "rlp_law lib = (\<forall>t. tl_view lib (tl_encode lib t) = as_view t)"

definition trie_store :: "trie_lib \<Rightarrow> trie_db \<Rightarrow> bool" where
  "trie_store lib db = (complete_db db \<and> (\<forall>h n. db h = Some n \<longrightarrow> wf_node n \<and> get_hash lib n = h))"

definition no_collision :: "trie_lib \<Rightarrow> bytes \<Rightarrow> trie_db \<Rightarrow> bool" where
  "no_collision lib proofs_rlp db =
     (\<forall>nodes m n. as_node_list (tl_view lib proofs_rlp) = Inr nodes \<and> m \<in> set nodes \<and> n \<in> ran db \<and> get_hash lib m = get_hash lib n
        \<longrightarrow> tl_encode lib (rlp_append m) = tl_encode lib (rlp_append n))"

text \<open>What a state proof claims of a ledger: the value of the key, or that there is none.\<close>

definition holds_in :: "trie_lib \<Rightarrow> trie_db \<Rightarrow> Node \<Rightarrow> bytes \<Rightarrow> string option \<Rightarrow> bool" where
  "holds_in lib db root key expected =
     (case expected of
        Some str \<Rightarrow> \<exists>suffix v val. trie_maps db root (path_to_nibbles key @ suffix) v \<and> single_item lib v = Some val
                      \<and> from_utf8 val = Inr str
      | None \<Rightarrow> \<forall>v. \<not> trie_maps db root (path_to_nibbles key) v)"

lemma trie_db_of_Some: "trie_db_of lib nodes h = Some n \<Longrightarrow> n \<in> set nodes \<and> get_hash lib n = h"
  unfolding trie_db_of_def by (induction nodes arbitrary: h n rule: rev_induct) (auto split: if_splits)

lemma as_node_list_wf:
  assumes "as_node_list r = Inr nodes" "n \<in> set nodes"
  shows "wf_node n"
proof (cases "try_map Node_decode (rlp_iter r)")
  case (Inl e)
  then show ?thesis using assms by (cases e) (auto simp: as_node_list_def)
next
  case (Inr ns)
  moreover from this have "ns = nodes" using assms(1) by (simp add: as_node_list_def)
  ultimately have "list_all2 (\<lambda>x y. Node_decode x = Inr y) (rlp_iter r) nodes" by (simp only: try_map_Inr_iff)
  moreover obtain i where "i < length nodes" "nodes ! i = n" using assms(2) by (auto simp: in_set_conv_nth)
  ultimately have "Node_decode (rlp_iter r ! i) = Inr n" using list_all2_nthD2 by fast
  then show ?thesis by (rule decoded_wf(1))
qed

lemma encode_inject:
  assumes "rlp_law lib" "wf_node m" "wf_node n" "tl_encode lib (rlp_append m) = tl_encode lib (rlp_append n)"
  shows "m = n"
proof -
  have "as_view (rlp_append m) = as_view (rlp_append n)" using assms(1,4) unfolding rlp_law_def by metis
  then have "Inr m = (Inr n :: Node rlp_result)"
    using decode_append [OF assms(2)] decode_append [OF assms(3)] by (simp only:)
  then show ?thesis by simp
qed

lemma proof_agrees:
  assumes "rlp_law lib" "trie_store lib db" "no_collision lib proofs_rlp db" "as_node_list (tl_view lib proofs_rlp) = Inr nodes"
  shows "agree_db (trie_db_of lib nodes) db"
  unfolding agree_db_def
proof (intro allI impI, elim conjE)
  fix h m n assume mn: "trie_db_of lib nodes h = Some m" "db h = Some n"
  have m: "m \<in> set nodes" "get_hash lib m = h" using trie_db_of_Some [OF mn(1)] by auto
  have n: "wf_node n" "get_hash lib n = h" using mn(2) assms(2) by (auto simp: trie_store_def)
  have "n \<in> ran db" using mn(2) by (rule ranI)
  then have "tl_encode lib (rlp_append m) = tl_encode lib (rlp_append n)"
    using assms(3) [unfolded no_collision_def, rule_format, of nodes m n] assms(4) m n(2) by simp
  then show "m = n" by (rule encode_inject [OF assms(1) as_node_list_wf [OF assms(4) m(1)] n(1)])
qed

lemma refused_on_error_True: "refused_on_error p r = Inr True \<longleftrightarrow> (\<exists>x. r = Inr x \<and> p x)"
  by (auto simp: refused_on_error_def split: sum.splits fault.splits)

lemma map_option_Inr:
  "map_option (\<lambda>r. res_bind r g) m = Some (Inr b) \<longleftrightarrow> (\<exists>a. m = Some (Inr a) \<and> g a = Inr b)"
  by (auto simp: res_bind_Inr_iff)

lemma get_str_value_Inr:
  assumes "get_str_value lib db n key = Some (Inr r)"
  shows "case r of
      None \<Rightarrow> get_value_nibbles db n (path_to_nibbles key) = Some (Inr None)
    | Some str \<Rightarrow> \<exists>v val. get_value_nibbles db n (path_to_nibbles key) = Some (Inr (Some v)) \<and> single_item lib v = Some val
                  \<and> from_utf8 val = Inr str"
proof -
  obtain w where w: "get_value lib db n key = Some (Inr w)"
    "(case w of Some vec \<Rightarrow> res_bind (from_utf8 vec) (\<lambda>str. Inr (Some str)) | None \<Rightarrow> Inr None) = Inr r"
    using assms unfolding get_str_value_def map_option_Inr by blast
  obtain found where found: "get_value_nibbles db n (path_to_nibbles key) = Some (Inr found)"
    "(case found of Some v \<Rightarrow> (case single_item lib v of Some val \<Rightarrow> Inr (Some val)
        | None \<Rightarrow> fail IE_InvalidStructure ''Unexpected data format of value in Patricia Merkle Trie'') | None \<Rightarrow> Inr None) = Inr w"
    using w(1) unfolding get_value_def map_option_Inr by blast
  show ?thesis
    using w(2) found(1) found(2) by (cases found; cases w) (auto simp: res_bind_Inr_iff fail_def split: option.splits)
qed

lemma verify_proof_holds:
  assumes acc: "verify_proof lib proofs_rlp root_hash key expected = Some (Inr True)"
    and store: "rlp_law lib" "trie_store lib db" "no_collision lib proofs_rlp db" "db root_hash = Some root"
  shows "holds_in lib db root key expected"
proof -
  obtain nodes n where n: "as_node_list (tl_view lib proofs_rlp) = Inr nodes" "trie_db_of lib nodes root_hash = Some n"
    "get_str_value lib (trie_db_of lib nodes) n key = Some (Inr expected)"
    using acc by (auto simp: verify_proof_def with_root_def refused_on_error_True split: sum.splits option.splits)
  have agree: "agree_db (trie_db_of lib nodes) db" by (rule proof_agrees [OF store(1-3) n(1)])
  then have root: "n = root" using n(2) store(4) unfolding agree_db_def by blast
  have refs: "complete_db db" "hash_refs root \<subseteq> dom db"
    using store(2,4) by (auto simp: trie_store_def complete_db_def)
  show ?thesis
  proof (cases expected)
    case None
    then show ?thesis
      using get_str_value_Inr [OF n(3)] absent_value_sound [OF _ agree] by (simp add: holds_in_def root)
  next
    case (Some str)
    then show ?thesis
      using get_str_value_Inr [OF n(3)] present_value_sound [OF _ agree refs]
      by (auto simp: holds_in_def root) blast
  qed
qed

lemma verify_each_True: "verify_each p xs = Some (Inr True) \<longleftrightarrow> (\<forall>x \<in> set xs. p x = Some (Inr True))"
proof (induction xs)
  case (Cons x xs)
  consider "p x = None" | e where "p x = Some (Inl e)" | "p x = Some (Inr False)" | "p x = Some (Inr True)"
    by (metis (full_types) option.exhaust sum.exhaust)
  then show ?case using Cons by cases auto
qed simp

lemma verify_merkle_tree_True:
  assumes "verify_merkle_tree lib proof_nodes root_hash ((key, value) # kvs) len = Some (Inr True)" "audit_seq_no lib key = Some n"
  obtains hashes turns where "calculate_turns len (n - 1) = Some turns" "audit_matches lib root_hash hashes turns value"
  using assms by (auto simp: verify_merkle_tree_def split: option.splits)

lemma verify_one_sp_True:
  assumes "verify_one_sp lib nodes f sp = Some (Inr True)"
  obtains proof_nodes root_hash where "signature_ok lib nodes f sp" "sp_b64dec lib (psp_proof_nodes sp) = Some proof_nodes"
    "cd_b58dec (sp_codec lib) (psp_root_hash sp) = Some root_hash"
    "verify_kvs lib proof_nodes root_hash (psp_kvs_to_verify sp) = Some (Inr True)"
  using assms by (auto simp: verify_one_sp_def split: if_splits option.splits)

text \<open>The signature of a reply: all but \<open>f\<close> of the nodes signed a value that contains the root hash.\<close>

definition signed_root :: "sp_lib \<Rightarrow> (string \<times> ver_key option) list \<Rightarrow> nat \<Rightarrow> json \<Rightarrow> string \<Rightarrow> bool" where
  "signed_root lib nodes f multi_signature root =
     (\<exists>names keys bin ms. array_of as_str (json_index multi_signature ''participants'') = Some names
        \<and> keys = List.map_filter (\<lambda>(name, key). if name \<in> set names then key else None) nodes
        \<and> usize_sub (length nodes) f \<le> length keys
        \<and> cd_msgpack (sp_codec lib) (json_index multi_signature ''value'') = Some bin
        \<and> (field (json_index multi_signature ''value'') ''state_root_hash'' = Some root
           \<or> field (json_index multi_signature ''value'') ''txn_root_hash'' = Some root)
        \<and> sp_bls lib ms bin keys)"

lemma participant_keys_Inr:
  "participant_keys nodes names = Inr keys \<Longrightarrow> keys = List.map_filter (\<lambda>(name, key). if name \<in> set names then key else None) nodes"
proof (induction nodes arbitrary: keys)
  case (Cons node nodes)
  then show ?case
    by (cases node) (auto simp: participant_keys_def res_simps fail_def List.map_filter_simps split: if_splits option.splits
        simp del: try_map_Inr_iff)
qed (simp add: participant_keys_def List.map_filter_simps)

lemma signature_ok_signed:
  assumes "signature_ok lib nodes f sp"
  shows "signed_root lib nodes f (psp_multi_signature sp) (psp_root_hash sp)"
proof -
  let ?m = "psp_multi_signature sp"
  obtain signature names bin where parts: "parse_reply_for_proof_signature_checking lib ?m = Some (signature, names, bin)"
    "verify_proof_signature lib signature names bin nodes f = Inr True"
    using assms by (auto simp: signature_ok_def Let_def split: option.splits)
  have m: "array_of as_str (json_index ?m ''participants'') = Some names"
    "cd_msgpack (sp_codec lib) (json_index ?m ''value'') = Some bin"
    using parts(1) by (auto simp: parse_reply_for_proof_signature_checking_def array_of_def split: option.splits json.splits)
  obtain keys ms where "participant_keys nodes names = Inr keys" "usize_sub (length nodes) f \<le> length keys" "sp_bls lib ms bin keys"
    using parts(2) by (auto simp: verify_proof_signature_def res_bind_Inr_iff split: if_splits option.splits)
  moreover have "field (json_index ?m ''value'') ''state_root_hash'' = Some (psp_root_hash sp)
      \<or> field (json_index ?m ''value'') ''txn_root_hash'' = Some (psp_root_hash sp)"
    using assms by (auto simp: signature_ok_def Let_def)
  ultimately show ?thesis using m participant_keys_Inr unfolding signed_root_def by blast
qed

lemma builtin_sp_first:
  assumes "parse_reply_for_builtin_sp lib msg typ key = Some sps"
  obtains data parsed sp where "reply_data lib msg = Some (data, parsed)" "parse_reply_for_sp lib msg data parsed typ key = Inr sp"
    "sp \<in> set sps"
proof -
  obtain data parsed where d: "reply_data lib msg = Some (data, parsed)"
    using assms by (auto simp: parse_reply_for_builtin_sp_def bind_eq_Some_conv)
  obtain sp where sp: "parse_reply_for_sp lib msg data parsed typ key = Inr sp"
    using assms d by (cases "parse_reply_for_sp lib msg data parsed typ key") (auto simp: parse_reply_for_builtin_sp_def)
  have "sp \<in> set sps"
    using assms d sp
    by (cases "parse_reply_for_multi_sp lib parsed typ key")
       (auto simp: parse_reply_for_builtin_sp_def split: if_splits option.splits)
  then show ?thesis using that d sp by blast
qed

subsection \<open>Properties\<close>

text \<open>
  C6. A proof in the state trie. If \<open>_verify_proof\<close> accepts a value for a key under a root hash, then
  in every ledger with that root the key, or a key that extends it, has the value; if it accepts that
  there is no value, the ledger has none. No node of the proof may collide with a node of the ledger.
\<close>

theorem state_proof_sound:
  assumes "verify_proof lib proofs_rlp root_hash key expected = Some (Inr True)"
    and "rlp_law lib" "trie_store lib db" "no_collision lib proofs_rlp db" "db root_hash = Some root"
  shows "case expected of
      Some str \<Rightarrow> \<exists>suffix v val. trie_maps db root (path_to_nibbles key @ suffix) v \<and> single_item lib v = Some val \<and> from_utf8 val = Inr str
    | None \<Rightarrow> \<forall>v. \<not> trie_maps db root (path_to_nibbles key) v"
  using verify_proof_holds [OF assms] by (simp add: holds_in_def)


text \<open>
  C38. The computation of the turns of an audit path ends exactly if the claimed size of the ledger is
  neither 0 nor beyond \<open>2^63\<close>, and then it yields a path of the tree of that size.
\<close>

theorem calculate_turns_ends:
  "calculate_turns len idx =
     (if 1 \<le> unat len \<and> unat len \<le> 2 ^ 63 then Some (rev (turns_of (unat len) (unat idx))) else None)"
proof (cases "1 \<le> unat len \<and> unat len \<le> 2 ^ 63")
  case True
  then show ?thesis by (simp add: calculate_turns_def turns_loop_turns)
next
  case False
  then have "calculate_turns len idx \<noteq> Some r" for r
    using turns_loop_stuck [of len idx "[]" r] by (auto simp: calculate_turns_def unat_gt_0 Suc_le_eq)
  then show ?thesis using False by (cases "calculate_turns len idx") auto
qed


text \<open>
  A leaf whose path continues beyond the searched key answers for the key: the proof of a value of one
  key is accepted for every prefix of it.
\<close>

lemma longer_key_answers:
  assumes "parse_path p = Inr (True, path @ rest)"
  shows "get_value_nibbles db (NodeLeaf p v) path = Some (Inr (Some v))"
  using assms by (simp add: get_value_nibbles_def get_node_from.simps raw_value_def)

text \<open>An audit path is checked against a size that nobody signed: paths of different ledgers coincide.\<close>

lemma audit_path_of_other_size: "turns_of 6 5 = turns_of 4 3"
  by (simp add: turns_of.simps half_def levels.simps)

text \<open>A path without bytes makes the decoder of a proof panic.\<close>

lemma empty_path_panics: "as_node_list (RlpList [RlpList [RlpData [], v]]) = Inl Panic"
  by (simp add: as_node_list_def PAIR_SIZE_def)

lemma zero_size_never_ends:
  assumes "audit_hashes (sp_codec lib) proof_nodes = Some hashes" "audit_seq_no lib key = Some n"
  shows "verify_merkle_tree lib proof_nodes root_hash ((key, v) # kvs) 0 = None"
proof -
  have "turns_loop 0 (n - 1) [] \<noteq> Some r" for r using turns_loop_stuck by blast
  then have "turns_loop 0 (n - 1) [] = None" by (cases "turns_loop 0 (n - 1) []") auto
  then show ?thesis using assms by (simp add: verify_merkle_tree_def calculate_turns_def)
qed

subsection \<open>The properties at concrete inputs\<close>

instance rlp_tree :: countable by countable_datatype

definition demo_trie :: trie_lib where
  "demo_trie = \<lparr>tl_view = (\<lambda>bs. as_view (from_nat (length bs))), tl_encode = (\<lambda>t. replicate (to_nat t) 0),
                tl_sha3 = (\<lambda>_. replicate 32 0)\<rparr>"

lemma demo_view [simp]: "tl_view demo_trie (tl_encode demo_trie t) = as_view t"
  by (simp add: demo_trie_def)

definition demo_leaf :: Node where
  "demo_leaf = NodeLeaf [0x20, 0xAB] (tl_encode demo_trie (OutList [OutData (string_bytes ''x'')]))"

definition demo_root :: bytes where
  "demo_root = replicate 32 0"

definition demo_ledger_db :: trie_db where
  "demo_ledger_db = [demo_root \<mapsto> demo_leaf]"

definition demo_nodes :: bytes where
  "demo_nodes = tl_encode demo_trie (OutList [rlp_append demo_leaf])"

lemma demo_hash: "get_hash demo_trie n = demo_root"
  by (simp add: get_hash_def demo_trie_def demo_root_def)

lemma demo_node_list: "as_node_list (tl_view demo_trie demo_nodes) = Inr [demo_leaf]"
proof -
  have "wf_node demo_leaf" by (simp add: demo_leaf_def IS_LEAF_MASK_def)
  then have "Node_decode (as_view (rlp_append demo_leaf)) = Inr demo_leaf" by (rule decode_append)
  then show ?thesis by (simp add: demo_nodes_def as_node_list_def)
qed

lemma demo_store_ok: "rlp_law demo_trie" "trie_store demo_trie demo_ledger_db" "no_collision demo_trie demo_nodes demo_ledger_db"
  "demo_ledger_db demo_root = Some demo_leaf"
  by (auto simp: rlp_law_def trie_store_def complete_db_def demo_ledger_db_def demo_hash no_collision_def demo_node_list
      demo_leaf_def IS_LEAF_MASK_def split: if_splits)

lemma demo_accepts: "verify_proof demo_trie demo_nodes demo_root [0xAB] (Some ''x'') = Some (Inr True)"
proof -
  have "trie_db_of demo_trie [demo_leaf] = demo_ledger_db" by (simp add: trie_db_of_def demo_hash demo_ledger_db_def)
  then show ?thesis
    by (simp add: verify_proof_def with_root_def demo_node_list demo_store_ok(4) get_str_value_def get_value_def
        get_value_nibbles_def get_node_from.simps demo_leaf_def IS_LEAF_MASK_def IS_PATH_ODD_MASK_def path_to_nibbles_def
        raw_value_def single_item_def as_bytes_list_def from_utf8_def is_utf8_def refused_on_error_def)
qed

theorem state_proof_sound_witness:
  "verify_proof demo_trie demo_nodes demo_root [0xAB] (Some ''x'') = Some (Inr True)
   \<and> (\<exists>suffix v val. trie_maps demo_ledger_db demo_leaf (path_to_nibbles [0xAB] @ suffix) v
        \<and> single_item demo_trie v = Some val \<and> from_utf8 val = Inr ''x'')"
  using state_proof_sound [OF demo_accepts demo_store_ok] demo_accepts by simp

definition demo_sp_codec :: codec where
  "demo_sp_codec = demo_codec\<lparr>cd_sha := (\<lambda>x. map_err (\<lambda>_. err_msg IE_InvalidState []) (demo_sha x)),
     cd_json_parse := (\<lambda>s. if s = ''p'' then Some (JArray [JString ''d'']) else Some JNull),
     cd_msgpack := (\<lambda>_. Some [8]), cd_b58dec := (\<lambda>s. if s = ''d'' then Some (demo_digest 1) else Some (string_bytes s))\<rparr>"

definition demo_sp :: sp_lib where
  "demo_sp = \<lparr>sp_trie = demo_trie, sp_codec = demo_sp_codec, sp_b64enc = bytes_string, sp_b64dec = (\<lambda>s. Some (string_bytes s)),
     sp_hex = bytes_string, sp_bls = (\<lambda>_ _ _. True), sp_multi_sig = Some, sp_search = (\<lambda>_ _. Inl 0), sp_node_1_3 = False\<rparr>"

lemma demo_sp_fields [simp]:
  "sp_codec demo_sp = demo_sp_codec" "sp_trie demo_sp = demo_trie" "sp_b64enc demo_sp = bytes_string"
  "sp_b64dec demo_sp = (\<lambda>s. Some (string_bytes s))" "sp_bls demo_sp = (\<lambda>_ _ _. True)" "sp_multi_sig demo_sp = Some"
  "cd_msgpack demo_sp_codec = (\<lambda>_. Some [8])"
  "cd_b58dec demo_sp_codec = (\<lambda>s. if s = ''d'' then Some (demo_digest 1) else Some (string_bytes s))"
  by (simp_all add: demo_sp_def demo_sp_codec_def)

lemma demo_sp_sha:
  "collision_free (cd_sha (sp_codec demo_sp))"
  "from_vec (cd_sha (sp_codec demo_sp)) [[7], [8]] = Inr demo_tree2"
proof -
  show "collision_free (cd_sha (sp_codec demo_sp))"
    using demo_collision_free by (simp add: collision_free_def demo_sp_def demo_sp_codec_def map_err_Inr_iff)
  show "from_vec (cd_sha (sp_codec demo_sp)) [[7], [8]] = Inr demo_tree2"
    by (simp add: from_vec_def Tree_new_leaf_def hash_leaf_def hash_nodes_def build_levels.simps demo_sha_def
        demo_tree2_def demo_sp_def demo_sp_codec_def)
qed

lemma demo_seq_no: "audit_seq_no demo_sp ''2'' = Some 2"
  by (simp add: audit_seq_no_def demo_sp_def is_utf8_def parse_uint_def is_digit_def digits_value_def)

lemma demo_audit:
  "verify_merkle_tree demo_sp (string_bytes ''p'') (demo_digest 3) [(''2'', Some ''t'')] (of_nat (length [[7], [8::8 word]])) = Some (Inr True)"
proof -
  have "calculate_turns 2 1 = Some [False]"
    using turns_loop_turns [of 2 1 "[]"] by (simp add: calculate_turns_def turns_of.simps half_def levels.simps)
  moreover have "audit_hashes demo_sp_codec (string_bytes ''p'') = Some [''d'']"
    by (simp add: audit_hashes_def is_utf8_def demo_sp_codec_def array_of_def)
  moreover have "audit_matches demo_sp (demo_digest 3) [''d''] [False] (Some ''t'')"
    by (simp add: audit_matches_def demo_sp_def demo_sp_codec_def ok_def hash_leaf_def hash_nodes_def demo_sha_def)
  ultimately show ?thesis by (simp add: verify_merkle_tree_def demo_seq_no)
qed


definition demo_sp_reply :: json where
  "demo_sp_reply = JObject
     [(''type'', JString GET_AUTH_RULE), (''data'', JArray [JObject [(''constraint'', JString ''x'')]]),
      (''state_proof'', JObject
        [(''proof_nodes'', JString (bytes_string demo_nodes)), (''root_hash'', JString (bytes_string demo_root)),
         (''multi_signature'', JObject
           [(''signature'', JString ''s''), (''participants'', JArray [JString ''n'']),
            (''value'', JObject [(''state_root_hash'', JString (bytes_string demo_root))])])])]"

lemma demo_sp_reply_fields:
  "json_index demo_sp_reply ''type'' = JString GET_AUTH_RULE"
  "json_index demo_sp_reply ''data'' = JArray [JObject [(''constraint'', JString ''x'')]]"
  "json_index (json_index demo_sp_reply ''state_proof'') ''proof_nodes'' = JString (bytes_string demo_nodes)"
  "json_index (json_index demo_sp_reply ''state_proof'') ''root_hash'' = JString (bytes_string demo_root)"
  "json_index (json_index (json_index demo_sp_reply ''state_proof'') ''multi_signature'') ''signature'' = JString ''s''"
  "json_index (json_index (json_index demo_sp_reply ''state_proof'') ''multi_signature'') ''participants'' = JArray [JString ''n'']"
  "json_index (json_index (json_index (json_index demo_sp_reply ''state_proof'') ''multi_signature'') ''value'') ''state_root_hash''
     = JString (bytes_string demo_root)"
  by (simp_all add: demo_sp_reply_def json_index_def)

lemma demo_root_58: "bytes_string demo_root \<noteq> ''d''"
  by (simp add: demo_root_def bytes_string_def list_eq_iff_nth_eq)

lemma demo_sp_reply_accepted:
  "check_reply_proof demo_sp [(''n'', Some [1])] 0 demo_sp_reply (Some [0xAB]) = Some (Inr True)"
proof -
  let ?sp = "\<lparr>psp_proof_nodes = bytes_string demo_nodes, psp_root_hash = bytes_string demo_root,
     psp_kvs_to_verify = KV_Simple [(bytes_string [0xAB], Some ''x'')] VT_Simple,
     psp_multi_signature = json_index (json_index demo_sp_reply ''state_proof'') ''multi_signature''\<rparr>"
  have types: "GET_AUTH_RULE \<noteq> GET_TXN" "GET_AUTH_RULE \<noteq> GET_NYM" "GET_AUTH_RULE \<noteq> GET_ATTR" "GET_AUTH_RULE \<in> set REQUESTS_FOR_STATE_PROOFS"
    "GET_AUTH_RULE \<notin> {GET_CRED_DEF, GET_REVOC_REG_DEF, GET_REVOC_REG, GET_TXN_AUTHR_AGRMT_AML}"
    "GET_AUTH_RULE \<notin> set REQUESTS_FOR_MULTI_STATE_PROOFS"
    by (simp_all add: txn_types REQUESTS_FOR_STATE_PROOFS_def REQUESTS_FOR_MULTI_STATE_PROOFS_def)
  have "claimed_value demo_sp demo_sp_reply d (JArray [JObject [(''constraint'', JString ''x'')]]) GET_AUTH_RULE k = Inr (Some (JString ''x''))" for d k
    using types by (simp add: claimed_value_def json_index_def Let_def)
  then have "parse_generic_reply_for_proof_checking demo_sp demo_sp_reply (Some [0xAB]) = Some [?sp]"
    using types by (simp add: parse_generic_reply_for_proof_checking_def parse_reply_for_builtin_sp_def reply_data_def demo_sp_reply_fields
        parse_reply_for_sp_def proof_parts_def parse_reply_for_proof_value_def print_value_def)
  moreover have "signature_ok demo_sp [(''n'', Some [1])] 0 ?sp"
    by (simp add: signature_ok_def demo_sp_reply_fields parse_reply_for_proof_signature_checking_def verify_proof_signature_def
        participant_keys_def usize_sub_def)
  moreover have "verify_kvs demo_sp demo_nodes demo_root (KV_Simple [(bytes_string [0xAB], Some ''x'')] VT_Simple) = Some (Inr True)"
    using demo_accepts by (simp add: verify_kvs_def verify_simple_def)
  ultimately show ?thesis
    by (simp add: check_reply_proof_def verify_parsed_sp_def verify_one_sp_def demo_root_58)
qed


end
