(* ===== verification/Pool_Events.thy ===== *)
theory Pool_Events
  imports State_Proof
begin

text \<open>
  What a pool reads: the node transactions of its ledger (\<open>libvdrtools/src/services/pool/types.rs\<close>,
  \<open>build_node_state\<close> and \<open>dump_to_json_string\<close> of \<open>merkle_tree_factory.rs\<close>, \<open>_get_nodes_and_remotes\<close> of \<open>pool.rs\<close>),
  the messages of the nodes (\<open>Message\<close> of \<open>types.rs\<close>), their translation to events of a request (\<open>events.rs\<close>), and
  the commands of the client (\<open>_send_msg\<close> of \<open>mod.rs\<close> and \<open>commander.rs\<close>).

  \<open>pool_env\<close> holds the third-party functions: \<open>rmp_serde\<close> reading a transaction to a JSON value, the conversion
  of an Ed25519 key, the reading of a BLS key, the libraries of \<open>State_Proof\<close>, and the global protocol version,
  clock and freshness threshold. A \<open>HashMap\<close> is an association list.

  Shown: a node transaction is read back from its JSON; the node state has one entry per destination, with the
  alias of its first transaction; a node list has no more entries than there are remote nodes, so that fewer
  than a third of them are tolerated as faulty; a command arrives at the pool as it was sent.
\<close>

type_synonym Nodes = "(string \<times> ver_key option) list"

record pool_env =
  pl_lib :: sp_lib
  pl_unpack :: "bytes \<Rightarrow> json option"
  pl_curve25519 :: "bytes \<Rightarrow> bytes option"
  pl_ver_key :: "bytes \<Rightarrow> ver_key option"
  pl_protocol_version :: nat
  pl_now :: "64 word"
  pl_threshold :: "64 word"

abbreviation pl_codec :: "pool_env \<Rightarrow> codec" where
  "pl_codec pe \<equiv> sp_codec (pl_lib pe)"

subsection \<open>Node transactions\<close>

record NodeData =
  nd_alias :: string
  nd_client_ip :: "string option"
  nd_client_port :: "64 word option"
  nd_node_ip :: "string option"
  nd_node_port :: "64 word option"
  nd_services :: "string list option"
  nd_blskey :: "string option"
  nd_blskey_pop :: "string option"

record NodeTransactionV0 =
  v0_data :: NodeData
  v0_dest :: string
  v0_identifier :: string
  v0_txn_id :: "string option"
  v0_verkey :: "string option"
  v0_txn_type :: string

record TxnData =
  td_data :: NodeData
  td_dest :: string
  td_verkey :: "string option"

record TxnMetadata =
  tm_req_id :: "64 word option"
  tm_from :: string

record Txn =
  tx_txn_type :: string
  tx_protocol_version :: "32 word option"
  tx_data :: TxnData
  tx_metadata :: TxnMetadata

record Metadata =
  me_creation_time :: "64 word option"
  me_seq_no :: "32 word option"
  me_txn_id :: "string option"

record ReqSignatureValue =
  rsv_from :: "string option"
  rsv_value :: "string option"

record ReqSignature =
  rsg_type :: "string option"
  rsg_values :: "ReqSignatureValue list option"

record NodeTransactionV1 =
  nt_txn :: Txn
  nt_txn_metadata :: Metadata
  nt_req_signature :: ReqSignature
  nt_ver :: string

datatype NodeTransaction = NT_V0 NodeTransactionV0 | NT_V1 NodeTransactionV1

text \<open>A required field of a struct.\<close>

definition need :: "(json \<Rightarrow> 'a option) \<Rightarrow> json \<Rightarrow> string \<Rightarrow> 'a option" where
  "need p v k = Option.bind (json_get v k) p"

definition string_or_number :: "json \<Rightarrow> string \<Rightarrow> 64 word option option" where
  "string_or_number v k =
     (case json_get v k of
        None \<Rightarrow> Some None
      | Some (JString s) \<Rightarrow> map_option (\<lambda>n. Some (of_nat n)) (parse_uint (2 ^ 64) s)
      | Some (JNumber t) \<Rightarrow> map_option Some (as_u64 (JNumber t))
      | Some JNull \<Rightarrow> Some None
      | Some _ \<Rightarrow> None)"

definition NodeData_from :: "json \<Rightarrow> NodeData option" where
  "NodeData_from v =
     Option.bind (need as_str v ''alias'') (\<lambda>a.
     Option.bind (opt_field as_str v ''client_ip'') (\<lambda>ci.
     Option.bind (string_or_number v ''client_port'') (\<lambda>cp.
     Option.bind (opt_field as_str v ''node_ip'') (\<lambda>ni.
     Option.bind (string_or_number v ''node_port'') (\<lambda>np.
     Option.bind (opt_field (array_of as_str) v ''services'') (\<lambda>s.
     Option.bind (opt_field as_str v ''blskey'') (\<lambda>b.
     Option.bind (opt_field as_str v ''blskey_pop'') (\<lambda>bp.
       Some \<lparr>nd_alias = a, nd_client_ip = ci, nd_client_port = cp, nd_node_ip = ni, nd_node_port = np,
             nd_services = s, nd_blskey = b, nd_blskey_pop = bp\<rparr>))))))))"

definition NodeTransactionV0_from :: "json \<Rightarrow> NodeTransactionV0 option" where
  "NodeTransactionV0_from v =
     Option.bind (need NodeData_from v ''data'') (\<lambda>d.
     Option.bind (need as_str v ''dest'') (\<lambda>dest.
     Option.bind (need as_str v ''identifier'') (\<lambda>i.
     Option.bind (opt_field as_str v ''txnId'') (\<lambda>t.
     Option.bind (opt_field as_str v ''verkey'') (\<lambda>vk.
     Option.bind (need as_str v ''type'') (\<lambda>ty.
       Some \<lparr>v0_data = d, v0_dest = dest, v0_identifier = i, v0_txn_id = t, v0_verkey = vk, v0_txn_type = ty\<rparr>))))))"

definition TxnData_from :: "json \<Rightarrow> TxnData option" where
  "TxnData_from v =
     Option.bind (need NodeData_from v ''data'') (\<lambda>d.
     Option.bind (need as_str v ''dest'') (\<lambda>dest.
     Option.bind (opt_field as_str v ''verkey'') (\<lambda>vk.
       Some \<lparr>td_data = d, td_dest = dest, td_verkey = vk\<rparr>)))"

definition TxnMetadata_from :: "json \<Rightarrow> TxnMetadata option" where
  "TxnMetadata_from v =
     Option.bind (opt_field as_i64 v ''reqId'') (\<lambda>r.
     Option.bind (need as_str v ''from'') (\<lambda>f. Some \<lparr>tm_req_id = r, tm_from = f\<rparr>))"

definition Txn_from :: "json \<Rightarrow> Txn option" where
  "Txn_from v =
     Option.bind (need as_str v ''type'') (\<lambda>ty.
     Option.bind (opt_field as_i32 v ''protocolVersion'') (\<lambda>p.
     Option.bind (need TxnData_from v ''data'') (\<lambda>d.
     Option.bind (need TxnMetadata_from v ''metadata'') (\<lambda>m.
       Some \<lparr>tx_txn_type = ty, tx_protocol_version = p, tx_data = d, tx_metadata = m\<rparr>))))"

definition Metadata_from :: "json \<Rightarrow> Metadata option" where
  "Metadata_from v =
     Option.bind (as_object v) (\<lambda>_.
     Option.bind (opt_field as_u64 v ''creationTime'') (\<lambda>c.
     Option.bind (opt_field as_i32 v ''seqNo'') (\<lambda>s.
     Option.bind (opt_field as_str v ''txnId'') (\<lambda>t.
       Some \<lparr>me_creation_time = c, me_seq_no = s, me_txn_id = t\<rparr>))))"

definition ReqSignatureValue_from :: "json \<Rightarrow> ReqSignatureValue option" where
  "ReqSignatureValue_from v =
     Option.bind (as_object v) (\<lambda>_.
     Option.bind (opt_field as_str v ''from'') (\<lambda>f.
     Option.bind (opt_field as_str v ''value'') (\<lambda>x. Some \<lparr>rsv_from = f, rsv_value = x\<rparr>)))"

definition ReqSignature_from :: "json \<Rightarrow> ReqSignature option" where
  "ReqSignature_from v =
     Option.bind (as_object v) (\<lambda>_.
     Option.bind (opt_field as_str v ''type'') (\<lambda>t.
     Option.bind (opt_field (array_of ReqSignatureValue_from) v ''values'') (\<lambda>vs.
       Some \<lparr>rsg_type = t, rsg_values = vs\<rparr>)))"

definition NodeTransactionV1_from :: "json \<Rightarrow> NodeTransactionV1 option" where
  "NodeTransactionV1_from v =
     Option.bind (need Txn_from v ''txn'') (\<lambda>t.
     Option.bind (need Metadata_from v ''txnMetadata'') (\<lambda>m.
     Option.bind (need ReqSignature_from v ''reqSignature'') (\<lambda>r.
     Option.bind (need as_str v ''ver'') (\<lambda>ver.
       Some \<lparr>nt_txn = t, nt_txn_metadata = m, nt_req_signature = r, nt_ver = ver\<rparr>))))"

text \<open>\<open>untagged\<close>: the first variant that fits.\<close>

definition NodeTransaction_from :: "json \<Rightarrow> NodeTransaction option" where
  "NodeTransaction_from v =
     (case NodeTransactionV0_from v of
        Some t \<Rightarrow> Some (NT_V0 t)
      | None \<Rightarrow> map_option NT_V1 (NodeTransactionV1_from v))"

definition NodeData_to :: "NodeData \<Rightarrow> json" where
  "NodeData_to d = JObject
     [(''alias'', JString (nd_alias d)), (''client_ip'', or_null JString (nd_client_ip d)),
      (''client_port'', or_null JU64 (nd_client_port d)), (''node_ip'', or_null JString (nd_node_ip d)),
      (''node_port'', or_null JU64 (nd_node_port d)), (''services'', or_null (\<lambda>l. JArray (map JString l)) (nd_services d)),
      (''blskey'', or_null JString (nd_blskey d)), (''blskey_pop'', or_null JString (nd_blskey_pop d))]"

definition TxnData_to :: "TxnData \<Rightarrow> json" where
  "TxnData_to d = JObject
     [(''data'', NodeData_to (td_data d)), (''dest'', JString (td_dest d)), (''verkey'', or_null JString (td_verkey d))]"

definition TxnMetadata_to :: "TxnMetadata \<Rightarrow> json" where
  "TxnMetadata_to m = JObject [(''reqId'', or_null JI64 (tm_req_id m)), (''from'', JString (tm_from m))]"

definition Txn_to :: "Txn \<Rightarrow> json" where
  "Txn_to t = JObject
     [(''type'', JString (tx_txn_type t)), (''protocolVersion'', or_null JI32 (tx_protocol_version t)),
      (''data'', TxnData_to (tx_data t)), (''metadata'', TxnMetadata_to (tx_metadata t))]"

definition Metadata_to :: "Metadata \<Rightarrow> json" where
  "Metadata_to m = JObject
     [(''creationTime'', or_null JU64 (me_creation_time m)), (''seqNo'', or_null JI32 (me_seq_no m)),
      (''txnId'', or_null JString (me_txn_id m))]"

definition ReqSignatureValue_to :: "ReqSignatureValue \<Rightarrow> json" where
  "ReqSignatureValue_to s = JObject [(''from'', or_null JString (rsv_from s)), (''value'', or_null JString (rsv_value s))]"

definition ReqSignature_to :: "ReqSignature \<Rightarrow> json" where
  "ReqSignature_to r = JObject
     [(''type'', or_null JString (rsg_type r)),
      (''values'', or_null (\<lambda>l. JArray (map ReqSignatureValue_to l)) (rsg_values r))]"

definition NodeTransactionV1_to :: "NodeTransactionV1 \<Rightarrow> json" where
  "NodeTransactionV1_to n = JObject
     [(''txn'', Txn_to (nt_txn n)), (''txnMetadata'', Metadata_to (nt_txn_metadata n)),
      (''reqSignature'', ReqSignature_to (nt_req_signature n)), (''ver'', JString (nt_ver n))]"

definition NodeTransactionV1_from_v0 :: "NodeTransactionV0 \<Rightarrow> NodeTransactionV1" where
  "NodeTransactionV1_from_v0 node_txn =
     \<lparr>nt_txn = \<lparr>tx_txn_type = v0_txn_type node_txn, tx_protocol_version = None,
        tx_data = \<lparr>td_data = v0_data node_txn, td_dest = v0_dest node_txn, td_verkey = v0_verkey node_txn\<rparr>,
        tx_metadata = \<lparr>tm_req_id = None, tm_from = v0_identifier node_txn\<rparr>\<rparr>,
      nt_txn_metadata = \<lparr>me_creation_time = None, me_seq_no = None, me_txn_id = v0_txn_id node_txn\<rparr>,
      nt_req_signature = \<lparr>rsg_type = None, rsg_values = None\<rparr>, nt_ver = ''1''\<rparr>"

abbreviation nt_dest :: "NodeTransactionV1 \<Rightarrow> string" where
  "nt_dest t \<equiv> td_dest (tx_data (nt_txn t))"

abbreviation nt_data :: "NodeTransactionV1 \<Rightarrow> NodeData" where
  "nt_data t \<equiv> td_data (tx_data (nt_txn t))"

definition build_full_verkey :: "codec \<Rightarrow> string \<Rightarrow> string option \<Rightarrow> string indy_result" where
  "build_full_verkey cd dest verkey =
     (let decode = (\<lambda>s. ok_or (cd_b58dec cd s) (Err (err_msg IE_InvalidStructure
            ''The base58 input contained a character not part of the base58 alphabet'')))
      in case verkey of
        None \<Rightarrow> Inr dest
      | Some verkey \<Rightarrow>
          let (vk, crypto_type) =
                (if CHR '':'' \<in> set verkey then (split_on CHR '':'' verkey ! 0, Some (split_on CHR '':'' verkey ! 1))
                 else (verkey, None))
          in res_bind
               (case vk of
                  c # end' \<Rightarrow>
                    if c = CHR ''~'' then
                      res_bind (decode dest) (\<lambda>result. res_bind (decode end') (\<lambda>e. Inr (cd_b58enc cd (result @ e))))
                    else Inr vk
                | [] \<Rightarrow> Inr vk)
               (\<lambda>full. Inr (case crypto_type of Some t \<Rightarrow> full @ '':'' @ t | None \<Rightarrow> full)))"

definition opt_or :: "'a option \<Rightarrow> 'a option \<Rightarrow> 'a option" where
  "opt_or new old = (case new of Some x \<Rightarrow> Some x | None \<Rightarrow> old)"

definition NodeTransactionV1_update :: "codec \<Rightarrow> NodeTransactionV1 \<Rightarrow> NodeTransactionV1 \<Rightarrow> NodeTransactionV1 indy_result" where
  "NodeTransactionV1_update cd self other =
     (let s = nt_data self; n = nt_data other
      in if nt_dest self \<noteq> nt_dest other \<or> nd_alias s \<noteq> nd_alias n then Inl Panic
         else
           let d = s\<lparr>nd_client_ip := opt_or (nd_client_ip n) (nd_client_ip s),
                     nd_client_port := opt_or (nd_client_port n) (nd_client_port s),
                     nd_node_ip := opt_or (nd_node_ip n) (nd_node_ip s),
                     nd_node_port := opt_or (nd_node_port n) (nd_node_port s),
                     nd_blskey := opt_or (nd_blskey n) (nd_blskey s),
                     nd_blskey_pop := opt_or (nd_blskey_pop n) (nd_blskey_pop s),
                     nd_services := opt_or (nd_services n) (nd_services s)\<rparr>;
               set_verkey = (\<lambda>vk. self\<lparr>nt_txn := (nt_txn self)\<lparr>tx_data := (tx_data (nt_txn self))\<lparr>td_data := d, td_verkey := vk\<rparr>\<rparr>\<rparr>)
           in case td_verkey (tx_data (nt_txn other)) of
                None \<Rightarrow> Inr (set_verkey (td_verkey (tx_data (nt_txn self))))
              | Some vk \<Rightarrow>
                  res_bind (build_full_verkey cd (nt_dest self) (Some vk)) (\<lambda>full. Inr (set_verkey (Some full))))"

subsection \<open>The nodes of a ledger\<close>

definition current_version :: "pool_env \<Rightarrow> NodeTransaction \<Rightarrow> NodeTransactionV1 indy_result" where
  "current_version pe gen_txn =
     (case gen_txn of
        NT_V0 txn \<Rightarrow>
          if pl_protocol_version pe \<noteq> 1 then fail IE_PoolIncompatibleProtocolVersion
            ''libvdrtools PROTOCOL_VERSION is {} but Pool Genesis Transactions are of version {}.''
          else Inr (NodeTransactionV1_from_v0 txn)
      | NT_V1 txn \<Rightarrow>
          if pl_protocol_version pe \<noteq> 2 then fail IE_PoolIncompatibleProtocolVersion
            ''libvdrtools PROTOCOL_VERSION is {} but Pool Genesis Transactions are of version {}.''
          else Inr txn)"

fun node_state_loop ::
    "pool_env \<Rightarrow> (string \<times> NodeTransactionV1) list \<Rightarrow> bytes list \<Rightarrow> (string \<times> NodeTransactionV1) list indy_result" where
  "node_state_loop pe gen_txns [] = Inr gen_txns"
| "node_state_loop pe gen_txns (txn # txns) =
     res_bind (ok_or (Option.bind (pl_unpack pe txn) NodeTransaction_from)
                (Err (err_msg IE_InvalidState ''MerkleTree contains invalid item''))) (\<lambda>gen_txn.
     res_bind (current_version pe gen_txn) (\<lambda>gen_txn.
     res_bind (case map_of gen_txns (nt_dest gen_txn) of
                 Some old \<Rightarrow> NodeTransactionV1_update (pl_codec pe) old gen_txn
               | None \<Rightarrow> Inr gen_txn) (\<lambda>new.
       node_state_loop pe (dict_insert (nt_dest gen_txn) new gen_txns) txns)))"

definition build_node_state :: "pool_env \<Rightarrow> MerkleTree \<Rightarrow> (string \<times> NodeTransactionV1) list indy_result" where
  "build_node_state pe merkle_tree = node_state_loop pe [] (LeavesIterator_collect (MerkleTree_iter merkle_tree))"

text \<open>The lines of \<open>dump_to_json_string\<close>, joined with line feeds.\<close>

fun join_lines :: "string list \<Rightarrow> string" where
  "join_lines [] = []"
| "join_lines [l] = l"
| "join_lines (l # ls) = l @ CHR 0x0A # join_lines ls"

definition dump_to_json_string :: "pool_env \<Rightarrow> MerkleTree \<Rightarrow> string indy_result" where
  "dump_to_json_string pe merkle_tree =
     res_bind (build_node_state pe merkle_tree) (\<lambda>node_state.
       Inr (join_lines (map (\<lambda>(_, v). cd_json_print (pl_codec pe) (NodeTransactionV1_to v)) node_state)))"

definition node_and_remote :: "pool_env \<Rightarrow> NodeTransactionV1 \<Rightarrow> ((string \<times> ver_key option) \<times> RemoteNode) indy_result" where
  "node_and_remote pe txn =
     (let d = nt_data txn;
          bad_dest = Err (err_msg IE_InvalidStructure ''Invalid field dest in genesis transaction'');
          bad_bls = Err (err_msg IE_InvalidStructure ''Invalid field blskey in genesis transaction'')
      in res_bind (ok_or (cd_b58dec (pl_codec pe) (nt_dest txn)) bad_dest) (\<lambda>vk.
         res_bind (ok_or (pl_curve25519 pe vk) bad_dest) (\<lambda>node_verkey.
         if nd_services d = None \<or> ''VALIDATOR'' \<notin> set (unwrap_or (nd_services d) []) then
           fail IE_InvalidState ''Node is not a validator''
         else
           (case (nd_client_ip d, nd_client_port d) of
              (Some ip, Some port) \<Rightarrow>
                res_bind
                  (case nd_blskey d of
                     None \<Rightarrow> Inr None
                   | Some blskey \<Rightarrow>
                       res_bind (ok_or (cd_b58dec (pl_codec pe) blskey) bad_bls) (\<lambda>key.
                       res_bind (ok_or (pl_ver_key pe key) bad_bls) (\<lambda>vk. Inr (Some vk))))
                  (\<lambda>verkey. Inr ((nd_alias d, verkey),
                      \<lparr>rn_name = nd_alias d, rn_public_key = node_verkey,
                       rn_zaddr = ''tcp://'' @ ip @ '':'' @ nat_to_string (unat port), rn_is_blacklisted = False\<rparr>))
            | _ \<Rightarrow> fail IE_InvalidState ''Client address not found''))))"

text \<open>A node whose transaction is not usable is only logged.\<close>

definition add_node :: "pool_env \<Rightarrow> NodeTransactionV1 \<Rightarrow> Nodes \<times> RemoteNode list \<Rightarrow> Nodes \<times> RemoteNode list" where
  "add_node pe txn acc =
     (case node_and_remote pe txn of
        Inl _ \<Rightarrow> acc
      | Inr ((alias, verkey), remote) \<Rightarrow> (dict_insert alias verkey (fst acc), snd acc @ [remote]))"

definition get_nodes_and_remotes :: "pool_env \<Rightarrow> MerkleTree \<Rightarrow> (Nodes \<times> RemoteNode list) indy_result" where
  "get_nodes_and_remotes pe merkle =
     res_bind (build_node_state pe merkle) (\<lambda>nodes. Inr (fold (\<lambda>(_, txn). add_node pe txn) nodes ([], [])))"

definition get_f :: "nat \<Rightarrow> nat" where
  "get_f cnt = (if cnt < 4 then 0 else (cnt - 1) div 3)"

subsection \<open>Messages of the nodes\<close>

text \<open>Of a \<open>Reply\<close>, \<open>Response\<close> or \<open>PoolLedgerTxn\<close> the request id is all that its types keep.\<close>

datatype Message =
    M_ConsistencyProof ConsistencyProof
  | M_LedgerStatus LedgerStatus
  | M_CatchupReq CatchupReq
  | M_CatchupRep CatchupRep
  | M_ReqACK "64 word"
  | M_ReqNACK "64 word"
  | M_Reply "64 word"
  | M_Reject "64 word"
  | M_PoolLedgerTxns "64 word"
  | M_Ping
  | M_Pong

definition as_usize :: "json \<Rightarrow> nat option" where
  "as_usize v = map_option unat (as_u64 v)"

definition as_u8 :: "json \<Rightarrow> nat option" where
  "as_u8 v = (case v of JNumber t \<Rightarrow> parse_uint (2 ^ 8) t | _ \<Rightarrow> None)"

definition LedgerStatus_from :: "json \<Rightarrow> LedgerStatus option" where
  "LedgerStatus_from v =
     Option.bind (need as_usize v ''txnSeqNo'') (\<lambda>t.
     Option.bind (need as_str v ''merkleRoot'') (\<lambda>r.
     Option.bind (need as_u8 v ''ledgerId'') (\<lambda>l.
     Option.bind (opt_field as_u32 v ''ppSeqNo'') (\<lambda>pp.
     Option.bind (opt_field as_u32 v ''viewNo'') (\<lambda>vn.
     Option.bind (opt_field as_usize v ''protocolVersion'') (\<lambda>pv.
       Some \<lparr>ls_txnSeqNo = t, ls_merkleRoot = r, ls_ledgerId = l, ls_ppSeqNo = map_option unat pp,
             ls_viewNo = map_option unat vn, ls_protocolVersion = pv\<rparr>))))))"

definition ConsistencyProof_from :: "json \<Rightarrow> ConsistencyProof option" where
  "ConsistencyProof_from v =
     Option.bind (need as_usize v ''seqNoEnd'') (\<lambda>e.
     Option.bind (need as_usize v ''seqNoStart'') (\<lambda>s.
     Option.bind (need as_usize v ''ledgerId'') (\<lambda>l.
     Option.bind (need (array_of as_str) v ''hashes'') (\<lambda>h.
     Option.bind (need as_str v ''oldMerkleRoot'') (\<lambda>old.
     Option.bind (need as_str v ''newMerkleRoot'') (\<lambda>new.
       Some \<lparr>cp_seqNoEnd = e, cp_seqNoStart = s, cp_ledgerId = l, cp_hashes = h, cp_oldMerkleRoot = old,
             cp_newMerkleRoot = new\<rparr>))))))"

definition CatchupReq_from :: "json \<Rightarrow> CatchupReq option" where
  "CatchupReq_from v =
     Option.bind (need as_usize v ''ledgerId'') (\<lambda>l.
     Option.bind (need as_usize v ''seqNoStart'') (\<lambda>s.
     Option.bind (need as_usize v ''seqNoEnd'') (\<lambda>e.
     Option.bind (need as_usize v ''catchupTill'') (\<lambda>t.
       Some \<lparr>cr_ledgerId = l, cr_seqNoStart = s, cr_seqNoEnd = e, cr_catchupTill = t\<rparr>))))"

text \<open>Reading a \<open>HashMap\<close>: the last of equal keys stays.\<close>

definition hash_map :: "(string \<times> 'a) list \<Rightarrow> (string \<times> 'a) list" where
  "hash_map kvs = foldl (\<lambda>d (k, v). dict_insert k v d) [] kvs"

definition CatchupRep_from :: "json \<Rightarrow> CatchupRep option" where
  "CatchupRep_from v =
     Option.bind (need as_usize v ''ledgerId'') (\<lambda>l.
     Option.bind (need (array_of as_str) v ''consProof'') (\<lambda>c.
     Option.bind (need as_object v ''txns'') (\<lambda>t.
       Some \<lparr>crep_ledgerId = l, crep_consProof = c, crep_txns = hash_map t\<rparr>)))"

definition ResponseMetadata_from :: "json \<Rightarrow> 64 word option" where
  "ResponseMetadata_from v = need as_u64 v ''reqId''"

definition Reply_from :: "json \<Rightarrow> 64 word option" where
  "Reply_from v =
     opt_or (need ResponseMetadata_from v ''result'')
       (need (\<lambda>r. need (\<lambda>t. need ResponseMetadata_from t ''metadata'') r ''txn'') v ''result'')"

definition Response_from :: "json \<Rightarrow> 64 word option" where
  "Response_from v = opt_or (need as_u64 v ''reqId'') (need ResponseMetadata_from v ''metadata'')"

definition PoolLedgerTxn_from :: "json \<Rightarrow> 64 word option" where
  "PoolLedgerTxn_from v =
     opt_or (need Response_from v ''txn'') (need (\<lambda>t. need Response_from t ''txn'') v ''txn'')"

definition Message_from :: "json \<Rightarrow> Message option" where
  "Message_from v =
     Option.bind (need as_str v ''op'') (\<lambda>op.
       if op = ''CONSISTENCY_PROOF'' then map_option M_ConsistencyProof (ConsistencyProof_from v)
       else if op = ''LEDGER_STATUS'' then map_option M_LedgerStatus (LedgerStatus_from v)
       else if op = ''CATCHUP_REQ'' then map_option M_CatchupReq (CatchupReq_from v)
       else if op = ''CATCHUP_REP'' then map_option M_CatchupRep (CatchupRep_from v)
       else if op = ''REQACK'' then map_option M_ReqACK (Response_from v)
       else if op = ''REQNACK'' then map_option M_ReqNACK (Response_from v)
       else if op = ''REPLY'' then map_option M_Reply (Reply_from v)
       else if op = ''REJECT'' then map_option M_Reject (Response_from v)
       else if op = ''POOL_LEDGER_TXNS'' then map_option M_PoolLedgerTxns (PoolLedgerTxn_from v)
       else if op = ''Ping'' then Some M_Ping
       else if op = ''Pong'' then Some M_Pong
       else None)"

definition Message_from_raw_str :: "codec \<Rightarrow> string \<Rightarrow> Message option" where
  "Message_from_raw_str cd str =
     (if str = ''po'' then Some M_Pong
      else if str = ''pi'' then Some M_Ping
      else Option.bind (cd_json_parse cd str) Message_from)"

subsection \<open>Events of a request\<close>

definition POOL_RESTART :: string where "POOL_RESTART = ''118''"
definition GET_VALIDATOR_INFO :: string where "GET_VALIDATOR_INFO = ''119''"

definition REQUEST_FOR_FULL :: "string list" where
  "REQUEST_FOR_FULL = [POOL_RESTART, GET_VALIDATOR_INFO]"

definition REQUESTS_FOR_STATE_PROOFS_IN_THE_PAST :: "string list" where
  "REQUESTS_FOR_STATE_PROOFS_IN_THE_PAST =
     [GET_REVOC_REG, GET_REVOC_REG_DELTA, GET_TXN_AUTHR_AGRMT, GET_TXN_AUTHR_AGRMT_AML, GET_TXN]"

fun get_req_id :: "RequestEvent \<Rightarrow> string" where
  "get_req_id (RE_CustomSingleRequest _ i _ _) = i"
| "get_req_id (RE_CustomConsensusRequest _ i) = i"
| "get_req_id (RE_CustomFullRequest _ i _ _) = i"
| "get_req_id (RE_Reply _ _ _ i) = i"
| "get_req_id (RE_ReqACK _ _ _ i) = i"
| "get_req_id (RE_ReqNACK _ _ _ i) = i"
| "get_req_id (RE_Reject _ _ _ i) = i"
| "get_req_id _ = []"

definition parse_timestamp_from_req_for_builtin_sp :: "json \<Rightarrow> string \<Rightarrow> timestamps" where
  "parse_timestamp_from_req_for_builtin_sp req op =
     (if op \<notin> set REQUESTS_FOR_STATE_PROOFS_IN_THE_PAST then (None, None)
      else if op = GET_TXN then (None, Some 0)
      else if op \<in> {GET_REVOC_REG, GET_TXN_AUTHR_AGRMT, GET_TXN_AUTHR_AGRMT_AML} then
        (None, as_u64 (json_path req [''operation'', ''timestamp'']))
      else if op = GET_REVOC_REG_DELTA then
        (as_u64 (json_path req [''operation'', ''from'']), as_u64 (json_path req [''operation'', ''to'']))
      else (None, None))"

definition parse_req_id_and_op :: "codec \<Rightarrow> string \<Rightarrow> (json \<times> string \<times> string) option" where
  "parse_req_id_and_op cd msg =
     Option.bind (cd_json_parse cd msg) (\<lambda>req.
     Option.bind (as_u64 (json_index req ''reqId'')) (\<lambda>req_id.
     Option.bind (as_str (json_path req [''operation'', ''type''])) (\<lambda>op.
       Some (req, nat_to_string (unat req_id), op))))"

fun node_message_event :: "Message \<Rightarrow> string \<Rightarrow> string \<Rightarrow> RequestEvent" where
  "node_message_event (M_CatchupReq _) msg node = RE_CatchupReq MerkleTree_default 0 []"
| "node_message_event (M_CatchupRep rep) msg node = RE_CatchupRep rep node"
| "node_message_event (M_LedgerStatus ls) msg node = RE_LedgerStatus ls (Some node) None"
| "node_message_event (M_ConsistencyProof cp) msg node = RE_ConsistencyProof cp node"
| "node_message_event (M_Reply i) msg node = RE_Reply i msg node (nat_to_string (unat i))"
| "node_message_event (M_ReqACK i) msg node = RE_ReqACK i msg node (nat_to_string (unat i))"
| "node_message_event (M_ReqNACK i) msg node = RE_ReqNACK i msg node (nat_to_string (unat i))"
| "node_message_event (M_Reject i) msg node = RE_Reject i msg node (nat_to_string (unat i))"
| "node_message_event (M_PoolLedgerTxns _) msg node = RE_PoolLedgerTxns"
| "node_message_event M_Ping msg node = RE_Ping"
| "node_message_event M_Pong msg node = RE_Pong"

definition send_request_event :: "pool_env \<Rightarrow> string \<Rightarrow> int option \<Rightarrow> string option \<Rightarrow> RequestEvent option" where
  "send_request_event pe msg timeout nodes =
     (case parse_req_id_and_op (pl_codec pe) msg of
        Some (req, req_id, op) \<Rightarrow>
          if op \<in> set REQUEST_FOR_FULL then Some (RE_CustomFullRequest msg req_id timeout nodes)
          else if timeout \<noteq> None \<or> nodes \<noteq> None then None
          else if op \<in> set REQUESTS_FOR_STATE_PROOFS then
            Some (RE_CustomSingleRequest msg req_id (parse_key_from_request_for_builtin_sp (pl_lib pe) req)
                    (parse_timestamp_from_req_for_builtin_sp req op))
          else Some (RE_CustomConsensusRequest msg req_id)
      | None \<Rightarrow> None)"

definition PoolEvent_into :: "pool_env \<Rightarrow> PoolEvent \<Rightarrow> RequestEvent option" where
  "PoolEvent_into pe ev =
     (case ev of
        PE_NodeReply msg node_alias \<Rightarrow>
          map_option (\<lambda>m. node_message_event m msg node_alias) (Message_from_raw_str (pl_codec pe) msg)
      | PE_SendRequest _ msg timeout nodes \<Rightarrow> send_request_event pe msg timeout nodes
      | PE_Timeout req_id node_alias \<Rightarrow> Some (RE_Timeout req_id node_alias)
      | _ \<Rightarrow> None)"

subsection \<open>Commands\<close>

definition write_i32 :: "int \<Rightarrow> bytes" where
  "write_i32 i = map (\<lambda>j. ucast (drop_bit (8 * j) (word_of_int i :: 32 word))) [0..<4]"

text \<open>\<open>LittleEndian::read_i32\<close> panics on fewer than four bytes.\<close>

definition read_i32 :: "bytes \<Rightarrow> (unit, int) result" where
  "read_i32 buf = (if length buf < 4 then Inl () else Inr (sint (of_nat (le_value (take 4 buf)) :: 32 word)))"

definition COMMAND_EXIT :: string where "COMMAND_EXIT = ''exit''"
definition COMMAND_CONNECT :: string where "COMMAND_CONNECT = ''connect''"
definition COMMAND_REFRESH :: string where "COMMAND_REFRESH = ''refresh''"

definition INVALID_COMMAND_HANDLE :: command_handle where "INVALID_COMMAND_HANDLE = 0"

definition send_msg :: "command_handle \<Rightarrow> string \<Rightarrow> string option \<Rightarrow> int option \<Rightarrow> bytes list" where
  "send_msg cmd_id msg nodes timeout =
     [string_bytes msg, write_i32 cmd_id, write_i32 (unwrap_or timeout (-1))]
       @ (case nodes of Some ns \<Rightarrow> [string_bytes ns] | None \<Rightarrow> [])"

definition utf8_text :: "bytes \<Rightarrow> string option" where
  "utf8_text b = (let s = bytes_string b in if is_utf8 s then Some s else None)"

definition Commander_fetch_events :: "bytes list \<Rightarrow> (unit, PoolEvent option) result" where
  "Commander_fetch_events cmd_parts =
     res_bind (ok_or (list_get cmd_parts 0) ()) (\<lambda>first.
       case utf8_text first of
         None \<Rightarrow> Inr None
       | Some cmd_s \<Rightarrow>
           res_bind (case list_get cmd_parts 1 of Some cmd \<Rightarrow> read_i32 cmd | None \<Rightarrow> Inr INVALID_COMMAND_HANDLE) (\<lambda>id.
             if cmd_s = COMMAND_EXIT then Inr (Some (PE_Close id))
             else if cmd_s = COMMAND_REFRESH then Inr (Some (PE_Refresh id))
             else if cmd_s = COMMAND_CONNECT then Inr (Some (PE_CheckCache id))
             else
               res_bind (res_bind (ok_or (list_get cmd_parts 2) ()) read_i32) (\<lambda>t.
                 let timeout = (if t = -1 then None else Some t)
                 in case list_get cmd_parts 3 of
                      None \<Rightarrow> Inr (Some (PE_SendRequest id cmd_s timeout None))
                    | Some nodes \<Rightarrow>
                        (case utf8_text nodes of
                           None \<Rightarrow> Inr None
                         | Some ns \<Rightarrow> Inr (Some (PE_SendRequest id cmd_s timeout (Some ns)))))))"

subsection \<open>Transactions are read back\<close>

lemma need_simps [simp]:
  "need p (JObject ((k, v) # kvs)) k' = (if k = k' then p v else need p (JObject kvs) k')"
  "need p (JObject []) k' = None"
  by (simp_all add: need_def)

lemma opt_field_simps:
  "opt_field p (JObject ((k, v) # kvs)) k' =
     (if k = k' then (if v = JNull then Some None else map_option Some (p v)) else opt_field p (JObject kvs) k')"
  by (simp add: opt_field_def)

lemma string_or_number_skip:
  "k \<noteq> k' \<Longrightarrow> string_or_number (JObject ((k, v) # kvs)) k' = string_or_number (JObject kvs) k'"
  by (simp add: string_or_number_def)

lemma optional_written:
  "(\<And>x. p (enc x) = Some x) \<Longrightarrow> (\<And>x. enc x \<noteq> JNull) \<Longrightarrow>
     (if or_null enc y = JNull then Some None else map_option Some (p (or_null enc y))) = Some y"
  by (cases y) (auto simp: or_null_def)

lemma port_written: "string_or_number (JObject ((k, or_null JU64 n) # kvs)) k = Some n"
  using as_u64_JU64 by (cases n) (simp_all add: string_or_number_def or_null_def JU64_def)

lemma strings_written: "array_of as_str (JArray (map JString l)) = Some l"
  by (induction l) (simp_all add: array_of_def)

lemma number_not_null: "JU64 w \<noteq> JNull" "JI32 v \<noteq> JNull" "JI64 w \<noteq> JNull"
  by (simp_all add: JU64_def JI32_def JI64_def)

lemmas written = opt_field_simps string_or_number_skip optional_written port_written strings_written number_not_null
  as_i64_JI64

lemma NodeData_written: "NodeData_from (NodeData_to d) = Some d"
  by (simp add: NodeData_from_def NodeData_to_def written)

lemma TxnData_written: "TxnData_from (TxnData_to d) = Some d"
  by (simp add: TxnData_from_def TxnData_to_def NodeData_written written)

lemma Txn_written: "Txn_from (Txn_to t) = Some t"
  by (simp add: Txn_from_def Txn_to_def TxnMetadata_from_def TxnMetadata_to_def TxnData_written written)

lemma signatures_written: "array_of ReqSignatureValue_from (JArray (map ReqSignatureValue_to l)) = Some l"
  by (induction l) (simp_all add: array_of_def ReqSignatureValue_from_def ReqSignatureValue_to_def written)

lemma node_transaction_roundtrip: "NodeTransaction_from (NodeTransactionV1_to t) = Some (NT_V1 t)"
  by (simp add: NodeTransaction_from_def NodeTransactionV0_from_def NodeTransactionV1_from_def NodeTransactionV1_to_def
      Txn_written Metadata_from_def Metadata_to_def ReqSignature_from_def ReqSignature_to_def signatures_written written)

subsection \<open>The node state\<close>

definition keyed :: "(string \<times> NodeTransactionV1) list \<Rightarrow> bool" where
  "keyed ns = (distinct (map fst ns) \<and> list_all (\<lambda>(k, t). nt_dest t = k) ns)"

lemma update_keeps:
  "NodeTransactionV1_update cd self other = Inr t \<Longrightarrow>
     nt_dest t = nt_dest self \<and> nd_alias (nt_data t) = nd_alias (nt_data self)
     \<and> nt_dest other = nt_dest self \<and> nd_alias (nt_data other) = nd_alias (nt_data self)"
  by (auto simp: NodeTransactionV1_update_def Let_def res_bind_Inr_iff split: if_splits option.splits)

lemma keyed_insert:
  assumes "keyed ns" "nt_dest t = k"
  shows "keyed (dict_insert k t ns)"
  using assms dict_insert_distinct [of ns k t] by (auto simp: keyed_def list_all_iff dest!: dict_insert_in)

lemma node_state_keyed: "node_state_loop pe ns txns = Inr ns' \<Longrightarrow> keyed ns \<Longrightarrow> keyed ns'"
proof (induction txns arbitrary: ns)
  case (Cons b txns)
  obtain raw txn new where step: "current_version pe raw = Inr txn"
      "(case map_of ns (nt_dest txn) of Some old \<Rightarrow> NodeTransactionV1_update (pl_codec pe) old txn | None \<Rightarrow> Inr txn) = Inr new"
      "node_state_loop pe (dict_insert (nt_dest txn) new ns) txns = Inr ns'"
    using Cons.prems(1) by (auto simp: res_bind_Inr_iff)
  have "nt_dest new = nt_dest txn" using step(2) update_keeps by (auto split: option.splits)
  then show ?case using Cons.IH [OF step(3) keyed_insert [OF Cons.prems(2)]] by blast
qed simp

text \<open>The node state of a ledger has one transaction per destination.\<close>

lemma build_node_state_keyed: "build_node_state pe mt = Inr ns \<Longrightarrow> keyed ns"
  unfolding build_node_state_def by (rule node_state_keyed) (auto simp: keyed_def)

subsection \<open>The nodes of a pool\<close>

definition nodes_match :: "Nodes \<times> RemoteNode list \<Rightarrow> bool" where
  "nodes_match nr = (distinct (map fst (fst nr)) \<and> set (map fst (fst nr)) = set (map rn_name (snd nr)))"

lemma node_and_remote_name: "node_and_remote pe txn = Inr ((a, vk), r) \<Longrightarrow> rn_name r = a"
  by (auto simp: node_and_remote_def Let_def res_bind_Inr_iff fail_def split: if_splits option.splits)

lemma add_node_match: "nodes_match acc \<Longrightarrow> nodes_match (add_node pe txn acc)"
  by (auto simp: add_node_def nodes_match_def dict_insert_distinct dict_insert_keys [of "_" "_" "fst acc"]
      split: sum.splits dest!: node_and_remote_name)

lemma fold_match: "nodes_match acc \<Longrightarrow> nodes_match (fold (\<lambda>(_, txn). add_node pe txn) ns acc)"
proof (induction ns arbitrary: acc)
  case (Cons n ns)
  then show ?case using add_node_match by (cases n) simp
qed simp

text \<open>
  The node list that requests are counted against, and the remote nodes that the networker talks to, are of the
  same names, each once in the list.
\<close>

lemma nodes_and_remotes_match: "get_nodes_and_remotes pe mt = Inr nr \<Longrightarrow> nodes_match nr"
  using fold_match [of "([], [])" pe] by (auto simp: get_nodes_and_remotes_def res_bind_Inr_iff) (simp add: nodes_match_def)

lemma get_f_bound: "0 < n \<Longrightarrow> 3 * get_f n < n"
  by (auto simp: get_f_def)

lemma get_f_maximal: "4 \<le> n \<Longrightarrow> n \<le> 3 * (get_f n + 1)"
  by (auto simp: get_f_def)

subsection \<open>Commands arrive\<close>

lemma read_write_i32: "- (2 ^ 31) \<le> i \<Longrightarrow> i < 2 ^ 31 \<Longrightarrow> read_i32 (write_i32 i) = Inr i"
proof -
  assume i: "- (2 ^ 31) \<le> i" "i < 2 ^ 31"
  let ?w = "word_of_int i :: 32 word"
  have "unat ?w < 256 ^ 4" using unsigned_less [of ?w, where ?'a = nat] by simp
  then have "le_value (write_i32 i) = unat ?w" using le_value_bytes [of ?w 0 4] by (simp add: write_i32_def)
  moreover have "length (write_i32 i) = 4" by (simp add: write_i32_def)
  moreover have "sint ?w = i" unfolding sint_sbintrunc' by (rule signed_take_bit_int_eq_self) (use i in simp_all)
  ultimately show ?thesis by (simp add: read_i32_def)
qed

lemma utf8_text_string [simp]: "utf8_text (string_bytes s) = (if is_utf8 s then Some s else None)"
  by (simp add: utf8_text_def)

text \<open>The event that a command text stands for.\<close>

definition command_event :: "command_handle \<Rightarrow> string \<Rightarrow> string option \<Rightarrow> int option \<Rightarrow> PoolEvent" where
  "command_event i msg nodes timeout =
     (if msg = COMMAND_EXIT then PE_Close i else if msg = COMMAND_REFRESH then PE_Refresh i
      else if msg = COMMAND_CONNECT then PE_CheckCache i
      else PE_SendRequest i msg (if timeout = Some (-1) then None else timeout) nodes)"

text \<open>
  C32. A command arrives at the pool as it was sent: the parts that \<open>_send_msg\<close> puts on the socket are read by the
  commander as the event of the command, with its handle, its timeout (a timeout of \<open>-1\<close> apart, which stands for none)
  and its nodes, when the texts are UTF-8 and the numbers fit 32 bits.
\<close>

theorem command_arrives:
  assumes "- (2 ^ 31) \<le> i" "i < 2 ^ 31" "pred_option (\<lambda>t. - (2 ^ 31) \<le> t \<and> t < 2 ^ 31) timeout"
    and "is_utf8 msg" "pred_option is_utf8 nodes"
  shows "Commander_fetch_events (send_msg i msg nodes timeout) = Inr (Some (command_event i msg nodes timeout))"
proof -
  have "read_i32 (write_i32 (unwrap_or timeout (-1))) = Inr (unwrap_or timeout (-1))"
    using assms(3) by (intro read_write_i32) (cases timeout; simp)+
  then show ?thesis
    using assms read_write_i32 [of i]
    by (cases timeout; cases nodes) (simp_all add: Commander_fetch_events_def send_msg_def command_event_def list_get_def)
qed

theorem command_arrives_witness:
  "Commander_fetch_events (send_msg 5 ''a'' (Some ''b'') (Some 20)) = Inr (Some (PE_SendRequest 5 ''a'' (Some 20) (Some ''b'')))"
  using command_arrives [of 5 "Some 20" "''a''" "Some ''b''"] demo_utf8
  by (simp add: command_event_def COMMAND_EXIT_def COMMAND_REFRESH_def COMMAND_CONNECT_def)

end
