(* ===== verification/Pool_Machine.thy ===== *)
theory Pool_Machine
  imports Pool_Events
begin

text \<open>
  The state machine of a pool (\<open>libvdrtools/src/services/pool/pool.rs\<close>): opening and refreshing with the catch-up of
  the ledger, the requests of an active pool, closing.

  The networker is reached by effects (\<open>Eff (Net _)\<close>), as in \<open>Pool_Requests\<close>; the acknowledgements of commands are
  effects too. A \<open>RequestHandlerImpl\<close> is the request machine with the node keys it was made with. \<open>Inl ()\<close> is a
  panic. A state proof is checked by \<open>State_Proof\<close>, with the BLS keys of the nodes; a check that panics or never
  ends counts as a refusal. \<open>pool_run\<close> is the loop of the pool's thread over its queue of events, each with the
  time on the clock. \<open>Pool_Safety\<close> and \<open>Pool_Guarantees\<close> hold what is shown of the machine.
\<close>

record RequestHandler =
  rh_nodes :: Nodes
  rh_wrapper :: "RequestSM option"

record GettingCatchupTargetState =
  gt_request_handler :: RequestHandler
  gt_cmd_id :: command_handle
  gt_refresh :: bool

record ActiveState =
  as_request_handlers :: "(string \<times> RequestHandler) list"
  as_nodes :: Nodes
  as_merkle_tree :: MerkleTree

record SyncCatchupState =
  sc_request_handler :: RequestHandler
  sc_cmd_id :: command_handle
  sc_refresh :: bool

datatype PoolState =
    PS_Initialization
  | PS_GettingCatchupTarget GettingCatchupTargetState
  | PS_Active ActiveState
  | PS_SyncCatchup SyncCatchupState
  | PS_Terminated
  | PS_Closed

record PoolSM =
  pm_pool_name :: string
  pm_id :: int
  pm_timeout :: int
  pm_extended_timeout :: int
  pm_number_read_nodes :: "8 word"
  pm_transactions :: "string option"
  pm_pool_mode :: PoolMode
  pm_state :: PoolState

datatype pool_effect =
    Eff request_effect
  | Open_ack int "(indy_error, string) result"
  | Refresh_ack command_handle "(indy_error, string) result"
  | Close_ack command_handle

type_synonym pool_step = "(unit, PoolState \<times> pool_effect list \<times> pool_store) result"

definition PoolSM_new :: "string \<Rightarrow> int \<Rightarrow> int \<Rightarrow> int \<Rightarrow> 8 word \<Rightarrow> string option \<Rightarrow> PoolMode \<Rightarrow> PoolSM" where
  "PoolSM_new pname handle timeout extended_timeout number_read_nodes transactions pool_mode =
     \<lparr>pm_pool_name = pname, pm_id = handle, pm_timeout = timeout, pm_extended_timeout = extended_timeout,
      pm_number_read_nodes = number_read_nodes, pm_transactions = transactions, pm_pool_mode = pool_mode,
      pm_state = PS_Initialization\<rparr>"

subsection \<open>Request handlers\<close>

definition request_env_of :: "pool_env \<Rightarrow> Nodes \<Rightarrow> request_env" where
  "request_env_of pe nodes =
     \<lparr>re_codec = pl_codec pe,
      re_state_proof = (\<lambda>result raw_msg sp_key names f. check_reply_proof (pl_lib pe) nodes f result sp_key = Some (Inr True)),
      re_now = pl_now pe, re_threshold = pl_threshold pe\<rparr>"

definition RequestHandler_new :: "PoolSM \<Rightarrow> command_handle list \<Rightarrow> Nodes \<Rightarrow> RequestHandler" where
  "RequestHandler_new sm cmd_ids nodes =
     \<lparr>rh_nodes = nodes,
      rh_wrapper = Some (RequestSM_new (get_f (length nodes)) cmd_ids (map fst nodes) (pm_timeout sm)
        (pm_extended_timeout sm) (pm_number_read_nodes sm) (pm_pool_mode sm))\<rparr>"

definition process_event ::
    "pool_env \<Rightarrow> RequestHandler \<Rightarrow> RequestEvent option \<Rightarrow> pool_store
       \<Rightarrow> (unit, RequestHandler \<times> PoolEvent option \<times> pool_effect list \<times> pool_store) result" where
  "process_event pe h ore store =
     res_bind (RequestHandler_process_event (request_env_of pe (rh_nodes h)) (rh_wrapper h) ore store)
       (\<lambda>(w, ev, es, store'). Inr (h\<lparr>rh_wrapper := w\<rparr>, ev, map Eff es, store'))"

definition ledger_status :: "pool_env \<Rightarrow> MerkleTree \<Rightarrow> LedgerStatus" where
  "ledger_status pe merkle =
     \<lparr>ls_txnSeqNo = mt_count merkle, ls_merkleRoot = cd_b58enc (pl_codec pe) (MerkleTree_root_hash merkle),
      ls_ledgerId = 0, ls_ppSeqNo = None, ls_viewNo = None,
      ls_protocolVersion = (if 1 < pl_protocol_version pe then Some (pl_protocol_version pe) else None)\<rparr>"

definition tree_and_nodes :: "pool_env \<Rightarrow> MerkleTree \<Rightarrow> (MerkleTree \<times> Nodes \<times> RemoteNode list) indy_result" where
  "tree_and_nodes pe merkle =
     res_bind (get_nodes_and_remotes pe merkle) (\<lambda>(nodes, remotes). Inr (merkle, nodes, remotes))"

definition load_tree ::
    "pool_env \<Rightarrow> PoolSM \<Rightarrow> MerkleTree option \<Rightarrow> pool_store \<Rightarrow> (MerkleTree \<times> Nodes \<times> RemoteNode list) indy_result \<times> pool_store" where
  "load_tree pe sm merkle_tree store =
     (case pm_pool_mode sm of
        InMemory \<Rightarrow>
          (res_bind
             (case merkle_tree of
                Some mt \<Rightarrow> Inr mt
              | None \<Rightarrow>
                  res_bind (ok_or (pm_transactions sm) (Err (err_msg IE_InvalidState
                    ''PoolSM doesn't contain transactions while InMemory mode is used''))) (from_raw_data (pl_codec pe)))
             (tree_and_nodes pe), store)
      | Persistent \<Rightarrow>
          (case create_tree (pl_codec pe) store of
             Inl e \<Rightarrow> (Inl e, store)
           | Inr merkle \<Rightarrow>
               (case tree_and_nodes pe merkle of
                  Inr n \<Rightarrow> (Inr n, store)
                | Inl Panic \<Rightarrow> (Inl Panic, store)
                | Inl (Err err) \<Rightarrow>
                    (case drop_cache store of
                       (Inr _, store') \<Rightarrow> (res_bind (create_tree (pl_codec pe) store') (tree_and_nodes pe), store')
                     | (Inl _, store') \<Rightarrow> (Inl (Err err), store')))))"

definition get_request_handler_with_ledger_status_sent ::
    "pool_env \<Rightarrow> PoolSM \<Rightarrow> MerkleTree option \<Rightarrow> pool_store
       \<Rightarrow> (unit, (indy_error, RequestHandler) result \<times> pool_effect list \<times> pool_store) result" where
  "get_request_handler_with_ledger_status_sent pe sm merkle_tree store =
     (case load_tree pe sm merkle_tree store of
        (Inl Panic, _) \<Rightarrow> Inl ()
      | (Inl (Err err), store') \<Rightarrow> Inr (Inl err, [], store')
      | (Inr (merkle, nodes, remotes), store') \<Rightarrow>
          res_bind (process_event pe (RequestHandler_new sm [] nodes)
                      (Some (RE_LedgerStatus (ledger_status pe merkle) None (Some merkle))) store')
            (\<lambda>(h, _, es, store''). Inr (Inr h, Eff (Net (NodesStateUpdated remotes)) # es, store'')))"

subsection \<open>Acknowledgements\<close>

definition open_refresh_ack :: "PoolSM \<Rightarrow> command_handle \<Rightarrow> bool \<Rightarrow> (indy_error, string) result \<Rightarrow> pool_effect" where
  "open_refresh_ack sm cmd_id is_refresh res =
     (if is_refresh then Refresh_ack cmd_id res else Open_ack (pm_id sm) res)"

definition caught :: "'a indy_result \<Rightarrow> (unit, (indy_error, 'a) result) result" where
  "caught r = (case r of Inr x \<Rightarrow> Inr (Inr x) | Inl (Err e) \<Rightarrow> Inr (Inl e) | Inl Panic \<Rightarrow> Inl ())"

subsection \<open>Transitions\<close>

text \<open>Continue with the nodes of a tree; a tree without a node state terminates the pool.\<close>

definition with_nodes :: "pool_env \<Rightarrow> MerkleTree \<Rightarrow> pool_effect list \<Rightarrow> pool_store
    \<Rightarrow> (Nodes \<Rightarrow> RemoteNode list \<Rightarrow> pool_step) \<Rightarrow> pool_step" where
  "with_nodes pe merkle es store k =
     res_bind (caught (get_nodes_and_remotes pe merkle)) (\<lambda>r.
       case r of Inl _ \<Rightarrow> Inr (PS_Terminated, es, store) | Inr (nodes, remotes) \<Rightarrow> k nodes remotes)"

definition become_active :: "pool_env \<Rightarrow> PoolSM \<Rightarrow> command_handle \<Rightarrow> bool \<Rightarrow> MerkleTree \<Rightarrow> pool_effect list \<Rightarrow> pool_store \<Rightarrow> pool_step" where
  "become_active pe sm cmd_id refresh merkle es store =
     with_nodes pe merkle es store (\<lambda>nodes remotes.
       res_bind (caught (dump_to_json_string pe merkle)) (\<lambda>json_string.
         Inr (PS_Active \<lparr>as_request_handlers = [], as_nodes = nodes, as_merkle_tree = merkle\<rparr>,
              es @ [Eff (Net (NodesStateUpdated remotes)), open_refresh_ack sm cmd_id refresh json_string], store)))"

definition close_handler :: "pool_env \<Rightarrow> RequestHandler \<Rightarrow> command_handle \<Rightarrow> pool_effect list \<Rightarrow> pool_store \<Rightarrow> pool_step" where
  "close_handler pe h cmd_id es store =
     res_bind (process_event pe h (Some RE_Terminate) store) (\<lambda>(_, _, es', store').
       Inr (PS_Closed, es @ Close_ack cmd_id # es', store'))"

definition step_initialization :: "pool_env \<Rightarrow> PoolSM \<Rightarrow> PoolEvent \<Rightarrow> pool_store \<Rightarrow> pool_step" where
  "step_initialization pe sm ev store =
     (case ev of
        PE_CheckCache cmd_id \<Rightarrow>
          res_bind (get_request_handler_with_ledger_status_sent pe sm None store) (\<lambda>(r, es, store').
            case r of
              Inr h \<Rightarrow> Inr (PS_GettingCatchupTarget
                \<lparr>gt_request_handler = h, gt_cmd_id = cmd_id, gt_refresh = False\<rparr>, es, store')
            | Inl err \<Rightarrow> Inr (PS_Terminated, es @ [Open_ack (pm_id sm) (Inl err)], store'))
      | PE_Close cmd_id \<Rightarrow> Inr (PS_Closed, [Close_ack cmd_id], store)
      | _ \<Rightarrow> Inr (PS_Initialization, [], store))"

definition step_getting :: "pool_env \<Rightarrow> PoolSM \<Rightarrow> GettingCatchupTargetState \<Rightarrow> PoolEvent \<Rightarrow> pool_store \<Rightarrow> pool_step" where
  "step_getting pe sm state pool_event store =
     res_bind (process_event pe (gt_request_handler state) (PoolEvent_into pe pool_event) store) (\<lambda>(h, out, es, store').
       case unwrap_or out pool_event of
         PE_Close cmd_id \<Rightarrow> close_handler pe h cmd_id es store'
       | PE_CatchupTargetNotFound err \<Rightarrow>
           Inr (PS_Terminated, es @ [open_refresh_ack sm (gt_cmd_id state) (gt_refresh state) (Inl err)], store')
       | PE_CatchupRestart merkle \<Rightarrow>
           with_nodes pe merkle es store' (\<lambda>nodes remotes.
             res_bind (process_event pe (RequestHandler_new sm [] nodes)
                         (Some (RE_LedgerStatus (ledger_status pe merkle) None (Some merkle))) store') (\<lambda>(h', _, es', store'').
               Inr (PS_GettingCatchupTarget (state\<lparr>gt_request_handler := h'\<rparr>),
                    es @ Eff (Net (NodesStateUpdated remotes)) # es', store'')))
       | PE_CatchupTargetFound root n merkle \<Rightarrow>
           with_nodes pe merkle es store' (\<lambda>nodes remotes.
             res_bind (process_event pe (RequestHandler_new sm [] nodes) (Some (RE_CatchupReq merkle n root)) store')
               (\<lambda>(h', _, es', store'').
                 Inr (PS_SyncCatchup \<lparr>sc_request_handler = h', sc_cmd_id = gt_cmd_id state, sc_refresh = gt_refresh state\<rparr>,
                      es @ Eff (Net (NodesStateUpdated remotes)) # es', store'')))
       | PE_Synced merkle \<Rightarrow> become_active pe sm (gt_cmd_id state) (gt_refresh state) merkle es store'
       | _ \<Rightarrow> Inr (PS_GettingCatchupTarget (state\<lparr>gt_request_handler := h\<rparr>), es, store'))"

definition refreshed :: "pool_env \<Rightarrow> PoolSM \<Rightarrow> MerkleTree option \<Rightarrow> command_handle \<Rightarrow> pool_store \<Rightarrow> pool_step" where
  "refreshed pe sm merkle_tree cmd_id store =
     res_bind (get_request_handler_with_ledger_status_sent pe sm merkle_tree store) (\<lambda>(r, es, store').
       case r of
         Inr h \<Rightarrow> Inr (PS_GettingCatchupTarget
           \<lparr>gt_request_handler = h, gt_cmd_id = cmd_id, gt_refresh = True\<rparr>, es, store')
       | Inl _ \<Rightarrow> Inr (PS_Terminated, es, store'))"

definition networker_timeout :: "string \<Rightarrow> pool_effect list" where
  "networker_timeout req_id = (if req_id = [] then [Eff (Net NW_Timeout)] else [])"

definition step_terminated :: "pool_env \<Rightarrow> PoolSM \<Rightarrow> PoolEvent \<Rightarrow> pool_store \<Rightarrow> pool_step" where
  "step_terminated pe sm ev store =
     (case ev of
        PE_Close cmd_id \<Rightarrow> Inr (PS_Closed, [Close_ack cmd_id], store)
      | PE_Refresh cmd_id \<Rightarrow> refreshed pe sm None cmd_id store
      | PE_Timeout req_id node_alias \<Rightarrow> Inr (PS_Terminated, networker_timeout req_id, store)
      | _ \<Rightarrow> Inr (PS_Terminated, [], store))"

fun terminate_all ::
    "pool_env \<Rightarrow> (string \<times> RequestHandler) list \<Rightarrow> pool_store \<Rightarrow> (unit, pool_effect list \<times> pool_store) result" where
  "terminate_all pe [] store = Inr ([], store)"
| "terminate_all pe ((_, h) # hs) store =
     res_bind (process_event pe h (Some RE_Terminate) store) (\<lambda>(_, _, es, store').
     res_bind (terminate_all pe hs store') (\<lambda>(es', store''). Inr (es @ es', store'')))"

definition RequestHandler_done :: "RequestHandler \<Rightarrow> bool" where
  "RequestHandler_done h = RequestHandler_is_terminal (rh_wrapper h)"

definition pool_send_request :: "pool_env \<Rightarrow> PoolSM \<Rightarrow> ActiveState \<Rightarrow> command_handle \<Rightarrow> RequestEvent option \<Rightarrow> pool_store \<Rightarrow> pool_step" where
  "pool_send_request pe sm state cmd_id ore store =
     (case ore of
        Some re \<Rightarrow>
          res_bind (process_event pe (RequestHandler_new sm [cmd_id] (as_nodes state)) (Some re) store) (\<lambda>(h, _, es, store').
            Inr (PS_Active (state\<lparr>as_request_handlers := dict_insert (get_req_id re) h (as_request_handlers state)\<rparr>), es, store'))
      | None \<Rightarrow>
          Inr (PS_Active state, [Eff (Ack cmd_id (Inl (err_msg IE_InvalidStructure ''Request id not found'')))], store))"

definition node_reply :: "pool_env \<Rightarrow> ActiveState \<Rightarrow> RequestEvent option \<Rightarrow> pool_store \<Rightarrow> pool_step" where
  "node_reply pe state ore store =
     (case ore of
        None \<Rightarrow> Inr (PS_Active state, [], store)
      | Some re \<Rightarrow>
          let req_id = get_req_id re; handlers = as_request_handlers state
          in case map_of handlers req_id of
               None \<Rightarrow> Inr (PS_Active state, [], store)
             | Some rh \<Rightarrow>
                 res_bind (process_event pe rh (Some re) store) (\<lambda>(h, _, es, store').
                   Inr (PS_Active (state\<lparr>as_request_handlers :=
                      (if RequestHandler_done h then filter (\<lambda>(k, _). k \<noteq> req_id) handlers else dict_insert req_id h handlers)\<rparr>),
                      es, store')))"

definition step_active :: "pool_env \<Rightarrow> PoolSM \<Rightarrow> ActiveState \<Rightarrow> PoolEvent \<Rightarrow> pool_store \<Rightarrow> pool_step" where
  "step_active pe sm state ev store =
     (case ev of
        PE_PoolOutdated \<Rightarrow> Inr (PS_Terminated, [], store)
      | PE_Close cmd_id \<Rightarrow>
          res_bind (terminate_all pe (as_request_handlers state) store) (\<lambda>(es, store').
            Inr (PS_Closed, Close_ack cmd_id # es, store'))
      | PE_Refresh cmd_id \<Rightarrow> refreshed pe sm (Some (as_merkle_tree state)) cmd_id store
      | PE_SendRequest cmd_id _ _ _ \<Rightarrow> pool_send_request pe sm state cmd_id (PoolEvent_into pe ev) store
      | PE_NodeReply reply node \<Rightarrow> node_reply pe state (PoolEvent_into pe ev) store
      | PE_Timeout req_id node_alias \<Rightarrow>
          (case map_of (as_request_handlers state) req_id of
             Some rh \<Rightarrow>
               res_bind (process_event pe rh (PoolEvent_into pe ev) store) (\<lambda>(h, _, es, store').
                 Inr (PS_Active (state\<lparr>as_request_handlers := dict_insert req_id h (as_request_handlers state)\<rparr>), es, store'))
           | None \<Rightarrow> Inr (PS_Active state, networker_timeout req_id, store))
      | _ \<Rightarrow> Inr (PS_Active state, [], store))"

definition step_sync :: "pool_env \<Rightarrow> PoolSM \<Rightarrow> SyncCatchupState \<Rightarrow> PoolEvent \<Rightarrow> pool_store \<Rightarrow> pool_step" where
  "step_sync pe sm state pool_event store =
     res_bind (process_event pe (sc_request_handler state) (PoolEvent_into pe pool_event) store) (\<lambda>(h, out, es, store').
       case unwrap_or out pool_event of
         PE_Close cmd_id \<Rightarrow> close_handler pe h cmd_id es store'
       | PE_NodesBlacklisted \<Rightarrow> Inr (PS_Terminated, es, store')
       | PE_Synced merkle \<Rightarrow> become_active pe sm (sc_cmd_id state) (sc_refresh state) merkle es store'
       | _ \<Rightarrow> Inr (PS_SyncCatchup (state\<lparr>sc_request_handler := h\<rparr>), es, store'))"

definition PoolSM_handle_event ::
    "pool_env \<Rightarrow> PoolSM \<Rightarrow> PoolEvent \<Rightarrow> pool_store \<Rightarrow> (unit, PoolSM \<times> pool_effect list \<times> pool_store) result" where
  "PoolSM_handle_event pe sm ev store =
     res_bind
       (case pm_state sm of
          PS_Initialization \<Rightarrow> step_initialization pe sm ev store
        | PS_GettingCatchupTarget state \<Rightarrow> step_getting pe sm state ev store
        | PS_Terminated \<Rightarrow> step_terminated pe sm ev store
        | PS_Closed \<Rightarrow> Inr (PS_Closed, [], store)
        | PS_Active state \<Rightarrow> step_active pe sm state ev store
        | PS_SyncCatchup state \<Rightarrow> step_sync pe sm state ev store)
       (\<lambda>(state, es, store'). Inr (sm\<lparr>pm_state := state\<rparr>, es, store'))"

definition PoolSM_is_terminal :: "PoolSM \<Rightarrow> bool" where
  "PoolSM_is_terminal sm = (case pm_state sm of PS_Closed \<Rightarrow> True | _ \<Rightarrow> False)"

text \<open>\<open>PoolThread::_loop\<close> over the queue of events; \<open>True\<close> ends the thread.\<close>

fun pool_run ::
    "pool_env \<Rightarrow> PoolSM \<Rightarrow> (64 word \<times> PoolEvent) list \<Rightarrow> pool_store \<Rightarrow> (unit, PoolSM \<times> pool_effect list \<times> pool_store) result" where
  "pool_run pe sm [] store = Inr (sm, [], store)"
| "pool_run pe sm ((now, ev) # evs) store =
     res_bind (PoolSM_handle_event (pe\<lparr>pl_now := now\<rparr>) sm ev store) (\<lambda>(sm1, es, store1).
     res_bind (pool_run pe sm1 evs store1) (\<lambda>(sm', es', store'). Inr (sm', es @ es', store')))"

definition PoolThread_loop ::
    "pool_env \<Rightarrow> PoolSM \<Rightarrow> (64 word \<times> PoolEvent) list \<Rightarrow> pool_store \<Rightarrow> (unit, bool \<times> PoolSM \<times> pool_effect list \<times> pool_store) result" where
  "PoolThread_loop pe sm evs store =
     res_bind (pool_run pe sm evs store) (\<lambda>(sm', es, store'). Inr (PoolSM_is_terminal sm', sm', es, store'))"

end
