(* ===== verification/Pool_Safety.thy ===== *)
theory Pool_Safety
  imports Pool_Machine
begin

text \<open>
  What the pool machine guarantees over every sequence of events. The invariant ties each request of an active
  pool to the command that asked for it and to the replies received so far (with the invariants of
  \<open>Pool_Requests\<close>), and the ledger of the pool to the reports of the nodes (with those of \<open>Pool_Catchup\<close>).
\<close>

subsection \<open>What the nodes sent\<close>

definition history :: "pool_env \<Rightarrow> PoolEvent list \<Rightarrow> RequestEvent list" where
  "history pe evs = List.map_filter (PoolEvent_into pe) evs"

definition asked :: "pool_env \<Rightarrow> PoolEvent list \<Rightarrow> command_handle \<Rightarrow> RequestEvent \<Rightarrow> bool" where
  "asked pe evs i re =
     (\<exists>msg timeout nodes. PE_SendRequest i msg timeout nodes \<in> set evs \<and> send_request_event pe msg timeout nodes = Some re)"

fun status_report :: "RequestEvent \<Rightarrow> (string \<times> string \<times> nat) option" where
  "status_report (RE_LedgerStatus ls (Some node) _) = Some (node, ls_merkleRoot ls, ls_txnSeqNo ls)"
| "status_report (RE_ConsistencyProof cp node) = Some (node, cp_newMerkleRoot cp, cp_seqNoEnd cp)"
| "status_report _ = None"

definition reported :: "RequestEvent list \<Rightarrow> string \<Rightarrow> string \<Rightarrow> nat \<Rightarrow> bool" where
  "reported hist node r n = (\<exists>re \<in> set hist. status_report re = Some (node, r, n))"

fun effect_of :: "pool_effect \<Rightarrow> request_effect option" where
  "effect_of (Eff e) = Some e"
| "effect_of _ = None"

definition submitted :: "pool_effect list \<Rightarrow> (command_handle \<times> (indy_error, string) result) list" where
  "submitted es = answers (List.map_filter effect_of es)"

lemma map_filter_append [simp]: "List.map_filter f (xs @ ys) = List.map_filter f xs @ List.map_filter f ys"
  by (simp add: List.map_filter_def)

lemma map_filter_Nil [simp]: "List.map_filter f [] = []"
  by (simp add: List.map_filter_def)

lemma history_simps [simp]:
  "history pe [] = []"
  "history pe (evs @ evs') = history pe evs @ history pe evs'"
  "history pe [ev] = (case PoolEvent_into pe ev of None \<Rightarrow> [] | Some re \<Rightarrow> [re])"
  by (simp_all add: history_def) (simp add: List.map_filter_def split: option.splits)

lemma submitted_simps [simp]:
  "submitted [] = []"
  "submitted (es @ es') = submitted es @ submitted es'"
  "submitted (map Eff res) = answers res"
  "submitted (Eff (Net e) # es) = submitted es"
  "submitted (Eff (Ack i r) # es) = (i, r) # submitted es"
  "submitted (Open_ack h r # es) = submitted es"
  "submitted (Refresh_ack i r # es) = submitted es"
  "submitted (Close_ack i # es) = submitted es"
proof -
  have "List.map_filter effect_of (map Eff res) = res" by (induction res) (simp_all add: List.map_filter_def)
  then show "submitted (map Eff res) = answers res" by (simp add: submitted_def)
qed (auto simp: submitted_def List.map_filter_def)

lemma submitted_open_refresh [simp]: "submitted (open_refresh_ack sm i b r # es) = submitted es"
  by (simp add: open_refresh_ack_def)

lemma asked_mono: "asked pe evs i re \<Longrightarrow> asked pe (evs @ evs') i re"
  by (auto simp: asked_def)

lemma reported_mono: "reported hist node r n \<Longrightarrow> reported (hist @ hist') node r n"
  by (auto simp: reported_def)

subsection \<open>The clock does not matter for what is read\<close>

lemma clock_free [simp]:
  "PoolEvent_into (pe\<lparr>pl_now := t\<rparr>) = PoolEvent_into pe"
  "send_request_event (pe\<lparr>pl_now := t\<rparr>) = send_request_event pe"
  "node_and_remote (pe\<lparr>pl_now := t\<rparr>) = node_and_remote pe"
  "current_version (pe\<lparr>pl_now := t\<rparr>) = current_version pe"
  "ledger_status (pe\<lparr>pl_now := t\<rparr>) = ledger_status pe"
  by (simp_all add: fun_eq_iff PoolEvent_into_def send_request_event_def node_and_remote_def current_version_def
      ledger_status_def split: PoolEvent.splits NodeTransaction.splits cong: if_cong option.case_cong prod.case_cong)

lemma node_state_clock: "node_state_loop (pe\<lparr>pl_now := t\<rparr>) ns txns = node_state_loop pe ns txns"
  by (induction txns arbitrary: ns) (simp_all cong: option.case_cong if_cong)

lemma nodes_clock [simp]: "get_nodes_and_remotes (pe\<lparr>pl_now := t\<rparr>) = get_nodes_and_remotes pe"
  by (simp add: fun_eq_iff get_nodes_and_remotes_def build_node_state_def node_state_clock add_node_def [abs_def])

subsection \<open>Requests of clients\<close>

abbreviation base_env :: "pool_env \<Rightarrow> request_env" where
  "base_env pe \<equiv> request_env_of pe []"

lemma codec_only:
  "reply_value (request_env_of (pe\<lparr>pl_now := t\<rparr>) ns) = reply_value (base_env pe)"
  "voted (request_env_of (pe\<lparr>pl_now := t\<rparr>) ns) = voted (base_env pe)"
  "backed (request_env_of (pe\<lparr>pl_now := t\<rparr>) ns) = backed (base_env pe)"
  "consensus_inv (request_env_of (pe\<lparr>pl_now := t\<rparr>) ns) = consensus_inv (base_env pe)"
  "single_inv (request_env_of (pe\<lparr>pl_now := t\<rparr>) ns) = single_inv (base_env pe)"
proof -
  show r: "reply_value (request_env_of (pe\<lparr>pl_now := t\<rparr>) ns) = reply_value (base_env pe)"
    by (simp add: fun_eq_iff reply_value_def request_env_of_def)
  show v: "voted (request_env_of (pe\<lparr>pl_now := t\<rparr>) ns) = voted (base_env pe)" by (simp add: fun_eq_iff voted_def r)
  show "backed (request_env_of (pe\<lparr>pl_now := t\<rparr>) ns) = backed (base_env pe)"
    "consensus_inv (request_env_of (pe\<lparr>pl_now := t\<rparr>) ns) = consensus_inv (base_env pe)"
    "single_inv (request_env_of (pe\<lparr>pl_now := t\<rparr>) ns) = single_inv (base_env pe)"
    by (simp_all add: fun_eq_iff backed_def consensus_inv_def single_inv_def r v)
qed

text \<open>What a full request has collected: the reply of each node, or that it timed out.\<close>

definition full_inv :: "RequestEvent list \<Rightarrow> (string \<times> json) list \<Rightarrow> bool" where
  "full_inv hist accum =
     list_all (\<lambda>(node, v). \<exists>raw. v = JString raw \<and> ((raw, node) \<in> replied hist \<or> raw = ''timeout'')) accum"

definition collected :: "pool_env \<Rightarrow> RequestEvent list \<Rightarrow> string \<Rightarrow> bool" where
  "collected pe hist m = (\<exists>accum. m = cd_json_print (pl_codec pe) (JObject accum) \<and> full_inv hist accum)"

definition proof_checked ::
    "pool_env \<Rightarrow> RequestEvent list \<Rightarrow> Nodes \<Rightarrow> bytes option \<Rightarrow> timestamps \<Rightarrow> string \<Rightarrow> bool" where
  "proof_checked pe hist nodes key ts m =
     (\<exists>now node result time. (m, node) \<in> replied hist
        \<and> map_option fst (get_msg_result_without_state_proof (pl_codec pe) m) = Some result
        \<and> get_last_signed_time (pl_codec pe) m = Inr time
        \<and> check_reply_proof (pl_lib pe) nodes (get_f (length nodes)) result key = Some (Inr True)
        \<and> check_freshness (request_env_of (pe\<lparr>pl_now := now\<rparr>) nodes) result ts (unwrap_or time 0))"

definition answer_ok :: "pool_env \<Rightarrow> RequestEvent list \<Rightarrow> Nodes \<Rightarrow> RequestEvent \<Rightarrow> string \<Rightarrow> bool" where
  "answer_ok pe hist nodes re m =
     (case re of
        RE_CustomConsensusRequest _ _ \<Rightarrow> backed (base_env pe) hist (get_f (length nodes)) m
      | RE_CustomSingleRequest _ _ key ts \<Rightarrow>
          backed (base_env pe) hist (get_f (length nodes)) m \<or> proof_checked pe hist nodes key ts m
      | RE_CustomFullRequest _ _ _ _ \<Rightarrow> collected pe hist m
      | _ \<Rightarrow> False)"

definition state_ok :: "pool_env \<Rightarrow> RequestEvent list \<Rightarrow> RequestEvent \<Rightarrow> RequestState \<Rightarrow> bool" where
  "state_ok pe hist re s =
     (case s of
        RS_Consensus st \<Rightarrow> (\<exists>m i. re = RE_CustomConsensusRequest m i) \<and> consensus_inv (base_env pe) hist st
      | RS_Single st \<Rightarrow>
          (\<exists>m i. re = RE_CustomSingleRequest m i (ss_sp_key st) (ss_timestamps st)) \<and> single_inv (base_env pe) hist st
      | RS_Full st \<Rightarrow>
          (\<exists>m i t ns. re = RE_CustomFullRequest m i t ns) \<and> full_inv hist (unwrap_or (fs_accum_reply st) [])
      | RS_Finish \<Rightarrow> True
      | _ \<Rightarrow> False)"

lemma full_inv_mono: "full_inv hist accum \<Longrightarrow> full_inv (hist @ hist') accum"
  by (fastforce simp: full_inv_def list_all_iff)

lemma state_ok_mono: "state_ok pe hist re s \<Longrightarrow> state_ok pe (hist @ hist') re s"
  by (cases s) (auto simp: state_ok_def consensus_inv_mono single_inv_mono full_inv_mono)

lemma full_collects:
  assumes "full_inv hist (unwrap_or (fs_accum_reply st) [])" "(raw, node) \<in> replied hist \<or> raw = ''timeout''"
    and "full_request_handle_consensus_state env sm st req node raw = (s, es)" "re_codec env = pl_codec pe"
  shows "(\<forall>st'. s = RS_Full st' \<longrightarrow> full_inv hist (unwrap_or (fs_accum_reply st') []))
     \<and> (\<forall>i m. (i, Inr m) \<in> set (answers es) \<longrightarrow> collected pe hist m)"
proof -
  let ?accum = "dict_insert node (JString raw) (unwrap_or (fs_accum_reply st) [])"
  have "full_inv hist ?accum" using assms(1,2) by (auto simp: full_inv_def list_all_iff dest!: dict_insert_in)
  then show ?thesis
    using assms(3,4) by (auto simp: full_request_handle_consensus_state_def Let_def collected_def split: if_splits)
qed

lemma handle_full_inv:
  assumes "full_inv hist (unwrap_or (fs_accum_reply st) [])" "handle_full env sm st re = (s, es)" "re_codec env = pl_codec pe"
  shows "(s = RS_Finish \<or> (\<exists>st'. s = RS_Full st' \<and> full_inv (hist @ [re]) (unwrap_or (fs_accum_reply st') [])))
     \<and> (\<forall>i m. (i, Inr m) \<in> set (answers es) \<longrightarrow> collected pe (hist @ [re]) m)"
proof -
  note inv = full_inv_mono [OF assms(1), of "[re]"]
  have shape: "s = RS_Finish \<or> (\<exists>st'. s = RS_Full st')"
    using assms(2) by (cases re) (auto simp: handle_full_def full_request_handle_consensus_state_def Let_def split: if_splits)
  consider (collect) raw node req where "full_request_handle_consensus_state env sm st req node raw = (s, es)"
      "(raw, node) \<in> replied (hist @ [re]) \<or> raw = ''timeout''"
    | (other) "s = RS_Full st \<or> s = RS_Finish" "\<forall>i m. (i, Inr m) \<notin> set (answers es)"
    using assms(2) by (cases re) (force simp: handle_full_def)+
  then show ?thesis
  proof cases
    case collect
    then show ?thesis using full_collects [OF inv _ collect(1) assms(3)] shape by auto
  next
    case other
    then show ?thesis using inv by auto
  qed
qed

text \<open>A handler of an active pool serves the command that asked for its request.\<close>

definition serving :: "pool_env \<Rightarrow> PoolEvent list \<Rightarrow> Nodes \<Rightarrow> RequestHandler \<Rightarrow> bool" where
  "serving pe evs nodes h =
     (rh_nodes h = nodes \<and> (\<exists>w i re. rh_wrapper h = Some w \<and> rq_cmd_ids w = [i] \<and> rq_f w = get_f (length nodes)
        \<and> rq_nodes w = map fst nodes \<and> asked pe evs i re \<and> state_ok pe (history pe evs) re (rq_state w)))"

lemma serving_mono: "serving pe evs nodes h \<Longrightarrow> serving pe (evs @ evs') nodes h"
  using asked_mono state_ok_mono by (fastforce simp: serving_def)

lemma settled_commands: "settles sm s es \<Longrightarrow> fst ` set (answers es) \<subseteq> set (rq_cmd_ids sm)"
  by (auto simp: settles_def split: if_splits)

lemma proven_checked:
  assumes "proven (request_env_of (pe\<lparr>pl_now := t\<rparr>) nodes) hist w key ts m" "rq_f w = get_f (length nodes)" "rq_nodes w = map fst nodes"
  shows "proof_checked pe hist nodes key ts m"
  using assms unfolding proven_def proof_checked_def check_state_proof_def by (fastforce simp: request_env_of_def)

lemma state_ok_cases:
  assumes "state_ok pe hist re s"
  obtains (consensus) st m i where "s = RS_Consensus st" "re = RE_CustomConsensusRequest m i" "consensus_inv (base_env pe) hist st"
    | (single) st m i where "s = RS_Single st" "re = RE_CustomSingleRequest m i (ss_sp_key st) (ss_timestamps st)"
        "single_inv (base_env pe) hist st"
    | (full) st m i t ns where "s = RS_Full st" "re = RE_CustomFullRequest m i t ns" "full_inv hist (unwrap_or (fs_accum_reply st) [])"
    | (finish) "s = RS_Finish"
  using assms by (cases s) (auto simp: state_ok_def)

lemma request_step_ok:
  assumes "state_ok pe hist re (rq_state w)" "rq_f w = get_f (length nodes)" "rq_nodes w = map fst nodes"
    and "RequestSM_handle_event (request_env_of (pe\<lparr>pl_now := t\<rparr>) nodes) w ev store = Inr (w', out, es, store')"
  shows "state_ok pe (hist @ [ev]) re (rq_state w') \<and> (\<forall>i m. (i, Inr m) \<in> set (answers es) \<longrightarrow> answer_ok pe (hist @ [ev]) nodes re m)"
proof -
  let ?env = "request_env_of (pe\<lparr>pl_now := t\<rparr>) nodes"
  have codec: "re_codec ?env = pl_codec pe" by (simp add: request_env_of_def)
  from assms(1) show ?thesis
  proof (cases rule: state_ok_cases)
    case (consensus st m i)
    then have step: "handle_consensus ?env w st ev = (rq_state w', es)"
      using assms(4) by (auto simp: RequestSM_handle_event_def split: prod.splits)
    show ?thesis
      using handle_consensus_inv [of ?env hist st w ev, OF _ step] consensus_next [OF step] consensus assms(2)
      by (auto simp: codec_only state_ok_def answer_ok_def)
  next
    case (single st m i)
    then have step: "handle_single ?env w st ev = Inr (rq_state w', es)"
      using assms(4) by (auto simp: RequestSM_handle_event_def res_bind_Inr_iff)
    have "single_step_ok ?env (hist @ [ev]) w st (rq_state w') es"
      by (rule handle_single_ok [OF _ step]) (simp add: codec_only single)
    then show ?thesis
      using single_next [OF step] single assms(2,3) proven_checked [where w = w and hist = "hist @ [ev]" and t = t and nodes = nodes and pe = pe
          and key = "ss_sp_key st" and ts = "ss_timestamps st"]
      by (auto simp: single_step_ok_def codec_only state_ok_def answer_ok_def)
  next
    case (full st m i t' ns)
    then have step: "handle_full ?env w st ev = (rq_state w', es)"
      using assms(4) by (auto simp: RequestSM_handle_event_def split: prod.splits)
    show ?thesis
      using handle_full_inv [OF full(3) step codec] full by (auto simp: state_ok_def answer_ok_def)
  next
    case finish
    then show ?thesis using assms(4) by (auto simp: state_ok_def)
  qed
qed

lemma handle_start_commands:
  "handle_start env sm re store = (s, out, es, store') \<Longrightarrow> fst ` set (answers es) \<subseteq> set (rq_cmd_ids sm)"
proof (cases re)
  case (RE_CustomFullRequest msg req t ns)
  assume "handle_start env sm re store = (s, out, es, store')"
  then have "start_full env sm msg req t ns = (s, es)" using RE_CustomFullRequest by (auto simp: handle_start_def split: prod.splits)
  then show ?thesis using settles_start_full settled_commands by blast
qed (auto simp: handle_start_def split: option.splits prod.splits)

lemma catchup_consensus_commands:
  assumes "handle_catchup_consensus env sm st re store = Inr (s, out, es, store')"
  shows "fst ` set (answers es) \<subseteq> set (rq_cmd_ids sm)"
proof -
  have quiet: "answers es = []" if "catchup_target_handle_consensus_state env sm st v node req store = Inr (s, out, es, store')" for v node req
    using that by (auto simp: catchup_target_handle_consensus_state_def res_bind_Inr_iff split: if_splits option.splits PoolEvent.splits)
  show ?thesis
    using assms by (cases re) (auto simp: handle_catchup_consensus_def split: option.splits dest!: quiet)
qed

lemma catchup_single_commands:
  assumes "handle_catchup_single env sm st re store = Inr (s, out, es, store')"
  shows "fst ` set (answers es) \<subseteq> set (rq_cmd_ids sm)"
  using assms by (cases re) (auto simp: handle_catchup_single_def split: prod.splits sum.splits fault.splits)

lemma handle_event_commands:
  assumes "RequestSM_handle_event env sm re store = Inr (sm', out, es, store')"
  shows "fst ` set (answers es) \<subseteq> set (rq_cmd_ids sm)"
proof (cases "rq_state sm")
  case RS_Start
  then show ?thesis using assms by (auto simp: RequestSM_handle_event_def res_bind_Inr_iff split: prod.splits dest!: handle_start_commands)
next
  case (RS_CatchupConsensus st)
  then show ?thesis using assms by (auto simp: RequestSM_handle_event_def res_bind_Inr_iff dest!: catchup_consensus_commands)
next
  case (RS_CatchupSingle st)
  then show ?thesis using assms by (auto simp: RequestSM_handle_event_def res_bind_Inr_iff dest!: catchup_single_commands)
next
  case RS_Finish
  then show ?thesis using assms by auto
qed (use handle_event_client [OF assms] settled_commands [of sm "rq_state sm'" es] in simp_all)

subsection \<open>The ledger\<close>

definition has_values :: "pool_env \<Rightarrow> MerkleTree \<Rightarrow> bool" where
  "has_values pe mt = (\<exists>vs. represents (cd_sha (pl_codec pe)) mt vs)"

lemma values_clock [simp]: "has_values (pe\<lparr>pl_now := t\<rparr>) = has_values pe"
  by (simp add: fun_eq_iff has_values_def)

lemma append_lines_values: "append_lines cd mt ls = Inr mt' \<Longrightarrow> \<exists>vs. represents (cd_sha cd) mt vs \<Longrightarrow> \<exists>vs. represents (cd_sha cd) mt' vs"
proof (induction ls arbitrary: mt)
  case (Cons l ls)
  show ?case
  proof (cases "trim l = []")
    case False
    then obtain txn mt1 where "append_leaf (cd_sha cd) mt txn = Inr mt1" "append_lines cd mt1 ls = Inr mt'"
      using Cons.prems(1) by (auto simp: res_bind_Inr_iff)
    then show ?thesis using Cons.IH Cons.prems(2) append_represents by blast
  qed (use Cons in simp)
qed simp

lemma read_cache_values: "read_cache sha mt f = Inr mt' \<Longrightarrow> \<exists>vs. represents sha mt vs \<Longrightarrow> \<exists>vs. represents sha mt' vs"
proof (induction sha mt f rule: read_cache.induct)
  case (1 sha mt f)
  show ?case
  proof (cases "length f < 8")
    case True
    then show ?thesis using 1 by (simp add: read_cache.simps)
  next
    case False
    let ?n = "le_value (take 8 f)"
    obtain mt1 where step: "\<not> length (drop 8 f) < ?n" "append_leaf sha mt (take ?n (drop 8 f)) = Inr mt1"
        "read_cache sha mt1 (drop ?n (drop 8 f)) = Inr mt'"
      using 1(2) False by (subst (asm) read_cache.simps) (auto simp: Let_def fail_def split: if_splits sum.splits)
    then show ?thesis
      using 1(1) [OF False refl refl step(1)] 1(3) append_represents by fastforce
  qed
qed

lemma created_values: "create_tree (pl_codec pe) store = Inr mt \<Longrightarrow> has_values pe mt"
  using read_cache_values append_lines_values from_vec_represents
  by (fastforce simp: create_tree_def from_cache_def from_genesis_def has_values_def res_bind_Inr_iff fail_def Let_def
      split: option.splits if_splits prod.splits)

lemma raw_data_values: "from_raw_data (pl_codec pe) text = Inr mt \<Longrightarrow> has_values pe mt"
  using append_lines_values from_vec_represents by (fastforce simp: from_raw_data_def has_values_def res_bind_Inr_iff)

lemma tree_and_nodes_Inr: "tree_and_nodes pe mt = Inr (mt', nodes, remotes) \<longleftrightarrow> mt' = mt \<and> get_nodes_and_remotes pe mt = Inr (nodes, remotes)"
  by (auto simp: tree_and_nodes_def res_bind_Inr_iff)

lemma load_tree_values:
  assumes "load_tree pe sm omt store = (Inr (mt, nodes, remotes), store')" "pred_option (has_values pe) omt"
  shows "has_values pe mt \<and> get_nodes_and_remotes pe mt = Inr (nodes, remotes)"
  using assms
  by (auto simp: load_tree_def tree_and_nodes_Inr res_bind_Inr_iff created_values raw_data_values
      split: PoolMode.splits option.splits sum.splits fault.splits prod.splits)

text \<open>The tolerance \<open>f\<close> belongs to a list of nodes that the networker was told.\<close>

definition known_bound :: "pool_env \<Rightarrow> pool_effect list \<Rightarrow> nat \<Rightarrow> bool" where
  "known_bound pe log f =
     (\<exists>mt nodes remotes. get_nodes_and_remotes pe mt = Inr (nodes, remotes)
        \<and> Eff (Net (NodesStateUpdated remotes)) \<in> set log \<and> f = get_f (length nodes))"

definition nodes_agree :: "pool_env \<Rightarrow> PoolEvent list \<Rightarrow> pool_effect list \<Rightarrow> string \<Rightarrow> nat \<Rightarrow> bool" where
  "nodes_agree pe evs log r n =
     (\<exists>f nodes. known_bound pe log f \<and> card nodes = f + 1 \<and> (\<forall>node \<in> nodes. reported (history pe evs) node r n))"

definition votes_ok :: "RequestEvent list \<Rightarrow> node_votes \<Rightarrow> bool" where
  "votes_ok hist votes =
     list_all (\<lambda>((r, n, _), voters). distinct voters \<and> (r \<noteq> ''timeout'' \<longrightarrow> list_all (\<lambda>node. reported hist node r n) voters)) votes"

definition voting :: "pool_env \<Rightarrow> PoolEvent list \<Rightarrow> pool_effect list \<Rightarrow> RequestHandler \<Rightarrow> bool" where
  "voting pe evs log h =
     (\<exists>w. rh_wrapper h = Some w \<and> rq_cmd_ids w = [] \<and> known_bound pe log (rq_f w)
        \<and> (rq_state w = RS_Finish \<or> (\<exists>st. rq_state w = RS_CatchupConsensus st
              \<and> votes_ok (history pe evs) (cc_replies st) \<and> has_values pe (cc_merkle_tree st))))"

definition fetching :: "pool_env \<Rightarrow> PoolEvent list \<Rightarrow> pool_effect list \<Rightarrow> RequestHandler \<Rightarrow> bool" where
  "fetching pe evs log h =
     (\<exists>w. rh_wrapper h = Some w \<and> rq_cmd_ids w = []
        \<and> (rq_state w = RS_Finish \<or> (\<exists>st r. rq_state w = RS_CatchupSingle st \<and> has_values pe (csg_merkle_tree st)
              \<and> nodes_agree pe evs log r (csg_target_mt_size st) \<and> cd_b58dec (pl_codec pe) r = Some (csg_target_mt_root st))))"

definition current :: "pool_env \<Rightarrow> PoolEvent list \<Rightarrow> pool_effect list \<Rightarrow> MerkleTree \<Rightarrow> bool" where
  "current pe evs log mt =
     (has_values pe mt \<and> (\<exists>r n. nodes_agree pe evs log r n
        \<and> (mt_count mt = n \<and> r = cd_b58enc (pl_codec pe) (MerkleTree_root_hash mt)
           \<or> (\<exists>root bs. cd_b58dec (pl_codec pe) r = Some root \<and> consistency_proof (cd_sha (pl_codec pe)) mt root n bs = Inr True))))"

lemma known_bound_mono: "known_bound pe log f \<Longrightarrow> known_bound pe (log @ es) f"
  unfolding known_bound_def by (metis UnI1 set_append)

lemma nodes_agree_mono: "nodes_agree pe evs log r n \<Longrightarrow> nodes_agree pe (evs @ evs') (log @ es) r n"
  unfolding nodes_agree_def by (metis history_simps(2) known_bound_mono reported_mono)

lemma current_mono: "current pe evs log mt \<Longrightarrow> current pe (evs @ evs') (log @ es) mt"
  unfolding current_def using nodes_agree_mono by blast

lemma votes_ok_mono: "votes_ok hist votes \<Longrightarrow> votes_ok (hist @ hist') votes"
  using reported_mono by (fastforce simp: votes_ok_def list_all_iff)

lemma add_vote_ok:
  assumes "votes_ok hist votes" "r \<noteq> ''timeout'' \<Longrightarrow> reported hist node r n"
  shows "votes_ok hist (add_vote (r, n, hs) node votes)"
proof -
  let ?old = "unwrap_or (map_of votes (r, n, hs)) []"
  have "distinct ?old \<and> (r \<noteq> ''timeout'' \<longrightarrow> list_all (\<lambda>node. reported hist node r n) ?old)"
    using assms(1) by (cases "map_of votes (r, n, hs)") (auto simp: votes_ok_def list_all_iff dest!: map_of_SomeD)
  then show ?thesis
    using assms by (auto simp: votes_ok_def list_all_iff add_vote_def dest!: dict_insert_in)
qed

lemma votes_agree:
  assumes "votes_ok (history pe evs) votes" "((r, n, hs), vs) \<in> set votes" "r \<noteq> ''timeout''"
    and "length vs = f + 1" "known_bound pe log f"
  shows "nodes_agree pe evs log r n"
  unfolding nodes_agree_def
proof (intro exI conjI)
  show "known_bound pe log f" by (rule assms(5))
  show "card (set vs) = f + 1" using assms(1,2,4) by (auto simp: votes_ok_def list_all_iff distinct_card)
  show "\<forall>node \<in> set vs. reported (history pe evs) node r n" using assms(1-3) by (auto simp: votes_ok_def list_all_iff)
qed

lemma restarted_tree:
  "reset_cache_and_restart_catch_up cd mode err store = (Inr (Restart mt), store') \<Longrightarrow> \<exists>s. create_tree cd s = Inr mt"
  "if_consensus_reachable cd nv n v f mode store = (Inr (Restart mt), store') \<Longrightarrow> \<exists>s. create_tree cd s = Inr mt"
  by (auto simp: reset_cache_and_restart_catch_up_def if_consensus_reachable_def Let_def res_bind_Inr_iff
      split: if_splits prod.splits sum.splits)

lemma no_restart_from_vote: "try_to_catch_up cd vote mt \<noteq> Inr (Restart mt')"
  by (cases vote) (auto simp: try_to_catch_up_def Let_def fail_def res_bind_Inr_iff)

lemma caught_up_tree:
  "try_to_catch_up cd vote mt = Inr p \<Longrightarrow> p = ShouldBeStarted root n mt' \<or> p = NotNeeded mt' \<Longrightarrow> mt' = mt"
  by (cases vote) (auto dest: try_to_catch_up_target)

text \<open>The tree of a verdict on the ledger status is the local one, or one loaded again.\<close>

lemma status_tree:
  assumes "check_nodes_responses_on_status cd votes mt n f mode store = (Inr p, store')"
    and "p = ShouldBeStarted root k mt' \<or> p = NotNeeded mt' \<or> p = Restart mt'"
  shows "mt' = mt \<or> (\<exists>s. create_tree cd s = Inr mt')"
proof (cases "max_by_key (length \<circ> snd) (filter (\<lambda>((root, _), _). root \<noteq> ''timeout'') votes)")
  case None
  then show ?thesis
    using assms by (auto simp: check_nodes_responses_on_status_def Let_def split: if_splits dest: restarted_tree not_restarted)
next
  case (Some b)
  obtain vote vs where b: "b = (vote, vs)" by (cases b)
  show ?thesis
  proof (cases "length vs = f + 1")
    case False
    then show ?thesis
      using assms Some b by (auto simp: check_nodes_responses_on_status_def Let_def dest: restarted_tree not_restarted)
  next
    case True
    then obtain mt1 where "mt1 = mt \<or> (\<exists>s. create_tree cd s = Inr mt1)" "try_to_catch_up cd vote mt1 = Inr p"
      using assms(1) Some b
      by (auto simp: check_nodes_responses_on_status_def Let_def res_bind_Inr_iff
          split: sum.splits fault.splits PoolMode.splits prod.splits)
    then show ?thesis using assms(2) no_restart_from_vote caught_up_tree by metis
  qed
qed

text \<open>What a handler that collects reports tells the pool.\<close>

definition verdict_ok :: "pool_env \<Rightarrow> PoolEvent list \<Rightarrow> pool_effect list \<Rightarrow> PoolEvent option \<Rightarrow> bool" where
  "verdict_ok pe evs log out =
     (case out of
        None \<Rightarrow> True
      | Some (PE_CatchupTargetNotFound _) \<Rightarrow> True
      | Some (PE_CatchupRestart mt) \<Rightarrow> has_values pe mt
      | Some (PE_CatchupTargetFound root n mt) \<Rightarrow>
          has_values pe mt \<and> (\<exists>r. nodes_agree pe evs log r n \<and> cd_b58dec (pl_codec pe) r = Some root)
      | Some (PE_Synced mt) \<Rightarrow> current pe evs log mt
      | _ \<Rightarrow> False)"

lemma target_ok:
  assumes "process_catchup_target env sm (r, n, hs) node st store = Inr ((fin, out), st', store')"
    and "re_codec env = pl_codec pe" "votes_ok (history pe evs) (cc_replies st)" "has_values pe (cc_merkle_tree st)"
    and "r \<noteq> ''timeout'' \<Longrightarrow> reported (history pe evs) node r n" "known_bound pe log (rq_f sm)"
  shows "votes_ok (history pe evs) (cc_replies st') \<and> cc_merkle_tree st' = cc_merkle_tree st \<and> verdict_ok pe evs log out"
proof -
  let ?votes = "add_vote (r, n, hs) node (cc_replies st)"
  obtain res store1 where check: "check_nodes_responses_on_status (pl_codec pe) ?votes (cc_merkle_tree st)
      (length (rq_nodes sm)) (rq_f sm) (rq_pool_mode sm) store = (res, store1)" by fastforce
  have st': "st' = st\<lparr>cc_replies := ?votes\<rparr>"
    and out: "(case res of Inr InProgress \<Rightarrow> out = None | Inr (NotNeeded mt) \<Rightarrow> out = Some (PE_Synced mt)
      | Inr (Restart mt) \<Rightarrow> out = Some (PE_CatchupRestart mt)
      | Inr (ShouldBeStarted root k mt) \<Rightarrow> out = Some (PE_CatchupTargetFound root k mt)
      | Inl (Err e) \<Rightarrow> out = Some (PE_CatchupTargetNotFound e) | Inl Panic \<Rightarrow> False)"
    using assms(1,2) check
    by (auto simp: process_catchup_target_def Let_def split: sum.splits fault.splits CatchupProgress.splits)
  have votes: "votes_ok (history pe evs) ?votes" using add_vote_ok [OF assms(3,5)] .
  have tree: "has_values pe mt" if "res = Inr p" "p = ShouldBeStarted root k mt \<or> p = NotNeeded mt \<or> p = Restart mt" for p root k mt
    using status_tree [OF check [unfolded that(1)] that(2)] assms(4) created_values by blast
  have agree: "\<exists>r'. nodes_agree pe evs log r' n' \<and> (p = ShouldBeStarted root n' mt \<longrightarrow> cd_b58dec (pl_codec pe) r' = Some root)
      \<and> (p = NotNeeded mt \<longrightarrow> n' = mt_count mt \<longrightarrow> r' = cd_b58enc (pl_codec pe) (MerkleTree_root_hash mt))"
    if p: "res = Inr p" "p = ShouldBeStarted root n' mt \<or> p = NotNeeded mt \<and> n' = mt_count mt" for p root n' mt
  proof -
    obtain vote vs mt1 where v: "(vote, vs) \<in> set ?votes" "fst vote \<noteq> ''timeout''" "length vs = rq_f sm + 1"
        "try_to_catch_up (pl_codec pe) vote mt1 = Inr p"
      by (rule status_target_voted [OF check [unfolded p(1)], of root n' mt]) (use p(2) in auto)
    obtain r' k hs' where vote: "vote = (r', k, hs')" by (cases vote)
    have "nodes_agree pe evs log r' k" using votes_agree [OF votes _ _ v(3) assms(6)] v(1,2) vote by simp
    then show ?thesis using v(4) vote p(2) try_to_catch_up_target [of "pl_codec pe" r' k hs' mt1] by fastforce
  qed
  have "verdict_ok pe evs log out"
  proof (cases res)
    case (Inl e)
    then show ?thesis using out by (cases e) (auto simp: verdict_ok_def)
  next
    case (Inr p)
    then show ?thesis using out tree [OF Inr] agree [OF Inr] by (cases p) (auto simp: verdict_ok_def current_def)
  qed
  then show ?thesis using st' votes by simp
qed

lemma catchup_consensus_ok:
  assumes "handle_catchup_consensus env sm st re store = Inr (s, out, es, store')" "re_codec env = pl_codec pe"
    and "votes_ok (history pe evs) (cc_replies st)" "has_values pe (cc_merkle_tree st)" "known_bound pe log (rq_f sm)"
    and reports: "\<And>node r n. status_report re = Some (node, r, n) \<Longrightarrow> reported (history pe evs) node r n"
  shows "(s = RS_Finish \<or> (\<exists>st'. s = RS_CatchupConsensus st' \<and> votes_ok (history pe evs) (cc_replies st') \<and> has_values pe (cc_merkle_tree st')))
     \<and> verdict_ok pe evs log out"
proof -
  have vote: ?thesis
    if run: "catchup_target_handle_consensus_state env sm st (r, n, hs) node req store = Inr (s, out, es, store')"
      and rep: "r \<noteq> ''timeout'' \<Longrightarrow> reported (history pe evs) node r n" for r n hs node req
  proof -
    obtain fin st' where "process_catchup_target env sm (r, n, hs) node st store = Inr ((fin, out), st', store')"
        "s = RS_Finish \<or> s = RS_CatchupConsensus st'"
      using run by (auto simp: catchup_target_handle_consensus_state_def res_bind_Inr_iff split: if_splits option.splits PoolEvent.splits)
    then show ?thesis using target_ok [OF _ assms(2-4) rep assms(5)] assms(4) by fastforce
  qed
  show ?thesis
  proof (cases re)
    case (RE_LedgerStatus ls node_opt mt)
    then show ?thesis using assms(1,3,4) vote reports by (cases node_opt) (auto simp: handle_catchup_consensus_def verdict_ok_def)
  next
    case (RE_ConsistencyProof cp node)
    then show ?thesis using assms(1) vote reports by (auto simp: handle_catchup_consensus_def)
  next
    case (RE_Timeout req node)
    then show ?thesis using assms(1) vote by (auto simp: handle_catchup_consensus_def)
  qed (use assms(1,3,4) in \<open>auto simp: handle_catchup_consensus_def verdict_ok_def\<close>)
qed

lemma process_event_Some:
  assumes "process_event pe h (Some re) store = Inr (h', out, es, store')" "rh_wrapper h = Some w"
  obtains w' res where "RequestSM_handle_event (request_env_of pe (rh_nodes h)) w re store = Inr (w', out, res, store')"
    "h' = h\<lparr>rh_wrapper := Some w'\<rparr>" "es = map Eff res"
  using assms by (auto simp: process_event_def RequestHandler_process_event_def res_bind_Inr_iff)

lemma process_event_None: "process_event pe h None store = Inr (h, None, [], store)"
  by (simp add: process_event_def RequestHandler_process_event_def)

lemma silent_without_commands:
  "RequestSM_handle_event env w re store = Inr (w', out, res, store') \<Longrightarrow> rq_cmd_ids w = [] \<Longrightarrow> answers res = []"
  using handle_event_commands by fastforce

lemma voting_mono: "voting pe evs log h \<Longrightarrow> voting pe (evs @ evs') (log @ es) h"
  using known_bound_mono votes_ok_mono by (fastforce simp: voting_def)

lemma fetching_mono: "fetching pe evs log h \<Longrightarrow> fetching pe (evs @ evs') (log @ es) h"
  unfolding fetching_def using nodes_agree_mono by blast

lemma report_arrived:
  "PoolEvent_into pe ev = Some re \<Longrightarrow> status_report re = Some (node, r, n) \<Longrightarrow> reported (history pe (evs @ [ev])) node r n"
  by (auto simp: reported_def)

lemma voting_step:
  assumes "voting pe evs log h" "process_event (pe\<lparr>pl_now := t\<rparr>) h (PoolEvent_into pe ev) store = Inr (h', out, es, store')"
  shows "voting pe (evs @ [ev]) (log @ es') h' \<and> verdict_ok pe (evs @ [ev]) (log @ es') out \<and> submitted es = []"
proof (cases "PoolEvent_into pe ev")
  case None
  then show ?thesis using assms voting_mono by (auto simp: process_event_None verdict_ok_def)
next
  case (Some re)
  obtain w where w: "rh_wrapper h = Some w" "rq_cmd_ids w = []" "known_bound pe log (rq_f w)"
      "rq_state w = RS_Finish \<or> (\<exists>st. rq_state w = RS_CatchupConsensus st \<and> votes_ok (history pe evs) (cc_replies st)
        \<and> has_values pe (cc_merkle_tree st))"
    using assms(1) by (auto simp: voting_def)
  let ?env = "request_env_of (pe\<lparr>pl_now := t\<rparr>) (rh_nodes h)"
  obtain w' res where step: "RequestSM_handle_event ?env w re store = Inr (w', out, res, store')"
      "h' = h\<lparr>rh_wrapper := Some w'\<rparr>" "es = map Eff res"
    using process_event_Some [OF assms(2) [unfolded Some] w(1)] .
  have bound: "known_bound pe (log @ es') (rq_f w)" by (rule known_bound_mono [OF w(3)])
  have quiet: "submitted es = []" using silent_without_commands [OF step(1) w(2)] step(3) by simp
  show ?thesis
  proof (cases "rq_state w = RS_Finish")
    case True
    then show ?thesis using step w bound quiet by (auto simp: voting_def verdict_ok_def)
  next
    case False
    then obtain st where st: "rq_state w = RS_CatchupConsensus st" "votes_ok (history pe evs) (cc_replies st)" "has_values pe (cc_merkle_tree st)"
      using w(4) by blast
    then have "handle_catchup_consensus ?env w st re store = Inr (rq_state w', out, res, store')"
      using step(1) by (auto simp: RequestSM_handle_event_def res_bind_Inr_iff)
    moreover have "re_codec ?env = pl_codec pe" by (simp add: request_env_of_def)
    moreover have "votes_ok (history pe (evs @ [ev])) (cc_replies st)" using votes_ok_mono [OF st(2)] by simp
    ultimately have "(rq_state w' = RS_Finish \<or> (\<exists>st'. rq_state w' = RS_CatchupConsensus st'
        \<and> votes_ok (history pe (evs @ [ev])) (cc_replies st') \<and> has_values pe (cc_merkle_tree st'))) \<and> verdict_ok pe (evs @ [ev]) (log @ es') out"
      using st(3) bound report_arrived [OF Some] by (rule catchup_consensus_ok)
    then show ?thesis using step(2) handle_event_keeps [OF step(1)] w(2) bound quiet by (auto simp: voting_def)
  qed
qed

definition sync_ok :: "pool_env \<Rightarrow> PoolEvent list \<Rightarrow> pool_effect list \<Rightarrow> PoolEvent option \<Rightarrow> bool" where
  "sync_ok pe evs log out = (case out of None \<Rightarrow> True | Some (PE_Synced mt) \<Rightarrow> current pe evs log mt | _ \<Rightarrow> False)"

lemma catchup_reply_current:
  assumes "process_catchup_reply (pl_codec pe) cr mt root n mode store = (Inr mt', store')" "has_values pe mt"
    and "nodes_agree pe evs log r n" "cd_b58dec (pl_codec pe) r = Some root"
  shows "current pe evs log mt'"
proof -
  obtain new bs where new: "append_txns (pl_codec pe) (crep_txns cr) mt [] = Inr (mt', new)"
      "consistency_proof (cd_sha (pl_codec pe)) mt' root n bs = Inr True"
    using process_catchup_reply_Inr [OF assms(1)] by blast
  have "has_values pe mt'"
    using append_txns_result [OF new(1)] append_all_represents assms(2) by (fastforce simp: has_values_def)
  then show ?thesis using new(2) assms(3,4) by (auto simp: current_def)
qed

lemma fetching_step:
  assumes "fetching pe evs log h" "process_event (pe\<lparr>pl_now := t\<rparr>) h (PoolEvent_into pe ev) store = Inr (h', out, es, store')"
  shows "fetching pe (evs @ [ev]) (log @ es') h' \<and> sync_ok pe (evs @ [ev]) (log @ es') out \<and> submitted es = []"
proof (cases "PoolEvent_into pe ev")
  case None
  then show ?thesis using assms fetching_mono by (auto simp: process_event_None sync_ok_def)
next
  case (Some re)
  have "fetching pe (evs @ [ev]) (log @ es') h" by (rule fetching_mono [OF assms(1)])
  then obtain w where w: "rh_wrapper h = Some w" "rq_cmd_ids w = []"
      "rq_state w = RS_Finish \<or> (\<exists>st r. rq_state w = RS_CatchupSingle st \<and> has_values pe (csg_merkle_tree st)
         \<and> nodes_agree pe (evs @ [ev]) (log @ es') r (csg_target_mt_size st) \<and> cd_b58dec (pl_codec pe) r = Some (csg_target_mt_root st))"
    by (auto simp: fetching_def)
  let ?env = "request_env_of (pe\<lparr>pl_now := t\<rparr>) (rh_nodes h)"
  obtain w' res where step: "RequestSM_handle_event ?env w re store = Inr (w', out, res, store')"
      "h' = h\<lparr>rh_wrapper := Some w'\<rparr>" "es = map Eff res"
    using process_event_Some [OF assms(2) [unfolded Some] w(1)] .
  have quiet: "submitted es = []" using silent_without_commands [OF step(1) w(2)] step(3) by simp
  show ?thesis
  proof (cases "rq_state w = RS_Finish")
    case True
    then show ?thesis using step w quiet by (auto simp: fetching_def sync_ok_def)
  next
    case False
    then obtain st r where st: "rq_state w = RS_CatchupSingle st" "has_values pe (csg_merkle_tree st)"
        "nodes_agree pe (evs @ [ev]) (log @ es') r (csg_target_mt_size st)" "cd_b58dec (pl_codec pe) r = Some (csg_target_mt_root st)"
      using w(3) by blast
    have codec: "re_codec ?env = pl_codec pe" by (simp add: request_env_of_def)
    have handled: "handle_catchup_single ?env w st re store = Inr (rq_state w', out, res, store')"
      using step(1) st(1) by (auto simp: RequestSM_handle_event_def res_bind_Inr_iff)
    have "rq_state w' = RS_CatchupSingle st \<and> out = None \<or> rq_state w' = RS_Finish \<and> sync_ok pe (evs @ [ev]) (log @ es') out"
      using handled catchup_reply_current [OF _ st(2-4)] codec
      by (cases re) (auto simp: handle_catchup_single_def sync_ok_def split: prod.splits sum.splits fault.splits)
    then show ?thesis
      using step(2) handle_event_keeps [OF step(1)] w(2) st quiet by (auto simp: fetching_def sync_ok_def)
  qed
qed

subsection \<open>The invariant of the pool\<close>

text \<open>The events that the networker and the commander deliver.\<close>

fun external :: "PoolEvent \<Rightarrow> bool" where
  "external (PE_CheckCache _) = True"
| "external (PE_NodeReply _ _) = True"
| "external (PE_Close _) = True"
| "external (PE_Refresh _) = True"
| "external (PE_SendRequest _ _ _ _) = True"
| "external (PE_Timeout _ _) = True"
| "external _ = False"

definition active_ok :: "pool_env \<Rightarrow> PoolEvent list \<Rightarrow> pool_effect list \<Rightarrow> ActiveState \<Rightarrow> bool" where
  "active_ok pe evs log a =
     (current pe evs log (as_merkle_tree a)
      \<and> (\<exists>remotes. get_nodes_and_remotes pe (as_merkle_tree a) = Inr (as_nodes a, remotes))
      \<and> list_all (\<lambda>(_, h). serving pe evs (as_nodes a) h) (as_request_handlers a))"

definition state_inv :: "pool_env \<Rightarrow> PoolEvent list \<Rightarrow> pool_effect list \<Rightarrow> PoolState \<Rightarrow> bool" where
  "state_inv pe evs log s =
     (case s of
        PS_GettingCatchupTarget g \<Rightarrow> voting pe evs log (gt_request_handler g)
      | PS_SyncCatchup c \<Rightarrow> fetching pe evs log (sc_request_handler c)
      | PS_Active a \<Rightarrow> active_ok pe evs log a
      | _ \<Rightarrow> True)"

text \<open>What a step may tell the clients.\<close>

definition answers_ok :: "pool_env \<Rightarrow> PoolEvent list \<Rightarrow> Nodes \<Rightarrow> pool_effect list \<Rightarrow> bool" where
  "answers_ok pe evs nodes es =
     (\<forall>i m. (i, Inr m) \<in> set (submitted es) \<longrightarrow> (\<exists>re. asked pe evs i re \<and> answer_ok pe (history pe evs) nodes re m))"

lemma active_ok_mono: "active_ok pe evs log a \<Longrightarrow> active_ok pe (evs @ evs') (log @ es) a"
  unfolding active_ok_def using current_mono serving_mono by (auto simp: list_all_iff)

lemma known_bound_told:
  "get_nodes_and_remotes pe mt = Inr (nodes, remotes) \<Longrightarrow> Eff (Net (NodesStateUpdated remotes)) \<in> set log \<Longrightarrow>
     known_bound pe log (get_f (length nodes))"
  by (auto simp: known_bound_def)

lemma voting_start:
  assumes "process_event pe' (RequestHandler_new sm [] nodes) (Some (RE_LedgerStatus ls None (Some mt))) store = Inr (h, out, es, store')"
    and "has_values pe mt" "known_bound pe log (get_f (length nodes))"
  shows "voting pe evs log h \<and> submitted es = []"
  using assms
  by (auto simp: process_event_def RequestHandler_process_event_def RequestHandler_new_def RequestSM_new_def
      RequestSM_handle_event_def handle_start_def res_bind_Inr_iff voting_def votes_ok_def)

lemma fetching_start:
  assumes "process_event pe' (RequestHandler_new sm [] nodes) (Some (RE_CatchupReq mt n root)) store = Inr (h, out, es, store')"
    and "has_values pe mt" "nodes_agree pe evs log r n" "cd_b58dec (pl_codec pe) r = Some root"
  shows "fetching pe evs log h \<and> submitted es = []"
  using assms
  by (auto simp: process_event_def RequestHandler_process_event_def RequestHandler_new_def RequestSM_new_def
      RequestSM_handle_event_def handle_start_def res_bind_Inr_iff fetching_def split: option.splits)

lemma terminated_no_answer:
  assumes "process_event pe h (Some RE_Terminate) store = Inr (h', out, es, store')"
  shows "(i, Inr m) \<notin> set (submitted es)"
proof (cases "rh_wrapper h")
  case None
  then show ?thesis using assms by (auto simp: process_event_def RequestHandler_process_event_def)
next
  case (Some w)
  obtain w' res where "RequestSM_handle_event (request_env_of pe (rh_nodes h)) w RE_Terminate store = Inr (w', out, res, store')"
      "es = map Eff res"
    using process_event_Some [OF assms Some] by blast
  then show ?thesis
    by (cases "rq_state w")
       (auto simp: RequestSM_handle_event_def handle_start_def handle_consensus_def handle_single_def handle_full_def
          handle_catchup_consensus_def handle_catchup_single_def)
qed

lemma terminate_all_no_answer: "terminate_all pe hs store = Inr (es, store') \<Longrightarrow> (i, Inr m) \<notin> set (submitted es)"
proof (induction hs arbitrary: store es)
  case (Cons kh hs)
  obtain k h where kh: "kh = (k, h)" by (cases kh)
  then show ?case
    using Cons terminated_no_answer by (fastforce simp: res_bind_Inr_iff)
qed simp

lemma sent_client_request: "send_request_event pe msg timeout nodes = Some re \<Longrightarrow> client_request re"
  by (cases "parse_req_id_and_op (pl_codec pe) msg") (auto simp: send_request_event_def split: if_splits)

lemma start_full_ok:
  "start_full env w msg req t ns = (s, es) \<Longrightarrow>
     state_ok pe hist (RE_CustomFullRequest msg req t ns) s \<and> (j, Inr m) \<notin> set (answers es)"
  by (auto simp: start_full_def state_ok_def full_inv_def unwrap_or_def Let_def split: option.splits if_splits)

lemma request_start_ok:
  assumes "RequestSM_handle_event env w re store = Inr (w', out, es, store')" "rq_state w = RS_Start" "client_request re"
  shows "state_ok pe hist re (rq_state w') \<and> (j, Inr m) \<notin> set (answers es)"
proof (cases re)
  case (RE_CustomFullRequest msg req t ns)
  then have "start_full env w msg req t ns = (rq_state w', es)"
    using assms(1,2) by (auto simp: RequestSM_handle_event_def handle_start_def split: prod.splits)
  then show ?thesis using RE_CustomFullRequest start_full_ok by blast
qed (use assms in \<open>auto simp: RequestSM_handle_event_def handle_start_def state_ok_def consensus_inv_def single_inv_def\<close>)

lemma serving_start:
  assumes "process_event pe' (RequestHandler_new sm [i] nodes) (Some re) store = Inr (h, out, es, store')"
    and "asked pe evs i re"
  shows "serving pe evs nodes h \<and> (\<forall>j m. (j, Inr m) \<notin> set (submitted es))"
proof -
  let ?w = "RequestSM_new (get_f (length nodes)) [i] (map fst nodes) (pm_timeout sm) (pm_extended_timeout sm)
      (pm_number_read_nodes sm) (pm_pool_mode sm)"
  have new: "rh_wrapper (RequestHandler_new sm [i] nodes) = Some ?w" by (simp add: RequestHandler_new_def)
  obtain w' res where step: "RequestSM_handle_event (request_env_of pe' (rh_nodes (RequestHandler_new sm [i] nodes))) ?w re store
      = Inr (w', out, res, store')" "h = (RequestHandler_new sm [i] nodes)\<lparr>rh_wrapper := Some w'\<rparr>" "es = map Eff res"
    using process_event_Some [OF assms(1) new] .
  have "client_request re" using assms(2) sent_client_request by (auto simp: asked_def)
  then have "state_ok pe (history pe evs) re (rq_state w') \<and> (\<forall>j m. (j, Inr m) \<notin> set (answers res))"
    using request_start_ok [OF step(1)] by (simp add: RequestSM_new_def)
  then show ?thesis
    using step(2,3) assms(2) handle_event_keeps [OF step(1)]
    by (auto simp: serving_def RequestHandler_new_def RequestSM_new_def)
qed

lemma serving_step:
  assumes "serving pe evs nodes h" "PoolEvent_into pe ev = Some re"
    and "process_event (pe\<lparr>pl_now := t\<rparr>) h (Some re) store = Inr (h', out, es, store')"
  shows "serving pe (evs @ [ev]) nodes h' \<and> answers_ok pe (evs @ [ev]) nodes es"
proof -
  obtain w i req where w: "rh_nodes h = nodes" "rh_wrapper h = Some w" "rq_cmd_ids w = [i]" "rq_f w = get_f (length nodes)"
      "rq_nodes w = map fst nodes" "asked pe evs i req" "state_ok pe (history pe evs) req (rq_state w)"
    using assms(1) by (auto simp: serving_def)
  obtain w' res where step: "RequestSM_handle_event (request_env_of (pe\<lparr>pl_now := t\<rparr>) nodes) w re store = Inr (w', out, res, store')"
      "h' = h\<lparr>rh_wrapper := Some w'\<rparr>" "es = map Eff res"
    using process_event_Some [OF assms(3) w(2)] w(1) by auto
  have hist: "history pe (evs @ [ev]) = history pe evs @ [re]" using assms(2) by simp
  note ok = request_step_ok [OF w(7,4,5) step(1), folded hist]
  have "j = i" if "(j, Inr m) \<in> set (answers res)" for j m
    using handle_event_commands [OF step(1)] that w(3) by force
  then have "answers_ok pe (evs @ [ev]) nodes es"
    unfolding answers_ok_def step(3) submitted_simps using ok asked_mono [OF w(6)] by blast
  moreover have "serving pe (evs @ [ev]) nodes h'"
    using ok step(2) w handle_event_keeps [OF step(1)] asked_mono [OF w(6), of "[ev]"] by (auto simp: serving_def)
  ultimately show ?thesis by blast
qed

lemma with_nodes_Inr:
  assumes "with_nodes pe mt es store k = Inr r"
  obtains "r = (PS_Terminated, es, store)"
    | nodes remotes where "get_nodes_and_remotes pe mt = Inr (nodes, remotes)" "k nodes remotes = Inr r"
proof (cases "get_nodes_and_remotes pe mt")
  case (Inl e)
  then show ?thesis using assms that(1) by (cases e) (auto simp: with_nodes_def caught_def)
next
  case (Inr nr)
  then show ?thesis using assms that(2) by (cases nr) (auto simp: with_nodes_def caught_def)
qed

lemma become_active_ok:
  assumes "become_active (pe\<lparr>pl_now := t\<rparr>) sm cmd refresh mt es store = Inr (s, es', store')" "current pe evs log mt"
  shows "state_inv pe evs log s \<and> submitted es' = submitted es"
  using assms(1) unfolding become_active_def
proof (cases rule: with_nodes_Inr)
  case 2
  then show ?thesis using assms(2) by (auto simp: state_inv_def active_ok_def res_bind_Inr_iff)
qed (simp add: state_inv_def)

lemma close_handler_ok:
  assumes "close_handler pe' h cmd es store = Inr (s, es', store')" "submitted es = []"
  shows "state_inv pe evs log s \<and> (i, Inr m) \<notin> set (submitted es')"
  using assms terminated_no_answer by (auto simp: close_handler_def res_bind_Inr_iff state_inv_def)

lemma new_handler_ok:
  assumes "get_request_handler_with_ledger_status_sent (pe\<lparr>pl_now := t\<rparr>) sm omt store = Inr (r, es, store')"
    and "pred_option (has_values pe) omt"
  shows "submitted es = [] \<and> (\<forall>h. r = Inr h \<longrightarrow> voting pe evs (log @ es) h)"
proof -
  let ?pe = "pe\<lparr>pl_now := t\<rparr>"
  show ?thesis
  proof (cases "load_tree ?pe sm omt store")
    case (Pair l store1)
    show ?thesis
    proof (cases l)
      case (Inl e)
      then show ?thesis using assms(1) Pair by (cases e) (auto simp: get_request_handler_with_ledger_status_sent_def)
    next
      case (Inr x)
      obtain mt nodes remotes where x: "x = (mt, nodes, remotes)" by (cases x)
      have tree: "has_values pe mt" "get_nodes_and_remotes pe mt = Inr (nodes, remotes)"
        using load_tree_values [of ?pe sm omt store mt nodes remotes store1] assms(2) Pair Inr x by simp_all
      obtain h out es1 where h: "r = Inr h" "es = Eff (Net (NodesStateUpdated remotes)) # es1"
          "process_event (pe\<lparr>pl_now := t\<rparr>) (RequestHandler_new sm [] nodes)
             (Some (RE_LedgerStatus (ledger_status pe mt) None (Some mt))) store1 = Inr (h, out, es1, store')"
        using assms(1) Pair Inr x by (auto simp: get_request_handler_with_ledger_status_sent_def res_bind_Inr_iff)
      have "known_bound pe (log @ es) (get_f (length nodes))" using known_bound_told [OF tree(2)] h(2) by simp
      then show ?thesis using voting_start [OF h(3) tree(1)] h(1,2) by simp
    qed
  qed
qed

lemma refreshed_ok:
  assumes "refreshed (pe\<lparr>pl_now := t\<rparr>) sm omt cmd store = Inr (s, es, store')" "pred_option (has_values pe) omt"
  shows "state_inv pe evs (log @ es) s \<and> submitted es = []"
proof -
  obtain r es1 store1 where r: "get_request_handler_with_ledger_status_sent (pe\<lparr>pl_now := t\<rparr>) sm omt store = Inr (r, es1, store1)"
    using assms(1) by (auto simp: refreshed_def res_bind_Inr_iff)
  show ?thesis
    using assms(1) new_handler_ok [OF r assms(2), of evs log] r by (cases r) (auto simp: refreshed_def state_inv_def)
qed

lemma initialization_ok:
  assumes "step_initialization (pe\<lparr>pl_now := t\<rparr>) sm ev store = Inr (s, es, store')"
  shows "state_inv pe evs (log @ es) s \<and> submitted es = []"
proof (cases ev)
  case (PE_CheckCache cmd)
  obtain r es1 store1 where r: "get_request_handler_with_ledger_status_sent (pe\<lparr>pl_now := t\<rparr>) sm None store = Inr (r, es1, store1)"
    using assms PE_CheckCache by (auto simp: step_initialization_def res_bind_Inr_iff)
  show ?thesis
    using assms new_handler_ok [OF r, of evs log] r PE_CheckCache by (cases r) (auto simp: step_initialization_def state_inv_def)
qed (use assms in \<open>auto simp: step_initialization_def state_inv_def\<close>)

lemma terminated_ok:
  assumes "step_terminated (pe\<lparr>pl_now := t\<rparr>) sm ev store = Inr (s, es, store')"
  shows "state_inv pe evs (log @ es) s \<and> submitted es = []"
proof (cases ev)
  case (PE_Refresh cmd)
  then show ?thesis using assms refreshed_ok [where omt = None and sm = sm and pe = pe] by (auto simp: step_terminated_def)
qed (use assms in \<open>auto simp: step_terminated_def state_inv_def networker_timeout_def\<close>)

lemma getting_ok:
  assumes "voting pe evs log (gt_request_handler g)" "external ev"
    and "step_getting (pe\<lparr>pl_now := t\<rparr>) sm g ev store = Inr (s, es, store')"
  shows "state_inv pe (evs @ [ev]) (log @ es) s \<and> (i, Inr m) \<notin> set (submitted es)"
proof -
  let ?pe = "pe\<lparr>pl_now := t\<rparr>"
  obtain h out es1 store1 where step: "process_event ?pe (gt_request_handler g) (PoolEvent_into pe ev) store = Inr (h, out, es1, store1)"
    using assms(3) by (auto simp: step_getting_def res_bind_Inr_iff)
  note ok = voting_step [OF assms(1) step]
  have q: "submitted es1 = []" using ok by blast
  have v: "voting pe (evs @ [ev]) (log @ es) h" "verdict_ok pe (evs @ [ev]) (log @ es) out" using ok by blast+
  show ?thesis
  proof (cases out)
    case None
    then show ?thesis
      using assms(2,3) step v(1) q close_handler_ok [of ?pe h _ es1 store1 s es store']
      by (cases ev) (auto simp: step_getting_def unwrap_or_def state_inv_def)
  next
    case (Some ev')
    show ?thesis
    proof (cases ev')
      case (PE_CatchupTargetNotFound err)
      then show ?thesis using assms(3) step Some q by (auto simp: step_getting_def unwrap_or_def state_inv_def)
    next
      case (PE_CatchupRestart mt)
      then have val: "has_values pe mt" using v(2) Some by (simp add: verdict_ok_def)
      let ?k = "\<lambda>nodes remotes. res_bind (process_event ?pe (RequestHandler_new sm [] nodes)
          (Some (RE_LedgerStatus (ledger_status pe mt) None (Some mt))) store1) (\<lambda>(h', _, es', store''). Inr
            (PS_GettingCatchupTarget (g\<lparr>gt_request_handler := h'\<rparr>), es1 @ Eff (Net (NodesStateUpdated remotes)) # es', store''))"
      have "with_nodes ?pe mt es1 store1 ?k = Inr (s, es, store')"
        using assms(3) step Some PE_CatchupRestart by (simp add: step_getting_def unwrap_or_def)
      then show ?thesis
      proof (cases rule: with_nodes_Inr)
        case (2 nodes remotes)
        then obtain h' out' es' where h': "s = PS_GettingCatchupTarget (g\<lparr>gt_request_handler := h'\<rparr>)"
            "es = es1 @ Eff (Net (NodesStateUpdated remotes)) # es'"
            "process_event ?pe (RequestHandler_new sm [] nodes) (Some (RE_LedgerStatus (ledger_status pe mt) None (Some mt))) store1
               = Inr (h', out', es', store')"
          by (auto simp: res_bind_Inr_iff)
        have "known_bound pe (log @ es) (get_f (length nodes))"
          using known_bound_told [of pe mt nodes remotes] 2(1) h'(2) by simp
        then show ?thesis using voting_start [OF h'(3) val] h'(1,2) q by (auto simp: state_inv_def)
      qed (use q in \<open>simp add: state_inv_def\<close>)
    next
      case (PE_CatchupTargetFound root n mt)
      then obtain r where r: "has_values pe mt" "nodes_agree pe (evs @ [ev]) (log @ es) r n" "cd_b58dec (pl_codec pe) r = Some root"
        using v(2) Some by (auto simp: verdict_ok_def)
      let ?k = "\<lambda>nodes remotes. res_bind (process_event ?pe (RequestHandler_new sm [] nodes) (Some (RE_CatchupReq mt n root)) store1)
          (\<lambda>(h', _, es', store''). Inr (PS_SyncCatchup \<lparr>sc_request_handler = h', sc_cmd_id = gt_cmd_id g, sc_refresh = gt_refresh g\<rparr>,
             es1 @ Eff (Net (NodesStateUpdated remotes)) # es', store''))"
      have "with_nodes ?pe mt es1 store1 ?k = Inr (s, es, store')"
        using assms(3) step Some PE_CatchupTargetFound by (simp add: step_getting_def unwrap_or_def)
      then show ?thesis
      proof (cases rule: with_nodes_Inr)
        case (2 nodes remotes)
        then show ?thesis using fetching_start [OF _ r] q by (auto simp: state_inv_def res_bind_Inr_iff)
      qed (use q in \<open>simp add: state_inv_def\<close>)
    next
      case (PE_Synced mt)
      then have "become_active ?pe sm (gt_cmd_id g) (gt_refresh g) mt es1 store1 = Inr (s, es, store')"
        using assms(3) step Some by (simp add: step_getting_def unwrap_or_def)
      then show ?thesis using become_active_ok [where mt = mt and pe = pe] v(2) Some PE_Synced q by (simp add: verdict_ok_def)
    qed (use v(2) Some in \<open>simp_all add: verdict_ok_def\<close>)
  qed
qed

lemma sync_step_ok:
  assumes "fetching pe evs log (sc_request_handler c)" "external ev"
    and "step_sync (pe\<lparr>pl_now := t\<rparr>) sm c ev store = Inr (s, es, store')"
  shows "state_inv pe (evs @ [ev]) (log @ es) s \<and> (i, Inr m) \<notin> set (submitted es)"
proof -
  let ?pe = "pe\<lparr>pl_now := t\<rparr>"
  obtain h out es1 store1 where step: "process_event ?pe (sc_request_handler c) (PoolEvent_into pe ev) store = Inr (h, out, es1, store1)"
    using assms(3) by (auto simp: step_sync_def res_bind_Inr_iff)
  note ok = fetching_step [OF assms(1) step]
  have q: "submitted es1 = []" using ok by blast
  have v: "fetching pe (evs @ [ev]) (log @ es) h" "sync_ok pe (evs @ [ev]) (log @ es) out" using ok by blast+
  show ?thesis
  proof (cases out)
    case None
    then show ?thesis
      using assms(2,3) step v(1) q close_handler_ok [of ?pe h _ es1 store1 s es store']
      by (cases ev) (auto simp: step_sync_def unwrap_or_def state_inv_def)
  next
    case (Some ev')
    then obtain mt where mt: "ev' = PE_Synced mt" "current pe (evs @ [ev]) (log @ es) mt"
      using v(2) by (cases ev') (auto simp: sync_ok_def)
    then have "become_active ?pe sm (sc_cmd_id c) (sc_refresh c) mt es1 store1 = Inr (s, es, store')"
      using assms(3) step Some by (simp add: step_sync_def unwrap_or_def)
    then show ?thesis using become_active_ok [OF _ mt(2)] q by simp
  qed
qed

lemma active_keeps:
  assumes "active_ok pe evs log a" "\<forall>(k, h) \<in> set hs. serving pe (evs @ evs') (as_nodes a) h"
  shows "state_inv pe (evs @ evs') (log @ es) (PS_Active (a\<lparr>as_request_handlers := hs\<rparr>))"
  using active_ok_mono [OF assms(1), of evs' es] assms(2) by (auto simp: state_inv_def active_ok_def list_all_iff)

lemma active_handlers:
  assumes "active_ok pe evs log a" "map_of (as_request_handlers a) k = Some h"
  shows "serving pe evs (as_nodes a) h"
  using assms by (auto simp: active_ok_def list_all_iff dest!: map_of_SomeD)

lemma active_served:
  "active_ok pe evs log a \<Longrightarrow> (k, h) \<in> set (as_request_handlers a) \<Longrightarrow> serving pe (evs @ evs') (as_nodes a) h"
  by (auto simp: active_ok_def list_all_iff intro!: serving_mono)

lemma handler_step_ok:
  assumes "active_ok pe evs log a" "map_of (as_request_handlers a) k = Some rh" "PoolEvent_into pe ev = Some re"
    and "process_event (pe\<lparr>pl_now := t\<rparr>) rh (Some re) store = Inr (h, out, es, store')"
  shows "serving pe (evs @ [ev]) (as_nodes a) h \<and> answers_ok pe (evs @ [ev]) (as_nodes a) es"
  using serving_step [OF active_handlers [OF assms(1,2)] assms(3,4)] .

lemma no_answers_ok: "\<forall>i m. (i, Inr m) \<notin> set (submitted es) \<Longrightarrow> answers_ok pe evs nodes es"
  by (simp add: answers_ok_def)

lemma same_active:
  assumes "active_ok pe evs log a"
  shows "state_inv pe (evs @ evs') (log @ es) (PS_Active a)"
  using active_ok_mono [OF assms] by (simp add: state_inv_def)

lemma pool_send_request_ok:
  assumes "active_ok pe evs log a" "ev = PE_SendRequest cmd msg timeout nodes"
    and "pool_send_request (pe\<lparr>pl_now := t\<rparr>) sm a cmd (PoolEvent_into pe ev) store = Inr (s, es, store')"
  shows "state_inv pe (evs @ [ev]) (log @ es) s \<and> answers_ok pe (evs @ [ev]) (as_nodes a) es"
proof (cases "PoolEvent_into pe ev")
  case None
  then show ?thesis using assms(3) same_active [OF assms(1)] by (auto simp: pool_send_request_def answers_ok_def)
next
  case (Some re)
  then obtain h out where step: "process_event (pe\<lparr>pl_now := t\<rparr>) (RequestHandler_new sm [cmd] (as_nodes a)) (Some re) store = Inr (h, out, es, store')"
      "s = PS_Active (a\<lparr>as_request_handlers := dict_insert (get_req_id re) h (as_request_handlers a)\<rparr>)"
    using assms(3) by (auto simp: pool_send_request_def res_bind_Inr_iff)
  have "asked pe (evs @ [ev]) cmd re" using Some assms(2) by (auto simp: asked_def PoolEvent_into_def)
  note ok = serving_start [OF step(1) this]
  show ?thesis
    unfolding step(2) using ok active_served [OF assms(1)]
    by (intro conjI active_keeps [OF assms(1)] no_answers_ok) (auto dest!: dict_insert_in)
qed

lemma node_reply_ok:
  assumes "active_ok pe evs log a" "node_reply (pe\<lparr>pl_now := t\<rparr>) a (PoolEvent_into pe ev) store = Inr (s, es, store')"
  shows "state_inv pe (evs @ [ev]) (log @ es) s \<and> answers_ok pe (evs @ [ev]) (as_nodes a) es"
proof (cases "\<exists>re rh. PoolEvent_into pe ev = Some re \<and> map_of (as_request_handlers a) (get_req_id re) = Some rh")
  case True
  then obtain re rh where re: "PoolEvent_into pe ev = Some re" "map_of (as_request_handlers a) (get_req_id re) = Some rh" by blast
  then obtain h out where step: "process_event (pe\<lparr>pl_now := t\<rparr>) rh (Some re) store = Inr (h, out, es, store')"
      "s = PS_Active (a\<lparr>as_request_handlers := (if RequestHandler_done h
          then filter (\<lambda>(k, _). k \<noteq> get_req_id re) (as_request_handlers a)
          else dict_insert (get_req_id re) h (as_request_handlers a))\<rparr>)"
    using assms(2) by (auto simp: node_reply_def Let_def res_bind_Inr_iff)
  note ok = handler_step_ok [OF assms(1) re(2,1) step(1)]
  show ?thesis
    unfolding step(2) using ok active_served [OF assms(1)]
    by (intro conjI active_keeps [OF assms(1)]) (auto dest!: dict_insert_in)
next
  case False
  then have "s = PS_Active a" "es = []" using assms(2) by (auto simp: node_reply_def Let_def split: option.splits)
  then show ?thesis using same_active [OF assms(1), of "[ev]" "[]"] by (simp add: answers_ok_def)
qed

lemma active_step_ok:
  assumes "active_ok pe evs log a" "external ev" "step_active (pe\<lparr>pl_now := t\<rparr>) sm a ev store = Inr (s, es, store')"
  shows "state_inv pe (evs @ [ev]) (log @ es) s \<and> answers_ok pe (evs @ [ev]) (as_nodes a) es"
proof (cases ev)
  case (PE_CheckCache cmd)
  then show ?thesis using assms(3) same_active [OF assms(1), of "[ev]" "[]"] by (auto simp: step_active_def answers_ok_def)
next
  case (PE_NodeReply msg node)
  then show ?thesis using assms(3) node_reply_ok [OF assms(1)] by (simp add: step_active_def)
next
  case (PE_Close cmd)
  then show ?thesis
    using assms(3) terminate_all_no_answer by (auto simp: step_active_def res_bind_Inr_iff state_inv_def answers_ok_def)
next
  case (PE_Refresh cmd)
  have "has_values pe (as_merkle_tree a)" using assms(1) by (simp add: active_ok_def current_def)
  then have "state_inv pe (evs @ [ev]) (log @ es) s \<and> submitted es = []"
    using assms(3) PE_Refresh by (intro refreshed_ok) (auto simp: step_active_def)
  then show ?thesis by (simp add: answers_ok_def)
next
  case (PE_SendRequest cmd msg timeout nodes)
  then show ?thesis using assms(3) pool_send_request_ok [OF assms(1) PE_SendRequest] by (simp add: step_active_def)
next
  case (PE_Timeout req node)
  have re: "PoolEvent_into pe ev = Some (RE_Timeout req node)" using PE_Timeout by (simp add: PoolEvent_into_def)
  show ?thesis
  proof (cases "map_of (as_request_handlers a) req")
    case None
    then show ?thesis
      using assms(3) PE_Timeout same_active [OF assms(1), of "[ev]" es]
      by (auto simp: step_active_def networker_timeout_def answers_ok_def split: if_splits)
  next
    case (Some rh)
    then obtain h out where step: "process_event (pe\<lparr>pl_now := t\<rparr>) rh (Some (RE_Timeout req node)) store = Inr (h, out, es, store')"
        "s = PS_Active (a\<lparr>as_request_handlers := dict_insert req h (as_request_handlers a)\<rparr>)"
      using assms(3) PE_Timeout re by (auto simp: step_active_def res_bind_Inr_iff)
    note ok = handler_step_ok [OF assms(1) Some re step(1)]
    show ?thesis
      unfolding step(2) using ok active_served [OF assms(1)]
      by (intro conjI active_keeps [OF assms(1)]) (auto dest!: dict_insert_in)
  qed
qed (use assms(2) in simp_all)

subsection \<open>Every run\<close>

text \<open>The events so far, the effects so far, the machine and its files.\<close>

inductive pool_reach :: "pool_env \<Rightarrow> PoolSM \<Rightarrow> PoolEvent list \<Rightarrow> pool_effect list \<Rightarrow> PoolSM \<Rightarrow> pool_store \<Rightarrow> bool"
  for pe sm0 where
  opened: "pm_state sm0 = PS_Initialization \<Longrightarrow> pool_reach pe sm0 [] [] sm0 store"
| handled: "pool_reach pe sm0 evs log sm store \<Longrightarrow> external ev \<Longrightarrow>
    PoolSM_handle_event (pe\<lparr>pl_now := now\<rparr>) sm ev store = Inr (sm', es, store') \<Longrightarrow>
    pool_reach pe sm0 (evs @ [ev]) (log @ es) sm' store'"

lemma pool_step_ok:
  assumes "state_inv pe evs log (pm_state sm)" "external ev"
    and "PoolSM_handle_event (pe\<lparr>pl_now := now\<rparr>) sm ev store = Inr (sm', es, store')"
  shows "state_inv pe (evs @ [ev]) (log @ es) (pm_state sm')
    \<and> (\<forall>i m. (i, Inr m) \<in> set (submitted es) \<longrightarrow> (\<exists>a. pm_state sm = PS_Active a \<and> answers_ok pe (evs @ [ev]) (as_nodes a) es))"
proof (cases "pm_state sm")
  case PS_Initialization
  then show ?thesis using assms(3) initialization_ok by (fastforce simp: PoolSM_handle_event_def res_bind_Inr_iff)
next
  case (PS_GettingCatchupTarget g)
  then show ?thesis using assms getting_ok [of pe evs log g ev] by (fastforce simp: PoolSM_handle_event_def res_bind_Inr_iff state_inv_def)
next
  case (PS_Active a)
  then show ?thesis using assms active_step_ok [of pe evs log a ev] by (fastforce simp: PoolSM_handle_event_def res_bind_Inr_iff state_inv_def)
next
  case (PS_SyncCatchup c)
  then show ?thesis using assms sync_step_ok [of pe evs log c ev] by (fastforce simp: PoolSM_handle_event_def res_bind_Inr_iff state_inv_def)
next
  case PS_Terminated
  then show ?thesis using assms(3) terminated_ok by (fastforce simp: PoolSM_handle_event_def res_bind_Inr_iff)
next
  case PS_Closed
  then show ?thesis using assms(3) by (auto simp: PoolSM_handle_event_def state_inv_def)
qed

lemma pool_reach_inv: "pool_reach pe sm0 evs log sm store \<Longrightarrow> state_inv pe evs log (pm_state sm)"
proof (induction rule: pool_reach.induct)
  case (opened store)
  then show ?case by (simp add: state_inv_def)
next
  case handled
  then show ?case using pool_step_ok by blast
qed

end
