(* ===== verification/Pool_Guarantees.thy ===== *)
theory Pool_Guarantees
  imports Pool_Safety
begin

text \<open>
  What a client of a pool may rely on, over every sequence of events: its answers, the ledger that it answers with,
  its transitions and its closing. Then, a pool of one node that opens, answers a request and closes, on which the
  properties are used; and the cases in which a command is never answered.
\<close>

subsection \<open>The thread of a pool\<close>

text \<open>The thread takes the pool through reachable states, whatever its queue holds.\<close>

lemma pool_run_reach:
  assumes "pool_reach pe sm0 evs log sm store" "list_all (external \<circ> snd) queue"
    and "pool_run pe sm queue store = Inr (sm', es, store')"
  shows "pool_reach pe sm0 (evs @ map snd queue) (log @ es) sm' store'"
  using assms
proof (induction queue arbitrary: evs log sm store es)
  case (Cons x queue)
  obtain now ev where x: "x = (now, ev)" by (cases x)
  then obtain sm1 es1 store1 es2 where step: "PoolSM_handle_event (pe\<lparr>pl_now := now\<rparr>) sm ev store = Inr (sm1, es1, store1)"
      "pool_run pe sm1 queue store1 = Inr (sm', es2, store')" "es = es1 @ es2"
    using Cons.prems(3) by (auto simp: res_bind_Inr_iff)
  have "pool_reach pe sm0 (evs @ [ev]) (log @ es1) sm1 store1"
    using Cons.prems(1,2) step(1) x by (auto intro: pool_reach.handled)
  from Cons.IH [OF this _ step(2)] show ?case using Cons.prems(2) step(3) x by simp
qed simp

subsection \<open>Closing\<close>

text \<open>What a request that was asked for by \<open>cmds\<close> and did not finish is told when its pool closes.\<close>

definition terminate_answers :: "RequestHandler \<Rightarrow> (command_handle \<times> (indy_error, string) result) list" where
  "terminate_answers h =
     (case rh_wrapper h of
        Some w \<Rightarrow> if rq_state w \<in> {RS_Start, RS_Finish} then []
                  else map (\<lambda>i. (i, Inl (err_msg IE_PoolTerminated ''Pool is terminated''))) (rq_cmd_ids w)
      | None \<Rightarrow> [])"

lemma terminate_handler:
  "\<exists>h' es. process_event pe h (Some RE_Terminate) store = Inr (h', None, es, store) \<and> submitted es = terminate_answers h"
proof (cases "rh_wrapper h")
  case None
  then show ?thesis by (simp add: process_event_def RequestHandler_process_event_def terminate_answers_def)
next
  case (Some w)
  then show ?thesis
    by (cases "rq_state w")
       (simp_all add: process_event_def RequestHandler_process_event_def terminate_answers_def RequestSM_handle_event_def
          handle_start_def handle_consensus_def handle_single_def handle_full_def handle_catchup_consensus_def
          handle_catchup_single_def finish_request_def)
qed

lemma terminate_all_answers:
  "\<exists>es. terminate_all pe hs store = Inr (es, store) \<and> submitted es = concat (map (\<lambda>(_, h). terminate_answers h) hs)"
proof (induction hs)
  case (Cons kh hs)
  obtain k h where kh: "kh = (k, h)" by (cases kh)
  then show ?case using Cons terminate_handler [of pe h store] by auto
qed simp

lemma close_handler_closes:
  "\<exists>es'. close_handler pe h cmd es store = Inr (PS_Closed, es', store) \<and> Close_ack cmd \<in> set es'
     \<and> submitted es' = submitted es @ terminate_answers h"
  using terminate_handler [of pe h store] by (auto simp: close_handler_def)

lemma voting_silent: "voting pe evs log h \<Longrightarrow> terminate_answers h = []"
  by (auto simp: voting_def terminate_answers_def)

lemma fetching_silent: "fetching pe evs log h \<Longrightarrow> terminate_answers h = []"
  by (auto simp: fetching_def terminate_answers_def)

subsection \<open>The documented transitions\<close>

text \<open>The comment on \<open>PoolState\<close> in \<open>pool.rs\<close>.\<close>

datatype pool_mode_name = Initialization | GettingCatchupTarget | Active | SyncCatchup | Terminated | Closed

fun state_name :: "PoolState \<Rightarrow> pool_mode_name" where
  "state_name PS_Initialization = Initialization"
| "state_name (PS_GettingCatchupTarget _) = GettingCatchupTarget"
| "state_name (PS_Active _) = Active"
| "state_name (PS_SyncCatchup _) = SyncCatchup"
| "state_name PS_Terminated = Terminated"
| "state_name PS_Closed = Closed"

fun documented :: "pool_mode_name \<Rightarrow> pool_mode_name set" where
  "documented Initialization = {GettingCatchupTarget, Active, Terminated, Closed}"
| "documented GettingCatchupTarget = {SyncCatchup, Active, Terminated, Closed}"
| "documented Active = {GettingCatchupTarget, Terminated, Closed}"
| "documented SyncCatchup = {Active, Terminated, Closed}"
| "documented Terminated = {GettingCatchupTarget, Closed}"
| "documented Closed = {Closed}"

lemma refreshed_name: "refreshed pe sm omt cmd store = Inr (s, es, store') \<Longrightarrow> state_name s \<in> {GettingCatchupTarget, Terminated}"
proof -
  assume step: "refreshed pe sm omt cmd store = Inr (s, es, store')"
  then obtain r es1 store1 where "get_request_handler_with_ledger_status_sent pe sm omt store = Inr (r, es1, store1)"
    by (auto simp: refreshed_def res_bind_Inr_iff)
  then show ?thesis using step by (cases r) (auto simp: refreshed_def)
qed

lemma initialization_name:
  assumes "step_initialization pe sm ev store = Inr (s, es, store')"
  shows "state_name s \<in> insert Initialization (documented Initialization)"
proof (cases ev)
  case (PE_CheckCache cmd)
  then obtain r es1 store1 where "get_request_handler_with_ledger_status_sent pe sm None store = Inr (r, es1, store1)"
    using assms by (auto simp: step_initialization_def res_bind_Inr_iff)
  then show ?thesis using assms PE_CheckCache by (cases r) (auto simp: step_initialization_def)
qed (use assms in \<open>auto simp: step_initialization_def\<close>)

lemma active_name: "become_active pe sm cmd r mt es store = Inr (s, es', store') \<Longrightarrow> state_name s \<in> {Active, Terminated}"
  unfolding become_active_def by (erule with_nodes_Inr) (auto simp: res_bind_Inr_iff)

lemma closed_name: "close_handler pe h cmd es store = Inr (s, es', store') \<Longrightarrow> state_name s = Closed"
  by (auto simp: close_handler_def res_bind_Inr_iff)

lemma getting_name:
  assumes "step_getting pe sm g ev store = Inr (s, es, store')"
  shows "state_name s \<in> insert GettingCatchupTarget (documented GettingCatchupTarget)"
proof -
  obtain h out es1 store1 where "process_event pe (gt_request_handler g) (PoolEvent_into pe ev) store = Inr (h, out, es1, store1)"
    using assms by (auto simp: step_getting_def res_bind_Inr_iff)
  then show ?thesis
    using assms
    by (cases "unwrap_or out ev")
       (auto simp: step_getting_def res_bind_Inr_iff dest!: active_name closed_name elim!: with_nodes_Inr)
qed

lemma sync_name:
  assumes "step_sync pe sm c ev store = Inr (s, es, store')"
  shows "state_name s \<in> insert SyncCatchup (documented SyncCatchup)"
proof -
  obtain h out es1 store1 where "process_event pe (sc_request_handler c) (PoolEvent_into pe ev) store = Inr (h, out, es1, store1)"
    using assms by (auto simp: step_sync_def res_bind_Inr_iff)
  then show ?thesis
    using assms by (cases "unwrap_or out ev") (auto simp: step_sync_def dest!: active_name closed_name)
qed

lemma active_step_name:
  assumes "step_active pe sm a ev store = Inr (s, es, store')"
  shows "state_name s \<in> insert Active (documented Active)"
  using assms
  by (cases ev) (auto simp: step_active_def pool_send_request_def node_reply_def Let_def res_bind_Inr_iff split: option.splits
      dest!: refreshed_name)


text \<open>
  C11. The ledger of an active pool. With a hash without collisions and an invertible base58, the transactions of an
  active pool are the first ones of a ledger whose root and size \<open>f + 1\<close> nodes reported, with the \<open>f\<close> of a node list
  that the networker was told: whenever that root and size are those of a ledger, its transactions extend the pool's.
\<close>

theorem pool_ledger_reported:
  assumes "pool_reach pe sm0 evs log sm store" "pm_state sm = PS_Active a"
    and "collision_free (cd_sha (pl_codec pe))" "\<And>b. cd_b58dec (pl_codec pe) (cd_b58enc (pl_codec pe) b) = Some b"
  shows "\<exists>vs r n. represents (cd_sha (pl_codec pe)) (as_merkle_tree a) vs \<and> nodes_agree pe evs log r n
    \<and> (\<forall>target ws. represents (cd_sha (pl_codec pe)) target ws \<and> length ws = n
         \<and> cd_b58dec (pl_codec pe) r = Some (MerkleTree_root_hash target) \<longrightarrow> prefix vs ws)"
proof -
  let ?cd = "pl_codec pe" and ?mt = "as_merkle_tree a"
  have "current pe evs log ?mt" using pool_reach_inv [OF assms(1)] assms(2) by (simp add: state_inv_def active_ok_def)
  then obtain vs r n where vs: "represents (cd_sha ?cd) ?mt vs" "nodes_agree pe evs log r n"
      and proven: "mt_count ?mt = n \<and> r = cd_b58enc ?cd (MerkleTree_root_hash ?mt)
        \<or> (\<exists>root bs. cd_b58dec ?cd r = Some root \<and> consistency_proof (cd_sha ?cd) ?mt root n bs = Inr True)"
    unfolding current_def has_values_def by blast
  have "prefix vs ws" if ws: "represents (cd_sha ?cd) target ws" "length ws = n" "cd_b58dec ?cd r = Some (MerkleTree_root_hash target)"
    for target ws
  proof -
    obtain bs where "consistency_proof (cd_sha ?cd) ?mt (MerkleTree_root_hash target) (length ws) bs = Inr True"
      using proven ws(2,3) assms(4) by (auto simp: consistency_proof_def)
    then show ?thesis using consistency_sound_represents [OF assms(3) vs(1) ws(1)] by blast
  qed
  then show ?thesis using vs by blast
qed

text \<open>
  The transitions. Every event leaves the pool in its state or takes it along one of the transitions that the
  comment on \<open>PoolState\<close> lists.
\<close>

theorem pool_follows_diagram:
  assumes "PoolSM_handle_event pe sm ev store = Inr (sm', es, store')"
  shows "state_name (pm_state sm') \<in> insert (state_name (pm_state sm)) (documented (state_name (pm_state sm)))"
proof (cases "pm_state sm")
  case PS_Initialization
  then show ?thesis using assms initialization_name by (fastforce simp: PoolSM_handle_event_def res_bind_Inr_iff)
next
  case PS_Terminated
  then show ?thesis
    using assms by (cases ev) (auto simp: PoolSM_handle_event_def step_terminated_def res_bind_Inr_iff dest!: refreshed_name)
next
  case (PS_GettingCatchupTarget g)
  then show ?thesis using assms getting_name by (fastforce simp: PoolSM_handle_event_def res_bind_Inr_iff)
next
  case (PS_SyncCatchup c)
  then show ?thesis using assms sync_name by (fastforce simp: PoolSM_handle_event_def res_bind_Inr_iff)
next
  case (PS_Active a)
  then show ?thesis using assms active_step_name by (fastforce simp: PoolSM_handle_event_def res_bind_Inr_iff)
qed (use assms in \<open>auto simp: PoolSM_handle_event_def\<close>)

text \<open>
  C27. Closing. In every state but the closed one, the command to close is carried out, without a panic: the pool is
  closed, the command is acknowledged, and the commands of an active pool whose requests are under way are told that
  the pool is terminated, each once and nothing else.
\<close>

theorem pool_closes:
  assumes "pool_reach pe sm0 evs log sm store" "pm_state sm \<noteq> PS_Closed"
  shows "\<exists>es. PoolSM_handle_event (pe\<lparr>pl_now := now\<rparr>) sm (PE_Close cmd) store = Inr (sm\<lparr>pm_state := PS_Closed\<rparr>, es, store)
    \<and> Close_ack cmd \<in> set es
    \<and> submitted es = (case pm_state sm of
         PS_Active a \<Rightarrow> concat (map (\<lambda>(_, h). terminate_answers h) (as_request_handlers a)) | _ \<Rightarrow> [])"
proof (cases "pm_state sm")
  case (PS_GettingCatchupTarget g)
  then have "terminate_answers (gt_request_handler g) = []"
    using pool_reach_inv [OF assms(1)] by (simp add: state_inv_def voting_silent)
  then show ?thesis
    using close_handler_closes [of "pe\<lparr>pl_now := now\<rparr>" "gt_request_handler g" cmd "[]" store] PS_GettingCatchupTarget
    by (auto simp: PoolSM_handle_event_def step_getting_def PoolEvent_into_def process_event_None unwrap_or_def)
next
  case (PS_SyncCatchup c)
  then have "terminate_answers (sc_request_handler c) = []"
    using pool_reach_inv [OF assms(1)] by (simp add: state_inv_def fetching_silent)
  then show ?thesis
    using close_handler_closes [of "pe\<lparr>pl_now := now\<rparr>" "sc_request_handler c" cmd "[]" store] PS_SyncCatchup
    by (auto simp: PoolSM_handle_event_def step_sync_def PoolEvent_into_def process_event_None unwrap_or_def)
next
  case (PS_Active a)
  then show ?thesis
    using terminate_all_answers [of "pe\<lparr>pl_now := now\<rparr>" "as_request_handlers a" store]
    by (auto simp: PoolSM_handle_event_def step_active_def)
qed (use assms(2) in \<open>simp_all add: PoolSM_handle_event_def step_initialization_def step_terminated_def\<close>)

subsection \<open>A pool of one node\<close>

definition demo_pool_codec :: codec where
  "demo_pool_codec = demo_catchup\<lparr>cd_msgpack := (\<lambda>_. Some [7]), cd_b58enc := bytes_string, cd_b58dec := (\<lambda>s. Some (string_bytes s)),
     cd_json_parse := (\<lambda>s. Some (JObject (
        if s = ''s'' then [(''op'', JString ''LEDGER_STATUS''), (''txnSeqNo'', JNumber ''1''),
           (''merkleRoot'', JString (bytes_string (demo_digest 1))), (''ledgerId'', JNumber ''0'')]
        else if s = ''q'' then [(''reqId'', JNumber ''1''), (''operation'', JObject [(''type'', JString ''1'')])]
        else if s = ''r'' then [(''op'', JString ''REPLY''), (''result'', JObject [(''reqId'', JNumber ''1'')])]
        else [])))\<rparr>"

definition demo_node_txn :: NodeTransactionV1 where
  "demo_node_txn =
     \<lparr>nt_txn = \<lparr>tx_txn_type = ''0'', tx_protocol_version = None,
        tx_data = \<lparr>td_data = \<lparr>nd_alias = ''n'', nd_client_ip = Some ''i'', nd_client_port = Some 9, nd_node_ip = None,
             nd_node_port = None, nd_services = Some [''VALIDATOR''], nd_blskey = None, nd_blskey_pop = None\<rparr>,
           td_dest = ''d'', td_verkey = None\<rparr>,
        tx_metadata = \<lparr>tm_req_id = None, tm_from = ''t''\<rparr>\<rparr>,
      nt_txn_metadata = \<lparr>me_creation_time = None, me_seq_no = None, me_txn_id = None\<rparr>,
      nt_req_signature = \<lparr>rsg_type = None, rsg_values = None\<rparr>, nt_ver = ''1''\<rparr>"

definition demo_pool_env :: pool_env where
  "demo_pool_env = \<lparr>pl_lib = demo_sp\<lparr>sp_codec := demo_pool_codec\<rparr>, pl_unpack = (\<lambda>_. Some (NodeTransactionV1_to demo_node_txn)),
     pl_curve25519 = Some, pl_ver_key = Some, pl_protocol_version = 2, pl_now = 0, pl_threshold = 300\<rparr>"

definition demo_pool :: PoolSM where
  "demo_pool = PoolSM_new ''p'' 1 20 60 2 (Some ''a'') InMemory"

abbreviation demo_at :: "64 word \<Rightarrow> pool_env" where
  "demo_at t \<equiv> demo_pool_env\<lparr>pl_now := t\<rparr>"

definition demo_remote :: RemoteNode where
  "demo_remote = \<lparr>rn_name = ''n'', rn_public_key = string_bytes ''d'', rn_zaddr = ''tcp://i:9'', rn_is_blacklisted = False\<rparr>"

lemma demo_pool_codec_sha: "cd_sha demo_pool_codec = cd_sha demo_catchup"
  by (simp add: demo_pool_codec_def)

lemma demo_pool_env_codec [simp]: "pl_codec demo_pool_env = demo_pool_codec" "pl_codec (demo_at t) = demo_pool_codec"
  by (simp_all add: demo_pool_env_def)

lemma demo_raw: "from_raw_data demo_pool_codec ''a'' = Inr demo_tree1"
proof -
  have "append_leaf (cd_sha demo_catchup) MerkleTree_default [7] = Inr demo_tree1"
    by (simp add: append_leaf_def MerkleTree_default_def Tree_new_leaf_def hash_leaf_def demo_catchup_def demo_sha_def demo_tree1_def)
  moreover have "parse_txn_from_json demo_pool_codec ''a'' = Inr [7]"
    by (simp add: parse_txn_from_json_def Let_def demo_trim demo_pool_codec_def)
  ultimately show ?thesis
    by (simp add: from_raw_data_def from_vec_def demo_trim demo_pool_codec_sha validate_merkle_tree_def)
       (simp add: demo_tree1_def)
qed

lemma demo_tree_leaves: "LeavesIterator_collect (MerkleTree_iter demo_tree1) = [[7]]"
  by (subst LeavesIterator_collect.simps, subst LeavesIterator_collect.simps)
     (simp add: MerkleTree_iter_def demo_tree1_def LeavesIterator_new_def LeavesIterator_next_def)

lemma demo_state: "build_node_state demo_pool_env demo_tree1 = Inr [(''d'', demo_node_txn)]"
  by (simp add: build_node_state_def demo_tree_leaves demo_pool_env_def node_transaction_roundtrip current_version_def)
     (simp add: demo_node_txn_def)

lemma demo_nodes_of_tree:
  "get_nodes_and_remotes demo_pool_env demo_tree1 = Inr ([(''n'', None)], [demo_remote])"
  by (simp add: get_nodes_and_remotes_def demo_state add_node_def node_and_remote_def Let_def)
     (simp add: demo_pool_env_def demo_node_txn_def demo_pool_codec_def demo_remote_def nat_to_string.simps char_of_def bit_0)

lemma demo_into:
  "PoolEvent_into demo_pool_env (PE_NodeReply ''s'' ''n'') = Some (RE_LedgerStatus
     \<lparr>ls_txnSeqNo = 1, ls_merkleRoot = bytes_string (demo_digest 1), ls_ledgerId = 0, ls_ppSeqNo = None, ls_viewNo = None,
      ls_protocolVersion = None\<rparr> (Some ''n'') None)"
  "PoolEvent_into demo_pool_env (PE_SendRequest 5 ''q'' None None) = Some (RE_CustomConsensusRequest ''q'' ''1'')"
  "PoolEvent_into demo_pool_env (PE_NodeReply ''r'' ''n'') = Some (RE_Reply 1 ''r'' ''n'' ''1'')"
proof -
  have n: "as_u64 (JNumber ''1'') = Some 1" "as_u8 (JNumber ''0'') = Some 0" "nat_to_string (Suc 0) = ''1''"
    by (simp_all add: as_u64_def as_u8_def parse_uint_def is_digit_def digits_value_def nat_to_string.simps char_of_def bit_0)
  show "PoolEvent_into demo_pool_env (PE_NodeReply ''s'' ''n'') = Some (RE_LedgerStatus
     \<lparr>ls_txnSeqNo = 1, ls_merkleRoot = bytes_string (demo_digest 1), ls_ledgerId = 0, ls_ppSeqNo = None, ls_viewNo = None,
      ls_protocolVersion = None\<rparr> (Some ''n'') None)"
    by (simp add: PoolEvent_into_def Message_from_raw_str_def demo_pool_codec_def Message_from_def LedgerStatus_from_def n as_usize_def opt_field_def)
  show "PoolEvent_into demo_pool_env (PE_SendRequest 5 ''q'' None None) = Some (RE_CustomConsensusRequest ''q'' ''1'')"
    by (simp add: PoolEvent_into_def send_request_event_def parse_req_id_and_op_def demo_pool_codec_def json_path_def json_index_def n One_nat_def
       REQUEST_FOR_FULL_def POOL_RESTART_def GET_VALIDATOR_INFO_def REQUESTS_FOR_STATE_PROOFS_def txn_types)
  show "PoolEvent_into demo_pool_env (PE_NodeReply ''r'' ''n'') = Some (RE_Reply 1 ''r'' ''n'' ''1'')"
    by (simp add: PoolEvent_into_def Message_from_raw_str_def demo_pool_codec_def Message_from_def Reply_from_def ResponseMetadata_from_def
       opt_or_def n)
qed

text \<open>The pool opens, finds that its ledger is current, sends a request and gets the answer.\<close>

definition demo_handler :: "command_handle list \<Rightarrow> RequestState \<Rightarrow> RequestHandler" where
  "demo_handler cmds s = \<lparr>rh_nodes = [(''n'', None)], rh_wrapper = Some ((RequestSM_new 0 cmds [''n''] 20 60 2 InMemory)\<lparr>rq_state := s\<rparr>)\<rparr>"

definition demo_getting :: PoolSM where
  "demo_getting = demo_pool\<lparr>pm_state := PS_GettingCatchupTarget \<lparr>gt_request_handler =
     demo_handler [] (RS_CatchupConsensus \<lparr>cc_replies = [], cc_merkle_tree = demo_tree1\<rparr>), gt_cmd_id = 3, gt_refresh = False\<rparr>\<rparr>"

definition demo_active :: "(string \<times> RequestHandler) list \<Rightarrow> PoolSM" where
  "demo_active hs = demo_pool\<lparr>pm_state := PS_Active \<lparr>as_request_handlers = hs, as_nodes = [(''n'', None)], as_merkle_tree = demo_tree1\<rparr>\<rparr>"

definition demo_waiting :: PoolSM where
  "demo_waiting = demo_active [(''1'', demo_handler [5] (RS_Consensus \<lparr>cs_denied_nodes = [], cs_replies = [], cs_timeout_nodes = []\<rparr>))]"

lemmas demo_pool_defs = PoolSM_handle_event_def process_event_def RequestHandler_process_event_def RequestSM_handle_event_def
  RequestHandler_new_def demo_handler_def RequestSM_new_def get_f_def

lemma demo_opens: "\<exists>es. PoolSM_handle_event (demo_at 1) demo_pool (PE_CheckCache 3) store = Inr (demo_getting, es, store)
    \<and> Eff (Net (NodesStateUpdated [demo_remote])) \<in> set es"
  by (simp add: demo_pool_defs step_initialization_def get_request_handler_with_ledger_status_sent_def load_tree_def
      demo_pool_def PoolSM_new_def demo_getting_def demo_raw tree_and_nodes_def demo_nodes_of_tree handle_start_def)

lemma build_state_clock [simp]: "build_node_state (pe\<lparr>pl_now := t\<rparr>) = build_node_state pe"
  by (simp add: fun_eq_iff build_node_state_def node_state_clock)

lemma demo_verdict:
  "check_nodes_responses_on_status demo_pool_codec [((bytes_string (demo_digest 1), 1, None), [''n''])] demo_tree1 1 0 InMemory store
     = (Inr (NotNeeded demo_tree1), store)"
proof -
  have "bytes_string (demo_digest 1) \<noteq> ''timeout''"
    by (auto simp: demo_digest_def HASHBYTES_def bytes_string_def dest!: arg_cong [where f = length])
  moreover have "cd_b58enc demo_pool_codec (MerkleTree_root_hash demo_tree1) = bytes_string (demo_digest 1)" "mt_count demo_tree1 = 1"
    by (simp_all add: demo_pool_codec_def MerkleTree_root_hash_def demo_tree1_def)
  ultimately show ?thesis by (simp add: check_nodes_responses_on_status_def try_to_catch_up_def)
qed

lemma demo_syncs: "\<exists>es. PoolSM_handle_event (demo_at 2) demo_getting (PE_NodeReply ''s'' ''n'') store = Inr (demo_active [], es, store)"
proof -
  have "\<exists>es. process_event (demo_at 2) (demo_handler [] (RS_CatchupConsensus \<lparr>cc_replies = [], cc_merkle_tree = demo_tree1\<rparr>))
      (PoolEvent_into demo_pool_env (PE_NodeReply ''s'' ''n'')) store = Inr (demo_handler [] RS_Finish, Some (PE_Synced demo_tree1), es, store)"
    using demo_verdict
    by (simp add: demo_pool_defs demo_into handle_catchup_consensus_def catchup_target_handle_consensus_state_def
        process_catchup_target_def add_vote_def unwrap_or_def request_env_of_def)
  then show ?thesis
    by (auto simp: PoolSM_handle_event_def step_getting_def demo_getting_def unwrap_or_def become_active_def with_nodes_def caught_def
        demo_nodes_of_tree demo_active_def dump_to_json_string_def build_state_clock demo_state)
qed

lemma demo_sends: "\<exists>es. PoolSM_handle_event (demo_at 3) (demo_active []) (PE_SendRequest 5 ''q'' None None) store = Inr (demo_waiting, es, store)"
  by (simp add: demo_pool_defs step_active_def demo_active_def demo_waiting_def pool_send_request_def demo_into handle_start_def demo_pool_def PoolSM_new_def)

lemma demo_answers: "\<exists>es. PoolSM_handle_event (demo_at 4) demo_waiting (PE_NodeReply ''r'' ''n'') store = Inr (demo_active [], es, store)
    \<and> submitted es = [(5, Inr ''r'')]"
proof -
  have "\<exists>es. process_event (demo_at 4) (demo_handler [5] (RS_Consensus \<lparr>cs_denied_nodes = [], cs_replies = [], cs_timeout_nodes = []\<rparr>))
      (PoolEvent_into demo_pool_env (PE_NodeReply ''r'' ''n'')) store = Inr (demo_handler [5] RS_Finish, None, es, store)
      \<and> submitted es = [(5, Inr ''r'')]"
    by (simp add: demo_pool_defs demo_into handle_consensus_def consensus_reply_def get_msg_result_without_state_proof_def
        request_env_of_def Let_def)
       (simp add: demo_pool_codec_def add_vote_def unwrap_or_def)
  then show ?thesis
    by (auto simp: PoolSM_handle_event_def step_active_def demo_active_def demo_waiting_def node_reply_def demo_into
        RequestHandler_done_def RequestHandler_is_terminal_def RequestSM_is_terminal_def demo_handler_def)
qed

lemma demo_reach_active: "\<exists>log. pool_reach demo_pool_env demo_pool [PE_CheckCache 3, PE_NodeReply ''s'' ''n''] log (demo_active []) demo_store"
proof -
  have "pool_reach demo_pool_env demo_pool [] [] demo_pool demo_store"
    by (rule pool_reach.opened) (simp add: demo_pool_def PoolSM_new_def)
  then show ?thesis
    using demo_opens [of demo_store] demo_syncs [of demo_store] pool_reach.handled external.simps(1,2) by (metis append_Cons append_Nil)
qed

lemma demo_reach_waiting:
  "\<exists>log. pool_reach demo_pool_env demo_pool [PE_CheckCache 3, PE_NodeReply ''s'' ''n'', PE_SendRequest 5 ''q'' None None] log
     demo_waiting demo_store"
  using demo_reach_active demo_sends [of demo_store] pool_reach.handled external.simps(5) by (metis append_Cons append_Nil)


theorem pool_ledger_reported_witness:
  "\<exists>log vs r n. pool_reach demo_pool_env demo_pool [PE_CheckCache 3, PE_NodeReply ''s'' ''n''] log (demo_active []) demo_store
     \<and> represents (cd_sha demo_pool_codec) demo_tree1 vs
     \<and> nodes_agree demo_pool_env [PE_CheckCache 3, PE_NodeReply ''s'' ''n''] log r n"
proof -
  let ?pe = demo_pool_env
  have env: "collision_free (cd_sha (pl_codec ?pe))" "\<And>b. cd_b58dec (pl_codec ?pe) (cd_b58enc (pl_codec ?pe) b) = Some b"
    using demo_catchup_collision_free by (simp add: demo_pool_codec_sha) (simp add: demo_pool_codec_def)
  have active: "pm_state (demo_active []) = PS_Active \<lparr>as_request_handlers = [], as_nodes = [(''n'', None)], as_merkle_tree = demo_tree1\<rparr>"
    by (simp add: demo_active_def)
  obtain log where log: "pool_reach ?pe demo_pool [PE_CheckCache 3, PE_NodeReply ''s'' ''n''] log (demo_active []) demo_store"
    using demo_reach_active by blast
  show ?thesis using pool_ledger_reported [OF log active env] log by (simp del: history_simps) blast
qed

theorem pool_follows_diagram_witness:
  "(\<exists>es. PoolSM_handle_event (demo_at 2) demo_getting (PE_NodeReply ''s'' ''n'') demo_store = Inr (demo_active [], es, demo_store))
   \<and> state_name (pm_state (demo_active [])) \<in> insert (state_name (pm_state demo_getting)) (documented (state_name (pm_state demo_getting)))"
  using demo_syncs [of demo_store] pool_follows_diagram by blast

theorem pool_closes_witness:
  "\<exists>es. PoolSM_handle_event (demo_at 9) demo_waiting (PE_Close 6) demo_store
        = Inr (demo_waiting\<lparr>pm_state := PS_Closed\<rparr>, es, demo_store)
     \<and> Close_ack 6 \<in> set es \<and> submitted es = [(5, Inl (err_msg IE_PoolTerminated ''Pool is terminated''))]"
proof -
  have "pm_state demo_waiting \<noteq> PS_Closed" by (simp add: demo_waiting_def demo_active_def)
  then show ?thesis
    using demo_reach_waiting pool_closes [of demo_pool_env demo_pool _ _ demo_waiting demo_store 9 6]
    by (fastforce simp: demo_waiting_def demo_active_def terminate_answers_def demo_handler_def RequestSM_new_def)
qed

subsection \<open>Commands without an answer\<close>

text \<open>A refresh drops the requests under way: none of their commands is answered.\<close>

lemma refresh_drops_requests:
  assumes "pool_reach pe sm0 evs log sm store" "pm_state sm = PS_Active a"
    and "PoolSM_handle_event (pe\<lparr>pl_now := now\<rparr>) sm (PE_Refresh cmd) store = Inr (sm', es, store')"
  shows "submitted es = [] \<and> (\<forall>a'. pm_state sm' \<noteq> PS_Active a')"
proof -
  have val: "has_values pe (as_merkle_tree a)"
    using pool_reach_inv [OF assms(1)] assms(2) by (simp add: state_inv_def active_ok_def current_def)
  obtain s where s: "refreshed (pe\<lparr>pl_now := now\<rparr>) sm (Some (as_merkle_tree a)) cmd store = Inr (s, es, store')" "pm_state sm' = s"
    using assms(2,3) by (auto simp: PoolSM_handle_event_def step_active_def res_bind_Inr_iff)
  then show ?thesis using refreshed_ok [OF s(1)] val refreshed_name [OF s(1)] by auto
qed

text \<open>A request that arrives before the pool is opened, or when it is terminated or closed, is ignored.\<close>

lemma request_ignored:
  "pm_state sm \<in> {PS_Initialization, PS_Terminated, PS_Closed} \<Longrightarrow>
     PoolSM_handle_event pe sm (PE_SendRequest cmd msg timeout nodes) store = Inr (sm, [], store)"
  by (auto simp: PoolSM_handle_event_def step_initialization_def step_terminated_def)

text \<open>A refresh whose ledger cannot be loaded is not acknowledged.\<close>

lemma failed_refresh_silent:
  "load_tree pe sm omt store = (Inl (Err err), store') \<Longrightarrow> refreshed pe sm omt cmd store = Inr (PS_Terminated, [], store')"
  by (simp add: refreshed_def get_request_handler_with_ledger_status_sent_def)

text \<open>A second request with the same id takes the place of the first, whose command is not answered.\<close>

lemma repeated_request_id:
  "\<exists>es. PoolSM_handle_event (demo_at 4) demo_waiting (PE_SendRequest 6 ''q'' None None) store
        = Inr (demo_active [(''1'', demo_handler [6] (RS_Consensus \<lparr>cs_denied_nodes = [], cs_replies = [], cs_timeout_nodes = []\<rparr>))], es, store)
     \<and> submitted es = []"
proof -
  have "PoolEvent_into demo_pool_env (PE_SendRequest 6 ''q'' None None) = Some (RE_CustomConsensusRequest ''q'' ''1'')"
    using demo_into(2) by (simp add: PoolEvent_into_def)
  then show ?thesis
    by (simp add: demo_pool_defs step_active_def demo_active_def demo_waiting_def pool_send_request_def handle_start_def
        demo_pool_def PoolSM_new_def submitted_def)
qed

end
