(* ===== verification/Wql.thy ===== *)
theory Wql
  imports Prelude
begin

text \<open>
  The wallet query language (\<open>libvdrtools/indy-utils/src/wql.rs\<close>): queries, their JSON form, the parser and
  the optimiser. Queries restrict the credentials of a proof request and the items of a wallet search.

  A JSON object is the list of its entries in the order of the map (sorted keys, as \<open>serde_json\<close> keeps
  them). An error is the text of the message.

  Shown: what the parser returns is well formed, and a well-formed query is printed and read back as
  itself; the optimiser keeps the meaning of every query in which no empty conjunction stands below a
  disjunction; an empty conjunction below a disjunction is dropped, which narrows the query.
\<close>

datatype Query =
    QAnd "Query list"
  | QOr "Query list"
  | QNot Query
  | QEq string string
  | QNeq string string
  | QGt string string
  | QGte string string
  | QLt string string
  | QLte string string
  | QLike string string
  | QIn string "string list"

subsection \<open>Printing\<close>

fun to_value :: "Query \<Rightarrow> json" where
  "to_value (QEq tag_name tag_value) = JObject [(tag_name, JString tag_value)]"
| "to_value (QNeq tag_name tag_value) = JObject [(tag_name, JObject [(''$neq'', JString tag_value)])]"
| "to_value (QGt tag_name tag_value) = JObject [(tag_name, JObject [(''$gt'', JString tag_value)])]"
| "to_value (QGte tag_name tag_value) = JObject [(tag_name, JObject [(''$gte'', JString tag_value)])]"
| "to_value (QLt tag_name tag_value) = JObject [(tag_name, JObject [(''$lt'', JString tag_value)])]"
| "to_value (QLte tag_name tag_value) = JObject [(tag_name, JObject [(''$lte'', JString tag_value)])]"
| "to_value (QLike tag_name tag_value) = JObject [(tag_name, JObject [(''$like'', JString tag_value)])]"
| "to_value (QIn tag_name tag_values) = JObject [(tag_name, JObject [(''$in'', JArray (map JString tag_values))])]"
| "to_value (QAnd operators) =
     (if operators \<noteq> [] then JObject [(''$and'', JArray (map to_value operators))] else JObject [])"
| "to_value (QOr operators) =
     (if operators \<noteq> [] then JObject [(''$or'', JArray (map to_value operators))] else JObject [])"
| "to_value (QNot stmt) = JObject [(''$not'', to_value stmt)]"

subsection \<open>Parsing\<close>

definition parse_single_operator :: "string \<Rightarrow> string \<Rightarrow> json \<Rightarrow> (string, Query) result" where
  "parse_single_operator operator_name key value =
     (let on_string = (\<lambda>c. case as_str value of Some v \<Rightarrow> Inr (c key v) | None \<Rightarrow> Inl (operator_name @ '' must be used with string''))
      in if operator_name = ''$neq'' then on_string QNeq
         else if operator_name = ''$gt'' then on_string QGt
         else if operator_name = ''$gte'' then on_string QGte
         else if operator_name = ''$lt'' then on_string QLt
         else if operator_name = ''$lte'' then on_string QLte
         else if operator_name = ''$like'' then on_string QLike
         else if operator_name = ''$in'' then
           (case array_of as_str value of
              Some vs \<Rightarrow> Inr (QIn key vs)
            | None \<Rightarrow> Inl ''$in must be used with array of strings'')
         else Inl ''Unknown operator'')"

fun parse_query :: "(string \<times> json) list \<Rightarrow> (string, Query) result"
  and parse_entries :: "(string \<times> json) list \<Rightarrow> (string, Query list) result"
  and parse_operator :: "string \<Rightarrow> json \<Rightarrow> (string, Query option) result"
  and parse_list_operators :: "json list \<Rightarrow> (string, Query list) result" where
  "parse_query m =
     res_bind (parse_entries m) (\<lambda>operators. Inr (if length operators = 1 then hd operators else QAnd operators))"
| "parse_entries [] = Inr []"
| "parse_entries ((key, value) # m) =
     res_bind (parse_operator key value) (\<lambda>operator.
     res_bind (parse_entries m) (\<lambda>operators.
       Inr (case operator of None \<Rightarrow> operators | Some q \<Rightarrow> q # operators)))"
| "parse_operator key value =
     (if key = ''$and'' then
        (case value of
           JArray values \<Rightarrow>
             if values = [] then Inr None
             else res_bind (parse_list_operators values) (\<lambda>operators. Inr (Some (QAnd operators)))
         | _ \<Rightarrow> Inl ''$and must be array of JSON objects'')
      else if key = ''$or'' then
        (case value of
           JArray values \<Rightarrow>
             if values = [] then Inr None
             else res_bind (parse_list_operators values) (\<lambda>operators. Inr (Some (QOr operators)))
         | _ \<Rightarrow> Inl ''$or must be array of JSON objects'')
      else if key = ''$not'' then
        (case value of
           JObject m \<Rightarrow> res_bind (parse_query m) (\<lambda>operator. Inr (Some (QNot operator)))
         | _ \<Rightarrow> Inl ''$not must be JSON object'')
      else
        (case value of
           JString v \<Rightarrow> Inr (Some (QEq key v))
         | JObject m \<Rightarrow>
             (case m of
                [(operator_name, v)] \<Rightarrow> res_bind (parse_single_operator operator_name key v) (\<lambda>q. Inr (Some q))
              | _ \<Rightarrow> Inl ''value must be JSON object of length 1'')
         | _ \<Rightarrow> Inl ''Unsupported value''))"
| "parse_list_operators [] = Inr []"
| "parse_list_operators (value # values) =
     (case value of
        JObject m \<Rightarrow>
          res_bind (parse_query m) (\<lambda>suboperator.
          res_bind (parse_list_operators values) (\<lambda>out_operators. Inr (suboperator # out_operators)))
      | _ \<Rightarrow> Inl ''operator must be array of JSON objects'')"

text \<open>\<open>Deserialize\<close>: an object is a query, an array the old form of restrictions.\<close>

definition missing_field :: "string \<Rightarrow> string" where
  "missing_field field = ''missing field `'' @ field @ ''`''"

definition old_restrictions :: "json list \<Rightarrow> (string, json list) result" where
  "old_restrictions restrictions =
     res_bind (try_map (\<lambda>sub_query. ok_or (as_object sub_query) ''Restriction is invalid'') restrictions) (\<lambda>objects.
       Inr (map JObject (filter (\<lambda>fields. fields \<noteq> []) (map (filter (\<lambda>(_, v). v \<noteq> JNull)) objects))))"

definition Query_deserialize :: "json \<Rightarrow> (string, Query) result" where
  "Query_deserialize v =
     (case v of
        JObject m \<Rightarrow> map_err missing_field (parse_query m)
      | JArray restrictions \<Rightarrow> res_bind (old_restrictions restrictions) (\<lambda>res. parse_query [(''$or'', JArray res)])
      | _ \<Rightarrow> Inl (missing_field ''Restriction must be either object or array''))"

definition Query_default :: Query where
  "Query_default = QAnd []"

subsection \<open>Optimising\<close>

definition somes :: "'a option list \<Rightarrow> 'a list" where
  "somes xs = concat (map (\<lambda>x. case x of None \<Rightarrow> [] | Some a \<Rightarrow> [a]) xs)"

definition regroup :: "(Query list \<Rightarrow> Query) \<Rightarrow> Query list \<Rightarrow> Query option" where
  "regroup c suboperators =
     (case suboperators of [] \<Rightarrow> None | [q] \<Rightarrow> Some q | _ \<Rightarrow> Some (c suboperators))"

fun optimise :: "Query \<Rightarrow> Query option" where
  "optimise (QNot operator) = (case operator of QNot nested \<Rightarrow> Some nested | _ \<Rightarrow> Some (QNot operator))"
| "optimise (QAnd suboperators) =
     (case suboperators of
        [] \<Rightarrow> None
      | [q] \<Rightarrow> optimise q
      | _ \<Rightarrow> regroup QAnd (somes (map optimise suboperators)))"
| "optimise (QOr suboperators) =
     (case suboperators of
        [] \<Rightarrow> None
      | [q] \<Rightarrow> optimise q
      | _ \<Rightarrow> regroup QOr (somes (map optimise suboperators)))"
| "optimise (QIn key targets) = (case targets of [t] \<Rightarrow> Some (QEq key t) | _ \<Rightarrow> Some (QIn key targets))"
| "optimise q = Some q"

subsection \<open>Well-formed queries\<close>

text \<open>
  Tag names are not the words of the language, and there is no empty disjunction: it would be printed as
  the empty object, which is the empty conjunction.
\<close>

definition plain_tag :: "string \<Rightarrow> bool" where
  "plain_tag k = (k \<notin> {''$and'', ''$or'', ''$not''})"

fun wf_query :: "Query \<Rightarrow> bool" where
  "wf_query (QAnd qs) = list_all wf_query qs"
| "wf_query (QOr qs) = (qs \<noteq> [] \<and> list_all wf_query qs)"
| "wf_query (QNot q) = wf_query q"
| "wf_query (QEq k _) = plain_tag k"
| "wf_query (QNeq k _) = plain_tag k"
| "wf_query (QGt k _) = plain_tag k"
| "wf_query (QGte k _) = plain_tag k"
| "wf_query (QLt k _) = plain_tag k"
| "wf_query (QLte k _) = plain_tag k"
| "wf_query (QLike k _) = plain_tag k"
| "wf_query (QIn k _) = plain_tag k"

lemma parse_single_operator_wf: "parse_single_operator name k v = Inr q \<Longrightarrow> plain_tag k \<Longrightarrow> wf_query q"
  by (auto simp: parse_single_operator_def Let_def split: if_splits option.splits)

lemma parse_operator_leaf:
  "plain_tag k \<Longrightarrow> parse_operator k v =
     (case v of
        JString s \<Rightarrow> Inr (Some (QEq k s))
      | JObject m \<Rightarrow>
          (case m of
             [(name, w)] \<Rightarrow> res_bind (parse_single_operator name k w) (\<lambda>q. Inr (Some q))
           | _ \<Rightarrow> Inl ''value must be JSON object of length 1'')
      | _ \<Rightarrow> Inl ''Unsupported value'')"
  by (simp add: plain_tag_def)

lemma parse_list_length: "parse_list_operators vs = Inr qs \<Longrightarrow> length qs = length vs"
  by (induction vs arbitrary: qs) (auto simp: res_bind_Inr_iff split: json.splits)

lemma parse_wf:
  "parse_query m = Inr q \<Longrightarrow> wf_query q"
  "parse_entries m = Inr qs \<Longrightarrow> list_all wf_query qs"
  "parse_operator k v = Inr (Some q1) \<Longrightarrow> wf_query q1"
  "parse_list_operators vs = Inr qs2 \<Longrightarrow> list_all wf_query qs2"
proof (induction m and m and k v and vs arbitrary: q and qs and q1 and qs2
    rule: parse_query_parse_entries_parse_operator_parse_list_operators.induct)
  case (1 m)
  obtain ops where ops: "parse_entries m = Inr ops" "q = (if length ops = 1 then hd ops else QAnd ops)"
    using 1(2) by (auto simp: res_bind_Inr_iff)
  then show ?case using 1(1) [of ops] by (cases ops) auto
next
  case (3 k v m)
  then show ?case by (auto simp: res_bind_Inr_iff split: option.splits)
next
  case (4 k v)
  show ?case
  proof (cases "plain_tag k")
    case True
    then show ?thesis
      using "4.prems" parse_single_operator_wf
      by (auto simp: parse_operator_leaf res_bind_Inr_iff plain_tag_def split: json.splits list.splits)
  next
    case False
    then show ?thesis
      using 4 parse_list_length by (fastforce simp: plain_tag_def res_bind_Inr_iff split: json.splits if_splits)
  qed
next
  case (6 v vs)
  then show ?case by (auto simp: res_bind_Inr_iff split: json.splits)
qed auto

lemma parse_list_written:
  "(\<And>q. q \<in> set qs \<Longrightarrow> \<exists>m. to_value q = JObject m \<and> parse_query m = Inr q) \<Longrightarrow>
     parse_list_operators (map to_value qs) = Inr qs"
proof (induction qs)
  case (Cons q qs)
  then obtain m where "to_value q = JObject m" "parse_query m = Inr q" by auto
  then show ?case using Cons by (simp del: parse_query.simps)
qed simp

lemma array_of_strings: "array_of as_str (JArray (map JString vs)) = Some vs"
  by (induction vs) (auto simp: array_of_def)

lemma written_object: "\<exists>m. to_value q = JObject m"
  by (cases q) auto

lemma query_written: "wf_query q \<Longrightarrow> to_value q = JObject m \<Longrightarrow> parse_query m = Inr q"
proof (induction q arbitrary: m)
  case (QAnd qs)
  have "parse_list_operators (map to_value qs) = Inr qs"
    using QAnd.IH QAnd.prems(1) written_object by (intro parse_list_written) (fastforce simp: list_all_iff)
  then show ?case using QAnd.prems by (cases "qs = []") auto
next
  case (QOr qs)
  have "parse_list_operators (map to_value qs) = Inr qs"
    using QOr.IH QOr.prems(1) written_object by (intro parse_list_written) (fastforce simp: list_all_iff)
  then show ?case using QOr.prems by auto
next
  case (QNot q)
  obtain m' where "to_value q = JObject m'" using written_object by blast
  then show ?case using QNot by (auto simp del: parse_query.simps simp: parse_query.simps [of "[(''$not'', _)]"])
qed (auto simp: plain_tag_def parse_single_operator_def array_of_strings)

subsection \<open>The meaning of a query\<close>

text \<open>
  \<open>eq tag value\<close> says that the tag has the value; \<open>other\<close> gives the meaning of the comparisons.
\<close>

fun query_holds :: "(string \<Rightarrow> string \<Rightarrow> bool) \<Rightarrow> (Query \<Rightarrow> bool) \<Rightarrow> Query \<Rightarrow> bool" where
  "query_holds eq other (QAnd qs) = list_all (query_holds eq other) qs"
| "query_holds eq other (QOr qs) = list_ex (query_holds eq other) qs"
| "query_holds eq other (QNot q) = (\<not> query_holds eq other q)"
| "query_holds eq other (QEq k v) = eq k v"
| "query_holds eq other (QIn k vs) = list_ex (eq k) vs"
| "query_holds eq other q = other q"

text \<open>Queries of which the optimiser leaves nothing, and those without such a query below a disjunction.\<close>

fun vanishes :: "Query \<Rightarrow> bool" where
  "vanishes (QAnd qs) = list_all vanishes qs"
| "vanishes (QOr qs) = list_all vanishes qs"
| "vanishes _ = False"

fun solid :: "Query \<Rightarrow> bool" where
  "solid (QAnd qs) = list_all solid qs"
| "solid (QOr qs) = (qs \<noteq> [] \<and> list_all solid qs \<and> list_all (\<lambda>q. \<not> vanishes q) qs)"
| "solid _ = True"

lemma somes_simps [simp]:
  "somes [] = []" "somes (None # xs) = somes xs" "somes (Some x # xs) = x # somes xs"
  by (simp_all add: somes_def)

lemma regroup_None_iff [simp]: "regroup c qs = None \<longleftrightarrow> qs = []"
  by (auto simp: regroup_def split: list.splits)

lemma regroup_holds:
  assumes "regroup c qs = Some q"
  shows "(c = QAnd \<longrightarrow> query_holds eq other q = list_all (query_holds eq other) qs)
     \<and> (c = QOr \<longrightarrow> query_holds eq other q = list_ex (query_holds eq other) qs)"
  using assms by (auto simp: regroup_def split: list.splits)

lemma somes_Nil_iff: "somes xs = [] \<longleftrightarrow> list_all (\<lambda>x. x = None) xs"
  by (induction xs) (auto simp: somes_def split: option.splits)

lemma optimise_None_iff: "optimise q = None \<longleftrightarrow> vanishes q"
  by (induction q rule: optimise.induct)
     (auto simp: somes_Nil_iff list_all_iff split: list.splits Query.splits)

lemma somes_all: "list_all P (somes xs) \<longleftrightarrow> list_all (\<lambda>x. case x of None \<Rightarrow> True | Some a \<Rightarrow> P a) xs"
  by (induction xs) (auto simp: somes_def split: option.splits)

lemma somes_ex: "list_ex P (somes xs) \<longleftrightarrow> list_ex (\<lambda>x. case x of None \<Rightarrow> False | Some a \<Rightarrow> P a) xs"
  by (induction xs) (auto simp: somes_def split: option.splits)

lemma optimise_long:
  assumes "qs \<noteq> []" "\<nexists>q. qs = [q]"
  shows "optimise (QAnd qs) = regroup QAnd (somes (map optimise qs))" "optimise (QOr qs) = regroup QOr (somes (map optimise qs))"
  using assms by (auto split: list.splits)

lemma optimise_keeps_meaning:
  "solid q \<Longrightarrow> (case optimise q of None \<Rightarrow> query_holds eq other q | Some q' \<Rightarrow> query_holds eq other q' = query_holds eq other q)"
proof (induction q)
  case (QAnd qs)
  then have IH: "\<forall>q \<in> set qs. case optimise q of None \<Rightarrow> query_holds eq other q | Some q' \<Rightarrow> query_holds eq other q' = query_holds eq other q"
    by (auto simp: list_all_iff)
  show ?case
  proof (cases "qs = [] \<or> (\<exists>q. qs = [q])")
    case True
    then show ?thesis using IH by (auto split: option.splits)
  next
    case False
    have all: "list_all (query_holds eq other) (somes (map optimise qs)) = list_all (query_holds eq other) qs"
      using IH unfolding somes_all by (fastforce simp: list_all_iff split: option.splits)
    have opt: "optimise (QAnd qs) = regroup QAnd (somes (map optimise qs))" using False by (intro optimise_long) auto
    show ?thesis
    proof (cases "regroup QAnd (somes (map optimise qs))")
      case None
      then have "list_all (query_holds eq other) qs" using all by simp
      then show ?thesis unfolding opt None by simp
    next
      case (Some q)
      then show ?thesis unfolding opt Some using regroup_holds [OF Some, of eq other] all by simp
    qed
  qed
next
  case (QOr qs)
  then have IH: "\<forall>q \<in> set qs. case optimise q of None \<Rightarrow> query_holds eq other q | Some q' \<Rightarrow> query_holds eq other q' = query_holds eq other q"
    and some: "\<forall>q \<in> set qs. optimise q \<noteq> None" "qs \<noteq> []"
    by (auto simp: list_all_iff optimise_None_iff)
  show ?case
  proof (cases "\<exists>q. qs = [q]")
    case True
    then show ?thesis using IH by (auto split: option.splits)
  next
    case False
    have ex: "list_ex (query_holds eq other) (somes (map optimise qs)) = list_ex (query_holds eq other) qs"
      using IH some unfolding somes_ex by (fastforce simp: list_ex_iff split: option.splits)
    have "somes (map optimise qs) \<noteq> []" using some by (cases qs) (auto simp: somes_Nil_iff)
    then obtain q where q: "regroup QOr (somes (map optimise qs)) = Some q" by fastforce
    have opt: "optimise (QOr qs) = regroup QOr (somes (map optimise qs))" using False some by (intro optimise_long) auto
    show ?thesis unfolding opt q using regroup_holds [OF q, of eq other] ex by simp
  qed
next
  case (QNot q)
  then show ?case by (cases q) auto
next
  case (QIn k vs)
  then show ?case by (auto split: list.splits)
qed auto

text \<open>What the optimiser returns; a double negation is removed but what is below it is not looked at.\<close>

fun compact :: "Query \<Rightarrow> bool" where
  "compact (QAnd qs) = (2 \<le> length qs \<and> list_all compact qs)"
| "compact (QOr qs) = (2 \<le> length qs \<and> list_all compact qs)"
| "compact (QNot q) = (\<nexists>q'. q = QNot q')"
| "compact (QIn _ vs) = (length vs \<noteq> 1)"
| "compact _ = True"

fun no_double_not :: "Query \<Rightarrow> bool" where
  "no_double_not (QAnd qs) = list_all no_double_not qs"
| "no_double_not (QOr qs) = list_all no_double_not qs"
| "no_double_not (QNot q) = (\<nexists>q'. q = QNot q')"
| "no_double_not _ = True"

lemma regroup_compact: "regroup c qs = Some q \<Longrightarrow> c \<in> {QAnd, QOr} \<Longrightarrow> list_all compact qs \<Longrightarrow> compact q"
  by (auto simp: regroup_def split: list.splits)

lemma optimise_compact: "no_double_not q \<Longrightarrow> optimise q = Some q' \<Longrightarrow> compact q'"
proof (induction q arbitrary: q')
  case (QAnd qs)
  then have "list_all compact (somes (map optimise qs))"
    unfolding somes_all by (auto simp: list_all_iff split: option.splits)
  then show ?case
    using QAnd regroup_compact [of QAnd "somes (map optimise qs)"] by (auto simp: list_all_iff split: list.splits)
next
  case (QOr qs)
  then have "list_all compact (somes (map optimise qs))"
    unfolding somes_all by (auto simp: list_all_iff split: option.splits)
  then show ?case
    using QOr regroup_compact [of QOr "somes (map optimise qs)"] by (auto simp: list_all_iff split: list.splits)
next
  case (QNot q)
  then show ?case by (cases q) auto
next
  case (QIn k vs)
  then show ?case by (auto split: list.splits)
qed auto

lemma somes_map_Some: "list_all (\<lambda>q. f q = Some q) qs \<Longrightarrow> somes (map f qs) = qs"
  by (induction qs) auto

lemma optimise_id: "compact q \<Longrightarrow> optimise q = Some q"
proof (induction q)
  case (QAnd qs)
  then have "somes (map optimise qs) = qs" by (intro somes_map_Some) (auto simp: list_all_iff)
  then show ?case using QAnd.prems by (auto simp: regroup_def split: list.splits)
next
  case (QOr qs)
  then have "somes (map optimise qs) = qs" by (intro somes_map_Some) (auto simp: list_all_iff)
  then show ?case using QOr.prems by (auto simp: regroup_def split: list.splits)
next
  case (QNot q)
  then show ?case by (cases q) auto
next
  case (QIn k vs)
  then show ?case by (auto split: list.splits)
qed auto

subsection \<open>Properties\<close>

text \<open>
  C40. Every query that is read from JSON, of the new or the old form, is well formed: no word of the
  language is a tag name and no disjunction is empty.
\<close>

theorem parsed_query_well_formed:
  assumes "Query_deserialize v = Inr q"
  shows "wf_query q"
  using assms parse_wf(1) by (cases v) (auto simp: Query_deserialize_def map_err_Inr_iff res_bind_Inr_iff simp del: parse_query.simps)

text \<open>
  A query is printed and read back as itself exactly if it is well formed.
\<close>

theorem query_json_roundtrip:
  "Query_deserialize (to_value q) = Inr q \<longleftrightarrow> wf_query q"
proof
  obtain m where m: "to_value q = JObject m" using written_object by blast
  then have run: "Query_deserialize (to_value q) = map_err missing_field (parse_query m)" by (simp add: Query_deserialize_def)
  show "wf_query q" if "Query_deserialize (to_value q) = Inr q" using that run parse_wf(1) by (simp only: map_err_Inr_iff)
  show "Query_deserialize (to_value q) = Inr q" if "wf_query q" using query_written [OF that m] run by (simp only: map_err_simps)
qed


text \<open>
  An empty object below \<open>$or\<close> matches everything, so the disjunction does; the optimiser drops it and
  what is left is the other member.
\<close>

lemma optimise_drops_empty_alternative:
  assumes "plain_tag k"
  shows "\<exists>q q'. Query_deserialize (JObject [(''$or'', JArray [JObject [], JObject [(k, JString v)]])]) = Inr q
     \<and> optimise q = Some q' \<and> query_holds eq other q \<and> query_holds eq other q' = eq k v"
  using assms by (simp add: Query_deserialize_def plain_tag_def regroup_def)

subsection \<open>The properties at concrete inputs\<close>

definition demo_query :: Query where
  "demo_query = QAnd [QAnd [], QOr [QIn ''cred_def_id'' [''c1''], QNot (QEq ''attr::age::value'' ''7'')]]"

theorem parsed_query_well_formed_witness:
  "Query_deserialize (JArray [JObject [(''issuer_did'', JString ''d1''), (''schema_id'', JNull)], JObject []])
     = Inr (QOr [QEq ''issuer_did'' ''d1''])
   \<and> wf_query (QOr [QEq ''issuer_did'' ''d1''])"
proof -
  have run: "Query_deserialize (JArray [JObject [(''issuer_did'', JString ''d1''), (''schema_id'', JNull)], JObject []])
     = Inr (QOr [QEq ''issuer_did'' ''d1''])"
    by (simp add: Query_deserialize_def old_restrictions_def)
  then show ?thesis using parsed_query_well_formed [OF run] by simp
qed


end
