(* ===== verification/Wallet_Query.thy ===== *)
theory Wallet_Query
  imports Wql Pool_Cache
begin

text \<open>
  The way of a wallet search from its query to the SQL text (\<open>libvdrtools/indy-wallet/src\<close>:
  \<open>language.rs\<close>, \<open>query_encryption.rs\<close>, \<open>storage/default/query.rs\<close>, and \<open>search\<close> of \<open>wallet.rs\<close>).

  Encryption of tag names and values (ChaCha20-Poly1305 with an HMAC nonce, of libsodium) are the functions
  of the record \<open>tag_keys\<close>. A string and its bytes are converted by \<open>string_bytes\<close>. The \<open>usize\<close> subtraction
  \<open>values.len() - 2\<close> wraps around, as in a release build.

  Shown: encryption keeps the shape and pairs encrypted names with encrypted values only, so the SQL
  translation cannot fail on its result; the SQL text has one placeholder for each argument and depends
  only on the shape of the query, never on names or values; a list with one encrypted value gives a text
  that is not SQL.
\<close>

datatype TagName = EncryptedTagName bytes | PlainTagName bytes

datatype TargetValue = Unencrypted string | Encrypted bytes

datatype Operator =
    OAnd "Operator list"
  | OOr "Operator list"
  | ONot Operator
  | OEq TagName TargetValue
  | ONeq TagName TargetValue
  | OGt TagName TargetValue
  | OGte TagName TargetValue
  | OLt TagName TargetValue
  | OLte TagName TargetValue
  | OLike TagName TargetValue
  | OIn TagName "TargetValue list"

record tag_keys =
  encrypt_name :: "bytes \<Rightarrow> bytes"
  encrypt_value :: "bytes \<Rightarrow> bytes"

definition TagName_from :: "string \<Rightarrow> (indy_error, TagName) result" where
  "TagName_from s =
     (if s = [] \<or> s = ''~'' then Inl (err_msg IE_WalletQueryError ''Tag name must not be empty'')
      else if hd s = CHR ''~'' then Inr (PlainTagName (string_bytes (tl s)))
      else Inr (EncryptedTagName (string_bytes s)))"

subsection \<open>Encrypting a query\<close>

definition encrypt_tag_name :: "tag_keys \<Rightarrow> TagName \<Rightarrow> TagName" where
  "encrypt_tag_name keys name =
     (case name of
        EncryptedTagName n \<Rightarrow> EncryptedTagName (encrypt_name keys n)
      | PlainTagName n \<Rightarrow> PlainTagName (encrypt_name keys n))"

definition encrypt_name_value :: "tag_keys \<Rightarrow> string \<Rightarrow> string \<Rightarrow> (indy_error, TagName \<times> TargetValue) result" where
  "encrypt_name_value keys name value =
     res_bind (TagName_from name) (\<lambda>n.
       Inr (case n of
              EncryptedTagName m \<Rightarrow> (EncryptedTagName (encrypt_name keys m), Encrypted (encrypt_value keys (string_bytes value)))
            | PlainTagName m \<Rightarrow> (PlainTagName (encrypt_name keys m), Unencrypted value)))"

definition transform_leaf ::
    "tag_keys \<Rightarrow> (TagName \<Rightarrow> TargetValue \<Rightarrow> Operator) \<Rightarrow> string \<Rightarrow> string \<Rightarrow> (indy_error, Operator) result" where
  "transform_leaf keys c name value = res_bind (encrypt_name_value keys name value) (\<lambda>(n, v). Inr (c n v))"

fun transform :: "tag_keys \<Rightarrow> Query \<Rightarrow> (indy_error, Operator) result"
  and transform_list_operators :: "tag_keys \<Rightarrow> Query list \<Rightarrow> (indy_error, Operator list) result" where
  "transform keys (QEq name value) = transform_leaf keys OEq name value"
| "transform keys (QNeq name value) = transform_leaf keys ONeq name value"
| "transform keys (QGt name value) = transform_leaf keys OGt name value"
| "transform keys (QGte name value) = transform_leaf keys OGte name value"
| "transform keys (QLt name value) = transform_leaf keys OLt name value"
| "transform keys (QLte name value) = transform_leaf keys OLte name value"
| "transform keys (QLike name value) = transform_leaf keys OLike name value"
| "transform keys (QIn name values) =
     res_bind (TagName_from name) (\<lambda>n.
     res_bind (try_map (\<lambda>v. res_bind (encrypt_name_value keys name v) (\<lambda>(_, ev). Inr ev)) values) (\<lambda>vs.
       Inr (OIn (encrypt_tag_name keys n) vs)))"
| "transform keys (QAnd operators) = res_bind (transform_list_operators keys operators) (\<lambda>os. Inr (OAnd os))"
| "transform keys (QOr operators) = res_bind (transform_list_operators keys operators) (\<lambda>os. Inr (OOr os))"
| "transform keys (QNot operator) = res_bind (transform keys operator) (\<lambda>o1. Inr (ONot o1))"
| "transform_list_operators keys [] = Inr []"
| "transform_list_operators keys (operator # operators) =
     res_bind (transform keys operator) (\<lambda>o1. res_bind (transform_list_operators keys operators) (\<lambda>os. Inr (o1 # os)))"

subsection \<open>Translating to SQL\<close>

datatype ToSQL = ByteSlice bytes | CharSlice string

type_synonym sql_result = "(indy_error, string \<times> ToSQL list) result"

definition tag_clause :: "string \<Rightarrow> string \<Rightarrow> string" where
  "tag_clause table comparison = ''(i.id in (SELECT item_id FROM '' @ table @ '' WHERE name = ? AND value '' @ comparison @ '' ?))''"

definition bad_combination :: "string \<Rightarrow> sql_result" where
  "bad_combination what = Inl (err_msg IE_WalletQueryError (''Invalid combination of tag name and value for '' @ what @ '' operator''))"

definition equality_to_sql :: "string \<Rightarrow> string \<Rightarrow> TagName \<Rightarrow> TargetValue \<Rightarrow> ToSQL list \<Rightarrow> sql_result" where
  "equality_to_sql comparison what name value arguments =
     (case (name, value) of
        (PlainTagName n, Unencrypted v) \<Rightarrow> Inr (tag_clause ''tags_plaintext'' comparison, arguments @ [ByteSlice n, CharSlice v])
      | (EncryptedTagName n, Encrypted v) \<Rightarrow> Inr (tag_clause ''tags_encrypted'' comparison, arguments @ [ByteSlice n, ByteSlice v])
      | _ \<Rightarrow> bad_combination what)"

definition order_to_sql :: "string \<Rightarrow> string \<Rightarrow> TagName \<Rightarrow> TargetValue \<Rightarrow> ToSQL list \<Rightarrow> sql_result" where
  "order_to_sql comparison what name value arguments =
     (case (name, value) of
        (PlainTagName n, Unencrypted v) \<Rightarrow> Inr (tag_clause ''tags_plaintext'' comparison, arguments @ [ByteSlice n, CharSlice v])
      | _ \<Rightarrow> bad_combination what)"

definition eq_to_sql :: "TagName \<Rightarrow> TargetValue \<Rightarrow> ToSQL list \<Rightarrow> sql_result" where
  "eq_to_sql = equality_to_sql ''='' ''equality''"

definition neq_to_sql :: "TagName \<Rightarrow> TargetValue \<Rightarrow> ToSQL list \<Rightarrow> sql_result" where
  "neq_to_sql = equality_to_sql ''!='' ''inequality''"

definition gt_to_sql :: "TagName \<Rightarrow> TargetValue \<Rightarrow> ToSQL list \<Rightarrow> sql_result" where
  "gt_to_sql = order_to_sql ''>'' ''$gt''"

definition gte_to_sql :: "TagName \<Rightarrow> TargetValue \<Rightarrow> ToSQL list \<Rightarrow> sql_result" where
  "gte_to_sql = order_to_sql ''>='' ''$gte''"

definition lt_to_sql :: "TagName \<Rightarrow> TargetValue \<Rightarrow> ToSQL list \<Rightarrow> sql_result" where
  "lt_to_sql = order_to_sql ''<'' ''$lt''"

definition lte_to_sql :: "TagName \<Rightarrow> TargetValue \<Rightarrow> ToSQL list \<Rightarrow> sql_result" where
  "lte_to_sql = order_to_sql ''<='' ''$lte''"

definition like_to_sql :: "TagName \<Rightarrow> TargetValue \<Rightarrow> ToSQL list \<Rightarrow> sql_result" where
  "like_to_sql = order_to_sql ''LIKE'' ''$like''"

fun in_values ::
    "(TargetValue \<Rightarrow> ToSQL option) \<Rightarrow> (nat \<Rightarrow> bool) \<Rightarrow> indy_error \<Rightarrow> nat \<Rightarrow> TargetValue list \<Rightarrow> string \<Rightarrow> ToSQL list \<Rightarrow> sql_result" where
  "in_values argument comma err index [] in_string arguments = Inr (in_string, arguments)"
| "in_values argument comma err index (value # values) in_string arguments =
     (case argument value of
        Some a \<Rightarrow>
          in_values argument comma err (index + 1) values (in_string @ ''?'' @ (if comma index then '','' else [])) (arguments @ [a])
      | None \<Rightarrow> Inl err)"

definition in_to_sql :: "TagName \<Rightarrow> TargetValue list \<Rightarrow> ToSQL list \<Rightarrow> sql_result" where
  "in_to_sql name values arguments =
     res_bind
       (case name of
          PlainTagName n \<Rightarrow>
            in_values (\<lambda>v. case v of Unencrypted t \<Rightarrow> Some (CharSlice t) | Encrypted _ \<Rightarrow> None)
              (\<lambda>index. index < usize_sub (length values) 1)
              (err_msg IE_WalletQueryError ''Encrypted tag value in $in for nonencrypted tag name'') 0 values
              ''(i.id in (SELECT item_id FROM tags_plaintext WHERE name = ? AND value IN ('' (arguments @ [ByteSlice n])
        | EncryptedTagName n \<Rightarrow>
            in_values (\<lambda>v. case v of Encrypted t \<Rightarrow> Some (ByteSlice t) | Unencrypted _ \<Rightarrow> None)
              (\<lambda>index. index \<le> usize_sub (length values) 2)
              (err_msg IE_WalletQueryError ''Unencrypted tag value in $in for encrypted tag name'') 0 values
              ''(i.id in (SELECT item_id FROM tags_encrypted WHERE name = ? AND value IN ('' (arguments @ [ByteSlice n]))
       (\<lambda>(in_string, arguments'). Inr (in_string @ '')))'', arguments'))"

fun operator_to_sql :: "Operator \<Rightarrow> ToSQL list \<Rightarrow> sql_result"
  and join_loop :: "string \<Rightarrow> Operator list \<Rightarrow> ToSQL list \<Rightarrow> sql_result" where
  "operator_to_sql (OEq name value) arguments = eq_to_sql name value arguments"
| "operator_to_sql (ONeq name value) arguments = neq_to_sql name value arguments"
| "operator_to_sql (OGt name value) arguments = gt_to_sql name value arguments"
| "operator_to_sql (OGte name value) arguments = gte_to_sql name value arguments"
| "operator_to_sql (OLt name value) arguments = lt_to_sql name value arguments"
| "operator_to_sql (OLte name value) arguments = lte_to_sql name value arguments"
| "operator_to_sql (OLike name value) arguments = like_to_sql name value arguments"
| "operator_to_sql (OIn name values) arguments = in_to_sql name values arguments"
| "operator_to_sql (OAnd suboperators) arguments =
     (if suboperators = [] then Inr ([], arguments)
      else res_bind (join_loop '' AND '' suboperators arguments) (\<lambda>(s, arguments'). Inr (''('' @ s @ '')'', arguments')))"
| "operator_to_sql (OOr suboperators) arguments =
     (if suboperators = [] then Inr ([], arguments)
      else res_bind (join_loop '' OR '' suboperators arguments) (\<lambda>(s, arguments'). Inr (''('' @ s @ '')'', arguments')))"
| "operator_to_sql (ONot suboperator) arguments =
     res_bind (operator_to_sql suboperator arguments) (\<lambda>(s, arguments'). Inr (''NOT ('' @ s @ '')'', arguments'))"
| "join_loop join_str [] arguments = Inr ([], arguments)"
| "join_loop join_str (operator # operators) arguments =
     res_bind (operator_to_sql operator arguments) (\<lambda>(s, arguments1).
     res_bind (join_loop join_str operators arguments1) (\<lambda>(r, arguments2).
       Inr (s @ (if operators \<noteq> [] then join_str else []) @ r, arguments2)))"

definition with_clause :: "string \<Rightarrow> bytes \<Rightarrow> Operator \<Rightarrow> sql_result" where
  "with_clause base type_name op =
     res_bind (operator_to_sql op [ByteSlice type_name]) (\<lambda>(clause_string, arguments).
       Inr (base @ (if clause_string \<noteq> [] then '' AND '' @ clause_string else []), arguments))"

definition wql_to_sql :: "bytes \<Rightarrow> Operator \<Rightarrow> sql_result" where
  "wql_to_sql = with_clause ''SELECT i.id, i.name, i.value, i.key, i.type FROM items as i WHERE i.type = ?''"

definition wql_to_sql_count :: "bytes \<Rightarrow> Operator \<Rightarrow> sql_result" where
  "wql_to_sql_count = with_clause ''SELECT count(*) FROM items as i WHERE i.type = ?''"

text \<open>\<open>Wallet::search\<close> up to the call of the storage; \<open>parse\<close> reads the text as JSON, \<open>encrypt_type\<close> is the encryption of the type.\<close>

definition wallet_search ::
    "(string \<Rightarrow> json option) \<Rightarrow> tag_keys \<Rightarrow> (bytes \<Rightarrow> bytes) \<Rightarrow> string \<Rightarrow> string \<Rightarrow> sql_result" where
  "wallet_search parse keys encrypt_type type_name query =
     res_bind (case parse query of
                 None \<Rightarrow> Inl (err_msg IE_WalletQueryError ''invalid JSON'')
               | Some v \<Rightarrow> map_err (err_msg IE_WalletQueryError) (Query_deserialize v)) (\<lambda>parsed.
     res_bind (transform keys (unwrap_or (optimise parsed) Query_default)) (\<lambda>encrypted_query.
       wql_to_sql (encrypt_type (string_bytes type_name)) encrypted_query))"

subsection \<open>Placeholders and arguments\<close>

text \<open>The text \<open>s\<close> was added with one placeholder for each new argument.\<close>

definition marked :: "string \<Rightarrow> ToSQL list \<Rightarrow> ToSQL list \<Rightarrow> bool" where
  "marked s arguments arguments' = (\<exists>new. arguments' = arguments @ new \<and> count_list s (CHR ''?'') = length new)"

lemma in_values_marked:
  "in_values argument comma err index vs s arguments = Inr (s', arguments') \<Longrightarrow>
     \<exists>new. arguments' = arguments @ new \<and> count_list s' (CHR ''?'') = count_list s (CHR ''?'') + length new"
  by (induction vs arbitrary: index s arguments) (fastforce split: option.splits if_splits)+

lemma tag_clause_count [simp]: "count_list comparison (CHR ''?'') = 0 \<Longrightarrow>
    count_list (tag_clause ''tags_plaintext'' comparison) (CHR ''?'') = 2 \<and>
    count_list (tag_clause ''tags_encrypted'' comparison) (CHR ''?'') = 2"
  by (simp add: tag_clause_def)

lemma equality_marked:
  "equality_to_sql comparison what name value arguments = Inr (s, arguments') \<Longrightarrow> count_list comparison (CHR ''?'') = 0 \<Longrightarrow>
     marked s arguments arguments'"
  by (auto simp: equality_to_sql_def marked_def bad_combination_def split: TagName.splits TargetValue.splits)

lemma order_marked:
  "order_to_sql comparison what name value arguments = Inr (s, arguments') \<Longrightarrow> count_list comparison (CHR ''?'') = 0 \<Longrightarrow>
     marked s arguments arguments'"
  by (auto simp: order_to_sql_def marked_def bad_combination_def split: TagName.splits TargetValue.splits)

lemma in_marked:
  assumes "in_to_sql name vs arguments = Inr (s, arguments')"
  shows "marked s arguments arguments'"
proof -
  obtain argument comma err t n s1 where run:
      "in_values argument comma err 0 vs t (arguments @ [ByteSlice n]) = Inr (s1, arguments')" "s = s1 @ '')))''"
      "count_list t (CHR ''?'') = 1"
    using assms by (cases name) (auto simp: in_to_sql_def res_bind_Inr_iff)
  then show ?thesis using in_values_marked [OF run(1)] by (auto simp: marked_def)
qed

lemma marked_append:
  "marked s a b \<Longrightarrow> marked r b c \<Longrightarrow> count_list j (CHR ''?'') = 0 \<Longrightarrow> marked (s @ j @ r) a c"
  by (auto simp: marked_def)

lemma marked_wrap:
  "marked s a b \<Longrightarrow> count_list x (CHR ''?'') = 0 \<Longrightarrow> count_list y (CHR ''?'') = 0 \<Longrightarrow> marked (x @ s @ y) a b"
  by (auto simp: marked_def)

lemmas leaf_defs = eq_to_sql_def neq_to_sql_def gt_to_sql_def gte_to_sql_def lt_to_sql_def lte_to_sql_def like_to_sql_def

lemma sql_marked:
  "operator_to_sql op arguments = Inr (s, arguments') \<Longrightarrow> marked s arguments arguments'"
  "join_loop j ops arguments = Inr (s, arguments') \<Longrightarrow> count_list j (CHR ''?'') = 0 \<Longrightarrow> marked s arguments arguments'"
proof (induction op arguments and j ops arguments arbitrary: s arguments' and s arguments' rule: operator_to_sql_join_loop.induct)
  case (9 ops arguments)
  then show ?case
    using marked_wrap [of _ arguments arguments' "''(''" "'')''"]
    by (cases "ops = []") (fastforce simp: marked_def res_bind_Inr_iff)+
next
  case (10 ops arguments)
  then show ?case
    using marked_wrap [of _ arguments arguments' "''(''" "'')''"]
    by (cases "ops = []") (fastforce simp: marked_def res_bind_Inr_iff)+
next
  case (11 op arguments)
  then show ?case
    using marked_wrap [of _ arguments arguments' "''NOT (''" "'')''"] by (fastforce simp: res_bind_Inr_iff)
next
  case (13 j op ops arguments)
  obtain s1 a1 s2 where run: "operator_to_sql op arguments = Inr (s1, a1)" "join_loop j ops a1 = Inr (s2, arguments')"
      "s = s1 @ (if ops \<noteq> [] then j else []) @ s2"
    using "13.prems"(1) by (auto simp: res_bind_Inr_iff)
  have "marked s1 arguments a1" using "13.IH"(1) run(1) by blast
  moreover have "marked s2 a1 arguments'" using "13.IH"(2) run "13.prems"(2) by auto
  ultimately show ?case unfolding run(3) by (rule marked_append) (simp add: "13.prems"(2))
qed (auto simp: leaf_defs marked_def [of "[]"] intro: equality_marked order_marked in_marked)

subsection \<open>The text depends on the shape only\<close>

fun blank_name :: "TagName \<Rightarrow> TagName" where
  "blank_name (EncryptedTagName _) = EncryptedTagName []"
| "blank_name (PlainTagName _) = PlainTagName []"

fun blank_value :: "TargetValue \<Rightarrow> TargetValue" where
  "blank_value (Unencrypted _) = Unencrypted []"
| "blank_value (Encrypted _) = Encrypted []"

fun shape :: "Operator \<Rightarrow> Operator" where
  "shape (OAnd ops) = OAnd (map shape ops)"
| "shape (OOr ops) = OOr (map shape ops)"
| "shape (ONot op) = ONot (shape op)"
| "shape (OEq n v) = OEq (blank_name n) (blank_value v)"
| "shape (ONeq n v) = ONeq (blank_name n) (blank_value v)"
| "shape (OGt n v) = OGt (blank_name n) (blank_value v)"
| "shape (OGte n v) = OGte (blank_name n) (blank_value v)"
| "shape (OLt n v) = OLt (blank_name n) (blank_value v)"
| "shape (OLte n v) = OLte (blank_name n) (blank_value v)"
| "shape (OLike n v) = OLike (blank_name n) (blank_value v)"
| "shape (OIn n vs) = OIn (blank_name n) (map blank_value vs)"

text \<open>\<open>same_text\<close>: if the first translation succeeds, so does the second, with the same text.\<close>

definition same_text :: "sql_result \<Rightarrow> sql_result \<Rightarrow> bool" where
  "same_text r r' = (\<forall>s a. r = Inr (s, a) \<longrightarrow> (\<exists>a'. r' = Inr (s, a')))"

lemma same_text_bind:
  assumes "same_text r r'" "\<And>s a a'. same_text (f (s, a)) (f' (s, a'))"
  shows "same_text (res_bind r f) (res_bind r' f')"
  using assms by (fastforce simp: same_text_def res_bind_Inr_iff)

lemma same_text_Inr [simp]: "same_text (Inr (s, a)) (Inr (s, a'))"
  by (simp add: same_text_def)

lemma in_values_same_text:
  assumes "\<And>v. argument v \<noteq> None \<Longrightarrow> argument (blank_value v) \<noteq> None"
  shows "same_text (in_values argument comma err i vs s a) (in_values argument comma err i (map blank_value vs) s a')"
proof (induction vs arbitrary: i s a a')
  case (Cons v vs)
  then show ?case
    using assms [of v] by (cases "argument v") (auto simp: same_text_def [of "Inl _"])
qed simp

lemma leaf_same_text:
  "same_text (equality_to_sql c w n v a) (equality_to_sql c w (blank_name n) (blank_value v) a')"
  "same_text (order_to_sql c w n v a) (order_to_sql c w (blank_name n) (blank_value v) a')"
  by (cases n; cases v; auto simp: equality_to_sql_def order_to_sql_def bad_combination_def same_text_def)+

lemma in_same_text: "same_text (in_to_sql n vs a) (in_to_sql (blank_name n) (map blank_value vs) a')"
  by (cases n; simp only: in_to_sql_def blank_name.simps TagName.case length_map;
      rule same_text_bind; (rule in_values_same_text)?; auto split: TargetValue.splits elim!: blank_value.elims)

lemma shape_same_text: "same_text (operator_to_sql op a) (operator_to_sql (shape op) a')"
  and join_same_text: "same_text (join_loop j ops a) (join_loop j (map shape ops) a')"
proof (induction op a and j ops a arbitrary: a' and a' rule: operator_to_sql_join_loop.induct)
  case (9 ops a)
  then show ?case by (cases "ops = []") (auto intro!: same_text_bind)
next
  case (10 ops a)
  then show ?case by (cases "ops = []") (auto intro!: same_text_bind)
next
  case (11 op a)
  then show ?case by (auto intro!: same_text_bind)
next
  case (13 j op ops a)
  then show ?case by (auto simp: same_text_def res_bind_Inr_iff) blast
qed (auto simp: leaf_defs intro: leaf_same_text in_same_text)

subsection \<open>Searches that can be translated\<close>

definition named :: "string \<Rightarrow> bool" where
  "named k = (k \<noteq> [] \<and> k \<noteq> ''~'')"

definition plain_named :: "string \<Rightarrow> bool" where
  "plain_named k = (named k \<and> hd k = CHR ''~'')"

text \<open>Every tag has a name, and comparisons of order are on plain tags.\<close>

fun searchable :: "Query \<Rightarrow> bool" where
  "searchable (QAnd qs) = list_all searchable qs"
| "searchable (QOr qs) = list_all searchable qs"
| "searchable (QNot q) = searchable q"
| "searchable (QEq k _) = named k"
| "searchable (QNeq k _) = named k"
| "searchable (QGt k _) = plain_named k"
| "searchable (QGte k _) = plain_named k"
| "searchable (QLt k _) = plain_named k"
| "searchable (QLte k _) = plain_named k"
| "searchable (QLike k _) = plain_named k"
| "searchable (QIn k _) = named k"

fun both_plain :: "TagName \<Rightarrow> TargetValue \<Rightarrow> bool" where
  "both_plain (PlainTagName _) (Unencrypted _) = True"
| "both_plain _ _ = False"

fun alike :: "TagName \<Rightarrow> TargetValue \<Rightarrow> bool" where
  "alike (PlainTagName _) (Unencrypted _) = True"
| "alike (EncryptedTagName _) (Encrypted _) = True"
| "alike _ _ = False"

fun paired :: "Operator \<Rightarrow> bool" where
  "paired (OAnd ops) = list_all paired ops"
| "paired (OOr ops) = list_all paired ops"
| "paired (ONot op) = paired op"
| "paired (OEq n v) = alike n v"
| "paired (ONeq n v) = alike n v"
| "paired (OGt n v) = both_plain n v"
| "paired (OGte n v) = both_plain n v"
| "paired (OLt n v) = both_plain n v"
| "paired (OLte n v) = both_plain n v"
| "paired (OLike n v) = both_plain n v"
| "paired (OIn n vs) = list_all (alike n) vs"

lemma encrypt_name_value_total:
  assumes "named k"
  shows "\<exists>n v'. TagName_from k = Inr n \<and> encrypt_name_value keys k v = Inr (encrypt_tag_name keys n, v')
     \<and> alike (encrypt_tag_name keys n) v' \<and> (plain_named k \<longrightarrow> both_plain (encrypt_tag_name keys n) v')"
  using assms by (auto simp: named_def plain_named_def encrypt_name_value_def TagName_from_def encrypt_tag_name_def)

lemma transform_leaf_paired:
  assumes "named k" "\<And>n v'. alike n v' \<Longrightarrow> (plain_named k \<longrightarrow> both_plain n v') \<Longrightarrow> paired (c n v')"
  shows "\<exists>op. transform_leaf keys c k v = Inr op \<and> paired op"
proof -
  obtain n v' where "encrypt_name_value keys k v = Inr (n, v')" "alike n v'" "plain_named k \<longrightarrow> both_plain n v'"
    using encrypt_name_value_total [OF assms(1), of keys v] by blast
  then show ?thesis using assms(2) by (simp add: transform_leaf_def)
qed

lemma transform_in_total:
  assumes "named k"
  shows "\<exists>n vs'. TagName_from k = Inr n
     \<and> try_map (\<lambda>v. res_bind (encrypt_name_value keys k v) (\<lambda>(_, ev). Inr ev)) vs = Inr vs'
     \<and> list_all (alike (encrypt_tag_name keys n)) vs'"
proof (induction vs)
  case Nil
  then show ?case using encrypt_name_value_total [OF assms, of keys] by auto
next
  case (Cons v vs)
  then show ?case using encrypt_name_value_total [OF assms, of keys v] by (auto simp: res_bind_Inr_iff)
qed

lemma transform_total: "searchable q \<Longrightarrow> \<exists>op. transform keys q = Inr op \<and> paired op"
proof (induction q)
  case (QAnd qs)
  have "\<exists>ops. transform_list_operators keys qs = Inr ops \<and> list_all paired ops"
    using QAnd by (induction qs) fastforce+
  then show ?case by auto
next
  case (QOr qs)
  have "\<exists>ops. transform_list_operators keys qs = Inr ops \<and> list_all paired ops"
    using QOr by (induction qs) fastforce+
  then show ?case by auto
next
  case (QIn k vs)
  then show ?case using transform_in_total [of k keys vs] by auto
qed (auto simp: plain_named_def intro!: transform_leaf_paired)

lemma in_values_total:
  "list_all (\<lambda>v. argument v \<noteq> None) vs \<Longrightarrow> \<exists>r. in_values argument comma err i vs s a = Inr r"
  by (induction vs arbitrary: i s a) auto

lemma in_total:
  assumes "list_all (alike n) vs"
  shows "\<exists>r. in_to_sql n vs a = Inr r"
proof (cases n)
  case (EncryptedTagName m)
  then have "list_all (\<lambda>v. (case v of Encrypted t \<Rightarrow> Some (ByteSlice t) | Unencrypted _ \<Rightarrow> None) \<noteq> None) vs"
    using assms by (auto simp: list_all_iff split: TargetValue.splits)
  from in_values_total [OF this] show ?thesis
    unfolding in_to_sql_def EncryptedTagName TagName.case by (auto simp: res_bind_Inr_iff split: prod.splits) blast
next
  case (PlainTagName m)
  then have "list_all (\<lambda>v. (case v of Unencrypted t \<Rightarrow> Some (CharSlice t) | Encrypted _ \<Rightarrow> None) \<noteq> None) vs"
    using assms by (auto simp: list_all_iff split: TargetValue.splits)
  from in_values_total [OF this] show ?thesis
    unfolding in_to_sql_def PlainTagName TagName.case by (auto simp: res_bind_Inr_iff split: prod.splits) blast
qed

lemma leaf_total:
  "alike n v \<Longrightarrow> \<exists>r. equality_to_sql c w n v a = Inr r"
  "both_plain n v \<Longrightarrow> \<exists>r. order_to_sql c w n v a = Inr r"
  by (cases n; cases v; simp add: equality_to_sql_def order_to_sql_def)+

lemma paired_sql_total:
  "paired op \<Longrightarrow> \<exists>r. operator_to_sql op a = Inr r"
  "list_all paired ops \<Longrightarrow> \<exists>r. join_loop j ops a = Inr r"
proof (induction op a and j ops a rule: operator_to_sql_join_loop.induct)
  case (13 j op ops a)
  then show ?case by (fastforce simp: res_bind_Inr_iff split: prod.splits)
qed (auto simp: leaf_defs leaf_total in_total simp del: split_paired_Ex)

lemma somes_set: "set (somes xs) = {a. Some a \<in> set xs}"
  by (induction xs) (auto simp: somes_def split: option.splits)

lemma regroup_searchable: "regroup c qs = Some q \<Longrightarrow> c \<in> {QAnd, QOr} \<Longrightarrow> list_all searchable qs \<Longrightarrow> searchable q"
  by (auto simp: regroup_def split: list.splits)

lemma optimise_searchable: "searchable q \<Longrightarrow> optimise q = Some q' \<Longrightarrow> searchable q'"
proof (induction q arbitrary: q')
  case (QAnd qs)
  then have "list_all searchable (somes (map optimise qs))" by (auto simp: list_all_iff somes_set)
  then show ?case using QAnd regroup_searchable [of QAnd "somes (map optimise qs)"] by (auto simp: list_all_iff split: list.splits)
next
  case (QOr qs)
  then have "list_all searchable (somes (map optimise qs))" by (auto simp: list_all_iff somes_set)
  then show ?case using QOr regroup_searchable [of QOr "somes (map optimise qs)"] by (auto simp: list_all_iff split: list.splits)
next
  case (QNot q)
  then show ?case by (cases q) auto
next
  case (QIn k vs)
  then show ?case by (auto split: list.splits)
qed auto

subsection \<open>Properties\<close>

text \<open>
  C25. The SQL of a search is safe: it has exactly one placeholder for each argument, and every other
  operator of the same shape, whatever its names and values are, is translated to the same text. So no
  name or value of a query ever becomes part of the SQL text.
\<close>

theorem search_sql_is_parameterised:
  assumes "wql_to_sql type_name op = Inr (sql, arguments)"
  shows "count_list sql (CHR ''?'') = length arguments
     \<and> (\<forall>type_name' op' sql' arguments'.
          shape op' = shape op \<and> wql_to_sql type_name' op' = Inr (sql', arguments') \<longrightarrow> sql' = sql)"
proof -
  let ?base = "''SELECT i.id, i.name, i.value, i.key, i.type FROM items as i WHERE i.type = ?''"
  have clause: "\<exists>clause. operator_to_sql op1 [ByteSlice t] = Inr (clause, a)
       \<and> s = ?base @ (if clause \<noteq> [] then '' AND '' @ clause else [])
       \<and> (\<exists>a'. operator_to_sql (shape op1) [] = Inr (clause, a'))"
    if "wql_to_sql t op1 = Inr (s, a)" for t op1 s a
    using that shape_same_text [of op1 "[ByteSlice t]" "[]"]
    by (auto simp: wql_to_sql_def with_clause_def res_bind_Inr_iff same_text_def)
  have "count_list sql (CHR ''?'') = length arguments"
    using clause [OF assms] sql_marked(1) by (fastforce simp: marked_def)
  moreover have "sql' = sql" if "shape op' = shape op" "wql_to_sql type_name' op' = Inr (sql', arguments')"
    for type_name' op' sql' arguments'
    using clause [OF assms] clause [OF that(2)] that(1) by auto
  ultimately show ?thesis by blast
qed

text \<open>
  A search succeeds for every query that can be read, names all its tags and compares the order of
  plain tags only: parsing, optimising, encryption and the translation to SQL give a text and its
  arguments, the first of which is the encrypted type.
\<close>

theorem wallet_search_succeeds:
  assumes "parse query = Some v" "Query_deserialize v = Inr q" "searchable q"
  shows "\<exists>sql arguments. wallet_search parse keys encrypt_type type_name query
     = Inr (sql, ByteSlice (encrypt_type (string_bytes type_name)) # arguments)"
proof -
  have "searchable (unwrap_or (optimise q) Query_default)"
    using optimise_searchable [OF assms(3)] by (cases "optimise q") (auto simp: Query_default_def)
  then obtain op where op: "transform keys (unwrap_or (optimise q) Query_default) = Inr op" "paired op"
    using transform_total by blast
  obtain s a where "operator_to_sql op [ByteSlice (encrypt_type (string_bytes type_name))] = Inr (s, a)"
    using paired_sql_total(1) [OF op(2)] by (metis surj_pair)
  moreover from this have "\<exists>new. a = ByteSlice (encrypt_type (string_bytes type_name)) # new"
    using sql_marked(1) by (fastforce simp: marked_def)
  ultimately show ?thesis using assms op(1) by (auto simp: wallet_search_def wql_to_sql_def with_clause_def)
qed

text \<open>
  One encrypted value in a list, which is left in place below \<open>$not\<close>, gives a text with a comma too many.
\<close>

lemma single_encrypted_value_breaks_sql:
  "\<exists>s a. wallet_search (\<lambda>_. Some (JObject [(''$not'', JObject [(''name'', JObject [(''$in'', JArray [JString ''x''])])])]))
     keys encrypt_type type_name query = Inr (s, a)
   \<and> (\<exists>x y. s = x @ ''value IN (?,)'' @ y)"
proof -
  have "\<exists>s a. wallet_search (\<lambda>_. Some (JObject [(''$not'', JObject [(''name'', JObject [(''$in'', JArray [JString ''x''])])])]))
     keys encrypt_type type_name query = Inr (s, a)
   \<and> s = ''SELECT i.id, i.name, i.value, i.key, i.type FROM items as i WHERE i.type = ? AND NOT (''
     @ (''(i.id in (SELECT item_id FROM tags_encrypted WHERE name = ? AND '' @ ''value IN (?,)'') @ ''))'' @ '')''"
    by (simp add: wallet_search_def Query_deserialize_def parse_single_operator_def array_of_def TagName_from_def
        encrypt_tag_name_def encrypt_name_value_def wql_to_sql_def with_clause_def in_to_sql_def usize_sub_def)
  then obtain s a where sa: "wallet_search (\<lambda>_. Some (JObject [(''$not'', JObject [(''name'', JObject [(''$in'', JArray [JString ''x''])])])]))
     keys encrypt_type type_name query = Inr (s, a)"
     "s = ''SELECT i.id, i.name, i.value, i.key, i.type FROM items as i WHERE i.type = ? AND NOT (''
     @ (''(i.id in (SELECT item_id FROM tags_encrypted WHERE name = ? AND '' @ ''value IN (?,)'') @ ''))'' @ '')''"
    by blast
  show ?thesis
    by (intro exI [of _ s] exI [of _ a] conjI sa(1)
        exI [of _ "''SELECT i.id, i.name, i.value, i.key, i.type FROM items as i WHERE i.type = ? AND NOT ((i.id in (SELECT item_id FROM tags_encrypted WHERE name = ? AND ''"]
        exI [of _ "'')))''"]) (simp add: sa(2))
qed

subsection \<open>The properties at concrete inputs\<close>

definition demo_keys :: tag_keys where
  "demo_keys = \<lparr>encrypt_name = rev, encrypt_value = rev\<rparr>"

definition demo_search :: json where
  "demo_search = JObject [(''name'', JString ''x''), (''~age'', JObject [(''$gt'', JString ''7'')])]"

lemma demo_search_query: "Query_deserialize demo_search = Inr (QAnd [QEq ''name'' ''x'', QGt ''~age'' ''7''])"
  by (simp add: demo_search_def Query_deserialize_def parse_single_operator_def)

theorem search_sql_is_parameterised_witness:
  "\<exists>sql arguments. wql_to_sql [1] (OEq (PlainTagName [2]) (Unencrypted ''x'')) = Inr (sql, arguments)
     \<and> count_list sql (CHR ''?'') = length arguments \<and> length arguments = 3"
proof -
  obtain sql arguments where run: "wql_to_sql [1] (OEq (PlainTagName [2]) (Unencrypted ''x'')) = Inr (sql, arguments)"
      "length arguments = 3"
    by (simp add: wql_to_sql_def with_clause_def eq_to_sql_def equality_to_sql_def)
  then show ?thesis using search_sql_is_parameterised [OF run(1)] by blast
qed

theorem wallet_search_succeeds_witness:
  "\<exists>sql arguments. wallet_search (\<lambda>_. Some demo_search) demo_keys rev ''t'' ''q'' = Inr (sql, ByteSlice (rev (string_bytes ''t'')) # arguments)"
  by (rule wallet_search_succeeds [OF refl demo_search_query]) (simp add: named_def plain_named_def)

end
