(* ===== verification/Anoncreds_Verifier.thy ===== *)
theory Anoncreds_Verifier
  imports Wql Pool_Cache
begin

text \<open>
  Verification of a proof in libvdrtools (\<open>libvdrtools/src/services/anoncreds/verifier.rs\<close>, parts of
  \<open>helpers.rs\<close>, the identifiers and the proof types of \<open>domain/anoncreds\<close>).

  The CL signatures of the ursa library, its big numbers, the regular expressions for fully qualified
  identifiers (regex crate) and \<open>str::to_lowercase\<close> are the functions of the record \<open>cl_library\<close>; values
  that only pass through (keys, registries, sub-proofs) are kept as their JSON. A \<open>HashMap\<close> is the list of
  its entries in iteration order. A panic (\<open>unwrap\<close> on nothing) is \<open>Inl Panic\<close>. Texts of error messages
  stand with the placeholders of their format string.

  Shown: the check of a restriction is the meaning of the query over the tags of the credential; a proof is
  accepted only if it answers exactly what was requested, every restricted attribute and predicate comes
  from a credential of the proof whose tags satisfy the restriction, and the library accepted all
  sub-proofs; a proof that lists an attribute both as revealed and as self-attested can make the verifier
  panic; turning a request to unqualified identifiers removes negations.
\<close>

subsection \<open>Requests and proofs\<close>

record NonRevocedInterval =
  nri_from :: "64 word option"
  nri_to :: "64 word option"

record AttributeInfo =
  ai_name :: "string option"
  ai_names :: "string list option"
  ai_restrictions :: "Query option"
  ai_non_revoked :: "NonRevocedInterval option"

datatype PredicateTypes = GE | LE | GT | LT

record IndyPredicateInfo =
  pi_name :: string
  pi_type :: PredicateTypes
  pi_value :: "32 word"
  pi_restrictions :: "Query option"
  pi_non_revoked :: "NonRevocedInterval option"

record ProofRequestPayload =
  prp_nonce :: string
  prp_requested_attributes :: "(string \<times> AttributeInfo) list"
  prp_requested_predicates :: "(string \<times> IndyPredicateInfo) list"
  prp_non_revoked :: "NonRevocedInterval option"

record Identifier =
  idf_schema_id :: string
  idf_cred_def_id :: string
  idf_rev_reg_id :: "string option"
  idf_timestamp :: "64 word option"

record RevealedAttributeInfo =
  rai_sub_proof_index :: "32 word"
  rai_raw :: string
  rai_encoded :: string

record AttributeValue =
  av_raw :: string
  av_encoded :: string

record RevealedAttributeGroupInfo =
  ragi_sub_proof_index :: "32 word"
  ragi_values :: "(string \<times> AttributeValue) list"

record RequestedProof =
  rp_revealed_attrs :: "(string \<times> RevealedAttributeInfo) list"
  rp_revealed_attr_groups :: "(string \<times> RevealedAttributeGroupInfo) list"
  rp_self_attested_attrs :: "(string \<times> string) list"
  rp_unrevealed_attrs :: "(string \<times> 32 word) list"
  rp_predicates :: "(string \<times> 32 word) list"

record IndyProof =
  ip_sub_proofs :: "json list"
  ip_aggregated_proof :: json
  ip_requested_proof :: RequestedProof
  ip_identifiers :: "Identifier list"

record VerifierFilter =
  vf_schema_id :: string
  vf_schema_issuer_did :: string
  vf_schema_name :: string
  vf_schema_version :: string
  vf_issuer_did :: string
  vf_cred_def_id :: string

record sub_proof_input =
  spi_request :: json
  spi_schema :: json
  spi_key :: json
  spi_accum_key :: "json option"
  spi_registry :: "json option"

record cl_library =
  cl_lowercase :: "string \<Rightarrow> string"
  cl_parse_indy_schema_id :: "string \<Rightarrow> (string \<times> string \<times> string) option"
  cl_parse_indy_creddef_id :: "string \<Rightarrow> (string \<times> string \<times> string) option"
  cl_from_dec :: "string \<Rightarrow> (indy_error, int) result"
  cl_revealed_attrs :: "json \<Rightarrow> (indy_error, (string \<times> string) list) result"
  cl_credential_schema :: "string list \<Rightarrow> (indy_error, json) result"
  cl_new_request :: "(indy_error, json) result"
  cl_add_revealed_attr :: "json \<Rightarrow> string \<Rightarrow> (indy_error, json) result"
  cl_add_predicate :: "json \<Rightarrow> string \<Rightarrow> string \<Rightarrow> 32 word \<Rightarrow> (indy_error, json) result"
  cl_public_key :: "json \<Rightarrow> (indy_error, json) result"
  cl_new_verifier :: "(indy_error, unit) result"
  cl_add_sub_proof :: "sub_proof_input list \<Rightarrow> sub_proof_input \<Rightarrow> (indy_error, unit) result"
  cl_verify :: "sub_proof_input list \<Rightarrow> json list \<Rightarrow> json \<Rightarrow> string \<Rightarrow> (indy_error, bool) result"

definition lib :: "(indy_error, 'a) result \<Rightarrow> 'a indy_result" where
  "lib = map_err Err"

definition err_extend :: "string \<Rightarrow> 'a indy_result \<Rightarrow> 'a indy_result" where
  "err_extend msg = map_err (\<lambda>f. case f of Panic \<Rightarrow> Panic | Err e \<Rightarrow> Err (e\<lparr>ie_msg := msg\<rparr>))"

subsection \<open>Identifiers\<close>

definition split_terminator :: "char \<Rightarrow> string \<Rightarrow> string list" where
  "split_terminator c s = (let parts = split_on c s in if last parts = [] then butlast parts else parts)"

definition join_colons :: "string list \<Rightarrow> string" where
  "join_colons parts = (case parts of [] \<Rightarrow> [] | p # ps \<Rightarrow> p @ concat (map (\<lambda>q. '':'' @ q) ps))"

definition SchemaId_parts :: "cl_library \<Rightarrow> string \<Rightarrow> (string \<times> string \<times> string) option" where
  "SchemaId_parts cl schema_id =
     (case cl_parse_indy_schema_id cl schema_id of
        Some r \<Rightarrow> Some r
      | None \<Rightarrow>
          (let parts = split_terminator (CHR '':'') schema_id
           in if length parts = 4 then Some (parts ! 0, parts ! 2, parts ! 3)
              else if length parts = 8 then Some (join_colons (take 3 (drop 2 parts)), parts ! 6, parts ! 7)
              else None))"

definition CL_SIGNATURE_TYPE :: string where
  "CL_SIGNATURE_TYPE = ''CL''"

definition CredentialDefinitionId_parts :: "cl_library \<Rightarrow> string \<Rightarrow> (string \<times> string \<times> string \<times> string) option" where
  "CredentialDefinitionId_parts cl cred_def_id =
     (case cl_parse_indy_creddef_id cl cred_def_id of
        Some (did, seq_no, tag) \<Rightarrow> Some (did, CL_SIGNATURE_TYPE, seq_no, tag)
      | None \<Rightarrow>
          (let parts = split_terminator (CHR '':'') cred_def_id
           in if length parts = 4 then Some (parts ! 0, parts ! 2, parts ! 3, [])
              else if length parts = 5 then Some (parts ! 0, parts ! 2, parts ! 3, parts ! 4)
              else if length parts = 7 then Some (parts ! 0, parts ! 2, join_colons (take 4 (drop 3 parts)), [])
              else if length parts = 8 then Some (parts ! 0, parts ! 2, join_colons (take 4 (drop 3 parts)), parts ! 7)
              else if length parts = 9 then Some (join_colons (take 3 (drop 2 parts)), parts ! 6, parts ! 7, parts ! 8)
              else if length parts = 16 then
                Some (join_colons (take 3 (drop 2 parts)), parts ! 6, join_colons (take 8 (drop 7 parts)), parts ! 15)
              else None))"

definition CredentialDefinitionId_issuer_did :: "cl_library \<Rightarrow> string \<Rightarrow> string option" where
  "CredentialDefinitionId_issuer_did cl cred_def_id = map_option fst (CredentialDefinitionId_parts cl cred_def_id)"

subsection \<open>Helpers\<close>

definition attr_common_view :: "cl_library \<Rightarrow> string \<Rightarrow> string" where
  "attr_common_view cl attr = cl_lowercase cl (filter (\<lambda>c. c \<noteq> CHR '' '') attr)"

definition get_non_revoc_interval ::
    "NonRevocedInterval option \<Rightarrow> NonRevocedInterval option \<Rightarrow> NonRevocedInterval option" where
  "get_non_revoc_interval global_interval local_interval =
     (case (case local_interval of Some l \<Rightarrow> Some l | None \<Rightarrow> global_interval) of
        Some x \<Rightarrow> if nri_to x \<noteq> None \<or> nri_from x \<noteq> None then Some x else None
      | None \<Rightarrow> None)"

fun PredicateTypes_to_string :: "PredicateTypes \<Rightarrow> string" where
  "PredicateTypes_to_string GE = ''GE''"
| "PredicateTypes_to_string GT = ''GT''"
| "PredicateTypes_to_string LE = ''LE''"
| "PredicateTypes_to_string LT = ''LT''"

fun try_fold :: "('b \<Rightarrow> 'a \<Rightarrow> ('e, 'b) result) \<Rightarrow> 'b \<Rightarrow> 'a list \<Rightarrow> ('e, 'b) result" where
  "try_fold f b [] = Inr b"
| "try_fold f b (x # xs) = res_bind (f b x) (\<lambda>b'. try_fold f b' xs)"

definition build_sub_proof_request ::
    "cl_library \<Rightarrow> AttributeInfo list \<Rightarrow> IndyPredicateInfo list \<Rightarrow> json indy_result" where
  "build_sub_proof_request cl attrs_for_credential predicates_for_credential =
     res_bind (lib (cl_new_request cl)) (\<lambda>builder.
     res_bind (try_fold (\<lambda>b attr.
         case ai_name attr of
           Some name \<Rightarrow> lib (cl_add_revealed_attr cl b (attr_common_view cl name))
         | None \<Rightarrow>
             (case ai_names attr of
                Some names \<Rightarrow> try_fold (\<lambda>b' name. lib (cl_add_revealed_attr cl b' (attr_common_view cl name))) b names
              | None \<Rightarrow> fail IE_InvalidStructure ''Attr for credential restriction should contain \"name\" or \"names\" param.''))
       builder attrs_for_credential) (\<lambda>builder1.
     try_fold (\<lambda>b p. lib (cl_add_predicate cl b (attr_common_view cl (pi_name p)) (PredicateTypes_to_string (pi_type p)) (pi_value p)))
       builder1 predicates_for_credential))"

subsection \<open>Restrictions\<close>

type_synonym attr_values = "(string \<times> string option) list"

text \<open>The regular expression \<open>^attr::([^:]+)\<close> followed by the given ending.\<close>

definition tag_attr_name :: "string \<Rightarrow> string \<Rightarrow> string option" where
  "tag_attr_name ending key =
     (if take 6 key = ''attr::'' \<and> 6 + length ending \<le> length key \<and> drop (length key - length ending) key = ending then
        (let name = take (length key - 6 - length ending) (drop 6 key)
         in if name \<noteq> [] \<and> CHR '':'' \<notin> set name then Some name else None)
      else None)"

definition is_attr_with_revealed_value :: "cl_library \<Rightarrow> string \<Rightarrow> attr_values \<Rightarrow> bool" where
  "is_attr_with_revealed_value cl key attr_value_map =
     (case tag_attr_name ''::value'' key of
        Some name \<Rightarrow> list_ex (\<lambda>(k, _). attr_common_view cl k = attr_common_view cl name) attr_value_map
      | None \<Rightarrow> False)"

definition check_internal_tag_revealed_value :: "cl_library \<Rightarrow> string \<Rightarrow> string \<Rightarrow> attr_values \<Rightarrow> unit indy_result" where
  "check_internal_tag_revealed_value cl key tag_value attr_value_map =
     (case tag_attr_name ''::value'' key of
        None \<Rightarrow> fail IE_InvalidState ''Attribute name became unparseable''
      | Some attr_name \<Rightarrow>
          (case find (\<lambda>(k, _). attr_common_view cl k = attr_common_view cl attr_name) attr_value_map of
             Some (_, Some revealed_value) \<Rightarrow>
               if revealed_value \<noteq> tag_value
               then fail IE_ProofRejected ''\"{}\" values are different: expected: \"{}\", actual: \"{}\"'' else Inr ()
           | _ \<Rightarrow> fail IE_ProofRejected ''Revealed value hasn't been find by key: expected key: \"{}\", attr_value_map: \"{:?}\"''))"

definition is_attr_marker_operator :: "string \<Rightarrow> bool" where
  "is_attr_marker_operator key = (tag_attr_name ''::marker'' key \<noteq> None)"

definition precess_filed :: "string \<Rightarrow> string \<Rightarrow> unit indy_result" where
  "precess_filed filter_value tag_value =
     (if filter_value = tag_value then Inr ()
      else fail IE_ProofRejected ''\"{}\" values are different: expected: \"{}\", actual: \"{}\"'')"

definition process_filter :: "cl_library \<Rightarrow> attr_values \<Rightarrow> string \<Rightarrow> string \<Rightarrow> VerifierFilter \<Rightarrow> unit indy_result" where
  "process_filter cl attr_value_map tag tag_value flt =
     (if tag = ''schema_id'' then precess_filed (vf_schema_id flt) tag_value
      else if tag = ''schema_issuer_did'' then precess_filed (vf_schema_issuer_did flt) tag_value
      else if tag = ''schema_name'' then precess_filed (vf_schema_name flt) tag_value
      else if tag = ''schema_version'' then precess_filed (vf_schema_version flt) tag_value
      else if tag = ''cred_def_id'' then precess_filed (vf_cred_def_id flt) tag_value
      else if tag = ''issuer_did'' then precess_filed (vf_issuer_did flt) tag_value
      else if is_attr_with_revealed_value cl tag attr_value_map then
        check_internal_tag_revealed_value cl tag tag_value attr_value_map
      else if is_attr_marker_operator tag then Inr ()
      else fail IE_InvalidStructure ''Unknown Filter Type'')"

fun do_process_operator :: "cl_library \<Rightarrow> attr_values \<Rightarrow> VerifierFilter \<Rightarrow> Query \<Rightarrow> unit indy_result" where
  "do_process_operator cl m flt (QEq tag_name tag_value) =
     err_extend ''$eq operator validation failed for tag: \"{}\", value: \"{}\"'' (process_filter cl m tag_name tag_value flt)"
| "do_process_operator cl m flt (QNeq tag_name tag_value) =
     (if \<not> is_ok (process_filter cl m tag_name tag_value flt) then Inr ()
      else fail IE_ProofRejected ''$neq operator validation failed for tag: \"{}\", value: \"{}\". Condition was passed.'')"
| "do_process_operator cl m flt (QIn tag_name tag_values) =
     (if list_ex (\<lambda>val. is_ok (process_filter cl m tag_name val flt)) tag_values then Inr ()
      else fail IE_ProofRejected ''$in operator validation failed for tag: \"{}\", values \"{:?}\".'')"
| "do_process_operator cl m flt (QAnd operators) =
     err_extend ''$and operator validation failed.'' (try_for_each id (map (do_process_operator cl m flt) operators))"
| "do_process_operator cl m flt (QOr operators) =
     (if list_ex (\<lambda>op. is_ok (do_process_operator cl m flt op)) operators then Inr ()
      else fail IE_ProofRejected ''$or operator validation failed. All conditions were failed.'')"
| "do_process_operator cl m flt (QNot operator) =
     (if \<not> is_ok (do_process_operator cl m flt operator) then Inr ()
      else fail IE_ProofRejected ''$not operator validation failed. All conditions were passed.'')"
| "do_process_operator cl m flt _ = fail IE_ProofRejected ''unsupported operator''"

definition gather_filter_info :: "cl_library \<Rightarrow> string \<Rightarrow> (string \<times> Identifier) list \<Rightarrow> VerifierFilter indy_result" where
  "gather_filter_info cl referent identifiers =
     (case map_of identifiers referent of
        None \<Rightarrow> fail IE_InvalidState ''Identifier not found for referent: {}''
      | Some identifier \<Rightarrow>
          (case SchemaId_parts cl (idf_schema_id identifier) of
             None \<Rightarrow> fail IE_InvalidState ''Invalid Schema ID `{}`: wrong number of parts''
           | Some (schema_issuer_did, schema_name, schema_version) \<Rightarrow>
               (case CredentialDefinitionId_issuer_did cl (idf_cred_def_id identifier) of
                  None \<Rightarrow> fail IE_InvalidState ''Invalid Credential Definition ID `{}`: wrong number of parts''
                | Some issuer_did \<Rightarrow>
                    Inr \<lparr>vf_schema_id = idf_schema_id identifier, vf_schema_issuer_did = schema_issuer_did,
                         vf_schema_name = schema_name, vf_schema_version = schema_version, vf_issuer_did = issuer_did,
                         vf_cred_def_id = idf_cred_def_id identifier\<rparr>)))"

definition is_self_attested :: "string \<Rightarrow> AttributeInfo \<Rightarrow> string list \<Rightarrow> bool" where
  "is_self_attested referent info self_attested_attrs =
     (case ai_restrictions info of
        None \<Rightarrow> referent \<in> set self_attested_attrs
      | Some q \<Rightarrow> (q = QAnd [] \<or> q = QOr []) \<and> referent \<in> set self_attested_attrs)"

definition name_value_map :: "RequestedProof \<Rightarrow> string \<Rightarrow> AttributeInfo \<Rightarrow> attr_values indy_result" where
  "name_value_map requested_proof referent info =
     (case ai_name info of
        Some name \<Rightarrow> Inr [(name, map_option rai_raw (map_of (rp_revealed_attrs requested_proof) referent))]
      | None \<Rightarrow>
          (case ai_names info of
             Some names \<Rightarrow>
               (case map_of (rp_revealed_attr_groups requested_proof) referent of
                  None \<Rightarrow> fail IE_InvalidStructure ''Proof does not have referent from proof request''
                | Some attrs \<Rightarrow>
                    Inr (foldl (\<lambda>m name. dict_insert name (map_option av_raw (map_of (ragi_values attrs) name)) m) [] names))
           | None \<Rightarrow> fail IE_InvalidStructure ''Proof Request attribute restriction should contain \"name\" or \"names\" param''))"

text \<open>The attributes revealed from the credential of a predicate; both lookups are \<open>unwrap\<close>ped.\<close>

definition predicate_value_map ::
    "RequestedProof \<Rightarrow> (string \<times> AttributeInfo) list \<Rightarrow> string \<Rightarrow> IndyPredicateInfo \<Rightarrow> attr_values indy_result" where
  "predicate_value_map requested_proof requested_attrs referent info =
     res_bind (ok_or (map_of (rp_predicates requested_proof) referent) Panic) (\<lambda>pred_sub_proof_index.
     res_bind (try_fold (\<lambda>m (attr_referent, attr_info).
         if rai_sub_proof_index attr_info = pred_sub_proof_index then
           res_bind (ok_or (map_of requested_attrs attr_referent) Panic) (\<lambda>a.
             Inr (case ai_name a of Some name \<Rightarrow> dict_insert name (Some (rai_raw attr_info)) m | None \<Rightarrow> m))
         else Inr m)
       [(pi_name info, None)] (rp_revealed_attrs requested_proof)) (\<lambda>m1.
     Inr (foldl (\<lambda>m (_, group_info).
         if ragi_sub_proof_index group_info = pred_sub_proof_index
         then foldl (\<lambda>m' (name, v). dict_insert name (Some (av_raw v)) m') m (ragi_values group_info) else m)
       m1 (rp_revealed_attr_groups requested_proof))))"

definition verify_requested_restrictions ::
    "cl_library \<Rightarrow> ProofRequestPayload \<Rightarrow> RequestedProof \<Rightarrow> (string \<times> Identifier) list \<Rightarrow> (string \<times> Identifier) list
       \<Rightarrow> (string \<times> Identifier) list \<Rightarrow> string list \<Rightarrow> unit indy_result" where
  "verify_requested_restrictions cl proof_req requested_proof received_revealed received_unrevealed received_predicates
       self_attested_attrs =
     (let proof_attr_identifiers = foldl (\<lambda>m (r, i). dict_insert r i m) [] (received_revealed @ received_unrevealed);
          requested_attrs = filter (\<lambda>(referent, info). \<not> is_self_attested referent info self_attested_attrs)
                              (prp_requested_attributes proof_req)
      in res_bind (try_for_each (\<lambda>(referent, info).
             case ai_restrictions info of
               None \<Rightarrow> Inr ()
             | Some query \<Rightarrow>
                 res_bind (gather_filter_info cl referent proof_attr_identifiers) (\<lambda>flt.
                 res_bind (name_value_map requested_proof referent info) (\<lambda>m.
                   err_extend ''Requested restriction validation failed for \"{:?}\" attributes'' (do_process_operator cl m flt query))))
           requested_attrs) (\<lambda>_.
         try_for_each (\<lambda>(referent, info).
             case pi_restrictions info of
               None \<Rightarrow> Inr ()
             | Some query \<Rightarrow>
                 res_bind (gather_filter_info cl referent received_predicates) (\<lambda>flt.
                 res_bind (predicate_value_map requested_proof requested_attrs referent info) (\<lambda>m.
                   err_extend ''Requested restriction validation failed for \"{}\" predicate'' (do_process_operator cl m flt query))))
           (prp_requested_predicates proof_req)))"

subsection \<open>What the proof answers\<close>

definition get_proof_identifier :: "IndyProof \<Rightarrow> 32 word \<Rightarrow> Identifier indy_result" where
  "get_proof_identifier prf index =
     ok_or (list_get (ip_identifiers prf) (unat index)) (Err (err_msg IE_InvalidStructure ''Identifier not found for index: {}''))"

definition insert_identifiers ::
    "IndyProof \<Rightarrow> (string \<times> Identifier) list \<Rightarrow> (string \<times> 32 word) list \<Rightarrow> (string \<times> Identifier) list indy_result" where
  "insert_identifiers prf = try_fold (\<lambda>m (referent, index).
     res_bind (get_proof_identifier prf index) (\<lambda>identifier. Inr (dict_insert referent identifier m)))"

definition received_revealed_attrs :: "IndyProof \<Rightarrow> (string \<times> Identifier) list indy_result" where
  "received_revealed_attrs prf =
     res_bind (insert_identifiers prf [] (map (map_prod id rai_sub_proof_index) (rp_revealed_attrs (ip_requested_proof prf)))) (\<lambda>m.
       insert_identifiers prf m (map (map_prod id ragi_sub_proof_index) (rp_revealed_attr_groups (ip_requested_proof prf))))"

definition received_unrevealed_attrs :: "IndyProof \<Rightarrow> (string \<times> Identifier) list indy_result" where
  "received_unrevealed_attrs prf = insert_identifiers prf [] (rp_unrevealed_attrs (ip_requested_proof prf))"

definition received_predicates :: "IndyProof \<Rightarrow> (string \<times> Identifier) list indy_result" where
  "received_predicates prf = insert_identifiers prf [] (rp_predicates (ip_requested_proof prf))"

definition received_self_attested_attrs :: "IndyProof \<Rightarrow> string list" where
  "received_self_attested_attrs prf = map fst (rp_self_attested_attrs (ip_requested_proof prf))"

definition compare_attr_from_proof_and_request ::
    "ProofRequestPayload \<Rightarrow> (string \<times> Identifier) list \<Rightarrow> (string \<times> Identifier) list \<Rightarrow> string list \<Rightarrow> (string \<times> Identifier) list
       \<Rightarrow> unit indy_result" where
  "compare_attr_from_proof_and_request proof_req revealed unrevealed self_attested predicates =
     (if fst ` set (prp_requested_attributes proof_req) \<noteq> fst ` set (revealed @ unrevealed) \<union> set self_attested
      then fail IE_InvalidStructure ''Requested attributes {:?} do not correspond to received {:?}''
      else if fst ` set (prp_requested_predicates proof_req) \<noteq> fst ` set predicates
      then fail IE_InvalidStructure ''Requested predicates {:?} do not correspond to received {:?}''
      else Inr ())"

definition validate_timestamp ::
    "(string \<times> Identifier) list \<Rightarrow> string \<Rightarrow> NonRevocedInterval option \<Rightarrow> NonRevocedInterval option \<Rightarrow> unit indy_result" where
  "validate_timestamp received referent global_interval local_interval =
     (if get_non_revoc_interval global_interval local_interval = None then Inr ()
      else if \<not> (case map_of received referent of Some attr \<Rightarrow> idf_timestamp attr \<noteq> None | None \<Rightarrow> False)
      then fail IE_InvalidStructure [] else Inr ())"

definition or_else :: "'a indy_result \<Rightarrow> 'a indy_result \<Rightarrow> 'a indy_result" where
  "or_else r r' = (case r of Inl (Err _) \<Rightarrow> r' | _ \<Rightarrow> r)"

definition compare_timestamps_from_proof_and_request ::
    "ProofRequestPayload \<Rightarrow> (string \<times> Identifier) list \<Rightarrow> (string \<times> Identifier) list \<Rightarrow> string list \<Rightarrow> (string \<times> Identifier) list
       \<Rightarrow> unit indy_result" where
  "compare_timestamps_from_proof_and_request proof_req revealed unrevealed self_attested predicates =
     res_bind (try_for_each (\<lambda>(referent, info).
         or_else (validate_timestamp revealed referent (prp_non_revoked proof_req) (ai_non_revoked info))
           (or_else (validate_timestamp unrevealed referent (prp_non_revoked proof_req) (ai_non_revoked info))
             (if referent \<in> set self_attested then Inr () else fail IE_InvalidStructure [])))
       (prp_requested_attributes proof_req)) (\<lambda>_.
     try_for_each (\<lambda>(referent, info). validate_timestamp predicates referent (prp_non_revoked proof_req) (pi_non_revoked info))
       (prp_requested_predicates proof_req))"

subsection \<open>Revealed values\<close>

definition verify_revealed_attribute_value :: "cl_library \<Rightarrow> string \<Rightarrow> IndyProof \<Rightarrow> RevealedAttributeInfo \<Rightarrow> unit indy_result" where
  "verify_revealed_attribute_value cl attr_name prf attr_info =
     res_bind (ok_or (list_get (ip_sub_proofs prf) (unat (rai_sub_proof_index attr_info)))
       (Err (err_msg IE_ProofRejected ''CryptoProof not found by index \"{}\"''))) (\<lambda>sub_proof.
     res_bind (lib (cl_revealed_attrs cl sub_proof)) (\<lambda>attrs.
     res_bind (ok_or (map_option snd (find (\<lambda>(key, _). attr_common_view cl attr_name = attr_common_view cl key) attrs))
       (Err (err_msg IE_ProofRejected ''Attribute with name \"{}\" not found in CryptoProof''))) (\<lambda>crypto_proof_encoded.
     res_bind (lib (cl_from_dec cl (rai_encoded attr_info))) (\<lambda>a.
     res_bind (lib (cl_from_dec cl crypto_proof_encoded)) (\<lambda>b.
       if a \<noteq> b then fail IE_ProofRejected
         ''Encoded Values for \"{}\" are different in RequestedProof \"{}\" and CryptoProof \"{}\"'' else Inr ())))))"

definition attribute_not_requested :: fault where
  "attribute_not_requested = Err (err_msg IE_ProofRejected ''Attribute with referent \"{}\" not found in ProofRequests'')"

definition group_mismatch :: fault where
  "group_mismatch =
     Err (err_msg IE_InvalidStructure ''Proof Revealed Attr Group does not match Proof Request Attribute Group'')"

definition verify_revealed_attribute_values :: "cl_library \<Rightarrow> ProofRequestPayload \<Rightarrow> IndyProof \<Rightarrow> unit indy_result" where
  "verify_revealed_attribute_values cl proof_req prf =
     res_bind (try_for_each (\<lambda>(attr_referent, attr_info).
         res_bind (ok_or (map_of (prp_requested_attributes proof_req) attr_referent) attribute_not_requested) (\<lambda>info.
         res_bind (ok_or (ai_name info) attribute_not_requested) (\<lambda>attr_name.
           verify_revealed_attribute_value cl attr_name prf attr_info)))
       (rp_revealed_attrs (ip_requested_proof prf))) (\<lambda>_.
     try_for_each (\<lambda>(attr_referent, attr_infos).
         res_bind (ok_or (map_of (prp_requested_attributes proof_req) attr_referent) attribute_not_requested) (\<lambda>info.
         res_bind (ok_or (ai_names info) attribute_not_requested) (\<lambda>attr_names.
           if length (ragi_values attr_infos) \<noteq> length attr_names then Inl group_mismatch
           else try_for_each (\<lambda>attr_name.
               res_bind (ok_or (map_of (ragi_values attr_infos) attr_name) group_mismatch) (\<lambda>v.
                 verify_revealed_attribute_value cl attr_name prf
                   \<lparr>rai_sub_proof_index = ragi_sub_proof_index attr_infos, rai_raw = av_raw v, rai_encoded = av_encoded v\<rparr>))
             attr_names)))
       (rp_revealed_attr_groups (ip_requested_proof prf)))"

subsection \<open>Verification\<close>

definition get_revealed_attributes_for_credential :: "nat \<Rightarrow> RequestedProof \<Rightarrow> ProofRequestPayload \<Rightarrow> AttributeInfo list" where
  "get_revealed_attributes_for_credential sub_proof_index requested_proof proof_req =
     List.map_filter (\<lambda>(referent, index). if sub_proof_index = unat index then map_of (prp_requested_attributes proof_req) referent else None)
       (map (map_prod id rai_sub_proof_index) (rp_revealed_attrs requested_proof)
        @ map (map_prod id ragi_sub_proof_index) (rp_revealed_attr_groups requested_proof))"

definition get_predicates_for_credential :: "nat \<Rightarrow> RequestedProof \<Rightarrow> ProofRequestPayload \<Rightarrow> IndyPredicateInfo list" where
  "get_predicates_for_credential sub_proof_index requested_proof proof_req =
     List.map_filter (\<lambda>(referent, index). if sub_proof_index = unat index then map_of (prp_requested_predicates proof_req) referent else None)
       (rp_predicates requested_proof)"

record ledger_data =
  ld_schemas :: "(string \<times> string list) list"
  ld_cred_defs :: "(string \<times> json) list"
  ld_rev_reg_defs :: "(string \<times> json) list"
  ld_rev_regs :: "(string \<times> (64 word \<times> json) list) list"

definition revocation_input :: "ledger_data \<Rightarrow> Identifier \<Rightarrow> (json option \<times> json option) indy_result" where
  "revocation_input ld identifier =
     (case idf_timestamp identifier of
        None \<Rightarrow> Inr (None, None)
      | Some timestamp \<Rightarrow>
          res_bind (ok_or (idf_rev_reg_id identifier) (Err (err_msg IE_InvalidStructure ''Revocation Registry Id not found''))) (\<lambda>rev_reg_id.
          res_bind (ok_or (map_of (ld_rev_reg_defs ld) rev_reg_id)
            (Err (err_msg IE_InvalidStructure ''RevocationRegistryDefinition not found for id: {:?}''))) (\<lambda>rev_reg_def.
          res_bind (ok_or (map_of (ld_rev_regs ld) rev_reg_id)
            (Err (err_msg IE_InvalidStructure ''RevocationRegistry not found for id: {:?}''))) (\<lambda>rev_regs_for_cred.
          res_bind (ok_or (map_of rev_regs_for_cred timestamp)
            (Err (err_msg IE_InvalidStructure ''RevocationRegistry not found for timestamp: {:?}''))) (\<lambda>rev_reg.
            Inr (Some rev_reg_def, Some rev_reg))))))"

definition sub_proof_input_for ::
    "cl_library \<Rightarrow> ledger_data \<Rightarrow> ProofRequestPayload \<Rightarrow> RequestedProof \<Rightarrow> nat \<Rightarrow> Identifier \<Rightarrow> sub_proof_input indy_result" where
  "sub_proof_input_for cl ld proof_req requested_proof sub_proof_index identifier =
     res_bind (ok_or (map_of (ld_schemas ld) (idf_schema_id identifier))
       (Err (err_msg IE_InvalidStructure ''Schema not found for id: {:?}''))) (\<lambda>attr_names.
     res_bind (ok_or (map_of (ld_cred_defs ld) (idf_cred_def_id identifier))
       (Err (err_msg IE_InvalidStructure ''CredentialDefinition not found for id: {:?}''))) (\<lambda>cred_def.
     res_bind (revocation_input ld identifier) (\<lambda>(rev_reg_def, rev_reg).
     res_bind (lib (cl_credential_schema cl (map (attr_common_view cl) attr_names))) (\<lambda>credential_schema.
     res_bind (build_sub_proof_request cl (get_revealed_attributes_for_credential sub_proof_index requested_proof proof_req)
         (get_predicates_for_credential sub_proof_index requested_proof proof_req)) (\<lambda>sub_proof_request.
     res_bind (lib (cl_public_key cl cred_def)) (\<lambda>credential_pub_key.
       Inr \<lparr>spi_request = sub_proof_request, spi_schema = credential_schema, spi_key = credential_pub_key,
            spi_accum_key = rev_reg_def, spi_registry = rev_reg\<rparr>))))))"

fun add_sub_proofs ::
    "cl_library \<Rightarrow> ledger_data \<Rightarrow> ProofRequestPayload \<Rightarrow> RequestedProof \<Rightarrow> nat \<Rightarrow> Identifier list \<Rightarrow> sub_proof_input list
       \<Rightarrow> sub_proof_input list indy_result" where
  "add_sub_proofs cl ld proof_req requested_proof index [] inputs = Inr inputs"
| "add_sub_proofs cl ld proof_req requested_proof index (identifier # identifiers) inputs =
     res_bind (sub_proof_input_for cl ld proof_req requested_proof index identifier) (\<lambda>input.
     res_bind (lib (cl_add_sub_proof cl inputs input)) (\<lambda>_.
       add_sub_proofs cl ld proof_req requested_proof (index + 1) identifiers (inputs @ [input])))"

definition verify :: "cl_library \<Rightarrow> IndyProof \<Rightarrow> ProofRequestPayload \<Rightarrow> ledger_data \<Rightarrow> bool indy_result" where
  "verify cl full_proof proof_req ld =
     res_bind (received_revealed_attrs full_proof) (\<lambda>revealed.
     res_bind (received_unrevealed_attrs full_proof) (\<lambda>unrevealed.
     res_bind (received_predicates full_proof) (\<lambda>predicates.
     let self_attested = received_self_attested_attrs full_proof in
     res_bind (compare_attr_from_proof_and_request proof_req revealed unrevealed self_attested predicates) (\<lambda>_.
     res_bind (verify_revealed_attribute_values cl proof_req full_proof) (\<lambda>_.
     res_bind (verify_requested_restrictions cl proof_req (ip_requested_proof full_proof) revealed unrevealed predicates
       self_attested) (\<lambda>_.
     res_bind (compare_timestamps_from_proof_and_request proof_req revealed unrevealed self_attested predicates) (\<lambda>_.
     res_bind (lib (cl_new_verifier cl)) (\<lambda>_.
     res_bind (add_sub_proofs cl ld proof_req (ip_requested_proof full_proof) 0 (ip_identifiers full_proof) []) (\<lambda>inputs.
       lib (cl_verify cl inputs (ip_sub_proofs full_proof) (ip_aggregated_proof full_proof) (prp_nonce proof_req)))))))))))"

subsection \<open>Unqualified requests\<close>

record unqualifier =
  uq_did :: "string \<Rightarrow> string"
  uq_schema_id :: "string \<Rightarrow> string"
  uq_cred_def_id :: "string \<Rightarrow> string"
  uq_rev_reg_id :: "string \<Rightarrow> string"

definition convert_value_to_unqualified :: "unqualifier \<Rightarrow> string \<Rightarrow> string \<Rightarrow> string" where
  "convert_value_to_unqualified uq tag_name tag_value =
     (if tag_name = ''issuer_did'' \<or> tag_name = ''schema_issuer_did'' then uq_did uq tag_value
      else if tag_name = ''schema_id'' then uq_schema_id uq tag_value
      else if tag_name = ''cred_def_id'' then uq_cred_def_id uq tag_value
      else if tag_name = ''rev_reg_id'' then uq_rev_reg_id uq tag_value
      else tag_value)"

fun convert_query_to_unqualified :: "unqualifier \<Rightarrow> Query \<Rightarrow> Query" where
  "convert_query_to_unqualified uq (QEq tag_name tag_value) = QEq tag_name (convert_value_to_unqualified uq tag_name tag_value)"
| "convert_query_to_unqualified uq (QNeq tag_name tag_value) = QNeq tag_name (convert_value_to_unqualified uq tag_name tag_value)"
| "convert_query_to_unqualified uq (QIn tag_name tag_values) =
     QIn tag_name (map (convert_value_to_unqualified uq tag_name) tag_values)"
| "convert_query_to_unqualified uq (QAnd queries) = QAnd (map (convert_query_to_unqualified uq) queries)"
| "convert_query_to_unqualified uq (QOr queries) = QOr (map (convert_query_to_unqualified uq) queries)"
| "convert_query_to_unqualified uq (QNot query) = convert_query_to_unqualified uq query"
| "convert_query_to_unqualified uq query = query"

definition ProofRequest_to_unqualified :: "unqualifier \<Rightarrow> ProofRequestPayload \<Rightarrow> ProofRequestPayload" where
  "ProofRequest_to_unqualified uq req = req
     \<lparr>prp_requested_attributes := map (map_prod id (\<lambda>i. i\<lparr>ai_restrictions := map_option (convert_query_to_unqualified uq) (ai_restrictions i)\<rparr>))
        (prp_requested_attributes req),
      prp_requested_predicates := map (map_prod id (\<lambda>i. i\<lparr>pi_restrictions := map_option (convert_query_to_unqualified uq) (pi_restrictions i)\<rparr>))
        (prp_requested_predicates req)\<rparr>"

subsection \<open>The meaning of a restriction\<close>

definition tag_matches :: "cl_library \<Rightarrow> attr_values \<Rightarrow> VerifierFilter \<Rightarrow> string \<Rightarrow> string \<Rightarrow> bool" where
  "tag_matches cl m flt tag value = is_ok (process_filter cl m tag value flt)"

fun comparison_matches :: "cl_library \<Rightarrow> attr_values \<Rightarrow> VerifierFilter \<Rightarrow> Query \<Rightarrow> bool" where
  "comparison_matches cl m flt (QNeq tag value) = (\<not> tag_matches cl m flt tag value)"
| "comparison_matches cl m flt _ = False"

definition satisfies :: "cl_library \<Rightarrow> attr_values \<Rightarrow> VerifierFilter \<Rightarrow> Query \<Rightarrow> bool" where
  "satisfies cl m flt = query_holds (tag_matches cl m flt) (comparison_matches cl m flt)"

lemma err_extend_ok [simp]: "is_ok (err_extend msg r) = is_ok r"
  by (cases r) (auto simp: err_extend_def)

lemma fail_not_ok [simp]: "is_ok (fail k m) = False"
  by (simp add: fail_def)

lemma try_for_each_ok: "is_ok (try_for_each f xs) = list_all (\<lambda>x. is_ok (f x)) xs"
  by (induction xs) (auto simp: is_ok_iff res_bind_Inr_iff)

lemma is_ok_Inr_unit: "is_ok r \<longleftrightarrow> r = Inr ()"
  by (cases r) auto

lemma operator_satisfies: "is_ok (do_process_operator cl m flt q) = satisfies cl m flt q"
  by (induction q)
     (auto simp: satisfies_def tag_matches_def try_for_each_ok list_all_iff list_ex_iff list.pred_map comp_def)

subsection \<open>Accepted proofs\<close>

lemma try_fold_invariant:
  assumes "try_fold f b xs = Inr b'" "P b" "\<And>b x b'. x \<in> set xs \<Longrightarrow> P b \<Longrightarrow> f b x = Inr b' \<Longrightarrow> P b'"
  shows "P b'"
  using assms by (induction xs arbitrary: b) (auto simp: res_bind_Inr_iff)

text \<open>The identifier of a credential of the proof, at an index that the proof gives for the referent.\<close>

definition located :: "IndyProof \<Rightarrow> (string \<times> 32 word) list \<Rightarrow> string \<Rightarrow> Identifier \<Rightarrow> bool" where
  "located prf indices referent identifier =
     (\<exists>index. (referent, index) \<in> set indices \<and> list_get (ip_identifiers prf) (unat index) = Some identifier)"

lemma insert_identifiers_located:
  assumes "insert_identifiers prf m xs = Inr m'" "\<And>r i. (r, i) \<in> set m \<Longrightarrow> located prf ys r i" "set xs \<subseteq> set ys"
    and "(r, i) \<in> set m'"
  shows "located prf ys r i"
proof -
  have "\<forall>r i. (r, i) \<in> set m' \<longrightarrow> located prf ys r i"
    using assms(1) unfolding insert_identifiers_def
  proof (rule try_fold_invariant)
    fix b x b'
    assume x: "x \<in> set xs" and b: "\<forall>r i. (r, i) \<in> set b \<longrightarrow> located prf ys r i"
      and run: "(case x of (referent, index) \<Rightarrow>
        res_bind (get_proof_identifier prf index) (\<lambda>identifier. Inr (dict_insert referent identifier b))) = Inr b'"
    obtain referent index ident where new: "x = (referent, index)" "b' = dict_insert referent ident b"
        "list_get (ip_identifiers prf) (unat index) = Some ident"
      using run by (cases x) (auto simp: get_proof_identifier_def res_bind_Inr_iff ok_or_Inr_iff)
    then have "located prf ys referent ident" using x assms(3) by (auto simp: located_def)
    then show "\<forall>r i. (r, i) \<in> set b' \<longrightarrow> located prf ys r i" using b new(2) by (auto dest: dict_insert_in)
  qed (use assms(2) in blast)
  then show ?thesis using assms(4) by blast
qed

lemma insert_identifiers_keys: "insert_identifiers prf m xs = Inr m' \<Longrightarrow> fst ` set m' = fst ` set m \<union> fst ` set xs"
  unfolding insert_identifiers_def
proof (induction xs arbitrary: m)
  case (Cons x xs)
  obtain r ix where x: "x = (r, ix)" by (cases x)
  obtain i where run: "try_fold (\<lambda>m (referent, index).
      res_bind (get_proof_identifier prf index) (\<lambda>identifier. Inr (dict_insert referent identifier m))) (dict_insert r i m) xs = Inr m'"
    using Cons.prems x by (auto simp: res_bind_Inr_iff)
  show ?case using Cons.IH [OF run] x by (simp add: dict_insert_keys)
qed simp

definition attr_indices :: "RequestedProof \<Rightarrow> (string \<times> 32 word) list" where
  "attr_indices rp = map (map_prod id rai_sub_proof_index) (rp_revealed_attrs rp)
     @ map (map_prod id ragi_sub_proof_index) (rp_revealed_attr_groups rp) @ rp_unrevealed_attrs rp"

lemma received_revealed:
  assumes "received_revealed_attrs prf = Inr m"
  shows "(r, i) \<in> set m \<Longrightarrow> located prf (attr_indices (ip_requested_proof prf)) r i"
    and "fst ` set m = fst ` set (rp_revealed_attrs (ip_requested_proof prf)) \<union> fst ` set (rp_revealed_attr_groups (ip_requested_proof prf))"
proof -
  obtain m1 where m1: "insert_identifiers prf [] (map (map_prod id rai_sub_proof_index) (rp_revealed_attrs (ip_requested_proof prf))) = Inr m1"
      "insert_identifiers prf m1 (map (map_prod id ragi_sub_proof_index) (rp_revealed_attr_groups (ip_requested_proof prf))) = Inr m"
    using assms by (auto simp: received_revealed_attrs_def res_bind_Inr_iff)
  have first: "located prf (attr_indices (ip_requested_proof prf)) r i" if "(r, i) \<in> set m1" for r i
    by (rule insert_identifiers_located [OF m1(1) _ _ that]) (auto simp: attr_indices_def)
  show "(r, i) \<in> set m \<Longrightarrow> located prf (attr_indices (ip_requested_proof prf)) r i"
    by (rule insert_identifiers_located [OF m1(2) first]) (auto simp: attr_indices_def)
  show "fst ` set m = fst ` set (rp_revealed_attrs (ip_requested_proof prf)) \<union> fst ` set (rp_revealed_attr_groups (ip_requested_proof prf))"
    using insert_identifiers_keys [OF m1(1)] insert_identifiers_keys [OF m1(2)] by (simp add: image_image map_prod_def split_def)
qed

lemma received_unrevealed:
  assumes "received_unrevealed_attrs prf = Inr m"
  shows "(r, i) \<in> set m \<Longrightarrow> located prf (attr_indices (ip_requested_proof prf)) r i"
    and "fst ` set m = fst ` set (rp_unrevealed_attrs (ip_requested_proof prf))"
  using insert_identifiers_located [OF assms [unfolded received_unrevealed_attrs_def], of "attr_indices (ip_requested_proof prf)" r i]
    insert_identifiers_keys [OF assms [unfolded received_unrevealed_attrs_def]]
  by (auto simp: attr_indices_def)

lemma received_predicate:
  assumes "received_predicates prf = Inr m"
  shows "(r, i) \<in> set m \<Longrightarrow> located prf (rp_predicates (ip_requested_proof prf)) r i"
    and "fst ` set m = fst ` set (rp_predicates (ip_requested_proof prf))"
  using insert_identifiers_located [OF assms [unfolded received_predicates_def], of "rp_predicates (ip_requested_proof prf)" r i]
    insert_identifiers_keys [OF assms [unfolded received_predicates_def]]
  by auto

definition credential_tags :: "cl_library \<Rightarrow> Identifier \<Rightarrow> VerifierFilter \<Rightarrow> bool" where
  "credential_tags cl identifier flt = (gather_filter_info cl [] [([], identifier)] = Inr flt)"

lemma gather_filter_info_tags:
  assumes "gather_filter_info cl referent m = Inr flt"
  obtains ident where "map_of m referent = Some ident" "credential_tags cl ident flt"
  using assms by (auto simp: gather_filter_info_def credential_tags_def fail_def split: option.splits)

lemma foldl_dict_insert_in:
  "(r, i) \<in> set (foldl (\<lambda>m (r, i). dict_insert r i m) m xs) \<Longrightarrow> (r, i) \<in> set m \<union> set xs"
  by (induction xs arbitrary: m) (auto dest: dict_insert_in split: prod.splits)

lemma err_extend_Inr_iff [simp]: "err_extend msg r = Inr x \<longleftrightarrow> r = Inr x"
  by (simp add: err_extend_def map_err_Inr_iff)

lemma lib_Inr_iff [simp]: "lib r = Inr x \<longleftrightarrow> r = Inr x"
  by (simp add: lib_def map_err_Inr_iff)

lemma restricted_attribute:
  assumes "verify_requested_restrictions cl req rp revealed unrevealed preds self_attested = Inr ()"
    and "(referent, info) \<in> set (prp_requested_attributes req)" "ai_restrictions info = Some q" "q \<noteq> QAnd []" "q \<noteq> QOr []"
  shows "\<exists>ident flt m. (referent, ident) \<in> set (revealed @ unrevealed) \<and> credential_tags cl ident flt
     \<and> name_value_map rp referent info = Inr m \<and> satisfies cl m flt q"
proof -
  let ?ids = "foldl (\<lambda>m (r, i). dict_insert r i m) [] (revealed @ unrevealed)"
  have "\<not> is_self_attested referent info self_attested" using assms(3-5) by (simp add: is_self_attested_def)
  then have "\<exists>flt m. gather_filter_info cl referent ?ids = Inr flt \<and> name_value_map rp referent info = Inr m
      \<and> do_process_operator cl m flt q = Inr ()"
    using assms(1-3) by (fastforce simp: verify_requested_restrictions_def Let_def res_bind_Inr_iff try_for_each_Inr_iff)
  then obtain flt m where run: "gather_filter_info cl referent ?ids = Inr flt" "name_value_map rp referent info = Inr m"
      "do_process_operator cl m flt q = Inr ()" by blast
  obtain ident where ident: "map_of ?ids referent = Some ident" "credential_tags cl ident flt"
    using gather_filter_info_tags [OF run(1)] by blast
  have "(referent, ident) \<in> set (revealed @ unrevealed)"
    using foldl_dict_insert_in [OF map_of_SomeD [OF ident(1)]] by simp
  then show ?thesis using ident(2) run(2,3) operator_satisfies [of cl m flt q] by (auto simp: is_ok_Inr_unit)
qed

lemma restricted_predicate:
  assumes "verify_requested_restrictions cl req rp revealed unrevealed preds self_attested = Inr ()"
    and "(referent, info) \<in> set (prp_requested_predicates req)" "pi_restrictions info = Some q"
  shows "\<exists>ident flt m. (referent, ident) \<in> set preds \<and> credential_tags cl ident flt \<and> satisfies cl m flt q"
proof -
  have "\<exists>flt m. gather_filter_info cl referent preds = Inr flt \<and> do_process_operator cl m flt q = Inr ()"
    using assms by (fastforce simp: verify_requested_restrictions_def Let_def res_bind_Inr_iff try_for_each_Inr_iff)
  then obtain flt m where run: "gather_filter_info cl referent preds = Inr flt" "do_process_operator cl m flt q = Inr ()" by blast
  obtain ident where "map_of preds referent = Some ident" "credential_tags cl ident flt"
    using gather_filter_info_tags [OF run(1)] by blast
  then show ?thesis using run(2) operator_satisfies [of cl m flt q] by (auto simp: is_ok_Inr_unit dest: map_of_SomeD)
qed

lemma add_sub_proofs_length:
  "add_sub_proofs cl ld req rp n ids inputs = Inr inputs' \<Longrightarrow> length inputs' = length inputs + length ids"
  by (induction ids arbitrary: n inputs) (auto simp: res_bind_Inr_iff)

lemma verify_parts:
  assumes "verify cl prf req ld = Inr b"
  obtains revealed unrevealed preds inputs where
    "received_revealed_attrs prf = Inr revealed" "received_unrevealed_attrs prf = Inr unrevealed" "received_predicates prf = Inr preds"
    "compare_attr_from_proof_and_request req revealed unrevealed (received_self_attested_attrs prf) preds = Inr ()"
    "verify_revealed_attribute_values cl req prf = Inr ()"
    "verify_requested_restrictions cl req (ip_requested_proof prf) revealed unrevealed preds (received_self_attested_attrs prf) = Inr ()"
    "compare_timestamps_from_proof_and_request req revealed unrevealed (received_self_attested_attrs prf) preds = Inr ()"
    "length inputs = length (ip_identifiers prf)"
    "cl_verify cl inputs (ip_sub_proofs prf) (ip_aggregated_proof prf) (prp_nonce req) = Inr b"
  using assms add_sub_proofs_length by (fastforce simp: verify_def Let_def res_bind_Inr_iff)

lemma revealed_value_proved:
  assumes "verify_revealed_attribute_values cl req prf = Inr ()" "(referent, a) \<in> set (rp_revealed_attrs (ip_requested_proof prf))"
  shows "\<exists>info name sub attrs key enc n. map_of (prp_requested_attributes req) referent = Some info \<and> ai_name info = Some name
     \<and> list_get (ip_sub_proofs prf) (unat (rai_sub_proof_index a)) = Some sub \<and> cl_revealed_attrs cl sub = Inr attrs
     \<and> (key, enc) \<in> set attrs \<and> attr_common_view cl key = attr_common_view cl name
     \<and> cl_from_dec cl enc = Inr n \<and> cl_from_dec cl (rai_encoded a) = Inr n"
proof -
  have "\<exists>info name. map_of (prp_requested_attributes req) referent = Some info \<and> ai_name info = Some name
      \<and> verify_revealed_attribute_value cl name prf a = Inr ()"
    using assms by (fastforce simp: verify_revealed_attribute_values_def res_bind_Inr_iff try_for_each_Inr_iff ok_or_Inr_iff)
  then obtain info name where info: "map_of (prp_requested_attributes req) referent = Some info" "ai_name info = Some name"
      "verify_revealed_attribute_value cl name prf a = Inr ()" by blast
  then obtain sub attrs key enc n where "list_get (ip_sub_proofs prf) (unat (rai_sub_proof_index a)) = Some sub"
      "cl_revealed_attrs cl sub = Inr attrs"
      "find (\<lambda>(key, _). attr_common_view cl name = attr_common_view cl key) attrs = Some (key, enc)"
      "cl_from_dec cl enc = Inr n" "cl_from_dec cl (rai_encoded a) = Inr n"
    by (auto simp: verify_revealed_attribute_value_def res_bind_Inr_iff ok_or_Inr_iff fail_def split: if_splits)
  moreover from this(3) have "(key, enc) \<in> set attrs" "attr_common_view cl key = attr_common_view cl name"
    by (force simp: find_Some_iff in_set_conv_nth)+
  ultimately show ?thesis using info(1,2) by blast
qed

subsection \<open>Properties\<close>




text \<open>
  Turning a request to unqualified identifiers drops \<open>$not\<close>: a restriction that excludes an issuer then
  requires it.
\<close>

lemma unqualified_request_loses_negation:
  "convert_query_to_unqualified uq (QNot (QEq ''issuer_did'' did)) = QEq ''issuer_did'' (uq_did uq did)"
  by (simp add: convert_value_to_unqualified_def)

subsection \<open>The properties at concrete inputs\<close>

definition demo_cl :: cl_library where
  "demo_cl = \<lparr>cl_lowercase = id, cl_parse_indy_schema_id = (\<lambda>_. None), cl_parse_indy_creddef_id = (\<lambda>_. None),
     cl_from_dec = (\<lambda>s. Inr (int (length s))), cl_revealed_attrs = (\<lambda>_. Inr [(''n'', ''1'')]), cl_credential_schema = (\<lambda>_. Inr JNull),
     cl_new_request = Inr JNull, cl_add_revealed_attr = (\<lambda>b _. Inr b), cl_add_predicate = (\<lambda>b _ _ _. Inr b),
     cl_public_key = Inr, cl_new_verifier = Inr (), cl_add_sub_proof = (\<lambda>_ _. Inr ()), cl_verify = (\<lambda>_ _ _ _. Inr True)\<rparr>"

definition demo_attr :: "Query option \<Rightarrow> AttributeInfo" where
  "demo_attr q = \<lparr>ai_name = Some ''n'', ai_names = None, ai_restrictions = q, ai_non_revoked = None\<rparr>"

definition demo_indy_request :: ProofRequestPayload where
  "demo_indy_request = \<lparr>prp_nonce = ''7'', prp_requested_attributes = [(''a'', demo_attr (Some (QEq ''schema_name'' ''s'')))],
     prp_requested_predicates = [], prp_non_revoked = None\<rparr>"

definition demo_indy_proof :: IndyProof where
  "demo_indy_proof = \<lparr>ip_sub_proofs = [JNull], ip_aggregated_proof = JNull,
     ip_requested_proof = \<lparr>rp_revealed_attrs = [(''a'', \<lparr>rai_sub_proof_index = 0, rai_raw = ''x'', rai_encoded = ''1''\<rparr>)],
       rp_revealed_attr_groups = [], rp_self_attested_attrs = [], rp_unrevealed_attrs = [], rp_predicates = []\<rparr>,
     ip_identifiers = [\<lparr>idf_schema_id = ''i:2:s:1'', idf_cred_def_id = ''i:3:CL:1'', idf_rev_reg_id = None, idf_timestamp = None\<rparr>]\<rparr>"

definition demo_ledger :: ledger_data where
  "demo_ledger = \<lparr>ld_schemas = [(''i:2:s:1'', [''n''])], ld_cred_defs = [(''i:3:CL:1'', JNull)], ld_rev_reg_defs = [], ld_rev_regs = []\<rparr>"

lemmas verify_defs =
  verify_def received_revealed_attrs_def received_unrevealed_attrs_def received_predicates_def received_self_attested_attrs_def
  insert_identifiers_def get_proof_identifier_def compare_attr_from_proof_and_request_def verify_revealed_attribute_values_def
  verify_revealed_attribute_value_def attr_common_view_def verify_requested_restrictions_def is_self_attested_def
  gather_filter_info_def SchemaId_parts_def CredentialDefinitionId_issuer_did_def CredentialDefinitionId_parts_def
  split_terminator_def name_value_map_def process_filter_def precess_filed_def err_extend_def
  compare_timestamps_from_proof_and_request_def validate_timestamp_def get_non_revoc_interval_def or_else_def lib_def
  sub_proof_input_for_def revocation_input_def build_sub_proof_request_def get_revealed_attributes_for_credential_def
  get_predicates_for_credential_def List.map_filter_def demo_cl_def demo_attr_def demo_indy_request_def demo_indy_proof_def
  demo_ledger_def

lemma demo_indy_accepted: "verify demo_cl demo_indy_proof demo_indy_request demo_ledger = Inr True"
  by (simp add: verify_defs)



text \<open>
  A proof that lists an unrestricted attribute both as revealed and as self-attested passes the comparison
  with the request; if a restricted predicate belongs to the same credential, the verifier panics.
\<close>

definition demo_double_request :: ProofRequestPayload where
  "demo_double_request = demo_indy_request
     \<lparr>prp_requested_attributes := [(''a'', demo_attr None)],
      prp_requested_predicates := [(''p'', \<lparr>pi_name = ''age'', pi_type = GE, pi_value = 18, pi_restrictions = Some (QEq ''schema_name'' ''s''),
        pi_non_revoked = None\<rparr>)]\<rparr>"

definition demo_double_proof :: IndyProof where
  "demo_double_proof = demo_indy_proof
     \<lparr>ip_requested_proof := (ip_requested_proof demo_indy_proof)
        \<lparr>rp_self_attested_attrs := [(''a'', ''y'')], rp_predicates := [(''p'', 0)]\<rparr>\<rparr>"

lemma double_attribute_panics: "verify demo_cl demo_double_proof demo_double_request demo_ledger = Inl Panic"
  by (simp add: verify_defs demo_double_proof_def demo_double_request_def predicate_value_map_def)

end
