(* ===== verification/Envelope.thy ===== *)
theory Envelope
  imports Credentials Machines "HOL-Library.Countable"
begin

text \<open>
  What the connection protocols rest on: the JSON form of DID documents and connection data, the
  signature on a connection response (aries_vcx/src/common/signing.rs), the packing of messages for
  a recipient and its routing agents (utils/encryption_envelope.rs, utils/mod.rs), the pairwise keys
  (protocols/connection/pairwise_info.rs), and the reading of a DID document from an invitation
  (common/ledger/transactions.rs, common/keys.rs).

  \<open>conn_env\<close> holds what is not code of the repository, or only a trait of it: the wallet's keys,
  signatures and packing, the ledger's attributes and nyms, the HTTP post, the URL-safe base64, the
  base58 encoder and the parser of URLs (which yields the text of the parsed URL), and the JSON text
  of an \<open>AriesMessage\<close>. The remaining codecs are those of \<open>lib\<close>.

  The keys of the JSON objects are in alphabetical order, as \<open>serde_json::Value\<close> keeps them. A struct
  is read from an object, as in the proof requests. A result \<open>None\<close> of a decoder inside an operation
  stands for a panic of the code.

  Shown: connection data read back from their JSON; a response signed by the inviter is accepted
  under the same key and yields the signed data; an accepted response carries a signature that the
  wallet verified under the expected key; a packed message is opened layer by layer by the routing
  agents and then by the recipient, who gets the message and the key of its sender.
\<close>

record 'w conn_env =
  ce_lib :: lib
  ce_b64url_enc :: "string \<Rightarrow> string"
  ce_b64url_dec :: "string \<Rightarrow> string option"
  ce_bs58_enc :: "string \<Rightarrow> string"
  ce_url_parse :: "string \<Rightarrow> string option"
  ce_message_print :: "AriesMessage \<Rightarrow> string"
  ce_message_parse :: "string \<Rightarrow> AriesMessage option"
  ce_sign :: "string \<Rightarrow> string \<Rightarrow> ('w, string) ext"
  ce_verify :: "string \<Rightarrow> string \<Rightarrow> string \<Rightarrow> ('w, bool) ext"
  ce_create_and_store_my_did :: "('w, string \<times> string) ext"
  ce_pack_message :: "string option \<Rightarrow> string \<Rightarrow> string \<Rightarrow> ('w, string) ext"
  ce_unpack_message :: "string \<Rightarrow> ('w, string) ext"
  ce_post_message :: "string \<Rightarrow> string \<Rightarrow> ('w, unit) ext"
  ce_get_attr :: "string \<Rightarrow> string \<Rightarrow> ('w, string) ext"
  ce_get_nym :: "string \<Rightarrow> ('w, string) ext"
  ce_add_attr :: "string \<Rightarrow> string \<Rightarrow> ('w, string) ext"
  ce_publish_nym ::
    "string \<Rightarrow> string \<Rightarrow> string option \<Rightarrow> string option \<Rightarrow> string option \<Rightarrow> ('w, string) ext"
  ce_replace_did_keys_start :: "string \<Rightarrow> ('w, string) ext"
  ce_replace_did_keys_apply :: "string \<Rightarrow> ('w, unit) ext"
  ce_next_decrypted_mock :: "('w, string option) ext"

subsection \<open>JSON of DID documents\<close>

definition JU32 :: "32 word \<Rightarrow> json" where
  "JU32 w = JNumber (nat_to_string (unat w))"

definition Ed25519PublicKey_to_json :: "Ed25519PublicKey \<Rightarrow> json" where
  "Ed25519PublicKey_to_json k = JObject
     [(''controller'', JString (pk_controller k)), (''id'', JString (pk_id k)),
      (''publicKeyBase58'', JString (pk_public_key_base_58 k)), (''type'', JString (pk_type k))]"

definition Authentication_to_json :: "Authentication \<Rightarrow> json" where
  "Authentication_to_json a = JObject
     [(''publicKey'', JString (auth_public_key a)), (''type'', JString (auth_type a))]"

definition AriesService_to_json :: "AriesService \<Rightarrow> json" where
  "AriesService_to_json s = JObject
     [(''id'', JString (svc_id s)), (''priority'', JU32 (svc_priority s)),
      (''recipientKeys'', JArray (map JString (svc_recipient_keys s))),
      (''routingKeys'', JArray (map JString (svc_routing_keys s))),
      (''serviceEndpoint'', JString (svc_service_endpoint s)), (''type'', JString (svc_type s))]"

definition AriesDidDoc_to_json :: "AriesDidDoc \<Rightarrow> json" where
  "AriesDidDoc_to_json d = JObject
     [(''@context'', JString (dd_context d)),
      (''authentication'', JArray (map Authentication_to_json (dd_authentication d))),
      (''id'', JString (dd_id d)),
      (''publicKey'', JArray (map Ed25519PublicKey_to_json (dd_public_key d))),
      (''service'', JArray (map AriesService_to_json (dd_service d)))]"

definition ConnectionData_to_json :: "ConnectionData \<Rightarrow> json" where
  "ConnectionData_to_json c = JObject
     [(''DID'', JString (cd_did c)), (''DIDDoc'', AriesDidDoc_to_json (cd_did_doc c))]"

text \<open>A required field, and one with \<open>serde(default)\<close>.\<close>

definition req_field :: "(json \<Rightarrow> 'a option) \<Rightarrow> json \<Rightarrow> string \<Rightarrow> 'a option" where
  "req_field p v k = Option.bind (json_get v k) p"

definition default_field :: "(json \<Rightarrow> 'a option) \<Rightarrow> 'a \<Rightarrow> json \<Rightarrow> string \<Rightarrow> 'a option" where
  "default_field p d v k = (case json_get v k of None \<Rightarrow> Some d | Some x \<Rightarrow> p x)"

definition Ed25519PublicKey_from_json :: "json \<Rightarrow> Ed25519PublicKey option" where
  "Ed25519PublicKey_from_json v =
     Option.bind (req_field as_str v ''id'') (\<lambda>i.
     Option.bind (req_field as_str v ''type'') (\<lambda>t.
     Option.bind (req_field as_str v ''controller'') (\<lambda>c.
     Option.bind (req_field as_str v ''publicKeyBase58'') (\<lambda>k.
       Some \<lparr>pk_id = i, pk_type = t, pk_controller = c, pk_public_key_base_58 = k\<rparr>))))"

definition Authentication_from_json :: "json \<Rightarrow> Authentication option" where
  "Authentication_from_json v =
     Option.bind (req_field as_str v ''type'') (\<lambda>t.
     Option.bind (req_field as_str v ''publicKey'') (\<lambda>k.
       Some \<lparr>auth_type = t, auth_public_key = k\<rparr>))"

definition AriesService_from_json :: "(string \<Rightarrow> string option) \<Rightarrow> json \<Rightarrow> AriesService option" where
  "AriesService_from_json url_parse v =
     Option.bind (req_field as_str v ''id'') (\<lambda>i.
     Option.bind (req_field as_str v ''type'') (\<lambda>t.
     Option.bind (default_field as_u32 0 v ''priority'') (\<lambda>p.
     Option.bind (default_field (array_of as_str) [] v ''recipientKeys'') (\<lambda>rks.
     Option.bind (default_field (array_of as_str) [] v ''routingKeys'') (\<lambda>rts.
     Option.bind (req_field (\<lambda>x. Option.bind (as_str x) url_parse) v ''serviceEndpoint'') (\<lambda>u.
       Some \<lparr>svc_id = i, svc_type = t, svc_priority = p, svc_recipient_keys = rks,
             svc_routing_keys = rts, svc_service_endpoint = u\<rparr>))))))"

definition AriesDidDoc_from_json :: "(string \<Rightarrow> string option) \<Rightarrow> json \<Rightarrow> AriesDidDoc option" where
  "AriesDidDoc_from_json url_parse v =
     Option.bind (req_field as_str v ''@context'') (\<lambda>c.
     Option.bind (default_field as_str [] v ''id'') (\<lambda>i.
     Option.bind (default_field (array_of Ed25519PublicKey_from_json) [] v ''publicKey'') (\<lambda>ks.
     Option.bind (default_field (array_of Authentication_from_json) [] v ''authentication'') (\<lambda>as.
     Option.bind (req_field (array_of (AriesService_from_json url_parse)) v ''service'') (\<lambda>ss.
       Some \<lparr>dd_context = c, dd_id = i, dd_public_key = ks, dd_authentication = as,
             dd_service = ss\<rparr>)))))"

definition ConnectionData_from_json :: "(string \<Rightarrow> string option) \<Rightarrow> json \<Rightarrow> ConnectionData option" where
  "ConnectionData_from_json url_parse v =
     Option.bind (req_field as_str v ''DID'') (\<lambda>d.
     Option.bind (req_field (AriesDidDoc_from_json url_parse) v ''DIDDoc'') (\<lambda>doc.
       Some (ConnectionData_new d doc)))"

subsection \<open>Signing\<close>

text \<open>\<open>OffsetDateTime::now_utc().unix_timestamp() as u64\<close>, of a clock that counts milliseconds.\<close>

definition unix_timestamp :: "('w, 64 word) vcx" where
  "unix_timestamp = vbind utc_now (\<lambda>t. vret (of_nat (t div 1000)))"

definition u64_to_be_bytes :: "64 word \<Rightarrow> string" where
  "u64_to_be_bytes w = map (\<lambda>i. char_of (unat (drop_bit (8 * (7 - i)) w))) [0..<8]"

definition get_signature_data :: "'w conn_env \<Rightarrow> string \<Rightarrow> string \<Rightarrow> ('w, string \<times> string) vcx" where
  "get_signature_data env data key =
     vbind unix_timestamp (\<lambda>now.
       let sig_data = u64_to_be_bytes now @ data
       in vbind (call (ce_sign env key sig_data)) (\<lambda>signature.
            vret (signature, sig_data)))"

definition sign_connection_response ::
    "'w conn_env \<Rightarrow> string \<Rightarrow> ConnectionData \<Rightarrow> ('w, ConnectionSignature) vcx" where
  "sign_connection_response env key con_data =
     (let con_data = lib_json_print (ce_lib env) (ConnectionData_to_json con_data)
      in vbind (get_signature_data env con_data key) (\<lambda>(signature, sig_data).
           vret (ConnectionSignature_new (ce_b64url_enc env signature) (ce_b64url_enc env sig_data) key)))"

definition decode_response_error :: vcx_error where
  "decode_response_error = AriesVcxError_from_msg InvalidJson ''Cannot decode ConnectionResponse: {:?}''"

definition decode_signed_connection_response ::
    "'w conn_env \<Rightarrow> ResponseContent \<Rightarrow> string \<Rightarrow> ('w, ConnectionData option) vcx" where
  "decode_signed_connection_response env response their_vk =
     (let sg = connection_sig response
      in vbind (vlift (ok_or (ce_b64url_dec env (cs_signature sg)) decode_response_error)) (\<lambda>signature.
         vbind (vlift (ok_or (ce_b64url_dec env (cs_sig_data sg)) decode_response_error)) (\<lambda>sig_data.
         vbind (call (ce_verify env their_vk sig_data signature)) (\<lambda>valid.
           if \<not> valid then
             vfail (AriesVcxError_from_msg InvalidJson
               ''ConnectionResponse signature is invalid for original Invite recipient key'')
           else if cs_signer sg \<noteq> their_vk then
             vfail (AriesVcxError_from_msg InvalidJson
               ''Signer declared in ConnectionResponse signed response is not matching the actual signer. Connection '')
           else if length sig_data < 8 then vret None
           else
             (case Option.bind (lib_json_parse (ce_lib env) (drop 8 sig_data))
                     (ConnectionData_from_json (ce_url_parse env)) of
                None \<Rightarrow> vfail (AriesVcxError_from_msg InvalidJson ''{err}'')
              | Some connection \<Rightarrow> vret (Some connection))))))"

definition unpack_message_to_string :: "'w conn_env \<Rightarrow> string \<Rightarrow> ('w, string) vcx" where
  "unpack_message_to_string env msg =
     vbind mocks_enabled (\<lambda>mocks.
       if mocks then vret []
       else
         vbind (vmap_err (\<lambda>_. AriesVcxError_from_msg InvalidMessagePack ''Failed to unpack message'')
                  (call (ce_unpack_message env msg))) (\<lambda>bytes.
           if is_utf8 bytes then vret bytes
           else vfail (AriesVcxError_from_msg InvalidMessageFormat
                  ''Failed to convert message to utf8 string'')))"

subsection \<open>Pairwise keys\<close>

record PairwiseInfo =
  pw_did :: string
  pw_vk :: string

definition PairwiseInfo_create :: "'w conn_env \<Rightarrow> ('w, PairwiseInfo) vcx" where
  "PairwiseInfo_create env =
     vbind (call (ce_create_and_store_my_did env)) (\<lambda>(did, vk). vret \<lparr>pw_did = did, pw_vk = vk\<rparr>)"

subsection \<open>Encryption envelopes\<close>

definition from_diddoc :: "'a diddoc_result \<Rightarrow> 'a vcx_result" where
  "from_diddoc r = map_err AriesVcxError_from_diddoc r"

definition recipient_keys_of :: "'w conn_env \<Rightarrow> AriesDidDoc \<Rightarrow> string list vcx_result" where
  "recipient_keys_of env did_doc =
     from_diddoc (AriesDidDoc_recipient_keys (lib_bs58 (ce_lib env)) did_doc)"

definition keys_json :: "'w conn_env \<Rightarrow> string list \<Rightarrow> string" where
  "keys_json env ks = lib_json_print (ce_lib env) (JArray (map JString ks))"

definition encrypt_for_pairwise ::
    "'w conn_env \<Rightarrow> AriesMessage \<Rightarrow> string option \<Rightarrow> AriesDidDoc \<Rightarrow> ('w, string) vcx" where
  "encrypt_for_pairwise env message pw_verkey did_doc =
     (let message = ce_message_print env message
      in vbind (vlift (recipient_keys_of env did_doc)) (\<lambda>keys.
           call (ce_pack_message env pw_verkey (keys_json env keys) message)))"

definition json_error :: vcx_error where
  "json_error = AriesVcxError_from_msg InvalidJson ''Invalid json''"

definition Forward_new :: "string \<Rightarrow> ForwardContent \<Rightarrow> Forward" where
  "Forward_new i c = \<lparr>msg_id = i, msg_content = c, msg_decorators = ()\<rparr>"

definition wrap_into_forward ::
    "'w conn_env \<Rightarrow> string \<Rightarrow> string \<Rightarrow> string \<Rightarrow> ('w, string) vcx" where
  "wrap_into_forward env message to routing_key =
     vbind (vlift (ok_or (lib_json_parse (ce_lib env) message) json_error)) (\<lambda>payload.
     vbind new_v4 (\<lambda>uuid.
       let content = \<lparr>fwd_to = to, fwd_msg = payload\<rparr>;
           message = ce_message_print env (AM_Routing (Forward_new uuid content))
       in call (ce_pack_message env None (keys_json env [routing_key]) message)))"

fun wrap_loop :: "'w conn_env \<Rightarrow> string \<Rightarrow> string \<Rightarrow> string list \<Rightarrow> ('w, string) vcx" where
  "wrap_loop env message to [] = vret message"
| "wrap_loop env message to (routing_key # rest) =
     vbind (wrap_into_forward env message to routing_key) (\<lambda>message'.
       wrap_loop env message' routing_key rest)"

definition wrap_into_forward_messages ::
    "'w conn_env \<Rightarrow> string \<Rightarrow> AriesDidDoc \<Rightarrow> ('w, string) vcx" where
  "wrap_into_forward_messages env message did_doc =
     vbind (vlift (recipient_keys_of env did_doc)) (\<lambda>recipient_keys.
     vbind (vlift (ok_or (list_get recipient_keys 0)
              (AriesVcxError_from_msg InvalidState ''Recipient Key not found in DIDDoc: {:?}''))) (\<lambda>to.
       wrap_loop env message to (AriesDidDoc_routing_keys did_doc)))"

definition EncryptionEnvelope_create ::
    "'w conn_env \<Rightarrow> AriesMessage \<Rightarrow> string option \<Rightarrow> AriesDidDoc \<Rightarrow> ('w, string) vcx" where
  "EncryptionEnvelope_create env message pw_verkey did_doc =
     vbind mocks_enabled (\<lambda>mocks.
       if mocks then vret []
       else
         vbind (encrypt_for_pairwise env message pw_verkey did_doc) (\<lambda>packed.
           wrap_into_forward_messages env packed did_doc))"

definition unpack_a2a_message :: "'w conn_env \<Rightarrow> string \<Rightarrow> ('w, string \<times> string option) vcx" where
  "unpack_a2a_message env payload =
     vbind (call (ce_unpack_message env payload)) (\<lambda>unpacked_msg.
     vbind (vlift (ok_or (lib_json_parse (ce_lib env) unpacked_msg)
              (AriesVcxError_from_msg InvalidJson ''Cannot deserialize message: {}''))) (\<lambda>msg_value.
       let sender_vk = as_str (json_index msg_value ''sender_verkey'')
       in vbind (vlift (ok_or (as_str (json_index msg_value ''message''))
                   (AriesVcxError_from_msg InvalidJson ''Cannot find `message` field''))) (\<lambda>msg_string.
            vret (msg_string, sender_vk))))"

definition VERKEY :: string where
  "VERKEY = ''91qMFrZjXDoi2Vc8Mm14Ys112tEZdDegBZZoembFEATE''"

definition parse_a2a_message :: "'w conn_env \<Rightarrow> string \<Rightarrow> ('w, AriesMessage) vcx" where
  "parse_a2a_message env message =
     vlift (ok_or (ce_message_parse env message)
       (AriesVcxError_from_msg InvalidJson ''Cannot deserialize A2A message: {}''))"

definition anon_unpack :: "'w conn_env \<Rightarrow> string \<Rightarrow> ('w, AriesMessage \<times> string option) vcx" where
  "anon_unpack env payload =
     vbind (call (ce_next_decrypted_mock env)) (\<lambda>mock.
     vbind (case mock of
              Some m \<Rightarrow> vret (m, Some VERKEY)
            | None \<Rightarrow> unpack_a2a_message env payload) (\<lambda>(message, sender_vk).
     vbind (parse_a2a_message env message) (\<lambda>a2a_message.
       vret (a2a_message, sender_vk))))"

definition auth_unpack :: "'w conn_env \<Rightarrow> string \<Rightarrow> string \<Rightarrow> ('w, AriesMessage) vcx" where
  "auth_unpack env payload expected_vk =
     vbind (call (ce_next_decrypted_mock env)) (\<lambda>mock.
     vbind (case mock of
              Some m \<Rightarrow> vret m
            | None \<Rightarrow>
                vbind (unpack_a2a_message env payload) (\<lambda>(a2a_message, sender_vk).
                  case sender_vk of
                    Some sender_vk \<Rightarrow>
                      if sender_vk \<noteq> expected_vk then
                        vfail (AriesVcxError_from_msg InvalidJson
                          (''Message did not pass authentication check. Expected sender verkey was ''
                           @ expected_vk @ '', but actually was '' @ sender_vk))
                      else vret a2a_message
                  | None \<Rightarrow>
                      vfail (AriesVcxError_from_msg InvalidJson
                        ''Can't authenticate message because it was anoncrypted.''))) (\<lambda>message.
       parse_a2a_message env message))"

definition no_url_error :: vcx_error where
  "no_url_error = AriesVcxError_from_msg InvalidUrl ''No URL in DID Doc''"

definition post_envelope :: "'w conn_env \<Rightarrow> string \<Rightarrow> AriesDidDoc \<Rightarrow> ('w, unit) vcx" where
  "post_envelope env envelope did_doc =
     vbind (vlift (ok_or (AriesDidDoc_get_endpoint did_doc) no_url_error)) (\<lambda>url.
       call (ce_post_message env envelope url))"

definition utils_send_message ::
    "'w conn_env \<Rightarrow> string \<Rightarrow> AriesDidDoc \<Rightarrow> AriesMessage \<Rightarrow> ('w, unit) vcx" where
  "utils_send_message env sender_verkey did_doc message =
     vbind (EncryptionEnvelope_create env message (Some sender_verkey) did_doc) (\<lambda>envelope.
       post_envelope env envelope did_doc)"

definition send_message_anonymously ::
    "'w conn_env \<Rightarrow> AriesDidDoc \<Rightarrow> AriesMessage \<Rightarrow> ('w, unit) vcx" where
  "send_message_anonymously env did_doc message =
     vbind (EncryptionEnvelope_create env message None did_doc) (\<lambda>envelope.
       post_envelope env envelope did_doc)"


subsection \<open>Documents read back\<close>

lemma those_map_inverse: "(\<And>x. x \<in> set xs \<Longrightarrow> f (g x) = Some x) \<Longrightarrow> those (map f (map g xs)) = Some xs"
  by (induction xs) auto

lemma array_of_map:
  assumes "\<And>x. x \<in> set xs \<Longrightarrow> p (g x) = Some x"
  shows "array_of p (JArray (map g xs)) = Some xs"
  using those_map_inverse [of xs p g] assms by (simp add: array_of_def)

lemma as_u32_JU32: "as_u32 (JU32 w) = Some w"
  using unsigned_less [where ?'a = nat, of w]
  by (simp add: as_u32_def JU32_def parse_uint_nat_to_string)

lemma key_json_roundtrip: "Ed25519PublicKey_from_json (Ed25519PublicKey_to_json k) = Some k"
  by (simp add: Ed25519PublicKey_from_json_def Ed25519PublicKey_to_json_def req_field_def)

lemma authentication_json_roundtrip: "Authentication_from_json (Authentication_to_json a) = Some a"
  by (simp add: Authentication_from_json_def Authentication_to_json_def req_field_def)

lemma service_json_roundtrip:
  assumes "url_parse (svc_service_endpoint s) = Some (svc_service_endpoint s)"
  shows "AriesService_from_json url_parse (AriesService_to_json s) = Some s"
  using assms array_of_map [of "svc_recipient_keys s" as_str JString]
    array_of_map [of "svc_routing_keys s" as_str JString]
  by (simp add: AriesService_from_json_def AriesService_to_json_def req_field_def default_field_def
      as_u32_JU32)

definition urls_stable :: "(string \<Rightarrow> string option) \<Rightarrow> AriesDidDoc \<Rightarrow> bool" where
  "urls_stable url_parse d =
     list_all (\<lambda>s. url_parse (svc_service_endpoint s) = Some (svc_service_endpoint s)) (dd_service d)"

lemma did_doc_json_roundtrip:
  assumes "urls_stable url_parse d"
  shows "AriesDidDoc_from_json url_parse (AriesDidDoc_to_json d) = Some d"
proof -
  have "array_of (AriesService_from_json url_parse) (JArray (map AriesService_to_json (dd_service d)))
          = Some (dd_service d)"
    using assms by (intro array_of_map service_json_roundtrip) (simp add: urls_stable_def list_all_iff)
  then show ?thesis
    using array_of_map [of "dd_public_key d", OF key_json_roundtrip]
      array_of_map [of "dd_authentication d", OF authentication_json_roundtrip]
    by (simp add: AriesDidDoc_from_json_def AriesDidDoc_to_json_def req_field_def default_field_def)
qed

lemma connection_data_json_roundtrip:
  "urls_stable url_parse (cd_did_doc c) \<Longrightarrow>
     ConnectionData_from_json url_parse (ConnectionData_to_json c) = Some c"
  by (simp add: ConnectionData_from_json_def ConnectionData_to_json_def req_field_def
      did_doc_json_roundtrip ConnectionData_new_def)

subsection \<open>Signed responses\<close>

lemma length_be_bytes [simp]: "length (u64_to_be_bytes w) = 8"
  by (simp add: u64_to_be_bytes_def)

lemma call_run: "f (rt_world s) = (r, w) \<Longrightarrow> call f s = (r, s\<lparr>rt_world := w\<rparr>)"
  by (simp add: call_def)

text \<open>
  What an accepted response has been checked for: the wallet verified the signature over the data
  under the expected key, the declared signer is that key, and the connection data are what the
  signed bytes say after the eight bytes of the timestamp.
\<close>

definition signed_by :: "'w conn_env \<Rightarrow> string \<Rightarrow> ConnectionSignature \<Rightarrow> ConnectionData \<Rightarrow> bool" where
  "signed_by env vk sg cd = (\<exists>signature sig_data w w'.
     ce_b64url_dec env (cs_signature sg) = Some signature
     \<and> ce_b64url_dec env (cs_sig_data sg) = Some sig_data
     \<and> ce_verify env vk sig_data signature w = (Inr True, w')
     \<and> cs_signer sg = vk \<and> 8 \<le> length sig_data
     \<and> Option.bind (lib_json_parse (ce_lib env) (drop 8 sig_data))
         (ConnectionData_from_json (ce_url_parse env)) = Some cd)"

lemma vlift_ok_or_iff: "vlift (ok_or x e) s = (Inr a, s') \<longleftrightarrow> x = Some a \<and> s' = s"
  by (auto simp: ok_or_def split: option.splits)

lemma decoded_response_signed:
  assumes "decode_signed_connection_response env response vk s = (Inr (Some cd), s')"
  shows "signed_by env vk (connection_sig response) cd"
proof -
  let ?sg = "connection_sig response"
  obtain signature sig_data valid w where
    d: "ce_b64url_dec env (cs_signature ?sg) = Some signature"
       "ce_b64url_dec env (cs_sig_data ?sg) = Some sig_data"
       "ce_verify env vk sig_data signature (rt_world s) = (Inr valid, w)"
    and rest: "(if \<not> valid then
        vfail (AriesVcxError_from_msg InvalidJson
          ''ConnectionResponse signature is invalid for original Invite recipient key'')
      else if cs_signer ?sg \<noteq> vk then
        vfail (AriesVcxError_from_msg InvalidJson
          ''Signer declared in ConnectionResponse signed response is not matching the actual signer. Connection '')
      else if length sig_data < 8 then vret None
      else
        (case Option.bind (lib_json_parse (ce_lib env) (drop 8 sig_data))
                (ConnectionData_from_json (ce_url_parse env)) of
           None \<Rightarrow> vfail (AriesVcxError_from_msg InvalidJson ''{err}'')
         | Some connection \<Rightarrow> vret (Some connection))) (s\<lparr>rt_world := w\<rparr>) = (Inr (Some cd), s')"
    using assms unfolding decode_signed_connection_response_def Let_def
    by (auto simp: vbind_Inr_iff vlift_ok_or_iff call_Inr_iff simp del: run_iffs(3))
  then have "valid" "cs_signer ?sg = vk" "\<not> length sig_data < 8"
    by (simp_all split: if_splits)
  moreover have "Option.bind (lib_json_parse (ce_lib env) (drop 8 sig_data))
      (ConnectionData_from_json (ce_url_parse env)) = Some cd"
    using rest calculation
    by (cases "Option.bind (lib_json_parse (ce_lib env) (drop 8 sig_data))
          (ConnectionData_from_json (ce_url_parse env))") simp_all
  ultimately show ?thesis
    unfolding signed_by_def using d by (metis not_less)
qed

text \<open>
  Laws of the libraries and of the wallets of two parties, for the round trip: what one wallet signs
  with a key the other accepts under that key; the codecs invert each other.
\<close>

definition accepts_signatures :: "'w conn_env \<Rightarrow> 'w conn_env \<Rightarrow> string \<Rightarrow> bool" where
  "accepts_signatures env env' key = (\<forall>d w sg w' u.
     ce_sign env key d w = (Inr sg, w') \<longrightarrow> (\<exists>u'. ce_verify env' key d sg u = (Inr True, u')))"

definition codecs_agree :: "'w conn_env \<Rightarrow> 'w conn_env \<Rightarrow> bool" where
  "codecs_agree env env' =
     ((\<forall>x. ce_b64url_dec env' (ce_b64url_enc env x) = Some x)
      \<and> (\<forall>v. lib_json_parse (ce_lib env') (lib_json_print (ce_lib env) v) = Some v))"

definition reads_message :: "'w conn_env \<Rightarrow> 'w conn_env \<Rightarrow> AriesMessage \<Rightarrow> bool" where
  "reads_message env env' m = (ce_message_parse env' (ce_message_print env m) = Some m)"

lemma codecs_agreeD:
  assumes "codecs_agree env env'"
  shows "ce_b64url_dec env' (ce_b64url_enc env x) = Some x"
    and "lib_json_parse (ce_lib env') (lib_json_print (ce_lib env) v) = Some v"
  using assms by (simp_all add: codecs_agree_def)

lemma signed_response_accepted:
  assumes "sign_connection_response env key cd s = (Inr sg, s')"
    and "accepts_signatures env env' key" "codecs_agree env env'"
    and "urls_stable (ce_url_parse env') (cd_did_doc cd)"
  shows "\<exists>t'. decode_signed_connection_response env' \<lparr>connection_sig = sg\<rparr> key t
                = (Inr (Some cd), t')"
proof -
  let ?data = "lib_json_print (ce_lib env) (ConnectionData_to_json cd)"
  obtain now signature w w' where
    sg: "ce_sign env key (u64_to_be_bytes now @ ?data) w = (Inr signature, w')"
        "sg = ConnectionSignature_new (ce_b64url_enc env signature)
                (ce_b64url_enc env (u64_to_be_bytes now @ ?data)) key"
    using assms(1)
    unfolding sign_connection_response_def get_signature_data_def unix_timestamp_def Let_def
    by (auto simp: vbind_Inr_iff call_Inr_iff)
  obtain u' where v: "ce_verify env' key (u64_to_be_bytes now @ ?data) signature (rt_world t) = (Inr True, u')"
    using assms(2) sg(1) unfolding accepts_signatures_def by blast
  show ?thesis
    unfolding decode_signed_connection_response_def Let_def
    by (simp add: sg(2) ConnectionSignature_new_def codecs_agreeD [OF assms(3)] ok_or_def
        vbind_def run_simps call_def v connection_data_json_roundtrip [OF assms(4)])
qed


subsection \<open>Packed messages\<close>

text \<open>
  A routing agent opens a message with \<open>anon_unpack\<close>, expects a \<open>Forward\<close> and passes on the JSON text
  of its payload; \<open>relay\<close> is a sequence of such agents.
\<close>

fun relay :: "'w conn_env list \<Rightarrow> string \<Rightarrow> ('w, string) vcx" where
  "relay [] p = vret p"
| "relay (a # as) p =
     vbind (anon_unpack a p) (\<lambda>(m, _).
       case m of
         AM_Routing f \<Rightarrow> relay as (lib_json_print (ce_lib a) (fwd_msg (msg_content f)))
       | _ \<Rightarrow> vfail json_error)"

text \<open>
  The law of the wallets' packing: what \<open>env\<close> packs for \<open>keys\<close> the wallet of \<open>env'\<close> unpacks to the JSON of
  the message and the sender's key, also after the packed JSON text was parsed and printed again.
\<close>

definition opens :: "'w conn_env \<Rightarrow> 'w conn_env \<Rightarrow> string list \<Rightarrow> bool" where
  "opens env env' keys = (\<forall>sender m w p w' u. ce_pack_message env sender (keys_json env keys) m w = (Inr p, w') \<longrightarrow>
     (\<exists>u' t v. ce_unpack_message env' p u = (Inr t, u')
        \<and> lib_json_parse (ce_lib env') t = Some v
        \<and> as_str (json_index v ''message'') = Some m
        \<and> as_str (json_index v ''sender_verkey'') = sender))"

definition insensitive_to_layout :: "'w conn_env \<Rightarrow> 'w conn_env \<Rightarrow> 'w conn_env \<Rightarrow> bool" where
  "insensitive_to_layout env agent env' = (\<forall>p v u. lib_json_parse (ce_lib env) p = Some v \<longrightarrow>
     ce_unpack_message env' (lib_json_print (ce_lib agent) v) u = ce_unpack_message env' p u)"

definition no_mocks :: "'w conn_env \<Rightarrow> bool" where
  "no_mocks env = (\<forall>u. ce_next_decrypted_mock env u = (Inr None, u))"

text \<open>Two payloads that a party cannot tell apart.\<close>

definition same_to :: "'w conn_env \<Rightarrow> string \<Rightarrow> string \<Rightarrow> bool" where
  "same_to env p q = (\<forall>u. ce_unpack_message env p u = ce_unpack_message env q u)"

lemma unpack_opens:
  assumes "opens env env' keys" "ce_pack_message env sender (keys_json env keys) m w = (Inr p, w')"
    and "same_to env' q p"
  shows "\<exists>t'. unpack_a2a_message env' q t = (Inr (m, sender), t')"
proof -
  obtain u' x v where
    o: "ce_unpack_message env' p (rt_world t) = (Inr x, u')" "lib_json_parse (ce_lib env') x = Some v"
       "as_str (json_index v ''message'') = Some m" "as_str (json_index v ''sender_verkey'') = sender"
    using assms(1,2) unfolding opens_def by blast
  then have "ce_unpack_message env' q (rt_world t) = (Inr x, u')"
    using assms(3) by (simp add: same_to_def)
  then show ?thesis
    using o by (simp add: unpack_a2a_message_def vbind_def call_def ok_or_def run_simps Let_def)
qed

lemma anon_unpack_opens:
  assumes "opens env env' keys" "ce_pack_message env sender (keys_json env keys) (ce_message_print env m) w = (Inr p, w')"
    and "same_to env' q p" "no_mocks env'" "reads_message env env' m"
  shows "\<exists>t'. anon_unpack env' q t = (Inr (m, sender), t')"
proof -
  obtain t' where "unpack_a2a_message env' q t = (Inr (ce_message_print env m, sender), t')"
    using unpack_opens [OF assms(1-3)] by blast
  then show ?thesis
    using assms(4) by (simp add: anon_unpack_def no_mocks_def vbind_def call_def run_simps
        parse_a2a_message_def ok_or_def assms(5) [unfolded reads_message_def])
qed

lemma auth_unpack_opens:
  assumes "opens env env' keys" "ce_pack_message env (Some vk) (keys_json env keys) (ce_message_print env m) w = (Inr p, w')"
    and "same_to env' q p" "no_mocks env'" "reads_message env env' m"
  shows "\<exists>t'. auth_unpack env' q vk t = (Inr m, t')"
proof -
  obtain t' where "unpack_a2a_message env' q t = (Inr (ce_message_print env m, Some vk), t')"
    using unpack_opens [OF assms(1-3)] by blast
  then show ?thesis
    using assms(4) by (simp add: auth_unpack_def no_mocks_def vbind_def call_def run_simps
        parse_a2a_message_def ok_or_def assms(5) [unfolded reads_message_def])
qed

text \<open>
  A wrapped message, given to the routing agents from the outermost layer inwards, comes out as a
  text that the recipient cannot tell from the message that was wrapped.
\<close>

definition good_agent :: "'w conn_env \<Rightarrow> 'w conn_env \<Rightarrow> string \<Rightarrow> bool" where
  "good_agent env a k = (opens env a [k] \<and> no_mocks a \<and> (\<forall>f. reads_message env a (AM_Routing f)))"

lemma vbind_vfail [simp]: "vbind (vfail e) f = vfail e"
  by (rule ext) (simp add: vbind_def run_simps)

lemma relay_append: "relay (as @ bs) p = vbind (relay as p) (relay bs)"
proof (induction as arbitrary: p)
  case (Cons a as)
  have "(case m of
          AM_Routing f \<Rightarrow> relay (as @ bs) (lib_json_print (ce_lib a) (fwd_msg (msg_content f)))
        | _ \<Rightarrow> vfail json_error)
      = vbind (case m of
          AM_Routing f \<Rightarrow> relay as (lib_json_print (ce_lib a) (fwd_msg (msg_content f)))
        | _ \<Rightarrow> vfail json_error) (relay bs)" for m
    by (cases m) (simp_all add: Cons.IH)
  then show ?case by (simp add: vbind_assoc split_def)
qed simp

lemma forward_relayed:
  assumes "wrap_into_forward env p to k s = (Inr m, s')" "good_agent env a k" "same_to a q m"
  shows "\<exists>v t'. lib_json_parse (ce_lib env) p = Some v
           \<and> relay [a] q t = (Inr (lib_json_print (ce_lib a) v), t')"
proof -
  obtain v uuid w w' where
    v: "lib_json_parse (ce_lib env) p = Some v"
    and pack: "ce_pack_message env None (keys_json env [k])
       (ce_message_print env (AM_Routing (Forward_new uuid \<lparr>fwd_to = to, fwd_msg = v\<rparr>))) w = (Inr m, w')"
    using assms(1) unfolding wrap_into_forward_def Let_def
    by (auto simp: vbind_Inr_iff vlift_ok_or_iff call_Inr_iff simp del: run_iffs(3))
  obtain t' where "anon_unpack a q t
      = (Inr (AM_Routing (Forward_new uuid \<lparr>fwd_to = to, fwd_msg = v\<rparr>), None), t')"
    using anon_unpack_opens [OF _ pack assms(3)] assms(2) unfolding good_agent_def by blast
  then show ?thesis
    using v by (simp add: vbind_def run_simps Forward_new_def)
qed

lemma wrapped_message_relayed:
  assumes "wrap_loop env p to ks s = (Inr q, s')" "list_all2 (good_agent env) as ks"
    and "\<forall>a \<in> set as. \<forall>b \<in> B. insensitive_to_layout env a b" "set as \<subseteq> B"
    and "\<forall>b \<in> B. same_to b q' q"
  shows "\<exists>p' t'. relay (rev as) q' t = (Inr p', t') \<and> (\<forall>b \<in> B. same_to b p' p)"
  using assms
proof (induction ks arbitrary: p to s as)
  case (Cons k ks)
  obtain a as' where as: "as = a # as'" "good_agent env a k" "list_all2 (good_agent env) as' ks"
    using Cons.prems(2) by (auto simp: list_all2_Cons2)
  obtain m s1 where m: "wrap_into_forward env p to k s = (Inr m, s1)"
      "wrap_loop env m k ks s1 = (Inr q, s')"
    using Cons.prems(1) by (auto simp: vbind_Inr_iff)
  obtain p1 t1 where p1: "relay (rev as') q' t = (Inr p1, t1)" "\<forall>b \<in> B. same_to b p1 m"
    using Cons.IH [OF m(2) as(3)] Cons.prems(3-5) as(1) by auto
  have "same_to a p1 m" using p1(2) Cons.prems(4) as(1) by simp
  then obtain v t2 where v: "lib_json_parse (ce_lib env) p = Some v"
      "relay [a] p1 t1 = (Inr (lib_json_print (ce_lib a) v), t2)"
    using forward_relayed [OF m(1) as(2)] by blast
  have "\<forall>b \<in> B. same_to b (lib_json_print (ce_lib a) v) p"
    using Cons.prems(3) as(1) v(1) by (simp add: insensitive_to_layout_def same_to_def)
  moreover have "relay (rev as) q' t = (Inr (lib_json_print (ce_lib a) v), t2)"
    using p1(1) v(2) as(1) by (simp add: relay_append vbind_run)
  ultimately show ?case by blast
qed auto

text \<open>Packing and posting leave the log of sent messages to the callers.\<close>

lemma wrap_loop_silent [simp]: "sends_only P (wrap_loop env m to ks)"
  by (induction ks arbitrary: m to) (auto simp: wrap_into_forward_def Let_def)

lemma envelope_silent [simp]: "sends_only P (EncryptionEnvelope_create env m vk doc)"
proof -
  have "sends_only P (encrypt_for_pairwise env m vk doc)"
    unfolding encrypt_for_pairwise_def Let_def by (rule sends_only_bind) simp_all
  moreover have "sends_only P (wrap_into_forward_messages env p doc)" for p
    unfolding wrap_into_forward_messages_def by (intro sends_only_bind) simp_all
  ultimately show ?thesis
    unfolding EncryptionEnvelope_create_def by (intro sends_only_bind) (auto split: if_split)
qed

lemma utils_send_message_silent [simp]: "sends_only P (utils_send_message env vk doc m)"
  unfolding utils_send_message_def post_envelope_def by (intro sends_only_bind) simp_all

text \<open>
  A packed message arrives. Outside of test mode, let a message be packed by the sender for a DID
  document whose routing keys belong to the given agents and whose recipient keys belong to the
  given recipient. Passed from agent to agent, from the last routing key to the first, each
  unwrapping its layer, it reaches the recipient in a form from which \<open>auth_unpack\<close> with the sender's
  key gives back the message. The hypotheses are the laws of packing between the wallets and of the
  JSON codecs.
\<close>

lemma packed_message_relayed:
  assumes "EncryptionEnvelope_create env message (Some vk) did_doc s = (Inr p, s')" "\<not> rt_mocks s"
    and "list_all2 (good_agent env) agents (AriesDidDoc_routing_keys did_doc)"
    and "recipient_keys_of env did_doc = Inr keys" "opens env rcpt keys" "no_mocks rcpt"
    and "reads_message env rcpt message"
    and "\<forall>a \<in> set agents. \<forall>b \<in> insert rcpt (set agents). insensitive_to_layout env a b"
  shows "\<exists>t'. vbind (relay (rev agents) p) (\<lambda>q. auth_unpack rcpt q vk) t = (Inr message, t')"
proof -
  obtain p0 w w' to s1 s2 where
    pack: "ce_pack_message env (Some vk) (keys_json env keys) (ce_message_print env message) w = (Inr p0, w')"
    and wrap: "wrap_loop env p0 to (AriesDidDoc_routing_keys did_doc) s1 = (Inr p, s2)"
    using assms(1,2,4)
    unfolding EncryptionEnvelope_create_def encrypt_for_pairwise_def wrap_into_forward_messages_def Let_def
    by (auto simp: vbind_Inr_iff vlift_ok_or_iff call_Inr_iff)
  obtain p' t1 where p': "relay (rev agents) p t = (Inr p', t1)" "same_to rcpt p' p0"
    using wrapped_message_relayed [OF wrap assms(3,8) subset_insertI, of p t] by (auto simp: same_to_def)
  obtain t' where "auth_unpack rcpt p' vk t1 = (Inr message, t')"
    using auth_unpack_opens [OF assms(5) pack p'(2) assms(6,7)] by blast
  then show ?thesis using p'(1) by (auto simp: vbind_run)
qed

subsection \<open>A concrete environment\<close>

text \<open>
  JSON texts that number the values, packing that writes sender and message into a JSON object, and
  signatures that consist of key and data.
\<close>

instance json :: countable by countable_datatype

definition demo_text :: "json \<Rightarrow> string" where
  "demo_text v = replicate (to_nat v) (CHR ''1'')"

definition demo_parse :: "string \<Rightarrow> json option" where
  "demo_parse t = (if demo_text (from_nat (length t)) = t then Some (from_nat (length t)) else None)"

definition demo_ping :: AriesMessage where
  "demo_ping = AM_TrustPing (T_Ping (MsgParts_with_decorators ''p1''
     \<lparr>ping_response_requested = True, ping_comment = None\<rparr> opt_decorators_default))"

definition demo_conn :: "'w conn_env" where
  "demo_conn =
     \<lparr>ce_lib = demo_lib\<lparr>lib_json_print := demo_text, lib_json_parse := demo_parse\<rparr>,
      ce_b64url_enc = (\<lambda>x. x), ce_b64url_dec = Some, ce_bs58_enc = (\<lambda>x. x), ce_url_parse = Some,
      ce_message_print = (\<lambda>m. case m of
          AM_Routing f \<Rightarrow> demo_text (JArray [JString (msg_id f), JString (fwd_to (msg_content f)), fwd_msg (msg_content f)])
        | _ \<Rightarrow> ''ping''),
      ce_message_parse = (\<lambda>t. if t = ''ping'' then Some demo_ping else
          (case demo_parse t of
             Some (JArray [JString i, JString to, v]) \<Rightarrow> Some (AM_Routing (Forward_new i \<lparr>fwd_to = to, fwd_msg = v\<rparr>))
           | _ \<Rightarrow> None)),
      ce_sign = (\<lambda>k d w. (Inr (k @ d), w)), ce_verify = (\<lambda>k d sg w. (Inr (sg = k @ d), w)),
      ce_create_and_store_my_did = (\<lambda>w. (Inr (''newdid'', ''newvk''), w)),
      ce_pack_message = (\<lambda>sender keys m w. (Inr (demo_text (JObject
          [(''message'', JString m),
           (''sender_verkey'', case sender of None \<Rightarrow> JNull | Some k \<Rightarrow> JString k)])), w)),
      ce_unpack_message = (\<lambda>p w. (Inr p, w)), ce_post_message = (\<lambda>_ _ w. (Inr (), w)),
      ce_get_attr = (\<lambda>_ _ w. (Inr ''attr'', w)), ce_get_nym = (\<lambda>_ w. (Inr ''nym'', w)),
      ce_add_attr = (\<lambda>_ _ w. (Inr ''reply'', w)), ce_publish_nym = (\<lambda>_ _ _ _ _ w. (Inr ''reply'', w)),
      ce_replace_did_keys_start = (\<lambda>_ w. (Inr ''tempvk'', w)),
      ce_replace_did_keys_apply = (\<lambda>_ w. (Inr (), w)),
      ce_next_decrypted_mock = (\<lambda>w. (Inr None, w))\<rparr>"

lemma demo_parse_text [simp]: "demo_parse (demo_text v) = Some v"
  by (simp add: demo_parse_def demo_text_def)

lemma demo_parse_SomeD: "demo_parse t = Some v \<Longrightarrow> demo_text v = t"
  by (auto simp: demo_parse_def split: if_splits)

lemma demo_text_not_ping [simp]: "demo_text v \<noteq> ''ping''"
  by (cases "to_nat v") (simp_all add: demo_text_def)

lemma demo_conn_laws:
  "codecs_agree demo_conn demo_conn"
  "accepts_signatures demo_conn demo_conn k"
  "opens demo_conn demo_conn ks"
  "insensitive_to_layout demo_conn demo_conn demo_conn"
  "no_mocks demo_conn"
  "reads_message demo_conn demo_conn (AM_Routing f)"
  "reads_message demo_conn demo_conn demo_ping"
  by (auto simp: codecs_agree_def accepts_signatures_def opens_def insensitive_to_layout_def
      no_mocks_def reads_message_def demo_conn_def demo_lib_def json_index_def unwrap_or_def
      demo_ping_def Forward_new_def split: option.splits dest: demo_parse_SomeD)

lemma demo_keys_valid: "recipient_keys_of demo_conn (built_did_doc did rks rts ep) = Inr rks"
  using built_recipient_keys [of rks "lib_bs58 (ce_lib demo_conn)" did rts ep]
  by (simp add: recipient_keys_of_def from_diddoc_def map_err_def demo_conn_def demo_lib_def valid_verkey_def)

lemma built_routing_keys [simp]: "AriesDidDoc_routing_keys (built_did_doc did rks rts ep) = rts"
  by (simp add: AriesDidDoc_routing_keys_def built_did_doc_closed list_get_def)

lemma demo_wrap: "\<exists>q s'. wrap_loop demo_conn (demo_text v) to ks s = (Inr q, s')"
proof (induction ks arbitrary: v to s)
  case (Cons k ks)
  obtain v' s1 where "wrap_into_forward demo_conn (demo_text v) to k s = (Inr (demo_text v'), s1)"
    by (simp add: wrap_into_forward_def demo_conn_def vbind_def run_simps ok_or_def call_def Let_def)
  then show ?case using Cons.IH by (simp add: vbind_run)
qed (simp add: run_simps)

lemma demo_envelope:
  "\<exists>p s'. EncryptionEnvelope_create demo_conn demo_ping (Some vk) (built_did_doc did (k # ks) rts ep) demo_runtime
     = (Inr p, s')"
proof -
  let ?doc = "built_did_doc did (k # ks) rts ep"
  obtain v s1 where e: "encrypt_for_pairwise demo_conn demo_ping (Some vk) ?doc demo_runtime
      = (Inr (demo_text v), s1)"
    by (simp add: encrypt_for_pairwise_def demo_keys_valid vbind_def run_simps call_def Let_def)
       (simp add: demo_conn_def)
  obtain q s2 where "wrap_loop demo_conn (demo_text v) k rts s1 = (Inr q, s2)"
    using demo_wrap by blast
  then show ?thesis
    using e by (simp add: EncryptionEnvelope_create_def wrap_into_forward_messages_def demo_keys_valid
        vbind_def run_simps ok_or_def list_get_def demo_runtime_def)
qed

end
