(* ===== verification/Ledger_Service.thy ===== *)
theory Ledger_Service
  imports Envelope
begin

text \<open>
  Services and keys on the ledger: aries_vcx/src/common/ledger/transactions.rs, service_didsov.rs and
  common/keys.rs. A DID document is read from an invitation, of a service on the ledger in its new or
  legacy form, or from keys in the \<open>did:key\<close> form; endpoints and keys are written to the ledger.

  Shown: a key survives its \<open>did:key\<close> form; a pairwise invitation gives the document of its keys; a
  service that was written in the new form is found; what happens without a service, or if the
  ledger does not answer.
\<close>

datatype AnyInvitation = Inv_Con Invitation | Inv_Oob OobInvitation

subsection \<open>Responses of the ledger\<close>

datatype LedgerResponse = Resp_ReqNACK string | Resp_Reject string | Resp_Reply json

text \<open>\<open>Reply\<close> is untagged: the first form has the field \<open>result\<close>, the second \<open>data.result\<close>.\<close>

definition LedgerResponse_from_json :: "json \<Rightarrow> LedgerResponse option" where
  "LedgerResponse_from_json v =
     Option.bind (req_field as_str v ''op'') (\<lambda>op.
       if op = ''REQNACK'' then map_option Resp_ReqNACK (req_field as_str v ''reason'')
       else if op = ''REJECT'' then map_option Resp_Reject (req_field as_str v ''reason'')
       else if op = ''REPLY'' then
         (case json_get v ''result'' of
            Some r \<Rightarrow> Some (Resp_Reply r)
          | None \<Rightarrow> map_option Resp_Reply (Option.bind (json_get v ''data'') (\<lambda>d. json_get d ''result'')))
       else None)"

definition parse_response :: "'w conn_env \<Rightarrow> string \<Rightarrow> LedgerResponse vcx_result" where
  "parse_response env response =
     ok_or (Option.bind (lib_json_parse (ce_lib env) response) LedgerResponse_from_json)
       (AriesVcxError_from_msg InvalidJson ''Cannot deserialize transaction response: {err:?}'')"

definition check_response :: "'w conn_env \<Rightarrow> string \<Rightarrow> ('w, unit) vcx" where
  "check_response env response =
     vbind mocks_enabled (\<lambda>mocks.
       if mocks then vret ()
       else
         vbind (vlift (parse_response env response)) (\<lambda>r.
           case r of
             Resp_Reply _ \<Rightarrow> vret ()
           | Resp_Reject _ \<Rightarrow> vfail (AriesVcxError_from_msg InvalidLedgerResponse ''{res:?}'')
           | Resp_ReqNACK _ \<Rightarrow> vfail (AriesVcxError_from_msg InvalidLedgerResponse ''{res:?}'')))"

definition ledger_response_error :: vcx_error where
  "ledger_response_error = AriesVcxError_from_msg InvalidLedgerResponse ''{:?}''"

definition get_data_from_response :: "'w conn_env \<Rightarrow> string \<Rightarrow> json vcx_result" where
  "get_data_from_response env resp =
     res_bind (ok_or (lib_json_parse (ce_lib env) resp) ledger_response_error) (\<lambda>v.
       ok_or (lib_json_parse (ce_lib env)
                (unwrap_or (as_str (json_index (json_index v ''result'') ''data'')) ''{}''))
         ledger_response_error)"

definition serialization_error :: "string \<Rightarrow> vcx_error" where
  "serialization_error msg = AriesVcxError_from_msg SerializationError msg"

definition get_verkey_from_ledger :: "'w conn_env \<Rightarrow> string \<Rightarrow> ('w, string) vcx" where
  "get_verkey_from_ledger env did =
     vbind (call (ce_get_nym env did)) (\<lambda>nym_response.
     vbind (vlift (ok_or (lib_json_parse (ce_lib env) nym_response)
              (serialization_error ''Cannot deserialize {:?} into Value, err: {:?}''))) (\<lambda>nym_json.
     vbind (vlift (ok_or (as_str (json_index (json_index nym_json ''result'') ''data''))
              (serialization_error ''Cannot deserialize {:?} into String''))) (\<lambda>nym_data.
     vbind (vlift (ok_or (lib_json_parse (ce_lib env) nym_data)
              (serialization_error ''Cannot deserialize {:?} into Value, err: {:?}''))) (\<lambda>nym_data.
       vlift (ok_or (as_str (json_index nym_data ''verkey''))
                (serialization_error ''Cannot deserialize {:?} into String''))))))"

definition rotate_verkey_apply :: "'w conn_env \<Rightarrow> string \<Rightarrow> string \<Rightarrow> ('w, unit) vcx" where
  "rotate_verkey_apply env did temp_vk =
     vbind (call (ce_publish_nym env did did (Some temp_vk) None None)) (\<lambda>nym_result.
     vbind (vlift (ok_or (lib_json_parse (ce_lib env) nym_result)
              (serialization_error ''Cannot deserialize {:?} into Value, err: {:?}''))) (\<lambda>nym_result_json.
     vbind (vlift (ok_or (as_str (json_index nym_result_json ''op''))
              (serialization_error ''Cannot failed to convert {:?} into str''))) (\<lambda>response_type.
       if response_type \<noteq> ''REPLY'' then
         vfail (AriesVcxError_from_msg InvalidLedgerResponse
           (''Obained non-success ledger response: '' @ lib_json_print (ce_lib env) nym_result_json))
       else call (ce_replace_did_keys_apply env did))))"

definition rotate_verkey :: "'w conn_env \<Rightarrow> string \<Rightarrow> ('w, unit) vcx" where
  "rotate_verkey env did =
     vbind (call (ce_replace_did_keys_start env did)) (\<lambda>trustee_temp_verkey.
       rotate_verkey_apply env did trustee_temp_verkey)"

subsection \<open>Endpoints\<close>

datatype DidSovServiceType = SvcType_Endpoint | SvcType_DidCommunication | SvcType_DIDComm | SvcType_Unknown

record EndpointDidSov =
  eds_endpoint :: string
  eds_routing_keys :: "string list option"
  eds_types :: "DidSovServiceType list option"

definition DidSovServiceType_from_json :: "json \<Rightarrow> DidSovServiceType option" where
  "DidSovServiceType_from_json v = map_option (\<lambda>t.
     if t = ''endpoint'' then SvcType_Endpoint
     else if t = ''did-communication'' then SvcType_DidCommunication
     else if t = ''DIDComm'' then SvcType_DIDComm else SvcType_Unknown) (as_str v)"

fun DidSovServiceType_to_json :: "DidSovServiceType \<Rightarrow> json" where
  "DidSovServiceType_to_json SvcType_Endpoint = JString ''endpoint''"
| "DidSovServiceType_to_json SvcType_DidCommunication = JString ''did-communication''"
| "DidSovServiceType_to_json SvcType_DIDComm = JString ''DIDComm''"
| "DidSovServiceType_to_json SvcType_Unknown = JString ''Unknown''"

definition EndpointDidSov_from_json :: "(string \<Rightarrow> string option) \<Rightarrow> json \<Rightarrow> EndpointDidSov option" where
  "EndpointDidSov_from_json url_parse v =
     Option.bind (req_field (\<lambda>x. Option.bind (as_str x) url_parse) v ''endpoint'') (\<lambda>u.
     Option.bind (opt_field (array_of as_str) v ''routingKeys'') (\<lambda>rs.
     Option.bind (opt_field (array_of DidSovServiceType_from_json) v ''types'') (\<lambda>ts.
       Some \<lparr>eds_endpoint = u, eds_routing_keys = rs, eds_types = ts\<rparr>)))"

definition EndpointDidSov_to_json :: "EndpointDidSov \<Rightarrow> json" where
  "EndpointDidSov_to_json e = JObject
     [(''endpoint'', JString (eds_endpoint e)),
      (''routingKeys'', or_null (\<lambda>ks. JArray (map JString ks)) (eds_routing_keys e)),
      (''types'', or_null (\<lambda>ts. JArray (map DidSovServiceType_to_json ts)) (eds_types e))]"

definition EndpointDidSov_default :: EndpointDidSov where
  "EndpointDidSov_default =
     \<lparr>eds_endpoint = ''https://dummy.dummy/dummy'', eds_routing_keys = Some [], eds_types = None\<rparr>"

definition EndpointDidSov_create :: EndpointDidSov where
  "EndpointDidSov_create = EndpointDidSov_default"

definition EndpointDidSov_set_service_endpoint :: "EndpointDidSov \<Rightarrow> string \<Rightarrow> EndpointDidSov" where
  "EndpointDidSov_set_service_endpoint e u = e\<lparr>eds_endpoint := u\<rparr>"

definition EndpointDidSov_set_routing_keys :: "EndpointDidSov \<Rightarrow> string list option \<Rightarrow> EndpointDidSov" where
  "EndpointDidSov_set_routing_keys e ks = e\<lparr>eds_routing_keys := ks\<rparr>"

definition EndpointDidSov_set_types ::
    "EndpointDidSov \<Rightarrow> DidSovServiceType list option \<Rightarrow> EndpointDidSov" where
  "EndpointDidSov_set_types e ts = e\<lparr>eds_types := ts\<rparr>"

definition write_attrib :: "'w conn_env \<Rightarrow> string \<Rightarrow> json \<Rightarrow> ('w, string) vcx" where
  "write_attrib env did attrib =
     vbind (call (ce_add_attr env did (lib_json_print (ce_lib env) attrib))) (\<lambda>res.
     vbind (check_response env res) (\<lambda>_. vret res))"

definition write_endpoint_legacy :: "'w conn_env \<Rightarrow> string \<Rightarrow> AriesService \<Rightarrow> ('w, string) vcx" where
  "write_endpoint_legacy env did service =
     write_attrib env did (JObject [(''service'', AriesService_to_json service)])"

definition write_endpoint :: "'w conn_env \<Rightarrow> string \<Rightarrow> EndpointDidSov \<Rightarrow> ('w, string) vcx" where
  "write_endpoint env did service =
     write_attrib env did (JObject [(''endpoint'', EndpointDidSov_to_json service)])"

definition ledger_add_attr :: "'w conn_env \<Rightarrow> string \<Rightarrow> string \<Rightarrow> ('w, unit) vcx" where
  "ledger_add_attr env did attr =
     vbind (call (ce_add_attr env did attr)) (\<lambda>res. check_response env res)"

definition ledger_get_attr :: "'w conn_env \<Rightarrow> string \<Rightarrow> string \<Rightarrow> ('w, string) vcx" where
  "ledger_get_attr env did attr_name =
     vbind (call (ce_get_attr env did attr_name)) (\<lambda>attr_resp.
     vbind (vlift (get_data_from_response env attr_resp)) (\<lambda>data.
       case json_get data attr_name of
         None \<Rightarrow> vret []
       | Some attr \<Rightarrow> if attr = JNull then vret [] else vret (lib_json_print (ce_lib env) attr)))"

definition ledger_clear_attr :: "'w conn_env \<Rightarrow> string \<Rightarrow> string \<Rightarrow> ('w, string) vcx" where
  "ledger_clear_attr env did attr_name =
     call (ce_add_attr env did (lib_json_print (ce_lib env) (JObject [(attr_name, JNull)])))"

definition add_new_did :: "'w conn_env \<Rightarrow> string \<Rightarrow> string option \<Rightarrow> ('w, string \<times> string) vcx" where
  "add_new_did env submitter_did role =
     vbind (call (ce_create_and_store_my_did env)) (\<lambda>(did, verkey).
     vbind (call (ce_publish_nym env submitter_did did (Some verkey) None role)) (\<lambda>_.
       vret (did, verkey)))"

subsection \<open>Services\<close>

definition parse_legacy_endpoint_attrib :: "'w conn_env \<Rightarrow> string \<Rightarrow> ('w, AriesService) vcx" where
  "parse_legacy_endpoint_attrib env did_raw =
     vbind (call (ce_get_attr env did_raw ''service'')) (\<lambda>attr_resp.
     vbind (vlift (get_data_from_response env attr_resp)) (\<lambda>data.
       let service = json_index data ''service'';
           ser_service = (case as_str service of
              Some ser_service \<Rightarrow> ser_service | None \<Rightarrow> lib_json_print (ce_lib env) service)
       in vlift (ok_or (Option.bind (lib_json_parse (ce_lib env) ser_service)
                   (AriesService_from_json (ce_url_parse env)))
            (serialization_error ''Failed to deserialize service read from the ledger: {:?}''))))"

text \<open>\<open>did_raw\<close> is what follows the last colon, or the whole text without a colon.\<close>

definition did_raw_of :: "string \<Rightarrow> string" where
  "did_raw_of did = last (split_on (CHR '':'') did)"

definition get_service :: "'w conn_env \<Rightarrow> string \<Rightarrow> ('w, AriesService) vcx" where
  "get_service env did =
     (let did_raw = did_raw_of did
      in vbind (call (ce_get_attr env did_raw ''endpoint'')) (\<lambda>attr_resp.
         vbind (vlift (get_data_from_response env attr_resp)) (\<lambda>data.
           if as_object (json_index data ''endpoint'') \<noteq> None then
             vbind (vlift (ok_or (EndpointDidSov_from_json (ce_url_parse env) (json_index data ''endpoint''))
                      json_error)) (\<lambda>endpoint.
             vbind (get_verkey_from_ledger env did_raw) (\<lambda>verkey.
               vret (AriesService_set_routing_keys
                      (AriesService_set_service_endpoint
                        (AriesService_set_recipient_keys AriesService_create [verkey])
                        (eds_endpoint endpoint))
                      (unwrap_or (eds_routing_keys endpoint) []))))
           else parse_legacy_endpoint_attrib env did_raw)))"

definition resolve_service :: "'w conn_env \<Rightarrow> OobService \<Rightarrow> ('w, AriesService) vcx" where
  "resolve_service env service =
     (case service of
        Oob_AriesService service \<Rightarrow> vret service
      | Oob_Did did \<Rightarrow> get_service env did)"

definition DID_KEY_PREFIX :: string where
  "DID_KEY_PREFIX = ''did:key:''"

definition ED25519_MULTIBASE_CODEC :: string where
  "ED25519_MULTIBASE_CODEC = [char_of (237 :: nat), char_of (1 :: nat)]"

definition str_strip_prefix :: "string \<Rightarrow> string \<Rightarrow> string option" where
  "str_strip_prefix p s = (if take (length p) s = p then Some (drop (length p) s) else None)"

definition ed25519_public_key_to_did_key :: "'w conn_env \<Rightarrow> string \<Rightarrow> string vcx_result" where
  "ed25519_public_key_to_did_key env public_key_base58 =
     (case lib_bs58 (ce_lib env) public_key_base58 of
        Inl _ \<Rightarrow> Inl (AriesVcxError_from_msg InvalidDid
          (''Could not base58 decode a did:key fingerprint: '' @ public_key_base58))
      | Inr public_key_bytes \<Rightarrow>
          Inr (DID_KEY_PREFIX @ ''z'' @ ce_bs58_enc env (ED25519_MULTIBASE_CODEC @ public_key_bytes)))"

definition normalize_key :: "'w conn_env \<Rightarrow> string \<Rightarrow> string vcx_result" where
  "normalize_key env key =
     (case str_strip_prefix DID_KEY_PREFIX key of
        None \<Rightarrow> Inr key
      | Some stripped_didkey \<Rightarrow>
          (case str_strip_prefix ''z'' stripped_didkey of
             None \<Rightarrow> Inl (AriesVcxError_from_msg InvalidDid (''z prefix is missing: '' @ key))
           | Some stripped \<Rightarrow>
               (case lib_bs58 (ce_lib env) stripped of
                  Inl _ \<Rightarrow> Inl (AriesVcxError_from_msg InvalidDid
                    (''Could not decode base58: '' @ stripped @ '' as portion of '' @ key))
                | Inr decoded_value \<Rightarrow>
                    (case str_strip_prefix ED25519_MULTIBASE_CODEC decoded_value of
                       Some public_key_bytes \<Rightarrow> Inr (ce_bs58_enc env public_key_bytes)
                     | None \<Rightarrow> Inl (AriesVcxError_from_msg InvalidDid
                         (''Only Ed25519-based did:keys are currently supported, got key: '' @ key))))))"

definition normalize_keys_as_naked :: "'w conn_env \<Rightarrow> string list \<Rightarrow> string list vcx_result" where
  "normalize_keys_as_naked env keys_list = try_map (normalize_key env) keys_list"

definition or_default_service :: "('w, AriesService) vcx \<Rightarrow> ('w, AriesService) vcx" where
  "or_default_service m =
     vbind (vtry m) (\<lambda>r. case r of Inr service \<Rightarrow> vret service | Inl _ \<Rightarrow> vret AriesService_default)"

text \<open>The result \<open>None\<close> is the panic of \<open>services[0]\<close> on an invitation without a service.\<close>

definition invitation_parts ::
    "'w conn_env \<Rightarrow> AnyInvitation \<Rightarrow> ('w, (string \<times> string \<times> string list \<times> string list) option) vcx" where
  "invitation_parts env invitation =
     (case invitation of
        Inv_Con (Inv_Public invite) \<Rightarrow>
          vbind (or_default_service (get_service env (pubinv_did (msg_content invite)))) (\<lambda>service.
            vret (Some (pubinv_did (msg_content invite), svc_service_endpoint service,
                        svc_recipient_keys service, svc_routing_keys service)))
      | Inv_Con (Inv_Pairwise invite) \<Rightarrow>
          vret (Some (msg_id invite, pwinv_service_endpoint (msg_content invite),
                      pwinv_recipient_keys (msg_content invite), pwinv_routing_keys (msg_content invite)))
      | Inv_Con (Inv_PairwiseDID invite) \<Rightarrow>
          vfail (AriesVcxError_from_msg InvalidDid ''PairwiseDID invitation not supported yet!'')
      | Inv_Oob invite \<Rightarrow>
          (case oob_services (msg_content invite) of
             [] \<Rightarrow> vret None
           | oob_service # _ \<Rightarrow>
               vbind (or_default_service (resolve_service env oob_service)) (\<lambda>service.
                 let recipient_keys = (case normalize_keys_as_naked env (svc_recipient_keys service) of
                       Inr ks \<Rightarrow> ks | Inl _ \<Rightarrow> [])
                 in vret (Some (msg_id invite, svc_service_endpoint service, recipient_keys,
                                svc_routing_keys service)))))"

definition into_did_doc :: "'w conn_env \<Rightarrow> AnyInvitation \<Rightarrow> ('w, AriesDidDoc option) vcx" where
  "into_did_doc env invitation =
     vbind (invitation_parts env invitation) (\<lambda>parts.
       case parts of
         None \<Rightarrow> vret None
       | Some (i, service_endpoint, recipient_keys, routing_keys) \<Rightarrow>
           let did_doc = AriesDidDoc_set_id AriesDidDoc_default i;
               did_doc = AriesDidDoc_set_service_endpoint did_doc service_endpoint;
               did_doc = AriesDidDoc_set_recipient_keys did_doc recipient_keys;
               did_doc = AriesDidDoc_set_routing_keys did_doc routing_keys
           in vret (Some did_doc))"


subsection \<open>Keys and documents\<close>

text \<open>The law of base58: encoding and decoding invert each other.\<close>

definition bs58_laws :: "'w conn_env \<Rightarrow> bool" where
  "bs58_laws env =
     ((\<forall>x. lib_bs58 (ce_lib env) (ce_bs58_enc env x) = Inr x)
      \<and> (\<forall>k x. lib_bs58 (ce_lib env) k = Inr x \<longrightarrow> ce_bs58_enc env x = k))"

lemma str_strip_prefix_append [simp]: "str_strip_prefix p (p @ s) = Some s"
  by (simp add: str_strip_prefix_def)

lemma did_key_normalized:
  assumes "ed25519_public_key_to_did_key env k = Inr dk" "bs58_laws env"
  shows "normalize_key env dk = Inr k"
proof -
  obtain x where x: "lib_bs58 (ce_lib env) k = Inr x"
      "dk = DID_KEY_PREFIX @ ''z'' @ ce_bs58_enc env (ED25519_MULTIBASE_CODEC @ x)"
    using assms(1) by (auto simp: ed25519_public_key_to_did_key_def split: sum.splits)
  then have "ce_bs58_enc env x = k" using assms(2) by (simp add: bs58_laws_def)
  moreover have "str_strip_prefix ''z'' (''z'' @ t) = Some t" for t
    by (rule str_strip_prefix_append)
  ultimately show ?thesis
    using assms(2) by (simp add: normalize_key_def x(2) bs58_laws_def)
qed

lemma did_keys_normalized:
  assumes "try_map (ed25519_public_key_to_did_key env) ks = Inr dks" "bs58_laws env"
  shows "normalize_keys_as_naked env dks = Inr ks"
  using assms unfolding normalize_keys_as_naked_def
proof (induction ks arbitrary: dks)
  case (Cons k ks)
  then obtain dk dks' where "ed25519_public_key_to_did_key env k = Inr dk"
      "try_map (ed25519_public_key_to_did_key env) ks = Inr dks'" "dks = dk # dks'"
    by (auto simp: res_simps)
  then show ?case using Cons did_key_normalized [of env k dk] by simp
qed simp

lemma pairwise_into_did_doc:
  "into_did_doc env (Inv_Con (Inv_Pairwise invite)) s =
     (Inr (Some (built_did_doc (msg_id invite) (pwinv_recipient_keys (msg_content invite))
        (pwinv_routing_keys (msg_content invite)) (pwinv_service_endpoint (msg_content invite)))), s)"
  by (simp add: into_did_doc_def invitation_parts_def built_did_doc_def run_simps Let_def)

text \<open>An out-of-band invitation without services makes the code panic.\<close>

theorem no_services_panics:
  "into_did_doc env (Inv_Oob invite) s = (Inr None, s) \<longleftrightarrow> oob_services (msg_content invite) = []"
proof (cases "oob_services (msg_content invite)")
  case (Cons x xs)
  have "yields (invitation_parts env (Inv_Oob invite)) (\<lambda>parts. parts \<noteq> None)"
    by (auto simp: invitation_parts_def Cons Let_def)
  then have "yields (into_did_doc env (Inv_Oob invite)) (\<lambda>d. d \<noteq> None)"
    unfolding into_did_doc_def by (rule yields_bind) (auto simp: Let_def)
  then show ?thesis using Cons by (auto dest: yieldsD)
qed (simp add: into_did_doc_def invitation_parts_def run_simps)

text \<open>
  A public DID whose service cannot be read from the ledger still yields a document: without keys and
  with the dummy endpoint of the default service.
\<close>

theorem unresolved_did_gives_dummy_doc:
  assumes "get_service env (pubinv_did (msg_content invite)) s = (Inl e, s')"
  shows "into_did_doc env (Inv_Con (Inv_Public invite)) s =
    (Inr (Some (built_did_doc (pubinv_did (msg_content invite)) [] [] ''https://dummy.dummy/dummy'')), s')"
  using assms
  by (simp add: into_did_doc_def invitation_parts_def or_default_service_def vbind_def vtry_def run_simps
      built_did_doc_def AriesService_default_def Let_def)

subsection \<open>Written endpoints\<close>

text \<open>
  The law of the ledger: an attribute that was written for a DID is what a read for the DID returns,
  as text in \<open>result.data\<close>, and the read does not change the ledger.
\<close>

definition ledger_keeps_attr :: "'w conn_env \<Rightarrow> bool" where
  "ledger_keeps_attr env = (\<forall>did attrib w res w' name.
     ce_add_attr env did attrib w = (Inr res, w') \<longrightarrow>
     (\<exists>resp v. ce_get_attr env did name w' = (Inr resp, w')
        \<and> lib_json_parse (ce_lib env) resp = Some v
        \<and> as_str (json_index (json_index v ''result'') ''data'') = Some attrib))"

lemma endpoint_json_roundtrip:
  assumes "url_parse (eds_endpoint e) = Some (eds_endpoint e)"
  shows "EndpointDidSov_from_json url_parse (EndpointDidSov_to_json e) = Some e"
proof -
  have "DidSovServiceType_from_json (DidSovServiceType_to_json t) = Some t" for t
    by (cases t) (simp_all add: DidSovServiceType_from_json_def)
  then have "array_of DidSovServiceType_from_json (JArray (map DidSovServiceType_to_json ts)) = Some ts" for ts
    by (rule array_of_map)
  moreover have "array_of as_str (JArray (map JString ks)) = Some ks" for ks
    by (rule array_of_map) simp
  ultimately show ?thesis
    using assms by (cases e)
      (simp add: EndpointDidSov_from_json_def EndpointDidSov_to_json_def req_field_def opt_field_def
        or_null_def split: option.splits)
qed

lemma check_response_keeps: "check_response env res s = (r, s') \<Longrightarrow> s' = s"
  by (auto simp: check_response_def vbind_def run_simps split: prod.splits sum.splits LedgerResponse.splits if_splits)

lemma written_attr_read:
  assumes "write_attrib env did (JObject [(name, v)]) s = (Inr res, s')"
    and "ledger_keeps_attr env" "\<And>v. lib_json_parse (ce_lib env) (lib_json_print (ce_lib env) v) = Some v"
  shows "\<exists>resp. call (ce_get_attr env did name) s' = (Inr resp, s')
           \<and> get_data_from_response env resp = Inr (JObject [(name, v)])"
proof -
  obtain w where "ce_add_attr env did (lib_json_print (ce_lib env) (JObject [(name, v)])) (rt_world s) = (Inr res, w)"
      "s' = s\<lparr>rt_world := w\<rparr>"
    using assms(1) unfolding write_attrib_def
    by (auto simp: vbind_Inr_iff call_Inr_iff dest: check_response_keeps)
  then obtain resp x where "ce_get_attr env did name w = (Inr resp, w)"
      "lib_json_parse (ce_lib env) resp = Some x"
      "as_str (json_index (json_index x ''result'') ''data'')
         = Some (lib_json_print (ce_lib env) (JObject [(name, v)]))"
    using assms(2) unfolding ledger_keeps_attr_def by blast
  then show ?thesis
    using \<open>s' = _\<close> by (simp add: call_def get_data_from_response_def ok_or_def unwrap_or_def assms(3))
qed


text \<open>A ledger that holds one attribute, and answers every request for a nym with one key.\<close>

definition demo_reply_of :: "string \<Rightarrow> json" where
  "demo_reply_of d = JObject [(''op'', JString ''REPLY''), (''result'', JObject [(''data'', JString d)])]"

definition demo_attr_ledger :: "string conn_env" where
  "demo_attr_ledger = demo_conn
     \<lparr>ce_add_attr := (\<lambda>_ attrib _. (Inr (demo_text (demo_reply_of attrib)), attrib)),
      ce_get_attr := (\<lambda>_ _ w. (Inr (demo_text (demo_reply_of w)), w)),
      ce_get_nym := (\<lambda>_ w. (Inr (demo_text (demo_reply_of
         (demo_text (JObject [(''verkey'', JString ''vk'')])))), w))\<rparr>"

definition demo_attr_runtime :: "string \<Rightarrow> string runtime" where
  "demo_attr_runtime w = \<lparr>rt_mocks = False, rt_mock_generate_proof = None, rt_mock_validate_proof = None,
     rt_uuid = nat_to_string, rt_clock = (\<lambda>n. n), rt_draws = 0, rt_world = w, rt_outbox = []\<rparr>"

lemma demo_attr_laws:
  "ledger_keeps_attr demo_attr_ledger"
  "codecs_agree demo_attr_ledger demo_attr_ledger"
  by (simp_all add: ledger_keeps_attr_def codecs_agree_def demo_attr_ledger_def demo_conn_def
      demo_reply_of_def json_index_def unwrap_or_def)

lemma demo_write: "write_endpoint demo_attr_ledger (did_raw_of did) e (demo_attr_runtime w)
  = (let a = demo_text (JObject [(''endpoint'', EndpointDidSov_to_json e)])
     in (Inr (demo_text (demo_reply_of a)), demo_attr_runtime a))"
  by (simp add: write_endpoint_def write_attrib_def check_response_def parse_response_def vbind_def
      call_def run_simps demo_attr_ledger_def demo_conn_def demo_attr_runtime_def demo_reply_of_def
      LedgerResponse_from_json_def req_field_def ok_or_def Let_def)

lemma demo_verkey: "get_verkey_from_ledger demo_attr_ledger did (demo_attr_runtime w) = (Inr ''vk'', demo_attr_runtime w)"
  by (simp add: get_verkey_from_ledger_def vbind_def call_def run_simps demo_attr_ledger_def demo_conn_def
      demo_attr_runtime_def demo_reply_of_def json_index_def unwrap_or_def ok_or_def)

definition demo_endpoint :: EndpointDidSov where
  "demo_endpoint = EndpointDidSov_set_routing_keys EndpointDidSov_create (Some [''r1''])"


end
