(* ===== verification/Mediated_Connection.thy ===== *)
theory Mediated_Connection
  imports Ledger_Service
begin

text \<open>
  The two state machines of the connection protocol (RFC 0160) that the mediated connection drives:
  aries_vcx/src/protocols/mediated_connection/invitee and inviter, with their states and conversions.

  A \<open>SendClosureConnection\<close> takes the message, the sender's key and the DID document of the receiver.
  \<open>deliver\<close> runs it and, if the transport accepts the message, records the message in the log. The
  result \<open>None\<close> of \<open>handle_connection_response\<close> is the panic of the response decoder.

  \<open>invitee_run\<close> and \<open>inviter_run\<close> apply any sequence of operations to a machine, \<open>mediated_handshake\<close>
  is the exchange of both machines as the protocol has it.
\<close>

type_synonym 'w SendClosureConnection = "AriesMessage \<Rightarrow> string \<Rightarrow> AriesDidDoc \<Rightarrow> ('w, unit) vcx"

definition record_sent :: "AriesMessage \<Rightarrow> ('w, unit) vcx" where
  "record_sent m s = (Inr (), s\<lparr>rt_outbox := rt_outbox s @ [m]\<rparr>)"

definition deliver :: "'w SendClosureConnection \<Rightarrow> AriesMessage \<Rightarrow> string \<Rightarrow> AriesDidDoc \<Rightarrow> ('w, unit) vcx" where
  "deliver send m vk doc = vbind (send m vk doc) (\<lambda>_. record_sent m)"

subsection \<open>Invitee: states\<close>

record InviteeInitialState =
  vei_problem_report :: "ConnProblemReport option"
  vei_did_doc :: "AriesDidDoc option"

record InviteeInvitedState =
  vev_invitation :: AnyInvitation
  vev_did_doc :: AriesDidDoc

record InviteeRequestedState =
  veq_request :: ConnRequest
  veq_did_doc :: AriesDidDoc

record InviteeRespondedState =
  vep_resp_con_data :: ConnectionData
  vep_request :: ConnRequest
  vep_did_doc :: AriesDidDoc

record InviteeCompletedState =
  vec_did_doc :: AriesDidDoc
  vec_bootstrap_did_doc :: AriesDidDoc
  vec_protocols :: "ProtocolDescriptor list option"

definition InviteeInvitedState_from_initial ::
    "InviteeInitialState \<Rightarrow> AnyInvitation \<Rightarrow> AriesDidDoc \<Rightarrow> InviteeInvitedState" where
  "InviteeInvitedState_from_initial _ invitation did_doc =
     \<lparr>vev_invitation = invitation, vev_did_doc = did_doc\<rparr>"

definition InviteeRequestedState_from_invited ::
    "InviteeInvitedState \<Rightarrow> ConnRequest \<Rightarrow> AriesDidDoc \<Rightarrow> InviteeRequestedState" where
  "InviteeRequestedState_from_invited _ request did_doc =
     \<lparr>veq_request = request, veq_did_doc = did_doc\<rparr>"

definition InviteeInitialState_from_requested ::
    "InviteeRequestedState \<Rightarrow> ConnProblemReport \<Rightarrow> InviteeInitialState" where
  "InviteeInitialState_from_requested _ problem_report =
     \<lparr>vei_problem_report = Some problem_report, vei_did_doc = None\<rparr>"

definition InviteeRespondedState_from_requested ::
    "InviteeRequestedState \<Rightarrow> ConnectionData \<Rightarrow> InviteeRespondedState" where
  "InviteeRespondedState_from_requested st response =
     \<lparr>vep_resp_con_data = response, vep_request = veq_request st, vep_did_doc = veq_did_doc st\<rparr>"

definition InviteeCompletedState_from_responded :: "InviteeRespondedState \<Rightarrow> InviteeCompletedState" where
  "InviteeCompletedState_from_responded st =
     \<lparr>vec_did_doc = cd_did_doc (vep_resp_con_data st), vec_bootstrap_did_doc = vep_did_doc st,
      vec_protocols = None\<rparr>"

definition InviteeCompletedState_with_protocols ::
    "InviteeCompletedState \<Rightarrow> ProtocolDescriptor list \<Rightarrow> InviteeCompletedState" where
  "InviteeCompletedState_with_protocols st protocols =
     \<lparr>vec_did_doc = vec_did_doc st, vec_bootstrap_did_doc = vec_bootstrap_did_doc st,
      vec_protocols = Some protocols\<rparr>"

datatype InviteeFullState =
    Vee_Initial InviteeInitialState
  | Vee_Invited InviteeInvitedState
  | Vee_Requested InviteeRequestedState
  | Vee_Responded InviteeRespondedState
  | Vee_Completed InviteeCompletedState

datatype InviteeState =
  InviteeState_Initial | InviteeState_Invited | InviteeState_Requested | InviteeState_Responded | InviteeState_Completed

fun InviteeState_from :: "InviteeFullState \<Rightarrow> InviteeState" where
  "InviteeState_from (Vee_Initial _) = InviteeState_Initial"
| "InviteeState_from (Vee_Invited _) = InviteeState_Invited"
| "InviteeState_from (Vee_Requested _) = InviteeState_Requested"
| "InviteeState_from (Vee_Responded _) = InviteeState_Responded"
| "InviteeState_from (Vee_Completed _) = InviteeState_Completed"

record SmConnectionInvitee =
  ive_source_id :: string
  ive_thread_id :: string
  ive_pairwise_info :: PairwiseInfo
  ive_state :: InviteeFullState

subsection \<open>Invitee: operations\<close>

definition SmConnectionInvitee_new :: "string \<Rightarrow> PairwiseInfo \<Rightarrow> AriesDidDoc \<Rightarrow> SmConnectionInvitee" where
  "SmConnectionInvitee_new source_id pairwise_info did_doc =
     \<lparr>ive_source_id = source_id, ive_thread_id = [], ive_pairwise_info = pairwise_info,
      ive_state = Vee_Initial \<lparr>vei_problem_report = None, vei_did_doc = Some did_doc\<rparr>\<rparr>"

definition SmConnectionInvitee_from ::
    "string \<Rightarrow> string \<Rightarrow> PairwiseInfo \<Rightarrow> InviteeFullState \<Rightarrow> SmConnectionInvitee" where
  "SmConnectionInvitee_from source_id thread_id pairwise_info state =
     \<lparr>ive_source_id = source_id, ive_thread_id = thread_id, ive_pairwise_info = pairwise_info,
      ive_state = state\<rparr>"

definition SmConnectionInvitee_get_state :: "SmConnectionInvitee \<Rightarrow> InviteeState" where
  "SmConnectionInvitee_get_state self = InviteeState_from (ive_state self)"

definition SmConnectionInvitee_is_in_null_state :: "SmConnectionInvitee \<Rightarrow> bool" where
  "SmConnectionInvitee_is_in_null_state self = (case ive_state self of Vee_Initial _ \<Rightarrow> True | _ \<Rightarrow> False)"

definition SmConnectionInvitee_is_in_final_state :: "SmConnectionInvitee \<Rightarrow> bool" where
  "SmConnectionInvitee_is_in_final_state self = (case ive_state self of Vee_Completed _ \<Rightarrow> True | _ \<Rightarrow> False)"

definition SmConnectionInvitee_their_did_doc :: "SmConnectionInvitee \<Rightarrow> AriesDidDoc option" where
  "SmConnectionInvitee_their_did_doc self =
     (case ive_state self of
        Vee_Initial st \<Rightarrow> vei_did_doc st
      | Vee_Invited st \<Rightarrow> Some (vev_did_doc st)
      | Vee_Requested st \<Rightarrow> Some (veq_did_doc st)
      | Vee_Responded st \<Rightarrow> Some (vep_did_doc st)
      | Vee_Completed st \<Rightarrow> Some (vec_did_doc st))"

definition SmConnectionInvitee_bootstrap_did_doc :: "SmConnectionInvitee \<Rightarrow> AriesDidDoc option" where
  "SmConnectionInvitee_bootstrap_did_doc self =
     (case ive_state self of
        Vee_Initial st \<Rightarrow> vei_did_doc st
      | Vee_Invited st \<Rightarrow> Some (vev_did_doc st)
      | Vee_Requested st \<Rightarrow> Some (veq_did_doc st)
      | Vee_Responded st \<Rightarrow> Some (vep_did_doc st)
      | Vee_Completed st \<Rightarrow> Some (vec_bootstrap_did_doc st))"

definition SmConnectionInvitee_get_invitation :: "SmConnectionInvitee \<Rightarrow> AnyInvitation option" where
  "SmConnectionInvitee_get_invitation self =
     (case ive_state self of Vee_Invited st \<Rightarrow> Some (vev_invitation st) | _ \<Rightarrow> None)"

definition SmConnectionInvitee_can_progress_state :: "SmConnectionInvitee \<Rightarrow> AriesMessage \<Rightarrow> bool" where
  "SmConnectionInvitee_can_progress_state self message =
     (case ive_state self of
        Vee_Requested _ \<Rightarrow>
          (case message of
             AM_Connection (C_Response _) \<Rightarrow> True
           | AM_Connection (C_ProblemReport _) \<Rightarrow> True
           | _ \<Rightarrow> False)
      | _ \<Rightarrow> False)"

definition SmConnectionInvitee_find_message_to_update_state ::
    "SmConnectionInvitee \<Rightarrow> (string \<times> AriesMessage) list \<Rightarrow> (string \<times> AriesMessage) option" where
  "SmConnectionInvitee_find_message_to_update_state self messages =
     find_message (SmConnectionInvitee_can_progress_state self) messages"

definition SmConnectionInvitee_get_remote_protocols ::
    "SmConnectionInvitee \<Rightarrow> ProtocolDescriptor list option" where
  "SmConnectionInvitee_get_remote_protocols self =
     (case ive_state self of Vee_Completed st \<Rightarrow> vec_protocols st | _ \<Rightarrow> None)"

definition remote_did_of :: "AriesDidDoc option \<Rightarrow> string vcx_result" where
  "remote_did_of doc =
     ok_or (map_option dd_id doc) (AriesVcxError_from_msg NotReady ''Remote Connection DID is not set'')"

definition SmConnectionInvitee_remote_did :: "SmConnectionInvitee \<Rightarrow> string vcx_result" where
  "SmConnectionInvitee_remote_did self = remote_did_of (SmConnectionInvitee_their_did_doc self)"

definition remote_vk_of :: "'w conn_env \<Rightarrow> AriesDidDoc option \<Rightarrow> string vcx_result" where
  "remote_vk_of env doc =
     res_bind (ok_or doc (AriesVcxError_from_msg NotReady ''Counterparty diddoc is not available.'')) (\<lambda>did_doc.
     res_bind (recipient_keys_of env did_doc) (\<lambda>keys.
       ok_or (list_get keys 0)
         (AriesVcxError_from_msg NotReady ''Can't resolve recipient key from the counterparty diddoc.'')))"

definition SmConnectionInvitee_remote_vk :: "'w conn_env \<Rightarrow> SmConnectionInvitee \<Rightarrow> string vcx_result" where
  "SmConnectionInvitee_remote_vk env self = remote_vk_of env (SmConnectionInvitee_their_did_doc self)"

definition RequestContent_new :: "string \<Rightarrow> ConnectionData \<Rightarrow> ConnRequestContent" where
  "RequestContent_new label connection = \<lparr>cr_label = label, cr_connection = connection\<rparr>"

definition invitation_request_thread :: "string \<Rightarrow> string \<Rightarrow> AnyInvitation \<Rightarrow> string \<times> Thread" where
  "invitation_request_thread i self_thread_id invitation =
     (case invitation of
        Inv_Con (Inv_Public _) \<Rightarrow> (i, (Thread_new i)\<lparr>pthid := Some self_thread_id\<rparr>)
      | Inv_Con (Inv_Pairwise _) \<Rightarrow> (self_thread_id, Thread_new self_thread_id)
      | Inv_Con (Inv_PairwiseDID _) \<Rightarrow> (self_thread_id, Thread_new self_thread_id)
      | Inv_Oob invite \<Rightarrow> (i, (Thread_new i)\<lparr>pthid := Some (msg_id invite)\<rparr>))"

definition SmConnectionInvitee_build_connection_request_msg ::
    "SmConnectionInvitee \<Rightarrow> string list \<Rightarrow> string \<Rightarrow> ('w, ConnRequest \<times> string) vcx" where
  "SmConnectionInvitee_build_connection_request_msg self routing_keys service_endpoint =
     (case ive_state self of
        Vee_Invited st \<Rightarrow>
          vbind new_v4 (\<lambda>i.
            let info = ive_pairwise_info self;
                did_doc = AriesDidDoc_default;
                did_doc = AriesDidDoc_set_service_endpoint did_doc service_endpoint;
                did_doc = AriesDidDoc_set_routing_keys did_doc routing_keys;
                did_doc = AriesDidDoc_set_recipient_keys did_doc [pw_vk info];
                did_doc = AriesDidDoc_set_id did_doc (pw_did info);
                con_data = ConnectionData_new (pw_did info) did_doc;
                content = RequestContent_new (ive_source_id self) con_data
            in vbind utc_now (\<lambda>now.
                 let (thread_id, thread) =
                       invitation_request_thread i (ive_thread_id self) (vev_invitation st);
                     decorators = \<lparr>od_thread = Some thread, od_timing = Some (out_timing now)\<rparr>
                 in vret (MsgParts_with_decorators i content decorators, thread_id)))
      | _ \<Rightarrow> vfail (AriesVcxError_from_msg NotReady
               ''Building connection request in current state is not allowed''))"

definition SmConnectionInvitee_build_connection_ack_msg :: "SmConnectionInvitee \<Rightarrow> ('w, Ack) vcx" where
  "SmConnectionInvitee_build_connection_ack_msg self =
     (case ive_state self of
        Vee_Responded _ \<Rightarrow>
          vbind utc_now (\<lambda>now.
          vbind new_v4 (\<lambda>i.
            vret (MsgParts_with_decorators i (AckContent_new Ack_Ok)
              ((thr_decorators_new (Thread_new (ive_thread_id self)))\<lparr>td_timing := Some (out_timing now)\<rparr>))))
      | _ \<Rightarrow> vfail (AriesVcxError_from_msg NotReady
               ''Building connection ack in current state is not allowed''))"

fun invitation_id :: "AnyInvitation \<Rightarrow> string" where
  "invitation_id (Inv_Con (Inv_Public i)) = msg_id i"
| "invitation_id (Inv_Con (Inv_Pairwise i)) = msg_id i"
| "invitation_id (Inv_Con (Inv_PairwiseDID i)) = msg_id i"
| "invitation_id (Inv_Oob i) = msg_id i"

definition SmConnectionInvitee_handle_invitation ::
    "SmConnectionInvitee \<Rightarrow> AnyInvitation \<Rightarrow> SmConnectionInvitee vcx_result" where
  "SmConnectionInvitee_handle_invitation self invitation =
     (let thread_id = invitation_id invitation
      in case ive_state self of
           Vee_Initial st \<Rightarrow>
             res_bind (ok_or (vei_did_doc st) (AriesVcxError_from_msg InvalidState
                 ''Expected none None state.did_doc result given current state'')) (\<lambda>did_doc.
               Inr (self\<lparr>ive_state := Vee_Invited (InviteeInvitedState_from_initial st invitation did_doc),
                         ive_thread_id := thread_id\<rparr>))
         | _ \<Rightarrow> Inl (AriesVcxError_from_msg InvalidState
                  ''Cannot handle inviation: not in Initial state, current state: {:?}''))"

definition SmConnectionInvitee_send_connection_request ::
    "SmConnectionInvitee \<Rightarrow> string list \<Rightarrow> string \<Rightarrow> 'w SendClosureConnection
       \<Rightarrow> ('w, SmConnectionInvitee) vcx" where
  "SmConnectionInvitee_send_connection_request self routing_keys service_endpoint send =
     (case ive_state self of
        Vee_Invited st \<Rightarrow>
          vbind (vlift (ok_or (SmConnectionInvitee_their_did_doc self)
                   (AriesVcxError_from_msg InvalidState ''Missing did doc''))) (\<lambda>ddo.
          vbind (SmConnectionInvitee_build_connection_request_msg self routing_keys service_endpoint)
            (\<lambda>(request, thread_id).
          vbind (deliver send (AM_Connection (C_Request request)) (pw_vk (ive_pairwise_info self)) ddo) (\<lambda>_.
            vret (self\<lparr>ive_state := Vee_Requested (InviteeRequestedState_from_invited st request ddo),
                       ive_thread_id := thread_id\<rparr>))))
      | _ \<Rightarrow> vret self)"

definition conn_problem_report ::
    "string \<Rightarrow> string \<Rightarrow> string \<Rightarrow> datetime \<Rightarrow> ConnProblemReport" where
  "conn_problem_report uuid explain thread_id now =
     MsgParts_with_decorators uuid \<lparr>cpr_problem_code = None, cpr_explain = Some explain\<rparr>
       \<lparr>cprd_thread = Thread_new thread_id, cprd_localization = None, cprd_timing = Some (out_timing now)\<rparr>"

definition invitee_decoded_response ::
    "SmConnectionInvitee \<Rightarrow> InviteeRequestedState \<Rightarrow> ConnResponse \<Rightarrow> 'w SendClosureConnection
       \<Rightarrow> ConnectionData option vcx_result \<Rightarrow> ('w, SmConnectionInvitee option) vcx" where
  "invitee_decoded_response self st response send decoded =
     (case decoded of
        Inr None \<Rightarrow> vret None
      | Inr (Some con_data) \<Rightarrow>
          let thread_id = thid_or (msg_id (veq_request st)) (od_thread (msg_decorators (veq_request st)))
          in if \<not> matches_thread_id (kd_thread (msg_decorators response)) thread_id then
               vfail (AriesVcxError_from_msg InvalidJson
                 ''Cannot handle response: thread id does not match: {:?}'')
             else vret (Some (self\<lparr>ive_state :=
                    Vee_Responded (InviteeRespondedState_from_requested st con_data)\<rparr>))
      | Inl err \<Rightarrow>
          vbind utc_now (\<lambda>now.
          vbind new_v4 (\<lambda>i.
            let problem_report =
                  conn_problem_report i (AriesVcxError_to_string err) (ive_thread_id self) now
            in vbind (vtry (deliver send (AM_Connection (C_ProblemReport problem_report))
                        (pw_vk (ive_pairwise_info self)) (veq_did_doc st))) (\<lambda>_.
               vret (Some (self\<lparr>ive_state :=
                 Vee_Initial (InviteeInitialState_from_requested st problem_report)\<rparr>))))))"

definition SmConnectionInvitee_handle_connection_response ::
    "'w conn_env \<Rightarrow> SmConnectionInvitee \<Rightarrow> ConnResponse \<Rightarrow> 'w SendClosureConnection
       \<Rightarrow> ('w, SmConnectionInvitee option) vcx" where
  "SmConnectionInvitee_handle_connection_response env self response send =
     vbind (vlift (util_verify_thread_id (ive_thread_id self) (AM_Connection (C_Response response)))) (\<lambda>_.
       case ive_state self of
         Vee_Requested st \<Rightarrow>
           vbind (vlift (recipient_keys_of env (veq_did_doc st))) (\<lambda>keys.
           vbind (vlift (ok_or (list_get keys 0) (AriesVcxError_from_msg InvalidState
                    ''Cannot handle response: remote verkey not found''))) (\<lambda>remote_vk.
           vbind (vtry (decode_signed_connection_response env (msg_content response) remote_vk)) (\<lambda>decoded.
             invitee_decoded_response self st response send decoded)))
       | _ \<Rightarrow> vret (Some self))"

definition SmConnectionInvitee_handle_disclose ::
    "SmConnectionInvitee \<Rightarrow> Disclose \<Rightarrow> SmConnectionInvitee vcx_result" where
  "SmConnectionInvitee_handle_disclose self disclose =
     Inr (case ive_state self of
            Vee_Completed st \<Rightarrow>
              self\<lparr>ive_state := Vee_Completed
                (InviteeCompletedState_with_protocols st (disc_protocols (msg_content disclose)))\<rparr>
          | _ \<Rightarrow> self)"

definition SmConnectionInvitee_handle_send_ack ::
    "SmConnectionInvitee \<Rightarrow> 'w SendClosureConnection \<Rightarrow> ('w, SmConnectionInvitee) vcx" where
  "SmConnectionInvitee_handle_send_ack self send =
     (case ive_state self of
        Vee_Responded st \<Rightarrow>
          vbind (SmConnectionInvitee_build_connection_ack_msg self) (\<lambda>ack.
          vbind (deliver send (AM_Notification (N_Ack ack)) (pw_vk (ive_pairwise_info self))
                   (cd_did_doc (vep_resp_con_data st))) (\<lambda>_.
            vret (self\<lparr>ive_state := Vee_Completed (InviteeCompletedState_from_responded st)\<rparr>)))
      | _ \<Rightarrow> vret self)"

definition SmConnectionInvitee_handle_problem_report ::
    "SmConnectionInvitee \<Rightarrow> ConnProblemReport \<Rightarrow> SmConnectionInvitee vcx_result" where
  "SmConnectionInvitee_handle_problem_report self _ =
     (let initial = Vee_Initial \<lparr>vei_problem_report = None, vei_did_doc = None\<rparr>
      in Inr (case ive_state self of
                Vee_Requested _ \<Rightarrow> self\<lparr>ive_state := initial\<rparr>
              | Vee_Invited _ \<Rightarrow> self\<lparr>ive_state := initial\<rparr>
              | _ \<Rightarrow> self))"

subsection \<open>Inviter: states\<close>

record InviterInitialState =
  vri_problem_report :: "ConnProblemReport option"

record InviterInvitedState =
  vrv_invitation :: AnyInvitation

record InviterRequestedState =
  vrq_signed_response :: ConnResponse
  vrq_did_doc :: AriesDidDoc
  vrq_thread_id :: string

record InviterRespondedState =
  vrp_signed_response :: ConnResponse
  vrp_did_doc :: AriesDidDoc

record InviterCompletedState =
  vrc_did_doc :: AriesDidDoc
  vrc_protocols :: "ProtocolDescriptor list option"
  vrc_thread_id :: "string option"

definition InviterInvitedState_from_initial :: "InviterInitialState \<Rightarrow> AnyInvitation \<Rightarrow> InviterInvitedState" where
  "InviterInvitedState_from_initial _ invitation = \<lparr>vrv_invitation = invitation\<rparr>"

definition InviterInitialState_from_report :: "ConnProblemReport \<Rightarrow> InviterInitialState" where
  "InviterInitialState_from_report problem_report = \<lparr>vri_problem_report = Some problem_report\<rparr>"

definition InviterRequestedState_from :: "ConnRequest \<Rightarrow> ConnResponse \<Rightarrow> InviterRequestedState" where
  "InviterRequestedState_from request signed_response =
     \<lparr>vrq_signed_response = signed_response,
      vrq_did_doc = cd_did_doc (cr_connection (msg_content request)), vrq_thread_id = msg_id request\<rparr>"

definition InviterRespondedState_from_requested :: "InviterRequestedState \<Rightarrow> InviterRespondedState" where
  "InviterRespondedState_from_requested st =
     \<lparr>vrp_signed_response = vrq_signed_response st, vrp_did_doc = vrq_did_doc st\<rparr>"

definition InviterCompletedState_from_responded :: "InviterRespondedState \<Rightarrow> InviterCompletedState" where
  "InviterCompletedState_from_responded st =
     \<lparr>vrc_did_doc = vrp_did_doc st, vrc_protocols = None,
      vrc_thread_id = Some (thid (kd_thread (msg_decorators (vrp_signed_response st))))\<rparr>"

definition InviterCompletedState_with_protocols ::
    "InviterCompletedState \<Rightarrow> ProtocolDescriptor list \<Rightarrow> InviterCompletedState" where
  "InviterCompletedState_with_protocols st protocols =
     \<lparr>vrc_did_doc = vrc_did_doc st, vrc_protocols = Some protocols, vrc_thread_id = vrc_thread_id st\<rparr>"

datatype InviterFullState =
    Ver_Initial InviterInitialState
  | Ver_Invited InviterInvitedState
  | Ver_Requested InviterRequestedState
  | Ver_Responded InviterRespondedState
  | Ver_Completed InviterCompletedState

datatype InviterState =
  InviterState_Initial | InviterState_Invited | InviterState_Requested | InviterState_Responded | InviterState_Completed

fun InviterState_from :: "InviterFullState \<Rightarrow> InviterState" where
  "InviterState_from (Ver_Initial _) = InviterState_Initial"
| "InviterState_from (Ver_Invited _) = InviterState_Invited"
| "InviterState_from (Ver_Requested _) = InviterState_Requested"
| "InviterState_from (Ver_Responded _) = InviterState_Responded"
| "InviterState_from (Ver_Completed _) = InviterState_Completed"

record SmConnectionInviter =
  ivr_source_id :: string
  ivr_thread_id :: string
  ivr_pairwise_info :: PairwiseInfo
  ivr_state :: InviterFullState

subsection \<open>Inviter: operations\<close>

definition SmConnectionInviter_new :: "string \<Rightarrow> PairwiseInfo \<Rightarrow> ('w, SmConnectionInviter) vcx" where
  "SmConnectionInviter_new source_id pairwise_info =
     vbind new_v4 (\<lambda>i.
       vret \<lparr>ivr_source_id = source_id, ivr_thread_id = i, ivr_pairwise_info = pairwise_info,
             ivr_state = Ver_Initial \<lparr>vri_problem_report = None\<rparr>\<rparr>)"

definition SmConnectionInviter_from ::
    "string \<Rightarrow> string \<Rightarrow> PairwiseInfo \<Rightarrow> InviterFullState \<Rightarrow> SmConnectionInviter" where
  "SmConnectionInviter_from source_id thread_id pairwise_info state =
     \<lparr>ivr_source_id = source_id, ivr_thread_id = thread_id, ivr_pairwise_info = pairwise_info,
      ivr_state = state\<rparr>"

definition SmConnectionInviter_get_state :: "SmConnectionInviter \<Rightarrow> InviterState" where
  "SmConnectionInviter_get_state self = InviterState_from (ivr_state self)"

definition SmConnectionInviter_their_did_doc :: "SmConnectionInviter \<Rightarrow> AriesDidDoc option" where
  "SmConnectionInviter_their_did_doc self =
     (case ivr_state self of
        Ver_Initial _ \<Rightarrow> None
      | Ver_Invited _ \<Rightarrow> None
      | Ver_Requested st \<Rightarrow> Some (vrq_did_doc st)
      | Ver_Responded st \<Rightarrow> Some (vrp_did_doc st)
      | Ver_Completed st \<Rightarrow> Some (vrc_did_doc st))"

definition SmConnectionInviter_get_invitation :: "SmConnectionInviter \<Rightarrow> AnyInvitation option" where
  "SmConnectionInviter_get_invitation self =
     (case ivr_state self of Ver_Invited st \<Rightarrow> Some (vrv_invitation st) | _ \<Rightarrow> None)"

definition SmConnectionInviter_is_in_null_state :: "SmConnectionInviter \<Rightarrow> bool" where
  "SmConnectionInviter_is_in_null_state self = (case ivr_state self of Ver_Initial _ \<Rightarrow> True | _ \<Rightarrow> False)"

definition SmConnectionInviter_is_in_final_state :: "SmConnectionInviter \<Rightarrow> bool" where
  "SmConnectionInviter_is_in_final_state self = (case ivr_state self of Ver_Completed _ \<Rightarrow> True | _ \<Rightarrow> False)"

definition SmConnectionInviter_get_remote_protocols ::
    "SmConnectionInviter \<Rightarrow> ProtocolDescriptor list option" where
  "SmConnectionInviter_get_remote_protocols self =
     (case ivr_state self of Ver_Completed st \<Rightarrow> vrc_protocols st | _ \<Rightarrow> None)"

definition SmConnectionInviter_remote_did :: "SmConnectionInviter \<Rightarrow> string vcx_result" where
  "SmConnectionInviter_remote_did self = remote_did_of (SmConnectionInviter_their_did_doc self)"

definition SmConnectionInviter_remote_vk :: "'w conn_env \<Rightarrow> SmConnectionInviter \<Rightarrow> string vcx_result" where
  "SmConnectionInviter_remote_vk env self = remote_vk_of env (SmConnectionInviter_their_did_doc self)"

definition SmConnectionInviter_can_progress_state :: "SmConnectionInviter \<Rightarrow> AriesMessage \<Rightarrow> bool" where
  "SmConnectionInviter_can_progress_state self message =
     (case ivr_state self of
        Ver_Invited _ \<Rightarrow>
          (case message of
             AM_Connection (C_Request _) \<Rightarrow> True
           | AM_Connection (C_ProblemReport _) \<Rightarrow> True
           | _ \<Rightarrow> False)
      | Ver_Responded _ \<Rightarrow>
          (case message of
             AM_Notification _ \<Rightarrow> True
           | AM_TrustPing (T_Ping _) \<Rightarrow> True
           | AM_Connection (C_ProblemReport _) \<Rightarrow> True
           | _ \<Rightarrow> False)
      | _ \<Rightarrow> False)"

definition SmConnectionInviter_find_message_to_update_state ::
    "SmConnectionInviter \<Rightarrow> (string \<times> AriesMessage) list \<Rightarrow> (string \<times> AriesMessage) option" where
  "SmConnectionInviter_find_message_to_update_state self messages =
     find_message (SmConnectionInviter_can_progress_state self) messages"

definition SmConnectionInviter_create_invitation ::
    "SmConnectionInviter \<Rightarrow> string list \<Rightarrow> string \<Rightarrow> SmConnectionInviter vcx_result" where
  "SmConnectionInviter_create_invitation self routing_keys service_endpoint =
     Inr (case ivr_state self of
            Ver_Initial st \<Rightarrow>
              let content = \<lparr>pwinv_label = ivr_source_id self,
                             pwinv_recipient_keys = [pw_vk (ivr_pairwise_info self)],
                             pwinv_routing_keys = routing_keys, pwinv_service_endpoint = service_endpoint\<rparr>;
                  invite = MsgParts_with_decorators (ivr_thread_id self) content \<lparr>md_timing = None\<rparr>
              in self\<lparr>ivr_state :=
                   Ver_Invited (InviterInvitedState_from_initial st (Inv_Con (Inv_Pairwise invite)))\<rparr>
          | _ \<Rightarrow> self)"

definition SmConnectionInviter_build_response ::
    "'w conn_env \<Rightarrow> SmConnectionInviter \<Rightarrow> string \<Rightarrow> PairwiseInfo \<Rightarrow> string list \<Rightarrow> string
       \<Rightarrow> ('w, ConnResponse) vcx" where
  "SmConnectionInviter_build_response env self thread_id info routing_keys service_endpoint =
     (let build =
        (let did_doc = AriesDidDoc_default;
             did_doc = AriesDidDoc_set_id did_doc (pw_did info);
             did_doc = AriesDidDoc_set_service_endpoint did_doc service_endpoint;
             did_doc = AriesDidDoc_set_routing_keys did_doc routing_keys;
             did_doc = AriesDidDoc_set_recipient_keys did_doc [pw_vk info];
             con_data = ConnectionData_new (pw_did info) did_doc
         in vbind new_v4 (\<lambda>i.
            vbind (sign_connection_response env (pw_vk (ivr_pairwise_info self)) con_data) (\<lambda>con_sig.
            vbind utc_now (\<lambda>now.
              vret (MsgParts_with_decorators i \<lparr>connection_sig = con_sig\<rparr>
                ((ack_decorators_new (Thread_new thread_id))\<lparr>kd_timing := Some (out_timing now)\<rparr>))))))
      in case ivr_state self of
           Ver_Invited _ \<Rightarrow> build
         | Ver_Initial _ \<Rightarrow> build
         | _ \<Rightarrow> vfail (AriesVcxError_from_msg NotReady
                  ''Building connection ack in current state is not allowed''))"

definition inviter_accept_request ::
    "'w conn_env \<Rightarrow> SmConnectionInviter \<Rightarrow> ConnRequest \<Rightarrow> PairwiseInfo \<Rightarrow> string list \<Rightarrow> string
       \<Rightarrow> 'w SendClosureConnection \<Rightarrow> ('w, SmConnectionInviter) vcx" where
  "inviter_accept_request env self request info routing_keys service_endpoint send =
     (let their_doc = cd_did_doc (cr_connection (msg_content request))
      in case AriesDidDoc_validate (lib_bs58 (ce_lib env)) their_doc of
           Inl err \<Rightarrow>
             vbind utc_now (\<lambda>now.
             vbind new_v4 (\<lambda>i.
               let problem_report = conn_problem_report i (DiddocError_to_string err) (ivr_thread_id self) now
               in vbind (vtry (deliver send (AM_Connection (C_ProblemReport problem_report))
                           (pw_vk (ivr_pairwise_info self)) their_doc)) (\<lambda>_.
                  vret (self\<lparr>ivr_state := Ver_Initial (InviterInitialState_from_report problem_report)\<rparr>))))
         | Inr _ \<Rightarrow>
             let thread_id = thid_or (msg_id request) (od_thread (msg_decorators request))
             in vbind (SmConnectionInviter_build_response env self thread_id info routing_keys service_endpoint)
                  (\<lambda>signed_response.
                vret (self\<lparr>ivr_pairwise_info := info, ivr_thread_id := thread_id,
                           ivr_state := Ver_Requested (InviterRequestedState_from request signed_response)\<rparr>)))"

definition SmConnectionInviter_handle_connection_request ::
    "'w conn_env \<Rightarrow> SmConnectionInviter \<Rightarrow> ConnRequest \<Rightarrow> PairwiseInfo \<Rightarrow> string list \<Rightarrow> string
       \<Rightarrow> 'w SendClosureConnection \<Rightarrow> ('w, SmConnectionInviter) vcx" where
  "SmConnectionInviter_handle_connection_request env self request info routing_keys service_endpoint send =
     vbind (case ivr_state self of
              Ver_Initial _ \<Rightarrow> vret ()
            | _ \<Rightarrow> vlift (util_verify_thread_id (ivr_thread_id self) (AM_Connection (C_Request request)))) (\<lambda>_.
       case ivr_state self of
         Ver_Invited _ \<Rightarrow> inviter_accept_request env self request info routing_keys service_endpoint send
       | Ver_Initial _ \<Rightarrow> inviter_accept_request env self request info routing_keys service_endpoint send
       | _ \<Rightarrow> vret (self\<lparr>ivr_pairwise_info := info\<rparr>))"

definition SmConnectionInviter_handle_problem_report ::
    "SmConnectionInviter \<Rightarrow> ConnProblemReport \<Rightarrow> SmConnectionInviter vcx_result" where
  "SmConnectionInviter_handle_problem_report self problem_report =
     Inr (case ivr_state self of
            Ver_Responded _ \<Rightarrow> self\<lparr>ivr_state := Ver_Initial (InviterInitialState_from_report problem_report)\<rparr>
          | Ver_Invited _ \<Rightarrow> self\<lparr>ivr_state := Ver_Initial (InviterInitialState_from_report problem_report)\<rparr>
          | _ \<Rightarrow> self)"

definition SmConnectionInviter_handle_send_response ::
    "SmConnectionInviter \<Rightarrow> 'w SendClosureConnection \<Rightarrow> ('w, SmConnectionInviter) vcx" where
  "SmConnectionInviter_handle_send_response self send =
     (case ivr_state self of
        Ver_Requested st \<Rightarrow>
          vbind (deliver send (AM_Connection (C_Response (vrq_signed_response st)))
                   (pw_vk (ivr_pairwise_info self)) (vrq_did_doc st)) (\<lambda>_.
            vret (self\<lparr>ivr_state := Ver_Responded (InviterRespondedState_from_requested st)\<rparr>))
      | _ \<Rightarrow> vret self)"

definition SmConnectionInviter_handle_disclose ::
    "SmConnectionInviter \<Rightarrow> Disclose \<Rightarrow> SmConnectionInviter vcx_result" where
  "SmConnectionInviter_handle_disclose self disclose =
     Inr (case ivr_state self of
            Ver_Completed st \<Rightarrow>
              self\<lparr>ivr_state := Ver_Completed
                (InviterCompletedState_with_protocols st (disc_protocols (msg_content disclose)))\<rparr>
          | _ \<Rightarrow> self)"

definition SmConnectionInviter_handle_confirmation_message ::
    "SmConnectionInviter \<Rightarrow> AriesMessage \<Rightarrow> SmConnectionInviter vcx_result" where
  "SmConnectionInviter_handle_confirmation_message self msg =
     res_bind (util_verify_thread_id (ivr_thread_id self) msg) (\<lambda>_.
       Inr (case ivr_state self of
              Ver_Responded st \<Rightarrow>
                self\<lparr>ivr_state := Ver_Completed (InviterCompletedState_from_responded st)\<rparr>
            | _ \<Rightarrow> self))"

subsection \<open>Sequences of operations\<close>

datatype invitee_op =
    Op_invitation AnyInvitation
  | Op_send_request "string list" string
  | Op_response ConnResponse
  | Op_send_ack
  | Op_disclose Disclose
  | Op_problem_report ConnProblemReport

fun invitee_step ::
    "'w conn_env \<Rightarrow> 'w SendClosureConnection \<Rightarrow> SmConnectionInvitee \<Rightarrow> invitee_op
       \<Rightarrow> ('w, SmConnectionInvitee option) vcx" where
  "invitee_step env send sm (Op_invitation i) =
     vlift (res_bind (SmConnectionInvitee_handle_invitation sm i) (\<lambda>m. Inr (Some m)))"
| "invitee_step env send sm (Op_send_request ks u) =
     vbind (SmConnectionInvitee_send_connection_request sm ks u send) (\<lambda>m. vret (Some m))"
| "invitee_step env send sm (Op_response r) = SmConnectionInvitee_handle_connection_response env sm r send"
| "invitee_step env send sm Op_send_ack =
     vbind (SmConnectionInvitee_handle_send_ack sm send) (\<lambda>m. vret (Some m))"
| "invitee_step env send sm (Op_disclose d) =
     vlift (res_bind (SmConnectionInvitee_handle_disclose sm d) (\<lambda>m. Inr (Some m)))"
| "invitee_step env send sm (Op_problem_report p) =
     vlift (res_bind (SmConnectionInvitee_handle_problem_report sm p) (\<lambda>m. Inr (Some m)))"

datatype inviter_op =
    Op_create_invitation "string list" string
  | Op_request ConnRequest PairwiseInfo "string list" string
  | Op_send_response
  | Op_confirmation AriesMessage
  | Op_inviter_disclose Disclose
  | Op_inviter_problem_report ConnProblemReport

fun inviter_step ::
    "'w conn_env \<Rightarrow> 'w SendClosureConnection \<Rightarrow> SmConnectionInviter \<Rightarrow> inviter_op
       \<Rightarrow> ('w, SmConnectionInviter) vcx" where
  "inviter_step env send sm (Op_create_invitation ks u) =
     vlift (SmConnectionInviter_create_invitation sm ks u)"
| "inviter_step env send sm (Op_request r info ks u) =
     SmConnectionInviter_handle_connection_request env sm r info ks u send"
| "inviter_step env send sm Op_send_response = SmConnectionInviter_handle_send_response sm send"
| "inviter_step env send sm (Op_confirmation m) =
     vlift (SmConnectionInviter_handle_confirmation_message sm m)"
| "inviter_step env send sm (Op_inviter_disclose d) = vlift (SmConnectionInviter_handle_disclose sm d)"
| "inviter_step env send sm (Op_inviter_problem_report p) =
     vlift (SmConnectionInviter_handle_problem_report sm p)"

text \<open>
  A machine with the operations applied so far. An operation that fails leaves the machine as it
  was (the handler keeps its old value), but not the runtime; one that panics ends the sequence.
\<close>

inductive invitee_reach ::
    "'w conn_env \<Rightarrow> 'w SendClosureConnection \<Rightarrow> SmConnectionInvitee \<Rightarrow> 'w runtime
       \<Rightarrow> SmConnectionInvitee \<Rightarrow> 'w runtime \<Rightarrow> bool"
  for env send sm0 s0 where
  start: "invitee_reach env send sm0 s0 sm0 s0"
| success: "invitee_reach env send sm0 s0 sm s \<Longrightarrow> invitee_step env send sm op s = (Inr (Some sm'), s')
    \<Longrightarrow> invitee_reach env send sm0 s0 sm' s'"
| failure: "invitee_reach env send sm0 s0 sm s \<Longrightarrow> invitee_step env send sm op s = (Inl e, s')
    \<Longrightarrow> invitee_reach env send sm0 s0 sm s'"
| elsewhere: "invitee_reach env send sm0 s0 sm s \<Longrightarrow> rt_outbox s' = rt_outbox s
    \<Longrightarrow> invitee_reach env send sm0 s0 sm s'"

inductive inviter_reach ::
    "'w conn_env \<Rightarrow> 'w SendClosureConnection \<Rightarrow> SmConnectionInviter \<Rightarrow> 'w runtime
       \<Rightarrow> SmConnectionInviter \<Rightarrow> 'w runtime \<Rightarrow> bool"
  for env send sm0 s0 where
  start: "inviter_reach env send sm0 s0 sm0 s0"
| success: "inviter_reach env send sm0 s0 sm s \<Longrightarrow> inviter_step env send sm op s = (Inr sm', s')
    \<Longrightarrow> inviter_reach env send sm0 s0 sm' s'"
| failure: "inviter_reach env send sm0 s0 sm s \<Longrightarrow> inviter_step env send sm op s = (Inl e, s')
    \<Longrightarrow> inviter_reach env send sm0 s0 sm s'"
| elsewhere: "inviter_reach env send sm0 s0 sm s \<Longrightarrow> rt_outbox s' = rt_outbox s
    \<Longrightarrow> inviter_reach env send sm0 s0 sm s'"

subsection \<open>What a connected invitee has checked\<close>

text \<open>A transport that leaves the log to \<open>deliver\<close>, as \<open>utils_send_message\<close> does.\<close>

definition quiet :: "'w SendClosureConnection \<Rightarrow> bool" where
  "quiet send = (\<forall>m vk d. sends_only (\<lambda>_. False) (send m vk d))"

lemma sends_only_mono: "sends_only P m \<Longrightarrow> (\<And>x. P x \<Longrightarrow> Q x) \<Longrightarrow> sends_only Q m"
  unfolding sends_only_def by (meson list.pred_mono_strong)

lemma record_sent_only: "P m \<Longrightarrow> sends_only P (record_sent m)"
  by (auto simp: sends_only_def record_sent_def)

lemma deliver_only [intro]: "quiet send \<Longrightarrow> P m \<Longrightarrow> sends_only P (deliver send m vk d)"
  unfolding deliver_def quiet_def
  by (intro sends_only_bind record_sent_only)
     (auto intro: sends_only_mono [of "\<lambda>_. False"])

lemma deliver_logs:
  assumes "quiet send" "deliver send m vk d s = (Inr u, s')"
  shows "rt_outbox s' = rt_outbox s @ [m]"
proof -
  obtain u' t where t: "send m vk d s = (Inr u', t)" "record_sent m t = (Inr u, s')"
    using assms(2) by (auto simp: deliver_def vbind_Inr_iff)
  have "rt_outbox t = rt_outbox s"
    using sends_onlyD [of "\<lambda>_. False" "send m vk d" s "Inr u'" t] t(1) assms(1)
    unfolding quiet_def by auto
  then show ?thesis using t(2) by (auto simp: record_sent_def)
qed

definition responder_key :: "'w conn_env \<Rightarrow> AriesDidDoc \<Rightarrow> string \<Rightarrow> bool" where
  "responder_key env doc vk = (\<exists>keys. recipient_keys_of env doc = Inr keys \<and> list_get keys 0 = Some vk)"

definition response_accepted ::
    "'w conn_env \<Rightarrow> AriesDidDoc \<Rightarrow> string \<Rightarrow> ConnectionData \<Rightarrow> bool" where
  "response_accepted env doc tid cd = (\<exists>(response :: ConnResponse) vk.
     responder_key env doc vk \<and> signed_by env vk (connection_sig (msg_content response)) cd
     \<and> matches_thread_id (kd_thread (msg_decorators response)) tid)"

definition request_sent :: "AriesMessage list \<Rightarrow> string \<Rightarrow> ConnRequest \<Rightarrow> bool" where
  "request_sent out tid request = (AM_Connection (C_Request request) \<in> set out
     \<and> effective_thid (AM_Connection (C_Request request)) = tid)"

definition invitee_inv :: "'w conn_env \<Rightarrow> AriesDidDoc \<Rightarrow> AriesMessage list \<Rightarrow> SmConnectionInvitee \<Rightarrow> bool" where
  "invitee_inv env ddo out sm =
     (let tid = ive_thread_id sm
      in case ive_state sm of
           Vee_Initial st \<Rightarrow> vei_did_doc st \<in> {Some ddo, None}
         | Vee_Invited st \<Rightarrow> vev_did_doc st = ddo
         | Vee_Requested st \<Rightarrow> veq_did_doc st = ddo \<and> request_sent out tid (veq_request st)
         | Vee_Responded st \<Rightarrow> vep_did_doc st = ddo \<and> request_sent out tid (vep_request st)
             \<and> response_accepted env ddo tid (vep_resp_con_data st)
         | Vee_Completed st \<Rightarrow> vec_bootstrap_did_doc st = ddo \<and> (\<exists>request. request_sent out tid request)
             \<and> (\<exists>cd. vec_did_doc st = cd_did_doc cd \<and> response_accepted env ddo tid cd)
             \<and> (\<exists>ack. AM_Notification (N_Ack ack) \<in> set out
                  \<and> effective_thid (AM_Notification (N_Ack ack)) = tid))"

lemma invitee_inv_mono:
  "invitee_inv env ddo out sm \<Longrightarrow> set out \<subseteq> set out' \<Longrightarrow> invitee_inv env ddo out' sm"
  unfolding invitee_inv_def Let_def request_sent_def
  by (cases "ive_state sm") auto

lemma invitee_step_log:
  assumes "quiet send"
  shows "sends_only (\<lambda>_. True) (invitee_step env send sm op)"
proof (cases op)
  case (Op_send_request ks u)
  show ?thesis
    unfolding Op_send_request invitee_step.simps SmConnectionInvitee_send_connection_request_def
      SmConnectionInvitee_build_connection_request_msg_def Let_def split_def
    by (cases "ive_state sm") (auto intro!: sends_only_bind deliver_only assms)
next
  case (Op_response r)
  have "sends_only (\<lambda>_. True) (decode_signed_connection_response env c vk)" for c vk
    unfolding decode_signed_connection_response_def Let_def
    by (intro sends_only_bind) (auto split: option.split)
  then show ?thesis
    unfolding Op_response invitee_step.simps SmConnectionInvitee_handle_connection_response_def
      invitee_decoded_response_def Let_def
    by (cases "ive_state sm")
       (auto intro!: sends_only_bind deliver_only sends_only_try assms split: sum.split option.split)
next
  case Op_send_ack
  show ?thesis
    unfolding Op_send_ack invitee_step.simps SmConnectionInvitee_handle_send_ack_def
      SmConnectionInvitee_build_connection_ack_msg_def
    by (cases "ive_state sm") (auto intro!: sends_only_bind deliver_only assms)
qed auto

lemma invitee_step_grows:
  assumes "quiet send" "invitee_step env send sm op s = (r, s')"
  shows "set (rt_outbox s) \<subseteq> set (rt_outbox s')"
  using sends_onlyD [OF invitee_step_log [OF assms(1)] assms(2)] by auto

lemma vlift_Inr_iff: "vlift r s = (Inr a, s') \<longleftrightarrow> r = Inr a \<and> s' = s"
  by auto

lemma invitee_response_cases:
  assumes "SmConnectionInvitee_handle_connection_response env sm r send s = (Inr (Some sm'), s')"
  shows "(\<exists>st cd. ive_state sm = Vee_Requested st
            \<and> sm' = sm\<lparr>ive_state := Vee_Responded (InviteeRespondedState_from_requested st cd)\<rparr>
            \<and> response_accepted env (veq_did_doc st) (ive_thread_id sm) cd)
       \<or> (\<exists>st p. ive_state sm = Vee_Requested st
            \<and> sm' = sm\<lparr>ive_state := Vee_Initial (InviteeInitialState_from_requested st p)\<rparr>)
       \<or> sm' = sm"
proof (cases "ive_state sm")
  case (Vee_Requested st)
  have tid: "matches_thread_id (kd_thread (msg_decorators r)) (ive_thread_id sm)"
    using assms unfolding SmConnectionInvitee_handle_connection_response_def
    by (auto simp: vbind_Inr_iff util_verify_thread_id_def split: if_splits)
  obtain keys vk decoded t where
    k: "recipient_keys_of env (veq_did_doc st) = Inr keys" "list_get keys 0 = Some vk"
    and d: "decode_signed_connection_response env (msg_content r) vk s = (decoded, t)"
    and rest: "invitee_decoded_response sm st r send decoded t = (Inr (Some sm'), s')"
    using assms unfolding SmConnectionInvitee_handle_connection_response_def Vee_Requested
    by (auto simp: vbind_Inr_iff vlift_Inr_iff vtry_Inr_iff res_simps simp del: run_iffs(3))
  show ?thesis
  proof (cases decoded)
    case (Inl err)
    then show ?thesis using rest Vee_Requested by (auto simp: invitee_decoded_response_def vbind_Inr_iff Let_def)
  next
    case (Inr dc)
    then obtain cd where dc: "dc = Some cd" using rest by (cases dc) (auto simp: invitee_decoded_response_def)
    have "sm' = sm\<lparr>ive_state := Vee_Responded (InviteeRespondedState_from_requested st cd)\<rparr>"
      using rest Inr dc by (auto simp: invitee_decoded_response_def Let_def split: if_splits)
    moreover have "signed_by env vk (connection_sig (msg_content r)) cd"
      using decoded_response_signed d Inr dc by blast
    ultimately show ?thesis
      using Vee_Requested k tid by (auto simp: response_accepted_def responder_key_def)
  qed
qed (use assms in \<open>auto simp: SmConnectionInvitee_handle_connection_response_def vbind_Inr_iff\<close>)

lemma request_thread_fst: "thid (snd (invitation_request_thread i t inv0)) = fst (invitation_request_thread i t inv0)"
  unfolding invitation_request_thread_def
  by (cases inv0) (simp_all split: Invitation.splits)

lemma invitee_request_cases:
  assumes "quiet send" "SmConnectionInvitee_send_connection_request sm ks u send s = (Inr sm', s')"
  shows "(\<exists>st request. ive_state sm = Vee_Invited st
            \<and> ive_state sm' = Vee_Requested (InviteeRequestedState_from_invited st request (vev_did_doc st))
            \<and> request_sent (rt_outbox s') (ive_thread_id sm') request)
       \<or> sm' = sm \<and> s' = s"
proof (cases "ive_state sm")
  case (Vee_Invited st)
  obtain request tid t where
    b: "SmConnectionInvitee_build_connection_request_msg sm ks u s = (Inr (request, tid), t)"
    and d: "deliver send (AM_Connection (C_Request request)) (pw_vk (ive_pairwise_info sm)) (vev_did_doc st) t = (Inr (), s')"
    and sm': "sm' = sm\<lparr>ive_state := Vee_Requested (InviteeRequestedState_from_invited st request (vev_did_doc st)),
                       ive_thread_id := tid\<rparr>"
    using assms(2) Vee_Invited unfolding SmConnectionInvitee_send_connection_request_def
    by (auto simp: vbind_Inr_iff ok_or_def SmConnectionInvitee_their_did_doc_def)
  have "thid_or (msg_id request) (od_thread (msg_decorators request)) = tid"
    using b Vee_Invited unfolding SmConnectionInvitee_build_connection_request_msg_def Let_def split_def
    by (auto simp: vbind_Inr_iff request_thread_fst)
  then have "request_sent (rt_outbox s') tid request"
    using deliver_logs [OF assms(1) d] by (simp add: request_sent_def)
  then show ?thesis using Vee_Invited sm' by auto
qed (use assms(2) in \<open>auto simp: SmConnectionInvitee_send_connection_request_def\<close>)

lemma invitee_ack_cases:
  assumes "quiet send" "SmConnectionInvitee_handle_send_ack sm send s = (Inr sm', s')"
  shows "(\<exists>st ack. ive_state sm = Vee_Responded st
            \<and> sm' = sm\<lparr>ive_state := Vee_Completed (InviteeCompletedState_from_responded st)\<rparr>
            \<and> rt_outbox s' = rt_outbox s @ [AM_Notification (N_Ack ack)]
            \<and> effective_thid (AM_Notification (N_Ack ack)) = ive_thread_id sm)
       \<or> sm' = sm \<and> s' = s"
proof (cases "ive_state sm")
  case (Vee_Responded st)
  obtain ack t where
    b: "SmConnectionInvitee_build_connection_ack_msg sm s = (Inr ack, t)"
    and d: "deliver send (AM_Notification (N_Ack ack)) (pw_vk (ive_pairwise_info sm))
              (cd_did_doc (vep_resp_con_data st)) t = (Inr (), s')"
    and sm': "sm' = sm\<lparr>ive_state := Vee_Completed (InviteeCompletedState_from_responded st)\<rparr>"
    using assms(2) Vee_Responded unfolding SmConnectionInvitee_handle_send_ack_def
    by (auto simp: vbind_Inr_iff)
  have "thid (td_thread (msg_decorators ack)) = ive_thread_id sm" "rt_outbox t = rt_outbox s"
    using b Vee_Responded unfolding SmConnectionInvitee_build_connection_ack_msg_def
    by (auto simp: vbind_Inr_iff thr_decorators_new_def)
  then show ?thesis using Vee_Responded sm' deliver_logs [OF assms(1) d] by auto
qed (use assms(2) in \<open>auto simp: SmConnectionInvitee_handle_send_ack_def\<close>)

lemma invitee_step_inv:
  assumes "quiet send" "invitee_inv env ddo (rt_outbox s) sm"
    and "invitee_step env send sm op s = (Inr (Some sm'), s')"
  shows "invitee_inv env ddo (rt_outbox s') sm'"
proof -
  have inv': "invitee_inv env ddo (rt_outbox s') sm"
    using invitee_inv_mono [OF assms(2) invitee_step_grows [OF assms(1,3)]] .
  show ?thesis
  proof (cases op)
    case (Op_invitation i)
    then show ?thesis
      using assms(2,3)
      by (auto simp: SmConnectionInvitee_handle_invitation_def Let_def res_simps invitee_inv_def
          InviteeInvitedState_from_initial_def split: InviteeFullState.splits)
  next
    case (Op_send_request ks u)
    then have "SmConnectionInvitee_send_connection_request sm ks u send s = (Inr sm', s')"
      using assms(3) by (auto simp: vbind_Inr_iff)
    from invitee_request_cases [OF assms(1) this] show ?thesis
      using assms(2) by (auto simp: invitee_inv_def InviteeRequestedState_from_invited_def)
  next
    case (Op_response r)
    then have "SmConnectionInvitee_handle_connection_response env sm r send s = (Inr (Some sm'), s')"
      using assms(3) by simp
    from invitee_response_cases [OF this] show ?thesis
      using inv' by (auto simp: invitee_inv_def InviteeRespondedState_from_requested_def
          InviteeInitialState_from_requested_def)
  next
    case Op_send_ack
    then have "SmConnectionInvitee_handle_send_ack sm send s = (Inr sm', s')"
      using assms(3) by (auto simp: vbind_Inr_iff)
    from invitee_ack_cases [OF assms(1) this] show ?thesis
      using inv' by (auto simp: invitee_inv_def Let_def InviteeCompletedState_from_responded_def)
  next
    case (Op_disclose d)
    then show ?thesis
      using assms(2,3) by (cases "ive_state sm") (auto simp: SmConnectionInvitee_handle_disclose_def invitee_inv_def
          InviteeCompletedState_with_protocols_def)
  next
    case (Op_problem_report p)
    then show ?thesis
      using assms(2,3) by (cases "ive_state sm") (auto simp: SmConnectionInvitee_handle_problem_report_def
          invitee_inv_def Let_def)
  qed
qed

lemma invitee_reach_inv:
  assumes "invitee_reach env send sm0 s0 sm s" "quiet send" "invitee_inv env ddo (rt_outbox s0) sm0"
  shows "invitee_inv env ddo (rt_outbox s) sm"
  using assms
proof (induction rule: invitee_reach.induct)
  case (success sm s op sm' s')
  then show ?case using invitee_step_inv by blast
next
  case (failure sm s op e s')
  then show ?case using invitee_inv_mono invitee_step_grows by blast
qed auto

text \<open>
  A connected invitee knows whom it is connected to. Let an invitee be created for the DID document
  of an invitation and go through any sequence of operations, failed ones included. If it is then in
  the state Completed, it has sent a request and an acknowledgement on its thread, and the DID
  document it holds for the inviter is that of connection data for which the wallet has verified the
  signature under the first recipient key of the invitation's document, in a response on the thread.
\<close>

theorem completed_invitee_verified_inviter:
  assumes "invitee_reach env send (SmConnectionInvitee_new source_id info ddo) s0 sm s" "quiet send"
    and "SmConnectionInvitee_get_state sm = InviteeState_Completed"
  shows "\<exists>request ack cd.
       request_sent (rt_outbox s) (ive_thread_id sm) request
     \<and> AM_Notification (N_Ack ack) \<in> set (rt_outbox s)
     \<and> effective_thid (AM_Notification (N_Ack ack)) = ive_thread_id sm
     \<and> SmConnectionInvitee_their_did_doc sm = Some (cd_did_doc cd)
     \<and> SmConnectionInvitee_bootstrap_did_doc sm = Some ddo
     \<and> response_accepted env ddo (ive_thread_id sm) cd"
proof -
  have "invitee_inv env ddo (rt_outbox s0) (SmConnectionInvitee_new source_id info ddo)"
    by (simp add: invitee_inv_def SmConnectionInvitee_new_def)
  then have i: "invitee_inv env ddo (rt_outbox s) sm"
    using invitee_reach_inv [OF assms(1,2)] by blast
  obtain st where st: "ive_state sm = Vee_Completed st"
    using assms(3) by (cases "ive_state sm") (simp_all add: SmConnectionInvitee_get_state_def)
  then show ?thesis
    using i unfolding invitee_inv_def Let_def
    by (auto simp: SmConnectionInvitee_their_did_doc_def SmConnectionInvitee_bootstrap_did_doc_def)
qed

subsection \<open>The handshake\<close>

lemma set_keys_commute:
  assumes "dd_service d = x # xs"
  shows "AriesDidDoc_set_recipient_keys (AriesDidDoc_set_routing_keys d rts) rks
       = AriesDidDoc_set_routing_keys (AriesDidDoc_set_recipient_keys d rks) rts"
  using assms by (simp add: AriesDidDoc_set_recipient_keys_def set_routing_keys_closed
      set_recipient_keys_from_closed)

lemma inviter_doc_built:
  "AriesDidDoc_set_recipient_keys (AriesDidDoc_set_routing_keys
     (AriesDidDoc_set_service_endpoint (AriesDidDoc_set_id AriesDidDoc_default did) ep) rts) rks
   = built_did_doc did rks rts ep"
proof -
  have "\<exists>x xs. dd_service (AriesDidDoc_set_service_endpoint (AriesDidDoc_set_id AriesDidDoc_default did) ep) = x # xs"
    by (simp add: AriesDidDoc_set_service_endpoint_def with_first_service_def AriesDidDoc_set_id_def
        AriesDidDoc_default_def)
  then show ?thesis
    using set_keys_commute unfolding built_did_doc_def by blast
qed

text \<open>The document that an invitee sends: its id is set last, so that the keys refer to an empty DID.\<close>

definition requester_doc :: "PairwiseInfo \<Rightarrow> string list \<Rightarrow> string \<Rightarrow> AriesDidDoc" where
  "requester_doc info rts ep = AriesDidDoc_set_id (built_did_doc [] [pw_vk info] rts ep) (pw_did info)"

lemma invitee_doc_built:
  "AriesDidDoc_set_recipient_keys (AriesDidDoc_set_routing_keys
     (AriesDidDoc_set_service_endpoint AriesDidDoc_default ep) rts) rks
   = built_did_doc [] rks rts ep"
proof -
  have "AriesDidDoc_set_id AriesDidDoc_default [] = AriesDidDoc_default"
    by (simp add: AriesDidDoc_set_id_def AriesDidDoc_default_def)
  then show ?thesis using inviter_doc_built [where did = "[]"] by metis
qed

text \<open>What the transport hands to the other party: the message sent last.\<close>

definition last_sent :: "('w, AriesMessage) vcx" where
  "last_sent s = (Inr (last (rt_outbox s)), s)"

definition receive_request :: "('w, ConnRequest) vcx" where
  "receive_request = vbind last_sent (\<lambda>m.
     case m of AM_Connection (C_Request r) \<Rightarrow> vret r | _ \<Rightarrow> vfail json_error)"

definition receive_response :: "('w, ConnResponse) vcx" where
  "receive_response = vbind last_sent (\<lambda>m.
     case m of AM_Connection (C_Response r) \<Rightarrow> vret r | _ \<Rightarrow> vfail json_error)"

text \<open>A result that is absent where the code panics counts as a failure of the exchange.\<close>

definition no_panic :: "'a option \<Rightarrow> ('w, 'a) vcx" where
  "no_panic x = vlift (ok_or x json_error)"

record conn_party =
  cp_label :: string
  cp_info :: PairwiseInfo
  cp_routing_keys :: "string list"
  cp_endpoint :: string

text \<open>
  The exchange. First the inviter \<open>sm\<close> makes an invitation with its routing keys and endpoint, and the
  invitee \<open>ee\<close> reads it and sends its request. Then the inviter answers with the fresh keys and the
  routing data \<open>er\<close>, the invitee verifies the response and acknowledges it, and the inviter takes the
  acknowledgement.
\<close>

definition invite_and_request ::
    "'w conn_env \<Rightarrow> 'w SendClosureConnection \<Rightarrow> SmConnectionInviter \<Rightarrow> string list \<Rightarrow> string
       \<Rightarrow> conn_party \<Rightarrow> ('w, SmConnectionInviter \<times> SmConnectionInvitee) vcx" where
  "invite_and_request env' send' sm rts ep ee =
     vbind (vlift (SmConnectionInviter_create_invitation sm rts ep)) (\<lambda>inviter1.
     vbind (no_panic (SmConnectionInviter_get_invitation inviter1)) (\<lambda>invitation.
     vbind (into_did_doc env' invitation) (\<lambda>doc.
     vbind (no_panic doc) (\<lambda>ddo.
     vbind (vlift (SmConnectionInvitee_handle_invitation
              (SmConnectionInvitee_new (cp_label ee) (cp_info ee) ddo) invitation)) (\<lambda>invitee1.
     vbind (SmConnectionInvitee_send_connection_request invitee1 (cp_routing_keys ee) (cp_endpoint ee) send')
       (\<lambda>invitee2.
       vret (inviter1, invitee2)))))))"

definition answer_and_confirm ::
    "'w conn_env \<Rightarrow> 'w conn_env \<Rightarrow> 'w SendClosureConnection \<Rightarrow> 'w SendClosureConnection
       \<Rightarrow> conn_party \<Rightarrow> SmConnectionInviter \<times> SmConnectionInvitee
       \<Rightarrow> ('w, SmConnectionInviter \<times> SmConnectionInvitee) vcx" where
  "answer_and_confirm env env' send send' er parties =
     vbind receive_request (\<lambda>request.
     vbind (SmConnectionInviter_handle_connection_request env (fst parties) request (cp_info er)
              (cp_routing_keys er) (cp_endpoint er) send) (\<lambda>inviter2.
     vbind (SmConnectionInviter_handle_send_response inviter2 send) (\<lambda>inviter3.
     vbind receive_response (\<lambda>response.
     vbind (SmConnectionInvitee_handle_connection_response env' (snd parties) response send') (\<lambda>result.
     vbind (no_panic result) (\<lambda>invitee3.
     vbind (SmConnectionInvitee_handle_send_ack invitee3 send') (\<lambda>invitee4.
     vbind last_sent (\<lambda>ack.
     vbind (vlift (SmConnectionInviter_handle_confirmation_message inviter3 ack)) (\<lambda>inviter4.
       vret (inviter4, invitee4))))))))))"

definition mediated_handshake ::
    "'w conn_env \<Rightarrow> 'w conn_env \<Rightarrow> 'w SendClosureConnection \<Rightarrow> 'w SendClosureConnection
       \<Rightarrow> SmConnectionInviter \<Rightarrow> string list \<Rightarrow> string \<Rightarrow> conn_party \<Rightarrow> conn_party
       \<Rightarrow> ('w, SmConnectionInviter \<times> SmConnectionInvitee) vcx" where
  "mediated_handshake env env' send send' sm rts ep ee er =
     vbind (invite_and_request env' send' sm rts ep ee) (answer_and_confirm env env' send send' er)"

definition takes :: "'w SendClosureConnection \<Rightarrow> AriesDidDoc \<Rightarrow> bool" where
  "takes send d = (quiet send \<and> (\<forall>m vk s. \<exists>s'. send m vk d s = (Inr (), s')))"

definition transport :: "'w SendClosureConnection \<Rightarrow> bool" where
  "transport send = (\<forall>d. takes send d)"

lemma transportD: "transport send \<Longrightarrow> takes send d"
  by (simp add: transport_def)

lemma takes_delivers:
  assumes "takes send d"
  obtains s' where "deliver send m vk d s = (Inr (), s')" "rt_outbox s' = rt_outbox s @ [m]"
proof -
  obtain t where "send m vk d s = (Inr (), t)"
    using assms unfolding takes_def by blast
  then have "deliver send m vk d s = (Inr (), t\<lparr>rt_outbox := rt_outbox t @ [m]\<rparr>)"
    by (simp add: deliver_def vbind_run record_sent_def)
  then show ?thesis
    using that deliver_logs assms unfolding takes_def by blast
qed

lemma handshake_request:
  assumes "takes send (vev_did_doc st)" "ive_state sm = Vee_Invited st" "vev_invitation st = Inv_Con (Inv_Pairwise pw)"
  obtains request s' where
    "SmConnectionInvitee_send_connection_request sm rts ep send s =
       (Inr (sm\<lparr>ive_state := Vee_Requested (InviteeRequestedState_from_invited st request (vev_did_doc st))\<rparr>), s')"
    "last (rt_outbox s') = AM_Connection (C_Request request)"
    "od_thread (msg_decorators request) = Some (Thread_new (ive_thread_id sm))"
    "cd_did_doc (cr_connection (msg_content request)) = requester_doc (ive_pairwise_info sm) rts ep"
proof -
  obtain request t where
    b: "SmConnectionInvitee_build_connection_request_msg sm rts ep s = (Inr (request, ive_thread_id sm), t)"
    and r: "od_thread (msg_decorators request) = Some (Thread_new (ive_thread_id sm))"
      "cd_did_doc (cr_connection (msg_content request)) = requester_doc (ive_pairwise_info sm) rts ep"
    using assms(2,3)
    by (simp add: SmConnectionInvitee_build_connection_request_msg_def vbind_def run_simps Let_def
        invitation_request_thread_def requester_doc_def invitee_doc_built RequestContent_new_def
        ConnectionData_new_def)
  obtain s' where d: "deliver send (AM_Connection (C_Request request)) (pw_vk (ive_pairwise_info sm))
       (vev_did_doc st) t = (Inr (), s')" "rt_outbox s' = rt_outbox t @ [AM_Connection (C_Request request)]"
    using takes_delivers [OF assms(1)] .
  have "SmConnectionInvitee_send_connection_request sm rts ep send s =
       (Inr (sm\<lparr>ive_state := Vee_Requested (InviteeRequestedState_from_invited st request (vev_did_doc st)),
                ive_thread_id := ive_thread_id sm\<rparr>), s')"
    using assms(2) b d(1)
    by (simp add: SmConnectionInvitee_send_connection_request_def SmConnectionInvitee_their_did_doc_def
        vbind_def run_simps)
  then show ?thesis using that [of request s'] d(2) r by simp
qed

lemma handshake_accept:
  assumes "ivr_state sm = Ver_Invited st" "od_thread (msg_decorators request) = Some (Thread_new (ivr_thread_id sm))"
    and "AriesDidDoc_validate (lib_bs58 (ce_lib env)) (cd_did_doc (cr_connection (msg_content request))) = Inr ()"
    and "\<forall>d w. \<exists>sg w'. ce_sign env (pw_vk (ivr_pairwise_info sm)) d w = (Inr sg, w')"
  obtains response con_sig s1 s2 s' where
    "SmConnectionInviter_handle_connection_request env sm request info rts ep send s =
       (Inr (sm\<lparr>ivr_pairwise_info := info,
                ivr_state := Ver_Requested (InviterRequestedState_from request response)\<rparr>), s')"
    "kd_thread (msg_decorators response) = Thread_new (ivr_thread_id sm)"
    "msg_content response = \<lparr>connection_sig = con_sig\<rparr>"
    "sign_connection_response env (pw_vk (ivr_pairwise_info sm))
       (ConnectionData_new (pw_did info) (built_did_doc (pw_did info) [pw_vk info] rts ep)) s1 = (Inr con_sig, s2)"
proof -
  let ?cd = "ConnectionData_new (pw_did info) (built_did_doc (pw_did info) [pw_vk info] rts ep)"
  let ?s1 = "s\<lparr>rt_draws := Suc (rt_draws s)\<rparr>"
  obtain con_sig s2 where sg: "sign_connection_response env (pw_vk (ivr_pairwise_info sm)) ?cd ?s1 = (Inr con_sig, s2)"
  proof -
    let ?data = "u64_to_be_bytes (of_nat (rt_clock ?s1 (rt_draws ?s1) div 1000)) @
        lib_json_print (ce_lib env) (ConnectionData_to_json ?cd)"
    obtain g w where "ce_sign env (pw_vk (ivr_pairwise_info sm)) ?data (rt_world ?s1) = (Inr g, w)"
      using assms(4) by blast
    then show ?thesis
      using that by (simp add: sign_connection_response_def get_signature_data_def unix_timestamp_def
          vbind_def run_simps call_def Let_def)
  qed
  let ?response = "MsgParts_with_decorators (rt_uuid s (rt_draws s)) \<lparr>connection_sig = con_sig\<rparr>
     ((ack_decorators_new (Thread_new (ivr_thread_id sm)))\<lparr>kd_timing := Some (out_timing (rt_clock s2 (rt_draws s2)))\<rparr>)"
  have "SmConnectionInviter_build_response env sm (ivr_thread_id sm) info rts ep s
      = (Inr ?response, s2\<lparr>rt_draws := Suc (rt_draws s2)\<rparr>)"
    using assms(1) sg by (simp add: SmConnectionInviter_build_response_def inviter_doc_built vbind_def
        run_simps Let_def)
  then have "SmConnectionInviter_handle_connection_request env sm request info rts ep send s =
       (Inr (sm\<lparr>ivr_pairwise_info := info, ivr_thread_id := ivr_thread_id sm,
                ivr_state := Ver_Requested (InviterRequestedState_from request ?response)\<rparr>),
        s2\<lparr>rt_draws := Suc (rt_draws s2)\<rparr>)"
    using assms(1-3)
    by (simp add: SmConnectionInviter_handle_connection_request_def inviter_accept_request_def
        util_verify_thread_id_def vbind_def run_simps Let_def)
  then show ?thesis
    using that sg by (simp add: ack_decorators_new_def)
qed

lemma built_keys_of:
  "\<forall>k \<in> set rks. valid_verkey (lib_bs58 (ce_lib env)) k \<Longrightarrow> recipient_keys_of env (built_did_doc did rks rts ep) = Inr rks"
  by (simp add: recipient_keys_of_def from_diddoc_def built_recipient_keys map_err_def)

lemma urls_stable_built: "urls_stable url_parse (built_did_doc did rks rts ep) \<longleftrightarrow> url_parse ep = Some ep"
  by (simp add: urls_stable_def built_did_doc_closed)

lemma handshake_respond:
  assumes "takes send (vrq_did_doc st)" "ivr_state sm = Ver_Requested st"
  obtains s' where
    "SmConnectionInviter_handle_send_response sm send s =
       (Inr (sm\<lparr>ivr_state := Ver_Responded (InviterRespondedState_from_requested st)\<rparr>), s')"
    "last (rt_outbox s') = AM_Connection (C_Response (vrq_signed_response st))"
proof -
  obtain s' where "deliver send (AM_Connection (C_Response (vrq_signed_response st)))
      (pw_vk (ivr_pairwise_info sm)) (vrq_did_doc st) s = (Inr (), s')"
      "rt_outbox s' = rt_outbox s @ [AM_Connection (C_Response (vrq_signed_response st))]"
    using takes_delivers [OF assms(1)] .
  then show ?thesis
    using that assms(2) by (simp add: SmConnectionInviter_handle_send_response_def vbind_def run_simps)
qed

lemma handshake_response:
  assumes "ive_state sm = Vee_Requested st" "od_thread (msg_decorators (veq_request st)) = Some (Thread_new (ive_thread_id sm))"
    and "kd_thread (msg_decorators response) = Thread_new (ive_thread_id sm)"
    and "recipient_keys_of env (veq_did_doc st) = Inr [vk]"
    and "decode_signed_connection_response env (msg_content response) vk s = (Inr (Some cd), s')"
  shows "SmConnectionInvitee_handle_connection_response env sm response send s =
     (Inr (Some (sm\<lparr>ive_state := Vee_Responded (InviteeRespondedState_from_requested st cd)\<rparr>)), s')"
  using assms by (simp add: SmConnectionInvitee_handle_connection_response_def util_verify_thread_id_def
      invitee_decoded_response_def vbind_def vtry_def run_simps list_get_def Let_def)

lemma handshake_ack:
  assumes "takes send (cd_did_doc (vep_resp_con_data st))" "ive_state sm = Vee_Responded st"
  obtains ack s' where
    "SmConnectionInvitee_handle_send_ack sm send s =
       (Inr (sm\<lparr>ive_state := Vee_Completed (InviteeCompletedState_from_responded st)\<rparr>), s')"
    "last (rt_outbox s') = AM_Notification (N_Ack ack)"
    "td_thread (msg_decorators ack) = Thread_new (ive_thread_id sm)"
proof -
  obtain ack t where b: "SmConnectionInvitee_build_connection_ack_msg sm s = (Inr ack, t)"
      "td_thread (msg_decorators ack) = Thread_new (ive_thread_id sm)"
    using assms(2) by (simp add: SmConnectionInvitee_build_connection_ack_msg_def vbind_def run_simps
        thr_decorators_new_def)
  obtain s' where "deliver send (AM_Notification (N_Ack ack)) (pw_vk (ive_pairwise_info sm))
       (cd_did_doc (vep_resp_con_data st)) t = (Inr (), s')"
      "rt_outbox s' = rt_outbox t @ [AM_Notification (N_Ack ack)]"
    using takes_delivers [OF assms(1)] .
  then show ?thesis
    using that b assms(2) by (simp add: SmConnectionInvitee_handle_send_ack_def vbind_def run_simps)
qed

text \<open>
  Halfway: the inviter has invited, the invitee has requested, and the request on the transport is
  the one that the invitee remembers.
\<close>

definition requested_parties ::
    "SmConnectionInviter \<Rightarrow> string list \<Rightarrow> string \<Rightarrow> conn_party \<Rightarrow> ConnRequest
       \<Rightarrow> SmConnectionInviter \<times> SmConnectionInvitee \<Rightarrow> bool" where
  "requested_parties sm rts ep ee request parties = (\<exists>ist qst.
     fst parties = sm\<lparr>ivr_state := Ver_Invited ist\<rparr>
     \<and> ive_state (snd parties) = Vee_Requested qst \<and> veq_request qst = request
     \<and> veq_did_doc qst = built_did_doc (ivr_thread_id sm) [pw_vk (ivr_pairwise_info sm)] rts ep
     \<and> ive_thread_id (snd parties) = ivr_thread_id sm \<and> ive_pairwise_info (snd parties) = cp_info ee
     \<and> od_thread (msg_decorators request) = Some (Thread_new (ivr_thread_id sm))
     \<and> cd_did_doc (cr_connection (msg_content request))
         = requester_doc (cp_info ee) (cp_routing_keys ee) (cp_endpoint ee))"

lemma invite_and_request_ok:
  assumes "ivr_state sm = Ver_Initial st" "transport send'"
  obtains request parties s' where
    "invite_and_request env' send' sm rts ep ee s = (Inr parties, s')"
    "last (rt_outbox s') = AM_Connection (C_Request request)"
    "requested_parties sm rts ep ee request parties"
proof -
  let ?key = "pw_vk (ivr_pairwise_info sm)" and ?tid = "ivr_thread_id sm"
  let ?ddo = "built_did_doc ?tid [?key] rts ep"
  define pw :: PairwiseInvitation where "pw = MsgParts_with_decorators ?tid
     \<lparr>pwinv_label = ivr_source_id sm, pwinv_recipient_keys = [?key], pwinv_routing_keys = rts,
      pwinv_service_endpoint = ep\<rparr> \<lparr>md_timing = None\<rparr>"
  define sm1 where "sm1 = sm\<lparr>ivr_state :=
     Ver_Invited (InviterInvitedState_from_initial st (Inv_Con (Inv_Pairwise pw)))\<rparr>"
  have step1: "SmConnectionInviter_create_invitation sm rts ep = Inr sm1"
      "SmConnectionInviter_get_invitation sm1 = Some (Inv_Con (Inv_Pairwise pw))"
    using assms(1) by (simp_all add: SmConnectionInviter_create_invitation_def sm1_def pw_def Let_def
        SmConnectionInviter_get_invitation_def InviterInvitedState_from_initial_def)
  have step2: "into_did_doc env' (Inv_Con (Inv_Pairwise pw)) s = (Inr (Some ?ddo), s)"
    by (simp add: pairwise_into_did_doc pw_def)
  define est where "est = \<lparr>vev_invitation = Inv_Con (Inv_Pairwise pw), vev_did_doc = ?ddo\<rparr>"
  define ee1 where "ee1 = (SmConnectionInvitee_new (cp_label ee) (cp_info ee) ?ddo)
     \<lparr>ive_state := Vee_Invited est, ive_thread_id := ?tid\<rparr>"
  have step3: "SmConnectionInvitee_handle_invitation (SmConnectionInvitee_new (cp_label ee) (cp_info ee) ?ddo)
      (Inv_Con (Inv_Pairwise pw)) = Inr ee1"
    by (simp add: SmConnectionInvitee_handle_invitation_def SmConnectionInvitee_new_def ee1_def est_def pw_def
        InviteeInvitedState_from_initial_def Let_def)
  have ee1: "ive_state ee1 = Vee_Invited est" "vev_invitation est = Inv_Con (Inv_Pairwise pw)"
      "ive_thread_id ee1 = ?tid" "ive_pairwise_info ee1 = cp_info ee" "vev_did_doc est = ?ddo"
    by (simp_all add: ee1_def est_def SmConnectionInvitee_new_def)
  obtain request s1 where step4:
      "SmConnectionInvitee_send_connection_request ee1 (cp_routing_keys ee) (cp_endpoint ee) send' s =
         (Inr (ee1\<lparr>ive_state := Vee_Requested (InviteeRequestedState_from_invited est request ?ddo)\<rparr>), s1)"
      "last (rt_outbox s1) = AM_Connection (C_Request request)"
      "od_thread (msg_decorators request) = Some (Thread_new ?tid)"
      "cd_did_doc (cr_connection (msg_content request)) = requester_doc (cp_info ee) (cp_routing_keys ee) (cp_endpoint ee)"
    using handshake_request [OF transportD [OF assms(2)] ee1(1,2)] ee1(3-5) by metis
  have "invite_and_request env' send' sm rts ep ee s =
      (Inr (sm1, ee1\<lparr>ive_state := Vee_Requested (InviteeRequestedState_from_invited est request ?ddo)\<rparr>), s1)"
    using step1 step2 step3 step4(1) by (simp add: invite_and_request_def vbind_def run_simps no_panic_def)
  then show ?thesis
    by (rule that) (use step4 ee1 in \<open>auto simp: requested_parties_def sm1_def InviteeRequestedState_from_invited_def\<close>)
qed

text \<open>The parties after the exchange.\<close>

definition connected_parties ::
    "SmConnectionInviter \<Rightarrow> string list \<Rightarrow> string \<Rightarrow> conn_party \<Rightarrow> conn_party
       \<Rightarrow> SmConnectionInviter \<times> SmConnectionInvitee \<Rightarrow> bool" where
  "connected_parties sm rts ep ee er parties = (case parties of (inviter, invitee) \<Rightarrow>
       SmConnectionInviter_get_state inviter = InviterState_Completed
     \<and> SmConnectionInvitee_get_state invitee = InviteeState_Completed
     \<and> ivr_thread_id inviter = ivr_thread_id sm \<and> ive_thread_id invitee = ivr_thread_id sm
     \<and> ivr_pairwise_info inviter = cp_info er \<and> ive_pairwise_info invitee = cp_info ee
     \<and> SmConnectionInviter_their_did_doc inviter
         = Some (requester_doc (cp_info ee) (cp_routing_keys ee) (cp_endpoint ee))
     \<and> SmConnectionInvitee_their_did_doc invitee
         = Some (built_did_doc (pw_did (cp_info er)) [pw_vk (cp_info er)] (cp_routing_keys er) (cp_endpoint er))
     \<and> SmConnectionInvitee_bootstrap_did_doc invitee
         = Some (built_did_doc (ivr_thread_id sm) [pw_vk (ivr_pairwise_info sm)] rts ep))"

lemma answer_and_confirm_ok:
  assumes parties: "requested_parties sm rts ep ee request parties" "last (rt_outbox s1) = AM_Connection (C_Request request)"
    and "transport send" "transport send'"
    and sign: "\<forall>d w. \<exists>sg w'. ce_sign env (pw_vk (ivr_pairwise_info sm)) d w = (Inr sg, w')"
    and "accepts_signatures env env' (pw_vk (ivr_pairwise_info sm))" "codecs_agree env env'"
    and key: "valid_verkey (lib_bs58 (ce_lib env')) (pw_vk (ivr_pairwise_info sm))"
    and ee: "pw_did (cp_info ee) \<noteq> []"
      "\<forall>k \<in> insert (pw_vk (cp_info ee)) (set (cp_routing_keys ee)). valid_verkey (lib_bs58 (ce_lib env)) k"
    and url: "ce_url_parse env' (cp_endpoint er) = Some (cp_endpoint er)"
  shows "\<exists>result s'. answer_and_confirm env env' send send' er parties s1 = (Inr result, s')
           \<and> connected_parties sm rts ep ee er result"
proof -
  let ?key = "pw_vk (ivr_pairwise_info sm)" and ?tid = "ivr_thread_id sm"
  let ?doc = "built_did_doc (pw_did (cp_info er)) [pw_vk (cp_info er)] (cp_routing_keys er) (cp_endpoint er)"
  let ?cd = "ConnectionData_new (pw_did (cp_info er)) ?doc"
  obtain sm1 ee2 ist qst where p: "parties = (sm1, ee2)" "sm1 = sm\<lparr>ivr_state := Ver_Invited ist\<rparr>"
      "ive_state ee2 = Vee_Requested qst" "veq_request qst = request"
      "veq_did_doc qst = built_did_doc ?tid [?key] rts ep" "ive_thread_id ee2 = ?tid" "ive_pairwise_info ee2 = cp_info ee"
      "od_thread (msg_decorators request) = Some (Thread_new ?tid)"
      "cd_did_doc (cr_connection (msg_content request)) = requester_doc (cp_info ee) (cp_routing_keys ee) (cp_endpoint ee)"
    using parties(1) by (cases parties) (auto simp: requested_parties_def)
  have sm1: "ivr_state sm1 = Ver_Invited ist" "ivr_thread_id sm1 = ?tid" "ivr_pairwise_info sm1 = ivr_pairwise_info sm"
    by (simp_all add: p(2))
  have "AriesDidDoc_validate (lib_bs58 (ce_lib env)) (cd_did_doc (cr_connection (msg_content request))) = Inr ()"
    unfolding p(9) requester_doc_def using ee by (intro built_set_id_validates) auto
  then obtain response con_sig t1 t2 s2 where step5:
      "SmConnectionInviter_handle_connection_request env sm1 request (cp_info er) (cp_routing_keys er) (cp_endpoint er) send s1 =
         (Inr (sm1\<lparr>ivr_pairwise_info := cp_info er,
                  ivr_state := Ver_Requested (InviterRequestedState_from request response)\<rparr>), s2)"
      "kd_thread (msg_decorators response) = Thread_new ?tid" "msg_content response = \<lparr>connection_sig = con_sig\<rparr>"
      "sign_connection_response env ?key ?cd t1 = (Inr con_sig, t2)"
    using handshake_accept [OF sm1(1), of request env "cp_info er" "cp_routing_keys er" "cp_endpoint er" send s1]
      p(8) sign sm1(2,3) by metis
  define rst where "rst = InviterRequestedState_from request response"
  define sm2 where "sm2 = sm1\<lparr>ivr_pairwise_info := cp_info er, ivr_state := Ver_Requested rst\<rparr>"
  define sm3 where "sm3 = sm2\<lparr>ivr_state := Ver_Responded (InviterRespondedState_from_requested rst)\<rparr>"
  obtain s3 where step6: "SmConnectionInviter_handle_send_response sm2 send s2 = (Inr sm3, s3)"
      "last (rt_outbox s3) = AM_Connection (C_Response response)"
    using handshake_respond [OF transportD [OF assms(3)], of sm2 rst s2]
    by (auto simp: sm2_def sm3_def rst_def InviterRequestedState_from_def)
  obtain s4 where dec: "decode_signed_connection_response env' (msg_content response) ?key s3 = (Inr (Some ?cd), s4)"
    using signed_response_accepted [OF step5(4) assms(6,7)] url step5(3)
    by (auto simp: ConnectionData_new_def urls_stable_built)
  define pst where "pst = InviteeRespondedState_from_requested qst ?cd"
  define ee3 where "ee3 = ee2\<lparr>ive_state := Vee_Responded pst\<rparr>"
  have "recipient_keys_of env' (veq_did_doc qst) = Inr [?key]"
    unfolding p(5) using key by (intro built_keys_of) simp
  then have step7: "SmConnectionInvitee_handle_connection_response env' ee2 response send' s3 = (Inr (Some ee3), s4)"
    unfolding ee3_def pst_def
    by (intro handshake_response [OF p(3) _ _ _ dec]) (simp_all add: p step5(2))
  have ee3: "ive_state ee3 = Vee_Responded pst" "ive_thread_id ee3 = ?tid"
    by (simp_all add: ee3_def p)
  obtain ack s5 where step8: "SmConnectionInvitee_handle_send_ack ee3 send' s4 =
       (Inr (ee3\<lparr>ive_state := Vee_Completed (InviteeCompletedState_from_responded pst)\<rparr>), s5)"
      "last (rt_outbox s5) = AM_Notification (N_Ack ack)" "td_thread (msg_decorators ack) = Thread_new ?tid"
    using handshake_ack [OF transportD [OF assms(4)] ee3(1)] ee3(2) by metis
  have step9: "SmConnectionInviter_handle_confirmation_message sm3 (AM_Notification (N_Ack ack)) =
      Inr (sm3\<lparr>ivr_state := Ver_Completed (InviterCompletedState_from_responded (InviterRespondedState_from_requested rst))\<rparr>)"
    using step8(3) by (simp add: SmConnectionInviter_handle_confirmation_message_def util_verify_thread_id_def
        sm3_def sm2_def sm1(2))
  have "answer_and_confirm env env' send send' er parties s1 =
      (Inr (sm3\<lparr>ivr_state := Ver_Completed (InviterCompletedState_from_responded (InviterRespondedState_from_requested rst))\<rparr>,
            ee3\<lparr>ive_state := Vee_Completed (InviteeCompletedState_from_responded pst)\<rparr>), s5)"
    using parties(2) step5(1) step6 step7 step8(1,2) step9
    by (simp add: answer_and_confirm_def p(1) vbind_def run_simps no_panic_def receive_request_def
        receive_response_def last_sent_def flip: rst_def sm2_def)
  then show ?thesis
    by (simp add: connected_parties_def SmConnectionInviter_get_state_def SmConnectionInvitee_get_state_def
        sm3_def sm2_def sm1(2) ee3_def p SmConnectionInviter_their_did_doc_def SmConnectionInvitee_their_did_doc_def
        SmConnectionInvitee_bootstrap_did_doc_def InviterCompletedState_from_responded_def
        InviterRespondedState_from_requested_def InviteeCompletedState_from_responded_def pst_def
        InviteeRespondedState_from_requested_def rst_def InviterRequestedState_from_def ConnectionData_new_def)
qed

text \<open>
  C15. The handshake succeeds. An inviter in its initial state and a new invitee, over a transport that
  delivers, with wallets whose signatures verify, codecs that invert each other, well-formed keys and
  a non-empty DID of the invitee, both end in the state Completed on the same thread. The inviter then
  holds the document with the invitee's key; the invitee holds the document of the inviter's
  fresh key, and as the document of the invitation the one with the key that signed the response.
\<close>

theorem handshake_connects:
  assumes "ivr_state sm = Ver_Initial st" "transport send" "transport send'"
    and "\<forall>d w. \<exists>sg w'. ce_sign env (pw_vk (ivr_pairwise_info sm)) d w = (Inr sg, w')"
    and "accepts_signatures env env' (pw_vk (ivr_pairwise_info sm))" "codecs_agree env env'"
    and "valid_verkey (lib_bs58 (ce_lib env')) (pw_vk (ivr_pairwise_info sm))"
    and "pw_did (cp_info ee) \<noteq> []"
    and "\<forall>k \<in> insert (pw_vk (cp_info ee)) (set (cp_routing_keys ee)). valid_verkey (lib_bs58 (ce_lib env)) k"
    and "ce_url_parse env' (cp_endpoint er) = Some (cp_endpoint er)"
  shows "\<exists>inviter invitee s'. mediated_handshake env env' send send' sm rts ep ee er s = (Inr (inviter, invitee), s')
     \<and> SmConnectionInviter_get_state inviter = InviterState_Completed
     \<and> SmConnectionInvitee_get_state invitee = InviteeState_Completed
     \<and> ivr_thread_id inviter = ivr_thread_id sm \<and> ive_thread_id invitee = ivr_thread_id sm
     \<and> ivr_pairwise_info inviter = cp_info er \<and> ive_pairwise_info invitee = cp_info ee
     \<and> SmConnectionInviter_their_did_doc inviter
         = Some (requester_doc (cp_info ee) (cp_routing_keys ee) (cp_endpoint ee))
     \<and> SmConnectionInvitee_their_did_doc invitee
         = Some (built_did_doc (pw_did (cp_info er)) [pw_vk (cp_info er)] (cp_routing_keys er) (cp_endpoint er))
     \<and> SmConnectionInvitee_bootstrap_did_doc invitee
         = Some (built_did_doc (ivr_thread_id sm) [pw_vk (ivr_pairwise_info sm)] rts ep)"
proof -
  obtain request parties s1 where h:
    "invite_and_request env' send' sm rts ep ee s = (Inr parties, s1)"
    "last (rt_outbox s1) = AM_Connection (C_Request request)" "requested_parties sm rts ep ee request parties"
    using invite_and_request_ok [OF assms(1,3)] .
  obtain result s2 where "answer_and_confirm env env' send send' er parties s1 = (Inr result, s2)"
      "connected_parties sm rts ep ee er result"
    using answer_and_confirm_ok [OF h(3,2) assms(2-10)] by blast
  then show ?thesis
    using h(1) by (cases result) (auto simp: mediated_handshake_def vbind_run connected_parties_def)
qed

subsection \<open>What a connected inviter has checked\<close>

definition response_sent :: "AriesMessage list \<Rightarrow> string \<Rightarrow> ConnResponse \<Rightarrow> bool" where
  "response_sent out tid response = (AM_Connection (C_Response response) \<in> set out
     \<and> thid (kd_thread (msg_decorators response)) = tid)"

definition doc_validated :: "'w conn_env \<Rightarrow> AriesDidDoc \<Rightarrow> bool" where
  "doc_validated env doc = (AriesDidDoc_validate (lib_bs58 (ce_lib env)) doc = Inr ())"

definition inviter_inv :: "'w conn_env \<Rightarrow> AriesMessage list \<Rightarrow> SmConnectionInviter \<Rightarrow> bool" where
  "inviter_inv env out sm =
     (let tid = ivr_thread_id sm
      in case ivr_state sm of
           Ver_Requested st \<Rightarrow> doc_validated env (vrq_did_doc st)
             \<and> thid (kd_thread (msg_decorators (vrq_signed_response st))) = tid
         | Ver_Responded st \<Rightarrow> doc_validated env (vrp_did_doc st) \<and> response_sent out tid (vrp_signed_response st)
         | Ver_Completed st \<Rightarrow> doc_validated env (vrc_did_doc st) \<and> (\<exists>response. response_sent out tid response)
             \<and> vrc_thread_id st = Some tid
         | _ \<Rightarrow> True)"

lemma response_sent_thid: "response_sent out tid r \<Longrightarrow> thid (kd_thread (msg_decorators r)) = tid"
  by (simp add: response_sent_def)

lemma inviter_inv_mono: "inviter_inv env out sm \<Longrightarrow> set out \<subseteq> set out' \<Longrightarrow> inviter_inv env out' sm"
  unfolding inviter_inv_def Let_def response_sent_def by (cases "ivr_state sm") auto

lemma sign_silent: "sends_only P (sign_connection_response env k cd)"
  unfolding sign_connection_response_def get_signature_data_def unix_timestamp_def Let_def split_def
  by (intro sends_only_bind) simp_all

lemma build_response_silent: "sends_only P (SmConnectionInviter_build_response env sm tid info rts ep)"
  unfolding SmConnectionInviter_build_response_def Let_def
  by (cases "ivr_state sm") (auto intro!: sends_only_bind sign_silent)

lemma inviter_accept_log:
  "quiet send \<Longrightarrow> sends_only (\<lambda>_. True) (inviter_accept_request env sm r info rts ep send)"
  unfolding inviter_accept_request_def Let_def
  by (auto intro!: sends_only_bind sends_only_try deliver_only build_response_silent split: sum.split)

lemma inviter_step_log:
  assumes "quiet send"
  shows "sends_only (\<lambda>_. True) (inviter_step env send sm op)"
proof (cases op)
  case (Op_request r info ks u)
  then show ?thesis
    by (cases "ivr_state sm") (auto simp: SmConnectionInviter_handle_connection_request_def
        intro!: sends_only_bind inviter_accept_log assms)
next
  case Op_send_response
  then show ?thesis
    by (cases "ivr_state sm") (auto simp: SmConnectionInviter_handle_send_response_def
        intro!: sends_only_bind deliver_only assms)
qed auto

lemma inviter_step_grows:
  assumes "quiet send" "inviter_step env send sm op s = (r, s')"
  shows "set (rt_outbox s) \<subseteq> set (rt_outbox s')"
  using sends_onlyD [OF inviter_step_log [OF assms(1)] assms(2)] by auto

lemma build_response_thread:
  "SmConnectionInviter_build_response env sm tid info rts ep s = (Inr response, s')
     \<Longrightarrow> thid (kd_thread (msg_decorators response)) = tid"
  unfolding SmConnectionInviter_build_response_def Let_def
  by (cases "ivr_state sm") (auto simp: vbind_Inr_iff ack_decorators_new_def)

lemma inviter_accept_inv:
  assumes "inviter_accept_request env sm r info rts ep send s = (Inr sm', s')"
  shows "inviter_inv env out sm'"
proof (cases "AriesDidDoc_validate (lib_bs58 (ce_lib env)) (cd_did_doc (cr_connection (msg_content r)))")
  case (Inl err)
  then show ?thesis
    using assms by (auto simp: inviter_accept_request_def Let_def vbind_Inr_iff inviter_inv_def)
next
  case (Inr u)
  then obtain response t where
    "SmConnectionInviter_build_response env sm (thid_or (msg_id r) (od_thread (msg_decorators r))) info rts ep s
       = (Inr response, t)"
    "sm' = sm\<lparr>ivr_pairwise_info := info, ivr_thread_id := thid_or (msg_id r) (od_thread (msg_decorators r)),
              ivr_state := Ver_Requested (InviterRequestedState_from r response)\<rparr>"
    using assms by (auto simp: inviter_accept_request_def Let_def vbind_Inr_iff)
  then show ?thesis
    using Inr build_response_thread by (auto simp: inviter_inv_def InviterRequestedState_from_def doc_validated_def)
qed

lemma inviter_respond_inv:
  assumes "quiet send" "inviter_inv env (rt_outbox s) sm"
    and "SmConnectionInviter_handle_send_response sm send s = (Inr sm', s')"
  shows "inviter_inv env (rt_outbox s') sm'"
proof (cases "ivr_state sm")
  case (Ver_Requested st)
  then have "deliver send (AM_Connection (C_Response (vrq_signed_response st))) (pw_vk (ivr_pairwise_info sm))
       (vrq_did_doc st) s = (Inr (), s')"
      "sm' = sm\<lparr>ivr_state := Ver_Responded (InviterRespondedState_from_requested st)\<rparr>"
    using assms(3) by (auto simp: SmConnectionInviter_handle_send_response_def vbind_Inr_iff)
  then show ?thesis
    using deliver_logs [OF assms(1)] assms(2) Ver_Requested
    by (fastforce simp: inviter_inv_def Let_def InviterRespondedState_from_requested_def response_sent_def)
qed (use assms(2,3) in \<open>auto simp: SmConnectionInviter_handle_send_response_def\<close>)

lemma inviter_step_inv:
  assumes "quiet send" "inviter_inv env (rt_outbox s) sm" "inviter_step env send sm op s = (Inr sm', s')"
  shows "inviter_inv env (rt_outbox s') sm'"
proof (cases op)
  case (Op_create_invitation ks u)
  then show ?thesis
    using assms(2,3) by (cases "ivr_state sm")
      (auto simp: SmConnectionInviter_create_invitation_def inviter_inv_def Let_def)
next
  case (Op_request r info ks u)
  show ?thesis
  proof (cases "ivr_state sm")
    case (Ver_Initial st)
    then show ?thesis using Op_request assms(3) inviter_accept_inv
      by (auto simp: SmConnectionInviter_handle_connection_request_def vbind_Inr_iff)
  next
    case (Ver_Invited st)
    then show ?thesis using Op_request assms(3) inviter_accept_inv
      by (auto simp: SmConnectionInviter_handle_connection_request_def vbind_Inr_iff)
  qed (use Op_request assms(2,3) in
      \<open>auto simp: SmConnectionInviter_handle_connection_request_def vbind_Inr_iff inviter_inv_def Let_def\<close>)
next
  case Op_send_response
  then show ?thesis using inviter_respond_inv [OF assms(1,2)] assms(3) by simp
next
  case (Op_confirmation m)
  then have "SmConnectionInviter_handle_confirmation_message sm m = Inr sm'" "s' = s"
    using assms(3) by (simp_all add: vlift_Inr_iff del: run_iffs(3))
  then show ?thesis
    using assms(2) by (cases "ivr_state sm")
      (auto simp: SmConnectionInviter_handle_confirmation_message_def res_simps inviter_inv_def Let_def
        InviterCompletedState_from_responded_def dest: response_sent_thid)
next
  case (Op_inviter_disclose d)
  then show ?thesis
    using assms(2,3) by (cases "ivr_state sm")
      (auto simp: SmConnectionInviter_handle_disclose_def inviter_inv_def Let_def InviterCompletedState_with_protocols_def)
next
  case (Op_inviter_problem_report p)
  then show ?thesis
    using assms(2,3) by (cases "ivr_state sm")
      (auto simp: SmConnectionInviter_handle_problem_report_def inviter_inv_def Let_def)
qed

text \<open>
  A connected inviter: over any sequence of operations from the initial state, when it is Completed
  the DID document it holds for the invitee has passed validation, and a response was sent on its thread.
\<close>

theorem completed_inviter_validated_invitee:
  assumes "inviter_reach env send sm0 s0 sm s" "quiet send"
    and "SmConnectionInviter_get_state sm0 = InviterState_Initial"
    and "SmConnectionInviter_get_state sm = InviterState_Completed"
  shows "\<exists>doc response. SmConnectionInviter_their_did_doc sm = Some doc \<and> doc_validated env doc
           \<and> response_sent (rt_outbox s) (ivr_thread_id sm) response"
proof -
  have "inviter_inv env (rt_outbox s0) sm0"
    using assms(3) by (cases "ivr_state sm0") (simp_all add: SmConnectionInviter_get_state_def inviter_inv_def)
  with assms(1) have "inviter_inv env (rt_outbox s) sm"
  proof (induction rule: inviter_reach.induct)
    case (success sm s op sm' s')
    then show ?case using inviter_step_inv [OF assms(2)] by blast
  next
    case (failure sm s op e s')
    then show ?case using inviter_inv_mono inviter_step_grows [OF assms(2)] by blast
  qed auto
  then show ?thesis
    using assms(4) by (cases "ivr_state sm")
      (auto simp: SmConnectionInviter_get_state_def inviter_inv_def Let_def SmConnectionInviter_their_did_doc_def)
qed

subsection \<open>Unintended behaviour\<close>

text \<open>
  Any notification on the thread confirms the connection, a problem report as well as an
  acknowledgement.
\<close>

theorem problem_notification_completes_inviter:
  assumes "ivr_state sm = Ver_Responded st" "prd_thread (msg_decorators report) = Some (Thread_new (ivr_thread_id sm))"
  shows "SmConnectionInviter_can_progress_state sm (AM_Notification (N_ProblemReport report))
    \<and> (\<exists>sm'. SmConnectionInviter_handle_confirmation_message sm (AM_Notification (N_ProblemReport report)) = Inr sm'
         \<and> SmConnectionInviter_get_state sm' = InviterState_Completed)"
  using assms by (simp add: SmConnectionInviter_can_progress_state_def SmConnectionInviter_handle_confirmation_message_def
      util_verify_thread_id_def SmConnectionInviter_get_state_def)

text \<open>
  A request that arrives late, in a state where it is ignored, still replaces the pairwise keys.
\<close>

theorem late_request_replaces_keys:
  assumes "ivr_state sm = Ver_Responded st" "od_thread (msg_decorators request) = Some (Thread_new (ivr_thread_id sm))"
  shows "SmConnectionInviter_handle_connection_request env sm request info rts ep send s
           = (Inr (sm\<lparr>ivr_pairwise_info := info\<rparr>), s)"
  using assms by (simp add: SmConnectionInviter_handle_connection_request_def util_verify_thread_id_def
      vbind_def run_simps)

text \<open>
  An invitee that went back to its initial state, after a problem report or a response that it could not
  verify, refuses every further invitation: its DID document is gone.
\<close>

theorem failed_invitee_refuses_invitations:
  assumes "ive_state sm = Vee_Requested st" "SmConnectionInvitee_handle_problem_report sm report = Inr sm'"
  shows "SmConnectionInvitee_get_state sm' = InviteeState_Initial
    \<and> (\<exists>e. SmConnectionInvitee_handle_invitation sm' invitation = Inl e)"
  using assms by (auto simp: SmConnectionInvitee_handle_problem_report_def SmConnectionInvitee_handle_invitation_def
      SmConnectionInvitee_get_state_def Let_def)

text \<open>
  A response whose signed data are shorter than the timestamp, and correctly signed by the inviter,
  makes the invitee panic.
\<close>

theorem short_signed_data_panics:
  assumes "ce_b64url_dec env (cs_signature sg) = Some signature" "ce_b64url_dec env (cs_sig_data sg) = Some sig_data"
    and "ce_verify env vk sig_data signature (rt_world s) = (Inr True, w)" "cs_signer sg = vk" "length sig_data < 8"
  shows "\<exists>s'. decode_signed_connection_response env \<lparr>connection_sig = sg\<rparr> vk s = (Inr None, s')"
  using assms by (simp add: decode_signed_connection_response_def vbind_def run_simps call_def Let_def)

subsection \<open>Concrete runs\<close>

definition demo_deliver :: "unit SendClosureConnection" where
  "demo_deliver m vk d s = (Inr (), s)"

lemma demo_transport: "transport demo_deliver" "quiet demo_deliver"
  by (simp_all add: transport_def takes_def quiet_def sends_only_def demo_deliver_def)

definition demo_inviter :: SmConnectionInviter where
  "demo_inviter = \<lparr>ivr_source_id = ''alice'', ivr_thread_id = ''t1'',
     ivr_pairwise_info = \<lparr>pw_did = ''did0'', pw_vk = ''vk0''\<rparr>, ivr_state = Ver_Initial \<lparr>vri_problem_report = None\<rparr>\<rparr>"

definition demo_party :: "string \<Rightarrow> conn_party" where
  "demo_party n = \<lparr>cp_label = n, cp_info = \<lparr>pw_did = ''did-'' @ n, pw_vk = ''vk-'' @ n\<rparr>, cp_routing_keys = [''r''],
     cp_endpoint = ''http://'' @ n\<rparr>"

lemma demo_conn_basics:
  "valid_verkey (lib_bs58 (ce_lib demo_conn)) k"
  "ce_url_parse demo_conn u = Some u"
  "ce_sign demo_conn k d w = (Inr (k @ d), w)"
  by (simp_all add: demo_conn_def demo_lib_def valid_verkey_def)

theorem handshake_connects_witness:
  "\<exists>inviter invitee s'. mediated_handshake demo_conn demo_conn demo_deliver demo_deliver demo_inviter []
       ''http://a'' (demo_party ''bob'') (demo_party ''alice'') demo_runtime = (Inr (inviter, invitee), s')
     \<and> SmConnectionInviter_get_state inviter = InviterState_Completed
     \<and> SmConnectionInvitee_get_state invitee = InviteeState_Completed
     \<and> ivr_thread_id inviter = ''t1'' \<and> ive_thread_id invitee = ''t1''"
  using handshake_connects [of demo_inviter "\<lparr>vri_problem_report = None\<rparr>" demo_deliver demo_deliver demo_conn
      demo_conn "demo_party ''bob''" "demo_party ''alice''" "[]" "''http://a''" demo_runtime]
  by (auto simp: demo_transport demo_conn_laws demo_conn_basics demo_inviter_def demo_party_def)

definition demo_invite :: PairwiseInvitation where
  "demo_invite = MsgParts_with_decorators ''t1''
     \<lparr>pwinv_label = ''alice'', pwinv_recipient_keys = [''vk0''], pwinv_routing_keys = [],
      pwinv_service_endpoint = ''http://a''\<rparr> \<lparr>md_timing = None\<rparr>"

definition demo_ddo :: AriesDidDoc where
  "demo_ddo = built_did_doc ''t1'' [''vk0''] [] ''http://a''"

definition demo_invitee :: SmConnectionInvitee where
  "demo_invitee = SmConnectionInvitee_new ''bob'' \<lparr>pw_did = ''did-bob'', pw_vk = ''vk-bob''\<rparr> demo_ddo"

lemma demo_signed_response:
  obtains response :: ConnResponse where "kd_thread (msg_decorators response) = Thread_new ''t1''"
    "\<And>s :: unit runtime. \<exists>s'. decode_signed_connection_response demo_conn (msg_content response) ''vk0'' s
        = (Inr (Some (ConnectionData_new ''did1'' (built_did_doc ''did1'' [''vk1''] [] ''http://b''))), s')"
proof -
  let ?cd = "ConnectionData_new ''did1'' (built_did_doc ''did1'' [''vk1''] [] ''http://b'')"
  obtain con_sig t where sg: "sign_connection_response demo_conn ''vk0'' ?cd demo_runtime = (Inr con_sig, t)"
    by (simp add: sign_connection_response_def get_signature_data_def unix_timestamp_def vbind_def run_simps
        call_def demo_conn_basics Let_def)
  have "\<exists>s'. decode_signed_connection_response demo_conn \<lparr>connection_sig = con_sig\<rparr> ''vk0'' s = (Inr (Some ?cd), s')" for s :: "unit runtime"
    by (rule signed_response_accepted [OF sg demo_conn_laws(2,1)])
       (simp add: ConnectionData_new_def urls_stable_built demo_conn_basics)
  then show ?thesis
    using that [of "MsgParts_with_decorators ''r1'' \<lparr>connection_sig = con_sig\<rparr>
        (ack_decorators_new (Thread_new ''t1''))"] by (simp add: ack_decorators_new_def)
qed

lemma demo_invitee_run:
  "\<exists>sm s. invitee_reach demo_conn demo_deliver demo_invitee demo_runtime sm s
     \<and> SmConnectionInvitee_get_state sm = InviteeState_Completed"
proof -
  let ?reach = "invitee_reach demo_conn demo_deliver demo_invitee demo_runtime"
  let ?info = "\<lparr>pw_did = ''did-bob'', pw_vk = ''vk-bob''\<rparr>"
  define est where "est = \<lparr>vev_invitation = Inv_Con (Inv_Pairwise demo_invite), vev_did_doc = demo_ddo\<rparr>"
  define ee1 where "ee1 = demo_invitee\<lparr>ive_state := Vee_Invited est, ive_thread_id := ''t1''\<rparr>"
  have "invitee_step demo_conn demo_deliver demo_invitee (Op_invitation (Inv_Con (Inv_Pairwise demo_invite)))
      demo_runtime = (Inr (Some ee1), demo_runtime)"
    by (simp add: SmConnectionInvitee_handle_invitation_def demo_invitee_def SmConnectionInvitee_new_def ee1_def
        est_def demo_invite_def InviteeInvitedState_from_initial_def run_simps Let_def)
  then have r1: "?reach ee1 demo_runtime" by (rule invitee_reach.success [OF invitee_reach.start])
  have ee1: "ive_state ee1 = Vee_Invited est" "vev_invitation est = Inv_Con (Inv_Pairwise demo_invite)"
      "ive_thread_id ee1 = ''t1''" "vev_did_doc est = demo_ddo"
    by (simp_all add: ee1_def est_def)
  obtain request s1 where q:
      "SmConnectionInvitee_send_connection_request ee1 [] ''http://b'' demo_deliver demo_runtime =
         (Inr (ee1\<lparr>ive_state := Vee_Requested (InviteeRequestedState_from_invited est request demo_ddo)\<rparr>), s1)"
      "od_thread (msg_decorators request) = Some (Thread_new ''t1'')"
    using handshake_request [OF transportD [OF demo_transport(1)] ee1(1,2)] ee1(3,4) by metis
  define qst where "qst = InviteeRequestedState_from_invited est request demo_ddo"
  define ee2 where "ee2 = ee1\<lparr>ive_state := Vee_Requested qst\<rparr>"
  have "invitee_step demo_conn demo_deliver ee1 (Op_send_request [] ''http://b'') demo_runtime = (Inr (Some ee2), s1)"
    using q(1) by (simp add: vbind_def run_simps flip: qst_def ee2_def)
  then have r2: "?reach ee2 s1" by (rule invitee_reach.success [OF r1])
  obtain response :: ConnResponse where response: "kd_thread (msg_decorators response) = Thread_new ''t1''"
    "\<And>s :: unit runtime. \<exists>s'. decode_signed_connection_response demo_conn (msg_content response) ''vk0'' s
        = (Inr (Some (ConnectionData_new ''did1'' (built_did_doc ''did1'' [''vk1''] [] ''http://b''))), s')"
    using demo_signed_response by blast
  then obtain s2 cd where dec: "decode_signed_connection_response demo_conn (msg_content response) ''vk0'' s1 = (Inr (Some cd), s2)"
    by blast
  define ee3 where "ee3 = ee2\<lparr>ive_state := Vee_Responded (InviteeRespondedState_from_requested qst cd)\<rparr>"
  have "SmConnectionInvitee_handle_connection_response demo_conn ee2 response demo_deliver s1 = (Inr (Some ee3), s2)"
    unfolding ee3_def
    by (rule handshake_response [OF _ _ _ _ dec])
       (simp_all add: ee2_def qst_def InviteeRequestedState_from_invited_def q(2) ee1 response(1) demo_ddo_def demo_keys_valid)
  then have r3: "?reach ee3 s2" using invitee_reach.success [OF r2, of "Op_response response"] by simp
  obtain s3 where "SmConnectionInvitee_handle_send_ack ee3 demo_deliver s2 =
       (Inr (ee3\<lparr>ive_state := Vee_Completed (InviteeCompletedState_from_responded
          (InviteeRespondedState_from_requested qst cd))\<rparr>), s3)"
    using handshake_ack [OF transportD [OF demo_transport(1)], of ee3] by (metis ee3_def SmConnectionInvitee.select_convs(4) SmConnectionInvitee.surjective SmConnectionInvitee.update_convs(4))
  then have "?reach (ee3\<lparr>ive_state := Vee_Completed (InviteeCompletedState_from_responded
          (InviteeRespondedState_from_requested qst cd))\<rparr>) s3"
    using invitee_reach.success [OF r3, of Op_send_ack] by (simp add: vbind_def run_simps)
  then show ?thesis by (auto simp: SmConnectionInvitee_get_state_def intro!: exI)
qed

theorem completed_invitee_verified_inviter_witness:
  "\<exists>sm s request ack cd. invitee_reach demo_conn demo_deliver demo_invitee demo_runtime sm s
     \<and> request_sent (rt_outbox s) (ive_thread_id sm) request
     \<and> AM_Notification (N_Ack ack) \<in> set (rt_outbox s)
     \<and> SmConnectionInvitee_their_did_doc sm = Some (cd_did_doc cd)
     \<and> response_accepted (demo_conn :: unit conn_env) demo_ddo (ive_thread_id sm) cd"
proof -
  obtain sm s where r: "invitee_reach demo_conn demo_deliver demo_invitee demo_runtime sm s"
      "SmConnectionInvitee_get_state sm = InviteeState_Completed"
    using demo_invitee_run by blast
  then show ?thesis
    using completed_invitee_verified_inviter [OF r(1) [unfolded demo_invitee_def] demo_transport(2) r(2)] by blast
qed

end
