(* ===== verification/Small_Protocols.thy ===== *)
theory Small_Protocols
  imports Mediated_Connection
begin

text \<open>
  The single-exchange protocols that a connection carries: trust ping (aries_vcx/src/protocols/trustping
  and handlers/trust_ping), feature discovery (handlers/discovery, and the lookup of
  messages/src/msg_fields/protocols/discover_features/query.rs) and the reuse messages of out-of-band
  (protocols/oob). The protocol registry is a list of its entries, in the order of their iteration.

  Shown: a ping and its response, and a reuse and its acceptance, belong together; a ping sender
  takes exactly the responses on its thread that it asked for, and sends its ping once.
\<close>

subsection \<open>Trust ping\<close>

definition build_ping :: "bool \<Rightarrow> string option \<Rightarrow> ('w, Ping) vcx" where
  "build_ping request_response comment =
     (let content = \<lparr>ping_response_requested = request_response, ping_comment = comment\<rparr>
      in vbind utc_now (\<lambda>now.
         vbind new_v4 (\<lambda>i.
           vret (MsgParts_with_decorators i content
             (opt_decorators_default\<lparr>od_timing := Some (out_timing now)\<rparr>)))))"

definition build_ping_response :: "Ping \<Rightarrow> ('w, PingResponse) vcx" where
  "build_ping_response ping =
     (let thread_id = thid_or (msg_id ping) (od_thread (msg_decorators ping))
      in vbind utc_now (\<lambda>now.
         vbind new_v4 (\<lambda>i.
           vret (MsgParts_with_decorators i \<lparr>pingresp_comment = None\<rparr>
             ((thr_decorators_new (Thread_new thread_id))\<lparr>td_timing := Some (out_timing now)\<rparr>)))))"

record TrustPingSender =
  tps_ping :: Ping
  tps_ping_sent :: bool
  tps_response_received :: bool

definition TrustPingSender_build :: "bool \<Rightarrow> string option \<Rightarrow> ('w, TrustPingSender) vcx" where
  "TrustPingSender_build request_response comment =
     vbind (build_ping request_response comment) (\<lambda>ping.
       vret \<lparr>tps_ping = ping, tps_ping_sent = False, tps_response_received = False\<rparr>)"

definition TrustPingSender_get_thread_id :: "TrustPingSender \<Rightarrow> string" where
  "TrustPingSender_get_thread_id self =
     thid_or (msg_id (tps_ping self)) (od_thread (msg_decorators (tps_ping self)))"

definition TrustPingSender_send_ping ::
    "(AriesMessage \<Rightarrow> ('w, unit) vcx) \<Rightarrow> (TrustPingSender, 'w, unit) hop" where
  "TrustPingSender_send_ping send self s =
     (if tps_ping_sent self then
        (Inl (AriesVcxError_from_msg NotReady ''Ping message has already been sent''), self, s)
      else
        (case send (AM_TrustPing (T_Ping (tps_ping self))) s of
           (Inl e, s') \<Rightarrow> (Inl e, self, s')
         | (Inr _, s') \<Rightarrow> (Inr (), self\<lparr>tps_ping_sent := True\<rparr>, s')))"

definition TrustPingSender_handle_ping_response ::
    "TrustPingSender \<Rightarrow> PingResponse \<Rightarrow> unit vcx_result \<times> TrustPingSender" where
  "TrustPingSender_handle_ping_response self ping =
     (if \<not> matches_thread_id (td_thread (msg_decorators ping)) (TrustPingSender_get_thread_id self) then
        (Inl (AriesVcxError_from_msg NotReady ''Thread ID mismatch''), self)
      else if \<not> ping_response_requested (msg_content (tps_ping self)) then
        (Inl (AriesVcxError_from_msg NotReady ''Message was not expected''), self)
      else (Inr (), self\<lparr>tps_response_received := True\<rparr>))"

subsection \<open>Out-of-band reuse\<close>

definition build_handshake_reuse_msg :: "OobInvitation \<Rightarrow> ('w, HandshakeReuse) vcx" where
  "build_handshake_reuse_msg oob_invitation =
     vbind new_v4 (\<lambda>i.
     vbind utc_now (\<lambda>now.
       let thread = (Thread_new i)\<lparr>pthid := Some (msg_id oob_invitation)\<rparr>
       in vret (MsgParts_with_decorators i ()
            ((thr_decorators_new thread)\<lparr>td_timing := Some (out_timing now)\<rparr>))))"

text \<open>The timing is computed and dropped, as in the code.\<close>

definition build_handshake_reuse_accepted_msg :: "HandshakeReuse \<Rightarrow> ('w, HandshakeReuseAccepted) vcx" where
  "build_handshake_reuse_accepted_msg handshake_reuse =
     (let thread = td_thread (msg_decorators handshake_reuse)
      in vbind (vlift (ok_or (pthid thread)
                  (AriesVcxError_from_msg InvalidOption ''Parent thread id missing''))) (\<lambda>pthread_id.
           let thread' = (Thread_new (thid thread))\<lparr>pthid := Some pthread_id\<rparr>
           in vbind utc_now (\<lambda>now.
              vbind new_v4 (\<lambda>i.
                vret (MsgParts_with_decorators i () (thr_decorators_new thread'))))))"

subsection \<open>Feature discovery\<close>

record RegistryEntry =
  re_protocol :: Protocol
  re_minor :: "8 word"
  re_str_pid :: string
  re_roles :: "Role MaybeKnown list"

definition starts_with :: "string \<Rightarrow> string \<Rightarrow> bool" where
  "starts_with p s = (str_strip_prefix p s \<noteq> None)"

definition QueryContent_lookup :: "RegistryEntry list \<Rightarrow> QueryContent \<Rightarrow> ProtocolDescriptor list" where
  "QueryContent_lookup registry self =
     (let query = hd (split_on (CHR ''*'') (q_query self))
      in map (\<lambda>entry. \<lparr>pd_pid = Known (re_protocol entry), pd_roles = Some (re_roles entry)\<rparr>)
           (filter (\<lambda>entry. starts_with query (re_str_pid entry)) registry))"

definition DiscloseContent_default :: "RegistryEntry list \<Rightarrow> DiscloseContent" where
  "DiscloseContent_default registry = \<lparr>disc_protocols =
     map (\<lambda>entry. \<lparr>pd_pid = Known (re_protocol entry), pd_roles = Some (re_roles entry)\<rparr>) registry\<rparr>"

definition send_discovery_query ::
    "'w conn_env \<Rightarrow> string option \<Rightarrow> string option \<Rightarrow> AriesDidDoc \<Rightarrow> string \<Rightarrow> ('w, unit) vcx" where
  "send_discovery_query env query comment did_doc vk =
     (let content = \<lparr>q_query = unwrap_or query ''*'', q_comment = comment\<rparr>
      in vbind utc_now (\<lambda>now.
         vbind new_v4 (\<lambda>i.
           let query = MsgParts_with_decorators i content \<lparr>md_timing = Some (out_timing now)\<rparr>;
               message = AM_DiscoverFeatures (D_Query query)
           in deliver (\<lambda>m vk d. utils_send_message env vk d m) message vk did_doc)))"

definition respond_discovery_query ::
    "RegistryEntry list \<Rightarrow> 'w conn_env \<Rightarrow> DFQuery \<Rightarrow> AriesDidDoc \<Rightarrow> string \<Rightarrow> ProtocolDescriptor list
       \<Rightarrow> ('w, unit) vcx" where
  "respond_discovery_query registry env query did_doc vk _ =
     vbind utc_now (\<lambda>now.
     vbind new_v4 (\<lambda>i.
       let disclose = MsgParts_with_decorators i (DiscloseContent_default registry)
             ((thr_decorators_new (Thread_new (msg_id query)))\<lparr>td_timing := Some (out_timing now)\<rparr>);
           message = AM_DiscoverFeatures (D_Disclose disclose)
       in deliver (\<lambda>m vk d. utils_send_message env vk d m) message vk did_doc))"

subsection \<open>Pings and answers belong together\<close>

lemma ping_response_accepted:
  assumes "build_ping_response (tps_ping self) s = (Inr response, s')"
    and "ping_response_requested (msg_content (tps_ping self))"
  shows "TrustPingSender_handle_ping_response self response = (Inr (), self\<lparr>tps_response_received := True\<rparr>)"
  using assms
  by (auto simp: build_ping_response_def TrustPingSender_handle_ping_response_def
      TrustPingSender_get_thread_id_def vbind_Inr_iff thr_decorators_new_def Let_def)

lemma ping_response_refused:
  assumes "TrustPingSender_handle_ping_response self response = (Inl e, self')"
  shows "self' = self \<and> (\<not> matches_thread_id (td_thread (msg_decorators response)) (TrustPingSender_get_thread_id self)
           \<or> \<not> ping_response_requested (msg_content (tps_ping self)))"
  using assms by (auto simp: TrustPingSender_handle_ping_response_def split: if_splits)

lemma ping_sent_once:
  assumes "TrustPingSender_send_ping send self s = (Inr (), self', s')"
  shows "\<not> tps_ping_sent self \<and> (\<exists>e. TrustPingSender_send_ping send self' t = (Inl e, self', t))"
  using assms by (auto simp: TrustPingSender_send_ping_def split: if_splits prod.splits sum.splits)

lemma reuse_accepted_matches:
  assumes "build_handshake_reuse_msg oob s = (Inr reuse, s1)"
  shows "\<exists>accepted s'. build_handshake_reuse_accepted_msg reuse s1 = (Inr accepted, s')
    \<and> thid (td_thread (msg_decorators accepted)) = msg_id reuse
    \<and> pthid (td_thread (msg_decorators accepted)) = Some (msg_id oob)
    \<and> td_timing (msg_decorators accepted) = None"
  using assms
  by (auto simp: build_handshake_reuse_msg_def build_handshake_reuse_accepted_msg_def vbind_Inr_iff
      vbind_def run_simps thr_decorators_new_def Let_def)

text \<open>
  The answer to a discovery query discloses the whole registry, whatever was asked for: the protocols
  that were looked up for the query are not used.
\<close>

lemma discovery_answer_ignores_query:
  assumes "msg_id query = msg_id query'"
  shows "respond_discovery_query registry env query did_doc vk ps
           = respond_discovery_query registry env query' did_doc vk ps'"
  using assms by (simp add: respond_discovery_query_def)

lemma lookup_all: "disc_protocols (DiscloseContent_default registry)
  = QueryContent_lookup registry \<lparr>q_query = ''*'', q_comment = c\<rparr>"
  by (simp add: DiscloseContent_default_def QueryContent_lookup_def starts_with_def str_strip_prefix_def Let_def)

end
