(* ===== verification/Message_Types.thy ===== *)
theory Message_Types
  imports Small_Protocols
begin

text \<open>
  Message types (messages/src/msg_types and error.rs, and the code that the derive macro of
  messages_macros/src/message_type.rs generates): the names, versions and roles of the protocols, the
  protocol registry and its resolution of minor versions, \<open>Protocol::from_str\<close> and its \<open>Display\<close>, the
  message kinds of every protocol and the \<open>@type\<close> of a message. Every protocol has one version in this
  code base, so the enums of major and minor versions carry no data and a \<open>Protocol\<close> is its name.
  The kinds of a protocol are a table of the names that \<open>strum\<close> derives; the locales \<open>name_table\<close> and
  \<open>kind_table\<close> state what reading and writing a kind rests on; they are interpreted for every protocol.

  Shown: a protocol and a message type that are printed are read back; a protocol text is accepted
  exactly if its name and major version are known and its minor version is not below the supported one,
  and then it denotes the supported version; every entry of the registry can be read.
\<close>

subsection \<open>Kinds of messages\<close>

datatype RoutingTypeV1_0 = RK_Forward
datatype ConnectionTypeV1_0 = CK_Invitation | CK_Request | CK_Response | CK_ProblemReport
datatype SignatureTypeV1_0 = SK_Ed25519Sha512Single
datatype RevocationTypeV2_0 = VK_Revoke | VK_Ack
datatype CredentialIssuanceTypeV1_0 =
    IK_OfferCredential | IK_ProposeCredential | IK_RequestCredential | IK_IssueCredential
  | IK_CredentialPreview | IK_Ack
datatype ReportProblemTypeV1_0 = PK_ProblemReport
datatype PresentProofTypeV1_0 =
    FK_ProposePresentation | FK_RequestPresentation | FK_Presentation | FK_PresentationPreview | FK_Ack
datatype TrustPingTypeV1_0 = TK_Ping | TK_PingResponse
datatype DiscoverFeaturesTypeV1_0 = DK_Query | DK_Disclose
datatype BasicMessageTypeV1_0 = BK_Message
datatype OutOfBandTypeV1_1 = OK_Invitation | OK_HandshakeReuse | OK_HandshakeReuseAccepted
datatype NotificationTypeV1_0 = NK_Ack | NK_ProblemReport

definition RoutingTypeV1_0_names :: "(string \<times> RoutingTypeV1_0) list" where
  "RoutingTypeV1_0_names = [(''forward'', RK_Forward)]"

definition ConnectionTypeV1_0_names :: "(string \<times> ConnectionTypeV1_0) list" where
  "ConnectionTypeV1_0_names =
     [(''invitation'', CK_Invitation), (''request'', CK_Request), (''response'', CK_Response),
      (''problem_report'', CK_ProblemReport)]"

definition SignatureTypeV1_0_names :: "(string \<times> SignatureTypeV1_0) list" where
  "SignatureTypeV1_0_names = [(''ed25519Sha512_single'', SK_Ed25519Sha512Single)]"

definition RevocationTypeV2_0_names :: "(string \<times> RevocationTypeV2_0) list" where
  "RevocationTypeV2_0_names = [(''revoke'', VK_Revoke), (''ack'', VK_Ack)]"

definition CredentialIssuanceTypeV1_0_names :: "(string \<times> CredentialIssuanceTypeV1_0) list" where
  "CredentialIssuanceTypeV1_0_names =
     [(''offer-credential'', IK_OfferCredential), (''propose-credential'', IK_ProposeCredential),
      (''request-credential'', IK_RequestCredential), (''issue-credential'', IK_IssueCredential),
      (''credential-preview'', IK_CredentialPreview), (''ack'', IK_Ack)]"

definition ReportProblemTypeV1_0_names :: "(string \<times> ReportProblemTypeV1_0) list" where
  "ReportProblemTypeV1_0_names = [(''problem-report'', PK_ProblemReport)]"

definition PresentProofTypeV1_0_names :: "(string \<times> PresentProofTypeV1_0) list" where
  "PresentProofTypeV1_0_names =
     [(''propose-presentation'', FK_ProposePresentation), (''request-presentation'', FK_RequestPresentation),
      (''presentation'', FK_Presentation), (''presentation-preview'', FK_PresentationPreview), (''ack'', FK_Ack)]"

definition TrustPingTypeV1_0_names :: "(string \<times> TrustPingTypeV1_0) list" where
  "TrustPingTypeV1_0_names = [(''ping'', TK_Ping), (''ping_response'', TK_PingResponse)]"

definition DiscoverFeaturesTypeV1_0_names :: "(string \<times> DiscoverFeaturesTypeV1_0) list" where
  "DiscoverFeaturesTypeV1_0_names = [(''query'', DK_Query), (''disclose'', DK_Disclose)]"

definition BasicMessageTypeV1_0_names :: "(string \<times> BasicMessageTypeV1_0) list" where
  "BasicMessageTypeV1_0_names = [(''message'', BK_Message)]"

definition OutOfBandTypeV1_1_names :: "(string \<times> OutOfBandTypeV1_1) list" where
  "OutOfBandTypeV1_1_names =
     [(''invitation'', OK_Invitation), (''handshake-reuse'', OK_HandshakeReuse),
      (''handshake-reuse-accepted'', OK_HandshakeReuseAccepted)]"

definition NotificationTypeV1_0_names :: "(string \<times> NotificationTypeV1_0) list" where
  "NotificationTypeV1_0_names = [(''ack'', NK_Ack), (''problem-report'', NK_ProblemReport)]"

text \<open>\<open>FromStr\<close> and \<open>AsRef<str>\<close> of the enums, as \<open>strum\<close> derives them.\<close>

definition kind_from_str :: "(string \<times> 'k) list \<Rightarrow> string \<Rightarrow> 'k option" where
  "kind_from_str names kind_str = map_of names kind_str"

definition kind_as_ref :: "(string \<times> 'k) list \<Rightarrow> 'k \<Rightarrow> string" where
  "kind_as_ref names kind = unwrap_or (map_of (map (\<lambda>(n, k). (k, n)) names) kind) []"

subsection \<open>Protocols\<close>

datatype MsgTypeError =
    UnknownPrefix string
  | UnknownMsgKind string
  | UnsupportedMinorVer "8 word"
  | UnsupportedMajorVer "8 word"
  | UnknownProtocol string
  | InvalidVersion
  | PartNotFound string

definition DID_COM_ORG_PREFIX :: string where
  "DID_COM_ORG_PREFIX = ''https://didcomm.org''"

definition DID_SOV_PREFIX :: string where
  "DID_SOV_PREFIX = ''did:sov:BzCbsNYhMrjHiqZDTUASHg;spec''"

fun as_parts :: "Protocol \<Rightarrow> string \<times> 8 word \<times> 8 word" where
  "as_parts RoutingType = (''routing'', 1, 0)"
| "as_parts ConnectionType = (''connections'', 1, 0)"
| "as_parts SignatureType = (''signature'', 1, 0)"
| "as_parts RevocationType = (''revocation_notification'', 2, 0)"
| "as_parts CredentialIssuanceType = (''issue-credential'', 1, 0)"
| "as_parts ReportProblemType = (''report-problem'', 1, 0)"
| "as_parts PresentProofType = (''present-proof'', 1, 0)"
| "as_parts TrustPingType = (''trust_ping'', 1, 0)"
| "as_parts DiscoverFeaturesType = (''discover-features'', 1, 0)"
| "as_parts BasicMessageType = (''basicmessage'', 1, 0)"
| "as_parts OutOfBandType = (''out-of-band'', 1, 1)"
| "as_parts NotificationType = (''notification'', 1, 0)"

fun protocol_roles :: "Protocol \<Rightarrow> Role MaybeKnown list" where
  "protocol_roles RoutingType = [Known Role_Mediator]"
| "protocol_roles ConnectionType = [Known Role_Inviter, Known Role_Invitee]"
| "protocol_roles SignatureType = []"
| "protocol_roles RevocationType = [Known Role_Holder, Known Role_Issuer]"
| "protocol_roles CredentialIssuanceType = [Known Role_Holder, Known Role_Issuer]"
| "protocol_roles ReportProblemType = [Known Role_Notified, Known Role_Notifier]"
| "protocol_roles PresentProofType = [Known Role_Prover, Known Role_Verifier]"
| "protocol_roles TrustPingType = [Known Role_Sender, Known Role_Receiver]"
| "protocol_roles DiscoverFeaturesType = [Known Role_Requester, Known Role_Responder]"
| "protocol_roles BasicMessageType = [Known Role_Receiver, Known Role_Sender]"
| "protocol_roles OutOfBandType = [Known Role_Receiver, Known Role_Sender]"
| "protocol_roles NotificationType = [Known Role_Notified, Known Role_Notifier]"

definition u8_to_string :: "8 word \<Rightarrow> string" where
  "u8_to_string w = nat_to_string (unat w)"

definition Protocol_display :: "Protocol \<Rightarrow> string" where
  "Protocol_display self = (case as_parts self of (protocol, major, minor) \<Rightarrow>
     DID_COM_ORG_PREFIX @ ''/'' @ protocol @ ''/'' @ u8_to_string major @ ''.'' @ u8_to_string minor)"

subsection \<open>The registry\<close>

type_synonym RegistryMap = "((string \<times> 8 word) \<times> RegistryEntry list) list"

definition map_insert :: "RegistryMap \<Rightarrow> Protocol \<Rightarrow> RegistryMap" where
  "map_insert m protocol = (case as_parts protocol of (protocol_name, major, minor) \<Rightarrow>
     let str_pid = DID_COM_ORG_PREFIX @ ''/'' @ protocol_name @ ''/'' @ u8_to_string major @ ''.'' @ u8_to_string minor;
         entry = \<lparr>re_protocol = protocol, re_minor = minor, re_str_pid = str_pid, re_roles = protocol_roles protocol\<rparr>
     in dict_insert (protocol_name, major) (unwrap_or (map_of m (protocol_name, major)) [] @ [entry]) m)"

definition PROTOCOL_REGISTRY :: RegistryMap where
  "PROTOCOL_REGISTRY = foldl map_insert []
     [RoutingType, BasicMessageType, ConnectionType, SignatureType, CredentialIssuanceType,
      DiscoverFeaturesType, NotificationType, OutOfBandType, PresentProofType, ReportProblemType,
      RevocationType, TrustPingType]"

definition registry_entries :: "RegistryEntry list" where
  "registry_entries = concat (map snd PROTOCOL_REGISTRY)"

definition get_supported_version :: "string \<Rightarrow> 8 word \<Rightarrow> 8 word \<Rightarrow> 8 word option" where
  "get_supported_version name major minor =
     Option.bind (map_of PROTOCOL_REGISTRY (name, major)) (\<lambda>v.
       find (\<lambda>m. m \<le> minor) (map re_minor (rev v)))"

definition try_resolve_version :: "Protocol \<Rightarrow> 8 word \<Rightarrow> (MsgTypeError, Protocol) result" where
  "try_resolve_version p minor = (case as_parts p of (protocol, major, own_minor) \<Rightarrow>
     (case get_supported_version protocol major minor of
        None \<Rightarrow> Inl (UnsupportedMinorVer minor)
      | Some minor \<Rightarrow> if minor = own_minor then Inr p else Inl (UnsupportedMinorVer minor)))"

definition try_from_version_parts :: "Protocol \<Rightarrow> 8 word \<Rightarrow> 8 word \<Rightarrow> (MsgTypeError, Protocol) result" where
  "try_from_version_parts p major minor = (case as_parts p of (_, own_major, _) \<Rightarrow>
     if major = own_major then try_resolve_version p minor else Inl (UnsupportedMajorVer major))"

fun match_protocol :: "Protocol list \<Rightarrow> string \<Rightarrow> 8 word \<Rightarrow> 8 word \<Rightarrow> (MsgTypeError, Protocol) result" where
  "match_protocol [] protocol major minor = Inl (UnknownProtocol protocol)"
| "match_protocol (p # ps) protocol major minor =
     (if protocol = fst (as_parts p) then try_from_version_parts p major minor
      else match_protocol ps protocol major minor)"

definition Protocol_from_parts :: "string \<Rightarrow> 8 word \<Rightarrow> 8 word \<Rightarrow> (MsgTypeError, Protocol) result" where
  "Protocol_from_parts = match_protocol
     [RoutingType, ConnectionType, SignatureType, RevocationType, CredentialIssuanceType, ReportProblemType,
      PresentProofType, TrustPingType, DiscoverFeaturesType, BasicMessageType, OutOfBandType, NotificationType]"

definition next_part :: "string list \<Rightarrow> nat \<Rightarrow> string \<Rightarrow> (MsgTypeError, string) result" where
  "next_part parts i name = ok_or (list_get parts i) (PartNotFound name)"

definition parse_u8 :: "string \<Rightarrow> (MsgTypeError, 8 word) result" where
  "parse_u8 s = ok_or (map_option of_nat (parse_uint (2 ^ 8) s)) InvalidVersion"

definition skip_slash :: "string \<Rightarrow> (MsgTypeError, nat) result" where
  "skip_slash s =
     (if starts_with DID_COM_ORG_PREFIX s then Inr 3
      else if starts_with DID_SOV_PREFIX s then Inr 1
      else Inl (UnknownPrefix s))"

definition Protocol_from_str :: "string \<Rightarrow> (MsgTypeError, Protocol) result" where
  "Protocol_from_str s =
     res_bind (skip_slash s) (\<lambda>skip.
       let parts = drop skip (split_on (CHR ''/'') s)
       in res_bind (next_part parts 0 ''protocol name'') (\<lambda>protocol_name.
          res_bind (next_part parts 1 ''protocol version'') (\<lambda>version.
            let version_parts = split_on (CHR ''.'') version
            in res_bind (res_bind (next_part version_parts 0 ''protocol major version'') parse_u8) (\<lambda>major.
               res_bind (res_bind (next_part version_parts 1 ''protocol minor version'') parse_u8) (\<lambda>minor.
                 Protocol_from_parts protocol_name major minor)))))"

subsection \<open>Message types\<close>

record MessageType =
  mt_protocol :: Protocol
  mt_kind :: string

text \<open>\<open>str::rsplit_once\<close> on one character.\<close>

definition rsplit_once :: "char \<Rightarrow> string \<Rightarrow> (string \<times> string) option" where
  "rsplit_once c s =
     (if c \<in> set s then
        Some (rev (tl (dropWhile (\<lambda>x. x \<noteq> c) (rev s))), rev (takeWhile (\<lambda>x. x \<noteq> c) (rev s)))
      else None)"

definition MessageType_try_from :: "string \<Rightarrow> (string, MessageType) result" where
  "MessageType_try_from msg_type_str =
     (case rsplit_once (CHR ''/'') msg_type_str of
        None \<Rightarrow> Inl (''Invalid message type: '' @ msg_type_str)
      | Some (protocol_str, kind) \<Rightarrow>
          (case Protocol_from_str protocol_str of
             Inl _ \<Rightarrow> Inl (''Cannot parse message type: '' @ msg_type_str @ ''; Error: {e}'')
           | Inr protocol \<Rightarrow> Inr \<lparr>mt_protocol = protocol, mt_kind = kind\<rparr>))"

definition serialize_msg_type :: "Protocol \<Rightarrow> string \<Rightarrow> string" where
  "serialize_msg_type protocol kind = Protocol_display protocol @ ''/'' @ kind"


subsection \<open>Versions\<close>

definition registry_item :: "Protocol \<Rightarrow> (string \<times> 8 word) \<times> RegistryEntry list" where
  "registry_item p = (case as_parts p of (name, major, minor) \<Rightarrow>
     ((name, major), [\<lparr>re_protocol = p, re_minor = minor, re_str_pid = Protocol_display p, re_roles = protocol_roles p\<rparr>]))"

lemma dict_insert_new: "map_of d k = None \<Longrightarrow> dict_insert k v d = d @ [(k, v)]"
  by (induction d) (auto split: if_splits)

lemma map_insert_new: "map_of m (fst (registry_item p)) = None \<Longrightarrow> map_insert m p = m @ [registry_item p]"
  by (cases "as_parts p")
     (simp add: map_insert_def registry_item_def Protocol_display_def dict_insert_new Let_def)

lemma registry_built:
  "distinct (map fst m @ map (fst \<circ> registry_item) ps) \<Longrightarrow> foldl map_insert m ps = m @ map registry_item ps"
proof (induction ps arbitrary: m)
  case (Cons p ps)
  then have "map_of m (fst (registry_item p)) = None" by (auto simp: map_of_eq_None_iff)
  then have "map_insert m p = m @ [registry_item p]" by (rule map_insert_new)
  moreover have "foldl map_insert (m @ [registry_item p]) ps = (m @ [registry_item p]) @ map registry_item ps"
    using Cons.prems by (intro Cons.IH) auto
  ultimately show ?case by simp
qed simp

lemma registry_closed:
  "PROTOCOL_REGISTRY = map registry_item
     [RoutingType, BasicMessageType, ConnectionType, SignatureType, CredentialIssuanceType,
      DiscoverFeaturesType, NotificationType, OutOfBandType, PresentProofType, ReportProblemType,
      RevocationType, TrustPingType]"
  unfolding PROTOCOL_REGISTRY_def by (subst registry_built) (simp_all add: registry_item_def)

lemma registered:
  assumes "as_parts p = (name, major, minor)"
  shows "map_of PROTOCOL_REGISTRY (name, major) =
    Some [\<lparr>re_protocol = p, re_minor = minor, re_str_pid = Protocol_display p, re_roles = protocol_roles p\<rparr>]"
proof (rule map_of_is_SomeI)
  show "distinct (map fst PROTOCOL_REGISTRY)" by (simp add: registry_closed registry_item_def)
  have "registry_item p \<in> set PROTOCOL_REGISTRY" by (cases p) (simp_all add: registry_closed)
  then show "((name, major), [\<lparr>re_protocol = p, re_minor = minor, re_str_pid = Protocol_display p,
      re_roles = protocol_roles p\<rparr>]) \<in> set PROTOCOL_REGISTRY"
    by (simp add: registry_item_def assms)
qed

lemma supported_version:
  "as_parts p = (name, major, own) \<Longrightarrow>
     get_supported_version name major minor = (if own \<le> minor then Some own else None)"
  by (simp add: get_supported_version_def registered)

lemma resolves_iff:
  "try_from_version_parts p major minor = Inr q \<longleftrightarrow>
     q = p \<and> fst (snd (as_parts p)) = major \<and> snd (snd (as_parts p)) \<le> minor"
  by (cases "as_parts p") (auto simp: try_from_version_parts_def try_resolve_version_def supported_version)

lemma match_protocol_iff:
  assumes "distinct (map (fst \<circ> as_parts) ps)"
  shows "match_protocol ps name major minor = Inr q \<longleftrightarrow>
     q \<in> set ps \<and> fst (as_parts q) = name \<and> fst (snd (as_parts q)) = major \<and> snd (snd (as_parts q)) \<le> minor"
  using assms
proof (induction ps)
  case (Cons p ps)
  show ?case
  proof (cases "name = fst (as_parts p)")
    case True
    then have "\<forall>r \<in> set ps. fst (as_parts r) \<noteq> name" using Cons.prems by (auto simp: image_iff)
    with True show ?thesis by (auto simp: resolves_iff)
  next
    case False
    then show ?thesis using Cons by auto
  qed
qed simp

lemma from_parts_iff:
  "Protocol_from_parts name major minor = Inr p \<longleftrightarrow> (\<exists>own. as_parts p = (name, major, own) \<and> own \<le> minor)"
proof -
  have "p \<in> set [RoutingType, ConnectionType, SignatureType, RevocationType, CredentialIssuanceType,
      ReportProblemType, PresentProofType, TrustPingType, DiscoverFeaturesType, BasicMessageType, OutOfBandType,
      NotificationType]"
    by (cases p) simp_all
  then show ?thesis
    unfolding Protocol_from_parts_def
    by (subst match_protocol_iff) (auto simp: prod_eq_iff)
qed

subsection \<open>Texts are read back\<close>

lemma u8_chars: "c \<in> set (u8_to_string w) \<Longrightarrow> is_digit c"
  using nat_to_string_digits by (auto simp: u8_to_string_def list_all_iff)

lemma parse_u8_to_string: "parse_u8 (u8_to_string w) = Inr w"
  using unsigned_less [where ?'a = nat, of w]
  by (simp add: parse_u8_def u8_to_string_def parse_uint_nat_to_string)

lemma version_split:
  "split_on (CHR ''.'') (u8_to_string a @ CHR ''.'' # u8_to_string b) = [u8_to_string a, u8_to_string b]"
proof -
  have "CHR ''.'' \<notin> set (u8_to_string w)" for w using u8_chars by (fastforce simp: is_digit_def)
  then show ?thesis by (simp add: split_on_append split_on_free)
qed

lemma version_plain: "CHR ''/'' \<notin> set (u8_to_string a @ CHR ''.'' # u8_to_string b)"
  using u8_chars by (fastforce simp: is_digit_def)

text \<open>The text of a protocol under a prefix, and how it is read.\<close>

definition protocol_text :: "string \<Rightarrow> string \<Rightarrow> 8 word \<Rightarrow> 8 word \<Rightarrow> string" where
  "protocol_text prefix name major minor =
     prefix @ ''/'' @ name @ ''/'' @ u8_to_string major @ ''.'' @ u8_to_string minor"

lemma text_split:
  assumes "CHR ''/'' \<notin> set name"
  shows "split_on (CHR ''/'') (protocol_text DID_COM_ORG_PREFIX name major minor) =
      [''https:'', [], ''didcomm.org'', name, u8_to_string major @ CHR ''.'' # u8_to_string minor]"
    and "split_on (CHR ''/'') (protocol_text DID_SOV_PREFIX name major minor) =
      [DID_SOV_PREFIX, name, u8_to_string major @ CHR ''.'' # u8_to_string minor]"
  using assms version_plain [of major minor]
  by (simp_all add: protocol_text_def DID_COM_ORG_PREFIX_def DID_SOV_PREFIX_def split_on_append split_on_free)

lemma text_skip:
  "skip_slash (protocol_text DID_COM_ORG_PREFIX name major minor) = Inr 3"
  "skip_slash (protocol_text DID_SOV_PREFIX name major minor) = Inr 1"
  by (simp_all add: skip_slash_def starts_with_def protocol_text_def)
     (simp add: str_strip_prefix_def DID_COM_ORG_PREFIX_def DID_SOV_PREFIX_def)

lemma text_read:
  assumes "CHR ''/'' \<notin> set name" "prefix = DID_COM_ORG_PREFIX \<or> prefix = DID_SOV_PREFIX"
  shows "Protocol_from_str (protocol_text prefix name major minor) = Protocol_from_parts name major minor"
  using assms(2)
  by (elim disjE)
     (simp_all add: Protocol_from_str_def text_skip text_split [OF assms(1)] next_part_def version_split
        parse_u8_to_string)

text \<open>
  C34. Version resolution: the text of a protocol, under the current prefix or the old one, is accepted
  exactly if the code has a protocol of that name in that major version whose minor version is not above
  the one of the text; the protocol returned is then that one.
\<close>

theorem protocol_version_resolution:
  assumes "CHR ''/'' \<notin> set name" "prefix = DID_COM_ORG_PREFIX \<or> prefix = DID_SOV_PREFIX"
  shows "Protocol_from_str (protocol_text prefix name major minor) = Inr p
     \<longleftrightarrow> (\<exists>own. as_parts p = (name, major, own) \<and> own \<le> minor)"
  by (simp add: text_read [OF assms] from_parts_iff)

theorem protocol_version_resolution_witness:
  "Protocol_from_str (protocol_text DID_SOV_PREFIX ''connections'' 1 7) = Inr ConnectionType
     \<and> (\<forall>p. Protocol_from_str (protocol_text DID_COM_ORG_PREFIX ''out-of-band'' 1 0) \<noteq> Inr p)"
proof
  show "Protocol_from_str (protocol_text DID_SOV_PREFIX ''connections'' 1 7) = Inr ConnectionType"
    by (subst protocol_version_resolution) simp_all
  have "as_parts p \<noteq> (''out-of-band'', 1, own)" if "own \<le> 0" for p own using that by (cases p) auto
  then show "\<forall>p. Protocol_from_str (protocol_text DID_COM_ORG_PREFIX ''out-of-band'' 1 0) \<noteq> Inr p"
    by (subst protocol_version_resolution) auto
qed

lemma prefix_not_exact: "Protocol_from_str ''https://didcomm.org.example/connections/1.0'' = Inr ConnectionType"
proof -
  have "skip_slash ''https://didcomm.org.example/connections/1.0'' = Inr 3"
    by (simp add: skip_slash_def starts_with_def str_strip_prefix_def DID_COM_ORG_PREFIX_def)
  then show ?thesis
    by (simp add: Protocol_from_str_def next_part_def list_get_def parse_u8_def parse_uint_def is_digit_def
        digits_value_def from_parts_iff)
qed

lemma name_plain: "CHR ''/'' \<notin> set (fst (as_parts p))"
  by (cases p) simp_all

lemma display_read: "Protocol_from_str (Protocol_display p) = Inr p"
proof -
  obtain name major minor where p: "as_parts p = (name, major, minor)" by (cases "as_parts p")
  then have "Protocol_display p = protocol_text DID_COM_ORG_PREFIX name major minor"
    by (simp add: Protocol_display_def protocol_text_def)
  then show ?thesis using name_plain [of p] p by (simp add: text_read from_parts_iff)
qed

lemma rsplit_once_last:
  assumes "c \<notin> set t"
  shows "rsplit_once c (s @ c # t) = Some (s, t)"
proof -
  have "takeWhile (\<lambda>x. x \<noteq> c) (rev t @ c # rev s) = rev t" "dropWhile (\<lambda>x. x \<noteq> c) (rev t @ c # rev s) = c # rev s"
    using assms by (subst takeWhile_append2 dropWhile_append2, auto)+
  then show ?thesis by (simp add: rsplit_once_def)
qed

lemma type_text_read:
  assumes "CHR ''/'' \<notin> set kind"
  shows "MessageType_try_from (serialize_msg_type p kind) = Inr \<lparr>mt_protocol = p, mt_kind = kind\<rparr>"
  using rsplit_once_last [OF assms, of "Protocol_display p"]
  by (simp add: MessageType_try_from_def serialize_msg_type_def display_read)

text \<open>
  The printed form of a protocol is read as that protocol, and the \<open>@type\<close> made of a protocol and
  a kind without a slash is read as that protocol and that kind; every text that the registry advertises
  in a discovery exchange is read as the advertised protocol.
\<close>

theorem message_type_roundtrip:
  "Protocol_from_str (Protocol_display p) = Inr p"
  "CHR ''/'' \<notin> set kind \<Longrightarrow>
     MessageType_try_from (serialize_msg_type p kind) = Inr \<lparr>mt_protocol = p, mt_kind = kind\<rparr>"
  "list_all (\<lambda>e. Protocol_from_str (re_str_pid e) = Inr (re_protocol e)) registry_entries"
proof -
  show "Protocol_from_str (Protocol_display p) = Inr p" by (rule display_read)
  show "MessageType_try_from (serialize_msg_type p kind) = Inr \<lparr>mt_protocol = p, mt_kind = kind\<rparr>"
    if "CHR ''/'' \<notin> set kind"
    by (rule type_text_read [OF that])
  show "list_all (\<lambda>e. Protocol_from_str (re_str_pid e) = Inr (re_protocol e)) registry_entries"
    by (simp add: registry_entries_def registry_closed registry_item_def display_read)
qed

theorem message_type_roundtrip_witness:
  "MessageType_try_from (serialize_msg_type ConnectionType ''request'')
     = Inr \<lparr>mt_protocol = ConnectionType, mt_kind = ''request''\<rparr>"
  by (rule message_type_roundtrip(2)) simp

subsection \<open>Kinds are read back\<close>

text \<open>
  What a table of names promises: different values have different names and every value has one. A table
  of kinds has no name with a slash either.
\<close>

locale name_table =
  fixes names :: "(string \<times> 'k) list"
  assumes names_distinct: "distinct (map fst names)" "distinct (map snd names)"
    and names_total: "snd ` set names = UNIV"
begin

lemma named: "(kind_as_ref names k, k) \<in> set names"
proof -
  obtain n where n: "(n, k) \<in> set names" using names_total by (metis UNIV_I imageE prod.collapse)
  have "map_of (map (\<lambda>(n, k). (k, n)) names) k = Some n"
    using n names_distinct(2) by (intro map_of_is_SomeI) (auto simp: comp_def case_prod_unfold intro: rev_image_eqI)
  then show ?thesis using n by (simp add: kind_as_ref_def)
qed

lemma from_as_ref: "kind_from_str names (kind_as_ref names k) = Some k"
  using named names_distinct(1) by (simp add: kind_from_str_def)

lemma from_str_iff: "kind_from_str names n = Some k \<longleftrightarrow> n = kind_as_ref names k"
proof
  assume "kind_from_str names n = Some k"
  then have "(n, k) \<in> set names" by (simp add: kind_from_str_def map_of_SomeD)
  then show "n = kind_as_ref names k"
    using named [of k] names_distinct(2) by (metis (no_types, lifting) distinct_map inj_onD snd_conv prod.inject)
qed (simp add: from_as_ref)

end

locale kind_table = name_table names
  for names :: "(string \<times> 'k) list" +
  assumes names_plain: "\<forall>n \<in> fst ` set names. CHR ''/'' \<notin> set n"
begin

lemma as_ref_plain: "CHR ''/'' \<notin> set (kind_as_ref names k)"
  using named [of k] names_plain by force

lemma type_read:
  "MessageType_try_from (serialize_msg_type p (kind_as_ref names k)) =
     Inr \<lparr>mt_protocol = p, mt_kind = kind_as_ref names k\<rparr>"
  by (rule type_text_read [OF as_ref_plain])

end

interpretation routing_kinds: kind_table RoutingTypeV1_0_names
  by unfold_locales (auto simp: RoutingTypeV1_0_names_def intro: RoutingTypeV1_0.exhaust)

interpretation connection_kinds: kind_table ConnectionTypeV1_0_names
  by unfold_locales (auto simp: ConnectionTypeV1_0_names_def intro: ConnectionTypeV1_0.exhaust)

interpretation signature_kinds: kind_table SignatureTypeV1_0_names
  by unfold_locales (auto simp: SignatureTypeV1_0_names_def intro: SignatureTypeV1_0.exhaust)

interpretation revocation_kinds: kind_table RevocationTypeV2_0_names
  by unfold_locales (auto simp: RevocationTypeV2_0_names_def intro: RevocationTypeV2_0.exhaust)

interpretation issuance_kinds: kind_table CredentialIssuanceTypeV1_0_names
  by unfold_locales (auto simp: CredentialIssuanceTypeV1_0_names_def intro: CredentialIssuanceTypeV1_0.exhaust)

interpretation report_kinds: kind_table ReportProblemTypeV1_0_names
  by unfold_locales (auto simp: ReportProblemTypeV1_0_names_def intro: ReportProblemTypeV1_0.exhaust)

interpretation proof_kinds: kind_table PresentProofTypeV1_0_names
  by unfold_locales (auto simp: PresentProofTypeV1_0_names_def intro: PresentProofTypeV1_0.exhaust)

interpretation ping_kinds: kind_table TrustPingTypeV1_0_names
  by unfold_locales (auto simp: TrustPingTypeV1_0_names_def intro: TrustPingTypeV1_0.exhaust)

interpretation discovery_kinds: kind_table DiscoverFeaturesTypeV1_0_names
  by unfold_locales (auto simp: DiscoverFeaturesTypeV1_0_names_def intro: DiscoverFeaturesTypeV1_0.exhaust)

interpretation basic_kinds: kind_table BasicMessageTypeV1_0_names
  by unfold_locales (auto simp: BasicMessageTypeV1_0_names_def intro: BasicMessageTypeV1_0.exhaust)

interpretation oob_kinds: kind_table OutOfBandTypeV1_1_names
  by unfold_locales (auto simp: OutOfBandTypeV1_1_names_def intro: OutOfBandTypeV1_1.exhaust)

interpretation notification_kinds: kind_table NotificationTypeV1_0_names
  by unfold_locales (auto simp: NotificationTypeV1_0_names_def intro: NotificationTypeV1_0.exhaust)

end
