(* ===== verification/Message_Codec.thy ===== *)
theory Message_Codec
  imports Message_Types Proof_Request "HOL-Library.Char_ord" "HOL-Library.List_Lexorder"
begin

text \<open>
  The JSON of messages (messages/src): the serde implementations of the decorators, of the content of every
  message and of \<open>MsgParts\<close>, and the two dispatches of lib.rs, \<open>AriesMessage::deserialize\<close> on the \<open>@type\<close>
  and \<open>AriesMessage::serialize\<close>, with the \<open>DelayedSerde\<close> of every protocol. A struct is written as the list
  of its fields, so that \<open>serde(flatten)\<close> is concatenation; \<open>skip_serializing_if\<close> is \<open>opt_entry\<close>. A failing
  read is \<open>None\<close>. Left out are the other forms that serde accepts for a struct (an array of its fields) and
  the languages without a two-letter code, which cannot be written.

  Parameters, in \<open>codec_env\<close>: \<open>Url::parse\<close>, chrono's text of a \<open>DateTime\<close> and the format of
  misc/utils.rs, their parser, and \<open>Language::from_639_1\<close>. The predicates \<open>..._ok\<close> state when a value is one
  that these functions return: its links are read as themselves, its times can be read, its languages are
  known, its unknown names are not names that the code knows.

  The locale \<open>json_codec\<close> is the contract of a type that is written to a value, \<open>fields_codec\<close> of one that is
  written as fields, \<open>message_codec\<close> of the parts of a message; they are interpreted for all types.
\<close>

record codec_env =
  co_url_parse :: "string \<Rightarrow> string option"
  co_datetime_print :: "datetime \<Rightarrow> string"
  co_datetime_serialize :: "datetime \<Rightarrow> string"
  co_datetime_parse :: "string \<Rightarrow> datetime option"
  co_from_639_1 :: "string \<Rightarrow> string option"

subsection \<open>Values\<close>

definition arr :: "('a \<Rightarrow> json) \<Rightarrow> 'a list \<Rightarrow> json" where
  "arr enc xs = JArray (map enc xs)"

definition opt_entry :: "string \<Rightarrow> ('a \<Rightarrow> json) \<Rightarrow> 'a option \<Rightarrow> (string \<times> json) list" where
  "opt_entry k enc x = (case x of None \<Rightarrow> [] | Some a \<Rightarrow> [(k, enc a)])"

definition struct_of :: "(json \<Rightarrow> 'a option) \<Rightarrow> json \<Rightarrow> 'a option" where
  "struct_of p v = (case v of JObject _ \<Rightarrow> p v | _ \<Rightarrow> None)"

definition url_from :: "codec_env \<Rightarrow> json \<Rightarrow> string option" where
  "url_from e v = Option.bind (as_str v) (co_url_parse e)"

definition url_ok :: "codec_env \<Rightarrow> string \<Rightarrow> bool" where
  "url_ok e u = (co_url_parse e u = Some u)"

definition datetime_from :: "codec_env \<Rightarrow> json \<Rightarrow> datetime option" where
  "datetime_from e v = Option.bind (as_str v) (co_datetime_parse e)"

definition serialize_datetime :: "codec_env \<Rightarrow> datetime \<Rightarrow> json" where
  "serialize_datetime e d = JString (co_datetime_print e d)"

definition serialize_lastmod :: "codec_env \<Rightarrow> datetime \<Rightarrow> json" where
  "serialize_lastmod e d = JString (co_datetime_serialize e d)"

definition time_ok :: "codec_env \<Rightarrow> datetime \<Rightarrow> bool" where
  "time_ok e d = (co_datetime_parse e (co_datetime_print e d) = Some d)"

definition lastmod_ok :: "codec_env \<Rightarrow> datetime \<Rightarrow> bool" where
  "lastmod_ok e d = (co_datetime_parse e (co_datetime_serialize e d) = Some d)"

definition Locale_from :: "codec_env \<Rightarrow> json \<Rightarrow> string option" where
  "Locale_from e v = Option.bind (as_str v) (co_from_639_1 e)"

definition Locale_ok :: "codec_env \<Rightarrow> string \<Rightarrow> bool" where
  "Locale_ok e l = (co_from_639_1 e l = Some l)"

text \<open>A unit variant is a string, or an object with the name and null.\<close>

definition enum_to :: "(string \<times> 'k) list \<Rightarrow> 'k \<Rightarrow> json" where
  "enum_to names k = JString (kind_as_ref names k)"

definition enum_from :: "(string \<times> 'k) list \<Rightarrow> json \<Rightarrow> 'k option" where
  "enum_from names v = (case v of
     JString s \<Rightarrow> kind_from_str names s
   | JObject [(s, JNull)] \<Rightarrow> kind_from_str names s
   | _ \<Rightarrow> None)"

definition MaybeKnown_to :: "('a \<Rightarrow> json) \<Rightarrow> 'a MaybeKnown \<Rightarrow> json" where
  "MaybeKnown_to enc x = (case x of Known a \<Rightarrow> enc a | Unknown s \<Rightarrow> JString s)"

definition MaybeKnown_from :: "(json \<Rightarrow> 'a option) \<Rightarrow> json \<Rightarrow> 'a MaybeKnown option" where
  "MaybeKnown_from dec v = (case dec v of Some a \<Rightarrow> Some (Known a) | None \<Rightarrow> map_option Unknown (as_str v))"

definition MaybeKnown_ok :: "(json \<Rightarrow> 'a option) \<Rightarrow> 'a MaybeKnown \<Rightarrow> bool" where
  "MaybeKnown_ok dec x = (case x of Known a \<Rightarrow> True | Unknown s \<Rightarrow> dec (JString s) = None)"

text \<open>A \<open>HashMap\<close> is an object with its keys in order, as \<open>serde_json::Value\<close> keeps them.\<close>

definition map_entries :: "('a \<Rightarrow> json) \<Rightarrow> (string \<rightharpoonup> 'a) \<Rightarrow> (string \<times> json) list" where
  "map_entries enc m = map (\<lambda>k. (k, enc (the (m k)))) (sorted_list_of_set (dom m))"

definition entries_from ::
    "(string \<Rightarrow> string option) \<Rightarrow> (json \<Rightarrow> 'a option) \<Rightarrow> (string \<times> json) list \<Rightarrow> (string \<rightharpoonup> 'a) option" where
  "entries_from key dec kvs =
     map_option (\<lambda>l. map_of (rev l))
       (those (map (\<lambda>(k, x). Option.bind (key k) (\<lambda>k'. map_option (Pair k') (dec x))) kvs))"

definition map_to :: "('a \<Rightarrow> json) \<Rightarrow> (string \<rightharpoonup> 'a) \<Rightarrow> json" where
  "map_to enc m = JObject (map_entries enc m)"

definition map_from ::
    "(string \<Rightarrow> string option) \<Rightarrow> (json \<Rightarrow> 'a option) \<Rightarrow> json \<Rightarrow> (string \<rightharpoonup> 'a) option" where
  "map_from key dec v = Option.bind (as_object v) (entries_from key dec)"

definition map_ok :: "(string \<Rightarrow> string option) \<Rightarrow> ('a \<Rightarrow> bool) \<Rightarrow> (string \<rightharpoonup> 'a) \<Rightarrow> bool" where
  "map_ok key ok m = (finite (dom m) \<and> (\<forall>k a. m k = Some a \<longrightarrow> key k = Some k \<and> ok a))"

subsection \<open>The contract of a codec\<close>

definition opt_value :: "(json \<Rightarrow> 'a option) \<Rightarrow> json option \<Rightarrow> 'a option option" where
  "opt_value dec j = (case j of None \<Rightarrow> Some None | Some x \<Rightarrow> if x = JNull then Some None else map_option Some (dec x))"

lemma opt_field_value: "opt_field dec v k = opt_value dec (json_get v k)"
  by (simp add: opt_field_def opt_value_def split: option.splits)

lemma opt_value_None [simp]: "opt_value dec None = Some None"
  by (simp add: opt_value_def)

definition or_else :: "'a option \<Rightarrow> 'a option \<Rightarrow> 'a option" where
  "or_else x y = (case x of None \<Rightarrow> y | Some a \<Rightarrow> Some a)"

lemma or_else_None [simp]: "or_else x None = x"
  by (cases x) (simp_all add: or_else_def)

lemma opt_entry_lookup [simp]:
  "map_of (opt_entry k enc x) k' = (if k' = k then map_option enc x else None)"
  "(m ++ map_of (opt_entry k enc x)) k' = (if k' = k then or_else (map_option enc x) (m k') else m k')"
  by (auto simp: opt_entry_def or_else_def split: option.splits)

lemma opt_entry_keys [simp]: "k \<in> K \<Longrightarrow> fst ` set (opt_entry k enc x) \<subseteq> K"
  by (auto simp: opt_entry_def split: option.splits)

lemma those_map_some: "(\<And>x. x \<in> set xs \<Longrightarrow> f x = Some (g x)) \<Longrightarrow> those (map f xs) = Some (map g xs)"
  by (induction xs) auto

locale json_codec =
  fixes enc :: "'a \<Rightarrow> json" and dec :: "json \<Rightarrow> 'a option" and ok :: "'a \<Rightarrow> bool"
  assumes dec_enc: "ok a \<Longrightarrow> dec (enc a) = Some a"
    and enc_value: "ok a \<Longrightarrow> enc a \<noteq> JNull"
begin

lemma opt_read: "pred_option ok x \<Longrightarrow> opt_value dec (map_option enc x) = Some x"
  by (cases x) (auto simp: opt_value_def dec_enc enc_value)

lemma arr_codec: "json_codec (arr enc) (array_of dec) (list_all ok)"
proof
  fix xs assume "list_all ok xs"
  then show "array_of dec (arr enc xs) = Some xs"
    unfolding arr_def by (intro array_of_map) (simp add: list_all_iff dec_enc)
qed (simp add: arr_def)

lemma entries_read:
  assumes "map_ok key ok m"
  shows "entries_from key dec (map_entries enc m) = Some m"
proof -
  let ?ks = "sorted_list_of_set (dom m)"
  let ?l = "map (\<lambda>k. (k, the (m k))) ?ks"
  have ks: "set ?ks = dom m" "distinct ?ks" using assms by (simp_all add: map_ok_def)
  have "those (map (\<lambda>(k, x). Option.bind (key k) (\<lambda>k'. map_option (Pair k') (dec x))) (map_entries enc m)) = Some ?l"
  proof -
    have "Option.bind (key k) (\<lambda>k'. map_option (Pair k') (dec (enc (the (m k))))) = Some (k, the (m k))"
      if "k \<in> set ?ks" for k
      using that assms ks(1) by (auto simp: map_ok_def dec_enc)
    then show ?thesis
      unfolding map_entries_def map_map comp_def case_prod_conv by (rule those_map_some)
  qed
  moreover have "map_of (rev ?l) = m"
  proof
    fix k
    have "distinct (map fst (rev ?l))" using ks(2) by (simp add: rev_map [symmetric] comp_def)
    then show "map_of (rev ?l) k = m k"
      using ks(1) by (cases "m k") (auto simp: map_of_eq_None_iff image_iff intro: map_of_is_SomeI)
  qed
  ultimately show ?thesis by (simp add: entries_from_def)
qed

lemma map_codec: "json_codec (map_to enc) (map_from key dec) (map_ok key ok)"
  by unfold_locales (simp_all add: map_to_def map_from_def entries_read)

lemma maybe_codec:
  assumes "\<And>a. ok a"
  shows "json_codec (MaybeKnown_to enc) (MaybeKnown_from dec) (MaybeKnown_ok dec)"
proof
  fix x assume x: "MaybeKnown_ok dec x"
  show "MaybeKnown_from dec (MaybeKnown_to enc x) = Some x" "MaybeKnown_to enc x \<noteq> JNull"
    using x assms by (cases x; simp add: MaybeKnown_from_def MaybeKnown_to_def MaybeKnown_ok_def dec_enc enc_value)+
qed

end

locale fields_codec =
  fixes keys :: "string list" and to_fields :: "'a \<Rightarrow> (string \<times> json) list"
    and from_fields :: "json \<Rightarrow> 'a option" and ok :: "'a \<Rightarrow> bool"
  assumes fields_keys: "fst ` set (to_fields a) \<subseteq> set keys"
    and fields_read: "ok a \<Longrightarrow> list_all (\<lambda>k. json_get v k = map_of (to_fields a) k) keys \<Longrightarrow> from_fields v = Some a"
begin

lemma struct_codec: "json_codec (\<lambda>a. JObject (to_fields a)) (struct_of from_fields) ok"
  by unfold_locales (auto simp: struct_of_def list_all_iff intro!: fields_read)

lemma other_key: "k \<notin> set keys \<Longrightarrow> map_of (to_fields a) k = None"
  using fields_keys by (auto simp: map_of_eq_None_iff)

end

context name_table
begin

lemma enum_codec: "json_codec (enum_to names) (enum_from names) (\<lambda>_. True)"
  by unfold_locales (simp_all add: enum_to_def enum_from_def from_as_ref)

end


subsection \<open>Names\<close>

definition ThreadGoalCode_names :: "(string \<times> ThreadGoalCode) list" where
  "ThreadGoalCode_names =
     [(''aries.vc'', AriesVc), (''aries.vc.issue'', AriesVcIssue), (''aries.vc.verify'', AriesVcVerify),
      (''aries.vc.revoke'', AriesVcRevoke), (''aries.rel'', AriesRel), (''aries.rel.build'', AriesRelBuild)]"

definition MimeType_names :: "(string \<times> MimeType) list" where
  "MimeType_names =
     [(''application/json'', Mime_Json), (''image/jpg'', Mime_Jpg), (''image/jpeg'', Mime_Jpeg),
      (''image/png'', Mime_Png), (''application/pdf'', Mime_Pdf), (''text/plain'', Mime_Plain)]"

definition AckOn_names :: "(string \<times> AckOn) list" where
  "AckOn_names = [(''RECEIPT'', Receipt), (''OUTCOME'', Outcome)]"

definition AckStatus_names :: "(string \<times> AckStatus) list" where
  "AckStatus_names = [(''OK'', Ack_Ok), (''PENDING'', Ack_Pending)]"

definition PredicateOperator_names :: "(string \<times> PredicateOperator) list" where
  "PredicateOperator_names =
     [(''>='', GreaterOrEqual), (''<='', LessOrEqual), (''>'', GreterThan), (''<'', LessThan)]"

definition WhoRetries_names :: "(string \<times> WhoRetries) list" where
  "WhoRetries_names = [(''me'', WR_Me), (''you'', WR_You), (''both'', WR_Both), (''none'', WR_None)]"

definition Impact_names :: "(string \<times> Impact) list" where
  "Impact_names = [(''messagecontent'', Impact_MessageContent), (''thread'', Impact_Thread), (''connection'', Impact_Connection)]"

text \<open>The names that \<open>AsRefStr\<close> and \<open>EnumString\<close> derive; the lower-case ones of serde are not used by \<open>Where\<close>.\<close>

definition WhereParty_names :: "(string \<times> WhereParty) list" where
  "WhereParty_names = [(''Me'', WP_Me), (''You'', WP_You), (''Other'', WP_Other)]"

definition RevocationFormat_names :: "(string \<times> RevocationFormat) list" where
  "RevocationFormat_names = [(''indy-anoncreds'', IndyAnoncreds)]"

definition ProblemCode_names :: "(string \<times> ProblemCode) list" where
  "ProblemCode_names =
     [(''request_not_accepted'', RequestNotAccepted), (''request_processing_error'', RequestProcessingError),
      (''response_not_accepted'', ResponseNotAccepted), (''response_processing_error'', ResponseProcessingError)]"

definition OobGoalCode_names :: "(string \<times> OobGoalCode) list" where
  "OobGoalCode_names =
     [(''issue-vc'', IssueVC), (''request-proof'', RequestProof), (''create-account'', CreateAccount),
      (''p2p-messaging'', P2PMessaging)]"

definition Role_names :: "(string \<times> Role) list" where
  "Role_names =
     [(''inviter'', Role_Inviter), (''invitee'', Role_Invitee), (''issuer'', Role_Issuer), (''holder'', Role_Holder),
      (''prover'', Role_Prover), (''verifier'', Role_Verifier), (''sender'', Role_Sender), (''receiver'', Role_Receiver),
      (''requester'', Role_Requester), (''responder'', Role_Responder), (''notified'', Role_Notified),
      (''notifier'', Role_Notifier), (''mediator'', Role_Mediator)]"

interpretation goal_names: name_table ThreadGoalCode_names
  by unfold_locales (auto simp: ThreadGoalCode_names_def intro: ThreadGoalCode.exhaust)
interpretation mime_names: name_table MimeType_names
  by unfold_locales (auto simp: MimeType_names_def intro: MimeType.exhaust)
interpretation ack_on_names: name_table AckOn_names
  by unfold_locales (auto simp: AckOn_names_def intro: AckOn.exhaust)
interpretation ack_status_names: name_table AckStatus_names
  by unfold_locales (auto simp: AckStatus_names_def intro: AckStatus.exhaust)
interpretation operator_names: name_table PredicateOperator_names
  by unfold_locales (auto simp: PredicateOperator_names_def intro: PredicateOperator.exhaust)
interpretation retries_names: name_table WhoRetries_names
  by unfold_locales (auto simp: WhoRetries_names_def intro: WhoRetries.exhaust)
interpretation impact_names: name_table Impact_names
  by unfold_locales (auto simp: Impact_names_def intro: Impact.exhaust)
interpretation party_names: name_table WhereParty_names
  by unfold_locales (auto simp: WhereParty_names_def intro: WhereParty.exhaust)
interpretation format_names: name_table RevocationFormat_names
  by unfold_locales (auto simp: RevocationFormat_names_def intro: RevocationFormat.exhaust)
interpretation problem_names: name_table ProblemCode_names
  by unfold_locales (auto simp: ProblemCode_names_def intro: ProblemCode.exhaust)
interpretation oob_goal_names: name_table OobGoalCode_names
  by unfold_locales (auto simp: OobGoalCode_names_def intro: OobGoalCode.exhaust)
interpretation role_names: name_table Role_names
  by unfold_locales (auto simp: Role_names_def intro: Role.exhaust)

subsection \<open>Codecs of the leaves\<close>

definition Protocol_to :: "Protocol \<Rightarrow> json" where
  "Protocol_to p = JString (Protocol_display p)"

definition Protocol_from :: "json \<Rightarrow> Protocol option" where
  "Protocol_from v = Option.bind (as_str v) (\<lambda>s. case Protocol_from_str s of Inr p \<Rightarrow> Some p | Inl _ \<Rightarrow> None)"

interpretation str: json_codec JString as_str "\<lambda>_. True"
  by unfold_locales simp_all
interpretation bool: json_codec JBool as_bool "\<lambda>_. True"
  by unfold_locales simp_all
interpretation u32: json_codec JU32 as_u32 "\<lambda>_. True"
  by (unfold_locales, simp add: as_u32_JU32, simp add: JU32_def)
interpretation u64: json_codec JU64 as_u64 "\<lambda>_. True"
  by (unfold_locales, simp, simp add: JU64_def)
interpretation i64: json_codec JI64 as_i64 "\<lambda>_. True"
  by (unfold_locales, simp add: as_i64_JI64, simp add: JI64_def)
interpretation url: json_codec JString "url_from e" "url_ok e" for e
  by unfold_locales (simp_all add: url_from_def url_ok_def)
interpretation datetime: json_codec "serialize_datetime e" "datetime_from e" "time_ok e" for e
  by unfold_locales (simp_all add: datetime_from_def serialize_datetime_def time_ok_def)
interpretation lastmod: json_codec "serialize_lastmod e" "datetime_from e" "lastmod_ok e" for e
  by unfold_locales (simp_all add: datetime_from_def serialize_lastmod_def lastmod_ok_def)
interpretation lang: json_codec JString "Locale_from e" "Locale_ok e" for e
  by unfold_locales (simp_all add: Locale_from_def Locale_ok_def)
interpretation protocol: json_codec Protocol_to Protocol_from "\<lambda>_. True"
  by unfold_locales (simp_all add: Protocol_to_def Protocol_from_def display_read)
interpretation goal: json_codec "enum_to ThreadGoalCode_names" "enum_from ThreadGoalCode_names" "\<lambda>_. True"
  by (rule goal_names.enum_codec)
interpretation mime: json_codec "enum_to MimeType_names" "enum_from MimeType_names" "\<lambda>_. True"
  by (rule mime_names.enum_codec)
interpretation ack_on: json_codec "enum_to AckOn_names" "enum_from AckOn_names" "\<lambda>_. True"
  by (rule ack_on_names.enum_codec)
interpretation ack_status: json_codec "enum_to AckStatus_names" "enum_from AckStatus_names" "\<lambda>_. True"
  by (rule ack_status_names.enum_codec)
interpretation operator: json_codec "enum_to PredicateOperator_names" "enum_from PredicateOperator_names" "\<lambda>_. True"
  by (rule operator_names.enum_codec)
interpretation retries: json_codec "enum_to WhoRetries_names" "enum_from WhoRetries_names" "\<lambda>_. True"
  by (rule retries_names.enum_codec)
interpretation impact: json_codec "enum_to Impact_names" "enum_from Impact_names" "\<lambda>_. True"
  by (rule impact_names.enum_codec)
interpretation revformat: json_codec "enum_to RevocationFormat_names" "enum_from RevocationFormat_names" "\<lambda>_. True"
  by (rule format_names.enum_codec)
interpretation problem_code: json_codec "enum_to ProblemCode_names" "enum_from ProblemCode_names" "\<lambda>_. True"
  by (rule problem_names.enum_codec)
interpretation oob_goal: json_codec "enum_to OobGoalCode_names" "enum_from OobGoalCode_names" "\<lambda>_. True"
  by (rule oob_goal_names.enum_codec)
interpretation role: json_codec "enum_to Role_names" "enum_from Role_names" "\<lambda>_. True"
  by (rule role_names.enum_codec)

interpretation strs: json_codec "arr JString" "array_of as_str" "list_all (\<lambda>_. True)"
  by (rule str.arr_codec)
interpretation urls: json_codec "arr JString" "array_of (url_from e)" "list_all (url_ok e)" for e
  by (rule url.arr_codec)
interpretation ack_ons: json_codec "arr (enum_to AckOn_names)" "array_of (enum_from AckOn_names)" "list_all (\<lambda>_. True)"
  by (rule ack_on.arr_codec)
interpretation mimes: json_codec "arr (enum_to MimeType_names)" "array_of (enum_from MimeType_names)" "list_all (\<lambda>_. True)"
  by (rule mime.arr_codec)
interpretation maybe_goal: json_codec "MaybeKnown_to (enum_to ThreadGoalCode_names)"
  "MaybeKnown_from (enum_from ThreadGoalCode_names)" "MaybeKnown_ok (enum_from ThreadGoalCode_names)"
  by (rule goal.maybe_codec) simp
interpretation maybe_format: json_codec "MaybeKnown_to (enum_to RevocationFormat_names)"
  "MaybeKnown_from (enum_from RevocationFormat_names)" "MaybeKnown_ok (enum_from RevocationFormat_names)"
  by (rule revformat.maybe_codec) simp
interpretation maybe_oob_goal: json_codec "MaybeKnown_to (enum_to OobGoalCode_names)"
  "MaybeKnown_from (enum_from OobGoalCode_names)" "MaybeKnown_ok (enum_from OobGoalCode_names)"
  by (rule oob_goal.maybe_codec) simp
interpretation maybe_role: json_codec "MaybeKnown_to (enum_to Role_names)"
  "MaybeKnown_from (enum_from Role_names)" "MaybeKnown_ok (enum_from Role_names)"
  by (rule role.maybe_codec) simp
interpretation maybe_roles: json_codec "arr (MaybeKnown_to (enum_to Role_names))"
  "array_of (MaybeKnown_from (enum_from Role_names))" "list_all (MaybeKnown_ok (enum_from Role_names))"
  by (rule maybe_role.arr_codec)
interpretation maybe_protocol: json_codec "MaybeKnown_to Protocol_to" "MaybeKnown_from Protocol_from"
  "MaybeKnown_ok Protocol_from"
  by (rule protocol.maybe_codec) simp
interpretation maybe_protocols: json_codec "arr (MaybeKnown_to Protocol_to)" "array_of (MaybeKnown_from Protocol_from)"
  "list_all (MaybeKnown_ok Protocol_from)"
  by (rule maybe_protocol.arr_codec)
interpretation u32_map: json_codec "map_to JU32" "map_from Some as_u32" "map_ok Some (\<lambda>_. True)"
  by (rule u32.map_codec)
interpretation str_map: json_codec "map_to JString" "map_from Some as_str" "map_ok Some (\<lambda>_. True)"
  by (rule str.map_codec)
interpretation str_maps: json_codec "arr (map_to JString)" "array_of (map_from Some as_str)" "list_all (map_ok Some (\<lambda>_. True))"
  by (rule str_map.arr_codec)
interpretation locales_map: json_codec "map_to (arr JString)" "map_from (co_from_639_1 e) (array_of as_str)"
    "map_ok (co_from_639_1 e) (list_all (\<lambda>_. True))" for e
  by (rule strs.map_codec)

lemmas leaf_reads =
  str.dec_enc str.opt_read bool.dec_enc bool.opt_read u32.dec_enc u32.opt_read u64.dec_enc u64.opt_read i64.dec_enc i64.opt_read
  url.dec_enc url.opt_read datetime.dec_enc datetime.opt_read lastmod.dec_enc lastmod.opt_read lang.dec_enc lang.opt_read
  goal.dec_enc goal.opt_read mime.dec_enc mime.opt_read ack_on.dec_enc ack_on.opt_read ack_status.dec_enc ack_status.opt_read
  operator.dec_enc operator.opt_read retries.dec_enc retries.opt_read impact.dec_enc impact.opt_read
  problem_code.dec_enc problem_code.opt_read maybe_format.dec_enc maybe_oob_goal.opt_read maybe_goal.opt_read
  maybe_role.opt_read maybe_roles.opt_read maybe_protocol.dec_enc maybe_protocol.opt_read maybe_protocols.opt_read
  strs.dec_enc strs.opt_read urls.dec_enc urls.opt_read ack_ons.dec_enc ack_ons.opt_read mimes.opt_read
  u32_map.opt_read str_map.opt_read str_maps.opt_read locales_map.opt_read

lemma list_all_True [simp]: "list_all (\<lambda>_. True) = (\<lambda>_. True)"
  by (simp add: fun_eq_iff list_all_iff)

lemma pred_option_True [simp]: "pred_option (\<lambda>_. True) x"
  by (cases x) simp_all

lemmas codec_simps = req_field_def default_field_def opt_field_value leaf_reads

subsection \<open>Decorators\<close>

definition Thread_fields :: "Thread \<Rightarrow> (string \<times> json) list" where
  "Thread_fields t =
     (''thid'', JString (thid t)) #
     opt_entry ''pthid'' JString (pthid t) @
     opt_entry ''sender_order'' JU32 (sender_order t) @
     opt_entry ''received_orders'' (map_to JU32) (received_orders t) @
     opt_entry ''goal_code'' (MaybeKnown_to (enum_to ThreadGoalCode_names)) (thread_goal_code t)"

definition Thread_from :: "json \<Rightarrow> Thread option" where
  "Thread_from v =
     Option.bind (req_field as_str v ''thid'') (\<lambda>t.
     Option.bind (opt_field as_str v ''pthid'') (\<lambda>p.
     Option.bind (opt_field as_u32 v ''sender_order'') (\<lambda>so.
     Option.bind (opt_field (map_from Some as_u32) v ''received_orders'') (\<lambda>ro.
     Option.bind (opt_field (MaybeKnown_from (enum_from ThreadGoalCode_names)) v ''goal_code'') (\<lambda>g.
       Some \<lparr>thid = t, pthid = p, sender_order = so, received_orders = ro, thread_goal_code = g\<rparr>)))))"

definition Thread_ok :: "Thread \<Rightarrow> bool" where
  "Thread_ok t = (pred_option (map_ok Some (\<lambda>_. True)) (received_orders t)
     \<and> pred_option (MaybeKnown_ok (enum_from ThreadGoalCode_names)) (thread_goal_code t))"

interpretation thread: fields_codec "[''thid'', ''pthid'', ''sender_order'', ''received_orders'', ''goal_code'']"
  Thread_fields Thread_from Thread_ok
  by unfold_locales (simp_all add: Thread_fields_def image_Un Thread_from_def Thread_ok_def codec_simps)

definition Thread_to :: "Thread \<Rightarrow> json" where
  "Thread_to t = JObject (Thread_fields t)"

definition Timing_fields :: "codec_env \<Rightarrow> Timing \<Rightarrow> (string \<times> json) list" where
  "Timing_fields e t =
     opt_entry ''in_time'' (serialize_datetime e) (in_time t) @
     opt_entry ''out_time'' (serialize_datetime e) (out_time t) @
     opt_entry ''stale_time'' (serialize_datetime e) (stale_time t) @
     opt_entry ''expires_time'' (serialize_datetime e) (expires_time t) @
     opt_entry ''delay_milli'' JU32 (delay_milli t) @
     opt_entry ''wait_until_time'' (serialize_datetime e) (wait_until_time t)"

definition Timing_to :: "codec_env \<Rightarrow> Timing \<Rightarrow> json" where
  "Timing_to e t = JObject (Timing_fields e t)"

definition Timing_from :: "codec_env \<Rightarrow> json \<Rightarrow> Timing option" where
  "Timing_from e v =
     Option.bind (opt_field (datetime_from e) v ''in_time'') (\<lambda>i.
     Option.bind (opt_field (datetime_from e) v ''out_time'') (\<lambda>ot.
     Option.bind (opt_field (datetime_from e) v ''stale_time'') (\<lambda>st.
     Option.bind (opt_field (datetime_from e) v ''expires_time'') (\<lambda>et.
     Option.bind (opt_field as_u32 v ''delay_milli'') (\<lambda>dm.
     Option.bind (opt_field (datetime_from e) v ''wait_until_time'') (\<lambda>wt.
       Some \<lparr>in_time = i, out_time = ot, stale_time = st, expires_time = et, delay_milli = dm, wait_until_time = wt\<rparr>))))))"

definition Timing_ok :: "codec_env \<Rightarrow> Timing \<Rightarrow> bool" where
  "Timing_ok e t = (pred_option (time_ok e) (in_time t) \<and> pred_option (time_ok e) (out_time t)
     \<and> pred_option (time_ok e) (stale_time t) \<and> pred_option (time_ok e) (expires_time t)
     \<and> pred_option (time_ok e) (wait_until_time t))"

interpretation timing: fields_codec
  "[''in_time'', ''out_time'', ''stale_time'', ''expires_time'', ''delay_milli'', ''wait_until_time'']"
  "Timing_fields e" "Timing_from e" "Timing_ok e" for e
  by unfold_locales (simp_all add: Timing_fields_def image_Un Timing_from_def Timing_ok_def codec_simps)

definition PleaseAck_fields :: "PleaseAck \<Rightarrow> (string \<times> json) list" where
  "PleaseAck_fields p = [(''on'', arr (enum_to AckOn_names) (ack_on p))]"

definition PleaseAck_to :: "PleaseAck \<Rightarrow> json" where
  "PleaseAck_to p = JObject (PleaseAck_fields p)"

definition PleaseAck_from :: "json \<Rightarrow> PleaseAck option" where
  "PleaseAck_from v =
     Option.bind (default_field (array_of (enum_from AckOn_names)) [] v ''on'') (\<lambda>on. Some (PleaseAck_new on))"

interpretation please_ack: fields_codec "[''on'']" PleaseAck_fields PleaseAck_from "\<lambda>_. True"
  by unfold_locales (simp_all add: PleaseAck_fields_def PleaseAck_from_def PleaseAck_new_def codec_simps)

text \<open>The field \<open>locales\<close> may also be called \<open>details\<close>; both at once are a duplicate field.\<close>

definition MsgLocalization_fields :: "MsgLocalization \<Rightarrow> (string \<times> json) list" where
  "MsgLocalization_fields l =
     opt_entry ''catalogs'' (arr JString) (ml_catalogs l) @
     opt_entry ''locales'' (map_to (arr JString)) (ml_locales l)"

definition MsgLocalization_to :: "MsgLocalization \<Rightarrow> json" where
  "MsgLocalization_to l = JObject (MsgLocalization_fields l)"

definition MsgLocalization_from :: "codec_env \<Rightarrow> json \<Rightarrow> MsgLocalization option" where
  "MsgLocalization_from e v =
     (if json_get v ''locales'' \<noteq> None \<and> json_get v ''details'' \<noteq> None then None
      else
        Option.bind (opt_field (array_of (url_from e)) v ''catalogs'') (\<lambda>cs.
        Option.bind (opt_field (map_from (co_from_639_1 e) (array_of as_str)) v
            (if json_get v ''details'' \<noteq> None then ''details'' else ''locales'')) (\<lambda>ls.
          Some \<lparr>ml_catalogs = cs, ml_locales = ls\<rparr>)))"

definition MsgLocalization_ok :: "codec_env \<Rightarrow> MsgLocalization \<Rightarrow> bool" where
  "MsgLocalization_ok e l = (pred_option (list_all (url_ok e)) (ml_catalogs l)
     \<and> pred_option (map_ok (co_from_639_1 e) (list_all (\<lambda>_. True))) (ml_locales l))"

interpretation msg_localization: fields_codec "[''catalogs'', ''locales'', ''details'']"
  MsgLocalization_fields "MsgLocalization_from e" "MsgLocalization_ok e" for e
  by unfold_locales
     (simp_all add: MsgLocalization_fields_def image_Un MsgLocalization_from_def MsgLocalization_ok_def codec_simps
        del: list_all_True)

text \<open>
  A struct with a flattened map: the entries that are not fields of the struct are the entries of the map.
\<close>

definition other_entries :: "string list \<Rightarrow> json \<Rightarrow> (string \<times> json) list" where
  "other_entries ks v = (case v of JObject kvs \<Rightarrow> filter (\<lambda>(k, _). k \<notin> set ks) kvs | _ \<Rightarrow> [])"

definition FieldLocalization_keys :: "string list" where
  "FieldLocalization_keys = [''code'', ''locale'', ''catalogs'']"

definition FieldLocalization_to :: "FieldLocalization \<Rightarrow> json" where
  "FieldLocalization_to l = JObject
     (opt_entry ''code'' JString (fl_code l) @
      opt_entry ''locale'' JString (fl_locale l) @
      opt_entry ''catalogs'' (arr JString) (fl_catalogs l) @
      map_entries JString (fl_translations l))"

definition FieldLocalization_from :: "codec_env \<Rightarrow> json \<Rightarrow> FieldLocalization option" where
  "FieldLocalization_from e v =
     Option.bind (opt_field as_str v ''code'') (\<lambda>c.
     Option.bind (opt_field (Locale_from e) v ''locale'') (\<lambda>l.
     Option.bind (opt_field (array_of (url_from e)) v ''catalogs'') (\<lambda>cs.
     Option.bind (entries_from (co_from_639_1 e) as_str (other_entries FieldLocalization_keys v)) (\<lambda>ts.
       Some \<lparr>fl_code = c, fl_locale = l, fl_catalogs = cs, fl_translations = ts\<rparr>))))"

definition FieldLocalization_ok :: "codec_env \<Rightarrow> FieldLocalization \<Rightarrow> bool" where
  "FieldLocalization_ok e l = (pred_option (Locale_ok e) (fl_locale l)
     \<and> pred_option (list_all (url_ok e)) (fl_catalogs l)
     \<and> map_ok (co_from_639_1 e) (\<lambda>_. True) (fl_translations l)
     \<and> dom (fl_translations l) \<inter> set FieldLocalization_keys = {})"

lemma other_opt_entries:
  "k \<in> set ks \<Longrightarrow> filter (\<lambda>(k, _). k \<notin> set ks) (opt_entry k enc x) = []"
  by (auto simp: opt_entry_def split: option.splits)

lemma other_map_entries:
  assumes "finite (dom m)" "dom m \<inter> set ks = {}"
  shows "filter (\<lambda>(k, _). k \<notin> set ks) (map_entries enc m) = map_entries enc m"
  using assms by (auto simp: map_entries_def filter_id_conv)

lemma map_entries_no_key: "finite (dom m) \<Longrightarrow> k \<notin> dom m \<Longrightarrow> map_of (map_entries enc m) k = None"
  by (auto simp: map_of_eq_None_iff map_entries_def)

lemma or_else_map [simp]: "(m ++ map_of (opt_entry k enc x)) k = or_else (map_option enc x) (m k)"
  by simp

interpretation field_localization: json_codec FieldLocalization_to "struct_of (FieldLocalization_from e)" "FieldLocalization_ok e" for e
proof
  fix l assume ok: "FieldLocalization_ok e l"
  let ?m = "fl_translations l"
  have fin: "finite (dom ?m)" "dom ?m \<inter> set FieldLocalization_keys = {}" "map_ok (co_from_639_1 e) (\<lambda>_. True) ?m"
    using ok by (auto simp: FieldLocalization_ok_def map_ok_def)
  have keys: "''code'' \<in> set FieldLocalization_keys" "''locale'' \<in> set FieldLocalization_keys"
      "''catalogs'' \<in> set FieldLocalization_keys"
    by (simp_all add: FieldLocalization_keys_def)
  have none: "map_of (map_entries JString ?m) k = None" if "k \<in> set FieldLocalization_keys" for k
    using fin that by (intro map_entries_no_key) auto
  have "other_entries FieldLocalization_keys (FieldLocalization_to l) = map_entries JString ?m"
    using other_map_entries [OF fin(1,2)] keys
    by (simp add: other_entries_def FieldLocalization_to_def other_opt_entries)
  then show "struct_of (FieldLocalization_from e) (FieldLocalization_to l) = Some l"
    using ok keys [THEN none] str.entries_read [OF fin(3)]
    by (simp add: struct_of_def FieldLocalization_from_def FieldLocalization_ok_def FieldLocalization_to_def codec_simps)
qed (simp add: FieldLocalization_to_def)

text \<open>An attachment: the variant of its content is the first of the three keys that occurs.\<close>

fun AttachmentType_entry :: "AttachmentType \<Rightarrow> string \<times> json" where
  "AttachmentType_entry (Base64 s) = (''base64'', JString s)"
| "AttachmentType_entry (Json j) = (''json'', j)"
| "AttachmentType_entry (Links us) = (''links'', arr JString us)"

definition AttachmentType_from :: "codec_env \<Rightarrow> json \<Rightarrow> AttachmentType option" where
  "AttachmentType_from e v =
     Option.bind (as_object v) (\<lambda>kvs.
     Option.bind (find (\<lambda>(k, _). k \<in> {''base64'', ''json'', ''links''}) kvs) (\<lambda>(k, x).
       if k = ''base64'' then map_option Base64 (as_str x)
       else if k = ''json'' then Some (Json x)
       else map_option Links (array_of (url_from e) x)))"

fun AttachmentType_ok :: "codec_env \<Rightarrow> AttachmentType \<Rightarrow> bool" where
  "AttachmentType_ok e (Links us) = list_all (url_ok e) us"
| "AttachmentType_ok e _ = True"

definition AttachmentData_to :: "AttachmentData \<Rightarrow> json" where
  "AttachmentData_to d = JObject
     (opt_entry ''jws'' JString (ad_jws d) @ opt_entry ''sha256'' JString (ad_sha256 d) @
      [AttachmentType_entry (ad_content d)])"

definition AttachmentData_from :: "codec_env \<Rightarrow> json \<Rightarrow> AttachmentData option" where
  "AttachmentData_from e v =
     Option.bind (opt_field as_str v ''jws'') (\<lambda>j.
     Option.bind (opt_field as_str v ''sha256'') (\<lambda>h.
     Option.bind (AttachmentType_from e v) (\<lambda>c.
       Some \<lparr>ad_jws = j, ad_sha256 = h, ad_content = c\<rparr>)))"

lemma find_opt_entry: "\<not> P k \<Longrightarrow> find (\<lambda>(k, _). P k) (opt_entry k enc x @ xs) = find (\<lambda>(k, _). P k) xs"
  by (auto simp: opt_entry_def split: option.splits)

interpretation attachment_data: json_codec AttachmentData_to "AttachmentData_from e" "\<lambda>d. AttachmentType_ok e (ad_content d)" for e
proof
  fix d :: AttachmentData assume ok: "AttachmentType_ok e (ad_content d)"
  have "AttachmentType_from e (AttachmentData_to d) = Some (ad_content d)"
    using ok urls.dec_enc [of e]
    by (cases "ad_content d") (simp_all add: AttachmentType_from_def AttachmentData_to_def find_opt_entry)
  moreover have "map_of [AttachmentType_entry (ad_content d)] k = None" if "k = ''jws'' \<or> k = ''sha256''" for k
    using that by (cases "ad_content d") auto
  ultimately show "AttachmentData_from e (AttachmentData_to d) = Some d"
    by (simp add: AttachmentData_from_def AttachmentData_to_def codec_simps)
qed (simp add: AttachmentData_to_def)

definition Attachment_fields :: "codec_env \<Rightarrow> Attachment \<Rightarrow> (string \<times> json) list" where
  "Attachment_fields e a =
     opt_entry ''@id'' JString (att_id a) @
     opt_entry ''description'' JString (att_description a) @
     opt_entry ''filename'' JString (att_filename a) @
     opt_entry ''mime-type'' (enum_to MimeType_names) (att_mime_type a) @
     opt_entry ''lastmod_time'' (serialize_lastmod e) (att_lastmod_time a) @
     opt_entry ''byte_count'' JU64 (att_byte_count a) @
     [(''data'', AttachmentData_to (att_data a))]"

definition Attachment_to :: "codec_env \<Rightarrow> Attachment \<Rightarrow> json" where
  "Attachment_to e a = JObject (Attachment_fields e a)"

definition Attachment_from :: "codec_env \<Rightarrow> json \<Rightarrow> Attachment option" where
  "Attachment_from e v =
     Option.bind (opt_field as_str v ''@id'') (\<lambda>i.
     Option.bind (opt_field as_str v ''description'') (\<lambda>ds.
     Option.bind (opt_field as_str v ''filename'') (\<lambda>fn.
     Option.bind (opt_field (enum_from MimeType_names) v ''mime-type'') (\<lambda>mt.
     Option.bind (opt_field (datetime_from e) v ''lastmod_time'') (\<lambda>lt.
     Option.bind (opt_field as_u64 v ''byte_count'') (\<lambda>bc.
     Option.bind (req_field (AttachmentData_from e) v ''data'') (\<lambda>d.
       Some \<lparr>att_id = i, att_description = ds, att_filename = fn, att_mime_type = mt, att_lastmod_time = lt,
             att_byte_count = bc, att_data = d\<rparr>)))))))"

definition Attachment_ok :: "codec_env \<Rightarrow> Attachment \<Rightarrow> bool" where
  "Attachment_ok e a = (pred_option (lastmod_ok e) (att_lastmod_time a) \<and> AttachmentType_ok e (ad_content (att_data a)))"

interpretation attachment_fields: fields_codec
  "[''@id'', ''description'', ''filename'', ''mime-type'', ''lastmod_time'', ''byte_count'', ''data'']"
  "Attachment_fields e" "Attachment_from e" "Attachment_ok e" for e
  by unfold_locales
     (simp_all add: Attachment_fields_def image_Un Attachment_from_def Attachment_ok_def codec_simps attachment_data.dec_enc)

interpretation attachment: json_codec "Attachment_to e" "struct_of (Attachment_from e)" "Attachment_ok e" for e
  using attachment_fields.struct_codec [of e] by (simp add: Attachment_to_def [abs_def])
interpretation attachments: json_codec "arr (Attachment_to e)" "array_of (struct_of (Attachment_from e))" "list_all (Attachment_ok e)" for e
  by (rule attachment.arr_codec)
interpretation thread_value: json_codec Thread_to "struct_of Thread_from" Thread_ok
  using thread.struct_codec by (simp add: Thread_to_def [abs_def])
interpretation timing_value: json_codec "Timing_to e" "struct_of (Timing_from e)" "Timing_ok e" for e
  using timing.struct_codec [of e] by (simp add: Timing_to_def [abs_def])
interpretation please_ack_value: json_codec PleaseAck_to "struct_of PleaseAck_from" "\<lambda>_. True"
  using please_ack.struct_codec by (simp add: PleaseAck_to_def [abs_def])
interpretation localization_value: json_codec MsgLocalization_to "struct_of (MsgLocalization_from e)" "MsgLocalization_ok e" for e
  using msg_localization.struct_codec [of e] by (simp add: MsgLocalization_to_def [abs_def])

lemmas deco_reads = codec_simps
  attachments.dec_enc attachments.opt_read thread_value.dec_enc thread_value.opt_read timing_value.opt_read
  please_ack_value.opt_read localization_value.opt_read field_localization.opt_read

text \<open>The decorators of the messages. \<open>NoDecorators\<close> are written as nothing and read from anything.\<close>

definition no_fields :: "unit \<Rightarrow> (string \<times> json) list" where
  "no_fields _ = []"

definition no_fields_from :: "json \<Rightarrow> unit option" where
  "no_fields_from _ = Some ()"

definition opt_decorators_fields :: "codec_env \<Rightarrow> opt_decorators \<Rightarrow> (string \<times> json) list" where
  "opt_decorators_fields e d =
     opt_entry ''~thread'' Thread_to (od_thread d) @ opt_entry ''~timing'' (Timing_to e) (od_timing d)"

definition opt_decorators_from :: "codec_env \<Rightarrow> json \<Rightarrow> opt_decorators option" where
  "opt_decorators_from e v =
     Option.bind (opt_field (struct_of Thread_from) v ''~thread'') (\<lambda>t.
     Option.bind (opt_field (struct_of (Timing_from e)) v ''~timing'') (\<lambda>tm.
       Some \<lparr>od_thread = t, od_timing = tm\<rparr>))"

definition opt_decorators_ok :: "codec_env \<Rightarrow> opt_decorators \<Rightarrow> bool" where
  "opt_decorators_ok e d = (pred_option Thread_ok (od_thread d) \<and> pred_option (Timing_ok e) (od_timing d))"

definition thr_decorators_fields :: "codec_env \<Rightarrow> thr_decorators \<Rightarrow> (string \<times> json) list" where
  "thr_decorators_fields e d =
     (''~thread'', Thread_to (td_thread d)) # opt_entry ''~timing'' (Timing_to e) (td_timing d)"

definition thr_decorators_from :: "codec_env \<Rightarrow> json \<Rightarrow> thr_decorators option" where
  "thr_decorators_from e v =
     Option.bind (req_field (struct_of Thread_from) v ''~thread'') (\<lambda>t.
     Option.bind (opt_field (struct_of (Timing_from e)) v ''~timing'') (\<lambda>tm.
       Some \<lparr>td_thread = t, td_timing = tm\<rparr>))"

definition thr_decorators_ok :: "codec_env \<Rightarrow> thr_decorators \<Rightarrow> bool" where
  "thr_decorators_ok e d = (Thread_ok (td_thread d) \<and> pred_option (Timing_ok e) (td_timing d))"

definition ack_decorators_fields :: "codec_env \<Rightarrow> ack_decorators \<Rightarrow> (string \<times> json) list" where
  "ack_decorators_fields e d =
     (''~thread'', Thread_to (kd_thread d)) # opt_entry ''~please_ack'' PleaseAck_to (kd_please_ack d) @
     opt_entry ''~timing'' (Timing_to e) (kd_timing d)"

definition ack_decorators_from :: "codec_env \<Rightarrow> json \<Rightarrow> ack_decorators option" where
  "ack_decorators_from e v =
     Option.bind (req_field (struct_of Thread_from) v ''~thread'') (\<lambda>t.
     Option.bind (opt_field (struct_of PleaseAck_from) v ''~please_ack'') (\<lambda>pa.
     Option.bind (opt_field (struct_of (Timing_from e)) v ''~timing'') (\<lambda>tm.
       Some \<lparr>kd_thread = t, kd_please_ack = pa, kd_timing = tm\<rparr>)))"

definition ack_decorators_ok :: "codec_env \<Rightarrow> ack_decorators \<Rightarrow> bool" where
  "ack_decorators_ok e d = (Thread_ok (kd_thread d) \<and> pred_option (Timing_ok e) (kd_timing d))"

definition tim_decorators_fields :: "codec_env \<Rightarrow> tim_decorators \<Rightarrow> (string \<times> json) list" where
  "tim_decorators_fields e d = opt_entry ''~timing'' (Timing_to e) (md_timing d)"

definition tim_decorators_from :: "codec_env \<Rightarrow> json \<Rightarrow> tim_decorators option" where
  "tim_decorators_from e v =
     Option.bind (opt_field (struct_of (Timing_from e)) v ''~timing'') (\<lambda>tm. Some \<lparr>md_timing = tm\<rparr>)"

definition tim_decorators_ok :: "codec_env \<Rightarrow> tim_decorators \<Rightarrow> bool" where
  "tim_decorators_ok e d = pred_option (Timing_ok e) (md_timing d)"

definition ProblemReportDecorators_fields :: "codec_env \<Rightarrow> ProblemReportDecorators \<Rightarrow> (string \<times> json) list" where
  "ProblemReportDecorators_fields e d =
     opt_entry ''~thread'' Thread_to (prd_thread d) @ opt_entry ''~timing'' (Timing_to e) (prd_timing d) @
     opt_entry ''description~l10n'' FieldLocalization_to (prd_description_locale d) @
     opt_entry ''fix-hint~l10n'' FieldLocalization_to (prd_fix_hint_locale d)"

definition ProblemReportDecorators_from :: "codec_env \<Rightarrow> json \<Rightarrow> ProblemReportDecorators option" where
  "ProblemReportDecorators_from e v =
     Option.bind (opt_field (struct_of Thread_from) v ''~thread'') (\<lambda>t.
     Option.bind (opt_field (struct_of (Timing_from e)) v ''~timing'') (\<lambda>tm.
     Option.bind (opt_field (struct_of (FieldLocalization_from e)) v ''description~l10n'') (\<lambda>dl.
     Option.bind (opt_field (struct_of (FieldLocalization_from e)) v ''fix-hint~l10n'') (\<lambda>fl.
       Some \<lparr>prd_thread = t, prd_timing = tm, prd_description_locale = dl, prd_fix_hint_locale = fl\<rparr>))))"

definition ProblemReportDecorators_ok :: "codec_env \<Rightarrow> ProblemReportDecorators \<Rightarrow> bool" where
  "ProblemReportDecorators_ok e d = (pred_option Thread_ok (prd_thread d) \<and> pred_option (Timing_ok e) (prd_timing d)
     \<and> pred_option (FieldLocalization_ok e) (prd_description_locale d)
     \<and> pred_option (FieldLocalization_ok e) (prd_fix_hint_locale d))"

definition RevokeDecorators_fields :: "codec_env \<Rightarrow> RevokeDecorators \<Rightarrow> (string \<times> json) list" where
  "RevokeDecorators_fields e d =
     opt_entry ''~please_ack'' PleaseAck_to (rvd_please_ack d) @ opt_entry ''~timing'' (Timing_to e) (rvd_timing d) @
     opt_entry ''~thread'' Thread_to (rvd_thread d)"

definition RevokeDecorators_from :: "codec_env \<Rightarrow> json \<Rightarrow> RevokeDecorators option" where
  "RevokeDecorators_from e v =
     Option.bind (opt_field (struct_of PleaseAck_from) v ''~please_ack'') (\<lambda>pa.
     Option.bind (opt_field (struct_of (Timing_from e)) v ''~timing'') (\<lambda>tm.
     Option.bind (opt_field (struct_of Thread_from) v ''~thread'') (\<lambda>t.
       Some \<lparr>rvd_please_ack = pa, rvd_timing = tm, rvd_thread = t\<rparr>)))"

definition RevokeDecorators_ok :: "codec_env \<Rightarrow> RevokeDecorators \<Rightarrow> bool" where
  "RevokeDecorators_ok e d = (pred_option (Timing_ok e) (rvd_timing d) \<and> pred_option Thread_ok (rvd_thread d))"

definition ConnProblemReportDecorators_fields :: "codec_env \<Rightarrow> ConnProblemReportDecorators \<Rightarrow> (string \<times> json) list" where
  "ConnProblemReportDecorators_fields e d =
     (''~thread'', Thread_to (cprd_thread d)) # opt_entry ''~l10n'' MsgLocalization_to (cprd_localization d) @
     opt_entry ''~timing'' (Timing_to e) (cprd_timing d)"

definition ConnProblemReportDecorators_from :: "codec_env \<Rightarrow> json \<Rightarrow> ConnProblemReportDecorators option" where
  "ConnProblemReportDecorators_from e v =
     Option.bind (req_field (struct_of Thread_from) v ''~thread'') (\<lambda>t.
     Option.bind (opt_field (struct_of (MsgLocalization_from e)) v ''~l10n'') (\<lambda>l.
     Option.bind (opt_field (struct_of (Timing_from e)) v ''~timing'') (\<lambda>tm.
       Some \<lparr>cprd_thread = t, cprd_localization = l, cprd_timing = tm\<rparr>)))"

definition ConnProblemReportDecorators_ok :: "codec_env \<Rightarrow> ConnProblemReportDecorators \<Rightarrow> bool" where
  "ConnProblemReportDecorators_ok e d = (Thread_ok (cprd_thread d)
     \<and> pred_option (MsgLocalization_ok e) (cprd_localization d) \<and> pred_option (Timing_ok e) (cprd_timing d))"

definition BasicMessageDecorators_fields :: "codec_env \<Rightarrow> BasicMessageDecorators \<Rightarrow> (string \<times> json) list" where
  "BasicMessageDecorators_fields e d =
     opt_entry ''~l10n'' MsgLocalization_to (bmd_l10n d) @ opt_entry ''~thread'' Thread_to (bmd_thread d) @
     opt_entry ''~timing'' (Timing_to e) (bmd_timing d)"

definition BasicMessageDecorators_from :: "codec_env \<Rightarrow> json \<Rightarrow> BasicMessageDecorators option" where
  "BasicMessageDecorators_from e v =
     Option.bind (opt_field (struct_of (MsgLocalization_from e)) v ''~l10n'') (\<lambda>l.
     Option.bind (opt_field (struct_of Thread_from) v ''~thread'') (\<lambda>t.
     Option.bind (opt_field (struct_of (Timing_from e)) v ''~timing'') (\<lambda>tm.
       Some \<lparr>bmd_l10n = l, bmd_thread = t, bmd_timing = tm\<rparr>)))"

definition BasicMessageDecorators_ok :: "codec_env \<Rightarrow> BasicMessageDecorators \<Rightarrow> bool" where
  "BasicMessageDecorators_ok e d = (pred_option (MsgLocalization_ok e) (bmd_l10n d)
     \<and> pred_option Thread_ok (bmd_thread d) \<and> pred_option (Timing_ok e) (bmd_timing d))"

interpretation no_decorators: fields_codec "[]" no_fields no_fields_from "\<lambda>_. True"
  by unfold_locales (simp_all add: no_fields_def no_fields_from_def)
interpretation opt_decorators: fields_codec "[''~thread'', ''~timing'']"
  "opt_decorators_fields e" "opt_decorators_from e" "opt_decorators_ok e" for e
  by unfold_locales
     (simp_all add: opt_decorators_fields_def image_Un opt_decorators_from_def opt_decorators_ok_def deco_reads)
interpretation thr_decorators: fields_codec "[''~thread'', ''~timing'']"
  "thr_decorators_fields e" "thr_decorators_from e" "thr_decorators_ok e" for e
  by unfold_locales
     (simp_all add: thr_decorators_fields_def image_Un thr_decorators_from_def thr_decorators_ok_def deco_reads)
interpretation ack_decorators: fields_codec "[''~thread'', ''~please_ack'', ''~timing'']"
  "ack_decorators_fields e" "ack_decorators_from e" "ack_decorators_ok e" for e
  by unfold_locales
     (simp_all add: ack_decorators_fields_def image_Un ack_decorators_from_def ack_decorators_ok_def deco_reads)
interpretation tim_decorators: fields_codec "[''~timing'']"
  "tim_decorators_fields e" "tim_decorators_from e" "tim_decorators_ok e" for e
  by unfold_locales
     (simp_all add: tim_decorators_fields_def image_Un tim_decorators_from_def tim_decorators_ok_def deco_reads)
interpretation report_decorators: fields_codec "[''~thread'', ''~timing'', ''description~l10n'', ''fix-hint~l10n'']"
  "ProblemReportDecorators_fields e" "ProblemReportDecorators_from e" "ProblemReportDecorators_ok e" for e
  by unfold_locales
     (simp_all add: ProblemReportDecorators_fields_def image_Un ProblemReportDecorators_from_def
        ProblemReportDecorators_ok_def deco_reads)
interpretation revoke_decorators: fields_codec "[''~please_ack'', ''~timing'', ''~thread'']"
  "RevokeDecorators_fields e" "RevokeDecorators_from e" "RevokeDecorators_ok e" for e
  by unfold_locales
     (simp_all add: RevokeDecorators_fields_def image_Un RevokeDecorators_from_def RevokeDecorators_ok_def deco_reads)
interpretation conn_report_decorators: fields_codec "[''~thread'', ''~l10n'', ''~timing'']"
  "ConnProblemReportDecorators_fields e" "ConnProblemReportDecorators_from e" "ConnProblemReportDecorators_ok e" for e
  by unfold_locales
     (simp_all add: ConnProblemReportDecorators_fields_def image_Un ConnProblemReportDecorators_from_def
        ConnProblemReportDecorators_ok_def deco_reads)
interpretation basic_decorators: fields_codec "[''~l10n'', ''~thread'', ''~timing'']"
  "BasicMessageDecorators_fields e" "BasicMessageDecorators_from e" "BasicMessageDecorators_ok e" for e
  by unfold_locales
     (simp_all add: BasicMessageDecorators_fields_def image_Un BasicMessageDecorators_from_def
        BasicMessageDecorators_ok_def deco_reads)

end
