(* ===== verification/Message_Json.thy ===== *)
theory Message_Json
  imports Message_Codec
begin

text \<open>
  The JSON of messages, continued: the contents of all messages (messages/src/msg_fields/protocols), \<open>MsgParts\<close>
  with its flattened parts, and the dispatch on \<open>@type\<close> (messages/src/lib.rs and the \<open>DelayedSerde\<close> of every protocol).

  Shown: every well-formed message is read back from its JSON; a value is read as a message only under a
  type that names the protocol and the kind of that message. What is lost is shown as well: the location of
  a problem is cut at its separator, and a pairwise invitation to a DID that is a URL is read as another kind.
\<close>

subsection \<open>Parts of contents\<close>

text \<open>The unit structs that are written as a message type.\<close>

definition type_marker :: "Protocol \<Rightarrow> (string \<times> 'k) list \<Rightarrow> 'k \<Rightarrow> json" where
  "type_marker p names k = JString (serialize_msg_type p (kind_as_ref names k))"

definition type_marker_from :: "Protocol \<Rightarrow> (string \<times> 'k) list \<Rightarrow> 'k \<Rightarrow> json \<Rightarrow> unit option" where
  "type_marker_from p names k v =
     Option.bind (as_str v) (\<lambda>s. case MessageType_try_from s of
       Inl _ \<Rightarrow> None
     | Inr mt \<Rightarrow> if mt_protocol mt = p \<and> kind_from_str names (mt_kind mt) = Some k then Some () else None)"

context kind_table
begin

lemma marker_read: "type_marker_from p names k (type_marker p names k) = Some ()"
  by (simp add: type_marker_from_def type_marker_def type_read from_as_ref)

end

definition CredentialAttr_fields :: "CredentialAttr \<Rightarrow> (string \<times> json) list" where
  "CredentialAttr_fields a =
     (''name'', JString (ca_name a)) # (''value'', JString (ca_value a)) #
     opt_entry ''mime-type'' (enum_to MimeType_names) (ca_mime_type a)"

definition CredentialAttr_from :: "json \<Rightarrow> CredentialAttr option" where
  "CredentialAttr_from v =
     Option.bind (req_field as_str v ''name'') (\<lambda>n.
     Option.bind (req_field as_str v ''value'') (\<lambda>x.
     Option.bind (opt_field (enum_from MimeType_names) v ''mime-type'') (\<lambda>mt.
       Some \<lparr>ca_name = n, ca_value = x, ca_mime_type = mt\<rparr>)))"

interpretation credential_attr: fields_codec "[''name'', ''value'', ''mime-type'']"
  CredentialAttr_fields CredentialAttr_from "\<lambda>_. True"
  by unfold_locales (simp_all add: CredentialAttr_fields_def CredentialAttr_from_def codec_simps)
interpretation credential_attr_value: json_codec "\<lambda>a. JObject (CredentialAttr_fields a)" "struct_of CredentialAttr_from" "\<lambda>_. True"
  by (rule credential_attr.struct_codec)
interpretation credential_attrs: json_codec "arr (\<lambda>a. JObject (CredentialAttr_fields a))"
  "array_of (struct_of CredentialAttr_from)" "list_all (\<lambda>_. True)"
  by (rule credential_attr_value.arr_codec)

definition CredentialPreview_to :: "CredentialPreview \<Rightarrow> json" where
  "CredentialPreview_to p = JObject
     [(''@type'', type_marker CredentialIssuanceType CredentialIssuanceTypeV1_0_names IK_CredentialPreview),
      (''attributes'', arr (\<lambda>a. JObject (CredentialAttr_fields a)) (cp_attributes p))]"

definition CredentialPreview_from :: "json \<Rightarrow> CredentialPreview option" where
  "CredentialPreview_from v =
     Option.bind (req_field (type_marker_from CredentialIssuanceType CredentialIssuanceTypeV1_0_names IK_CredentialPreview)
         v ''@type'') (\<lambda>_.
     Option.bind (req_field (array_of (struct_of CredentialAttr_from)) v ''attributes'') (\<lambda>as.
       Some (CredentialPreview_new as)))"

interpretation credential_preview: json_codec CredentialPreview_to CredentialPreview_from "\<lambda>_. True"
  by unfold_locales
     (simp_all add: CredentialPreview_to_def CredentialPreview_from_def req_field_def issuance_kinds.marker_read
        credential_attrs.dec_enc CredentialPreview_new_def)

definition PresentationAttr_fields :: "PresentationAttr \<Rightarrow> (string \<times> json) list" where
  "PresentationAttr_fields a =
     (''name'', JString (pa_name a)) # opt_entry ''cred_def_id'' JString (pa_cred_def_id a) @
     opt_entry ''mime-type'' (enum_to MimeType_names) (pa_mime_type a) @
     opt_entry ''value'' JString (pa_value a) @ opt_entry ''referent'' JString (pa_referent a)"

definition PresentationAttr_from :: "json \<Rightarrow> PresentationAttr option" where
  "PresentationAttr_from v =
     Option.bind (req_field as_str v ''name'') (\<lambda>n.
     Option.bind (opt_field as_str v ''cred_def_id'') (\<lambda>c.
     Option.bind (opt_field (enum_from MimeType_names) v ''mime-type'') (\<lambda>mt.
     Option.bind (opt_field as_str v ''value'') (\<lambda>x.
     Option.bind (opt_field as_str v ''referent'') (\<lambda>r.
       Some \<lparr>pa_name = n, pa_cred_def_id = c, pa_mime_type = mt, pa_value = x, pa_referent = r\<rparr>)))))"

interpretation presentation_attr: fields_codec "[''name'', ''cred_def_id'', ''mime-type'', ''value'', ''referent'']"
  PresentationAttr_fields PresentationAttr_from "\<lambda>_. True"
  by unfold_locales (simp_all add: PresentationAttr_fields_def image_Un PresentationAttr_from_def codec_simps)
interpretation presentation_attr_value: json_codec "\<lambda>a. JObject (PresentationAttr_fields a)" "struct_of PresentationAttr_from" "\<lambda>_. True"
  by (rule presentation_attr.struct_codec)
interpretation presentation_attrs: json_codec "arr (\<lambda>a. JObject (PresentationAttr_fields a))"
  "array_of (struct_of PresentationAttr_from)" "list_all (\<lambda>_. True)"
  by (rule presentation_attr_value.arr_codec)

text \<open>The referent of a predicate is flattened: it is there if both of its fields are.\<close>

definition Referent_from :: "json \<Rightarrow> Referent option" where
  "Referent_from v =
     Option.bind (req_field as_str v ''cred_def_id'') (\<lambda>c.
     Option.bind (req_field as_str v ''referent'') (\<lambda>r. Some \<lparr>ref_cred_def_id = c, ref_referent = r\<rparr>))"

definition Predicate_fields :: "Predicate \<Rightarrow> (string \<times> json) list" where
  "Predicate_fields p =
     [(''name'', JString (pred_name p)), (''predicate'', enum_to PredicateOperator_names (pred_predicate p)),
      (''threshold'', JI64 (pred_threshold p))] @
     (case pred_referent p of
        None \<Rightarrow> []
      | Some r \<Rightarrow> [(''cred_def_id'', JString (ref_cred_def_id r)), (''referent'', JString (ref_referent r))])"

definition Predicate_from :: "json \<Rightarrow> Predicate option" where
  "Predicate_from v =
     Option.bind (req_field as_str v ''name'') (\<lambda>n.
     Option.bind (req_field (enum_from PredicateOperator_names) v ''predicate'') (\<lambda>po.
     Option.bind (req_field as_i64 v ''threshold'') (\<lambda>t.
       Some \<lparr>pred_name = n, pred_predicate = po, pred_threshold = t, pred_referent = Referent_from v\<rparr>)))"

interpretation predicate: fields_codec "[''name'', ''predicate'', ''threshold'', ''cred_def_id'', ''referent'']"
  Predicate_fields Predicate_from "\<lambda>_. True"
proof
  fix a v
  show "fst ` set (Predicate_fields a) \<subseteq> set [''name'', ''predicate'', ''threshold'', ''cred_def_id'', ''referent'']"
    by (auto simp: Predicate_fields_def split: option.splits)
  assume "list_all (\<lambda>k. json_get v k = map_of (Predicate_fields a) k)
    [''name'', ''predicate'', ''threshold'', ''cred_def_id'', ''referent'']"
  then show "Predicate_from v = Some a"
    by (cases "pred_referent a") (simp_all add: Predicate_from_def Predicate_fields_def Referent_from_def codec_simps)
qed
interpretation predicate_value: json_codec "\<lambda>a. JObject (Predicate_fields a)" "struct_of Predicate_from" "\<lambda>_. True"
  by (rule predicate.struct_codec)
interpretation predicates: json_codec "arr (\<lambda>a. JObject (Predicate_fields a))" "array_of (struct_of Predicate_from)" "list_all (\<lambda>_. True)"
  by (rule predicate_value.arr_codec)

definition PresentationPreview_to :: "PresentationPreview \<Rightarrow> json" where
  "PresentationPreview_to p = JObject
     [(''@type'', type_marker PresentProofType PresentProofTypeV1_0_names FK_PresentationPreview),
      (''attributes'', arr (\<lambda>a. JObject (PresentationAttr_fields a)) (pp_attributes p)),
      (''predicates'', arr (\<lambda>a. JObject (Predicate_fields a)) (pp_predicates p))]"

definition PresentationPreview_from :: "json \<Rightarrow> PresentationPreview option" where
  "PresentationPreview_from v =
     Option.bind (req_field (type_marker_from PresentProofType PresentProofTypeV1_0_names FK_PresentationPreview)
         v ''@type'') (\<lambda>_.
     Option.bind (req_field (array_of (struct_of PresentationAttr_from)) v ''attributes'') (\<lambda>as.
     Option.bind (req_field (array_of (struct_of Predicate_from)) v ''predicates'') (\<lambda>ps.
       Some (PresentationPreview_new as ps))))"

interpretation presentation_preview: json_codec PresentationPreview_to PresentationPreview_from "\<lambda>_. True"
  by unfold_locales
     (simp_all add: PresentationPreview_to_def PresentationPreview_from_def req_field_def proof_kinds.marker_read
        presentation_attrs.dec_enc predicates.dec_enc PresentationPreview_new_def)

definition Description_keys :: "string list" where
  "Description_keys = [''code'']"

definition Description_to :: "Description \<Rightarrow> json" where
  "Description_to d = JObject ((''code'', JString (desc_code d)) # map_entries JString (desc_translations d))"

definition Description_from :: "codec_env \<Rightarrow> json \<Rightarrow> Description option" where
  "Description_from e v =
     Option.bind (req_field as_str v ''code'') (\<lambda>c.
     Option.bind (entries_from (co_from_639_1 e) as_str (other_entries Description_keys v)) (\<lambda>ts.
       Some \<lparr>desc_translations = ts, desc_code = c\<rparr>))"

definition Description_ok :: "codec_env \<Rightarrow> Description \<Rightarrow> bool" where
  "Description_ok e d = (map_ok (co_from_639_1 e) (\<lambda>_. True) (desc_translations d)
     \<and> dom (desc_translations d) \<inter> set Description_keys = {})"

interpretation description: json_codec Description_to "Description_from e" "Description_ok e" for e
proof
  fix d assume ok: "Description_ok e d"
  then have fin: "finite (dom (desc_translations d))" "dom (desc_translations d) \<inter> set Description_keys = {}"
      "map_ok (co_from_639_1 e) (\<lambda>_. True) (desc_translations d)"
    by (auto simp: Description_ok_def map_ok_def)
  have "''code'' \<in> set Description_keys" by (simp add: Description_keys_def)
  then have "other_entries Description_keys (Description_to d) = map_entries JString (desc_translations d)"
    using other_map_entries [OF fin(1,2)] by (simp add: other_entries_def Description_to_def)
  then show "Description_from e (Description_to d) = Some d"
    using str.entries_read [OF fin(3)] by (simp add: Description_from_def Description_to_def req_field_def)
qed (simp add: Description_to_def)

text \<open>\<open>str::split\<close> with a string. \<open>Where\<close> reads the first two pieces.\<close>

fun split_str :: "string \<Rightarrow> string \<Rightarrow> string list" where
  "split_str sep [] = [[]]"
| "split_str sep (c # s) =
     (if sep \<noteq> [] \<and> take (length sep) (c # s) = sep then [] # split_str sep (drop (length sep - 1) s)
      else (case split_str sep s of [] \<Rightarrow> [[c]] | p # ps \<Rightarrow> (c # p) # ps))"

definition WHERE_SEPARATOR :: string where
  "WHERE_SEPARATOR = '' - ''"

definition Where_to :: "Where \<Rightarrow> json" where
  "Where_to w = JString (kind_as_ref WhereParty_names (where_party w) @ WHERE_SEPARATOR @ where_location w)"

definition Where_from :: "json \<Rightarrow> Where option" where
  "Where_from v =
     Option.bind (as_str v) (\<lambda>s.
       let pieces = split_str WHERE_SEPARATOR s
       in Option.bind (list_get pieces 0) (\<lambda>p.
          Option.bind (kind_from_str WhereParty_names p) (\<lambda>party.
          Option.bind (list_get pieces 1) (\<lambda>l.
            Some \<lparr>where_party = party, where_location = l\<rparr>))))"

definition Where_ok :: "Where \<Rightarrow> bool" where
  "Where_ok w = (split_str WHERE_SEPARATOR (where_location w) = [where_location w])"

lemma split_str_nonempty: "split_str sep s \<noteq> []"
  by (induction sep s rule: split_str.induct) (auto split: list.splits)

lemma where_split:
  "split_str WHERE_SEPARATOR (kind_as_ref WhereParty_names p @ WHERE_SEPARATOR @ l)
     = kind_as_ref WhereParty_names p # split_str WHERE_SEPARATOR l"
  by (cases p) (simp_all add: kind_as_ref_def WhereParty_names_def WHERE_SEPARATOR_def)

lemma where_read:
  "Where_from (Where_to w) = Some \<lparr>where_party = where_party w, where_location = hd (split_str WHERE_SEPARATOR (where_location w))\<rparr>"
  using split_str_nonempty [of WHERE_SEPARATOR "where_location w"]
  by (cases "split_str WHERE_SEPARATOR (where_location w)")
     (simp_all add: Where_from_def Where_to_def where_split party_names.from_as_ref)

interpretation location: json_codec Where_to Where_from Where_ok
  by (unfold_locales, simp add: where_read Where_ok_def, simp add: Where_to_def)

definition OobService_to :: "OobService \<Rightarrow> json" where
  "OobService_to s = (case s of Oob_AriesService a \<Rightarrow> AriesService_to_json a | Oob_Did d \<Rightarrow> JString d)"

definition OobService_from :: "codec_env \<Rightarrow> json \<Rightarrow> OobService option" where
  "OobService_from e v =
     (case AriesService_from_json (co_url_parse e) v of
        Some a \<Rightarrow> Some (Oob_AriesService a)
      | None \<Rightarrow> map_option Oob_Did (as_str v))"

definition OobService_ok :: "codec_env \<Rightarrow> OobService \<Rightarrow> bool" where
  "OobService_ok e s = (case s of Oob_AriesService a \<Rightarrow> url_ok e (svc_service_endpoint a) | Oob_Did _ \<Rightarrow> True)"

interpretation service: json_codec OobService_to "OobService_from e" "OobService_ok e" for e
proof
  fix s assume ok: "OobService_ok e s"
  show "OobService_from e (OobService_to s) = Some s"
  proof (cases s)
    case (Oob_AriesService a)
    with ok service_json_roundtrip [of "co_url_parse e" a] show ?thesis
      by (simp add: OobService_ok_def url_ok_def OobService_from_def OobService_to_def)
  next
    case (Oob_Did d)
    then show ?thesis by (simp add: OobService_from_def OobService_to_def AriesService_from_json_def req_field_def)
  qed
  show "OobService_to s \<noteq> JNull"
    by (cases s) (simp_all add: OobService_to_def AriesService_to_json_def)
qed
interpretation services: json_codec "arr OobService_to" "array_of (OobService_from e)" "list_all (OobService_ok e)" for e
  by (rule service.arr_codec)

definition ProtocolDescriptor_fields :: "ProtocolDescriptor \<Rightarrow> (string \<times> json) list" where
  "ProtocolDescriptor_fields d =
     (''pid'', MaybeKnown_to Protocol_to (pd_pid d)) #
     opt_entry ''roles'' (arr (MaybeKnown_to (enum_to Role_names))) (pd_roles d)"

definition ProtocolDescriptor_to :: "ProtocolDescriptor \<Rightarrow> json" where
  "ProtocolDescriptor_to d = JObject (ProtocolDescriptor_fields d)"

definition ProtocolDescriptor_from :: "json \<Rightarrow> ProtocolDescriptor option" where
  "ProtocolDescriptor_from v =
     Option.bind (req_field (MaybeKnown_from Protocol_from) v ''pid'') (\<lambda>p.
     Option.bind (opt_field (array_of (MaybeKnown_from (enum_from Role_names))) v ''roles'') (\<lambda>rs.
       Some \<lparr>pd_pid = p, pd_roles = rs\<rparr>))"

definition ProtocolDescriptor_ok :: "ProtocolDescriptor \<Rightarrow> bool" where
  "ProtocolDescriptor_ok d = (MaybeKnown_ok Protocol_from (pd_pid d)
     \<and> pred_option (list_all (MaybeKnown_ok (enum_from Role_names))) (pd_roles d))"

interpretation descriptor_fields: fields_codec "[''pid'', ''roles'']"
  ProtocolDescriptor_fields ProtocolDescriptor_from ProtocolDescriptor_ok
  by unfold_locales
     (simp_all add: ProtocolDescriptor_fields_def ProtocolDescriptor_from_def ProtocolDescriptor_ok_def codec_simps)
interpretation descriptor: json_codec ProtocolDescriptor_to "struct_of ProtocolDescriptor_from" ProtocolDescriptor_ok
  using descriptor_fields.struct_codec by (simp add: ProtocolDescriptor_to_def [abs_def])
interpretation descriptors: json_codec "arr ProtocolDescriptor_to" "array_of (struct_of ProtocolDescriptor_from)"
  "list_all ProtocolDescriptor_ok"
  by (rule descriptor.arr_codec)

definition ConnectionSignature_to :: "ConnectionSignature \<Rightarrow> json" where
  "ConnectionSignature_to s = JObject
     [(''@type'', type_marker SignatureType SignatureTypeV1_0_names SK_Ed25519Sha512Single),
      (''signature'', JString (cs_signature s)), (''sig_data'', JString (cs_sig_data s)), (''signer'', JString (cs_signer s))]"

definition ConnectionSignature_from :: "json \<Rightarrow> ConnectionSignature option" where
  "ConnectionSignature_from v =
     Option.bind (req_field (type_marker_from SignatureType SignatureTypeV1_0_names SK_Ed25519Sha512Single) v ''@type'') (\<lambda>_.
     Option.bind (req_field as_str v ''signature'') (\<lambda>s.
     Option.bind (req_field as_str v ''sig_data'') (\<lambda>d.
     Option.bind (req_field as_str v ''signer'') (\<lambda>r.
       Some (ConnectionSignature_new s d r)))))"

lemma signature_read: "ConnectionSignature_from (ConnectionSignature_to s) = Some s"
  by (simp add: ConnectionSignature_from_def ConnectionSignature_to_def req_field_def signature_kinds.marker_read
      ConnectionSignature_new_def)

definition ResponseContent_fields :: "ResponseContent \<Rightarrow> (string \<times> json) list" where
  "ResponseContent_fields c = [(''connection~sig'', ConnectionSignature_to (connection_sig c))]"

definition ResponseContent_from :: "json \<Rightarrow> ResponseContent option" where
  "ResponseContent_from v =
     Option.bind (req_field ConnectionSignature_from v ''connection~sig'') (\<lambda>s. Some \<lparr>connection_sig = s\<rparr>)"

interpretation response_content: fields_codec "[''connection~sig'']" ResponseContent_fields ResponseContent_from "\<lambda>_. True"
  by unfold_locales (simp_all add: ResponseContent_fields_def ResponseContent_from_def req_field_def signature_read)

text \<open>The endpoint of a pairwise invitation is a URL or, for a DID, a string: \<open>dec\<close> reads it.\<close>

definition PairwiseInvitationContent_fields :: "PairwiseInvitationContent \<Rightarrow> (string \<times> json) list" where
  "PairwiseInvitationContent_fields c =
     [(''label'', JString (pwinv_label c)), (''recipientKeys'', arr JString (pwinv_recipient_keys c)),
      (''routingKeys'', arr JString (pwinv_routing_keys c)), (''serviceEndpoint'', JString (pwinv_service_endpoint c))]"

definition PairwiseInvitationContent_from :: "(json \<Rightarrow> string option) \<Rightarrow> json \<Rightarrow> PairwiseInvitationContent option" where
  "PairwiseInvitationContent_from dec v =
     Option.bind (req_field as_str v ''label'') (\<lambda>l.
     Option.bind (req_field (array_of as_str) v ''recipientKeys'') (\<lambda>rks.
     Option.bind (default_field (array_of as_str) [] v ''routingKeys'') (\<lambda>rts.
     Option.bind (req_field dec v ''serviceEndpoint'') (\<lambda>ep.
       Some \<lparr>pwinv_label = l, pwinv_recipient_keys = rks, pwinv_routing_keys = rts, pwinv_service_endpoint = ep\<rparr>))))"

interpretation pairwise_invitation: fields_codec "[''label'', ''recipientKeys'', ''routingKeys'', ''serviceEndpoint'']"
  PairwiseInvitationContent_fields "PairwiseInvitationContent_from (url_from e)" "\<lambda>c. url_ok e (pwinv_service_endpoint c)" for e
  by unfold_locales (simp_all add: PairwiseInvitationContent_fields_def PairwiseInvitationContent_from_def codec_simps)
interpretation pairwise_did_invitation: fields_codec "[''label'', ''recipientKeys'', ''routingKeys'', ''serviceEndpoint'']"
  PairwiseInvitationContent_fields "PairwiseInvitationContent_from as_str" "\<lambda>_. True"
  by unfold_locales (simp_all add: PairwiseInvitationContent_fields_def PairwiseInvitationContent_from_def codec_simps)

subsection \<open>Contents\<close>

definition OfferCredentialContent_fields :: "codec_env \<Rightarrow> OfferCredentialContent \<Rightarrow> (string \<times> json) list" where
  "OfferCredentialContent_fields e c =
     opt_entry ''comment'' JString (offer_comment c) @
     (''credential_preview'', CredentialPreview_to (offer_credential_preview c)) #
     [(''offers~attach'', arr (Attachment_to e) (offers_attach c))]"

definition OfferCredentialContent_from :: "codec_env \<Rightarrow> json \<Rightarrow> OfferCredentialContent option" where
  "OfferCredentialContent_from e v =
     Option.bind (opt_field as_str v ''comment'') (\<lambda>a.
     Option.bind (req_field CredentialPreview_from v ''credential_preview'') (\<lambda>b.
     Option.bind (req_field (array_of (struct_of (Attachment_from e))) v ''offers~attach'') (\<lambda>c.
       Some \<lparr>offer_comment = a, offer_credential_preview = b, offers_attach = c\<rparr>)))"

definition OfferCredentialContent_ok :: "codec_env \<Rightarrow> OfferCredentialContent \<Rightarrow> bool" where
  "OfferCredentialContent_ok e c =
     (list_all (Attachment_ok e) (offers_attach c))"

definition ProposeCredentialContent_fields :: "ProposeCredentialContent \<Rightarrow> (string \<times> json) list" where
  "ProposeCredentialContent_fields c =
     opt_entry ''comment'' JString (propose_comment c) @
     (''credential_proposal'', CredentialPreview_to (propose_credential_proposal c)) #
     (''schema_id'', JString (propose_schema_id c)) #
     [(''cred_def_id'', JString (propose_cred_def_id c))]"

definition ProposeCredentialContent_from :: "json \<Rightarrow> ProposeCredentialContent option" where
  "ProposeCredentialContent_from v =
     Option.bind (opt_field as_str v ''comment'') (\<lambda>a.
     Option.bind (req_field CredentialPreview_from v ''credential_proposal'') (\<lambda>b.
     Option.bind (req_field as_str v ''schema_id'') (\<lambda>c.
     Option.bind (req_field as_str v ''cred_def_id'') (\<lambda>d.
       Some \<lparr>propose_comment = a, propose_credential_proposal = b, propose_schema_id = c, propose_cred_def_id = d\<rparr>))))"

definition RequestCredentialContent_fields :: "codec_env \<Rightarrow> RequestCredentialContent \<Rightarrow> (string \<times> json) list" where
  "RequestCredentialContent_fields e c =
     opt_entry ''comment'' JString (request_comment c) @
     [(''requests~attach'', arr (Attachment_to e) (requests_attach c))]"

definition RequestCredentialContent_from :: "codec_env \<Rightarrow> json \<Rightarrow> RequestCredentialContent option" where
  "RequestCredentialContent_from e v =
     Option.bind (opt_field as_str v ''comment'') (\<lambda>a.
     Option.bind (req_field (array_of (struct_of (Attachment_from e))) v ''requests~attach'') (\<lambda>b.
       Some \<lparr>request_comment = a, requests_attach = b\<rparr>))"

definition RequestCredentialContent_ok :: "codec_env \<Rightarrow> RequestCredentialContent \<Rightarrow> bool" where
  "RequestCredentialContent_ok e c =
     (list_all (Attachment_ok e) (requests_attach c))"

definition IssueCredentialContent_fields :: "codec_env \<Rightarrow> IssueCredentialContent \<Rightarrow> (string \<times> json) list" where
  "IssueCredentialContent_fields e c =
     opt_entry ''comment'' JString (issue_comment c) @
     [(''credentials~attach'', arr (Attachment_to e) (credentials_attach c))]"

definition IssueCredentialContent_from :: "codec_env \<Rightarrow> json \<Rightarrow> IssueCredentialContent option" where
  "IssueCredentialContent_from e v =
     Option.bind (opt_field as_str v ''comment'') (\<lambda>a.
     Option.bind (req_field (array_of (struct_of (Attachment_from e))) v ''credentials~attach'') (\<lambda>b.
       Some \<lparr>issue_comment = a, credentials_attach = b\<rparr>))"

definition IssueCredentialContent_ok :: "codec_env \<Rightarrow> IssueCredentialContent \<Rightarrow> bool" where
  "IssueCredentialContent_ok e c =
     (list_all (Attachment_ok e) (credentials_attach c))"

definition AckContent_fields :: "AckContent \<Rightarrow> (string \<times> json) list" where
  "AckContent_fields c =
     [(''status'', enum_to AckStatus_names (ack_status c))]"

definition AckContent_from :: "json \<Rightarrow> AckContent option" where
  "AckContent_from v =
     Option.bind (req_field (enum_from AckStatus_names) v ''status'') (\<lambda>a.
       Some \<lparr>ack_status = a\<rparr>)"

definition ProposePresentationContent_fields :: "ProposePresentationContent \<Rightarrow> (string \<times> json) list" where
  "ProposePresentationContent_fields c =
     opt_entry ''comment'' JString (proppres_comment c) @
     [(''presentation_proposal'', PresentationPreview_to (presentation_proposal c))]"

definition ProposePresentationContent_from :: "json \<Rightarrow> ProposePresentationContent option" where
  "ProposePresentationContent_from v =
     Option.bind (opt_field as_str v ''comment'') (\<lambda>a.
     Option.bind (req_field PresentationPreview_from v ''presentation_proposal'') (\<lambda>b.
       Some \<lparr>proppres_comment = a, presentation_proposal = b\<rparr>))"

definition RequestPresentationContent_fields :: "codec_env \<Rightarrow> RequestPresentationContent \<Rightarrow> (string \<times> json) list" where
  "RequestPresentationContent_fields e c =
     opt_entry ''comment'' JString (reqpres_comment c) @
     [(''request_presentations~attach'', arr (Attachment_to e) (request_presentations_attach c))]"

definition RequestPresentationContent_from :: "codec_env \<Rightarrow> json \<Rightarrow> RequestPresentationContent option" where
  "RequestPresentationContent_from e v =
     Option.bind (opt_field as_str v ''comment'') (\<lambda>a.
     Option.bind (req_field (array_of (struct_of (Attachment_from e))) v ''request_presentations~attach'') (\<lambda>b.
       Some \<lparr>reqpres_comment = a, request_presentations_attach = b\<rparr>))"

definition RequestPresentationContent_ok :: "codec_env \<Rightarrow> RequestPresentationContent \<Rightarrow> bool" where
  "RequestPresentationContent_ok e c =
     (list_all (Attachment_ok e) (request_presentations_attach c))"

definition PresentationContent_fields :: "codec_env \<Rightarrow> PresentationContent \<Rightarrow> (string \<times> json) list" where
  "PresentationContent_fields e c =
     opt_entry ''comment'' JString (pres_comment c) @
     [(''presentations~attach'', arr (Attachment_to e) (presentations_attach c))]"

definition PresentationContent_from :: "codec_env \<Rightarrow> json \<Rightarrow> PresentationContent option" where
  "PresentationContent_from e v =
     Option.bind (opt_field as_str v ''comment'') (\<lambda>a.
     Option.bind (req_field (array_of (struct_of (Attachment_from e))) v ''presentations~attach'') (\<lambda>b.
       Some \<lparr>pres_comment = a, presentations_attach = b\<rparr>))"

definition PresentationContent_ok :: "codec_env \<Rightarrow> PresentationContent \<Rightarrow> bool" where
  "PresentationContent_ok e c =
     (list_all (Attachment_ok e) (presentations_attach c))"

definition ProblemReportContent_fields :: "ProblemReportContent \<Rightarrow> (string \<times> json) list" where
  "ProblemReportContent_fields c =
     (''description'', Description_to (pr_description c)) #
     opt_entry ''problem_items'' (arr (map_to JString)) (pr_problem_items c) @
     opt_entry ''who_retries'' (enum_to WhoRetries_names) (pr_who_retries c) @
     opt_entry ''fix-hint'' JString (pr_fix_hint c) @
     opt_entry ''impact'' (enum_to Impact_names) (pr_impact c) @
     opt_entry ''where'' Where_to (pr_location c) @
     opt_entry ''noticed_time'' JString (pr_noticed_time c) @
     opt_entry ''tracking-uri'' JString (pr_tracking_uri c) @
     opt_entry ''escalation-uri'' JString (pr_escalation_uri c)"

definition ProblemReportContent_from :: "codec_env \<Rightarrow> json \<Rightarrow> ProblemReportContent option" where
  "ProblemReportContent_from e v =
     Option.bind (req_field (Description_from e) v ''description'') (\<lambda>a.
     Option.bind (opt_field (array_of (map_from Some as_str)) v ''problem_items'') (\<lambda>b.
     Option.bind (opt_field (enum_from WhoRetries_names) v ''who_retries'') (\<lambda>c.
     Option.bind (opt_field as_str v ''fix-hint'') (\<lambda>d.
     Option.bind (opt_field (enum_from Impact_names) v ''impact'') (\<lambda>f.
     Option.bind (opt_field Where_from v ''where'') (\<lambda>g.
     Option.bind (opt_field as_str v ''noticed_time'') (\<lambda>h.
     Option.bind (opt_field (url_from e) v ''tracking-uri'') (\<lambda>i.
     Option.bind (opt_field (url_from e) v ''escalation-uri'') (\<lambda>j.
       Some \<lparr>pr_description = a, pr_problem_items = b, pr_who_retries = c, pr_fix_hint = d, pr_impact = f, pr_location = g, pr_noticed_time = h, pr_tracking_uri = i, pr_escalation_uri = j\<rparr>)))))))))"

definition ProblemReportContent_ok :: "codec_env \<Rightarrow> ProblemReportContent \<Rightarrow> bool" where
  "ProblemReportContent_ok e c =
     (Description_ok e (pr_description c)
      \<and> pred_option (list_all (map_ok Some (\<lambda>_. True))) (pr_problem_items c)
      \<and> pred_option Where_ok (pr_location c)
      \<and> pred_option (url_ok e) (pr_tracking_uri c)
      \<and> pred_option (url_ok e) (pr_escalation_uri c))"

definition RevokeContent_fields :: "RevokeContent \<Rightarrow> (string \<times> json) list" where
  "RevokeContent_fields c =
     (''credential_id'', JString (revoke_credential_id c)) #
     (''revocation_format'', MaybeKnown_to (enum_to RevocationFormat_names) (revoke_revocation_format c)) #
     opt_entry ''comment'' JString (revoke_comment c)"

definition RevokeContent_from :: "json \<Rightarrow> RevokeContent option" where
  "RevokeContent_from v =
     Option.bind (req_field as_str v ''credential_id'') (\<lambda>a.
     Option.bind (req_field (MaybeKnown_from (enum_from RevocationFormat_names)) v ''revocation_format'') (\<lambda>b.
     Option.bind (opt_field as_str v ''comment'') (\<lambda>c.
       Some \<lparr>revoke_credential_id = a, revoke_revocation_format = b, revoke_comment = c\<rparr>)))"

definition RevokeContent_ok :: "RevokeContent \<Rightarrow> bool" where
  "RevokeContent_ok c =
     (MaybeKnown_ok (enum_from RevocationFormat_names) (revoke_revocation_format c))"

definition ConnRequestContent_fields :: "ConnRequestContent \<Rightarrow> (string \<times> json) list" where
  "ConnRequestContent_fields c =
     (''label'', JString (cr_label c)) #
     [(''connection'', ConnectionData_to_json (cr_connection c))]"

definition ConnRequestContent_from :: "codec_env \<Rightarrow> json \<Rightarrow> ConnRequestContent option" where
  "ConnRequestContent_from e v =
     Option.bind (req_field as_str v ''label'') (\<lambda>a.
     Option.bind (req_field (ConnectionData_from_json (co_url_parse e)) v ''connection'') (\<lambda>b.
       Some \<lparr>cr_label = a, cr_connection = b\<rparr>))"

definition ConnRequestContent_ok :: "codec_env \<Rightarrow> ConnRequestContent \<Rightarrow> bool" where
  "ConnRequestContent_ok e c =
     (urls_stable (co_url_parse e) (cd_did_doc (cr_connection c)))"

definition ConnProblemReportContent_fields :: "ConnProblemReportContent \<Rightarrow> (string \<times> json) list" where
  "ConnProblemReportContent_fields c =
     opt_entry ''problem-code'' (enum_to ProblemCode_names) (cpr_problem_code c) @
     opt_entry ''explain'' JString (cpr_explain c)"

definition ConnProblemReportContent_from :: "json \<Rightarrow> ConnProblemReportContent option" where
  "ConnProblemReportContent_from v =
     Option.bind (opt_field (enum_from ProblemCode_names) v ''problem-code'') (\<lambda>a.
     Option.bind (opt_field as_str v ''explain'') (\<lambda>b.
       Some \<lparr>cpr_problem_code = a, cpr_explain = b\<rparr>))"

definition PublicInvitationContent_fields :: "PublicInvitationContent \<Rightarrow> (string \<times> json) list" where
  "PublicInvitationContent_fields c =
     (''label'', JString (pubinv_label c)) #
     [(''did'', JString (pubinv_did c))]"

definition PublicInvitationContent_from :: "json \<Rightarrow> PublicInvitationContent option" where
  "PublicInvitationContent_from v =
     Option.bind (req_field as_str v ''label'') (\<lambda>a.
     Option.bind (req_field as_str v ''did'') (\<lambda>b.
       Some \<lparr>pubinv_label = a, pubinv_did = b\<rparr>))"

definition OobInvitationContent_fields :: "codec_env \<Rightarrow> OobInvitationContent \<Rightarrow> (string \<times> json) list" where
  "OobInvitationContent_fields e c =
     opt_entry ''label'' JString (oob_label c) @
     opt_entry ''goal_code'' (MaybeKnown_to (enum_to OobGoalCode_names)) (oob_goal_code c) @
     opt_entry ''goal'' JString (oob_goal c) @
     opt_entry ''accept'' (arr (enum_to MimeType_names)) (oob_accept c) @
     opt_entry ''handshake_protocols'' (arr (MaybeKnown_to Protocol_to)) (oob_handshake_protocols c) @
     opt_entry ''requests~attach'' (arr (Attachment_to e)) (oob_requests_attach c) @
     [(''services'', arr OobService_to (oob_services c))]"

definition OobInvitationContent_from :: "codec_env \<Rightarrow> json \<Rightarrow> OobInvitationContent option" where
  "OobInvitationContent_from e v =
     Option.bind (opt_field as_str v ''label'') (\<lambda>a.
     Option.bind (opt_field (MaybeKnown_from (enum_from OobGoalCode_names)) v ''goal_code'') (\<lambda>b.
     Option.bind (opt_field as_str v ''goal'') (\<lambda>c.
     Option.bind (opt_field (array_of (enum_from MimeType_names)) v ''accept'') (\<lambda>d.
     Option.bind (opt_field (array_of (MaybeKnown_from Protocol_from)) v ''handshake_protocols'') (\<lambda>f.
     Option.bind (opt_field (array_of (struct_of (Attachment_from e))) v ''requests~attach'') (\<lambda>g.
     Option.bind (req_field (array_of (OobService_from e)) v ''services'') (\<lambda>h.
       Some \<lparr>oob_label = a, oob_goal_code = b, oob_goal = c, oob_accept = d, oob_handshake_protocols = f, oob_requests_attach = g, oob_services = h\<rparr>)))))))"

definition OobInvitationContent_ok :: "codec_env \<Rightarrow> OobInvitationContent \<Rightarrow> bool" where
  "OobInvitationContent_ok e c =
     (pred_option (MaybeKnown_ok (enum_from OobGoalCode_names)) (oob_goal_code c)
      \<and> pred_option (list_all (MaybeKnown_ok Protocol_from)) (oob_handshake_protocols c)
      \<and> pred_option (list_all (Attachment_ok e)) (oob_requests_attach c)
      \<and> list_all (OobService_ok e) (oob_services c))"

definition PingContent_fields :: "PingContent \<Rightarrow> (string \<times> json) list" where
  "PingContent_fields c =
     (''response_requested'', JBool (ping_response_requested c)) #
     opt_entry ''comment'' JString (ping_comment c)"

definition PingContent_from :: "json \<Rightarrow> PingContent option" where
  "PingContent_from v =
     Option.bind (default_field as_bool False v ''response_requested'') (\<lambda>a.
     Option.bind (opt_field as_str v ''comment'') (\<lambda>b.
       Some \<lparr>ping_response_requested = a, ping_comment = b\<rparr>))"

definition PingResponseContent_fields :: "PingResponseContent \<Rightarrow> (string \<times> json) list" where
  "PingResponseContent_fields c =
     opt_entry ''comment'' JString (pingresp_comment c)"

definition PingResponseContent_from :: "json \<Rightarrow> PingResponseContent option" where
  "PingResponseContent_from v =
     Option.bind (opt_field as_str v ''comment'') (\<lambda>a.
       Some \<lparr>pingresp_comment = a\<rparr>)"

definition QueryContent_fields :: "QueryContent \<Rightarrow> (string \<times> json) list" where
  "QueryContent_fields c =
     (''query'', JString (q_query c)) #
     opt_entry ''comment'' JString (q_comment c)"

definition QueryContent_from :: "json \<Rightarrow> QueryContent option" where
  "QueryContent_from v =
     Option.bind (req_field as_str v ''query'') (\<lambda>a.
     Option.bind (opt_field as_str v ''comment'') (\<lambda>b.
       Some \<lparr>q_query = a, q_comment = b\<rparr>))"

definition DiscloseContent_fields :: "DiscloseContent \<Rightarrow> (string \<times> json) list" where
  "DiscloseContent_fields c =
     [(''protocols'', arr ProtocolDescriptor_to (disc_protocols c))]"

definition DiscloseContent_from :: "json \<Rightarrow> DiscloseContent option" where
  "DiscloseContent_from v =
     Option.bind (req_field (array_of (struct_of ProtocolDescriptor_from)) v ''protocols'') (\<lambda>a.
       Some \<lparr>disc_protocols = a\<rparr>)"

definition DiscloseContent_ok :: "DiscloseContent \<Rightarrow> bool" where
  "DiscloseContent_ok c =
     (list_all ProtocolDescriptor_ok (disc_protocols c))"

definition BasicMessageContent_fields :: "codec_env \<Rightarrow> BasicMessageContent \<Rightarrow> (string \<times> json) list" where
  "BasicMessageContent_fields e c =
     (''content'', JString (bm_content c)) #
     [(''sent_time'', serialize_datetime e (bm_sent_time c))]"

definition BasicMessageContent_from :: "codec_env \<Rightarrow> json \<Rightarrow> BasicMessageContent option" where
  "BasicMessageContent_from e v =
     Option.bind (req_field as_str v ''content'') (\<lambda>a.
     Option.bind (req_field (datetime_from e) v ''sent_time'') (\<lambda>b.
       Some \<lparr>bm_content = a, bm_sent_time = b\<rparr>))"

definition BasicMessageContent_ok :: "codec_env \<Rightarrow> BasicMessageContent \<Rightarrow> bool" where
  "BasicMessageContent_ok e c =
     (time_ok e (bm_sent_time c))"

definition ForwardContent_fields :: "ForwardContent \<Rightarrow> (string \<times> json) list" where
  "ForwardContent_fields c =
     (''to'', JString (fwd_to c)) #
     [(''msg'', fwd_msg c)]"

definition ForwardContent_from :: "json \<Rightarrow> ForwardContent option" where
  "ForwardContent_from v =
     Option.bind (req_field as_str v ''to'') (\<lambda>a.
     Option.bind (req_field Some v ''msg'') (\<lambda>b.
       Some \<lparr>fwd_to = a, fwd_msg = b\<rparr>))"

lemmas content_reads = deco_reads
  credential_preview.dec_enc presentation_preview.dec_enc description.dec_enc location.opt_read connection_data_json_roundtrip
  services.dec_enc descriptors.dec_enc

interpretation offer_credential: fields_codec "[''comment'', ''credential_preview'', ''offers~attach'']"
  "OfferCredentialContent_fields e" "OfferCredentialContent_from e" "OfferCredentialContent_ok e" for e
  by unfold_locales (simp_all add: OfferCredentialContent_fields_def image_Un OfferCredentialContent_from_def OfferCredentialContent_ok_def content_reads)
interpretation propose_credential: fields_codec "[''comment'', ''credential_proposal'', ''schema_id'', ''cred_def_id'']"
  ProposeCredentialContent_fields ProposeCredentialContent_from "\<lambda>_. True"
  by unfold_locales (simp_all add: ProposeCredentialContent_fields_def image_Un ProposeCredentialContent_from_def content_reads)
interpretation request_credential: fields_codec "[''comment'', ''requests~attach'']"
  "RequestCredentialContent_fields e" "RequestCredentialContent_from e" "RequestCredentialContent_ok e" for e
  by unfold_locales (simp_all add: RequestCredentialContent_fields_def image_Un RequestCredentialContent_from_def RequestCredentialContent_ok_def content_reads)
interpretation issue_credential: fields_codec "[''comment'', ''credentials~attach'']"
  "IssueCredentialContent_fields e" "IssueCredentialContent_from e" "IssueCredentialContent_ok e" for e
  by unfold_locales (simp_all add: IssueCredentialContent_fields_def image_Un IssueCredentialContent_from_def IssueCredentialContent_ok_def content_reads)
interpretation ack_content: fields_codec "[''status'']"
  AckContent_fields AckContent_from "\<lambda>_. True"
  by unfold_locales (simp_all add: AckContent_fields_def image_Un AckContent_from_def content_reads)
interpretation propose_presentation: fields_codec "[''comment'', ''presentation_proposal'']"
  ProposePresentationContent_fields ProposePresentationContent_from "\<lambda>_. True"
  by unfold_locales (simp_all add: ProposePresentationContent_fields_def image_Un ProposePresentationContent_from_def content_reads)
interpretation request_presentation: fields_codec "[''comment'', ''request_presentations~attach'']"
  "RequestPresentationContent_fields e" "RequestPresentationContent_from e" "RequestPresentationContent_ok e" for e
  by unfold_locales (simp_all add: RequestPresentationContent_fields_def image_Un RequestPresentationContent_from_def RequestPresentationContent_ok_def content_reads)
interpretation presentation_content: fields_codec "[''comment'', ''presentations~attach'']"
  "PresentationContent_fields e" "PresentationContent_from e" "PresentationContent_ok e" for e
  by unfold_locales (simp_all add: PresentationContent_fields_def image_Un PresentationContent_from_def PresentationContent_ok_def content_reads)
interpretation problem_report: fields_codec "[''description'', ''problem_items'', ''who_retries'', ''fix-hint'', ''impact'', ''where'', ''noticed_time'', ''tracking-uri'', ''escalation-uri'']"
  ProblemReportContent_fields "ProblemReportContent_from e" "ProblemReportContent_ok e" for e
  by unfold_locales (simp_all add: ProblemReportContent_fields_def image_Un ProblemReportContent_from_def ProblemReportContent_ok_def content_reads)
interpretation revoke_content: fields_codec "[''credential_id'', ''revocation_format'', ''comment'']"
  RevokeContent_fields RevokeContent_from RevokeContent_ok
  by unfold_locales (simp_all add: RevokeContent_fields_def image_Un RevokeContent_from_def RevokeContent_ok_def content_reads)
interpretation conn_request: fields_codec "[''label'', ''connection'']"
  ConnRequestContent_fields "ConnRequestContent_from e" "ConnRequestContent_ok e" for e
  by unfold_locales (simp_all add: ConnRequestContent_fields_def image_Un ConnRequestContent_from_def ConnRequestContent_ok_def content_reads)
interpretation conn_problem_report: fields_codec "[''problem-code'', ''explain'']"
  ConnProblemReportContent_fields ConnProblemReportContent_from "\<lambda>_. True"
  by unfold_locales (simp_all add: ConnProblemReportContent_fields_def image_Un ConnProblemReportContent_from_def content_reads)
interpretation public_invitation: fields_codec "[''label'', ''did'']"
  PublicInvitationContent_fields PublicInvitationContent_from "\<lambda>_. True"
  by unfold_locales (simp_all add: PublicInvitationContent_fields_def image_Un PublicInvitationContent_from_def content_reads)
interpretation oob_invitation: fields_codec "[''label'', ''goal_code'', ''goal'', ''accept'', ''handshake_protocols'', ''requests~attach'', ''services'']"
  "OobInvitationContent_fields e" "OobInvitationContent_from e" "OobInvitationContent_ok e" for e
  by unfold_locales (simp_all add: OobInvitationContent_fields_def image_Un OobInvitationContent_from_def OobInvitationContent_ok_def content_reads)
interpretation ping_content: fields_codec "[''response_requested'', ''comment'']"
  PingContent_fields PingContent_from "\<lambda>_. True"
  by unfold_locales (simp_all add: PingContent_fields_def image_Un PingContent_from_def content_reads)
interpretation ping_response: fields_codec "[''comment'']"
  PingResponseContent_fields PingResponseContent_from "\<lambda>_. True"
  by unfold_locales (simp_all add: PingResponseContent_fields_def image_Un PingResponseContent_from_def content_reads)
interpretation query_content: fields_codec "[''query'', ''comment'']"
  QueryContent_fields QueryContent_from "\<lambda>_. True"
  by unfold_locales (simp_all add: QueryContent_fields_def image_Un QueryContent_from_def content_reads)
interpretation disclose_content: fields_codec "[''protocols'']"
  DiscloseContent_fields DiscloseContent_from DiscloseContent_ok
  by unfold_locales (simp_all add: DiscloseContent_fields_def image_Un DiscloseContent_from_def DiscloseContent_ok_def content_reads)
interpretation basic_content: fields_codec "[''content'', ''sent_time'']"
  "BasicMessageContent_fields e" "BasicMessageContent_from e" "BasicMessageContent_ok e" for e
  by unfold_locales (simp_all add: BasicMessageContent_fields_def image_Un BasicMessageContent_from_def BasicMessageContent_ok_def content_reads)
interpretation forward_content: fields_codec "[''to'', ''msg'']"
  ForwardContent_fields ForwardContent_from "\<lambda>_. True"
  by unfold_locales (simp_all add: ForwardContent_fields_def image_Un ForwardContent_from_def content_reads)

subsection \<open>Messages\<close>

definition MsgParts_fields ::
    "('c \<Rightarrow> (string \<times> json) list) \<Rightarrow> ('d \<Rightarrow> (string \<times> json) list) \<Rightarrow> ('c, 'd) MsgParts \<Rightarrow> (string \<times> json) list" where
  "MsgParts_fields cto dto m = (''@id'', JString (msg_id m)) # cto (msg_content m) @ dto (msg_decorators m)"

definition MsgParts_from ::
    "(json \<Rightarrow> 'c option) \<Rightarrow> (json \<Rightarrow> 'd option) \<Rightarrow> json \<Rightarrow> ('c, 'd) MsgParts option" where
  "MsgParts_from cfrom dfrom v =
     Option.bind (req_field as_str v ''@id'') (\<lambda>i.
     Option.bind (cfrom v) (\<lambda>c.
     Option.bind (dfrom v) (\<lambda>d.
       Some (MsgParts_with_decorators i c d))))"

definition MsgParts_ok :: "('c \<Rightarrow> bool) \<Rightarrow> ('d \<Rightarrow> bool) \<Rightarrow> ('c, 'd) MsgParts \<Rightarrow> bool" where
  "MsgParts_ok cok dok m = (cok (msg_content m) \<and> dok (msg_decorators m))"

locale message_codec =
  content: fields_codec ckeys cto cfrom cok + decorators: fields_codec dkeys dto dfrom dok
  for ckeys cto cfrom cok dkeys dto dfrom dok +
  assumes keys_apart: "list_all (\<lambda>k. k \<notin> set dkeys) ckeys"
    and keys_plain: "''@id'' \<notin> set (ckeys @ dkeys)" "''@type'' \<notin> set (ckeys @ dkeys)"
begin

lemma message_read_with:
  assumes "MsgParts_ok cok dok m" "\<And>k. k \<in> set (''@id'' # ckeys @ dkeys) \<Longrightarrow> map_of pre k = None"
  shows "MsgParts_from cfrom dfrom (JObject (pre @ MsgParts_fields cto dto m)) = Some m"
proof -
  let ?v = "JObject (pre @ MsgParts_fields cto dto m)"
  have look: "json_get ?v k = map_of (MsgParts_fields cto dto m) k" if "k \<in> set (''@id'' # ckeys @ dkeys)" for k
    using assms(2) [OF that] by (simp add: map_add_def split: option.splits)
  have c: "json_get ?v k = map_of (cto (msg_content m)) k" if "k \<in> set ckeys" for k
  proof -
    have "map_of (dto (msg_decorators m)) k = None"
      using that keys_apart by (intro decorators.other_key) (auto simp: list_all_iff)
    then show ?thesis
      using that keys_plain look [of k] by (auto simp: MsgParts_fields_def map_add_def split: option.splits)
  qed
  have d: "json_get ?v k = map_of (dto (msg_decorators m)) k" if "k \<in> set dkeys" for k
  proof -
    have "map_of (cto (msg_content m)) k = None"
      using that keys_apart by (intro content.other_key) (auto simp: list_all_iff)
    then show ?thesis
      using that keys_plain look [of k] by (auto simp: MsgParts_fields_def map_add_def split: option.splits)
  qed
  have "cfrom ?v = Some (msg_content m)" "dfrom ?v = Some (msg_decorators m)"
    using assms(1) c d by (auto simp: MsgParts_ok_def list_all_iff intro!: content.fields_read decorators.fields_read)
  moreover have "json_get ?v ''@id'' = Some (JString (msg_id m))"
    using look [of "''@id''"] by (simp add: MsgParts_fields_def)
  ultimately show ?thesis
    by (simp add: MsgParts_from_def req_field_def MsgParts_with_decorators_def)
qed

lemma message_read:
  assumes "MsgParts_ok cok dok m"
  shows "MsgParts_from cfrom dfrom (JObject ((''@type'', t) # MsgParts_fields cto dto m)) = Some m"
    and "MsgParts_from cfrom dfrom (JObject (MsgParts_fields cto dto m)) = Some m"
proof -
  have "map_of [(''@type'', t)] k = None" if "k \<in> set (''@id'' # ckeys @ dkeys)" for k
    using that keys_plain by auto
  then show "MsgParts_from cfrom dfrom (JObject ((''@type'', t) # MsgParts_fields cto dto m)) = Some m"
    using message_read_with [OF assms, of "[(''@type'', t)]"] by simp
  show "MsgParts_from cfrom dfrom (JObject (MsgParts_fields cto dto m)) = Some m"
    using message_read_with [OF assms, of "[]"] by simp
qed

end

definition OfferCredential_fields :: "codec_env \<Rightarrow> OfferCredential \<Rightarrow> (string \<times> json) list" where
  "OfferCredential_fields e = MsgParts_fields (OfferCredentialContent_fields e) (opt_decorators_fields e)"

definition OfferCredential_from :: "codec_env \<Rightarrow> json \<Rightarrow> OfferCredential option" where
  "OfferCredential_from e = MsgParts_from (OfferCredentialContent_from e) (opt_decorators_from e)"

definition OfferCredential_ok :: "codec_env \<Rightarrow> OfferCredential \<Rightarrow> bool" where
  "OfferCredential_ok e = MsgParts_ok (OfferCredentialContent_ok e) (opt_decorators_ok e)"

definition ProposeCredential_fields :: "codec_env \<Rightarrow> ProposeCredential \<Rightarrow> (string \<times> json) list" where
  "ProposeCredential_fields e = MsgParts_fields ProposeCredentialContent_fields (opt_decorators_fields e)"

definition ProposeCredential_from :: "codec_env \<Rightarrow> json \<Rightarrow> ProposeCredential option" where
  "ProposeCredential_from e = MsgParts_from ProposeCredentialContent_from (opt_decorators_from e)"

definition ProposeCredential_ok :: "codec_env \<Rightarrow> ProposeCredential \<Rightarrow> bool" where
  "ProposeCredential_ok e = MsgParts_ok (\<lambda>_. True) (opt_decorators_ok e)"

definition RequestCredential_fields :: "codec_env \<Rightarrow> RequestCredential \<Rightarrow> (string \<times> json) list" where
  "RequestCredential_fields e = MsgParts_fields (RequestCredentialContent_fields e) (opt_decorators_fields e)"

definition RequestCredential_from :: "codec_env \<Rightarrow> json \<Rightarrow> RequestCredential option" where
  "RequestCredential_from e = MsgParts_from (RequestCredentialContent_from e) (opt_decorators_from e)"

definition RequestCredential_ok :: "codec_env \<Rightarrow> RequestCredential \<Rightarrow> bool" where
  "RequestCredential_ok e = MsgParts_ok (RequestCredentialContent_ok e) (opt_decorators_ok e)"

definition IssueCredential_fields :: "codec_env \<Rightarrow> IssueCredential \<Rightarrow> (string \<times> json) list" where
  "IssueCredential_fields e = MsgParts_fields (IssueCredentialContent_fields e) (ack_decorators_fields e)"

definition IssueCredential_from :: "codec_env \<Rightarrow> json \<Rightarrow> IssueCredential option" where
  "IssueCredential_from e = MsgParts_from (IssueCredentialContent_from e) (ack_decorators_from e)"

definition IssueCredential_ok :: "codec_env \<Rightarrow> IssueCredential \<Rightarrow> bool" where
  "IssueCredential_ok e = MsgParts_ok (IssueCredentialContent_ok e) (ack_decorators_ok e)"

definition Ack_fields :: "codec_env \<Rightarrow> Ack \<Rightarrow> (string \<times> json) list" where
  "Ack_fields e = MsgParts_fields AckContent_fields (thr_decorators_fields e)"

definition Ack_from :: "codec_env \<Rightarrow> json \<Rightarrow> Ack option" where
  "Ack_from e = MsgParts_from AckContent_from (thr_decorators_from e)"

definition Ack_ok :: "codec_env \<Rightarrow> Ack \<Rightarrow> bool" where
  "Ack_ok e = MsgParts_ok (\<lambda>_. True) (thr_decorators_ok e)"

definition ProposePresentation_fields :: "codec_env \<Rightarrow> ProposePresentation \<Rightarrow> (string \<times> json) list" where
  "ProposePresentation_fields e = MsgParts_fields ProposePresentationContent_fields (opt_decorators_fields e)"

definition ProposePresentation_from :: "codec_env \<Rightarrow> json \<Rightarrow> ProposePresentation option" where
  "ProposePresentation_from e = MsgParts_from ProposePresentationContent_from (opt_decorators_from e)"

definition ProposePresentation_ok :: "codec_env \<Rightarrow> ProposePresentation \<Rightarrow> bool" where
  "ProposePresentation_ok e = MsgParts_ok (\<lambda>_. True) (opt_decorators_ok e)"

definition RequestPresentation_fields :: "codec_env \<Rightarrow> RequestPresentation \<Rightarrow> (string \<times> json) list" where
  "RequestPresentation_fields e = MsgParts_fields (RequestPresentationContent_fields e) (opt_decorators_fields e)"

definition RequestPresentation_from :: "codec_env \<Rightarrow> json \<Rightarrow> RequestPresentation option" where
  "RequestPresentation_from e = MsgParts_from (RequestPresentationContent_from e) (opt_decorators_from e)"

definition RequestPresentation_ok :: "codec_env \<Rightarrow> RequestPresentation \<Rightarrow> bool" where
  "RequestPresentation_ok e = MsgParts_ok (RequestPresentationContent_ok e) (opt_decorators_ok e)"

definition Presentation_fields :: "codec_env \<Rightarrow> Presentation \<Rightarrow> (string \<times> json) list" where
  "Presentation_fields e = MsgParts_fields (PresentationContent_fields e) (ack_decorators_fields e)"

definition Presentation_from :: "codec_env \<Rightarrow> json \<Rightarrow> Presentation option" where
  "Presentation_from e = MsgParts_from (PresentationContent_from e) (ack_decorators_from e)"

definition Presentation_ok :: "codec_env \<Rightarrow> Presentation \<Rightarrow> bool" where
  "Presentation_ok e = MsgParts_ok (PresentationContent_ok e) (ack_decorators_ok e)"

definition ProblemReport_fields :: "codec_env \<Rightarrow> ProblemReport \<Rightarrow> (string \<times> json) list" where
  "ProblemReport_fields e = MsgParts_fields ProblemReportContent_fields (ProblemReportDecorators_fields e)"

definition ProblemReport_from :: "codec_env \<Rightarrow> json \<Rightarrow> ProblemReport option" where
  "ProblemReport_from e = MsgParts_from (ProblemReportContent_from e) (ProblemReportDecorators_from e)"

definition ProblemReport_ok :: "codec_env \<Rightarrow> ProblemReport \<Rightarrow> bool" where
  "ProblemReport_ok e = MsgParts_ok (ProblemReportContent_ok e) (ProblemReportDecorators_ok e)"

definition Revoke_fields :: "codec_env \<Rightarrow> Revoke \<Rightarrow> (string \<times> json) list" where
  "Revoke_fields e = MsgParts_fields RevokeContent_fields (RevokeDecorators_fields e)"

definition Revoke_from :: "codec_env \<Rightarrow> json \<Rightarrow> Revoke option" where
  "Revoke_from e = MsgParts_from RevokeContent_from (RevokeDecorators_from e)"

definition Revoke_ok :: "codec_env \<Rightarrow> Revoke \<Rightarrow> bool" where
  "Revoke_ok e = MsgParts_ok RevokeContent_ok (RevokeDecorators_ok e)"

definition PublicInvitation_fields :: "PublicInvitation \<Rightarrow> (string \<times> json) list" where
  "PublicInvitation_fields = MsgParts_fields PublicInvitationContent_fields no_fields"

definition PublicInvitation_from :: "json \<Rightarrow> PublicInvitation option" where
  "PublicInvitation_from = MsgParts_from PublicInvitationContent_from no_fields_from"

definition PublicInvitation_ok :: "PublicInvitation \<Rightarrow> bool" where
  "PublicInvitation_ok = MsgParts_ok (\<lambda>_. True) (\<lambda>_. True)"

definition PairwiseInvitation_fields :: "codec_env \<Rightarrow> PairwiseInvitation \<Rightarrow> (string \<times> json) list" where
  "PairwiseInvitation_fields e = MsgParts_fields PairwiseInvitationContent_fields (tim_decorators_fields e)"

definition PairwiseInvitation_from :: "codec_env \<Rightarrow> json \<Rightarrow> PairwiseInvitation option" where
  "PairwiseInvitation_from e = MsgParts_from (PairwiseInvitationContent_from (url_from e)) (tim_decorators_from e)"

definition PairwiseInvitation_ok :: "codec_env \<Rightarrow> PairwiseInvitation \<Rightarrow> bool" where
  "PairwiseInvitation_ok e = MsgParts_ok (\<lambda>c. url_ok e (pwinv_service_endpoint c)) (tim_decorators_ok e)"

definition PairwiseDidInvitation_fields :: "codec_env \<Rightarrow> PairwiseInvitation \<Rightarrow> (string \<times> json) list" where
  "PairwiseDidInvitation_fields e = MsgParts_fields PairwiseInvitationContent_fields (tim_decorators_fields e)"

definition PairwiseDidInvitation_from :: "codec_env \<Rightarrow> json \<Rightarrow> PairwiseInvitation option" where
  "PairwiseDidInvitation_from e = MsgParts_from (PairwiseInvitationContent_from as_str) (tim_decorators_from e)"

definition PairwiseDidInvitation_ok :: "codec_env \<Rightarrow> PairwiseInvitation \<Rightarrow> bool" where
  "PairwiseDidInvitation_ok e = MsgParts_ok (\<lambda>_. True) (tim_decorators_ok e)"

definition ConnRequest_fields :: "codec_env \<Rightarrow> ConnRequest \<Rightarrow> (string \<times> json) list" where
  "ConnRequest_fields e = MsgParts_fields ConnRequestContent_fields (opt_decorators_fields e)"

definition ConnRequest_from :: "codec_env \<Rightarrow> json \<Rightarrow> ConnRequest option" where
  "ConnRequest_from e = MsgParts_from (ConnRequestContent_from e) (opt_decorators_from e)"

definition ConnRequest_ok :: "codec_env \<Rightarrow> ConnRequest \<Rightarrow> bool" where
  "ConnRequest_ok e = MsgParts_ok (ConnRequestContent_ok e) (opt_decorators_ok e)"

definition ConnResponse_fields :: "codec_env \<Rightarrow> ConnResponse \<Rightarrow> (string \<times> json) list" where
  "ConnResponse_fields e = MsgParts_fields ResponseContent_fields (ack_decorators_fields e)"

definition ConnResponse_from :: "codec_env \<Rightarrow> json \<Rightarrow> ConnResponse option" where
  "ConnResponse_from e = MsgParts_from ResponseContent_from (ack_decorators_from e)"

definition ConnResponse_ok :: "codec_env \<Rightarrow> ConnResponse \<Rightarrow> bool" where
  "ConnResponse_ok e = MsgParts_ok (\<lambda>_. True) (ack_decorators_ok e)"

definition ConnProblemReport_fields :: "codec_env \<Rightarrow> ConnProblemReport \<Rightarrow> (string \<times> json) list" where
  "ConnProblemReport_fields e = MsgParts_fields ConnProblemReportContent_fields (ConnProblemReportDecorators_fields e)"

definition ConnProblemReport_from :: "codec_env \<Rightarrow> json \<Rightarrow> ConnProblemReport option" where
  "ConnProblemReport_from e = MsgParts_from ConnProblemReportContent_from (ConnProblemReportDecorators_from e)"

definition ConnProblemReport_ok :: "codec_env \<Rightarrow> ConnProblemReport \<Rightarrow> bool" where
  "ConnProblemReport_ok e = MsgParts_ok (\<lambda>_. True) (ConnProblemReportDecorators_ok e)"

definition OobInvitation_fields :: "codec_env \<Rightarrow> OobInvitation \<Rightarrow> (string \<times> json) list" where
  "OobInvitation_fields e = MsgParts_fields (OobInvitationContent_fields e) (tim_decorators_fields e)"

definition OobInvitation_from :: "codec_env \<Rightarrow> json \<Rightarrow> OobInvitation option" where
  "OobInvitation_from e = MsgParts_from (OobInvitationContent_from e) (tim_decorators_from e)"

definition OobInvitation_ok :: "codec_env \<Rightarrow> OobInvitation \<Rightarrow> bool" where
  "OobInvitation_ok e = MsgParts_ok (OobInvitationContent_ok e) (tim_decorators_ok e)"

definition HandshakeReuse_fields :: "codec_env \<Rightarrow> HandshakeReuse \<Rightarrow> (string \<times> json) list" where
  "HandshakeReuse_fields e = MsgParts_fields no_fields (thr_decorators_fields e)"

definition HandshakeReuse_from :: "codec_env \<Rightarrow> json \<Rightarrow> HandshakeReuse option" where
  "HandshakeReuse_from e = MsgParts_from no_fields_from (thr_decorators_from e)"

definition HandshakeReuse_ok :: "codec_env \<Rightarrow> HandshakeReuse \<Rightarrow> bool" where
  "HandshakeReuse_ok e = MsgParts_ok (\<lambda>_. True) (thr_decorators_ok e)"

definition Ping_fields :: "codec_env \<Rightarrow> Ping \<Rightarrow> (string \<times> json) list" where
  "Ping_fields e = MsgParts_fields PingContent_fields (opt_decorators_fields e)"

definition Ping_from :: "codec_env \<Rightarrow> json \<Rightarrow> Ping option" where
  "Ping_from e = MsgParts_from PingContent_from (opt_decorators_from e)"

definition Ping_ok :: "codec_env \<Rightarrow> Ping \<Rightarrow> bool" where
  "Ping_ok e = MsgParts_ok (\<lambda>_. True) (opt_decorators_ok e)"

definition PingResponse_fields :: "codec_env \<Rightarrow> PingResponse \<Rightarrow> (string \<times> json) list" where
  "PingResponse_fields e = MsgParts_fields PingResponseContent_fields (thr_decorators_fields e)"

definition PingResponse_from :: "codec_env \<Rightarrow> json \<Rightarrow> PingResponse option" where
  "PingResponse_from e = MsgParts_from PingResponseContent_from (thr_decorators_from e)"

definition PingResponse_ok :: "codec_env \<Rightarrow> PingResponse \<Rightarrow> bool" where
  "PingResponse_ok e = MsgParts_ok (\<lambda>_. True) (thr_decorators_ok e)"

definition DFQuery_fields :: "codec_env \<Rightarrow> DFQuery \<Rightarrow> (string \<times> json) list" where
  "DFQuery_fields e = MsgParts_fields QueryContent_fields (tim_decorators_fields e)"

definition DFQuery_from :: "codec_env \<Rightarrow> json \<Rightarrow> DFQuery option" where
  "DFQuery_from e = MsgParts_from QueryContent_from (tim_decorators_from e)"

definition DFQuery_ok :: "codec_env \<Rightarrow> DFQuery \<Rightarrow> bool" where
  "DFQuery_ok e = MsgParts_ok (\<lambda>_. True) (tim_decorators_ok e)"

definition Disclose_fields :: "codec_env \<Rightarrow> Disclose \<Rightarrow> (string \<times> json) list" where
  "Disclose_fields e = MsgParts_fields DiscloseContent_fields (thr_decorators_fields e)"

definition Disclose_from :: "codec_env \<Rightarrow> json \<Rightarrow> Disclose option" where
  "Disclose_from e = MsgParts_from DiscloseContent_from (thr_decorators_from e)"

definition Disclose_ok :: "codec_env \<Rightarrow> Disclose \<Rightarrow> bool" where
  "Disclose_ok e = MsgParts_ok DiscloseContent_ok (thr_decorators_ok e)"

definition BasicMessage_fields :: "codec_env \<Rightarrow> BasicMessage \<Rightarrow> (string \<times> json) list" where
  "BasicMessage_fields e = MsgParts_fields (BasicMessageContent_fields e) (BasicMessageDecorators_fields e)"

definition BasicMessage_from :: "codec_env \<Rightarrow> json \<Rightarrow> BasicMessage option" where
  "BasicMessage_from e = MsgParts_from (BasicMessageContent_from e) (BasicMessageDecorators_from e)"

definition BasicMessage_ok :: "codec_env \<Rightarrow> BasicMessage \<Rightarrow> bool" where
  "BasicMessage_ok e = MsgParts_ok (BasicMessageContent_ok e) (BasicMessageDecorators_ok e)"

definition Forward_fields :: "Forward \<Rightarrow> (string \<times> json) list" where
  "Forward_fields = MsgParts_fields ForwardContent_fields no_fields"

definition Forward_from :: "json \<Rightarrow> Forward option" where
  "Forward_from = MsgParts_from ForwardContent_from no_fields_from"

definition Forward_ok :: "Forward \<Rightarrow> bool" where
  "Forward_ok = MsgParts_ok (\<lambda>_. True) (\<lambda>_. True)"

interpretation offer: message_codec
  "[''comment'', ''credential_preview'', ''offers~attach'']" "OfferCredentialContent_fields e" "OfferCredentialContent_from e" "OfferCredentialContent_ok e"
  "[''~thread'', ''~timing'']" "opt_decorators_fields e" "opt_decorators_from e" "opt_decorators_ok e" for e
  by (intro message_codec.intro message_codec_axioms.intro offer_credential.fields_codec_axioms opt_decorators.fields_codec_axioms) simp_all
interpretation propose: message_codec
  "[''comment'', ''credential_proposal'', ''schema_id'', ''cred_def_id'']" ProposeCredentialContent_fields ProposeCredentialContent_from "\<lambda>_. True"
  "[''~thread'', ''~timing'']" "opt_decorators_fields e" "opt_decorators_from e" "opt_decorators_ok e" for e
  by (intro message_codec.intro message_codec_axioms.intro propose_credential.fields_codec_axioms opt_decorators.fields_codec_axioms) simp_all
interpretation request: message_codec
  "[''comment'', ''requests~attach'']" "RequestCredentialContent_fields e" "RequestCredentialContent_from e" "RequestCredentialContent_ok e"
  "[''~thread'', ''~timing'']" "opt_decorators_fields e" "opt_decorators_from e" "opt_decorators_ok e" for e
  by (intro message_codec.intro message_codec_axioms.intro request_credential.fields_codec_axioms opt_decorators.fields_codec_axioms) simp_all
interpretation issue: message_codec
  "[''comment'', ''credentials~attach'']" "IssueCredentialContent_fields e" "IssueCredentialContent_from e" "IssueCredentialContent_ok e"
  "[''~thread'', ''~please_ack'', ''~timing'']" "ack_decorators_fields e" "ack_decorators_from e" "ack_decorators_ok e" for e
  by (intro message_codec.intro message_codec_axioms.intro issue_credential.fields_codec_axioms ack_decorators.fields_codec_axioms) simp_all
interpretation ack: message_codec
  "[''status'']" AckContent_fields AckContent_from "\<lambda>_. True"
  "[''~thread'', ''~timing'']" "thr_decorators_fields e" "thr_decorators_from e" "thr_decorators_ok e" for e
  by (intro message_codec.intro message_codec_axioms.intro ack_content.fields_codec_axioms thr_decorators.fields_codec_axioms) simp_all
interpretation propose_pres: message_codec
  "[''comment'', ''presentation_proposal'']" ProposePresentationContent_fields ProposePresentationContent_from "\<lambda>_. True"
  "[''~thread'', ''~timing'']" "opt_decorators_fields e" "opt_decorators_from e" "opt_decorators_ok e" for e
  by (intro message_codec.intro message_codec_axioms.intro propose_presentation.fields_codec_axioms opt_decorators.fields_codec_axioms) simp_all
interpretation request_pres: message_codec
  "[''comment'', ''request_presentations~attach'']" "RequestPresentationContent_fields e" "RequestPresentationContent_from e" "RequestPresentationContent_ok e"
  "[''~thread'', ''~timing'']" "opt_decorators_fields e" "opt_decorators_from e" "opt_decorators_ok e" for e
  by (intro message_codec.intro message_codec_axioms.intro request_presentation.fields_codec_axioms opt_decorators.fields_codec_axioms) simp_all
interpretation presentation: message_codec
  "[''comment'', ''presentations~attach'']" "PresentationContent_fields e" "PresentationContent_from e" "PresentationContent_ok e"
  "[''~thread'', ''~please_ack'', ''~timing'']" "ack_decorators_fields e" "ack_decorators_from e" "ack_decorators_ok e" for e
  by (intro message_codec.intro message_codec_axioms.intro presentation_content.fields_codec_axioms ack_decorators.fields_codec_axioms) simp_all
interpretation report: message_codec
  "[''description'', ''problem_items'', ''who_retries'', ''fix-hint'', ''impact'', ''where'', ''noticed_time'', ''tracking-uri'', ''escalation-uri'']" ProblemReportContent_fields "ProblemReportContent_from e" "ProblemReportContent_ok e"
  "[''~thread'', ''~timing'', ''description~l10n'', ''fix-hint~l10n'']" "ProblemReportDecorators_fields e" "ProblemReportDecorators_from e" "ProblemReportDecorators_ok e" for e
  by (intro message_codec.intro message_codec_axioms.intro problem_report.fields_codec_axioms report_decorators.fields_codec_axioms) simp_all
interpretation revoke: message_codec
  "[''credential_id'', ''revocation_format'', ''comment'']" RevokeContent_fields RevokeContent_from RevokeContent_ok
  "[''~please_ack'', ''~timing'', ''~thread'']" "RevokeDecorators_fields e" "RevokeDecorators_from e" "RevokeDecorators_ok e" for e
  by (intro message_codec.intro message_codec_axioms.intro revoke_content.fields_codec_axioms revoke_decorators.fields_codec_axioms) simp_all
interpretation public_inv: message_codec
  "[''label'', ''did'']" PublicInvitationContent_fields PublicInvitationContent_from "\<lambda>_. True"
  "[]" no_fields no_fields_from "\<lambda>_. True"
  by (intro message_codec.intro message_codec_axioms.intro public_invitation.fields_codec_axioms no_decorators.fields_codec_axioms) simp_all
interpretation pairwise_inv: message_codec
  "[''label'', ''recipientKeys'', ''routingKeys'', ''serviceEndpoint'']" PairwiseInvitationContent_fields "PairwiseInvitationContent_from (url_from e)" "\<lambda>c. url_ok e (pwinv_service_endpoint c)"
  "[''~timing'']" "tim_decorators_fields e" "tim_decorators_from e" "tim_decorators_ok e" for e
  by (intro message_codec.intro message_codec_axioms.intro pairwise_invitation.fields_codec_axioms tim_decorators.fields_codec_axioms) simp_all
interpretation pairwise_did_inv: message_codec
  "[''label'', ''recipientKeys'', ''routingKeys'', ''serviceEndpoint'']" PairwiseInvitationContent_fields "PairwiseInvitationContent_from as_str" "\<lambda>_. True"
  "[''~timing'']" "tim_decorators_fields e" "tim_decorators_from e" "tim_decorators_ok e" for e
  by (intro message_codec.intro message_codec_axioms.intro pairwise_did_invitation.fields_codec_axioms tim_decorators.fields_codec_axioms) simp_all
interpretation conn_request_msg: message_codec
  "[''label'', ''connection'']" ConnRequestContent_fields "ConnRequestContent_from e" "ConnRequestContent_ok e"
  "[''~thread'', ''~timing'']" "opt_decorators_fields e" "opt_decorators_from e" "opt_decorators_ok e" for e
  by (intro message_codec.intro message_codec_axioms.intro conn_request.fields_codec_axioms opt_decorators.fields_codec_axioms) simp_all
interpretation conn_response_msg: message_codec
  "[''connection~sig'']" ResponseContent_fields ResponseContent_from "\<lambda>_. True"
  "[''~thread'', ''~please_ack'', ''~timing'']" "ack_decorators_fields e" "ack_decorators_from e" "ack_decorators_ok e" for e
  by (intro message_codec.intro message_codec_axioms.intro response_content.fields_codec_axioms ack_decorators.fields_codec_axioms) simp_all
interpretation conn_report: message_codec
  "[''problem-code'', ''explain'']" ConnProblemReportContent_fields ConnProblemReportContent_from "\<lambda>_. True"
  "[''~thread'', ''~l10n'', ''~timing'']" "ConnProblemReportDecorators_fields e" "ConnProblemReportDecorators_from e" "ConnProblemReportDecorators_ok e" for e
  by (intro message_codec.intro message_codec_axioms.intro conn_problem_report.fields_codec_axioms conn_report_decorators.fields_codec_axioms) simp_all
interpretation oob_inv: message_codec
  "[''label'', ''goal_code'', ''goal'', ''accept'', ''handshake_protocols'', ''requests~attach'', ''services'']" "OobInvitationContent_fields e" "OobInvitationContent_from e" "OobInvitationContent_ok e"
  "[''~timing'']" "tim_decorators_fields e" "tim_decorators_from e" "tim_decorators_ok e" for e
  by (intro message_codec.intro message_codec_axioms.intro oob_invitation.fields_codec_axioms tim_decorators.fields_codec_axioms) simp_all
interpretation reuse: message_codec
  "[]" no_fields no_fields_from "\<lambda>_. True"
  "[''~thread'', ''~timing'']" "thr_decorators_fields e" "thr_decorators_from e" "thr_decorators_ok e" for e
  by (intro message_codec.intro message_codec_axioms.intro no_decorators.fields_codec_axioms thr_decorators.fields_codec_axioms) simp_all
interpretation ping: message_codec
  "[''response_requested'', ''comment'']" PingContent_fields PingContent_from "\<lambda>_. True"
  "[''~thread'', ''~timing'']" "opt_decorators_fields e" "opt_decorators_from e" "opt_decorators_ok e" for e
  by (intro message_codec.intro message_codec_axioms.intro ping_content.fields_codec_axioms opt_decorators.fields_codec_axioms) simp_all
interpretation pong: message_codec
  "[''comment'']" PingResponseContent_fields PingResponseContent_from "\<lambda>_. True"
  "[''~thread'', ''~timing'']" "thr_decorators_fields e" "thr_decorators_from e" "thr_decorators_ok e" for e
  by (intro message_codec.intro message_codec_axioms.intro ping_response.fields_codec_axioms thr_decorators.fields_codec_axioms) simp_all
interpretation query: message_codec
  "[''query'', ''comment'']" QueryContent_fields QueryContent_from "\<lambda>_. True"
  "[''~timing'']" "tim_decorators_fields e" "tim_decorators_from e" "tim_decorators_ok e" for e
  by (intro message_codec.intro message_codec_axioms.intro query_content.fields_codec_axioms tim_decorators.fields_codec_axioms) simp_all
interpretation disclose: message_codec
  "[''protocols'']" DiscloseContent_fields DiscloseContent_from DiscloseContent_ok
  "[''~thread'', ''~timing'']" "thr_decorators_fields e" "thr_decorators_from e" "thr_decorators_ok e" for e
  by (intro message_codec.intro message_codec_axioms.intro disclose_content.fields_codec_axioms thr_decorators.fields_codec_axioms) simp_all
interpretation basic: message_codec
  "[''content'', ''sent_time'']" "BasicMessageContent_fields e" "BasicMessageContent_from e" "BasicMessageContent_ok e"
  "[''~l10n'', ''~thread'', ''~timing'']" "BasicMessageDecorators_fields e" "BasicMessageDecorators_from e" "BasicMessageDecorators_ok e" for e
  by (intro message_codec.intro message_codec_axioms.intro basic_content.fields_codec_axioms basic_decorators.fields_codec_axioms) simp_all
interpretation forward: message_codec
  "[''to'', ''msg'']" ForwardContent_fields ForwardContent_from "\<lambda>_. True"
  "[]" no_fields no_fields_from "\<lambda>_. True"
  by (intro message_codec.intro message_codec_axioms.intro forward_content.fields_codec_axioms no_decorators.fields_codec_axioms) simp_all

lemma message_reads:
  "OfferCredential_ok e m_offer \<Longrightarrow> OfferCredential_from e (JObject ((''@type'', t) # OfferCredential_fields e m_offer)) = Some m_offer"
  "ProposeCredential_ok e m_propose \<Longrightarrow> ProposeCredential_from e (JObject ((''@type'', t) # ProposeCredential_fields e m_propose)) = Some m_propose"
  "RequestCredential_ok e m_request \<Longrightarrow> RequestCredential_from e (JObject ((''@type'', t) # RequestCredential_fields e m_request)) = Some m_request"
  "IssueCredential_ok e m_issue \<Longrightarrow> IssueCredential_from e (JObject ((''@type'', t) # IssueCredential_fields e m_issue)) = Some m_issue"
  "Ack_ok e m_ack \<Longrightarrow> Ack_from e (JObject ((''@type'', t) # Ack_fields e m_ack)) = Some m_ack"
  "ProposePresentation_ok e m_propose_pres \<Longrightarrow> ProposePresentation_from e (JObject ((''@type'', t) # ProposePresentation_fields e m_propose_pres)) = Some m_propose_pres"
  "RequestPresentation_ok e m_request_pres \<Longrightarrow> RequestPresentation_from e (JObject ((''@type'', t) # RequestPresentation_fields e m_request_pres)) = Some m_request_pres"
  "Presentation_ok e m_presentation \<Longrightarrow> Presentation_from e (JObject ((''@type'', t) # Presentation_fields e m_presentation)) = Some m_presentation"
  "ProblemReport_ok e m_report \<Longrightarrow> ProblemReport_from e (JObject ((''@type'', t) # ProblemReport_fields e m_report)) = Some m_report"
  "Revoke_ok e m_revoke \<Longrightarrow> Revoke_from e (JObject ((''@type'', t) # Revoke_fields e m_revoke)) = Some m_revoke"
  "PublicInvitation_ok m_public_inv \<Longrightarrow> PublicInvitation_from (JObject ((''@type'', t) # PublicInvitation_fields m_public_inv)) = Some m_public_inv"
  "PairwiseInvitation_ok e m_pairwise_inv \<Longrightarrow> PairwiseInvitation_from e (JObject ((''@type'', t) # PairwiseInvitation_fields e m_pairwise_inv)) = Some m_pairwise_inv"
  "PairwiseDidInvitation_ok e m_pairwise_did_inv \<Longrightarrow> PairwiseDidInvitation_from e (JObject ((''@type'', t) # PairwiseDidInvitation_fields e m_pairwise_did_inv)) = Some m_pairwise_did_inv"
  "ConnRequest_ok e m_conn_request_msg \<Longrightarrow> ConnRequest_from e (JObject ((''@type'', t) # ConnRequest_fields e m_conn_request_msg)) = Some m_conn_request_msg"
  "ConnResponse_ok e m_conn_response_msg \<Longrightarrow> ConnResponse_from e (JObject ((''@type'', t) # ConnResponse_fields e m_conn_response_msg)) = Some m_conn_response_msg"
  "ConnProblemReport_ok e m_conn_report \<Longrightarrow> ConnProblemReport_from e (JObject ((''@type'', t) # ConnProblemReport_fields e m_conn_report)) = Some m_conn_report"
  "OobInvitation_ok e m_oob_inv \<Longrightarrow> OobInvitation_from e (JObject ((''@type'', t) # OobInvitation_fields e m_oob_inv)) = Some m_oob_inv"
  "HandshakeReuse_ok e m_reuse \<Longrightarrow> HandshakeReuse_from e (JObject ((''@type'', t) # HandshakeReuse_fields e m_reuse)) = Some m_reuse"
  "Ping_ok e m_ping \<Longrightarrow> Ping_from e (JObject ((''@type'', t) # Ping_fields e m_ping)) = Some m_ping"
  "PingResponse_ok e m_pong \<Longrightarrow> PingResponse_from e (JObject ((''@type'', t) # PingResponse_fields e m_pong)) = Some m_pong"
  "DFQuery_ok e m_query \<Longrightarrow> DFQuery_from e (JObject ((''@type'', t) # DFQuery_fields e m_query)) = Some m_query"
  "Disclose_ok e m_disclose \<Longrightarrow> Disclose_from e (JObject ((''@type'', t) # Disclose_fields e m_disclose)) = Some m_disclose"
  "BasicMessage_ok e m_basic \<Longrightarrow> BasicMessage_from e (JObject ((''@type'', t) # BasicMessage_fields e m_basic)) = Some m_basic"
  "Forward_ok m_forward \<Longrightarrow> Forward_from (JObject ((''@type'', t) # Forward_fields m_forward)) = Some m_forward"
  unfolding OfferCredential_fields_def OfferCredential_from_def OfferCredential_ok_def ProposeCredential_fields_def ProposeCredential_from_def ProposeCredential_ok_def RequestCredential_fields_def RequestCredential_from_def RequestCredential_ok_def IssueCredential_fields_def IssueCredential_from_def IssueCredential_ok_def Ack_fields_def Ack_from_def Ack_ok_def ProposePresentation_fields_def ProposePresentation_from_def ProposePresentation_ok_def RequestPresentation_fields_def RequestPresentation_from_def RequestPresentation_ok_def Presentation_fields_def Presentation_from_def Presentation_ok_def ProblemReport_fields_def ProblemReport_from_def ProblemReport_ok_def Revoke_fields_def Revoke_from_def Revoke_ok_def PublicInvitation_fields_def PublicInvitation_from_def PublicInvitation_ok_def PairwiseInvitation_fields_def PairwiseInvitation_from_def PairwiseInvitation_ok_def PairwiseDidInvitation_fields_def PairwiseDidInvitation_from_def PairwiseDidInvitation_ok_def ConnRequest_fields_def ConnRequest_from_def ConnRequest_ok_def ConnResponse_fields_def ConnResponse_from_def ConnResponse_ok_def ConnProblemReport_fields_def ConnProblemReport_from_def ConnProblemReport_ok_def OobInvitation_fields_def OobInvitation_from_def OobInvitation_ok_def HandshakeReuse_fields_def HandshakeReuse_from_def HandshakeReuse_ok_def Ping_fields_def Ping_from_def Ping_ok_def PingResponse_fields_def PingResponse_from_def PingResponse_ok_def DFQuery_fields_def DFQuery_from_def DFQuery_ok_def Disclose_fields_def Disclose_from_def Disclose_ok_def BasicMessage_fields_def BasicMessage_from_def BasicMessage_ok_def Forward_fields_def Forward_from_def Forward_ok_def
  by (simp_all add: offer.message_read propose.message_read request.message_read issue.message_read ack.message_read propose_pres.message_read request_pres.message_read presentation.message_read report.message_read revoke.message_read public_inv.message_read pairwise_inv.message_read pairwise_did_inv.message_read conn_request_msg.message_read conn_response_msg.message_read conn_report.message_read oob_inv.message_read reuse.message_read ping.message_read pong.message_read query.message_read disclose.message_read basic.message_read forward.message_read)

lemma untyped_reads:
  "OfferCredential_ok e m_offer \<Longrightarrow> OfferCredential_from e (JObject (OfferCredential_fields e m_offer)) = Some m_offer"
  "ProposeCredential_ok e m_propose \<Longrightarrow> ProposeCredential_from e (JObject (ProposeCredential_fields e m_propose)) = Some m_propose"
  "RequestCredential_ok e m_request \<Longrightarrow> RequestCredential_from e (JObject (RequestCredential_fields e m_request)) = Some m_request"
  "IssueCredential_ok e m_issue \<Longrightarrow> IssueCredential_from e (JObject (IssueCredential_fields e m_issue)) = Some m_issue"
  "Ack_ok e m_ack \<Longrightarrow> Ack_from e (JObject (Ack_fields e m_ack)) = Some m_ack"
  "ProposePresentation_ok e m_propose_pres \<Longrightarrow> ProposePresentation_from e (JObject (ProposePresentation_fields e m_propose_pres)) = Some m_propose_pres"
  "RequestPresentation_ok e m_request_pres \<Longrightarrow> RequestPresentation_from e (JObject (RequestPresentation_fields e m_request_pres)) = Some m_request_pres"
  "Presentation_ok e m_presentation \<Longrightarrow> Presentation_from e (JObject (Presentation_fields e m_presentation)) = Some m_presentation"
  "ProblemReport_ok e m_report \<Longrightarrow> ProblemReport_from e (JObject (ProblemReport_fields e m_report)) = Some m_report"
  "Revoke_ok e m_revoke \<Longrightarrow> Revoke_from e (JObject (Revoke_fields e m_revoke)) = Some m_revoke"
  "PublicInvitation_ok m_public_inv \<Longrightarrow> PublicInvitation_from (JObject (PublicInvitation_fields m_public_inv)) = Some m_public_inv"
  "PairwiseInvitation_ok e m_pairwise_inv \<Longrightarrow> PairwiseInvitation_from e (JObject (PairwiseInvitation_fields e m_pairwise_inv)) = Some m_pairwise_inv"
  "PairwiseDidInvitation_ok e m_pairwise_did_inv \<Longrightarrow> PairwiseDidInvitation_from e (JObject (PairwiseDidInvitation_fields e m_pairwise_did_inv)) = Some m_pairwise_did_inv"
  "ConnRequest_ok e m_conn_request_msg \<Longrightarrow> ConnRequest_from e (JObject (ConnRequest_fields e m_conn_request_msg)) = Some m_conn_request_msg"
  "ConnResponse_ok e m_conn_response_msg \<Longrightarrow> ConnResponse_from e (JObject (ConnResponse_fields e m_conn_response_msg)) = Some m_conn_response_msg"
  "ConnProblemReport_ok e m_conn_report \<Longrightarrow> ConnProblemReport_from e (JObject (ConnProblemReport_fields e m_conn_report)) = Some m_conn_report"
  "OobInvitation_ok e m_oob_inv \<Longrightarrow> OobInvitation_from e (JObject (OobInvitation_fields e m_oob_inv)) = Some m_oob_inv"
  "HandshakeReuse_ok e m_reuse \<Longrightarrow> HandshakeReuse_from e (JObject (HandshakeReuse_fields e m_reuse)) = Some m_reuse"
  "Ping_ok e m_ping \<Longrightarrow> Ping_from e (JObject (Ping_fields e m_ping)) = Some m_ping"
  "PingResponse_ok e m_pong \<Longrightarrow> PingResponse_from e (JObject (PingResponse_fields e m_pong)) = Some m_pong"
  "DFQuery_ok e m_query \<Longrightarrow> DFQuery_from e (JObject (DFQuery_fields e m_query)) = Some m_query"
  "Disclose_ok e m_disclose \<Longrightarrow> Disclose_from e (JObject (Disclose_fields e m_disclose)) = Some m_disclose"
  "BasicMessage_ok e m_basic \<Longrightarrow> BasicMessage_from e (JObject (BasicMessage_fields e m_basic)) = Some m_basic"
  "Forward_ok m_forward \<Longrightarrow> Forward_from (JObject (Forward_fields m_forward)) = Some m_forward"
  unfolding OfferCredential_fields_def OfferCredential_from_def OfferCredential_ok_def ProposeCredential_fields_def ProposeCredential_from_def ProposeCredential_ok_def RequestCredential_fields_def RequestCredential_from_def RequestCredential_ok_def IssueCredential_fields_def IssueCredential_from_def IssueCredential_ok_def Ack_fields_def Ack_from_def Ack_ok_def ProposePresentation_fields_def ProposePresentation_from_def ProposePresentation_ok_def RequestPresentation_fields_def RequestPresentation_from_def RequestPresentation_ok_def Presentation_fields_def Presentation_from_def Presentation_ok_def ProblemReport_fields_def ProblemReport_from_def ProblemReport_ok_def Revoke_fields_def Revoke_from_def Revoke_ok_def PublicInvitation_fields_def PublicInvitation_from_def PublicInvitation_ok_def PairwiseInvitation_fields_def PairwiseInvitation_from_def PairwiseInvitation_ok_def PairwiseDidInvitation_fields_def PairwiseDidInvitation_from_def PairwiseDidInvitation_ok_def ConnRequest_fields_def ConnRequest_from_def ConnRequest_ok_def ConnResponse_fields_def ConnResponse_from_def ConnResponse_ok_def ConnProblemReport_fields_def ConnProblemReport_from_def ConnProblemReport_ok_def OobInvitation_fields_def OobInvitation_from_def OobInvitation_ok_def HandshakeReuse_fields_def HandshakeReuse_from_def HandshakeReuse_ok_def Ping_fields_def Ping_from_def Ping_ok_def PingResponse_fields_def PingResponse_from_def PingResponse_ok_def DFQuery_fields_def DFQuery_from_def DFQuery_ok_def Disclose_fields_def Disclose_from_def Disclose_ok_def BasicMessage_fields_def BasicMessage_from_def BasicMessage_ok_def Forward_fields_def Forward_from_def Forward_ok_def
  by (simp_all add: offer.message_read propose.message_read request.message_read issue.message_read ack.message_read propose_pres.message_read request_pres.message_read presentation.message_read report.message_read revoke.message_read public_inv.message_read pairwise_inv.message_read pairwise_did_inv.message_read conn_request_msg.message_read conn_response_msg.message_read conn_report.message_read oob_inv.message_read reuse.message_read ping.message_read pong.message_read query.message_read disclose.message_read basic.message_read forward.message_read)

text \<open>
  The untagged enum of invitations: the first variant that can be read. A public invitation needs a \<open>did\<close>;
  a pairwise one whose endpoint is a URL is not read as one for a DID.
\<close>

definition Invitation_fields :: "codec_env \<Rightarrow> Invitation \<Rightarrow> (string \<times> json) list" where
  "Invitation_fields e i = (case i of
     Inv_Public m \<Rightarrow> PublicInvitation_fields m
   | Inv_Pairwise m \<Rightarrow> PairwiseInvitation_fields e m
   | Inv_PairwiseDID m \<Rightarrow> PairwiseDidInvitation_fields e m)"

definition Invitation_from :: "codec_env \<Rightarrow> json \<Rightarrow> Invitation option" where
  "Invitation_from e v =
     (case PublicInvitation_from v of
        Some m \<Rightarrow> Some (Inv_Public m)
      | None \<Rightarrow>
          (case PairwiseInvitation_from e v of
             Some m \<Rightarrow> Some (Inv_Pairwise m)
           | None \<Rightarrow> map_option Inv_PairwiseDID (PairwiseDidInvitation_from e v)))"

fun Invitation_ok :: "codec_env \<Rightarrow> Invitation \<Rightarrow> bool" where
  "Invitation_ok e (Inv_Public m) = PublicInvitation_ok m"
| "Invitation_ok e (Inv_Pairwise m) = PairwiseInvitation_ok e m"
| "Invitation_ok e (Inv_PairwiseDID m) =
     (PairwiseDidInvitation_ok e m \<and> co_url_parse e (pwinv_service_endpoint (msg_content m)) = None)"

text \<open>\<open>MsgWithType\<close>: the fields of the message with its type in front.\<close>

definition with_type :: "Protocol \<Rightarrow> (string \<times> 'k) list \<Rightarrow> 'k \<Rightarrow> (string \<times> json) list \<Rightarrow> json" where
  "with_type p names k fs = JObject ((''@type'', type_marker p names k) # fs)"

definition Connection_serialize :: "codec_env \<Rightarrow> Connection \<Rightarrow> json" where
  "Connection_serialize e m = (case m of
     C_Invitation v \<Rightarrow> with_type ConnectionType ConnectionTypeV1_0_names CK_Invitation (Invitation_fields e v)
   | C_Request v \<Rightarrow> with_type ConnectionType ConnectionTypeV1_0_names CK_Request (ConnRequest_fields e v)
   | C_Response v \<Rightarrow> with_type ConnectionType ConnectionTypeV1_0_names CK_Response (ConnResponse_fields e v)
   | C_ProblemReport v \<Rightarrow> with_type ConnectionType ConnectionTypeV1_0_names CK_ProblemReport (ConnProblemReport_fields e v))"

definition Connection_delayed_deserialize :: "codec_env \<Rightarrow> string \<Rightarrow> json \<Rightarrow> Connection option" where
  "Connection_delayed_deserialize e kind_str v = Option.bind (kind_from_str ConnectionTypeV1_0_names kind_str) (\<lambda>kind. case kind of
     CK_Invitation \<Rightarrow> map_option C_Invitation (Invitation_from e v)
   | CK_Request \<Rightarrow> map_option C_Request (ConnRequest_from e v)
   | CK_Response \<Rightarrow> map_option C_Response (ConnResponse_from e v)
   | CK_ProblemReport \<Rightarrow> map_option C_ProblemReport (ConnProblemReport_from e v))"

fun Connection_ok :: "codec_env \<Rightarrow> Connection \<Rightarrow> bool" where
  "Connection_ok e (C_Invitation v) = Invitation_ok e v"
| "Connection_ok e (C_Request v) = ConnRequest_ok e v"
| "Connection_ok e (C_Response v) = ConnResponse_ok e v"
| "Connection_ok e (C_ProblemReport v) = ConnProblemReport_ok e v"

definition Revocation_serialize :: "codec_env \<Rightarrow> Revocation \<Rightarrow> json" where
  "Revocation_serialize e m = (case m of
     R_Revoke v \<Rightarrow> with_type RevocationType RevocationTypeV2_0_names VK_Revoke (Revoke_fields e v)
   | R_Ack v \<Rightarrow> with_type RevocationType RevocationTypeV2_0_names VK_Ack (Ack_fields e v))"

definition Revocation_delayed_deserialize :: "codec_env \<Rightarrow> string \<Rightarrow> json \<Rightarrow> Revocation option" where
  "Revocation_delayed_deserialize e kind_str v = Option.bind (kind_from_str RevocationTypeV2_0_names kind_str) (\<lambda>kind. case kind of
     VK_Revoke \<Rightarrow> map_option R_Revoke (Revoke_from e v)
   | VK_Ack \<Rightarrow> map_option R_Ack (Ack_from e v))"

fun Revocation_ok :: "codec_env \<Rightarrow> Revocation \<Rightarrow> bool" where
  "Revocation_ok e (R_Revoke v) = Revoke_ok e v"
| "Revocation_ok e (R_Ack v) = Ack_ok e v"

definition CredentialIssuance_serialize :: "codec_env \<Rightarrow> CredentialIssuance \<Rightarrow> json" where
  "CredentialIssuance_serialize e m = (case m of
     CI_OfferCredential v \<Rightarrow> with_type CredentialIssuanceType CredentialIssuanceTypeV1_0_names IK_OfferCredential (OfferCredential_fields e v)
   | CI_ProposeCredential v \<Rightarrow> with_type CredentialIssuanceType CredentialIssuanceTypeV1_0_names IK_ProposeCredential (ProposeCredential_fields e v)
   | CI_RequestCredential v \<Rightarrow> with_type CredentialIssuanceType CredentialIssuanceTypeV1_0_names IK_RequestCredential (RequestCredential_fields e v)
   | CI_IssueCredential v \<Rightarrow> with_type CredentialIssuanceType CredentialIssuanceTypeV1_0_names IK_IssueCredential (IssueCredential_fields e v)
   | CI_Ack v \<Rightarrow> with_type CredentialIssuanceType CredentialIssuanceTypeV1_0_names IK_Ack (Ack_fields e v))"

definition CredentialIssuance_delayed_deserialize :: "codec_env \<Rightarrow> string \<Rightarrow> json \<Rightarrow> CredentialIssuance option" where
  "CredentialIssuance_delayed_deserialize e kind_str v = Option.bind (kind_from_str CredentialIssuanceTypeV1_0_names kind_str) (\<lambda>kind. case kind of
     IK_OfferCredential \<Rightarrow> map_option CI_OfferCredential (OfferCredential_from e v)
   | IK_ProposeCredential \<Rightarrow> map_option CI_ProposeCredential (ProposeCredential_from e v)
   | IK_RequestCredential \<Rightarrow> map_option CI_RequestCredential (RequestCredential_from e v)
   | IK_IssueCredential \<Rightarrow> map_option CI_IssueCredential (IssueCredential_from e v)
   | IK_Ack \<Rightarrow> map_option CI_Ack (Ack_from e v)
   | IK_CredentialPreview \<Rightarrow> None)"

fun CredentialIssuance_ok :: "codec_env \<Rightarrow> CredentialIssuance \<Rightarrow> bool" where
  "CredentialIssuance_ok e (CI_OfferCredential v) = OfferCredential_ok e v"
| "CredentialIssuance_ok e (CI_ProposeCredential v) = ProposeCredential_ok e v"
| "CredentialIssuance_ok e (CI_RequestCredential v) = RequestCredential_ok e v"
| "CredentialIssuance_ok e (CI_IssueCredential v) = IssueCredential_ok e v"
| "CredentialIssuance_ok e (CI_Ack v) = Ack_ok e v"

definition PresentProof_serialize :: "codec_env \<Rightarrow> PresentProof \<Rightarrow> json" where
  "PresentProof_serialize e m = (case m of
     PP_ProposePresentation v \<Rightarrow> with_type PresentProofType PresentProofTypeV1_0_names FK_ProposePresentation (ProposePresentation_fields e v)
   | PP_RequestPresentation v \<Rightarrow> with_type PresentProofType PresentProofTypeV1_0_names FK_RequestPresentation (RequestPresentation_fields e v)
   | PP_Presentation v \<Rightarrow> with_type PresentProofType PresentProofTypeV1_0_names FK_Presentation (Presentation_fields e v)
   | PP_Ack v \<Rightarrow> with_type PresentProofType PresentProofTypeV1_0_names FK_Ack (Ack_fields e v))"

definition PresentProof_delayed_deserialize :: "codec_env \<Rightarrow> string \<Rightarrow> json \<Rightarrow> PresentProof option" where
  "PresentProof_delayed_deserialize e kind_str v = Option.bind (kind_from_str PresentProofTypeV1_0_names kind_str) (\<lambda>kind. case kind of
     FK_ProposePresentation \<Rightarrow> map_option PP_ProposePresentation (ProposePresentation_from e v)
   | FK_RequestPresentation \<Rightarrow> map_option PP_RequestPresentation (RequestPresentation_from e v)
   | FK_Presentation \<Rightarrow> map_option PP_Presentation (Presentation_from e v)
   | FK_Ack \<Rightarrow> map_option PP_Ack (Ack_from e v)
   | FK_PresentationPreview \<Rightarrow> None)"

fun PresentProof_ok :: "codec_env \<Rightarrow> PresentProof \<Rightarrow> bool" where
  "PresentProof_ok e (PP_ProposePresentation v) = ProposePresentation_ok e v"
| "PresentProof_ok e (PP_RequestPresentation v) = RequestPresentation_ok e v"
| "PresentProof_ok e (PP_Presentation v) = Presentation_ok e v"
| "PresentProof_ok e (PP_Ack v) = Ack_ok e v"

definition TrustPing_serialize :: "codec_env \<Rightarrow> TrustPing \<Rightarrow> json" where
  "TrustPing_serialize e m = (case m of
     T_Ping v \<Rightarrow> with_type TrustPingType TrustPingTypeV1_0_names TK_Ping (Ping_fields e v)
   | T_PingResponse v \<Rightarrow> with_type TrustPingType TrustPingTypeV1_0_names TK_PingResponse (PingResponse_fields e v))"

definition TrustPing_delayed_deserialize :: "codec_env \<Rightarrow> string \<Rightarrow> json \<Rightarrow> TrustPing option" where
  "TrustPing_delayed_deserialize e kind_str v = Option.bind (kind_from_str TrustPingTypeV1_0_names kind_str) (\<lambda>kind. case kind of
     TK_Ping \<Rightarrow> map_option T_Ping (Ping_from e v)
   | TK_PingResponse \<Rightarrow> map_option T_PingResponse (PingResponse_from e v))"

fun TrustPing_ok :: "codec_env \<Rightarrow> TrustPing \<Rightarrow> bool" where
  "TrustPing_ok e (T_Ping v) = Ping_ok e v"
| "TrustPing_ok e (T_PingResponse v) = PingResponse_ok e v"

definition DiscoverFeatures_serialize :: "codec_env \<Rightarrow> DiscoverFeatures \<Rightarrow> json" where
  "DiscoverFeatures_serialize e m = (case m of
     D_Query v \<Rightarrow> with_type DiscoverFeaturesType DiscoverFeaturesTypeV1_0_names DK_Query (DFQuery_fields e v)
   | D_Disclose v \<Rightarrow> with_type DiscoverFeaturesType DiscoverFeaturesTypeV1_0_names DK_Disclose (Disclose_fields e v))"

definition DiscoverFeatures_delayed_deserialize :: "codec_env \<Rightarrow> string \<Rightarrow> json \<Rightarrow> DiscoverFeatures option" where
  "DiscoverFeatures_delayed_deserialize e kind_str v = Option.bind (kind_from_str DiscoverFeaturesTypeV1_0_names kind_str) (\<lambda>kind. case kind of
     DK_Query \<Rightarrow> map_option D_Query (DFQuery_from e v)
   | DK_Disclose \<Rightarrow> map_option D_Disclose (Disclose_from e v))"

fun DiscoverFeatures_ok :: "codec_env \<Rightarrow> DiscoverFeatures \<Rightarrow> bool" where
  "DiscoverFeatures_ok e (D_Query v) = DFQuery_ok e v"
| "DiscoverFeatures_ok e (D_Disclose v) = Disclose_ok e v"

definition OutOfBand_serialize :: "codec_env \<Rightarrow> OutOfBand \<Rightarrow> json" where
  "OutOfBand_serialize e m = (case m of
     O_Invitation v \<Rightarrow> with_type OutOfBandType OutOfBandTypeV1_1_names OK_Invitation (OobInvitation_fields e v)
   | O_HandshakeReuse v \<Rightarrow> with_type OutOfBandType OutOfBandTypeV1_1_names OK_HandshakeReuse (HandshakeReuse_fields e v)
   | O_HandshakeReuseAccepted v \<Rightarrow> with_type OutOfBandType OutOfBandTypeV1_1_names OK_HandshakeReuseAccepted (HandshakeReuse_fields e v))"

definition OutOfBand_delayed_deserialize :: "codec_env \<Rightarrow> string \<Rightarrow> json \<Rightarrow> OutOfBand option" where
  "OutOfBand_delayed_deserialize e kind_str v = Option.bind (kind_from_str OutOfBandTypeV1_1_names kind_str) (\<lambda>kind. case kind of
     OK_Invitation \<Rightarrow> map_option O_Invitation (OobInvitation_from e v)
   | OK_HandshakeReuse \<Rightarrow> map_option O_HandshakeReuse (HandshakeReuse_from e v)
   | OK_HandshakeReuseAccepted \<Rightarrow> map_option O_HandshakeReuseAccepted (HandshakeReuse_from e v))"

fun OutOfBand_ok :: "codec_env \<Rightarrow> OutOfBand \<Rightarrow> bool" where
  "OutOfBand_ok e (O_Invitation v) = OobInvitation_ok e v"
| "OutOfBand_ok e (O_HandshakeReuse v) = HandshakeReuse_ok e v"
| "OutOfBand_ok e (O_HandshakeReuseAccepted v) = HandshakeReuse_ok e v"

definition Notification_serialize :: "codec_env \<Rightarrow> Notification \<Rightarrow> json" where
  "Notification_serialize e m = (case m of
     N_Ack v \<Rightarrow> with_type NotificationType NotificationTypeV1_0_names NK_Ack (Ack_fields e v)
   | N_ProblemReport v \<Rightarrow> with_type NotificationType NotificationTypeV1_0_names NK_ProblemReport (ProblemReport_fields e v))"

definition Notification_delayed_deserialize :: "codec_env \<Rightarrow> string \<Rightarrow> json \<Rightarrow> Notification option" where
  "Notification_delayed_deserialize e kind_str v = Option.bind (kind_from_str NotificationTypeV1_0_names kind_str) (\<lambda>kind. case kind of
     NK_Ack \<Rightarrow> map_option N_Ack (Ack_from e v)
   | NK_ProblemReport \<Rightarrow> map_option N_ProblemReport (ProblemReport_from e v))"

fun Notification_ok :: "codec_env \<Rightarrow> Notification \<Rightarrow> bool" where
  "Notification_ok e (N_Ack v) = Ack_ok e v"
| "Notification_ok e (N_ProblemReport v) = ProblemReport_ok e v"

definition AriesMessage_serialize :: "codec_env \<Rightarrow> AriesMessage \<Rightarrow> json" where
  "AriesMessage_serialize e m = (case m of
     AM_Routing v \<Rightarrow> with_type RoutingType RoutingTypeV1_0_names RK_Forward (Forward_fields v)
   | AM_Connection v \<Rightarrow> Connection_serialize e v
   | AM_Revocation v \<Rightarrow> Revocation_serialize e v
   | AM_CredentialIssuance v \<Rightarrow> CredentialIssuance_serialize e v
   | AM_ReportProblem v \<Rightarrow> with_type ReportProblemType ReportProblemTypeV1_0_names PK_ProblemReport (ProblemReport_fields e v)
   | AM_PresentProof v \<Rightarrow> PresentProof_serialize e v
   | AM_TrustPing v \<Rightarrow> TrustPing_serialize e v
   | AM_DiscoverFeatures v \<Rightarrow> DiscoverFeatures_serialize e v
   | AM_BasicMessage v \<Rightarrow> with_type BasicMessageType BasicMessageTypeV1_0_names BK_Message (BasicMessage_fields e v)
   | AM_OutOfBand v \<Rightarrow> OutOfBand_serialize e v
   | AM_Notification v \<Rightarrow> Notification_serialize e v)"

definition delayed_deserialize :: "codec_env \<Rightarrow> MessageType \<Rightarrow> json \<Rightarrow> AriesMessage option" where
  "delayed_deserialize e msg_type v = (case mt_protocol msg_type of
     RoutingType \<Rightarrow>
       Option.bind (kind_from_str RoutingTypeV1_0_names (mt_kind msg_type)) (\<lambda>kind. case kind of
         RK_Forward \<Rightarrow> map_option AM_Routing (Forward_from v))
   | ConnectionType \<Rightarrow> map_option AM_Connection (Connection_delayed_deserialize e (mt_kind msg_type) v)
   | SignatureType \<Rightarrow> None
   | RevocationType \<Rightarrow> map_option AM_Revocation (Revocation_delayed_deserialize e (mt_kind msg_type) v)
   | CredentialIssuanceType \<Rightarrow> map_option AM_CredentialIssuance (CredentialIssuance_delayed_deserialize e (mt_kind msg_type) v)
   | ReportProblemType \<Rightarrow>
       Option.bind (kind_from_str ReportProblemTypeV1_0_names (mt_kind msg_type)) (\<lambda>kind. case kind of
         PK_ProblemReport \<Rightarrow> map_option AM_ReportProblem (ProblemReport_from e v))
   | PresentProofType \<Rightarrow> map_option AM_PresentProof (PresentProof_delayed_deserialize e (mt_kind msg_type) v)
   | TrustPingType \<Rightarrow> map_option AM_TrustPing (TrustPing_delayed_deserialize e (mt_kind msg_type) v)
   | DiscoverFeaturesType \<Rightarrow> map_option AM_DiscoverFeatures (DiscoverFeatures_delayed_deserialize e (mt_kind msg_type) v)
   | BasicMessageType \<Rightarrow>
       Option.bind (kind_from_str BasicMessageTypeV1_0_names (mt_kind msg_type)) (\<lambda>kind. case kind of
         BK_Message \<Rightarrow> map_option AM_BasicMessage (BasicMessage_from e v))
   | OutOfBandType \<Rightarrow> map_option AM_OutOfBand (OutOfBand_delayed_deserialize e (mt_kind msg_type) v)
   | NotificationType \<Rightarrow> map_option AM_Notification (Notification_delayed_deserialize e (mt_kind msg_type) v))"

definition AriesMessage_deserialize :: "codec_env \<Rightarrow> json \<Rightarrow> AriesMessage option" where
  "AriesMessage_deserialize e v =
     Option.bind (req_field as_str v ''@type'') (\<lambda>tag.
       case MessageType_try_from tag of
         Inl _ \<Rightarrow> None
       | Inr msg_type \<Rightarrow> delayed_deserialize e msg_type v)"

fun AriesMessage_ok :: "codec_env \<Rightarrow> AriesMessage \<Rightarrow> bool" where
  "AriesMessage_ok e (AM_Routing v) = Forward_ok v"
| "AriesMessage_ok e (AM_Connection v) = Connection_ok e v"
| "AriesMessage_ok e (AM_Revocation v) = Revocation_ok e v"
| "AriesMessage_ok e (AM_CredentialIssuance v) = CredentialIssuance_ok e v"
| "AriesMessage_ok e (AM_ReportProblem v) = ProblemReport_ok e v"
| "AriesMessage_ok e (AM_PresentProof v) = PresentProof_ok e v"
| "AriesMessage_ok e (AM_TrustPing v) = TrustPing_ok e v"
| "AriesMessage_ok e (AM_DiscoverFeatures v) = DiscoverFeatures_ok e v"
| "AriesMessage_ok e (AM_BasicMessage v) = BasicMessage_ok e v"
| "AriesMessage_ok e (AM_OutOfBand v) = OutOfBand_ok e v"
| "AriesMessage_ok e (AM_Notification v) = Notification_ok e v"

subsection \<open>Messages are read back\<close>

lemma pairwise_not_public:
  "PublicInvitation_from (JObject ((''@type'', t) # PairwiseInvitation_fields e m)) = None"
  "PublicInvitation_from (JObject ((''@type'', t) # PairwiseDidInvitation_fields e m)) = None"
  by (simp_all add: PublicInvitation_from_def PairwiseInvitation_fields_def PairwiseDidInvitation_fields_def MsgParts_from_def
      MsgParts_fields_def PairwiseInvitationContent_fields_def PublicInvitationContent_from_def tim_decorators_fields_def
      req_field_def map_add_def opt_entry_def split: option.splits)

lemma did_invitation_endpoint:
  "json_get (JObject ((''@type'', t) # PairwiseDidInvitation_fields e m)) ''serviceEndpoint''
     = Some (JString (pwinv_service_endpoint (msg_content m)))"
  by (simp add: PairwiseDidInvitation_fields_def MsgParts_fields_def PairwiseInvitationContent_fields_def
      tim_decorators_fields_def)

lemma did_not_pairwise:
  assumes "co_url_parse e (pwinv_service_endpoint (msg_content m)) = None"
  shows "PairwiseInvitation_from e (JObject ((''@type'', t) # PairwiseDidInvitation_fields e m)) = None"
proof -
  let ?v = "JObject ((''@type'', t) # PairwiseDidInvitation_fields e m)"
  have "PairwiseInvitationContent_from (url_from e) ?v = None"
    unfolding PairwiseInvitationContent_from_def req_field_def did_invitation_endpoint
    using assms by (simp add: url_from_def bind_eq_None_conv del: json_get.simps)
  then show ?thesis by (simp add: PairwiseInvitation_from_def MsgParts_from_def bind_eq_None_conv del: json_get.simps)
qed

lemma invitation_read:
  "Invitation_ok e i \<Longrightarrow> Invitation_from e (JObject ((''@type'', t) # Invitation_fields e i)) = Some i"
  by (cases i) (simp_all add: Invitation_from_def Invitation_fields_def message_reads pairwise_not_public did_not_pairwise)

lemma with_type_tag: "req_field as_str (with_type p names k fs) ''@type'' = Some (serialize_msg_type p (kind_as_ref names k))"
  by (simp add: with_type_def req_field_def type_marker_def)

context kind_table
begin

lemma dispatch:
  "AriesMessage_deserialize e (with_type p names k fs) =
     delayed_deserialize e \<lparr>mt_protocol = p, mt_kind = kind_as_ref names k\<rparr> (with_type p names k fs)"
  by (simp add: AriesMessage_deserialize_def with_type_tag type_read)

end

lemmas dispatch_simps = delayed_deserialize_def
  routing_kinds.dispatch connection_kinds.dispatch revocation_kinds.dispatch issuance_kinds.dispatch report_kinds.dispatch
  proof_kinds.dispatch ping_kinds.dispatch discovery_kinds.dispatch basic_kinds.dispatch oob_kinds.dispatch
  notification_kinds.dispatch
  routing_kinds.from_as_ref connection_kinds.from_as_ref revocation_kinds.from_as_ref issuance_kinds.from_as_ref
  report_kinds.from_as_ref proof_kinds.from_as_ref ping_kinds.from_as_ref discovery_kinds.from_as_ref
  basic_kinds.from_as_ref oob_kinds.from_as_ref notification_kinds.from_as_ref

lemma fold_type: "JObject ((''@type'', type_marker p names k) # fs) = with_type p names k fs"
  by (simp add: with_type_def)

lemmas typed_reads = message_reads [where t = "type_marker p names k" for p names k, unfolded fold_type]
  invitation_read [where t = "type_marker p names k" for p names k, unfolded fold_type]

lemma protocol_reads:
  "Connection_ok e c \<Longrightarrow> AriesMessage_deserialize e (Connection_serialize e c) = Some (AM_Connection c)"
  "Revocation_ok e r \<Longrightarrow> AriesMessage_deserialize e (Revocation_serialize e r) = Some (AM_Revocation r)"
  "CredentialIssuance_ok e i \<Longrightarrow> AriesMessage_deserialize e (CredentialIssuance_serialize e i) = Some (AM_CredentialIssuance i)"
  "PresentProof_ok e p \<Longrightarrow> AriesMessage_deserialize e (PresentProof_serialize e p) = Some (AM_PresentProof p)"
  "TrustPing_ok e t \<Longrightarrow> AriesMessage_deserialize e (TrustPing_serialize e t) = Some (AM_TrustPing t)"
  "DiscoverFeatures_ok e d \<Longrightarrow> AriesMessage_deserialize e (DiscoverFeatures_serialize e d) = Some (AM_DiscoverFeatures d)"
  "OutOfBand_ok e ob \<Longrightarrow> AriesMessage_deserialize e (OutOfBand_serialize e ob) = Some (AM_OutOfBand ob)"
  "Notification_ok e n \<Longrightarrow> AriesMessage_deserialize e (Notification_serialize e n) = Some (AM_Notification n)"
proof -
  show "Connection_ok e c \<Longrightarrow> AriesMessage_deserialize e (Connection_serialize e c) = Some (AM_Connection c)"
    by (cases c) (simp_all add: Connection_serialize_def dispatch_simps Connection_delayed_deserialize_def typed_reads)
  show "Revocation_ok e r \<Longrightarrow> AriesMessage_deserialize e (Revocation_serialize e r) = Some (AM_Revocation r)"
    by (cases r) (simp_all add: Revocation_serialize_def dispatch_simps Revocation_delayed_deserialize_def typed_reads)
  show "CredentialIssuance_ok e i \<Longrightarrow> AriesMessage_deserialize e (CredentialIssuance_serialize e i) = Some (AM_CredentialIssuance i)"
    by (cases i) (simp_all add: CredentialIssuance_serialize_def dispatch_simps CredentialIssuance_delayed_deserialize_def typed_reads)
  show "PresentProof_ok e p \<Longrightarrow> AriesMessage_deserialize e (PresentProof_serialize e p) = Some (AM_PresentProof p)"
    by (cases p) (simp_all add: PresentProof_serialize_def dispatch_simps PresentProof_delayed_deserialize_def typed_reads)
  show "TrustPing_ok e t \<Longrightarrow> AriesMessage_deserialize e (TrustPing_serialize e t) = Some (AM_TrustPing t)"
    by (cases t) (simp_all add: TrustPing_serialize_def dispatch_simps TrustPing_delayed_deserialize_def typed_reads)
  show "DiscoverFeatures_ok e d \<Longrightarrow> AriesMessage_deserialize e (DiscoverFeatures_serialize e d) = Some (AM_DiscoverFeatures d)"
    by (cases d) (simp_all add: DiscoverFeatures_serialize_def dispatch_simps DiscoverFeatures_delayed_deserialize_def typed_reads)
  show "OutOfBand_ok e ob \<Longrightarrow> AriesMessage_deserialize e (OutOfBand_serialize e ob) = Some (AM_OutOfBand ob)"
    by (cases ob) (simp_all add: OutOfBand_serialize_def dispatch_simps OutOfBand_delayed_deserialize_def typed_reads)
  show "Notification_ok e n \<Longrightarrow> AriesMessage_deserialize e (Notification_serialize e n) = Some (AM_Notification n)"
    by (cases n) (simp_all add: Notification_serialize_def dispatch_simps Notification_delayed_deserialize_def typed_reads)
qed

lemma message_json_read: "AriesMessage_ok e m \<Longrightarrow> AriesMessage_deserialize e (AriesMessage_serialize e m) = Some m"
  by (cases m) (simp_all add: AriesMessage_serialize_def protocol_reads dispatch_simps typed_reads)


subsection \<open>Only the named kind is read\<close>

text \<open>The protocol and the kind of a message, which \<open>into_msg_with_type\<close> binds to its type.\<close>

fun message_type :: "AriesMessage \<Rightarrow> Protocol \<times> string" where
  "message_type (AM_Routing _) = (RoutingType, ''forward'')"
| "message_type (AM_Connection (C_Invitation _)) = (ConnectionType, ''invitation'')"
| "message_type (AM_Connection (C_Request _)) = (ConnectionType, ''request'')"
| "message_type (AM_Connection (C_Response _)) = (ConnectionType, ''response'')"
| "message_type (AM_Connection (C_ProblemReport _)) = (ConnectionType, ''problem_report'')"
| "message_type (AM_Revocation (R_Revoke _)) = (RevocationType, ''revoke'')"
| "message_type (AM_Revocation (R_Ack _)) = (RevocationType, ''ack'')"
| "message_type (AM_CredentialIssuance (CI_OfferCredential _)) = (CredentialIssuanceType, ''offer-credential'')"
| "message_type (AM_CredentialIssuance (CI_ProposeCredential _)) = (CredentialIssuanceType, ''propose-credential'')"
| "message_type (AM_CredentialIssuance (CI_RequestCredential _)) = (CredentialIssuanceType, ''request-credential'')"
| "message_type (AM_CredentialIssuance (CI_IssueCredential _)) = (CredentialIssuanceType, ''issue-credential'')"
| "message_type (AM_CredentialIssuance (CI_Ack _)) = (CredentialIssuanceType, ''ack'')"
| "message_type (AM_ReportProblem _) = (ReportProblemType, ''problem-report'')"
| "message_type (AM_PresentProof (PP_ProposePresentation _)) = (PresentProofType, ''propose-presentation'')"
| "message_type (AM_PresentProof (PP_RequestPresentation _)) = (PresentProofType, ''request-presentation'')"
| "message_type (AM_PresentProof (PP_Presentation _)) = (PresentProofType, ''presentation'')"
| "message_type (AM_PresentProof (PP_Ack _)) = (PresentProofType, ''ack'')"
| "message_type (AM_TrustPing (T_Ping _)) = (TrustPingType, ''ping'')"
| "message_type (AM_TrustPing (T_PingResponse _)) = (TrustPingType, ''ping_response'')"
| "message_type (AM_DiscoverFeatures (D_Query _)) = (DiscoverFeaturesType, ''query'')"
| "message_type (AM_DiscoverFeatures (D_Disclose _)) = (DiscoverFeaturesType, ''disclose'')"
| "message_type (AM_BasicMessage _) = (BasicMessageType, ''message'')"
| "message_type (AM_OutOfBand (O_Invitation _)) = (OutOfBandType, ''invitation'')"
| "message_type (AM_OutOfBand (O_HandshakeReuse _)) = (OutOfBandType, ''handshake-reuse'')"
| "message_type (AM_OutOfBand (O_HandshakeReuseAccepted _)) = (OutOfBandType, ''handshake-reuse-accepted'')"
| "message_type (AM_Notification (N_Ack _)) = (NotificationType, ''ack'')"
| "message_type (AM_Notification (N_ProblemReport _)) = (NotificationType, ''problem-report'')"

lemmas kind_names = RoutingTypeV1_0_names_def ConnectionTypeV1_0_names_def RevocationTypeV2_0_names_def
  CredentialIssuanceTypeV1_0_names_def ReportProblemTypeV1_0_names_def PresentProofTypeV1_0_names_def
  TrustPingTypeV1_0_names_def DiscoverFeaturesTypeV1_0_names_def BasicMessageTypeV1_0_names_def
  OutOfBandTypeV1_1_names_def NotificationTypeV1_0_names_def

lemma protocol_kinds:
  "Connection_delayed_deserialize e kd v = Some c \<Longrightarrow> message_type (AM_Connection c) = (ConnectionType, kd)"
  "Revocation_delayed_deserialize e kd v = Some r \<Longrightarrow> message_type (AM_Revocation r) = (RevocationType, kd)"
  "CredentialIssuance_delayed_deserialize e kd v = Some i \<Longrightarrow>
     message_type (AM_CredentialIssuance i) = (CredentialIssuanceType, kd)"
  "PresentProof_delayed_deserialize e kd v = Some p \<Longrightarrow> message_type (AM_PresentProof p) = (PresentProofType, kd)"
  "TrustPing_delayed_deserialize e kd v = Some t \<Longrightarrow> message_type (AM_TrustPing t) = (TrustPingType, kd)"
  "DiscoverFeatures_delayed_deserialize e kd v = Some d \<Longrightarrow>
     message_type (AM_DiscoverFeatures d) = (DiscoverFeaturesType, kd)"
  "OutOfBand_delayed_deserialize e kd v = Some ob \<Longrightarrow> message_type (AM_OutOfBand ob) = (OutOfBandType, kd)"
  "Notification_delayed_deserialize e kd v = Some n \<Longrightarrow> message_type (AM_Notification n) = (NotificationType, kd)"
  by (auto simp: Connection_delayed_deserialize_def Revocation_delayed_deserialize_def
      CredentialIssuance_delayed_deserialize_def PresentProof_delayed_deserialize_def TrustPing_delayed_deserialize_def
      DiscoverFeatures_delayed_deserialize_def OutOfBand_delayed_deserialize_def Notification_delayed_deserialize_def
      kind_from_str_def kind_names bind_eq_Some_conv split: if_splits)


subsection \<open>What is lost\<close>

lemma did_url_read_as_pairwise:
  assumes "PairwiseInvitation_ok e m"
  shows "Invitation_from e (JObject ((''@type'', t) # Invitation_fields e (Inv_PairwiseDID m))) = Some (Inv_Pairwise m)"
proof -
  have "PairwiseDidInvitation_fields e m = PairwiseInvitation_fields e m"
    by (simp add: PairwiseDidInvitation_fields_def PairwiseInvitation_fields_def)
  then show ?thesis
    using assms by (simp add: Invitation_from_def Invitation_fields_def message_reads pairwise_not_public)
qed

lemma location_cut:
  "Where_from (Where_to \<lparr>where_party = p, where_location = ''a - b''\<rparr>) = Some \<lparr>where_party = p, where_location = ''a''\<rparr>"
  by (simp add: where_read WHERE_SEPARATOR_def)

subsection \<open>The codec in the envelope\<close>

text \<open>The environment of the connection protocols with the codec of this theory for its messages.\<close>

definition with_codec :: "codec_env \<Rightarrow> 'w conn_env \<Rightarrow> 'w conn_env" where
  "with_codec e env = env\<lparr>
     ce_message_print := \<lambda>m. lib_json_print (ce_lib env) (AriesMessage_serialize e m),
     ce_message_parse := \<lambda>s. Option.bind (lib_json_parse (ce_lib env) s) (AriesMessage_deserialize e)\<rparr>"

lemma codec_reads_message:
  assumes "AriesMessage_ok e m" "\<And>v. lib_json_parse (ce_lib rcpt) (lib_json_print (ce_lib env) v) = Some v"
  shows "reads_message (with_codec e env) (with_codec e rcpt) m"
  using assms by (simp add: reads_message_def with_codec_def message_json_read)

subsection \<open>A concrete message\<close>

definition demo_codec :: codec_env where
  "demo_codec = \<lparr>co_url_parse = Some, co_datetime_print = nat_to_string, co_datetime_serialize = nat_to_string,
     co_datetime_parse = parse_uint (2 ^ 64), co_from_639_1 = (\<lambda>s. if length s = 2 then Some s else None)\<rparr>"

definition demo_report :: AriesMessage where
  "demo_report = AM_ReportProblem (MsgParts_with_decorators ''m1''
     ((ProblemReportContent_new ''bad'')\<lparr>pr_location := Some \<lparr>where_party = WP_You, where_location = ''agent''\<rparr>\<rparr>)
     (ProblemReportDecorators_default\<lparr>
        prd_thread := Some ((Thread_new ''t1'')\<lparr>thread_goal_code := Some (Unknown ''other'')\<rparr>),
        prd_timing := Some (Timing_default\<lparr>out_time := Some 5\<rparr>)\<rparr>))"

lemma demo_report_ok: "AriesMessage_ok demo_codec demo_report"
  by (simp add: demo_report_def ProblemReport_ok_def MsgParts_ok_def MsgParts_with_decorators_def ProblemReportContent_ok_def
      ProblemReportContent_new_def Description_ok_def Description_new_def map_ok_def Where_ok_def WHERE_SEPARATOR_def
      ProblemReportDecorators_ok_def ProblemReportDecorators_default_def Thread_ok_def Thread_new_def MaybeKnown_ok_def
      enum_from_def kind_from_str_def ThreadGoalCode_names_def Timing_ok_def Timing_default_def time_ok_def demo_codec_def
      parse_uint_nat_to_string)



end
