(* ===== verification/Connection_Handler.thy ===== *)
theory Connection_Handler
  imports Small_Protocols
begin

text \<open>
  The mediated connection: aries_vcx/src/handlers/connection/mediated_connection.rs and
  cloud_agent.rs. A \<open>MediatedConnection\<close> owns one of the two state machines, the keys of its agent at
  the mediator, and the flag that lets it take a second step on its own (autohop).

  \<open>agency_client\<close> holds the calls of the mediator's client (agency_client/src/api). A map of messages is
  the list of its entries; the code iterates over a \<open>HashMap\<close> in no fixed order. The protocol
  registry and the JSON form of a protocol descriptor are arguments. An inner \<open>None\<close> is the panic of
  the response decoder.

  Shown: \<open>update_state_with_message\<close> takes at most two steps; the handler changes its machine only by the
  machine's operations, so what holds of them holds of it; downloaded messages of an established
  connection were packed by its counterparty; a stored connection is restored, except that
  autohop is then on.
\<close>

datatype MessageStatusCode = MS_Received | MS_Reviewed

record DownloadedMessageEncrypted =
  dme_status_code :: MessageStatusCode
  dme_payload :: json
  dme_uid :: string

record DownloadedMessage =
  dm_status_code :: MessageStatusCode
  dm_uid :: string
  dm_decrypted_msg :: string

record 'w agency_client =
  agc_create_connection_agent :: "string \<Rightarrow> string \<Rightarrow> ('w, string \<times> string) ext"
  agc_delete_connection_agent :: "string \<Rightarrow> string \<Rightarrow> string \<Rightarrow> string \<Rightarrow> ('w, unit) ext"
  agc_get_agency_url_full :: "string vcx_result"
  agc_get_agency_vk :: string
  agc_update_messages :: "MessageStatusCode \<Rightarrow> (string \<times> string list) list \<Rightarrow> ('w, unit) ext"
  agc_get_encrypted_connection_messages ::
    "string \<Rightarrow> string \<Rightarrow> string \<Rightarrow> string \<Rightarrow> string list option \<Rightarrow> MessageStatusCode list option
       \<Rightarrow> ('w, DownloadedMessageEncrypted list) ext"

subsection \<open>The agent at the mediator\<close>

record CloudAgentInfo =
  cai_agent_did :: string
  cai_agent_vk :: string

definition CloudAgentInfo_default :: CloudAgentInfo where
  "CloudAgentInfo_default = \<lparr>cai_agent_did = [], cai_agent_vk = []\<rparr>"

definition create_agent_keys :: "'w agency_client \<Rightarrow> string \<Rightarrow> string \<Rightarrow> string \<Rightarrow> ('w, string \<times> string) vcx" where
  "create_agent_keys ag source_id did vk = call (agc_create_connection_agent ag did vk)"

definition CloudAgentInfo_create :: "'w agency_client \<Rightarrow> PairwiseInfo \<Rightarrow> ('w, CloudAgentInfo) vcx" where
  "CloudAgentInfo_create ag info =
     vbind (create_agent_keys ag [] (pw_did info) (pw_vk info)) (\<lambda>(agent_did, agent_vk).
       vret \<lparr>cai_agent_did = agent_did, cai_agent_vk = agent_vk\<rparr>)"

definition CloudAgentInfo_destroy ::
    "CloudAgentInfo \<Rightarrow> 'w agency_client \<Rightarrow> PairwiseInfo \<Rightarrow> ('w, unit) vcx" where
  "CloudAgentInfo_destroy self ag info =
     call (agc_delete_connection_agent ag (pw_did info) (pw_vk info) (cai_agent_did self) (cai_agent_vk self))"

definition CloudAgentInfo_service_endpoint :: "CloudAgentInfo \<Rightarrow> 'w agency_client \<Rightarrow> string vcx_result" where
  "CloudAgentInfo_service_endpoint self ag = agc_get_agency_url_full ag"

definition CloudAgentInfo_routing_keys :: "CloudAgentInfo \<Rightarrow> 'w agency_client \<Rightarrow> string list vcx_result" where
  "CloudAgentInfo_routing_keys self ag = Inr [cai_agent_vk self, agc_get_agency_vk ag]"

definition CloudAgentInfo_update_message_status ::
    "CloudAgentInfo \<Rightarrow> 'w agency_client \<Rightarrow> PairwiseInfo \<Rightarrow> string \<Rightarrow> ('w, unit) vcx" where
  "CloudAgentInfo_update_message_status self ag info uid =
     call (agc_update_messages ag MS_Reviewed [(pw_did info, [uid])])"

definition CloudAgentInfo_download_encrypted_messages ::
    "CloudAgentInfo \<Rightarrow> 'w agency_client \<Rightarrow> string list option \<Rightarrow> MessageStatusCode list option \<Rightarrow> PairwiseInfo
       \<Rightarrow> ('w, DownloadedMessageEncrypted list) vcx" where
  "CloudAgentInfo_download_encrypted_messages self ag msg_uid status_codes info =
     call (agc_get_encrypted_connection_messages ag (pw_did info) (pw_vk info) (cai_agent_did self)
       (cai_agent_vk self) msg_uid status_codes)"

definition dme_payload_bytes :: "'w conn_env \<Rightarrow> DownloadedMessageEncrypted \<Rightarrow> string" where
  "dme_payload_bytes env m = lib_json_print (ce_lib env) (dme_payload m)"

definition decrypt_decode_message ::
    "'w conn_env \<Rightarrow> DownloadedMessageEncrypted \<Rightarrow> string \<Rightarrow> ('w, AriesMessage) vcx" where
  "decrypt_decode_message env message expected_sender_vk =
     auth_unpack env (dme_payload_bytes env message) expected_sender_vk"

definition decrypt_decode_message_noauth ::
    "'w conn_env \<Rightarrow> DownloadedMessageEncrypted \<Rightarrow> ('w, AriesMessage) vcx" where
  "decrypt_decode_message_noauth env message =
     vbind (anon_unpack env (dme_payload_bytes env message)) (\<lambda>(m, _). vret m)"

fun decode_each ::
    "(DownloadedMessageEncrypted \<Rightarrow> ('w, AriesMessage) vcx) \<Rightarrow> DownloadedMessageEncrypted list
       \<Rightarrow> (string \<times> AriesMessage) list \<Rightarrow> ('w, (string \<times> AriesMessage) list) vcx" where
  "decode_each decode [] acc = vret acc"
| "decode_each decode (m # ms) acc =
     vbind (decode m) (\<lambda>a. decode_each decode ms (dict_insert (dme_uid m) a acc))"

definition decrypt_decode_messages ::
    "'w conn_env \<Rightarrow> DownloadedMessageEncrypted list \<Rightarrow> string \<Rightarrow> ('w, (string \<times> AriesMessage) list) vcx" where
  "decrypt_decode_messages env messages expected_sender_vk =
     decode_each (\<lambda>m. decrypt_decode_message env m expected_sender_vk) messages []"

definition decrypt_decode_messages_noauth ::
    "'w conn_env \<Rightarrow> DownloadedMessageEncrypted list \<Rightarrow> ('w, (string \<times> AriesMessage) list) vcx" where
  "decrypt_decode_messages_noauth env messages = decode_each (decrypt_decode_message_noauth env) messages []"

definition CloudAgentInfo_get_messages ::
    "CloudAgentInfo \<Rightarrow> 'w conn_env \<Rightarrow> 'w agency_client \<Rightarrow> string \<Rightarrow> PairwiseInfo
       \<Rightarrow> ('w, (string \<times> AriesMessage) list) vcx" where
  "CloudAgentInfo_get_messages self env ag expect_sender_vk info =
     vbind (CloudAgentInfo_download_encrypted_messages self ag None (Some [MS_Received]) info) (\<lambda>messages.
       decrypt_decode_messages env messages expect_sender_vk)"

definition CloudAgentInfo_get_messages_noauth ::
    "CloudAgentInfo \<Rightarrow> 'w conn_env \<Rightarrow> 'w agency_client \<Rightarrow> PairwiseInfo \<Rightarrow> string list option
       \<Rightarrow> ('w, (string \<times> AriesMessage) list) vcx" where
  "CloudAgentInfo_get_messages_noauth self env ag info uids =
     vbind (CloudAgentInfo_download_encrypted_messages self ag uids (Some [MS_Received]) info) (\<lambda>messages.
       decrypt_decode_messages_noauth env messages)"

definition last_of :: "'a list \<Rightarrow> 'a option" where
  "last_of xs = (if xs = [] then None else Some (last xs))"

definition CloudAgentInfo_get_message_by_id ::
    "CloudAgentInfo \<Rightarrow> 'w conn_env \<Rightarrow> 'w agency_client \<Rightarrow> string \<Rightarrow> string \<Rightarrow> PairwiseInfo
       \<Rightarrow> ('w, AriesMessage) vcx" where
  "CloudAgentInfo_get_message_by_id self env ag uid expected_sender_vk info =
     vbind (CloudAgentInfo_download_encrypted_messages self ag (Some [uid]) None info) (\<lambda>messages.
     vbind (vlift (ok_or (last_of messages)
              (AriesVcxError_from_msg InvalidMessages ''Message not found for id: {:?}''))) (\<lambda>message.
       decrypt_decode_message env message expected_sender_vk))"

text \<open>Decryption of a downloaded message to its text (agency_client/src/api/downloaded_message.rs).\<close>

definition agency_anon_unpack :: "'w conn_env \<Rightarrow> string \<Rightarrow> ('w, string) vcx" where
  "agency_anon_unpack env payload =
     vbind (call (ce_next_decrypted_mock env)) (\<lambda>mock.
       case mock of
         Some m \<Rightarrow> vret m
       | None \<Rightarrow> vbind (unpack_a2a_message env payload) (\<lambda>(a2a_message, _). vret a2a_message))"

definition agency_auth_unpack :: "'w conn_env \<Rightarrow> string \<Rightarrow> string \<Rightarrow> ('w, string) vcx" where
  "agency_auth_unpack env payload expected_vk =
     vbind (call (ce_next_decrypted_mock env)) (\<lambda>mock.
       case mock of
         Some m \<Rightarrow> vret m
       | None \<Rightarrow>
           vbind (unpack_a2a_message env payload) (\<lambda>(a2a_message, sender_vk).
             case sender_vk of
               Some sender_vk \<Rightarrow>
                 if sender_vk \<noteq> expected_vk then
                   vfail (AriesVcxError_from_msg InvalidJson
                     (''Message did not pass authentication check. Expected sender verkey was ''
                      @ expected_vk @ '', but actually was '' @ sender_vk))
                 else vret a2a_message
             | None \<Rightarrow>
                 vfail (AriesVcxError_from_msg InvalidJson
                   ''Can't authenticate message because it was anoncrypted.'')))"

definition downloaded_as :: "DownloadedMessageEncrypted \<Rightarrow> string \<Rightarrow> DownloadedMessage" where
  "downloaded_as m t = \<lparr>dm_status_code = dme_status_code m, dm_uid = dme_uid m, dm_decrypted_msg = t\<rparr>"

definition decrypt_noauth :: "'w conn_env \<Rightarrow> DownloadedMessageEncrypted \<Rightarrow> ('w, DownloadedMessage) vcx" where
  "decrypt_noauth env self =
     vbind (agency_anon_unpack env (dme_payload_bytes env self)) (\<lambda>t. vret (downloaded_as self t))"

definition decrypt_auth ::
    "'w conn_env \<Rightarrow> DownloadedMessageEncrypted \<Rightarrow> string \<Rightarrow> ('w, DownloadedMessage) vcx" where
  "decrypt_auth env self expected_sender_vk =
     vbind (agency_auth_unpack env (dme_payload_bytes env self) expected_sender_vk) (\<lambda>t.
       vret (downloaded_as self t))"

subsection \<open>The connection\<close>

datatype SmConnection = Sm_Inviter SmConnectionInviter | Sm_Invitee SmConnectionInvitee

datatype SmConnectionState = SmState_Inviter InviterFullState | SmState_Invitee InviteeFullState

datatype ConnectionState = CState_Inviter InviterState | CState_Invitee InviteeState

record MediatedConnection =
  mcn_connection_sm :: SmConnection
  mcn_cloud_agent_info :: "CloudAgentInfo option"
  mcn_autohop_enabled :: bool

definition MediatedConnection_from_parts ::
    "string \<Rightarrow> string \<Rightarrow> PairwiseInfo \<Rightarrow> CloudAgentInfo option \<Rightarrow> SmConnectionState \<Rightarrow> bool \<Rightarrow> MediatedConnection" where
  "MediatedConnection_from_parts source_id thread_id info agent state autohop =
     \<lparr>mcn_connection_sm = (case state of
        SmState_Inviter st \<Rightarrow> Sm_Inviter (SmConnectionInviter_from source_id thread_id info st)
      | SmState_Invitee st \<Rightarrow> Sm_Invitee (SmConnectionInvitee_from source_id thread_id info st)),
      mcn_cloud_agent_info = agent, mcn_autohop_enabled = autohop\<rparr>"

definition MediatedConnection_source_id :: "MediatedConnection \<Rightarrow> string" where
  "MediatedConnection_source_id self = (case mcn_connection_sm self of
     Sm_Inviter m \<Rightarrow> ivr_source_id m | Sm_Invitee m \<Rightarrow> ive_source_id m)"

definition MediatedConnection_get_thread_id :: "MediatedConnection \<Rightarrow> string" where
  "MediatedConnection_get_thread_id self = (case mcn_connection_sm self of
     Sm_Inviter m \<Rightarrow> ivr_thread_id m | Sm_Invitee m \<Rightarrow> ive_thread_id m)"

definition MediatedConnection_get_state :: "MediatedConnection \<Rightarrow> ConnectionState" where
  "MediatedConnection_get_state self = (case mcn_connection_sm self of
     Sm_Inviter m \<Rightarrow> CState_Inviter (SmConnectionInviter_get_state m)
   | Sm_Invitee m \<Rightarrow> CState_Invitee (SmConnectionInvitee_get_state m))"

definition MediatedConnection_pairwise_info :: "MediatedConnection \<Rightarrow> PairwiseInfo" where
  "MediatedConnection_pairwise_info self = (case mcn_connection_sm self of
     Sm_Inviter m \<Rightarrow> ivr_pairwise_info m | Sm_Invitee m \<Rightarrow> ive_pairwise_info m)"

definition MediatedConnection_remote_did :: "MediatedConnection \<Rightarrow> string vcx_result" where
  "MediatedConnection_remote_did self = (case mcn_connection_sm self of
     Sm_Inviter m \<Rightarrow> SmConnectionInviter_remote_did m | Sm_Invitee m \<Rightarrow> SmConnectionInvitee_remote_did m)"

definition MediatedConnection_remote_vk :: "'w conn_env \<Rightarrow> MediatedConnection \<Rightarrow> string vcx_result" where
  "MediatedConnection_remote_vk env self = (case mcn_connection_sm self of
     Sm_Inviter m \<Rightarrow> SmConnectionInviter_remote_vk env m
   | Sm_Invitee m \<Rightarrow> SmConnectionInvitee_remote_vk env m)"

definition MediatedConnection_state_object :: "MediatedConnection \<Rightarrow> SmConnectionState" where
  "MediatedConnection_state_object self = (case mcn_connection_sm self of
     Sm_Inviter m \<Rightarrow> SmState_Inviter (ivr_state m) | Sm_Invitee m \<Rightarrow> SmState_Invitee (ive_state m))"

definition MediatedConnection_get_protocols :: "RegistryEntry list \<Rightarrow> MediatedConnection \<Rightarrow> ProtocolDescriptor list" where
  "MediatedConnection_get_protocols registry self =
     QueryContent_lookup registry \<lparr>q_query = ''*'', q_comment = None\<rparr>"

definition MediatedConnection_get_remote_protocols :: "MediatedConnection \<Rightarrow> ProtocolDescriptor list option" where
  "MediatedConnection_get_remote_protocols self = (case mcn_connection_sm self of
     Sm_Inviter m \<Rightarrow> SmConnectionInviter_get_remote_protocols m
   | Sm_Invitee m \<Rightarrow> SmConnectionInvitee_get_remote_protocols m)"

definition MediatedConnection_their_did_doc :: "MediatedConnection \<Rightarrow> AriesDidDoc option" where
  "MediatedConnection_their_did_doc self = (case mcn_connection_sm self of
     Sm_Inviter m \<Rightarrow> SmConnectionInviter_their_did_doc m
   | Sm_Invitee m \<Rightarrow> SmConnectionInvitee_their_did_doc m)"

definition MediatedConnection_bootstrap_did_doc :: "MediatedConnection \<Rightarrow> AriesDidDoc option" where
  "MediatedConnection_bootstrap_did_doc self = (case mcn_connection_sm self of
     Sm_Inviter m \<Rightarrow> None | Sm_Invitee m \<Rightarrow> SmConnectionInvitee_bootstrap_did_doc m)"

definition MediatedConnection_is_in_null_state :: "MediatedConnection \<Rightarrow> bool" where
  "MediatedConnection_is_in_null_state self = (case mcn_connection_sm self of
     Sm_Inviter m \<Rightarrow> SmConnectionInviter_is_in_null_state m
   | Sm_Invitee m \<Rightarrow> SmConnectionInvitee_is_in_null_state m)"

definition MediatedConnection_is_in_final_state :: "MediatedConnection \<Rightarrow> bool" where
  "MediatedConnection_is_in_final_state self = (case mcn_connection_sm self of
     Sm_Inviter m \<Rightarrow> SmConnectionInviter_is_in_final_state m
   | Sm_Invitee m \<Rightarrow> SmConnectionInvitee_is_in_final_state m)"

definition MediatedConnection_get_invite_details :: "MediatedConnection \<Rightarrow> AnyInvitation option" where
  "MediatedConnection_get_invite_details self = (case mcn_connection_sm self of
     Sm_Inviter m \<Rightarrow> SmConnectionInviter_get_invitation m | Sm_Invitee m \<Rightarrow> None)"

definition MediatedConnection_find_message_to_update_state ::
    "MediatedConnection \<Rightarrow> (string \<times> AriesMessage) list \<Rightarrow> (string \<times> AriesMessage) option" where
  "MediatedConnection_find_message_to_update_state self messages = (case mcn_connection_sm self of
     Sm_Inviter m \<Rightarrow> SmConnectionInviter_find_message_to_update_state m messages
   | Sm_Invitee m \<Rightarrow> SmConnectionInvitee_find_message_to_update_state m messages)"

definition no_agent_error :: vcx_error where
  "no_agent_error = AriesVcxError_from_msg NoAgentInformation ''Missing cloud agent info''"

definition invalid_action_error :: vcx_error where
  "invalid_action_error = AriesVcxError_from_msg NotReady ''Invalid action''"

definition agent_of :: "MediatedConnection \<Rightarrow> CloudAgentInfo vcx_result" where
  "agent_of self = ok_or (mcn_cloud_agent_info self) no_agent_error"

definition send_message_closure_connection :: "'w conn_env \<Rightarrow> 'w SendClosureConnection" where
  "send_message_closure_connection env m vk d = utils_send_message env vk d m"

definition MediatedConnection_process_invite ::
    "MediatedConnection \<Rightarrow> AnyInvitation \<Rightarrow> MediatedConnection vcx_result" where
  "MediatedConnection_process_invite self invitation = (case mcn_connection_sm self of
     Sm_Inviter _ \<Rightarrow> Inl invalid_action_error
   | Sm_Invitee m \<Rightarrow> res_bind (SmConnectionInvitee_handle_invitation m invitation) (\<lambda>m'.
       Inr (self\<lparr>mcn_connection_sm := Sm_Invitee m'\<rparr>)))"

definition MediatedConnection_process_request ::
    "'w conn_env \<Rightarrow> 'w agency_client \<Rightarrow> MediatedConnection \<Rightarrow> ConnRequest \<Rightarrow> ('w, MediatedConnection) vcx" where
  "MediatedConnection_process_request env ag self request = (case mcn_connection_sm self of
     Sm_Inviter m \<Rightarrow>
       vbind (PairwiseInfo_create env) (\<lambda>info.
       vbind (CloudAgentInfo_create ag info) (\<lambda>agent.
       vbind (vlift (CloudAgentInfo_routing_keys agent ag)) (\<lambda>routing_keys.
       vbind (vlift (agc_get_agency_url_full ag)) (\<lambda>service_endpoint.
       vbind (SmConnectionInviter_handle_connection_request env m request info routing_keys service_endpoint
                (send_message_closure_connection env)) (\<lambda>m'.
         vret (self\<lparr>mcn_connection_sm := Sm_Inviter m', mcn_cloud_agent_info := Some agent\<rparr>))))))
   | Sm_Invitee _ \<Rightarrow> vfail invalid_action_error)"

definition MediatedConnection_send_response ::
    "'w conn_env \<Rightarrow> MediatedConnection \<Rightarrow> ('w, MediatedConnection) vcx" where
  "MediatedConnection_send_response env self = (case mcn_connection_sm self of
     Sm_Inviter m \<Rightarrow>
       (case ivr_state m of
          Ver_Requested _ \<Rightarrow>
            vbind (SmConnectionInviter_handle_send_response m (send_message_closure_connection env)) (\<lambda>m'.
              vret (self\<lparr>mcn_connection_sm := Sm_Inviter m'\<rparr>))
        | _ \<Rightarrow> vfail invalid_action_error)
   | Sm_Invitee _ \<Rightarrow> vfail invalid_action_error)"

definition MediatedConnection_create ::
    "'w conn_env \<Rightarrow> 'w agency_client \<Rightarrow> string \<Rightarrow> bool \<Rightarrow> ('w, MediatedConnection) vcx" where
  "MediatedConnection_create env ag source_id autohop =
     vbind (PairwiseInfo_create env) (\<lambda>info.
     vbind (CloudAgentInfo_create ag info) (\<lambda>agent.
     vbind (SmConnectionInviter_new source_id info) (\<lambda>m.
       vret \<lparr>mcn_connection_sm = Sm_Inviter m, mcn_cloud_agent_info = Some agent,
             mcn_autohop_enabled = autohop\<rparr>)))"

definition MediatedConnection_create_with_invite ::
    "'w conn_env \<Rightarrow> 'w agency_client \<Rightarrow> string \<Rightarrow> AnyInvitation \<Rightarrow> AriesDidDoc \<Rightarrow> bool
       \<Rightarrow> ('w, MediatedConnection) vcx" where
  "MediatedConnection_create_with_invite env ag source_id invitation did_doc autohop =
     vbind (PairwiseInfo_create env) (\<lambda>info.
     vbind (CloudAgentInfo_create ag info) (\<lambda>agent.
       vlift (MediatedConnection_process_invite
         \<lparr>mcn_connection_sm = Sm_Invitee (SmConnectionInvitee_new source_id info did_doc),
          mcn_cloud_agent_info = Some agent, mcn_autohop_enabled = autohop\<rparr> invitation)))"

definition MediatedConnection_create_with_request ::
    "'w conn_env \<Rightarrow> 'w agency_client \<Rightarrow> ConnRequest \<Rightarrow> PairwiseInfo \<Rightarrow> ('w, MediatedConnection) vcx" where
  "MediatedConnection_create_with_request env ag request info =
     vbind (SmConnectionInviter_new (msg_id request) info) (\<lambda>m.
       MediatedConnection_process_request env ag
         \<lparr>mcn_connection_sm = Sm_Inviter m, mcn_cloud_agent_info = None, mcn_autohop_enabled = True\<rparr> request)"

subsection \<open>Steps\<close>

definition inviter_request_step ::
    "'w conn_env \<Rightarrow> 'w agency_client \<Rightarrow> SmConnectionInviter \<Rightarrow> ConnRequest
       \<Rightarrow> ('w, SmConnectionInviter \<times> CloudAgentInfo option \<times> bool) vcx" where
  "inviter_request_step env ag m request =
     vbind (PairwiseInfo_create env) (\<lambda>info.
     vbind (CloudAgentInfo_create ag info) (\<lambda>agent.
     vbind (vlift (CloudAgentInfo_routing_keys agent ag)) (\<lambda>routing_keys.
     vbind (vlift (CloudAgentInfo_service_endpoint agent ag)) (\<lambda>service_endpoint.
     vbind (SmConnectionInviter_handle_connection_request env m request info routing_keys service_endpoint
              (send_message_closure_connection env)) (\<lambda>m'.
       vret (m', Some agent, True))))))"

definition inviter_message_step ::
    "'w conn_env \<Rightarrow> 'w agency_client \<Rightarrow> SmConnectionInviter \<Rightarrow> AriesMessage option
       \<Rightarrow> ('w, SmConnectionInviter \<times> CloudAgentInfo option \<times> bool) vcx" where
  "inviter_message_step env ag m message =
     (case message of
        Some (AM_Connection (C_Request request)) \<Rightarrow> inviter_request_step env ag m request
      | Some (AM_Notification n) \<Rightarrow>
          vbind (vlift (SmConnectionInviter_handle_confirmation_message m (AM_Notification n))) (\<lambda>m'.
            vret (m', None, False))
      | Some (AM_TrustPing (T_Ping p)) \<Rightarrow>
          vbind (vlift (SmConnectionInviter_handle_confirmation_message m (AM_TrustPing (T_Ping p)))) (\<lambda>m'.
            vret (m', None, False))
      | Some (AM_Connection (C_ProblemReport p)) \<Rightarrow>
          vbind (vlift (SmConnectionInviter_handle_problem_report m p)) (\<lambda>m'. vret (m', None, False))
      | Some _ \<Rightarrow> vret (m, None, False)
      | None \<Rightarrow>
          (case ivr_state m of
             Ver_Requested _ \<Rightarrow>
               vbind (SmConnectionInviter_handle_send_response m (send_message_closure_connection env)) (\<lambda>m'.
                 vret (m', None, False))
           | _ \<Rightarrow> vret (m, None, False)))"

definition or_else_agent :: "CloudAgentInfo option \<Rightarrow> CloudAgentInfo option \<Rightarrow> CloudAgentInfo option" where
  "or_else_agent a b = (case a of Some x \<Rightarrow> Some x | None \<Rightarrow> b)"

definition MediatedConnection_step_inviter ::
    "'w conn_env \<Rightarrow> 'w agency_client \<Rightarrow> MediatedConnection \<Rightarrow> AriesMessage option
       \<Rightarrow> ('w, MediatedConnection \<times> bool) vcx" where
  "MediatedConnection_step_inviter env ag self message = (case mcn_connection_sm self of
     Sm_Inviter m \<Rightarrow>
       vbind (inviter_message_step env ag m message) (\<lambda>(m', agent, can_autohop).
         vret (\<lparr>mcn_connection_sm = Sm_Inviter m',
                mcn_cloud_agent_info = or_else_agent agent (mcn_cloud_agent_info self),
                mcn_autohop_enabled = mcn_autohop_enabled self\<rparr>, can_autohop))
   | Sm_Invitee _ \<Rightarrow> vfail (AriesVcxError_from_msg NotReady
       ''Invalid operation, called _step_inviter on Invitee connection.''))"

definition invitee_message_step ::
    "'w conn_env \<Rightarrow> SmConnectionInvitee \<Rightarrow> AriesMessage option \<Rightarrow> ('w, (SmConnectionInvitee \<times> bool) option) vcx" where
  "invitee_message_step env m message =
     (case message of
        Some (AM_Connection (C_Invitation (Inv_Public i))) \<Rightarrow>
          vbind (vlift (SmConnectionInvitee_handle_invitation m (Inv_Con (Inv_Public i)))) (\<lambda>m'.
            vret (Some (m', False)))
      | Some (AM_Connection (C_Invitation (Inv_Pairwise i))) \<Rightarrow>
          vbind (vlift (SmConnectionInvitee_handle_invitation m (Inv_Con (Inv_Pairwise i)))) (\<lambda>m'.
            vret (Some (m', False)))
      | Some (AM_Connection (C_Response response)) \<Rightarrow>
          vbind (SmConnectionInvitee_handle_connection_response env m response (send_message_closure_connection env))
            (\<lambda>r. vret (map_option (\<lambda>m'. (m', True)) r))
      | Some (AM_Connection (C_ProblemReport p)) \<Rightarrow>
          vbind (vlift (SmConnectionInvitee_handle_problem_report m p)) (\<lambda>m'. vret (Some (m', False)))
      | Some _ \<Rightarrow> vret (Some (m, False))
      | None \<Rightarrow>
          vbind (SmConnectionInvitee_handle_send_ack m (send_message_closure_connection env)) (\<lambda>m'.
            vret (Some (m', False))))"

definition MediatedConnection_step_invitee ::
    "'w conn_env \<Rightarrow> MediatedConnection \<Rightarrow> AriesMessage option \<Rightarrow> ('w, (MediatedConnection \<times> bool) option) vcx" where
  "MediatedConnection_step_invitee env self message = (case mcn_connection_sm self of
     Sm_Invitee m \<Rightarrow>
       vbind (invitee_message_step env m message) (\<lambda>r.
         vret (map_option (\<lambda>(m', can_autohop).
           (\<lparr>mcn_connection_sm = Sm_Invitee m', mcn_cloud_agent_info = mcn_cloud_agent_info self,
             mcn_autohop_enabled = mcn_autohop_enabled self\<rparr>, can_autohop)) r))
   | Sm_Inviter _ \<Rightarrow> vfail (AriesVcxError_from_msg NotReady
       ''Invalid operation, called _step_invitee on Inviter connection.''))"

definition connection_step ::
    "'w conn_env \<Rightarrow> 'w agency_client \<Rightarrow> MediatedConnection \<Rightarrow> AriesMessage option
       \<Rightarrow> ('w, (MediatedConnection \<times> bool) option) vcx" where
  "connection_step env ag self message = (case mcn_connection_sm self of
     Sm_Inviter _ \<Rightarrow> vbind (MediatedConnection_step_inviter env ag self message) (\<lambda>r. vret (Some r))
   | Sm_Invitee _ \<Rightarrow> MediatedConnection_step_invitee env self message)"

lemma no_message_no_hop:
  assumes "connection_step env ag self None s = (Inr (Some (self', hop)), s')"
  shows "\<not> hop"
proof (cases "mcn_connection_sm self")
  case (Sm_Inviter m)
  then show ?thesis
    using assms by (cases "ivr_state m")
      (auto simp: connection_step_def MediatedConnection_step_inviter_def inviter_message_step_def vbind_Inr_iff)
next
  case (Sm_Invitee m)
  then show ?thesis
    using assms by (auto simp: connection_step_def MediatedConnection_step_invitee_def invitee_message_step_def
        vbind_Inr_iff)
qed

lemma hop_has_message:
  "(Inr (Some (self', True)), s') = connection_step env ag self message s \<Longrightarrow> \<exists>m. message = Some m"
  using no_message_no_hop [of env ag self s self' True s'] by (cases message) auto

function MediatedConnection_update_state_with_message ::
    "'w conn_env \<Rightarrow> 'w agency_client \<Rightarrow> AriesMessage option \<Rightarrow> (MediatedConnection, 'w, unit option) hop" where
  "MediatedConnection_update_state_with_message env ag message self s =
     (case connection_step env ag self message s of
        (Inl e, s') \<Rightarrow> (Inl e, self, s')
      | (Inr None, s') \<Rightarrow> (Inr None, self, s')
      | (Inr (Some (self', can_autohop)), s') \<Rightarrow>
          if can_autohop \<and> mcn_autohop_enabled self' then
            MediatedConnection_update_state_with_message env ag None self' s'
          else (Inr (Some ()), self', s'))"
  by pat_completeness auto

termination
  by (relation "measure (\<lambda>(env, ag, message, self, s). case message of None \<Rightarrow> 0 | Some _ \<Rightarrow> 1)")
     (auto split: option.splits dest: hop_has_message)

declare MediatedConnection_update_state_with_message.simps [simp del]


subsection \<open>Operations on messages\<close>

definition answerable :: "AriesMessage \<Rightarrow> bool" where
  "answerable message =
     (case message of
        AM_TrustPing (T_Ping _) \<Rightarrow> True
      | AM_TrustPing (T_PingResponse _) \<Rightarrow> True
      | AM_OutOfBand (O_HandshakeReuse _) \<Rightarrow> True
      | AM_OutOfBand (O_HandshakeReuseAccepted _) \<Rightarrow> True
      | AM_DiscoverFeatures (D_Query _) \<Rightarrow> True
      | AM_DiscoverFeatures (D_Disclose _) \<Rightarrow> True
      | _ \<Rightarrow> False)"

definition MediatedConnection_find_message_to_handle ::
    "(string \<times> AriesMessage) list \<Rightarrow> (string \<times> AriesMessage) option" where
  "MediatedConnection_find_message_to_handle messages = find_message answerable messages"

definition MediatedConnection_handle_disclose :: "MediatedConnection \<Rightarrow> Disclose \<Rightarrow> SmConnection vcx_result" where
  "MediatedConnection_handle_disclose self disclose = (case mcn_connection_sm self of
     Sm_Inviter m \<Rightarrow> res_bind (SmConnectionInviter_handle_disclose m disclose) (\<lambda>m'. Inr (Sm_Inviter m'))
   | Sm_Invitee m \<Rightarrow> res_bind (SmConnectionInvitee_handle_disclose m disclose) (\<lambda>m'. Inr (Sm_Invitee m')))"

definition MediatedConnection_handle_message ::
    "RegistryEntry list \<Rightarrow> 'w conn_env \<Rightarrow> MediatedConnection \<Rightarrow> AriesMessage \<Rightarrow> ('w, MediatedConnection) vcx" where
  "MediatedConnection_handle_message registry env self message =
     vbind (vlift (ok_or (MediatedConnection_their_did_doc self) (AriesVcxError_from_msg NotReady
              ''Can't answer message {message:?} because counterparty did doc is not available''))) (\<lambda>did_doc.
       let vk = pw_vk (MediatedConnection_pairwise_info self);
           send = (\<lambda>m. deliver (send_message_closure_connection env) m vk did_doc)
       in case message of
            AM_TrustPing (T_Ping ping) \<Rightarrow>
              if ping_response_requested (msg_content ping) then
                vbind (build_ping_response ping) (\<lambda>response.
                vbind (send (AM_TrustPing (T_PingResponse response))) (\<lambda>_. vret self))
              else vret self
          | AM_OutOfBand (O_HandshakeReuse handshake_reuse) \<Rightarrow>
              vbind (build_handshake_reuse_accepted_msg handshake_reuse) (\<lambda>msg.
              vbind (send (AM_OutOfBand (O_HandshakeReuseAccepted msg))) (\<lambda>_. vret self))
          | AM_DiscoverFeatures (D_Query query) \<Rightarrow>
              vbind (respond_discovery_query registry env query did_doc vk
                       (QueryContent_lookup registry (msg_content query))) (\<lambda>_. vret self)
          | AM_DiscoverFeatures (D_Disclose disclose) \<Rightarrow>
              vbind (vlift (MediatedConnection_handle_disclose self disclose)) (\<lambda>sm.
                vret (self\<lparr>mcn_connection_sm := sm\<rparr>))
          | _ \<Rightarrow> vret self)"

definition MediatedConnection_update_message_status ::
    "'w agency_client \<Rightarrow> MediatedConnection \<Rightarrow> string \<Rightarrow> ('w, unit) vcx" where
  "MediatedConnection_update_message_status ag self uid =
     vbind (vlift (agent_of self)) (\<lambda>agent.
       CloudAgentInfo_update_message_status agent ag (MediatedConnection_pairwise_info self) uid)"

definition MediatedConnection_get_messages_noauth ::
    "'w conn_env \<Rightarrow> 'w agency_client \<Rightarrow> MediatedConnection \<Rightarrow> ('w, (string \<times> AriesMessage) list) vcx" where
  "MediatedConnection_get_messages_noauth env ag self =
     vbind (vlift (agent_of self)) (\<lambda>agent.
       CloudAgentInfo_get_messages_noauth agent env ag (MediatedConnection_pairwise_info self) None)"

definition MediatedConnection_get_expected_sender_vk :: "'w conn_env \<Rightarrow> MediatedConnection \<Rightarrow> string vcx_result" where
  "MediatedConnection_get_expected_sender_vk env self =
     map_err (\<lambda>_. AriesVcxError_from_msg NotReady
       ''Verkey of Connection counterparty is not known, hence it would be impossible to authenticate message downloaded by id.'')
       (MediatedConnection_remote_vk env self)"

definition MediatedConnection_get_messages ::
    "'w conn_env \<Rightarrow> 'w agency_client \<Rightarrow> MediatedConnection \<Rightarrow> ('w, (string \<times> AriesMessage) list) vcx" where
  "MediatedConnection_get_messages env ag self =
     vbind (vlift (MediatedConnection_get_expected_sender_vk env self)) (\<lambda>expected_sender_vk.
     vbind (vlift (agent_of self)) (\<lambda>agent.
       CloudAgentInfo_get_messages agent env ag expected_sender_vk (MediatedConnection_pairwise_info self)))"

definition MediatedConnection_get_message_by_id ::
    "'w conn_env \<Rightarrow> 'w agency_client \<Rightarrow> MediatedConnection \<Rightarrow> string \<Rightarrow> ('w, AriesMessage) vcx" where
  "MediatedConnection_get_message_by_id env ag self uid =
     vbind (vlift (MediatedConnection_get_expected_sender_vk env self)) (\<lambda>expected_sender_vk.
     vbind (vlift (agent_of self)) (\<lambda>agent.
       CloudAgentInfo_get_message_by_id agent env ag uid expected_sender_vk
         (MediatedConnection_pairwise_info self)))"

text \<open>
  Operations on \<open>&mut self\<close>: the object is replaced where the code assigns to it, also if a later call
  of the operation fails.
\<close>

definition MediatedConnection_find_and_handle_message ::
    "RegistryEntry list \<Rightarrow> 'w conn_env \<Rightarrow> 'w agency_client \<Rightarrow> (MediatedConnection, 'w, unit) hop" where
  "MediatedConnection_find_and_handle_message registry env ag =
     hbind (hget MediatedConnection_is_in_final_state) (\<lambda>final.
       if \<not> final then hret ()
       else
         hbind (\<lambda>self. hlift (MediatedConnection_get_messages_noauth env ag self) self) (\<lambda>messages.
           case MediatedConnection_find_message_to_handle messages of
             None \<Rightarrow> hret ()
           | Some (uid, message) \<Rightarrow>
               hbind (hstore (\<lambda>self. MediatedConnection_handle_message registry env self message)) (\<lambda>_.
                 (\<lambda>self. hlift (MediatedConnection_update_message_status ag self uid) self))))"

definition MediatedConnection_find_message_and_update_state ::
    "'w conn_env \<Rightarrow> 'w agency_client \<Rightarrow> (MediatedConnection, 'w, unit option) hop" where
  "MediatedConnection_find_message_and_update_state env ag =
     hbind (hget (\<lambda>self. MediatedConnection_is_in_null_state self \<or> MediatedConnection_is_in_final_state self)) (\<lambda>ignored.
       if ignored then hret (Some ())
       else
         hbind (\<lambda>self. hlift (MediatedConnection_get_messages_noauth env ag self) self) (\<lambda>messages.
         hbind (hget (\<lambda>self. MediatedConnection_find_message_to_update_state self messages)) (\<lambda>found.
           case found of
             Some (uid, message) \<Rightarrow>
               hbind (MediatedConnection_update_state_with_message env ag (Some message)) (\<lambda>r.
                 case r of
                   None \<Rightarrow> hret None
                 | Some _ \<Rightarrow>
                     hbind (\<lambda>self. hlift (MediatedConnection_update_message_status ag self uid) self) (\<lambda>_.
                       hret (Some ())))
           | None \<Rightarrow> MediatedConnection_update_state_with_message env ag None)))"

definition MediatedConnection_connect ::
    "'w conn_env \<Rightarrow> 'w agency_client \<Rightarrow> 'w SendClosureConnection option \<Rightarrow> MediatedConnection
       \<Rightarrow> ('w, MediatedConnection) vcx" where
  "MediatedConnection_connect env ag closure self =
     vbind (vlift (agent_of self)) (\<lambda>agent.
     vbind (vlift (CloudAgentInfo_routing_keys agent ag)) (\<lambda>routing_keys.
     vbind (vlift (CloudAgentInfo_service_endpoint agent ag)) (\<lambda>service_endpoint.
       case mcn_connection_sm self of
         Sm_Inviter m \<Rightarrow>
           vbind (vlift (SmConnectionInviter_create_invitation m routing_keys service_endpoint)) (\<lambda>m'.
             vret (self\<lparr>mcn_connection_sm := Sm_Inviter m'\<rparr>))
       | Sm_Invitee m \<Rightarrow>
           vbind (SmConnectionInvitee_send_connection_request m routing_keys service_endpoint
                    (unwrap_or closure (send_message_closure_connection env))) (\<lambda>m'.
             vret (self\<lparr>mcn_connection_sm := Sm_Invitee m'\<rparr>)))))"

definition MediatedConnection_send_message_closure ::
    "'w conn_env \<Rightarrow> MediatedConnection \<Rightarrow> (AriesMessage \<Rightarrow> ('w, unit) vcx) vcx_result" where
  "MediatedConnection_send_message_closure env self =
     res_bind (ok_or (MediatedConnection_their_did_doc self) (AriesVcxError_from_msg NotReady
         ''Cannot send message: Remote Connection information is not set'')) (\<lambda>did_doc.
       Inr (\<lambda>m. deliver (send_message_closure_connection env) m
                  (pw_vk (MediatedConnection_pairwise_info self)) did_doc))"

definition build_basic_message :: "'w conn_env \<Rightarrow> string \<Rightarrow> ('w, AriesMessage) vcx" where
  "build_basic_message env message =
     (case ce_message_parse env message of
        Some a2a_message \<Rightarrow> vret a2a_message
      | None \<Rightarrow>
          vbind utc_now (\<lambda>now.
          vbind new_v4 (\<lambda>i.
            vret (AM_BasicMessage (MsgParts_with_decorators i \<lparr>bm_content = message, bm_sent_time = now\<rparr>
              \<lparr>bmd_l10n = None, bmd_thread = None, bmd_timing = Some (out_timing now)\<rparr>)))))"

definition MediatedConnection_send_a2a_message ::
    "'w conn_env \<Rightarrow> MediatedConnection \<Rightarrow> AriesMessage \<Rightarrow> ('w, string) vcx" where
  "MediatedConnection_send_a2a_message env self message =
     vbind (vlift (MediatedConnection_send_message_closure env self)) (\<lambda>send.
     vbind (send message) (\<lambda>_. vret []))"

definition MediatedConnection_send_generic_message ::
    "'w conn_env \<Rightarrow> MediatedConnection \<Rightarrow> string \<Rightarrow> ('w, string) vcx" where
  "MediatedConnection_send_generic_message env self message =
     vbind (build_basic_message env message) (\<lambda>m. MediatedConnection_send_a2a_message env self m)"

definition MediatedConnection_send_ping ::
    "'w conn_env \<Rightarrow> MediatedConnection \<Rightarrow> string option \<Rightarrow> ('w, TrustPingSender) vcx" where
  "MediatedConnection_send_ping env self comment =
     vbind (TrustPingSender_build True comment) (\<lambda>trust_ping.
     vbind (vlift (MediatedConnection_send_message_closure env self)) (\<lambda>send.
       (\<lambda>s. case TrustPingSender_send_ping send trust_ping s of
              (Inl e, _, s') \<Rightarrow> (Inl e, s')
            | (Inr _, trust_ping', s') \<Rightarrow> (Inr trust_ping', s'))))"

definition MediatedConnection_send_handshake_reuse ::
    "'w conn_env \<Rightarrow> MediatedConnection \<Rightarrow> string \<Rightarrow> ('w, unit) vcx" where
  "MediatedConnection_send_handshake_reuse env self oob_msg =
     vbind (case ce_message_parse env oob_msg of
              Some (AM_OutOfBand (O_Invitation oob)) \<Rightarrow> vret oob
            | Some _ \<Rightarrow> vfail (AriesVcxError_from_msg SerializationError ''Received invalid message type: {:?}'')
            | None \<Rightarrow> vfail (AriesVcxError_from_msg SerializationError
                        ''Failed to deserialize message, err: {:?}'')) (\<lambda>oob.
     vbind (vlift (MediatedConnection_send_message_closure env self)) (\<lambda>send.
     vbind (build_handshake_reuse_msg oob) (\<lambda>msg.
       send (AM_OutOfBand (O_HandshakeReuse msg)))))"

definition MediatedConnection_delete :: "'w agency_client \<Rightarrow> MediatedConnection \<Rightarrow> ('w, unit) vcx" where
  "MediatedConnection_delete ag self =
     vbind (vlift (agent_of self)) (\<lambda>agent.
       CloudAgentInfo_destroy agent ag (MediatedConnection_pairwise_info self))"

definition MediatedConnection_send_discovery_query ::
    "'w conn_env \<Rightarrow> MediatedConnection \<Rightarrow> string option \<Rightarrow> string option \<Rightarrow> ('w, unit) vcx" where
  "MediatedConnection_send_discovery_query env self query comment =
     vbind (vlift (ok_or (MediatedConnection_their_did_doc self) (AriesVcxError_from_msg NotReady
        ''Can't send handshake-reuse to the counterparty, because their did doc is not available''))) (\<lambda>did_doc.
       send_discovery_query env query comment did_doc (pw_vk (MediatedConnection_pairwise_info self)))"

fun decrypt_ok ::
    "(DownloadedMessageEncrypted \<Rightarrow> ('w, DownloadedMessage) vcx) \<Rightarrow> DownloadedMessageEncrypted list
       \<Rightarrow> ('w, DownloadedMessage list) vcx" where
  "decrypt_ok decrypt [] = vret []"
| "decrypt_ok decrypt (m # ms) =
     vbind (vtry (decrypt m)) (\<lambda>r.
     vbind (decrypt_ok decrypt ms) (\<lambda>ds.
       vret (case r of Inr d \<Rightarrow> d # ds | Inl _ \<Rightarrow> ds)))"

definition MediatedConnection_download_messages ::
    "'w conn_env \<Rightarrow> 'w agency_client \<Rightarrow> MediatedConnection \<Rightarrow> MessageStatusCode list option \<Rightarrow> string list option
       \<Rightarrow> ('w, DownloadedMessage list) vcx" where
  "MediatedConnection_download_messages env ag self status_codes uids =
     (let info = MediatedConnection_pairwise_info self;
          download = (\<lambda>agent. CloudAgentInfo_download_encrypted_messages agent ag uids status_codes info)
      in if MediatedConnection_get_state self \<in> {CState_Invitee InviteeState_Initial,
              CState_Inviter InviterState_Initial, CState_Inviter InviterState_Invited} then
           vbind (vlift (agent_of self)) (\<lambda>agent.
           vbind (download agent) (\<lambda>msgs. decrypt_ok (decrypt_noauth env) msgs))
         else
           vbind (vlift (MediatedConnection_remote_vk env self)) (\<lambda>expected_sender_vk.
           vbind (vlift (agent_of self)) (\<lambda>agent.
           vbind (download agent) (\<lambda>msgs. decrypt_ok (\<lambda>m. decrypt_auth env m expected_sender_vk) msgs))))"

subsection \<open>Connection information\<close>

record SideConnectionInfo =
  sci_did :: string
  sci_recipient_keys :: "string list"
  sci_routing_keys :: "string list"
  sci_service_endpoint :: string
  sci_protocols :: "ProtocolDescriptor list option"

definition SideConnectionInfo_to_json :: "(ProtocolDescriptor \<Rightarrow> json) \<Rightarrow> SideConnectionInfo \<Rightarrow> json" where
  "SideConnectionInfo_to_json pd_json i = JObject
     ([(''did'', JString (sci_did i)),
       (''recipientKeys'', JArray (map JString (sci_recipient_keys i))),
       (''routingKeys'', JArray (map JString (sci_routing_keys i))),
       (''serviceEndpoint'', JString (sci_service_endpoint i))]
      @ (case sci_protocols i of None \<Rightarrow> [] | Some ps \<Rightarrow> [(''protocols'', JArray (map pd_json ps))]))"

definition their_side :: "'w conn_env \<Rightarrow> MediatedConnection \<Rightarrow> SideConnectionInfo option vcx_result" where
  "their_side env self =
     (case MediatedConnection_their_did_doc self of
        None \<Rightarrow> Inr None
      | Some did_doc \<Rightarrow>
          res_bind (recipient_keys_of env did_doc) (\<lambda>keys.
          res_bind (ok_or (AriesDidDoc_get_endpoint did_doc) no_url_error) (\<lambda>url.
            Inr (Some \<lparr>sci_did = dd_id did_doc, sci_recipient_keys = keys,
                       sci_routing_keys = AriesDidDoc_routing_keys did_doc, sci_service_endpoint = url,
                       sci_protocols = MediatedConnection_get_remote_protocols self\<rparr>))))"

definition MediatedConnection_get_connection_info ::
    "RegistryEntry list \<Rightarrow> (ProtocolDescriptor \<Rightarrow> json) \<Rightarrow> 'w conn_env \<Rightarrow> 'w agency_client \<Rightarrow> MediatedConnection
       \<Rightarrow> string vcx_result" where
  "MediatedConnection_get_connection_info registry pd_json env ag self =
     res_bind (agent_of self) (\<lambda>agent.
     let info = MediatedConnection_pairwise_info self
     in res_bind (CloudAgentInfo_routing_keys agent ag) (\<lambda>routing_keys.
        res_bind (CloudAgentInfo_service_endpoint agent ag) (\<lambda>service_endpoint.
        let current = \<lparr>sci_did = pw_did info, sci_recipient_keys = [pw_vk info],
              sci_routing_keys = routing_keys, sci_service_endpoint = service_endpoint,
              sci_protocols = Some (MediatedConnection_get_protocols registry self)\<rparr>
        in res_bind (their_side env self) (\<lambda>remote.
             Inr (lib_json_print (ce_lib env) (JObject
               [(''my'', SideConnectionInfo_to_json pd_json current),
                (''their'', or_null (SideConnectionInfo_to_json pd_json) remote)]))))))"

subsection \<open>Stored connections\<close>

record LegacyAgentInfo =
  lai_pw_did :: string
  lai_pw_vk :: string
  lai_agent_did :: string
  lai_agent_vk :: string

record SerializedConnection =
  ser_data :: LegacyAgentInfo
  ser_state :: SmConnectionState
  ser_source_id :: string
  ser_thread_id :: string

definition MediatedConnection_serialize :: "MediatedConnection \<Rightarrow> SerializedConnection" where
  "MediatedConnection_serialize self =
     (let info = MediatedConnection_pairwise_info self;
          agent = unwrap_or (mcn_cloud_agent_info self) CloudAgentInfo_default
      in \<lparr>ser_data = \<lparr>lai_pw_did = pw_did info, lai_pw_vk = pw_vk info,
            lai_agent_did = cai_agent_did agent, lai_agent_vk = cai_agent_vk agent\<rparr>,
          ser_state = MediatedConnection_state_object self,
          ser_source_id = MediatedConnection_source_id self,
          ser_thread_id = MediatedConnection_get_thread_id self\<rparr>)"

definition MediatedConnection_deserialize :: "SerializedConnection \<Rightarrow> MediatedConnection" where
  "MediatedConnection_deserialize obj =
     (let data = ser_data obj;
          info = \<lparr>pw_did = lai_pw_did data, pw_vk = lai_pw_vk data\<rparr>;
          agent = \<lparr>cai_agent_did = lai_agent_did data, cai_agent_vk = lai_agent_vk data\<rparr>
      in MediatedConnection_from_parts (ser_source_id obj) (ser_thread_id obj) info (Some agent)
           (ser_state obj) True)"

subsection \<open>Updates\<close>

text \<open>Every update takes one step, or a step with the message and a second one without.\<close>

lemma update_without_message:
  "MediatedConnection_update_state_with_message env ag None self s =
     (case connection_step env ag self None s of
        (Inl e, s') \<Rightarrow> (Inl e, self, s')
      | (Inr None, s') \<Rightarrow> (Inr None, self, s')
      | (Inr (Some (self', _)), s') \<Rightarrow> (Inr (Some ()), self', s'))"
  by (subst MediatedConnection_update_state_with_message.simps)
     (auto split: prod.splits sum.splits option.splits dest: no_message_no_hop)

lemma quiet_closure: "quiet (send_message_closure_connection env)"
  by (simp add: quiet_def send_message_closure_connection_def [abs_def])

subsection \<open>The handler moves its machine by the machine's operations\<close>

lemma vbind_vlift_Some:
  "vbind (vlift r) (\<lambda>m. vret (Some (m, h))) =
     vbind (vlift (res_bind r (\<lambda>m. Inr (Some m)))) (\<lambda>r. vret (map_option (\<lambda>m. (m, h)) r))"
  by (rule ext) (cases r; simp add: vbind_def run_simps)

lemma invitee_message_step_op:
  "invitee_message_step env m msg = vret (Some (m, False))
   \<or> (\<exists>op h. invitee_message_step env m msg =
        vbind (invitee_step env (send_message_closure_connection env) m op)
          (\<lambda>r. vret (map_option (\<lambda>m'. (m', h)) r)))"
proof -
  let ?step = "invitee_step env (send_message_closure_connection env) m"
  have inv: "vbind (vlift (SmConnectionInvitee_handle_invitation m i)) (\<lambda>m'. vret (Some (m', False)))
      = vbind (?step (Op_invitation i)) (\<lambda>r. vret (map_option (\<lambda>m'. (m', False)) r))" for i
    by (simp add: vbind_vlift_Some)
  have rep: "vbind (vlift (SmConnectionInvitee_handle_problem_report m p)) (\<lambda>m'. vret (Some (m', False)))
      = vbind (?step (Op_problem_report p)) (\<lambda>r. vret (map_option (\<lambda>m'. (m', False)) r))" for p
    by (simp add: vbind_vlift_Some)
  have ack: "vbind (SmConnectionInvitee_handle_send_ack m (send_message_closure_connection env)) (\<lambda>m'. vret (Some (m', False)))
      = vbind (?step Op_send_ack) (\<lambda>r. vret (map_option (\<lambda>m'. (m', False)) r))"
    by (simp add: vbind_assoc)
  have resp: "vbind (SmConnectionInvitee_handle_connection_response env m q (send_message_closure_connection env))
        (\<lambda>r. vret (map_option (\<lambda>m'. (m', True)) r))
      = vbind (?step (Op_response q)) (\<lambda>r. vret (map_option (\<lambda>m'. (m', True)) r))" for q
    by simp
  show ?thesis
    unfolding invitee_message_step_def
    apply (cases msg)
     apply (simp only: option.case ack, blast)
    apply (simp only: option.case split: AriesMessage.split Connection.split Invitation.split)
    by (intro conjI allI impI) (simp_all only: inv rep resp, blast+)
qed

definition conn_inv :: "'w conn_env \<Rightarrow> AriesDidDoc \<Rightarrow> AriesMessage list \<Rightarrow> MediatedConnection \<Rightarrow> bool" where
  "conn_inv env ddo out c = (case mcn_connection_sm c of
     Sm_Invitee m \<Rightarrow> invitee_inv env ddo out m | Sm_Inviter _ \<Rightarrow> False)"

lemma conn_inv_mono: "conn_inv env ddo out c \<Longrightarrow> set out \<subseteq> set out' \<Longrightarrow> conn_inv env ddo out' c"
  unfolding conn_inv_def using invitee_inv_mono by (auto split: SmConnection.splits)

lemma connection_step_inv:
  assumes "conn_inv env ddo (rt_outbox s) c" "connection_step env ag c msg s = (r, s')"
  shows "conn_inv env ddo (rt_outbox s') c
    \<and> (\<forall>c' hop. r = Inr (Some (c', hop)) \<longrightarrow> conn_inv env ddo (rt_outbox s') c')"
proof -
  obtain m where m: "mcn_connection_sm c = Sm_Invitee m" "invitee_inv env ddo (rt_outbox s) m"
    using assms(1) by (auto simp: conn_inv_def split: SmConnection.splits)
  let ?step = "invitee_step env (send_message_closure_connection env) m"
  from invitee_message_step_op [of env m msg] show ?thesis
  proof (elim disjE exE)
    assume "invitee_message_step env m msg = vret (Some (m, False))"
    then show ?thesis
      using assms m by (auto simp: connection_step_def MediatedConnection_step_invitee_def vbind_def run_simps conn_inv_def)
  next
    fix op h
    assume eq: "invitee_message_step env m msg = vbind (?step op) (\<lambda>r. vret (map_option (\<lambda>m'. (m', h)) r))"
    obtain q where q: "?step op s = (q, s')"
      and r: "r = (case q of Inl e \<Rightarrow> Inl e | Inr None \<Rightarrow> Inr None | Inr (Some m') \<Rightarrow>
          Inr (Some (\<lparr>mcn_connection_sm = Sm_Invitee m', mcn_cloud_agent_info = mcn_cloud_agent_info c,
             mcn_autohop_enabled = mcn_autohop_enabled c\<rparr>, h)))"
      using assms(2) m(1) eq
      by (auto simp: connection_step_def MediatedConnection_step_invitee_def vbind_def run_simps
          split: prod.splits sum.splits option.splits)
    have "conn_inv env ddo (rt_outbox s') c"
      using conn_inv_mono [OF assms(1) invitee_step_grows [OF quiet_closure q]] .
    moreover have "invitee_inv env ddo (rt_outbox s') m'" if "q = Inr (Some m')" for m'
      using invitee_step_inv [OF quiet_closure m(2)] q that by blast
    ultimately show ?thesis
      using r by (auto simp: conn_inv_def split: sum.splits option.splits)
  qed
qed

lemma update_inv:
  assumes "conn_inv env ddo (rt_outbox s) c" "MediatedConnection_update_state_with_message env ag msg c s = (r, c', s')"
  shows "conn_inv env ddo (rt_outbox s') c'"
  using assms
proof (induction env ag msg c s rule: MediatedConnection_update_state_with_message.induct)
  case (1 env ag msg c s)
  obtain q t where q: "connection_step env ag c msg s = (q, t)" by fastforce
  note i = connection_step_inv [OF "1.prems"(1) q]
  show ?case
  proof (cases q)
    case (Inl e)
    then show ?thesis
      using "1.prems"(2) q i by (subst (asm) MediatedConnection_update_state_with_message.simps) auto
  next
    case (Inr x)
    show ?thesis
    proof (cases x)
      case None
      then show ?thesis
        using "1.prems"(2) q i Inr by (subst (asm) MediatedConnection_update_state_with_message.simps) auto
    next
      case (Some y)
      obtain c1 hop where y: "y = (c1, hop)" by fastforce
      have c1: "conn_inv env ddo (rt_outbox t) c1" using i Inr Some y by blast
      show ?thesis
      proof (cases "hop \<and> mcn_autohop_enabled c1")
        case True
        then have "MediatedConnection_update_state_with_message env ag None c1 t = (r, c', s')"
          using "1.prems"(2) q Inr Some y by (subst (asm) MediatedConnection_update_state_with_message.simps) simp
        with "1.IH" [OF q [symmetric] Inr Some y [symmetric] True c1] show ?thesis by simp
      next
        case False
        then show ?thesis
          using "1.prems"(2) q c1 Inr Some y
          by (subst (asm) MediatedConnection_update_state_with_message.simps) auto
      qed
    qed
  qed
qed

lemma unpack_silent [simp]: "sends_only P (unpack_a2a_message env p)"
  unfolding unpack_a2a_message_def Let_def by (intro sends_only_bind) simp_all

lemma anon_unpack_silent [simp]: "sends_only P (anon_unpack env p)"
  unfolding anon_unpack_def parse_a2a_message_def
  by (intro sends_only_bind) (auto split: option.split prod.split)

lemma decode_each_silent: "(\<And>m. sends_only P (f m)) \<Longrightarrow> sends_only P (decode_each f ms acc)"
  by (induction ms arbitrary: acc) auto

lemma get_messages_noauth_silent: "sends_only P (MediatedConnection_get_messages_noauth env ag c)"
  unfolding MediatedConnection_get_messages_noauth_def CloudAgentInfo_get_messages_noauth_def
    CloudAgentInfo_download_encrypted_messages_def decrypt_decode_messages_noauth_def
  by (intro sends_only_bind decode_each_silent)
     (auto simp: decrypt_decode_message_noauth_def split_def intro!: sends_only_bind)

lemma update_status_silent: "sends_only P (MediatedConnection_update_message_status ag c uid)"
  unfolding MediatedConnection_update_message_status_def CloudAgentInfo_update_message_status_def
  by (intro sends_only_bind) simp_all

lemma silent_keeps_log:
  assumes "sends_only (\<lambda>_. False) m" "m s = (r, s')"
  shows "rt_outbox s' = rt_outbox s"
  using sends_onlyD [OF assms] by auto

text \<open>The operations of an invitee's connection that can change it.\<close>

datatype connection_op =
    Do_process_invite AnyInvitation
  | Do_connect
  | Do_update "AriesMessage option"
  | Do_find_and_update
  | Do_handle AriesMessage
  | Do_find_and_handle

definition stored_result :: "MediatedConnection \<Rightarrow> MediatedConnection vcx_result \<times> 'w runtime \<Rightarrow> MediatedConnection \<times> 'w runtime" where
  "stored_result c p = (case p of (Inr c', s') \<Rightarrow> (c', s') | (Inl _, s') \<Rightarrow> (c, s'))"

fun do_connection_op ::
    "RegistryEntry list \<Rightarrow> 'w conn_env \<Rightarrow> 'w agency_client \<Rightarrow> connection_op \<Rightarrow> MediatedConnection \<times> 'w runtime
       \<Rightarrow> MediatedConnection \<times> 'w runtime" where
  "do_connection_op reg env ag (Do_process_invite i) (c, s) =
     stored_result c (MediatedConnection_process_invite c i, s)"
| "do_connection_op reg env ag Do_connect (c, s) =
     stored_result c (MediatedConnection_connect env ag None c s)"
| "do_connection_op reg env ag (Do_update m) (c, s) =
     snd (MediatedConnection_update_state_with_message env ag m c s)"
| "do_connection_op reg env ag Do_find_and_update (c, s) =
     snd (MediatedConnection_find_message_and_update_state env ag c s)"
| "do_connection_op reg env ag (Do_handle m) (c, s) =
     stored_result c (MediatedConnection_handle_message reg env c m s)"
| "do_connection_op reg env ag Do_find_and_handle (c, s) =
     snd (MediatedConnection_find_and_handle_message reg env ag c s)"

lemma stored_inv:
  assumes "conn_inv env ddo (rt_outbox s) c" "sends_only (\<lambda>_. True) op" "op s = (r, s')"
    and "\<And>c'. r = Inr c' \<Longrightarrow> conn_inv env ddo (rt_outbox s') c'"
  shows "conn_inv env ddo (rt_outbox (snd (stored_result c (op s)))) (fst (stored_result c (op s)))"
proof -
  have "set (rt_outbox s) \<subseteq> set (rt_outbox s')" using sends_onlyD [OF assms(2,3)] by auto
  then have "conn_inv env ddo (rt_outbox s') c" using conn_inv_mono [OF assms(1)] by blast
  then show ?thesis using assms(3,4) by (cases r) (auto simp: stored_result_def)
qed

lemma handle_message_log: "sends_only (\<lambda>_. True) (MediatedConnection_handle_message reg env c m)"
proof -
  have "sends_only (\<lambda>_. True) (deliver (send_message_closure_connection env) x vk d)" for x vk d
    by (intro deliver_only quiet_closure) simp
  moreover from this have "sends_only (\<lambda>_. True) (respond_discovery_query reg env q d vk ps)" for q d vk ps
    unfolding respond_discovery_query_def Let_def
    by (intro sends_only_bind) (simp_all add: deliver_only quiet_def)
  moreover have "sends_only (\<lambda>_. True) (build_ping_response p)" "sends_only (\<lambda>_. True) (build_handshake_reuse_accepted_msg h)" for p h
    unfolding build_ping_response_def build_handshake_reuse_accepted_msg_def Let_def
    by (intro sends_only_bind, simp_all)+
  ultimately show ?thesis
    unfolding MediatedConnection_handle_message_def Let_def
    by (intro sends_only_bind)
       (auto intro!: sends_only_bind split: AriesMessage.split TrustPing.split OutOfBand.split DiscoverFeatures.split)
qed

lemma stepped_inv:
  assumes "invitee_inv env ddo (rt_outbox s) m"
    and "invitee_step env (send_message_closure_connection env) m op s = (Inr (Some m'), s')"
  shows "invitee_inv env ddo (rt_outbox s') m'"
  by (rule invitee_step_inv [OF quiet_closure assms])

lemma handle_message_moves:
  assumes "MediatedConnection_handle_message reg env c m s = (Inr c', s')"
  shows "c' = c \<or> (\<exists>d sm. MediatedConnection_handle_disclose c d = Inr sm \<and> c' = c\<lparr>mcn_connection_sm := sm\<rparr>)"
proof (cases "\<exists>d. m = AM_DiscoverFeatures (D_Disclose d)")
  case True
  then show ?thesis
    using assms by (auto simp: MediatedConnection_handle_message_def vbind_Inr_iff Let_def)
      (metis (no_types))
next
  case False
  then have "yields (MediatedConnection_handle_message reg env c m) (\<lambda>x. x = c)"
    unfolding MediatedConnection_handle_message_def Let_def
    by (auto intro!: yields_bind_any split: AriesMessage.split TrustPing.split OutOfBand.split DiscoverFeatures.split)
  then show ?thesis using assms by (auto dest: yieldsD)
qed

lemma handle_message_inv:
  assumes "conn_inv env ddo (rt_outbox s) c" "MediatedConnection_handle_message reg env c m s = (r, s')"
    and "r = Inr c'"
  shows "conn_inv env ddo (rt_outbox s') c'"
proof -
  have "set (rt_outbox s) \<subseteq> set (rt_outbox s')"
    using sends_onlyD [OF handle_message_log assms(2)] by auto
  then have c: "conn_inv env ddo (rt_outbox s') c" using conn_inv_mono [OF assms(1)] by blast
  from handle_message_moves [OF assms(2) [unfolded assms(3)]] show ?thesis
  proof (elim disjE exE conjE)
    fix d sm assume d: "MediatedConnection_handle_disclose c d = Inr sm" "c' = c\<lparr>mcn_connection_sm := sm\<rparr>"
    obtain m where m: "mcn_connection_sm c = Sm_Invitee m" "invitee_inv env ddo (rt_outbox s') m"
      using c by (auto simp: conn_inv_def split: SmConnection.splits)
    then obtain m' where "SmConnectionInvitee_handle_disclose m d = Inr m'" "sm = Sm_Invitee m'"
      using d(1) by (auto simp: MediatedConnection_handle_disclose_def res_simps)
    then show ?thesis
      using stepped_inv [OF m(2), of "Op_disclose d" m' s'] d(2) by (simp add: conn_inv_def res_simps)
  qed (use c in simp)
qed

lemma process_invite_inv:
  fixes env :: "'w conn_env" and s :: "'w runtime"
  assumes "conn_inv env ddo (rt_outbox s) c" "MediatedConnection_process_invite c i = Inr c'"
  shows "conn_inv env ddo (rt_outbox s) c'"
proof -
  obtain m where m: "mcn_connection_sm c = Sm_Invitee m" "invitee_inv env ddo (rt_outbox s) m"
    using assms(1) by (auto simp: conn_inv_def split: SmConnection.splits)
  then obtain m' where "SmConnectionInvitee_handle_invitation m i = Inr m'" "c' = c\<lparr>mcn_connection_sm := Sm_Invitee m'\<rparr>"
    using assms(2) by (auto simp: MediatedConnection_process_invite_def res_simps)
  then show ?thesis
    using stepped_inv [OF m(2), of "Op_invitation i" m' s] by (simp add: conn_inv_def res_simps)
qed

lemma connect_log: "sends_only (\<lambda>_. True) (MediatedConnection_connect env ag None c)"
proof (cases "mcn_connection_sm c")
  case (Sm_Invitee m)
  have "sends_only (\<lambda>_. True) (SmConnectionInvitee_send_connection_request m ks u (send_message_closure_connection env))" for ks u
    unfolding SmConnectionInvitee_send_connection_request_def SmConnectionInvitee_build_connection_request_msg_def
      Let_def split_def
    by (cases "ive_state m") (auto intro!: sends_only_bind deliver_only quiet_closure)
  then show ?thesis
    unfolding MediatedConnection_connect_def Sm_Invitee SmConnection.case by (intro sends_only_bind) (simp_all add: unwrap_or_def)
next
  case (Sm_Inviter m)
  then show ?thesis
    unfolding MediatedConnection_connect_def Sm_Inviter SmConnection.case by (intro sends_only_bind) simp_all
qed

lemma connect_inv:
  assumes "conn_inv env ddo (rt_outbox s) c" "MediatedConnection_connect env ag None c s = (r, s')" "r = Inr c'"
  shows "conn_inv env ddo (rt_outbox s') c'"
proof -
  obtain m where m: "mcn_connection_sm c = Sm_Invitee m" "invitee_inv env ddo (rt_outbox s) m"
    using assms(1) by (auto simp: conn_inv_def split: SmConnection.splits)
  then obtain m' ks u where
    q: "SmConnectionInvitee_send_connection_request m ks u (send_message_closure_connection env) s = (Inr m', s')"
    and c': "c' = c\<lparr>mcn_connection_sm := Sm_Invitee m'\<rparr>"
    using assms(2,3) by (auto simp: MediatedConnection_connect_def vbind_Inr_iff unwrap_or_def)
  have "invitee_step env (send_message_closure_connection env) m (Op_send_request ks u) s = (Inr (Some m'), s')"
    using q by (simp add: vbind_run)
  from stepped_inv [OF m(2) this] show ?thesis using c' by (simp add: conn_inv_def)
qed

lemma find_and_update_inv:
  assumes "conn_inv env ddo (rt_outbox s) c" "MediatedConnection_find_message_and_update_state env ag c s = (r, c', s')"
  shows "conn_inv env ddo (rt_outbox s') c'"
proof (cases "MediatedConnection_is_in_null_state c \<or> MediatedConnection_is_in_final_state c")
  case True
  then show ?thesis
    using assms by (simp add: MediatedConnection_find_message_and_update_state_def hbind_def hget_def hret_def)
next
  case False
  obtain q t where g: "MediatedConnection_get_messages_noauth env ag c s = (q, t)" by fastforce
  have t: "rt_outbox t = rt_outbox s" using silent_keeps_log [OF get_messages_noauth_silent g] .
  have status: "rt_outbox u' = rt_outbox u" if "MediatedConnection_update_message_status ag d uid u = (x, u')" for d uid u x u'
    using silent_keeps_log [OF update_status_silent that] .
  have upd: "conn_inv env ddo (rt_outbox u) d"
    if "MediatedConnection_update_state_with_message env ag msg c t = (x, d, u)" for msg x d u
    using update_inv [OF _ that] assms(1) t by simp
  show ?thesis
    using assms(2) False g t assms(1)
    unfolding MediatedConnection_find_message_and_update_state_def hbind_def hget_def hlift_def hret_def
    by (auto split: prod.splits sum.splits option.splits if_splits dest!: status dest: upd)
qed

lemma find_and_handle_inv:
  assumes "conn_inv env ddo (rt_outbox s) c" "MediatedConnection_find_and_handle_message reg env ag c s = (r, c', s')"
  shows "conn_inv env ddo (rt_outbox s') c'"
proof (cases "MediatedConnection_is_in_final_state c")
  case False
  then show ?thesis
    using assms by (simp add: MediatedConnection_find_and_handle_message_def hbind_def hget_def hret_def)
next
  case True
  obtain q t where g: "MediatedConnection_get_messages_noauth env ag c s = (q, t)" by fastforce
  have t: "rt_outbox t = rt_outbox s" using silent_keeps_log [OF get_messages_noauth_silent g] .
  have status: "rt_outbox u' = rt_outbox u" if "MediatedConnection_update_message_status ag d uid u = (x, u')" for d uid u x u'
    using silent_keeps_log [OF update_status_silent that] .
  have ok: "conn_inv env ddo (rt_outbox u) d"
    if "MediatedConnection_handle_message reg env c m t = (Inr d, u)" for m d u
    using handle_message_inv [OF _ that refl] assms(1) t by simp
  have err: "conn_inv env ddo (rt_outbox u) d"
    if "MediatedConnection_handle_message reg env d m t = (Inl e, u)" "conn_inv env ddo (rt_outbox s) d" for m e u d
    using sends_onlyD [OF handle_message_log that(1)] conn_inv_mono [OF that(2)] t by fastforce
  show ?thesis
    using assms(2) True g t assms(1)
    unfolding MediatedConnection_find_and_handle_message_def hbind_def hget_def hlift_def hret_def hstore_def
    by (auto split: prod.splits sum.splits option.splits if_splits dest!: status dest: ok err)
qed

lemma connection_op_inv:
  assumes "conn_inv env ddo (rt_outbox s) c" "do_connection_op reg env ag op (c, s) = (c', s')"
  shows "conn_inv env ddo (rt_outbox s') c'"
proof (cases op)
  case (Do_process_invite i)
  then show ?thesis
    using assms process_invite_inv by (auto simp: stored_result_def split: sum.splits)
next
  case Do_connect
  obtain r t where "MediatedConnection_connect env ag None c s = (r, t)" by fastforce
  then show ?thesis
    using stored_inv [OF assms(1) connect_log _ connect_inv [OF assms(1)]] assms(2) Do_connect by fastforce
next
  case (Do_update m)
  then show ?thesis
    using assms update_inv by (cases "MediatedConnection_update_state_with_message env ag m c s") auto
next
  case Do_find_and_update
  then show ?thesis
    using assms find_and_update_inv by (cases "MediatedConnection_find_message_and_update_state env ag c s") auto
next
  case (Do_handle m)
  obtain r t where "MediatedConnection_handle_message reg env c m s = (r, t)" by fastforce
  then show ?thesis
    using stored_inv [OF assms(1) handle_message_log _ handle_message_inv [OF assms(1)]] assms(2) Do_handle by fastforce
next
  case Do_find_and_handle
  then show ?thesis
    using assms find_and_handle_inv by (cases "MediatedConnection_find_and_handle_message reg env ag c s") auto
qed

lemma connection_ops_inv:
  assumes "conn_inv env ddo (rt_outbox s0) c0" "fold (do_connection_op reg env ag) ops (c0, s0) = (c, s)"
  shows "conn_inv env ddo (rt_outbox s) c"
  using assms
proof (induction ops arbitrary: c0 s0)
  case (Cons op ops)
  obtain c1 s1 where op: "do_connection_op reg env ag op (c0, s0) = (c1, s1)" by fastforce
  then show ?case using Cons.IH [OF connection_op_inv [OF Cons.prems(1) op]] Cons.prems(2) by simp
qed simp

lemma create_with_invite_inv:
  assumes "MediatedConnection_create_with_invite env ag source_id i ddo autohop s0 = (Inr c, s)"
  shows "conn_inv env ddo (rt_outbox s) c"
proof -
  obtain info agent where "MediatedConnection_process_invite
      \<lparr>mcn_connection_sm = Sm_Invitee (SmConnectionInvitee_new source_id info ddo),
       mcn_cloud_agent_info = Some agent, mcn_autohop_enabled = autohop\<rparr> i = Inr c"
    using assms by (auto simp: MediatedConnection_create_with_invite_def vbind_Inr_iff)
  from process_invite_inv [OF _ this, of env ddo s] show ?thesis
    by (simp add: conn_inv_def invitee_inv_def SmConnectionInvitee_new_def)
qed

text \<open>
  C7. A connection created from an invitation, used by any sequence of the handler's operations with
  whatever messages the mediator delivers, is reported as completed only with the authenticated
  inviter: the request and the acknowledgement of its thread have been sent, and the DID document it
  holds for the counterparty was signed with the first recipient key of the invitation's document.
\<close>

theorem completed_connection_verified_inviter:
  assumes "MediatedConnection_create_with_invite env ag source_id invitation ddo autohop s0 = (Inr c0, s1)"
    and "fold (do_connection_op reg env ag) ops (c0, s1) = (c, s)"
    and "MediatedConnection_get_state c = CState_Invitee InviteeState_Completed"
  shows "\<exists>request ack cd.
       request_sent (rt_outbox s) (MediatedConnection_get_thread_id c) request
     \<and> AM_Notification (N_Ack ack) \<in> set (rt_outbox s)
     \<and> effective_thid (AM_Notification (N_Ack ack)) = MediatedConnection_get_thread_id c
     \<and> MediatedConnection_their_did_doc c = Some (cd_did_doc cd)
     \<and> response_accepted env ddo (MediatedConnection_get_thread_id c) cd"
  using connection_ops_inv [OF create_with_invite_inv [OF assms(1)] assms(2)] assms(3)
  by (auto simp: conn_inv_def invitee_inv_def MediatedConnection_get_state_def MediatedConnection_get_thread_id_def
      MediatedConnection_their_did_doc_def SmConnectionInvitee_get_state_def SmConnectionInvitee_their_did_doc_def
      Let_def split: SmConnection.splits InviteeFullState.splits)

subsection \<open>Authenticated messages\<close>

definition packed_by :: "'w conn_env \<Rightarrow> string \<Rightarrow> DownloadedMessageEncrypted \<Rightarrow> AriesMessage \<Rightarrow> bool" where
  "packed_by env vk d m = (\<exists>w w' u v t. ce_unpack_message env (dme_payload_bytes env d) w = (Inr u, w')
     \<and> lib_json_parse (ce_lib env) u = Some v
     \<and> as_str (json_index v ''sender_verkey'') = Some vk
     \<and> as_str (json_index v ''message'') = Some t \<and> ce_message_parse env t = Some m)"

lemma decoded_packed_by:
  assumes "no_mocks env"
  shows "yields (decrypt_decode_message env d vk) (packed_by env vk d)"
  unfolding yields_def packed_by_def decrypt_decode_message_def auth_unpack_def unpack_a2a_message_def
    parse_a2a_message_def Let_def
  using assms
  by (fastforce simp: no_mocks_def vbind_Inr_iff call_Inr_iff vlift_ok_or_iff
      simp del: run_iffs(3) split: option.splits if_splits)

lemma decode_each_yields:
  assumes "\<And>d. yields (f d) (Q d)"
  shows "yields (decode_each f ds acc) (\<lambda>ms. \<forall>(uid, m) \<in> set ms.
     (uid, m) \<in> set acc \<or> (\<exists>d \<in> set ds. dme_uid d = uid \<and> Q d m))"
proof (induction ds arbitrary: acc)
  case (Cons d ds)
  have "yields (decode_each f ds (dict_insert (dme_uid d) a acc)) (\<lambda>ms. \<forall>(uid, m) \<in> set ms.
     (uid, m) \<in> set acc \<or> (\<exists>d \<in> set (d # ds). dme_uid d = uid \<and> Q d m))" if "Q d a" for a
    using Cons.IH [of "dict_insert (dme_uid d) a acc"] that
    unfolding yields_def by (fastforce dest: dict_insert_in)
  then show ?case using assms [of d] by (auto intro: yields_bind)
qed auto

text \<open>
  C18. Downloads of an established connection are authenticated. Outside of test mode every message
  that \<open>get_messages\<close> returns is the content of a payload of the mediator, filed under that payload's
  id, which the wallet unpacked as sent by the key of the connection's counterparty.
\<close>

theorem downloaded_messages_authenticated:
  assumes "MediatedConnection_get_messages env ag c s = (Inr ms, s')" "no_mocks env"
  shows "\<exists>vk ds agent w w'. MediatedConnection_remote_vk env c = Inr vk \<and> mcn_cloud_agent_info c = Some agent
     \<and> agc_get_encrypted_connection_messages ag (pw_did (MediatedConnection_pairwise_info c))
          (pw_vk (MediatedConnection_pairwise_info c)) (cai_agent_did agent) (cai_agent_vk agent)
          None (Some [MS_Received]) w = (Inr ds, w')
     \<and> (\<forall>(uid, m) \<in> set ms. \<exists>d \<in> set ds. dme_uid d = uid \<and> packed_by env vk d m)"
proof -
  obtain vk agent ds s1 where
    vk: "MediatedConnection_get_expected_sender_vk env c = Inr vk" and agent: "agent_of c = Inr agent"
    and ds: "CloudAgentInfo_download_encrypted_messages agent ag None (Some [MS_Received])
        (MediatedConnection_pairwise_info c) s = (Inr ds, s1)"
    and ms: "decode_each (\<lambda>m. decrypt_decode_message env m vk) ds [] s1 = (Inr ms, s')"
    using assms(1)
    by (auto simp: MediatedConnection_get_messages_def CloudAgentInfo_get_messages_def decrypt_decode_messages_def
        vbind_Inr_iff) metis
  have "MediatedConnection_remote_vk env c = Inr vk"
    using vk by (simp add: MediatedConnection_get_expected_sender_vk_def res_simps)
  moreover have "mcn_cloud_agent_info c = Some agent"
    using agent by (simp add: agent_of_def res_simps)
  moreover obtain w w' where "agc_get_encrypted_connection_messages ag (pw_did (MediatedConnection_pairwise_info c))
          (pw_vk (MediatedConnection_pairwise_info c)) (cai_agent_did agent) (cai_agent_vk agent)
          None (Some [MS_Received]) w = (Inr ds, w')"
    using ds by (auto simp: CloudAgentInfo_download_encrypted_messages_def call_Inr_iff)
  moreover have "\<forall>(uid, m) \<in> set ms. \<exists>d \<in> set ds. dme_uid d = uid \<and> packed_by env vk d m"
    using yieldsD [OF decode_each_yields [OF decoded_packed_by [OF assms(2)]] ms] by simp
  ultimately show ?thesis by blast
qed

subsection \<open>Storing connections\<close>

text \<open>
  A connection that has its agent at the mediator survives being stored: what is read back is the
  connection itself, with autohop switched on.
\<close>

theorem stored_connection_restored:
  assumes "mcn_cloud_agent_info c = Some agent"
  shows "MediatedConnection_deserialize (MediatedConnection_serialize c) = c\<lparr>mcn_autohop_enabled := True\<rparr>"
  using assms
  by (cases c; cases "mcn_connection_sm c")
     (auto simp: MediatedConnection_deserialize_def MediatedConnection_serialize_def MediatedConnection_from_parts_def
       MediatedConnection_state_object_def MediatedConnection_source_id_def MediatedConnection_get_thread_id_def
       MediatedConnection_pairwise_info_def SmConnectionInviter_from_def SmConnectionInvitee_from_def
       unwrap_or_def Let_def)

text \<open>
  A connection without an agent is read back with an agent that has empty keys, so that the calls
  that check for an agent no longer fail, and a connection that was created not to take steps on its
  own takes them once it has been stored.
\<close>

theorem stored_connection_gains_agent:
  "mcn_cloud_agent_info c = None \<Longrightarrow>
   MediatedConnection_deserialize (MediatedConnection_serialize c)
     = c\<lparr>mcn_cloud_agent_info := Some CloudAgentInfo_default, mcn_autohop_enabled := True\<rparr>"
  by (cases c; cases "mcn_connection_sm c")
     (auto simp: MediatedConnection_deserialize_def MediatedConnection_serialize_def MediatedConnection_from_parts_def
       MediatedConnection_state_object_def MediatedConnection_source_id_def MediatedConnection_get_thread_id_def
       MediatedConnection_pairwise_info_def SmConnectionInviter_from_def SmConnectionInvitee_from_def
       unwrap_or_def Let_def)

subsection \<open>A concrete run\<close>

definition demo_agency :: "unit agency_client" where
  "demo_agency =
     \<lparr>agc_create_connection_agent = (\<lambda>_ _ w. (Inr (''agentdid'', ''agentvk''), w)),
      agc_delete_connection_agent = (\<lambda>_ _ _ _ w. (Inr (), w)),
      agc_get_agency_url_full = Inr ''http://agency'', agc_get_agency_vk = ''agencyvk'',
      agc_update_messages = (\<lambda>_ _ w. (Inr (), w)),
      agc_get_encrypted_connection_messages = (\<lambda>_ _ _ _ _ _ w.
        (Inr [\<lparr>dme_status_code = MS_Received, dme_payload = JObject
           [(''message'', JString ''ping''), (''sender_verkey'', JString ''vk1'')], dme_uid = ''m1''\<rparr>], w))\<rparr>"

lemma demo_packs:
  fixes m :: AriesMessage
  assumes "recipient_keys_of (demo_conn :: 'w conn_env) d = Inr (k # ks)"
  shows "\<exists>p s'. EncryptionEnvelope_create (demo_conn :: 'w conn_env) m (Some vk) d s = (Inr p, s')"
proof -
  let ?env = "demo_conn :: 'w conn_env"
  obtain v s1 where e: "encrypt_for_pairwise ?env m (Some vk) d s = (Inr (demo_text v), s1)"
    using assms by (simp add: encrypt_for_pairwise_def vbind_def run_simps call_def Let_def) (simp add: demo_conn_def)
  obtain q s2 where "wrap_loop ?env (demo_text v) k (AriesDidDoc_routing_keys d) s1 = (Inr q, s2)"
    using demo_wrap by blast
  then show ?thesis
    using e assms by (simp add: EncryptionEnvelope_create_def wrap_into_forward_messages_def
        vbind_def run_simps ok_or_def list_get_def mocks_enabled_def)
qed

lemma demo_takes_doc:
  assumes "recipient_keys_of (demo_conn :: 'w conn_env) d = Inr (k # ks)" "AriesDidDoc_get_endpoint d = Some url"
  shows "takes (send_message_closure_connection (demo_conn :: 'w conn_env)) d"
proof -
  let ?env = "demo_conn :: 'w conn_env"
  have "\<exists>s'. send_message_closure_connection ?env m vk d s = (Inr (), s')" for m vk s
  proof -
    obtain p t where "EncryptionEnvelope_create ?env m (Some vk) d s = (Inr p, t)"
      using demo_packs [OF assms(1)] by blast
    moreover have "post_envelope ?env p d t = (Inr (), t)"
      using assms(2) by (simp add: post_envelope_def ok_or_def vbind_def run_simps call_def demo_conn_def)
    ultimately show ?thesis
      by (simp add: send_message_closure_connection_def utils_send_message_def vbind_run)
  qed
  then show ?thesis using quiet_closure [of ?env] by (simp add: takes_def)
qed

lemma demo_takes:
  "takes (send_message_closure_connection (demo_conn :: 'w conn_env)) (built_did_doc did (k # ks) rts ep)"
  by (rule demo_takes_doc [OF demo_keys_valid])
     (simp add: AriesDidDoc_get_endpoint_def built_did_doc_closed list_get_def)

definition demo_peer :: AriesDidDoc where
  "demo_peer = built_did_doc ''did1'' [''vk1''] [] ''http://b''"

definition demo_invited :: MediatedConnection where
  "demo_invited =
     \<lparr>mcn_connection_sm = Sm_Invitee ((SmConnectionInvitee_new ''bob'' \<lparr>pw_did = ''newdid'', pw_vk = ''newvk''\<rparr> demo_ddo)
        \<lparr>ive_state := Vee_Invited \<lparr>vev_invitation = Inv_Con (Inv_Pairwise demo_invite), vev_did_doc = demo_ddo\<rparr>,
         ive_thread_id := ''t1''\<rparr>),
      mcn_cloud_agent_info = Some \<lparr>cai_agent_did = ''agentdid'', cai_agent_vk = ''agentvk''\<rparr>,
      mcn_autohop_enabled = True\<rparr>"

lemma demo_create:
  "MediatedConnection_create_with_invite demo_conn demo_agency ''bob'' (Inv_Con (Inv_Pairwise demo_invite)) demo_ddo
     True demo_runtime = (Inr demo_invited, demo_runtime)"
  by (simp add: MediatedConnection_create_with_invite_def PairwiseInfo_create_def CloudAgentInfo_create_def
      create_agent_keys_def MediatedConnection_process_invite_def SmConnectionInvitee_handle_invitation_def
      SmConnectionInvitee_new_def InviteeInvitedState_from_initial_def demo_invited_def demo_conn_def demo_agency_def
      demo_invite_def demo_runtime_def vbind_def run_simps call_def Let_def)

lemma demo_connect:
  obtains request s1 where
    "MediatedConnection_connect demo_conn demo_agency None demo_invited demo_runtime =
       (Inr (demo_invited\<lparr>mcn_connection_sm := Sm_Invitee
          ((SmConnectionInvitee_new ''bob'' \<lparr>pw_did = ''newdid'', pw_vk = ''newvk''\<rparr> demo_ddo)
             \<lparr>ive_state := Vee_Requested (InviteeRequestedState_from_invited
                \<lparr>vev_invitation = Inv_Con (Inv_Pairwise demo_invite), vev_did_doc = demo_ddo\<rparr> request demo_ddo),
              ive_thread_id := ''t1''\<rparr>)\<rparr>), s1)"
    "od_thread (msg_decorators request) = Some (Thread_new ''t1'')"
proof -
  let ?est = "\<lparr>vev_invitation = Inv_Con (Inv_Pairwise demo_invite), vev_did_doc = demo_ddo\<rparr>"
  let ?new = "SmConnectionInvitee_new ''bob'' \<lparr>pw_did = ''newdid'', pw_vk = ''newvk''\<rparr> demo_ddo"
  let ?send = "send_message_closure_connection (demo_conn :: unit conn_env)"
  define sm where "sm = ?new\<lparr>ive_state := Vee_Invited ?est, ive_thread_id := ''t1''\<rparr>"
  have sm: "ive_state sm = Vee_Invited ?est" "ive_thread_id sm = ''t1''" by (simp_all add: sm_def)
  have t: "takes ?send (vev_did_doc ?est)"
    by (simp add: demo_ddo_def demo_takes)
  obtain request s1 where q:
      "SmConnectionInvitee_send_connection_request sm [''agentvk'', ''agencyvk''] ''http://agency'' ?send demo_runtime =
         (Inr (sm\<lparr>ive_state := Vee_Requested (InviteeRequestedState_from_invited ?est request (vev_did_doc ?est))\<rparr>), s1)"
      "od_thread (msg_decorators request) = Some (Thread_new (ive_thread_id sm))"
    by (rule handshake_request [OF t sm(1), of demo_invite "[''agentvk'', ''agencyvk'']" "''http://agency''" demo_runtime])
       simp_all
  have "MediatedConnection_connect demo_conn demo_agency None demo_invited demo_runtime =
     (Inr (demo_invited\<lparr>mcn_connection_sm := Sm_Invitee
        (sm\<lparr>ive_state := Vee_Requested (InviteeRequestedState_from_invited ?est request demo_ddo)\<rparr>)\<rparr>), s1)"
    using q(1)
    by (simp add: MediatedConnection_connect_def agent_of_def demo_invited_def CloudAgentInfo_routing_keys_def
        CloudAgentInfo_service_endpoint_def demo_agency_def vbind_def run_simps unwrap_or_def ok_or_def
        flip: sm_def)
  then show ?thesis
    using that [of request s1] q(2) sm(2) by (simp add: sm_def)
qed

lemma demo_hops:
  assumes "mcn_connection_sm c = Sm_Invitee sm" "mcn_autohop_enabled c"
    and "ive_state sm = Vee_Requested qst" "ive_thread_id sm = ''t1''" "veq_did_doc qst = demo_ddo"
    and "od_thread (msg_decorators (veq_request qst)) = Some (Thread_new ''t1'')"
  obtains m c' s' where
    "do_connection_op reg (demo_conn :: unit conn_env) ag (Do_update (Some m)) (c, s) = (c', s')"
    "MediatedConnection_get_state c' = CState_Invitee InviteeState_Completed"
    "MediatedConnection_their_did_doc c' = Some demo_peer" "mcn_cloud_agent_info c' = mcn_cloud_agent_info c"
proof -
  let ?send = "send_message_closure_connection (demo_conn :: unit conn_env)"
  let ?cd = "ConnectionData_new ''did1'' demo_peer"
  obtain response :: ConnResponse where response: "kd_thread (msg_decorators response) = Thread_new ''t1''"
      "\<And>s :: unit runtime. \<exists>s'. decode_signed_connection_response demo_conn (msg_content response) ''vk0'' s = (Inr (Some ?cd), s')"
    unfolding demo_peer_def using demo_signed_response by blast
  then obtain s2 where dec: "decode_signed_connection_response demo_conn (msg_content response) ''vk0'' s = (Inr (Some ?cd), s2)"
    by blast
  define pst where "pst = InviteeRespondedState_from_requested qst ?cd"
  define sm3 where "sm3 = sm\<lparr>ive_state := Vee_Responded pst\<rparr>"
  define c3 where "c3 = \<lparr>mcn_connection_sm = Sm_Invitee sm3, mcn_cloud_agent_info = mcn_cloud_agent_info c,
     mcn_autohop_enabled = True\<rparr>"
  have "SmConnectionInvitee_handle_connection_response demo_conn sm response ?send s = (Inr (Some sm3), s2)"
    unfolding sm3_def pst_def
    by (rule handshake_response [OF assms(3) _ _ _ dec])
       (simp_all add: assms response(1) demo_ddo_def demo_keys_valid)
  then have step1: "connection_step demo_conn ag c (Some (AM_Connection (C_Response response))) s = (Inr (Some (c3, True)), s2)"
    using assms(1,2) by (simp add: connection_step_def MediatedConnection_step_invitee_def invitee_message_step_def
        vbind_def run_simps c3_def)
  have sm3: "ive_state sm3 = Vee_Responded pst" by (simp add: sm3_def)
  have "takes ?send (cd_did_doc (vep_resp_con_data pst))"
    by (simp add: pst_def InviteeRespondedState_from_requested_def ConnectionData_new_def demo_peer_def demo_takes)
  from handshake_ack [OF this sm3, of s2] obtain s3 where
    "SmConnectionInvitee_handle_send_ack sm3 ?send s2 =
       (Inr (sm3\<lparr>ive_state := Vee_Completed (InviteeCompletedState_from_responded pst)\<rparr>), s3)"
    by blast
  then have "connection_step demo_conn ag c3 None s2 = (Inr (Some (c3\<lparr>mcn_connection_sm := Sm_Invitee
      (sm3\<lparr>ive_state := Vee_Completed (InviteeCompletedState_from_responded pst)\<rparr>)\<rparr>, False)), s3)"
    by (simp add: connection_step_def MediatedConnection_step_invitee_def invitee_message_step_def
        vbind_def run_simps c3_def)
  then have step2: "MediatedConnection_update_state_with_message demo_conn ag None c3 s2 =
      (Inr (Some ()), c3\<lparr>mcn_connection_sm := Sm_Invitee
         (sm3\<lparr>ive_state := Vee_Completed (InviteeCompletedState_from_responded pst)\<rparr>)\<rparr>, s3)"
    by (simp add: update_without_message)
  have "do_connection_op reg demo_conn ag (Do_update (Some (AM_Connection (C_Response response)))) (c, s) =
      (c3\<lparr>mcn_connection_sm := Sm_Invitee
         (sm3\<lparr>ive_state := Vee_Completed (InviteeCompletedState_from_responded pst)\<rparr>)\<rparr>, s3)"
    using step1 step2
    by (subst do_connection_op.simps, subst MediatedConnection_update_state_with_message.simps) (simp add: c3_def)
  then show ?thesis
    by (rule that) (simp_all add: c3_def MediatedConnection_get_state_def SmConnectionInvitee_get_state_def
        MediatedConnection_their_did_doc_def SmConnectionInvitee_their_did_doc_def pst_def ConnectionData_new_def
        InviteeCompletedState_from_responded_def InviteeRespondedState_from_requested_def)
qed

lemma demo_connection_run:
  obtains ops c s where
    "fold (do_connection_op reg (demo_conn :: unit conn_env) demo_agency) ops (demo_invited, demo_runtime) = (c, s)"
    "MediatedConnection_get_state c = CState_Invitee InviteeState_Completed"
    "MediatedConnection_their_did_doc c = Some demo_peer" "mcn_cloud_agent_info c = mcn_cloud_agent_info demo_invited"
proof -
  obtain c1 s1 sm qst where c1:
      "do_connection_op reg demo_conn demo_agency Do_connect (demo_invited, demo_runtime) = (c1, s1)"
      "mcn_connection_sm c1 = Sm_Invitee sm" "mcn_autohop_enabled c1" "ive_state sm = Vee_Requested qst"
      "ive_thread_id sm = ''t1''" "veq_did_doc qst = demo_ddo"
      "od_thread (msg_decorators (veq_request qst)) = Some (Thread_new ''t1'')"
      "mcn_cloud_agent_info c1 = mcn_cloud_agent_info demo_invited"
    by (rule demo_connect) (fastforce simp: stored_result_def demo_invited_def InviteeRequestedState_from_invited_def)
  obtain m c s where m: "do_connection_op reg (demo_conn :: unit conn_env) demo_agency (Do_update (Some m)) (c1, s1) = (c, s)"
      "MediatedConnection_get_state c = CState_Invitee InviteeState_Completed"
      "MediatedConnection_their_did_doc c = Some demo_peer" "mcn_cloud_agent_info c = mcn_cloud_agent_info c1"
    by (rule demo_hops [OF c1(2-7)])
  show ?thesis
    by (rule that [of "[Do_connect, Do_update (Some m)]" c s]) (simp_all add: c1(1,8) m del: do_connection_op.simps)
qed

theorem completed_connection_verified_inviter_witness:
  "\<exists>ops c s request ack cd.
     fold (do_connection_op [] (demo_conn :: unit conn_env) demo_agency) ops (demo_invited, demo_runtime) = (c, s)
     \<and> MediatedConnection_get_state c = CState_Invitee InviteeState_Completed
     \<and> request_sent (rt_outbox s) (MediatedConnection_get_thread_id c) request
     \<and> AM_Notification (N_Ack ack) \<in> set (rt_outbox s)
     \<and> effective_thid (AM_Notification (N_Ack ack)) = MediatedConnection_get_thread_id c
     \<and> MediatedConnection_their_did_doc c = Some (cd_did_doc cd)
     \<and> response_accepted (demo_conn :: unit conn_env) demo_ddo (MediatedConnection_get_thread_id c) cd"
proof -
  obtain ops c s where run:
      "fold (do_connection_op [] (demo_conn :: unit conn_env) demo_agency) ops (demo_invited, demo_runtime) = (c, s)"
      "MediatedConnection_get_state c = CState_Invitee InviteeState_Completed"
    by (rule demo_connection_run)
  from completed_connection_verified_inviter [OF demo_create run] run show ?thesis by blast
qed

theorem stored_connection_restored_witness:
  "MediatedConnection_deserialize (MediatedConnection_serialize demo_invited) = demo_invited"
  using stored_connection_restored [of demo_invited] by (simp add: demo_invited_def)

theorem downloaded_messages_authenticated_witness:
  "\<exists>c s'. MediatedConnection_get_messages demo_conn demo_agency c demo_runtime = (Inr [(''m1'', demo_ping)], s')
     \<and> (\<exists>d. dme_uid d = ''m1'' \<and> packed_by (demo_conn :: unit conn_env) ''vk1'' d demo_ping)"
proof -
  obtain ops c s where c: "MediatedConnection_get_state c = CState_Invitee InviteeState_Completed"
      "MediatedConnection_their_did_doc c = Some demo_peer" "mcn_cloud_agent_info c = mcn_cloud_agent_info demo_invited"
    by (rule demo_connection_run)
  have "remote_vk_of (demo_conn :: unit conn_env) (Some demo_peer) = Inr ''vk1''"
    by (simp add: remote_vk_of_def demo_peer_def demo_keys_valid ok_or_def list_get_def)
  then have vk: "MediatedConnection_remote_vk (demo_conn :: unit conn_env) c = Inr ''vk1''"
    using c(1,2) by (auto simp: MediatedConnection_get_state_def MediatedConnection_their_did_doc_def
        MediatedConnection_remote_vk_def SmConnectionInvitee_remote_vk_def split: SmConnection.splits)
  have m: "MediatedConnection_get_messages demo_conn demo_agency c demo_runtime = (Inr [(''m1'', demo_ping)], demo_runtime)"
    using vk c(3)
    by (simp add: MediatedConnection_get_messages_def MediatedConnection_get_expected_sender_vk_def agent_of_def
        CloudAgentInfo_get_messages_def CloudAgentInfo_download_encrypted_messages_def decrypt_decode_messages_def
        decrypt_decode_message_def dme_payload_bytes_def auth_unpack_def unpack_a2a_message_def parse_a2a_message_def
        demo_invited_def demo_agency_def demo_conn_def json_index_def unwrap_or_def ok_or_def map_err_def
        vbind_def run_simps call_def Let_def demo_runtime_def)
  show ?thesis
    using downloaded_messages_authenticated [OF m demo_conn_laws(5)] m vk by auto
qed

end
