(* ===== verification/Connection_Typestate.thy ===== *)
theory Connection_Typestate
  imports Connection_Handler
begin

text \<open>
  Connections with their state in the type: aries_vcx/src/protocols/connection (mod.rs, invitee, inviter,
  generic, initiation_type.rs, trait_bounds.rs). \<open>Connection<I, S>\<close> is a record over the types of the
  side and of the state, so that an operation that the code offers in one state only is a function on
  that type only. The traits \<open>ThreadId\<close>, \<open>TheirDidDoc\<close> and \<open>BootstrapDidDoc\<close> are functions per
  state; a method that needs such a trait takes the function as an argument.

  The transport is the caller's implementation of the trait \<open>Transport\<close>: an argument. As for the
  mediated connection, \<open>deliver\<close> records the messages that the transport accepts, and an inner \<open>None\<close>
  is the panic of the decoder or of an invitation without services.

  Shown: a completed invitee has authenticated its inviter; the handshake connects the two sides; a
  connection survives the conversion to \<open>GenericConnection\<close> and is converted to no other state; the
  request is the one that the mediated connection sends.
\<close>

subsection \<open>Sides, states and connections\<close>

datatype Inviter_side = Inviter_side
datatype Invitee_side = Invitee_side

record ('i, 's) typed_connection =
  tcn_source_id :: string
  tcn_pairwise_info :: PairwiseInfo
  tcn_initiation_type :: 'i
  tcn_state :: 's

datatype TeeInitial = TeeInitial

record TeeInvited =
  tev_did_doc :: AriesDidDoc
  tev_invitation :: AnyInvitation

record TeeRequested =
  teq_did_doc :: AriesDidDoc
  teq_thread_id :: string

record TeeResponded =
  tep_did_doc :: AriesDidDoc
  tep_bootstrap_did_doc :: AriesDidDoc
  tep_thread_id :: string

record TeeCompleted =
  tec_did_doc :: AriesDidDoc
  tec_bootstrap_did_doc :: AriesDidDoc
  tec_thread_id :: string
  tec_protocols :: "ProtocolDescriptor list option"

datatype TerInitial = TerInitial

record TerInvited =
  trv_invitation :: AnyInvitation

record TerRequested =
  trq_signed_response :: ConnResponse
  trq_did_doc :: AriesDidDoc

record TerResponded =
  trp_did_doc :: AriesDidDoc
  trp_thread_id :: string

record TerCompleted =
  trc_did_doc :: AriesDidDoc
  trc_thread_id :: string
  trc_protocols :: "ProtocolDescriptor list option"

text \<open>The trait \<open>ThreadId\<close> of the states whose thread is not a field.\<close>

definition TeeInvited_thread_id :: "TeeInvited \<Rightarrow> string" where
  "TeeInvited_thread_id self = invitation_id (tev_invitation self)"

definition TerInvited_thread_id :: "TerInvited \<Rightarrow> string" where
  "TerInvited_thread_id self = invitation_id (trv_invitation self)"

definition TerRequested_thread_id :: "TerRequested \<Rightarrow> string" where
  "TerRequested_thread_id self = thid (kd_thread (msg_decorators (trq_signed_response self)))"

definition TeeCompleted_handle_disclose :: "TeeCompleted \<Rightarrow> Disclose \<Rightarrow> TeeCompleted" where
  "TeeCompleted_handle_disclose self disclose = self\<lparr>tec_protocols := Some (disc_protocols (msg_content disclose))\<rparr>"

definition TerCompleted_handle_disclose :: "TerCompleted \<Rightarrow> Disclose \<Rightarrow> TerCompleted" where
  "TerCompleted_handle_disclose self disclose = self\<lparr>trc_protocols := Some (disc_protocols (msg_content disclose))\<rparr>"

subsection \<open>Operations of all connections\<close>

type_synonym 'w message_transport = "string \<Rightarrow> string \<Rightarrow> ('w, unit) ext"

definition Connection_from_parts :: "string \<Rightarrow> PairwiseInfo \<Rightarrow> 'i \<Rightarrow> 's \<Rightarrow> ('i, 's) typed_connection" where
  "Connection_from_parts source_id pairwise_info initiation_type state =
     \<lparr>tcn_source_id = source_id, tcn_pairwise_info = pairwise_info, tcn_initiation_type = initiation_type,
      tcn_state = state\<rparr>"

definition Connection_into_parts :: "('i, 's) typed_connection \<Rightarrow> string \<times> PairwiseInfo \<times> 'i \<times> 's" where
  "Connection_into_parts self =
     (tcn_source_id self, tcn_pairwise_info self, tcn_initiation_type self, tcn_state self)"

definition with_state :: "('i, 's) typed_connection \<Rightarrow> 't \<Rightarrow> ('i, 't) typed_connection" where
  "with_state self state =
     Connection_from_parts (tcn_source_id self) (tcn_pairwise_info self) (tcn_initiation_type self) state"

definition Connection_protocols :: "RegistryEntry list \<Rightarrow> ('i, 's) typed_connection \<Rightarrow> ProtocolDescriptor list" where
  "Connection_protocols registry self = QueryContent_lookup registry \<lparr>q_query = ''*'', q_comment = None\<rparr>"

definition wrap_and_send_msg :: "'w conn_env \<Rightarrow> 'w message_transport \<Rightarrow> 'w SendClosureConnection" where
  "wrap_and_send_msg env tr message sender_verkey did_doc =
     vbind (EncryptionEnvelope_create env message (Some sender_verkey) did_doc) (\<lambda>msg.
     vbind (vlift (ok_or (AriesDidDoc_get_endpoint did_doc) no_url_error)) (\<lambda>service_endpoint.
       call (tr msg service_endpoint)))"

definition Connection_remote_vk :: "'w conn_env \<Rightarrow> ('s \<Rightarrow> AriesDidDoc) \<Rightarrow> ('i, 's) typed_connection \<Rightarrow> string vcx_result" where
  "Connection_remote_vk env their self =
     res_bind (recipient_keys_of env (their (tcn_state self))) (\<lambda>keys.
       ok_or (list_get keys 0)
         (AriesVcxError_from_msg NotReady ''Can't resolve recipient key from the counterparty diddoc.''))"

definition Connection_send_message ::
    "'w conn_env \<Rightarrow> 'w message_transport \<Rightarrow> ('s \<Rightarrow> AriesDidDoc) \<Rightarrow> ('i, 's) typed_connection \<Rightarrow> AriesMessage
       \<Rightarrow> ('w, unit) vcx" where
  "Connection_send_message env tr their self message =
     deliver (wrap_and_send_msg env tr) message (pw_vk (tcn_pairwise_info self)) (their (tcn_state self))"

definition create_problem_report :: "string \<Rightarrow> string \<Rightarrow> ('w, ConnProblemReport) vcx" where
  "create_problem_report err thread_id =
     vbind utc_now (\<lambda>now. vbind new_v4 (\<lambda>i. vret (conn_problem_report i err thread_id now)))"

definition send_problem_report ::
    "'w conn_env \<Rightarrow> 'w message_transport \<Rightarrow> ('i, 's) typed_connection \<Rightarrow> string \<Rightarrow> string \<Rightarrow> AriesDidDoc
       \<Rightarrow> ('w, unit) vcx" where
  "send_problem_report env tr self err thread_id did_doc =
     vbind (create_problem_report err thread_id) (\<lambda>problem_report.
     vbind (vtry (deliver (wrap_and_send_msg env tr) (AM_Connection (C_ProblemReport problem_report))
                    (pw_vk (tcn_pairwise_info self)) did_doc)) (\<lambda>_.
       vret ()))"

subsection \<open>Invitee\<close>

definition new_invitee :: "string \<Rightarrow> PairwiseInfo \<Rightarrow> (Invitee_side, TeeInitial) typed_connection" where
  "new_invitee source_id pairwise_info = Connection_from_parts source_id pairwise_info Invitee_side TeeInitial"

definition accept_invitation ::
    "'w conn_env \<Rightarrow> (Invitee_side, TeeInitial) typed_connection \<Rightarrow> AnyInvitation
       \<Rightarrow> ('w, (Invitee_side, TeeInvited) typed_connection option) vcx" where
  "accept_invitation env self invitation =
     vbind (into_did_doc env invitation) (\<lambda>r. vret (map_option (\<lambda>did_doc.
       with_state self \<lparr>tev_did_doc = did_doc, tev_invitation = invitation\<rparr>) r))"

definition typed_request_thread :: "string \<Rightarrow> TeeInvited \<Rightarrow> string \<times> Thread" where
  "typed_request_thread i state =
     (let t = TeeInvited_thread_id state
      in case tev_invitation state of
           Inv_Con (Inv_Public _) \<Rightarrow> (i, (Thread_new i)\<lparr>pthid := Some t\<rparr>)
         | Inv_Oob _ \<Rightarrow> (i, (Thread_new i)\<lparr>pthid := Some t\<rparr>)
         | Inv_Con (Inv_Pairwise _) \<Rightarrow> (t, Thread_new t)
         | Inv_Con (Inv_PairwiseDID _) \<Rightarrow> (t, Thread_new t))"

definition send_request ::
    "'w conn_env \<Rightarrow> 'w message_transport \<Rightarrow> (Invitee_side, TeeInvited) typed_connection \<Rightarrow> string \<Rightarrow> string list
       \<Rightarrow> ('w, (Invitee_side, TeeRequested) typed_connection) vcx" where
  "send_request env tr self service_endpoint routing_keys =
     vbind new_v4 (\<lambda>i.
       let info = tcn_pairwise_info self;
           did_doc = AriesDidDoc_default;
           did_doc = AriesDidDoc_set_service_endpoint did_doc service_endpoint;
           did_doc = AriesDidDoc_set_routing_keys did_doc routing_keys;
           did_doc = AriesDidDoc_set_recipient_keys did_doc [pw_vk info];
           did_doc = did_doc\<lparr>dd_id := pw_did info\<rparr>;
           con_data = ConnectionData_new (pw_did info) did_doc;
           content = RequestContent_new (tcn_source_id self) con_data
       in vbind utc_now (\<lambda>now.
            let (thread_id, thread) = typed_request_thread i (tcn_state self);
                decorators = \<lparr>od_thread = Some thread, od_timing = Some (out_timing now)\<rparr>;
                request = MsgParts_with_decorators i content decorators
            in vbind (Connection_send_message env tr tev_did_doc self (AM_Connection (C_Request request))) (\<lambda>_.
                 vret (with_state self
                   \<lparr>teq_did_doc = tev_did_doc (tcn_state self), teq_thread_id = thread_id\<rparr>))))"

definition handle_response ::
    "'w conn_env \<Rightarrow> 'w message_transport \<Rightarrow> (Invitee_side, TeeRequested) typed_connection \<Rightarrow> ConnResponse
       \<Rightarrow> ('w, (Invitee_side, TeeResponded) typed_connection option) vcx" where
  "handle_response env tr self response =
     (let state = tcn_state self
      in if \<not> matches_thread_id (kd_thread (msg_decorators response)) (teq_thread_id state) then
           vfail (AriesVcxError_from_msg InvalidJson
             ''Cannot handle message {:?}: thread id does not match, expected {:?}'')
         else
           vbind (vlift (recipient_keys_of env (teq_did_doc state))) (\<lambda>keys.
           vbind (vlift (ok_or (list_get keys 0) (AriesVcxError_from_msg InvalidState
                    ''Cannot handle response: remote verkey not found''))) (\<lambda>their_vk.
           vbind (vtry (decode_signed_connection_response env (msg_content response) their_vk)) (\<lambda>decoded.
             case decoded of
               Inr None \<Rightarrow> vret None
             | Inr (Some con_data) \<Rightarrow>
                 vret (Some (with_state self
                   \<lparr>tep_did_doc = cd_did_doc con_data, tep_bootstrap_did_doc = teq_did_doc state,
                    tep_thread_id = teq_thread_id state\<rparr>))
             | Inl err \<Rightarrow>
                 vbind (send_problem_report env tr self (AriesVcxError_to_string err) (teq_thread_id state)
                          (teq_did_doc state)) (\<lambda>_. vfail err)))))"

definition send_ack ::
    "'w conn_env \<Rightarrow> 'w message_transport \<Rightarrow> (Invitee_side, TeeResponded) typed_connection
       \<Rightarrow> ('w, (Invitee_side, TeeCompleted) typed_connection) vcx" where
  "send_ack env tr self =
     (let state = tcn_state self
      in vbind new_v4 (\<lambda>i.
         vbind utc_now (\<lambda>now.
           let ack = MsgParts_with_decorators i (AckContent_new Ack_Ok)
                 ((thr_decorators_new (Thread_new (tep_thread_id state)))\<lparr>td_timing := Some (out_timing now)\<rparr>)
           in vbind (Connection_send_message env tr tep_did_doc self (AM_Notification (N_Ack ack))) (\<lambda>_.
                vret (with_state self
                  \<lparr>tec_did_doc = tep_did_doc state, tec_bootstrap_did_doc = tep_bootstrap_did_doc state,
                   tec_thread_id = tep_thread_id state, tec_protocols = None\<rparr>)))))"

subsection \<open>Inviter\<close>

definition new_inviter :: "string \<Rightarrow> PairwiseInfo \<Rightarrow> (Inviter_side, TerInitial) typed_connection" where
  "new_inviter source_id pairwise_info = Connection_from_parts source_id pairwise_info Inviter_side TerInitial"

definition pairwise_invitation :: "string \<Rightarrow> string \<Rightarrow> string list \<Rightarrow> string list \<Rightarrow> string \<Rightarrow> AnyInvitation" where
  "pairwise_invitation i label recipient_keys routing_keys service_endpoint =
     Inv_Con (Inv_Pairwise (MsgParts_with_decorators i
       \<lparr>pwinv_label = label, pwinv_recipient_keys = recipient_keys, pwinv_routing_keys = routing_keys,
        pwinv_service_endpoint = service_endpoint\<rparr> \<lparr>md_timing = None\<rparr>))"

definition create_invitation ::
    "(Inviter_side, TerInitial) typed_connection \<Rightarrow> string list \<Rightarrow> string
       \<Rightarrow> ('w, (Inviter_side, TerInvited) typed_connection) vcx" where
  "create_invitation self routing_keys service_endpoint =
     vbind new_v4 (\<lambda>i. vret (with_state self
       \<lparr>trv_invitation = pairwise_invitation i (tcn_source_id self) [pw_vk (tcn_pairwise_info self)]
          routing_keys service_endpoint\<rparr>))"

definition into_invited ::
    "(Inviter_side, TerInitial) typed_connection \<Rightarrow> string \<Rightarrow> (Inviter_side, TerInvited) typed_connection" where
  "into_invited self thread_id = with_state self
     \<lparr>trv_invitation = pairwise_invitation thread_id (tcn_source_id self) [pw_vk (tcn_pairwise_info self)] []
        ''https://dummy.dummy/dummy''\<rparr>"

definition build_response_content ::
    "'w conn_env \<Rightarrow> (Inviter_side, TerInvited) typed_connection \<Rightarrow> string \<Rightarrow> PairwiseInfo \<Rightarrow> string \<Rightarrow> string list
       \<Rightarrow> ('w, ConnResponse) vcx" where
  "build_response_content env self thread_id new_pairwise_info new_service_endpoint new_routing_keys =
     (let did_doc = AriesDidDoc_default;
          did_doc = AriesDidDoc_set_id did_doc (pw_did new_pairwise_info);
          did_doc = AriesDidDoc_set_service_endpoint did_doc new_service_endpoint;
          did_doc = AriesDidDoc_set_routing_keys did_doc new_routing_keys;
          did_doc = AriesDidDoc_set_recipient_keys did_doc [pw_vk new_pairwise_info];
          con_data = ConnectionData_new (pw_did new_pairwise_info) did_doc
      in vbind new_v4 (\<lambda>i.
         vbind (sign_connection_response env (pw_vk (tcn_pairwise_info self)) con_data) (\<lambda>con_sig.
         vbind utc_now (\<lambda>now.
           vret (MsgParts_with_decorators i \<lparr>connection_sig = con_sig\<rparr>
             ((ack_decorators_new (Thread_new thread_id))\<lparr>kd_timing := Some (out_timing now)\<rparr>))))))"

definition handle_request ::
    "'w conn_env \<Rightarrow> 'w message_transport \<Rightarrow> (Inviter_side, TerInvited) typed_connection \<Rightarrow> ConnRequest \<Rightarrow> string
       \<Rightarrow> string list \<Rightarrow> ('w, (Inviter_side, TerRequested) typed_connection) vcx" where
  "handle_request env tr self request new_service_endpoint new_routing_keys =
     vbind (vlift (util_verify_thread_id (TerInvited_thread_id (tcn_state self)) (AM_Connection (C_Request request)))) (\<lambda>_.
       let did_doc = cd_did_doc (cr_connection (msg_content request));
           thread_id = thid_or (msg_id request) (od_thread (msg_decorators request))
       in case AriesDidDoc_validate (lib_bs58 (ce_lib env)) did_doc of
            Inl err \<Rightarrow>
              vbind (send_problem_report env tr self (DiddocError_to_string err) thread_id did_doc) (\<lambda>_.
                vlift (from_diddoc (Inl err)))
          | Inr _ \<Rightarrow>
              vbind (PairwiseInfo_create env) (\<lambda>new_pairwise_info.
              vbind (build_response_content env self thread_id new_pairwise_info new_service_endpoint
                       new_routing_keys) (\<lambda>content.
                vret (Connection_from_parts (tcn_source_id self) new_pairwise_info (tcn_initiation_type self)
                  \<lparr>trq_signed_response = content, trq_did_doc = did_doc\<rparr>))))"

definition send_response ::
    "'w conn_env \<Rightarrow> 'w message_transport \<Rightarrow> (Inviter_side, TerRequested) typed_connection
       \<Rightarrow> ('w, (Inviter_side, TerResponded) typed_connection) vcx" where
  "send_response env tr self =
     (let state = tcn_state self;
          thread_id = thid (kd_thread (msg_decorators (trq_signed_response state)))
      in vbind (Connection_send_message env tr trq_did_doc self
                  (AM_Connection (C_Response (trq_signed_response state)))) (\<lambda>_.
           vret (with_state self \<lparr>trp_did_doc = trq_did_doc state, trp_thread_id = thread_id\<rparr>)))"

definition acknowledge_connection ::
    "(Inviter_side, TerResponded) typed_connection \<Rightarrow> AriesMessage
       \<Rightarrow> (Inviter_side, TerCompleted) typed_connection vcx_result" where
  "acknowledge_connection self msg =
     res_bind (util_verify_thread_id (trp_thread_id (tcn_state self)) msg) (\<lambda>_.
       Inr (with_state self
         \<lparr>trc_did_doc = trp_did_doc (tcn_state self), trc_thread_id = trp_thread_id (tcn_state self),
          trc_protocols = None\<rparr>))"

subsection \<open>Connections of any state\<close>

datatype GenericInviterState =
    GVer_Initial TerInitial
  | GVer_Invited TerInvited
  | GVer_Requested TerRequested
  | GVer_Responded TerResponded
  | GVer_Completed TerCompleted

datatype GenericInviteeState =
    GVee_Initial TeeInitial
  | GVee_Invited TeeInvited
  | GVee_Requested TeeRequested
  | GVee_Responded TeeResponded
  | GVee_Completed TeeCompleted

datatype GenericState = G_Inviter GenericInviterState | G_Invitee GenericInviteeState

record GenericConnection =
  gcn_source_id :: string
  gcn_pairwise_info :: PairwiseInfo
  gcn_state :: GenericState

datatype Stage = Stage_Initial | Stage_Invited | Stage_Requested | Stage_Responded | Stage_Completed
datatype ThinState = Thin_Invitee Stage | Thin_Inviter Stage

fun Stage_from_inviter :: "GenericInviterState \<Rightarrow> Stage" where
  "Stage_from_inviter (GVer_Initial _) = Stage_Initial"
| "Stage_from_inviter (GVer_Invited _) = Stage_Invited"
| "Stage_from_inviter (GVer_Requested _) = Stage_Requested"
| "Stage_from_inviter (GVer_Responded _) = Stage_Responded"
| "Stage_from_inviter (GVer_Completed _) = Stage_Completed"

fun Stage_from_invitee :: "GenericInviteeState \<Rightarrow> Stage" where
  "Stage_from_invitee (GVee_Initial _) = Stage_Initial"
| "Stage_from_invitee (GVee_Invited _) = Stage_Invited"
| "Stage_from_invitee (GVee_Requested _) = Stage_Requested"
| "Stage_from_invitee (GVee_Responded _) = Stage_Responded"
| "Stage_from_invitee (GVee_Completed _) = Stage_Completed"

fun ThinState_from :: "GenericState \<Rightarrow> ThinState" where
  "ThinState_from (G_Invitee v) = Thin_Invitee (Stage_from_invitee v)"
| "ThinState_from (G_Inviter v) = Thin_Inviter (Stage_from_inviter v)"

definition GenericConnection_state :: "GenericConnection \<Rightarrow> ThinState" where
  "GenericConnection_state self = ThinState_from (gcn_state self)"

fun generic_thread_id :: "GenericState \<Rightarrow> string option" where
  "generic_thread_id (G_Invitee (GVee_Initial _)) = None"
| "generic_thread_id (G_Invitee (GVee_Invited s)) = Some (TeeInvited_thread_id s)"
| "generic_thread_id (G_Invitee (GVee_Requested s)) = Some (teq_thread_id s)"
| "generic_thread_id (G_Invitee (GVee_Responded s)) = Some (tep_thread_id s)"
| "generic_thread_id (G_Invitee (GVee_Completed s)) = Some (tec_thread_id s)"
| "generic_thread_id (G_Inviter (GVer_Initial _)) = None"
| "generic_thread_id (G_Inviter (GVer_Invited s)) = Some (TerInvited_thread_id s)"
| "generic_thread_id (G_Inviter (GVer_Requested s)) = Some (TerRequested_thread_id s)"
| "generic_thread_id (G_Inviter (GVer_Responded s)) = Some (trp_thread_id s)"
| "generic_thread_id (G_Inviter (GVer_Completed s)) = Some (trc_thread_id s)"

fun generic_their_did_doc :: "GenericState \<Rightarrow> AriesDidDoc option" where
  "generic_their_did_doc (G_Invitee (GVee_Initial _)) = None"
| "generic_their_did_doc (G_Invitee (GVee_Invited s)) = Some (tev_did_doc s)"
| "generic_their_did_doc (G_Invitee (GVee_Requested s)) = Some (teq_did_doc s)"
| "generic_their_did_doc (G_Invitee (GVee_Responded s)) = Some (tep_did_doc s)"
| "generic_their_did_doc (G_Invitee (GVee_Completed s)) = Some (tec_did_doc s)"
| "generic_their_did_doc (G_Inviter (GVer_Initial _)) = None"
| "generic_their_did_doc (G_Inviter (GVer_Invited _)) = None"
| "generic_their_did_doc (G_Inviter (GVer_Requested s)) = Some (trq_did_doc s)"
| "generic_their_did_doc (G_Inviter (GVer_Responded s)) = Some (trp_did_doc s)"
| "generic_their_did_doc (G_Inviter (GVer_Completed s)) = Some (trc_did_doc s)"

fun generic_bootstrap_did_doc :: "GenericState \<Rightarrow> AriesDidDoc option" where
  "generic_bootstrap_did_doc (G_Inviter _) = None"
| "generic_bootstrap_did_doc (G_Invitee (GVee_Initial _)) = None"
| "generic_bootstrap_did_doc (G_Invitee (GVee_Invited s)) = Some (tev_did_doc s)"
| "generic_bootstrap_did_doc (G_Invitee (GVee_Requested s)) = Some (teq_did_doc s)"
| "generic_bootstrap_did_doc (G_Invitee (GVee_Responded s)) = Some (tep_bootstrap_did_doc s)"
| "generic_bootstrap_did_doc (G_Invitee (GVee_Completed s)) = Some (tec_bootstrap_did_doc s)"

definition GenericConnection_thread_id :: "GenericConnection \<Rightarrow> string option" where
  "GenericConnection_thread_id self = generic_thread_id (gcn_state self)"

definition GenericConnection_their_did_doc :: "GenericConnection \<Rightarrow> AriesDidDoc option" where
  "GenericConnection_their_did_doc self = generic_their_did_doc (gcn_state self)"

definition GenericConnection_bootstrap_did_doc :: "GenericConnection \<Rightarrow> AriesDidDoc option" where
  "GenericConnection_bootstrap_did_doc self = generic_bootstrap_did_doc (gcn_state self)"

definition GenericConnection_remote_did :: "GenericConnection \<Rightarrow> string option" where
  "GenericConnection_remote_did self = map_option dd_id (GenericConnection_their_did_doc self)"

definition no_diddoc_error :: vcx_error where
  "no_diddoc_error = AriesVcxError_from_msg NotReady ''No DidDoc present''"

definition GenericConnection_remote_vk :: "'w conn_env \<Rightarrow> GenericConnection \<Rightarrow> string vcx_result" where
  "GenericConnection_remote_vk env self =
     res_bind (ok_or (GenericConnection_their_did_doc self) no_diddoc_error) (\<lambda>did_doc.
     res_bind (recipient_keys_of env did_doc) (\<lambda>keys.
       ok_or (list_get keys 0)
         (AriesVcxError_from_msg NotReady ''Can't resolve recipient key from the counterparty diddoc.'')))"

definition GenericConnection_invitation :: "GenericConnection \<Rightarrow> AnyInvitation option" where
  "GenericConnection_invitation self = (case gcn_state self of
     G_Inviter (GVer_Invited s) \<Rightarrow> Some (trv_invitation s)
   | G_Invitee (GVee_Invited s) \<Rightarrow> Some (tev_invitation s)
   | _ \<Rightarrow> None)"

definition GenericConnection_send_message ::
    "'w conn_env \<Rightarrow> 'w message_transport \<Rightarrow> GenericConnection \<Rightarrow> AriesMessage \<Rightarrow> ('w, unit) vcx" where
  "GenericConnection_send_message env tr self message =
     vbind (vlift (ok_or (GenericConnection_their_did_doc self) no_diddoc_error)) (\<lambda>did_doc.
       deliver (wrap_and_send_msg env tr) message (pw_vk (gcn_pairwise_info self)) did_doc)"

text \<open>
  Conversions. The code generates one pair per state with macros: the constructor of the state, and the
  function that takes it off again. The conversions of connections are built from these.
\<close>

definition Inviter_into :: "('s \<Rightarrow> GenericInviterState) \<Rightarrow> Inviter_side \<times> 's \<Rightarrow> GenericState" where
  "Inviter_into into p = (case p of (_, state) \<Rightarrow> G_Inviter (into state))"

definition Invitee_into :: "('s \<Rightarrow> GenericInviteeState) \<Rightarrow> Invitee_side \<times> 's \<Rightarrow> GenericState" where
  "Invitee_into into p = (case p of (_, state) \<Rightarrow> G_Invitee (into state))"

definition GenericConnection_from :: "('i \<times> 's \<Rightarrow> GenericState) \<Rightarrow> ('i, 's) typed_connection \<Rightarrow> GenericConnection" where
  "GenericConnection_from into c =
     \<lparr>gcn_source_id = tcn_source_id c, gcn_pairwise_info = tcn_pairwise_info c,
      gcn_state = into (tcn_initiation_type c, tcn_state c)\<rparr>"

definition unexpected_state :: vcx_error where
  "unexpected_state = AriesVcxError_from_msg InvalidState ''unexpected connection state: {:?}!''"

fun TerInitial_try_from :: "GenericInviterState \<Rightarrow> TerInitial vcx_result" where
  "TerInitial_try_from (GVer_Initial s) = Inr s"
| "TerInitial_try_from _ = Inl unexpected_state"

fun TerInvited_try_from :: "GenericInviterState \<Rightarrow> TerInvited vcx_result" where
  "TerInvited_try_from (GVer_Invited s) = Inr s"
| "TerInvited_try_from _ = Inl unexpected_state"

fun TerRequested_try_from :: "GenericInviterState \<Rightarrow> TerRequested vcx_result" where
  "TerRequested_try_from (GVer_Requested s) = Inr s"
| "TerRequested_try_from _ = Inl unexpected_state"

fun TerResponded_try_from :: "GenericInviterState \<Rightarrow> TerResponded vcx_result" where
  "TerResponded_try_from (GVer_Responded s) = Inr s"
| "TerResponded_try_from _ = Inl unexpected_state"

fun TerCompleted_try_from :: "GenericInviterState \<Rightarrow> TerCompleted vcx_result" where
  "TerCompleted_try_from (GVer_Completed s) = Inr s"
| "TerCompleted_try_from _ = Inl unexpected_state"

fun TeeInitial_try_from :: "GenericInviteeState \<Rightarrow> TeeInitial vcx_result" where
  "TeeInitial_try_from (GVee_Initial s) = Inr s"
| "TeeInitial_try_from _ = Inl unexpected_state"

fun TeeInvited_try_from :: "GenericInviteeState \<Rightarrow> TeeInvited vcx_result" where
  "TeeInvited_try_from (GVee_Invited s) = Inr s"
| "TeeInvited_try_from _ = Inl unexpected_state"

fun TeeRequested_try_from :: "GenericInviteeState \<Rightarrow> TeeRequested vcx_result" where
  "TeeRequested_try_from (GVee_Requested s) = Inr s"
| "TeeRequested_try_from _ = Inl unexpected_state"

fun TeeResponded_try_from :: "GenericInviteeState \<Rightarrow> TeeResponded vcx_result" where
  "TeeResponded_try_from (GVee_Responded s) = Inr s"
| "TeeResponded_try_from _ = Inl unexpected_state"

fun TeeCompleted_try_from :: "GenericInviteeState \<Rightarrow> TeeCompleted vcx_result" where
  "TeeCompleted_try_from (GVee_Completed s) = Inr s"
| "TeeCompleted_try_from _ = Inl unexpected_state"

definition Inviter_try_from ::
    "(GenericInviterState \<Rightarrow> 's vcx_result) \<Rightarrow> GenericState \<Rightarrow> (Inviter_side \<times> 's) vcx_result" where
  "Inviter_try_from try_state g = (case g of
     G_Inviter s \<Rightarrow> res_bind (try_state s) (\<lambda>s. Inr (Inviter_side, s))
   | G_Invitee _ \<Rightarrow> Inl (AriesVcxError_from_msg InvalidState
       ''Expected VagueState::Inviterconnection state, found VagueState::Invitee''))"

definition Invitee_try_from ::
    "(GenericInviteeState \<Rightarrow> 's vcx_result) \<Rightarrow> GenericState \<Rightarrow> (Invitee_side \<times> 's) vcx_result" where
  "Invitee_try_from try_state g = (case g of
     G_Invitee s \<Rightarrow> res_bind (try_state s) (\<lambda>s. Inr (Invitee_side, s))
   | G_Inviter _ \<Rightarrow> Inl (AriesVcxError_from_msg InvalidState
       ''Expected VagueState::Inviteeconnection state, found VagueState::Inviter''))"

definition Connection_try_from ::
    "(GenericState \<Rightarrow> ('i \<times> 's) vcx_result) \<Rightarrow> GenericConnection \<Rightarrow> ('i, 's) typed_connection vcx_result" where
  "Connection_try_from try_state g =
     res_bind (try_state (gcn_state g)) (\<lambda>(initiation_type, state).
       Inr (Connection_from_parts (gcn_source_id g) (gcn_pairwise_info g) initiation_type state))"

text \<open>
  The law that a pair of conversions keeps: the second succeeds exactly on what the first produces.
  Then so do the conversions of the connections.
\<close>

locale state_variant =
  fixes into :: "'s \<Rightarrow> 'g"
    and try_from :: "'g \<Rightarrow> 's vcx_result"
  assumes try_from_iff: "try_from g = Inr s \<longleftrightarrow> g = into s"
begin

lemma into_inject: "into s = into t \<longleftrightarrow> s = t"
  using try_from_iff [of "into s" t] try_from_iff [of "into s" s] by auto

end

locale connection_variant = state_variant into try_from
  for into :: "'i \<times> 's \<Rightarrow> GenericState" and try_from :: "GenericState \<Rightarrow> ('i \<times> 's) vcx_result"
begin

lemma connection_iff: "Connection_try_from try_from g = Inr c \<longleftrightarrow> GenericConnection_from into c = g"
proof (cases "try_from (gcn_state g)")
  case (Inl e)
  then have "gcn_state g \<noteq> into (tcn_initiation_type c, tcn_state c)" using try_from_iff [of "gcn_state g"] by auto
  then show ?thesis using Inl by (auto simp: Connection_try_from_def GenericConnection_from_def)
next
  case (Inr p)
  then have "gcn_state g = into p" using try_from_iff [of "gcn_state g" p] by simp
  then show ?thesis
    using Inr by (cases c; cases g; cases p) (auto simp: Connection_try_from_def GenericConnection_from_def
        Connection_from_parts_def into_inject)
qed

lemma connection_roundtrip: "Connection_try_from try_from (GenericConnection_from into c) = Inr c"
  by (simp add: connection_iff)

end

lemma Ter_try_iff:
  "TerInitial_try_from g = Inr s0 \<longleftrightarrow> g = GVer_Initial s0" "TerInvited_try_from g = Inr s1 \<longleftrightarrow> g = GVer_Invited s1"
  "TerRequested_try_from g = Inr s2 \<longleftrightarrow> g = GVer_Requested s2" "TerResponded_try_from g = Inr s3 \<longleftrightarrow> g = GVer_Responded s3"
  "TerCompleted_try_from g = Inr s4 \<longleftrightarrow> g = GVer_Completed s4"
  by (cases g; simp)+

lemma Tee_try_iff:
  "TeeInitial_try_from g = Inr s0 \<longleftrightarrow> g = GVee_Initial s0" "TeeInvited_try_from g = Inr s1 \<longleftrightarrow> g = GVee_Invited s1"
  "TeeRequested_try_from g = Inr s2 \<longleftrightarrow> g = GVee_Requested s2" "TeeResponded_try_from g = Inr s3 \<longleftrightarrow> g = GVee_Responded s3"
  "TeeCompleted_try_from g = Inr s4 \<longleftrightarrow> g = GVee_Completed s4"
  by (cases g; simp)+

lemma Inviter_try_iff:
  assumes "\<And>g s. try_state g = Inr s \<longleftrightarrow> g = into s"
  shows "Inviter_try_from try_state g = Inr p \<longleftrightarrow> g = Inviter_into into p"
  using assms by (cases g; cases p; cases "fst p") (auto simp: Inviter_try_from_def Inviter_into_def res_simps)

lemma Invitee_try_iff:
  assumes "\<And>g s. try_state g = Inr s \<longleftrightarrow> g = into s"
  shows "Invitee_try_from try_state g = Inr p \<longleftrightarrow> g = Invitee_into into p"
  using assms by (cases g; cases p; cases "fst p") (auto simp: Invitee_try_from_def Invitee_into_def res_simps)

interpretation inviter_initial: connection_variant "Inviter_into GVer_Initial" "Inviter_try_from TerInitial_try_from"
  by unfold_locales (rule Inviter_try_iff, rule Ter_try_iff(1))

interpretation inviter_invited: connection_variant "Inviter_into GVer_Invited" "Inviter_try_from TerInvited_try_from"
  by unfold_locales (rule Inviter_try_iff, rule Ter_try_iff(2))

interpretation inviter_requested: connection_variant "Inviter_into GVer_Requested" "Inviter_try_from TerRequested_try_from"
  by unfold_locales (rule Inviter_try_iff, rule Ter_try_iff(3))

interpretation inviter_responded: connection_variant "Inviter_into GVer_Responded" "Inviter_try_from TerResponded_try_from"
  by unfold_locales (rule Inviter_try_iff, rule Ter_try_iff(4))

interpretation inviter_completed: connection_variant "Inviter_into GVer_Completed" "Inviter_try_from TerCompleted_try_from"
  by unfold_locales (rule Inviter_try_iff, rule Ter_try_iff(5))

interpretation invitee_initial: connection_variant "Invitee_into GVee_Initial" "Invitee_try_from TeeInitial_try_from"
  by unfold_locales (rule Invitee_try_iff, rule Tee_try_iff(1))

interpretation invitee_invited: connection_variant "Invitee_into GVee_Invited" "Invitee_try_from TeeInvited_try_from"
  by unfold_locales (rule Invitee_try_iff, rule Tee_try_iff(2))

interpretation invitee_requested: connection_variant "Invitee_into GVee_Requested" "Invitee_try_from TeeRequested_try_from"
  by unfold_locales (rule Invitee_try_iff, rule Tee_try_iff(3))

interpretation invitee_responded: connection_variant "Invitee_into GVee_Responded" "Invitee_try_from TeeResponded_try_from"
  by unfold_locales (rule Invitee_try_iff, rule Tee_try_iff(4))

interpretation invitee_completed: connection_variant "Invitee_into GVee_Completed" "Invitee_try_from TeeCompleted_try_from"
  by unfold_locales (rule Invitee_try_iff, rule Tee_try_iff(5))

text \<open>
  A connection in any of the ten states, converted to a \<open>GenericConnection\<close>, is the only result of
  converting it back, and a \<open>GenericConnection\<close> is converted to a connection of a state only if it came
  from one: the conversion to a wrong state or side fails.
\<close>

theorem generic_connection_roundtrip:
  "Connection_try_from (Inviter_try_from TerInitial_try_from) g = Inr a \<longleftrightarrow> GenericConnection_from (Inviter_into GVer_Initial) a = g"
  "Connection_try_from (Inviter_try_from TerInvited_try_from) g = Inr b \<longleftrightarrow> GenericConnection_from (Inviter_into GVer_Invited) b = g"
  "Connection_try_from (Inviter_try_from TerRequested_try_from) g = Inr c \<longleftrightarrow> GenericConnection_from (Inviter_into GVer_Requested) c = g"
  "Connection_try_from (Inviter_try_from TerResponded_try_from) g = Inr d \<longleftrightarrow> GenericConnection_from (Inviter_into GVer_Responded) d = g"
  "Connection_try_from (Inviter_try_from TerCompleted_try_from) g = Inr e \<longleftrightarrow> GenericConnection_from (Inviter_into GVer_Completed) e = g"
  "Connection_try_from (Invitee_try_from TeeInitial_try_from) g = Inr a' \<longleftrightarrow> GenericConnection_from (Invitee_into GVee_Initial) a' = g"
  "Connection_try_from (Invitee_try_from TeeInvited_try_from) g = Inr b' \<longleftrightarrow> GenericConnection_from (Invitee_into GVee_Invited) b' = g"
  "Connection_try_from (Invitee_try_from TeeRequested_try_from) g = Inr c' \<longleftrightarrow> GenericConnection_from (Invitee_into GVee_Requested) c' = g"
  "Connection_try_from (Invitee_try_from TeeResponded_try_from) g = Inr d' \<longleftrightarrow> GenericConnection_from (Invitee_into GVee_Responded) d' = g"
  "Connection_try_from (Invitee_try_from TeeCompleted_try_from) g = Inr e' \<longleftrightarrow> GenericConnection_from (Invitee_into GVee_Completed) e' = g"
  by (fact inviter_initial.connection_iff inviter_invited.connection_iff inviter_requested.connection_iff
      inviter_responded.connection_iff inviter_completed.connection_iff invitee_initial.connection_iff
      invitee_invited.connection_iff invitee_requested.connection_iff invitee_responded.connection_iff
      invitee_completed.connection_iff)+

subsection \<open>A completed invitee\<close>

lemma wrap_quiet: "quiet (wrap_and_send_msg env tr)"
  unfolding quiet_def wrap_and_send_msg_def by (intro allI sends_only_bind) simp_all

lemma typed_send_logs:
  assumes "Connection_send_message env tr their c m s = (Inr (), s')"
  shows "rt_outbox s' = rt_outbox s @ [m]"
  using deliver_logs [OF wrap_quiet] assms unfolding Connection_send_message_def by blast

lemma typed_request:
  assumes "send_request env tr c ep rks s = (Inr c', s')"
  obtains request where "request_sent (rt_outbox s') (teq_thread_id (tcn_state c')) request"
    "teq_did_doc (tcn_state c') = tev_did_doc (tcn_state c)"
proof -
  obtain request tid s1 where r: "Connection_send_message env tr tev_did_doc c (AM_Connection (C_Request request)) s1 = (Inr (), s')"
      "thid_or (msg_id request) (od_thread (msg_decorators request)) = tid"
      "c' = with_state c \<lparr>teq_did_doc = tev_did_doc (tcn_state c), teq_thread_id = tid\<rparr>"
    using assms
    by (auto simp: send_request_def vbind_Inr_iff Let_def split_def typed_request_thread_def
        split: AnyInvitation.splits Invitation.splits)
  then show ?thesis
    using that [of request] typed_send_logs [OF r(1)]
    by (auto simp: request_sent_def with_state_def Connection_from_parts_def)
qed

lemma decode_response_silent: "sends_only P (decode_signed_connection_response env r vk)"
  unfolding decode_signed_connection_response_def Let_def
  by (intro sends_only_bind) (auto split: option.split)

lemma typed_response:
  assumes "handle_response env tr c response s = (Inr (Some c'), s')"
  obtains cd where "response_accepted env (teq_did_doc (tcn_state c)) (teq_thread_id (tcn_state c)) cd"
    "tcn_state c' = \<lparr>tep_did_doc = cd_did_doc cd, tep_bootstrap_did_doc = teq_did_doc (tcn_state c),
       tep_thread_id = teq_thread_id (tcn_state c)\<rparr>"
    "rt_outbox s' = rt_outbox s"
proof -
  let ?st = "tcn_state c"
  have m: "matches_thread_id (kd_thread (msg_decorators response)) (teq_thread_id ?st)"
    using assms by (auto simp: handle_response_def Let_def split: if_splits)
  obtain keys vk decoded s1 where k: "recipient_keys_of env (teq_did_doc ?st) = Inr keys" "list_get keys 0 = Some vk"
      "decode_signed_connection_response env (msg_content response) vk s = (decoded, s1)"
    using assms m by (auto simp: handle_response_def Let_def vbind_Inr_iff vtry_Inr_iff vlift_Inr_iff ok_or_Inr_iff
        simp del: run_iffs(3))
  then obtain cd where cd: "decoded = Inr (Some cd)" "s' = s1"
      "c' = with_state c \<lparr>tep_did_doc = cd_did_doc cd, tep_bootstrap_did_doc = teq_did_doc ?st, tep_thread_id = teq_thread_id ?st\<rparr>"
    using assms m k
    by (cases decoded) (auto simp: handle_response_def Let_def vbind_def vtry_def run_simps ok_or_def
        send_problem_report_def create_problem_report_def split: option.splits prod.splits sum.splits)
  have "response_accepted env (teq_did_doc ?st) (teq_thread_id ?st) cd"
    unfolding response_accepted_def responder_key_def
    using k(1,2) m decoded_response_signed [OF k(3) [unfolded cd(1)]] by blast
  moreover have "rt_outbox s' = rt_outbox s"
    using silent_keeps_log [OF decode_response_silent k(3)] cd(2) by simp
  ultimately show ?thesis using that cd(3) by (simp add: with_state_def Connection_from_parts_def)
qed

text \<open>
  C16. A completed invitee of the typed API has authenticated its inviter. Let an invitee accept an
  invitation, send its request, handle a response and send its acknowledgement, each step
  successful, with any other messages sent in between. Then the request and the acknowledgement are
  on its thread, the document it now holds is that of connection data which the wallet verified
  under the first recipient key of the document of the invitation, in a response on the thread, and
  that document is kept.
\<close>

theorem typed_invitee_verified_inviter:
  assumes "accept_invitation env (new_invitee source_id info) invitation s0 = (Inr (Some c1), s1)"
    and "send_request env tr c1 ep rks t1 = (Inr c2, s2)" "set (rt_outbox s2) \<subseteq> set (rt_outbox t2)"
    and "handle_response env tr c2 response t2 = (Inr (Some c3), s3)" "set (rt_outbox s3) \<subseteq> set (rt_outbox t3)"
    and "send_ack env tr c3 t3 = (Inr c4, s4)"
  shows "\<exists>request ack cd ddo. into_did_doc env invitation s0 = (Inr (Some ddo), s1)
     \<and> request_sent (rt_outbox s4) (tec_thread_id (tcn_state c4)) request
     \<and> AM_Notification (N_Ack ack) \<in> set (rt_outbox s4)
     \<and> effective_thid (AM_Notification (N_Ack ack)) = tec_thread_id (tcn_state c4)
     \<and> tec_did_doc (tcn_state c4) = cd_did_doc cd \<and> tec_bootstrap_did_doc (tcn_state c4) = ddo
     \<and> response_accepted env ddo (tec_thread_id (tcn_state c4)) cd"
proof -
  obtain ddo where d: "into_did_doc env invitation s0 = (Inr (Some ddo), s1)" "tev_did_doc (tcn_state c1) = ddo"
    using assms(1) by (auto simp: accept_invitation_def vbind_Inr_iff with_state_def Connection_from_parts_def
        dest!: sym [of "Some c1"])
  obtain request where r: "request_sent (rt_outbox s2) (teq_thread_id (tcn_state c2)) request" "teq_did_doc (tcn_state c2) = ddo"
    using typed_request [OF assms(2)] d(2) by metis
  obtain cd where cd: "response_accepted env ddo (teq_thread_id (tcn_state c2)) cd"
      "tcn_state c3 = \<lparr>tep_did_doc = cd_did_doc cd, tep_bootstrap_did_doc = ddo, tep_thread_id = teq_thread_id (tcn_state c2)\<rparr>"
      "rt_outbox s3 = rt_outbox t2"
    using typed_response [OF assms(4)] r(2) by metis
  obtain ack u where a: "Connection_send_message env tr tep_did_doc c3 (AM_Notification (N_Ack ack)) u = (Inr (), s4)"
      "td_thread (msg_decorators ack) = Thread_new (tep_thread_id (tcn_state c3))" "rt_outbox u = rt_outbox t3"
      "c4 = with_state c3 \<lparr>tec_did_doc = tep_did_doc (tcn_state c3), tec_bootstrap_did_doc = tep_bootstrap_did_doc (tcn_state c3),
         tec_thread_id = tep_thread_id (tcn_state c3), tec_protocols = None\<rparr>"
    using assms(6) by (auto simp: send_ack_def Let_def vbind_Inr_iff new_v4_def utc_now_def thr_decorators_new_def)
  have "rt_outbox s4 = rt_outbox t3 @ [AM_Notification (N_Ack ack)]" using typed_send_logs [OF a(1)] a(3) by simp
  then show ?thesis
    using d(1) r(1) cd a(2,4) assms(3,5)
    by (intro exI [of _ request] exI [of _ ack] exI [of _ cd] exI [of _ ddo])
       (auto simp: request_sent_def with_state_def Connection_from_parts_def Thread_new_def)
qed

subsection \<open>The handshake\<close>

lemma typed_send_takes:
  assumes "takes (wrap_and_send_msg env tr) (their (tcn_state c))"
  obtains s' where "Connection_send_message env tr their c m s = (Inr (), s')" "rt_outbox s' = rt_outbox s @ [m]"
  using takes_delivers [OF assms] unfolding Connection_send_message_def by blast

lemma typed_request_ok:
  assumes "takes (wrap_and_send_msg env tr) (tev_did_doc (tcn_state c))"
    and "tev_invitation (tcn_state c) = Inv_Con (Inv_Pairwise pw)"
  obtains request s' where
    "send_request env tr c ep rts s = (Inr (with_state c \<lparr>teq_did_doc = tev_did_doc (tcn_state c), teq_thread_id = msg_id pw\<rparr>), s')"
    "last (rt_outbox s') = AM_Connection (C_Request request)"
    "od_thread (msg_decorators request) = Some (Thread_new (msg_id pw))"
    "cd_did_doc (cr_connection (msg_content request)) = requester_doc (tcn_pairwise_info c) rts ep"
proof -
  let ?info = "tcn_pairwise_info c"
  let ?doc = "requester_doc ?info rts ep"
  let ?s1 = "s\<lparr>rt_draws := Suc (rt_draws s)\<rparr>"
  let ?s2 = "?s1\<lparr>rt_draws := Suc (rt_draws ?s1)\<rparr>"
  define request :: ConnRequest where "request = MsgParts_with_decorators (rt_uuid s (rt_draws s))
     (RequestContent_new (tcn_source_id c) (ConnectionData_new (pw_did ?info) ?doc))
     \<lparr>od_thread = Some (Thread_new (msg_id pw)), od_timing = Some (out_timing (rt_clock ?s1 (rt_draws ?s1)))\<rparr>"
  have doc: "(built_did_doc [] [pw_vk ?info] rts ep)\<lparr>dd_id := pw_did ?info\<rparr> = ?doc"
    by (simp add: requester_doc_def AriesDidDoc_set_id_def)
  obtain s' where sent: "Connection_send_message env tr tev_did_doc c (AM_Connection (C_Request request)) ?s2 = (Inr (), s')"
      "rt_outbox s' = rt_outbox ?s2 @ [AM_Connection (C_Request request)]"
    by (rule typed_send_takes [where their = tev_did_doc, OF assms(1)])
  have "send_request env tr c ep rts s = (Inr (with_state c \<lparr>teq_did_doc = tev_did_doc (tcn_state c), teq_thread_id = msg_id pw\<rparr>), s')"
    using assms(2) sent(1) [unfolded request_def]
    by (simp add: send_request_def vbind_def run_simps Let_def typed_request_thread_def TeeInvited_thread_id_def
        invitee_doc_built doc)
  then show ?thesis
    by (rule that [of s' request])
       (simp_all add: sent(2) request_def RequestContent_new_def ConnectionData_new_def)
qed

lemma typed_request_accepted:
  assumes "od_thread (msg_decorators request) = Some (Thread_new (TerInvited_thread_id (tcn_state c)))"
    and "AriesDidDoc_validate (lib_bs58 (ce_lib env)) (cd_did_doc (cr_connection (msg_content request))) = Inr ()"
    and "\<forall>w. \<exists>did vk w'. ce_create_and_store_my_did env w = (Inr (did, vk), w')"
    and "\<forall>d w. \<exists>sg w'. ce_sign env (pw_vk (tcn_pairwise_info c)) d w = (Inr sg, w')"
  obtains info response con_sig s1 s2 s' where
    "handle_request env tr c request ep rts s = (Inr (Connection_from_parts (tcn_source_id c) info Inviter_side
       \<lparr>trq_signed_response = response, trq_did_doc = cd_did_doc (cr_connection (msg_content request))\<rparr>), s')"
    "kd_thread (msg_decorators response) = Thread_new (TerInvited_thread_id (tcn_state c))"
    "msg_content response = \<lparr>connection_sig = con_sig\<rparr>"
    "sign_connection_response env (pw_vk (tcn_pairwise_info c))
       (ConnectionData_new (pw_did info) (built_did_doc (pw_did info) [pw_vk info] rts ep)) s1 = (Inr con_sig, s2)"
proof -
  let ?tid = "TerInvited_thread_id (tcn_state c)" and ?key = "pw_vk (tcn_pairwise_info c)"
  obtain did vk w' where new: "ce_create_and_store_my_did env (rt_world s) = (Inr (did, vk), w')"
    using assms(3) by blast
  let ?info = "\<lparr>pw_did = did, pw_vk = vk\<rparr>" and ?s0 = "s\<lparr>rt_world := w'\<rparr>"
  let ?cd = "ConnectionData_new did (built_did_doc did [vk] rts ep)"
  let ?s1 = "?s0\<lparr>rt_draws := Suc (rt_draws ?s0)\<rparr>"
  obtain con_sig s2 where sg: "sign_connection_response env ?key ?cd ?s1 = (Inr con_sig, s2)"
  proof -
    let ?data = "u64_to_be_bytes (of_nat (rt_clock ?s1 (rt_draws ?s1) div 1000)) @
        lib_json_print (ce_lib env) (ConnectionData_to_json ?cd)"
    obtain g w where "ce_sign env ?key ?data (rt_world ?s1) = (Inr g, w)"
      using assms(4) by blast
    then show ?thesis
      using that by (simp add: sign_connection_response_def get_signature_data_def unix_timestamp_def
          vbind_def run_simps call_def Let_def)
  qed
  let ?response = "MsgParts_with_decorators (rt_uuid ?s0 (rt_draws ?s0)) \<lparr>connection_sig = con_sig\<rparr>
     ((ack_decorators_new (Thread_new ?tid))\<lparr>kd_timing := Some (out_timing (rt_clock s2 (rt_draws s2)))\<rparr>)"
  have b: "build_response_content env c ?tid ?info ep rts ?s0 = (Inr ?response, s2\<lparr>rt_draws := Suc (rt_draws s2)\<rparr>)"
    using sg by (simp add: build_response_content_def inviter_doc_built vbind_def run_simps Let_def)
  have side: "tcn_initiation_type c = Inviter_side" by (cases "tcn_initiation_type c") simp
  have "handle_request env tr c request ep rts s = (Inr (Connection_from_parts (tcn_source_id c) ?info Inviter_side
       \<lparr>trq_signed_response = ?response, trq_did_doc = cd_did_doc (cr_connection (msg_content request))\<rparr>),
       s2\<lparr>rt_draws := Suc (rt_draws s2)\<rparr>)"
    using assms(1,2) new b side
    by (simp add: handle_request_def util_verify_thread_id_def PairwiseInfo_create_def vbind_def run_simps call_def Let_def)
  then show ?thesis
    by (rule that) (use sg in \<open>simp_all add: ack_decorators_new_def\<close>)
qed

lemma typed_response_sent:
  assumes "takes (wrap_and_send_msg env tr) (trq_did_doc (tcn_state c))"
  obtains s' where
    "send_response env tr c s = (Inr (with_state c \<lparr>trp_did_doc = trq_did_doc (tcn_state c),
       trp_thread_id = TerRequested_thread_id (tcn_state c)\<rparr>), s')"
    "last (rt_outbox s') = AM_Connection (C_Response (trq_signed_response (tcn_state c)))"
proof -
  obtain s' where "Connection_send_message env tr trq_did_doc c (AM_Connection (C_Response (trq_signed_response (tcn_state c)))) s
      = (Inr (), s')" "rt_outbox s' = rt_outbox s @ [AM_Connection (C_Response (trq_signed_response (tcn_state c)))]"
    by (rule typed_send_takes [where their = trq_did_doc, OF assms])
  then show ?thesis
    using that by (simp add: send_response_def TerRequested_thread_id_def vbind_def run_simps Let_def)
qed

lemma typed_response_accepted:
  assumes "kd_thread (msg_decorators response) = Thread_new (teq_thread_id (tcn_state c))"
    and "recipient_keys_of env (teq_did_doc (tcn_state c)) = Inr [vk]"
    and "decode_signed_connection_response env (msg_content response) vk s = (Inr (Some cd), s')"
  shows "handle_response env tr c response s = (Inr (Some (with_state c
    \<lparr>tep_did_doc = cd_did_doc cd, tep_bootstrap_did_doc = teq_did_doc (tcn_state c),
     tep_thread_id = teq_thread_id (tcn_state c)\<rparr>)), s')"
  using assms by (simp add: handle_response_def vbind_def vtry_def run_simps list_get_def ok_or_def Let_def)

lemma typed_ack_sent:
  assumes "takes (wrap_and_send_msg env tr) (tep_did_doc (tcn_state c))"
  obtains ack s' where
    "send_ack env tr c s = (Inr (with_state c \<lparr>tec_did_doc = tep_did_doc (tcn_state c),
       tec_bootstrap_did_doc = tep_bootstrap_did_doc (tcn_state c), tec_thread_id = tep_thread_id (tcn_state c),
       tec_protocols = None\<rparr>), s')"
    "last (rt_outbox s') = AM_Notification (N_Ack ack)"
    "td_thread (msg_decorators ack) = Thread_new (tep_thread_id (tcn_state c))"
proof -
  let ?s1 = "s\<lparr>rt_draws := Suc (rt_draws s)\<rparr>"
  let ?s2 = "?s1\<lparr>rt_draws := Suc (rt_draws ?s1)\<rparr>"
  define ack :: Ack where "ack = MsgParts_with_decorators (rt_uuid s (rt_draws s)) (AckContent_new Ack_Ok)
     ((thr_decorators_new (Thread_new (tep_thread_id (tcn_state c))))
        \<lparr>td_timing := Some (out_timing (rt_clock ?s1 (rt_draws ?s1)))\<rparr>)"
  obtain s' where sent: "Connection_send_message env tr tep_did_doc c (AM_Notification (N_Ack ack)) ?s2 = (Inr (), s')"
      "rt_outbox s' = rt_outbox ?s2 @ [AM_Notification (N_Ack ack)]"
    by (rule typed_send_takes [where their = tep_did_doc, OF assms])
  have "send_ack env tr c s = (Inr (with_state c \<lparr>tec_did_doc = tep_did_doc (tcn_state c),
       tec_bootstrap_did_doc = tep_bootstrap_did_doc (tcn_state c), tec_thread_id = tep_thread_id (tcn_state c),
       tec_protocols = None\<rparr>), s')"
    using sent(1) [unfolded ack_def] by (simp add: send_ack_def vbind_def run_simps Let_def)
  then show ?thesis by (rule that [of s' ack]) (simp_all add: sent(2) ack_def thr_decorators_new_def)
qed

text \<open>
  The exchange: the inviter \<open>er\<close> invites, the invitee \<open>ee\<close> accepts and requests, the inviter answers with
  fresh keys of its wallet, and the invitee acknowledges. The message sent last is what the other side
  receives.
\<close>

definition typed_invite_and_request ::
    "'w conn_env \<Rightarrow> 'w message_transport \<Rightarrow> conn_party \<Rightarrow> conn_party
       \<Rightarrow> ('w, (Inviter_side, TerInvited) typed_connection \<times> (Invitee_side, TeeRequested) typed_connection) vcx" where
  "typed_invite_and_request env' tr' er ee =
     vbind (create_invitation (new_inviter (cp_label er) (cp_info er)) (cp_routing_keys er) (cp_endpoint er)) (\<lambda>inviter1.
     vbind (accept_invitation env' (new_invitee (cp_label ee) (cp_info ee)) (trv_invitation (tcn_state inviter1))) (\<lambda>r.
     vbind (no_panic r) (\<lambda>invitee1.
     vbind (send_request env' tr' invitee1 (cp_endpoint ee) (cp_routing_keys ee)) (\<lambda>invitee2.
       vret (inviter1, invitee2)))))"

definition typed_handshake ::
    "'w conn_env \<Rightarrow> 'w conn_env \<Rightarrow> 'w message_transport \<Rightarrow> 'w message_transport \<Rightarrow> conn_party \<Rightarrow> conn_party
       \<Rightarrow> ('w, (Inviter_side, TerCompleted) typed_connection \<times> (Invitee_side, TeeCompleted) typed_connection) vcx" where
  "typed_handshake env env' tr tr' er ee =
     vbind (typed_invite_and_request env' tr' er ee) (\<lambda>(inviter1, invitee2).
     vbind receive_request (\<lambda>request.
     vbind (handle_request env tr inviter1 request (cp_endpoint er) (cp_routing_keys er)) (\<lambda>inviter2.
     vbind (send_response env tr inviter2) (\<lambda>inviter3.
     vbind receive_response (\<lambda>response.
     vbind (handle_response env' tr' invitee2 response) (\<lambda>r.
     vbind (no_panic r) (\<lambda>invitee3.
     vbind (send_ack env' tr' invitee3) (\<lambda>invitee4.
     vbind last_sent (\<lambda>ack.
     vbind (vlift (acknowledge_connection inviter3 ack)) (\<lambda>inviter4.
       vret (inviter4, invitee4)))))))))))"

lemma typed_invite_and_request_ok:
  assumes "\<forall>did k rts ep. takes (wrap_and_send_msg env' tr') (built_did_doc did [k] rts ep)"
  obtains tid inviter1 invitee2 request s' where
    "typed_invite_and_request env' tr' er ee s = (Inr (inviter1, invitee2), s')"
    "TerInvited_thread_id (tcn_state inviter1) = tid" "tcn_pairwise_info inviter1 = cp_info er"
    "tcn_state invitee2 = \<lparr>teq_did_doc = built_did_doc tid [pw_vk (cp_info er)] (cp_routing_keys er) (cp_endpoint er),
       teq_thread_id = tid\<rparr>"
    "tcn_pairwise_info invitee2 = cp_info ee"
    "last (rt_outbox s') = AM_Connection (C_Request request)"
    "od_thread (msg_decorators request) = Some (Thread_new tid)"
    "cd_did_doc (cr_connection (msg_content request)) = requester_doc (cp_info ee) (cp_routing_keys ee) (cp_endpoint ee)"
proof -
  let ?tid = "rt_uuid s (rt_draws s)" and ?s1 = "s\<lparr>rt_draws := Suc (rt_draws s)\<rparr>"
  let ?doc = "built_did_doc ?tid [pw_vk (cp_info er)] (cp_routing_keys er) (cp_endpoint er)"
  define pw :: PairwiseInvitation where "pw = MsgParts_with_decorators ?tid
     \<lparr>pwinv_label = cp_label er, pwinv_recipient_keys = [pw_vk (cp_info er)], pwinv_routing_keys = cp_routing_keys er,
      pwinv_service_endpoint = cp_endpoint er\<rparr> \<lparr>md_timing = None\<rparr>"
  define inviter1 where "inviter1 = with_state (new_inviter (cp_label er) (cp_info er)) \<lparr>trv_invitation = Inv_Con (Inv_Pairwise pw)\<rparr>"
  define invitee1 where "invitee1 = with_state (new_invitee (cp_label ee) (cp_info ee))
     \<lparr>tev_did_doc = ?doc, tev_invitation = Inv_Con (Inv_Pairwise pw)\<rparr>"
  have step1: "create_invitation (new_inviter (cp_label er) (cp_info er)) (cp_routing_keys er) (cp_endpoint er) s = (Inr inviter1, ?s1)"
    by (simp add: create_invitation_def pairwise_invitation_def vbind_def run_simps inviter1_def pw_def
        new_inviter_def Connection_from_parts_def)
  have step2: "accept_invitation env' (new_invitee (cp_label ee) (cp_info ee)) (Inv_Con (Inv_Pairwise pw)) ?s1
      = (Inr (Some invitee1), ?s1)"
    by (simp add: accept_invitation_def pairwise_into_did_doc vbind_def run_simps invitee1_def pw_def)
  have inv: "trv_invitation (tcn_state inviter1) = Inv_Con (Inv_Pairwise pw)"
    by (simp add: inviter1_def with_state_def Connection_from_parts_def)
  have ee1: "tev_did_doc (tcn_state invitee1) = ?doc" "tev_invitation (tcn_state invitee1) = Inv_Con (Inv_Pairwise pw)"
      "tcn_pairwise_info invitee1 = cp_info ee"
    by (simp_all add: invitee1_def with_state_def Connection_from_parts_def new_invitee_def)
  have takes: "takes (wrap_and_send_msg env' tr') (tev_did_doc (tcn_state invitee1))" using assms ee1(1) by simp
  obtain request s2 where step3:
      "send_request env' tr' invitee1 (cp_endpoint ee) (cp_routing_keys ee) ?s1 =
        (Inr (with_state invitee1 \<lparr>teq_did_doc = ?doc, teq_thread_id = ?tid\<rparr>), s2)"
      "last (rt_outbox s2) = AM_Connection (C_Request request)" "od_thread (msg_decorators request) = Some (Thread_new ?tid)"
      "cd_did_doc (cr_connection (msg_content request)) = requester_doc (cp_info ee) (cp_routing_keys ee) (cp_endpoint ee)"
    by (rule typed_request_ok [OF takes ee1(2), of "cp_endpoint ee" "cp_routing_keys ee" ?s1])
       (simp add: ee1 pw_def)
  show ?thesis
  proof (rule that)
    show "typed_invite_and_request env' tr' er ee s =
        (Inr (inviter1, with_state invitee1 \<lparr>teq_did_doc = ?doc, teq_thread_id = ?tid\<rparr>), s2)"
      using step1 step2 step3(1) inv by (simp add: typed_invite_and_request_def vbind_def run_simps no_panic_def)
  qed (use step3 in \<open>simp_all add: inviter1_def invitee1_def with_state_def Connection_from_parts_def new_invitee_def
        new_inviter_def TerInvited_thread_id_def pw_def\<close>)
qed

definition typed_connected ::
    "conn_party \<Rightarrow> conn_party
       \<Rightarrow> (Inviter_side, TerCompleted) typed_connection \<times> (Invitee_side, TeeCompleted) typed_connection \<Rightarrow> bool" where
  "typed_connected er ee parties = (case parties of (inviter, invitee) \<Rightarrow>
       trc_thread_id (tcn_state inviter) = tec_thread_id (tcn_state invitee)
     \<and> trc_did_doc (tcn_state inviter) = requester_doc (cp_info ee) (cp_routing_keys ee) (cp_endpoint ee)
     \<and> tec_did_doc (tcn_state invitee) = built_did_doc (pw_did (tcn_pairwise_info inviter))
          [pw_vk (tcn_pairwise_info inviter)] (cp_routing_keys er) (cp_endpoint er)
     \<and> tec_bootstrap_did_doc (tcn_state invitee) = built_did_doc (tec_thread_id (tcn_state invitee))
          [pw_vk (cp_info er)] (cp_routing_keys er) (cp_endpoint er))"

lemma typed_handshake_ok:
  assumes "\<forall>did k rts ep. takes (wrap_and_send_msg env' tr') (built_did_doc did [k] rts ep)"
    and "\<forall>info rts ep. takes (wrap_and_send_msg env tr) (requester_doc info rts ep)"
    and "\<forall>w. \<exists>did vk w'. ce_create_and_store_my_did env w = (Inr (did, vk), w')"
    and "\<forall>d w. \<exists>sg w'. ce_sign env (pw_vk (cp_info er)) d w = (Inr sg, w')"
    and "accepts_signatures env env' (pw_vk (cp_info er))" "codecs_agree env env'"
    and "valid_verkey (lib_bs58 (ce_lib env')) (pw_vk (cp_info er))"
    and "pw_did (cp_info ee) \<noteq> []"
    and "\<forall>k \<in> insert (pw_vk (cp_info ee)) (set (cp_routing_keys ee)). valid_verkey (lib_bs58 (ce_lib env)) k"
    and "ce_url_parse env' (cp_endpoint er) = Some (cp_endpoint er)"
  shows "\<exists>result s'. typed_handshake env env' tr tr' er ee s = (Inr result, s') \<and> typed_connected er ee result"
proof -
  let ?key = "pw_vk (cp_info er)" and ?theirs = "requester_doc (cp_info ee) (cp_routing_keys ee) (cp_endpoint ee)"
  obtain tid inviter1 invitee2 request s1 where a:
    "typed_invite_and_request env' tr' er ee s = (Inr (inviter1, invitee2), s1)"
    "TerInvited_thread_id (tcn_state inviter1) = tid" "tcn_pairwise_info inviter1 = cp_info er"
    "tcn_state invitee2 = \<lparr>teq_did_doc = built_did_doc tid [?key] (cp_routing_keys er) (cp_endpoint er), teq_thread_id = tid\<rparr>"
    "tcn_pairwise_info invitee2 = cp_info ee" "last (rt_outbox s1) = AM_Connection (C_Request request)"
    "od_thread (msg_decorators request) = Some (Thread_new tid)"
    "cd_did_doc (cr_connection (msg_content request)) = ?theirs"
    by (rule typed_invite_and_request_ok [OF assms(1)])
  have "AriesDidDoc_validate (lib_bs58 (ce_lib env)) (cd_did_doc (cr_connection (msg_content request))) = Inr ()"
    unfolding a(8) requester_doc_def using assms(8,9) by (intro built_set_id_validates) auto
  then obtain info response con_sig t1 t2 s2 where b:
    "handle_request env tr inviter1 request (cp_endpoint er) (cp_routing_keys er) s1 =
       (Inr (Connection_from_parts (tcn_source_id inviter1) info Inviter_side
         \<lparr>trq_signed_response = response, trq_did_doc = ?theirs\<rparr>), s2)"
    "kd_thread (msg_decorators response) = Thread_new tid" "msg_content response = \<lparr>connection_sig = con_sig\<rparr>"
    "sign_connection_response env ?key
       (ConnectionData_new (pw_did info) (built_did_doc (pw_did info) [pw_vk info] (cp_routing_keys er) (cp_endpoint er))) t1
       = (Inr con_sig, t2)"
    using typed_request_accepted [of request inviter1 env tr "cp_endpoint er" "cp_routing_keys er" s1]
      assms(3,4) a(2,3,7,8) by metis
  let ?cd = "ConnectionData_new (pw_did info) (built_did_doc (pw_did info) [pw_vk info] (cp_routing_keys er) (cp_endpoint er))"
  define inviter2 where "inviter2 = Connection_from_parts (tcn_source_id inviter1) info Inviter_side
     \<lparr>trq_signed_response = response, trq_did_doc = ?theirs\<rparr>"
  have i2: "tcn_state inviter2 = \<lparr>trq_signed_response = response, trq_did_doc = ?theirs\<rparr>" "tcn_pairwise_info inviter2 = info"
    by (simp_all add: inviter2_def Connection_from_parts_def)
  have t2: "takes (wrap_and_send_msg env tr) (trq_did_doc (tcn_state inviter2))" using assms(2) i2(1) by simp
  obtain s3 where c: "send_response env tr inviter2 s2 = (Inr (with_state inviter2 \<lparr>trp_did_doc = ?theirs, trp_thread_id = tid\<rparr>), s3)"
      "last (rt_outbox s3) = AM_Connection (C_Response response)"
    by (rule typed_response_sent [OF t2, of s2]) (simp add: i2(1) TerRequested_thread_id_def b(2) Thread_new_def)
  obtain s4 where dec: "decode_signed_connection_response env' (msg_content response) ?key s3 = (Inr (Some ?cd), s4)"
    using signed_response_accepted [OF b(4) assms(5,6)] assms(10) b(3)
    by (auto simp: ConnectionData_new_def urls_stable_built)
  have keys: "recipient_keys_of env' (teq_did_doc (tcn_state invitee2)) = Inr [?key]"
    using assms(7) a(4) by (simp add: built_keys_of)
  define invitee3 where "invitee3 = with_state invitee2 \<lparr>tep_did_doc = cd_did_doc ?cd,
     tep_bootstrap_did_doc = built_did_doc tid [?key] (cp_routing_keys er) (cp_endpoint er), tep_thread_id = tid\<rparr>"
  have d: "handle_response env' tr' invitee2 response s3 = (Inr (Some invitee3), s4)"
    using typed_response_accepted [OF _ keys dec, of tr'] b(2) a(4) by (simp add: invitee3_def)
  have i3: "tcn_state invitee3 = \<lparr>tep_did_doc = cd_did_doc ?cd,
      tep_bootstrap_did_doc = built_did_doc tid [?key] (cp_routing_keys er) (cp_endpoint er), tep_thread_id = tid\<rparr>"
    by (simp add: invitee3_def with_state_def Connection_from_parts_def)
  have t3: "takes (wrap_and_send_msg env' tr') (tep_did_doc (tcn_state invitee3))"
    using assms(1) i3 by (simp add: ConnectionData_new_def)
  obtain ack s5 where e: "send_ack env' tr' invitee3 s4 = (Inr (with_state invitee3 \<lparr>tec_did_doc = tep_did_doc (tcn_state invitee3),
       tec_bootstrap_did_doc = tep_bootstrap_did_doc (tcn_state invitee3), tec_thread_id = tep_thread_id (tcn_state invitee3),
       tec_protocols = None\<rparr>), s5)"
      "last (rt_outbox s5) = AM_Notification (N_Ack ack)" "td_thread (msg_decorators ack) = Thread_new tid"
    by (rule typed_ack_sent [OF t3, of s4]) (simp add: i3)
  have f: "acknowledge_connection (with_state inviter2 \<lparr>trp_did_doc = ?theirs, trp_thread_id = tid\<rparr>) (AM_Notification (N_Ack ack))
      = Inr (with_state inviter2 \<lparr>trc_did_doc = ?theirs, trc_thread_id = tid, trc_protocols = None\<rparr>)"
    using e(3) by (simp add: acknowledge_connection_def util_verify_thread_id_def with_state_def Connection_from_parts_def)
  show ?thesis
    using a(1,6) b(1) c d e(1,2) f i2(2) i3
    by (simp add: typed_handshake_def vbind_def run_simps receive_request_def receive_response_def last_sent_def
        no_panic_def flip: inviter2_def)
       (simp add: typed_connected_def with_state_def Connection_from_parts_def ConnectionData_new_def)
qed


subsection \<open>A concrete run\<close>

lemma demo_transport_is_closure:
  "wrap_and_send_msg env (ce_post_message env) = send_message_closure_connection env"
  by (simp add: fun_eq_iff wrap_and_send_msg_def send_message_closure_connection_def utils_send_message_def post_envelope_def)

lemma recipient_keys_set_id: "recipient_keys_of env (AriesDidDoc_set_id d i) = recipient_keys_of env d"
proof -
  have "dd_service (AriesDidDoc_set_id d i) = dd_service d" by (simp add: AriesDidDoc_set_id_def)
  then show ?thesis
    unfolding recipient_keys_of_def AriesDidDoc_recipient_keys_def AriesDidDoc_get_key_def key_lookups_set_id by simp
qed

lemma demo_takes_requester:
  "takes (send_message_closure_connection (demo_conn :: 'w conn_env)) (requester_doc info rts ep)"
proof -
  have "recipient_keys_of (demo_conn :: 'w conn_env) (requester_doc info rts ep) = Inr [pw_vk info]"
    by (simp add: requester_doc_def recipient_keys_set_id demo_keys_valid)
  moreover have "AriesDidDoc_get_endpoint (requester_doc info rts ep) = Some ep"
    by (simp add: requester_doc_def AriesDidDoc_get_endpoint_def AriesDidDoc_set_id_def built_did_doc_closed list_get_def)
  ultimately show ?thesis
    by (rule demo_takes_doc)
qed

lemma demo_typed_laws:
  "\<forall>did k rts ep. takes (wrap_and_send_msg (demo_conn :: 'w conn_env) (ce_post_message demo_conn)) (built_did_doc did [k] rts ep)"
  "\<forall>info rts ep. takes (wrap_and_send_msg (demo_conn :: 'w conn_env) (ce_post_message demo_conn)) (requester_doc info rts ep)"
  "\<forall>w. \<exists>did vk w'. ce_create_and_store_my_did (demo_conn :: 'w conn_env) w = (Inr (did, vk), w')"
  "\<forall>d w. \<exists>sg w'. ce_sign (demo_conn :: 'w conn_env) k d w = (Inr sg, w')"
  by (simp_all add: demo_transport_is_closure demo_takes demo_takes_requester demo_conn_basics)
     (simp add: demo_conn_def)


theorem typed_invitee_verified_inviter_witness:
  "\<exists>c4 s4 request ack cd.
       tec_did_doc (tcn_state (c4 :: (Invitee_side, TeeCompleted) typed_connection)) = demo_peer
     \<and> tec_bootstrap_did_doc (tcn_state c4) = demo_ddo
     \<and> request_sent (rt_outbox (s4 :: unit runtime)) (tec_thread_id (tcn_state c4)) request
     \<and> AM_Notification (N_Ack ack) \<in> set (rt_outbox s4)
     \<and> response_accepted (demo_conn :: unit conn_env) demo_ddo (tec_thread_id (tcn_state c4)) cd
     \<and> cd_did_doc cd = (demo_peer :: AriesDidDoc)"
proof -
  let ?env = "demo_conn :: unit conn_env" and ?inv = "Inv_Con (Inv_Pairwise demo_invite)"
  let ?tr = "ce_post_message ?env" and ?info = "\<lparr>pw_did = ''did-bob'', pw_vk = ''vk-bob''\<rparr>"
  define c1 where "c1 = with_state (new_invitee ''bob'' ?info) \<lparr>tev_did_doc = demo_ddo, tev_invitation = ?inv\<rparr>"
  have c1: "tev_did_doc (tcn_state c1) = demo_ddo" "tev_invitation (tcn_state c1) = ?inv"
    by (simp_all add: c1_def with_state_def Connection_from_parts_def)
  have doc: "into_did_doc ?env ?inv demo_runtime = (Inr (Some demo_ddo), demo_runtime)"
    by (simp add: pairwise_into_did_doc demo_invite_def demo_ddo_def)
  then have a: "accept_invitation ?env (new_invitee ''bob'' ?info) ?inv demo_runtime = (Inr (Some c1), demo_runtime)"
    by (simp add: accept_invitation_def vbind_def run_simps c1_def)
  have t1: "takes (wrap_and_send_msg ?env ?tr) (tev_did_doc (tcn_state c1))"
    using demo_typed_laws(1) [where 'w = unit] c1(1) by (simp add: demo_ddo_def)
  obtain c2 s2 where b: "send_request ?env ?tr c1 ''http://b'' [] demo_runtime = (Inr c2, s2)"
      "tcn_state c2 = \<lparr>teq_did_doc = demo_ddo, teq_thread_id = ''t1''\<rparr>"
    by (rule typed_request_ok [OF t1 c1(2), of "''http://b''" "[]" demo_runtime])
       (simp add: c1(1) with_state_def Connection_from_parts_def demo_invite_def)
  obtain response :: ConnResponse where r: "kd_thread (msg_decorators response) = Thread_new ''t1''"
      "\<And>s :: unit runtime. \<exists>s'. decode_signed_connection_response demo_conn (msg_content response) ''vk0'' s
         = (Inr (Some (ConnectionData_new ''did1'' demo_peer)), s')"
    unfolding demo_peer_def using demo_signed_response by blast
  then obtain s3 where dec: "decode_signed_connection_response ?env (msg_content response) ''vk0'' s2
      = (Inr (Some (ConnectionData_new ''did1'' demo_peer)), s3)" by blast
  obtain c3 where c: "handle_response ?env ?tr c2 response s2 = (Inr (Some c3), s3)"
      "tcn_state c3 = \<lparr>tep_did_doc = demo_peer, tep_bootstrap_did_doc = demo_ddo, tep_thread_id = ''t1''\<rparr>"
    using typed_response_accepted [OF _ _ dec, of c2 ?tr] r(1) b(2)
    by (simp add: demo_ddo_def demo_keys_valid with_state_def Connection_from_parts_def ConnectionData_new_def)
  have t3: "takes (wrap_and_send_msg ?env ?tr) (tep_did_doc (tcn_state c3))"
    using demo_typed_laws(1) [where 'w = unit] c(2) by (simp add: demo_peer_def)
  obtain c4 s4 where d: "send_ack ?env ?tr c3 s3 = (Inr c4, s4)" "tec_did_doc (tcn_state c4) = demo_peer"
      "tec_bootstrap_did_doc (tcn_state c4) = demo_ddo"
    by (rule typed_ack_sent [OF t3, of s3]) (simp add: c(2) with_state_def Connection_from_parts_def)
  obtain request ack cd where e: "request_sent (rt_outbox s4) (tec_thread_id (tcn_state c4)) request"
      "AM_Notification (N_Ack ack) \<in> set (rt_outbox s4)" "demo_peer = cd_did_doc cd"
      "response_accepted ?env demo_ddo (tec_thread_id (tcn_state c4)) cd"
    using typed_invitee_verified_inviter [OF a b(1) subset_refl c(1) subset_refl d(1)] d(2,3) doc by auto
  show ?thesis
    by (intro exI conjI) (rule d(2) d(3) e e(3) [symmetric])+
qed

end
