(* ===== verification/Out_Of_Band.thy ===== *)
theory Out_Of_Band
  imports Message_Json Connection_Typestate
begin

text \<open>
  Out-of-band invitations (aries_vcx/src/handlers/out_of_band): the sender that assembles an invitation with
  its services, handshake protocols and an attached message, and the receiver that reads it, looks for an
  existing connection to one of its services and takes out the attached message. Messages are written and
  read by the codec of \<open>Message_Json\<close>; base64 and the JSON texts are in \<open>lib\<close>, the ledger in \<open>conn_env\<close>.

  Shown: the message attached to an invitation arrives at the receiver, below the thread of the invitation
  if it is a credential offer; the lookup over non-mediated connections finds the first connection of the
  first service that has one; the one over mediated connections only looks at the connections in front of
  the first that has no bootstrap document.
\<close>

subsection \<open>The sender\<close>

record OutOfBandSender =
  oos_oob :: OobInvitation

definition OobInvitationContent_new :: "OobService list \<Rightarrow> OobInvitationContent" where
  "OobInvitationContent_new services =
     \<lparr>oob_label = None, oob_goal_code = None, oob_goal = None, oob_accept = None, oob_handshake_protocols = None,
      oob_requests_attach = None, oob_services = services\<rparr>"

definition OutOfBandSender_create :: "('w, OutOfBandSender) vcx" where
  "OutOfBandSender_create = vbind new_v4 (\<lambda>i.
     vret \<lparr>oos_oob = MsgParts_with_decorators i (OobInvitationContent_new []) \<lparr>md_timing = None\<rparr>\<rparr>)"

definition oos_content_update :: "(OobInvitationContent \<Rightarrow> OobInvitationContent) \<Rightarrow> OutOfBandSender \<Rightarrow> OutOfBandSender" where
  "oos_content_update f self = self\<lparr>oos_oob := (oos_oob self)\<lparr>msg_content := f (msg_content (oos_oob self))\<rparr>\<rparr>"

definition OutOfBandSender_set_label :: "OutOfBandSender \<Rightarrow> string \<Rightarrow> OutOfBandSender" where
  "OutOfBandSender_set_label self label = oos_content_update (\<lambda>c. c\<lparr>oob_label := Some label\<rparr>) self"

definition OutOfBandSender_set_goal_code :: "OutOfBandSender \<Rightarrow> OobGoalCode \<Rightarrow> OutOfBandSender" where
  "OutOfBandSender_set_goal_code self goal_code =
     oos_content_update (\<lambda>c. c\<lparr>oob_goal_code := Some (Known goal_code)\<rparr>) self"

definition OutOfBandSender_set_goal :: "OutOfBandSender \<Rightarrow> string \<Rightarrow> OutOfBandSender" where
  "OutOfBandSender_set_goal self goal = oos_content_update (\<lambda>c. c\<lparr>oob_goal := Some goal\<rparr>) self"

definition OutOfBandSender_append_service :: "OutOfBandSender \<Rightarrow> OobService \<Rightarrow> OutOfBandSender" where
  "OutOfBandSender_append_service self service =
     oos_content_update (\<lambda>c. c\<lparr>oob_services := oob_services c @ [service]\<rparr>) self"

definition OutOfBandSender_get_services :: "OutOfBandSender \<Rightarrow> OobService list" where
  "OutOfBandSender_get_services self = oob_services (msg_content (oos_oob self))"

definition OutOfBandSender_get_id :: "OutOfBandSender \<Rightarrow> string" where
  "OutOfBandSender_get_id self = msg_id (oos_oob self)"

definition OutOfBandSender_append_handshake_protocol :: "OutOfBandSender \<Rightarrow> Protocol \<Rightarrow> OutOfBandSender vcx_result" where
  "OutOfBandSender_append_handshake_protocol self protocol =
     (case protocol of
        ConnectionType \<Rightarrow>
          Inr (oos_content_update (\<lambda>c. c\<lparr>oob_handshake_protocols :=
            Some (case oob_handshake_protocols c of
                    Some protocols \<Rightarrow> protocols @ [Known protocol]
                  | None \<Rightarrow> [Known protocol])\<rparr>) self)
      | _ \<Rightarrow> Inl (AriesVcxError_from_msg ActionNotSupported ''Protocol not supported''))"

fun attachment_kind :: "AriesMessage \<Rightarrow> AttachmentId option" where
  "attachment_kind (AM_PresentProof (PP_RequestPresentation _)) = Some Aid_PresentationRequest"
| "attachment_kind (AM_CredentialIssuance (CI_OfferCredential _)) = Some Aid_CredentialOffer"
| "attachment_kind _ = None"

definition OutOfBandSender_append_a2a_message ::
    "codec_env \<Rightarrow> lib \<Rightarrow> OutOfBandSender \<Rightarrow> AriesMessage \<Rightarrow> OutOfBandSender vcx_result" where
  "OutOfBandSender_append_a2a_message e lib self msg =
     (case attachment_kind msg of
        None \<Rightarrow> Inl (AriesVcxError_from_msg InvalidMessageFormat ''Appended message type {:?} is not allowed.'')
      | Some attach_id \<Rightarrow>
          let attach = lib_json_print lib (AriesMessage_serialize e msg)
          in Inr (oos_content_update (\<lambda>c. c\<lparr>oob_requests_attach :=
               Some (unwrap_or (oob_requests_attach c) []
                     @ [make_attach_from_str (lib_b64enc lib) attach (AttachmentId_as_ref attach_id)])\<rparr>) self))"

definition OutOfBandSender_to_aries_message :: "OutOfBandSender \<Rightarrow> AriesMessage" where
  "OutOfBandSender_to_aries_message self = AM_OutOfBand (O_Invitation (oos_oob self))"

definition OutOfBandSender_to_string :: "codec_env \<Rightarrow> lib \<Rightarrow> OutOfBandSender \<Rightarrow> string" where
  "OutOfBandSender_to_string e lib self =
     lib_json_print lib (AriesMessage_serialize e (AM_OutOfBand (O_Invitation (oos_oob self))))"

definition oob_from_str :: "codec_env \<Rightarrow> lib \<Rightarrow> string \<Rightarrow> OobInvitation vcx_result" where
  "oob_from_str e lib oob_data =
     ok_or (Option.bind (lib_json_parse lib oob_data) (OobInvitation_from e)) json_error"

definition OutOfBandSender_from_string :: "codec_env \<Rightarrow> lib \<Rightarrow> string \<Rightarrow> OutOfBandSender vcx_result" where
  "OutOfBandSender_from_string e lib oob_data = res_bind (oob_from_str e lib oob_data) (\<lambda>oob. Inr \<lparr>oos_oob = oob\<rparr>)"

subsection \<open>The receiver\<close>

record OutOfBandReceiver =
  oor_oob :: OobInvitation

definition OutOfBandReceiver_create_from_a2a_msg :: "AriesMessage \<Rightarrow> OutOfBandReceiver vcx_result" where
  "OutOfBandReceiver_create_from_a2a_msg msg = (case msg of
     AM_OutOfBand (O_Invitation oob) \<Rightarrow> Inr \<lparr>oor_oob = oob\<rparr>
   | _ \<Rightarrow> Inl (AriesVcxError_from_msg InvalidMessageFormat
       ''Expected OutOfBandInvitation message to create OutOfBandReceiver, but received message of unknown type: {:?}''))"

definition OutOfBandReceiver_get_id :: "OutOfBandReceiver \<Rightarrow> string" where
  "OutOfBandReceiver_get_id self = msg_id (oor_oob self)"

text \<open>The two loops of \<open>connection_exists\<close>; a connection without a bootstrap document ends the inner one.\<close>

fun connections_of_service ::
    "'w conn_env \<Rightarrow> OobService \<Rightarrow> MediatedConnection list \<Rightarrow> ('w, MediatedConnection option) vcx" where
  "connections_of_service env service [] = vret None"
| "connections_of_service env service (connection # connections) =
     (case MediatedConnection_bootstrap_did_doc connection of
        None \<Rightarrow> vret None
      | Some did_doc \<Rightarrow>
          if service = Oob_Did (dd_id did_doc) then vret (Some connection)
          else
            vbind (vlift (from_diddoc (AriesDidDoc_get_service (lib_bs58 (ce_lib env)) did_doc))) (\<lambda>own.
            vbind (resolve_service env service) (\<lambda>resolved.
              if AriesService_eq own resolved then vret (Some connection)
              else connections_of_service env service connections)))"

fun services_loop ::
    "(OobService \<Rightarrow> ('w, 'c option) vcx) \<Rightarrow> OobService list \<Rightarrow> ('w, 'c option) vcx" where
  "services_loop look [] = vret None"
| "services_loop look (service # services) =
     vbind (look service) (\<lambda>r. case r of Some c \<Rightarrow> vret (Some c) | None \<Rightarrow> services_loop look services)"

definition OutOfBandReceiver_connection_exists ::
    "'w conn_env \<Rightarrow> OutOfBandReceiver \<Rightarrow> MediatedConnection list \<Rightarrow> ('w, MediatedConnection option) vcx" where
  "OutOfBandReceiver_connection_exists env self connections =
     services_loop (\<lambda>service. connections_of_service env service connections)
       (oob_services (msg_content (oor_oob self)))"

definition did_doc_matches_service_did :: "OobService \<Rightarrow> AriesDidDoc \<Rightarrow> bool" where
  "did_doc_matches_service_did service did_doc =
     (case service of Oob_Did did \<Rightarrow> did = dd_id did_doc | _ \<Rightarrow> False)"

definition did_doc_matches_resolved_service ::
    "'w conn_env \<Rightarrow> OobService \<Rightarrow> AriesDidDoc \<Rightarrow> ('w, bool) vcx" where
  "did_doc_matches_resolved_service env service did_doc =
     vbind (vlift (from_diddoc (AriesDidDoc_get_service (lib_bs58 (ce_lib env)) did_doc))) (\<lambda>did_doc_service.
     vbind (resolve_service env service) (\<lambda>oob_service.
       vret (AriesService_eq did_doc_service oob_service)))"

definition did_doc_matches_service :: "'w conn_env \<Rightarrow> OobService \<Rightarrow> AriesDidDoc \<Rightarrow> ('w, bool) vcx" where
  "did_doc_matches_service env service did_doc =
     (if did_doc_matches_service_did service did_doc then vret True
      else vbind (vtry (did_doc_matches_resolved_service env service did_doc)) (\<lambda>r.
             vret (case r of Inr b \<Rightarrow> b | Inl _ \<Rightarrow> False)))"

definition connection_matches_service ::
    "'w conn_env \<Rightarrow> GenericConnection \<Rightarrow> OobService \<Rightarrow> ('w, bool) vcx" where
  "connection_matches_service env connection service =
     (case GenericConnection_bootstrap_did_doc connection of
        None \<Rightarrow> vret False
      | Some did_doc \<Rightarrow> did_doc_matches_service env service did_doc)"

fun generic_connections_of_service ::
    "'w conn_env \<Rightarrow> OobService \<Rightarrow> ('t \<times> GenericConnection) list \<Rightarrow> ('w, 't option) vcx" where
  "generic_connections_of_service env service [] = vret None"
| "generic_connections_of_service env service ((idx, connection) # connections) =
     vbind (connection_matches_service env connection service) (\<lambda>matches.
       if matches then vret (Some idx) else generic_connections_of_service env service connections)"

definition OutOfBandReceiver_nonmediated_connection_exists ::
    "'w conn_env \<Rightarrow> OutOfBandReceiver \<Rightarrow> ('t \<times> GenericConnection) list \<Rightarrow> ('w, 't option) vcx" where
  "OutOfBandReceiver_nonmediated_connection_exists env self connections =
     services_loop (\<lambda>service. generic_connections_of_service env service connections)
       (oob_services (msg_content (oor_oob self)))"

definition AttachmentId_names :: "(string \<times> AttachmentId) list" where
  "AttachmentId_names = map (\<lambda>a. (AttachmentId_as_ref a, a))
     [Aid_CredentialOffer, Aid_CredentialRequest, Aid_Credential, Aid_PresentationRequest, Aid_Presentation]"

definition attach_id_error :: vcx_error where
  "attach_id_error = AriesVcxError_from_msg SerializationError ''Failed to deserialize attachment ID: {}''"

definition attach_message_error :: vcx_error where
  "attach_message_error = AriesVcxError_from_msg SerializationError ''Failed to deserialize attachment: {attach_json:?}''"

text \<open>The thread of the invitation becomes the parent of an optional thread, or of a new one.\<close>

definition opt_child_of :: "string \<Rightarrow> string \<Rightarrow> opt_decorators \<Rightarrow> opt_decorators" where
  "opt_child_of parent i d = (case od_thread d of
     Some thread \<Rightarrow> d\<lparr>od_thread := Some (thread\<lparr>pthid := Some parent\<rparr>)\<rparr>
   | None \<Rightarrow> d\<lparr>od_thread := Some ((Thread_new i)\<lparr>pthid := Some parent\<rparr>)\<rparr>)"

definition ack_child_of :: "string \<Rightarrow> ack_decorators \<Rightarrow> ack_decorators" where
  "ack_child_of parent d = d\<lparr>kd_thread := (kd_thread d)\<lparr>pthid := Some parent\<rparr>\<rparr>"

definition extracted_message :: "codec_env \<Rightarrow> string \<Rightarrow> json \<Rightarrow> AttachmentId \<Rightarrow> AriesMessage option" where
  "extracted_message e parent attach_json attach_id = (case attach_id of
     Aid_CredentialOffer \<Rightarrow>
       map_option (\<lambda>m. AM_CredentialIssuance (CI_OfferCredential
         (m\<lparr>msg_decorators := opt_child_of parent (msg_id m) (msg_decorators m)\<rparr>))) (OfferCredential_from e attach_json)
   | Aid_CredentialRequest \<Rightarrow>
       map_option (\<lambda>m. AM_CredentialIssuance (CI_RequestCredential
         (m\<lparr>msg_decorators := opt_child_of parent (msg_id m) (msg_decorators m)\<rparr>))) (RequestCredential_from e attach_json)
   | Aid_Credential \<Rightarrow>
       map_option (\<lambda>m. AM_CredentialIssuance (CI_IssueCredential
         (m\<lparr>msg_decorators := ack_child_of parent (msg_decorators m)\<rparr>))) (IssueCredential_from e attach_json)
   | Aid_PresentationRequest \<Rightarrow>
       map_option (\<lambda>m. AM_PresentProof (PP_RequestPresentation m)) (RequestPresentation_from e attach_json)
   | Aid_Presentation \<Rightarrow>
       map_option (\<lambda>m. AM_PresentProof (PP_Presentation
         (m\<lparr>msg_decorators := ack_child_of parent (msg_decorators m)\<rparr>))) (Presentation_from e attach_json))"

definition attached_json :: "lib \<Rightarrow> Attachment \<Rightarrow> json vcx_result" where
  "attached_json lib attach = (case ad_content (att_data attach) of
     Base64 encoded_attach \<Rightarrow>
       ok_or (Option.bind (lib_b64dec lib encoded_attach) (lib_json_parse lib)) attach_not_b64
   | _ \<Rightarrow> Inl attach_not_b64)"

definition OutOfBandReceiver_extract_a2a_message ::
    "codec_env \<Rightarrow> lib \<Rightarrow> OutOfBandReceiver \<Rightarrow> AriesMessage option vcx_result" where
  "OutOfBandReceiver_extract_a2a_message e lib self =
     (case Option.bind (oob_requests_attach (msg_content (oor_oob self))) (\<lambda>v. list_get v 0) of
        None \<Rightarrow> Inr None
      | Some attach \<Rightarrow>
          res_bind (attached_json lib attach) (\<lambda>attach_json.
            (case att_id attach of
               None \<Rightarrow> Inr None
             | Some attach_id \<Rightarrow>
                 res_bind (ok_or (kind_from_str AttachmentId_names attach_id) attach_id_error) (\<lambda>attach_id.
                   res_bind (ok_or (extracted_message e (msg_id (oor_oob self)) attach_json attach_id) attach_message_error)
                     (\<lambda>m. Inr (Some m))))))"

definition OutOfBandReceiver_build_connection ::
    "'w conn_env \<Rightarrow> 'w agency_client \<Rightarrow> OutOfBandReceiver \<Rightarrow> AriesDidDoc \<Rightarrow> bool \<Rightarrow> ('w, MediatedConnection) vcx" where
  "OutOfBandReceiver_build_connection env ag self did_doc autohop_enabled =
     MediatedConnection_create_with_invite env ag (msg_id (oor_oob self)) (Inv_Oob (oor_oob self)) did_doc autohop_enabled"

definition OutOfBandReceiver_to_aries_message :: "OutOfBandReceiver \<Rightarrow> AriesMessage" where
  "OutOfBandReceiver_to_aries_message self = AM_OutOfBand (O_Invitation (oor_oob self))"

definition OutOfBandReceiver_to_string :: "codec_env \<Rightarrow> lib \<Rightarrow> OutOfBandReceiver \<Rightarrow> string" where
  "OutOfBandReceiver_to_string e lib self =
     lib_json_print lib (AriesMessage_serialize e (AM_OutOfBand (O_Invitation (oor_oob self))))"

definition OutOfBandReceiver_from_string :: "codec_env \<Rightarrow> lib \<Rightarrow> string \<Rightarrow> OutOfBandReceiver vcx_result" where
  "OutOfBandReceiver_from_string e lib oob_data = res_bind (oob_from_str e lib oob_data) (\<lambda>oob. Inr \<lparr>oor_oob = oob\<rparr>)"

subsection \<open>The attached message arrives\<close>

interpretation attachment_ids: name_table AttachmentId_names
  by unfold_locales (auto simp: AttachmentId_names_def intro: AttachmentId.exhaust)

lemma attachment_id_read: "kind_from_str AttachmentId_names (AttachmentId_as_ref a) = Some a"
  by (cases a) (simp_all add: kind_from_str_def AttachmentId_names_def)

text \<open>What the texts of the two libraries promise: base64 and JSON texts are read back.\<close>

definition texts_read :: "lib \<Rightarrow> bool" where
  "texts_read lib = ((\<forall>s. lib_b64dec lib (lib_b64enc lib s) = Some s)
     \<and> (\<forall>v. lib_json_parse lib (lib_json_print lib v) = Some v))"

text \<open>The message as the receiver gets it: an offer below the thread of the invitation, a request unchanged.\<close>

fun arrived :: "string \<Rightarrow> AriesMessage \<Rightarrow> AriesMessage" where
  "arrived parent (AM_CredentialIssuance (CI_OfferCredential m)) =
     AM_CredentialIssuance (CI_OfferCredential (m\<lparr>msg_decorators := opt_child_of parent (msg_id m) (msg_decorators m)\<rparr>))"
| "arrived parent m = m"

lemma sent_attachment_read:
  assumes "texts_read lib" "attachment_kind m = Some k"
  shows "attached_json lib (make_attach_from_str (lib_b64enc lib) (lib_json_print lib (AriesMessage_serialize e m)) i)
    = Inr (AriesMessage_serialize e m)"
  using assms by (simp add: attached_json_def make_attach_from_str_def AttachmentData_new_def Attachment_new_def texts_read_def)

lemma attached_message_extracted:
  assumes "AriesMessage_ok e m" "attachment_kind m = Some k"
  shows "extracted_message e parent (AriesMessage_serialize e m) k = Some (arrived parent m)"
proof (cases m)
  case (AM_CredentialIssuance i)
  then show ?thesis
    using assms by (cases i) (auto simp: extracted_message_def AriesMessage_serialize_def CredentialIssuance_serialize_def typed_reads)
next
  case (AM_PresentProof p)
  then show ?thesis
    using assms by (cases p) (auto simp: extracted_message_def AriesMessage_serialize_def PresentProof_serialize_def typed_reads)
qed (use assms in simp_all)

lemma make_attach_ok: "Attachment_ok e (make_attach_from_str enc s i)"
  by (simp add: Attachment_ok_def make_attach_from_str_def Attachment_new_def AttachmentData_new_def)

lemma oob_text_read:
  assumes "texts_read lib" "OobInvitation_ok e oob"
  shows "oob_from_str e lib (lib_json_print lib (AriesMessage_serialize e (AM_OutOfBand (O_Invitation oob)))) = Inr oob"
  using assms by (simp add: oob_from_str_def texts_read_def AriesMessage_serialize_def OutOfBand_serialize_def typed_reads)

lemma appendable_kinds:
  "(\<exists>sender'. OutOfBandSender_append_a2a_message e lib sender m = Inr sender') \<longleftrightarrow> attachment_kind m \<noteq> None"
  by (auto simp: OutOfBandSender_append_a2a_message_def Let_def split: option.splits)

lemma appended_message_read:
  assumes "texts_read lib" "AriesMessage_ok e m" "OobInvitation_ok e (oos_oob sender)"
    and "oob_requests_attach (msg_content (oos_oob sender)) = None"
    and "OutOfBandSender_append_a2a_message e lib sender m = Inr sender'"
  shows "\<exists>receiver. OutOfBandReceiver_from_string e lib (OutOfBandSender_to_string e lib sender') = Inr receiver
        \<and> OutOfBandReceiver_get_id receiver = OutOfBandSender_get_id sender
        \<and> OutOfBandReceiver_extract_a2a_message e lib receiver = Inr (Some (arrived (OutOfBandSender_get_id sender) m))"
proof -
  obtain k where k: "attachment_kind m = Some k"
    and s': "sender' = oos_content_update (\<lambda>c. c\<lparr>oob_requests_attach := Some
        [make_attach_from_str (lib_b64enc lib) (lib_json_print lib (AriesMessage_serialize e m)) (AttachmentId_as_ref k)]\<rparr>) sender"
    using assms(4,5) by (auto simp: OutOfBandSender_append_a2a_message_def Let_def oos_content_update_def split: option.splits)
  let ?oob = "oos_oob sender'"
  have "OobInvitation_ok e ?oob"
    using assms(3) unfolding s'
    by (simp add: OobInvitation_ok_def MsgParts_ok_def OobInvitationContent_ok_def oos_content_update_def make_attach_ok)
  then have "OutOfBandReceiver_from_string e lib (OutOfBandSender_to_string e lib sender') = Inr \<lparr>oor_oob = ?oob\<rparr>"
    by (simp add: OutOfBandReceiver_from_string_def OutOfBandSender_to_string_def oob_text_read [OF assms(1)])
  moreover have "OutOfBandReceiver_extract_a2a_message e lib \<lparr>oor_oob = ?oob\<rparr>
      = Inr (Some (arrived (OutOfBandSender_get_id sender) m))"
    using sent_attachment_read [OF assms(1) k] attached_message_extracted [OF assms(2) k]
    by (simp add: s' OutOfBandReceiver_extract_a2a_message_def oos_content_update_def OutOfBandSender_get_id_def
        make_attach_from_str_def Attachment_new_def attachment_id_read Let_def)
  ultimately show ?thesis
    by (auto simp: OutOfBandReceiver_get_id_def OutOfBandSender_get_id_def s' oos_content_update_def)
qed


subsection \<open>Looking for a connection\<close>

lemma services_loop_cong: "(\<And>service. look service = look' service) \<Longrightarrow> services_loop look services = services_loop look' services"
  by (induction services) simp_all

lemma connections_of_service_prefix:
  "connections_of_service env service (takeWhile (\<lambda>c. MediatedConnection_bootstrap_did_doc c \<noteq> None) connections) =
     connections_of_service env service connections"
  by (induction connections) (simp_all split: option.splits cong: if_cong)

text \<open>
  The lookup over mediated connections only considers the connections in front of the first one
  without a bootstrap document: what follows it in the list has no influence on the result.
\<close>

theorem mediated_lookup_stops:
  "OutOfBandReceiver_connection_exists env self connections =
     OutOfBandReceiver_connection_exists env self
       (takeWhile (\<lambda>c. MediatedConnection_bootstrap_did_doc c \<noteq> None) connections)"
  unfolding OutOfBandReceiver_connection_exists_def
  by (rule services_loop_cong) (rule connections_of_service_prefix [symmetric])

text \<open>When a connection matches a service, given what the services resolve to.\<close>

definition service_matches ::
    "'w conn_env \<Rightarrow> (OobService \<Rightarrow> AriesService vcx_result) \<Rightarrow> OobService \<Rightarrow> GenericConnection \<Rightarrow> bool" where
  "service_matches env resolved service connection =
     (case GenericConnection_bootstrap_did_doc connection of
        None \<Rightarrow> False
      | Some did_doc \<Rightarrow> service = Oob_Did (dd_id did_doc)
          \<or> (\<exists>own oob. AriesDidDoc_get_service (lib_bs58 (ce_lib env)) did_doc = Inr own \<and> resolved service = Inr oob
               \<and> AriesService_eq own oob))"

lemma connection_match_run:
  assumes "\<And>s. \<exists>s'. resolve_service env service s = (resolved service, s')"
  shows "\<exists>s'. connection_matches_service env connection service s = (Inr (service_matches env resolved service connection), s')"
proof (cases "GenericConnection_bootstrap_did_doc connection")
  case None
  then show ?thesis by (simp add: connection_matches_service_def service_matches_def run_simps)
next
  case (Some did_doc)
  show ?thesis
  proof (cases "did_doc_matches_service_did service did_doc")
    case True
    then show ?thesis
      using Some by (auto simp: connection_matches_service_def did_doc_matches_service_def service_matches_def
          did_doc_matches_service_did_def run_simps split: OobService.splits)
  next
    case False
    obtain s' where r: "resolve_service env service s = (resolved service, s')" using assms by blast
    from False have "service \<noteq> Oob_Did (dd_id did_doc)" by (auto simp: did_doc_matches_service_did_def)
    then show ?thesis
      using Some False r
      by (cases "AriesDidDoc_get_service (lib_bs58 (ce_lib env)) did_doc"; cases "resolved service")
         (auto simp: connection_matches_service_def did_doc_matches_service_def service_matches_def
            did_doc_matches_resolved_service_def from_diddoc_def vbind_def vtry_def run_simps)
  qed
qed

lemma generic_connections_run:
  assumes "\<And>s. \<exists>s'. resolve_service env service s = (resolved service, s')"
  shows "\<exists>s'. generic_connections_of_service env service connections s =
    (Inr (map_option fst (find (\<lambda>(_, c). service_matches env resolved service c) connections)), s')"
proof (induction connections arbitrary: s)
  case (Cons ic connections)
  obtain i c where ic: "ic = (i, c)" by (cases ic)
  obtain s1 where "connection_matches_service env c service s = (Inr (service_matches env resolved service c), s1)"
    using connection_match_run [of env service resolved c s] assms by blast
  then show ?case using Cons.IH [of s1] by (auto simp: ic vbind_run run_simps)
qed (simp add: run_simps)

text \<open>
  If the services of the invitation resolve to the same results at every call, the lookup over
  non-mediated connections never fails and returns exactly the first match, in the order of the services
  and for each service in the order of the connections: a connection whose bootstrap document is for the
  DID of the service or has the keys that the service resolves to. It returns none only if there is none.
\<close>

theorem generic_lookup_finds_first_match:
  assumes "\<forall>service \<in> set (oob_services (msg_content (oor_oob self))).
      \<forall>s. \<exists>s'. resolve_service env service s = (resolved service, s')"
  shows "\<exists>s'. OutOfBandReceiver_nonmediated_connection_exists env self connections s =
    (Inr (map_option (fst \<circ> snd) (find (\<lambda>(service, _, c). service_matches env resolved service c)
       (List.product (oob_services (msg_content (oor_oob self))) connections))), s')"
proof -
  have "\<exists>s'. services_loop (\<lambda>service. generic_connections_of_service env service connections) services s =
      (Inr (map_option (fst \<circ> snd) (find (\<lambda>(service, _, c). service_matches env resolved service c)
         (List.product services connections))), s')"
    if "\<forall>service \<in> set services. \<forall>s. \<exists>s'. resolve_service env service s = (resolved service, s')" for services s
    using that
  proof (induction services arbitrary: s)
    case (Cons service services)
    let ?P = "\<lambda>(service, _, c). service_matches env resolved service c"
    obtain s1 where s1: "generic_connections_of_service env service connections s =
        (Inr (map_option fst (find (\<lambda>(_, c). service_matches env resolved service c) connections)), s1)"
      using generic_connections_run [of env service resolved connections s] Cons.prems by auto
    have f: "find ?P (map (Pair service) connections) =
        map_option (Pair service) (find (\<lambda>(_, c). service_matches env resolved service c) connections)"
      by (induction connections) auto
    have app: "find ?P (xs @ ys) = (case find ?P xs of None \<Rightarrow> find ?P ys | Some x \<Rightarrow> Some x)"
      for xs ys :: "(OobService \<times> 'b \<times> GenericConnection) list"
      by (induction xs) auto
    show ?case
      using s1 Cons.IH [of s1] Cons.prems
      by (cases "find (\<lambda>(_, c). service_matches env resolved service c) connections")
         (auto simp: vbind_run run_simps f app)
  qed (simp add: run_simps)
  then show ?thesis using assms unfolding OutOfBandReceiver_nonmediated_connection_exists_def by blast
qed

subsection \<open>Concrete invitations\<close>

definition demo_texts :: lib where
  "demo_texts = ce_lib (demo_conn :: unit conn_env)"

definition demo_oob_sender :: OutOfBandSender where
  "demo_oob_sender = \<lparr>oos_oob = MsgParts_with_decorators ''inv1''
     (OobInvitationContent_new [Oob_Did ''did1'']) \<lparr>md_timing = None\<rparr>\<rparr>"

definition demo_offer :: OfferCredential where
  "demo_offer = MsgParts_with_decorators ''offer1'' (OfferCredentialContent_new (CredentialPreview_new []) []) opt_decorators_default"


definition demo_known :: GenericConnection where
  "demo_known = \<lparr>gcn_source_id = ''known'', gcn_pairwise_info = \<lparr>pw_did = ''d'', pw_vk = ''v''\<rparr>,
     gcn_state = G_Invitee (GVee_Requested \<lparr>teq_did_doc = built_did_doc ''did1'' [''k''] [] ''http://a'', teq_thread_id = ''t''\<rparr>)\<rparr>"

definition demo_fresh :: GenericConnection where
  "demo_fresh = demo_known\<lparr>gcn_state := G_Invitee (GVee_Initial TeeInitial)\<rparr>"

lemma demo_service:
  "\<exists>own. AriesDidDoc_get_service (lib_bs58 (ce_lib (demo_conn :: unit conn_env))) (built_did_doc did [k] rts ep) = Inr own
     \<and> svc_recipient_keys own = [k] \<and> svc_routing_keys own = rts"
proof -
  have "recipient_keys_of (demo_conn :: unit conn_env) (built_did_doc did [k] rts ep) = Inr [k]"
    by (rule demo_keys_valid)
  then have "AriesDidDoc_recipient_keys (lib_bs58 (ce_lib (demo_conn :: unit conn_env))) (built_did_doc did [k] rts ep) = Inr [k]"
    by (simp add: recipient_keys_of_def from_diddoc_def map_err_Inr_iff)
  then show ?thesis
    by (simp add: AriesDidDoc_get_service_def built_did_doc_closed list_get_def AriesDidDoc_routing_keys_def)
qed

theorem generic_lookup_finds_first_match_witness:
  "\<exists>s'. OutOfBandReceiver_nonmediated_connection_exists (demo_conn :: unit conn_env)
      \<lparr>oor_oob = MsgParts_with_decorators ''inv1'' (OobInvitationContent_new
        [Oob_AriesService (AriesService_set_recipient_keys AriesService_create [''k''])]) \<lparr>md_timing = None\<rparr>\<rparr>
      [(0 :: nat, demo_fresh), (1, demo_known)] demo_runtime = (Inr (Some 1), s')"
proof -
  let ?svc = "Oob_AriesService (AriesService_set_recipient_keys AriesService_create [''k''])"
  let ?r = "\<lparr>oor_oob = MsgParts_with_decorators ''inv1'' (OobInvitationContent_new [?svc]) \<lparr>md_timing = None\<rparr>\<rparr>"
  let ?res = "\<lambda>s. case s of Oob_AriesService a \<Rightarrow> Inr a | Oob_Did _ \<Rightarrow> Inl json_error"
  have "\<forall>service \<in> set (oob_services (msg_content (oor_oob ?r))). \<forall>s :: unit runtime.
      \<exists>s'. resolve_service demo_conn service s = (?res service, s')"
    by (simp add: MsgParts_with_decorators_def OobInvitationContent_new_def resolve_service_def run_simps)
  note found = generic_lookup_finds_first_match [OF this, of "[(0 :: nat, demo_fresh), (1, demo_known)]" demo_runtime]
  have "\<not> service_matches (demo_conn :: unit conn_env) ?res ?svc demo_fresh"
    by (simp add: service_matches_def demo_fresh_def GenericConnection_bootstrap_did_doc_def)
  moreover have "service_matches (demo_conn :: unit conn_env) ?res ?svc demo_known"
    using demo_service [of "''did1''" "''k''" "[]" "''http://a''"]
    by (auto simp: service_matches_def demo_known_def GenericConnection_bootstrap_did_doc_def AriesService_eq_def
        AriesService_set_recipient_keys_def AriesService_create_def AriesService_default_def)
  ultimately show ?thesis
    using found by (simp add: MsgParts_with_decorators_def OobInvitationContent_new_def del: One_nat_def)
qed

end
