(* ===== verification/Spec2Isabelle.thy ===== *)
theory Spec2Isabelle
  imports Revocation_Notice Prover Verifier Pool_Guarantees Wallet_Query Anoncreds_Verifier
    Out_Of_Band
begin

text \<open>
  A verification of aries-vcx: the Aries protocols of \<open>aries_vcx\<close>, the messages they exchange, the connections
  that carry them, and the parts of \<open>libvdrtools\<close> whose answers they trust, the reading of the pool ledger, the
  checking of proofs and the search in the wallet. File names below are relative to \<open>src/\<close>.

  \<^bold>\<open>The program and its parts.\<close> Two agents connect: one sends an invitation, the other a request with its DID
  document, the first a signed response, and an ack or a ping completes the connection. Over a connection an
  issuer and a holder exchange a credential, a verifier and a prover a presentation, and a revocation is
  notified. A handler owns a state machine; it hands each received message to the machine, and the machine calls
  the wallet, the anoncreds library or the ledger, sends an answer through a closure that packs it for the
  receiver, and moves to its next state. What is read from the ledger comes from a pool of nodes of which up
  to \<open>f\<close> may be faulty: a request is settled by equal answers of more than \<open>f\<close> nodes, or by one answer with a
  state proof, and the list of nodes itself is kept up to date by the catch-up over a Merkle tree.

  \<^bold>\<open>Shared vocabulary.\<close>

  \<^item> \<open>Prelude\<close>: \<open>Result\<close> as a sum with \<open>res_bind\<close> for \<open>?\<close>, JSON values, lists as maps, decimal and hexadecimal
    texts; the lemma collections of the development.
  \<^item> \<open>Errors\<close>: the error types of \<open>aries_vcx/src/errors\<close>, \<open>diddoc\<close> and \<open>shared_vcx\<close>.
  \<^item> \<open>Runtime\<close>: the effects. An operation is a function from a \<open>runtime\<close> (mock switches, the supply of fresh
    ids and clock readings, the outside world, and a log of the messages that the transport accepted) to a result and a new \<open>runtime\<close>, composed by \<open>vbind\<close>.
    That a message was sent is a statement about the log, which no operation reads. Libraries that the code calls
    are records of functions passed to the operations: \<open>lib\<close> (JSON texts, SHA-256, base64, number formats),
    \<open>profile\<close> (\<open>BaseAnonCreds\<close> and the ledger traits), \<open>conn_env\<close> (wallet keys, packing, signing, the mediator).
    Hypotheses about them are named definitions such as \<open>opens\<close>, \<open>json_agree\<close> or \<open>collision_free\<close>, and each
    property that has one has a witness with concrete functions.
  \<^item> \<open>Util\<close>: \<open>handlers/util.rs\<close> and \<open>protocols/common.rs\<close>, with the thread check over all message kinds.

  \<^bold>\<open>Messages\<close> (\<open>messages\<close>, \<open>messages_macros\<close>).

  \<^item> \<open>Messages\<close>: the datatypes of all protocols and decorators, and \<open>MsgParts\<close>.
  \<^item> \<open>Message_Types\<close>: protocols, kinds, the registry built by the derive macro, the resolution of versions, the
    reading and writing of the \<open>@type\<close>. Shown: the texts are read back; exactly the versions with a registered
    minor version not above the requested one are accepted, and which one is chosen.
  \<^item> \<open>Message_Codec\<close>, \<open>Message_Json\<close>: the serde code. The locale \<open>json_codec\<close> is what a pair of \<open>serialize\<close> and
    \<open>deserialize\<close> promises, \<open>fields_codec\<close> the same for a struct that is flattened into another, \<open>message_codec\<close>
    the composition of id, content and decorators; each is interpreted for every type of the crate. Shown: every
    message is read back from its JSON, and a JSON value is read only as a message of the kind its \<open>@type\<close> names.

  \<^bold>\<open>Credential exchange\<close> (\<open>aries_vcx/src/protocols\<close>, \<open>handlers\<close>, \<open>common\<close>).

  \<^item> \<open>Machines\<close>: the interfaces that the four machines share, as locales (a finished machine does not move, the
    thread id does not change, a handler's router finds exactly the messages the machine accepts).
  \<^item> \<open>Issuance\<close>, \<open>Issuer\<close>, \<open>Holder\<close>: \<open>protocols/issuance\<close> and the two handlers. Shown: the invariants that tie the
    status to the log (success means that the credential was sent, or stored), refinement of an abstract
    protocol, the behaviour on foreign threads and on problem reports.
  \<^item> \<open>Proof_Request\<close>, \<open>Indy_Proofs\<close>, \<open>Prover\<close>, \<open>Verifier\<close>: \<open>common/proofs\<close>, \<open>protocols/proof_presentation\<close> and the
    handlers. Shown: a verifier reports Valid only for a presentation that the validation accepted; a failed
    verification is reported; a prover that succeeded has presented.
  \<^item> \<open>Credentials\<close>: encoding of values (\<open>utils/openssl.rs\<close>, \<open>common/credentials\<close>), revocation deltas. Shown: what the
    issuer encodes passes the check of the verifier.
  \<^item> \<open>Revocation_Notice\<close>: sender and receiver of revocation notifications.

  \<^bold>\<open>Connections.\<close>

  \<^item> \<open>DidDoc\<close>: \<open>diddoc/src/aries\<close>, with the validation of keys.
  \<^item> \<open>Envelope\<close>: \<open>utils/encryption_envelope.rs\<close>, \<open>common/signing.rs\<close>, pairwise keys. \<open>Ledger_Service\<close>: services and
    keys on the ledger and the DID document of an invitation (\<open>common/ledger\<close>, \<open>common/keys.rs\<close>).
  \<^item> \<open>Mediated_Connection\<close>: the two machines of \<open>protocols/mediated_connection\<close>; \<open>Connection_Handler\<close>: the handler and
    its agent at the mediator (\<open>handlers/connection\<close>, parts of \<open>agency_client\<close>). Shown: a completed connection of an
    invitee holds a document signed with the key of the invitation; downloaded messages were unpacked as sent
    by the counterparty; over a working transport the handshake completes on both sides.
  \<^item> \<open>Connection_Typestate\<close>: \<open>protocols/connection\<close>, where the state is a type parameter. The type is a record over
    the state's type, so that a transition of the wrong state has no meaning in the model either. The locale
    \<open>connection_variant\<close> is the conversion to and from the generic connection.
  \<^item> \<open>Small_Protocols\<close>: trust ping, discovery, handshake reuse. \<open>Out_Of_Band\<close>: \<open>handlers/out_of_band\<close>, sender and
    receiver, on top of the message codec and both kinds of connections.
  \<^item> This theory: the composition of codec, envelope and routing agents (\<open>message_delivered\<close>).

  \<^bold>\<open>The ledger, proofs and wallet of libvdrtools.\<close>

  \<^item> \<open>Merkle_Tree\<close> (\<open>services/ledger/merkletree\<close>): the tree, its proofs of inclusion and consistency. \<open>Pool_Cache\<close>
    (\<open>merkle_tree_factory.rs\<close>), \<open>Pool_Catchup\<close> (\<open>catchup.rs\<close>), \<open>Pool_Requests\<close> (\<open>request_handler.rs\<close>). Shown: soundness
    and completeness of the proofs, what a settled request or a catch-up target is backed by, that requests end
    and that each command is answered once.
  \<^item> \<open>State_Trie\<close>, \<open>State_Proof\<close> (\<open>services/pool/state_proof\<close>): the Patricia trie and the check of replies. Shown: an
    accepted value is one of every ledger with the signed root.
  \<^item> \<open>Pool_Events\<close> (\<open>types.rs\<close>, \<open>events.rs\<close>, \<open>commander.rs\<close>, \<open>_send_msg\<close> of \<open>mod.rs\<close>, \<open>build_node_state\<close> of
    \<open>merkle_tree_factory.rs\<close>): node transactions, messages of the nodes, commands. \<open>Pool_Machine\<close> (\<open>pool.rs\<close>): the state
    machine of a pool and the loop of its thread, on top of the request machine, the catch-up, the cache and the
    state proofs. \<open>Pool_Safety\<close>: its invariant, by rule induction over \<open>pool_reach\<close>. \<open>Pool_Guarantees\<close>: over every
    sequence of events each positive answer was asked for and is backed by the nodes of the pool's ledger, that
    ledger is a prefix of one that \<open>f + 1\<close> nodes reported, the documented transitions are followed, and closing
    settles every command of a request under way; and the commands that are never answered.
  \<^item> \<open>Wql\<close> (\<open>indy-utils/src/wql.rs\<close>), \<open>Wallet_Query\<close> (\<open>indy-wallet/src\<close>: \<open>language.rs\<close>, \<open>query_encryption.rs\<close>,
    \<open>storage/default/query.rs\<close>): queries, optimiser, the SQL text.
  \<^item> \<open>Anoncreds_Verifier\<close> (\<open>services/anoncreds/verifier.rs\<close>): the check of a proof against its request, with the
    cryptography of the CL library as a parameter.

  \<^bold>\<open>Loops, bounds and partiality.\<close> Loops over lists are structural recursions. A loop that need not end is a
  \<open>partial_function (option)\<close>: the computation of the turns of an audit path (it ends exactly for sizes from 1 to
  \<open>2\<^sup>6\<^sup>3\<close>) and the search in the trie, whose nodes come from a reply; no definition uses fuel. Panics are values:
  \<open>None\<close>, or an error of their own. \<open>usize\<close> and the lengths and indices whose overflow the code can reach are
  computed with their wrap-around; the integers of messages are words of the width of the source. Strings are
  lists of characters, JSON texts are related to JSON values by the parser and the printer of \<open>lib\<close>. A
  \<open>HashMap\<close> is an association list in the order of its iteration where the code iterates it. \<open>collision_free\<close>
  says that no digest of 32 bytes is returned for two inputs; the hash may fail, so it holds of a concrete function.

  \<^bold>\<open>Not modelled.\<close> The pool's \<open>networker.rs\<close> and the polling of \<open>pool.rs\<close> are sockets and timers: the events that
  they deliver are arbitrary here, and what the networker is asked to do are the effects of a step. The controllers of \<open>libvdrtools\<close> and \<open>aries_vcx_core\<close> forward to services and traits that are
  parameters here. The anoncreds prover and issuer services, wallet encryption and packing are the cryptography
  of ursa and sodium; the storage back ends, export and import are database and file access. The request
  builders of \<open>services/ledger\<close> fill in JSON templates. The resolvers of DIDs are HTTP and ledger clients, and no
  modelled part calls the DID parser. \<open>libvcx\<close>, \<open>libvcx_core\<close>, \<open>uniffi_aries_vcx\<close> and \<open>wrappers\<close> marshal objects to other
  languages; \<open>agents\<close> and \<open>tools\<close> are demonstrations. Of modelled files, accessors that return a field, log output, and the array form in which serde
  accepts a struct are left out. Threads of execution are not interleaved inside an operation: the code takes
  its objects by value or by exclusive reference, so the unit of interleaving is one operation, and the
  invariants quantify over every sequence of operations.
\<close>

section \<open>Messages, envelopes and wallets together\<close>

text \<open>What the libraries of two parties promise each other: the JSON text of one is read by the other.\<close>

definition json_agree :: "'w conn_env \<Rightarrow> 'w conn_env \<Rightarrow> bool" where
  "json_agree env env' = (\<forall>v. lib_json_parse (ce_lib env') (lib_json_print (ce_lib env) v) = Some v)"

text \<open>An agent for a routing key: its wallet opens what is packed for the key.\<close>

definition routes :: "'w conn_env \<Rightarrow> 'w conn_env \<Rightarrow> string \<Rightarrow> bool" where
  "routes env agent k = (opens env agent [k] \<and> no_mocks agent \<and> json_agree env agent)"

lemma with_codec_simps [simp]:
  "recipient_keys_of (with_codec e env) d = recipient_keys_of env d"
  "opens (with_codec e env) (with_codec e env') ks = opens env env' ks"
  "no_mocks (with_codec e env) = no_mocks env"
  "insensitive_to_layout (with_codec e env) (with_codec e a) (with_codec e b) = insensitive_to_layout env a b"
  by (simp_all add: with_codec_def recipient_keys_of_def opens_def no_mocks_def insensitive_to_layout_def keys_json_def)

lemma codec_agent: "routes env a k \<Longrightarrow> good_agent (with_codec e env) (with_codec e a) k"
  by (simp add: routes_def good_agent_def json_agree_def codec_reads_message Forward_ok_def MsgParts_ok_def)


subsection \<open>A concrete delivery\<close>

definition demo_party_env :: "unit conn_env" where
  "demo_party_env = with_codec demo_codec demo_conn"

lemma demo_party_wrap: "\<exists>q s'. wrap_loop demo_party_env (demo_text v) to ks s = (Inr q, s')"
proof (induction ks arbitrary: v to s)
  case (Cons k ks)
  obtain v' s1 where "wrap_into_forward demo_party_env (demo_text v) to k s = (Inr (demo_text v'), s1)"
    by (simp add: wrap_into_forward_def demo_party_env_def with_codec_def demo_conn_def vbind_def run_simps ok_or_def
        call_def Let_def)
  then show ?case using Cons.IH by (simp add: vbind_run)
qed (simp add: run_simps)

lemma demo_party_envelope:
  "\<exists>p s'. EncryptionEnvelope_create demo_party_env m (Some vk) (built_did_doc did (k # ks) rts ep) demo_runtime = (Inr p, s')"
proof -
  let ?doc = "built_did_doc did (k # ks) rts ep"
  have keys: "recipient_keys_of demo_party_env ?doc = Inr (k # ks)"
    by (simp add: demo_party_env_def demo_keys_valid)
  obtain v s1 where e: "encrypt_for_pairwise demo_party_env m (Some vk) ?doc demo_runtime = (Inr (demo_text v), s1)"
    by (simp add: encrypt_for_pairwise_def keys vbind_def run_simps call_def Let_def)
       (simp add: demo_party_env_def with_codec_def demo_conn_def)
  obtain q s2 where "wrap_loop demo_party_env (demo_text v) k rts s1 = (Inr q, s2)"
    using demo_party_wrap by blast
  then show ?thesis
    using e by (simp add: EncryptionEnvelope_create_def wrap_into_forward_messages_def keys vbind_def run_simps ok_or_def
        list_get_def demo_runtime_def)
qed


end
